(* ===== verification/Yak_Prelude.thy ===== *)
theory Yak_Prelude
  imports Main "HOL-Library.Word"
begin

text \<open>
  Shared vocabulary of the development: the machine types of the i386 port
  (\<^verbatim>\<open>sys/arch/i386/include/asm/types.h\<close>), the outcome of a kernel routine, C's
  truncating division, the error numbers of \<^verbatim>\<open>sys/include/generic/errno.h\<close>, and the
  generic lemmas on lists, words and outcomes that the component theories use.
\<close>

unbundle bit_operations_syntax

section \<open>Machine types\<close>

type_synonym u8 = "8 word"
type_synonym u16 = "16 word"
type_synonym u32 = "32 word"

section \<open>Outcomes of kernel routines\<close>

text \<open>
  A kernel routine either returns, or stops the machine or the calling process:
  \<^verbatim>\<open>panic\<close> never returns; a routine that calls \<^verbatim>\<open>sleep\<close> is suspended until somebody
  wakes the channel; a C access through \<^verbatim>\<open>NULL\<close> or outside an object has no defined
  continuation; \<open>Diverges\<close> is a loop that the model stopped because its fuel ran out (the
  theories that use fuel prove how much is enough).
\<close>

datatype stop =
    Panic string
  | Blocked
  | Fault string
  | Diverges

datatype 'a kres = Ret 'a | Stop stop

primrec bindk :: "'a kres \<Rightarrow> ('a \<Rightarrow> 'b kres) \<Rightarrow> 'b kres" where
  "bindk (Ret x) f = f x"
| "bindk (Stop e) f = Stop e"

definition returns :: "'a kres \<Rightarrow> bool" where
  "returns r \<longleftrightarrow> (case r of Ret _ \<Rightarrow> True | Stop _ \<Rightarrow> False)"

named_theorems kres_simps \<open>evaluation of outcomes\<close>

lemma bindk_Ret_right [simp]: "bindk m Ret = m"
  by (cases m) simp_all

lemma bindk_assoc: "bindk (bindk m f) g = bindk m (\<lambda>x. bindk (f x) g)"
  by (cases m) simp_all

lemma bindk_eq_Ret_iff: "bindk m f = Ret y \<longleftrightarrow> (\<exists>x. m = Ret x \<and> f x = Ret y)"
  by (cases m) simp_all

lemma bindk_RetE:
  assumes "bindk m f = Ret y"
  obtains x where "m = Ret x" "f x = Ret y"
  using assms by (auto simp: bindk_eq_Ret_iff)

lemma returns_simps [simp]: "returns (Ret x)" "\<not> returns (Stop e)"
  by (simp_all add: returns_def)

lemma returns_iff: "returns r \<longleftrightarrow> (\<exists>x. r = Ret x)"
  by (cases r) simp_all

text \<open>A loop whose body may stop: the first stop ends it.\<close>

fun foldk :: "('x \<Rightarrow> 's \<Rightarrow> 's kres) \<Rightarrow> 'x list \<Rightarrow> 's \<Rightarrow> 's kres" where
  "foldk f [] s = Ret s"
| "foldk f (x # xs) s = bindk (f x s) (foldk f xs)"

lemma foldk_Nil_eq [simp]: "foldk f [] = Ret"
  by (rule ext) simp

lemma foldk_append: "foldk f (xs @ ys) s = bindk (foldk f xs s) (foldk f ys)"
proof (induction xs arbitrary: s)
  case Nil
  then show ?case by simp
next
  case (Cons x xs)
  then show ?case by (cases "f x s") simp_all
qed

lemma foldk_invariant:
  assumes "foldk f xs s = Ret t" and "P s"
    and "\<And>x u v. x \<in> set xs \<Longrightarrow> P u \<Longrightarrow> f x u = Ret v \<Longrightarrow> P v"
  shows "P t"
  using assms
proof (induction xs arbitrary: s)
  case Nil
  then show ?case by simp
next
  case (Cons x xs)
  from Cons.prems(1) obtain u where u: "f x s = Ret u" and rest: "foldk f xs u = Ret t"
    by (auto elim: bindk_RetE)
  have "P u" using Cons.prems(3) [of x s u] Cons.prems(2) u by simp
  with rest show ?case using Cons.IH [of u] Cons.prems(3) by (meson list.set_intros(2))
qed

lemma foldk_returns:
  assumes "P s"
    and "\<And>x u. x \<in> set xs \<Longrightarrow> P u \<Longrightarrow> \<exists>v. f x u = Ret v \<and> P v"
  shows "\<exists>t. foldk f xs s = Ret t \<and> P t"
  using assms
proof (induction xs arbitrary: s)
  case Nil
  then show ?case by simp
next
  case (Cons x xs)
  from Cons.prems obtain v where v: "f x s = Ret v" "P v"
    by fastforce
  then obtain t where "foldk f xs v = Ret t \<and> P t"
    using Cons.IH [of v] Cons.prems(2) by auto
  with v show ?case by auto
qed

section \<open>C arithmetic\<close>

text \<open>C99 integer division and remainder truncate towards zero.\<close>

definition c_div :: "int \<Rightarrow> int \<Rightarrow> int" where
  "c_div a b = sgn a * sgn b * (\<bar>a\<bar> div \<bar>b\<bar>)"

definition c_mod :: "int \<Rightarrow> int \<Rightarrow> int" where
  "c_mod a b = a - b * c_div a b"

lemma c_div_nonneg: "0 \<le> a \<Longrightarrow> 0 < b \<Longrightarrow> c_div a b = a div b"
  by (cases "a = 0") (simp_all add: c_div_def)

lemma c_mod_nonneg: "0 \<le> a \<Longrightarrow> 0 < b \<Longrightarrow> c_mod a b = a mod b"
  by (simp add: c_mod_def c_div_nonneg minus_mult_div_eq_mod)

lemma c_div_minus_left: "c_div (- a) b = - c_div a b"
  by (simp add: c_div_def)

lemma c_mod_eq_0_iff:
  assumes "0 < b"
  shows "c_mod a b = 0 \<longleftrightarrow> b dvd a"
proof (cases "0 \<le> a")
  case True
  with assms show ?thesis by (simp add: c_mod_nonneg dvd_eq_mod_eq_0)
next
  case False
  then have "c_mod a b = - ((- a) mod b)"
    using assms c_div_minus_left [of "- a" b]
    by (simp add: c_mod_def c_div_nonneg minus_mult_div_eq_mod [symmetric])
  then show ?thesis by (simp add: dvd_eq_mod_eq_0 [symmetric])
qed

section \<open>Error numbers\<close>

text \<open>The values of \<^verbatim>\<open>sys/include/generic/errno.h\<close> that the modelled routines return.\<close>

abbreviation (input) EACCES :: int where "EACCES \<equiv> 2"
abbreviation (input) EAGAIN :: int where "EAGAIN \<equiv> 6"
abbreviation (input) EBADF :: int where "EBADF \<equiv> 8"
abbreviation (input) EBUSY :: int where "EBUSY \<equiv> 9"
abbreviation (input) ECHILD :: int where "ECHILD \<equiv> 11"
abbreviation (input) EEXIST :: int where "EEXIST \<equiv> 19"
abbreviation (input) EFAULT :: int where "EFAULT \<equiv> 20"
abbreviation (input) EFBIG :: int where "EFBIG \<equiv> 21"
abbreviation (input) EINTR :: int where "EINTR \<equiv> 26"
abbreviation (input) EINVAL :: int where "EINVAL \<equiv> 27"
abbreviation (input) EIO :: int where "EIO \<equiv> 28"
abbreviation (input) EISDIR :: int where "EISDIR \<equiv> 30"
abbreviation (input) ELOOP :: int where "ELOOP \<equiv> 31"
abbreviation (input) EMFILE :: int where "EMFILE \<equiv> 32"
abbreviation (input) ENAMETOOLONG :: int where "ENAMETOOLONG \<equiv> 36"
abbreviation (input) ENFILE :: int where "ENFILE \<equiv> 40"
abbreviation (input) ENOBUFS :: int where "ENOBUFS \<equiv> 41"
abbreviation (input) ENODEV :: int where "ENODEV \<equiv> 43"
abbreviation (input) ENOEXEC :: int where "ENOEXEC \<equiv> 45"
abbreviation (input) ENOENT :: int where "ENOENT \<equiv> 44"
abbreviation (input) ENOMEM :: int where "ENOMEM \<equiv> 48"
abbreviation (input) ENOSPC :: int where "ENOSPC \<equiv> 51"
abbreviation (input) ENOSYS :: int where "ENOSYS \<equiv> 54"
abbreviation (input) ENOTDIR :: int where "ENOTDIR \<equiv> 56"
abbreviation (input) ENOTEMPTY :: int where "ENOTEMPTY \<equiv> 57"
abbreviation (input) ENXIO :: int where "ENXIO \<equiv> 62"
abbreviation (input) EOVERFLOW :: int where "EOVERFLOW \<equiv> 64"
abbreviation (input) EPERM :: int where "EPERM \<equiv> 66"
abbreviation (input) EROFS :: int where "EROFS \<equiv> 72"
abbreviation (input) ESPIPE :: int where "ESPIPE \<equiv> 73"
abbreviation (input) ESRCH :: int where "ESRCH \<equiv> 74"
abbreviation (input) EXDEV :: int where "EXDEV \<equiv> 80"

section \<open>Lists\<close>

lemma nth_list_update_if:
  "i < length xs \<Longrightarrow> xs[j := v] ! i = (if i = j then v else xs ! i)"
  by (simp add: nth_list_update)

lemma list_all_upt_iff: "list_all P [a..<b] \<longleftrightarrow> (\<forall>i. a \<le> i \<and> i < b \<longrightarrow> P i)"
  by (auto simp: list_all_iff)

text \<open>The first index of a bounded loop at which a condition holds.\<close>

definition find_index :: "(nat \<Rightarrow> bool) \<Rightarrow> nat \<Rightarrow> nat option" where
  "find_index P n = List.find P [0..<n]"

lemma find_index_Some_iff:
  "find_index P n = Some i \<longleftrightarrow> i < n \<and> P i \<and> (\<forall>j<i. \<not> P j)"
  by (auto simp: find_index_def find_Some_iff)

lemma find_index_None_iff: "find_index P n = None \<longleftrightarrow> (\<forall>i<n. \<not> P i)"
  by (auto simp: find_index_def find_None_iff)

section \<open>Words\<close>

lemma unat_lt_2p32: "unat (w :: u32) < 4294967296"
  using unsigned_less [of w, where 'a = nat] by simp

lemma unat_of_nat_u32: "n < 4294967296 \<Longrightarrow> unat (of_nat n :: u32) = n"
  by (simp add: unat_of_nat take_bit_nat_eq_self)

lemma of_nat_u32_eq_iff:
  assumes "m < 2 ^ 32" and "n < 2 ^ 32"
  shows "(of_nat m :: u32) = of_nat n \<longleftrightarrow> m = n"
proof
  assume e: "(of_nat m :: u32) = of_nat n"
  have "m < 4294967296" "n < 4294967296" using assms by simp_all
  then have "unat (of_nat m :: u32) = m" "unat (of_nat n :: u32) = n" by (simp_all only: unat_of_nat_u32)
  with arg_cong [OF e, of unat] show "m = n" by (simp only:)
qed simp

lemma sint_small:
  assumes "unat w < 2147483648"
  shows "sint (w :: u32) = int (unat w)"
proof -
  have "int (unat w) < 2147483648" "- 2147483648 \<le> int (unat w)" using assms by linarith+
  then have "uint w < 2147483648" "- 2147483648 \<le> uint w" by simp_all
  then show ?thesis by (simp add: sint_uint signed_take_bit_int_eq_self)
qed

lemma bit_flag_clear: "(w AND NOT m) AND m = (0 :: 'a :: len word)"
  by (simp add: and.assoc)

lemma bit_flag_set: "(w OR m) AND m = (m :: 'a :: len word)"
  by (simp add: bit_eq_iff bit_simps)

section \<open>Bytes of words\<close>

text \<open>Values in memory and on disk have their lowest byte first; bytes outside a list read as 0.\<close>

definition byte_at :: "u8 list \<Rightarrow> nat \<Rightarrow> u8" where
  "byte_at bs i = (if i < length bs then bs ! i else 0)"

definition le16 :: "u8 list \<Rightarrow> nat \<Rightarrow> u16" where
  "le16 bs i = ucast (byte_at bs i) OR push_bit 8 (ucast (byte_at bs (i + 1)))"

definition le32 :: "u8 list \<Rightarrow> nat \<Rightarrow> u32" where
  "le32 bs i = ucast (byte_at bs i) OR push_bit 8 (ucast (byte_at bs (i + 1)))
     OR push_bit 16 (ucast (byte_at bs (i + 2))) OR push_bit 24 (ucast (byte_at bs (i + 3)))"

definition w16 :: "u16 \<Rightarrow> u8 list" where
  "w16 v = [ucast v, ucast (drop_bit 8 v)]"

definition w32 :: "u32 \<Rightarrow> u8 list" where
  "w32 v = [ucast v, ucast (drop_bit 8 v), ucast (drop_bit 16 v), ucast (drop_bit 24 v)]"

lemma length_w [simp]: "length (w16 v) = 2" "length (w32 x) = 4"
  by (simp_all add: w16_def w32_def)

lemma byte_at_append [simp]:
  "i < length xs \<Longrightarrow> byte_at (xs @ ys) i = byte_at xs i"
  "length xs \<le> i \<Longrightarrow> byte_at (xs @ ys) i = byte_at ys (i - length xs)"
  by (auto simp: byte_at_def nth_append)

lemma le16_w16 [simp]: "le16 (w16 v @ ys) 0 = v"
proof (rule bit_eqI)
  fix n
  assume "possible_bit TYPE(u16) n"
  then consider "n < 8" | "8 \<le> n" "n < 16" by (auto simp: possible_bit_word) linarith
  then show "bit (le16 (w16 v @ ys) 0) n = bit v n"
    by cases (auto simp: le16_def w16_def byte_at_def bit_simps)
qed

lemma le32_w32 [simp]: "le32 (w32 v @ ys) 0 = v"
proof (rule bit_eqI)
  fix n
  assume "possible_bit TYPE(u32) n"
  then consider "n < 8" | "8 \<le> n" "n < 16" | "16 \<le> n" "n < 24" | "24 \<le> n" "n < 32"
    by (auto simp: possible_bit_word) linarith
  then show "bit (le32 (w32 v @ ys) 0) n = bit v n"
    by cases (auto simp: le32_def w32_def byte_at_def bit_simps)
qed

lemma le_append [simp]:
  "length xs \<le> i \<Longrightarrow> le16 (xs @ ys) i = le16 ys (i - length xs)"
  "length xs \<le> i \<Longrightarrow> le32 (xs @ ys) i = le32 ys (i - length xs)"
  by (simp_all add: le16_def le32_def Nat.add_diff_assoc2 Suc_diff_le)

end
