(* ===== verification/Ring.thy ===== *)
theory Ring
  imports Yak_Prelude
begin

text \<open>
  Circular doubly linked lists. The kernel keeps its run queues
  (\<^verbatim>\<open>sys/kernel/schedule.c\<close>), the hash queues and the free lists of its block and inode
  caches (\<^verbatim>\<open>sys/fs/buffer.c\<close>, \<^verbatim>\<open>sys/fs/ext2/inode.c\<close>) as rings of table cells, each with
  a next and a previous pointer that are both \<^verbatim>\<open>NULL\<close> when the cell is on no ring.
  \<open>ring n p xs\<close> says that the pointers \<open>n\<close> and \<open>p\<close> thread exactly the cells \<open>xs\<close>, in this
  order, starting anywhere. The locale \<open>ring_store\<close> is the interface: a state with two pointer
  fields per cell and their setters; its lemmas are the effect of the pointer updates that the
  C code makes to append and to unlink a cell.
\<close>

section \<open>Chains and rings\<close>

definition link :: "('c \<Rightarrow> 'c option) \<Rightarrow> ('c \<Rightarrow> 'c option) \<Rightarrow> 'c \<Rightarrow> 'c \<Rightarrow> bool" where
  "link n p a b \<longleftrightarrow> n a = Some b \<and> p b = Some a"

fun chain :: "('c \<Rightarrow> 'c option) \<Rightarrow> ('c \<Rightarrow> 'c option) \<Rightarrow> 'c list \<Rightarrow> bool" where
  "chain n p [] = True"
| "chain n p [x] = True"
| "chain n p (x # y # ys) = (link n p x y \<and> chain n p (y # ys))"

definition ring :: "('c \<Rightarrow> 'c option) \<Rightarrow> ('c \<Rightarrow> 'c option) \<Rightarrow> 'c list \<Rightarrow> bool" where
  "ring n p xs \<longleftrightarrow> xs \<noteq> [] \<and> distinct xs \<and> chain n p xs \<and> link n p (last xs) (hd xs)"

lemma chain_Cons:
  "ys \<noteq> [] \<Longrightarrow> chain n p (x # ys) \<longleftrightarrow> link n p x (hd ys) \<and> chain n p ys"
  by (cases ys) simp_all

lemma chain_append:
  "xs \<noteq> [] \<Longrightarrow> ys \<noteq> [] \<Longrightarrow>
   chain n p (xs @ ys) \<longleftrightarrow> chain n p xs \<and> link n p (last xs) (hd ys) \<and> chain n p ys"
proof (induction xs)
  case Nil
  then show ?case by simp
next
  case (Cons x xs)
  then show ?case by (cases "xs = []") (auto simp: chain_Cons)
qed

lemma chain_cong:
  "(\<And>x. x \<in> set (butlast xs) \<Longrightarrow> n' x = n x) \<Longrightarrow> (\<And>x. x \<in> set (tl xs) \<Longrightarrow> p' x = p x) \<Longrightarrow>
   chain n' p' xs = chain n p xs"
proof (induction n p xs rule: chain.induct)
  case (3 n p x y ys)
  then have "chain n' p' (y # ys) = chain n p (y # ys)"
    by (cases ys) auto
  with 3 show ?case by (auto simp: link_def)
qed simp_all

lemma ring_not_Nil [simp]: "\<not> ring n p []"
  by (simp add: ring_def)

lemma ring_distinct: "ring n p xs \<Longrightarrow> distinct xs"
  by (simp add: ring_def)

lemma ring_single: "ring n p [x] \<longleftrightarrow> n x = Some x \<and> p x = Some x"
  by (auto simp: ring_def link_def)

lemma ring_rotate: "ring n p (xs @ ys) \<Longrightarrow> ring n p (ys @ xs)"
  by (cases "xs = []"; cases "ys = []") (auto simp: ring_def chain_append)

lemma ring_frame:
  "ring n p xs \<Longrightarrow> (\<And>x. x \<in> set xs \<Longrightarrow> n' x = n x) \<Longrightarrow> (\<And>x. x \<in> set xs \<Longrightarrow> p' x = p x) \<Longrightarrow>
   ring n' p' xs"
  using chain_cong [of xs n' n p' p]
  by (auto simp: ring_def link_def dest: in_set_butlastD list.set_sel(2))

lemma ring_next_in:
  assumes "ring n p xs" and "x \<in> set xs"
  shows "\<exists>y \<in> set xs. n x = Some y"
proof -
  from assms(2) obtain us vs where xs: "xs = us @ x # vs" by (meson split_list)
  from assms(1) xs have "ring n p ((x # vs) @ us)" by (simp only: ring_rotate)
  then have "n x = Some (hd ((vs @ us) @ [x]))"
    by (cases "vs @ us") (auto simp: ring_def link_def chain_Cons)
  moreover have "hd ((vs @ us) @ [x]) \<in> set ((vs @ us) @ [x])" by (rule hd_in_set) simp
  ultimately show ?thesis unfolding xs by auto
qed

lemma ring_prev_in:
  assumes "ring n p xs" and "x \<in> set xs"
  shows "\<exists>y \<in> set xs. p x = Some y"
proof -
  from assms(2) obtain us vs where xs: "xs = us @ x # vs" by (meson split_list)
  from assms(1) xs have "ring n p ((x # vs) @ us)" by (simp only: ring_rotate)
  then have "p x = Some (last (x # vs @ us))"
    by (simp add: ring_def link_def)
  moreover have "last (x # vs @ us) \<in> set (x # vs @ us)" by (rule last_in_set) simp
  ultimately show ?thesis unfolding xs by auto
qed

text \<open>Two rings over the same pointers are disjoint or hold the same cells.\<close>

lemma ring_set_closed:
  assumes "ring n p xs" and "ring n p ys" and "hd ys \<in> set xs"
  shows "set ys \<subseteq> set xs"
proof -
  have "chain n p zs \<Longrightarrow> zs \<noteq> [] \<Longrightarrow> hd zs \<in> set xs \<Longrightarrow> set zs \<subseteq> set xs" for zs
  proof (induction zs)
    case (Cons z zs)
    show ?case
    proof (cases "zs = []")
      case False
      with Cons.prems have z: "n z = Some (hd zs)" "chain n p zs" "z \<in> set xs"
        by (auto simp: chain_Cons link_def)
      from ring_next_in [OF assms(1) z(3)] z(1) have "hd zs \<in> set xs" by auto
      with Cons.IH z False have "set zs \<subseteq> set xs" by blast
      with z(3) show ?thesis by simp
    qed (use Cons.prems in simp)
  qed simp
  with assms(2,3) show ?thesis by (auto simp: ring_def)
qed

section \<open>Pointer updates\<close>

text \<open>Appending a cell before the head: what \<^verbatim>\<open>add_to_queue\<close> and \<^verbatim>\<open>put_into_hash_queue\<close> do.\<close>

lemma ring_append:
  assumes "ring n p xs" and "x \<notin> set xs"
  shows "ring (n(last xs := Some x, x := Some (hd xs))) (p(x := Some (last xs), hd xs := Some x)) (xs @ [x])"
proof -
  from assms(1) have xs: "xs \<noteq> []" "distinct xs" "chain n p xs" by (auto simp: ring_def)
  let ?n = "n(last xs := Some x, x := Some (hd xs))"
  let ?p = "p(x := Some (last xs), hd xs := Some x)"
  have mem: "last xs \<in> set xs" "hd xs \<in> set xs" using xs(1) by simp_all
  have "\<And>y. y \<in> set (butlast xs) \<Longrightarrow> ?n y = n y"
  proof -
    fix y assume y: "y \<in> set (butlast xs)"
    then have "y \<noteq> last xs" using xs(1,2) by (metis append_butlast_last_id distinct_append
          disjoint_iff list.set_intros(1))
    moreover have "y \<noteq> x" using y assms(2) by (auto dest: in_set_butlastD)
    ultimately show "?n y = n y" by simp
  qed
  moreover have "\<And>y. y \<in> set (tl xs) \<Longrightarrow> ?p y = p y"
  proof -
    fix y assume y: "y \<in> set (tl xs)"
    then have "y \<noteq> hd xs" using xs(1,2) by (cases xs) auto
    moreover have "y \<noteq> x" using y assms(2) xs(1) by (auto dest: list.set_sel(2))
    ultimately show "?p y = p y" by simp
  qed
  ultimately have "chain ?n ?p xs" using chain_cong [of xs ?n n ?p p] xs(3) by blast
  moreover have "x \<noteq> last xs" "x \<noteq> hd xs" using assms(2) mem by auto
  ultimately show ?thesis
    using xs assms(2) by (auto simp: ring_def chain_append link_def)
qed

text \<open>Unlinking a cell that is not alone: its neighbours are joined.\<close>

lemma ring_unlink:
  assumes "ring n p (x # xs)" and "xs \<noteq> []"
  shows "ring (n(last xs := Some (hd xs), x := None)) (p(hd xs := Some (last xs), x := None)) xs"
proof -
  from assms have d: "distinct xs" "x \<notin> set xs" and c: "chain n p xs"
    by (auto simp: ring_def chain_Cons)
  let ?n = "n(last xs := Some (hd xs), x := None)"
  let ?p = "p(hd xs := Some (last xs), x := None)"
  have mem: "last xs \<in> set xs" "hd xs \<in> set xs" using assms(2) by simp_all
  have "\<And>y. y \<in> set (butlast xs) \<Longrightarrow> ?n y = n y"
  proof -
    fix y assume y: "y \<in> set (butlast xs)"
    then have "y \<noteq> last xs" using assms(2) d(1) by (metis append_butlast_last_id distinct_append
          disjoint_iff list.set_intros(1))
    moreover have "y \<noteq> x" using y d(2) by (auto dest: in_set_butlastD)
    ultimately show "?n y = n y" by simp
  qed
  moreover have "\<And>y. y \<in> set (tl xs) \<Longrightarrow> ?p y = p y"
  proof -
    fix y assume y: "y \<in> set (tl xs)"
    then have "y \<noteq> hd xs" using assms(2) d(1) by (cases xs) auto
    moreover have "y \<noteq> x" using y d(2) assms(2) by (auto dest: list.set_sel(2))
    ultimately show "?p y = p y" by simp
  qed
  ultimately have "chain ?n ?p xs" using chain_cong [of xs ?n n ?p p] c by blast
  moreover have "x \<noteq> last xs" "x \<noteq> hd xs" using d(2) mem by auto
  ultimately show ?thesis
    using assms(2) d by (auto simp: ring_def link_def)
qed

lemma ring_head_pointers:
  assumes "ring n p (x # xs)" and "xs \<noteq> []"
  shows "n x = Some (hd xs)" "p x = Some (last xs)"
  using assms by (auto simp: ring_def link_def chain_Cons)

lemma ring_self_iff:
  assumes "ring n p (x # xs)"
  shows "n x = Some x \<longleftrightarrow> xs = []"
  using assms by (cases xs) (auto simp: ring_def link_def)

section \<open>The walk to the last cell\<close>

text \<open>
  \<^verbatim>\<open>for ( ; p->next != head; p = p->next);\<close> with fuel: a next pointer that is \<^verbatim>\<open>NULL\<close> makes
  the walk fault, a corrupted ring makes it run forever.
\<close>

fun ring_walk :: "nat \<Rightarrow> ('c \<Rightarrow> 'c option) \<Rightarrow> 'c \<Rightarrow> 'c \<Rightarrow> 'c kres" where
  "ring_walk 0 n head q = Stop Diverges"
| "ring_walk (Suc fuel) n head q =
     (case n q of
        None \<Rightarrow> Stop (Fault ''ring_walk'')
      | Some r \<Rightarrow> if r = head then Ret q else ring_walk fuel n head r)"

lemma ring_walk_chain:
  "chain n p xs \<Longrightarrow> distinct xs \<Longrightarrow> xs \<noteq> [] \<Longrightarrow> n (last xs) = Some h \<Longrightarrow> h \<notin> set (tl xs) \<Longrightarrow>
   length xs \<le> fuel \<Longrightarrow> ring_walk fuel n h (hd xs) = Ret (last xs)"
proof (induction xs arbitrary: fuel)
  case Nil
  then show ?case by simp
next
  case (Cons x xs)
  from Cons.prems obtain f where f: "fuel = Suc f" by (cases fuel) auto
  show ?case
  proof (cases "xs = []")
    case True
    with Cons.prems f show ?thesis by simp
  next
    case False
    with Cons.prems have "n x = Some (hd xs)" "chain n p xs" "hd xs \<noteq> h"
      by (auto simp: chain_Cons link_def)
    moreover have "h \<notin> set (tl xs)" using Cons.prems(5) False by (auto dest: list.set_sel(2))
    ultimately show ?thesis using Cons.IH [of f] Cons.prems False f by simp
  qed
qed

lemma ring_walk_last:
  assumes "ring n p xs" and "length xs \<le> fuel"
  shows "ring_walk fuel n (hd xs) (hd xs) = Ret (last xs)"
proof -
  from assms(1) have "hd xs \<notin> set (tl xs)" by (cases xs) (auto simp: ring_def)
  with assms show ?thesis
    by (intro ring_walk_chain [of n p]) (auto simp: ring_def link_def)
qed

text \<open>The cells met by walking once round, from the head: the list a ring stands for.\<close>

fun ring_cells :: "nat \<Rightarrow> ('c \<Rightarrow> 'c option) \<Rightarrow> 'c \<Rightarrow> 'c \<Rightarrow> 'c list" where
  "ring_cells 0 n head q = []"
| "ring_cells (Suc fuel) n head q =
     q # (case n q of
            None \<Rightarrow> []
          | Some r \<Rightarrow> if r = head then [] else ring_cells fuel n head r)"

lemma ring_cells_chain:
  "chain n p xs \<Longrightarrow> xs \<noteq> [] \<Longrightarrow> n (last xs) = Some h \<Longrightarrow> h \<notin> set (tl xs) \<Longrightarrow>
   length xs \<le> fuel \<Longrightarrow> ring_cells fuel n h (hd xs) = xs"
proof (induction xs arbitrary: fuel)
  case Nil
  then show ?case by simp
next
  case (Cons x xs)
  from Cons.prems obtain f where f: "fuel = Suc f" by (cases fuel) auto
  show ?case
  proof (cases "xs = []")
    case True
    with Cons.prems f show ?thesis by simp
  next
    case False
    with Cons.prems have "n x = Some (hd xs)" "chain n p xs" "hd xs \<noteq> h"
      by (auto simp: chain_Cons link_def)
    moreover have "h \<notin> set (tl xs)" using Cons.prems(4) False by (auto dest: list.set_sel(2))
    ultimately show ?thesis using Cons.IH [of f] Cons.prems False f by simp
  qed
qed

lemma ring_cells_eq:
  assumes "ring n p xs" and "length xs \<le> fuel"
  shows "ring_cells fuel n (hd xs) (hd xs) = xs"
proof -
  from assms(1) have "hd xs \<notin> set (tl xs)" by (cases xs) (auto simp: ring_def)
  with assms show ?thesis
    by (intro ring_cells_chain [of n p]) (auto simp: ring_def link_def)
qed

text \<open>A duplicate-free list of table indices below \<open>N\<close> is no longer than the table.\<close>

lemma distinct_bounded_length:
  assumes "distinct xs" and "\<forall>x\<in>set xs. x < (N::nat)"
  shows "length xs \<le> N"
proof -
  have "length xs = card (set xs)" using assms(1) by (simp add: distinct_card)
  also have "\<dots> \<le> card {..<N}" using assms(2) by (intro card_mono) auto
  finally show ?thesis by simp
qed

section \<open>The interface: states with two pointers per cell\<close>

locale ring_store =
  fixes next_of prev_of :: "'s \<Rightarrow> nat \<Rightarrow> nat option"
    and set_next set_prev :: "nat \<Rightarrow> nat option \<Rightarrow> 's \<Rightarrow> 's"
  assumes next_set_next: "next_of (set_next x v s) = (next_of s)(x := v)"
    and prev_set_next: "prev_of (set_next x v s) = prev_of s"
    and next_set_prev: "next_of (set_prev x v s) = next_of s"
    and prev_set_prev: "prev_of (set_prev x v s) = (prev_of s)(x := v)"
begin

lemmas pointer_simps = next_set_next prev_set_next next_set_prev prev_set_prev

definition on_ring :: "'s \<Rightarrow> nat list \<Rightarrow> bool" where
  "on_ring s xs \<longleftrightarrow> ring (next_of s) (prev_of s) xs"

lemma on_ring_singleton: "on_ring (set_next x (Some x) (set_prev x (Some x) s)) [x]"
  by (simp add: on_ring_def ring_single pointer_simps)

lemma on_ring_append:
  assumes "on_ring s xs" and "x \<notin> set xs"
  shows "on_ring (set_prev (hd xs) (Some x) (set_next x (Some (hd xs))
           (set_prev x (Some (last xs)) (set_next (last xs) (Some x) s)))) (xs @ [x])"
  using ring_append [of "next_of s" "prev_of s" xs x] assms
  by (simp add: on_ring_def pointer_simps)

lemma on_ring_unlink:
  assumes "on_ring s (x # xs)" and "xs \<noteq> []"
  shows "on_ring (set_next x None (set_prev x None (set_next (last xs) (Some (hd xs))
           (set_prev (hd xs) (Some (last xs)) s)))) xs"
  using ring_unlink [of "next_of s" "prev_of s" x xs] assms
  by (simp add: on_ring_def pointer_simps)

lemma on_ring_frame:
  assumes "on_ring s xs"
    and "\<And>x. x \<in> set xs \<Longrightarrow> next_of t x = next_of s x"
    and "\<And>x. x \<in> set xs \<Longrightarrow> prev_of t x = prev_of s x"
  shows "on_ring t xs"
  using assms ring_frame [of "next_of s" "prev_of s" xs "next_of t" "prev_of t"]
  by (simp add: on_ring_def)

end

end
