(* ===== verification/Sched.thy ===== *)
theory Sched
  imports Ring
begin

text \<open>
  The process table and the scheduler: \<^verbatim>\<open>sys/include/kernel/proc.h\<close> and
  \<^verbatim>\<open>sys/kernel/schedule.c\<close>, with the timer tick of \<^verbatim>\<open>sys/drivers/timer.c\<close>.
  A \<^verbatim>\<open>struct process *\<close> is an index into the process table; \<^verbatim>\<open>NULL\<close> is \<open>None\<close>. The context
  switch itself (\<^verbatim>\<open>arch_switch_to\<close>: stack, registers, page directory) and the interrupt flag are
  the processor's and are not part of the state: after \<^verbatim>\<open>schedule\<close> the state is the one in which
  the chosen process goes on.
\<close>

section \<open>Process table\<close>

datatype proc_state =
    PROC_EXITED | PROC_ZOMBIE | PROC_RUNNING | PROC_RUNNABLE
  | PROC_SLEEP_INTERRUPTIBLE | PROC_SLEEP_UNINTERRUPTIBLE | PROC_STOPPED

abbreviation (input) NR_PROC :: nat where "NR_PROC \<equiv> 64"
abbreviation (input) PROC_QUANTA :: int where "PROC_QUANTA \<equiv> 10"
abbreviation (input) LOWEST_PRIORITY :: int where "LOWEST_PRIORITY \<equiv> 0"
abbreviation (input) HIGHEST_PRIORITY :: int where "HIGHEST_PRIORITY \<equiv> PROC_QUANTA - 1"
abbreviation (input) USER_PRIORITY :: int where "USER_PRIORITY \<equiv> LOWEST_PRIORITY + 1"
abbreviation (input) NO_ALARM :: u32 where "NO_ALARM \<equiv> 0"
abbreviation (input) NO_TTY_BLOCK :: u32 where "NO_TTY_BLOCK \<equiv> 0"
abbreviation (input) HZ :: u32 where "HZ \<equiv> 100"
abbreviation (input) SIGKILL :: int where "SIGKILL \<equiv> 9"
abbreviation (input) SIGCHLD :: int where "SIGCHLD \<equiv> 10"
abbreviation (input) SIGALRM :: int where "SIGALRM \<equiv> 14"
abbreviation (input) SIGSTOP :: int where "SIGSTOP \<equiv> 18"

record pgrp_info =
  leader :: bool
  sid :: int
  pgid :: int

record exec_image =
  e_entry :: u32
  e_text_vaddr :: u32
  e_text_size :: u32
  e_data_vaddr :: u32
  e_data_size :: u32
  e_rodata_vaddr :: u32
  e_rodata_size :: u32
  e_bss_vaddr :: u32
  e_bss_size :: u32

record generic_inode =
  gi_inode :: "nat option"
  gi_count :: int

text \<open>
  \<^verbatim>\<open>struct process\<close>, without \<^verbatim>\<open>sigmask\<close>, which nothing reads or writes, and \<^verbatim>\<open>context\<close>, the saved
  registers. \<^verbatim>\<open>file_table\<close> is \<open>fd_table\<close> here: an index into the system's file table, or \<^verbatim>\<open>NULL\<close>.
\<close>

record process =
  pid :: int
  ppid :: int
  uid :: int
  euid :: int
  suid :: int
  gid :: int
  egid :: int
  sgid :: int
  umask :: u32
  state :: proc_state
  tty :: int
  tty_block :: u32
  priority :: int
  quanta :: int
  counter :: int
  exit_code :: u8
  sleeping_on :: u32
  pgrp :: pgrp_info
  sighandlers :: "nat \<Rightarrow> u32"
  sigpending :: u32
  sigrestorer :: u32
  alarm :: u32
  nice :: int
  p_image :: exec_image
  queue_next :: "nat option"
  queue_prev :: "nat option"
  root_fs :: "nat option"
  root_inode :: generic_inode
  cwd_fs :: "nat option"
  cwd_inode :: generic_inode
  fd_table :: "nat \<Rightarrow> nat option"
  close_on_exec :: u32

text \<open>A slot of the statically allocated table before its first use.\<close>

definition zero_image :: exec_image where
  "zero_image = \<lparr>e_entry = 0, e_text_vaddr = 0, e_text_size = 0, e_data_vaddr = 0, e_data_size = 0,
     e_rodata_vaddr = 0, e_rodata_size = 0, e_bss_vaddr = 0, e_bss_size = 0\<rparr>"

definition zero_process :: process where
  "zero_process = \<lparr>pid = 0, ppid = 0, uid = 0, euid = 0, suid = 0, gid = 0, egid = 0, sgid = 0,
     umask = 0, state = PROC_EXITED, tty = 0, tty_block = 0, priority = 0, quanta = 0, counter = 0,
     exit_code = 0, sleeping_on = 0, pgrp = \<lparr>leader = False, sid = 0, pgid = 0\<rparr>,
     sighandlers = (\<lambda>_. 0), sigpending = 0, sigrestorer = 0, alarm = 0, nice = 0,
     p_image = zero_image, queue_next = None, queue_prev = None,
     root_fs = None, root_inode = \<lparr>gi_inode = None, gi_count = 0\<rparr>,
     cwd_fs = None, cwd_inode = \<lparr>gi_inode = None, gi_count = 0\<rparr>,
     fd_table = (\<lambda>_. None), close_on_exec = 0\<rparr>"

record sched_state =
  process_table :: "nat \<Rightarrow> process"
  current_process :: nat
  process_queues :: "int \<Rightarrow> nat option"
  last_pid :: int
  timer_ticks :: u32
  startup_time :: u32

definition upd_proc :: "nat \<Rightarrow> (process \<Rightarrow> process) \<Rightarrow> 'a sched_state_scheme \<Rightarrow> 'a sched_state_scheme" where
  "upd_proc i f s = s\<lparr>process_table := (process_table s)(i := f (process_table s i))\<rparr>"

abbreviation cur :: "'a sched_state_scheme \<Rightarrow> process" where
  "cur s \<equiv> process_table s (current_process s)"

definition set_queue_next :: "nat \<Rightarrow> nat option \<Rightarrow> 'a sched_state_scheme \<Rightarrow> 'a sched_state_scheme" where
  "set_queue_next i v s = upd_proc i (\<lambda>p. p\<lparr>queue_next := v\<rparr>) s"

definition set_queue_prev :: "nat \<Rightarrow> nat option \<Rightarrow> 'a sched_state_scheme \<Rightarrow> 'a sched_state_scheme" where
  "set_queue_prev i v s = upd_proc i (\<lambda>p. p\<lparr>queue_prev := v\<rparr>) s"

definition set_queue_head :: "int \<Rightarrow> nat option \<Rightarrow> 'a sched_state_scheme \<Rightarrow> 'a sched_state_scheme" where
  "set_queue_head k v s = s\<lparr>process_queues := (process_queues s)(k := v)\<rparr>"

definition set_state :: "nat \<Rightarrow> proc_state \<Rightarrow> 'a sched_state_scheme \<Rightarrow> 'a sched_state_scheme" where
  "set_state i st s = upd_proc i (\<lambda>p. p\<lparr>state := st\<rparr>) s"

definition PROC_SLEEPING :: "process \<Rightarrow> bool" where
  "PROC_SLEEPING p \<longleftrightarrow> state p = PROC_SLEEP_INTERRUPTIBLE \<or> state p = PROC_SLEEP_UNINTERRUPTIBLE"

definition IN_A_QUEUE :: "process \<Rightarrow> bool" where
  "IN_A_QUEUE p \<longleftrightarrow> queue_next p \<noteq> None \<and> queue_prev p \<noteq> None"

section \<open>Run queues\<close>

text \<open>\<^verbatim>\<open>process_queues\<close> has \<^verbatim>\<open>PROC_QUANTA\<close> entries; any other index is outside the array.\<close>

definition valid_priority :: "int \<Rightarrow> bool" where
  "valid_priority k \<longleftrightarrow> 0 \<le> k \<and> k < PROC_QUANTA"

definition remove_from_queue :: "nat \<Rightarrow> 'a sched_state_scheme \<Rightarrow> 'a sched_state_scheme kres" where
  "remove_from_queue i s =
     (let p = process_table s i in
      case (queue_prev p, queue_next p) of
        (None, None) \<Rightarrow> Ret s
      | (Some pv, Some nx) \<Rightarrow>
          if \<not> valid_priority (priority p) then Stop (Fault ''process_queues'')
          else
            let s1 = (if nx = i \<and> pv = i
                      then set_queue_head (priority p) None s
                      else set_queue_head (priority p) (Some nx)
                             (set_queue_next pv (Some nx) (set_queue_prev nx (Some pv) s)))
            in Ret (set_queue_next i None (set_queue_prev i None s1))
      | _ \<Rightarrow> Stop (Panic ''Process queues corrupted''))"

definition add_to_queue :: "nat \<Rightarrow> 'a sched_state_scheme \<Rightarrow> 'a sched_state_scheme kres" where
  "add_to_queue i s =
     (let k = priority (process_table s i) in
      if \<not> valid_priority k then Stop (Fault ''process_queues'')
      else case process_queues s k of
        None \<Rightarrow> Ret (set_queue_next i (Some i) (set_queue_prev i (Some i) (set_queue_head k (Some i) s)))
      | Some h \<Rightarrow>
          bindk (ring_walk NR_PROC (\<lambda>j. queue_next (process_table s j)) h h) (\<lambda>l.
          Ret (set_queue_prev h (Some i) (set_queue_next i (Some h)
                 (set_queue_prev i (Some l) (set_queue_next l (Some i) s))))))"

definition adjust_proc_queues :: "nat \<Rightarrow> 'a sched_state_scheme \<Rightarrow> 'a sched_state_scheme kres" where
  "adjust_proc_queues i s =
     bindk (if IN_A_QUEUE (process_table s i) then remove_from_queue i s else Ret s) (\<lambda>s.
     if state (process_table s i) = PROC_RUNNABLE \<or> state (process_table s i) = PROC_RUNNING
     then add_to_queue i s else Ret s)"

section \<open>Scheduling\<close>

text \<open>One turn of the loop over the process table at the start of \<^verbatim>\<open>schedule\<close>.\<close>

definition schedule_scan :: "nat \<Rightarrow> 'a sched_state_scheme \<Rightarrow> 'a sched_state_scheme kres" where
  "schedule_scan i s =
     (let s = (if alarm (process_table s i) \<noteq> NO_ALARM \<and> alarm (process_table s i) < timer_ticks s
               then upd_proc i (\<lambda>p. p\<lparr>sigpending := sigpending p OR push_bit (nat (SIGALRM - 1)) 1,
                                     alarm := NO_ALARM\<rparr>) s
               else s)
      in bindk (if tty_block (process_table s i) \<noteq> NO_TTY_BLOCK
                   \<and> tty_block (process_table s i) < timer_ticks s
                then bindk (adjust_proc_queues i (set_state i PROC_RUNNABLE s))
                       (\<lambda>s. Ret (upd_proc i (\<lambda>p. p\<lparr>tty_block := NO_TTY_BLOCK\<rparr>) s))
                else Ret s) (\<lambda>s.
         if state (process_table s i) = PROC_SLEEP_INTERRUPTIBLE \<and> sigpending (process_table s i) \<noteq> 0
         then adjust_proc_queues i (set_state i PROC_RUNNABLE s)
         else Ret s))"

text \<open>The queues from \<^verbatim>\<open>HIGHEST_PRIORITY\<close> down to \<^verbatim>\<open>LOWEST_PRIORITY\<close>: the first that is not empty.\<close>

definition highest_queue :: "'a sched_state_scheme \<Rightarrow> nat option" where
  "highest_queue s =
     (case List.find (\<lambda>k. process_queues s k \<noteq> None) (rev [LOWEST_PRIORITY..HIGHEST_PRIORITY]) of
        None \<Rightarrow> None
      | Some k \<Rightarrow> process_queues s k)"

definition schedule :: "'a sched_state_scheme \<Rightarrow> 'a sched_state_scheme kres" where
  "schedule s =
     bindk (foldk schedule_scan [0..<NR_PROC] s) (\<lambda>s.
     case highest_queue s of
       Some i \<Rightarrow> Ret ((set_state i PROC_RUNNING s)\<lparr>current_process := i\<rparr>)
     | None \<Rightarrow> Stop (Fault ''current_process''))"

definition sleep :: "u32 \<Rightarrow> proc_state \<Rightarrow> 'a sched_state_scheme \<Rightarrow> 'a sched_state_scheme kres" where
  "sleep addr type s =
     (if current_process s = 0 then Stop (Panic ''Trying to sleep on first process'')
      else if type \<noteq> PROC_SLEEP_INTERRUPTIBLE \<and> type \<noteq> PROC_SLEEP_UNINTERRUPTIBLE
      then Stop (Panic ''sleep: bad type'')
      else
        let i = current_process s;
            s = upd_proc i (\<lambda>p. p\<lparr>state := type, sleeping_on := addr\<rparr>) s
        in bindk (adjust_proc_queues i s) schedule)"

datatype wakeup_ret = WAKEUP_RETURN | WAKEUP_SWITCH

definition wakeup_scan ::
  "u32 \<Rightarrow> nat \<Rightarrow> bool \<times> 'a sched_state_scheme \<Rightarrow> (bool \<times> 'a sched_state_scheme) kres" where
  "wakeup_scan addr i = (\<lambda>(sched, s).
     if PROC_SLEEPING (process_table s i) \<and> sleeping_on (process_table s i) = addr
     then bindk (adjust_proc_queues i (upd_proc i (\<lambda>p. p\<lparr>state := PROC_RUNNABLE, sleeping_on := 0\<rparr>) s))
            (\<lambda>s. Ret (True, s))
     else Ret (sched, s))"

definition wakeup :: "u32 \<Rightarrow> wakeup_ret \<Rightarrow> 'a sched_state_scheme \<Rightarrow> 'a sched_state_scheme kres" where
  "wakeup addr ret s =
     bindk (foldk (wakeup_scan addr) [0..<NR_PROC] (False, s)) (\<lambda>(sched, s).
     if sched \<and> ret = WAKEUP_SWITCH then schedule s else Ret s)"

text \<open>\<^verbatim>\<open>40 / PROC_QUANTA\<close> is 4; \<^verbatim>\<open>nice / rat\<close> truncates towards zero.\<close>

definition nice_to_pri :: "int \<Rightarrow> int" where
  "nice_to_pri n = (let rat = c_div 40 PROC_QUANTA; tmp = - c_div n rat in tmp + rat)"

definition kernel_nice :: "int \<Rightarrow> 'a sched_state_scheme \<Rightarrow> (int \<times> 'a sched_state_scheme) kres" where
  "kernel_nice inc s =
     (let i = current_process s;
          n = nice (cur s) + inc;
          n = (if n > 19 then 19 else if n < -20 then -20 else n);
          k = nice_to_pri n;
          s = upd_proc i (\<lambda>p. p\<lparr>nice := n, priority := k, quanta := k, counter := k\<rparr>) s
      in bindk (adjust_proc_queues i s) (\<lambda>s. Ret (n, s)))"

text \<open>
  The timer interrupt (\<^verbatim>\<open>timer_driver_irq_handler\<close>, \<^verbatim>\<open>sys/drivers/timer.c\<close>); the first argument
  is \<^verbatim>\<open>system_is_panicing()\<close>, and the device's own handler does nothing (\<^verbatim>\<open>pit_irq_handler\<close>).
\<close>

definition timer_tick :: "bool \<Rightarrow> 'a sched_state_scheme \<Rightarrow> 'a sched_state_scheme kres" where
  "timer_tick panicing s =
     (let s = s\<lparr>timer_ticks := timer_ticks s + 1\<rparr>
      in if panicing then Ret s
      else
        let i = current_process s;
            old = counter (cur s);
            s = upd_proc i (\<lambda>p. p\<lparr>counter := old - 1\<rparr>) s
        in bindk (if old = 0
                  then adjust_proc_queues i (upd_proc i (\<lambda>p. p\<lparr>counter := 0, state := PROC_RUNNABLE\<rparr>) s)
                  else Ret s) schedule)"

end
