(* ===== verification/Sched_Queues.thy ===== *)
theory Sched_Queues
  imports Sched
begin

text \<open>
  Correctness of the run queues of \<^verbatim>\<open>sys/kernel/schedule.c\<close>. The abstraction of a priority level is
  the list of processes met by walking its ring from the head (\<open>run_queue\<close>); the invariant
  \<open>sched_inv\<close> says that the pointers of the process table are exactly these rings, and \<open>sched_wf\<close>
  adds that a process is queued if and only if it is runnable or running. The operations refine list
  operations: append at the end, and removal that makes the successor of the removed process the head.
\<close>

section \<open>Abstraction and invariant\<close>

abbreviation qn :: "'a sched_state_scheme \<Rightarrow> nat \<Rightarrow> nat option" where
  "qn s \<equiv> \<lambda>i. queue_next (process_table s i)"

abbreviation qp :: "'a sched_state_scheme \<Rightarrow> nat \<Rightarrow> nat option" where
  "qp s \<equiv> \<lambda>i. queue_prev (process_table s i)"

definition run_queue :: "'a sched_state_scheme \<Rightarrow> int \<Rightarrow> nat list" where
  "run_queue s k =
     (case process_queues s k of None \<Rightarrow> [] | Some h \<Rightarrow> ring_cells NR_PROC (qn s) h h)"

definition queue_ok :: "'a sched_state_scheme \<Rightarrow> int \<Rightarrow> nat list \<Rightarrow> bool" where
  "queue_ok s k xs \<longleftrightarrow>
     (case process_queues s k of
        None \<Rightarrow> xs = []
      | Some h \<Rightarrow> ring (qn s) (qp s) xs \<and> hd xs = h
          \<and> (\<forall>i\<in>set xs. i < NR_PROC \<and> priority (process_table s i) = k))"

definition sched_inv :: "'a sched_state_scheme \<Rightarrow> bool" where
  "sched_inv s \<longleftrightarrow>
     (\<forall>k. valid_priority k \<longrightarrow> queue_ok s k (run_queue s k)) \<and>
     (\<forall>i<NR_PROC. valid_priority (priority (process_table s i)) \<and>
        (i \<notin> set (run_queue s (priority (process_table s i))) \<longrightarrow> qn s i = None \<and> qp s i = None)) \<and>
     current_process s < NR_PROC"

definition runnable :: "process \<Rightarrow> bool" where
  "runnable p \<longleftrightarrow> state p = PROC_RUNNABLE \<or> state p = PROC_RUNNING"

definition queued :: "'a sched_state_scheme \<Rightarrow> nat \<Rightarrow> bool" where
  "queued s i \<longleftrightarrow> i \<in> set (run_queue s (priority (process_table s i)))"

text \<open>The idle process, slot 0, is always runnable: \<^verbatim>\<open>sleep\<close> panics on it.\<close>

definition sched_wf :: "'a sched_state_scheme \<Rightarrow> bool" where
  "sched_wf s \<longleftrightarrow> sched_inv s \<and> (\<forall>i<NR_PROC. queued s i \<longleftrightarrow> runnable (process_table s i))
     \<and> runnable (process_table s 0)"

text \<open>Steps that change only the links between processes and the heads of the queues.\<close>

definition strip_links :: "process \<Rightarrow> process" where
  "strip_links p = p\<lparr>queue_next := None, queue_prev := None\<rparr>"

definition links_only :: "'a sched_state_scheme \<Rightarrow> 'a sched_state_scheme \<Rightarrow> bool" where
  "links_only s t \<longleftrightarrow>
     current_process t = current_process s \<and> last_pid t = last_pid s \<and>
     timer_ticks t = timer_ticks s \<and> startup_time t = startup_time s \<and>
     sched_state.more t = sched_state.more s \<and>
     (\<forall>j. strip_links (process_table t j) = strip_links (process_table s j))"

lemma queue_ok_length:
  assumes "queue_ok s k xs"
  shows "length xs \<le> NR_PROC"
proof (cases "process_queues s k")
  case None
  with assms show ?thesis by (simp add: queue_ok_def)
next
  case (Some h)
  with assms have "distinct xs" "\<forall>i\<in>set xs. i < NR_PROC"
    by (auto simp: queue_ok_def dest: ring_distinct)
  then show ?thesis by (rule distinct_bounded_length)
qed

lemma queue_ok_run_queue:
  assumes "queue_ok s k xs"
  shows "run_queue s k = xs"
proof (cases "process_queues s k")
  case None
  with assms show ?thesis by (simp add: queue_ok_def run_queue_def)
next
  case (Some h)
  with assms have "ring (qn s) (qp s) xs" "hd xs = h" by (auto simp: queue_ok_def)
  with queue_ok_length [OF assms] ring_cells_eq [of "qn s" "qp s" xs NR_PROC] Some
  show ?thesis by (simp add: run_queue_def)
qed

lemma sched_invI:
  assumes "\<And>k. valid_priority k \<Longrightarrow> queue_ok s k (Q k)"
    and "\<And>i. i < NR_PROC \<Longrightarrow> valid_priority (priority (process_table s i))"
    and "\<And>i. i < NR_PROC \<Longrightarrow> i \<notin> set (Q (priority (process_table s i))) \<Longrightarrow> qn s i = None \<and> qp s i = None"
    and "current_process s < NR_PROC"
  shows "sched_inv s" and "\<And>k. valid_priority k \<Longrightarrow> run_queue s k = Q k"
proof -
  show q: "\<And>k. valid_priority k \<Longrightarrow> run_queue s k = Q k"
    using assms(1) by (rule queue_ok_run_queue)
  show "sched_inv s"
    using assms q unfolding sched_inv_def by simp
qed

lemma sched_invD:
  assumes "sched_inv s"
  shows "valid_priority k \<Longrightarrow> queue_ok s k (run_queue s k)"
    and "i < NR_PROC \<Longrightarrow> valid_priority (priority (process_table s i))"
    and "i < NR_PROC \<Longrightarrow> \<not> queued s i \<Longrightarrow> qn s i = None"
    and "i < NR_PROC \<Longrightarrow> \<not> queued s i \<Longrightarrow> qp s i = None"
    and "current_process s < NR_PROC"
  using assms by (simp_all add: sched_inv_def queued_def)

lemma run_queue_mem:
  assumes "sched_inv s" and "valid_priority k" and "i \<in> set (run_queue s k)"
  shows "i < NR_PROC" and "priority (process_table s i) = k"
  using sched_invD(1) [OF assms(1,2)] assms(3)
  by (auto simp: queue_ok_def split: option.splits)

lemma queued_ring:
  assumes "sched_inv s" and "i < NR_PROC" and "queued s i"
  obtains h where "process_queues s (priority (process_table s i)) = Some h"
    and "ring (qn s) (qp s) (run_queue s (priority (process_table s i)))"
    and "hd (run_queue s (priority (process_table s i))) = h"
proof (cases "process_queues s (priority (process_table s i))")
  case None
  with assms(3) show ?thesis by (simp add: queued_def run_queue_def)
next
  case (Some h)
  with sched_invD(1) [OF assms(1) sched_invD(2) [OF assms(1,2)]] show ?thesis
    by (intro that [of h]) (simp_all add: queue_ok_def)
qed

lemma queued_iff_in_a_queue:
  assumes "sched_inv s" and "i < NR_PROC"
  shows "queued s i \<longleftrightarrow> IN_A_QUEUE (process_table s i)"
proof
  assume q: "queued s i"
  from queued_ring [OF assms q] ring_next_in ring_prev_in q
  show "IN_A_QUEUE (process_table s i)" unfolding queued_def IN_A_QUEUE_def
    by (metis option.distinct(1))
next
  assume "IN_A_QUEUE (process_table s i)"
  then have "qn s i \<noteq> None" by (simp add: IN_A_QUEUE_def)
  with sched_invD(3) [OF assms] show "queued s i" by (rule_tac ccontr) simp
qed

interpretation pq: ring_store qn qp set_queue_next set_queue_prev
  by unfold_locales (auto simp: set_queue_next_def set_queue_prev_def upd_proc_def)

lemma set_queue_fields [simp]:
  "process_queues (set_queue_next i v s) = process_queues s"
  "process_queues (set_queue_prev i v s) = process_queues s"
  "current_process (set_queue_next i v s) = current_process s"
  "current_process (set_queue_prev i v s) = current_process s"
  "current_process (set_queue_head k w s) = current_process s"
  "process_table (set_queue_head k w s) = process_table s"
  "process_queues (set_queue_head k w s) = (process_queues s)(k := w)"
  "priority (process_table (set_queue_next i v s) j) = priority (process_table s j)"
  "priority (process_table (set_queue_prev i v s) j) = priority (process_table s j)"
  by (simp_all add: set_queue_next_def set_queue_prev_def set_queue_head_def upd_proc_def)

lemma set_queue_pointers:
  "queue_next (process_table (set_queue_next i v s) j) = (if j = i then v else queue_next (process_table s j))"
  "queue_prev (process_table (set_queue_next i v s) j) = queue_prev (process_table s j)"
  "queue_next (process_table (set_queue_prev i v s) j) = queue_next (process_table s j)"
  "queue_prev (process_table (set_queue_prev i v s) j) = (if j = i then v else queue_prev (process_table s j))"
  by (simp_all add: set_queue_next_def set_queue_prev_def upd_proc_def)

lemma set_queue_head_commute:
  "set_queue_prev i v (set_queue_head k w s) = set_queue_head k w (set_queue_prev i v s)"
  "set_queue_next i v (set_queue_head k w s) = set_queue_head k w (set_queue_next i v s)"
  by (simp_all add: set_queue_next_def set_queue_prev_def set_queue_head_def upd_proc_def)

lemma links_only_refl [simp]: "links_only s s"
  by (simp add: links_only_def)

lemma links_only_trans: "links_only s t \<Longrightarrow> links_only t u \<Longrightarrow> links_only s u"
  by (simp add: links_only_def)

section \<open>Append and removal refine list operations\<close>

lemma strip_links_queue [simp]:
  "strip_links (p\<lparr>queue_next := v\<rparr>) = strip_links p"
  "strip_links (p\<lparr>queue_prev := v\<rparr>) = strip_links p"
  by (simp_all add: strip_links_def)

lemma links_only_set [simp]:
  "links_only s (set_queue_next i v s)"
  "links_only s (set_queue_prev i v s)"
  "links_only s (set_queue_head k w s)"
  by (simp_all add: links_only_def set_queue_next_def set_queue_prev_def set_queue_head_def
        upd_proc_def)

lemma links_only_eqs:
  assumes "links_only s t"
  shows "state (process_table t j) = state (process_table s j)"
    and "priority (process_table t j) = priority (process_table s j)"
    and "current_process t = current_process s"
    and "runnable (process_table t j) = runnable (process_table s j)"
proof -
  from assms have e: "strip_links (process_table t j) = strip_links (process_table s j)"
    by (simp add: links_only_def)
  from arg_cong [OF e, of state] show st: "state (process_table t j) = state (process_table s j)"
    by (simp add: strip_links_def)
  from arg_cong [OF e, of priority] show "priority (process_table t j) = priority (process_table s j)"
    by (simp add: strip_links_def)
  from assms show "current_process t = current_process s" by (simp add: links_only_def)
  from st show "runnable (process_table t j) = runnable (process_table s j)"
    by (simp add: runnable_def)
qed

lemma queue_ok_other:
  assumes "sched_inv s" and "valid_priority k" and "process_queues t k = process_queues s k"
    and "\<And>j. j \<in> set (run_queue s k) \<Longrightarrow> qn t j = qn s j \<and> qp t j = qp s j"
    and "\<And>j. priority (process_table t j) = priority (process_table s j)"
  shows "queue_ok t k (run_queue s k)"
  using sched_invD(1) [OF assms(1,2)] assms(3-5)
    ring_frame [of "qn s" "qp s" "run_queue s k" "qn t" "qp t"]
  by (simp add: queue_ok_def split: option.splits)

lemma add_to_queue_refines:
  assumes inv: "sched_inv s" and i: "i < NR_PROC" and nq: "\<not> queued s i"
  defines "k \<equiv> priority (process_table s i)"
  shows "\<exists>t. add_to_queue i s = Ret t \<and> sched_inv t \<and> links_only s t \<and>
           (\<forall>k'. valid_priority k' \<longrightarrow>
              run_queue t k' = (if k' = k then run_queue s k @ [i] else run_queue s k'))"
proof -
  let ?Q = "\<lambda>k'. if k' = k then run_queue s k @ [i] else run_queue s k'"
  have pk: "priority (process_table s i) = k" by (simp add: k_def)
  have vk: "valid_priority k" unfolding k_def by (rule sched_invD(2) [OF inv i])
  have ok: "queue_ok s k (run_queue s k)" by (rule sched_invD(1) [OF inv vk])
  have ni: "i \<notin> set (run_queue s k)" using nq by (simp add: queued_def k_def)
  have other: "i \<notin> set (run_queue s k')" if "valid_priority k'" for k'
    using run_queue_mem(2) [OF inv that] ni by (auto simp: k_def)
  show ?thesis
  proof (cases "process_queues s k")
    case None
    let ?t = "set_queue_next i (Some i) (set_queue_prev i (Some i) (set_queue_head k (Some i) s))"
    have e: "run_queue s k = []" using None by (simp add: run_queue_def)
    have q: "queue_ok ?t k' (?Q k')" if v: "valid_priority k'" for k'
    proof (cases "k' = k")
      case True
      with e i show ?thesis
        by (simp add: queue_ok_def ring_single set_queue_pointers k_def)
    next
      case False
      with v other [OF v] show ?thesis
        by (simp, intro queue_ok_other [OF inv]) (auto simp: set_queue_pointers)
    qed
    have u: "qn ?t j = None \<and> qp ?t j = None"
      if "j < NR_PROC" "j \<notin> set (?Q (priority (process_table ?t j)))" for j
    proof -
      from that have "j \<noteq> i" by (auto simp: k_def split: if_splits)
      moreover from that have "\<not> queued s j" by (auto simp: queued_def split: if_splits)
      ultimately show ?thesis using sched_invD(3,4) [OF inv that(1)]
        by (simp add: set_queue_pointers)
    qed
    have "sched_inv ?t" and "\<And>k'. valid_priority k' \<Longrightarrow> run_queue ?t k' = ?Q k'"
      using sched_invI [of ?t ?Q, OF q _ u] sched_invD(2,5) [OF inv] by simp_all
    moreover have "add_to_queue i s = Ret ?t"
      using None vk by (simp add: add_to_queue_def k_def [symmetric])
    moreover have "links_only s ?t" by (meson links_only_set links_only_trans)
    ultimately show ?thesis by blast
  next
    case (Some h)
    define xs where "xs = run_queue s k"
    from ok Some have r: "ring (qn s) (qp s) xs" and h: "hd xs = h"
      and m: "\<forall>j\<in>set xs. j < NR_PROC \<and> priority (process_table s j) = k"
      by (auto simp: queue_ok_def xs_def)
    from r have ne: "xs \<noteq> []" by auto
    have w: "ring_walk NR_PROC (qn s) h h = Ret (last xs)"
      using ring_walk_last [OF r, of NR_PROC] queue_ok_length [OF ok] h by (simp add: xs_def)
    let ?t = "set_queue_prev h (Some i) (set_queue_next i (Some h)
                (set_queue_prev i (Some (last xs)) (set_queue_next (last xs) (Some i) s)))"
    have mem: "h \<in> set xs" "last xs \<in> set xs" using ne h by auto
    have rt: "ring (qn ?t) (qp ?t) (xs @ [i])"
      using pq.on_ring_append [of s xs i] r ni h by (simp add: pq.on_ring_def xs_def)
    have q: "queue_ok ?t k' (?Q k')" if v: "valid_priority k'" for k'
    proof (cases "k' = k")
      case True
      with rt Some ne h m i pk show ?thesis
        by (auto simp: queue_ok_def xs_def [symmetric])
    next
      case False
      then have "h \<notin> set (run_queue s k')" "last xs \<notin> set (run_queue s k')"
        using run_queue_mem(2) [OF inv v] mem m by auto
      with v False other [OF v] show ?thesis
        by (simp, intro queue_ok_other [OF inv]) (auto simp: set_queue_pointers)
    qed
    have u: "qn ?t j = None \<and> qp ?t j = None"
      if "j < NR_PROC" "j \<notin> set (?Q (priority (process_table ?t j)))" for j
    proof -
      from that mem have "j \<noteq> i" "j \<noteq> h" "j \<noteq> last xs"
        using m pk by (auto simp: xs_def [symmetric] split: if_splits)
      moreover from that have "\<not> queued s j" by (auto simp: queued_def split: if_splits)
      ultimately show ?thesis using sched_invD(3,4) [OF inv that(1)]
        by (simp add: set_queue_pointers)
    qed
    have "sched_inv ?t" and "\<And>k'. valid_priority k' \<Longrightarrow> run_queue ?t k' = ?Q k'"
      using sched_invI [of ?t ?Q, OF q _ u] sched_invD(2,5) [OF inv] by simp_all
    moreover have "add_to_queue i s = Ret ?t"
      using Some vk w by (simp add: add_to_queue_def k_def [symmetric])
    moreover have "links_only s ?t" by (meson links_only_set links_only_trans)
    ultimately show ?thesis by blast
  qed
qed

text \<open>
  The list operation of \<^verbatim>\<open>remove_from_queue\<close>: the successor of the removed process becomes the
  head, so the processes before it move to the end.
\<close>

definition q_remove :: "nat \<Rightarrow> nat list \<Rightarrow> nat list" where
  "q_remove i xs = (if i \<in> set xs then tl (dropWhile (\<lambda>j. j \<noteq> i) xs) @ takeWhile (\<lambda>j. j \<noteq> i) xs else xs)"

lemma q_remove_split:
  "i \<notin> set us \<Longrightarrow> q_remove i (us @ i # vs) = vs @ us"
  by (auto simp: q_remove_def takeWhile_append dropWhile_append)

lemma set_q_remove: "distinct xs \<Longrightarrow> set (q_remove i xs) = set xs - {i}"
proof (cases "i \<in> set xs")
  case True
  then obtain us vs where "xs = us @ i # vs" by (meson split_list)
  moreover assume "distinct xs"
  ultimately show ?thesis using q_remove_split [of i us vs] by auto
qed (simp add: q_remove_def)

lemma remove_from_queue_refines:
  assumes inv: "sched_inv s" and i: "i < NR_PROC" and qd: "queued s i"
  defines "k \<equiv> priority (process_table s i)"
  shows "\<exists>t. remove_from_queue i s = Ret t \<and> sched_inv t \<and> links_only s t \<and>
           (\<forall>k'. valid_priority k' \<longrightarrow>
              run_queue t k' = (if k' = k then q_remove i (run_queue s k) else run_queue s k'))"
proof -
  have pk: "priority (process_table s i) = k" by (simp add: k_def)
  have vk: "valid_priority k" unfolding k_def by (rule sched_invD(2) [OF inv i])
  obtain h where h: "process_queues s k = Some h" and r0: "ring (qn s) (qp s) (run_queue s k)"
    using queued_ring [OF inv i qd] pk by metis
  from qd obtain us vs where xs: "run_queue s k = us @ i # vs"
    unfolding queued_def pk by (meson split_list)
  define zs where "zs = vs @ us"
  from r0 xs have r: "ring (qn s) (qp s) (i # zs)"
    using ring_rotate [of "qn s" "qp s" us "i # vs"] by (simp add: zs_def)
  have ni: "i \<notin> set us" "i \<notin> set zs" using ring_distinct [OF r] by (auto simp: zs_def)
  have qr: "q_remove i (run_queue s k) = zs" using q_remove_split [OF ni(1)] by (simp add: xs zs_def)
  have mz: "\<forall>j\<in>set zs. j < NR_PROC \<and> priority (process_table s j) = k"
    using run_queue_mem [OF inv vk] by (auto simp: xs zs_def)
  let ?Q = "\<lambda>k'. if k' = k then zs else run_queue s k'"
  define t where "t = set_queue_next i None (set_queue_prev i None
     (if zs = [] then set_queue_head k None s
      else set_queue_head k (Some (hd zs))
             (set_queue_next (last zs) (Some (hd zs)) (set_queue_prev (hd zs) (Some (last zs)) s))))"
  have ret: "remove_from_queue i s = Ret t"
  proof (cases "zs = []")
    case True
    with r vk pk show ?thesis by (auto simp: remove_from_queue_def ring_single t_def)
  next
    case False
    from ring_head_pointers [OF r False] have p: "qn s i = Some (hd zs)" "qp s i = Some (last zs)" .
    from False ni have "hd zs \<noteq> i" by auto
    with False p vk pk show ?thesis by (simp add: remove_from_queue_def t_def Let_def)
  qed
  have lo: "links_only s t" unfolding t_def
    by (cases "zs = []") (simp_all, (meson links_only_set links_only_trans)+)
  have heads: "process_queues t = (process_queues s)(k := (if zs = [] then None else Some (hd zs)))"
    by (simp add: t_def)
  have far: "qn t j = qn s j \<and> qp t j = qp s j" if "j \<noteq> i" "j \<notin> set zs" for j
  proof -
    from that have "zs \<noteq> [] \<Longrightarrow> j \<noteq> hd zs \<and> j \<noteq> last zs" by auto
    with that(1) show ?thesis by (simp add: t_def set_queue_pointers)
  qed
  have q: "queue_ok t k' (?Q k')" if v: "valid_priority k'" for k'
  proof (cases "k' = k")
    case True
    show ?thesis
    proof (cases "zs = []")
      case False
      then have "pq.on_ring t zs"
        using pq.on_ring_unlink [of s i zs] r
        by (simp add: t_def pq.on_ring_def set_queue_head_commute)
      with False True mz heads show ?thesis
        by (simp add: queue_ok_def pq.on_ring_def links_only_eqs(2) [OF lo])
    qed (simp add: queue_ok_def True heads)
  next
    case False
    have "j \<noteq> i \<and> j \<notin> set zs" if "j \<in> set (run_queue s k')" for j
      using run_queue_mem(2) [OF inv v that] mz pk False by auto
    with v False far show ?thesis
      by (simp, intro queue_ok_other [OF inv]) (auto simp: heads links_only_eqs(2) [OF lo])
  qed
  have u: "qn t j = None \<and> qp t j = None"
    if j: "j < NR_PROC" "j \<notin> set (?Q (priority (process_table t j)))" for j
  proof (cases "j = i")
    case True
    then show ?thesis by (simp add: t_def set_queue_pointers)
  next
    case False
    with j have nz: "j \<notin> set zs" using mz links_only_eqs(2) [OF lo] by (auto split: if_splits)
    with j False have "\<not> queued s j"
      by (auto simp: queued_def links_only_eqs(2) [OF lo] xs zs_def split: if_splits)
    with sched_invD(3,4) [OF inv j(1)] far [OF False nz] show ?thesis by simp
  qed
  have "sched_inv t" and "\<And>k'. valid_priority k' \<Longrightarrow> run_queue t k' = ?Q k'"
    using sched_invI [of t ?Q, OF q _ u] sched_invD(2,5) [OF inv]
    by (simp_all add: links_only_eqs(2,3) [OF lo])
  with ret lo qr show ?thesis by auto
qed

section \<open>Requeueing\<close>

definition requeue :: "nat \<Rightarrow> bool \<Rightarrow> nat list \<Rightarrow> nat list" where
  "requeue i run xs = (let ys = q_remove i xs in if run then ys @ [i] else ys)"

lemma run_queue_distinct:
  assumes "sched_inv s" and "valid_priority k"
  shows "distinct (run_queue s k)"
proof (cases "process_queues s k")
  case None
  then show ?thesis by (simp add: run_queue_def)
next
  case (Some h)
  with sched_invD(1) [OF assms] show ?thesis by (auto simp: queue_ok_def dest: ring_distinct)
qed

lemma adjust_refines:
  assumes inv: "sched_inv s" and i: "i < NR_PROC"
  defines "k \<equiv> priority (process_table s i)"
  shows "\<exists>t. adjust_proc_queues i s = Ret t \<and> sched_inv t \<and> links_only s t \<and>
           (\<forall>k'. valid_priority k' \<longrightarrow>
              run_queue t k' = (if k' = k then requeue i (runnable (process_table s i)) (run_queue s k)
                                else run_queue s k'))"
proof -
  have vk: "valid_priority k" unfolding k_def by (rule sched_invD(2) [OF inv i])
  have "\<exists>u. (if IN_A_QUEUE (process_table s i) then remove_from_queue i s else Ret s) = Ret u \<and>
      sched_inv u \<and> links_only s u \<and> (\<forall>k'. valid_priority k' \<longrightarrow>
        run_queue u k' = (if k' = k then q_remove i (run_queue s k) else run_queue s k'))"
  proof (cases "queued s i")
    case True
    then have "IN_A_QUEUE (process_table s i)" using queued_iff_in_a_queue [OF inv i] by simp
    with remove_from_queue_refines [OF inv i True, folded k_def] show ?thesis by (simp only: if_True)
  next
    case False
    then have "q_remove i (run_queue s k) = run_queue s k"
      by (simp add: q_remove_def queued_def k_def)
    with False inv queued_iff_in_a_queue [OF inv i] show ?thesis by auto
  qed
  then obtain u where u: "(if IN_A_QUEUE (process_table s i) then remove_from_queue i s else Ret s) = Ret u"
    and iu: "sched_inv u" and lu: "links_only s u"
    and qu: "\<And>k'. valid_priority k' \<Longrightarrow>
        run_queue u k' = (if k' = k then q_remove i (run_queue s k) else run_queue s k')"
    by blast
  have pu: "priority (process_table u i) = k" using links_only_eqs(2) [OF lu] by (simp add: k_def)
  have nq: "\<not> queued u i"
    using qu [OF vk] set_q_remove [OF run_queue_distinct [OF inv vk]] by (simp add: queued_def pu)
  show ?thesis
  proof (cases "runnable (process_table s i)")
    case True
    then have run: "state (process_table u i) = PROC_RUNNABLE \<or> state (process_table u i) = PROC_RUNNING"
      using links_only_eqs(1) [OF lu] by (simp add: runnable_def)
    from add_to_queue_refines [OF iu i nq] obtain t where t: "add_to_queue i u = Ret t" "sched_inv t"
      "links_only u t" "\<And>k'. valid_priority k' \<Longrightarrow>
         run_queue t k' = (if k' = k then run_queue u k @ [i] else run_queue u k')"
      by (auto simp: pu)
    have "adjust_proc_queues i s = Ret t"
      using u t(1) run by (simp add: adjust_proc_queues_def)
    with t(2) links_only_trans [OF lu t(3)] t(4) qu vk True show ?thesis
      by (auto simp: requeue_def)
  next
    case False
    then have "adjust_proc_queues i s = Ret u"
      using u links_only_eqs(1) [OF lu] by (simp add: adjust_proc_queues_def runnable_def)
    with iu lu qu False show ?thesis by (auto simp: requeue_def)
  qed
qed

text \<open>
  After \<^verbatim>\<open>adjust_proc_queues\<close> on a process whose state was just changed, every process is queued
  exactly when it may run, provided this held for all the others.
\<close>

lemma adjust_restores_wf:
  assumes inv: "sched_inv s" and i: "i < NR_PROC"
    and others: "\<And>j. j < NR_PROC \<Longrightarrow> j \<noteq> i \<Longrightarrow> queued s j \<longleftrightarrow> runnable (process_table s j)"
    and idle: "runnable (process_table s 0)"
  shows "\<exists>t. adjust_proc_queues i s = Ret t \<and> sched_wf t \<and> links_only s t"
proof -
  let ?k = "priority (process_table s i)"
  from adjust_refines [OF inv i] obtain t where t: "adjust_proc_queues i s = Ret t" "sched_inv t"
    "links_only s t" and q: "\<And>k'. valid_priority k' \<Longrightarrow>
       run_queue t k' = (if k' = ?k then requeue i (runnable (process_table s i)) (run_queue s ?k)
                         else run_queue s k')" by auto
  have vk: "valid_priority ?k" by (rule sched_invD(2) [OF inv i])
  have "queued t j \<longleftrightarrow> runnable (process_table t j)" if j: "j < NR_PROC" for j
  proof -
    have vj: "valid_priority (priority (process_table s j))" by (rule sched_invD(2) [OF inv j])
    have "queued t j \<longleftrightarrow> (if j = i then runnable (process_table s i) else queued s j)"
      using q [OF vj] q [OF vk] set_q_remove [OF run_queue_distinct [OF inv vk]]
      by (auto simp: queued_def links_only_eqs(2) [OF t(3)] requeue_def Let_def)
    with others [OF j] show ?thesis by (auto simp: links_only_eqs(4) [OF t(3)])
  qed
  with t idle show ?thesis by (auto simp: sched_wf_def links_only_eqs(4) [OF t(3)])
qed

section \<open>Updates that leave the queues alone\<close>

definition keeps_links :: "(process \<Rightarrow> process) \<Rightarrow> bool" where
  "keeps_links f \<longleftrightarrow> (\<forall>p. queue_next (f p) = queue_next p \<and> queue_prev (f p) = queue_prev p
     \<and> priority (f p) = priority p)"

lemma upd_proc_simps [simp]:
  "process_queues (upd_proc i f s) = process_queues s"
  "current_process (upd_proc i f s) = current_process s"
  "timer_ticks (upd_proc i f s) = timer_ticks s"
  "process_table (upd_proc i f s) j = (if j = i then f (process_table s j) else process_table s j)"
  by (simp_all add: upd_proc_def)

lemma sched_inv_cong:
  assumes "process_queues t = process_queues s" and "qn t = qn s" and "qp t = qp s"
    and "\<And>j. priority (process_table t j) = priority (process_table s j)"
  shows "run_queue t = run_queue s"
    and "queued t j = queued s j"
    and "current_process t < NR_PROC \<Longrightarrow> sched_inv s \<Longrightarrow> sched_inv t"
proof -
  show rq: "run_queue t = run_queue s" unfolding run_queue_def assms(1,2) ..
  show "queued t j = queued s j" by (simp add: queued_def rq assms)
  have qk: "queue_ok t k xs = queue_ok s k xs" for k xs
    unfolding queue_ok_def assms(1-3) by (simp add: assms(4) split: option.split)
  show "current_process t < NR_PROC \<Longrightarrow> sched_inv s \<Longrightarrow> sched_inv t"
    by (simp add: sched_inv_def qk rq assms fun_cong [OF assms(2)] fun_cong [OF assms(3)])
qed

lemma keeps_links_upd:
  assumes "keeps_links f"
  shows "run_queue (upd_proc i f s) = run_queue s"
    and "queued (upd_proc i f s) j = queued s j"
    and "sched_inv (upd_proc i f s) \<longleftrightarrow> sched_inv s"
proof -
  have e: "process_queues (upd_proc i f s) = process_queues s"
    "qn (upd_proc i f s) = qn s" "qp (upd_proc i f s) = qp s"
    "\<And>j. priority (process_table (upd_proc i f s) j) = priority (process_table s j)"
    using assms by (auto simp: keeps_links_def)
  note c = sched_inv_cong [OF e] and c' = sched_inv_cong [OF e [symmetric]]
  show "run_queue (upd_proc i f s) = run_queue s" "queued (upd_proc i f s) j = queued s j"
    by (rule c)+
  show "sched_inv (upd_proc i f s) \<longleftrightarrow> sched_inv s"
    using c(3) c'(3) sched_invD(5) by (metis upd_proc_simps(2))
qed

lemma sched_wf_upd:
  assumes "sched_wf s" and "keeps_links f" and "\<And>p. state (f p) = state p"
  shows "sched_wf (upd_proc i f s)"
  using assms(1,3) by (auto simp: sched_wf_def runnable_def keeps_links_upd [OF assms(2)])

lemma sched_wfD:
  assumes "sched_wf s"
  shows "sched_inv s" and "i < NR_PROC \<Longrightarrow> queued s i \<longleftrightarrow> runnable (process_table s i)"
    and "runnable (process_table s 0)" and "current_process s < NR_PROC"
  using assms sched_invD(5) by (auto simp: sched_wf_def)

text \<open>Changing the state of one process and requeueing it keeps the table well formed.\<close>

lemma set_and_adjust:
  assumes wf: "sched_wf s" and i: "i < NR_PROC" and f: "keeps_links f"
    and idle: "i = 0 \<Longrightarrow> runnable (f (process_table s 0))"
  shows "\<exists>t. adjust_proc_queues i (upd_proc i f s) = Ret t \<and> sched_wf t \<and> links_only (upd_proc i f s) t"
proof (rule adjust_restores_wf)
  show "sched_inv (upd_proc i f s)" using sched_wfD(1) [OF wf] by (simp add: keeps_links_upd(3) [OF f])
  show "i < NR_PROC" by (rule i)
  show "queued (upd_proc i f s) j \<longleftrightarrow> runnable (process_table (upd_proc i f s) j)"
    if "j < NR_PROC" "j \<noteq> i" for j
    using that sched_wfD(2) [OF wf that(1)] by (simp add: keeps_links_upd(2) [OF f])
  show "runnable (process_table (upd_proc i f s) 0)" using idle sched_wfD(3) [OF wf] by simp
qed

section \<open>The scheduler's scan and choice\<close>

text \<open>Nothing but the processes of \<open>J\<close>, the links and the queue heads differ.\<close>

definition same_ctx :: "nat set \<Rightarrow> 'a sched_state_scheme \<Rightarrow> 'a sched_state_scheme \<Rightarrow> bool" where
  "same_ctx J s t \<longleftrightarrow> current_process t = current_process s \<and> timer_ticks t = timer_ticks s \<and>
     startup_time t = startup_time s \<and> last_pid t = last_pid s \<and> sched_state.more t = sched_state.more s \<and>
     (\<forall>i. i \<notin> J \<longrightarrow> strip_links (process_table t i) = strip_links (process_table s i))"

lemma same_ctx_rules:
  "same_ctx J s s" "same_ctx J s t \<Longrightarrow> same_ctx J t u \<Longrightarrow> same_ctx J s u"
  "links_only s t \<Longrightarrow> same_ctx J s t" "i \<in> J \<Longrightarrow> same_ctx J s (upd_proc i f s)"
  by (auto simp: same_ctx_def links_only_def upd_proc_def)

lemma schedule_scan_wf:
  assumes wf: "sched_wf s" and i: "i < NR_PROC"
  shows "\<exists>t. schedule_scan i s = Ret t \<and> sched_wf t \<and> same_ctx {i} s t"
proof -
  define s1 where "s1 = (if alarm (process_table s i) \<noteq> NO_ALARM \<and> alarm (process_table s i) < timer_ticks s
     then upd_proc i (\<lambda>p. p\<lparr>sigpending := sigpending p OR push_bit (nat (SIGALRM - 1)) 1,
                           alarm := NO_ALARM\<rparr>) s else s)"
  have s1: "sched_wf s1" "same_ctx {i} s s1"
    using wf by (auto simp: s1_def keeps_links_def same_ctx_rules intro!: sched_wf_upd)
  have wake: "\<exists>t. adjust_proc_queues i (set_state i PROC_RUNNABLE u) = Ret t \<and> sched_wf t \<and> same_ctx {i} u t"
    if "sched_wf u" for u
  proof -
    let ?f = "\<lambda>p. p\<lparr>state := PROC_RUNNABLE\<rparr>"
    have "keeps_links ?f" by (simp add: keeps_links_def)
    from set_and_adjust [OF that i this] obtain t where
      "adjust_proc_queues i (upd_proc i ?f u) = Ret t" "sched_wf t" "links_only (upd_proc i ?f u) t"
      by (auto simp: runnable_def)
    moreover from this(3) have "same_ctx {i} u t"
      by (rule same_ctx_rules(2) [OF same_ctx_rules(4) [OF singletonI] same_ctx_rules(3)])
    ultimately show ?thesis by (simp add: set_state_def)
  qed
  define b1 where "b1 = (tty_block (process_table s1 i) \<noteq> NO_TTY_BLOCK
     \<and> tty_block (process_table s1 i) < timer_ticks s1)"
  have "\<exists>s2. (if b1 then bindk (adjust_proc_queues i (set_state i PROC_RUNNABLE s1))
       (\<lambda>s. Ret (upd_proc i (\<lambda>p. p\<lparr>tty_block := NO_TTY_BLOCK\<rparr>) s)) else Ret s1) = Ret s2
     \<and> sched_wf s2 \<and> same_ctx {i} s1 s2"
  proof (cases b1)
    case True
    from wake [OF s1(1)] obtain u where u: "adjust_proc_queues i (set_state i PROC_RUNNABLE s1) = Ret u"
      "sched_wf u" "same_ctx {i} s1 u" by blast
    have "sched_wf (upd_proc i (\<lambda>p. p\<lparr>tty_block := NO_TTY_BLOCK\<rparr>) u)"
      by (rule sched_wf_upd [OF u(2)]) (simp_all add: keeps_links_def)
    moreover have "same_ctx {i} s1 (upd_proc i (\<lambda>p. p\<lparr>tty_block := NO_TTY_BLOCK\<rparr>) u)"
      using same_ctx_rules(2) [OF u(3) same_ctx_rules(4)] by simp
    ultimately show ?thesis using u(1) True by simp
  next
    case False
    with s1 show ?thesis by (simp add: same_ctx_rules)
  qed
  then obtain s2 where s2: "(if b1 then bindk (adjust_proc_queues i (set_state i PROC_RUNNABLE s1))
       (\<lambda>s. Ret (upd_proc i (\<lambda>p. p\<lparr>tty_block := NO_TTY_BLOCK\<rparr>) s)) else Ret s1) = Ret s2"
    "sched_wf s2" "same_ctx {i} s1 s2" by blast
  have eq: "schedule_scan i s =
      (if state (process_table s2 i) = PROC_SLEEP_INTERRUPTIBLE \<and> sigpending (process_table s2 i) \<noteq> 0
       then adjust_proc_queues i (set_state i PROC_RUNNABLE s2) else Ret s2)"
    unfolding schedule_scan_def Let_def s1_def [symmetric] b1_def [symmetric] s2(1) by simp
  show ?thesis
  proof (cases "state (process_table s2 i) = PROC_SLEEP_INTERRUPTIBLE \<and> sigpending (process_table s2 i) \<noteq> 0")
    case True
    with wake [OF s2(2)] s2(3) s1(2) show ?thesis
      unfolding eq by (metis same_ctx_rules(2))
  next
    case False
    with s2(2,3) s1(2) show ?thesis unfolding eq by (metis same_ctx_rules(2))
  qed
qed

lemma highest_queue_Some:
  assumes "process_queues s k = Some h" and "valid_priority k"
  obtains i l where "highest_queue s = Some i" "process_queues s l = Some i" "valid_priority l"
    "\<And>m. valid_priority m \<Longrightarrow> l < m \<Longrightarrow> process_queues s m = None"
proof -
  let ?ks = "rev [LOWEST_PRIORITY..HIGHEST_PRIORITY]"
  let ?P = "\<lambda>k. process_queues s k \<noteq> None"
  have lst: "?ks = [9, 8, 7, 6, 5, 4, 3, 2, 1, 0]" by (simp add: upto.simps)
  have inks: "m \<in> set ?ks \<longleftrightarrow> valid_priority m" for m
    by (auto simp: valid_priority_def)
  have "List.find ?P ?ks \<noteq> None"
    using assms inks by (auto simp: find_None_iff)
  then obtain l where l: "List.find ?P ?ks = Some l" by blast
  then obtain j where j: "j < length ?ks" "?P (?ks ! j)" "l = ?ks ! j" "\<forall>i<j. \<not> ?P (?ks ! i)"
    by (auto simp: find_Some_iff)
  obtain i where i: "process_queues s l = Some i" using j by auto
  have vl: "valid_priority l" using j inks nth_mem by blast
  have desc: "\<forall>a<length ?ks. ?ks ! a = 9 - int a"
    unfolding lst by (simp add: nth_Cons split: nat.splits)
  have "process_queues s m = None" if "valid_priority m" "l < m" for m
  proof -
    from that obtain a where a: "a < length ?ks" "?ks ! a = m" using inks by (metis in_set_conv_nth)
    with desc j(1,3) that(2) have "a < j" by simp
    with j(4) a show ?thesis by blast
  qed
  with l i vl that show ?thesis by (simp add: highest_queue_def)
qed

lemma same_ctx_mono: "same_ctx I s t \<Longrightarrow> I \<subseteq> J \<Longrightarrow> same_ctx J s t"
  by (auto simp: same_ctx_def)

text \<open>A process that has no alarm and no terminal timeout due and no signal to wake it up for.\<close>

definition quiet :: "'a sched_state_scheme \<Rightarrow> nat \<Rightarrow> bool" where
  "quiet s i \<longleftrightarrow> (let p = process_table s i in
     \<not> (alarm p \<noteq> NO_ALARM \<and> alarm p < timer_ticks s) \<and>
     \<not> (tty_block p \<noteq> NO_TTY_BLOCK \<and> tty_block p < timer_ticks s) \<and>
     \<not> (state p = PROC_SLEEP_INTERRUPTIBLE \<and> sigpending p \<noteq> 0))"

lemma quiet_cong:
  assumes "strip_links (process_table t i) = strip_links (process_table s i)"
    and "timer_ticks t = timer_ticks s"
  shows "quiet t i = quiet s i"
proof -
  have "alarm (process_table t i) = alarm (process_table s i)"
    "tty_block (process_table t i) = tty_block (process_table s i)"
    "state (process_table t i) = state (process_table s i)"
    "sigpending (process_table t i) = sigpending (process_table s i)"
    using arg_cong [OF assms(1), of alarm] arg_cong [OF assms(1), of tty_block]
      arg_cong [OF assms(1), of state] arg_cong [OF assms(1), of sigpending]
    by (simp_all add: strip_links_def)
  with assms(2) show ?thesis by (simp add: quiet_def Let_def)
qed

lemma schedule_scan_quiet: "quiet s i \<Longrightarrow> schedule_scan i s = Ret s"
  by (auto simp: quiet_def schedule_scan_def Let_def)

lemma scan_all_wf:
  assumes "sched_wf s"
  shows "\<exists>t. foldk schedule_scan [0..<NR_PROC] s = Ret t \<and> sched_wf t \<and> same_ctx {i. \<not> quiet s i} s t"
proof (rule foldk_returns [of "\<lambda>t. sched_wf t \<and> same_ctx {i. \<not> quiet s i} s t"])
  show "sched_wf s \<and> same_ctx {i. \<not> quiet s i} s s" using assms by (simp add: same_ctx_rules)
  show "\<exists>v. schedule_scan i u = Ret v \<and> sched_wf v \<and> same_ctx {i. \<not> quiet s i} s v"
    if i: "i \<in> set [0..<NR_PROC]" and u: "sched_wf u \<and> same_ctx {i. \<not> quiet s i} s u" for i u
  proof (cases "quiet s i")
    case True
    with u have "quiet u i" using quiet_cong [of u i s] by (simp add: same_ctx_def)
    with u show ?thesis by (simp add: schedule_scan_quiet)
  next
    case False
    from schedule_scan_wf [of u i] i u obtain v where
      v: "schedule_scan i u = Ret v" "sched_wf v" "same_ctx {i} u v" by auto
    from same_ctx_mono [OF v(3), of "{i. \<not> quiet s i}"] False
    have "same_ctx {i. \<not> quiet s i} u v" by simp
    with v u same_ctx_rules(2) show ?thesis by blast
  qed
qed

text \<open>The process at the head of the highest queue that is not empty.\<close>

definition is_choice :: "'a sched_state_scheme \<Rightarrow> nat \<Rightarrow> bool" where
  "is_choice s i \<longleftrightarrow> (\<exists>k xs. valid_priority k \<and> run_queue s k = i # xs \<and>
     (\<forall>m. valid_priority m \<and> k < m \<longrightarrow> run_queue s m = []))"

lemma set_state_current:
  assumes "sched_wf t" and "i < NR_PROC" and "runnable (process_table t i)"
  defines "u \<equiv> (set_state i PROC_RUNNING t)\<lparr>current_process := i\<rparr>"
  shows "sched_wf u" and "run_queue u = run_queue t"
proof -
  let ?v = "set_state i PROC_RUNNING t"
  have k: "keeps_links (\<lambda>p. p\<lparr>state := PROC_RUNNING\<rparr>)" by (simp add: keeps_links_def)
  note v = keeps_links_upd [OF k, of i t, folded set_state_def]
  have e: "process_queues u = process_queues ?v" "qn u = qn ?v" "qp u = qp ?v"
    "\<And>j. priority (process_table u j) = priority (process_table ?v j)"
    by (simp_all add: u_def)
  show "run_queue u = run_queue t" using sched_inv_cong(1) [OF e] v(1) by simp
  have iu: "sched_inv u"
    using sched_inv_cong(3) [OF e] v(3) sched_wfD(1) [OF assms(1)] assms(2) by (simp add: u_def)
  have "queued u j = queued t j" for j using sched_inv_cong(2) [OF e] v(2) by simp
  moreover have "runnable (process_table u j) = runnable (process_table t j)" for j
    using assms(3) by (simp add: u_def set_state_def runnable_def)
  ultimately show "sched_wf u"
    using iu sched_wfD(2,3) [OF assms(1)] by (simp add: sched_wf_def)
qed

lemma schedule_wf:
  assumes "sched_wf s"
  shows "\<exists>t u. same_ctx {i. \<not> quiet s i} s u \<and> schedule s = Ret t \<and> sched_wf t \<and>
           is_choice t (current_process t) \<and> state (cur t) = PROC_RUNNING \<and>
           runnable (process_table u (current_process t)) \<and>
           t = (set_state (current_process t) PROC_RUNNING u)\<lparr>current_process := current_process t\<rparr>"
proof -
  from scan_all_wf [OF assms] obtain u where u: "foldk schedule_scan [0..<NR_PROC] s = Ret u"
    and wf: "sched_wf u" and ctx: "same_ctx {i. \<not> quiet s i} s u" by blast
  let ?k0 = "priority (process_table u 0)"
  have v0: "valid_priority ?k0" using sched_invD(2) [OF sched_wfD(1) [OF wf], of 0] by simp
  have "queued u 0" using sched_wfD(2,3) [OF wf] by simp
  then have "process_queues u ?k0 \<noteq> None"
    by (cases "process_queues u ?k0") (auto simp: queued_def run_queue_def)
  then obtain h where h: "process_queues u ?k0 = Some h" by blast
  obtain i l where il: "highest_queue u = Some i" "process_queues u l = Some i" "valid_priority l"
    "\<And>m. valid_priority m \<Longrightarrow> l < m \<Longrightarrow> process_queues u m = None"
    using highest_queue_Some [OF h v0] by metis
  have "queue_ok u l (run_queue u l)" by (rule sched_invD(1) [OF sched_wfD(1) [OF wf] il(3)])
  with il(2) have rl: "ring (qn u) (qp u) (run_queue u l)" "hd (run_queue u l) = i"
    by (simp_all add: queue_ok_def)
  then obtain xs where xs: "run_queue u l = i # xs" by (cases "run_queue u l") auto
  have il': "i < NR_PROC" "priority (process_table u i) = l"
    using run_queue_mem [OF sched_wfD(1) [OF wf] il(3), of i] xs by simp_all
  have run: "runnable (process_table u i)"
    using sched_wfD(2) [OF wf il'(1)] xs il'(2) by (simp add: queued_def)
  let ?t = "(set_state i PROC_RUNNING u)\<lparr>current_process := i\<rparr>"
  note t = set_state_current [OF wf il'(1) run]
  have "schedule s = Ret ?t" using u il(1) by (simp add: schedule_def)
  moreover have "is_choice ?t i"
    unfolding is_choice_def t(2) using xs il(3,4) by (auto simp: run_queue_def)
  ultimately show ?thesis using t(1) ctx run
    by (intro exI [of _ ?t] exI [of _ u]) (simp add: set_state_def)
qed

lemma schedule_picks_ok:
  "sched_wf s \<Longrightarrow> \<exists>t. schedule s = Ret t \<and> sched_wf t \<and> is_choice t (current_process t)"
  using schedule_wf by blast

text \<open>
  C1. \<^verbatim>\<open>schedule\<close> always returns on a well-formed process table, keeps it well formed, and gives the
  processor to the head of the highest-priority queue that is not empty, which it marks running.
\<close>

theorem schedule_picks_highest:
  assumes "sched_wf s"
  shows "\<exists>t. schedule s = Ret t \<and> sched_wf t \<and> is_choice t (current_process t) \<and>
           state (cur t) = PROC_RUNNING"
  using schedule_wf [OF assms] by blast

text \<open>
  C2. \<^verbatim>\<open>adjust_proc_queues\<close> refines the list operation \<open>requeue\<close> on the queue of the process and
  leaves every other queue and every field but the links alone.
\<close>

theorem adjust_refines_requeue:
  assumes "sched_inv s" and "i < NR_PROC" and "valid_priority k"
  shows "\<exists>t. adjust_proc_queues i s = Ret t \<and> sched_inv t \<and> links_only s t \<and>
           run_queue t k = (if k = priority (process_table s i)
                            then requeue i (runnable (process_table s i)) (run_queue s k)
                            else run_queue s k)"
  using adjust_refines [OF assms(1,2)] assms(3) by fastforce

section \<open>Sleeping and waking\<close>

text \<open>
  C3. A process that calls \<^verbatim>\<open>sleep\<close> leaves the run queues: unless a signal, an alarm or a terminal
  timeout is already due for it, it is still asleep on its channel when the next process has been
  chosen, the next process is another one, and the table is well formed.
\<close>

theorem sleep_suspends:
  assumes wf: "sched_wf s" and c: "current_process s \<noteq> 0"
    and ty: "ty = PROC_SLEEP_INTERRUPTIBLE \<or> ty = PROC_SLEEP_UNINTERRUPTIBLE"
    and q: "quiet (upd_proc (current_process s) (\<lambda>p. p\<lparr>state := ty\<rparr>) s) (current_process s)"
  shows "\<exists>t. sleep addr ty s = Ret t \<and> sched_wf t \<and> current_process t \<noteq> current_process s \<and>
           state (process_table t (current_process s)) = ty \<and>
           sleeping_on (process_table t (current_process s)) = addr \<and>
           \<not> queued t (current_process s)"
proof -
  let ?i = "current_process s"
  let ?f = "\<lambda>p. p\<lparr>state := ty, sleeping_on := addr\<rparr>"
  let ?s = "upd_proc ?i ?f s"
  have i: "?i < NR_PROC" by (rule sched_wfD(4) [OF wf])
  have "keeps_links ?f" by (simp add: keeps_links_def)
  from set_and_adjust [OF wf i this] c obtain u where
    u: "adjust_proc_queues ?i ?s = Ret u" "sched_wf u" "links_only ?s u" by auto
  have su: "strip_links (process_table u ?i) = strip_links (?f (process_table s ?i))"
    using u(3) by (simp add: links_only_def)
  have tu: "timer_ticks u = timer_ticks s" using u(3) by (simp add: links_only_def)
  have "quiet ?s ?i" using q by (simp add: quiet_def Let_def)
  then have qu: "quiet u ?i" using quiet_cong [of u ?i ?s] su tu by simp
  from schedule_wf [OF u(2)] obtain t v where tv: "same_ctx {i. \<not> quiet u i} u v" "schedule u = Ret t"
    "sched_wf t" "runnable (process_table v (current_process t))"
    "t = (set_state (current_process t) PROC_RUNNING v)\<lparr>current_process := current_process t\<rparr>" by blast
  have sv: "strip_links (process_table v ?i) = strip_links (?f (process_table s ?i))"
    using tv(1) qu su by (simp add: same_ctx_def)
  have fv: "state (process_table v ?i) = ty" "sleeping_on (process_table v ?i) = addr"
    using arg_cong [OF sv, of state] arg_cong [OF sv, of sleeping_on] by (simp_all add: strip_links_def)
  have ne: "current_process t \<noteq> ?i" using tv(4) fv(1) ty by (auto simp: runnable_def)
  have ti: "process_table t ?i = process_table v ?i"
    using tv(5) ne by (metis (no_types, lifting) sched_state.select_convs(1) sched_state.surjective
        sched_state.update_convs(2) set_state_def upd_proc_simps(4))
  have "\<not> queued t ?i"
    using sched_wfD(2) [OF tv(3) i] fv(1) ty by (auto simp: ti runnable_def)
  moreover have "sleep addr ty s = Ret t" using u(1) tv(2) c ty by (auto simp: sleep_def Let_def)
  ultimately show ?thesis using tv(3) ne fv ti by auto
qed

definition waits_on :: "u32 \<Rightarrow> process \<Rightarrow> bool" where
  "waits_on addr p \<longleftrightarrow> PROC_SLEEPING p \<and> sleeping_on p = addr"

abbreviation woken :: "process \<Rightarrow> process" where
  "woken p \<equiv> p\<lparr>state := PROC_RUNNABLE, sleeping_on := 0\<rparr>"

lemma waits_on_cong: "strip_links p = strip_links q \<Longrightarrow> waits_on addr p = waits_on addr q"
proof -
  assume e: "strip_links p = strip_links q"
  have "state p = state q" "sleeping_on p = sleeping_on q"
    using arg_cong [OF e, of state] arg_cong [OF e, of sleeping_on] by (simp_all add: strip_links_def)
  then show ?thesis by (simp add: waits_on_def PROC_SLEEPING_def)
qed

lemma strip_links_upd_cong:
  "strip_links p = strip_links q \<Longrightarrow> strip_links (woken p) = strip_links (woken q)"
proof -
  assume "strip_links p = strip_links q"
  moreover have "strip_links (woken r) = woken (strip_links r)" for r
    by (cases r) (simp add: strip_links_def)
  ultimately show ?thesis by simp
qed

text \<open>The loop of \<^verbatim>\<open>wakeup\<close> after the first \<open>n\<close> slots.\<close>

lemma wakeup_loop:
  assumes wf: "sched_wf s" and "n \<le> NR_PROC"
  shows "\<exists>u. foldk (wakeup_scan addr) [0..<n] (False, s) = Ret (\<exists>i<n. waits_on addr (process_table s i), u)
      \<and> sched_wf u \<and> same_ctx UNIV s u
      \<and> (\<forall>i. strip_links (process_table u i) =
             strip_links (if i < n \<and> waits_on addr (process_table s i) then woken (process_table s i)
                          else process_table s i))"
  using assms(2)
proof (induction n)
  case 0
  with wf show ?case by (simp add: same_ctx_rules)
next
  case (Suc n)
  then obtain u where u: "foldk (wakeup_scan addr) [0..<n] (False, s) = Ret (\<exists>i<n. waits_on addr (process_table s i), u)"
    "sched_wf u" "same_ctx UNIV s u"
    "\<And>i. strip_links (process_table u i) =
       strip_links (if i < n \<and> waits_on addr (process_table s i) then woken (process_table s i)
                    else process_table s i)" by auto
  have step: "foldk (wakeup_scan addr) [0..<Suc n] (False, s) =
      wakeup_scan addr n (\<exists>i<n. waits_on addr (process_table s i), u)"
    using u(1) by (simp add: foldk_append)
  have un: "strip_links (process_table u n) = strip_links (process_table s n)" using u(4) [of n] by simp
  have w: "waits_on addr (process_table u n) = waits_on addr (process_table s n)"
    by (rule waits_on_cong [OF un])
  show ?case
  proof (cases "waits_on addr (process_table s n)")
    case False
    then have "foldk (wakeup_scan addr) [0..<Suc n] (False, s) =
        Ret (\<exists>i<Suc n. waits_on addr (process_table s i), u)"
      using w unfolding step wakeup_scan_def waits_on_def by (auto simp: less_Suc_eq)
    with u(2,3) False u(4) show ?thesis by (auto simp: less_Suc_eq)
  next
    case True
    have "keeps_links woken" by (simp add: keeps_links_def)
    from set_and_adjust [OF u(2) _ this, of n] Suc.prems obtain v where
      v: "adjust_proc_queues n (upd_proc n woken u) = Ret v" "sched_wf v"
         "links_only (upd_proc n woken u) v" by (auto simp: runnable_def)
    have "foldk (wakeup_scan addr) [0..<Suc n] (False, s) =
        Ret (\<exists>i<Suc n. waits_on addr (process_table s i), v)"
      using w True v(1) unfolding step wakeup_scan_def waits_on_def by (auto simp: less_Suc_eq)
    moreover have "same_ctx UNIV s v"
      using same_ctx_rules(2) [OF u(3) same_ctx_rules(2) [OF same_ctx_rules(4) same_ctx_rules(3) [OF v(3)]]]
      by simp
    moreover have "strip_links (process_table v i) =
        strip_links (if i < Suc n \<and> waits_on addr (process_table s i) then woken (process_table s i)
                     else process_table s i)" for i
    proof -
      have "strip_links (process_table v i) = strip_links (if i = n then woken (process_table u i) else process_table u i)"
        using v(3) by (simp add: links_only_def)
      then show ?thesis
        using u(4) [of i] un True strip_links_upd_cong [OF un] by (auto simp: less_Suc_eq)
    qed
    ultimately show ?thesis using v(2) by blast
  qed
qed

text \<open>
  C5. \<^verbatim>\<open>wakeup(addr, WAKEUP_RETURN)\<close> makes every process that sleeps on the channel runnable and
  queues it, changes no other process but for its queue links, does not switch, and never stops.
\<close>

theorem wakeup_wakes_exactly_the_sleepers:
  assumes "sched_wf s"
  shows "\<exists>t. wakeup addr WAKEUP_RETURN s = Ret t \<and> sched_wf t \<and>
           current_process t = current_process s \<and>
           (\<forall>i<NR_PROC. strip_links (process_table t i) =
              strip_links (if waits_on addr (process_table s i) then woken (process_table s i)
                           else process_table s i)) \<and>
           (\<forall>i<NR_PROC. waits_on addr (process_table s i) \<longrightarrow> queued t i)"
proof -
  from wakeup_loop [OF assms, of NR_PROC addr] obtain b u where
    u: "foldk (wakeup_scan addr) [0..<NR_PROC] (False, s) = Ret (b, u)" "sched_wf u" "same_ctx UNIV s u"
    "\<And>i. i < NR_PROC \<Longrightarrow> strip_links (process_table u i) =
       strip_links (if waits_on addr (process_table s i) then woken (process_table s i)
                    else process_table s i)" by auto
  have "wakeup addr WAKEUP_RETURN s = Ret u" using u(1) by (simp add: wakeup_def)
  moreover have "queued u i" if "i < NR_PROC" "waits_on addr (process_table s i)" for i
  proof -
    have "state (process_table u i) = PROC_RUNNABLE"
      using arg_cong [OF u(4) [OF that(1)], of state] that(2) by (simp add: strip_links_def)
    with sched_wfD(2) [OF u(2) that(1)] show ?thesis by (simp add: runnable_def)
  qed
  ultimately show ?thesis using u(2,3,4) by (auto simp: same_ctx_def)
qed

lemma wakeup_wf:
  assumes "sched_wf s"
  shows "\<exists>t. wakeup addr ret s = Ret t \<and> sched_wf t"
proof -
  from wakeup_loop [OF assms, of NR_PROC addr] obtain b u where
    u: "foldk (wakeup_scan addr) [0..<NR_PROC] (False, s) = Ret (b, u)" "sched_wf u" by auto
  with schedule_picks_ok [OF u(2)] show ?thesis by (auto simp: wakeup_def)
qed

section \<open>Timer ticks\<close>


section \<open>Priorities\<close>

text \<open>
  C40. Every nice value maps to an index of the queue array, and a larger nice value never to a
  higher priority.
\<close>

theorem nice_to_pri_bounds:
  assumes "-20 \<le> n" and "n \<le> m" and "m \<le> 19"
  shows "LOWEST_PRIORITY \<le> nice_to_pri m \<and> nice_to_pri m \<le> nice_to_pri n
    \<and> nice_to_pri n \<le> HIGHEST_PRIORITY"
proof -
  have e: "nice_to_pri x = (if 0 \<le> x then 4 - x div 4 else 4 + (- x) div 4)" for x
    by (cases "x = 0") (simp_all add: nice_to_pri_def c_div_def sgn_if)
  have "m div 4 \<le> 4" using zdiv_mono1 [of m 19 4] assms by simp
  moreover have "(- n) div 4 \<le> 5" using zdiv_mono1 [of "- n" 20 4] assms by simp
  moreover have "n div 4 \<le> m div 4" "(- m) div 4 \<le> (- n) div 4"
    using assms by (simp_all add: zdiv_mono1)
  moreover have "0 \<le> m \<Longrightarrow> 0 \<le> m div 4" "n < 0 \<Longrightarrow> 0 \<le> (- n) div 4" "0 \<le> n \<Longrightarrow> 0 \<le> n div 4"
    "m < 0 \<Longrightarrow> 0 \<le> (- m) div 4" by simp_all
  ultimately show ?thesis using assms unfolding e by (simp split: if_split) linarith
qed

section \<open>Concrete process tables\<close>

text \<open>The idle process and \<^verbatim>\<open>init\<close>, which runs; and a second user process beside it.\<close>

definition idle_proc :: process where
  "idle_proc = zero_process\<lparr>state := PROC_RUNNABLE, queue_next := Some 0, queue_prev := Some 0\<rparr>"

definition user_proc :: "nat \<Rightarrow> nat \<Rightarrow> nat \<Rightarrow> process" where
  "user_proc i nx pv = zero_process\<lparr>pid := int i, ppid := 1, priority := USER_PRIORITY,
     quanta := PROC_QUANTA, counter := PROC_QUANTA, state := PROC_RUNNABLE,
     queue_next := Some nx, queue_prev := Some pv\<rparr>"

definition one_user :: sched_state where
  "one_user = \<lparr>process_table = (\<lambda>_. zero_process)(0 := idle_proc, 1 := user_proc 1 1 1),
     current_process = 1, process_queues = (\<lambda>_. None)(0 := Some 0, 1 := Some 1),
     last_pid = 1, timer_ticks = 0, startup_time = 0\<rparr>"

definition two_users :: sched_state where
  "two_users = \<lparr>process_table = (\<lambda>_. zero_process)(0 := idle_proc, 1 := user_proc 1 2 2, 2 := user_proc 2 1 1),
     current_process = 1, process_queues = (\<lambda>_. None)(0 := Some 0, 1 := Some 1),
     last_pid = 2, timer_ticks = 0, startup_time = 0\<rparr>"

definition one_sleeper :: sched_state where
  "one_sleeper = \<lparr>process_table = (\<lambda>_. zero_process)(0 := idle_proc,
       1 := (user_proc 1 1 1)\<lparr>state := PROC_SLEEP_INTERRUPTIBLE, sleeping_on := 5,
                              queue_next := None, queue_prev := None\<rparr>),
     current_process = 0, process_queues = (\<lambda>_. None)(0 := Some 0),
     last_pid = 1, timer_ticks = 0, startup_time = 0\<rparr>"

lemma sched_wf_tableI:
  assumes q: "\<And>k. queue_ok s k (Q k)" and v: "\<And>i. valid_priority (priority (process_table s i))"
    and r: "\<And>i. i \<in> set (Q (priority (process_table s i))) \<longleftrightarrow> runnable (process_table s i)"
    and l: "\<And>i. \<not> runnable (process_table s i) \<Longrightarrow> qn s i = None \<and> qp s i = None"
    and c: "current_process s < NR_PROC" and z: "runnable (process_table s 0)"
  shows "sched_wf s"
proof -
  note inv = sched_invI [of s Q, OF q v _ c, unfolded r, OF l]
  then show ?thesis using r z v by (simp add: sched_wf_def queued_def)
qed

lemmas demo_defs = idle_proc_def user_proc_def zero_process_def

lemma demo_fields:
  "priority idle_proc = 0" "priority (user_proc i n p) = 1" "priority zero_process = 0"
  "state idle_proc = PROC_RUNNABLE" "state (user_proc i n p) = PROC_RUNNABLE" "state zero_process = PROC_EXITED"
  "queue_next idle_proc = Some 0" "queue_next (user_proc i n p) = Some n" "queue_next zero_process = None"
  "queue_prev idle_proc = Some 0" "queue_prev (user_proc i n p) = Some p" "queue_prev zero_process = None"
  by (simp_all add: demo_defs)

lemma one_user_fields:
  "process_table one_user i = (if i = 1 then user_proc 1 1 1 else if i = 0 then idle_proc else zero_process)"
  "process_queues one_user k = (if k = 1 then Some 1 else if k = 0 then Some 0 else None)"
  "current_process one_user = 1"
  by (simp_all add: one_user_def)

lemma two_users_fields:
  "process_table two_users i = (if i = 2 then user_proc 2 1 1 else if i = 1 then user_proc 1 2 2
     else if i = 0 then idle_proc else zero_process)"
  "process_queues two_users k = (if k = 1 then Some 1 else if k = 0 then Some 0 else None)"
  "current_process two_users = 1"
  by (simp_all add: two_users_def)

lemma one_sleeper_fields:
  "process_table one_sleeper i = (if i = 1 then (user_proc 1 1 1)\<lparr>state := PROC_SLEEP_INTERRUPTIBLE,
     sleeping_on := 5, queue_next := None, queue_prev := None\<rparr> else if i = 0 then idle_proc else zero_process)"
  "process_queues one_sleeper k = (if k = 0 then Some 0 else None)"
  "current_process one_sleeper = 0"
  by (simp_all add: one_sleeper_def)

lemma one_user_wf: "sched_wf one_user"
proof (rule sched_wf_tableI [where Q = "\<lambda>k. if k = 1 then [1] else if k = 0 then [0] else []"])
  show "queue_ok one_user k (if k = 1 then [1] else if k = 0 then [0] else [])" for k
    by (cases "k = 1"; cases "k = 0")
      (simp_all add: queue_ok_def one_user_fields ring_single demo_fields)
qed (auto simp: one_user_fields demo_fields valid_priority_def runnable_def split: if_splits)

lemma two_users_wf: "sched_wf two_users"
proof (rule sched_wf_tableI [where Q = "\<lambda>k. if k = 1 then [1, 2] else if k = 0 then [0] else []"])
  show "queue_ok two_users k (if k = 1 then [1, 2] else if k = 0 then [0] else [])" for k
    by (cases "k = 1"; cases "k = 0")
      (simp_all add: queue_ok_def two_users_fields ring_single demo_fields ring_def link_def)
qed (auto simp: two_users_fields demo_fields valid_priority_def runnable_def split: if_splits)

lemma one_sleeper_wf: "sched_wf one_sleeper"
proof (rule sched_wf_tableI [where Q = "\<lambda>k. if k = 0 then [0] else []"])
  show "queue_ok one_sleeper k (if k = 0 then [0] else [])" for k
    by (cases "k = 1"; cases "k = 0")
      (simp_all add: queue_ok_def one_sleeper_fields ring_single demo_fields)
qed (auto simp: one_sleeper_fields demo_fields valid_priority_def runnable_def split: if_splits)

lemmas demo_wf = one_user_wf two_users_wf one_sleeper_wf

theorem schedule_picks_highest_witness:
  "sched_wf two_users \<and> (\<exists>t. schedule two_users = Ret t \<and> sched_wf t \<and>
     is_choice t (current_process t) \<and> state (cur t) = PROC_RUNNING)"
  using schedule_picks_highest [OF two_users_wf] two_users_wf by simp

theorem adjust_refines_requeue_witness:
  "\<exists>t. adjust_proc_queues 1 two_users = Ret t \<and> sched_inv t \<and> run_queue t 1 = [2, 1]"
proof -
  have "run_queue two_users 1 = [1, 2]" by code_simp
  moreover have "process_table two_users 1 = user_proc 1 2 2" by (simp add: two_users_fields)
  ultimately show ?thesis
    using adjust_refines_requeue [of two_users 1 1] sched_wfD(1) [OF two_users_wf]
    by (auto simp: valid_priority_def demo_fields requeue_def q_remove_def runnable_def)
qed

theorem sleep_suspends_witness:
  "\<exists>t. sleep 5 PROC_SLEEP_INTERRUPTIBLE one_user = Ret t \<and> sched_wf t \<and> current_process t \<noteq> 1 \<and>
     state (process_table t 1) = PROC_SLEEP_INTERRUPTIBLE \<and> sleeping_on (process_table t 1) = 5"
proof -
  have "quiet (upd_proc (current_process one_user) (\<lambda>p. p\<lparr>state := PROC_SLEEP_INTERRUPTIBLE\<rparr>) one_user)
      (current_process one_user)"
    by (simp add: quiet_def one_user_fields one_user_def demo_defs)
  from sleep_suspends [OF one_user_wf _ _ this, of 5] show ?thesis by (auto simp: one_user_fields)
qed

theorem wakeup_wakes_exactly_the_sleepers_witness:
  "sched_wf one_sleeper \<and> waits_on 5 (process_table one_sleeper 1) \<and>
   (\<exists>t. wakeup 5 WAKEUP_RETURN one_sleeper = Ret t \<and> sched_wf t \<and> queued t 1)"
proof -
  have "waits_on 5 (process_table one_sleeper 1)"
    by (simp add: waits_on_def one_sleeper_fields PROC_SLEEPING_def)
  with wakeup_wakes_exactly_the_sleepers [OF one_sleeper_wf, of 5] one_sleeper_wf show ?thesis by auto
qed


theorem nice_to_pri_bounds_witness:
  "LOWEST_PRIORITY \<le> nice_to_pri 19 \<and> nice_to_pri 19 \<le> nice_to_pri (-20) \<and>
   nice_to_pri (-20) \<le> HIGHEST_PRIORITY"
  by (rule nice_to_pri_bounds) simp_all

text \<open>
  \<^verbatim>\<open>kernel_nice\<close> stores the new priority before \<^verbatim>\<open>adjust_proc_queues\<close> takes the process out of
  its queue, so \<^verbatim>\<open>remove_from_queue\<close> repairs the head of the wrong queue: with two processes on
  priority 1, \<^verbatim>\<open>nice(4)\<close> leaves the other process as the head of queue 3 and the table ill formed.
\<close>

theorem kernel_nice_corrupts_queues:
  "sched_wf two_users \<and> (\<exists>t. kernel_nice 4 two_users = Ret (4, t) \<and>
     process_queues t 3 = Some 2 \<and> priority (process_table t 2) = 1 \<and> \<not> sched_inv t)"
proof -
  have "case kernel_nice 4 two_users of Ret (n, t) \<Rightarrow> n = 4 \<and> process_queues t 3 = Some 2 \<and>
      priority (process_table t 2) = 1 | Stop _ \<Rightarrow> False"
    by code_simp
  then obtain t where t: "kernel_nice 4 two_users = Ret (4, t)" "process_queues t 3 = Some 2"
    "priority (process_table t 2) = 1" by (auto split: kres.splits)
  have "\<not> sched_inv t"
  proof
    assume "sched_inv t"
    then have "queue_ok t 3 (run_queue t 3)" by (rule sched_invD(1)) (simp add: valid_priority_def)
    with t(2) have "2 \<in> set (run_queue t 3)" "\<forall>i\<in>set (run_queue t 3). priority (process_table t i) = 3"
      by (auto simp: queue_ok_def ring_def dest: hd_in_set)
    with t(3) show False by auto
  qed
  with t two_users_wf show ?thesis by blast
qed

end
