(* ===== verification/User_Space.thy ===== *)
theory User_Space
  imports Sched_Queues
begin

text \<open>
  The user address spaces as the system calls see them: \<^verbatim>\<open>sys/arch/i386/include/asm/uaccess.h\<close>.
  Each process has a byte memory and the set of addresses for which \<^verbatim>\<open>check_user_ptr\<close> answers yes
  (the page is present and a user page); the page tables behind that answer are not part of this
  state. Addresses are 32 bits wide and wrap.
\<close>

record user_space =
  us_valid :: "u32 \<Rightarrow> bool"
  us_mem :: "u32 \<Rightarrow> u8"

datatype system_state = SYSTEM_SINGLETASKING | SYSTEM_MULTITASKING | SYSTEM_PANIC

record sys_state = sched_state +
  user_spaces :: "nat \<Rightarrow> user_space"
  sys_phase :: system_state
  multitasking_hooks :: "nat list"

text \<open>\<^verbatim>\<open>sys_phase\<close> is the variable \<^verbatim>\<open>system_state\<close> of \<^verbatim>\<open>sys/kernel/proc.c\<close>; a hook is an index.\<close>

abbreviation cur_space :: "'a sys_state_scheme \<Rightarrow> user_space" where
  "cur_space s \<equiv> user_spaces s (current_process s)"

definition check_user_ptr :: "u32 \<Rightarrow> 'a sys_state_scheme \<Rightarrow> bool" where
  "check_user_ptr a s = us_valid (cur_space s) a"

text \<open>\<^verbatim>\<open>path == NULL || !check_user_ptr(path)\<close>, the test at the start of most system calls.\<close>

definition bad_user_ptr :: "u32 \<Rightarrow> 'a sys_state_scheme \<Rightarrow> bool" where
  "bad_user_ptr a s \<longleftrightarrow> a = 0 \<or> \<not> check_user_ptr a s"

definition upd_space :: "(user_space \<Rightarrow> user_space) \<Rightarrow> 'a sys_state_scheme \<Rightarrow> 'a sys_state_scheme" where
  "upd_space f s = s\<lparr>user_spaces := (user_spaces s)(current_process s := f (cur_space s))\<rparr>"

section \<open>Accessors\<close>

definition get_ubyte :: "u32 \<Rightarrow> user_space \<Rightarrow> u8" where
  "get_ubyte a u = us_mem u a"

definition get_ulong :: "u32 \<Rightarrow> user_space \<Rightarrow> u32" where
  "get_ulong a u = ucast (us_mem u a) OR push_bit 8 (ucast (us_mem u (a + 1)))
     OR push_bit 16 (ucast (us_mem u (a + 2))) OR push_bit 24 (ucast (us_mem u (a + 3)))"

definition put_ubyte :: "u32 \<Rightarrow> u8 \<Rightarrow> user_space \<Rightarrow> user_space" where
  "put_ubyte a b u = u\<lparr>us_mem := (us_mem u)(a := b)\<rparr>"

definition put_ulong :: "u32 \<Rightarrow> u32 \<Rightarrow> user_space \<Rightarrow> user_space" where
  "put_ulong a l u = u\<lparr>us_mem := (us_mem u)(a := ucast l, a + 1 := ucast (drop_bit 8 l),
     a + 2 := ucast (drop_bit 16 l), a + 3 := ucast (drop_bit 24 l))\<rparr>"

text \<open>
  The two copy loops. \<^verbatim>\<open>cp_to_user\<close> steps both pointers; the loop of \<^verbatim>\<open>cp_from_user\<close> steps
  \<^verbatim>\<open>srcp\<close> but reads through \<^verbatim>\<open>src\<close>. The kernel side of a copy is a list of bytes.
\<close>

primrec cp_to_user :: "u32 \<Rightarrow> u8 list \<Rightarrow> user_space \<Rightarrow> user_space" where
  "cp_to_user dst [] u = u"
| "cp_to_user dst (b # bs) u = cp_to_user (dst + 1) bs (put_ubyte dst b u)"

primrec cp_from_user_loop :: "u32 \<Rightarrow> u32 \<Rightarrow> nat \<Rightarrow> user_space \<Rightarrow> u8 list" where
  "cp_from_user_loop src srcp 0 u = []"
| "cp_from_user_loop src srcp (Suc count) u = get_ubyte src u # cp_from_user_loop src (srcp + 1) count u"

definition cp_from_user :: "u32 \<Rightarrow> nat \<Rightarrow> user_space \<Rightarrow> u8 list" where
  "cp_from_user src count u = cp_from_user_loop src src count u"

section \<open>Round trips\<close>

definition user_bytes :: "u32 \<Rightarrow> nat \<Rightarrow> user_space \<Rightarrow> u8 list" where
  "user_bytes a n u = map (\<lambda>i. us_mem u (a + of_nat i)) [0..<n]"

lemma user_bytes_Suc: "user_bytes a (Suc n) u = us_mem u a # user_bytes (a + 1) n u"
  by (simp add: user_bytes_def upt_rec [of 0] map_Suc_upt [symmetric] add.assoc del: upt_Suc)

lemma cp_to_user_below:
  assumes "length bs < 2 ^ 32" and "\<And>i. i < length bs \<Longrightarrow> a \<noteq> dst + of_nat i"
  shows "us_mem (cp_to_user dst bs u) a = us_mem u a"
  using assms
proof (induction bs arbitrary: dst u)
  case Nil
  then show ?case by simp
next
  case (Cons b bs)
  have "a \<noteq> dst" using Cons.prems(2) [of 0] by simp
  moreover have "a \<noteq> dst + 1 + of_nat i" if "i < length bs" for i
    using Cons.prems(2) [of "Suc i"] that by (simp add: add.assoc)
  ultimately show ?case using Cons.IH [of "dst + 1"] Cons.prems(1) by (simp add: put_ubyte_def)
qed

lemma of_nat_u32_neq_0:
  assumes "i < 2 ^ 32" and "0 < i"
  shows "(of_nat i :: u32) \<noteq> 0"
proof
  assume z: "(of_nat i :: u32) = 0"
  have "i < 4294967296" using assms(1) by simp
  from unat_of_nat_u32 [OF this] z assms(2) show False by simp
qed

text \<open>
  Bytes that \<^verbatim>\<open>cp_to_user\<close> copies out are the bytes the process reads at the destination, at
  every length up to the size of the address space, and every other byte is left alone.
\<close>

theorem cp_to_user_roundtrip:
  assumes "length bs < 2 ^ 32"
  shows "user_bytes dst (length bs) (cp_to_user dst bs u) = bs \<and>
    (\<forall>a. (\<forall>i<length bs. a \<noteq> dst + of_nat i) \<longrightarrow> us_mem (cp_to_user dst bs u) a = us_mem u a)"
proof -
  have "user_bytes dst (length bs) (cp_to_user dst bs u) = bs"
    using assms
  proof (induction bs arbitrary: dst u)
    case Nil
    then show ?case by (simp add: user_bytes_def)
  next
    case (Cons b bs)
    have "dst \<noteq> dst + 1 + of_nat i" if "i < length bs" for i
    proof -
      have "(of_nat (Suc i) :: u32) \<noteq> 0" using of_nat_u32_neq_0 [of "Suc i"] that Cons.prems by simp
      then show ?thesis by (simp add: add.assoc)
    qed
    then have "us_mem (cp_to_user (dst + 1) bs (put_ubyte dst b u)) dst = b"
      using cp_to_user_below [of bs dst "dst + 1"] Cons.prems by (simp add: put_ubyte_def)
    with Cons show ?case by (simp add: user_bytes_Suc)
  qed
  with cp_to_user_below [OF assms] show ?thesis by blast
qed

lemma cp_from_user_loop_eq: "cp_from_user_loop src srcp n u = replicate n (us_mem u src)"
  by (induction n arbitrary: srcp) (simp_all add: get_ubyte_def)

text \<open>
  \<^verbatim>\<open>cp_from_user\<close> does not copy: it returns its first byte, repeated. It agrees with the bytes in
  user space only when they are all equal.
\<close>

theorem cp_from_user_repeats_first_byte:
  "cp_from_user src n u = replicate n (us_mem u src) \<and>
   (cp_from_user src n u = user_bytes src n u \<longleftrightarrow> (\<forall>i\<in>{..<n}. us_mem u (src + of_nat i) = us_mem u src))"
proof -
  have e: "replicate n x = map f [0..<n] \<longleftrightarrow> (\<forall>i\<in>{..<n}. f i = x)" for x :: u8 and f
    by (auto simp: list_eq_iff_nth_eq)
  show ?thesis unfolding cp_from_user_def cp_from_user_loop_eq user_bytes_def e by simp
qed

theorem cp_to_user_roundtrip_witness:
  "user_bytes 8 3 (cp_to_user 8 [1, 2, 3] \<lparr>us_valid = (\<lambda>_. True), us_mem = (\<lambda>_. 0)\<rparr>) = [1, 2, 3]"
  using cp_to_user_roundtrip [of "[1, 2, 3]" 8] by (simp add: numeral_3_eq_3)

theorem cp_from_user_repeats_first_byte_witness:
  "cp_from_user 4 2 \<lparr>us_valid = (\<lambda>_. True), us_mem = (\<lambda>_. 0)(4 := 7, 5 := 9)\<rparr> = [7, 7] \<and>
   cp_from_user 4 2 \<lparr>us_valid = (\<lambda>_. True), us_mem = (\<lambda>_. 0)(4 := 7, 5 := 9)\<rparr> \<noteq>
   user_bytes 4 2 \<lparr>us_valid = (\<lambda>_. True), us_mem = (\<lambda>_. 0)(4 := 7, 5 := 9)\<rparr>"
  using cp_from_user_repeats_first_byte [of 4 2 "\<lparr>us_valid = (\<lambda>_. True), us_mem = (\<lambda>_. 0)(4 := 7, 5 := 9)\<rparr>"]
  by (simp add: numeral_2_eq_2 lessThan_Suc) metis

lemma byte_of_word:
  "bit (ucast (drop_bit k (l :: u32)) :: u8) i \<longleftrightarrow> i < 8 \<and> bit l (k + i)"
  by (auto simp: bit_simps dest: bit_imp_le_length)

lemma get_put_ulong: "get_ulong a (put_ulong a l u) = l"
proof (rule bit_eqI)
  fix i assume "possible_bit TYPE(u32) i"
  then have i: "i < 32" by simp
  have ne: "a \<noteq> a + 1" "a \<noteq> a + 2" "a \<noteq> a + 3" "a + 1 \<noteq> a + 2" "a + 1 \<noteq> a + 3" "a + 2 \<noteq> a + 3"
    by simp_all
  have m: "us_mem (put_ulong a l u) a = ucast (drop_bit 0 l)" "us_mem (put_ulong a l u) (a + 1) = ucast (drop_bit 8 l)"
    "us_mem (put_ulong a l u) (a + 2) = ucast (drop_bit 16 l)" "us_mem (put_ulong a l u) (a + 3) = ucast (drop_bit 24 l)"
    using ne by (simp_all add: put_ulong_def)
  show "bit (get_ulong a (put_ulong a l u)) i = bit l i"
    unfolding get_ulong_def m
    by (cases "i < 8"; cases "i < 16"; cases "i < 24")
      (use i in \<open>auto simp: bit_simps byte_of_word dest: bit_imp_le_length\<close>)
qed

end
