(* ===== verification/Sys_Calls.thy ===== *)
theory Sys_Calls
  imports User_Space
begin

text \<open>
  The miscellaneous system calls of \<^verbatim>\<open>sys/kernel/sys.c\<close>: identities, sessions and process groups,
  the file creation mask and the time of day. \<^verbatim>\<open>CURRENT_TIME\<close> is from
  \<^verbatim>\<open>sys/include/drivers/timer.h\<close>.
\<close>

section \<open>Identities\<close>

definition kernel_getuid :: "'a sched_state_scheme \<Rightarrow> int" where
  "kernel_getuid s = uid (cur s)"

definition kernel_geteuid :: "'a sched_state_scheme \<Rightarrow> int" where
  "kernel_geteuid s = euid (cur s)"

definition kernel_getgid :: "'a sched_state_scheme \<Rightarrow> int" where
  "kernel_getgid s = gid (cur s)"

definition kernel_getegid :: "'a sched_state_scheme \<Rightarrow> int" where
  "kernel_getegid s = egid (cur s)"

definition kernel_setuid :: "int \<Rightarrow> 'a sched_state_scheme \<Rightarrow> int \<times> 'a sched_state_scheme" where
  "kernel_setuid u s =
     (if uid (cur s) = 0 \<or> euid (cur s) = 0
      then (0, upd_proc (current_process s) (\<lambda>p. p\<lparr>uid := u, euid := u, suid := u\<rparr>) s)
      else if u = uid (cur s) \<or> u = suid (cur s)
      then (0, upd_proc (current_process s) (\<lambda>p. p\<lparr>euid := u\<rparr>) s)
      else (- EPERM, s))"

definition kernel_setgid :: "int \<Rightarrow> 'a sched_state_scheme \<Rightarrow> int \<times> 'a sched_state_scheme" where
  "kernel_setgid g s =
     (if uid (cur s) = 0 \<or> euid (cur s) = 0
      then (0, upd_proc (current_process s) (\<lambda>p. p\<lparr>gid := g, egid := g, sgid := g\<rparr>) s)
      else if g = gid (cur s) \<or> g = sgid (cur s)
      then (0, upd_proc (current_process s) (\<lambda>p. p\<lparr>egid := g\<rparr>) s)
      else (- EPERM, s))"

section \<open>Sessions and process groups\<close>

definition kernel_setsid :: "'a sched_state_scheme \<Rightarrow> int \<times> 'a sched_state_scheme" where
  "kernel_setsid s =
     (if leader (pgrp (cur s)) then (- EPERM, s)
      else (pid (cur s), upd_proc (current_process s)
              (\<lambda>p. p\<lparr>pgrp := \<lparr>leader = True, sid = pid p, pgid = pid p\<rparr>, tty := -1\<rparr>) s))"

text \<open>
  The first loop runs for \<^verbatim>\<open>pid == 0\<close> too and then finds the idle process, whose session replaces
  the caller's.
\<close>

definition kernel_getsid :: "int \<Rightarrow> 'a sched_state_scheme \<Rightarrow> int" where
  "kernel_getsid pd s =
     (case find_index (\<lambda>i. state (process_table s i) \<noteq> PROC_EXITED \<and> pid (process_table s i) = pd) NR_PROC of
        None \<Rightarrow> - ESRCH
      | Some i \<Rightarrow>
          let sd = sid (pgrp (process_table s i))
          in case find_index (\<lambda>j. state (process_table s j) \<noteq> PROC_EXITED \<and> leader (pgrp (process_table s j))
                    \<and> sid (pgrp (process_table s j)) = sd) NR_PROC of
               None \<Rightarrow> - ESRCH
             | Some j \<Rightarrow> pgid (pgrp (process_table s j)))"

definition kernel_umask :: "u32 \<Rightarrow> 'a sched_state_scheme \<Rightarrow> u32 \<times> 'a sched_state_scheme" where
  "kernel_umask cmask s =
     (umask (cur s), upd_proc (current_process s) (\<lambda>p. p\<lparr>umask := cmask AND 0x1FF\<rparr>) s)"

definition kernel_setpgid :: "int \<Rightarrow> int \<Rightarrow> 'a sched_state_scheme \<Rightarrow> int \<times> 'a sched_state_scheme" where
  "kernel_setpgid pd pg s =
     (if pg < 0 then (- EINVAL, s)
      else
        let pd = (if pd = 0 then pid (cur s) else pd);
            pg = (if pg = 0 then pd else pg)
        in if pd = pid (cur s) then
             (if leader (pgrp (cur s)) then (- EPERM, s)
              else (0, upd_proc (current_process s) (\<lambda>p. p\<lparr>pgrp := (pgrp p)\<lparr>pgid := pg\<rparr>\<rparr>) s))
           else case find_index (\<lambda>i. pid (process_table s i) = pd \<and> ppid (process_table s i) = pid (cur s)) NR_PROC of
             None \<Rightarrow> (- ESRCH, s)
           | Some i \<Rightarrow>
               if leader (pgrp (process_table s i)) then (- EPERM, s)
               else if sid (pgrp (process_table s i)) \<noteq> sid (pgrp (cur s)) then (- EPERM, s)
               else (0, upd_proc i (\<lambda>p. p\<lparr>pgrp := (pgrp p)\<lparr>pgid := pg\<rparr>\<rparr>) s))"

definition kernel_getpid :: "'a sched_state_scheme \<Rightarrow> int" where
  "kernel_getpid s = pid (cur s)"

definition kernel_getppid :: "'a sched_state_scheme \<Rightarrow> int" where
  "kernel_getppid s = ppid (cur s)"

definition kernel_getpgid :: "int \<Rightarrow> 'a sched_state_scheme \<Rightarrow> int" where
  "kernel_getpgid pd s =
     (if pd < 0 then - EINVAL
      else if pd = 0 then pgid (pgrp (cur s))
      else case find_index (\<lambda>i. pid (process_table s i) = pd) NR_PROC of
        None \<Rightarrow> - ESRCH
      | Some i \<Rightarrow>
          if sid (pgrp (process_table s i)) \<noteq> sid (pgrp (cur s)) then - EPERM
          else pgid (pgrp (process_table s i)))"

definition kernel_getpgrp :: "'a sched_state_scheme \<Rightarrow> int" where
  "kernel_getpgrp s = pgid (pgrp (cur s))"

section \<open>Time of day\<close>

definition CURRENT_TIME :: "'a sched_state_scheme \<Rightarrow> u32" where
  "CURRENT_TIME s = startup_time s + timer_ticks s div HZ"

text \<open>The result is a \<^verbatim>\<open>time_t\<close>, unsigned: \<^verbatim>\<open>-EFAULT\<close> is a large time.\<close>

definition kernel_time :: "u32 \<Rightarrow> 'a sys_state_scheme \<Rightarrow> u32 \<times> 'a sys_state_scheme" where
  "kernel_time tloc s =
     (if tloc \<noteq> 0 then
        (if \<not> check_user_ptr tloc s then (- of_int EFAULT, s)
         else (CURRENT_TIME s, upd_space (put_ulong tloc (CURRENT_TIME s)) s))
      else (CURRENT_TIME s, s))"

definition kernel_stime :: "u32 \<Rightarrow> 'a sys_state_scheme \<Rightarrow> int \<times> 'a sys_state_scheme" where
  "kernel_stime tloc s =
     (if tloc = 0 \<or> \<not> check_user_ptr tloc s then (- EFAULT, s)
      else if uid (cur s) = 0 \<and> euid (cur s) = 0
      then (0, s\<lparr>startup_time := get_ulong tloc (cur_space s)\<rparr>)
      else (- EPERM, s))"

section \<open>Privileges\<close>

text \<open>The identity calls a process can make, as a step relation on the whole table.\<close>

inductive id_step :: "'a sched_state_scheme \<Rightarrow> 'a sched_state_scheme \<Rightarrow> bool" where
  setuid: "kernel_setuid u s = (r, t) \<Longrightarrow> id_step s t"
| setgid: "kernel_setgid g s = (r, t) \<Longrightarrow> id_step s t"
| setsid: "kernel_setsid s = (r, t) \<Longrightarrow> id_step s t"
| setpgid: "kernel_setpgid pd pg s = (r, t) \<Longrightarrow> id_step s t"
| set_umask: "kernel_umask m s = (w, t) \<Longrightarrow> id_step s t"

inductive_cases id_stepE: "id_step s t"

definition unprivileged :: "process \<Rightarrow> bool" where
  "unprivileged p \<longleftrightarrow> uid p \<noteq> 0 \<and> euid p \<noteq> 0 \<and> suid p \<noteq> 0"

definition ids :: "process \<Rightarrow> int set" where
  "ids p = {uid p, suid p}"

lemma id_step_unprivileged:
  assumes "id_step s t" and "unprivileged (cur s)"
  shows "current_process t = current_process s \<and> unprivileged (cur t) \<and>
    uid (cur t) = uid (cur s) \<and> suid (cur t) = suid (cur s) \<and> gid (cur t) = gid (cur s) \<and>
    euid (cur t) \<in> insert (euid (cur s)) (ids (cur s))"
  using assms
  by (cases rule: id_stepE)
    (auto simp: kernel_setuid_def kernel_setgid_def kernel_setsid_def kernel_setpgid_def kernel_umask_def
      unprivileged_def ids_def Let_def split: if_splits option.splits)


text \<open>
  \<^verbatim>\<open>setsid\<close> makes the caller the leader of a session and a group named after its pid, without a
  terminal; a leader can neither start a second session nor be moved to another group.
\<close>

theorem setsid_makes_leader:
  assumes "kernel_setsid s = (r, t)" and "\<not> leader (pgrp (cur s))"
  shows "r = pid (cur s) \<and> pgrp (cur t) = \<lparr>leader = True, sid = pid (cur s), pgid = pid (cur s)\<rparr> \<and>
    tty (cur t) = -1 \<and> fst (kernel_setsid t) = - EPERM \<and>
    (\<forall>pg. pg \<ge> 0 \<longrightarrow> kernel_setpgid 0 pg t = (- EPERM, t))"
  using assms by (auto simp: kernel_setsid_def kernel_setpgid_def split: if_splits)

text \<open>
  \<^verbatim>\<open>time\<close> stores at a valid pointer exactly the time it returns, and after \<^verbatim>\<open>stime\<close> by root the
  clock shows the time that was set, up to the seconds since boot.
\<close>

theorem time_stored_and_set:
  assumes "tloc \<noteq> 0" and "check_user_ptr tloc s"
  shows "(\<exists>t. kernel_time tloc s = (CURRENT_TIME s, t) \<and> get_ulong tloc (cur_space t) = CURRENT_TIME s) \<and>
    (if uid (cur s) = 0 \<and> euid (cur s) = 0
     then \<exists>t. kernel_stime tloc s = (0, t) \<and>
       CURRENT_TIME t = get_ulong tloc (cur_space s) + timer_ticks s div HZ
     else kernel_stime tloc s = (- EPERM, s))"
  using assms by (simp add: kernel_time_def kernel_stime_def upd_space_def get_put_ulong CURRENT_TIME_def)

section \<open>Witnesses\<close>

definition id_demo :: sched_state where
  "id_demo = upd_proc 1 (\<lambda>p. p\<lparr>uid := 7, euid := 7, suid := 8\<rparr>) one_user"


theorem setsid_makes_leader_witness:
  "leader (pgrp (cur (snd (kernel_setsid one_user)))) \<and> fst (kernel_setsid one_user) = 1"
proof -
  have "\<not> leader (pgrp (cur one_user))" "pid (cur one_user) = 1" by (simp_all add: one_user_fields demo_defs)
  with setsid_makes_leader [of one_user "fst (kernel_setsid one_user)" "snd (kernel_setsid one_user)"]
  show ?thesis by simp
qed

definition sys_demo :: sys_state where
  "sys_demo = sched_state.extend one_user
     \<lparr>user_spaces = \<lambda>_. \<lparr>us_valid = (\<lambda>_. True), us_mem = (\<lambda>_. 0)\<rparr>,
      sys_phase = SYSTEM_MULTITASKING, multitasking_hooks = []\<rparr>"

theorem time_stored_and_set_witness:
  "\<exists>t. kernel_time 16 sys_demo = (CURRENT_TIME sys_demo, t) \<and> get_ulong 16 (cur_space t) = CURRENT_TIME sys_demo"
proof -
  have "check_user_ptr 16 sys_demo" by (simp add: check_user_ptr_def sys_demo_def sched_state.defs)
  with time_stored_and_set [of 16 sys_demo] show ?thesis by simp
qed

end
