(* ===== verification/Sched_Frame.thy ===== *)
theory Sched_Frame
  imports Sched_Queues
begin

text \<open>
  What the scheduler leaves alone. Whatever table it starts from, a scheduler routine that returns
  has changed only the scheduling fields of the processes, the queue heads and the current process,
  and has put no process to sleep but the caller of \<^verbatim>\<open>sleep\<close>.
\<close>

section \<open>The frame of the queue operations\<close>

lemma remove_from_queue_links: "remove_from_queue i s = Ret t \<Longrightarrow> links_only s t"
  by (auto simp: remove_from_queue_def Let_def split: option.splits if_splits
      intro!: links_only_trans [OF _ links_only_set(1)] links_only_trans [OF _ links_only_set(2)]
        links_only_trans [OF _ links_only_set(3)])

lemma add_to_queue_links: "add_to_queue i s = Ret t \<Longrightarrow> links_only s t"
  by (auto simp: add_to_queue_def Let_def bindk_eq_Ret_iff split: option.splits if_splits
      intro!: links_only_trans [OF _ links_only_set(1)] links_only_trans [OF _ links_only_set(2)]
        links_only_trans [OF _ links_only_set(3)])

lemma adjust_links: "adjust_proc_queues i s = Ret t \<Longrightarrow> links_only s t"
  by (auto simp: adjust_proc_queues_def bindk_eq_Ret_iff split: if_splits
      dest!: remove_from_queue_links add_to_queue_links intro: links_only_trans)

section \<open>The frame of the scheduler\<close>

definition proc_core :: "process \<Rightarrow> process" where
  "proc_core p = p\<lparr>state := PROC_EXITED, sigpending := 0, alarm := 0, tty_block := 0,
     queue_next := None, queue_prev := None\<rparr>"

definition sched_only :: "'a sched_state_scheme \<Rightarrow> 'a sched_state_scheme \<Rightarrow> bool" where
  "sched_only s t \<longleftrightarrow> sched_state.more t = sched_state.more s \<and> last_pid t = last_pid s \<and>
     timer_ticks t = timer_ticks s \<and> startup_time t = startup_time s \<and>
     (\<forall>i. proc_core (process_table t i) = proc_core (process_table s i) \<and>
          (state (process_table t i) \<noteq> state (process_table s i) \<longrightarrow> runnable (process_table t i)))"

lemma sched_only_refl: "sched_only s s"
  by (simp add: sched_only_def)

lemma sched_only_trans: "sched_only s t \<Longrightarrow> sched_only t u \<Longrightarrow> sched_only s u"
  by (auto simp: sched_only_def) (metis runnable_def)

lemma proc_core_strip: "proc_core (strip_links p) = proc_core p"
  by (simp add: proc_core_def strip_links_def)

lemma links_only_sched_only:
  assumes "links_only s t"
  shows "sched_only s t"
proof -
  have "proc_core (process_table t i) = proc_core (process_table s i)" for i
    using assms proc_core_strip by (metis links_only_def)
  with assms links_only_eqs(1) [OF assms] show ?thesis by (simp add: sched_only_def links_only_def)
qed

text \<open>Updates that touch only scheduling fields and leave the process asleep only if it was.\<close>

lemma sched_only_upd:
  assumes "\<And>p. proc_core (f p) = proc_core p"
    and "\<And>p. state (f p) \<noteq> state p \<Longrightarrow> runnable (f p)"
  shows "sched_only s (upd_proc i f s)"
  using assms by (simp add: sched_only_def upd_proc_def)

lemma sched_only_fields:
  "sched_only s (set_state i PROC_RUNNABLE s)"
  "sched_only s (set_state i PROC_RUNNING s)"
  "sched_only s (upd_proc i (\<lambda>p. p\<lparr>tty_block := b\<rparr>) s)"
  "sched_only s (upd_proc i (\<lambda>p. p\<lparr>sigpending := g p, alarm := a\<rparr>) s)"
  "sched_only s (upd_proc i (\<lambda>p. p\<lparr>sigpending := g p\<rparr>) s)"
  "sched_only s (s\<lparr>current_process := c\<rparr>)"
  unfolding set_state_def
  by (rule sched_only_upd; simp add: proc_core_def runnable_def)+ (simp add: sched_only_def)

lemma wake_sched_only:
  "adjust_proc_queues i (set_state i PROC_RUNNABLE s) = Ret t \<Longrightarrow> sched_only s t"
  using sched_only_trans [OF sched_only_fields(1) links_only_sched_only [OF adjust_links]] .

lemma schedule_scan_sched_only:
  assumes "schedule_scan i s = Ret t"
  shows "sched_only s t"
proof -
  let ?s1 = "if alarm (process_table s i) \<noteq> NO_ALARM \<and> alarm (process_table s i) < timer_ticks s
    then upd_proc i (\<lambda>p. p\<lparr>sigpending := sigpending p OR push_bit (nat (SIGALRM - 1)) 1,
                           alarm := NO_ALARM\<rparr>) s else s"
  have s1: "sched_only s ?s1" by (rule if_split [THEN iffD2]) (intro conjI impI sched_only_fields(4) sched_only_refl)
  from assms obtain s2 where s2: "(if tty_block (process_table ?s1 i) \<noteq> NO_TTY_BLOCK
      \<and> tty_block (process_table ?s1 i) < timer_ticks ?s1
      then bindk (adjust_proc_queues i (set_state i PROC_RUNNABLE ?s1))
             (\<lambda>s. Ret (upd_proc i (\<lambda>p. p\<lparr>tty_block := NO_TTY_BLOCK\<rparr>) s)) else Ret ?s1) = Ret s2"
    and t: "(if state (process_table s2 i) = PROC_SLEEP_INTERRUPTIBLE \<and> sigpending (process_table s2 i) \<noteq> 0
       then adjust_proc_queues i (set_state i PROC_RUNNABLE s2) else Ret s2) = Ret t"
    unfolding schedule_scan_def Let_def by (elim bindk_RetE)
  from s2 have "sched_only ?s1 s2"
    by (auto simp: bindk_eq_Ret_iff sched_only_refl split: if_split_asm
        dest!: wake_sched_only intro: sched_only_trans [OF _ sched_only_fields(3)])
  moreover from t have "sched_only s2 t"
    by (auto simp: sched_only_refl split: if_split_asm dest!: wake_sched_only)
  ultimately show ?thesis using s1 sched_only_trans by blast
qed

lemma schedule_sched_only:
  assumes "schedule s = Ret t"
  shows "sched_only s t"
proof -
  from assms obtain u where u: "foldk schedule_scan [0..<NR_PROC] s = Ret u"
    and t: "(case highest_queue u of Some i \<Rightarrow> Ret ((set_state i PROC_RUNNING u)\<lparr>current_process := i\<rparr>)
      | None \<Rightarrow> Stop (Fault ''current_process'')) = Ret t"
    unfolding schedule_def by (elim bindk_RetE)
  have "sched_only s u"
    by (rule foldk_invariant [OF u sched_only_refl])
      (blast intro: sched_only_trans schedule_scan_sched_only)
  moreover from t have "sched_only u t"
    by (auto split: option.splits intro: sched_only_trans [OF sched_only_fields(2) sched_only_fields(6)])
  ultimately show ?thesis by (rule sched_only_trans)
qed

section \<open>Sleepers\<close>

lemma sched_only_waits:
  assumes "sched_only s t" and "waits_on a (process_table t i)"
  shows "waits_on a (process_table s i)"
proof -
  from assms(1) have c: "proc_core (process_table t i) = proc_core (process_table s i)"
    and r: "state (process_table t i) = state (process_table s i) \<or> runnable (process_table t i)"
    by (auto simp: sched_only_def)
  have "sleeping_on (process_table t i) = sleeping_on (process_table s i)"
    using arg_cong [OF c, of sleeping_on] by (simp add: proc_core_def)
  with r assms(2) show ?thesis by (auto simp: waits_on_def PROC_SLEEPING_def runnable_def)
qed

lemma schedule_waits:
  "schedule s = Ret t \<Longrightarrow> waits_on a (process_table t i) \<Longrightarrow> waits_on a (process_table s i)"
  using schedule_sched_only sched_only_waits by blast

lemma adjust_waits:
  "adjust_proc_queues j s = Ret t \<Longrightarrow> waits_on a (process_table t i) \<longleftrightarrow> waits_on a (process_table s i)"
  using waits_on_cong adjust_links unfolding links_only_def by metis

lemma sleep_waits:
  assumes "sleep b ty s = Ret t" and "a \<noteq> b" and "waits_on a (process_table t i)"
  shows "waits_on a (process_table s i)"
proof -
  let ?u = "upd_proc (current_process s) (\<lambda>p. p\<lparr>state := ty, sleeping_on := b\<rparr>) s"
  from assms(1) obtain v where v: "adjust_proc_queues (current_process s) ?u = Ret v" "schedule v = Ret t"
    by (auto simp: sleep_def Let_def bindk_eq_Ret_iff split: if_splits)
  have "waits_on a (process_table ?u i)"
    using schedule_waits [OF v(2) assms(3)] adjust_waits [OF v(1)] by simp
  with assms(2) show ?thesis by (auto simp: waits_on_def split: if_splits)
qed

lemma timer_tick_waits:
  assumes "timer_tick b s = Ret t" and "waits_on a (process_table t i)"
  shows "waits_on a (process_table s i)"
proof -
  define u where "u = upd_proc (current_process s) (\<lambda>p. p\<lparr>counter := counter (cur s) - 1\<rparr>)
    (s\<lparr>timer_ticks := timer_ticks s + 1\<rparr>)"
  have u: "waits_on a (process_table u i) \<Longrightarrow> waits_on a (process_table s i)"
    by (simp add: u_def waits_on_def PROC_SLEEPING_def split: if_splits)
  have eq: "timer_tick b s = (if b then Ret (s\<lparr>timer_ticks := timer_ticks s + 1\<rparr>) else
      bindk (if counter (cur s) = 0 then adjust_proc_queues (current_process s)
        (upd_proc (current_process s) (\<lambda>p. p\<lparr>counter := 0, state := PROC_RUNNABLE\<rparr>) u) else Ret u) schedule)"
    unfolding timer_tick_def Let_def u_def by simp
  from assms(1) consider "b" "t = s\<lparr>timer_ticks := timer_ticks s + 1\<rparr>" | "schedule u = Ret t"
    | v where "adjust_proc_queues (current_process s) (upd_proc (current_process s)
        (\<lambda>p. p\<lparr>counter := 0, state := PROC_RUNNABLE\<rparr>) u) = Ret v" "schedule v = Ret t"
    unfolding eq by (cases b; cases "counter (cur s) = 0") (auto simp: bindk_eq_Ret_iff)
  then show ?thesis
  proof cases
    case 1
    with assms(2) show ?thesis by simp
  next
    case 2
    from u [OF schedule_waits [OF this assms(2)]] show ?thesis .
  next
    case 3
    from schedule_waits [OF 3(2) assms(2)] adjust_waits [OF 3(1)] have "waits_on a (process_table u i)"
      by (simp add: waits_on_def PROC_SLEEPING_def split: if_splits)
    then show ?thesis by (rule u)
  qed
qed

lemma wakeup_waits:
  assumes wf: "sched_wf s" and t: "wakeup b ret s = Ret t" and "i < NR_PROC"
    and "waits_on a (process_table t i)"
  shows "waits_on a (process_table s i) \<and> a \<noteq> b"
proof -
  from wakeup_loop [OF wf, of NR_PROC b] obtain c u where
    u: "foldk (wakeup_scan b) [0..<NR_PROC] (False, s) = Ret (c, u)"
    "strip_links (process_table u i) =
       strip_links (if waits_on b (process_table s i) then woken (process_table s i) else process_table s i)"
    using assms(3) by fastforce
  have "waits_on a (process_table u i)"
    using t u(1) schedule_waits assms(4) by (auto simp: wakeup_def split: if_splits)
  with waits_on_cong [OF u(2), of a] show ?thesis
    by (auto simp: waits_on_def PROC_SLEEPING_def split: if_splits)
qed

end
