(* ===== verification/Signals.thy ===== *)
theory Signals
  imports Sched_Frame
begin

text \<open>
  Signals, \<^verbatim>\<open>sys/kernel/signal.c\<close>: the table of default actions, \<^verbatim>\<open>signal\<close>, \<^verbatim>\<open>kill\<close>, \<^verbatim>\<open>alarm\<close> and
  \<^verbatim>\<open>pause\<close>. The delivery of pending signals needs \<^verbatim>\<open>kernel_exit\<close> and is in the theory of processes.
  A handler is its address; the messages that \<^verbatim>\<open>kernel_signal\<close> prints are not modelled.
\<close>

section \<open>The signal table\<close>

datatype sig_def_action = SIGACTION_T | SIGACTION_A | SIGACTION_I | SIGACTION_S | SIGACTION_C

abbreviation (input) NSIG :: int where "NSIG \<equiv> 32"
abbreviation (input) SIG_DFL :: u32 where "SIG_DFL \<equiv> 0"
abbreviation (input) SIG_IGN :: u32 where "SIG_IGN \<equiv> 1"
abbreviation (input) SIG_ERR :: u32 where "SIG_ERR \<equiv> -1"

abbreviation (input) SIGHUP :: int where "SIGHUP \<equiv> 1"
abbreviation (input) SIGINT :: int where "SIGINT \<equiv> 2"
abbreviation (input) SIGQUIT :: int where "SIGQUIT \<equiv> 3"
abbreviation (input) SIGILL :: int where "SIGILL \<equiv> 4"
abbreviation (input) SIGTRAP :: int where "SIGTRAP \<equiv> 5"
abbreviation (input) SIGABRT :: int where "SIGABRT \<equiv> 6"
abbreviation (input) SIGBUS :: int where "SIGBUS \<equiv> 7"
abbreviation (input) SIGFPE :: int where "SIGFPE \<equiv> 8"
abbreviation (input) SIGSEGV :: int where "SIGSEGV \<equiv> 11"
abbreviation (input) SIGCONT :: int where "SIGCONT \<equiv> 12"
abbreviation (input) SIGPIPE :: int where "SIGPIPE \<equiv> 13"
abbreviation (input) SIGTERM :: int where "SIGTERM \<equiv> 15"
abbreviation (input) SIGPOLL :: int where "SIGPOLL \<equiv> 16"
abbreviation (input) SIGPROF :: int where "SIGPROF \<equiv> 17"
abbreviation (input) SIGSYS :: int where "SIGSYS \<equiv> 19"
abbreviation (input) SIGTSTP :: int where "SIGTSTP \<equiv> 20"
abbreviation (input) SIGTTIN :: int where "SIGTTIN \<equiv> 21"
abbreviation (input) SIGTTOU :: int where "SIGTTOU \<equiv> 22"
abbreviation (input) SIGUSR1 :: int where "SIGUSR1 \<equiv> 23"
abbreviation (input) SIGUSR2 :: int where "SIGUSR2 \<equiv> 24"
abbreviation (input) SIGURG :: int where "SIGURG \<equiv> 25"
abbreviation (input) SIGVTALRM :: int where "SIGVTALRM \<equiv> 26"
abbreviation (input) SIGXCPU :: int where "SIGXCPU \<equiv> 27"
abbreviation (input) SIGXFSZ :: int where "SIGXFSZ \<equiv> 28"
abbreviation (input) SIGWINCH :: int where "SIGWINCH \<equiv> 29"

record signal =
  sig :: int
  def_action :: sig_def_action

type_synonym signal_table = "int \<Rightarrow> signal"

definition signal_init :: "int \<Rightarrow> sig_def_action \<Rightarrow> signal_table \<Rightarrow> signal_table" where
  "signal_init n act tab =
     (if n = 0 then tab else tab(n - 1 := \<lparr>sig = n, def_action = act\<rparr>))"

text \<open>The table is zeroed memory before \<^verbatim>\<open>signals_init\<close>, and 0 is \<^verbatim>\<open>SIGACTION_T\<close>.\<close>

definition signals_init :: signal_table where
  "signals_init = fold (\<lambda>(n, act). signal_init n act)
     [(SIGBUS, SIGACTION_A), (SIGCHLD, SIGACTION_I), (SIGCONT, SIGACTION_C), (SIGPOLL, SIGACTION_T),
      (SIGPROF, SIGACTION_T), (SIGSTOP, SIGACTION_S), (SIGSYS, SIGACTION_A), (SIGTSTP, SIGACTION_S),
      (SIGTTIN, SIGACTION_S), (SIGTTOU, SIGACTION_S), (SIGUSR1, SIGACTION_T), (SIGUSR2, SIGACTION_T),
      (SIGURG, SIGACTION_I), (SIGVTALRM, SIGACTION_T), (SIGXCPU, SIGACTION_A), (SIGXFSZ, SIGACTION_A),
      (SIGWINCH, SIGACTION_I), (SIGHUP, SIGACTION_T), (SIGINT, SIGACTION_T), (SIGQUIT, SIGACTION_A),
      (SIGILL, SIGACTION_A), (SIGTRAP, SIGACTION_A), (SIGABRT, SIGACTION_A), (SIGFPE, SIGACTION_A),
      (SIGKILL, SIGACTION_T), (SIGSEGV, SIGACTION_A), (SIGPIPE, SIGACTION_T), (SIGALRM, SIGACTION_T),
      (SIGTERM, SIGACTION_T)]
     (\<lambda>_. \<lparr>sig = 0, def_action = SIGACTION_T\<rparr>)"

section \<open>Setting handlers\<close>

definition do_signal :: "int \<Rightarrow> u32 \<Rightarrow> u32 \<Rightarrow> 'a sched_state_scheme \<Rightarrow> u32 \<times> 'a sched_state_scheme" where
  "do_signal n handler restorer s =
     (if n < 1 \<or> n > NSIG then (SIG_ERR, s)
      else if (n = SIGKILL \<or> n = SIGSTOP) \<and> handler = SIG_IGN then (SIG_ERR, s)
      else
        let k = nat (n - 1); ret = sighandlers (cur s) k
        in (ret, upd_proc (current_process s)
              (\<lambda>p. p\<lparr>sighandlers := (sighandlers p)(k := handler), sigrestorer := restorer\<rparr>) s))"

definition kernel_signal :: "int \<Rightarrow> u32 \<Rightarrow> 'a sched_state_scheme \<Rightarrow> u32 \<times> 'a sched_state_scheme" where
  "kernel_signal n handler s =
     (if handler \<noteq> SIG_DFL \<and> handler \<noteq> SIG_IGN then (0, s) else do_signal n handler 0 s)"

section \<open>Sending signals\<close>

definition sig_permission :: "process \<Rightarrow> process \<Rightarrow> int" where
  "sig_permission sender target =
     (if uid sender = suid target \<or> uid sender = uid target then 0
      else if euid sender = suid target \<or> euid sender = uid target then 0
      else 1)"

definition send_signal :: "nat \<Rightarrow> int \<Rightarrow> 'a sched_state_scheme \<Rightarrow> int \<times> 'a sched_state_scheme" where
  "send_signal target n s =
     (if sig_permission (cur s) (process_table s target) \<noteq> 0 then (- EPERM, s)
      else if n = SIGKILL \<or> (n \<noteq> 0 \<and> state (process_table s target) \<noteq> PROC_STOPPED)
      then (0, upd_proc target (\<lambda>p. p\<lparr>sigpending := sigpending p OR push_bit (nat (n - 1)) 1\<rparr>) s)
      else (0, s))"

text \<open>The loop over the table that the three broadcast cases of \<^verbatim>\<open>kernel_kill\<close> share.\<close>

fun kill_loop :: "(nat \<Rightarrow> 'a sched_state_scheme \<Rightarrow> bool) \<Rightarrow> int \<Rightarrow> nat list \<Rightarrow> int \<times> int \<times> 'a sched_state_scheme
    \<Rightarrow> int \<times> int \<times> 'a sched_state_scheme" where
  "kill_loop elig n [] (eligible, noperm, s) = (eligible, noperm, s)"
| "kill_loop elig n (i # is) (eligible, noperm, s) =
     (if elig i s
      then let (r, s') = send_signal i n s
           in kill_loop elig n is (eligible + 1, if r = - EPERM then noperm + 1 else noperm, s')
      else kill_loop elig n is (eligible, noperm, s))"

definition kill_eligible :: "int \<Rightarrow> nat \<Rightarrow> 'a sched_state_scheme \<Rightarrow> bool" where
  "kill_eligible pd i s \<longleftrightarrow>
     (let p = process_table s i in
      state p \<noteq> PROC_EXITED \<and> i \<noteq> current_process s \<and>
      (if pd = 0 then pgid (pgrp p) = pgid (pgrp (cur s))
       else if pd = -1 then pid p \<noteq> 1
       else pgid (pgrp p) = pgid (pgrp (cur s)) \<and> pid p = - pd))"

text \<open>
  \<^verbatim>\<open>process_table + pid\<close> is not checked against the size of the table: a \<^verbatim>\<open>pid\<close> outside it is an
  access outside the array.
\<close>

definition kernel_kill :: "int \<Rightarrow> int \<Rightarrow> 'a sched_state_scheme \<Rightarrow> (int \<times> 'a sched_state_scheme) kres" where
  "kernel_kill pd n s =
     (if n < 0 \<or> n > NSIG then Ret (- EINVAL, s)
      else if pd > 0 then
        (if nat pd \<ge> NR_PROC then Stop (Fault ''process_table'') else Ret (send_signal (nat pd) n s))
      else
        let (eligible, noperm, s) = kill_loop (kill_eligible pd) n [0..<NR_PROC] (0, 0, s)
        in Ret (if eligible = 0 then - ESRCH else if noperm = eligible then - EPERM else 0, s))"

section \<open>Alarms and pausing\<close>

definition kernel_alarm :: "u32 \<Rightarrow> 'a sched_state_scheme \<Rightarrow> u32 \<times> 'a sched_state_scheme" where
  "kernel_alarm seconds s =
     (let old = alarm (cur s)
      in ((old - timer_ticks s) div HZ,
          upd_proc (current_process s) (\<lambda>p. p\<lparr>alarm := timer_ticks s + seconds * HZ\<rparr>) s))"

text \<open>The call returns \<^verbatim>\<open>-EINTR\<close> when the process runs again; the state is that after the switch.\<close>

definition kernel_pause :: "'a sched_state_scheme \<Rightarrow> (int \<times> 'a sched_state_scheme) kres" where
  "kernel_pause s =
     bindk (adjust_proc_queues (current_process s) (set_state (current_process s) PROC_SLEEP_INTERRUPTIBLE s))
       (\<lambda>s. bindk (schedule s) (\<lambda>s. Ret (- EINTR, s)))"

section \<open>What a kill does\<close>

text \<open>The effect of a permitted signal on its target.\<close>

definition signalled :: "int \<Rightarrow> process \<Rightarrow> process" where
  "signalled n p =
     (if n = SIGKILL \<or> (n \<noteq> 0 \<and> state p \<noteq> PROC_STOPPED)
      then p\<lparr>sigpending := sigpending p OR push_bit (nat (n - 1)) 1\<rparr> else p)"

lemma send_signal_eq:
  "send_signal i n s =
     (if sig_permission (cur s) (process_table s i) \<noteq> 0 then (- EPERM, s) else (0, upd_proc i (signalled n) s))"
proof -
  have "upd_proc i (signalled n) s =
      (if n = SIGKILL \<or> (n \<noteq> 0 \<and> state (process_table s i) \<noteq> PROC_STOPPED)
       then upd_proc i (\<lambda>p. p\<lparr>sigpending := sigpending p OR push_bit (nat (n - 1)) 1\<rparr>) s else s)"
    by (simp add: upd_proc_def signalled_def)
  then show ?thesis unfolding send_signal_def by simp
qed

lemma signalled_fields [simp]:
  "uid (signalled n p) = uid p" "euid (signalled n p) = euid p" "suid (signalled n p) = suid p"
  "state (signalled n p) = state p" "pid (signalled n p) = pid p" "pgrp (signalled n p) = pgrp p"
  by (simp_all add: signalled_def)

lemma sig_permission_signalled [simp]:
  "sig_permission (signalled n p) q = sig_permission p q"
  "sig_permission p (signalled n q) = sig_permission p q"
  by (simp_all add: sig_permission_def)

definition signal_all :: "int \<Rightarrow> nat set \<Rightarrow> 'a sched_state_scheme \<Rightarrow> 'a sched_state_scheme" where
  "signal_all n J s = s\<lparr>process_table := \<lambda>i. if i \<in> J then signalled n (process_table s i) else process_table s i\<rparr>"

definition permitted :: "'a sched_state_scheme \<Rightarrow> nat \<Rightarrow> bool" where
  "permitted s i \<longleftrightarrow> sig_permission (cur s) (process_table s i) = 0"

lemma signal_all_simps:
  "current_process (signal_all n J s) = current_process s"
  "permitted (signal_all n J s) i = permitted s i"
  "kill_eligible pd i (signal_all n J s) = kill_eligible pd i s"
  "i \<notin> J \<Longrightarrow> upd_proc i (signalled n) (signal_all n J s) = signal_all n (insert i J) s"
  "signal_all n {} s = s"
  by (auto simp: signal_all_def permitted_def kill_eligible_def Let_def upd_proc_def fun_eq_iff
      intro!: sched_state.fold_congs(1))

lemma kill_loop_eq:
  assumes "distinct is" and "J \<inter> set is = {}"
  shows "kill_loop (kill_eligible pd) n is (e, m, signal_all n J s) =
    (e + int (length (filter (\<lambda>i. kill_eligible pd i s) is)),
     m + int (length (filter (\<lambda>i. kill_eligible pd i s \<and> \<not> permitted s i) is)),
     signal_all n (J \<union> {i \<in> set is. kill_eligible pd i s \<and> permitted s i}) s)"
  using assms
proof (induction "is" arbitrary: e m J)
  case Nil
  then show ?case by simp
next
  case (Cons i "is")
  have perm: "sig_permission (cur (signal_all n J s)) (process_table (signal_all n J s) i) = 0 \<longleftrightarrow> permitted s i"
    using signal_all_simps(2) [of n J s i] by (simp add: permitted_def)
  have J: "i \<notin> J" "J \<inter> set is = {}" "insert i J \<inter> set is = {}" using Cons.prems by auto
  have U: "insert i J \<union> {j \<in> set is. kill_eligible pd j s \<and> permitted s j} =
      J \<union> {j \<in> set (i # is). kill_eligible pd j s \<and> permitted s j}" if "kill_eligible pd i s" "permitted s i"
    using that by auto
  have N: "{j \<in> set is. kill_eligible pd j s \<and> permitted s j} =
      {j \<in> set (i # is). kill_eligible pd j s \<and> permitted s j}" if "\<not> (kill_eligible pd i s \<and> permitted s i)"
    using that by auto
  note IH = Cons.IH [OF _ J(2)] Cons.IH [OF _ J(3)]
  show ?case
  proof (cases "kill_eligible pd i s \<and> permitted s i")
    case True
    with perm have "kill_loop (kill_eligible pd) n (i # is) (e, m, signal_all n J s) =
        kill_loop (kill_eligible pd) n is (e + 1, m, signal_all n (insert i J) s)"
      by (simp add: signal_all_simps send_signal_eq J(1))
    then show ?thesis using IH(2) Cons.prems(1) True U by simp
  next
    case False
    with perm have "kill_loop (kill_eligible pd) n (i # is) (e, m, signal_all n J s) =
        kill_loop (kill_eligible pd) n is (if kill_eligible pd i s then e + 1 else e,
          if kill_eligible pd i s then m + 1 else m, signal_all n J s)"
      by (simp add: signal_all_simps send_signal_eq)
    then show ?thesis using IH(1) Cons.prems(1) False N [OF False] by auto
  qed
qed

lemma filter_upt_length_0: "length (filter P [0..<k]) = 0 \<longleftrightarrow> (\<forall>i<k. \<not> P i)"
  by (auto simp: filter_empty_conv)

lemma filter_same_length:
  "length (filter (\<lambda>i. P i \<and> Q i) xs) = length (filter P xs) \<longleftrightarrow> (\<forall>i\<in>set xs. P i \<longrightarrow> Q i)"
proof (induction xs)
  case (Cons x xs)
  have "length (filter (\<lambda>i. P i \<and> Q i) xs) \<le> length (filter P xs)"
    by (induction xs) auto
  with Cons show ?case by auto
qed simp



section \<open>Handlers and alarms\<close>

text \<open>
  \<^verbatim>\<open>signal\<close> cannot make a process ignore \<^verbatim>\<open>SIGKILL\<close> or \<^verbatim>\<open>SIGSTOP\<close>, touches no other process, and
  on success installs the handler for that signal alone and returns the previous one.
\<close>

theorem kernel_signal_keeps_kill_and_stop:
  assumes r: "kernel_signal n h s = (r, t)"
    and old: "sighandlers (cur s) (nat (SIGKILL - 1)) \<noteq> SIG_IGN"
      "sighandlers (cur s) (nat (SIGSTOP - 1)) \<noteq> SIG_IGN"
  shows "sighandlers (cur t) (nat (SIGKILL - 1)) \<noteq> SIG_IGN \<and>
    sighandlers (cur t) (nat (SIGSTOP - 1)) \<noteq> SIG_IGN \<and>
    (\<forall>i. i \<noteq> current_process s \<longrightarrow> process_table t i = process_table s i) \<and>
    (if t = s then True
     else r = sighandlers (cur s) (nat (n - 1)) \<and>
       sighandlers (cur t) = (sighandlers (cur s))(nat (n - 1) := h))"
proof (cases "h \<noteq> SIG_DFL \<and> h \<noteq> SIG_IGN \<or> n < 1 \<or> n > NSIG \<or> (n = SIGKILL \<or> n = SIGSTOP) \<and> h = SIG_IGN")
  case True
  with r have "t = s" by (auto simp: kernel_signal_def do_signal_def split: if_splits)
  with old show ?thesis by simp
next
  case False
  with r have t: "t = upd_proc (current_process s)
      (\<lambda>p. p\<lparr>sighandlers := (sighandlers p)(nat (n - 1) := h), sigrestorer := 0\<rparr>) s"
    and "r = sighandlers (cur s) (nat (n - 1))"
    by (auto simp: kernel_signal_def do_signal_def Let_def)
  moreover have "nat (n - 1) = 8 \<longleftrightarrow> n = 9" "nat (n - 1) = 17 \<longleftrightarrow> n = 18" using False by auto
  ultimately show ?thesis using False old by auto
qed

theorem kernel_signal_keeps_kill_and_stop_witness:
  "sighandlers (cur (snd (kernel_signal SIGKILL SIG_IGN one_user))) (nat (SIGKILL - 1)) \<noteq> SIG_IGN"
proof -
  obtain r t where e: "kernel_signal SIGKILL SIG_IGN one_user = (r, t)" by fastforce
  have "sighandlers (cur one_user) k = SIG_DFL" for k by (simp add: one_user_fields demo_defs)
  with kernel_signal_keeps_kill_and_stop [OF e] e show ?thesis by simp
qed

text \<open>
  \<^verbatim>\<open>alarm\<close> does not treat \<^verbatim>\<open>NO_ALARM\<close> specially: with no alarm pending it returns the wrapped
  difference \<^verbatim>\<open>(0 - timer_ticks) / HZ\<close>, and \<^verbatim>\<open>alarm(0)\<close> arms an alarm for the current tick instead of
  cancelling.
\<close>

theorem kernel_alarm_without_alarm:
  assumes "alarm (cur s) = NO_ALARM" and "0 < timer_ticks s"
  shows "unat (fst (kernel_alarm sec s)) = (2 ^ 32 - unat (timer_ticks s)) div 100 \<and>
    alarm (cur (snd (kernel_alarm 0 s))) = timer_ticks s \<and> alarm (cur (snd (kernel_alarm 0 s))) \<noteq> NO_ALARM"
proof -
  have "unat (0 - timer_ticks s) = 2 ^ 32 - unat (timer_ticks s)"
    using assms(2) unat_sub_if' [of 0 "timer_ticks s"] by (simp add: word_less_nat_alt)
  then show ?thesis using assms by (simp add: kernel_alarm_def Let_def unat_div word_gt_0)
qed

theorem kernel_alarm_without_alarm_witness:
  "unat (fst (kernel_alarm 5 (one_user\<lparr>timer_ticks := 200\<rparr>))) = 42949670"
  using kernel_alarm_without_alarm [of "one_user\<lparr>timer_ticks := 200\<rparr>" 5]
  by (simp add: one_user_def demo_defs)

end
