(* ===== verification/Files.thy ===== *)
theory Files
  imports User_Space
begin

text \<open>
  The filesystem-independent layer: \<^verbatim>\<open>sys/include/fs/fs.h\<close>, \<^verbatim>\<open>sys/fs/filesystem.c\<close>,
  \<^verbatim>\<open>sys/fs/sys1.c\<close> and \<^verbatim>\<open>sys/fs/fcntl.c\<close>. The state gains the system's file table and the mount
  table. A filesystem is reached through its table of operations, \<^verbatim>\<open>struct fs_driver_ops\<close>; the
  routines that call through it take the table as an argument, so that they are translated for any
  filesystem. A \<^verbatim>\<open>struct file *\<close>, a \<^verbatim>\<open>struct generic_filesystem *\<close> and an inode pointer are indices.
\<close>

section \<open>Data\<close>

abbreviation (input) NR_MOUNTS :: nat where "NR_MOUNTS \<equiv> 10"
abbreviation (input) NR_FILE :: nat where "NR_FILE \<equiv> 64"
abbreviation (input) NR_OPEN :: nat where "NR_OPEN \<equiv> 20"

text \<open>The C constants are octal.\<close>

abbreviation (input) O_ACCMODE :: u32 where "O_ACCMODE \<equiv> 3"
abbreviation (input) O_RDONLY :: u32 where "O_RDONLY \<equiv> 0"
abbreviation (input) O_WRONLY :: u32 where "O_WRONLY \<equiv> 1"
abbreviation (input) O_RDWR :: u32 where "O_RDWR \<equiv> 2"
abbreviation (input) O_CREAT :: u32 where "O_CREAT \<equiv> 0x40"
abbreviation (input) O_EXCL :: u32 where "O_EXCL \<equiv> 0x80"
abbreviation (input) O_TRUNC :: u32 where "O_TRUNC \<equiv> 0x200"
abbreviation (input) O_APPEND :: u32 where "O_APPEND \<equiv> 0x400"
abbreviation (input) F_DUPFD :: int where "F_DUPFD \<equiv> 0"
abbreviation (input) F_GETFD :: int where "F_GETFD \<equiv> 1"
abbreviation (input) F_SETFD :: int where "F_SETFD \<equiv> 2"
abbreviation (input) F_GETFL :: int where "F_GETFL \<equiv> 3"
abbreviation (input) F_SETFL :: int where "F_SETFL \<equiv> 4"
abbreviation (input) F_GETLK :: int where "F_GETLK \<equiv> 5"
abbreviation (input) F_SETLK :: int where "F_SETLK \<equiv> 6"
abbreviation (input) F_SETLKW :: int where "F_SETLKW \<equiv> 7"
abbreviation (input) F_SETOWN :: int where "F_SETOWN \<equiv> 8"
abbreviation (input) F_GETOWN :: int where "F_GETOWN \<equiv> 9"
abbreviation (input) F_DUPFD_CLOEXEC :: int where "F_DUPFD_CLOEXEC \<equiv> 1030"
abbreviation (input) FD_CLOEXEC :: u32 where "FD_CLOEXEC \<equiv> 1"
abbreviation (input) S_IFMT :: u32 where "S_IFMT \<equiv> 0xF000"
abbreviation (input) S_IFIFO :: u32 where "S_IFIFO \<equiv> 0x1000"
abbreviation (input) S_IFCHR :: u32 where "S_IFCHR \<equiv> 0x2000"
abbreviation (input) S_IFDIR :: u32 where "S_IFDIR \<equiv> 0x4000"
abbreviation (input) S_IFBLK :: u32 where "S_IFBLK \<equiv> 0x6000"
abbreviation (input) S_IFREG :: u32 where "S_IFREG \<equiv> 0x8000"
abbreviation (input) S_IFLNK :: u32 where "S_IFLNK \<equiv> 0xA000"
abbreviation (input) S_IFSOCK :: u32 where "S_IFSOCK \<equiv> 0xC000"
abbreviation (input) F_OK :: u32 where "F_OK \<equiv> 0"
abbreviation (input) X_OK :: u32 where "X_OK \<equiv> 1"
abbreviation (input) W_OK :: u32 where "W_OK \<equiv> 2"
abbreviation (input) R_OK :: u32 where "R_OK \<equiv> 4"

definition S_ISREG :: "u32 \<Rightarrow> bool" where
  "S_ISREG m \<longleftrightarrow> m AND S_IFMT = S_IFREG"

datatype fs_attribute_cmd = GET_BLOCKSIZE | GET_MTIME | GET_WTIME

datatype inode_ctl_cmd = INODE_GET_MODE | INODE_GET_MTIME | INODE_GET_ATIME | INODE_GET_CTIME

record generic_filesystem =
  f_dev :: u32
  f_read_only :: bool
  f_driver :: nat

record kfile =
  f_fs :: "nat option"
  f_inode :: "nat option"
  f_pos :: int
  f_mode :: u32
  f_flags :: u32
  f_count :: u32

record file_state = sys_state +
  file_table :: "nat \<Rightarrow> kfile"
  filesystems :: "nat \<Rightarrow> generic_filesystem"
  mount_table :: "nat \<Rightarrow> nat option"
  nr_mounts :: nat

text \<open>
  The operations of a filesystem, over the state of the kernel. Paths and buffers are user addresses;
  an operation that returns an inode pointer and stores an error returns both.
\<close>

record 's fs_driver_raw_ops =
  fs_raw_iput :: "nat option \<Rightarrow> 's \<Rightarrow> 's kres"
  fs_raw_namei :: "u32 \<Rightarrow> 's \<Rightarrow> ((nat option \<times> int) \<times> 's) kres"
  fs_raw_inode_ctl :: "nat \<Rightarrow> inode_ctl_cmd \<Rightarrow> 's \<Rightarrow> u32"
  fs_raw_permission :: "nat \<Rightarrow> u32 \<Rightarrow> 's \<Rightarrow> int"

record 's fs_driver_ops = "'s fs_driver_raw_ops" +
  fs_get_attribute :: "nat \<Rightarrow> fs_attribute_cmd \<Rightarrow> 's \<Rightarrow> u32"
  fs_open :: "u32 \<Rightarrow> u32 \<Rightarrow> u32 \<Rightarrow> 's \<Rightarrow> ((nat option \<times> int) \<times> 's) kres"
  fs_read :: "nat \<Rightarrow> u32 \<Rightarrow> u32 \<Rightarrow> 's \<Rightarrow> (int \<times> 's) kres"
  fs_write :: "nat \<Rightarrow> u32 \<Rightarrow> u32 \<Rightarrow> 's \<Rightarrow> (int \<times> 's) kres"
  fs_sync :: "nat \<Rightarrow> 's \<Rightarrow> (int \<times> 's) kres"
  fs_unlink :: "u32 \<Rightarrow> 's \<Rightarrow> (int \<times> 's) kres"
  fs_lseek :: "int \<Rightarrow> nat option \<Rightarrow> int \<Rightarrow> int \<Rightarrow> 's \<Rightarrow> int \<times> int"
  fs_link :: "u32 \<Rightarrow> u32 \<Rightarrow> 's \<Rightarrow> (int \<times> 's) kres"
  fs_mknod :: "u32 \<Rightarrow> u32 \<Rightarrow> u32 \<Rightarrow> 's \<Rightarrow> (int \<times> 's) kres"
  fs_close :: "nat \<Rightarrow> 's \<Rightarrow> (int \<times> 's) kres"
  fs_chdir :: "u32 \<Rightarrow> 's \<Rightarrow> (int \<times> 's) kres"
  fs_chown :: "u32 \<Rightarrow> int \<Rightarrow> int \<Rightarrow> 's \<Rightarrow> (int \<times> 's) kres"
  fs_chmod :: "u32 \<Rightarrow> u32 \<Rightarrow> 's \<Rightarrow> (int \<times> 's) kres"
  fs_fchmod :: "nat \<Rightarrow> u32 \<Rightarrow> 's \<Rightarrow> (int \<times> 's) kres"
  fs_mkdir :: "u32 \<Rightarrow> u32 \<Rightarrow> 's \<Rightarrow> (int \<times> 's) kres"
  fs_rmdir :: "u32 \<Rightarrow> 's \<Rightarrow> (int \<times> 's) kres"
  fs_chroot :: "u32 \<Rightarrow> 's \<Rightarrow> (int \<times> 's) kres"
  fs_symlink :: "u32 \<Rightarrow> u32 \<Rightarrow> 's \<Rightarrow> (int \<times> 's) kres"
  fs_lchown :: "u32 \<Rightarrow> int \<Rightarrow> int \<Rightarrow> 's \<Rightarrow> (int \<times> 's) kres"
  fs_rename :: "u32 \<Rightarrow> u32 \<Rightarrow> 's \<Rightarrow> (int \<times> 's) kres"
  fs_stat :: "u32 \<Rightarrow> u32 \<Rightarrow> 's \<Rightarrow> (int \<times> 's) kres"
  fs_lstat :: "u32 \<Rightarrow> u32 \<Rightarrow> 's \<Rightarrow> (int \<times> 's) kres"
  fs_fstat :: "nat \<Rightarrow> u32 \<Rightarrow> 's \<Rightarrow> (int \<times> 's) kres"
  fs_access :: "u32 \<Rightarrow> u32 \<Rightarrow> 's \<Rightarrow> (int \<times> 's) kres"

type_synonym 'a drivers = "nat \<Rightarrow> 'a file_state_scheme fs_driver_ops"

section \<open>Mounted filesystems\<close>

definition find_filesystem :: "u32 \<Rightarrow> 'a file_state_scheme \<Rightarrow> nat option" where
  "find_filesystem dev s =
     (case find_index (\<lambda>k. case mount_table s k of None \<Rightarrow> False | Some fs \<Rightarrow> f_dev (filesystems s fs) = dev) NR_MOUNTS of
        None \<Rightarrow> None
      | Some k \<Rightarrow> mount_table s k)"

definition register_filesystem :: "nat \<Rightarrow> 'a file_state_scheme \<Rightarrow> nat option \<times> 'a file_state_scheme" where
  "register_filesystem fs s =
     (if nr_mounts s = NR_MOUNTS then (None, s)
      else (Some fs, s\<lparr>mount_table := (mount_table s)(nr_mounts s := Some fs), nr_mounts := nr_mounts s + 1\<rparr>))"

definition driver_of :: "'a drivers \<Rightarrow> nat \<Rightarrow> 'a file_state_scheme \<Rightarrow> 'a file_state_scheme fs_driver_ops" where
  "driver_of drv fs s = drv (f_driver (filesystems s fs))"

definition filesystem_get_attr :: "'a drivers \<Rightarrow> u32 \<Rightarrow> fs_attribute_cmd \<Rightarrow> 'a file_state_scheme \<Rightarrow> u32" where
  "filesystem_get_attr drv dev cmd s =
     (case find_filesystem dev s of None \<Rightarrow> 0 | Some fs \<Rightarrow> fs_get_attribute (driver_of drv fs s) fs cmd s)"

definition get_fs_from_path :: "u32 \<Rightarrow> 'a file_state_scheme \<Rightarrow> nat option" where
  "get_fs_from_path path s = (if path = 0 then None else mount_table s 0)"

section \<open>Opening and closing\<close>

definition get_free_file :: "'a file_state_scheme \<Rightarrow> nat option" where
  "get_free_file s = find_index (\<lambda>i. f_count (file_table s i) = 0) NR_FILE"

text \<open>
  \<^verbatim>\<open>find_fd\<close> runs to \<^verbatim>\<open>NR_FILE\<close> over a table of \<^verbatim>\<open>NR_OPEN\<close> entries: with every descriptor in use it
  reads past the end of the table.
\<close>

definition find_fd :: "'a file_state_scheme \<Rightarrow> nat kres" where
  "find_fd s =
     (case find_index (\<lambda>i. fd_table (cur s) i = None) NR_OPEN of
        Some i \<Rightarrow> Ret i
      | None \<Rightarrow> Stop (Fault ''current_process->file_table''))"

definition upd_file :: "nat \<Rightarrow> (kfile \<Rightarrow> kfile) \<Rightarrow> 'a file_state_scheme \<Rightarrow> 'a file_state_scheme" where
  "upd_file i f s = s\<lparr>file_table := (file_table s)(i := f (file_table s i))\<rparr>"

definition set_fd :: "nat \<Rightarrow> nat option \<Rightarrow> 'a file_state_scheme \<Rightarrow> 'a file_state_scheme" where
  "set_fd fd v s = upd_proc (current_process s) (\<lambda>p. p\<lparr>fd_table := (fd_table p)(fd := v)\<rparr>) s"

definition kernel_open :: "'a drivers \<Rightarrow> u32 \<Rightarrow> u32 \<Rightarrow> u32 \<Rightarrow> 'a file_state_scheme \<Rightarrow> (int \<times> 'a file_state_scheme) kres" where
  "kernel_open drv path flags mode s =
     (if bad_user_ptr path s then Ret (- EINVAL, s)
      else case get_fs_from_path path s of
        None \<Rightarrow> Ret (- EINVAL, s)
      | Some fs \<Rightarrow>
          bindk (find_fd s) (\<lambda>fd.
          case get_free_file s of
            None \<Rightarrow> Ret (- ENFILE, s)
          | Some fp \<Rightarrow>
              let s = upd_file fp (\<lambda>f. f\<lparr>f_fs := Some fs\<rparr>) s
              in bindk (fs_open (driver_of drv fs s) path flags mode s) (\<lambda>((ip, err), s).
                 let s = upd_file fp (\<lambda>f. f\<lparr>f_inode := ip\<rparr>) s
                 in if ip = None then Ret (err, s)
                    else Ret (int fd, upd_file fp (\<lambda>f. f\<lparr>f_pos := 0, f_mode := mode, f_flags := flags, f_count := 1\<rparr>)
                               (set_fd fd (Some fp) s)))))"

definition kernel_creat :: "'a drivers \<Rightarrow> u32 \<Rightarrow> u32 \<Rightarrow> 'a file_state_scheme \<Rightarrow> (int \<times> 'a file_state_scheme) kres" where
  "kernel_creat drv path mode s = kernel_open drv path (O_WRONLY OR O_CREAT OR O_TRUNC) mode s"

text \<open>The entry of a descriptor, and the filesystem of an open file.\<close>

definition fd_entry :: "int \<Rightarrow> 'a file_state_scheme \<Rightarrow> nat option kres" where
  "fd_entry fd s =
     (if fd < 0 \<or> fd \<ge> int NR_OPEN then Stop (Fault ''current_process->file_table'')
      else Ret (fd_table (cur s) (nat fd)))"

definition file_driver :: "'a drivers \<Rightarrow> nat \<Rightarrow> 'a file_state_scheme \<Rightarrow> 'a file_state_scheme fs_driver_ops kres" where
  "file_driver drv fp s =
     (case f_fs (file_table s fp) of None \<Rightarrow> Stop (Fault ''f_fs'') | Some fs \<Rightarrow> Ret (driver_of drv fs s))"

definition kernel_close :: "'a drivers \<Rightarrow> int \<Rightarrow> 'a file_state_scheme \<Rightarrow> (int \<times> 'a file_state_scheme) kres" where
  "kernel_close drv fd s =
     (if fd \<ge> int NR_OPEN \<or> fd < 0 then Ret (- EBADF, s)
      else case fd_table (cur s) (nat fd) of
        None \<Rightarrow> Ret (- EBADF, s)
      | Some fp \<Rightarrow>
          if f_count (file_table s fp) = 0 then Stop (Panic ''kernel_close: f_count == 0'')
          else
            let s = upd_file fp (\<lambda>f. f\<lparr>f_count := f_count f - 1\<rparr>) s
            in bindk (file_driver drv fp s) (\<lambda>ops.
               bindk (fs_close ops fp s) (\<lambda>(_, s). Ret (0, set_fd (nat fd) None s))))"

section \<open>Reading, writing and seeking\<close>

definition kernel_read :: "'a drivers \<Rightarrow> int \<Rightarrow> u32 \<Rightarrow> u32 \<Rightarrow> 'a file_state_scheme \<Rightarrow> (int \<times> 'a file_state_scheme) kres" where
  "kernel_read drv fd buf count s =
     (if bad_user_ptr buf s then Ret (- EFAULT, s)
      else if fd < 0 then Ret (- EBADF, s)
      else bindk (fd_entry fd s) (\<lambda>e.
        case e of
          None \<Rightarrow> Ret (- EBADF, s)
        | Some fp \<Rightarrow>
            if f_flags (file_table s fp) AND O_ACCMODE = O_WRONLY then Ret (- EBADF, s)
            else if count = 0 then Ret (0, s)
            else bindk (file_driver drv fp s) (\<lambda>ops. fs_read ops fp buf count s)))"

definition kernel_write :: "'a drivers \<Rightarrow> int \<Rightarrow> u32 \<Rightarrow> u32 \<Rightarrow> 'a file_state_scheme \<Rightarrow> (int \<times> 'a file_state_scheme) kres" where
  "kernel_write drv fd buf count s =
     (if bad_user_ptr buf s then Ret (- EFAULT, s)
      else if fd < 0 then Ret (- EBADF, s)
      else bindk (fd_entry fd s) (\<lambda>e.
        case e of
          None \<Rightarrow> Ret (- EBADF, s)
        | Some fp \<Rightarrow>
            if f_flags (file_table s fp) AND O_ACCMODE = O_RDONLY then Ret (- EBADF, s)
            else if count = 0 then Ret (0, s)
            else bindk (file_driver drv fp s) (\<lambda>ops. fs_write ops fp buf count s)))"

definition kernel_lseek :: "'a drivers \<Rightarrow> int \<Rightarrow> int \<Rightarrow> int \<Rightarrow> 'a file_state_scheme \<Rightarrow> (int \<times> 'a file_state_scheme) kres" where
  "kernel_lseek drv fd offset whence s =
     (if fd < 0 then Ret (- EBADF, s)
      else bindk (fd_entry fd s) (\<lambda>e.
        case e of
          None \<Rightarrow> Ret (- EBADF, s)
        | Some fp \<Rightarrow>
            bindk (file_driver drv fp s) (\<lambda>ops.
              let (r, pos) = fs_lseek ops (f_pos (file_table s fp)) (f_inode (file_table s fp)) offset whence s
              in Ret (r, upd_file fp (\<lambda>f. f\<lparr>f_pos := pos\<rparr>) s))))"

text \<open>\<^verbatim>\<open>buffer_sync\<close> is an argument; the warning that a failed sync prints is not modelled.\<close>

definition kernel_sync :: "'a drivers \<Rightarrow> ('a file_state_scheme \<Rightarrow> 'a file_state_scheme kres) \<Rightarrow>
    'a file_state_scheme \<Rightarrow> 'a file_state_scheme kres" where
  "kernel_sync drv buffer_sync s =
     bindk (foldk (\<lambda>k s. case mount_table s k of
                None \<Rightarrow> Ret s
              | Some fs \<Rightarrow> bindk (fs_sync (driver_of drv fs s) fs s) (\<lambda>(_, s). Ret s)) [0..<NR_MOUNTS] s)
       buffer_sync"

section \<open>Calls on paths\<close>

text \<open>The calls that look up the filesystem of a path, fail with \<open>nofs\<close> without one and hand it on.\<close>

definition with_fs :: "u32 \<Rightarrow> int \<Rightarrow> (nat \<Rightarrow> 'a file_state_scheme \<Rightarrow> (int \<times> 'a file_state_scheme) kres) \<Rightarrow>
    'a file_state_scheme \<Rightarrow> (int \<times> 'a file_state_scheme) kres" where
  "with_fs path nofs f s =
     (case get_fs_from_path path s of None \<Rightarrow> Ret (nofs, s) | Some fs \<Rightarrow> f fs s)"

definition on_path :: "u32 \<Rightarrow> (nat \<Rightarrow> 'a file_state_scheme \<Rightarrow> (int \<times> 'a file_state_scheme) kres) \<Rightarrow>
    'a file_state_scheme \<Rightarrow> (int \<times> 'a file_state_scheme) kres" where
  "on_path path f s =
     (if bad_user_ptr path s then Ret (- EFAULT, s) else with_fs path (- EINVAL) f s)"

text \<open>Those that also refuse a filesystem mounted read-only.\<close>

definition on_writable_path :: "u32 \<Rightarrow> (nat \<Rightarrow> 'a file_state_scheme \<Rightarrow> (int \<times> 'a file_state_scheme) kres) \<Rightarrow>
    'a file_state_scheme \<Rightarrow> (int \<times> 'a file_state_scheme) kres" where
  "on_writable_path path f =
     on_path path (\<lambda>fs s. if f_read_only (filesystems s fs) then Ret (- EROFS, s) else f fs s)"

definition kernel_unlink :: "'a drivers \<Rightarrow> u32 \<Rightarrow> 'a file_state_scheme \<Rightarrow> (int \<times> 'a file_state_scheme) kres" where
  "kernel_unlink drv path = on_path path (\<lambda>fs s. fs_unlink (driver_of drv fs s) path s)"

definition kernel_link :: "'a drivers \<Rightarrow> u32 \<Rightarrow> u32 \<Rightarrow> 'a file_state_scheme \<Rightarrow> (int \<times> 'a file_state_scheme) kres" where
  "kernel_link drv path1 path2 s =
     (if path1 = 0 \<or> path2 = 0 then Ret (- EFAULT, s)
      else if \<not> check_user_ptr path1 s \<or> \<not> check_user_ptr path2 s then Ret (- EFAULT, s)
      else if get_fs_from_path path1 s \<noteq> get_fs_from_path path2 s then Ret (- EXDEV, s)
      else case get_fs_from_path path1 s of
        None \<Rightarrow> Stop (Fault ''fs1'')
      | Some fs \<Rightarrow> fs_link (driver_of drv fs s) path1 path2 s)"

definition kernel_mknod :: "'a drivers \<Rightarrow> u32 \<Rightarrow> u32 \<Rightarrow> u32 \<Rightarrow> 'a file_state_scheme \<Rightarrow> (int \<times> 'a file_state_scheme) kres" where
  "kernel_mknod drv path mode dev = on_path path (\<lambda>fs s.
     if mode AND S_IFMT \<in> {S_IFBLK, S_IFCHR, S_IFREG, S_IFSOCK, S_IFIFO}
     then fs_mknod (driver_of drv fs s) path mode dev s
     else Ret (- EINVAL, s))"

definition kernel_chdir :: "'a drivers \<Rightarrow> u32 \<Rightarrow> 'a file_state_scheme \<Rightarrow> (int \<times> 'a file_state_scheme) kres" where
  "kernel_chdir drv path s =
     (if bad_user_ptr path s then Ret (- EFAULT, s)
      else with_fs path (- ENOENT) (\<lambda>fs s.
        let s = upd_proc (current_process s) (\<lambda>p. p\<lparr>cwd_fs := Some fs\<rparr>) s
        in fs_chdir (driver_of drv fs s) path s) s)"

definition kernel_chown :: "'a drivers \<Rightarrow> u32 \<Rightarrow> int \<Rightarrow> int \<Rightarrow> 'a file_state_scheme \<Rightarrow> (int \<times> 'a file_state_scheme) kres" where
  "kernel_chown drv name u g = on_writable_path name (\<lambda>fs s. fs_chown (driver_of drv fs s) name u g s)"

definition kernel_chmod :: "'a drivers \<Rightarrow> u32 \<Rightarrow> u32 \<Rightarrow> 'a file_state_scheme \<Rightarrow> (int \<times> 'a file_state_scheme) kres" where
  "kernel_chmod drv name mode = on_writable_path name (\<lambda>fs s. fs_chmod (driver_of drv fs s) name mode s)"

definition kernel_fchmod :: "'a drivers \<Rightarrow> int \<Rightarrow> u32 \<Rightarrow> 'a file_state_scheme \<Rightarrow> (int \<times> 'a file_state_scheme) kres" where
  "kernel_fchmod drv fd mode s =
     bindk (fd_entry fd s) (\<lambda>e.
     case e of
       None \<Rightarrow> Ret (- EBADF, s)
     | Some fp \<Rightarrow>
         (case f_fs (file_table s fp) of
            None \<Rightarrow> Stop (Fault ''f_fs'')
          | Some fs \<Rightarrow>
              if f_read_only (filesystems s fs) then Ret (- EROFS, s)
              else fs_fchmod (driver_of drv fs s) fp mode s))"

definition kernel_mkdir :: "'a drivers \<Rightarrow> u32 \<Rightarrow> u32 \<Rightarrow> 'a file_state_scheme \<Rightarrow> (int \<times> 'a file_state_scheme) kres" where
  "kernel_mkdir drv path mode = on_writable_path path (\<lambda>fs s. fs_mkdir (driver_of drv fs s) path mode s)"

definition kernel_rmdir :: "'a drivers \<Rightarrow> u32 \<Rightarrow> 'a file_state_scheme \<Rightarrow> (int \<times> 'a file_state_scheme) kres" where
  "kernel_rmdir drv path = on_writable_path path (\<lambda>fs s. fs_rmdir (driver_of drv fs s) path s)"

definition kernel_chroot :: "'a drivers \<Rightarrow> u32 \<Rightarrow> 'a file_state_scheme \<Rightarrow> (int \<times> 'a file_state_scheme) kres" where
  "kernel_chroot drv path = on_path path (\<lambda>fs s. fs_chroot (driver_of drv fs s) path s)"

definition kernel_symlink :: "'a drivers \<Rightarrow> u32 \<Rightarrow> u32 \<Rightarrow> 'a file_state_scheme \<Rightarrow> (int \<times> 'a file_state_scheme) kres" where
  "kernel_symlink drv path1 path2 s =
     (if bad_user_ptr path1 s then Ret (- EFAULT, s)
      else if bad_user_ptr path2 s then Ret (- EFAULT, s)
      else with_fs path1 (- EINVAL) (\<lambda>fs s. fs_symlink (driver_of drv fs s) path1 path2 s) s)"

definition kernel_lchown :: "'a drivers \<Rightarrow> u32 \<Rightarrow> int \<Rightarrow> int \<Rightarrow> 'a file_state_scheme \<Rightarrow> (int \<times> 'a file_state_scheme) kres" where
  "kernel_lchown drv path u g = on_path path (\<lambda>fs s. fs_lchown (driver_of drv fs s) path u g s)"

definition kernel_rename :: "'a drivers \<Rightarrow> u32 \<Rightarrow> u32 \<Rightarrow> 'a file_state_scheme \<Rightarrow> (int \<times> 'a file_state_scheme) kres" where
  "kernel_rename drv old new s =
     (if bad_user_ptr old s then Ret (- EFAULT, s)
      else if bad_user_ptr new s then Ret (- EFAULT, s)
      else with_fs old (- EINVAL) (\<lambda>fs1. with_fs new (- EINVAL) (\<lambda>fs2 s.
        if fs1 \<noteq> fs2 then Ret (- EXDEV, s)
        else if f_read_only (filesystems s fs1) then Ret (- EROFS, s)
        else fs_rename (driver_of drv fs1 s) old new s)) s)"

definition kernel_stat :: "'a drivers \<Rightarrow> u32 \<Rightarrow> u32 \<Rightarrow> 'a file_state_scheme \<Rightarrow> (int \<times> 'a file_state_scheme) kres" where
  "kernel_stat drv path statp s =
     (if bad_user_ptr statp s then Ret (- EFAULT, s)
      else with_fs path (- EINVAL) (\<lambda>fs s. fs_stat (driver_of drv fs s) path statp s) s)"

definition kernel_lstat :: "'a drivers \<Rightarrow> u32 \<Rightarrow> u32 \<Rightarrow> 'a file_state_scheme \<Rightarrow> (int \<times> 'a file_state_scheme) kres" where
  "kernel_lstat drv path statp s =
     (if bad_user_ptr statp s then Ret (- EFAULT, s)
      else with_fs path (- EINVAL) (\<lambda>fs s. fs_lstat (driver_of drv fs s) path statp s) s)"

definition kernel_fstat :: "'a drivers \<Rightarrow> int \<Rightarrow> u32 \<Rightarrow> 'a file_state_scheme \<Rightarrow> (int \<times> 'a file_state_scheme) kres" where
  "kernel_fstat drv fd statp s =
     (if bad_user_ptr statp s then Ret (- EFAULT, s)
      else if fd < 0 \<or> fd \<ge> int NR_OPEN then Ret (- EBADF, s)
      else case fd_table (cur s) (nat fd) of
        None \<Rightarrow> Ret (- EBADF, s)
      | Some fp \<Rightarrow> bindk (file_driver drv fp s) (\<lambda>ops. fs_fstat ops fp statp s))"

definition kernel_access :: "'a drivers \<Rightarrow> u32 \<Rightarrow> u32 \<Rightarrow> 'a file_state_scheme \<Rightarrow> (int \<times> 'a file_state_scheme) kres" where
  "kernel_access drv path amode s =
     (if bad_user_ptr path s then Ret (- EFAULT, s)
      else if \<not> (amode AND R_OK \<noteq> 0 \<and> amode AND W_OK \<noteq> 0 \<and> amode AND X_OK \<noteq> 0) \<and> amode \<noteq> F_OK
      then Ret (- EINVAL, s)
      else with_fs path (- EINVAL) (\<lambda>fs s.
        if f_read_only (filesystems s fs) \<and> amode AND W_OK \<noteq> 0 then Ret (- EROFS, s)
        else fs_access (driver_of drv fs s) path amode s) s)"

section \<open>Duplicating descriptors\<close>

text \<open>A negative \<^verbatim>\<open>new\<close> starts the search before the table.\<close>

definition dup_from :: "int \<Rightarrow> int \<Rightarrow> bool \<Rightarrow> 'a file_state_scheme \<Rightarrow> (int \<times> 'a file_state_scheme) kres" where
  "dup_from fd new cloexec s =
     (if fd < 0 \<or> fd \<ge> int NR_OPEN then Ret (- EBADF, s)
      else case fd_table (cur s) (nat fd) of
        None \<Rightarrow> Ret (- EBADF, s)
      | Some old \<Rightarrow>
          if new < 0 then Stop (Fault ''current_process->file_table'')
          else case List.find (\<lambda>i. fd_table (cur s) i = None) [nat new..<NR_OPEN] of
            None \<Rightarrow> Ret (- EMFILE, s)
          | Some i \<Rightarrow>
              let s = upd_file old (\<lambda>f. f\<lparr>f_count := f_count f + 1\<rparr>) (set_fd i (Some old) s)
              in Ret (int i, if cloexec
                       then upd_proc (current_process s)
                              (\<lambda>p. p\<lparr>close_on_exec := close_on_exec p AND NOT (push_bit i 1)\<rparr>) s
                       else s))"

definition kernel_dup :: "int \<Rightarrow> 'a file_state_scheme \<Rightarrow> (int \<times> 'a file_state_scheme) kres" where
  "kernel_dup fd = dup_from fd 0 False"

definition kernel_dup2 :: "'a drivers \<Rightarrow> int \<Rightarrow> int \<Rightarrow> 'a file_state_scheme \<Rightarrow> (int \<times> 'a file_state_scheme) kres" where
  "kernel_dup2 drv fd1 fd2 s =
     (if fd2 < 0 \<or> fd2 \<ge> int NR_OPEN then Ret (- EBADF, s)
      else bindk (fd_entry fd1 s) (\<lambda>fp.
        if fp \<noteq> None \<and> fd1 = fd2 then Ret (fd1, s)
        else if fp = None then Ret (- EBADF, s)
        else bindk (kernel_close drv fd2 s) (\<lambda>(_, s). dup_from fd1 fd2 False s)))"

definition kernel_fcntl :: "int \<Rightarrow> int \<Rightarrow> int \<Rightarrow> 'a file_state_scheme \<Rightarrow> (int \<times> 'a file_state_scheme) kres" where
  "kernel_fcntl fd cmd arg s =
     (if fd < 0 \<or> fd \<ge> int NR_OPEN then Ret (- EBADF, s)
      else case fd_table (cur s) (nat fd) of
        None \<Rightarrow> Ret (- EBADF, s)
      | Some fp \<Rightarrow>
          if cmd = F_DUPFD then dup_from fd arg False s
          else if cmd = F_DUPFD_CLOEXEC then dup_from fd arg True s
          else if cmd = F_GETFD then Ret (if bit (close_on_exec (cur s)) (nat fd) then 1 else 0, s)
          else if cmd = F_SETFD then
            Ret (0, upd_proc (current_process s) (\<lambda>p. p\<lparr>close_on_exec :=
                       (if word_of_int arg AND FD_CLOEXEC \<noteq> 0
                        then close_on_exec p OR push_bit (nat fd) 1
                        else close_on_exec p AND NOT (push_bit (nat fd) 1))\<rparr>) s)
          else if cmd = F_GETFL then Ret (uint (f_flags (file_table s fp)), s)
          else if cmd = F_SETFL then Ret (0, upd_file fp (\<lambda>f. f\<lparr>f_flags := word_of_int arg\<rparr>) s)
          else if cmd \<in> {F_GETOWN, F_SETOWN, F_GETLK, F_SETLK, F_SETLKW} then Ret (- ENOSYS, s)
          else Ret (- EINVAL, s))"

end
