(* ===== verification/Proc.thy ===== *)
theory Proc
  imports Files Signals
begin

text \<open>
  Processes: \<^verbatim>\<open>sys/kernel/proc.c\<close> (fork, exit, execve, waitpid, start-up) and the delivery of signals
  of \<^verbatim>\<open>sys/kernel/signal.c\<close>. The architecture's part (\<^verbatim>\<open>arch_fork\<close>, \<^verbatim>\<open>arch_exit\<close>,
  \<^verbatim>\<open>arch_exec_elf\<close>, \<^verbatim>\<open>arch_processes_init\<close>: page tables, kernel stacks, registers) is reached
  through arguments. A call that sleeps is cut at its \<^verbatim>\<open>sleep\<close>: what it does when the process runs
  again is a definition of its own.
\<close>

section \<open>System state and start-up\<close>

definition system_is_multitasking :: "'a sys_state_scheme \<Rightarrow> bool" where
  "system_is_multitasking s \<longleftrightarrow> sys_phase s = SYSTEM_MULTITASKING"

definition system_is_panicing :: "'a sys_state_scheme \<Rightarrow> bool" where
  "system_is_panicing s \<longleftrightarrow> sys_phase s = SYSTEM_PANIC"

definition system_change_state :: "system_state \<Rightarrow> 'a sys_state_scheme \<Rightarrow> 'a sys_state_scheme" where
  "system_change_state st s = s\<lparr>sys_phase := st\<rparr>"

abbreviation (input) NR_MULTITASKING_HOOK :: nat where "NR_MULTITASKING_HOOK \<equiv> 100"

definition add_multitasking_hook :: "nat \<Rightarrow> 'a sys_state_scheme \<Rightarrow> 'a sys_state_scheme kres" where
  "add_multitasking_hook h s =
     (if length (multitasking_hooks s) \<ge> NR_MULTITASKING_HOOK then Stop (Fault ''multitasking_hooks'')
      else Ret (s\<lparr>multitasking_hooks := multitasking_hooks s @ [h]\<rparr>))"

definition run_multitasking_hooks ::
  "(nat \<Rightarrow> 'a sys_state_scheme \<Rightarrow> 'a sys_state_scheme kres) \<Rightarrow> 'a sys_state_scheme \<Rightarrow> 'a sys_state_scheme kres" where
  "run_multitasking_hooks run s = foldk run (multitasking_hooks s) s"

text \<open>
  \<^verbatim>\<open>start\<close> and \<^verbatim>\<open>end\<close> are the addresses of the first user code; the length handed to
  \<^verbatim>\<open>arch_processes_init\<close> is the difference of \<^verbatim>\<open>uint32_t\<close> pointers. Registering the system calls is
  not modelled.
\<close>

definition processes_init ::
  "u32 \<Rightarrow> u32 \<Rightarrow> ('a sys_state_scheme \<Rightarrow> 'a sys_state_scheme kres) \<Rightarrow>
   (nat \<Rightarrow> 'a sys_state_scheme \<Rightarrow> 'a sys_state_scheme kres) \<Rightarrow>
   (u32 \<Rightarrow> u32 \<Rightarrow> 'a sys_state_scheme \<Rightarrow> (int \<times> 'a sys_state_scheme) kres) \<Rightarrow>
   'a sys_state_scheme \<Rightarrow> 'a sys_state_scheme kres" where
  "processes_init start end' do_mount_root run arch_processes_init s =
     (let s = s\<lparr>process_queues := \<lambda>k. if valid_priority k then None else process_queues s k, current_process := 0\<rparr>;
          s = upd_proc 0 (\<lambda>p. p\<lparr>pid := 0, uid := 0, euid := 0, suid := 0, gid := 0, egid := 0, sgid := 0,
                priority := 0, state := PROC_RUNNABLE, tty := 0, umask := 0, quanta := 0, counter := 0,
                p_image := zero_image\<lparr>e_text_vaddr := start, e_text_size := end' - start\<rparr>\<rparr>) s;
          s = set_queue_head 0 (Some 0) s;
          s = set_queue_next 0 (Some 0) (set_queue_prev 0 (Some 0) s)
      in bindk (do_mount_root s) (\<lambda>s.
         bindk (run_multitasking_hooks run s) (\<lambda>s.
         bindk (arch_processes_init start ((end' - start) div 4) (system_change_state SYSTEM_MULTITASKING s)) (\<lambda>(r, s).
         if r < 0 then Stop (Panic ''Unable to initialise processes'') else Ret s))))"

section \<open>Fork\<close>

definition get_free_proc :: "'a sched_state_scheme \<Rightarrow> nat option \<times> 'a sched_state_scheme" where
  "get_free_proc s =
     (case find_index (\<lambda>i. state (process_table s i) = PROC_EXITED) NR_PROC of
        None \<Rightarrow> (None, s)
      | Some i \<Rightarrow> (Some i, s\<lparr>last_pid := int i\<rparr>))"

definition count_fd :: "nat \<Rightarrow> 'a file_state_scheme \<Rightarrow> 'a file_state_scheme" where
  "count_fd fd s =
     (case fd_table (cur s) fd of
        None \<Rightarrow> s
      | Some fp \<Rightarrow> upd_file fp (\<lambda>f. f\<lparr>f_count := f_count f + 1\<rparr>) s)"

definition count_inode :: "generic_inode \<Rightarrow> generic_inode" where
  "count_inode g = (if gi_inode g \<noteq> None then g\<lparr>gi_count := gi_count g + 1\<rparr> else g)"

text \<open>The fields of the child that differ from the parent's copy.\<close>

definition child_of :: "int \<Rightarrow> process \<Rightarrow> process \<Rightarrow> process" where
  "child_of pd parent p =
     p\<lparr>alarm := NO_ALARM,
       priority := (if priority parent = 0 then USER_PRIORITY else priority parent),
       quanta := PROC_QUANTA, counter := PROC_QUANTA,
       pid := pd, ppid := pid parent, state := PROC_RUNNABLE,
       queue_prev := None, queue_next := None, p_image := p_image parent\<rparr>"

definition kernel_fork ::
  "(int \<Rightarrow> nat \<Rightarrow> 'a file_state_scheme \<Rightarrow> (int \<times> 'a file_state_scheme) kres) \<Rightarrow>
   'a file_state_scheme \<Rightarrow> (int \<times> 'a file_state_scheme) kres" where
  "kernel_fork arch_fork s =
     (case get_free_proc s of
        (None, s) \<Rightarrow> Ret (- EAGAIN, s)
      | (Some i, s) \<Rightarrow>
          let s = upd_proc i (\<lambda>_. cur s) s
          in bindk (arch_fork (last_pid s) i s) (\<lambda>(r, s).
             if r < 0 then Ret (- EAGAIN, set_state i PROC_EXITED s)
             else
               let s = upd_proc i (child_of (last_pid s) (cur s)) s
               in bindk (adjust_proc_queues i s) (\<lambda>s.
                  let s = fold count_fd [0..<NR_OPEN] s;
                      s = upd_proc (current_process s) (\<lambda>p. p\<lparr>root_inode := count_inode (root_inode p),
                            cwd_inode := count_inode (cwd_inode p)\<rparr>) s
                  in bindk (schedule s) (\<lambda>s. Ret (last_pid s, s)))))"

section \<open>Exit\<close>

definition close_fd :: "'a drivers \<Rightarrow> nat \<Rightarrow> 'a file_state_scheme \<Rightarrow> 'a file_state_scheme kres" where
  "close_fd drv i s =
     (if fd_table (cur s) i \<noteq> None then bindk (kernel_close drv (int i) s) (\<lambda>(_, s). Ret s) else Ret s)"

definition reparent :: "'a sched_state_scheme \<Rightarrow> 'a sched_state_scheme" where
  "reparent s = s\<lparr>process_table := \<lambda>i.
     let p = process_table s i
     in if i < NR_PROC \<and> state p \<noteq> PROC_EXITED \<and> ppid p = pid (cur s) then p\<lparr>ppid := 1\<rparr> else p\<rparr>"

text \<open>Dropping the root or working directory: the inode is put when the process's own count is 0.\<close>

definition put_dir :: "'a drivers \<Rightarrow> nat option \<Rightarrow> generic_inode \<Rightarrow> 'a file_state_scheme \<Rightarrow> 'a file_state_scheme kres" where
  "put_dir drv fs g s =
     (if gi_count g = 0
      then (case fs of None \<Rightarrow> Stop (Fault ''fs'') | Some f \<Rightarrow> fs_raw_iput (driver_of drv f s) (gi_inode g) s)
      else Ret s)"

definition uncount :: "generic_inode \<Rightarrow> generic_inode" where
  "uncount g = g\<lparr>gi_count := gi_count g - 1\<rparr>"

definition kernel_exit ::
  "'a drivers \<Rightarrow> ('a file_state_scheme \<Rightarrow> 'a file_state_scheme kres) \<Rightarrow> int \<Rightarrow>
   'a file_state_scheme \<Rightarrow> 'a file_state_scheme kres" where
  "kernel_exit drv arch_exit status s =
     bindk (foldk (close_fd drv) [0..<NR_OPEN] s) (\<lambda>s.
     let s = reparent s;
         s = upd_proc (current_process s) (\<lambda>p. p\<lparr>root_inode := uncount (root_inode p)\<rparr>) s
     in bindk (put_dir drv (root_fs (cur s)) (root_inode (cur s)) s) (\<lambda>s.
     let s = upd_proc (current_process s) (\<lambda>p. p\<lparr>cwd_inode := uncount (cwd_inode p)\<rparr>) s
     in bindk (put_dir drv (cwd_fs (cur s)) (cwd_inode (cur s)) s) (\<lambda>s.
     let s = upd_proc (current_process s) (\<lambda>p. p\<lparr>exit_code := word_of_int status\<rparr>) s
     in bindk (arch_exit s) (\<lambda>s.
     bindk (if ppid (cur s) \<noteq> 0
            then bindk (kernel_kill (ppid (cur s)) SIGCHLD (set_state (current_process s) PROC_ZOMBIE s)) (\<lambda>(_, s). Ret s)
            else Ret (set_state (current_process s) PROC_EXITED s)) (\<lambda>s.
     bindk (adjust_proc_queues (current_process s) s) schedule)))))"

section \<open>Execve\<close>

abbreviation (input) PERM_EXEC :: u32 where "PERM_EXEC \<equiv> 1"

definition cloexec_fd :: "'a drivers \<Rightarrow> nat \<Rightarrow> 'a file_state_scheme \<Rightarrow> 'a file_state_scheme kres" where
  "cloexec_fd drv i s =
     (if close_on_exec (cur s) AND push_bit i 1 \<noteq> 0
      then bindk (kernel_close drv (int i) s) (\<lambda>(_, s). Ret s) else Ret s)"

definition kernel_execve ::
  "'a drivers \<Rightarrow> (nat \<Rightarrow> nat \<Rightarrow> u32 \<Rightarrow> u32 \<Rightarrow> 'a file_state_scheme \<Rightarrow> (int \<times> 'a file_state_scheme) kres) \<Rightarrow>
   u32 \<Rightarrow> u32 \<Rightarrow> u32 \<Rightarrow> 'a file_state_scheme \<Rightarrow> (int \<times> 'a file_state_scheme) kres" where
  "kernel_execve drv arch_exec_elf path argv envp s =
     (if bad_user_ptr path s then Ret (- EFAULT, s)
      else if bad_user_ptr argv s then Ret (- EFAULT, s)
      else if bad_user_ptr envp s then Ret (- EFAULT, s)
      else case get_fs_from_path path s of
        None \<Rightarrow> Ret (- EINVAL, s)
      | Some fs \<Rightarrow>
          bindk (fs_raw_namei (driver_of drv fs s) path s) (\<lambda>((ip, err), s).
          case ip of
            None \<Rightarrow> Ret (err, s)
          | Some inode \<Rightarrow>
              if \<not> S_ISREG (fs_raw_inode_ctl (driver_of drv fs s) inode INODE_GET_MODE s)
              then bindk (fs_raw_iput (driver_of drv fs s) (Some inode) s) (\<lambda>s. Ret (- EACCES, s))
              else if fs_raw_permission (driver_of drv fs s) inode PERM_EXEC s < 0
              then bindk (fs_raw_iput (driver_of drv fs s) (Some inode) s) (\<lambda>s. Ret (- EACCES, s))
              else bindk (arch_exec_elf fs inode argv envp s) (\<lambda>(ret, s).
                   bindk (fs_raw_iput (driver_of drv fs s) (Some inode) s) (\<lambda>s.
                   bindk (foldk (cloexec_fd drv) [0..<NR_OPEN] s) (\<lambda>s. Ret (ret, s))))))"

section \<open>Waiting for children\<close>

abbreviation (input) WNOHANG :: u32 where "WNOHANG \<equiv> 1"
abbreviation (input) WUNTRACED :: u32 where "WUNTRACED \<equiv> 2"
abbreviation (input) WCONTINUED :: u32 where "WCONTINUED \<equiv> 8"

record wait_scan =
  w_children :: nat
  w_flag :: nat
  w_ret :: int

text \<open>Which slots count as children, and which zombies the argument selects.\<close>

definition wait_child :: "int \<Rightarrow> process \<Rightarrow> process \<Rightarrow> bool" where
  "wait_child pd me p \<longleftrightarrow> ppid p = pid me \<and> (pd > 0 \<longrightarrow> state p \<noteq> PROC_EXITED)"

definition wait_match :: "int \<Rightarrow> process \<Rightarrow> process \<Rightarrow> bool" where
  "wait_match pd me p \<longleftrightarrow> state p = PROC_ZOMBIE \<and>
     (if pd = -1 then True
      else if pd > 0 then pid p = pd
      else if pd = 0 then pgid (pgrp p) = pgid (pgrp me)
      else pgid (pgrp p) = - pd)"

definition wait_slot :: "int \<Rightarrow> u32 \<Rightarrow> nat \<Rightarrow> wait_scan \<times> 'a sys_state_scheme \<Rightarrow> wait_scan \<times> 'a sys_state_scheme" where
  "wait_slot pd stat_loc i = (\<lambda>(w, s).
     let p = process_table s i in
     if \<not> wait_child pd (cur s) p then (w, s)
     else
       let w = w\<lparr>w_children := w_children w + 1\<rparr> in
       if wait_match pd (cur s) p then
         let w = w\<lparr>w_ret := pid p, w_flag := w_flag w + 1\<rparr>;
             s = (if stat_loc \<noteq> 0 \<and> check_user_ptr stat_loc s
                  then upd_space (put_ulong stat_loc (ucast (exit_code p))) s else s)
         in (w, set_state i PROC_EXITED s)
       else (w, s))"

text \<open>
  One pass from \<^verbatim>\<open>repeat\<close>: the call returns, or sleeps on the process table and keeps its counters.
  \<open>chan\<close> is \<^verbatim>\<open>&process_table\<close>.
\<close>

datatype 's wait_result = WaitDone int 's | WaitSleep wait_scan 's

definition waitpid_pass :: "u32 \<Rightarrow> int \<Rightarrow> u32 \<Rightarrow> u32 \<Rightarrow> wait_scan \<Rightarrow> 'a sys_state_scheme \<Rightarrow>
    'a sys_state_scheme wait_result kres" where
  "waitpid_pass chan pd stat_loc options w s =
     (let (w, s) = fold (wait_slot pd stat_loc) [0..<NR_PROC] (w, s) in
      if w_children w = 0 then Ret (WaitDone (- ECHILD) s)
      else if w_flag w \<noteq> 0 then Ret (WaitDone (w_ret w) s)
      else if options AND WNOHANG \<noteq> 0 then Ret (WaitDone 0 s)
      else bindk (sleep chan PROC_SLEEP_INTERRUPTIBLE s) (\<lambda>s. Ret (WaitSleep w s)))"

definition kernel_waitpid :: "u32 \<Rightarrow> int \<Rightarrow> u32 \<Rightarrow> u32 \<Rightarrow> 'a sys_state_scheme \<Rightarrow>
    'a sys_state_scheme wait_result kres" where
  "kernel_waitpid chan pd stat_loc options s =
     (if options AND WCONTINUED \<noteq> 0 \<or> options AND WUNTRACED \<noteq> 0 then Ret (WaitDone (- ENOSYS) s)
      else waitpid_pass chan pd stat_loc options \<lparr>w_children = 0, w_flag = 0, w_ret = 0\<rparr> s)"

text \<open>What the caller does when it runs again after the \<^verbatim>\<open>sleep\<close>.\<close>

definition waitpid_resume :: "u32 \<Rightarrow> int \<Rightarrow> u32 \<Rightarrow> u32 \<Rightarrow> wait_scan \<Rightarrow> 'a sys_state_scheme \<Rightarrow>
    'a sys_state_scheme wait_result kres" where
  "waitpid_resume chan pd stat_loc options w s =
     (if sigpending (cur s) AND push_bit (nat (SIGCHLD - 1)) 1 \<noteq> 0
      then waitpid_pass chan pd stat_loc options w
             (upd_proc (current_process s) (\<lambda>p. p\<lparr>sigpending := sigpending p AND NOT (push_bit (nat (SIGCHLD - 1)) 1)\<rparr>) s)
      else Ret (WaitDone (- EINTR) s))"

section \<open>Delivery of signals\<close>

text \<open>
  A process that a default action terminates does not come back from \<^verbatim>\<open>kernel_exit\<close>; one that is
  stopped goes on when it is scheduled again.
\<close>

datatype 's delivery = Handler u32 's | NoHandler 's | Exited 's

definition get_signal_handler ::
  "'a drivers \<Rightarrow> ('a file_state_scheme \<Rightarrow> 'a file_state_scheme kres) \<Rightarrow> signal_table \<Rightarrow> nat \<Rightarrow> int \<Rightarrow>
   'a file_state_scheme \<Rightarrow> 'a file_state_scheme delivery kres" where
  "get_signal_handler drv arch_exit tab i n s =
     (let handler = sighandlers (process_table s i) (nat n) in
      if handler = SIG_DFL then
        (case def_action (tab n) of
           SIGACTION_A \<Rightarrow> bindk (kernel_exit drv arch_exit n s) (\<lambda>s. Ret (Exited s))
         | SIGACTION_T \<Rightarrow> bindk (kernel_exit drv arch_exit n s) (\<lambda>s. Ret (Exited s))
         | SIGACTION_I \<Rightarrow> Ret (NoHandler s)
         | SIGACTION_C \<Rightarrow>
             if state (cur s) = PROC_STOPPED
             then bindk (adjust_proc_queues (current_process s) (set_state (current_process s) PROC_RUNNABLE s))
                    (\<lambda>s. Ret (NoHandler s))
             else Ret (NoHandler s)
         | SIGACTION_S \<Rightarrow>
             let c = current_process s in
             bindk (kernel_kill (ppid (cur s)) SIGCHLD (set_state c PROC_STOPPED s)) (\<lambda>(_, s).
             bindk (adjust_proc_queues c s) (\<lambda>s.
             bindk (schedule s) (\<lambda>s. Ret (NoHandler s)))))
      else if handler = SIG_IGN then Ret (NoHandler s)
      else Ret (Handler handler s))"

datatype 's signal_result = Deliver int u32 's | NoSignal 's | Terminated 's

fun signal_handler_loop ::
  "'a drivers \<Rightarrow> ('a file_state_scheme \<Rightarrow> 'a file_state_scheme kres) \<Rightarrow> signal_table \<Rightarrow> nat \<Rightarrow> nat list \<Rightarrow>
   'a file_state_scheme \<Rightarrow> 'a file_state_scheme signal_result kres" where
  "signal_handler_loop drv arch_exit tab i [] s = Ret (NoSignal s)"
| "signal_handler_loop drv arch_exit tab i (k # ks) s =
     (if sigpending (process_table s i) AND push_bit k 1 \<noteq> 0 then
        let s = upd_proc i (\<lambda>p. p\<lparr>sigpending := sigpending p AND NOT (push_bit k 1)\<rparr>) s
        in bindk (get_signal_handler drv arch_exit tab i (int k) s) (\<lambda>d.
           case d of
             Handler h s \<Rightarrow> Ret (Deliver (int k + 1) h s)
           | NoHandler s \<Rightarrow> signal_handler_loop drv arch_exit tab i ks s
           | Exited s \<Rightarrow> Ret (Terminated s))
      else signal_handler_loop drv arch_exit tab i ks s)"

definition signal_handler ::
  "'a drivers \<Rightarrow> ('a file_state_scheme \<Rightarrow> 'a file_state_scheme kres) \<Rightarrow> signal_table \<Rightarrow> nat \<Rightarrow>
   'a file_state_scheme \<Rightarrow> 'a file_state_scheme signal_result kres" where
  "signal_handler drv arch_exit tab i s = signal_handler_loop drv arch_exit tab i [0..<nat NSIG] s"

end
