(* ===== verification/Files_Refs.thy ===== *)
theory Files_Refs
  imports Files
begin

text \<open>
  Reference counts of open files. The count of every entry of the file table is the number of
  descriptors, over all processes, that refer to it; opening, closing and duplicating descriptors
  keep it so, for every filesystem whose operations leave the tables of this layer alone.
\<close>

section \<open>The invariant\<close>

definition refs :: "'a file_state_scheme \<Rightarrow> nat \<Rightarrow> (nat \<times> nat) set" where
  "refs s i = {(p, fd). p < NR_PROC \<and> fd < NR_OPEN \<and> fd_table (process_table s p) fd = Some i}"

definition file_inv :: "'a file_state_scheme \<Rightarrow> bool" where
  "file_inv s \<longleftrightarrow> current_process s < NR_PROC \<and>
     (\<forall>i<NR_FILE. unat (f_count (file_table s i)) = card (refs s i)) \<and>
     (\<forall>p<NR_PROC. \<forall>fd<NR_OPEN. \<forall>i. fd_table (process_table s p) fd = Some i \<longrightarrow>
        i < NR_FILE \<and> f_fs (file_table s i) \<noteq> None)"

text \<open>What this layer relies on from a filesystem.\<close>

definition keeps_files :: "'a file_state_scheme \<Rightarrow> 'a file_state_scheme \<Rightarrow> bool" where
  "keeps_files s t \<longleftrightarrow> current_process t = current_process s \<and>
     (\<forall>p. fd_table (process_table t p) = fd_table (process_table s p)) \<and>
     (\<forall>i. f_count (file_table t i) = f_count (file_table s i) \<and> f_fs (file_table t i) = f_fs (file_table s i))"

definition driver_frame :: "'a drivers \<Rightarrow> bool" where
  "driver_frame drv \<longleftrightarrow>
     (\<forall>d path flags mode s r t. fs_open (drv d) path flags mode s = Ret (r, t) \<longrightarrow> keeps_files s t) \<and>
     (\<forall>d fp s r t. fs_close (drv d) fp s = Ret (r, t) \<longrightarrow> keeps_files s t)"

lemma driver_frameD:
  assumes "driver_frame drv"
  shows "fs_open (driver_of drv fs u) path flags mode s = Ret (r, t) \<Longrightarrow> keeps_files s t"
    and "fs_close (driver_of drv fs u) fp s = Ret (q, t) \<Longrightarrow> keeps_files s t"
  using assms unfolding driver_frame_def driver_of_def by blast+

lemma finite_refs [simp]: "finite (refs s i)"
proof -
  have "refs s i \<subseteq> {..<NR_PROC} \<times> {..<NR_OPEN}" by (auto simp: refs_def)
  then show ?thesis by (rule finite_subset) simp
qed

lemma card_refs_le: "card (refs s i) \<le> NR_PROC * NR_OPEN"
proof -
  have "refs s i \<subseteq> {..<NR_PROC} \<times> {..<NR_OPEN}" by (auto simp: refs_def)
  from card_mono [OF _ this] show ?thesis by simp
qed

lemma refs_keeps: "keeps_files s t \<Longrightarrow> refs t i = refs s i"
  by (simp add: refs_def keeps_files_def)

lemma file_inv_keeps: "keeps_files s t \<Longrightarrow> file_inv s \<Longrightarrow> file_inv t"
  using refs_keeps [of s t] by (simp add: file_inv_def) (simp add: keeps_files_def)

lemma file_fields [simp]:
  "file_table (set_fd fd v s) = file_table s"
  "current_process (set_fd fd v s) = current_process s"
  "fd_table (process_table (set_fd fd v s) p) =
     (if p = current_process s then (fd_table (process_table s p))(fd := v) else fd_table (process_table s p))"
  "process_table (upd_file i f s) = process_table s"
  "current_process (upd_file i f s) = current_process s"
  "file_table (upd_file i f s) j = (if j = i then f (file_table s j) else file_table s j)"
  "refs (upd_file i f s) j = refs s j"
  by (simp_all add: set_fd_def upd_proc_def upd_file_def refs_def)

lemma refs_set_fd:
  assumes "current_process s < NR_PROC" and "fd < NR_OPEN"
  shows "refs (set_fd fd v s) i =
    (refs s i - {(current_process s, fd)}) \<union> (if v = Some i then {(current_process s, fd)} else {})"
  using assms by (auto simp: refs_def split: if_splits)

lemma refs_mem: "(p, fd) \<in> refs s i \<longleftrightarrow> p < NR_PROC \<and> fd < NR_OPEN \<and> fd_table (process_table s p) fd = Some i"
  by (simp add: refs_def)

lemma unat_count_add: "unat (c :: u32) \<le> 1280 \<Longrightarrow> unat (c + 1) = unat c + 1"
  by (simp add: unat_plus_if_size word_size)

lemma unat_count_sub: "(c :: u32) \<noteq> 0 \<Longrightarrow> unat (c - 1) = unat c - 1"
  by (metis unat_minus_one)

text \<open>Giving a free descriptor to a file and counting it, and the converse.\<close>

lemma file_inv_attach:
  assumes inv: "file_inv s" and fd: "fd < NR_OPEN" "fd_table (cur s) fd = None" and fp: "fp < NR_FILE"
    and g: "\<And>f. unat (f_count (g f)) = unat (f_count (file_table s fp)) + 1" "\<And>f. f_fs (g f) = f_fs f"
    and fs: "f_fs (file_table s fp) \<noteq> None"
  shows "file_inv (upd_file fp g (set_fd fd (Some fp) s))"
proof -
  have c: "current_process s < NR_PROC" using inv by (simp add: file_inv_def)
  note r = refs_set_fd [OF c fd(1)]
  have "(current_process s, fd) \<notin> refs s i" for i using fd by (simp add: refs_mem)
  then have "card (refs (set_fd fd (Some fp) s) i) = (if i = fp then card (refs s i) + 1 else card (refs s i))" for i
    unfolding r by auto
  then show ?thesis using inv c fd fp g fs by (auto simp: file_inv_def split: if_splits)
qed

lemma file_inv_detach:
  assumes inv: "file_inv s" and fd: "fd < NR_OPEN" "fd_table (cur s) fd = Some fp"
  shows "f_count (file_table s fp) \<noteq> 0"
    and "file_inv (set_fd fd None (upd_file fp (\<lambda>f. f\<lparr>f_count := f_count f - 1\<rparr>) s))"
proof -
  have c: "current_process s < NR_PROC" using inv by (simp add: file_inv_def)
  have mem: "(current_process s, fd) \<in> refs s fp" using c fd by (simp add: refs_mem)
  have fp: "fp < NR_FILE" using inv c fd unfolding file_inv_def by blast
  then have n: "unat (f_count (file_table s fp)) = card (refs s fp)" using inv by (simp add: file_inv_def)
  moreover have "card (refs s fp) \<noteq> 0" using mem by auto
  ultimately show nz: "f_count (file_table s fp) \<noteq> 0" by auto
  let ?u = "upd_file fp (\<lambda>f. f\<lparr>f_count := f_count f - 1\<rparr>) s"
  have r: "refs (set_fd fd None ?u) i = refs s i - {(current_process s, fd)}" for i
    using refs_set_fd [of ?u fd None i] c fd by simp
  have "card (refs (set_fd fd None ?u) i) = (if i = fp then card (refs s i) - 1 else card (refs s i))" for i
  proof (cases "i = fp")
    case True
    with mem show ?thesis unfolding r by simp
  next
    case False
    with mem have "(current_process s, fd) \<notin> refs s i" by (auto simp: refs_mem)
    with False show ?thesis unfolding r by simp
  qed
  then show "file_inv (set_fd fd None ?u)"
    using inv c n unat_count_sub [OF nz] by (auto simp: file_inv_def split: if_splits)
qed

section \<open>Opening and closing\<close>


lemma kernel_close_result:
  assumes inv: "file_inv s" and drv: "driver_frame drv"
    and fd: "0 \<le> fd" "fd < int NR_OPEN" "fd_table (cur s) (nat fd) = Some fp"
    and c: "kernel_close drv fd s = Ret (r, t)"
  shows "r = 0 \<and> file_inv t \<and> current_process t = current_process s \<and>
    fd_table (cur t) = (fd_table (cur s))(nat fd := None) \<and>
    f_count (file_table t fp) = f_count (file_table s fp) - 1 \<and>
    (\<forall>p. p \<noteq> current_process s \<longrightarrow> fd_table (process_table t p) = fd_table (process_table s p))"
proof -
  let ?u = "upd_file fp (\<lambda>f. f\<lparr>f_count := f_count f - 1\<rparr>) s"
  have n: "nat fd < NR_OPEN" using fd by simp
  note d = file_inv_detach [OF inv n fd(3)]
  from c fd d(1) obtain fs q v where "fs_close (driver_of drv fs ?u) fp ?u = Ret (q, v)"
    and t: "t = set_fd (nat fd) None v" "r = 0"
    by (auto simp: kernel_close_def Let_def file_driver_def bindk_eq_Ret_iff split: option.splits)
  from driver_frameD(2) [OF drv this(1)] have k: "keeps_files ?u v" .
  then have "keeps_files (set_fd (nat fd) None ?u) t" unfolding t by (auto simp: keeps_files_def)
  from file_inv_keeps [OF this d(2)] k t show ?thesis by (auto simp: keeps_files_def)
qed

text \<open>
  C11. \<^verbatim>\<open>close\<close> of an open descriptor never meets a zero count, frees that descriptor alone and takes
  one from the count of its file, keeping all counts exact.
\<close>

theorem kernel_close_releases:
  assumes inv: "file_inv s" and drv: "driver_frame drv"
    and fd: "0 \<le> fd" "fd < int NR_OPEN" "fd_table (cur s) (nat fd) = Some fp"
  shows "f_count (file_table s fp) \<noteq> 0 \<and>
    (\<forall>r t. kernel_close drv fd s = Ret (r, t) \<longrightarrow> r = 0 \<and> file_inv t \<and>
       fd_table (cur t) = (fd_table (cur s))(nat fd := None) \<and>
       f_count (file_table t fp) = f_count (file_table s fp) - 1 \<and>
       (\<forall>p. p \<noteq> current_process s \<longrightarrow> fd_table (process_table t p) = fd_table (process_table s p)))"
  using kernel_close_result [OF assms] file_inv_detach(1) [OF inv _ fd(3)] fd by auto

section \<open>Duplicating\<close>

lemma dup_from_cases:
  assumes inv: "file_inv s" and fd: "0 \<le> fd" "fd < int NR_OPEN" "fd_table (cur s) (nat fd) = Some fp" and n: "0 \<le> new"
  shows "(\<forall>j. nat new \<le> j \<and> j < NR_OPEN \<longrightarrow> fd_table (cur s) j \<noteq> None) \<and> dup_from fd new c s = Ret (- EMFILE, s) \<or>
    (\<exists>i t. dup_from fd new c s = Ret (int i, t) \<and> nat new \<le> i \<and> i < NR_OPEN \<and> fd_table (cur s) i = None \<and>
       (\<forall>j. nat new \<le> j \<and> j < i \<longrightarrow> fd_table (cur s) j \<noteq> None) \<and> file_inv t \<and>
       fd_table (cur t) = (fd_table (cur s))(i \<mapsto> fp) \<and> current_process t = current_process s \<and>
       (c \<longrightarrow> \<not> bit (close_on_exec (cur t)) i))"
proof (cases "List.find (\<lambda>i. fd_table (cur s) i = None) [nat new..<NR_OPEN]")
  case None
  then have "\<forall>j. nat new \<le> j \<and> j < NR_OPEN \<longrightarrow> fd_table (cur s) j \<noteq> None" by (auto simp: find_None_iff)
  moreover have "dup_from fd new c s = Ret (- EMFILE, s)" using fd n by (simp add: dup_from_def None)
  ultimately show ?thesis by blast
next
  case (Some i)
  then obtain k where k: "k < length [nat new..<NR_OPEN]" "i = [nat new..<NR_OPEN] ! k"
    "fd_table (cur s) i = None" "\<forall>j<k. fd_table (cur s) ([nat new..<NR_OPEN] ! j) \<noteq> None"
    by (auto simp: find_Some_iff)
  then have i: "i = nat new + k" "i < NR_OPEN" by auto
  have low: "fd_table (cur s) j \<noteq> None" if "nat new \<le> j" "j < i" for j
    using k(4) [rule_format, of "j - nat new"] that i by (simp add: nth_upt)
  let ?u = "upd_file fp (\<lambda>f. f\<lparr>f_count := f_count f + 1\<rparr>) (set_fd i (Some fp) s)"
  have c: "current_process s < NR_PROC" using inv by (simp add: file_inv_def)
  have fp: "fp < NR_FILE" "f_fs (file_table s fp) \<noteq> None"
    using inv c fd nat_less_iff [OF fd(1), of NR_OPEN] unfolding file_inv_def by blast+
  have "unat (f_count (file_table s fp)) \<le> 1280" using inv fp card_refs_le [of s fp] by (simp add: file_inv_def)
  note cnt = unat_count_add [OF this]
  let ?v = "upd_file fp (\<lambda>f. f\<lparr>f_count := f_count (file_table s fp) + 1\<rparr>) (set_fd i (Some fp) s)"
  have "?u = ?v" by (simp add: upd_file_def)
  moreover have "file_inv ?v"
    by (rule file_inv_attach [OF inv i(2) k(3) fp(1)]) (use cnt fp in simp_all)
  ultimately have iu: "file_inv ?u" by simp
  let ?w = "upd_proc (current_process s) (\<lambda>p. p\<lparr>close_on_exec := close_on_exec p AND NOT (push_bit i 1)\<rparr>) ?u"
  have "keeps_files ?u ?w" by (auto simp: keeps_files_def upd_proc_def)
  from file_inv_keeps [OF this iu] have iw: "file_inv ?w" .
  have d: "dup_from fd new c s = Ret (int i, if c then ?w else ?u)"
    using fd n Some by (simp add: dup_from_def Let_def)
  have "\<not> bit (close_on_exec (cur ?w)) i" by (simp add: bit_simps)
  then show ?thesis using d i k(3) low iu iw by (intro disjI2 exI [of _ i] exI [of _ "if c then ?w else ?u"]) auto
qed

text \<open>
  \<^verbatim>\<open>dup\<close> of an open descriptor returns the lowest free descriptor, now referring to the same file
  with its count raised, or \<^verbatim>\<open>EMFILE\<close> when every descriptor is in use; it never stops.
\<close>

theorem kernel_dup_shares:
  assumes "file_inv s" and "0 \<le> fd" and "fd < int NR_OPEN" and "fd_table (cur s) (nat fd) = Some fp"
  shows "(\<forall>j<NR_OPEN. fd_table (cur s) j \<noteq> None) \<and> kernel_dup fd s = Ret (- EMFILE, s) \<or>
    (\<exists>i t. kernel_dup fd s = Ret (int i, t) \<and> i < NR_OPEN \<and> fd_table (cur s) i = None \<and>
       (\<forall>j<i. fd_table (cur s) j \<noteq> None) \<and> file_inv t \<and> fd_table (cur t) = (fd_table (cur s))(i \<mapsto> fp))"
  using dup_from_cases [OF assms, of 0 False] by (auto simp: kernel_dup_def)

text \<open>
  \<^verbatim>\<open>dup2\<close> onto another descriptor makes exactly that descriptor refer to the file of the first,
  whether or not it was open before, and keeps all reference counts exact.
\<close>

theorem kernel_dup2_redirects:
  assumes inv: "file_inv s" and drv: "driver_frame drv"
    and fd1: "0 \<le> fd1" "fd1 < int NR_OPEN" "fd_table (cur s) (nat fd1) = Some fp"
    and fd2: "0 \<le> fd2" "fd2 < int NR_OPEN" "fd1 \<noteq> fd2"
    and r: "kernel_dup2 drv fd1 fd2 s = Ret (r, t)"
  shows "r = fd2 \<and> fd_table (cur t) = (fd_table (cur s))(nat fd2 \<mapsto> fp) \<and> file_inv t"
proof -
  from r fd1 fd2 obtain q u where q: "kernel_close drv fd2 s = Ret (q, u)" and d: "dup_from fd1 fd2 False u = Ret (r, t)"
    by (auto simp: kernel_dup2_def fd_entry_def bindk_eq_Ret_iff)
  have u: "file_inv u" "fd_table (cur u) = (fd_table (cur s))(nat fd2 := None)"
  proof -
    have "file_inv u \<and> fd_table (cur u) = (fd_table (cur s))(nat fd2 := None)"
    proof (cases "fd_table (cur s) (nat fd2)")
      case None
      with q fd2 have "u = s" by (simp add: kernel_close_def)
      with None inv show ?thesis by (simp add: fun_upd_idem)
    next
      case (Some fp')
      from kernel_close_result [OF inv drv fd2(1,2) Some q] show ?thesis by metis
    qed
    then show "file_inv u" "fd_table (cur u) = (fd_table (cur s))(nat fd2 := None)" by simp_all
  qed
  have ne: "nat fd1 \<noteq> nat fd2" using fd1 fd2 by simp
  have fd1u: "fd_table (cur u) (nat fd1) = Some fp" using u(2) fd1(3) ne by simp
  have free: "fd_table (cur u) (nat fd2) = None" using u(2) by simp
  from dup_from_cases [OF u(1) fd1(1,2) fd1u fd2(1), of False] d free fd2
  obtain i where i: "r = int i" "nat fd2 \<le> i" "\<forall>j. nat fd2 \<le> j \<and> j < i \<longrightarrow> fd_table (cur u) j \<noteq> None"
    "file_inv t" "fd_table (cur t) = (fd_table (cur u))(i \<mapsto> fp)" by auto
  have "i = nat fd2" using i(2) i(3) [rule_format, of "nat fd2"] free by force
  with i u(2) fd2 show ?thesis by simp
qed

text \<open>
  \<^verbatim>\<open>F_DUPFD_CLOEXEC\<close> never sets the close-on-exec flag of the descriptor it returns: it clears it.
\<close>

theorem dupfd_cloexec_leaves_flag_clear:
  assumes inv: "file_inv s" and r: "kernel_fcntl fd F_DUPFD_CLOEXEC arg s = Ret (r, t)" and "0 \<le> r"
  shows "\<not> bit (close_on_exec (cur t)) (nat r)"
proof -
  from r assms(3) obtain fp where fp: "0 \<le> fd" "fd < int NR_OPEN" "fd_table (cur s) (nat fd) = Some fp"
    and d: "dup_from fd arg True s = Ret (r, t)"
    by (auto simp: kernel_fcntl_def split: if_splits option.splits)
  then have "0 \<le> arg" by (auto simp: dup_from_def split: if_splits option.splits)
  from dup_from_cases [OF inv fp this, of True] d assms(3) show ?thesis by auto
qed

section \<open>Read-only filesystems and access\<close>

text \<open>
  On a filesystem mounted read-only, \<^verbatim>\<open>chown\<close>, \<^verbatim>\<open>chmod\<close>, \<^verbatim>\<open>mkdir\<close>, \<^verbatim>\<open>rmdir\<close> and \<^verbatim>\<open>rename\<close> with valid
  pointers fail with \<^verbatim>\<open>EROFS\<close> before the filesystem's driver is called, and change nothing.
\<close>

theorem read_only_refuses_changes:
  assumes "mount_table s 0 = Some fs" and "f_read_only (filesystems s fs)"
    and "\<not> bad_user_ptr path s" and "\<not> bad_user_ptr path2 s"
  shows "kernel_chown drv path u g s = Ret (- EROFS, s) \<and> kernel_chmod drv path m s = Ret (- EROFS, s) \<and>
    kernel_mkdir drv path m s = Ret (- EROFS, s) \<and> kernel_rmdir drv path s = Ret (- EROFS, s) \<and>
    kernel_rename drv path path2 s = Ret (- EROFS, s)"
  using assms by (simp add: kernel_chown_def kernel_chmod_def kernel_mkdir_def kernel_rmdir_def kernel_rename_def
      on_writable_path_def on_path_def with_fs_def get_fs_from_path_def bad_user_ptr_def)

text \<open>
  \<^verbatim>\<open>access\<close> accepts only \<^verbatim>\<open>F_OK\<close> and modes that ask for reading, writing and executing together:
  \<^verbatim>\<open>R_OK\<close>, \<^verbatim>\<open>W_OK\<close> or \<^verbatim>\<open>X_OK\<close> alone, and every pair of them, fail with \<^verbatim>\<open>EINVAL\<close>.
\<close>

theorem access_rejects_single_modes:
  assumes "\<not> bad_user_ptr path s"
    and "amode \<in> {R_OK, W_OK, X_OK, R_OK OR W_OK, R_OK OR X_OK, W_OK OR X_OK}"
  shows "kernel_access drv path amode s = Ret (- EINVAL, s)"
proof -
  have "amode \<in> {4, 2, 1, 6, 5, 3}" using assms(2) by simp
  then show ?thesis using assms(1) by (auto simp: kernel_access_def)
qed

section \<open>A small system\<close>

text \<open>
  One mounted filesystem whose driver opens every path as inode 3 and closes without further work;
  process 1 has descriptor 0 open. \<open>ro\<close> mounts it read-only.
\<close>

definition demo_ops :: "'a file_state_scheme fs_driver_ops" where
  "demo_ops = \<lparr>fs_raw_iput = (\<lambda>_. Ret), fs_raw_namei = (\<lambda>_ s. Ret ((None, - ENOENT), s)),
     fs_raw_inode_ctl = (\<lambda>_ _ _. 0), fs_raw_permission = (\<lambda>_ _ _. 0), fs_get_attribute = (\<lambda>_ _ _. 0),
     fs_open = (\<lambda>_ _ _ s. Ret ((Some 3, 0), s)), fs_read = (\<lambda>_ _ _ s. Ret (0, s)), fs_write = (\<lambda>_ _ _ s. Ret (0, s)),
     fs_sync = (\<lambda>_ s. Ret (0, s)), fs_unlink = (\<lambda>_ s. Ret (0, s)), fs_lseek = (\<lambda>p _ _ _ _. (0, p)),
     fs_link = (\<lambda>_ _ s. Ret (0, s)), fs_mknod = (\<lambda>_ _ _ s. Ret (0, s)), fs_close = (\<lambda>_ s. Ret (0, s)),
     fs_chdir = (\<lambda>_ s. Ret (0, s)), fs_chown = (\<lambda>_ _ _ s. Ret (0, s)), fs_chmod = (\<lambda>_ _ s. Ret (0, s)),
     fs_fchmod = (\<lambda>_ _ s. Ret (0, s)), fs_mkdir = (\<lambda>_ _ s. Ret (0, s)), fs_rmdir = (\<lambda>_ s. Ret (0, s)),
     fs_chroot = (\<lambda>_ s. Ret (0, s)), fs_symlink = (\<lambda>_ _ s. Ret (0, s)), fs_lchown = (\<lambda>_ _ _ s. Ret (0, s)),
     fs_rename = (\<lambda>_ _ s. Ret (0, s)), fs_stat = (\<lambda>_ _ s. Ret (0, s)), fs_lstat = (\<lambda>_ _ s. Ret (0, s)),
     fs_fstat = (\<lambda>_ _ s. Ret (0, s)), fs_access = (\<lambda>_ _ s. Ret (0, s))\<rparr>"

definition demo_drivers :: "'a drivers" where
  "demo_drivers = (\<lambda>_. demo_ops)"

definition free_file :: kfile where
  "free_file = \<lparr>f_fs = None, f_inode = None, f_pos = 0, f_mode = 0, f_flags = 0, f_count = 0\<rparr>"

definition file_demo :: "bool \<Rightarrow> file_state" where
  "file_demo ro = \<lparr>process_table = (process_table one_user)(1 := (user_proc 1 1 1)\<lparr>fd_table := (\<lambda>_. None)(0 := Some 0)\<rparr>),
     current_process = 1, process_queues = process_queues one_user, last_pid = 1, timer_ticks = 0, startup_time = 0,
     user_spaces = \<lambda>_. \<lparr>us_valid = (\<lambda>_. True), us_mem = (\<lambda>_. 0)\<rparr>,
     sys_phase = SYSTEM_MULTITASKING, multitasking_hooks = [],
     file_table = (\<lambda>_. free_file)(0 := free_file\<lparr>f_fs := Some 0, f_inode := Some 3, f_count := 1\<rparr>),
     filesystems = (\<lambda>_. \<lparr>f_dev = 0x300, f_read_only = ro, f_driver = 0\<rparr>),
     mount_table = (\<lambda>_. None)(0 := Some 0), nr_mounts = 1\<rparr>"

lemma demo_drivers_frame: "driver_frame demo_drivers"
  by (simp add: driver_frame_def demo_drivers_def demo_ops_def keeps_files_def)

lemma file_demo_fds:
  "fd_table (process_table (file_demo ro) p) fd = (if p = 1 \<and> fd = 0 then Some 0 else None)"
  "current_process (file_demo ro) = 1"
  by (simp_all add: file_demo_def one_user_fields demo_defs)

lemma file_demo_inv: "file_inv (file_demo ro)"
proof -
  have r: "refs (file_demo ro) i = (if i = 0 then {(1, 0)} else {})" for i
    by (auto simp: refs_def file_demo_fds split: if_splits)
  show ?thesis unfolding file_inv_def r file_demo_fds by (simp add: file_demo_def free_file_def)
qed

lemma file_demo_ptr [simp]: "bad_user_ptr a (file_demo ro) \<longleftrightarrow> a = 0"
  by (simp add: bad_user_ptr_def check_user_ptr_def file_demo_def)


lemma file_demo_fd0: "fd_table (cur (file_demo ro)) (nat 0) = Some 0"
  by (simp add: file_demo_fds)

theorem kernel_close_releases_witness:
  "\<exists>t. kernel_close demo_drivers 0 (file_demo False) = Ret (0, t) \<and> file_inv t \<and>
     fd_table (cur t) = (fd_table (cur (file_demo False)))(0 := None)"
proof -
  have "\<exists>t. kernel_close demo_drivers 0 (file_demo False) = Ret (0, t)"
    by (simp add: kernel_close_def file_demo_fds)
      (simp add: file_driver_def driver_of_def demo_drivers_def demo_ops_def upd_file_def file_demo_def Let_def)
  with kernel_close_releases [OF file_demo_inv demo_drivers_frame _ _ file_demo_fd0, of False] show ?thesis
    by fastforce
qed

theorem kernel_dup_shares_witness:
  "\<exists>i t. kernel_dup 0 (file_demo False) = Ret (int i, t) \<and> file_inv t"
proof -
  have "\<not> (\<forall>j<NR_OPEN. fd_table (cur (file_demo False)) j \<noteq> None)"
    by (auto simp: file_demo_fds intro!: exI [of _ "1 :: nat"])
  with kernel_dup_shares [OF file_demo_inv _ _ file_demo_fd0, of False] show ?thesis by auto
qed

theorem kernel_dup2_redirects_witness:
  "\<exists>t. kernel_dup2 demo_drivers 0 5 (file_demo False) = Ret (5, t) \<and> file_inv t"
proof -
  have c: "kernel_close demo_drivers 5 (file_demo False) = Ret (- EBADF, file_demo False)"
    by (simp add: kernel_close_def file_demo_fds)
  obtain r t where "kernel_dup2 demo_drivers 0 5 (file_demo False) = Ret (r, t)"
    using dup_from_cases [OF file_demo_inv _ _ file_demo_fd0, of 5 False False] c
    by (auto simp: kernel_dup2_def fd_entry_def file_demo_fds)
  with kernel_dup2_redirects [OF file_demo_inv demo_drivers_frame _ _ file_demo_fd0 _ _ _ this] show ?thesis by auto
qed

theorem dupfd_cloexec_leaves_flag_clear_witness:
  "\<exists>i t. kernel_fcntl 0 F_DUPFD_CLOEXEC 0 (file_demo False) = Ret (int i, t) \<and> \<not> bit (close_on_exec (cur t)) i"
proof -
  have "\<exists>i t. kernel_fcntl 0 F_DUPFD_CLOEXEC 0 (file_demo False) = Ret (int i, t)"
    using dup_from_cases [OF file_demo_inv _ _ file_demo_fd0, of 0 False True]
    by (auto simp: kernel_fcntl_def file_demo_fds dest: spec [of _ 1])
  then obtain i t where e: "kernel_fcntl 0 F_DUPFD_CLOEXEC 0 (file_demo False) = Ret (int i, t)" by blast
  from dupfd_cloexec_leaves_flag_clear [OF file_demo_inv e] e show ?thesis by auto
qed

theorem read_only_refuses_changes_witness:
  "kernel_mkdir demo_drivers 64 0 (file_demo True) = Ret (- EROFS, file_demo True)"
proof -
  have "mount_table (file_demo True) 0 = Some 0" "f_read_only (filesystems (file_demo True) 0)"
    by (simp_all add: file_demo_def)
  from read_only_refuses_changes [OF this, of 64 64] show ?thesis by simp
qed

theorem access_rejects_single_modes_witness:
  "kernel_access demo_drivers 64 R_OK (file_demo False) = Ret (- EINVAL, file_demo False)"
  by (rule access_rejects_single_modes) simp_all

end
