(* ===== verification/Proc_Fork.thy ===== *)
theory Proc_Fork
  imports Proc Files_Refs
begin

text \<open>
  Fork. The child is a runnable, queued copy of its parent that shares its open files; the run queues
  stay well formed and the reference counts of the files exact.
\<close>

section \<open>Replacing a process that is in no queue\<close>

lemma sched_wf_cong:
  assumes "process_table t = process_table s" and "process_queues t = process_queues s"
    and "current_process t = current_process s"
  shows "sched_wf t \<longleftrightarrow> sched_wf s"
proof -
  have "sched_wf u \<Longrightarrow> sched_wf v"
    if e: "process_table v = process_table u" "process_queues v = process_queues u"
      "current_process v = current_process u"
    for u :: "'c sched_state_scheme" and v :: "'d sched_state_scheme"
  proof -
    assume wf: "sched_wf u"
    have rq: "run_queue v = run_queue u" unfolding run_queue_def e ..
    have "queue_ok v k xs = queue_ok u k xs" for k xs unfolding queue_ok_def e ..
    with wf show "sched_wf v" by (simp add: sched_wf_def sched_inv_def queued_def rq e)
  qed
  from this [of t s] this [of s t] assms show ?thesis by auto
qed

lemma slot_replace:
  assumes wf: "sched_wf s" and i: "i < NR_PROC" and nr: "\<not> runnable (process_table s i)"
    and pt: "process_table t = (process_table s)(i := q)" and pq: "process_queues t = process_queues s"
    and cp: "current_process t = current_process s"
    and q: "queue_next q = None" "queue_prev q = None" "valid_priority (priority q)"
  shows "sched_inv t" and "\<And>j. j < NR_PROC \<Longrightarrow> j \<noteq> i \<Longrightarrow> queued t j = queued s j"
proof -
  note inv = sched_wfD(1) [OF wf]
  have ni: "i \<notin> set (run_queue s k)" if "valid_priority k" for k
  proof
    assume m: "i \<in> set (run_queue s k)"
    with run_queue_mem(2) [OF inv that m] have "queued s i" by (simp add: queued_def)
    with sched_wfD(2) [OF wf i] nr show False by simp
  qed
  have ok: "queue_ok t k (run_queue s k)" if k: "valid_priority k" for k
  proof (cases "process_queues s k")
    case None
    then show ?thesis using sched_invD(1) [OF inv k] by (simp add: queue_ok_def pq)
  next
    case (Some h)
    with sched_invD(1) [OF inv k] have r: "ring (qn s) (qp s) (run_queue s k)" "hd (run_queue s k) = h"
      "\<forall>j\<in>set (run_queue s k). j < NR_PROC \<and> priority (process_table s j) = k" by (simp_all add: queue_ok_def)
    have ne: "j \<noteq> i" if "j \<in> set (run_queue s k)" for j using that ni [OF k] by blast
    have "ring (qn t) (qp t) (run_queue s k)"
      by (rule ring_frame [OF r(1)]) (simp_all add: pt ne)
    with r ne Some show ?thesis by (auto simp: queue_ok_def pq pt)
  qed
  have v: "valid_priority (priority (process_table t j))" if "j < NR_PROC" for j
    using that sched_invD(2) [OF inv] q by (simp add: pt)
  have un: "qn t j = None \<and> qp t j = None"
    if "j < NR_PROC" "j \<notin> set (run_queue s (priority (process_table t j)))" for j
    using that q sched_invD(3,4) [OF inv that(1)] by (cases "j = i") (simp_all add: pt queued_def)
  note I = sched_invI [of t "run_queue s", OF ok v un]
  show "sched_inv t" using I(1) sched_invD(5) [OF inv] cp by simp
  fix j assume j: "j < NR_PROC" "j \<noteq> i"
  then show "queued t j = queued s j"
    using queue_ok_run_queue [OF ok [OF v [OF j(1)]]] by (simp add: queued_def pt)
qed

section \<open>Counting the shared files\<close>

definition fd_uses :: "nat \<Rightarrow> (nat \<Rightarrow> nat option) \<Rightarrow> nat \<Rightarrow> nat set" where
  "fd_uses n tab j = {fd. fd < n \<and> tab fd = Some j}"

lemma card_fd_uses_Suc:
  "card (fd_uses (Suc n) tab j) = card (fd_uses n tab j) + (if tab n = Some j then 1 else 0)"
proof -
  have "fd_uses (Suc n) tab j = (if tab n = Some j then insert n (fd_uses n tab j) else fd_uses n tab j)"
    by (auto simp: fd_uses_def less_Suc_eq)
  moreover have "finite (fd_uses n tab j)" "n \<notin> fd_uses n tab j" by (auto simp: fd_uses_def)
  ultimately show ?thesis by simp
qed

lemma count_fds:
  "fold count_fd [0..<n] s = s\<lparr>file_table := \<lambda>j. (file_table s j)\<lparr>f_count :=
     f_count (file_table s j) + of_nat (card (fd_uses n (fd_table (cur s)) j))\<rparr>\<rparr>"
proof (induction n)
  case 0
  then show ?case by (simp add: fd_uses_def)
next
  case (Suc n)
  have step: "fold count_fd [0..<Suc n] s = count_fd n (fold count_fd [0..<n] s)" by simp
  show ?case
  proof (cases "fd_table (cur s) n")
    case None
    then show ?thesis unfolding step Suc card_fd_uses_Suc by (simp add: count_fd_def)
  next
    case (Some fp)
    then show ?thesis unfolding step Suc card_fd_uses_Suc
      by (simp add: count_fd_def upd_file_def)
        (rule arg_cong [of _ _ "\<lambda>f. s\<lparr>file_table := f\<rparr>"], auto simp: fun_eq_iff add.assoc)
  qed
qed

lemma refs_fork:
  assumes pt: "\<And>p. fd_table (process_table t p) = (if p = i then tab else fd_table (process_table s p))"
    and i: "i < NR_PROC" "fd_table (process_table s i) = (\<lambda>_. None)"
  shows "card (refs t j) = card (refs s j) + card (fd_uses NR_OPEN tab j)"
proof -
  have "refs t j = refs s j \<union> Pair i ` fd_uses NR_OPEN tab j"
    using i by (auto simp: refs_def pt fd_uses_def split: if_splits)
  moreover have "refs s j \<inter> Pair i ` fd_uses NR_OPEN tab j = {}" using i by (auto simp: refs_def)
  moreover have "finite (fd_uses NR_OPEN tab j)" by (simp add: fd_uses_def)
  ultimately show ?thesis by (simp add: card_Un_disjoint card_image inj_on_def)
qed

lemma unat_count_plus: "unat (c :: u32) + n \<le> 1280 \<Longrightarrow> unat (c + of_nat n) = unat c + n"
proof -
  assume a: "unat c + n \<le> 1280"
  then have "unat (of_nat n :: u32) = n" using unat_of_nat_u32 [of n] by simp
  with a show ?thesis using unat_plus_simple [of c "of_nat n"] unat_add_lem [of c "of_nat n"] by simp
qed

section \<open>The theorem\<close>

text \<open>The architecture's part copies the address space and leaves the kernel's tables alone.\<close>

definition arch_fork_ok ::
  "(int \<Rightarrow> nat \<Rightarrow> 'a file_state_scheme \<Rightarrow> (int \<times> 'a file_state_scheme) kres) \<Rightarrow> bool" where
  "arch_fork_ok af \<longleftrightarrow> (\<forall>c j u. \<exists>r us. 0 \<le> r \<and> af c j u = Ret (r, u\<lparr>user_spaces := us\<rparr>))"

lemma more_file_table:
  fixes s t :: "'a file_state_scheme"
  shows "sched_state.more t = sched_state.more s \<Longrightarrow> file_table t = file_table s"
  by (cases s rule: file_state.cases_scheme; cases t rule: file_state.cases_scheme) simp

lemma links_only_fds:
  assumes "links_only s t"
  shows "fd_table (process_table t p) = fd_table (process_table s p)"
proof -
  from assms have e: "strip_links (process_table t p) = strip_links (process_table s p)"
    by (simp add: links_only_def)
  from arg_cong [OF e, of fd_table] show ?thesis by (simp add: strip_links_def)
qed

lemma sched_only_runnable:
  assumes "sched_only s t" and "runnable (process_table s p)"
  shows "runnable (process_table t p)"
proof -
  from assms(1) have "state (process_table t p) = state (process_table s p) \<or> runnable (process_table t p)"
    by (auto simp: sched_only_def)
  with assms(2) show ?thesis by (auto simp: runnable_def)
qed

lemma sched_only_fds:
  assumes "sched_only s t"
  shows "fd_table (process_table t p) = fd_table (process_table s p)"
    and "pid (process_table t p) = pid (process_table s p)"
    and "ppid (process_table t p) = ppid (process_table s p)"
proof -
  from assms have e: "proc_core (process_table t p) = proc_core (process_table s p)"
    by (simp add: sched_only_def)
  from arg_cong [OF e, of fd_table] show "fd_table (process_table t p) = fd_table (process_table s p)"
    by (simp add: proc_core_def)
  from arg_cong [OF e, of pid] show "pid (process_table t p) = pid (process_table s p)"
    by (simp add: proc_core_def)
  from arg_cong [OF e, of ppid] show "ppid (process_table t p) = ppid (process_table s p)"
    by (simp add: proc_core_def)
qed

definition free_slot :: "'a sched_state_scheme \<Rightarrow> nat \<Rightarrow> bool" where
  "free_slot s i \<longleftrightarrow> find_index (\<lambda>j. state (process_table s j) = PROC_EXITED) NR_PROC = Some i"

lemma free_slotD:
  assumes "free_slot s i"
  shows "i < NR_PROC" and "state (process_table s i) = PROC_EXITED" and "\<not> runnable (process_table s i)"
    and "get_free_proc s = (Some i, s\<lparr>last_pid := int i\<rparr>)"
proof -
  show "get_free_proc s = (Some i, s\<lparr>last_pid := int i\<rparr>)" using assms by (simp add: free_slot_def get_free_proc_def)
qed (use assms in \<open>simp_all add: free_slot_def find_index_Some_iff runnable_def\<close>)

text \<open>Putting the child into its slot and queueing it.\<close>

lemma fork_queues_child:
  assumes wf: "sched_wf s" and free: "free_slot s i"
    and t: "process_table t = (process_table s)(i := child_of pd (cur s) q)" "process_queues t = process_queues s"
      "current_process t = current_process s"
  shows "\<exists>u. adjust_proc_queues i t = Ret u \<and> sched_wf u \<and> links_only t u"
proof (rule adjust_restores_wf [OF _ free_slotD(1) [OF free]])
  have vp: "valid_priority (priority (child_of pd (cur s) q))"
    using sched_invD(2) [OF sched_wfD(1) [OF wf] sched_wfD(4) [OF wf]]
    by (simp add: child_of_def valid_priority_def)
  note sr = slot_replace [OF wf free_slotD(1,3) [OF free] t _ _ vp]
  show "sched_inv t" by (rule sr(1)) (simp_all add: child_of_def)
  show "queued t j \<longleftrightarrow> runnable (process_table t j)" if "j < NR_PROC" "j \<noteq> i" for j
    using sr(2) [OF _ _ that] sched_wfD(2) [OF wf that(1)] that by (simp add: child_of_def t)
  have "i \<noteq> 0" using free_slotD(3) [OF free] sched_wfD(3) [OF wf] by metis
  then show "runnable (process_table t 0)" using sched_wfD(3) [OF wf] by (simp add: t)
qed

lemma fork_counts:
  assumes inv: "file_inv s" and i: "i < NR_PROC" "fd_table (process_table s i) = (\<lambda>_. None)"
    and c: "current_process t < NR_PROC" "current_process s < NR_PROC"
    and fds: "\<And>p. fd_table (process_table t p) = (if p = i then fd_table (cur s) else fd_table (process_table s p))"
    and ft: "file_table t = (\<lambda>j. (file_table s j)\<lparr>f_count := f_count (file_table s j) +
      of_nat (card (fd_uses NR_OPEN (fd_table (cur s)) j))\<rparr>)"
  shows "file_inv t"
proof -
  have r: "card (refs t j) = card (refs s j) + card (fd_uses NR_OPEN (fd_table (cur s)) j)" for j
    by (rule refs_fork [OF fds i])
  have "unat (f_count (file_table t j)) = card (refs t j)" if "j < NR_FILE" for j
  proof -
    have "unat (f_count (file_table s j)) = card (refs s j)" using inv that by (simp add: file_inv_def)
    with unat_count_plus [of "f_count (file_table s j)" "card (fd_uses NR_OPEN (fd_table (cur s)) j)"]
      card_refs_le [of t j] r [of j] show ?thesis by (simp add: ft)
  qed
  with inv c show ?thesis by (auto simp: file_inv_def fds ft split: if_splits)
qed

text \<open>What follows the queueing of the child: counting the files and directories, and the switch.\<close>

definition fork_finish :: "'a file_state_scheme \<Rightarrow> 'a file_state_scheme kres" where
  "fork_finish u = schedule (upd_proc (current_process u)
     (\<lambda>p. p\<lparr>root_inode := count_inode (root_inode p), cwd_inode := count_inode (cwd_inode p)\<rparr>)
     (fold count_fd [0..<NR_OPEN] u))"

lemma fork_finish_ok:
  assumes "sched_wf u"
  shows "\<exists>t. fork_finish u = Ret t \<and> sched_wf t \<and> last_pid t = last_pid u \<and>
    file_table t = (\<lambda>j. (file_table u j)\<lparr>f_count := f_count (file_table u j) +
      of_nat (card (fd_uses NR_OPEN (fd_table (cur u)) j))\<rparr>) \<and>
    (\<forall>p. fd_table (process_table t p) = fd_table (process_table u p) \<and>
       pid (process_table t p) = pid (process_table u p) \<and> ppid (process_table t p) = ppid (process_table u p) \<and>
       (runnable (process_table u p) \<longrightarrow> runnable (process_table t p)))"
proof -
  let ?g = "\<lambda>p. p\<lparr>root_inode := count_inode (root_inode p), cwd_inode := count_inode (cwd_inode p)\<rparr>"
  define v where "v = fold count_fd [0..<NR_OPEN] u"
  have v: "process_table v = process_table u" "process_queues v = process_queues u"
    "current_process v = current_process u" "last_pid v = last_pid u"
    unfolding v_def count_fds by simp_all
  have "sched_wf v" by (rule sched_wf_cong [THEN iffD2, OF v(1-3) assms])
  then have "sched_wf (upd_proc (current_process u) ?g v)"
    by (rule sched_wf_upd) (simp_all add: keeps_links_def)
  then obtain t where t: "schedule (upd_proc (current_process u) ?g v) = Ret t" "sched_wf t"
    using schedule_picks_ok by blast
  have so: "sched_only (upd_proc (current_process u) ?g v) t" by (rule schedule_sched_only [OF t(1)])
  then have "file_table t = file_table v" "last_pid t = last_pid u"
    using v(4) more_file_table [of t "upd_proc (current_process u) ?g v"] by (simp_all add: sched_only_def upd_proc_def)
  moreover have "runnable (process_table t p)" if "runnable (process_table u p)" for p
    by (rule sched_only_runnable [OF so]) (use that v(1) in \<open>auto simp: runnable_def\<close>)
  ultimately show ?thesis
    using t so sched_only_fds [OF so] v(1) unfolding fork_finish_def v_def [symmetric]
    by (auto simp: v_def count_fds)
qed

lemma kernel_fork_eq:
  assumes "free_slot s i" and "i \<noteq> current_process s" and "0 \<le> r"
    and "af (int i) i (upd_proc i (\<lambda>_. cur s) (s\<lparr>last_pid := int i\<rparr>)) =
      Ret (r, (upd_proc i (\<lambda>_. cur s) (s\<lparr>last_pid := int i\<rparr>))\<lparr>user_spaces := us\<rparr>)"
  shows "kernel_fork af s =
    bindk (adjust_proc_queues i (upd_proc i (\<lambda>_. child_of (int i) (cur s) (cur s))
        (s\<lparr>last_pid := int i, user_spaces := us\<rparr>))) (\<lambda>u.
    bindk (fork_finish u) (\<lambda>t. Ret (last_pid t, t)))"
  using assms free_slotD(4) [OF assms(1)] unfolding kernel_fork_def fork_finish_def
  by (simp add: Let_def upd_proc_def count_fds)

text \<open>
  C8. With a free slot and no failure of the architecture's part, \<^verbatim>\<open>fork\<close> returns the index of the
  slot. The child there has that pid, the caller as its parent and the caller's open descriptors; it
  is runnable and on its run queue; the process table is well formed and every file's reference
  count is exact, so the shared files survive until both processes have closed them.
\<close>

theorem kernel_fork_creates_child:
  assumes wf: "sched_wf s" and inv: "file_inv s" and run: "runnable (cur s)"
    and free: "free_slot s i" "fd_table (process_table s i) = (\<lambda>_. None)" and af: "arch_fork_ok af"
  shows "\<exists>t. kernel_fork af s = Ret (int i, t) \<and> sched_wf t \<and> file_inv t \<and> queued t i \<and>
    pid (process_table t i) = int i \<and> ppid (process_table t i) = pid (cur s) \<and>
    (\<forall>p. fd_table (process_table t p) = (if p = i then fd_table (cur s) else fd_table (process_table s p)))"
proof -
  from run free_slotD(3) [OF free(1)] have ic: "i \<noteq> current_process s" by auto
  let ?s1 = "upd_proc i (\<lambda>_. cur s) (s\<lparr>last_pid := int i\<rparr>)"
  from af obtain r us where r: "0 \<le> r" "af (int i) i ?s1 = Ret (r, ?s1\<lparr>user_spaces := us\<rparr>)"
    unfolding arch_fork_ok_def by blast
  define c where "c = upd_proc i (\<lambda>_. child_of (int i) (cur s) (cur s)) (s\<lparr>last_pid := int i, user_spaces := us\<rparr>)"
  have c: "process_table c = (process_table s)(i := child_of (int i) (cur s) (cur s))"
    "process_queues c = process_queues s" "current_process c = current_process s" "last_pid c = int i"
    "file_table c = file_table s"
    by (auto simp: c_def upd_proc_def)
  from fork_queues_child [OF wf free(1) c(1-3)] obtain u where
    u: "adjust_proc_queues i c = Ret u" "sched_wf u" "links_only c u" by blast
  from fork_finish_ok [OF u(2)] obtain t where t: "fork_finish u = Ret t" "sched_wf t" "last_pid t = last_pid u"
    "file_table t = (\<lambda>j. (file_table u j)\<lparr>f_count := f_count (file_table u j) +
      of_nat (card (fd_uses NR_OPEN (fd_table (cur u)) j))\<rparr>)"
    "\<And>p. fd_table (process_table t p) = fd_table (process_table u p)"
    "\<And>p. pid (process_table t p) = pid (process_table u p)" "\<And>p. ppid (process_table t p) = ppid (process_table u p)"
    "\<And>p. runnable (process_table u p) \<Longrightarrow> runnable (process_table t p)" by blast
  have lu: "last_pid u = int i" "current_process u = current_process s" "file_table u = file_table s"
    using u(3) c more_file_table [of u c] by (simp_all add: links_only_def)
  note fu = links_only_fds [OF u(3)] sched_only_fds(2,3) [OF links_only_sched_only [OF u(3)]]
  have fds: "fd_table (process_table t p) = (if p = i then fd_table (cur s) else fd_table (process_table s p))" for p
    by (simp add: t(5) fu c child_of_def)
  have ids: "pid (process_table t i) = int i" "ppid (process_table t i) = pid (cur s)"
    by (simp_all add: t(6,7) fu c child_of_def)
  have "runnable (process_table u i)"
    using links_only_eqs(4) [OF u(3), of i] by (simp add: c child_of_def runnable_def)
  with t(8) sched_wfD(2) [OF t(2) free_slotD(1) [OF free(1)]] have qd: "queued t i" by simp
  have "fd_table (cur u) = fd_table (cur s)" using fu(1) lu(2) c(1) ic by simp
  then have "file_inv t"
    using fork_counts [OF inv free_slotD(1) [OF free(1)] free(2) sched_wfD(4) [OF t(2)] sched_wfD(4) [OF wf] fds]
      t(4) lu(3) by simp
  moreover have "kernel_fork af s = Ret (int i, t)"
    using kernel_fork_eq [of s i r af us, OF free(1) ic r, folded c_def] u(1) t(1,3) lu(1) by simp
  ultimately show ?thesis using t(2) qd ids fds by blast
qed

section \<open>A process that forks\<close>

lemma file_demo_wf: "sched_wf (file_demo ro)"
proof -
  let ?u = "upd_proc 1 (\<lambda>p. p\<lparr>fd_table := (\<lambda>_. None)(0 := Some 0)\<rparr>) one_user"
  have "sched_wf ?u" by (rule sched_wf_upd [OF one_user_wf]) (simp_all add: keeps_links_def)
  then show ?thesis
    by (rule sched_wf_cong [THEN iffD2, rotated 3])
      (auto simp: file_demo_def upd_proc_def one_user_fields)
qed

lemma file_demo_slots:
  "state (process_table (file_demo ro) i) = (if i = 0 \<or> i = 1 then PROC_RUNNABLE else PROC_EXITED)"
  by (simp add: file_demo_def one_user_fields demo_fields)

lemma file_demo_free: "free_slot (file_demo ro) 2"
  by (simp add: free_slot_def find_index_Some_iff file_demo_slots)

definition demo_arch_fork :: "int \<Rightarrow> nat \<Rightarrow> 'a file_state_scheme \<Rightarrow> (int \<times> 'a file_state_scheme) kres" where
  "demo_arch_fork c j u = Ret (0, u\<lparr>user_spaces := (user_spaces u)(j := cur_space u)\<rparr>)"

theorem kernel_fork_creates_child_witness:
  "\<exists>t. kernel_fork demo_arch_fork (file_demo False) = Ret (2, t) \<and> sched_wf t \<and> file_inv t \<and> queued t 2 \<and>
     fd_table (process_table t 2) 0 = Some 0"
proof -
  have "runnable (cur (file_demo False))" by (simp add: runnable_def file_demo_slots file_demo_fds(2))
  moreover have "fd_table (process_table (file_demo False) 2) = (\<lambda>_. None)" by (auto simp: file_demo_fds)
  moreover have "arch_fork_ok demo_arch_fork"
    unfolding arch_fork_ok_def demo_arch_fork_def by (blast intro: order_refl)
  ultimately show ?thesis
    using kernel_fork_creates_child [OF file_demo_wf file_demo_inv _ file_demo_free] by (fastforce simp: file_demo_fds)
qed

end
