(* ===== verification/Proc_Wait.thy ===== *)
theory Proc_Wait
  imports Proc
begin

text \<open>
  Waiting for children: what one pass of \<^verbatim>\<open>kernel_waitpid\<close> over the process table does.
\<close>

section \<open>One pass over the table\<close>

definition reaped :: "int \<Rightarrow> 'a sched_state_scheme \<Rightarrow> nat \<Rightarrow> bool" where
  "reaped pd s i \<longleftrightarrow> wait_child pd (cur s) (process_table s i) \<and> wait_match pd (cur s) (process_table s i)"

definition reap :: "int \<Rightarrow> 'a sched_state_scheme \<Rightarrow> nat \<Rightarrow> nat \<Rightarrow> process" where
  "reap pd s n i = (if i < n \<and> reaped pd s i then (process_table s i)\<lparr>state := PROC_EXITED\<rparr> else process_table s i)"

lemma reap_cong:
  "pid (reap pd s n i) = pid (process_table s i)" "pgrp (reap pd s n i) = pgrp (process_table s i)"
  "n \<le> i \<Longrightarrow> reap pd s n i = process_table s i"
  by (simp_all add: reap_def)

lemma wait_child_me: "pid m = pid m' \<Longrightarrow> wait_child pd m p = wait_child pd m' p"
  by (simp add: wait_child_def)

lemma wait_match_me: "pgrp m = pgrp m' \<Longrightarrow> wait_match pd m p = wait_match pd m' p"
  by (simp add: wait_match_def)

lemma upd_space_fields [simp]:
  "process_table (upd_space f s) = process_table s" "current_process (upd_space f s) = current_process s"
  by (simp_all add: upd_space_def)

lemma wait_slot_table:
  assumes "process_table t = reap pd s n" and "current_process t = current_process s"
  shows "process_table (snd (wait_slot pd loc n (w, t))) = reap pd s (Suc n) \<and>
    current_process (snd (wait_slot pd loc n (w, t))) = current_process s \<and>
    fst (wait_slot pd loc n (w, t)) = w\<lparr>
      w_children := w_children w + (if wait_child pd (cur s) (process_table s n) then 1 else 0),
      w_flag := w_flag w + (if reaped pd s n then 1 else 0),
      w_ret := (if reaped pd s n then pid (process_table s n) else w_ret w)\<rparr>"
proof -
  have me: "pid (cur t) = pid (cur s)" "pgrp (cur t) = pgrp (cur s)" "process_table t n = process_table s n"
    using assms by (simp_all add: reap_cong)
  note m = wait_child_me [OF me(1)] wait_match_me [OF me(2)]
  have r: "reap pd s (Suc n) = (if reaped pd s n
      then (reap pd s n)(n := (process_table s n)\<lparr>state := PROC_EXITED\<rparr>) else reap pd s n)"
    by (auto simp: reap_def fun_eq_iff less_Suc_eq)
  have eq: "wait_slot pd loc n (w, t) =
      (if \<not> wait_child pd (cur s) (process_table s n) then (w, t)
       else if wait_match pd (cur s) (process_table s n)
       then (w\<lparr>w_children := w_children w + 1, w_ret := pid (process_table s n), w_flag := w_flag w + 1\<rparr>,
             set_state n PROC_EXITED (if loc \<noteq> 0 \<and> check_user_ptr loc t
               then upd_space (put_ulong loc (ucast (exit_code (process_table s n)))) t else t))
       else (w\<lparr>w_children := w_children w + 1\<rparr>, t))"
    unfolding wait_slot_def Let_def prod.case m me(3) by simp
  have n: "reap pd s n n = process_table s n" by (simp add: reap_cong)
  show ?thesis
  proof (cases "reaped pd s n")
    case True
    then have "wait_child pd (cur s) (process_table s n)" "wait_match pd (cur s) (process_table s n)"
      by (simp_all add: reaped_def)
    with True show ?thesis unfolding eq r by (simp add: set_state_def upd_proc_def assms n)
  next
    case False
    then show ?thesis unfolding eq r by (auto simp: reaped_def assms)
  qed
qed

definition wait_acc :: "int \<Rightarrow> 'a sched_state_scheme \<Rightarrow> wait_scan \<Rightarrow> nat \<Rightarrow> wait_scan" where
  "wait_acc pd s w n =
     \<lparr>w_children = w_children w + card {i. i < n \<and> wait_child pd (cur s) (process_table s i)},
      w_flag = w_flag w + card {i. i < n \<and> reaped pd s i},
      w_ret = (if \<exists>i<n. reaped pd s i then pid (process_table s (Max {i. i < n \<and> reaped pd s i})) else w_ret w)\<rparr>"

lemma wait_acc_Suc:
  "wait_acc pd s w (Suc n) = (wait_acc pd s w n)\<lparr>
     w_children := w_children (wait_acc pd s w n) + (if wait_child pd (cur s) (process_table s n) then 1 else 0),
     w_flag := w_flag (wait_acc pd s w n) + (if reaped pd s n then 1 else 0),
     w_ret := (if reaped pd s n then pid (process_table s n) else w_ret (wait_acc pd s w n))\<rparr>"
proof -
  have S: "{i. i < Suc n \<and> P i} = (if P n then insert n {i. i < n \<and> P i} else {i. i < n \<and> P i})" for P
    by (auto simp: less_Suc_eq)
  have c: "card {i. i < Suc n \<and> P i} = card {i. i < n \<and> P i} + (if P n then 1 else 0)" for P
    unfolding S by simp
  have "(if \<exists>i<Suc n. reaped pd s i then pid (process_table s (Max {i. i < Suc n \<and> reaped pd s i})) else w_ret w) =
      (if reaped pd s n then pid (process_table s n) else w_ret (wait_acc pd s w n))"
  proof (cases "reaped pd s n")
    case True
    then have "Max {i. i < Suc n \<and> reaped pd s i} = n" by (intro Max_eqI) auto
    with True show ?thesis by auto
  next
    case False
    then have "{i. i < Suc n \<and> reaped pd s i} = {i. i < n \<and> reaped pd s i}"
      "(\<exists>i<Suc n. reaped pd s i) = (\<exists>i<n. reaped pd s i)" by (auto simp: less_Suc_eq)
    with False show ?thesis by (simp only: if_False wait_acc_def wait_scan.select_convs)
  qed
  then show ?thesis unfolding wait_acc_def [of pd s w "Suc n"] c by (simp add: wait_acc_def)
qed

lemma wait_fold:
  "\<exists>t. fold (wait_slot pd loc) [0..<n] (w, s) = (wait_acc pd s w n, t) \<and>
    process_table t = reap pd s n \<and> current_process t = current_process s"
proof (induction n)
  case 0
  show ?case by (simp add: reap_def fun_eq_iff wait_acc_def)
next
  case (Suc n)
  then obtain t where t: "fold (wait_slot pd loc) [0..<n] (w, s) = (wait_acc pd s w n, t)"
    "process_table t = reap pd s n" "current_process t = current_process s" by blast
  have step: "fold (wait_slot pd loc) [0..<Suc n] (w, s) = wait_slot pd loc n (wait_acc pd s w n, t)"
    using t(1) by simp
  from wait_slot_table [OF t(2,3), of loc "wait_acc pd s w n", folded wait_acc_Suc] show ?case
    unfolding step by (metis prod.collapse)
qed

section \<open>The call\<close>


text \<open>Two zombie children of process 1.\<close>

definition zombie_demo :: sys_state where
  "zombie_demo = sched_state.extend
     (upd_proc 2 (\<lambda>p. p\<lparr>pid := 2, ppid := 1, state := PROC_ZOMBIE\<rparr>)
       (upd_proc 3 (\<lambda>p. p\<lparr>pid := 3, ppid := 1, state := PROC_ZOMBIE\<rparr>) one_user))
     \<lparr>user_spaces = \<lambda>_. \<lparr>us_valid = (\<lambda>_. True), us_mem = (\<lambda>_. 0)\<rparr>,
      sys_phase = SYSTEM_MULTITASKING, multitasking_hooks = []\<rparr>"

lemma zombie_demo_fields:
  "process_table zombie_demo i = (if i = 2 then zero_process\<lparr>pid := 2, ppid := 1, state := PROC_ZOMBIE\<rparr>
     else if i = 3 then zero_process\<lparr>pid := 3, ppid := 1, state := PROC_ZOMBIE\<rparr> else process_table one_user i)"
  "current_process zombie_demo = 1"
  by (simp_all add: zombie_demo_def sched_state.defs upd_proc_def one_user_fields)


end
