(* ===== verification/Page_Alloc.thy ===== *)
theory Page_Alloc
  imports Yak_Prelude
begin

text \<open>
  Physical memory: \<^verbatim>\<open>sys/mm/mm_init.c\<close>, \<^verbatim>\<open>sys/mm/page_alloc.c\<close> and the headers \<^verbatim>\<open>mm.h\<close>,
  \<^verbatim>\<open>mmap.h\<close>. The memory map is an array of regions linked in order, each with a bitmap of its page
  frames in physical memory, which is a function from addresses to bytes; adding and subtracting
  \<^verbatim>\<open>KERNEL_VIRT_BASE\<close> to reach it from the kernel cancels and is left out. A pointer into either array
  is an index.
\<close>

section \<open>Data\<close>

abbreviation (input) MAX_MMAP_ENTRIES :: nat where "MAX_MMAP_ENTRIES \<equiv> 16"
abbreviation (input) PAGE_SIZE :: u32 where "PAGE_SIZE \<equiv> 4096"
abbreviation (input) NO_FREE_PAGE :: u32 where "NO_FREE_PAGE \<equiv> 1"
abbreviation (input) MULTIBOOT_MEMORY_AVAILABLE :: u32 where "MULTIBOOT_MEMORY_AVAILABLE \<equiv> 1"

record mmap_entry =
  me_base :: u32
  me_size :: u32
  me_bitmap_size :: u32
  me_next :: "nat option"

record mmap_bitmap =
  mb_entry :: "nat option"
  mb_base :: u32
  mb_size :: u32
  mb_next_free :: u32
  mb_free_pages :: u32

text \<open>The reference counts are \<^verbatim>\<open>char\<close>s, signed on this machine.\<close>

record page_state =
  mmap :: "nat \<Rightarrow> mmap_entry"
  mmap_bitmaps :: "nat \<Rightarrow> mmap_bitmap"
  total_mem :: u32
  reference_counts :: "u32 \<Rightarrow> 8 word"
  phys_mem :: "u32 \<Rightarrow> u8"

record multiboot_mmap_entry =
  mb_addr_low :: u32
  mb_len_low :: u32
  mb_type :: u32

definition IS_PAGE_ALIGNED :: "u32 \<Rightarrow> bool" where
  "IS_PAGE_ALIGNED x \<longleftrightarrow> x AND 0xFFF = 0"

definition upd_entry :: "nat \<Rightarrow> (mmap_entry \<Rightarrow> mmap_entry) \<Rightarrow> 'a page_state_scheme \<Rightarrow> 'a page_state_scheme" where
  "upd_entry i f s = s\<lparr>mmap := (mmap s)(i := f (mmap s i))\<rparr>"

definition upd_bitmap :: "nat \<Rightarrow> (mmap_bitmap \<Rightarrow> mmap_bitmap) \<Rightarrow> 'a page_state_scheme \<Rightarrow> 'a page_state_scheme" where
  "upd_bitmap i f s = s\<lparr>mmap_bitmaps := (mmap_bitmaps s)(i := f (mmap_bitmaps s i))\<rparr>"

section \<open>The memory map\<close>

text \<open>
  The search reads \<^verbatim>\<open>entry->size\<close> before it compares \<^verbatim>\<open>entry\<close> with the end of the array.
\<close>

definition enter_into_mmap :: "u32 \<Rightarrow> u32 \<Rightarrow> 'a page_state_scheme \<Rightarrow> (nat \<times> 'a page_state_scheme) kres" where
  "enter_into_mmap base sz s =
     (case find_index (\<lambda>i. me_size (mmap s i) = 0) MAX_MMAP_ENTRIES of
        None \<Rightarrow> Stop (Fault ''mmap'')
      | Some i \<Rightarrow> Ret (i, upd_entry i (\<lambda>_. \<lparr>me_base = base, me_size = sz, me_bitmap_size = sz div PAGE_SIZE + 1,
                          me_next = (if i + 1 < MAX_MMAP_ENTRIES then Some (i + 1) else None)\<rparr>) s))"

definition enter_available :: "multiboot_mmap_entry \<Rightarrow> 'a page_state_scheme \<Rightarrow> 'a page_state_scheme kres" where
  "enter_available e s =
     (if mb_type e = MULTIBOOT_MEMORY_AVAILABLE
      then bindk (enter_into_mmap (mb_addr_low e) (mb_len_low e) (s\<lparr>total_mem := total_mem s + mb_len_low e\<rparr>)) (\<lambda>(_, s). Ret s)
      else Ret s)"

text \<open>\<^verbatim>\<open>for (mep = mmap; mep->next != NULL; mep = mep->next)\<close>; the map has at most 16 entries.\<close>

fun walk_mmap :: "nat \<Rightarrow> (nat \<Rightarrow> 's \<Rightarrow> (bool \<times> 's) kres) \<Rightarrow> ('s \<Rightarrow> nat \<Rightarrow> nat option) \<Rightarrow> nat \<Rightarrow> 's \<Rightarrow> 's kres" where
  "walk_mmap 0 body nxt i s = Stop Diverges"
| "walk_mmap (Suc n) body nxt i s =
     (if nxt s i = None then Ret s
      else bindk (body i s) (\<lambda>(stop, s).
        if stop then Ret s
        else case nxt s i of None \<Rightarrow> Stop (Fault ''mep'') | Some j \<Rightarrow> walk_mmap n body nxt j s))"

abbreviation next_of_entry :: "'a page_state_scheme \<Rightarrow> nat \<Rightarrow> nat option" where
  "next_of_entry s i \<equiv> me_next (mmap s i)"

text \<open>Taking the kernel image out of the region it is in.\<close>

definition reserve_kernel :: "u32 \<Rightarrow> u32 \<Rightarrow> nat \<Rightarrow> 'a page_state_scheme \<Rightarrow> (bool \<times> 'a page_state_scheme) kres" where
  "reserve_kernel kstart kernel_size i s =
     (if me_base (mmap s i) = kstart \<and> me_size (mmap s i) > kernel_size
      then Ret (False, upd_entry i (\<lambda>e. e\<lparr>me_size := me_size e - kernel_size, me_base := me_base e + kernel_size\<rparr>) s)
      else if me_base (mmap s i) = kstart \<and> me_size (mmap s i) < kernel_size
      then Stop (Panic ''Bizzare: there doesn't seem to be enough memory for the kernel to be running!'')
      else Ret (False, s))"

definition reserve_pages :: "u32 \<Rightarrow> nat \<Rightarrow> u32 \<times> 'a page_state_scheme \<Rightarrow> (bool \<times> (u32 \<times> 'a page_state_scheme)) kres" where
  "reserve_pages nr i = (\<lambda>(base, s).
     if me_size (mmap s i) > nr * PAGE_SIZE
     then Ret (True, me_base (mmap s i),
               upd_entry i (\<lambda>e. e\<lparr>me_size := me_size e - nr * PAGE_SIZE, me_base := me_base e + nr * PAGE_SIZE\<rparr>) s)
     else Ret (False, base, s))"

text \<open>The loop that lays the bitmaps out one after the other; it sets the pointer of the first unused one.\<close>

fun place_bitmaps :: "nat list \<Rightarrow> u32 \<times> 'a page_state_scheme \<Rightarrow> u32 \<times> 'a page_state_scheme" where
  "place_bitmaps [] (base, s) = (base, s)"
| "place_bitmaps (b # bs) (base, s) =
     (let s = upd_bitmap b (\<lambda>m. m\<lparr>mb_entry := Some b\<rparr>) s in
      if me_next (mmap s b) = None then (base, s)
      else
        let sz = me_size (mmap s b) div PAGE_SIZE div 8 + 1;
            s = upd_bitmap b (\<lambda>m. m\<lparr>mb_base := base, mb_size := sz, mb_next_free := 0, mb_free_pages := push_bit 3 sz\<rparr>) s
        in place_bitmaps bs (base + sz, s))"

definition clear_mem :: "u32 \<Rightarrow> u32 \<Rightarrow> 'a page_state_scheme \<Rightarrow> 'a page_state_scheme" where
  "clear_mem a n s = s\<lparr>phys_mem := \<lambda>x. if x - a < n then 0 else phys_mem s x\<rparr>"

text \<open>The last loop ends at the first bitmap whose region has no successor.\<close>

fun clear_bitmaps :: "nat list \<Rightarrow> 'a page_state_scheme \<Rightarrow> 'a page_state_scheme kres" where
  "clear_bitmaps [] s = Stop (Fault ''mmap_bitmaps'')"
| "clear_bitmaps (b # bs) s =
     (case mb_entry (mmap_bitmaps s b) of
        None \<Rightarrow> Stop (Fault ''mmap_entry'')
      | Some e \<Rightarrow>
          if me_next (mmap s e) = None then Ret s
          else clear_bitmaps bs (clear_mem (mb_base (mmap_bitmaps s b)) (mb_size (mmap_bitmaps s b)) s))"

definition reserve_bitmaps :: "'a page_state_scheme \<Rightarrow> 'a page_state_scheme kres" where
  "reserve_bitmaps s =
     (let nr = total_mem s div (PAGE_SIZE * 8 * PAGE_SIZE) + 1 in
      bindk (walk_mmap (MAX_MMAP_ENTRIES + 1) (reserve_pages nr) (\<lambda>(_, s). next_of_entry s) 0 (0xFFFFFFFF, s)) (\<lambda>(base, s).
      if base = 0xFFFFFFFF then Stop (Panic ''Not enough memory'')
      else clear_bitmaps [0..<MAX_MMAP_ENTRIES] (snd (place_bitmaps [0..<MAX_MMAP_ENTRIES] (base, s)))))"

text \<open>\<^verbatim>\<open>entries\<close> is the boot loader's list; \<^verbatim>\<open>kstart\<close> and \<^verbatim>\<open>kend\<close> are the addresses of the linker script.\<close>

definition mm_init :: "multiboot_mmap_entry list \<Rightarrow> u32 \<Rightarrow> u32 \<Rightarrow> 'a page_state_scheme \<Rightarrow> 'a page_state_scheme kres" where
  "mm_init entries kstart kend s =
     bindk (foldk enter_available entries s) (\<lambda>s.
     if \<not> IS_PAGE_ALIGNED kstart \<or> \<not> IS_PAGE_ALIGNED kend
     then Stop (Panic ''_end_kernel or _start_kernel are not page aligned'')
     else bindk (walk_mmap (MAX_MMAP_ENTRIES + 1) (reserve_kernel kstart (kend - kstart)) next_of_entry 0 s) reserve_bitmaps)"

section \<open>Bitmaps\<close>

definition set_bit :: "u32 \<Rightarrow> u32 \<Rightarrow> 'a page_state_scheme \<Rightarrow> 'a page_state_scheme" where
  "set_bit bitmap b s =
     (let a = bitmap + drop_bit 3 b
      in s\<lparr>phys_mem := (phys_mem s)(a := phys_mem s a OR push_bit (unat (b mod 8)) 1)\<rparr>)"

definition clear_bit :: "u32 \<Rightarrow> u32 \<Rightarrow> 'a page_state_scheme \<Rightarrow> 'a page_state_scheme" where
  "clear_bit bitmap b s =
     (let a = bitmap + drop_bit 3 b
      in s\<lparr>phys_mem := (phys_mem s)(a := phys_mem s a AND NOT (push_bit (unat (b mod 8)) 1))\<rparr>)"

definition bit_of :: "(u32 \<Rightarrow> u8) \<Rightarrow> u32 \<Rightarrow> nat \<Rightarrow> bool" where
  "bit_of mem bitmap n \<longleftrightarrow> bit (mem (bitmap + of_nat (n div 8))) (n mod 8)"

text \<open>
  The loop of \<^verbatim>\<open>scan_bitmap\<close> from bit \<open>8 * i + j\<close>: the pair of indices is the bit number. It compares
  the bit number with the size of the bitmap, which is in bytes. \<open>None\<close> is a loop that never ends;
  the inner value is the clear bit it found, or the limit.
\<close>

partial_function (option) scan_loop :: "(u32 \<Rightarrow> u8) \<Rightarrow> u32 \<Rightarrow> nat \<Rightarrow> nat \<Rightarrow> nat option option" where
  "scan_loop mem bitmap sz n =
     (if bit_of mem bitmap n
      then if n = sz then Some None else scan_loop mem bitmap sz (n + 1)
      else Some (Some n))"

declare scan_loop.simps [code]

definition scan_bitmap :: "nat \<Rightarrow> 'a page_state_scheme \<Rightarrow> 'a page_state_scheme kres" where
  "scan_bitmap b s =
     (let m = mmap_bitmaps s b in
      case scan_loop (phys_mem s) (mb_base m) (unat (mb_size m)) (unat (mb_next_free m)) of
        None \<Rightarrow> Stop Diverges
      | Some None \<Rightarrow> Ret (upd_bitmap b (\<lambda>m. m\<lparr>mb_next_free := NO_FREE_PAGE\<rparr>) s)
      | Some (Some n) \<Rightarrow> Ret (upd_bitmap b (\<lambda>m. m\<lparr>mb_next_free := of_nat n\<rparr>) s))"

section \<open>Frames\<close>

text \<open>The bitmap at which the search loops stop, with its region.\<close>

fun find_bitmap :: "(nat \<Rightarrow> nat \<Rightarrow> 'a page_state_scheme \<Rightarrow> bool) \<Rightarrow> nat list \<Rightarrow> 'a page_state_scheme \<Rightarrow> (nat \<times> nat) kres" where
  "find_bitmap found [] s = Stop (Fault ''mmap_bitmaps'')"
| "find_bitmap found (b # bs) s =
     (case mb_entry (mmap_bitmaps s b) of
        None \<Rightarrow> Stop (Fault ''mmap_entry'')
      | Some e \<Rightarrow>
          if me_next (mmap s e) = None \<or> found b e s then Ret (b, e) else find_bitmap found bs s)"

definition page_frame_alloc :: "'a page_state_scheme \<Rightarrow> (u32 \<times> 'a page_state_scheme) kres" where
  "page_frame_alloc s =
     bindk (find_bitmap (\<lambda>b e s. mb_free_pages (mmap_bitmaps s b) \<noteq> 0) [0..<MAX_MMAP_ENTRIES] s) (\<lambda>(b, e).
     let m = mmap_bitmaps s b in
     if mb_free_pages m = 0 then
       (if mb_next_free m \<noteq> NO_FREE_PAGE then Stop (Panic ''Memory map bitmaps corrupted'')
        else Ret (NO_FREE_PAGE, s))
     else
       let ret = mb_next_free m * PAGE_SIZE + me_base (mmap s e);
           s = set_bit (mb_base m) (mb_next_free m) s;
           s = upd_bitmap b (\<lambda>m. m\<lparr>mb_free_pages := mb_free_pages m - 1\<rparr>) s
       in bindk (if mb_free_pages (mmap_bitmaps s b) \<noteq> 0 then scan_bitmap b s
                 else Ret (upd_bitmap b (\<lambda>m. m\<lparr>mb_next_free := NO_FREE_PAGE\<rparr>) s)) (\<lambda>s.
          Ret (ret, s\<lparr>reference_counts := (reference_counts s)(ret div PAGE_SIZE := 1)\<rparr>)))"

definition page_frame_free :: "u32 \<Rightarrow> 'a page_state_scheme \<Rightarrow> 'a page_state_scheme kres" where
  "page_frame_free page s =
     (let k = page div PAGE_SIZE;
          s = s\<lparr>reference_counts := (reference_counts s)(k := reference_counts s k - 1)\<rparr> in
      if sint (reference_counts s k) > 0 then Ret s
      else if \<not> IS_PAGE_ALIGNED page then Stop (Panic ''page_frame_free: page has wrong alignment'')
      else
        let s = s\<lparr>reference_counts := (reference_counts s)(k := reference_counts s k - 1)\<rparr> in
        if reference_counts s k \<noteq> 0 then Ret s
        else
          bindk (find_bitmap (\<lambda>b e s. me_base (mmap s e) + me_size (mmap s e) > page) [0..<MAX_MMAP_ENTRIES] s) (\<lambda>(b, e).
          if me_base (mmap s e) + me_size (mmap s e) < page
          then Stop (Panic ''page_frame_free: page address is nowhere in memory!'')
          else
            let n = (page - me_base (mmap s e)) div PAGE_SIZE;
                s = clear_bit (mb_base (mmap_bitmaps s b)) n s
            in Ret (upd_bitmap b (\<lambda>m. m\<lparr>mb_free_pages := mb_free_pages m + 1,
                     mb_next_free := (if n < mb_next_free m then n else mb_next_free m)\<rparr>) s)))"

definition page_increase_count :: "u32 \<Rightarrow> 'a page_state_scheme \<Rightarrow> 'a page_state_scheme" where
  "page_increase_count page s =
     s\<lparr>reference_counts := (reference_counts s)(page div PAGE_SIZE := reference_counts s (page div PAGE_SIZE) + 1)\<rparr>"

definition page_decrease_count :: "u32 \<Rightarrow> 'a page_state_scheme \<Rightarrow> 'a page_state_scheme" where
  "page_decrease_count page s =
     s\<lparr>reference_counts := (reference_counts s)(page div PAGE_SIZE := reference_counts s (page div PAGE_SIZE) - 1)\<rparr>"

definition page_get_count :: "u32 \<Rightarrow> 'a page_state_scheme \<Rightarrow> int" where
  "page_get_count page s = sint (reference_counts s (page div PAGE_SIZE))"

end
