(* ===== verification/Page_Alloc_Props.thy ===== *)
theory Page_Alloc_Props
  imports Page_Alloc
begin

text \<open>
  The page frame allocator: what a scan finds, that an allocation hands out a frame that was free,
  and two consequences of how the code counts: frames are never freed, and a region runs out after
  an eighth of its frames and then hands out frame 1 again.
\<close>

section \<open>Bits in memory\<close>

lemma drop_bit_3_of_nat: "drop_bit 3 (b :: u32) = of_nat (unat b div 8)"
proof -
  have "unat (drop_bit 3 b) = unat b div 8" by (simp add: unat_drop_bit_eq drop_bit_eq_div unat_div)
  then show ?thesis by (metis of_nat_unat ucast_id)
qed

lemma set_bit_bits:
  assumes "n < 2 ^ 32"
  shows "bit_of (phys_mem (set_bit bm b s)) bm n \<longleftrightarrow> n = unat b \<or> bit_of (phys_mem s) bm n"
proof -
  have d: "bm + of_nat (n div 8) = bm + drop_bit 3 b \<longleftrightarrow> n div 8 = unat b div 8"
    using of_nat_u32_eq_iff [of "n div 8" "unat b div 8"] assms unat_lt_2p32 [of b]
    by (simp add: drop_bit_3_of_nat)
  have m: "unat (b mod 8) = unat b mod 8" by (simp add: unat_mod)
  have "n mod 8 < 8" by simp
  then have "bit (phys_mem (set_bit bm b s) (bm + of_nat (n div 8))) (n mod 8) \<longleftrightarrow>
      (n div 8 = unat b div 8 \<and> n mod 8 = unat b mod 8) \<or> bit (phys_mem s (bm + of_nat (n div 8))) (n mod 8)"
    using d m by (auto simp: set_bit_def Let_def bit_simps)
  moreover have "n div 8 = unat b div 8 \<and> n mod 8 = unat b mod 8 \<longleftrightarrow> n = unat b" by (metis div_mult_mod_eq)
  ultimately show ?thesis by (simp add: bit_of_def)
qed

section \<open>Scanning\<close>

lemma scan_step:
  "\<not> bit_of mem bm n \<Longrightarrow> scan_loop mem bm sz n = Some (Some n)"
  "bit_of mem bm sz \<Longrightarrow> scan_loop mem bm sz sz = Some None"
  "bit_of mem bm n \<Longrightarrow> n \<noteq> sz \<Longrightarrow> scan_loop mem bm sz n = scan_loop mem bm sz (n + 1)"
  by (subst scan_loop.simps, simp)+

text \<open>
  C38. The scan of a bitmap ends whenever it starts at or before the limit, and returns the first clear
  bit from there on, or reports none when every bit up to and including the limit is set.
\<close>

theorem scan_loop_finds_first_clear_bit:
  assumes "n \<le> sz"
  shows "\<exists>r. scan_loop mem bm sz n = Some r \<and>
    (case r of
       Some m \<Rightarrow> n \<le> m \<and> m \<le> sz \<and> \<not> bit_of mem bm m \<and> (\<forall>k. n \<le> k \<and> k < m \<longrightarrow> bit_of mem bm k)
     | None \<Rightarrow> \<forall>k. n \<le> k \<and> k \<le> sz \<longrightarrow> bit_of mem bm k)"
  using assms
proof (induction "sz - n" arbitrary: n)
  case 0
  then have "n = sz" by simp
  then show ?case by (cases "bit_of mem bm sz") (auto simp: scan_step(1,2) dest: le_antisym)
next
  case (Suc d)
  show ?case
  proof (cases "bit_of mem bm n")
    case False
    then show ?thesis using Suc.prems by (auto simp: scan_step(1))
  next
    case True
    from Suc.hyps(2) have "d = sz - (n + 1)" "n + 1 \<le> sz" "n \<noteq> sz" by simp_all
    from Suc.hyps(1) [OF this(1,2)] obtain r where r: "scan_loop mem bm sz (n + 1) = Some r"
      "case r of Some m \<Rightarrow> n + 1 \<le> m \<and> m \<le> sz \<and> \<not> bit_of mem bm m \<and> (\<forall>k. n + 1 \<le> k \<and> k < m \<longrightarrow> bit_of mem bm k)
        | None \<Rightarrow> \<forall>k. n + 1 \<le> k \<and> k \<le> sz \<longrightarrow> bit_of mem bm k" by blast
    have e: "scan_loop mem bm sz n = Some r"
      using scan_step(3) [OF True \<open>n \<noteq> sz\<close>] r(1) by simp
    have ext: "n \<le> k \<Longrightarrow> k = n \<or> n + 1 \<le> k" for k by auto
    show ?thesis
    proof (cases r)
      case None
      with r(2) have "\<forall>k. n + 1 \<le> k \<and> k \<le> sz \<longrightarrow> bit_of mem bm k" by simp
      with True ext have "\<forall>k. n \<le> k \<and> k \<le> sz \<longrightarrow> bit_of mem bm k" by blast
      with e None show ?thesis by (intro exI [of _ None]) simp
    next
      case (Some m)
      with r(2) have m: "n + 1 \<le> m" "m \<le> sz" "\<not> bit_of mem bm m"
        "\<forall>k. n + 1 \<le> k \<and> k < m \<longrightarrow> bit_of mem bm k" by simp_all
      with True ext have "\<forall>k. n \<le> k \<and> k < m \<longrightarrow> bit_of mem bm k" by blast
      with e Some m show ?thesis by (intro exI [of _ "Some m"]) simp
    qed
  qed
qed

lemma scan_returns: "n \<le> sz \<Longrightarrow> \<exists>r. scan_loop mem bm sz n = Some r"
proof (induction "sz - n" arbitrary: n)
  case 0
  then have "n = sz" by simp
  then show ?case by (cases "bit_of mem bm sz") (simp_all add: scan_step(1,2))
next
  case (Suc d)
  then have "d = sz - (n + 1)" "n + 1 \<le> sz" "n \<noteq> sz" by simp_all
  then show ?case using Suc.hyps(1) [of "n + 1"] by (cases "bit_of mem bm n") (simp_all add: scan_step(1,3))
qed

lemma scan_bitmap_returns:
  assumes "unat (mb_next_free (mmap_bitmaps u b)) \<le> unat (mb_size (mmap_bitmaps u b))"
  shows "\<exists>v. scan_bitmap b u = Ret v \<and> phys_mem v = phys_mem u"
proof -
  from scan_returns [OF assms] obtain r where
    "scan_loop (phys_mem u) (mb_base (mmap_bitmaps u b)) (unat (mb_size (mmap_bitmaps u b)))
       (unat (mb_next_free (mmap_bitmaps u b))) = Some r" by blast
  then show ?thesis by (cases r) (simp_all add: scan_bitmap_def Let_def upd_bitmap_def)
qed

section \<open>Allocation\<close>

definition chosen_bitmap :: "'a page_state_scheme \<Rightarrow> nat \<Rightarrow> nat \<Rightarrow> bool" where
  "chosen_bitmap s b e \<longleftrightarrow>
     find_bitmap (\<lambda>b e s. mb_free_pages (mmap_bitmaps s b) \<noteq> 0) [0..<MAX_MMAP_ENTRIES] s = Ret (b, e)"

text \<open>
  When the chosen bitmap has free pages and its next free bit is clear and not past the limit, an
  allocation returns the frame of that bit, which was free. Afterwards its bit is set, every other
  bit of that bitmap is as before, and the frame's reference count is 1.
\<close>

theorem page_frame_alloc_takes_free_frame:
  assumes ch: "chosen_bitmap s b e" and fp: "mb_free_pages (mmap_bitmaps s b) \<noteq> 0"
    and nf: "n = unat (mb_next_free (mmap_bitmaps s b))" "n \<le> unat (mb_size (mmap_bitmaps s b))"
    and free: "\<not> bit_of (phys_mem s) (mb_base (mmap_bitmaps s b)) n"
  shows "\<exists>t. page_frame_alloc s = Ret (of_nat n * PAGE_SIZE + me_base (mmap s e), t) \<and>
    (\<forall>k < 2 ^ 32. bit_of (phys_mem t) (mb_base (mmap_bitmaps s b)) k \<longleftrightarrow>
       k = n \<or> bit_of (phys_mem s) (mb_base (mmap_bitmaps s b)) k) \<and>
    reference_counts t ((of_nat n * PAGE_SIZE + me_base (mmap s e)) div PAGE_SIZE) = 1"
proof -
  let ?m = "mmap_bitmaps s b"
  define u where "u = upd_bitmap b (\<lambda>m. m\<lparr>mb_free_pages := mb_free_pages m - 1\<rparr>)
    (set_bit (mb_base ?m) (mb_next_free ?m) s)"
  have u: "phys_mem u = phys_mem (set_bit (mb_base ?m) (mb_next_free ?m) s)"
    "mb_size (mmap_bitmaps u b) = mb_size ?m" "mb_next_free (mmap_bitmaps u b) = mb_next_free ?m"
    by (simp_all add: u_def upd_bitmap_def set_bit_def Let_def)
  have nn: "mb_next_free ?m = of_nat n" using nf(1) by simp
  have "\<exists>v. (if mb_free_pages (mmap_bitmaps u b) \<noteq> 0 then scan_bitmap b u
      else Ret (upd_bitmap b (\<lambda>m. m\<lparr>mb_next_free := NO_FREE_PAGE\<rparr>) u)) = Ret v \<and> phys_mem v = phys_mem u"
  proof (cases "mb_free_pages (mmap_bitmaps u b) = 0")
    case True
    then show ?thesis by (simp add: upd_bitmap_def)
  next
    case False
    with scan_bitmap_returns [of u b] nf u(2,3) show ?thesis by simp
  qed
  then obtain v where v: "(if mb_free_pages (mmap_bitmaps u b) \<noteq> 0 then scan_bitmap b u
      else Ret (upd_bitmap b (\<lambda>m. m\<lparr>mb_next_free := NO_FREE_PAGE\<rparr>) u)) = Ret v" "phys_mem v = phys_mem u" by blast
  let ?ret = "of_nat n * PAGE_SIZE + me_base (mmap s e)"
  have "page_frame_alloc s = Ret (?ret, v\<lparr>reference_counts := (reference_counts v)(?ret div PAGE_SIZE := 1)\<rparr>)"
    using ch fp v(1) unfolding page_frame_alloc_def chosen_bitmap_def
    by (cases "mb_free_pages (mmap_bitmaps u b) = 0") (simp_all add: Let_def nn [symmetric] u_def [symmetric])
  moreover have "bit_of (phys_mem v) (mb_base ?m) k \<longleftrightarrow> k = n \<or> bit_of (phys_mem s) (mb_base ?m) k" if "k < 2 ^ 32" for k
    using set_bit_bits [OF that] nf(1) unfolding v(2) u(1) by simp
  ultimately show ?thesis by simp
qed

section \<open>Frames are never freed\<close>

text \<open>
  \<^verbatim>\<open>page_frame_free\<close> decrements the reference count twice before it tests it for 0, and so never
  returns a frame: whatever the count, no bitmap and no byte of memory changes.
\<close>

theorem page_frame_free_never_frees:
  assumes "page_frame_free page s = Ret t"
  shows "phys_mem t = phys_mem s \<and> mmap_bitmaps t = mmap_bitmaps s"
proof -
  let ?c = "reference_counts s (page div PAGE_SIZE)"
  have "sint (?c - 1) > 0 \<or> ?c - 1 - 1 \<noteq> 0" by (cases "?c = 2") simp_all
  with assms show ?thesis by (auto simp: page_frame_free_def Let_def split: if_splits)
qed

section \<open>A region of 64 frames\<close>

definition page_demo :: page_state where
  "page_demo = \<lparr>mmap = (\<lambda>_. \<lparr>me_base = 0, me_size = 0, me_bitmap_size = 0, me_next = None\<rparr>)
       (0 := \<lparr>me_base = 0x100000, me_size = 0x40000, me_bitmap_size = 65, me_next = Some 1\<rparr>),
     mmap_bitmaps = (\<lambda>_. \<lparr>mb_entry = None, mb_base = 0, mb_size = 0, mb_next_free = 0, mb_free_pages = 0\<rparr>)
       (0 := \<lparr>mb_entry = Some 0, mb_base = 0x9000, mb_size = 9, mb_next_free = 0, mb_free_pages = 72\<rparr>,
        1 := \<lparr>mb_entry = Some 1, mb_base = 0, mb_size = 0, mb_next_free = 0, mb_free_pages = 0\<rparr>),
     total_mem = 0x40000, reference_counts = (\<lambda>_. 0), phys_mem = (\<lambda>_. 0)\<rparr>"

fun alloc_many :: "nat \<Rightarrow> 'a page_state_scheme \<Rightarrow> (u32 list \<times> 'a page_state_scheme) kres" where
  "alloc_many 0 s = Ret ([], s)"
| "alloc_many (Suc n) s = bindk (page_frame_alloc s) (\<lambda>(a, s). bindk (alloc_many n s) (\<lambda>(as, s). Ret (a # as, s)))"

theorem scan_loop_finds_first_clear_bit_witness: "\<exists>r. scan_loop (\<lambda>_. 0) 0 8 3 = Some r"
  using scan_loop_finds_first_clear_bit [of 3 8 "\<lambda>_. 0" 0] by auto

lemma page_demo_chosen: "chosen_bitmap page_demo 0 0"
  by (simp add: chosen_bitmap_def page_demo_def upt_rec)

theorem page_frame_alloc_takes_free_frame_witness:
  "\<exists>t. page_frame_alloc page_demo = Ret (0x100000, t) \<and> bit_of (phys_mem t) 0x9000 0"
proof -
  have "mb_free_pages (mmap_bitmaps page_demo 0) \<noteq> 0" "0 = unat (mb_next_free (mmap_bitmaps page_demo 0))"
    "\<not> bit_of (phys_mem page_demo) (mb_base (mmap_bitmaps page_demo 0)) 0"
    "mb_base (mmap_bitmaps page_demo 0) = 0x9000" "me_base (mmap page_demo 0) = 0x100000"
    by (simp_all add: page_demo_def bit_of_def)
  with page_frame_alloc_takes_free_frame [OF page_demo_chosen, of 0] show ?thesis by fastforce
qed

theorem page_frame_free_never_frees_witness:
  "\<exists>t. page_frame_free 0x100000 page_demo = Ret t \<and> phys_mem t = phys_mem page_demo"
proof -
  have "IS_PAGE_ALIGNED 0x100000" by (simp add: IS_PAGE_ALIGNED_def)
  moreover have "reference_counts page_demo k = 0" for k by (simp add: page_demo_def)
  ultimately obtain t where "page_frame_free 0x100000 page_demo = Ret t" by (simp add: page_frame_free_def Let_def)
  with page_frame_free_never_frees [OF this] show ?thesis by blast
qed

text \<open>
  A region runs out early: its limit is the number of bytes of the bitmap, compared with a number
  of bits. In a region of 64 frames, whose bitmap has 9 bytes, the eleventh allocation returns the
  frame that the second one returned, which is still in use.
\<close>

theorem page_frame_alloc_hands_out_twice:
  "\<exists>t. alloc_many 11 page_demo = Ret ([0x100000, 0x101000, 0x102000, 0x103000, 0x104000, 0x105000, 0x106000,
     0x107000, 0x108000, 0x109000, 0x101000], t) \<and> mb_free_pages (mmap_bitmaps t 0) = 61"
proof -
  have "case alloc_many 11 page_demo of
      Ret (as, t) \<Rightarrow> as = [0x100000, 0x101000, 0x102000, 0x103000, 0x104000, 0x105000, 0x106000,
        0x107000, 0x108000, 0x109000, 0x101000] \<and> mb_free_pages (mmap_bitmaps t 0) = 61
    | Stop _ \<Rightarrow> False" by code_simp
  then show ?thesis by (auto split: kres.splits)
qed

end
