(* ===== verification/Kvmalloc.thy ===== *)
theory Kvmalloc
  imports Yak_Prelude
begin

text \<open>
  The kernel heap, \<^verbatim>\<open>sys/mm/kvmalloc.c\<close>, \<^verbatim>\<open>sys/mm/vm_init.c\<close> and \<^verbatim>\<open>vm.h\<close>. A chunk header lives at an
  address; the headers are a function from addresses, and address 0 is \<^verbatim>\<open>NULL\<close>. New pages come from
  \<^verbatim>\<open>kernel_virt_put_page\<close>, an argument. The walks along the free list take fuel and give
  \<open>Diverges\<close> when it runs out.
\<close>

section \<open>Data\<close>

abbreviation (input) HEAP_SIZE :: u32 where "HEAP_SIZE \<equiv> 0x400000"

record vm_chunk_header =
  ch_base :: u32
  ch_size :: u32
  ch_next :: u32
  ch_prev :: u32

record kv_state =
  hdrs :: "u32 \<Rightarrow> vm_chunk_header"
  free_list :: u32

definition upd_hdr :: "u32 \<Rightarrow> (vm_chunk_header \<Rightarrow> vm_chunk_header) \<Rightarrow> 'a kv_state_scheme \<Rightarrow> 'a kv_state_scheme" where
  "upd_hdr a f s = s\<lparr>hdrs := (hdrs s)(a := f (hdrs s a))\<rparr>"

text \<open>\<^verbatim>\<open>sizeof(*ptr)\<close> is 16; \<^verbatim>\<open>sizeof(free_list)\<close>, in \<^verbatim>\<open>kvmalloc_init\<close>, is the size of a pointer.\<close>

abbreviation (input) hdr_size :: u32 where "hdr_size \<equiv> 16"

definition kvmalloc_init :: "u32 \<Rightarrow> u32 \<Rightarrow> 'a kv_state_scheme \<Rightarrow> 'a kv_state_scheme" where
  "kvmalloc_init heap sz s =
     upd_hdr heap (\<lambda>_. \<lparr>ch_base = heap + 4, ch_size = sz - 4, ch_next = 0, ch_prev = 0\<rparr>) (s\<lparr>free_list := heap\<rparr>)"

section \<open>Growing the heap\<close>

type_synonym 'a put_page = "'a kv_state_scheme \<Rightarrow> (u32 \<times> 'a kv_state_scheme) kres"

definition expand_heap :: "'a put_page \<Rightarrow> 'a kv_state_scheme \<Rightarrow> (u32 \<times> 'a kv_state_scheme) kres" where
  "expand_heap put_page s =
     foldk (\<lambda>i (ret, s). bindk (put_page s) (\<lambda>(tmp, s).
         if tmp = 0 then Stop (Panic ''Unable to expand heap, out of memory'')
         else Ret (if i = 0 then tmp else ret, s))) [0..<1024] (0, s)"

definition vm_init :: "'a put_page \<Rightarrow> 'a kv_state_scheme \<Rightarrow> 'a kv_state_scheme kres" where
  "vm_init put_page s =
     bindk (foldk (\<lambda>i (start, s). bindk (put_page s) (\<lambda>(tmp, s). Ret (if i = 0 then tmp else start, s))) [0..<1024] (0, s))
       (\<lambda>(start, s). Ret (kvmalloc_init start HEAP_SIZE s))"

section \<open>The free list\<close>

definition remove_from_list :: "'a put_page \<Rightarrow> u32 \<Rightarrow> 'a kv_state_scheme \<Rightarrow> 'a kv_state_scheme kres" where
  "remove_from_list put_page ptr s =
     (let h = hdrs s ptr in
      if ch_next h = 0 \<and> ch_prev h = 0
      then bindk (expand_heap put_page s) (\<lambda>(a, s). Ret (s\<lparr>free_list := a\<rparr>))
      else
        let s = (if ch_prev h \<noteq> 0 then upd_hdr (ch_prev h) (\<lambda>p. p\<lparr>ch_next := ch_next h\<rparr>) s else s);
            s = (if ch_next h \<noteq> 0 then upd_hdr (ch_next h) (\<lambda>n. n\<lparr>ch_prev := ch_prev h\<rparr>) s else s)
        in Ret s)"

definition insert_before :: "u32 \<Rightarrow> u32 \<Rightarrow> 'a kv_state_scheme \<Rightarrow> 'a kv_state_scheme" where
  "insert_before p before s =
     (let s = (if ch_prev (hdrs s before) \<noteq> 0
               then upd_hdr p (\<lambda>h. h\<lparr>ch_prev := ch_prev (hdrs s before)\<rparr>)
                      (upd_hdr (ch_prev (hdrs s before)) (\<lambda>h. h\<lparr>ch_next := p\<rparr>) s)
               else s)
      in upd_hdr p (\<lambda>h. h\<lparr>ch_next := before\<rparr>) (upd_hdr before (\<lambda>h. h\<lparr>ch_prev := p\<rparr>) s))"

definition merge_blocks :: "u32 \<Rightarrow> 'a kv_state_scheme \<Rightarrow> 'a kv_state_scheme" where
  "merge_blocks ptr s =
     (let h = hdrs s ptr;
          pv = hdrs s (ch_prev h);
          s = (if ch_prev h \<noteq> 0 \<and> ch_base pv + ch_size pv = ch_base h - hdr_size
               then upd_hdr (ch_prev h) (\<lambda>p. p\<lparr>ch_size := ch_size p + (ch_size h + hdr_size), ch_next := ch_next h\<rparr>) s
               else s);
          h = hdrs s ptr;
          nx = hdrs s (ch_next h)
      in if ch_next h \<noteq> 0 \<and> ch_base h + ch_size h = ch_next h
         then upd_hdr ptr (\<lambda>p. p\<lparr>ch_size := ch_size p + (ch_size nx + hdr_size), ch_next := ch_next nx\<rparr>) s
         else s)"

section \<open>Allocating and freeing\<close>

text \<open>The first chunk that is large enough, or else the last chunk of the list.\<close>

fun kv_find :: "nat \<Rightarrow> u32 \<Rightarrow> u32 \<Rightarrow> 'a kv_state_scheme \<Rightarrow> (bool \<times> u32) kres" where
  "kv_find 0 bytes ptr s = Stop Diverges"
| "kv_find (Suc n) bytes ptr s =
     (if ptr = 0 then Ret (False, 0)
      else if ch_size (hdrs s ptr) \<ge> bytes then Ret (True, ptr)
      else if ch_next (hdrs s ptr) = 0 then Ret (False, ptr)
      else kv_find n bytes (ch_next (hdrs s ptr)) s)"

text \<open>Taking a block out of a chunk that is large enough: all of it, or its end.\<close>

definition kv_take :: "'a put_page \<Rightarrow> u32 \<Rightarrow> u32 \<Rightarrow> 'a kv_state_scheme \<Rightarrow> (u32 \<times> 'a kv_state_scheme) kres" where
  "kv_take put_page bytes ptr s =
     (let h = hdrs s ptr in
      if ch_size h = bytes
      then bindk (remove_from_list put_page ptr s) (\<lambda>s. Ret (ch_base h, s))
      else
        let s = upd_hdr ptr (\<lambda>h. h\<lparr>ch_size := ch_size h - (bytes + hdr_size)\<rparr>) s;
            h = hdrs s ptr;
            p = ch_base h + ch_size h + hdr_size
        in Ret (p, upd_hdr (ch_base h + ch_size h) (\<lambda>t. t\<lparr>ch_size := bytes, ch_base := p\<rparr>) s))"

fun kvmalloc :: "nat \<Rightarrow> 'a put_page \<Rightarrow> u32 \<Rightarrow> 'a kv_state_scheme \<Rightarrow> (u32 \<times> 'a kv_state_scheme) kres" where
  "kvmalloc 0 put_page bytes s = Stop Diverges"
| "kvmalloc (Suc n) put_page bytes s =
     bindk (kv_find (Suc n) bytes (free_list s) s) (\<lambda>(found, ptr).
     if found then kv_take put_page bytes ptr s
     else if ptr = 0 then Stop (Fault ''ptr'')
     else bindk (expand_heap put_page s) (\<lambda>(a, s).
       kvmalloc n put_page bytes
         (upd_hdr a (\<lambda>_. \<lparr>ch_base = a + hdr_size, ch_size = HEAP_SIZE - hdr_size, ch_next = 0, ch_prev = ptr\<rparr>)
           (upd_hdr ptr (\<lambda>h. h\<lparr>ch_next := a\<rparr>) s))))"

text \<open>
  \<^verbatim>\<open>kvmfree\<close> inserts the block's own address where it finds a later chunk, and the header in front
  of it when it reaches the end of the list.
\<close>

fun kvmfree_loop :: "nat \<Rightarrow> u32 \<Rightarrow> u32 \<Rightarrow> 'a kv_state_scheme \<Rightarrow> 'a kv_state_scheme kres" where
  "kvmfree_loop 0 p ptr s = Stop Diverges"
| "kvmfree_loop (Suc n) p ptr s =
     (if ptr = 0 then Stop (Fault ''ptr'')
      else if ch_base (hdrs s ptr) > p then Ret (merge_blocks p (insert_before p ptr s))
      else if ch_next (hdrs s ptr) = 0
      then Ret (merge_blocks ptr (upd_hdr ptr (\<lambda>h. h\<lparr>ch_next := p - hdr_size\<rparr>) s))
      else kvmfree_loop n p (ch_next (hdrs s ptr)) s)"

definition kvmfree :: "nat \<Rightarrow> u32 \<Rightarrow> 'a kv_state_scheme \<Rightarrow> 'a kv_state_scheme kres" where
  "kvmfree n p s = kvmfree_loop n p (free_list s) s"

section \<open>What an allocation returns\<close>

lemma kv_find_found:
  "kv_find n bytes ptr s = Ret (True, q) \<Longrightarrow> q \<noteq> 0 \<and> bytes \<le> ch_size (hdrs s q)"
  by (induction n bytes ptr s rule: kv_find.induct) (auto split: if_splits)

text \<open>
  When the chunk that the search finds has room for a header besides the block, the allocation
  returns the end of that chunk: the chunk keeps its base and shrinks by the block and a header, the
  block with its header lies between the end of the shrunken chunk and the old end, and the header
  records the block's address and length. No other chunk changes.
\<close>

theorem kvmalloc_takes_end_of_chunk:
  assumes f: "kv_find (Suc n) bytes (free_list s) s = Ret (True, ptr)"
    and room: "unat bytes + 16 \<le> unat (ch_size (hdrs s ptr))"
    and fit: "unat (ch_base (hdrs s ptr)) + unat (ch_size (hdrs s ptr)) < 2 ^ 32"
    and sep: "ptr < ch_base (hdrs s ptr)"
  shows "\<exists>p t. kvmalloc (Suc n) put_page bytes s = Ret (p, t) \<and>
    unat p + unat bytes = unat (ch_base (hdrs s ptr)) + unat (ch_size (hdrs s ptr)) \<and>
    ch_base (hdrs t ptr) = ch_base (hdrs s ptr) \<and>
    unat (ch_base (hdrs t ptr)) + unat (ch_size (hdrs t ptr)) + 16 = unat p \<and>
    ch_base (hdrs t (p - 16)) = p \<and> ch_size (hdrs t (p - 16)) = bytes \<and>
    (\<forall>q. q \<noteq> ptr \<and> q \<noteq> p - 16 \<longrightarrow> hdrs t q = hdrs s q)"
proof -
  let ?h = "hdrs s ptr"
  define sz where "sz = ch_size ?h - (bytes + 16)"
  have b16: "unat (bytes + 16) = unat bytes + 16"
    using room unat_lt_2p32 [of "ch_size ?h"] by (subst unat_plus_if_size) (simp add: word_size)
  have sz: "unat sz = unat (ch_size ?h) - (unat bytes + 16)"
    unfolding sz_def using room b16 by (simp add: unat_sub_if')
  define e where "e = ch_base ?h + sz"
  have e: "unat e = unat (ch_base ?h) + unat sz"
    unfolding e_def using fit sz room by (subst unat_plus_if_size) (simp add: word_size)
  have p: "unat (e + 16) = unat e + 16"
    using e fit sz room by (subst unat_plus_if_size) (simp add: word_size)
  have ne: "e \<noteq> ptr" using e sep by (auto simp: word_less_nat_alt)
  let ?t = "upd_hdr e (\<lambda>t. t\<lparr>ch_size := bytes, ch_base := e + 16\<rparr>) (upd_hdr ptr (\<lambda>h. h\<lparr>ch_size := sz\<rparr>) s)"
  have "ch_size ?h \<noteq> bytes" using room by auto
  then have "kv_take put_page bytes ptr s = Ret (e + 16, ?t)"
    by (simp add: kv_take_def Let_def upd_hdr_def e_def sz_def)
  with f have "kvmalloc (Suc n) put_page bytes s = Ret (e + 16, ?t)" by simp
  moreover have "unat (e + 16) + unat bytes = unat (ch_base ?h) + unat (ch_size ?h)" using p e sz room by simp
  moreover have "ch_base (hdrs ?t ptr) = ch_base ?h" "ch_size (hdrs ?t ptr) = sz" using ne by (simp_all add: upd_hdr_def)
  moreover have "e + 16 - 16 = e" by simp
  moreover have "ch_base (hdrs ?t e) = e + 16" "ch_size (hdrs ?t e) = bytes" by (simp_all add: upd_hdr_def)
  moreover have "\<forall>q. q \<noteq> ptr \<and> q \<noteq> e \<longrightarrow> hdrs ?t q = hdrs s q" by (simp add: upd_hdr_def)
  ultimately show ?thesis using p e by (intro exI [of _ "e + 16"] exI [of _ ?t]) simp
qed

text \<open>
  A chunk that is larger than the request by less than a header is cut all the same: its size
  wraps below zero, and the heap then believes it has almost the whole address space free there.
\<close>

theorem kvmalloc_wraps_small_remainder:
  assumes f: "kv_find (Suc n) bytes (free_list s) s = Ret (True, ptr)"
    and small: "ch_size (hdrs s ptr) \<noteq> bytes" "unat (ch_size (hdrs s ptr)) < unat bytes + 16"
    and big: "unat bytes + 16 < 2 ^ 32" and sep: "ch_base (hdrs s ptr) + (ch_size (hdrs s ptr) - (bytes + 16)) \<noteq> ptr"
  shows "\<exists>p t. kvmalloc (Suc n) put_page bytes s = Ret (p, t) \<and> 2 ^ 32 - 16 \<le> unat (ch_size (hdrs t ptr))"
proof -
  let ?h = "hdrs s ptr"
  have le: "unat bytes \<le> unat (ch_size ?h)" using kv_find_found [OF f] by (simp add: word_le_nat_alt)
  have b16: "unat (bytes + 16) = unat bytes + 16" using big by (subst unat_plus_if_size) (simp add: word_size)
  have "unat (ch_size ?h - (bytes + 16)) = unat (ch_size ?h) + 2 ^ 32 - (unat bytes + 16)"
    using small b16 by (simp add: unat_sub_if')
  then have "2 ^ 32 - 16 \<le> unat (ch_size ?h - (bytes + 16))" using le by simp
  moreover have "\<exists>p t. kvmalloc (Suc n) put_page bytes s = Ret (p, t) \<and> ch_size (hdrs t ptr) = ch_size ?h - (bytes + 16)"
    using f small sep by (auto simp: kv_take_def Let_def upd_hdr_def)
  ultimately show ?thesis by metis
qed

definition kv_demo :: "u32 \<Rightarrow> kv_state" where
  "kv_demo sz = kvmalloc_init 0x1000 sz \<lparr>hdrs = (\<lambda>_. \<lparr>ch_base = 0, ch_size = 0, ch_next = 0, ch_prev = 0\<rparr>), free_list = 0\<rparr>"

theorem kvmalloc_takes_end_of_chunk_witness:
  "\<exists>p t. kvmalloc 1 (\<lambda>s. Ret (0, s)) 100 (kv_demo 4096) = Ret (p, t) \<and> unat p + 100 = 0x2000"
proof -
  have h: "hdrs (kv_demo 4096) 0x1000 = \<lparr>ch_base = 0x1004, ch_size = 4092, ch_next = 0, ch_prev = 0\<rparr>"
    by (simp add: kv_demo_def kvmalloc_init_def upd_hdr_def)
  have "kv_find (Suc 0) 100 (free_list (kv_demo 4096)) (kv_demo 4096) = Ret (True, 0x1000)"
    by (simp add: kv_demo_def kvmalloc_init_def upd_hdr_def)
  from kvmalloc_takes_end_of_chunk [OF this, of "\<lambda>s. Ret (0, s)"] h show ?thesis by fastforce
qed

theorem kvmalloc_wraps_small_remainder_witness:
  "\<exists>p t. kvmalloc 1 (\<lambda>s. Ret (0, s)) 100 (kv_demo 112) = Ret (p, t) \<and> 2 ^ 32 - 16 \<le> unat (ch_size (hdrs t 0x1000))"
proof -
  have h: "hdrs (kv_demo 112) 0x1000 = \<lparr>ch_base = 0x1004, ch_size = 108, ch_next = 0, ch_prev = 0\<rparr>"
    by (simp add: kv_demo_def kvmalloc_init_def upd_hdr_def)
  have "kv_find (Suc 0) 100 (free_list (kv_demo 112)) (kv_demo 112) = Ret (True, 0x1000)"
    by (simp add: kv_demo_def kvmalloc_init_def upd_hdr_def)
  from kvmalloc_wraps_small_remainder [OF this, of "\<lambda>s. Ret (0, s)"] h show ?thesis by simp
qed

end
