(* ===== verification/Posix_Time.thy ===== *)
theory Posix_Time
  imports Yak_Prelude
begin

text \<open>
  The time of day at start-up: \<^verbatim>\<open>sys/lib/posix_time.c\<close> and \<^verbatim>\<open>sys/drivers/cmos.c\<close>. Intermediate sums are
  C \<^verbatim>\<open>int\<close>s; the result is reduced to the 32 bits of \<^verbatim>\<open>uint32_t\<close>.
\<close>

section \<open>POSIX time\<close>

abbreviation (input) SEC_PER_MINUTE :: int where "SEC_PER_MINUTE \<equiv> 60"
abbreviation (input) SEC_PER_HOUR :: int where "SEC_PER_HOUR \<equiv> SEC_PER_MINUTE * 60"
abbreviation (input) SEC_PER_DAY :: int where "SEC_PER_DAY \<equiv> SEC_PER_HOUR * 24"
abbreviation (input) SEC_PER_YEAR :: int where "SEC_PER_YEAR \<equiv> SEC_PER_DAY * 365"

definition sec_per_month :: "int list" where
  "sec_per_month =
     [0, SEC_PER_DAY * 31, SEC_PER_DAY * (31 + 28), SEC_PER_DAY * (31 + 28 + 31),
      SEC_PER_DAY * (31 + 28 + 31 + 30), SEC_PER_DAY * (31 + 28 + 31 + 30 + 31),
      SEC_PER_DAY * (31 + 28 + 31 + 30 + 31 + 30), SEC_PER_DAY * (31 + 28 + 31 + 30 + 31 + 30 + 31),
      SEC_PER_DAY * (31 + 28 + 31 + 30 + 31 + 30 + 31 + 31),
      SEC_PER_DAY * (31 + 28 + 31 + 30 + 31 + 30 + 31 + 31 + 30),
      SEC_PER_DAY * (31 + 28 + 31 + 30 + 31 + 30 + 31 + 31 + 30 + 31),
      SEC_PER_DAY * (31 + 28 + 31 + 30 + 31 + 30 + 31 + 31 + 30 + 31 + 30)]"

definition is_leap_year :: "int \<Rightarrow> bool" where
  "is_leap_year year =
     (if c_mod year 4 \<noteq> 0 then False
      else if c_mod year 100 \<noteq> 0 then True
      else if c_mod year 400 \<noteq> 0 then False
      else True)"

function leap_loop :: "int \<Rightarrow> int \<Rightarrow> int \<Rightarrow> int" where
  "leap_loop i end_year nr =
     (if i \<le> end_year then leap_loop (i + 1) end_year (if is_leap_year i then nr + 1 else nr) else nr)"
  by pat_completeness auto
termination by (relation "measure (\<lambda>(i, e, _). nat (e + 1 - i))") auto

declare leap_loop.simps [simp del]

definition nr_leap_years :: "int \<Rightarrow> int \<Rightarrow> int" where
  "nr_leap_years start_year end_year = leap_loop start_year end_year 0"

text \<open>The table is indexed by \<^verbatim>\<open>month - 1\<close> without a check.\<close>

definition make_posix_time :: "u8 \<Rightarrow> u8 \<Rightarrow> u8 \<Rightarrow> u8 \<Rightarrow> u8 \<Rightarrow> u16 \<Rightarrow> u32 kres" where
  "make_posix_time seconds minutes hours day_of_month month year =
     (let time = word_of_int (SEC_PER_YEAR * (uint year - 1970)) :: u32;
          time = time + word_of_int (SEC_PER_DAY * nr_leap_years 1970 (uint year));
          time = (if is_leap_year (uint year) \<and> (month < 2 \<or> month = 2 \<and> day_of_month < 29)
                  then time - word_of_int SEC_PER_DAY else time)
      in if month < 1 \<or> month > 12 then Stop (Fault ''sec_per_month'')
         else Ret (time + word_of_int (sec_per_month ! nat (uint month - 1))
                   + word_of_int ((uint day_of_month - 1) * SEC_PER_DAY)
                   + word_of_int (uint hours * SEC_PER_HOUR)
                   + word_of_int (uint minutes * SEC_PER_MINUTE)
                   + word_of_int (uint seconds)))"

section \<open>The real time clock\<close>

abbreviation (input) CURRENT_MILLENIUM :: u32 where "CURRENT_MILLENIUM \<equiv> 2000"
abbreviation (input) SECONDS_REG :: u8 where "SECONDS_REG \<equiv> 0"
abbreviation (input) MINUTES_REG :: u8 where "MINUTES_REG \<equiv> 2"
abbreviation (input) HOURS_REG :: u8 where "HOURS_REG \<equiv> 4"
abbreviation (input) DAY_OF_MONTH_REG :: u8 where "DAY_OF_MONTH_REG \<equiv> 7"
abbreviation (input) MONTH_REG :: u8 where "MONTH_REG \<equiv> 8"
abbreviation (input) YEAR_REG :: u8 where "YEAR_REG \<equiv> 9"
abbreviation (input) TWENTY_FOUR_HOUR_FMT :: u8 where "TWENTY_FOUR_HOUR_FMT \<equiv> 2"
abbreviation (input) BINARY_MODE :: u8 where "BINARY_MODE \<equiv> 4"
abbreviation (input) PM_BIT :: u32 where "PM_BIT \<equiv> 0x80"

definition bcd_to_binary :: "u8 \<Rightarrow> u8" where
  "bcd_to_binary bcd = drop_bit 1 (bcd AND 0xF0) + drop_bit 3 (bcd AND 0xF0) + (bcd AND 0xF)"

record rtc_time =
  t_sec :: u32
  t_min :: u32
  t_hour :: u32
  t_day_of_month :: u32
  t_month :: u32
  t_year :: u32

text \<open>
  \<open>rd k r\<close> is what the hardware answers to the read of register \<open>r\<close> in the \<open>k\<close>-th reading of the six
  registers; \<open>status\<close> is the byte that \<^verbatim>\<open>inb(STATUS_REG_B)\<close> returns.
\<close>

definition read_rtc :: "(nat \<Rightarrow> u8 \<Rightarrow> u8) \<Rightarrow> nat \<Rightarrow> rtc_time" where
  "read_rtc rd k = \<lparr>t_sec = ucast (rd k SECONDS_REG), t_min = ucast (rd k MINUTES_REG), t_hour = ucast (rd k HOURS_REG),
     t_day_of_month = ucast (rd k DAY_OF_MONTH_REG), t_month = ucast (rd k MONTH_REG), t_year = ucast (rd k YEAR_REG)\<rparr>"

fun rtc_loop :: "nat \<Rightarrow> (nat \<Rightarrow> u8 \<Rightarrow> u8) \<Rightarrow> rtc_time \<Rightarrow> nat \<Rightarrow> rtc_time kres" where
  "rtc_loop 0 rd time k = Stop Diverges"
| "rtc_loop (Suc n) rd time k =
     (if read_rtc rd k \<noteq> time then rtc_loop n rd time (k + 1) else Ret (read_rtc rd k))"

definition from_bcd :: "u32 \<Rightarrow> u32" where
  "from_bcd v = ucast (bcd_to_binary (ucast v))"

definition get_current_time :: "nat \<Rightarrow> (nat \<Rightarrow> u8 \<Rightarrow> u8) \<Rightarrow> u8 \<Rightarrow> u32 kres" where
  "get_current_time fuel rd status =
     bindk (rtc_loop fuel rd (read_rtc rd 0) 1) (\<lambda>t.
     let t = (if status AND BINARY_MODE = 0
              then \<lparr>t_sec = from_bcd (t_sec t), t_min = from_bcd (t_min t), t_hour = from_bcd (t_hour t),
                    t_day_of_month = from_bcd (t_day_of_month t), t_month = from_bcd (t_month t),
                    t_year = from_bcd (t_year t)\<rparr>
              else t);
         t = (if status AND TWENTY_FOUR_HOUR_FMT = 0 \<and> t_hour t AND PM_BIT \<noteq> 0
              then t\<lparr>t_hour := ((t_hour t AND 0x7F) + 12) mod 24\<rparr> else t)
     in make_posix_time (ucast (t_sec t)) (ucast (t_min t)) (ucast (t_hour t)) (ucast (t_day_of_month t))
          (ucast (t_month t)) (ucast (t_year t + CURRENT_MILLENIUM)))"

section \<open>The calendar\<close>

definition month_days :: "int \<Rightarrow> int \<Rightarrow> int" where
  "month_days y m = (if m = 2 then (if is_leap_year y then 29 else 28) else if m \<in> {4, 6, 9, 11} then 30 else 31)"

definition year_days :: "int \<Rightarrow> int" where
  "year_days y = (if is_leap_year y then 366 else 365)"

definition days_since_epoch :: "int \<Rightarrow> int \<Rightarrow> int \<Rightarrow> int" where
  "days_since_epoch y m d = (\<Sum>i\<in>{1970..<y}. year_days i) + (\<Sum>k\<in>{1..<m}. month_days y k) + (d - 1)"

lemma leap_year_rule: "is_leap_year y \<longleftrightarrow> 4 dvd y \<and> (\<not> 100 dvd y \<or> 400 dvd y)"
  by (simp add: is_leap_year_def c_mod_eq_0_iff)

lemma leap_loop_eq: "leap_loop i e nr = nr + int (card {y. i \<le> y \<and> y \<le> e \<and> is_leap_year y})"
proof (induction i e nr rule: leap_loop.induct)
  case (1 i e nr)
  show ?case
  proof (cases "i \<le> e")
    case False
    then have S: "{y. i \<le> y \<and> y \<le> e \<and> is_leap_year y} = {}" by auto
    from False show ?thesis unfolding leap_loop.simps [of i e nr] S by simp
  next
    case True
    have fin: "finite {y. i + 1 \<le> y \<and> y \<le> e \<and> is_leap_year y}"
      by (rule finite_subset [of _ "{i..e}"]) auto
    have "{y. i \<le> y \<and> y \<le> e \<and> is_leap_year y} =
        (if is_leap_year i then insert i {y. i + 1 \<le> y \<and> y \<le> e \<and> is_leap_year y} else {y. i + 1 \<le> y \<and> y \<le> e \<and> is_leap_year y})"
    proof (rule set_eqI)
      fix y
      have "i \<le> y \<longleftrightarrow> y = i \<or> i + 1 \<le> y" by auto
      with True show "y \<in> {y. i \<le> y \<and> y \<le> e \<and> is_leap_year y} \<longleftrightarrow> y \<in> (if is_leap_year i
          then insert i {y. i + 1 \<le> y \<and> y \<le> e \<and> is_leap_year y} else {y. i + 1 \<le> y \<and> y \<le> e \<and> is_leap_year y})" by auto
    qed
    with fin True 1 [OF True] show ?thesis by (simp add: leap_loop.simps [of i e nr])
  qed
qed

lemma year_days_sum:
  assumes "1970 \<le> y"
  shows "(\<Sum>i\<in>{1970..<y}. year_days i) = 365 * (y - 1970) + int (card {i. 1970 \<le> i \<and> i < y \<and> is_leap_year i})"
proof -
  have "(\<Sum>i\<in>{1970..<y}. year_days i) = (\<Sum>i\<in>{1970..<y}. 365 + (if is_leap_year i then 1 else 0))"
    by (rule sum.cong) (simp_all add: year_days_def)
  also have "\<dots> = 365 * (y - 1970) + (\<Sum>i\<in>{1970..<y}. if is_leap_year i then 1 else 0)"
    using assms by (simp add: sum.distrib)
  also have "(\<Sum>i\<in>{1970..<y}. if is_leap_year i then 1 else 0) = int (card {i. 1970 \<le> i \<and> i < y \<and> is_leap_year i})"
    by (simp add: sum.If_cases Int_def conj_ac)
  finally show ?thesis .
qed

lemma leap_years_upto:
  assumes "1970 \<le> y"
  shows "nr_leap_years 1970 y = int (card {i. 1970 \<le> i \<and> i < y \<and> is_leap_year i}) + (if is_leap_year y then 1 else 0)"
proof -
  have fin: "finite {i. 1970 \<le> i \<and> i < y \<and> is_leap_year i}" by (rule finite_subset [of _ "{1970..y}"]) auto
  have "{i. 1970 \<le> i \<and> i \<le> y \<and> is_leap_year i} =
      (if is_leap_year y then insert y {i. 1970 \<le> i \<and> i < y \<and> is_leap_year i} else {i. 1970 \<le> i \<and> i < y \<and> is_leap_year i})"
    using assms by (auto simp: order_le_less)
  with fin show ?thesis by (simp add: nr_leap_years_def leap_loop_eq)
qed

lemma month_list:
  fixes m :: int
  assumes "1 \<le> m" and "m \<le> 12"
  shows "m = 1 \<or> m = 2 \<or> m = 3 \<or> m = 4 \<or> m = 5 \<or> m = 6 \<or> m = 7 \<or> m = 8 \<or> m = 9 \<or> m = 10 \<or> m = 11 \<or> m = 12"
  using assms by arith

lemma month_days_sum:
  assumes "1 \<le> m" and "m \<le> 12"
  shows "SEC_PER_DAY * (\<Sum>k\<in>{1..<m}. month_days y k) =
    sec_per_month ! nat (m - 1) + (if is_leap_year y \<and> 2 < m then SEC_PER_DAY else 0)"
proof -
  have "{1..<m} = set [1..m - 1]" by auto
  then have s: "(\<Sum>k\<in>{1..<m}. month_days y k) = (\<Sum>k\<leftarrow>[1..m - 1]. month_days y k)"
    by (simp add: sum_list_distinct_conv_sum_set distinct_upto del: set_upto)
  show ?thesis unfolding s using month_list [OF assms]
    by (elim disjE) (simp_all add: upto.simps month_days_def sec_per_month_def)
qed

definition posix_seconds :: "u8 \<Rightarrow> u8 \<Rightarrow> u8 \<Rightarrow> u8 \<Rightarrow> u8 \<Rightarrow> u16 \<Rightarrow> int" where
  "posix_seconds seconds minutes hours d m y =
     SEC_PER_DAY * days_since_epoch (uint y) (uint m) (uint d) + SEC_PER_HOUR * uint hours
     + SEC_PER_MINUTE * uint minutes + uint seconds"

text \<open>The sum that the code forms, before it is reduced to 32 bits.\<close>

lemma make_posix_time_sum:
  assumes "1970 \<le> uint y" and "1 \<le> uint m" and "uint m \<le> 12"
  shows "make_posix_time sec mi h d m y = Ret (word_of_int (posix_seconds sec mi h d m y
    + (if is_leap_year (uint y) \<and> uint m \<le> 2 \<and> \<not> (uint m < 2 \<or> uint m = 2 \<and> uint d < 29) then SEC_PER_DAY else 0)))"
proof -
  let ?L = "int (card {i. 1970 \<le> i \<and> i < uint y \<and> is_leap_year i})"
  let ?M = "\<Sum>k\<in>{1..<uint m}. month_days (uint y) k"
  let ?c = "if is_leap_year (uint y) \<and> (uint m < 2 \<or> uint m = 2 \<and> uint d < 29) then SEC_PER_DAY else 0"
  have w: "(m < 2) = (uint m < 2)" "(m = 2) = (uint m = 2)" "(d < 29) = (uint d < 29)"
    "(m < 1) = False" "(m > 12) = False"
    using assms by (auto simp: word_less_def word_uint_eq_iff)
  have "make_posix_time sec mi h d m y = Ret (word_of_int (SEC_PER_YEAR * (uint y - 1970)
      + SEC_PER_DAY * nr_leap_years 1970 (uint y) - ?c + sec_per_month ! nat (uint m - 1)
      + (uint d - 1) * SEC_PER_DAY + uint h * SEC_PER_HOUR + uint mi * SEC_PER_MINUTE + uint sec))"
    unfolding make_posix_time_def Let_def w by (simp only: wi_hom_syms if_False simp_thms split: if_split) simp
  moreover have "SEC_PER_YEAR * (uint y - 1970) + SEC_PER_DAY * nr_leap_years 1970 (uint y) - ?c
      + sec_per_month ! nat (uint m - 1) + (uint d - 1) * SEC_PER_DAY + uint h * SEC_PER_HOUR + uint mi * SEC_PER_MINUTE + uint sec
    = posix_seconds sec mi h d m y + (if is_leap_year (uint y) \<and> uint m \<le> 2 \<and>
        \<not> (uint m < 2 \<or> uint m = 2 \<and> uint d < 29) then SEC_PER_DAY else 0)"
    using month_days_sum [OF assms(2,3), of "uint y"] assms
    unfolding posix_seconds_def days_since_epoch_def year_days_sum [OF assms(1)] leap_years_upto [OF assms(1)]
    by (auto simp: algebra_simps split: if_splits)
  ultimately show ?thesis by (simp only:)
qed


text \<open>
  On 29 February \<^verbatim>\<open>make_posix_time\<close> is a day ahead: it returns the time of 1 March.
\<close>

theorem make_posix_time_leap_day:
  assumes "1970 \<le> uint y" and "is_leap_year (uint y)"
  shows "make_posix_time sec mi h 29 2 y = make_posix_time sec mi h 1 3 y"
proof -
  have "{1..<3 :: int} = {1, 2}" "{1..<2 :: int} = {1}" by auto
  then have "posix_seconds sec mi h 29 2 y + SEC_PER_DAY = posix_seconds sec mi h 1 3 y"
    using assms(2) by (simp add: posix_seconds_def days_since_epoch_def month_days_def)
  then show ?thesis using assms by (simp add: make_posix_time_sum)
qed

section \<open>Binary coded decimal and the clock's loop\<close>

text \<open>
  The clock is read correctly when it stands still between two readings: every two-digit number
  survives the conversion from binary coded decimal, and the reading loop returns the first reading.
  But the loop compares with that first reading for ever: when no later reading equals it, the loop
  does not end.
\<close>

theorem clock_reading:
  "(\<forall>n\<in>{0..<100 :: nat}. bcd_to_binary (of_nat (16 * (n div 10) + n mod 10)) = of_nat n) \<and>
   (read_rtc rd 1 = read_rtc rd 0 \<longrightarrow> rtc_loop (Suc k) rd (read_rtc rd 0) 1 = Ret (read_rtc rd 0)) \<and>
   ((\<forall>j>0. read_rtc rd j \<noteq> read_rtc rd 0) \<longrightarrow> rtc_loop fuel rd (read_rtc rd 0) 1 = Stop Diverges)"
proof (intro conjI)
  have "list_all (\<lambda>n. bcd_to_binary (of_nat (16 * (n div 10) + n mod 10)) = of_nat n) [0..<100]" by code_simp
  then show "\<forall>n\<in>{0..<100 :: nat}. bcd_to_binary (of_nat (16 * (n div 10) + n mod 10)) = of_nat n"
    by (simp only: list_all_iff set_upt)
  have "0 < j \<Longrightarrow> (\<forall>j>0. read_rtc rd j \<noteq> t) \<Longrightarrow> rtc_loop fuel rd t j = Stop Diverges" for j t
    by (induction fuel arbitrary: j) auto
  then show "(\<forall>j>0. read_rtc rd j \<noteq> read_rtc rd 0) \<longrightarrow> rtc_loop fuel rd (read_rtc rd 0) 1 = Stop Diverges" by simp
qed simp


theorem make_posix_time_leap_day_witness:
  "make_posix_time 0 0 0 29 2 2000 = make_posix_time 0 0 0 1 3 2000"
  by (rule make_posix_time_leap_day) (simp_all add: leap_year_rule)

theorem clock_reading_witness:
  "rtc_loop 7 (\<lambda>k _. if k = 0 then 1 else 2) (read_rtc (\<lambda>k _. if k = 0 then 1 else 2) 0) 1 = Stop Diverges"
proof -
  have "\<forall>j>0. read_rtc (\<lambda>k _. if k = 0 then 1 else 2) j \<noteq> read_rtc (\<lambda>k _. if k = 0 then 1 else 2) 0"
    by (simp add: read_rtc_def)
  with clock_reading [of "\<lambda>k _. if k = 0 then 1 else 2" 0 7] show ?thesis by blast
qed

end
