(* ===== verification/Lib_String.thy ===== *)
theory Lib_String
  imports Yak_Prelude
begin

text \<open>
  The memory and string routines of \<^verbatim>\<open>sys/lib/string.c\<close>, on a byte memory. Pointers are natural
  numbers: an object does not wrap around the end of the address space.
\<close>

type_synonym memory = "nat \<Rightarrow> u8"

primrec memcpy :: "nat \<Rightarrow> nat \<Rightarrow> nat \<Rightarrow> memory \<Rightarrow> memory" where
  "memcpy dst src 0 m = m"
| "memcpy dst src (Suc n) m = memcpy (dst + 1) (src + 1) n (m(dst := m src))"

text \<open>The loop that copies from the end: it writes at offset \<^verbatim>\<open>count - 1\<close> first.\<close>

primrec memmove_down :: "nat \<Rightarrow> nat \<Rightarrow> nat \<Rightarrow> memory \<Rightarrow> memory" where
  "memmove_down dst src 0 m = m"
| "memmove_down dst src (Suc n) m = memmove_down dst src n (m(dst + n := m (src + n)))"

definition memmove :: "nat \<Rightarrow> nat \<Rightarrow> nat \<Rightarrow> memory \<Rightarrow> memory" where
  "memmove dst src n m = (if dst < src then memcpy dst src n m else memmove_down dst src n m)"

primrec memcmp :: "nat \<Rightarrow> nat \<Rightarrow> nat \<Rightarrow> memory \<Rightarrow> int" where
  "memcmp p1 p2 0 m = 0"
| "memcmp p1 p2 (Suc n) m =
     (if m p1 < m p2 then -1 else if m p2 < m p1 then 1 else memcmp (p1 + 1) (p2 + 1) n m)"

primrec memset :: "nat \<Rightarrow> int \<Rightarrow> nat \<Rightarrow> memory \<Rightarrow> memory" where
  "memset p c 0 m = m"
| "memset p c (Suc n) m = memset (p + 1) c n (m(p := word_of_int c))"

text \<open>A string without a terminating zero has no length: the loop does not end.\<close>

partial_function (option) strlen_loop :: "nat \<Rightarrow> nat \<Rightarrow> memory \<Rightarrow> nat option" where
  "strlen_loop str p m = (if m p \<noteq> 0 then strlen_loop str (p + 1) m else Some (p - str))"

declare strlen_loop.simps [code]

definition strlen :: "nat \<Rightarrow> memory \<Rightarrow> nat option" where
  "strlen str m = strlen_loop str str m"

section \<open>Copying\<close>

definition copied :: "nat \<Rightarrow> nat \<Rightarrow> nat \<Rightarrow> memory \<Rightarrow> memory" where
  "copied dst src n m = (\<lambda>a. if dst \<le> a \<and> a < dst + n then m (src + (a - dst)) else m a)"

lemma memcpy_up: "dst < src \<or> src + n \<le> dst \<or> dst = src \<Longrightarrow> memcpy dst src n m = copied dst src n m"
proof (induction n arbitrary: dst src m)
  case 0
  show ?case by (auto simp: copied_def fun_eq_iff)
next
  case (Suc n)
  then have "memcpy dst src (Suc n) m = copied (dst + 1) (src + 1) n (m(dst := m src))"
    by (simp only: memcpy.simps) (rule Suc.IH, auto)
  also have "\<dots> = copied dst src (Suc n) m"
  proof
    fix a
    show "copied (dst + 1) (src + 1) n (m(dst := m src)) a = copied dst src (Suc n) m a"
    proof (cases "dst + 1 \<le> a \<and> a < dst + 1 + n")
      case True
      then have "src + 1 + (a - (dst + 1)) = src + (a - dst)" by linarith
      moreover have "src + (a - dst) \<noteq> dst \<or> dst = src \<and> a = dst" using Suc.prems True by auto
      ultimately show ?thesis using True by (auto simp: copied_def)
    next
      case False
      then show ?thesis by (cases "a = dst") (auto simp: copied_def)
    qed
  qed
  finally show ?case .
qed

lemma memmove_down_eq: "src \<le> dst \<Longrightarrow> memmove_down dst src n m = copied dst src n m"
proof (induction n arbitrary: m)
  case 0
  show ?case by (auto simp: copied_def fun_eq_iff)
next
  case (Suc n)
  then have "memmove_down dst src (Suc n) m = copied dst src n (m(dst + n := m (src + n)))" by simp
  also have "\<dots> = copied dst src (Suc n) m"
  proof
    fix a
    show "copied dst src n (m(dst + n := m (src + n))) a = copied dst src (Suc n) m a"
      using Suc.prems by (cases "a = dst + n") (auto simp: copied_def)
  qed
  finally show ?case .
qed

text \<open>
  \<^verbatim>\<open>memmove\<close> copies correctly however source and destination overlap: afterwards the destination
  holds what the source held before, and no byte outside the destination changes.
\<close>

theorem memmove_copies:
  "memmove dst src n m = (\<lambda>a. if dst \<le> a \<and> a < dst + n then m (src + (a - dst)) else m a)"
  using memcpy_up [of dst src n m] memmove_down_eq [of src dst n m]
  by (simp add: memmove_def copied_def)

section \<open>Comparing, filling, measuring\<close>

lemma memcmp_eq_0_iff: "memcmp p q n m = 0 \<longleftrightarrow> (\<forall>i<n. m (p + i) = m (q + i))"
proof (induction n arbitrary: p q)
  case (Suc n)
  have "(\<forall>i<Suc n. m (p + i) = m (q + i)) \<longleftrightarrow> m p = m q \<and> (\<forall>i<n. m (p + 1 + i) = m (q + 1 + i))"
    by (auto simp: less_Suc_eq_0_disj)
  with Suc [of "p + 1" "q + 1"] show ?case by auto
qed simp

lemma memset_eq: "memset p c n m = (\<lambda>a. if p \<le> a \<and> a < p + n then word_of_int c else m a)"
  by (induction n arbitrary: p m) (auto simp: fun_eq_iff)

lemma strlen_eq:
  assumes "m (str + n) = 0" and "\<And>i. i < n \<Longrightarrow> m (str + i) \<noteq> 0"
  shows "strlen str m = Some n"
proof -
  have "j \<le> n \<Longrightarrow> strlen_loop str (str + (n - j)) m = Some n" for j
  proof (induction j)
    case 0
    with assms(1) show ?case by (subst strlen_loop.simps) simp
  next
    case (Suc j)
    have nz: "m (str + (n - Suc j)) \<noteq> 0" by (rule assms(2)) (use Suc.prems in simp)
    have "str + (n - Suc j) + 1 = str + (n - j)" using Suc.prems by simp
    with nz Suc.IH Suc.prems have "(if m (str + (n - Suc j)) \<noteq> 0 then strlen_loop str (str + (n - Suc j) + 1) m
        else Some (str + (n - Suc j) - str)) = Some n" by (simp only: if_True not_False_eq_True)
    then show ?case by (subst strlen_loop.simps)
  qed
  from this [of n] show ?thesis by (simp add: strlen_def)
qed

end
