(* ===== verification/Printk.thy ===== *)
theory Printk
  imports Yak_Prelude
begin

text \<open>
  Formatting of kernel messages, \<^verbatim>\<open>sys/kernel/printk.c\<close>. The text built so far is a list of
  characters; a conversion appends to it. The variable arguments are a list of typed values, and a
  missing or ill-typed one, like an index outside the digit table, has no defined outcome.
\<close>

section \<open>Numbers\<close>

datatype signedness = SIGNED | UNSIGNED

definition digits :: string where
  "digits = ''0123456789ABCDEFGHIJKLMNOPQRSTUVWXYZ''"

text \<open>The swapping loop, for \<open>i\<close> from 0 up to half the length.\<close>

definition swap :: "nat \<Rightarrow> nat \<Rightarrow> 'a list \<Rightarrow> 'a list" where
  "swap i j xs = xs[i := xs ! j, j := xs ! i]"

definition reverse_str :: "string \<Rightarrow> string" where
  "reverse_str s = fold (\<lambda>i s. swap i (length s - i - 1) s) [0..<length s div 2] s"

definition digit :: "int \<Rightarrow> char kres" where
  "digit d = (if 0 \<le> d \<and> d < int (length digits) then Ret (digits ! nat d) else Stop (Fault ''digits''))"

text \<open>The two \<^verbatim>\<open>do\<close> loops: signed with C's truncating division, unsigned on words.\<close>

function itoa_signed :: "int \<Rightarrow> int \<Rightarrow> string \<Rightarrow> string kres" where
  "itoa_signed ns base p =
     (if base < 2 then Stop Diverges
      else bindk (digit (c_mod ns base)) (\<lambda>c.
        if c_div ns base = 0 then Ret (p @ [c]) else itoa_signed (c_div ns base) base (p @ [c])))"
  by pat_completeness auto
termination
proof (relation "measure (\<lambda>(ns, base, p). nat \<bar>ns\<bar>)")
  fix ns base :: int and p :: string and x :: char
  assume b: "\<not> base < 2" and d: "c_div ns base \<noteq> 0"
  then have ne: "ns \<noteq> 0" by (auto simp: c_div_def)
  have "0 \<le> \<bar>ns\<bar> div base" using b by (simp add: pos_imp_zdiv_nonneg_iff)
  then have "\<bar>c_div ns base\<bar> = \<bar>ns\<bar> div base" using b ne by (simp add: c_div_def abs_mult)
  also have "\<dots> < \<bar>ns\<bar>" using b ne by (intro int_div_less_self) auto
  finally show "((c_div ns base, base, p @ [x]), ns, base, p) \<in> measure (\<lambda>(ns, base, p). nat \<bar>ns\<bar>)" using ne by simp
qed simp

function itoa_unsigned :: "nat \<Rightarrow> nat \<Rightarrow> string \<Rightarrow> string kres" where
  "itoa_unsigned nu base p =
     (if base < 2 then Stop Diverges
      else bindk (digit (int (nu mod base))) (\<lambda>c.
        if nu div base = 0 then Ret (p @ [c]) else itoa_unsigned (nu div base) base (p @ [c])))"
  by pat_completeness auto
termination by (relation "measure (\<lambda>(nu, base, p). nu)") (auto simp: div_eq_0_iff intro!: div_less_dividend)

declare itoa_signed.simps [simp del] itoa_unsigned.simps [simp del]

text \<open>
  \<^verbatim>\<open>itoa\<close> appends at \<^verbatim>\<open>s\<close>: the sign, then the digits from the lowest on, all of which is then reversed.
  The number is the 32 bits of the argument.
\<close>

definition itoa :: "u32 \<Rightarrow> nat \<Rightarrow> signedness \<Rightarrow> string kres" where
  "itoa n base sg =
     bindk (case sg of
         SIGNED \<Rightarrow>
           if sint n < 0 \<and> base = 10 then itoa_signed (sint (- n)) (int base) ''-''
           else itoa_signed (sint n) (int base) ''''
       | UNSIGNED \<Rightarrow> itoa_unsigned (unat n) base '''') (\<lambda>s. Ret (reverse_str s))"

section \<open>Formats\<close>

datatype va_arg = VInt u32 | VStr string

fun vsprintf_loop :: "string \<Rightarrow> string \<Rightarrow> va_arg list \<Rightarrow> string kres" where
  "vsprintf_loop p [] args = Ret p"
| "vsprintf_loop p [c] args = (if c \<noteq> CHR ''%'' then Ret (p @ [c]) else Stop (Fault ''fmt''))"
| "vsprintf_loop p (c # d # fmt) args =
     (if c \<noteq> CHR ''%'' then vsprintf_loop (p @ [c]) (d # fmt) args
      else
        let num = (\<lambda>base sg. case args of
              VInt n # args \<Rightarrow> bindk (itoa n base sg) (\<lambda>t. vsprintf_loop (p @ t) fmt args)
            | _ \<Rightarrow> Stop (Fault ''va_arg''))
        in if d = CHR ''i'' \<or> d = CHR ''d'' then num 10 SIGNED
           else if d = CHR ''o'' then num 8 SIGNED
           else if d = CHR ''u'' then num 10 UNSIGNED
           else if d = CHR ''x'' then num 16 UNSIGNED
           else if d = CHR ''p'' then num 16 UNSIGNED
           else if d = CHR ''c'' then
             (case args of VInt n # args \<Rightarrow> vsprintf_loop (p @ [char_of (unat n)]) fmt args
              | _ \<Rightarrow> Stop (Fault ''va_arg''))
           else if d = CHR ''s'' then
             (case args of VStr t # args \<Rightarrow> vsprintf_loop (p @ t) fmt args
              | _ \<Rightarrow> Stop (Fault ''va_arg''))
           else vsprintf_loop (p @ [CHR ''%'', d]) fmt args)"

definition vsprintf :: "string \<Rightarrow> va_arg list \<Rightarrow> string kres" where
  "vsprintf fmt args = vsprintf_loop '''' fmt args"

text \<open>\<^verbatim>\<open>printk\<close> formats into a buffer of 1024 bytes, terminator included, before it writes to the terminal.\<close>

definition printk_text :: "string \<Rightarrow> va_arg list \<Rightarrow> string kres" where
  "printk_text fmt args =
     bindk (vsprintf fmt args) (\<lambda>s. if length s < 1024 then Ret s else Stop (Fault ''buf''))"

section \<open>Reversal\<close>

text \<open>The state of the swapping loop after \<open>k\<close> rounds.\<close>

definition swapped :: "nat \<Rightarrow> 'a list \<Rightarrow> 'a list" where
  "swapped k xs = map (\<lambda>j. if j < k \<or> length xs - k \<le> j then xs ! (length xs - 1 - j) else xs ! j) [0..<length xs]"

lemma length_swapped [simp]: "length (swapped k xs) = length xs"
  by (simp add: swapped_def)

lemma swap_swapped:
  assumes "2 * k + 1 < length xs"
  shows "swap k (length xs - k - 1) (swapped k xs) = swapped (Suc k) xs"
proof (rule nth_equalityI)
  fix i assume "i < length (swap k (length xs - k - 1) (swapped k xs))"
  then have i: "i < length xs" by (simp add: swap_def)
  consider "i = k" | "i = length xs - k - 1" | "i \<noteq> k" "i \<noteq> length xs - k - 1" by blast
  then show "swap k (length xs - k - 1) (swapped k xs) ! i = swapped (Suc k) xs ! i"
    using assms i by cases (auto simp: swap_def swapped_def nth_list_update)
qed (simp add: swap_def)

lemma reverse_fold:
  "k \<le> length xs div 2 \<Longrightarrow>
    fold (\<lambda>i s. swap i (length s - i - 1) s) [0..<k] xs = swapped k xs"
proof (induction k)
  case 0
  show ?case by (auto simp: swapped_def intro: nth_equalityI)
next
  case (Suc k)
  then have "2 * k + 1 < length xs" by linarith
  with Suc show ?case using swap_swapped [of k xs] by simp
qed

lemma reverse_str_rev: "reverse_str s = rev s"
proof -
  have "swapped (length s div 2) s = rev s"
  proof (rule nth_equalityI)
    fix i assume "i < length (swapped (length s div 2) s)"
    then have i: "i < length s" by simp
    show "swapped (length s div 2) s ! i = rev s ! i"
    proof (cases "i < length s div 2 \<or> length s - length s div 2 \<le> i")
      case False
      then have "length s - 1 - i = i" using i by linarith
      with False i show ?thesis by (simp add: swapped_def rev_nth)
    qed (use i in \<open>simp add: swapped_def rev_nth\<close>)
  qed simp
  then show ?thesis unfolding reverse_str_def by (subst reverse_fold) simp_all
qed

section \<open>Digits\<close>

function low_digits :: "nat \<Rightarrow> nat \<Rightarrow> nat list" where
  "low_digits base n = n mod base # (if base < 2 \<or> n div base = 0 then [] else low_digits base (n div base))"
  by pat_completeness auto
termination by (relation "measure snd") (auto simp: div_eq_0_iff intro!: div_less_dividend)

declare low_digits.simps [simp del]

lemma length_digits [simp]: "length digits = 36"
  by (simp add: digits_def)

lemma digit_mod: "2 \<le> base \<Longrightarrow> base \<le> 36 \<Longrightarrow> digit (int (n mod base)) = Ret (digits ! (n mod base))"
  using mod_less_divisor [of base n] by (simp add: digit_def del: mod_less_divisor)

lemma itoa_unsigned_eq:
  assumes "2 \<le> base" "base \<le> 36"
  shows "itoa_unsigned n base p = Ret (p @ map (\<lambda>d. digits ! d) (low_digits base n))"
  using assms
proof (induction n base p rule: itoa_unsigned.induct)
  case (1 n base p)
  then show ?case
    by (subst itoa_unsigned.simps, subst low_digits.simps) (simp add: digit_mod)
qed

lemma itoa_signed_eq:
  assumes "2 \<le> base" "base \<le> 36"
  shows "itoa_signed (int n) (int base) p = Ret (p @ map (\<lambda>d. digits ! d) (low_digits base n))"
  using assms
proof (induction n base p rule: itoa_unsigned.induct)
  case (1 n base p)
  have e: "c_div (int n) (int base) = int (n div base)" "c_mod (int n) (int base) = int (n mod base)"
    using 1 by (simp_all add: c_div_nonneg c_mod_nonneg zdiv_int zmod_int)
  show ?case using 1
    by (subst itoa_signed.simps, subst low_digits.simps) (simp add: digit_mod e)
qed

text \<open>Reading a numeral back: positional value, with the digit table searched for each character.\<close>

fun digit_value :: "string \<Rightarrow> char \<Rightarrow> nat" where
  "digit_value [] c = 0"
| "digit_value (d # ds) c = (if c = d then 0 else Suc (digit_value ds c))"

definition numeral_value :: "nat \<Rightarrow> string \<Rightarrow> nat" where
  "numeral_value base s = foldl (\<lambda>v c. v * base + digit_value digits c) 0 s"

lemma digit_value_nth: "distinct ds \<Longrightarrow> i < length ds \<Longrightarrow> digit_value ds (ds ! i) = i"
  by (induction ds arbitrary: i) (auto simp: nth_Cons split: nat.splits)

lemma digit_value_digits: "i < 36 \<Longrightarrow> digit_value digits (digits ! i) = i"
  by (rule digit_value_nth) (simp_all add: digits_def)

lemma numeral_value_rev_low:
  assumes "2 \<le> base" "base \<le> 36"
  shows "numeral_value base (rev (map (\<lambda>d. digits ! d) (low_digits base n))) = n"
  using assms
proof (induction base n rule: low_digits.induct)
  case (1 base n)
  have "n mod base < 36" using 1 mod_less_divisor [of base n] by linarith
  then have d: "digit_value digits (digits ! (n mod base)) = n mod base" by (rule digit_value_digits)
  show ?case
  proof (cases "n div base = 0")
    case True
    with 1 have "n mod base = n" by (simp add: div_eq_0_iff)
    with True d show ?thesis by (subst low_digits.simps) (simp add: numeral_value_def)
  next
    case False
    with 1 d show ?thesis
      by (subst low_digits.simps) (simp add: numeral_value_def div_mult_mod_eq)
  qed
qed

lemma low_digits_nonempty [simp]: "low_digits base n \<noteq> []"
  by (subst low_digits.simps) simp

lemma uint_u32: "0 \<le> uint (n :: u32)" "uint n < 4294967296"
  using uint_range_size [of n] by (simp_all add: word_size)

lemma sint_u32: "sint (n :: u32) = (if uint n < 2147483648 then uint n else uint n - 4294967296)"
proof -
  have s: "sint n = (uint n + 2147483648) mod 4294967296 - 2147483648"
    by (simp add: sint_uint signed_take_bit_eq_take_bit_shift take_bit_eq_mod)
  show ?thesis
  proof (cases "uint n < 2147483648")
    case True
    then show ?thesis using uint_u32 [of n] by (simp add: s)
  next
    case False
    have "(uint n + 2147483648) mod 4294967296 = (uint n - 2147483648 + 4294967296) mod 4294967296"
      by (simp add: algebra_simps)
    also have "\<dots> = uint n - 2147483648"
      using False uint_u32 [of n] by (simp only: mod_add_self2) (simp add: mod_pos_pos_trivial)
    finally show ?thesis using False by (simp add: s)
  qed
qed

lemma sint_nonneg_unat: "0 \<le> sint (n :: u32) \<Longrightarrow> sint n = int (unat n)"
  using uint_u32 [of n] by (simp add: sint_u32 split: if_splits)

text \<open>
  Printing an unsigned number loses nothing: for every base the digit table covers, \<^verbatim>\<open>itoa\<close> returns a
  numeral of at least one digit whose value in that base is the number.
\<close>

theorem itoa_unsigned_roundtrip:
  assumes "2 \<le> base" "base \<le> 36"
  shows "\<exists>s. itoa n base UNSIGNED = Ret s \<and> s \<noteq> [] \<and> numeral_value base s = unat n"
  using assms by (simp add: itoa_def itoa_unsigned_eq reverse_str_rev numeral_value_rev_low)

theorem itoa_unsigned_roundtrip_witness:
  "\<exists>s. itoa 3735928559 16 UNSIGNED = Ret s \<and> s \<noteq> [] \<and> numeral_value 16 s = unat (3735928559 :: u32)"
  using itoa_unsigned_roundtrip [of 16 3735928559] by simp

lemma sint_minus_nonneg:
  assumes "sint (n :: u32) < 0" "n \<noteq> 0x80000000"
  shows "0 \<le> sint (- n)"
proof -
  have "uint n \<noteq> 2147483648" using assms(2) by (metis of_int_numeral word_of_int_uint)
  with assms(1) have n: "2147483648 < uint n" using uint_u32 [of n] by (simp add: sint_u32 split: if_splits)
  have "uint (- n) = (- uint n + 4294967296) mod 4294967296" by (simp add: uint_word_ariths)
  also have "\<dots> = 4294967296 - uint n" using n uint_u32 [of n] by (subst mod_pos_pos_trivial) simp_all
  finally show ?thesis using n uint_u32 [of n] by (simp add: sint_u32)
qed

text \<open>
  A negative number prints with its minus sign at the wrong end: the sign is stored before the
  digits and the whole text is reversed, so \<^verbatim>\<open>itoa\<close> returns the numeral of the absolute value followed
  by the sign.
\<close>

theorem itoa_sign_at_end:
  assumes "sint n < 0" "n \<noteq> 0x80000000"
  shows "\<exists>s. itoa (- n) 10 SIGNED = Ret s \<and> numeral_value 10 s = unat (- n) \<and> itoa n 10 SIGNED = Ret (s @ ''-'')"
proof -
  have "0 \<le> sint (- n)" using assms by (rule sint_minus_nonneg)
  then have s: "sint (- n) = int (unat (- n))" by (rule sint_nonneg_unat)
  have e: "itoa_signed (sint (- n)) 10 p = Ret (p @ map (\<lambda>d. digits ! d) (low_digits 10 (unat (- n))))" for p
    using itoa_signed_eq [of 10 "unat (- n)" p] by (simp add: s)
  have v: "numeral_value 10 (rev (map (\<lambda>d. digits ! d) (low_digits 10 (unat (- n))))) = unat (- n)"
    by (rule numeral_value_rev_low) simp_all
  show ?thesis using assms(1) v \<open>0 \<le> sint (- n)\<close> by (simp add: itoa_def e reverse_str_rev)
qed

theorem itoa_sign_at_end_witness:
  "\<exists>s. itoa (- (- 25)) 10 SIGNED = Ret s \<and> numeral_value 10 s = unat (- (- 25) :: u32) \<and>
     itoa (- 25) 10 SIGNED = Ret (s @ ''-'')"
  by (rule itoa_sign_at_end) (simp_all add: sint_u32 uint_word_ariths)

end
