(* ===== verification/Mutex.thy ===== *)
theory Mutex
  imports Sched_Frame
begin

text \<open>
  The sleeping locks of \<^verbatim>\<open>sys/kernel/mutex.c\<close>, and the processes that use one of them as a step
  relation. Interrupts are off inside each routine, so a call runs without interleaving up to its
  \<^verbatim>\<open>sleep\<close>; a process that slept goes on, when it next runs, with the test of the
  \<^verbatim>\<open>while\<close> loop.
\<close>

section \<open>The lock\<close>

record mutex =
  m_lock :: bool
  m_owner :: "nat option"

definition mutex_init :: mutex where
  "mutex_init = \<lparr>m_lock = False, m_owner = None\<rparr>"

text \<open>A call either takes the lock or leaves the caller asleep on the address of the mutex.\<close>

datatype 's lock_result = Acquired mutex 's | Waiting 's

definition mutex_take :: "'a sched_state_scheme \<Rightarrow> 'a sched_state_scheme lock_result kres" where
  "mutex_take s = Ret (Acquired \<lparr>m_lock = True, m_owner = Some (current_process s)\<rparr> s)"

definition mutex_lock_loop ::
  "u32 \<Rightarrow> mutex \<Rightarrow> 'a sched_state_scheme \<Rightarrow> 'a sched_state_scheme lock_result kres" where
  "mutex_lock_loop a m s =
     (if m_lock m then bindk (sleep a PROC_SLEEP_INTERRUPTIBLE s) (\<lambda>s. Ret (Waiting s))
      else mutex_take s)"

definition mutex_lock ::
  "u32 \<Rightarrow> mutex \<Rightarrow> 'a sched_state_scheme \<Rightarrow> 'a sched_state_scheme lock_result kres" where
  "mutex_lock a m s =
     (if m_owner m = None \<and> m_lock m then Stop (Panic ''mutex_lock: Corrupt mutex'')
      else if m_owner m \<noteq> Some (current_process s) then mutex_lock_loop a m s
      else mutex_take s)"

definition mutex_unlock ::
  "u32 \<Rightarrow> mutex \<Rightarrow> 'a sched_state_scheme \<Rightarrow> (mutex \<times> 'a sched_state_scheme) kres" where
  "mutex_unlock a m s =
     bindk (wakeup a WAKEUP_SWITCH s) (\<lambda>s. Ret (\<lparr>m_lock = False, m_owner = None\<rparr>, s))"

definition mutex_locked :: "mutex \<Rightarrow> 'a sched_state_scheme \<Rightarrow> bool" where
  "mutex_locked m s \<longleftrightarrow> m_lock m \<and> m_owner m \<noteq> Some (current_process s)"

section \<open>Processes that share a lock\<close>

text \<open>
  Beside the mutex and the process table, \<open>waiters\<close> are the processes inside the loop of
  \<^verbatim>\<open>mutex_lock\<close> and \<open>holders\<close> those that have returned from it and not yet called
  \<^verbatim>\<open>mutex_unlock\<close>. The steps are those of the current process, and the timer.
\<close>

record mutex_config =
  mc_mutex :: mutex
  mc_sched :: sched_state
  waiters :: "nat set"
  holders :: "nat set"

abbreviation running :: "mutex_config \<Rightarrow> nat" where
  "running c \<equiv> current_process (mc_sched c)"

inductive mutex_step :: "u32 \<Rightarrow> mutex_config \<Rightarrow> mutex_config \<Rightarrow> bool" for a where
  lock: "running c \<notin> waiters c \<Longrightarrow> mutex_lock a (mc_mutex c) (mc_sched c) = Ret (Acquired m s) \<Longrightarrow>
    mutex_step a c \<lparr>mc_mutex = m, mc_sched = s, waiters = waiters c, holders = insert (running c) (holders c)\<rparr>"
| lock_wait: "running c \<notin> waiters c \<Longrightarrow> mutex_lock a (mc_mutex c) (mc_sched c) = Ret (Waiting s) \<Longrightarrow>
    mutex_step a c (c\<lparr>mc_sched := s, waiters := insert (running c) (waiters c)\<rparr>)"
| retry: "running c \<in> waiters c \<Longrightarrow> mutex_lock_loop a (mc_mutex c) (mc_sched c) = Ret (Acquired m s) \<Longrightarrow>
    mutex_step a c \<lparr>mc_mutex = m, mc_sched = s, waiters = waiters c - {running c},
                    holders = insert (running c) (holders c)\<rparr>"
| retry_wait: "running c \<in> waiters c \<Longrightarrow> mutex_lock_loop a (mc_mutex c) (mc_sched c) = Ret (Waiting s) \<Longrightarrow>
    mutex_step a c (c\<lparr>mc_sched := s\<rparr>)"
| unlock: "running c \<notin> waiters c \<Longrightarrow> running c \<in> holders c \<Longrightarrow>
    mutex_unlock a (mc_mutex c) (mc_sched c) = Ret (m, s) \<Longrightarrow>
    mutex_step a c (c\<lparr>mc_mutex := m, mc_sched := s, holders := holders c - {running c}\<rparr>)"
| tick: "timer_tick b (mc_sched c) = Ret s \<Longrightarrow> mutex_step a c (c\<lparr>mc_sched := s\<rparr>)"
| sleep_elsewhere: "running c \<notin> waiters c \<Longrightarrow> e \<noteq> a \<Longrightarrow> sleep e ty (mc_sched c) = Ret s \<Longrightarrow>
    mutex_step a c (c\<lparr>mc_sched := s\<rparr>)"
| wakeup_elsewhere: "running c \<notin> waiters c \<Longrightarrow> e \<noteq> a \<Longrightarrow> wakeup e r (mc_sched c) = Ret s \<Longrightarrow>
    mutex_step a c (c\<lparr>mc_sched := s\<rparr>)"

inductive mutex_reachable :: "u32 \<Rightarrow> mutex_config \<Rightarrow> bool" for a where
  start: "sched_wf s \<Longrightarrow> \<forall>i<NR_PROC. \<not> waits_on a (process_table s i) \<Longrightarrow>
    mutex_reachable a \<lparr>mc_mutex = mutex_init, mc_sched = s, waiters = {}, holders = {}\<rparr>"
| step: "mutex_reachable a c \<Longrightarrow> mutex_step a c d \<Longrightarrow> mutex_reachable a d"

section \<open>The invariant\<close>

definition mutex_inv :: "u32 \<Rightarrow> mutex_config \<Rightarrow> bool" where
  "mutex_inv a c \<longleftrightarrow> sched_wf (mc_sched c) \<and> (m_lock (mc_mutex c) \<longleftrightarrow> m_owner (mc_mutex c) \<noteq> None) \<and>
     holders c = set_option (m_owner (mc_mutex c)) \<and> waiters c \<inter> holders c = {} \<and>
     (\<not> m_lock (mc_mutex c) \<longrightarrow> (\<forall>i<NR_PROC. \<not> waits_on a (process_table (mc_sched c) i)))"

lemma sleep_wf:
  assumes wf: "sched_wf s" and t: "sleep b ty s = Ret t"
  shows "sched_wf t"
proof -
  let ?f = "\<lambda>p. p\<lparr>state := ty, sleeping_on := b\<rparr>"
  from t obtain v where c: "current_process s \<noteq> 0"
    and v: "adjust_proc_queues (current_process s) (upd_proc (current_process s) ?f s) = Ret v" "schedule v = Ret t"
    by (auto simp: sleep_def Let_def bindk_eq_Ret_iff split: if_splits)
  have "keeps_links ?f" by (simp add: keeps_links_def)
  from set_and_adjust [OF wf sched_wfD(4) [OF wf] this] c v(1) have "sched_wf v" by auto
  from schedule_picks_ok [OF this] v(2) show ?thesis by auto
qed

lemma timer_tick_wf:
  assumes wf: "sched_wf s" and t: "timer_tick b s = Ret t"
  shows "sched_wf t"
proof -
  let ?u = "s\<lparr>timer_ticks := timer_ticks s + 1\<rparr>"
  let ?g = "\<lambda>p. p\<lparr>counter := 0, state := PROC_RUNNABLE\<rparr>"
  define u where "u = upd_proc (current_process s) (\<lambda>p. p\<lparr>counter := counter (cur s) - 1\<rparr>) ?u"
  have e: "process_queues ?u = process_queues s" "qn ?u = qn s" "qp ?u = qp s"
    "\<And>j. priority (process_table ?u j) = priority (process_table s j)" by simp_all
  from sched_inv_cong [OF e] sched_wfD [OF wf] have w0: "sched_wf ?u" by (simp add: sched_wf_def)
  then have wu: "sched_wf u" unfolding u_def by (rule sched_wf_upd) (simp_all add: keeps_links_def)
  have "keeps_links ?g" by (simp add: keeps_links_def)
  from set_and_adjust [OF wu sched_wfD(4) [OF wf] this] obtain v where
    v: "adjust_proc_queues (current_process s) (upd_proc (current_process s) ?g u) = Ret v" "sched_wf v"
    by (auto simp: runnable_def)
  have eq: "timer_tick b s = (if b then Ret ?u else
      bindk (if counter (cur s) = 0 then adjust_proc_queues (current_process s)
        (upd_proc (current_process s) ?g u) else Ret u) schedule)"
    unfolding timer_tick_def Let_def u_def by simp
  show ?thesis
    using t w0 schedule_picks_ok [OF v(2)] schedule_picks_ok [OF wu] unfolding eq v(1)
    by (auto split: if_splits)
qed

lemma mutex_lock_loop_result:
  "mutex_lock_loop a m s = Ret (Acquired m' s') \<Longrightarrow>
     m' = \<lparr>m_lock = True, m_owner = Some (current_process s)\<rparr> \<and> s' = s \<and> \<not> m_lock m"
  "mutex_lock_loop a m s = Ret (Waiting s') \<Longrightarrow> m_lock m \<and> sleep a PROC_SLEEP_INTERRUPTIBLE s = Ret s'"
  by (auto simp: mutex_lock_loop_def mutex_take_def bindk_eq_Ret_iff split: if_splits)

lemma mutex_lock_result:
  "mutex_lock a m s = Ret (Acquired m' s') \<Longrightarrow>
     m' = \<lparr>m_lock = True, m_owner = Some (current_process s)\<rparr> \<and> s' = s \<and>
     (m_lock m \<longrightarrow> m_owner m = Some (current_process s))"
  "mutex_lock a m s = Ret (Waiting s') \<Longrightarrow>
     m_lock m \<and> m_owner m \<noteq> Some (current_process s) \<and> sleep a PROC_SLEEP_INTERRUPTIBLE s = Ret s'"
  by (auto simp: mutex_lock_def mutex_take_def split: if_splits dest: mutex_lock_loop_result)

lemma mutex_invD:
  assumes "mutex_inv a c"
  shows "sched_wf (mc_sched c)" and "m_lock (mc_mutex c) \<longleftrightarrow> m_owner (mc_mutex c) \<noteq> None"
    and "holders c = set_option (m_owner (mc_mutex c))" and "waiters c \<inter> holders c = {}"
    and "\<not> m_lock (mc_mutex c) \<Longrightarrow> i < NR_PROC \<Longrightarrow> \<not> waits_on a (process_table (mc_sched c) i)"
  using assms unfolding mutex_inv_def by blast+

text \<open>Steps that move only the scheduler keep the invariant when they put nobody to sleep on the lock.\<close>

lemma mutex_inv_sched:
  assumes "mutex_inv a c" and "sched_wf s"
    and "\<And>i. i < NR_PROC \<Longrightarrow> waits_on a (process_table s i) \<Longrightarrow> m_lock (mc_mutex c) \<or>
      waits_on a (process_table (mc_sched c) i)"
  shows "mutex_inv a (c\<lparr>mc_sched := s\<rparr>)"
  using assms by (auto simp: mutex_inv_def)

lemma mutex_inv_taken:
  assumes "mutex_inv a c" and "m_lock (mc_mutex c) \<longrightarrow> m_owner (mc_mutex c) = Some (running c)"
    and "W \<subseteq> waiters c" and "running c \<notin> W"
  shows "mutex_inv a \<lparr>mc_mutex = \<lparr>m_lock = True, m_owner = Some (running c)\<rparr>, mc_sched = mc_sched c,
    waiters = W, holders = insert (running c) (holders c)\<rparr>"
proof -
  have "holders c \<subseteq> {running c}"
    using assms(2) mutex_invD(2,3) [OF assms(1)] by (cases "m_owner (mc_mutex c)") auto
  then have "insert (running c) (holders c) = {running c}" by blast
  with assms(4) mutex_invD(1) [OF assms(1)] show ?thesis unfolding mutex_inv_def by simp blast
qed

lemma mutex_step_inv:
  assumes "mutex_step a c d" and inv: "mutex_inv a c"
  shows "mutex_inv a d"
  using assms(1)
proof cases
  case (lock m s)
  with mutex_lock_result(1) [OF lock(3)] mutex_inv_taken [OF inv] show ?thesis by simp
next
  case (lock_wait s)
  from mutex_lock_result(2) [OF lock_wait(3)] have r: "m_lock (mc_mutex c)"
    "m_owner (mc_mutex c) \<noteq> Some (running c)" "sleep a PROC_SLEEP_INTERRUPTIBLE (mc_sched c) = Ret s" by auto
  have "mutex_inv a (c\<lparr>mc_sched := s\<rparr>)"
    by (rule mutex_inv_sched [OF inv sleep_wf [OF mutex_invD(1) [OF inv] r(3)]]) (simp add: r(1))
  moreover have "running c \<notin> holders c" using mutex_invD(3) [OF inv] r(2) by simp
  ultimately show ?thesis unfolding lock_wait(1) mutex_inv_def by simp blast
next
  case (retry m s)
  with mutex_lock_loop_result(1) [OF retry(3)] mutex_inv_taken [OF inv, of "waiters c - {running c}"]
  show ?thesis by simp
next
  case (retry_wait s)
  from mutex_lock_loop_result(2) [OF retry_wait(3)] have r: "m_lock (mc_mutex c)"
    "sleep a PROC_SLEEP_INTERRUPTIBLE (mc_sched c) = Ret s" by auto
  show ?thesis unfolding retry_wait(1)
    by (rule mutex_inv_sched [OF inv sleep_wf [OF mutex_invD(1) [OF inv] r(2)]]) (simp add: r(1))
next
  case (unlock m s)
  then have m: "m = mutex_init" and s: "wakeup a WAKEUP_SWITCH (mc_sched c) = Ret s"
    by (auto simp: mutex_unlock_def mutex_init_def bindk_eq_Ret_iff)
  note wf = mutex_invD(1) [OF inv]
  with s have "sched_wf s" "\<forall>i<NR_PROC. \<not> waits_on a (process_table s i)"
    using wakeup_wf [OF wf, of a WAKEUP_SWITCH] wakeup_waits [OF wf s] by auto
  moreover have "holders c - {running c} = {}"
    using unlock(3) mutex_invD(3) [OF inv] by (cases "m_owner (mc_mutex c)") auto
  ultimately show ?thesis unfolding unlock(1) m mutex_inv_def mutex_init_def by auto
next
  case (tick b s)
  show ?thesis unfolding tick(1)
    by (rule mutex_inv_sched [OF inv timer_tick_wf [OF mutex_invD(1) [OF inv] tick(2)]])
      (blast dest: timer_tick_waits [OF tick(2)])
next
  case (sleep_elsewhere e ty s)
  show ?thesis unfolding sleep_elsewhere(1)
    by (rule mutex_inv_sched [OF inv sleep_wf [OF mutex_invD(1) [OF inv] sleep_elsewhere(4)]])
      (use sleep_waits [OF sleep_elsewhere(4), of a] sleep_elsewhere(3) in auto)
next
  case (wakeup_elsewhere e r s)
  note wf = mutex_invD(1) [OF inv]
  from wakeup_wf [OF wf, of e r] wakeup_elsewhere(4) have "sched_wf s" by auto
  then show ?thesis unfolding wakeup_elsewhere(1)
    by (rule mutex_inv_sched [OF inv]) (use wakeup_waits [OF wf wakeup_elsewhere(4)] in blast)
qed

lemma mutex_reachable_inv: "mutex_reachable a c \<Longrightarrow> mutex_inv a c"
proof (induction rule: mutex_reachable.induct)
  case (start s)
  then show ?case by (simp add: mutex_inv_def mutex_init_def)
next
  case (step c d)
  then show ?case by (blast intro: mutex_step_inv)
qed


text \<open>A process takes the lock, and the timer preempts it.\<close>

definition mutex_demo :: mutex_config where
  "mutex_demo = \<lparr>mc_mutex = \<lparr>m_lock = True, m_owner = Some 1\<rparr>, mc_sched = two_users, waiters = {}, holders = {1}\<rparr>"

lemma mutex_demo_reachable: "mutex_reachable 64 mutex_demo"
proof -
  let ?c = "\<lparr>mc_mutex = mutex_init, mc_sched = two_users, waiters = {}, holders = {}\<rparr>"
  have "\<not> waits_on 64 (process_table two_users i)" for i
    by (simp add: waits_on_def PROC_SLEEPING_def two_users_fields demo_fields)
  then have "mutex_reachable 64 ?c" by (intro start two_users_wf) simp
  moreover have "mutex_step 64 ?c mutex_demo"
    using mutex_step.lock [of ?c 64 "\<lparr>m_lock = True, m_owner = Some 1\<rparr>" two_users]
    by (simp add: mutex_demo_def mutex_lock_def mutex_lock_loop_def mutex_init_def mutex_take_def two_users_fields)
  ultimately show ?thesis by (rule step)
qed


end
