(* ===== verification/Block_Dev.thy ===== *)
theory Block_Dev
  imports Files Mutex Kvmalloc
begin

text \<open>
  Devices: \<^verbatim>\<open>sys/fs/devio.c\<close>, \<^verbatim>\<open>sys/fs/memdev.c\<close>, \<^verbatim>\<open>sys/include/fs/dev.h\<close>, \<^verbatim>\<open>sys/drivers/drive.c\<close>
  with its headers, and the data of the block cache, \<^verbatim>\<open>sys/include/fs/buffer.h\<close>. The disk controller
  is reached through \<^verbatim>\<open>struct drive_driver\<close>, an argument of the routines that call it, like the
  routines of the terminal driver that stand in the character device table.
\<close>

section \<open>Data\<close>

abbreviation (input) NR_BUF_HASH :: nat where "NR_BUF_HASH \<equiv> 100"
abbreviation (input) NR_BUF_BUFFERS :: nat where "NR_BUF_BUFFERS \<equiv> 128"
abbreviation (input) B_DWRITE :: u32 where "B_DWRITE \<equiv> 1"
abbreviation (input) B_DONE :: u32 where "B_DONE \<equiv> 2"
abbreviation (input) B_ERROR :: u32 where "B_ERROR \<equiv> 4"
abbreviation (input) NODEV :: u32 where "NODEV \<equiv> 0"
abbreviation (input) RD_DEV :: u32 where "RD_DEV \<equiv> 1"
abbreviation (input) FD_DEV :: u32 where "FD_DEV \<equiv> 2"
abbreviation (input) HD_DEV :: u32 where "HD_DEV \<equiv> 3"
abbreviation (input) MEM_DEV :: u32 where "MEM_DEV \<equiv> 1"
abbreviation (input) TTY_DEV :: u32 where "TTY_DEV \<equiv> 4"
abbreviation (input) TTYX_DEV :: u32 where "TTYX_DEV \<equiv> 5"
abbreviation (input) MEMDEV_NULL :: u32 where "MEMDEV_NULL \<equiv> 3"
abbreviation (input) MEMDEV_ZERO :: u32 where "MEMDEV_ZERO \<equiv> 5"
abbreviation (input) SECTOR_SIZE :: int where "SECTOR_SIZE \<equiv> 512"
abbreviation (input) MAX_NR_DRIVES :: nat where "MAX_NR_DRIVES \<equiv> 4"
abbreviation (input) MAX_NR_PARTITIONS :: nat where "MAX_NR_PARTITIONS \<equiv> 4"
abbreviation (input) MBR_PTE1_OFF :: u32 where "MBR_PTE1_OFF \<equiv> 0x1BE"
abbreviation (input) PTE_SIZE :: u32 where "PTE_SIZE \<equiv> 16"
abbreviation (input) MBR_MAGIC :: u16 where "MBR_MAGIC \<equiv> 0xAA55"

definition DEV_MAJOR :: "u32 \<Rightarrow> u32" where
  "DEV_MAJOR dev = drop_bit 8 dev AND 0xFF"

definition DEV_MINOR :: "u32 \<Rightarrow> u32" where
  "DEV_MINOR dev = dev AND 0xFF"

datatype rw = READ | WRITE

text \<open>A buffer. The cells 0 to 127 are the cache, cell 128 is the dummy that heads the free list.\<close>

record buffer =
  b_dev :: u32
  b_blknr :: u32
  b_blksize :: int
  b_data :: u32
  b_mutex :: mutex
  b_flags :: u32
  b_next_free :: "nat option"
  b_prev_free :: "nat option"
  b_next :: "nat option"
  b_prev :: "nat option"

record generic_disk_dev =
  dd_driver :: "nat option"
  dd_minor :: nat
  lba_start :: u32
  lba_len :: u32

text \<open>The state gains the cache, the table of partitions, the kernel heap and the memory behind it.\<close>

record buf_state = file_state +
  buffers :: "nat \<Rightarrow> buffer"
  hash_queues :: "nat \<Rightarrow> nat option"
  disk_dev_table :: "nat \<Rightarrow> generic_disk_dev"
  current_driver :: "nat option"
  heap :: kv_state
  kmem :: "u32 \<Rightarrow> u8"

record 's drive_driver =
  drive_start :: "nat \<Rightarrow> u32 \<Rightarrow> u32 \<Rightarrow> u32 \<Rightarrow> rw \<Rightarrow> 's \<Rightarrow> (int \<times> 's) kres"
  drive_exists :: "nat \<Rightarrow> 's \<Rightarrow> bool"

definition upd_buf :: "nat \<Rightarrow> (buffer \<Rightarrow> buffer) \<Rightarrow> 'a buf_state_scheme \<Rightarrow> 'a buf_state_scheme" where
  "upd_buf i f s = s\<lparr>buffers := (buffers s)(i := f (buffers s i))\<rparr>"

definition upd_disk :: "nat \<Rightarrow> (generic_disk_dev \<Rightarrow> generic_disk_dev) \<Rightarrow> 'a buf_state_scheme \<Rightarrow> 'a buf_state_scheme" where
  "upd_disk i f s = s\<lparr>disk_dev_table := (disk_dev_table s)(i := f (disk_dev_table s i))\<rparr>"

lemma upd_buf_simps [simp]:
  "buffers (upd_buf i f s) = (buffers s)(i := f (buffers s i))"
  "hash_queues (upd_buf i f s) = hash_queues s"
  "current_process (upd_buf i f s) = current_process s"
  "process_table (upd_buf i f s) = process_table s"
  "heap (upd_buf i f s) = heap s"
  by (simp_all add: upd_buf_def)

section \<open>Memory devices\<close>

text \<open>
  \<^verbatim>\<open>while (c--)\<close> leaves \<^verbatim>\<open>c\<close> at -1, and the routine returns \<^verbatim>\<open>c - count\<close>. A negative count makes the
  loop run through the whole address space.
\<close>

definition memdev_null_rw :: "u32 \<Rightarrow> int \<Rightarrow> rw \<Rightarrow> 'a buf_state_scheme \<Rightarrow> (int \<times> 'a buf_state_scheme) kres" where
  "memdev_null_rw buf count rw s = Ret (0, s)"

definition memdev_zero_rw :: "u32 \<Rightarrow> int \<Rightarrow> rw \<Rightarrow> 'a buf_state_scheme \<Rightarrow> (int \<times> 'a buf_state_scheme) kres" where
  "memdev_zero_rw buf count rw s =
     (if rw = READ then
        if count < 0 then Stop (Fault ''buf'')
        else Ret (-1 - count, upd_space (cp_to_user buf (replicate (nat count) 0)) s)
      else Ret (count - count, s))"

definition memdev_open :: "u32 \<Rightarrow> int" where
  "memdev_open minor = (if minor = MEMDEV_NULL \<or> minor = MEMDEV_ZERO then 0 else - ENODEV)"

definition memdev_rw :: "u32 \<Rightarrow> u32 \<Rightarrow> int \<Rightarrow> rw \<Rightarrow> 'a buf_state_scheme \<Rightarrow> (int \<times> 'a buf_state_scheme) kres" where
  "memdev_rw minor buf count rw s =
     (if minor = MEMDEV_NULL then memdev_null_rw buf count rw s
      else if minor = MEMDEV_ZERO then memdev_zero_rw buf count rw s
      else Ret (- ENODEV, s))"

definition memdev_close :: "u32 \<Rightarrow> int" where
  "memdev_close minor = 0"

section \<open>Disks\<close>

definition kmem16 :: "u32 \<Rightarrow> 'a buf_state_scheme \<Rightarrow> u16" where
  "kmem16 a s = ucast (kmem s a) OR push_bit 8 (ucast (kmem s (a + 1)))"

definition kmem32 :: "u32 \<Rightarrow> 'a buf_state_scheme \<Rightarrow> u32" where
  "kmem32 a s = ucast (kmem s a) OR push_bit 8 (ucast (kmem s (a + 1)))
     OR push_bit 16 (ucast (kmem s (a + 2))) OR push_bit 24 (ucast (kmem s (a + 3)))"

text \<open>\<^verbatim>\<open>lba_start\<close> is at offset 8 of a partition entry, \<^verbatim>\<open>nr_sectors\<close> at offset 12.\<close>

definition pte_addr :: "u32 \<Rightarrow> nat \<Rightarrow> u32" where
  "pte_addr buf i = buf + MBR_PTE1_OFF + of_nat i * PTE_SIZE"

definition parse_entry :: "nat \<Rightarrow> u32 \<Rightarrow> nat \<Rightarrow> 'a buf_state_scheme \<Rightarrow> 'a buf_state_scheme" where
  "parse_entry disk buf i s =
     (let p = pte_addr buf i in
      if kmem32 (p + 12) s \<noteq> 0
      then upd_disk (disk * MAX_NR_PARTITIONS + i)
             (\<lambda>d. d\<lparr>lba_start := kmem32 (p + 8) s, lba_len := kmem32 (p + 12) s\<rparr>) s
      else s)"

definition parse_mbr :: "nat \<Rightarrow> u32 \<Rightarrow> 'a buf_state_scheme \<Rightarrow> 'a buf_state_scheme" where
  "parse_mbr disk buf s =
     (if kmem16 (buf + 510) s \<noteq> MBR_MAGIC then s
      else fold (parse_entry disk buf) [0..<MAX_NR_PARTITIONS] s)"

definition read_partition_table_mbr ::
  "(nat \<Rightarrow> 'a buf_state_scheme drive_driver) \<Rightarrow> u32 \<Rightarrow> 'a buf_state_scheme \<Rightarrow> 'a buf_state_scheme kres" where
  "read_partition_table_mbr drv buf =
     foldk (\<lambda>disk s.
       let dev = disk * MAX_NR_PARTITIONS; i = dd_minor (disk_dev_table s dev) div MAX_NR_PARTITIONS
       in case dd_driver (disk_dev_table s dev) of
            None \<Rightarrow> Stop (Fault ''driver'')
          | Some d \<Rightarrow>
              if drive_exists (drv d) i s
              then bindk (drive_start (drv d) i buf 1 0 READ (s\<lparr>current_driver := Some d\<rparr>))
                     (\<lambda>(_, s). Ret (parse_mbr i buf s))
              else Ret s) [0..<MAX_NR_DRIVES]"

definition drive_driver_register :: "nat \<Rightarrow> 'a buf_state_scheme \<Rightarrow> 'a buf_state_scheme" where
  "drive_driver_register d =
     fold (\<lambda>i. upd_disk i (\<lambda>x. x\<lparr>dd_driver := Some d\<rparr>)) [0..<MAX_NR_DRIVES * MAX_NR_PARTITIONS]"

definition drive_rw ::
  "(nat \<Rightarrow> 'a buf_state_scheme drive_driver) \<Rightarrow> u32 \<Rightarrow> u32 \<Rightarrow> u32 \<Rightarrow> u32 \<Rightarrow> rw \<Rightarrow> 'a buf_state_scheme \<Rightarrow>
    (int \<times> 'a buf_state_scheme) kres" where
  "drive_rw drv minor block_off buf count rw s =
     (if unat minor \<ge> MAX_NR_DRIVES * MAX_NR_PARTITIONS then Ret (-1, s)
      else
        let dev = disk_dev_table s (unat minor); disk = unat minor div MAX_NR_PARTITIONS
        in if block_off > lba_len dev then Ret (-1, s)
           else
             case dd_driver dev of
               None \<Rightarrow> Stop (Fault ''driver'')
             | Some d \<Rightarrow> drive_start (drv d) disk buf count (lba_start dev + block_off) rw (s\<lparr>current_driver := Some d\<rparr>))"

section \<open>Dispatch on the device number\<close>

definition is_chardev :: "u32 \<Rightarrow> bool" where
  "is_chardev dev \<longleftrightarrow> DEV_MAJOR dev = TTY_DEV \<or> DEV_MAJOR dev = TTYX_DEV"

definition is_blockdev :: "u32 \<Rightarrow> bool" where
  "is_blockdev dev \<longleftrightarrow> DEV_MAJOR dev = HD_DEV"

definition hddev_physio ::
  "(nat \<Rightarrow> 'a buf_state_scheme drive_driver) \<Rightarrow> nat \<Rightarrow> rw \<Rightarrow> 'a buf_state_scheme \<Rightarrow> (int \<times> 'a buf_state_scheme) kres" where
  "hddev_physio drv bp rw s =
     (let b = buffers s bp; ratio = word_of_int (c_div (b_blksize b) SECTOR_SIZE)
      in bindk (drive_rw drv (DEV_MINOR (b_dev b)) (b_blknr b * ratio) (b_data b) ratio rw s) (\<lambda>(r, s).
           if r < 0 then Ret (-1, upd_buf bp (\<lambda>b. b\<lparr>b_flags := b_flags b OR B_ERROR\<rparr>) s)
           else Ret (0, upd_buf bp (\<lambda>b. b\<lparr>b_flags := b_flags b OR B_DONE\<rparr>) s)))"

text \<open>The table of block devices has an entry for each of the majors 0 to 3.\<close>

definition blk_devio ::
  "(nat \<Rightarrow> 'a buf_state_scheme drive_driver) \<Rightarrow> nat \<Rightarrow> rw \<Rightarrow> 'a buf_state_scheme \<Rightarrow> (int \<times> 'a buf_state_scheme) kres" where
  "blk_devio drv bp rw s =
     (let major = DEV_MAJOR (b_dev (buffers s bp)) in
      if major = HD_DEV then hddev_physio drv bp rw s
      else if major = NODEV \<or> major = RD_DEV \<or> major = FD_DEV
      then Ret (- ENODEV, upd_buf bp (\<lambda>b. b\<lparr>b_flags := b_flags b OR B_ERROR\<rparr>) s)
      else Stop (Fault ''blk_dev_table''))"

record 's chr_dev_ops =
  d_open :: "u32 \<Rightarrow> 's \<Rightarrow> (int \<times> 's) kres"
  d_rw :: "u32 \<Rightarrow> u32 \<Rightarrow> int \<Rightarrow> rw \<Rightarrow> 's \<Rightarrow> (int \<times> 's) kres"

text \<open>\<open>tops\<close> and \<open>xops\<close> are the rows of the terminal driver.\<close>

definition chr_dev_table ::
  "'a buf_state_scheme chr_dev_ops \<Rightarrow> 'a buf_state_scheme chr_dev_ops \<Rightarrow> u32 \<Rightarrow> 'a buf_state_scheme chr_dev_ops option" where
  "chr_dev_table tops xops major =
     (if major = MEM_DEV then Some \<lparr>d_open = (\<lambda>minor s. Ret (memdev_open minor, s)), d_rw = memdev_rw\<rparr>
      else if major = TTY_DEV then Some tops
      else if major = TTYX_DEV then Some xops else None)"

definition chr_devio ::
  "'a buf_state_scheme chr_dev_ops \<Rightarrow> 'a buf_state_scheme chr_dev_ops \<Rightarrow> u32 \<Rightarrow> u32 \<Rightarrow> int \<Rightarrow> rw \<Rightarrow>
    'a buf_state_scheme \<Rightarrow> (int \<times> 'a buf_state_scheme) kres" where
  "chr_devio tops xops dev buf count rw s =
     (if \<not> is_chardev dev then Ret (- ENODEV, s)
      else case chr_dev_table tops xops (DEV_MAJOR dev) of
             Some ops \<Rightarrow> d_rw ops (DEV_MINOR dev) buf count rw s
           | None \<Rightarrow> Ret (- ENODEV, s))"

definition chr_dev_open ::
  "'a buf_state_scheme chr_dev_ops \<Rightarrow> 'a buf_state_scheme chr_dev_ops \<Rightarrow> u32 \<Rightarrow>
    'a buf_state_scheme \<Rightarrow> (int \<times> 'a buf_state_scheme) kres" where
  "chr_dev_open tops xops dev s =
     (if \<not> is_chardev dev then Ret (-1, s)
      else case chr_dev_table tops xops (DEV_MAJOR dev) of
             Some ops \<Rightarrow> d_open ops (DEV_MINOR dev) s
           | None \<Rightarrow> Ret (- ENODEV, s))"

section \<open>What the dispatch reaches\<close>

lemma chr_devio_tty:
  assumes "DEV_MAJOR dev = TTY_DEV"
  shows "chr_devio tops xops dev buf count rw s = d_rw tops (DEV_MINOR dev) buf count rw s"
  using assms by (simp add: chr_devio_def is_chardev_def chr_dev_table_def)

text \<open>The memory devices are in the table but \<^verbatim>\<open>is_chardev\<close> does not know their major number.\<close>

lemma memory_devices_unreachable:
  assumes "DEV_MAJOR dev = MEM_DEV"
  shows "chr_devio tops xops dev buf count rw s = Ret (- ENODEV, s)"
    and "chr_dev_open tops xops dev s = Ret (-1, s)"
  using assms by (simp_all add: chr_devio_def chr_dev_open_def is_chardev_def)

text \<open>Partition bounds: the driver is never asked to start beyond the end of the partition.\<close>

lemma drive_rw_in_partition:
  assumes "drive_rw drv minor off buf count rw s = Ret (r, t)" "r \<noteq> -1"
  shows "unat minor < 16 \<and> off \<le> lba_len (disk_dev_table s (unat minor))"
  using assms by (auto simp: drive_rw_def Let_def split: if_splits)

text \<open>Every partition of a valid master boot record with a size enters the table, and no other entry changes.\<close>

lemma parse_entry_other:
  "kmem (parse_entry disk buf i s) = kmem s"
  "j \<noteq> disk * 4 + i \<Longrightarrow> disk_dev_table (parse_entry disk buf i s) j = disk_dev_table s j"
  by (simp_all add: parse_entry_def Let_def upd_disk_def)

lemma parse_entry_same:
  "disk_dev_table (parse_entry disk buf i s) (disk * 4 + i) =
     (if kmem32 (pte_addr buf i + 12) s \<noteq> 0
      then (disk_dev_table s (disk * 4 + i))
        \<lparr>lba_start := kmem32 (pte_addr buf i + 8) s, lba_len := kmem32 (pte_addr buf i + 12) s\<rparr>
      else disk_dev_table s (disk * 4 + i))"
  by (simp add: parse_entry_def Let_def upd_disk_def)

lemma kmem32_parse_entry [simp]: "kmem32 a (parse_entry disk buf i s) = kmem32 a s"
  by (simp add: kmem32_def parse_entry_other)

lemma parse_entries:
  "n \<le> 4 \<Longrightarrow> disk_dev_table (fold (parse_entry disk buf) [0..<n] s) j =
     (if disk * 4 \<le> j \<and> j < disk * 4 + n \<and> kmem32 (pte_addr buf (j - disk * 4) + 12) s \<noteq> 0
      then (disk_dev_table s j)
        \<lparr>lba_start := kmem32 (pte_addr buf (j - disk * 4) + 8) s,
         lba_len := kmem32 (pte_addr buf (j - disk * 4) + 12) s\<rparr>
      else disk_dev_table s j)"
proof (induction n)
  case 0
  then show ?case by auto
next
  case (Suc n)
  have k: "kmem32 a (fold (parse_entry disk buf) [0..<m] s) = kmem32 a s" for a m
    by (induction m) simp_all
  show ?case
  proof (cases "j = disk * 4 + n")
    case True
    with Suc show ?thesis by (simp add: parse_entry_same k)
  next
    case False
    with Suc show ?thesis by (simp add: parse_entry_other(2) less_Suc_eq)
  qed
qed

text \<open>
  A sector with the boot record's magic number fills in exactly the four table entries of its
  disk whose partition has sectors, each with the start and length that the little-endian fields
  of the partition entry hold; a sector without the magic number changes nothing.
\<close>

theorem parse_mbr_partitions:
  "disk_dev_table (parse_mbr disk buf s) j =
     (let p = pte_addr buf (j - disk * 4) in
      if kmem16 (buf + 510) s = 0xAA55 \<and> disk * 4 \<le> j \<and> j < disk * 4 + 4 \<and> kmem32 (p + 12) s \<noteq> 0
      then (disk_dev_table s j)\<lparr>lba_start := kmem32 (p + 8) s, lba_len := kmem32 (p + 12) s\<rparr>
      else disk_dev_table s j)"
  using parse_entries [of 4 disk buf s j] by (simp add: parse_mbr_def Let_def)

end
