(* ===== verification/Buffer.thy ===== *)
theory Buffer
  imports Block_Dev
begin

text \<open>
  The block cache, \<^verbatim>\<open>sys/fs/buffer.c\<close>. A \<^verbatim>\<open>struct buffer *\<close> is an index: 0 to 127 are the cells of the
  cache, 128 is the dummy \<^verbatim>\<open>free_list\<close>, 129 is the address one past the end of the cache, where no
  buffer is. Blocks sit on circular hash queues, free buffers on a ring through the dummy.
\<close>

section \<open>Pointers\<close>

abbreviation (input) FREE_LIST :: nat where "FREE_LIST \<equiv> 128"
abbreviation (input) CACHE_END :: nat where "CACHE_END \<equiv> 129"

definition BUF_HASH :: "u32 \<Rightarrow> u32 \<Rightarrow> nat" where
  "BUF_HASH dev blknr = unat (dev XOR blknr) mod NR_BUF_HASH"

definition set_b_next_free :: "nat \<Rightarrow> nat option \<Rightarrow> 'a buf_state_scheme \<Rightarrow> 'a buf_state_scheme" where
  "set_b_next_free i v = upd_buf i (\<lambda>b. b\<lparr>b_next_free := v\<rparr>)"

definition set_b_prev_free :: "nat \<Rightarrow> nat option \<Rightarrow> 'a buf_state_scheme \<Rightarrow> 'a buf_state_scheme" where
  "set_b_prev_free i v = upd_buf i (\<lambda>b. b\<lparr>b_prev_free := v\<rparr>)"

definition set_b_next :: "nat \<Rightarrow> nat option \<Rightarrow> 'a buf_state_scheme \<Rightarrow> 'a buf_state_scheme" where
  "set_b_next i v = upd_buf i (\<lambda>b. b\<lparr>b_next := v\<rparr>)"

definition set_b_prev :: "nat \<Rightarrow> nat option \<Rightarrow> 'a buf_state_scheme \<Rightarrow> 'a buf_state_scheme" where
  "set_b_prev i v = upd_buf i (\<lambda>b. b\<lparr>b_prev := v\<rparr>)"

text \<open>An assignment through a pointer, which must not be \<^verbatim>\<open>NULL\<close> or point outside the buffers.\<close>

definition through :: "nat option \<Rightarrow> (nat \<Rightarrow> 's \<Rightarrow> 's) \<Rightarrow> 's \<Rightarrow> 's kres" where
  "through p f s =
     (case p of
        None \<Rightarrow> Stop (Fault ''NULL buffer'')
      | Some i \<Rightarrow> if i < CACHE_END then Ret (f i s) else Stop (Fault ''outside the buffer cache''))"

section \<open>The free list\<close>

definition remove_from_free_list :: "nat \<Rightarrow> 'a buf_state_scheme \<Rightarrow> 'a buf_state_scheme kres" where
  "remove_from_free_list bp s =
     (let b = buffers s bp in
      if b_prev_free b = None \<and> b_next_free b = None then Ret s
      else if b_prev_free b = None \<or> b_next_free b = None
      then Stop (Panic ''remove_from_free_list: free list has been corrupted'')
      else
        bindk (through (b_prev_free b) (\<lambda>i. set_b_next_free i (b_next_free b)) s) (\<lambda>s.
        bindk (through (b_next_free (buffers s bp)) (\<lambda>i. set_b_prev_free i (b_prev_free (buffers s bp))) s) (\<lambda>s.
        Ret (set_b_next_free bp None (set_b_prev_free bp None s)))))"

definition put_into_free_list :: "nat \<Rightarrow> 'a buf_state_scheme \<Rightarrow> 'a buf_state_scheme kres" where
  "put_into_free_list bp s =
     (if b_flags (buffers s bp) AND B_DWRITE = 0 \<and> b_flags (buffers s bp) AND B_ERROR = 0
      then
        let s = set_b_prev_free bp (b_prev_free (buffers s FREE_LIST)) s;
            s = set_b_next_free bp (Some FREE_LIST) s
        in bindk (through (b_prev_free (buffers s FREE_LIST)) (\<lambda>i. set_b_next_free i (Some bp)) s) (\<lambda>s.
           Ret (set_b_prev_free FREE_LIST (Some bp) s))
      else
        let s = set_b_prev_free bp (Some FREE_LIST) s;
            s = set_b_next_free bp (b_next_free (buffers s FREE_LIST)) s
        in bindk (through (b_next_free (buffers s FREE_LIST)) (\<lambda>i. set_b_prev_free i (Some bp)) s) (\<lambda>s.
           Ret (set_b_next_free FREE_LIST (Some bp) s)))"

section \<open>The hash queues\<close>

text \<open>
  The \<^verbatim>\<open>do\<close> loop that looks for a block. Its fuel is the number of buffers and one more: a walk that
  has not come back to its start by then never does.
\<close>

fun hash_scan :: "nat \<Rightarrow> u32 \<Rightarrow> u32 \<Rightarrow> nat \<Rightarrow> nat \<Rightarrow> 'a buf_state_scheme \<Rightarrow> nat option kres" where
  "hash_scan 0 dev blknr tmp bp s = Stop Diverges"
| "hash_scan (Suc n) dev blknr tmp bp s =
     (if b_dev (buffers s bp) = dev \<and> b_blknr (buffers s bp) = blknr then Ret (Some bp)
      else case b_next (buffers s bp) of
             None \<Rightarrow> Stop (Fault ''NULL buffer'')
           | Some q \<Rightarrow> if q = tmp then Ret None else hash_scan n dev blknr tmp q s)"

definition in_hash_queue :: "u32 \<Rightarrow> u32 \<Rightarrow> 'a buf_state_scheme \<Rightarrow> nat option kres" where
  "in_hash_queue dev blknr s =
     (case hash_queues s (BUF_HASH dev blknr) of
        None \<Rightarrow> Ret None
      | Some bp \<Rightarrow> hash_scan (NR_BUF_BUFFERS + 1) dev blknr bp bp s)"

abbreviation buf_hash :: "nat \<Rightarrow> 'a buf_state_scheme \<Rightarrow> nat" where
  "buf_hash bp s \<equiv> BUF_HASH (b_dev (buffers s bp)) (b_blknr (buffers s bp))"

definition set_hash :: "nat \<Rightarrow> nat option \<Rightarrow> 'a buf_state_scheme \<Rightarrow> 'a buf_state_scheme" where
  "set_hash h v s = s\<lparr>hash_queues := (hash_queues s)(h := v)\<rparr>"

definition remove_from_hash_queue :: "nat \<Rightarrow> 'a buf_state_scheme \<Rightarrow> 'a buf_state_scheme kres" where
  "remove_from_hash_queue bp s =
     (let b = buffers s bp in
      if b_prev b = None \<and> b_next b = None then Ret s
      else if b_prev b = None \<or> b_next b = None
      then Stop (Panic ''remove_from_hash_queue: bp is not on a hash queue or queue has been corrupted!'')
      else
        bindk (if b_prev b = Some bp \<and> b_next b = Some bp then Ret (set_hash (buf_hash bp s) None s)
               else
                 bindk (through (b_prev b) (\<lambda>i. set_b_next i (b_next b)) s) (\<lambda>s.
                 through (b_next (buffers s bp)) (\<lambda>i. set_b_prev i (b_prev (buffers s bp))) s)) (\<lambda>s.
        Ret (set_b_prev bp None (set_b_next bp None s))))"

definition put_into_hash_queue :: "nat \<Rightarrow> 'a buf_state_scheme \<Rightarrow> 'a buf_state_scheme kres" where
  "put_into_hash_queue bp s =
     (case hash_queues s (buf_hash bp s) of
        None \<Rightarrow> Ret (set_b_prev bp (Some bp) (set_b_next bp (Some bp) (set_hash (buf_hash bp s) (Some bp) s)))
      | Some tp1 \<Rightarrow>
          bindk (ring_walk (NR_BUF_BUFFERS + 1) (\<lambda>i. b_next (buffers s i)) tp1 tp1) (\<lambda>tp2.
          Ret (set_b_prev tp1 (Some bp) (set_b_next bp (Some tp1)
                (set_b_prev bp (Some tp2) (set_b_next tp2 (Some bp) s))))))"

section \<open>The cache operations\<close>

text \<open>
  What the cache is built on: the disk drivers, the filesystems, the source of heap pages, the fuel
  of the heap's walks, and the addresses that identify a buffer and its lock to sleepers.
\<close>

record 's buf_env =
  be_disk :: "nat \<Rightarrow> 's drive_driver"
  be_fs :: "nat \<Rightarrow> 's fs_driver_ops"
  be_put_page :: "kv_state \<Rightarrow> (u32 \<times> kv_state) kres"
  be_fuel :: nat
  buf_addr :: "nat \<Rightarrow> u32"
  mutex_addr :: "nat \<Rightarrow> u32"

definition heap_alloc :: "'a buf_state_scheme buf_env \<Rightarrow> u32 \<Rightarrow> 'a buf_state_scheme \<Rightarrow> (u32 \<times> 'a buf_state_scheme) kres" where
  "heap_alloc E n s = bindk (kvmalloc (be_fuel E) (be_put_page E) n (heap s)) (\<lambda>(a, h). Ret (a, s\<lparr>heap := h\<rparr>))"

definition heap_free :: "'a buf_state_scheme buf_env \<Rightarrow> u32 \<Rightarrow> 'a buf_state_scheme \<Rightarrow> 'a buf_state_scheme kres" where
  "heap_free E p s = bindk (kvmfree (be_fuel E) p (heap s)) (\<lambda>h. Ret (s\<lparr>heap := h\<rparr>))"

definition brelse :: "'a buf_state_scheme buf_env \<Rightarrow> nat \<Rightarrow> 'a buf_state_scheme \<Rightarrow> 'a buf_state_scheme kres" where
  "brelse E bp s =
     (if \<not> m_lock (b_mutex (buffers s bp)) then Ret s
      else
        bindk (put_into_free_list bp s) (\<lambda>s.
        bindk (wakeup (buf_addr E bp) WAKEUP_SWITCH s) (\<lambda>s.
        bindk (wakeup (buf_addr E FREE_LIST) WAKEUP_SWITCH s) (\<lambda>s.
        bindk (mutex_unlock (mutex_addr E bp) (b_mutex (buffers s bp)) s) (\<lambda>(m, s).
        Ret (upd_buf bp (\<lambda>b. b\<lparr>b_mutex := m\<rparr>) s))))))"

definition bwrite :: "'a buf_state_scheme buf_env \<Rightarrow> nat \<Rightarrow> 'a buf_state_scheme \<Rightarrow> 'a buf_state_scheme kres" where
  "bwrite E bp s = bindk (blk_devio (be_disk E) bp WRITE s) (\<lambda>(_, s). brelse E bp s)"

text \<open>Buffers are resized when the block size changes; a size of 0 leaves the data alone.\<close>

definition resize_buffer :: "'a buf_state_scheme buf_env \<Rightarrow> nat \<Rightarrow> int \<Rightarrow> 'a buf_state_scheme \<Rightarrow> 'a buf_state_scheme kres" where
  "resize_buffer E bp old_blksize s =
     (let b = buffers s bp in
      if b_blksize b \<noteq> 0 \<and> old_blksize \<noteq> b_blksize b
      then
        bindk (if b_data b \<noteq> 0 then heap_free E (b_data b) s else Ret s) (\<lambda>s.
        bindk (heap_alloc E (word_of_int (b_blksize b)) s) (\<lambda>(p, s).
        Ret (upd_buf bp (\<lambda>b. b\<lparr>b_data := p\<rparr>) s)))
      else Ret s)"

text \<open>A call returns a buffer or leaves the caller asleep, to start the loop again when it runs.\<close>

datatype 's get_result = Got nat 's | Sleeps 's

definition lock_buffer :: "'a buf_state_scheme buf_env \<Rightarrow> nat \<Rightarrow> 'a buf_state_scheme \<Rightarrow> 'a buf_state_scheme get_result kres" where
  "lock_buffer E bp s =
     bindk (mutex_lock (mutex_addr E bp) (b_mutex (buffers s bp)) s) (\<lambda>r.
     case r of
       Acquired m s \<Rightarrow> Ret (Got bp (upd_buf bp (\<lambda>b. b\<lparr>b_mutex := m\<rparr>) s))
     | Waiting s \<Rightarrow> Ret (Sleeps s))"

definition reuse_buffer ::
  "'a buf_state_scheme buf_env \<Rightarrow> u32 \<Rightarrow> u32 \<Rightarrow> nat \<Rightarrow> 'a buf_state_scheme \<Rightarrow> 'a buf_state_scheme kres" where
  "reuse_buffer E dev blknr bp s =
     (let s = upd_buf bp (\<lambda>b. b\<lparr>b_dev := dev, b_blknr := blknr\<rparr>) s;
          old_blksize = b_blksize (buffers s bp);
          s = upd_buf bp (\<lambda>b. b\<lparr>b_blksize := sint (filesystem_get_attr (be_fs E) dev GET_BLOCKSIZE s)\<rparr>) s
      in bindk (resize_buffer E bp old_blksize s) (\<lambda>s.
         bindk (remove_from_hash_queue bp (upd_buf bp (\<lambda>b. b\<lparr>b_flags := 0\<rparr>) s)) (\<lambda>s.
         put_into_hash_queue bp s)))"

text \<open>
  The loop of \<^verbatim>\<open>getblk\<close>. The buffer it locks is unlocked or the caller's own, so that the call of
  \<^verbatim>\<open>mutex_lock\<close> does not wait. A round that writes a delayed buffer back starts over; the fuel counts
  these rounds.
\<close>

fun getblk :: "nat \<Rightarrow> 'a buf_state_scheme buf_env \<Rightarrow> u32 \<Rightarrow> u32 \<Rightarrow> 'a buf_state_scheme \<Rightarrow>
    'a buf_state_scheme get_result kres" where
  "getblk 0 E dev blknr s = Stop Diverges"
| "getblk (Suc n) E dev blknr s =
     bindk (in_hash_queue dev blknr s) (\<lambda>r.
     case r of
       Some bp \<Rightarrow>
         if mutex_locked (b_mutex (buffers s bp)) s
         then bindk (sleep (buf_addr E bp) PROC_SLEEP_INTERRUPTIBLE s) (\<lambda>s. Ret (Sleeps s))
         else
           bindk (lock_buffer E bp s) (\<lambda>r.
           case r of
             Sleeps s \<Rightarrow> Ret (Sleeps s)
           | Got bp s \<Rightarrow> bindk (remove_from_free_list bp s) (\<lambda>s. Ret (Got bp s)))
     | None \<Rightarrow>
         (case b_next_free (buffers s FREE_LIST) of
            None \<Rightarrow> bindk (sleep (buf_addr E FREE_LIST) PROC_SLEEP_INTERRUPTIBLE s) (\<lambda>s. Ret (Sleeps s))
          | Some bp \<Rightarrow>
              bindk (remove_from_free_list bp s) (\<lambda>s.
              if b_flags (buffers s bp) AND B_DWRITE \<noteq> 0
              then bindk (bwrite E bp (upd_buf bp (\<lambda>b. b\<lparr>b_flags := b_flags b AND NOT B_DWRITE\<rparr>) s)) (getblk n E dev blknr)
              else if mutex_locked (b_mutex (buffers s bp)) s
              then Stop (Panic ''buffer on free list is locked'')
              else
                bindk (lock_buffer E bp s) (\<lambda>r.
                case r of
                  Sleeps s \<Rightarrow> Ret (Sleeps s)
                | Got bp s \<Rightarrow> bindk (reuse_buffer E dev blknr bp s) (\<lambda>s. Ret (Got bp s))))))"

datatype 's read_result = Block nat 's | ReadError 's | ReadSleeps 's

definition bread :: "nat \<Rightarrow> 'a buf_state_scheme buf_env \<Rightarrow> u32 \<Rightarrow> u32 \<Rightarrow> 'a buf_state_scheme \<Rightarrow>
    'a buf_state_scheme read_result kres" where
  "bread n E dev blknr s =
     bindk (getblk n E dev blknr s) (\<lambda>r.
     case r of
       Sleeps s \<Rightarrow> Ret (ReadSleeps s)
     | Got bp s \<Rightarrow>
         if b_flags (buffers s bp) AND B_DONE \<noteq> 0 then Ret (Block bp s)
         else bindk (blk_devio (be_disk E) bp READ s) (\<lambda>(e, s).
              if e < 0 then Ret (ReadError s) else Ret (Block bp s)))"

definition buffer_sync :: "'a buf_state_scheme buf_env \<Rightarrow> 'a buf_state_scheme \<Rightarrow> 'a buf_state_scheme kres" where
  "buffer_sync E =
     foldk (\<lambda>bp s.
       if b_flags (buffers s bp) AND B_DWRITE \<noteq> 0 \<and> \<not> mutex_locked (b_mutex (buffers s bp)) s
       then bwrite E bp (upd_buf bp (\<lambda>b. b\<lparr>b_flags := b_flags b AND NOT B_DWRITE\<rparr>) s)
       else Ret s) [0..<NR_BUF_BUFFERS]"

text \<open>
  \<^verbatim>\<open>buffer_init\<close> fills in the pointers of the cells; what it does not assign keeps whatever the heap
  had there. The loop leaves \<^verbatim>\<open>bp\<close> one past the last cell, and that is what the dummy's
  \<^verbatim>\<open>b_prev_free\<close> is set to. \<^verbatim>\<open>sizeof(struct buffer)\<close> is 44 bytes.
\<close>

definition init_buffer :: "nat \<Rightarrow> 'a buf_state_scheme \<Rightarrow> 'a buf_state_scheme" where
  "init_buffer i = upd_buf i (\<lambda>b. b\<lparr>b_dev := NODEV,
     b_prev_free := Some (if i = 0 then FREE_LIST else i - 1),
     b_next_free := Some (if i = NR_BUF_BUFFERS - 1 then FREE_LIST else i + 1),
     b_next := None, b_prev := None, b_flags := 0\<rparr>)"

definition buffer_init :: "'a buf_state_scheme buf_env \<Rightarrow> 'a buf_state_scheme \<Rightarrow> 'a buf_state_scheme kres" where
  "buffer_init E s =
     bindk (heap_alloc E (of_nat NR_BUF_HASH * 4) s) (\<lambda>(p, s).
     if p = 0 then Stop (Panic ''Unable to allocate hash table: kvmalloc returned NULL'')
     else
       bindk (heap_alloc E (of_nat NR_BUF_BUFFERS * 44) (s\<lparr>hash_queues := \<lambda>_. None\<rparr>)) (\<lambda>(p, s).
       if p = 0 then Stop (Panic ''Unable to allocate buffer cache: kvmalloc returned NULL'')
       else Ret (set_b_prev_free FREE_LIST (Some CACHE_END)
                  (fold init_buffer [0..<NR_BUF_BUFFERS] (set_b_next_free FREE_LIST (Some 0) s)))))"

end
