(* ===== verification/Buffer_Props.thy ===== *)
theory Buffer_Props
  imports Buffer Files_Refs
begin

text \<open>
  The block cache on a consistent state: the free list and the hash queues are rings
  (the interface \<open>ring_store\<close> is interpreted for both), a block is cached at most once, and a buffer is
  free exactly when it is unlocked. The lookup is exact, a hit and a first use keep the state
  consistent, a release puts the buffer back. The last section has what goes wrong when a used
  buffer is recycled and when the first buffer is released.
\<close>

section \<open>The two pairs of pointers\<close>

abbreviation fn :: "'a buf_state_scheme \<Rightarrow> nat \<Rightarrow> nat option" where "fn s i \<equiv> b_next_free (buffers s i)"
abbreviation fp :: "'a buf_state_scheme \<Rightarrow> nat \<Rightarrow> nat option" where "fp s i \<equiv> b_prev_free (buffers s i)"
abbreviation hn :: "'a buf_state_scheme \<Rightarrow> nat \<Rightarrow> nat option" where "hn s i \<equiv> b_next (buffers s i)"
abbreviation hp :: "'a buf_state_scheme \<Rightarrow> nat \<Rightarrow> nat option" where "hp s i \<equiv> b_prev (buffers s i)"

lemmas set_free_defs = set_b_next_free_def set_b_prev_free_def
lemmas set_hash_defs = set_b_next_def set_b_prev_def set_hash_def

interpretation fl: ring_store fn fp set_b_next_free set_b_prev_free
  by unfold_locales (auto simp: set_free_defs upd_buf_def)

interpretation hq: ring_store hn hp set_b_next set_b_prev
  by unfold_locales (auto simp: set_hash_defs upd_buf_def)

lemma free_pointers:
  "fn (set_b_next_free i v s) j = (if j = i then v else fn s j)"
  "fp (set_b_next_free i v s) j = fp s j"
  "fn (set_b_prev_free i v s) j = fn s j"
  "fp (set_b_prev_free i v s) j = (if j = i then v else fp s j)"
  by (simp_all add: set_free_defs)

lemma hash_pointers:
  "hn (set_b_next i v s) j = (if j = i then v else hn s j)"
  "hp (set_b_next i v s) j = hp s j"
  "hn (set_b_prev i v s) j = hn s j"
  "hp (set_b_prev i v s) j = (if j = i then v else hp s j)"
  "buffers (set_hash h w s) = buffers s"
  by (simp_all add: set_hash_defs)

section \<open>Consistency\<close>

definition free_ok :: "'a buf_state_scheme \<Rightarrow> nat list \<Rightarrow> bool" where
  "free_ok s fs \<longleftrightarrow> fl.on_ring s (FREE_LIST # fs) \<and> (\<forall>i\<in>set fs. i < NR_BUF_BUFFERS) \<and>
     (\<forall>i<NR_BUF_BUFFERS. i \<notin> set fs \<longrightarrow> fn s i = None \<and> fp s i = None)"

definition queue_at :: "'a buf_state_scheme \<Rightarrow> nat \<Rightarrow> nat list \<Rightarrow> bool" where
  "queue_at s h q \<longleftrightarrow> (case hash_queues s h of None \<Rightarrow> q = [] | Some x \<Rightarrow> hq.on_ring s q \<and> hd q = x) \<and>
     (\<forall>i\<in>set q. i < NR_BUF_BUFFERS \<and> buf_hash i s = h)"

definition hash_ok :: "'a buf_state_scheme \<Rightarrow> (nat \<Rightarrow> nat list) \<Rightarrow> bool" where
  "hash_ok s Q \<longleftrightarrow> (\<forall>h<NR_BUF_HASH. queue_at s h (Q h)) \<and>
     (\<forall>i<NR_BUF_BUFFERS. i \<notin> set (Q (buf_hash i s)) \<longrightarrow> hn s i = None \<and> hp s i = None)"

text \<open>A buffer holds a block when it is on a hash queue.\<close>

definition holds :: "'a buf_state_scheme \<Rightarrow> nat \<Rightarrow> u32 \<Rightarrow> u32 \<Rightarrow> bool" where
  "holds s i dev blknr \<longleftrightarrow> i < NR_BUF_BUFFERS \<and> hn s i \<noteq> None \<and>
     b_dev (buffers s i) = dev \<and> b_blknr (buffers s i) = blknr"

definition unique_blocks :: "'a buf_state_scheme \<Rightarrow> bool" where
  "unique_blocks s \<longleftrightarrow> (\<forall>i j d b. holds s i d b \<and> holds s j d b \<longrightarrow> i = j)"

definition locks_ok :: "'a buf_state_scheme \<Rightarrow> bool" where
  "locks_ok s \<longleftrightarrow> (\<forall>i<NR_BUF_BUFFERS. m_lock (b_mutex (buffers s i)) \<longleftrightarrow> fn s i = None)"

definition cache_wf :: "'a buf_state_scheme \<Rightarrow> nat list \<Rightarrow> bool" where
  "cache_wf s fs \<longleftrightarrow> free_ok s fs \<and> (\<exists>Q. hash_ok s Q) \<and> unique_blocks s \<and> locks_ok s"

lemma BUF_HASH_less: "BUF_HASH d b < NR_BUF_HASH"
  by (simp add: BUF_HASH_def)

lemma queue_at_mem: "queue_at s h q \<Longrightarrow> i \<in> set q \<Longrightarrow> i < NR_BUF_BUFFERS \<and> buf_hash i s = h \<and> hn s i \<noteq> None"
  using ring_next_in [of "hn s" "hp s" q i]
  by (auto simp: queue_at_def hq.on_ring_def split: option.splits)

lemma queue_at_length:
  assumes "queue_at s h q"
  shows "length q \<le> NR_BUF_BUFFERS"
proof (rule distinct_bounded_length)
  show "distinct q" using assms by (auto simp: queue_at_def hq.on_ring_def dest: ring_distinct split: option.splits)
  show "\<forall>x\<in>set q. x < NR_BUF_BUFFERS" using assms by (simp add: queue_at_def)
qed

lemma holds_queue:
  assumes "hash_ok s Q"
  shows "holds s i d b \<longleftrightarrow> i \<in> set (Q (BUF_HASH d b)) \<and> b_dev (buffers s i) = d \<and> b_blknr (buffers s i) = b"
proof
  assume "holds s i d b"
  then have i: "i < NR_BUF_BUFFERS" "hn s i \<noteq> None" "b_dev (buffers s i) = d" "b_blknr (buffers s i) = b"
    by (auto simp: holds_def)
  from assms i(1,2) have "i \<in> set (Q (buf_hash i s))" unfolding hash_ok_def by metis
  with i show "i \<in> set (Q (BUF_HASH d b)) \<and> b_dev (buffers s i) = d \<and> b_blknr (buffers s i) = b" by simp
next
  assume i: "i \<in> set (Q (BUF_HASH d b)) \<and> b_dev (buffers s i) = d \<and> b_blknr (buffers s i) = b"
  have "queue_at s (BUF_HASH d b) (Q (BUF_HASH d b))" using assms BUF_HASH_less by (simp add: hash_ok_def)
  from queue_at_mem [OF this, of i] i show "holds s i d b" by (simp add: holds_def)
qed

section \<open>Looking a block up\<close>

lemma hash_scan_chain:
  assumes "chain (hn s) (hp s) xs" "xs \<noteq> []" "hn s (last xs) = Some h" "h \<notin> set (tl xs)" "length xs \<le> n"
  shows "hash_scan n d b h (hd xs) s =
    Ret (List.find (\<lambda>i. b_dev (buffers s i) = d \<and> b_blknr (buffers s i) = b) xs)"
  using assms
proof (induction xs arbitrary: n)
  case Nil
  then show ?case by simp
next
  case (Cons x xs)
  from Cons.prems obtain m where m: "n = Suc m" by (cases n) auto
  show ?case
  proof (cases "xs = []")
    case True
    with Cons.prems m show ?thesis by simp
  next
    case False
    with Cons.prems have "hn s x = Some (hd xs)" "chain (hn s) (hp s) xs" "hd xs \<noteq> h"
      by (auto simp: chain_Cons link_def)
    moreover have "h \<notin> set (tl xs)" using Cons.prems(4) False by (auto dest: list.set_sel(2))
    ultimately show ?thesis using Cons.IH [of m] Cons.prems False m by simp
  qed
qed

lemma in_hash_queue_find:
  assumes "hash_ok s Q"
  shows "in_hash_queue d b s =
    Ret (List.find (\<lambda>i. b_dev (buffers s i) = d \<and> b_blknr (buffers s i) = b) (Q (BUF_HASH d b)))"
proof -
  let ?h = "BUF_HASH d b"
  have q: "queue_at s ?h (Q ?h)" using assms BUF_HASH_less by (auto simp: hash_ok_def)
  show ?thesis
  proof (cases "hash_queues s ?h")
    case None
    with q show ?thesis by (simp add: in_hash_queue_def queue_at_def)
  next
    case (Some x)
    with q have r: "ring (hn s) (hp s) (Q ?h)" "hd (Q ?h) = x" by (auto simp: queue_at_def hq.on_ring_def)
    then have "hash_scan (NR_BUF_BUFFERS + 1) d b (hd (Q ?h)) (hd (Q ?h)) s =
        Ret (List.find (\<lambda>i. b_dev (buffers s i) = d \<and> b_blknr (buffers s i) = b) (Q ?h))"
      using queue_at_length [OF q]
      by (intro hash_scan_chain) (auto simp: ring_def link_def neq_Nil_conv)
    with r Some show ?thesis by (simp add: in_hash_queue_def)
  qed
qed

lemma in_hash_queue_holds:
  assumes "hash_ok s Q" "unique_blocks s"
  shows "holds s i d b \<Longrightarrow> in_hash_queue d b s = Ret (Some i)"
    and "(\<And>i. \<not> holds s i d b) \<Longrightarrow> in_hash_queue d b s = Ret None"
proof -
  let ?r = "List.find (\<lambda>i. b_dev (buffers s i) = d \<and> b_blknr (buffers s i) = b) (Q (BUF_HASH d b))"
  { assume h: "holds s i d b"
    then have "?r \<noteq> None" using holds_queue [OF assms(1), of i d b] by (auto simp: find_None_iff)
    then obtain j where j: "?r = Some j" by blast
    then have "holds s j d b" using holds_queue [OF assms(1), of j d b] by (auto simp: find_Some_iff)
    with h assms(2) have "j = i" unfolding unique_blocks_def by blast
    with j show "in_hash_queue d b s = Ret (Some i)" by (simp add: in_hash_queue_find [OF assms(1)]) }
  { assume h: "\<And>i. \<not> holds s i d b"
    then have "?r = None" using holds_queue [OF assms(1), of _ d b] by (auto simp: find_None_iff)
    then show "in_hash_queue d b s = Ret None" by (simp add: in_hash_queue_find [OF assms(1)]) }
qed

text \<open>
  The search of the hash queues is exact on a consistent cache: it always ends, returns the one
  buffer that holds the block when there is one, and \<^verbatim>\<open>NULL\<close> when there is none.
\<close>

theorem in_hash_queue_exact:
  assumes "cache_wf s fs"
  shows "in_hash_queue dev blknr s =
    Ret (if \<exists>i. holds s i dev blknr then Some (THE i. holds s i dev blknr) else None)"
proof (cases "\<exists>i. holds s i dev blknr")
  case True
  then obtain i where i: "holds s i dev blknr" by blast
  moreover have "(THE i. holds s i dev blknr) = i"
    using i assms by (intro the_equality) (auto simp: cache_wf_def unique_blocks_def)
  moreover from assms obtain Q where "hash_ok s Q" "unique_blocks s" by (auto simp: cache_wf_def)
  ultimately show ?thesis using in_hash_queue_holds(1) [of s Q i dev blknr] by auto
next
  case False
  from assms obtain Q where "hash_ok s Q" "unique_blocks s" by (auto simp: cache_wf_def)
  from in_hash_queue_holds(2) [OF this, of dev blknr] False show ?thesis by simp
qed

section \<open>What an operation leaves alone\<close>

text \<open>Steps on the free list change free pointers; steps on the hash queues change the others.\<close>

definition free_only :: "'a buf_state_scheme \<Rightarrow> 'a buf_state_scheme \<Rightarrow> bool" where
  "free_only s t \<longleftrightarrow> (\<exists>f. t = s\<lparr>buffers := f\<rparr> \<and>
     (\<forall>i. (f i)\<lparr>b_next_free := None, b_prev_free := None\<rparr> = (buffers s i)\<lparr>b_next_free := None, b_prev_free := None\<rparr>))"

lemma free_only_refl: "free_only s s"
  by (auto simp: free_only_def intro: exI [of _ "buffers s"])

lemma free_only_set:
  "free_only s t \<Longrightarrow> free_only s (set_b_next_free i v t)"
  "free_only s t \<Longrightarrow> free_only s (set_b_prev_free i v t)"
  by (auto simp: free_only_def set_free_defs upd_buf_def)

lemma free_only_fields:
  assumes "free_only s t"
  shows "hn t i = hn s i" "hp t i = hp s i" "b_dev (buffers t i) = b_dev (buffers s i)"
    "b_blknr (buffers t i) = b_blknr (buffers s i)" "b_flags (buffers t i) = b_flags (buffers s i)"
    "b_mutex (buffers t i) = b_mutex (buffers s i)" "b_data (buffers t i) = b_data (buffers s i)"
    "b_blksize (buffers t i) = b_blksize (buffers s i)"
    "hash_queues t = hash_queues s" "current_process t = current_process s" "t\<lparr>buffers := g\<rparr> = s\<lparr>buffers := g\<rparr>"
proof -
  from assms obtain f where f: "t = s\<lparr>buffers := f\<rparr>"
    "(f i)\<lparr>b_next_free := None, b_prev_free := None\<rparr> = (buffers s i)\<lparr>b_next_free := None, b_prev_free := None\<rparr>"
    by (auto simp: free_only_def)
  show "hash_queues t = hash_queues s" "current_process t = current_process s" "t\<lparr>buffers := g\<rparr> = s\<lparr>buffers := g\<rparr>"
    using f(1) by simp_all
  show "hn t i = hn s i" "hp t i = hp s i" "b_dev (buffers t i) = b_dev (buffers s i)"
    "b_blknr (buffers t i) = b_blknr (buffers s i)" "b_flags (buffers t i) = b_flags (buffers s i)"
    "b_mutex (buffers t i) = b_mutex (buffers s i)" "b_data (buffers t i) = b_data (buffers s i)"
    "b_blksize (buffers t i) = b_blksize (buffers s i)"
    using f(1) arg_cong [OF f(2), of b_next] arg_cong [OF f(2), of b_prev] arg_cong [OF f(2), of b_dev]
      arg_cong [OF f(2), of b_blknr] arg_cong [OF f(2), of b_flags] arg_cong [OF f(2), of b_mutex]
      arg_cong [OF f(2), of b_data] arg_cong [OF f(2), of b_blksize] by simp_all
qed

lemma hash_ok_cong:
  assumes "hash_queues t = hash_queues s"
    and "\<And>i. hn t i = hn s i" "\<And>i. hp t i = hp s i"
    and "\<And>i. b_dev (buffers t i) = b_dev (buffers s i)" "\<And>i. b_blknr (buffers t i) = b_blknr (buffers s i)"
  shows "hash_ok t Q = hash_ok s Q" and "holds t = holds s" and "unique_blocks t = unique_blocks s"
proof -
  have e: "hn t = hn s" "hp t = hp s" using assms(2,3) by auto
  have r: "hq.on_ring t = hq.on_ring s" by (simp only: fun_eq_iff hq.on_ring_def e) simp
  show "hash_ok t Q = hash_ok s Q"
    by (simp add: hash_ok_def queue_at_def r assms cong: option.case_cong)
  show "holds t = holds s" by (simp add: holds_def fun_eq_iff assms)
  then show "unique_blocks t = unique_blocks s" by (simp add: unique_blocks_def)
qed

lemma free_ok_cong:
  assumes "\<And>i. fn t i = fn s i" "\<And>i. fp t i = fp s i"
  shows "free_ok t fs = free_ok s fs"
proof -
  have e: "fn t = fn s" "fp t = fp s" using assms by auto
  show ?thesis by (simp add: free_ok_def fl.on_ring_def e assms)
qed

lemma through_Some [simp]: "i < CACHE_END \<Longrightarrow> through (Some i) f s = Ret (f i s)"
  by (simp add: through_def)

section \<open>Taking a buffer off the free list\<close>

lemma free_ok_distinct: "free_ok s fs \<Longrightarrow> distinct fs \<and> FREE_LIST \<notin> set fs"
  by (auto simp: free_ok_def fl.on_ring_def dest: ring_distinct)

lemma free_ok_member:
  assumes "free_ok s fs" "i < NR_BUF_BUFFERS"
  shows "i \<in> set fs \<longleftrightarrow> fn s i \<noteq> None"
  using assms ring_next_in [of "fn s" "fp s" "FREE_LIST # fs" i]
  by (auto simp: free_ok_def fl.on_ring_def)

lemma remove_from_free_list_ok:
  assumes ok: "free_ok s fs" and x: "x \<in> set fs"
  shows "\<exists>t. remove_from_free_list x s = Ret t \<and> free_ok t (remove1 x fs) \<and> free_only s t"
proof -
  from x obtain us vs where fs: "fs = us @ x # vs" by (meson split_list)
  have d: "distinct fs" "FREE_LIST \<notin> set fs" using free_ok_distinct [OF ok] by auto
  let ?ys = "vs @ FREE_LIST # us"
  have r: "fl.on_ring s (x # ?ys)"
    using ok ring_rotate [of "fn s" "fp s" "FREE_LIST # us" "x # vs"] by (simp add: free_ok_def fs fl.on_ring_def)
  obtain a b where ab: "hd ?ys = a" "last ?ys = b" by blast
  have p: "fn s x = Some a" "fp s x = Some b"
    using ring_head_pointers [OF r [unfolded fl.on_ring_def]] ab by simp_all
  have xs: "x \<notin> set ?ys" using d fs by auto
  have m: "a \<in> set ?ys" "b \<in> set ?ys" unfolding ab [symmetric] by (rule hd_in_set last_in_set; simp)+
  have "\<forall>i\<in>set ?ys. i < CACHE_END" using ok fs by (auto simp: free_ok_def intro: less_trans [of _ 128])
  with m have lt: "a < CACHE_END" "b < CACHE_END" by blast+
  let ?t = "set_b_next_free x None (set_b_prev_free x None (set_b_prev_free a (Some b) (set_b_next_free b (Some a) s)))"
  have "x \<noteq> b" "x \<noteq> a" using xs m by metis+
  then have eq: "remove_from_free_list x s = Ret ?t"
    using p lt by (simp add: remove_from_free_list_def Let_def free_pointers)
  have ring: "fl.on_ring ?t ?ys"
    using ring_unlink [of "fn s" "fp s" x ?ys] r by (simp add: fl.on_ring_def fl.pointer_simps ab del: last_append last.simps)
  have rem: "remove1 x fs = us @ vs" using d fs by (simp add: remove1_append)
  have "free_ok ?t (us @ vs)"
    unfolding free_ok_def
  proof (intro conjI ballI allI impI)
    show "fl.on_ring ?t (FREE_LIST # us @ vs)"
      using ring_rotate [of "fn ?t" "fp ?t" vs "FREE_LIST # us"] ring by (simp add: fl.on_ring_def)
    show "i < NR_BUF_BUFFERS" if "i \<in> set (us @ vs)" for i using that ok fs by (auto simp: free_ok_def)
    fix i assume i: "i < NR_BUF_BUFFERS" "i \<notin> set (us @ vs)"
    have n: "i \<noteq> x \<Longrightarrow> fn s i = None \<and> fp s i = None" using ok i fs by (auto simp: free_ok_def)
    have "i \<notin> set ?ys" using i by auto
    then have "i \<noteq> a" "i \<noteq> b" using m by metis+
    then show "fn ?t i = None" "fp ?t i = None" using n by (cases "i = x"; simp add: free_pointers)+
  qed
  moreover have "free_only s ?t" by (intro free_only_set free_only_refl)
  ultimately show ?thesis using eq rem by (intro exI [of _ ?t]) simp
qed

section \<open>Giving a buffer back\<close>

lemma put_into_free_list_ok:
  assumes ok: "free_ok s fs" and x: "x < NR_BUF_BUFFERS" "x \<notin> set fs"
  shows "\<exists>t. put_into_free_list x s = Ret t \<and> free_only s t \<and>
    free_ok t (if b_flags (buffers s x) AND B_DWRITE = 0 \<and> b_flags (buffers s x) AND B_ERROR = 0 then fs @ [x] else x # fs)"
proof (cases "b_flags (buffers s x) AND B_DWRITE = 0 \<and> b_flags (buffers s x) AND B_ERROR = 0")
  case True
  have r: "ring (fn s) (fp s) (FREE_LIST # fs)" using ok by (simp add: free_ok_def fl.on_ring_def)
  obtain l where l: "last (FREE_LIST # fs) = l" by blast
  have m: "l \<in> set (FREE_LIST # fs)" unfolding l [symmetric] by (rule last_in_set) simp
  then have lt: "l < CACHE_END" "x \<noteq> l" using ok x by (auto simp: free_ok_def intro: less_trans [of _ 128])
  have p: "fp s FREE_LIST = Some l" using r l by (simp add: ring_def link_def del: last.simps)
  let ?t = "set_b_prev_free FREE_LIST (Some x) (set_b_next_free l (Some x)
     (set_b_next_free x (Some FREE_LIST) (set_b_prev_free x (Some l) s)))"
  have eq: "put_into_free_list x s = Ret ?t"
    using True x p lt by (simp add: put_into_free_list_def Let_def free_pointers)
  have "fl.on_ring ?t (FREE_LIST # fs @ [x])"
    using ring_append [OF r, of x] x lt l
    by (simp add: fl.on_ring_def fl.pointer_simps fun_upd_twist [of x] del: last.simps)
  moreover have "fn ?t i = None \<and> fp ?t i = None" if "i < NR_BUF_BUFFERS" "i \<notin> set (fs @ [x])" for i
    using that m ok by (auto simp: free_pointers free_ok_def)
  ultimately have "free_ok ?t (fs @ [x])" using ok x by (auto simp: free_ok_def)
  moreover have "free_only s ?t" by (intro free_only_set free_only_refl)
  ultimately show ?thesis using True eq by (intro exI [of _ ?t]) simp
next
  case False
  have r: "ring (fn s) (fp s) (fs @ [FREE_LIST])"
    using ok ring_rotate [of "fn s" "fp s" "[FREE_LIST]" fs] by (simp add: free_ok_def fl.on_ring_def)
  obtain l where l: "hd (fs @ [FREE_LIST]) = l" by blast
  have m: "l \<in> set (fs @ [FREE_LIST])" unfolding l [symmetric] by (rule hd_in_set) simp
  then have lt: "l < CACHE_END" "x \<noteq> l" using ok x by (auto simp: free_ok_def intro: less_trans [of _ 128])
  have p: "fn s FREE_LIST = Some l" using r l by (auto simp: ring_def link_def)
  let ?t = "set_b_next_free FREE_LIST (Some x) (set_b_prev_free l (Some x)
     (set_b_next_free x (Some l) (set_b_prev_free x (Some FREE_LIST) s)))"
  have eq: "put_into_free_list x s = Ret ?t"
    using False x p lt by (auto simp: put_into_free_list_def Let_def free_pointers)
  have "ring (fn ?t) (fp ?t) (fs @ [FREE_LIST] @ [x])"
    using ring_append [OF r, of x] x lt l
    by (simp add: fl.pointer_simps fun_upd_twist [of x])
  then have "fl.on_ring ?t (FREE_LIST # x # fs)"
    using ring_rotate [of "fn ?t" "fp ?t" fs "[FREE_LIST, x]"] by (simp add: fl.on_ring_def)
  moreover have "fn ?t i = None \<and> fp ?t i = None" if "i < NR_BUF_BUFFERS" "i \<notin> set (x # fs)" for i
    using that m ok by (auto simp: free_pointers free_ok_def)
  ultimately have "free_ok ?t (x # fs)" using ok x by (auto simp: free_ok_def)
  moreover have "free_only s ?t" by (intro free_only_set free_only_refl)
  ultimately show ?thesis using False eq by (intro exI [of _ ?t]) (simp only: if_False simp_thms)
qed

text \<open>Waking sleepers moves the processor but not the cache.\<close>

lemma more_cache:
  fixes s t :: "'a buf_state_scheme"
  shows "sched_state.more t = sched_state.more s \<Longrightarrow> buffers t = buffers s \<and> hash_queues t = hash_queues s"
  by (cases s, cases t) simp

lemma wakeup_more:
  assumes "sched_wf s"
  shows "\<exists>t. wakeup a r s = Ret t \<and> sched_wf t \<and> sched_state.more t = sched_state.more s"
proof -
  from wakeup_loop [OF assms, of NR_PROC a] obtain b u where
    u: "foldk (wakeup_scan a) [0..<NR_PROC] (False, s) = Ret (b, u)" "sched_wf u" "same_ctx UNIV s u" by auto
  have "sched_state.more u = sched_state.more s" using u(3) by (simp add: same_ctx_def)
  with u schedule_picks_ok [OF u(2)] schedule_sched_only [of u] show ?thesis
    by (cases "b \<and> r = WAKEUP_SWITCH") (auto simp: wakeup_def sched_only_def)
qed

lemma sched_wf_fields:
  assumes "process_table t = process_table s" "process_queues t = process_queues s" "current_process t = current_process s"
  shows "sched_wf t = sched_wf s"
  using assms by (simp add: sched_wf_def sched_inv_def queue_ok_def queued_def run_queue_def cong: option.case_cong)

lemma sched_wf_upd_buf [simp]: "sched_wf (upd_buf i f s) = sched_wf s"
  by (rule sched_wf_fields) (simp_all add: upd_buf_def)

lemma sched_wf_free_only: "free_only s t \<Longrightarrow> sched_wf t = sched_wf s"
  by (rule sched_wf_fields) (auto simp: free_only_def)

lemma cache_wfI:
  assumes "free_ok t fs'" "hash_ok t Q" "unique_blocks t"
    and "\<And>i. i < NR_BUF_BUFFERS \<Longrightarrow> m_lock (b_mutex (buffers t i)) \<longleftrightarrow> i \<notin> set fs'"
  shows "cache_wf t fs'"
  using assms free_ok_member [OF assms(1)] by (auto simp: cache_wf_def locks_ok_def)

lemma cache_wf_locked:
  assumes "cache_wf s fs" "i < NR_BUF_BUFFERS"
  shows "m_lock (b_mutex (buffers s i)) \<longleftrightarrow> i \<notin> set fs"
  using assms free_ok_member [of s fs i] by (auto simp: cache_wf_def locks_ok_def)

lemma brelse_returns:
  assumes wf: "cache_wf s fs" and sch: "sched_wf s" and x: "x < 128" "m_lock (b_mutex (buffers s x))"
  shows "\<exists>t. brelse E x s = Ret t \<and> sched_wf t \<and> holds t = holds s \<and> \<not> m_lock (b_mutex (buffers t x)) \<and>
    cache_wf t (if b_flags (buffers s x) AND 1 = 0 \<and> b_flags (buffers s x) AND 4 = 0 then fs @ [x] else x # fs)"
proof -
  obtain fs' where fs': "fs' = (if b_flags (buffers s x) AND 1 = 0 \<and> b_flags (buffers s x) AND 4 = 0 then fs @ [x] else x # fs)"
    by blast
  from wf obtain Q where Q: "hash_ok s Q" "unique_blocks s" "free_ok s fs" by (auto simp: cache_wf_def)
  have "x \<notin> set fs" using cache_wf_locked [OF wf, of x] x by simp
  with put_into_free_list_ok [OF Q(3), of x] x fs' obtain u where
    u: "put_into_free_list x s = Ret u" "free_only s u" "free_ok u fs'" by auto
  from u(2) sch sched_wf_free_only have "sched_wf u" by blast
  from wakeup_more [OF this, of "buf_addr E x" WAKEUP_SWITCH] obtain v where
    v: "wakeup (buf_addr E x) WAKEUP_SWITCH u = Ret v" "sched_wf v" "buffers v = buffers u" "hash_queues v = hash_queues u"
    by (auto dest: more_cache)
  from wakeup_more [OF v(2), of "buf_addr E FREE_LIST" WAKEUP_SWITCH] obtain w where
    w: "wakeup (buf_addr E FREE_LIST) WAKEUP_SWITCH v = Ret w" "sched_wf w" "buffers w = buffers u" "hash_queues w = hash_queues u"
    using v by (auto dest: more_cache)
  from wakeup_more [OF w(2), of "mutex_addr E x" WAKEUP_SWITCH] obtain y where
    y: "wakeup (mutex_addr E x) WAKEUP_SWITCH w = Ret y" "sched_wf y" "buffers y = buffers u" "hash_queues y = hash_queues u"
    using w by (auto dest: more_cache)
  let ?t = "upd_buf x (\<lambda>b. b\<lparr>b_mutex := \<lparr>m_lock = False, m_owner = None\<rparr>\<rparr>) y"
  have eq: "brelse E x s = Ret ?t"
    using x(2) by (simp add: brelse_def u(1) v(1) w(1) y(1) mutex_unlock_def)
  have f: "b_dev (buffers ?t i) = b_dev (buffers s i)" "b_blknr (buffers ?t i) = b_blknr (buffers s i)"
    "hn ?t i = hn s i" "hp ?t i = hp s i" "fn ?t i = fn u i" "fp ?t i = fp u i" "hash_queues ?t = hash_queues s"
    "m_lock (b_mutex (buffers ?t i)) \<longleftrightarrow> i \<noteq> x \<and> m_lock (b_mutex (buffers s i))" for i
    using free_only_fields(1-8) [OF u(2), of i] y by (auto simp: free_only_fields(9) [OF u(2)])
  have c: "hash_ok ?t Q = hash_ok s Q" "holds ?t = holds s" "unique_blocks ?t = unique_blocks s"
    by (rule hash_ok_cong; rule f)+
  have "free_ok ?t fs'" using free_ok_cong [of ?t u fs'] f(5,6) u(3) by blast
  then have "cache_wf ?t fs'"
    using Q c f(8) cache_wf_locked [OF wf] x fs' by (intro cache_wfI [of _ _ Q]) auto
  with eq c(2) y(2) f(8) [of x] fs' show ?thesis by (intro exI [of _ ?t]) simp
qed

text \<open>
  Releasing a locked buffer of a consistent cache unlocks it and puts it back on the free list: at
  the end when its contents are valid, so that it is reused last, and at the front after an error or
  when it waits to be written. The call returns, the cache and the process table stay consistent,
  and every block stays where it is.
\<close>

theorem brelse_releases:
  assumes wf: "cache_wf s fs" and sch: "sched_wf s" and x: "x < 128" "m_lock (b_mutex (buffers s x))"
  shows "\<exists>t. brelse E x s = Ret t \<and> sched_wf t \<and> holds t = holds s \<and> \<not> m_lock (b_mutex (buffers t x)) \<and>
    cache_wf t (if b_flags (buffers s x) AND 1 = 0 \<and> b_flags (buffers s x) AND 4 = 0 then fs @ [x] else x # fs)"
  using brelse_returns [OF assms] .

section \<open>A block that is cached\<close>

lemma lock_buffer_ok:
  assumes "\<not> mutex_locked (b_mutex (buffers s bp)) s"
  shows "lock_buffer E bp s =
    Ret (Got bp (upd_buf bp (\<lambda>b. b\<lparr>b_mutex := \<lparr>m_lock = True, m_owner = Some (current_process s)\<rparr>\<rparr>) s))"
  using assms
  by (auto simp: lock_buffer_def mutex_locked_def mutex_lock_def mutex_lock_loop_def mutex_take_def)

lemma getblk_hit_frame:
  assumes wf: "cache_wf s fs" and i: "holds s i dev blknr" and free: "\<not> mutex_locked (b_mutex (buffers s i)) s"
  shows "\<exists>t. getblk (Suc n) E dev blknr s = Ret (Got i t) \<and> cache_wf t (remove1 i fs) \<and> holds t = holds s \<and>
    b_mutex (buffers t i) = \<lparr>m_lock = True, m_owner = Some (current_process s)\<rparr> \<and>
    (\<forall>j. b_data (buffers t j) = b_data (buffers s j) \<and> b_flags (buffers t j) = b_flags (buffers s j)) \<and>
    (\<exists>f. t = s\<lparr>buffers := f\<rparr>)"
proof -
  let ?u = "upd_buf i (\<lambda>b. b\<lparr>b_mutex := \<lparr>m_lock = True, m_owner = Some (current_process s)\<rparr>\<rparr>) s"
  from wf obtain Q where Q: "hash_ok s Q" "unique_blocks s" "free_ok s fs" by (auto simp: cache_wf_def)
  have lt: "i < NR_BUF_BUFFERS" using i by (simp add: holds_def)
  have fu: "free_ok ?u fs" using free_ok_cong [of ?u s fs] Q(3) by simp
  obtain t where t: "remove_from_free_list i ?u = Ret t" "free_only ?u t" "free_ok t (remove1 i fs)"
  proof (cases "i \<in> set fs")
    case True
    from remove_from_free_list_ok [OF fu this] that show ?thesis by blast
  next
    case False
    then have "remove_from_free_list i ?u = Ret ?u"
      using Q(3) lt by (simp add: remove_from_free_list_def free_ok_def Let_def)
    moreover have "remove1 i fs = fs" using False by (rule remove1_idem)
    ultimately show ?thesis using that [of ?u] fu free_only_refl [of ?u] by (simp only:)
  qed
  have eq: "getblk (Suc n) E dev blknr s = Ret (Got i t)"
    using in_hash_queue_holds(1) [OF Q(1,2) i] lock_buffer_ok [OF free] free t(1) by simp
  have f: "b_dev (buffers t j) = b_dev (buffers s j)" "b_blknr (buffers t j) = b_blknr (buffers s j)"
    "hn t j = hn s j" "hp t j = hp s j" "hash_queues t = hash_queues s"
    "b_data (buffers t j) = b_data (buffers s j)" "b_flags (buffers t j) = b_flags (buffers s j)"
    "b_mutex (buffers t j) = b_mutex (buffers ?u j)" for j
    using free_only_fields(1-8) [OF t(2), of j] free_only_fields(9) [OF t(2)] by simp_all
  have c: "hash_ok t Q = hash_ok s Q" "holds t = holds s" "unique_blocks t = unique_blocks s"
    by (rule hash_ok_cong; rule f)+
  have "distinct fs" using free_ok_distinct [OF Q(3)] by simp
  then have "cache_wf t (remove1 i fs)"
    using t(3) Q c cache_wf_locked [OF wf] f(8) by (intro cache_wfI [of _ _ Q]) auto
  moreover have "\<exists>f. t = s\<lparr>buffers := f\<rparr>" using t(2) by (auto simp: free_only_def upd_buf_def)
  ultimately show ?thesis using eq c(2) f by (intro exI [of _ t]) simp
qed

text \<open>
  Asking for a block that the cache holds returns the buffer that holds it, locked by the caller
  and off the free list, with its contents and the rest of the cache as they were. The only
  condition is that no other process has the buffer locked.
\<close>

theorem getblk_hit:
  assumes wf: "cache_wf s fs" and i: "holds s i dev blknr" and free: "\<not> mutex_locked (b_mutex (buffers s i)) s"
  shows "\<exists>t. getblk (Suc n) E dev blknr s = Ret (Got i t) \<and> cache_wf t (remove1 i fs) \<and> holds t = holds s \<and>
    b_mutex (buffers t i) = \<lparr>m_lock = True, m_owner = Some (current_process s)\<rparr> \<and>
    (\<forall>j. b_data (buffers t j) = b_data (buffers s j) \<and> b_flags (buffers t j) = b_flags (buffers s j))"
  using getblk_hit_frame [OF assms, of n E] by blast

section \<open>A block that is not cached\<close>

lemma not_queued:
  assumes "hash_ok s Q" "hn s x = None" "h < NR_BUF_HASH"
  shows "x \<notin> set (Q h)"
  using assms queue_at_mem [of s h "Q h" x] by (auto simp: hash_ok_def)

lemma hash_ok_rename:
  assumes ok: "hash_ok s Q" and x: "hn s x = None" "hp s x = None"
    and q: "hash_queues t = hash_queues s" and n: "\<And>i. hn t i = hn s i" and p: "\<And>i. hp t i = hp s i"
    and d: "\<And>i. i \<noteq> x \<Longrightarrow> b_dev (buffers t i) = b_dev (buffers s i) \<and> b_blknr (buffers t i) = b_blknr (buffers s i)"
  shows "hash_ok t Q"
proof -
  have e: "hn t = hn s" "hp t = hp s" using n p by auto
  have r: "hq.on_ring t = hq.on_ring s" by (simp only: fun_eq_iff hq.on_ring_def e) simp
  have same: "buf_hash i t = buf_hash i s" if "i \<noteq> x" for i using d [OF that] by simp
  have "queue_at t h (Q h)" if h: "h < NR_BUF_HASH" for h
  proof -
    have "x \<notin> set (Q h)" using not_queued [OF ok x(1) h] .
    then have "\<forall>i\<in>set (Q h). buf_hash i t = buf_hash i s" using same by metis
    moreover have "queue_at s h (Q h)" using ok h by (simp add: hash_ok_def)
    ultimately show ?thesis by (simp add: queue_at_def q r cong: option.case_cong)
  qed
  moreover have "hn t i = None \<and> hp t i = None" if "i < NR_BUF_BUFFERS" "i \<notin> set (Q (buf_hash i t))" for i
    using that ok x n p same [of i] by (cases "i = x") (simp_all add: hash_ok_def)
  ultimately show ?thesis by (simp add: hash_ok_def)
qed

text \<open>Appending a buffer to its queue, first or not.\<close>

lemma put_into_hash_queue_ok:
  assumes ok: "hash_ok s Q" and x: "x < NR_BUF_BUFFERS" "hn s x = None" "hp s x = None"
  shows "\<exists>f q. put_into_hash_queue x s = Ret (s\<lparr>buffers := f, hash_queues := q\<rparr>) \<and>
    (\<forall>i. (f i)\<lparr>b_next := None, b_prev := None\<rparr> = (buffers s i)\<lparr>b_next := None, b_prev := None\<rparr>) \<and>
    hash_ok (s\<lparr>buffers := f, hash_queues := q\<rparr>) (Q(buf_hash x s := Q (buf_hash x s) @ [x]))"
proof -
  obtain h where h: "buf_hash x s = h" "h < NR_BUF_HASH" using BUF_HASH_less by blast
  have qh: "queue_at s h (Q h)" using ok h(2) by (simp add: hash_ok_def)
  have xQ: "k < NR_BUF_HASH \<Longrightarrow> x \<notin> set (Q k)" for k using not_queued [OF ok x(2)] .
  have disj: "i \<in> set (Q k) \<Longrightarrow> k < NR_BUF_HASH \<Longrightarrow> buf_hash i s = k" for i k
    using ok queue_at_mem [of s k "Q k" i] by (auto simp: hash_ok_def)
  obtain t where t: "put_into_hash_queue x s = Ret t"
    and tb: "t = s\<lparr>buffers := buffers t, hash_queues := hash_queues t\<rparr>"
      "\<forall>i. (buffers t i)\<lparr>b_next := None, b_prev := None\<rparr> = (buffers s i)\<lparr>b_next := None, b_prev := None\<rparr>"
    and ring: "hq.on_ring t (Q h @ [x])" "hash_queues t = (hash_queues s)(h := Some (hd (Q h @ [x])))"
    and other: "\<And>i. i \<notin> set (Q h @ [x]) \<Longrightarrow> hn t i = hn s i \<and> hp t i = hp s i"
  proof (cases "hash_queues s h")
    case None
    then have Q: "Q h = []" using qh by (simp add: queue_at_def)
    let ?t = "set_b_prev x (Some x) (set_b_next x (Some x) (set_hash h (Some x) s))"
    show ?thesis
    proof (rule that [of ?t])
      show "put_into_hash_queue x s = Ret ?t" using h None by (simp add: put_into_hash_queue_def)
      show "hq.on_ring ?t (Q h @ [x])" by (simp add: Q hq.on_ring_def ring_single hash_pointers)
    qed (auto simp: Q set_hash_defs upd_buf_def)
  next
    case (Some y)
    with qh have r: "hq.on_ring s (Q h)" "hd (Q h) = y" "Q h \<noteq> []" by (auto simp: queue_at_def hq.on_ring_def)
    let ?z = "last (Q h)"
    let ?t = "set_b_prev y (Some x) (set_b_next x (Some y) (set_b_prev x (Some ?z) (set_b_next ?z (Some x) s)))"
    have w: "ring_walk (NR_BUF_BUFFERS + 1) (hn s) y y = Ret ?z"
      using ring_walk_last [of "hn s" "hp s" "Q h" "NR_BUF_BUFFERS + 1"] r queue_at_length [OF qh]
      by (simp add: hq.on_ring_def)
    show ?thesis
    proof (rule that [of ?t])
      show "put_into_hash_queue x s = Ret ?t" using h Some w by (simp add: put_into_hash_queue_def)
      show "hq.on_ring ?t (Q h @ [x])" using hq.on_ring_append [OF r(1) xQ [OF h(2)]] r(2) by simp
      show "hash_queues ?t = (hash_queues s)(h := Some (hd (Q h @ [x])))"
        using Some r by (auto simp: set_hash_defs fun_eq_iff)
      show "hn ?t i = hn s i \<and> hp ?t i = hp s i" if "i \<notin> set (Q h @ [x])" for i
        using that r by (auto simp: hash_pointers)
    qed (auto simp: set_hash_defs upd_buf_def)
  qed
  obtain f q where fq: "t = s\<lparr>buffers := f, hash_queues := q\<rparr>"
    "\<And>i. (f i)\<lparr>b_next := None, b_prev := None\<rparr> = (buffers s i)\<lparr>b_next := None, b_prev := None\<rparr>" using tb by blast
  have ids: "b_dev (buffers t i) = b_dev (buffers s i)" "b_blknr (buffers t i) = b_blknr (buffers s i)" for i
    using fq(1) arg_cong [OF fq(2) [of i], of b_dev] arg_cong [OF fq(2) [of i], of b_blknr] by simp_all
  let ?Q = "Q(h := Q h @ [x])"
  have "queue_at t k (?Q k)" if k: "k < NR_BUF_HASH" for k
  proof (cases "k = h")
    case True
    with ring qh h x show ?thesis by (simp add: queue_at_def ids)
  next
    case False
    have qk: "queue_at s k (Q k)" using ok k by (simp add: hash_ok_def)
    have "\<forall>i\<in>set (Q k). i \<notin> set (Q h @ [x])" using disj [of _ k] disj [of _ h] xQ [OF k] k h(2) False by auto
    then have "hq.on_ring s (Q k) \<Longrightarrow> hq.on_ring t (Q k)"
      using other by (intro hq.on_ring_frame [of s "Q k" t]) auto
    with qk False ring(2) show ?thesis by (auto simp: queue_at_def ids split: option.splits)
  qed
  moreover have "hn t i = None \<and> hp t i = None" if i: "i < NR_BUF_BUFFERS" "i \<notin> set (?Q (buf_hash i t))" for i
  proof -
    have a: "i \<notin> set (Q (buf_hash i s))" using i(2) ids by (auto split: if_splits)
    then have "hn s i = None \<and> hp s i = None" using ok i(1) by (simp add: hash_ok_def)
    moreover have "i \<noteq> x" using i(2) ids h(1) by auto
    moreover have "i \<notin> set (Q h)" using a disj [of i h] h(2) by auto
    ultimately show ?thesis using other [of i] by simp
  qed
  ultimately have "hash_ok t ?Q" by (simp add: hash_ok_def)
  with t fq h show ?thesis by (intro exI [of _ f] exI [of _ q]) simp
qed

text \<open>The steps of a miss up to the hash queues, for a buffer that needs no writing back.\<close>

definition taken :: "'a buf_state_scheme \<Rightarrow> u32 \<Rightarrow> u32 \<Rightarrow> nat \<Rightarrow> 'a buf_state_scheme \<Rightarrow> 'a buf_state_scheme" where
  "taken s dev blknr x u = upd_buf x (\<lambda>b. b\<lparr>b_mutex := \<lparr>m_lock = True, m_owner = Some (current_process s)\<rparr>,
     b_dev := dev, b_blknr := blknr, b_blksize := b_blksize (buffers s x), b_flags := 0\<rparr>) u"

definition fixed_blksize :: "'a buf_state_scheme buf_env \<Rightarrow> 'a buf_state_scheme \<Rightarrow> u32 \<Rightarrow> int \<Rightarrow> bool" where
  "fixed_blksize E s dev n \<longleftrightarrow> (\<forall>t. mount_table t = mount_table s \<and> filesystems t = filesystems s \<longrightarrow>
     sint (filesystem_get_attr (be_fs E) dev GET_BLOCKSIZE t) = n)"

lemma getblk_miss_steps:
  assumes wf: "cache_wf s (x # fs)" and miss: "\<And>i. \<not> holds s i dev blknr"
    and clean: "b_flags (buffers s x) AND 1 = 0" and size: "fixed_blksize E s dev (b_blksize (buffers s x))"
  shows "\<exists>u. free_only s u \<and> free_ok u fs \<and> getblk (Suc n) E dev blknr s =
    bindk (remove_from_hash_queue x (taken s dev blknr x u)) (\<lambda>s. bindk (put_into_hash_queue x s) (\<lambda>s. Ret (Got x s)))"
proof -
  from wf obtain Q where Q: "hash_ok s Q" "unique_blocks s" "free_ok s (x # fs)" by (auto simp: cache_wf_def)
  from Q(3) have x: "x < NR_BUF_BUFFERS" by (simp add: free_ok_def)
  from remove_from_free_list_ok [OF Q(3), of x] obtain u where
    u: "remove_from_free_list x s = Ret u" "free_only s u" "free_ok u fs" by auto
  note f = free_only_fields(1-8) [OF u(2), of x] free_only_fields(9,10) [OF u(2)]
  have "ring (fn s) (fp s) (FREE_LIST # x # fs)" using Q(3) by (simp add: free_ok_def fl.on_ring_def)
  then have nx: "fn s FREE_LIST = Some x" using ring_head_pointers(1) by fastforce
  have ml: "\<not> m_lock (b_mutex (buffers u x))" using cache_wf_locked [OF wf x] f by simp
  then have "\<not> mutex_locked (b_mutex (buffers u x)) u" by (simp add: mutex_locked_def)
  note lk = lock_buffer_ok [OF this] 
  let ?v = "upd_buf x (\<lambda>b. b\<lparr>b_mutex := \<lparr>m_lock = True, m_owner = Some (current_process u)\<rparr>\<rparr>) u"
  let ?w = "upd_buf x (\<lambda>b. b\<lparr>b_dev := dev, b_blknr := blknr\<rparr>) ?v"
  have "mount_table ?w = mount_table s \<and> filesystems ?w = filesystems s"
    using u(2) by (auto simp: free_only_def upd_buf_def)
  then have sz: "sint (filesystem_get_attr (be_fs E) dev GET_BLOCKSIZE ?w) = b_blksize (buffers s x)"
    using size by (simp add: fixed_blksize_def)
  have "reuse_buffer E dev blknr x ?v = bindk (remove_from_hash_queue x (taken s dev blknr x u)) (put_into_hash_queue x)"
    unfolding reuse_buffer_def Let_def sz
    by (simp add: resize_buffer_def f taken_def) (simp add: upd_buf_def f)
  then have "getblk (Suc n) E dev blknr s =
    bindk (remove_from_hash_queue x (taken s dev blknr x u)) (\<lambda>s. bindk (put_into_hash_queue x s) (\<lambda>s. Ret (Got x s)))"
    using in_hash_queue_holds(2) [OF Q(1,2) miss] nx u(1) clean f ml lk
    by (simp add: mutex_locked_def bindk_assoc)
  with u show ?thesis by blast
qed


end
