(* ===== verification/Buffer_Faults.thy ===== *)
theory Buffer_Faults
  imports Buffer_Props
begin

text \<open>
  What goes wrong in the block cache: recycling a buffer clears the head of the wrong hash queue, and
  the first buffer that is released is linked to an address past the end of the cache. A small
  cache on which the properties of the cache are evaluated closes the theory.
\<close>

section \<open>Recycling a buffer\<close>

text \<open>
  Recycling a buffer loses other blocks. When the buffer at the head of the free list is the only
  one of its old hash queue, \<^verbatim>\<open>getblk\<close> clears the queue of the \<^emph>\<open>new\<close> block, because the buffer has already
  been given its new name: a block that was cached there is still in its buffer, but the search
  no longer finds it, so that it will be read into a second buffer.
\<close>

theorem getblk_recycling_loses_blocks:
  assumes wf: "cache_wf s (x # fs)" and miss: "\<And>i. \<not> holds s i dev blknr"
    and alone: "b_next (buffers s x) = Some x" "b_prev (buffers s x) = Some x"
    and clean: "b_flags (buffers s x) AND 1 = 0" and size: "fixed_blksize E s dev (b_blksize (buffers s x))"
    and other: "holds s j d b" "j \<noteq> x" "BUF_HASH d b = BUF_HASH dev blknr"
  shows "in_hash_queue d b s = Ret (Some j) \<and>
    (\<exists>t. getblk (Suc n) E dev blknr s = Ret (Got x t) \<and> holds t j d b \<and> in_hash_queue d b t = Ret None)"
proof -
  from wf obtain Q where Q: "hash_ok s Q" "unique_blocks s" by (auto simp: cache_wf_def)
  from getblk_miss_steps [OF wf miss clean size, of n] obtain u where
    u: "free_only s u" and
    g: "getblk (Suc n) E dev blknr s =
      bindk (remove_from_hash_queue x (taken s dev blknr x u)) (\<lambda>s. bindk (put_into_hash_queue x s) (\<lambda>s. Ret (Got x s)))"
    by blast
  let ?h = "BUF_HASH dev blknr" and ?v = "taken s dev blknr x u"
  let ?w = "set_b_prev x None (set_b_next x None (set_hash ?h None ?v))"
  let ?t = "set_b_prev x (Some x) (set_b_next x (Some x) (set_hash ?h (Some x) ?w))"
  note f = free_only_fields(1-8) [OF u] free_only_fields(9,10) [OF u]
  have id: "b_dev (buffers ?v x) = dev" "b_blknr (buffers ?v x) = blknr" by (simp_all add: taken_def)
  have "remove_from_hash_queue x ?v = Ret ?w"
    using alone f(1,2) [of x] id by (simp add: remove_from_hash_queue_def taken_def Let_def)
  moreover have "put_into_hash_queue x ?w = Ret ?t"
    using id by (simp add: put_into_hash_queue_def set_hash_defs)
  ultimately have eq: "getblk (Suc n) E dev blknr s = Ret (Got x ?t)" using g by simp
  have "holds ?t j d b"
    using other(1,2) f(1-4) [of j] by (simp add: holds_def set_hash_defs taken_def)
  moreover have "in_hash_queue d b ?t = Ret None"
  proof -
    have ne: "\<not> (dev = d \<and> blknr = b)" using other(1) miss by auto
    have q: "hash_queues ?t ?h = Some x" by (simp add: set_hash_defs)
    have nx: "hn ?t x = Some x" "b_dev (buffers ?t x) = dev" "b_blknr (buffers ?t x) = blknr"
      using id by (simp_all add: set_hash_defs)
    have "hash_scan (Suc m) d b x x ?t = Ret None" for m using ne nx by auto
    from this [of 128] q other(3) show ?thesis by (simp add: in_hash_queue_def)
  qed
  ultimately show ?thesis using eq in_hash_queue_holds(1) [OF Q other(1)] by blast
qed

section \<open>The first release\<close>

lemma init_buffers:
  "buffers (fold init_buffer [0..<n] s) i =
     (if i < n then (buffers s i)\<lparr>b_dev := 0, b_prev_free := Some (if i = 0 then 128 else i - 1),
        b_next_free := Some (if i = 127 then 128 else i + 1), b_next := None, b_prev := None, b_flags := 0\<rparr>
      else buffers s i)"
  by (induction n) (auto simp: init_buffer_def less_Suc_eq)

lemma buffer_init_fields:
  assumes "buffer_init E s = Ret t"
  shows "fp t 128 = Some 129" "fn t 128 = Some 0" "fp t 0 = Some 128" "fn t 0 = Some 1" "b_flags (buffers t 0) = 0"
  using assms
  by (auto simp: buffer_init_def bindk_eq_Ret_iff set_free_defs init_buffers split: if_splits)

text \<open>
  After \<^verbatim>\<open>buffer_init\<close>, the first buffer that is taken from the free list cannot be released: its
  \<^verbatim>\<open>brelse\<close> writes through a pointer to the address one past the end of the cache, which
  \<^verbatim>\<open>buffer_init\<close> has left as the dummy's predecessor.
\<close>

theorem first_release_faults:
  assumes "buffer_init E s = Ret t"
  shows "\<exists>u. remove_from_free_list 0 t = Ret u \<and>
    brelse E 0 (upd_buf 0 (\<lambda>b. b\<lparr>b_mutex := \<lparr>m_lock = True, m_owner = Some p\<rparr>\<rparr>) u) =
      Stop (Fault ''outside the buffer cache'')"
proof -
  note f = buffer_init_fields [OF assms]
  let ?u = "set_b_next_free 0 None (set_b_prev_free 0 None (set_b_prev_free 1 (Some 128) (set_b_next_free 128 (Some 1) t)))"
  have "remove_from_free_list 0 t = Ret ?u" using f by (simp add: remove_from_free_list_def free_pointers Let_def)
  moreover have "b_flags (buffers ?u 0) = 0" "fp ?u 128 = Some 129" using f by (simp_all add: set_free_defs)
  then have "put_into_free_list 0 (upd_buf 0 (\<lambda>b. b\<lparr>b_mutex := m\<rparr>) ?u) = Stop (Fault ''outside the buffer cache'')" for m
    by (simp add: put_into_free_list_def Let_def free_pointers through_def)
  ultimately show ?thesis by (intro exI [of _ ?u]) (simp add: brelse_def)
qed

section \<open>A small cache\<close>

text \<open>
  Buffer 0 holds block 7 of device 0x301, buffer 1 has not been used, both are free, 1 first; buffer
  2 holds block 107, on another queue; the other buffers are locked. \<open>swap\<close> puts buffer 0 first.
\<close>

definition demo_buffer :: buffer where
  "demo_buffer = \<lparr>b_dev = 0, b_blknr = 0, b_blksize = 0, b_data = 0, b_mutex = \<lparr>m_lock = True, m_owner = Some 1\<rparr>,
     b_flags = 0, b_next_free = None, b_prev_free = None, b_next = None, b_prev = None\<rparr>"

definition cache_demo :: "nat \<Rightarrow> nat \<Rightarrow> buf_state" where
  "cache_demo x y = \<lparr>process_table = process_table two_users, current_process = 1,
     process_queues = process_queues two_users, last_pid = 2, timer_ticks = 0, startup_time = 0,
     user_spaces = \<lambda>_. \<lparr>us_valid = (\<lambda>_. True), us_mem = (\<lambda>_. 0)\<rparr>,
     sys_phase = SYSTEM_MULTITASKING, multitasking_hooks = [], file_table = \<lambda>_. free_file,
     filesystems = \<lambda>_. \<lparr>f_dev = 0, f_read_only = False, f_driver = 0\<rparr>,
     mount_table = \<lambda>_. None, nr_mounts = 0,
     buffers = (\<lambda>_. demo_buffer)
       (128 := demo_buffer\<lparr>b_next_free := Some x, b_prev_free := Some y\<rparr>,
        x := demo_buffer\<lparr>b_mutex := mutex_init, b_next_free := Some y, b_prev_free := Some 128\<rparr>,
        y := demo_buffer\<lparr>b_mutex := mutex_init, b_next_free := Some 128, b_prev_free := Some x\<rparr>),
     hash_queues = \<lambda>_. None,
     disk_dev_table = \<lambda>_. \<lparr>dd_driver = None, dd_minor = 0, lba_start = 0, lba_len = 0\<rparr>, current_driver = None,
     heap = kv_demo 0x10000, kmem = \<lambda>_. 0\<rparr>"

definition hold_block :: "nat \<Rightarrow> u32 \<Rightarrow> u32 \<Rightarrow> 'a buf_state_scheme \<Rightarrow> 'a buf_state_scheme" where
  "hold_block i d b s = set_hash (BUF_HASH d b) (Some i)
     (upd_buf i (\<lambda>r. r\<lparr>b_dev := d, b_blknr := b, b_next := Some i, b_prev := Some i\<rparr>) s)"

definition demo_env :: "buf_state buf_env" where
  "demo_env = \<lparr>be_disk = \<lambda>_. \<lparr>drive_start = (\<lambda>_ _ _ _ _ s. Ret (0, s)), drive_exists = (\<lambda>_ _. False)\<rparr>,
     be_fs = demo_drivers, be_put_page = (\<lambda>h. Ret (0, h)), be_fuel = Suc 0,
     buf_addr = (\<lambda>i. 0x10000 + of_nat i * 44), mutex_addr = (\<lambda>i. 0x10010 + of_nat i * 44)\<rparr>"

lemma demo_sched: "sched_wf (cache_demo x y)" "sched_wf (hold_block i d b (cache_demo x y))"
  "sched_wf (hold_block j e c (hold_block i d b (cache_demo x y)))"
  by (simp_all add: cache_demo_def hold_block_def set_hash_def upd_buf_def
        sched_wf_fields [of _ two_users] two_users_wf two_users_fields)

lemma demo_size: "fixed_blksize demo_env s d 0"
  by (auto simp: fixed_blksize_def filesystem_get_attr_def demo_env_def demo_drivers_def demo_ops_def driver_of_def
      split: option.splits)

lemma cache_demo_free: "x < 128 \<Longrightarrow> y < 128 \<Longrightarrow> x \<noteq> y \<Longrightarrow> free_ok (cache_demo x y) [x, y]"
  by (auto simp: free_ok_def fl.on_ring_def ring_def link_def cache_demo_def demo_buffer_def)

text \<open>A block is put into a cache in which its queue is empty.\<close>

lemma hold_block_wf:
  assumes wf: "cache_wf s fs" and i: "i < 128" "hn s i = None" and q: "hash_queues s (BUF_HASH d b) = None"
  shows "cache_wf (hold_block i d b s) fs"
    and "\<And>j e c. holds (hold_block i d b s) j e c \<longleftrightarrow> holds s j e c \<or> j = i \<and> e = d \<and> c = b"
proof -
  let ?t = "hold_block i d b s" and ?h = "BUF_HASH d b"
  from wf obtain Q where Q: "hash_ok s Q" "unique_blocks s" "free_ok s fs" by (auto simp: cache_wf_def)
  have "queue_at s ?h (Q ?h)" using Q(1) BUF_HASH_less by (simp add: hash_ok_def)
  with q have Qh: "Q ?h = []" by (simp add: queue_at_def)
  let ?Q = "Q(?h := [i])"
  have hold: "holds ?t j e c \<longleftrightarrow> holds s j e c \<or> j = i \<and> e = d \<and> c = b" for j e c
    using i by (auto simp: holds_def hold_block_def set_hash_def)
  then show "\<And>j e c. holds ?t j e c \<longleftrightarrow> holds s j e c \<or> j = i \<and> e = d \<and> c = b" .
  have "queue_at ?t k (?Q k)" if k: "k < NR_BUF_HASH" for k
  proof (cases "k = ?h")
    case True
    then show ?thesis using i by (simp add: queue_at_def hq.on_ring_def ring_single hold_block_def set_hash_def)
  next
    case False
    have iQ: "i \<notin> set (Q k)" using not_queued [OF Q(1) i(2) k] .
    have "hq.on_ring s (Q k) \<Longrightarrow> hq.on_ring ?t (Q k)"
      using iQ by (intro hq.on_ring_frame [of s "Q k" ?t]) (auto simp: hold_block_def set_hash_def)
    moreover have "queue_at s k (Q k)" using Q(1) k by (simp add: hash_ok_def)
    ultimately show ?thesis using False iQ
      by (auto simp: queue_at_def hold_block_def set_hash_def split: option.splits)
  qed
  moreover have "hn ?t j = None \<and> hp ?t j = None" if "j < NR_BUF_BUFFERS" "j \<notin> set (?Q (buf_hash j ?t))" for j
  proof (cases "j = i")
    case True
    with that show ?thesis by (simp add: hold_block_def set_hash_def)
  next
    case False
    with that Qh have "j \<notin> set (Q (buf_hash j s))" by (auto simp: hold_block_def set_hash_def split: if_splits)
    with that(1) Q(1) False show ?thesis by (simp add: hash_ok_def hold_block_def set_hash_def)
  qed
  ultimately have "hash_ok ?t ?Q" by (simp add: hash_ok_def)
  moreover have "\<not> holds s j d b" for j using holds_queue [OF Q(1), of j d b] Qh by simp
  then have "unique_blocks ?t" using Q(2) unfolding unique_blocks_def hold by blast
  moreover have "free_ok ?t fs" using free_ok_cong [of ?t s fs] Q(3) by (simp add: hold_block_def set_hash_def)
  moreover have "m_lock (b_mutex (buffers ?t j)) \<longleftrightarrow> j \<notin> set fs" if "j < NR_BUF_BUFFERS" for j
    using cache_wf_locked [OF wf that] by (auto simp: hold_block_def set_hash_def)
  ultimately show "cache_wf ?t fs" by (intro cache_wfI)
qed

lemma cache_demo_wf:
  assumes "x < 128" "y < 128" "x \<noteq> y"
  shows "cache_wf (cache_demo x y) [x, y]" and "\<not> holds (cache_demo x y) i d b"
proof -
  show h: "\<not> holds (cache_demo x y) i d b" for i d b by (auto simp: holds_def cache_demo_def demo_buffer_def)
  have "hash_ok (cache_demo x y) (\<lambda>_. [])"
    by (auto simp: hash_ok_def queue_at_def cache_demo_def demo_buffer_def)
  moreover have "unique_blocks (cache_demo x y)" using h by (simp add: unique_blocks_def)
  moreover have "m_lock (b_mutex (buffers (cache_demo x y) i)) \<longleftrightarrow> i \<notin> set [x, y]" if "i < 128" for i
    using that assms by (auto simp: cache_demo_def demo_buffer_def mutex_init_def)
  ultimately show "cache_wf (cache_demo x y) [x, y]" using cache_demo_free [OF assms] by (intro cache_wfI)
qed

text \<open>Buffer 0 holds block 7 and comes last, or first, on the free list.\<close>

definition demo_hit :: buf_state where "demo_hit = hold_block 0 0x301 7 (cache_demo 1 0)"
definition demo_recycle :: buf_state where
  "demo_recycle = hold_block 2 0x301 8 (hold_block 0 0x301 7 (cache_demo 0 1))"

lemma demo_no_queue: "hash_queues (cache_demo x y) h = None" "hn (cache_demo x y) i = None"
  by (simp_all add: cache_demo_def demo_buffer_def)

lemma demo_hit_wf: "cache_wf demo_hit [1, 0]" "holds demo_hit j e c \<longleftrightarrow> j = 0 \<and> e = 0x301 \<and> c = 7"
  using hold_block_wf [OF cache_demo_wf(1), of 1 0 0 "0x301" 7] cache_demo_wf(2) [of 1 0] demo_no_queue
  by (simp_all add: demo_hit_def)

lemma demo_recycle_wf: "cache_wf demo_recycle [0, 1]"
  "holds demo_recycle j e c \<longleftrightarrow> j = 0 \<and> e = 0x301 \<and> c = 7 \<or> j = 2 \<and> e = 0x301 \<and> c = 8"
proof -
  let ?s = "hold_block 0 0x301 7 (cache_demo 0 1)"
  have 1: "cache_wf ?s [0, 1]" "holds ?s j e c \<longleftrightarrow> j = 0 \<and> e = 0x301 \<and> c = 7" for j e c
    using hold_block_wf [OF cache_demo_wf(1), of 0 1 0 "0x301" 7] cache_demo_wf(2) [of 0 1] demo_no_queue by simp_all
  have 2: "hn ?s 2 = None" by (simp add: hold_block_def set_hash_def demo_no_queue)
  have 3: "hash_queues ?s (BUF_HASH 0x301 8) = None"
    by (simp add: hold_block_def set_hash_def demo_no_queue BUF_HASH_def)
  show "cache_wf demo_recycle [0, 1]"
    "holds demo_recycle j e c \<longleftrightarrow> j = 0 \<and> e = 0x301 \<and> c = 7 \<or> j = 2 \<and> e = 0x301 \<and> c = 8"
    using hold_block_wf [OF 1(1) _ 2 3] 1(2) by (simp_all add: demo_recycle_def)
qed

lemma demo_buffers:
  "b_mutex (buffers demo_hit 0) = mutex_init" "b_flags (buffers demo_hit 1) = 0" "b_blksize (buffers demo_hit 1) = 0"
  "b_next (buffers demo_hit 1) = None" "m_lock (b_mutex (buffers demo_hit 2))" "b_flags (buffers demo_hit 2) = 0"
  "b_next (buffers demo_recycle 0) = Some 0" "b_prev (buffers demo_recycle 0) = Some 0"
  "b_flags (buffers demo_recycle 0) = 0" "b_blksize (buffers demo_recycle 0) = 0"
  by (simp_all add: demo_hit_def demo_recycle_def hold_block_def set_hash_def cache_demo_def demo_buffer_def)

theorem in_hash_queue_exact_witness: "in_hash_queue 0x301 7 demo_hit = Ret (Some 0)"
  using in_hash_queue_exact [OF demo_hit_wf(1), of "0x301" 7] by (simp add: demo_hit_wf(2))

theorem getblk_hit_witness:
  "\<exists>t. getblk (Suc 0) demo_env 0x301 7 demo_hit = Ret (Got 0 t) \<and> cache_wf t (remove1 0 [1, 0])"
proof -
  have "\<not> mutex_locked (b_mutex (buffers demo_hit 0)) demo_hit" by (simp add: mutex_locked_def demo_buffers mutex_init_def)
  with getblk_hit [OF demo_hit_wf(1), of 0 "0x301" 7 0 demo_env] show ?thesis by (auto simp: demo_hit_wf(2))
qed


theorem brelse_releases_witness:
  "\<exists>t. brelse demo_env 2 demo_hit = Ret t \<and> cache_wf t [1, 0, 2]"
  using brelse_releases [OF demo_hit_wf(1) demo_sched(2) [of 0 "0x301" 7 1 0, folded demo_hit_def], of 2 demo_env]
  by (auto simp: demo_buffers)

theorem getblk_recycling_loses_blocks_witness:
  "in_hash_queue 0x301 8 demo_recycle = Ret (Some 2) \<and>
    (\<exists>t. getblk (Suc 0) demo_env 0x302 11 demo_recycle = Ret (Got 0 t) \<and> holds t 2 0x301 8 \<and> in_hash_queue 0x301 8 t = Ret None)"
  using getblk_recycling_loses_blocks [OF demo_recycle_wf(1), of "0x302" 11 demo_env 2 "0x301" 8 0]
    demo_size [of demo_recycle "0x302"]
  by (simp add: demo_recycle_wf(2) demo_buffers BUF_HASH_def del: getblk.simps)

theorem first_release_faults_witness:
  "\<exists>t u. buffer_init demo_env (cache_demo 1 0) = Ret t \<and> remove_from_free_list 0 t = Ret u \<and>
    brelse demo_env 0 (upd_buf 0 (\<lambda>b. b\<lparr>b_mutex := \<lparr>m_lock = True, m_owner = Some 1\<rparr>\<rparr>) u) =
      Stop (Fault ''outside the buffer cache'')"
proof -
  have "\<exists>t. buffer_init demo_env (cache_demo 1 0) = Ret t"
    by (simp add: buffer_init_def heap_alloc_def demo_env_def cache_demo_def kv_demo_def kvmalloc_init_def upd_hdr_def
        kv_take_def Let_def)
  with first_release_faults [of demo_env "cache_demo 1 0" _ 1] show ?thesis by blast
qed

end
