(* ===== verification/Virtual_MM.thy ===== *)
theory Virtual_MM
  imports Page_Alloc Sched
begin

text \<open>
  Paging, \<^verbatim>\<open>sys/arch/i386/virtual_mm.c\<close> and \<^verbatim>\<open>paging.h\<close>. A page frame is 1024 words, found by its physical
  address. The kernel reaches a frame through one temporary mapping, the last entry of
  \<^verbatim>\<open>init_page_table\<close> at the virtual address 0xC03FF000: \<open>window\<close> is the frame it maps, and reading and
  writing there goes to that frame. The translation caches are flushed after every change of the
  mapping, so that a flush is no step of the model. The process that pages fault in, its image and
  its identity are arguments; the control registers are fields.
\<close>

section \<open>Data\<close>

abbreviation (input) PAGE_PRESENT :: u32 where "PAGE_PRESENT \<equiv> 1"
abbreviation (input) PAGE_WRITABLE :: u32 where "PAGE_WRITABLE \<equiv> 2"
abbreviation (input) PAGE_USER :: u32 where "PAGE_USER \<equiv> 4"
abbreviation (input) PF_PROTECTION :: u32 where "PF_PROTECTION \<equiv> 1"
abbreviation (input) PF_WRITE :: u32 where "PF_WRITE \<equiv> 2"
abbreviation (input) VIRT_ADDR_PG_TAB_MASK :: u32 where "VIRT_ADDR_PG_TAB_MASK \<equiv> 0x3FF"
abbreviation (input) VIRT_ADDR_FRAME_MASK :: u32 where "VIRT_ADDR_FRAME_MASK \<equiv> 0xFFF"
abbreviation (input) KERNEL_VIRT_BASE :: u32 where "KERNEL_VIRT_BASE \<equiv> 0xC0000000"
abbreviation (input) USER_STACK_SIZE :: u32 where "USER_STACK_SIZE \<equiv> 0x200000"

text \<open>\<^verbatim>\<open>VIRT_ADDR_TMP_PAGE\<close> is 0xC03FF000; this is its index in \<^verbatim>\<open>init_page_table\<close>.\<close>

abbreviation (input) TMP_PAGE_INDEX :: nat where "TMP_PAGE_INDEX \<equiv> 1023"

definition VIRT_ADDR_PG_DIR_INDEX :: "u32 \<Rightarrow> nat" where
  "VIRT_ADDR_PG_DIR_INDEX x = unat (drop_bit 22 x)"

definition VIRT_ADDR_PG_TAB_INDEX :: "u32 \<Rightarrow> nat" where
  "VIRT_ADDR_PG_TAB_INDEX x = unat (drop_bit 12 x AND VIRT_ADDR_PG_TAB_MASK)"

definition frame_of :: "u32 \<Rightarrow> u32" where
  "frame_of e = e AND 0xFFFFF000"

datatype pg_table_ptr = NullTable | InitTable | TmpWindow

record vm_state = page_state +
  frame_words :: "u32 \<Rightarrow> nat \<Rightarrow> u32"
  init_page_table :: "nat \<Rightarrow> u32"
  init_page_directory :: "nat \<Rightarrow> u32"
  current_pg_table :: pg_table_ptr
  virt_map_entry :: nat
  cr3 :: u32
  next_cr3 :: u32

section \<open>The temporary mapping\<close>

definition tmp_map_page :: "u32 \<Rightarrow> 'a vm_state_scheme \<Rightarrow> 'a vm_state_scheme" where
  "tmp_map_page page s =
     s\<lparr>init_page_table := (init_page_table s)(TMP_PAGE_INDEX := page OR PAGE_PRESENT OR PAGE_WRITABLE)\<rparr>"

definition get_tmp_page :: "'a vm_state_scheme \<Rightarrow> u32" where
  "get_tmp_page s = init_page_table s TMP_PAGE_INDEX AND NOT VIRT_ADDR_FRAME_MASK"

abbreviation window :: "'a vm_state_scheme \<Rightarrow> u32" where
  "window s \<equiv> frame_of (init_page_table s TMP_PAGE_INDEX)"

definition win_read :: "nat \<Rightarrow> 'a vm_state_scheme \<Rightarrow> u32 kres" where
  "win_read i s = (if i < 1024 then Ret (frame_words s (window s) i) else Stop (Fault ''VIRT_ADDR_TMP_PAGE''))"

definition win_write :: "nat \<Rightarrow> u32 \<Rightarrow> 'a vm_state_scheme \<Rightarrow> 'a vm_state_scheme kres" where
  "win_write i v s =
     (if i < 1024
      then Ret (s\<lparr>frame_words := (frame_words s)(window s := (frame_words s (window s))(i := v))\<rparr>)
      else Stop (Fault ''VIRT_ADDR_TMP_PAGE''))"

text \<open>Copying a whole page into the window: from a kernel array, from a buffer, or zeroes.\<close>

definition win_fill :: "(nat \<Rightarrow> u32) \<Rightarrow> 'a vm_state_scheme \<Rightarrow> 'a vm_state_scheme" where
  "win_fill w s = s\<lparr>frame_words := (frame_words s)(window s := \<lambda>i. if i < 1024 then w i else frame_words s (window s) i)\<rparr>"

section \<open>Kernel mappings\<close>

text \<open>The first entry of the current table that is not present, if there is one.\<close>

definition pg_table_entry :: "'a vm_state_scheme \<Rightarrow> nat \<Rightarrow> u32" where
  "pg_table_entry s i = (if current_pg_table s = TmpWindow then frame_words s (window s) i else init_page_table s i)"

definition set_pg_table_entry :: "nat \<Rightarrow> u32 \<Rightarrow> 'a vm_state_scheme \<Rightarrow> 'a vm_state_scheme" where
  "set_pg_table_entry i v s =
     (if current_pg_table s = TmpWindow
      then s\<lparr>frame_words := (frame_words s)(window s := (frame_words s (window s))(i := v))\<rparr>
      else s\<lparr>init_page_table := (init_page_table s)(i := v)\<rparr>)"

definition kernel_virt_map_page :: "u32 \<Rightarrow> 'a vm_state_scheme \<Rightarrow> (u32 \<times> 'a vm_state_scheme) kres" where
  "kernel_virt_map_page page s =
     (let s = (if current_pg_table s = NullTable then s\<lparr>current_pg_table := InitTable\<rparr> else s)
      in bindk (case find_index (\<lambda>i. pg_table_entry s i AND PAGE_PRESENT = 0) 1024 of
           Some i \<Rightarrow> Ret (i, s)
         | None \<Rightarrow>
             bindk (page_frame_alloc s) (\<lambda>(p, s).
             if p = NO_FREE_PAGE then Stop (Panic ''Out of physical memory'')
             else
               let s = tmp_map_page p s
               in case find_index (\<lambda>k. init_page_directory s (768 + k) AND PAGE_PRESENT = 0) 255 of
                    None \<Rightarrow> Stop (Panic ''Out of space in kernel page directory'')
                  | Some k \<Rightarrow>
                      Ret (0, s\<lparr>init_page_directory :=
                                  (init_page_directory s)(768 + k := p OR PAGE_PRESENT OR PAGE_WRITABLE),
                                current_pg_table := TmpWindow\<rparr>))) (\<lambda>(i, s).
         Ret (KERNEL_VIRT_BASE OR push_bit 12 (of_nat i), set_pg_table_entry i (page OR PAGE_WRITABLE OR PAGE_PRESENT) s)))"

definition kernel_virt_put_page :: "'a vm_state_scheme \<Rightarrow> (u32 \<times> 'a vm_state_scheme) kres" where
  "kernel_virt_put_page s = bindk (page_frame_alloc s) (\<lambda>(p, s). kernel_virt_map_page p s)"

text \<open>The loop that looks for the next free directory entry runs down from 1023 and stops before 0.\<close>

definition virt_map_phys :: "u32 \<Rightarrow> 'a vm_state_scheme \<Rightarrow> (u32 \<times> 'a vm_state_scheme) kres" where
  "virt_map_phys phys s =
     (let old = get_tmp_page s
      in bindk (page_frame_alloc s) (\<lambda>(pg_table, s).
         if pg_table = NO_FREE_PAGE then Ret (0, s)
         else
           let s = tmp_map_page pg_table s;
               s = win_fill (\<lambda>i. (phys + of_nat i * PAGE_SIZE) OR PAGE_PRESENT OR PAGE_WRITABLE) s;
               s = tmp_map_page old s;
               e = virt_map_entry s;
               s = s\<lparr>init_page_directory := (init_page_directory s)(e := pg_table OR PAGE_PRESENT OR PAGE_WRITABLE)\<rparr>
           in Ret (push_bit 22 (of_nat e),
                (case List.find (\<lambda>i. init_page_directory s i AND PAGE_PRESENT = 0) (rev [1..<1024]) of
                   Some i \<Rightarrow> s\<lparr>virt_map_entry := i\<rparr>
                 | None \<Rightarrow> s))))"

definition virt_unmap_virt :: "u32 \<Rightarrow> 'a vm_state_scheme \<Rightarrow> 'a vm_state_scheme kres" where
  "virt_unmap_virt virt s =
     (let entry = VIRT_ADDR_PG_DIR_INDEX virt
      in bindk (page_frame_free (frame_of (init_page_directory s entry)) s) (\<lambda>s.
         let s = s\<lparr>init_page_directory := (init_page_directory s)(entry := 0)\<rparr>
         in Ret (if entry > virt_map_entry s then s\<lparr>virt_map_entry := entry\<rparr> else s)))"

section \<open>Mapping a chunk\<close>

text \<open>
  The inner loop runs over the rest of one page table, \<open>ks\<close>, until the address passes \<open>start + size\<close>. It
  gives back whether it ran out of frames, the next address and the next physical address.
\<close>

fun map_pages :: "u32 \<Rightarrow> u32 \<Rightarrow> nat list \<Rightarrow> u32 \<Rightarrow> u32 \<Rightarrow> 'a vm_state_scheme \<Rightarrow>
    (bool \<times> u32 \<times> u32 \<times> 'a vm_state_scheme) kres" where
  "map_pages flags limit [] tmp phys s = Ret (True, tmp, phys, s)"
| "map_pages flags limit (k # ks) tmp phys s =
     (if tmp > limit then Ret (True, tmp, phys, s)
      else if phys = 0 then
        bindk (page_frame_alloc s) (\<lambda>(f, s).
        if f = NO_FREE_PAGE then Ret (False, tmp, phys, s)
        else bindk (win_write k (f OR PAGE_PRESENT OR flags) s) (map_pages flags limit ks (tmp + PAGE_SIZE) phys))
      else
        bindk (win_write k (phys OR PAGE_PRESENT OR flags) s)
          (map_pages flags limit ks (tmp + PAGE_SIZE) (phys + PAGE_SIZE)))"

text \<open>The page table for the directory entry, allocated and cleared when there is none.\<close>

definition chunk_table :: "u32 \<Rightarrow> u32 \<Rightarrow> 'a vm_state_scheme \<Rightarrow> (u32 \<times> 'a vm_state_scheme) kres" where
  "chunk_table old pg_table s =
     (if pg_table AND PAGE_PRESENT = 0 then
        bindk (page_frame_alloc s) (\<lambda>(p, s).
        if p = NO_FREE_PAGE then Ret (NO_FREE_PAGE, tmp_map_page old s)
        else Ret (p, win_fill (\<lambda>_. 0) (tmp_map_page p s)))
      else Ret (frame_of pg_table, tmp_map_page (frame_of pg_table) s))"

text \<open>The outer loop over the tables: the directory index is taken from the address and \<open>j\<close> is added to it.\<close>

fun map_tables :: "u32 \<Rightarrow> u32 \<Rightarrow> u32 \<Rightarrow> u32 \<Rightarrow> nat list \<Rightarrow> u32 \<Rightarrow> u32 \<Rightarrow> 'a vm_state_scheme \<Rightarrow>
    (u32 \<times> 'a vm_state_scheme) kres" where
  "map_tables pg_dir old flags limit [] tmp phys s = Ret (pg_dir, tmp_map_page old s)"
| "map_tables pg_dir old flags limit (j # js) tmp phys s =
     (let index = VIRT_ADDR_PG_DIR_INDEX tmp; s = tmp_map_page pg_dir s
      in bindk (win_read (index + j) s) (\<lambda>e.
         bindk (chunk_table old e s) (\<lambda>(pg_table, s).
         if pg_table = NO_FREE_PAGE then Ret (0, s)
         else
           bindk (map_pages flags limit [VIRT_ADDR_PG_TAB_INDEX tmp..<1024] tmp phys s) (\<lambda>(ok, tmp, phys, s).
           if \<not> ok then Ret (0, s)
           else
             bindk (win_write (index + j) (pg_table OR PAGE_PRESENT OR flags) (tmp_map_page pg_dir s))
               (map_tables pg_dir old flags limit js tmp phys)))))"

text \<open>A null \<^verbatim>\<open>page_dir\<close> asks for a new directory, a copy of the kernel's.\<close>

definition virt_map_chunk :: "u32 \<Rightarrow> u32 \<Rightarrow> u32 \<Rightarrow> u32 \<Rightarrow> u32 \<Rightarrow> 'a vm_state_scheme \<Rightarrow> (u32 \<times> 'a vm_state_scheme) kres" where
  "virt_map_chunk start sz page_dir flags phys s =
     (let old = get_tmp_page s
      in bindk (if page_dir = 0 then page_frame_alloc s else Ret (page_dir, s)) (\<lambda>(pg_dir, s).
         if page_dir = 0 \<and> pg_dir = NO_FREE_PAGE then Ret (0, tmp_map_page old s)
         else
           let s = tmp_map_page pg_dir s;
               s = (if page_dir = 0 then win_fill (init_page_directory s) s else s)
           in map_tables pg_dir old flags (start + sz) [0..<unat (sz div 0x400000) + 1] (frame_of start) phys s))"

section \<open>Copying address spaces\<close>

definition copy_page_table :: "u32 \<Rightarrow> u32 \<Rightarrow> 'a vm_state_scheme \<Rightarrow> 'a vm_state_scheme" where
  "copy_page_table to from s =
     (let old = get_tmp_page s;
          s = tmp_map_page from s;
          page = frame_words s (window s);
          s = tmp_map_page to s;
          s = win_fill page s
      in tmp_map_page old s)"

text \<open>One step of a loop through the window: entry \<open>i\<close> is read, changed and written.\<close>

definition cow_entry :: "bool \<Rightarrow> nat \<Rightarrow> 'a vm_state_scheme \<Rightarrow> 'a vm_state_scheme kres" where
  "cow_entry inc_ref i s =
     bindk (win_read i s) (\<lambda>e.
     if e AND PAGE_PRESENT \<noteq> 0 then
       bindk (win_write i (e AND NOT PAGE_WRITABLE) s) (\<lambda>s.
       Ret (if inc_ref then page_increase_count (frame_of (e AND NOT PAGE_WRITABLE)) s else s))
     else Ret s)"

definition pg_table_cow :: "u32 \<Rightarrow> bool \<Rightarrow> 'a vm_state_scheme \<Rightarrow> 'a vm_state_scheme kres" where
  "pg_table_cow pg_table inc_ref s =
     (let old = get_tmp_page s
      in bindk (foldk (cow_entry inc_ref) [0..<1024] (tmp_map_page (frame_of pg_table) s)) (\<lambda>s. Ret (tmp_map_page old s)))"

definition cow_child_entry :: "nat \<Rightarrow> 'a vm_state_scheme \<Rightarrow> 'a vm_state_scheme kres" where
  "cow_child_entry i s =
     bindk (win_read i s) (\<lambda>e.
     if e AND PAGE_PRESENT \<noteq> 0 \<and> e AND PAGE_USER \<noteq> 0 then
       bindk (pg_table_cow e False s) (\<lambda>s.
       bindk (win_read i s) (\<lambda>e. win_write i (e AND NOT PAGE_WRITABLE) s))
     else Ret s)"

definition cow_parent_entry :: "nat \<Rightarrow> 'a vm_state_scheme \<Rightarrow> 'a vm_state_scheme kres" where
  "cow_parent_entry i s =
     bindk (win_read i s) (\<lambda>e.
     if e AND PAGE_PRESENT \<noteq> 0 \<and> e AND PAGE_USER \<noteq> 0 then
       bindk (page_frame_alloc s) (\<lambda>(new, s).
       if new = NO_FREE_PAGE then Stop (Panic ''Out of memory'')
       else
         bindk (pg_table_cow new True (copy_page_table new (frame_of e) s)) (\<lambda>s.
         bindk (win_read i s) (\<lambda>e. win_write i ((new OR (e AND 0xFFF)) AND NOT PAGE_WRITABLE) s)))
     else Ret s)"

definition copy_address_space :: "int \<Rightarrow> u32 \<Rightarrow> u32 \<Rightarrow> 'a vm_state_scheme \<Rightarrow> 'a vm_state_scheme kres" where
  "copy_address_space pd from_page_dir to_page_dir s =
     (let old = get_tmp_page s;
          s = tmp_map_page from_page_dir s;
          page = frame_words s (window s);
          s = win_fill page (tmp_map_page to_page_dir s)
      in if pd = 0 then Ret (tmp_map_page old s)
         else
           bindk (foldk cow_child_entry [0..<1024] s) (\<lambda>s.
           bindk (foldk cow_parent_entry [0..<1024] (tmp_map_page from_page_dir s)) (\<lambda>s.
           Ret (tmp_map_page old s))))"

section \<open>Checking a user pointer\<close>

definition check_user_ptr_pages :: "u32 \<Rightarrow> 'a vm_state_scheme \<Rightarrow> u32 \<times> 'a vm_state_scheme" where
  "check_user_ptr_pages addr s =
     (let old = get_tmp_page s;
          s = tmp_map_page (cr3 s) s;
          pde = frame_words s (window s) (VIRT_ADDR_PG_DIR_INDEX addr)
      in if pde AND PAGE_PRESENT = 0 \<or> pde AND PAGE_USER = 0 then (0, tmp_map_page old s)
         else
           let s = tmp_map_page (frame_of pde) s;
               pte = frame_words s (window s) (VIRT_ADDR_PG_TAB_INDEX addr)
           in if pte AND PAGE_PRESENT = 0 \<or> pte AND PAGE_USER = 0 then (0, tmp_map_page old s)
              else (pte AND VIRT_ADDR_FRAME_MASK, tmp_map_page old s))"

section \<open>Freeing\<close>

definition free_entry :: "nat \<Rightarrow> 'a vm_state_scheme \<Rightarrow> 'a vm_state_scheme kres" where
  "free_entry i s =
     bindk (win_read i s) (\<lambda>e.
     if e AND PAGE_PRESENT \<noteq> 0 \<and> e AND PAGE_USER \<noteq> 0 then
       let s = page_decrease_count (frame_of e) s
       in if page_get_count (frame_of e) s = 0
          then bindk (win_write i (e AND NOT PAGE_PRESENT) s) (page_frame_free (frame_of e))
          else Ret s
     else Ret s)"

definition free_page_table :: "u32 \<Rightarrow> 'a vm_state_scheme \<Rightarrow> 'a vm_state_scheme kres" where
  "free_page_table pg_table s =
     (let old = get_tmp_page s
      in bindk (foldk free_entry [0..<1024] (tmp_map_page pg_table s)) (\<lambda>s. Ret (tmp_map_page old s)))"

definition free_table_entry :: "nat \<Rightarrow> 'a vm_state_scheme \<Rightarrow> 'a vm_state_scheme kres" where
  "free_table_entry i s =
     bindk (win_read i s) (\<lambda>e.
     if e AND PAGE_PRESENT \<noteq> 0 then
       bindk (free_page_table (frame_of e) s) (\<lambda>s.
       let s = page_decrease_count (frame_of e) s
       in if page_get_count (frame_of e) s = 0 then page_frame_free (frame_of e) s else Ret s)
     else Ret s)"

definition virt_free_chunk :: "u32 \<Rightarrow> u32 \<Rightarrow> u32 \<Rightarrow> 'a vm_state_scheme \<Rightarrow> 'a vm_state_scheme kres" where
  "virt_free_chunk start len pg_dir s =
     (if start \<ge> KERNEL_VIRT_BASE then Stop (Panic ''virt_free_chunck: trying to free kernel memory!'')
      else if pg_dir = 0 then Stop (Panic ''virt_free_chunk: pg_dir is NULL'')
      else
        let old = get_tmp_page s; d = VIRT_ADDR_PG_DIR_INDEX start
        in bindk (foldk free_table_entry [d..<d + unat (len div 0x400000) + 1] (tmp_map_page pg_dir s)) (\<lambda>s.
           Ret (tmp_map_page old s)))"

definition free_address_space :: "exec_image \<Rightarrow> 'a vm_state_scheme \<Rightarrow> 'a vm_state_scheme kres" where
  "free_address_space im s =
     bindk (if e_data_size im > 0 then virt_free_chunk (e_data_vaddr im) (e_data_size im) (cr3 s) s else Ret s) (\<lambda>s.
     bindk (if e_rodata_size im > 0 then virt_free_chunk (e_rodata_vaddr im) (e_rodata_size im) (cr3 s) s else Ret s) (\<lambda>s.
     if e_text_size im > 0 then virt_free_chunk (e_text_vaddr im) (e_text_size im) (cr3 s) s else Ret s))"

section \<open>A new image\<close>

text \<open>A segment is mapped when it has a size; the first one that cannot be mapped ends the routine.\<close>

definition alloc_segment :: "u32 \<Rightarrow> u32 \<Rightarrow> u32 \<Rightarrow> u32 \<Rightarrow> 'a vm_state_scheme \<Rightarrow> (bool \<times> 'a vm_state_scheme) kres" where
  "alloc_segment vaddr sz pg_dir flags s =
     (if sz > 0 then bindk (virt_map_chunk vaddr sz pg_dir flags 0 s) (\<lambda>(r, s). Ret (r \<noteq> 0, s)) else Ret (True, s))"

definition arch_valloc_segments :: "exec_image \<Rightarrow> 'a vm_state_scheme \<Rightarrow> (int \<times> 'a vm_state_scheme) kres" where
  "arch_valloc_segments im s =
     bindk (page_frame_alloc s) (\<lambda>(pg_dir, s).
     if pg_dir = NO_FREE_PAGE then Ret (-1, s)
     else
       let old = get_tmp_page s;
           s = tmp_map_page pg_dir s;
           s = win_fill (init_page_directory s) s
       in if e_text_vaddr im > KERNEL_VIRT_BASE then Ret (-1, s)
          else
            bindk (alloc_segment (e_text_vaddr im) (e_text_size im) pg_dir PAGE_USER s) (\<lambda>(ok, s).
            if \<not> ok \<or> e_data_vaddr im > KERNEL_VIRT_BASE then Ret (-1, s)
            else
              bindk (alloc_segment (e_data_vaddr im) (e_data_size im) pg_dir (PAGE_USER OR PAGE_WRITABLE) s) (\<lambda>(ok, s).
              if \<not> ok then Ret (-1, s)
              else
                bindk (alloc_segment (e_rodata_vaddr im) (e_rodata_size im) pg_dir PAGE_USER s) (\<lambda>(ok, s).
                if \<not> ok then Ret (-1, s)
                else
                  bindk (virt_map_chunk (KERNEL_VIRT_BASE - USER_STACK_SIZE) USER_STACK_SIZE pg_dir
                           (PAGE_USER OR PAGE_WRITABLE) 0 s) (\<lambda>(r, s).
                  if r = 0 then Ret (-1, s)
                  else Ret (0, tmp_map_page old (s\<lparr>next_cr3 := pg_dir\<rparr>)))))))"

section \<open>Page faults\<close>

text \<open>A fault is resolved, or kills the process with \<^verbatim>\<open>kernel_exit(SIGSEGV)\<close>, which does not return.\<close>

datatype 's fault_result = Resolved 's | Segfault 's

definition page_set_writable :: "u32 \<Rightarrow> 'a vm_state_scheme \<Rightarrow> 'a vm_state_scheme fault_result kres" where
  "page_set_writable addr s =
     (let old = get_tmp_page s;
          s = tmp_map_page (cr3 s) s;
          d = VIRT_ADDR_PG_DIR_INDEX addr; k = VIRT_ADDR_PG_TAB_INDEX addr
      in bindk (win_read d s) (\<lambda>pg_table.
         if pg_table AND PAGE_PRESENT = 0 then Ret (Segfault s)
         else
           bindk (win_write d (pg_table OR PAGE_WRITABLE) s) (\<lambda>s.
           let s = tmp_map_page (frame_of pg_table) s
           in bindk (win_read k s) (\<lambda>pg_frame.
              if pg_frame AND PAGE_PRESENT = 0 then Ret (Segfault s)
              else if page_get_count (frame_of pg_frame) s > 1 then
                bindk (page_frame_alloc s) (\<lambda>(new, s).
                if new = NO_FREE_PAGE then Stop (Panic ''Out of memory'')
                else
                  bindk (win_write k (new OR (pg_frame AND 0xFFF) OR PAGE_WRITABLE) s) (\<lambda>s.
                  let s = page_decrease_count (frame_of pg_frame) s;
                      s = tmp_map_page (frame_of pg_frame) s;
                      page = frame_words s (window s);
                      s = win_fill page (tmp_map_page new s)
                  in if page_get_count (frame_of pg_frame) s = 0 then Stop (Panic ''hlt'')
                     else Ret (Resolved (tmp_map_page old s))))
              else
                bindk (win_write k (pg_frame OR PAGE_WRITABLE) s) (\<lambda>s. Ret (Resolved (tmp_map_page old s)))))))"

definition in_segment :: "u32 \<Rightarrow> u32 \<Rightarrow> u32 \<Rightarrow> bool" where
  "in_segment addr vaddr sz \<longleftrightarrow> vaddr \<le> addr \<and> addr < vaddr + sz"

definition handle_page_fault :: "exec_image \<Rightarrow> u32 \<Rightarrow> u32 \<Rightarrow> 'a vm_state_scheme \<Rightarrow> 'a vm_state_scheme fault_result kres" where
  "handle_page_fault im error addr s =
     (if error AND PF_PROTECTION = 0 \<or> error AND PF_WRITE = 0 then Ret (Segfault s)
      else if in_segment addr (e_text_vaddr im) (e_text_size im) then Ret (Segfault s)
      else if e_rodata_size im > 0 \<and> in_segment addr (e_rodata_vaddr im) (e_rodata_size im) then Ret (Segfault s)
      else page_set_writable addr s)"

end
