(* ===== verification/Virtual_MM_Props.thy ===== *)
theory Virtual_MM_Props
  imports Virtual_MM Page_Alloc_Props
begin

text \<open>
  Paging without the temporary mapping. The walk of the page tables that the processor makes is
  \<open>walk_pde\<close> and \<open>walk_pte\<close>; the routines of \<^verbatim>\<open>virtual_mm.c\<close>, which move one window from frame to frame, are
  related to it. A routine leaves the window as it found it when the window's own entry is in the
  form that \<^verbatim>\<open>tmp_map_page\<close> writes, which is \<open>tmp_ok\<close>.
\<close>

section \<open>Frames and flags\<close>

lemma frame_of_flags: "frame_of (p OR 3) = frame_of p"
  by (simp add: frame_of_def bit.conj_disj_distrib2)

lemma frame_of_idem [simp]: "frame_of (frame_of p) = frame_of p"
  by (simp add: frame_of_def and.assoc)

lemma not_frame_mask: "(NOT 0xFFF :: u32) = 0xFFFFF000"
proof -
  have "(- 4096 :: u32) = 0xFFFFF000" by (subst neg_eq_iff_add_eq_0) simp
  then show ?thesis by simp
qed

lemma get_tmp_page_window: "get_tmp_page s = window s"
  by (simp only: get_tmp_page_def frame_of_def not_frame_mask)

lemma window_tmp_map [simp]: "window (tmp_map_page p s) = frame_of p"
  by (simp add: tmp_map_page_def frame_of_flags)

definition tmp_ok :: "'a vm_state_scheme \<Rightarrow> bool" where
  "tmp_ok s \<longleftrightarrow> init_page_table s 1023 = get_tmp_page s OR 1 OR 2"

lemma tmp_map_simps [simp]:
  "frame_words (tmp_map_page p s) = frame_words s"
  "reference_counts (tmp_map_page p s) = reference_counts s"
  "cr3 (tmp_map_page p s) = cr3 s"
  "tmp_map_page p (tmp_map_page q s) = tmp_map_page p s"
  "page_get_count f (tmp_map_page p s) = page_get_count f s"
  by (simp_all add: tmp_map_page_def page_get_count_def)

lemma tmp_map_restore: "tmp_ok s \<Longrightarrow> tmp_map_page (get_tmp_page s) s = s"
  by (cases s) (simp add: tmp_ok_def tmp_map_page_def fun_upd_idem)

lemma dir_index_less: "VIRT_ADDR_PG_DIR_INDEX a < 1024"
proof -
  have "unat (drop_bit 22 a) = unat a div 2 ^ 22" by (simp add: drop_bit_eq_div unat_div)
  also have "\<dots> < 1024" using unat_lt_2p32 [of a] by (simp add: div_less_iff_less_mult)
  finally show ?thesis by (simp add: VIRT_ADDR_PG_DIR_INDEX_def)
qed

lemma tab_index_less: "VIRT_ADDR_PG_TAB_INDEX a < 1024"
proof -
  have "drop_bit 12 a AND 0x3FF \<le> (0x3FF :: u32)" by (rule word_and_le1)
  then have "unat (drop_bit 12 a AND 0x3FF) \<le> unat (0x3FF :: u32)" by (simp only: word_le_nat_alt)
  then show ?thesis by (simp add: VIRT_ADDR_PG_TAB_INDEX_def)
qed

section \<open>The walk of the page tables\<close>

definition walk_pde :: "'a vm_state_scheme \<Rightarrow> u32 \<Rightarrow> u32" where
  "walk_pde s a = frame_words s (frame_of (cr3 s)) (VIRT_ADDR_PG_DIR_INDEX a)"

definition walk_pte :: "'a vm_state_scheme \<Rightarrow> u32 \<Rightarrow> u32" where
  "walk_pte s a = frame_words s (frame_of (walk_pde s a)) (VIRT_ADDR_PG_TAB_INDEX a)"

definition user_page :: "u32 \<Rightarrow> bool" where
  "user_page e \<longleftrightarrow> e AND 1 \<noteq> 0 \<and> e AND 4 \<noteq> 0"

lemma present_low_bits: "e AND 1 \<noteq> (0 :: u32) \<Longrightarrow> e AND 0xFFF \<noteq> 0"
proof
  assume "e AND 1 \<noteq> 0" and z: "e AND 0xFFF = (0 :: u32)"
  have "e AND 1 = (e AND 0xFFF) AND 1" by (simp add: and.assoc)
  with z show False using \<open>e AND 1 \<noteq> 0\<close> by simp
qed

text \<open>
  \<^verbatim>\<open>check_user_ptr\<close> accepts an address exactly when the processor's walk of the current page tables
  finds a present user page directory entry and a present user page, and it leaves the whole state,
  its temporary mapping included, as it was.
\<close>

theorem check_user_ptr_walks_tables:
  assumes "tmp_ok s"
  shows "\<exists>r. check_user_ptr_pages addr s = (r, s) \<and>
    (r \<noteq> 0 \<longleftrightarrow> user_page (walk_pde s addr) \<and> user_page (walk_pte s addr))"
  using assms present_low_bits [of "walk_pte s addr"] tmp_map_restore [OF assms]
  by (auto simp: check_user_ptr_pages_def Let_def user_page_def walk_pde_def walk_pte_def)

section \<open>Writing through the window\<close>

lemma win_read_eq: "i < 1024 \<Longrightarrow> win_read i s = Ret (frame_words s (window s) i)"
  by (simp add: win_read_def)

lemma win_write_eq:
  "i < 1024 \<Longrightarrow> win_write i v s =
     Ret (s\<lparr>frame_words := (frame_words s)(window s := (frame_words s (window s))(i := v))\<rparr>)"
  by (simp add: win_write_def)

lemma win_fill_simps:
  "frame_words (win_fill w s) = (frame_words s)(window s := \<lambda>i. if i < 1024 then w i else frame_words s (window s) i)"
  "reference_counts (win_fill w s) = reference_counts s" "cr3 (win_fill w s) = cr3 s"
  by (simp_all add: win_fill_def)

lemma page_decrease_count_simps:
  "frame_words (page_decrease_count f s) = frame_words s" "cr3 (page_decrease_count f s) = cr3 s"
  "reference_counts (page_decrease_count f s) = (reference_counts s)(f div 4096 := reference_counts s (f div 4096) - 1)"
  by (simp_all add: page_decrease_count_def)

lemma filled_copy:
  "frame_of new = new \<Longrightarrow>
   frame_words (tmp_map_page q (win_fill w (tmp_map_page new (page_decrease_count old (s\<lparr>frame_words := v\<rparr>))))) =
     v(new := \<lambda>i. if i < 1024 then w i else v new i)"
  by (simp add: win_fill_simps page_decrease_count_simps cong: if_cong)

lemma frame_of_or_2: "frame_of (e OR 2) = frame_of e"
  by (simp add: frame_of_def bit.conj_disj_distrib2)

lemma tmp_ok_restored: "tmp_ok (tmp_map_page (get_tmp_page s) t)"
  by (simp add: tmp_ok_def get_tmp_page_window) (simp add: tmp_map_page_def)

section \<open>Copy on write: sharing a table\<close>

definition cow_words :: "nat \<Rightarrow> (nat \<Rightarrow> u32) \<Rightarrow> nat \<Rightarrow> u32" where
  "cow_words n w = (\<lambda>i. if i < n \<and> w i AND 1 \<noteq> 0 then w i AND NOT 2 else w i)"

definition mapped_count :: "nat \<Rightarrow> (nat \<Rightarrow> u32) \<Rightarrow> u32 \<Rightarrow> nat" where
  "mapped_count n w f = card {i. i < n \<and> w i AND 1 \<noteq> 0 \<and> frame_of (w i) div 4096 = f}"

lemma frame_of_not_writable: "frame_of (e AND NOT 2) = frame_of e"
proof -
  have "NOT 2 AND 0xFFFFF000 = (0xFFFFF000 :: u32)" by simp
  then show ?thesis by (simp add: frame_of_def and.assoc)
qed

lemma mapped_count_Suc:
  "mapped_count (Suc n) w f = mapped_count n w f + (if w n AND 1 \<noteq> 0 \<and> frame_of (w n) div 4096 = f then 1 else 0)"
proof -
  let ?A = "\<lambda>n. {i. i < n \<and> w i AND 1 \<noteq> 0 \<and> frame_of (w i) div 4096 = f}"
  have "?A (Suc n) = (if w n AND 1 \<noteq> 0 \<and> frame_of (w n) div 4096 = f then insert n (?A n) else ?A n)"
    by (auto simp: less_Suc_eq)
  then show ?thesis by (simp add: mapped_count_def)
qed

lemma cow_entry_step:
  assumes "n < 1024" and e: "frame_words s (window s) n = e"
  shows "\<exists>t. cow_entry inc n s = Ret t \<and> init_page_table t = init_page_table s \<and>
    frame_words t = (if e AND 1 \<noteq> 0 then (frame_words s)(window s := (frame_words s (window s))(n := e AND NOT 2))
      else frame_words s) \<and>
    reference_counts t = (if inc \<and> e AND 1 \<noteq> 0 then
      (reference_counts s)(frame_of e div 4096 := reference_counts s (frame_of e div 4096) + 1) else reference_counts s)"
  using assms frame_of_not_writable [of e]
  by (simp add: cow_entry_def win_read_eq win_write_eq page_increase_count_def)

lemma cow_loop:
  assumes "n \<le> 1024"
  shows "\<exists>t. foldk (cow_entry inc) [0..<n] s = Ret t \<and> init_page_table t = init_page_table s \<and>
    frame_words t = (frame_words s)(window s := cow_words n (frame_words s (window s))) \<and>
    (\<forall>f. reference_counts t f = reference_counts s f +
      (if inc then of_nat (mapped_count n (frame_words s (window s)) f) else 0))"
  using assms
proof (induction n)
  case 0
  then show ?case by (simp add: cow_words_def mapped_count_def fun_upd_idem)
next
  case (Suc n)
  let ?w = "frame_words s (window s)"
  from Suc.prems have n: "n \<le> 1024" "n < 1024" by simp_all
  from Suc.IH [OF n(1)] obtain u where u: "foldk (cow_entry inc) [0..<n] s = Ret u" "init_page_table u = init_page_table s"
    "frame_words u = (frame_words s)(window s := cow_words n ?w)"
    "\<And>f. reference_counts u f = reference_counts s f + (if inc then of_nat (mapped_count n ?w f) else 0)" by blast
  have here: "frame_words u (window u) n = ?w n" using u by (simp add: cow_words_def)
  from cow_entry_step [OF n(2) here, of inc] obtain t where
    t: "cow_entry inc n u = Ret t" "init_page_table t = init_page_table u"
    "frame_words t = (if ?w n AND 1 \<noteq> 0 then (frame_words u)(window u := (frame_words u (window u))(n := ?w n AND NOT 2))
      else frame_words u)"
    "reference_counts t = (if inc \<and> ?w n AND 1 \<noteq> 0 then
      (reference_counts u)(frame_of (?w n) div 4096 := reference_counts u (frame_of (?w n) div 4096) + 1)
      else reference_counts u)" by blast
  have "frame_words t = (frame_words s)(window s := cow_words (Suc n) ?w)"
    unfolding t(3) u(3) u(2) by (auto simp: cow_words_def fun_eq_iff less_Suc_eq)
  moreover have "reference_counts t f = reference_counts s f + (if inc then of_nat (mapped_count (Suc n) ?w f) else 0)" for f
    unfolding t(4) by (simp add: u(4) mapped_count_Suc)
  moreover have "foldk (cow_entry inc) [0..<Suc n] s = Ret t" using u(1) t(1) by (simp add: foldk_append)
  moreover have "init_page_table t = init_page_table s" using t(2) u(2) by simp
  ultimately show ?case by blast
qed

text \<open>
  C30. Sharing a page table write-protects it completely: after \<^verbatim>\<open>pg_table_cow\<close> every present entry has lost
  its write permission and nothing else of any frame has changed; when references are to be
  counted, every frame has gained one reference for each present entry that maps it, and when not,
  none. The routine always returns, with the temporary mapping where it was.
\<close>

theorem pg_table_cow_shares:
  assumes "tmp_ok s"
  shows "\<exists>t. pg_table_cow pg inc s = Ret t \<and>
    frame_words t = (frame_words s)(frame_of pg := \<lambda>i. if i < 1024 \<and> frame_words s (frame_of pg) i AND 1 \<noteq> 0
      then frame_words s (frame_of pg) i AND NOT 2 else frame_words s (frame_of pg) i) \<and>
    (\<forall>f. reference_counts t f = reference_counts s f +
      (if inc then of_nat (card {i. i < 1024 \<and> frame_words s (frame_of pg) i AND 1 \<noteq> 0 \<and>
         frame_of (frame_words s (frame_of pg) i) div 4096 = f}) else 0)) \<and>
    init_page_table t = init_page_table s"
proof -
  from cow_loop [of 1024 inc "tmp_map_page (frame_of pg) s"] obtain u where
    u: "foldk (cow_entry inc) [0..<1024] (tmp_map_page (frame_of pg) s) = Ret u"
    "init_page_table u = init_page_table (tmp_map_page (frame_of pg) s)"
    "frame_words u = (frame_words s)(frame_of pg := cow_words 1024 (frame_words s (frame_of pg)))"
    "\<And>f. reference_counts u f = reference_counts s f + (if inc then of_nat (mapped_count 1024 (frame_words s (frame_of pg)) f) else 0)"
    by auto
  have "init_page_table (tmp_map_page (get_tmp_page s) u) = init_page_table (tmp_map_page (get_tmp_page s) s)"
    using u(2) by (simp add: tmp_map_page_def)
  also have "\<dots> = init_page_table s" by (simp add: tmp_map_restore assms)
  finally show ?thesis using u(1,3,4)
    by (simp add: pg_table_cow_def Let_def cow_words_def mapped_count_def)
qed

section \<open>Copy on write: the private copy\<close>

text \<open>The frame allocator sees and changes only its own part of the state.\<close>

lemma find_bitmap_cong:
  assumes "mmap u = mmap s" "mmap_bitmaps u = mmap_bitmaps s" "\<And>b e. P b e u = P' b e s"
  shows "find_bitmap P bs u = find_bitmap P' bs s"
  using assms by (induction bs) (auto split: option.splits)

lemma scan_bitmap_cong:
  assumes "mmap_bitmaps u = mmap_bitmaps s" "phys_mem u = phys_mem s" "scan_bitmap b s = Ret s'"
  shows "\<exists>u'. scan_bitmap b u = Ret u' \<and> page_state.more u' = page_state.more u \<and>
    reference_counts u' = reference_counts u \<and> reference_counts s' = reference_counts s"
  using assms by (auto simp: scan_bitmap_def Let_def upd_bitmap_def split: option.splits)

lemma page_frame_alloc_cong:
  assumes f: "mmap u = mmap s" "mmap_bitmaps u = mmap_bitmaps s" "phys_mem u = phys_mem s"
    "reference_counts u = reference_counts s"
    and s': "page_frame_alloc s = Ret (new, s')"
  shows "\<exists>u'. page_frame_alloc u = Ret (new, u') \<and> page_state.more u' = page_state.more u \<and>
    reference_counts u' = reference_counts s'"
proof -
  from s' obtain b e where be: "find_bitmap (\<lambda>b e s. mb_free_pages (mmap_bitmaps s b) \<noteq> 0) [0..<16] s = Ret (b, e)"
    by (auto simp: page_frame_alloc_def bindk_eq_Ret_iff)
  have bu: "find_bitmap (\<lambda>b e s. mb_free_pages (mmap_bitmaps s b) \<noteq> 0) [0..<16] u = Ret (b, e)"
    by (subst find_bitmap_cong [OF f(1,2), where P' = "\<lambda>b e s. mb_free_pages (mmap_bitmaps s b) \<noteq> 0"])
      (simp_all add: f(2) be)
  let ?v = "\<lambda>s. upd_bitmap b (\<lambda>m. m\<lparr>mb_free_pages := mb_free_pages m - 1\<rparr>)
    (set_bit (mb_base (mmap_bitmaps s b)) (mb_next_free (mmap_bitmaps s b)) s)"
  have v: "mmap_bitmaps (?v u) = mmap_bitmaps (?v s)" "phys_mem (?v u) = phys_mem (?v s)"
    "reference_counts (?v u) = reference_counts (?v s)" "page_state.more (?v u) = page_state.more u"
    using f by (simp_all add: upd_bitmap_def set_bit_def Let_def)
  show ?thesis
  proof (cases "mb_free_pages (mmap_bitmaps s b) = 0")
    case True
    with s' be bu f show ?thesis by (auto simp: page_frame_alloc_def Let_def split: if_splits)
  next
    case False
    note def = page_frame_alloc_def Let_def
    show ?thesis
    proof (cases "mb_free_pages (mmap_bitmaps (?v s) b) = 0")
      case True
      with False s' be bu f v show ?thesis by (auto simp: def) (simp add: upd_bitmap_def)+
    next
      case nz: False
      from s' False nz be obtain w where w: "scan_bitmap b (?v s) = Ret w"
        "s' = w\<lparr>reference_counts := (reference_counts w)(new div 4096 := 1)\<rparr>"
        "new = mb_next_free (mmap_bitmaps s b) * 4096 + me_base (mmap s e)"
        by (auto simp: def bindk_eq_Ret_iff)
      from scan_bitmap_cong [OF v(1,2) w(1)] obtain x where
        x: "scan_bitmap b (?v u) = Ret x" "page_state.more x = page_state.more (?v u)"
        "reference_counts x = reference_counts (?v u)" "reference_counts w = reference_counts (?v s)" by blast
      have "page_frame_alloc u = Ret (new, x\<lparr>reference_counts := (reference_counts x)(new div 4096 := 1)\<rparr>)"
        using bu False nz f v(1) x(1) w(3) by (simp add: def)
      with x v w show ?thesis by simp
    qed
  qed
qed


lemma scan_bitmap_counts: "scan_bitmap b s = Ret t \<Longrightarrow> reference_counts t = reference_counts s"
  by (auto simp: scan_bitmap_def Let_def upd_bitmap_def split: option.splits)

lemma page_frame_alloc_counts:
  assumes "page_frame_alloc s = Ret (new, s')"
  shows "new = 1 \<or> reference_counts s' = (reference_counts s)(new div 4096 := 1)"
  using assms
  by (auto simp: page_frame_alloc_def Let_def bindk_eq_Ret_iff set_bit_def upd_bitmap_def
      dest!: scan_bitmap_counts split: if_splits)

lemma frame_of_new_pte: "frame_of new = new \<Longrightarrow> frame_of (new OR (e AND 0xFFF) OR 2) = new"
proof -
  have "(e AND 0xFFF) AND 0xFFFFF000 = (0 :: u32)" by (simp add: and.assoc)
  then show "frame_of new = new \<Longrightarrow> frame_of (new OR (e AND 0xFFF) OR 2) = new"
    by (simp add: frame_of_def bit.conj_disj_distrib2)
qed

lemma frame_number_inject:
  assumes "frame_of a = a" "frame_of b = b" "a div 4096 = b div (4096 :: u32)"
  shows "a = b"
proof -
  have "x = (x div 4096) * 4096" if "frame_of x = x" for x
  proof -
    have "x AND 0xFFF = (x AND 0xFFFFF000) AND 0xFFF" using that by (simp add: frame_of_def)
    also have "\<dots> = 0" by (simp add: and.assoc)
    finally have "x AND 0xFFF = 0" .
    moreover have "take_bit 12 x = x mod 4096" by (simp add: take_bit_eq_mod)
    moreover have "take_bit 12 x = x AND 0xFFF" by (simp add: take_bit_eq_mask mask_eq_exp_minus_1)
    ultimately have "x mod 4096 = 0" by simp
    then show ?thesis by (metis add.right_neutral div_mult_mod_eq)
  qed
  with assms show ?thesis by metis
qed

text \<open>
  C29. A write fault on a shared page gives the process its own copy. When the faulting address is mapped
  and its frame has more than one reference, \<^verbatim>\<open>page_set_writable\<close> maps a new frame there, writable,
  with the contents of the shared frame; the shared frame keeps its contents and loses one
  reference, and apart from the two table entries no word of any other frame changes. The new frame
  has to be different from the directory, the table and the shared frame, and these from each other.
\<close>

theorem page_set_writable_copies:
  assumes tok: "tmp_ok s" and dir: "dir = frame_of (cr3 s)" and pde: "pde = walk_pde s addr" "pde AND 1 \<noteq> 0"
    and tab: "tab = frame_of pde" and pte: "pte = walk_pte s addr" "pte AND 1 \<noteq> 0"
    and old: "old = frame_of pte" and shared: "page_get_count old s > 1"
    and new: "page_frame_alloc s = Ret (new, s')" "frame_of new = new"
    and dist: "distinct [dir, tab, old, new]"
  shows "\<exists>t. page_set_writable addr s = Ret (Resolved t) \<and>
    frame_of (walk_pte t addr) = new \<and> walk_pte t addr AND 2 = 2 \<and> walk_pde t addr = pde OR 2 \<and>
    (\<forall>i<1024. frame_words t new i = frame_words s old i) \<and>
    (\<forall>f i. f \<noteq> new \<and> (f, i) \<noteq> (dir, VIRT_ADDR_PG_DIR_INDEX addr) \<and> (f, i) \<noteq> (tab, VIRT_ADDR_PG_TAB_INDEX addr)
       \<longrightarrow> frame_words t f i = frame_words s f i) \<and>
    reference_counts t = (reference_counts s)(new div 4096 := 1, old div 4096 := reference_counts s (old div 4096) - 1) \<and>
    tmp_ok t"
proof -
  let ?d = "VIRT_ADDR_PG_DIR_INDEX addr" and ?k = "VIRT_ADDR_PG_TAB_INDEX addr"
  let ?w1 = "(frame_words s)(dir := (frame_words s dir)(?d := pde OR 2))"
  let ?s2 = "tmp_map_page tab ((tmp_map_page (cr3 s) s)\<lparr>frame_words := ?w1\<rparr>)"
  have idx: "?d < 1024" "?k < 1024" by (rule dir_index_less tab_index_less)+
  have ne: "dir \<noteq> tab" "dir \<noteq> old" "dir \<noteq> new" "tab \<noteq> old" "tab \<noteq> new" "old \<noteq> new" using dist by auto
  have pt: "?w1 tab ?k = pte" using ne pte(1) by (simp add: walk_pte_def pde(1) [symmetric] tab)
  have "new \<noteq> 1" using new(2) by (auto simp: frame_of_def)
  then have rc: "reference_counts s' = (reference_counts s)(new div 4096 := 1)"
    using page_frame_alloc_counts [OF new(1)] by simp
  have nn: "old div 4096 \<noteq> new div 4096" using frame_number_inject [of old new] new(2) ne old by auto
  obtain s3 where s3: "page_frame_alloc ?s2 = Ret (new, s3)" "page_state.more s3 = page_state.more ?s2"
    "reference_counts s3 = (reference_counts s)(new div 4096 := 1)"
    using page_frame_alloc_cong [of ?s2 s new s'] new(1) rc by (auto simp: tmp_map_page_def)
  have m3: "frame_words s3 = ?w1" "init_page_table s3 = init_page_table ?s2" "cr3 s3 = cr3 s"
    using s3(2) by (cases s3 rule: vm_state.cases_scheme; cases s rule: vm_state.cases_scheme; simp add: tmp_map_page_def)+
  have win3: "window s3 = tab" using m3(2) by (simp add: tmp_map_page_def frame_of_flags tab)
  let ?w2 = "?w1(tab := (?w1 tab)(?k := new OR (pte AND 0xFFF) OR 2))"
  let ?s5 = "tmp_map_page new (page_decrease_count old (s3\<lparr>frame_words := ?w2\<rparr>))"
  let ?t = "tmp_map_page (get_tmp_page s) (win_fill (frame_words s old) ?s5)"
  have cnt: "page_get_count old (win_fill w ?s5) \<noteq> 0" for w
  proof -
    have "reference_counts s (old div 4096) \<noteq> 1" using shared by (auto simp: page_get_count_def)
    with nn show ?thesis by (simp add: page_get_count_def page_decrease_count_def win_fill_def tmp_map_page_def s3(3)
        signed_eq_0_iff)
  qed
  have eq: "page_set_writable addr s = Ret (Resolved ?t)"
  proof -
    let ?s1 = "(tmp_map_page (cr3 s) s)\<lparr>frame_words := ?w1\<rparr>"
    have r1: "win_read ?d (tmp_map_page (cr3 s) s) = Ret pde" using idx by (simp add: win_read_eq pde walk_pde_def)
    have r2: "win_write ?d (pde OR 2) (tmp_map_page (cr3 s) s) = Ret ?s1" using idx by (simp add: win_write_eq dir)
    have r3: "win_read ?k ?s2 = Ret pte" using idx pt by (simp add: win_read_eq tab del: fun_upd_apply)
    have r4: "page_get_count (frame_of pte) ?s2 > 1" using shared by (simp add: page_get_count_def old)
    have r5: "win_write ?k (new OR (pte AND 0xFFF) OR 2) s3 = Ret (s3\<lparr>frame_words := ?w2\<rparr>)"
      using idx win3 m3(1) by (simp add: win_write_eq del: fun_upd_apply)
    have r6: "frame_words (tmp_map_page old (page_decrease_count old (s3\<lparr>frame_words := ?w2\<rparr>)))
        (window (tmp_map_page old (page_decrease_count old (s3\<lparr>frame_words := ?w2\<rparr>)))) = frame_words s old"
      using ne by (simp add: page_decrease_count_def old)
    show ?thesis
      unfolding page_set_writable_def Let_def r1 bindk.simps tab [symmetric]
      using pde(2) pte(2) r4 cnt [of "frame_words s old"] \<open>new \<noteq> 1\<close>
      by (simp only: r2 r3 s3(1) r5 bindk.simps if_False if_True split_conv tab [symmetric] old [symmetric] r6 tmp_map_simps(4))
  qed
  have wt: "frame_words ?t = ?w2(new := \<lambda>i. if i < 1024 then frame_words s old i else ?w2 new i)"
    by (rule filled_copy [OF new(2)])
  have cr: "cr3 ?t = cr3 s" by (simp add: win_fill_simps page_decrease_count_simps m3(3))
  have wd: "walk_pde ?t addr = pde OR 2"
    unfolding walk_pde_def cr dir [symmetric] wt using ne by simp
  have wp: "walk_pte ?t addr = new OR (pte AND 0xFFF) OR 2"
    unfolding walk_pte_def wd frame_of_or_2 tab [symmetric] wt using ne by simp
  have "walk_pte ?t addr AND 2 = 2" unfolding wp by (simp only: or.assoc [symmetric] bit_flag_set)
  moreover have "\<forall>f i. f \<noteq> new \<and> (f, i) \<noteq> (dir, ?d) \<and> (f, i) \<noteq> (tab, ?k) \<longrightarrow> frame_words ?t f i = frame_words s f i"
    unfolding wt by auto
  moreover have "\<forall>i<1024. frame_words ?t new i = frame_words s old i" unfolding wt by simp
  moreover have "reference_counts ?t = (reference_counts s)(new div 4096 := 1, old div 4096 := reference_counts s (old div 4096) - 1)"
    using nn by (simp add: win_fill_simps page_decrease_count_simps s3(3))
  moreover have "frame_of (walk_pte ?t addr) = new" unfolding wp by (rule frame_of_new_pte [OF new(2)])
  ultimately show ?thesis using eq wd tmp_ok_restored by blast
qed

section \<open>A small address space\<close>

text \<open>
  The directory is the frame 0x1000, its first entry is the table 0x2000, whose first entry maps
  address 0 read-only to the frame 0x3000, which has two references.
\<close>

definition vm_demo :: vm_state where
  "vm_demo = \<lparr>mmap = mmap page_demo, mmap_bitmaps = mmap_bitmaps page_demo, total_mem = 0x40000,
     reference_counts = (\<lambda>_. 0)(3 := 2), phys_mem = (\<lambda>_. 0),
     frame_words = (\<lambda>_ _. 0)(0x1000 := (\<lambda>_. 0)(0 := 0x2005), 0x2000 := (\<lambda>_. 0)(0 := 0x3005)),
     init_page_table = (\<lambda>_. 0)(1023 := 3), init_page_directory = (\<lambda>_. 0), current_pg_table = NullTable,
     virt_map_entry = 1023, cr3 = 0x1000, next_cr3 = 0\<rparr>"

lemma vm_demo_tmp: "tmp_ok vm_demo"
  by (simp add: tmp_ok_def vm_demo_def get_tmp_page_def)

lemma vm_demo_walk: "walk_pde vm_demo 0 = 0x2005" "walk_pte vm_demo 0 = 0x3005"
  by (simp_all add: walk_pde_def walk_pte_def vm_demo_def frame_of_def VIRT_ADDR_PG_DIR_INDEX_def VIRT_ADDR_PG_TAB_INDEX_def)

theorem check_user_ptr_walks_tables_witness:
  "\<exists>r. check_user_ptr_pages 0 vm_demo = (r, vm_demo) \<and> r \<noteq> 0"
  using check_user_ptr_walks_tables [OF vm_demo_tmp, of 0] by (simp add: vm_demo_walk user_page_def)

theorem pg_table_cow_shares_witness:
  "\<exists>t. pg_table_cow 0x2005 True vm_demo = Ret t \<and> frame_words t 0x2000 0 = 0x3005"
  using pg_table_cow_shares [OF vm_demo_tmp, of "0x2005" True] by (auto simp: vm_demo_def frame_of_def)

theorem page_set_writable_copies_witness:
  "\<exists>t. page_set_writable 0 vm_demo = Ret (Resolved t) \<and> frame_of (walk_pte t 0) = 0x100000"
proof -
  have "case page_frame_alloc vm_demo of Ret (n, _) \<Rightarrow> n = 0x100000 | _ \<Rightarrow> False" by code_simp
  then obtain s' where a: "page_frame_alloc vm_demo = Ret (0x100000, s')" by (auto split: kres.splits)
  have "frame_of (cr3 vm_demo) = 0x1000" "frame_of 0x2005 = 0x2000" "frame_of 0x3005 = 0x3000" "frame_of 0x100000 = 0x100000"
    "page_get_count 0x3000 vm_demo = 2"
    by (simp_all add: frame_of_def vm_demo_def page_get_count_def)
  with page_set_writable_copies [OF vm_demo_tmp refl vm_demo_walk(1) [symmetric] _ refl vm_demo_walk(2) [symmetric] _ refl _ a]
  show ?thesis by auto
qed

end
