(* ===== verification/Exec_Elf.thy ===== *)
theory Exec_Elf
  imports Virtual_MM User_Space
begin

text \<open>
  Programs: \<^verbatim>\<open>sys/kernel/exec_elf.c\<close>, \<^verbatim>\<open>sys/kernel/exec_elf32.c\<close>, \<^verbatim>\<open>elf.h\<close>, \<^verbatim>\<open>exec.h\<close>, and the parts of
  \<^verbatim>\<open>sys/arch/i386/processes.c\<close> that \<^verbatim>\<open>execve\<close> runs. The file is reached through the filesystem's
  \<^verbatim>\<open>fs_readi\<close>, an argument: it gives the result of the call and the bytes that it stored. Structures are
  decoded from their bytes, lowest byte first.
\<close>

section \<open>Data\<close>

abbreviation (input) ELFMAG0 :: u8 where "ELFMAG0 \<equiv> 0x7F"
abbreviation (input) ELFMAG1 :: u8 where "ELFMAG1 \<equiv> 0x45"
abbreviation (input) ELFMAG2 :: u8 where "ELFMAG2 \<equiv> 0x4C"
abbreviation (input) ELFMAG3 :: u8 where "ELFMAG3 \<equiv> 0x46"
abbreviation (input) ELFDATA2LSB :: u8 where "ELFDATA2LSB \<equiv> 1"
abbreviation (input) ELFCLASS32 :: u8 where "ELFCLASS32 \<equiv> 1"
abbreviation (input) ELFABI_SYSTEMV :: u8 where "ELFABI_SYSTEMV \<equiv> 0"
abbreviation (input) ET_EXEC :: u16 where "ET_EXEC \<equiv> 2"
abbreviation (input) EM_X86 :: u16 where "EM_X86 \<equiv> 3"
abbreviation (input) PT_LOAD :: u32 where "PT_LOAD \<equiv> 1"
abbreviation (input) PF_X :: u32 where "PF_X \<equiv> 1"
abbreviation (input) PF_W :: u32 where "PF_W \<equiv> 2"
abbreviation (input) PF_R :: u32 where "PF_R \<equiv> 4"
abbreviation (input) EI_MAG0 :: nat where "EI_MAG0 \<equiv> 0"
abbreviation (input) EI_MAG1 :: nat where "EI_MAG1 \<equiv> 1"
abbreviation (input) EI_MAG2 :: nat where "EI_MAG2 \<equiv> 2"
abbreviation (input) EI_MAG3 :: nat where "EI_MAG3 \<equiv> 3"
abbreviation (input) EI_CLASS :: nat where "EI_CLASS \<equiv> 4"
abbreviation (input) EI_DATA :: nat where "EI_DATA \<equiv> 5"
abbreviation (input) EI_OSABI :: nat where "EI_OSABI \<equiv> 7"

text \<open>The fields of the headers that the loader reads.\<close>

record Elf32_Ehdr =
  e_ident :: "nat \<Rightarrow> u8"
  e_type :: u16
  e_machine :: u16
  eh_entry :: u32
  e_phoff :: u32
  e_phentsize :: u16
  e_phnum :: u16

record Elf32_Phdr =
  p_type :: u32
  p_offset :: u32
  p_vaddr :: u32
  p_filesz :: u32
  p_memsz :: u32
  p_flags :: u32

record exec_elf_params =
  endian :: u8
  bits :: u8
  abi :: u8
  machine :: u16

record exec_elf_file =
  text_off :: u32
  data_off :: u32
  rodata_off :: u32

definition decode_ehdr :: "u8 list \<Rightarrow> Elf32_Ehdr" where
  "decode_ehdr bs = \<lparr>e_ident = byte_at bs, e_type = le16 bs 16, e_machine = le16 bs 18, eh_entry = le32 bs 24,
     e_phoff = le32 bs 28, e_phentsize = le16 bs 42, e_phnum = le16 bs 44\<rparr>"

definition decode_phdr :: "u8 list \<Rightarrow> Elf32_Phdr" where
  "decode_phdr bs = \<lparr>p_type = le32 bs 0, p_offset = le32 bs 4, p_vaddr = le32 bs 8, p_filesz = le32 bs 16,
     p_memsz = le32 bs 20, p_flags = le32 bs 24\<rparr>"

abbreviation (input) sizeof_ehdr :: nat where "sizeof_ehdr \<equiv> 52"
abbreviation (input) sizeof_phdr :: nat where "sizeof_phdr \<equiv> 32"

section \<open>Headers\<close>

definition elf_verify_hdr :: "Elf32_Ehdr \<Rightarrow> int" where
  "elf_verify_hdr h =
     (if e_ident h EI_MAG0 \<noteq> ELFMAG0 then -1
      else if e_ident h EI_MAG1 \<noteq> ELFMAG1 then -1
      else if e_ident h EI_MAG2 \<noteq> ELFMAG2 then -1
      else if e_ident h EI_MAG3 \<noteq> ELFMAG3 then -1
      else 0)"

definition elf_check_hdr :: "Elf32_Ehdr \<Rightarrow> exec_elf_params \<Rightarrow> int" where
  "elf_check_hdr h param =
     (if bits param \<noteq> ELFCLASS32 then -1
      else if e_ident h EI_CLASS \<noteq> bits param then -1
      else if e_ident h EI_DATA \<noteq> endian param then -1
      else if e_ident h EI_OSABI \<noteq> abi param then -1
      else if e_machine h \<noteq> machine param then -1
      else int (unat (e_type h)))"

text \<open>
  \<open>readi count off\<close> is a call of \<^verbatim>\<open>fs_readi\<close> on the file's inode: what it returns and the bytes it stored in
  the caller's buffer, no more than \<open>count\<close>.
\<close>

type_synonym readi = "u32 \<Rightarrow> u32 \<Rightarrow> int \<times> u8 list"

definition elf_read :: "readi \<Rightarrow> u32 \<Rightarrow> u32 \<Rightarrow> int \<times> u8 list" where
  "elf_read rd count off = rd count off"

definition elf32_read_ehdr :: "readi \<Rightarrow> int \<times> u8 list" where
  "elf32_read_ehdr rd = elf_read rd (of_nat sizeof_ehdr) 0"

text \<open>
  The program header is read into a structure of 32 bytes, \<open>buf\<close> before the call; the size read is the one the
  file states.
\<close>

definition elf32_read_phdr :: "readi \<Rightarrow> Elf32_Ehdr \<Rightarrow> u8 list \<Rightarrow> u32 \<Rightarrow> u8 list kres" where
  "elf32_read_phdr rd h buf entry =
     (let (n, bs) = elf_read rd (ucast (e_phentsize h)) (entry * ucast (e_phentsize h) + e_phoff h)
      in if length bs > sizeof_phdr then Stop (Fault ''phdr'') else Ret (bs @ drop (length bs) buf))"

section \<open>Segments\<close>

definition enter_segment :: "Elf32_Phdr \<Rightarrow> exec_image \<times> exec_elf_file \<Rightarrow> exec_image \<times> exec_elf_file" where
  "enter_segment ph = (\<lambda>(im, fl).
     if p_type ph \<noteq> PT_LOAD then (im, fl)
     else if p_flags ph AND PF_X \<noteq> 0 \<and> p_flags ph AND PF_R \<noteq> 0 then
       (im\<lparr>e_text_vaddr := p_vaddr ph, e_text_size := p_memsz ph\<rparr>, fl\<lparr>text_off := p_offset ph\<rparr>)
     else if p_flags ph AND PF_R \<noteq> 0 \<and> p_flags ph AND PF_W = 0 then
       (im\<lparr>e_rodata_vaddr := p_vaddr ph, e_rodata_size := p_memsz ph\<rparr>, fl\<lparr>rodata_off := p_offset ph\<rparr>)
     else if p_flags ph AND PF_R \<noteq> 0 \<and> p_flags ph AND PF_W \<noteq> 0 then
       (let im = im\<lparr>e_data_vaddr := p_vaddr ph, e_data_size := p_memsz ph\<rparr>
        in (if p_memsz ph > p_filesz ph
            then im\<lparr>e_bss_vaddr := e_data_vaddr im + p_filesz ph, e_bss_size := p_memsz ph - p_filesz ph\<rparr>
            else im,
            fl\<lparr>data_off := p_offset ph\<rparr>))
     else (im, fl))"

fun load_phdrs :: "readi \<Rightarrow> Elf32_Ehdr \<Rightarrow> nat list \<Rightarrow> u8 list \<Rightarrow> exec_image \<times> exec_elf_file \<Rightarrow> (exec_image \<times> exec_elf_file) kres" where
  "load_phdrs rd h [] buf x = Ret x"
| "load_phdrs rd h (i # is) buf x =
     bindk (elf32_read_phdr rd h buf (of_nat i)) (\<lambda>buf. load_phdrs rd h is buf (enter_segment (decode_phdr buf) x))"

definition empty_image :: "u32 \<Rightarrow> exec_image" where
  "empty_image entry = \<lparr>e_entry = entry, e_text_vaddr = 0, e_text_size = 0, e_data_vaddr = 0, e_data_size = 0,
     e_rodata_vaddr = 0, e_rodata_size = 0, e_bss_vaddr = 0, e_bss_size = 0\<rparr>"

text \<open>\<open>buf\<close> is what the structure on the stack held before; the offsets of \<open>fl\<close> are not cleared.\<close>

definition elf32_load_elf :: "readi \<Rightarrow> Elf32_Ehdr \<Rightarrow> u8 list \<Rightarrow> exec_elf_file \<Rightarrow> 'a vm_state_scheme \<Rightarrow>
    (int \<times> exec_image \<times> exec_elf_file \<times> 'a vm_state_scheme) kres" where
  "elf32_load_elf rd h buf fl s =
     bindk (load_phdrs rd h [0..<unat (e_phnum h)] buf (empty_image (eh_entry h), fl)) (\<lambda>(im, fl).
     bindk (arch_valloc_segments im s) (\<lambda>(r, s).
     Ret (if r < 0 then - ENOMEM else 0, im, fl, s)))"

text \<open>
  Reading a segment stores the bytes at its address; the \<^verbatim>\<open>bss\<close> loop stores its zeroes at one address.
\<close>

definition read_segment :: "readi \<Rightarrow> u32 \<Rightarrow> u32 \<Rightarrow> u32 \<Rightarrow> user_space \<Rightarrow> user_space" where
  "read_segment rd vaddr count off u = cp_to_user vaddr (snd (elf_read rd count off)) u"

primrec clear_bss :: "u32 \<Rightarrow> nat \<Rightarrow> user_space \<Rightarrow> user_space" where
  "clear_bss vaddr 0 u = u"
| "clear_bss vaddr (Suc n) u = clear_bss vaddr n (put_ubyte vaddr 0 u)"

definition elf32_read_image :: "readi \<Rightarrow> exec_image \<Rightarrow> exec_elf_file \<Rightarrow> user_space \<Rightarrow> user_space" where
  "elf32_read_image rd im fl u =
     (let u = (if e_text_size im \<noteq> 0 then read_segment rd (e_text_vaddr im) (e_text_size im) (text_off fl) u else u);
          u = (if e_data_size im \<noteq> 0
               then read_segment rd (e_data_vaddr im) (e_data_size im - e_bss_size im) (data_off fl) u else u);
          u = (if e_rodata_size im \<noteq> 0 then read_segment rd (e_rodata_vaddr im) (e_rodata_size im) (rodata_off fl) u else u)
      in if e_bss_size im \<noteq> 0 then clear_bss (e_bss_vaddr im) (unat (e_bss_size im)) u else u)"

section \<open>The first stack\<close>

text \<open>
  \<^verbatim>\<open>exec_count_str\<close> counts the pointers of a table with its null pointer, \<^verbatim>\<open>exec_strlen\<close> the characters of a
  string with its zero; neither loop has a bound of its own.
\<close>

partial_function (option) count_str_loop :: "u32 \<Rightarrow> nat \<Rightarrow> user_space \<Rightarrow> nat option" where
  "count_str_loop p n u = (if get_ulong p u \<noteq> 0 then count_str_loop (p + 4) (n + 1) u else Some (n + 1))"

partial_function (option) exec_strlen_loop :: "u32 \<Rightarrow> nat \<Rightarrow> user_space \<Rightarrow> nat option" where
  "exec_strlen_loop p len u = (if get_ubyte p u \<noteq> 0 then exec_strlen_loop (p + 1) (len + 1) u else Some (len + 1))"

declare count_str_loop.simps [code] exec_strlen_loop.simps [code]

definition or_diverge :: "'a option \<Rightarrow> 'a kres" where
  "or_diverge x = (case x of None \<Rightarrow> Stop Diverges | Some v \<Rightarrow> Ret v)"

definition exec_count_str :: "u32 \<Rightarrow> user_space \<Rightarrow> nat kres" where
  "exec_count_str str u = or_diverge (count_str_loop str 0 u)"

definition exec_strlen :: "u32 \<Rightarrow> user_space \<Rightarrow> nat kres" where
  "exec_strlen str u = or_diverge (exec_strlen_loop str 0 u)"

text \<open>
  The block that holds the tables and the strings, \<open>m\<close>, is addressed from the pointer \<^verbatim>\<open>sp\<close>, which stands 12 bytes
  in front of the block that the heap returned.
\<close>

definition put32 :: "nat \<Rightarrow> u32 \<Rightarrow> (nat \<Rightarrow> u8) \<Rightarrow> (nat \<Rightarrow> u8)" where
  "put32 a v m = m(a := ucast v, a + 1 := ucast (drop_bit 8 v), a + 2 := ucast (drop_bit 16 v), a + 3 := ucast (drop_bit 24 v))"

definition put_bytes :: "nat \<Rightarrow> u8 list \<Rightarrow> (nat \<Rightarrow> u8) \<Rightarrow> (nat \<Rightarrow> u8)" where
  "put_bytes a bs m = (\<lambda>i. if a \<le> i \<and> i < a + length bs then bs ! (i - a) else m i)"

text \<open>One table: its pointers at \<open>roving\<close>, the strings from \<open>run\<close> on, both as offsets from \<^verbatim>\<open>sp\<close>.\<close>

fun stack_table :: "u32 \<Rightarrow> nat list \<Rightarrow> u32 \<Rightarrow> user_space \<Rightarrow> nat \<times> nat \<times> (nat \<Rightarrow> u8) \<Rightarrow> (nat \<times> nat \<times> (nat \<Rightarrow> u8)) kres" where
  "stack_table base [] str u x = Ret x"
| "stack_table base (i # is) str u (roving, run, m) =
     (let p = get_ulong (str + 4 * of_nat i) u
      in if p \<noteq> 0 then
           bindk (exec_strlen p u) (\<lambda>len.
           stack_table base is str u (roving + 4, run + len,
             put_bytes run (user_bytes p len u) (put32 roving (base + of_nat run) m)))
         else stack_table base is str u (roving + 4, run, put32 roving 0 m))"

fun strings_len :: "nat list \<Rightarrow> u32 \<Rightarrow> user_space \<Rightarrow> nat kres" where
  "strings_len [] str u = Ret 0"
| "strings_len (i # is) str u =
     bindk (exec_strlen (get_ulong (str + 4 * of_nat i) u) u) (\<lambda>len.
     bindk (strings_len is str u) (\<lambda>n. Ret (len + n)))"

text \<open>The result is the address the program's stack starts at and the bytes that go there.\<close>

definition exec_set_up_stack :: "u32 \<Rightarrow> u32 \<Rightarrow> (nat \<Rightarrow> u8) \<Rightarrow> user_space \<Rightarrow> (u32 \<times> nat \<times> (nat \<Rightarrow> u8)) kres" where
  "exec_set_up_stack argv envp m u =
     bindk (exec_count_str argv u) (\<lambda>argv_count.
     bindk (exec_count_str envp u) (\<lambda>envp_count.
     bindk (strings_len [0..<argv_count - 1] argv u) (\<lambda>alen.
     bindk (strings_len [0..<envp_count - 1] envp u) (\<lambda>elen.
     let total_len = argv_count * 4 + envp_count * 4 + alen + elen + 12;
         user_sp_base = (KERNEL_VIRT_BASE - of_nat total_len) AND 0xFFFFFFF0;
         m = put32 0 (of_nat (argv_count - 1)) m;
         m = put32 4 (user_sp_base + 12) m;
         m = put32 8 (user_sp_base + 12 + of_nat argv_count * 4) m
     in bindk (stack_table user_sp_base [0..<argv_count] argv u (12, 12 + argv_count * 4 + envp_count * 4, m)) (\<lambda>x.
        bindk (stack_table user_sp_base [0..<envp_count] envp u x) (\<lambda>(_, _, m).
        Ret (user_sp_base, total_len, m)))))))"

section \<open>Replacing the image\<close>

text \<open>
  What \<^verbatim>\<open>execve\<close> leaves: its result, the registers that the process resumes with when they were set, the page
  tables and the user memory. \<open>fresh\<close> is the user memory behind the new page tables before anything is
  written to it; \<open>head\<close> is the address of the code that the first process runs, whose page is not freed.
\<close>

record 'a exec_result =
  er_ret :: int
  er_regs :: "(u32 \<times> u32) option"
  er_vm :: 'a
  er_mem :: user_space

definition i386_params :: exec_elf_params where
  "i386_params = \<lparr>endian = ELFDATA2LSB, bits = ELFCLASS32, abi = ELFABI_SYSTEMV, machine = EM_X86\<rparr>"

definition replace_image :: "readi \<Rightarrow> u32 \<Rightarrow> u32 \<Rightarrow> exec_image \<Rightarrow> u32 \<Rightarrow> user_space \<Rightarrow> u8 list \<Rightarrow> exec_elf_file \<Rightarrow>
    (nat \<Rightarrow> u8) \<Rightarrow> Elf32_Ehdr \<Rightarrow> user_space \<Rightarrow> 'a vm_state_scheme \<Rightarrow> 'a vm_state_scheme exec_result kres" where
  "replace_image rd argv envp old_im head fresh buf fl m h u s =
     bindk (elf32_load_elf rd h buf fl s) (\<lambda>(err, im, fl, s).
     bindk (exec_set_up_stack argv envp m u) (\<lambda>(base, len, m).
     let gap = KERNEL_VIRT_BASE - base; sp = KERNEL_VIRT_BASE - gap
     in bindk (if e_text_vaddr old_im \<noteq> head then free_address_space old_im s else Ret s) (\<lambda>s.
        bindk (page_frame_free (next_cr3 s) (copy_page_table (cr3 s) (next_cr3 s) s)) (\<lambda>s.
        let u = cp_to_user sp (map m [0..<unat gap]) fresh
        in Ret \<lparr>er_ret = (if err < 0 then err else 0), er_regs = Some (e_entry im, sp), er_vm = s,
                er_mem = elf32_read_image rd im fl u\<rparr>))))"

definition arch_exec_elf :: "readi \<Rightarrow> u32 \<Rightarrow> u32 \<Rightarrow> exec_image \<Rightarrow> u32 \<Rightarrow> user_space \<Rightarrow> u8 list \<Rightarrow> exec_elf_file \<Rightarrow>
    (nat \<Rightarrow> u8) \<Rightarrow> user_space \<Rightarrow> 'a vm_state_scheme \<Rightarrow> 'a vm_state_scheme exec_result kres" where
  "arch_exec_elf rd argv envp old_im head fresh buf fl m u s =
     (let (n, bs) = elf32_read_ehdr rd; h = decode_ehdr bs;
          noexec = Ret \<lparr>er_ret = - ENOEXEC, er_regs = None, er_vm = s, er_mem = u\<rparr>
      in if n \<noteq> int sizeof_ehdr then noexec
         else if elf_verify_hdr h < 0 then noexec
         else if elf_check_hdr h i386_params < 0 then noexec
         else if elf_check_hdr h i386_params \<noteq> int (unat ET_EXEC) then noexec
         else replace_image rd argv envp old_im head fresh buf fl m h u s)"

end
