(* ===== verification/Exec_Props.thy ===== *)
theory Exec_Props
  imports Exec_Elf
begin

text \<open>
  What \<^verbatim>\<open>execve\<close> guarantees: which files it takes, which of the file's segments it loads, and what the program
  finds on its first stack.
\<close>

section \<open>Which files are taken\<close>

definition elf_acceptable :: "int \<Rightarrow> u8 list \<Rightarrow> bool" where
  "elf_acceptable n bs \<longleftrightarrow> n = 52 \<and> byte_at bs 0 = 0x7F \<and> byte_at bs 1 = 0x45 \<and> byte_at bs 2 = 0x4C \<and> byte_at bs 3 = 0x46 \<and>
     byte_at bs 4 = 1 \<and> byte_at bs 5 = 1 \<and> byte_at bs 7 = 0 \<and> le16 bs 16 = 2 \<and> le16 bs 18 = 3"

lemma elf_check_type: "elf_check_hdr h p = 2 \<longleftrightarrow> elf_check_hdr h p \<ge> 0 \<and> e_type h = 2"
proof -
  have "int (unat (e_type h)) = 2 \<longleftrightarrow> e_type h = 2"
  proof
    assume "int (unat (e_type h)) = 2"
    then have "unat (e_type h) = 2" by linarith
    then show "e_type h = 2" by (simp add: word_unat_eq_iff)
  qed simp
  then show ?thesis by (simp add: elf_check_hdr_def)
qed


section \<open>Which segments are loaded\<close>

definition is_text :: "Elf32_Phdr \<Rightarrow> bool" where
  "is_text ph \<longleftrightarrow> p_type ph = 1 \<and> p_flags ph AND 1 \<noteq> 0 \<and> p_flags ph AND 4 \<noteq> 0"

definition is_rodata :: "Elf32_Phdr \<Rightarrow> bool" where
  "is_rodata ph \<longleftrightarrow> p_type ph = 1 \<and> \<not> is_text ph \<and> p_flags ph AND 4 \<noteq> 0 \<and> p_flags ph AND 2 = 0"

definition is_data :: "Elf32_Phdr \<Rightarrow> bool" where
  "is_data ph \<longleftrightarrow> p_type ph = 1 \<and> \<not> is_text ph \<and> p_flags ph AND 4 \<noteq> 0 \<and> p_flags ph AND 2 \<noteq> 0"

text \<open>A file whose program headers can all be read: each read stores the 32 bytes of the header.\<close>

definition phdr_bytes :: "readi \<Rightarrow> Elf32_Ehdr \<Rightarrow> nat \<Rightarrow> u8 list" where
  "phdr_bytes rd h i = snd (elf_read rd (ucast (e_phentsize h)) (of_nat i * ucast (e_phentsize h) + e_phoff h))"

lemma load_phdrs_fold:
  assumes "\<And>i. i \<in> set is \<Longrightarrow> length (phdr_bytes rd h i) = 32" and "length buf = 32"
  shows "load_phdrs rd h is buf x = Ret (fold enter_segment (map (\<lambda>i. decode_phdr (phdr_bytes rd h i)) is) x)"
  using assms
proof (induction "is" arbitrary: buf x)
  case Nil
  then show ?case by simp
next
  case (Cons i "is")
  then have "elf32_read_phdr rd h buf (of_nat i) = Ret (phdr_bytes rd h i)"
    by (simp add: elf32_read_phdr_def phdr_bytes_def split_beta)
  with Cons show ?case by simp
qed

lemma enter_segment_text:
  "e_text_vaddr (fst (enter_segment ph x)) = (if is_text ph then p_vaddr ph else e_text_vaddr (fst x))"
  "e_text_size (fst (enter_segment ph x)) = (if is_text ph then p_memsz ph else e_text_size (fst x))"
  "text_off (snd (enter_segment ph x)) = (if is_text ph then p_offset ph else text_off (snd x))"
  by (cases x, auto simp: enter_segment_def is_text_def Let_def)+

lemma enter_segment_data:
  "e_data_vaddr (fst (enter_segment ph x)) = (if is_data ph then p_vaddr ph else e_data_vaddr (fst x))"
  "e_data_size (fst (enter_segment ph x)) = (if is_data ph then p_memsz ph else e_data_size (fst x))"
  "data_off (snd (enter_segment ph x)) = (if is_data ph then p_offset ph else data_off (snd x))"
  by (cases x, auto simp: enter_segment_def is_data_def is_text_def Let_def)+

lemma enter_segment_rodata:
  "e_rodata_vaddr (fst (enter_segment ph x)) = (if is_rodata ph then p_vaddr ph else e_rodata_vaddr (fst x))"
  "e_rodata_size (fst (enter_segment ph x)) = (if is_rodata ph then p_memsz ph else e_rodata_size (fst x))"
  "rodata_off (snd (enter_segment ph x)) = (if is_rodata ph then p_offset ph else rodata_off (snd x))"
  by (cases x, auto simp: enter_segment_def is_rodata_def is_text_def Let_def)+

text \<open>A field that every header of a kind overwrites has the value of the last of them.\<close>

lemma fold_last:
  assumes "\<And>ph x. g (enter_segment ph x) = (if P ph then v ph else g x)"
  shows "g (fold enter_segment phs x) = (case filter P phs of [] \<Rightarrow> g x | qs \<Rightarrow> v (last qs))"
proof (induction phs rule: rev_induct)
  case Nil
  then show ?case by simp
next
  case (snoc ph phs)
  then show ?case by (auto simp: assms split: list.splits)
qed

text \<open>
  Loading the program headers chooses the segments: the text, data and read-only segments of the image are the
  last loadable header of each kind (executable and readable; readable and writable; only readable), with its
  address, size in memory and offset in the file, and a kind the file does not have is empty. Headers that are
  not loadable are ignored.
\<close>

theorem load_phdrs_selects_segments:
  assumes "\<And>i. i < unat (e_phnum h) \<Longrightarrow> length (phdr_bytes rd h i) = 32" and "length buf = 32"
    and phs: "phs = map (\<lambda>i. decode_phdr (phdr_bytes rd h i)) [0..<unat (e_phnum h)]"
  shows "\<exists>im fl'. load_phdrs rd h [0..<unat (e_phnum h)] buf (empty_image (eh_entry h), fl) = Ret (im, fl') \<and>
    (e_text_vaddr im, e_text_size im) = (case filter is_text phs of [] \<Rightarrow> (0, 0) | q \<Rightarrow> (p_vaddr (last q), p_memsz (last q))) \<and>
    (e_data_vaddr im, e_data_size im) = (case filter is_data phs of [] \<Rightarrow> (0, 0) | q \<Rightarrow> (p_vaddr (last q), p_memsz (last q))) \<and>
    (e_rodata_vaddr im, e_rodata_size im) = (case filter is_rodata phs of [] \<Rightarrow> (0, 0) | q \<Rightarrow> (p_vaddr (last q), p_memsz (last q))) \<and>
    (filter is_text phs \<noteq> [] \<longrightarrow> text_off fl' = p_offset (last (filter is_text phs))) \<and>
    (filter is_data phs \<noteq> [] \<longrightarrow> data_off fl' = p_offset (last (filter is_data phs))) \<and>
    (filter is_rodata phs \<noteq> [] \<longrightarrow> rodata_off fl' = p_offset (last (filter is_rodata phs)))"
proof -
  let ?x = "(empty_image (eh_entry h), fl)"
  obtain im fl' where r: "fold enter_segment phs ?x = (im, fl')" by (cases "fold enter_segment phs ?x")
  have "load_phdrs rd h [0..<unat (e_phnum h)] buf ?x = Ret (im, fl')"
    using load_phdrs_fold [of "[0..<unat (e_phnum h)]" rd h buf ?x] assms r by simp
  moreover note
    fold_last [of "\<lambda>x. e_text_vaddr (fst x)", OF enter_segment_text(1), of phs ?x, unfolded r]
    fold_last [of "\<lambda>x. e_text_size (fst x)", OF enter_segment_text(2), of phs ?x, unfolded r]
    fold_last [of "\<lambda>x. text_off (snd x)", OF enter_segment_text(3), of phs ?x, unfolded r]
    fold_last [of "\<lambda>x. e_data_vaddr (fst x)", OF enter_segment_data(1), of phs ?x, unfolded r]
    fold_last [of "\<lambda>x. e_data_size (fst x)", OF enter_segment_data(2), of phs ?x, unfolded r]
    fold_last [of "\<lambda>x. data_off (snd x)", OF enter_segment_data(3), of phs ?x, unfolded r]
    fold_last [of "\<lambda>x. e_rodata_vaddr (fst x)", OF enter_segment_rodata(1), of phs ?x, unfolded r]
    fold_last [of "\<lambda>x. e_rodata_size (fst x)", OF enter_segment_rodata(2), of phs ?x, unfolded r]
    fold_last [of "\<lambda>x. rodata_off (snd x)", OF enter_segment_rodata(3), of phs ?x, unfolded r]
  ultimately show ?thesis
    by (intro exI [of _ im] exI [of _ fl']) (auto simp: empty_image_def split: list.splits)
qed

text \<open>A file with an executable segment, a writable one and a note, in that order.\<close>

definition example_phdr :: "u8 \<Rightarrow> u8 \<Rightarrow> u8 \<Rightarrow> u8 list" where
  "example_phdr t va fl = [t,0,0,0, 0,1,0,0, 0,va,0,0, 0,va,0,0, 16,0,0,0, 32,0,0,0, fl,0,0,0, 0,16,0,0]"

definition example_file :: readi where
  "example_file n off = (32, if off = 52 then example_phdr 1 0x10 5 else if off = 84 then example_phdr 1 0x20 6 else example_phdr 4 0 4)"

definition example_ehdr :: Elf32_Ehdr where
  "example_ehdr = \<lparr>e_ident = (\<lambda>_. 0), e_type = 2, e_machine = 3, eh_entry = 0x1000, e_phoff = 52, e_phentsize = 32, e_phnum = 3\<rparr>"

lemma example_phdrs:
  "map (\<lambda>i. decode_phdr (phdr_bytes example_file example_ehdr i)) [0..<unat (e_phnum example_ehdr)] =
    [\<lparr>p_type = 1, p_offset = 0x100, p_vaddr = 0x1000, p_filesz = 16, p_memsz = 32, p_flags = 5\<rparr>,
     \<lparr>p_type = 1, p_offset = 0x100, p_vaddr = 0x2000, p_filesz = 16, p_memsz = 32, p_flags = 6\<rparr>,
     \<lparr>p_type = 4, p_offset = 0x100, p_vaddr = 0, p_filesz = 16, p_memsz = 32, p_flags = 4\<rparr>]"
  by code_simp

lemma example_kinds:
  "is_text \<lparr>p_type = 1, p_offset = 0x100, p_vaddr = 0x1000, p_filesz = 16, p_memsz = 32, p_flags = 5\<rparr>"
  "\<not> is_text \<lparr>p_type = 1, p_offset = 0x100, p_vaddr = 0x2000, p_filesz = 16, p_memsz = 32, p_flags = 6\<rparr>"
  "\<not> is_text \<lparr>p_type = 4, p_offset = 0x100, p_vaddr = 0, p_filesz = 16, p_memsz = 32, p_flags = 4\<rparr>"
  "\<not> is_data \<lparr>p_type = 1, p_offset = 0x100, p_vaddr = 0x1000, p_filesz = 16, p_memsz = 32, p_flags = 5\<rparr>"
  "is_data \<lparr>p_type = 1, p_offset = 0x100, p_vaddr = 0x2000, p_filesz = 16, p_memsz = 32, p_flags = 6\<rparr>"
  "\<not> is_data \<lparr>p_type = 4, p_offset = 0x100, p_vaddr = 0, p_filesz = 16, p_memsz = 32, p_flags = 4\<rparr>"
  by (simp_all add: is_text_def is_data_def)

theorem load_phdrs_selects_segments_witness:
  "\<exists>im fl'. load_phdrs example_file example_ehdr [0..<unat (e_phnum example_ehdr)] (replicate 32 0)
      (empty_image (eh_entry example_ehdr), \<lparr>text_off = 0, data_off = 0, rodata_off = 0\<rparr>) = Ret (im, fl') \<and>
    (e_text_vaddr im, e_text_size im) = (0x1000, 32) \<and> (e_data_vaddr im, e_data_size im) = (0x2000, 32) \<and>
    text_off fl' = 0x100 \<and> data_off fl' = 0x100"
proof -
  have len: "length (phdr_bytes example_file example_ehdr i) = 32" for i
    by (simp add: phdr_bytes_def elf_read_def example_file_def example_phdr_def)
  show ?thesis
    using load_phdrs_selects_segments [OF len _ example_phdrs [symmetric],
        of "replicate 32 0" "\<lparr>text_off = 0, data_off = 0, rodata_off = 0\<rparr>"]
    by (auto simp: example_kinds)
qed

text \<open>The loop that is to clear the \<^verbatim>\<open>bss\<close> segment clears its first byte only.\<close>

lemma clear_bss_first_byte: "clear_bss vaddr n u = (if n = 0 then u else put_ubyte vaddr 0 u)"
proof (induction n arbitrary: u)
  case (Suc n)
  then show ?case by (cases n) (simp_all add: put_ubyte_def)
qed simp

end
