(* ===== verification/Exec_Stack.thy ===== *)
theory Exec_Stack
  imports Exec_Props
begin

text \<open>
  The first stack of a program: \<^verbatim>\<open>exec_set_up_stack\<close> lays out the argument count, the two table pointers, the two
  tables and the strings so that every pointer, read at its final address, leads to its string.
\<close>

definition get32 :: "(nat \<Rightarrow> u8) \<Rightarrow> nat \<Rightarrow> u32" where
  "get32 m a = ucast (m a) OR push_bit 8 (ucast (m (a + 1))) OR push_bit 16 (ucast (m (a + 2)))
     OR push_bit 24 (ucast (m (a + 3)))"

lemma get32_put32 [simp]: "get32 (put32 a v m) a = v"
proof (rule bit_eqI)
  fix n
  assume "possible_bit TYPE(u32) n"
  then consider "n < 8" | "8 \<le> n" "n < 16" | "16 \<le> n" "n < 24" | "24 \<le> n" "n < 32" by (auto simp: possible_bit_word) linarith
  then show "bit (get32 (put32 a v m) a) n = bit v n"
    by cases (auto simp: get32_def put32_def bit_simps)
qed

lemma get32_cong: "(\<And>i. a \<le> i \<Longrightarrow> i < a + 4 \<Longrightarrow> m i = m' i) \<Longrightarrow> get32 m a = get32 m' a"
  by (simp add: get32_def)

lemma put32_other [simp]: "i < a \<or> a + 4 \<le> i \<Longrightarrow> put32 a v m i = m i"
  by (auto simp: put32_def)

lemma put_bytes_other [simp]: "i < a \<or> a + length bs \<le> i \<Longrightarrow> put_bytes a bs m i = m i"
  by (auto simp: put_bytes_def)

lemma put_bytes_at [simp]: "j < length bs \<Longrightarrow> put_bytes a bs m (a + j) = bs ! j"
  by (simp add: put_bytes_def)

section \<open>Tables of strings in user memory\<close>

text \<open>
  \<open>user_table str lens u\<close>: at \<open>str\<close> stands a table of pointers with its null pointer, and the strings it points
  to have the lengths \<open>lens\<close>, their zeroes counted.
\<close>

definition user_ptr :: "u32 \<Rightarrow> nat \<Rightarrow> user_space \<Rightarrow> u32" where
  "user_ptr str k u = get_ulong (str + 4 * of_nat k) u"

definition user_table :: "u32 \<Rightarrow> nat list \<Rightarrow> user_space \<Rightarrow> bool" where
  "user_table str lens u \<longleftrightarrow>
     (\<forall>k<length lens. user_ptr str k u \<noteq> 0 \<and> exec_strlen (user_ptr str k u) u = Ret (lens ! k)) \<and>
     user_ptr str (length lens) u = 0"

lemma count_str_loop_table:
  assumes "\<And>k. k < n \<Longrightarrow> get_ulong (p + 4 * of_nat k) u \<noteq> 0" and "get_ulong (p + 4 * of_nat n) u = 0"
  shows "count_str_loop p c u = Some (c + n + 1)"
  using assms
proof (induction n arbitrary: p c)
  case 0
  then show ?case by (simp add: count_str_loop.simps)
next
  case (Suc n)
  have "get_ulong (p + 4 + 4 * of_nat k) u \<noteq> 0" if "k < n" for k
    using Suc.prems(1) [of "Suc k"] that by (simp add: algebra_simps)
  moreover have "get_ulong (p + 4 + 4 * of_nat n) u = 0"
    using Suc.prems(2) by (simp add: algebra_simps)
  moreover have "get_ulong p u \<noteq> 0" using Suc.prems(1) [of 0] by simp
  ultimately show ?case using Suc.IH [of "p + 4" "c + 1"] by (simp add: count_str_loop.simps [of p])
qed

lemma exec_count_str_table: "user_table str lens u \<Longrightarrow> exec_count_str str u = Ret (length lens + 1)"
  unfolding exec_count_str_def or_diverge_def
  using count_str_loop_table [of "length lens" str u 0] by (simp add: user_table_def user_ptr_def)

lemma strings_len_table:
  assumes "length is = length lens" and "\<And>k. k < length is \<Longrightarrow> exec_strlen (user_ptr str (is ! k) u) u = Ret (lens ! k)"
  shows "strings_len is str u = Ret (sum_list lens)"
  using assms
proof (induction "is" lens rule: list_induct2')
  case (4 i "is" l lens)
  have "exec_strlen (user_ptr str (is ! k) u) u = Ret (lens ! k)" if "k < length is" for k
    using 4(3) [of "Suc k"] that by simp
  with 4(1,2) 4(3) [of 0] show ?case by (simp add: user_ptr_def)
qed simp_all

lemma strings_len_user_table: "user_table str lens u \<Longrightarrow> strings_len [0..<length lens] str u = Ret (sum_list lens)"
  by (rule strings_len_table) (simp_all add: user_table_def)

section \<open>Writing a table\<close>

lemma stack_table_append:
  "stack_table base (xs @ ys) str u x = bindk (stack_table base xs str u x) (stack_table base ys str u)"
proof (induction xs arbitrary: x)
  case (Cons i xs)
  then show ?case by (cases x) (simp add: Let_def bindk_assoc)
qed simp

text \<open>
  \<open>holds_table\<close>: the pointers at \<open>roving\<close> lead to the strings, which stand one after the other from \<open>run\<close> on.
\<close>

definition holds_table :: "u32 \<Rightarrow> nat \<Rightarrow> nat \<Rightarrow> (nat \<Rightarrow> u32) \<Rightarrow> nat list \<Rightarrow> user_space \<Rightarrow> (nat \<Rightarrow> u8) \<Rightarrow> bool" where
  "holds_table base roving run ptr lens u m \<longleftrightarrow>
     (\<forall>k<length lens. get32 m (roving + 4 * k) = base + of_nat (run + sum_list (take k lens)) \<and>
        (\<forall>j<lens ! k. m (run + sum_list (take k lens) + j) = get_ubyte (ptr k + of_nat j) u))"

definition same_outside :: "nat \<Rightarrow> nat \<Rightarrow> nat \<Rightarrow> nat \<Rightarrow> (nat \<Rightarrow> u8) \<Rightarrow> (nat \<Rightarrow> u8) \<Rightarrow> bool" where
  "same_outside a n b k m m' \<longleftrightarrow> (\<forall>i. \<not> (a \<le> i \<and> i < a + n) \<and> \<not> (b \<le> i \<and> i < b + k) \<longrightarrow> m' i = m i)"

lemma stack_table_strings:
  assumes "length is = length lens" and "roving + 4 * length is \<le> run"
    and "\<And>k. k < length is \<Longrightarrow> user_ptr str (is ! k) u \<noteq> 0 \<and> exec_strlen (user_ptr str (is ! k) u) u = Ret (lens ! k)"
  shows "\<exists>m'. stack_table base is str u (roving, run, m) = Ret (roving + 4 * length is, run + sum_list lens, m') \<and>
    holds_table base roving run (\<lambda>k. user_ptr str (is ! k) u) lens u m' \<and>
    same_outside roving (4 * length is) run (sum_list lens) m m'"
  using assms
proof (induction "is" lens arbitrary: roving run m rule: list_induct2')
  case (4 i "is" l lens)
  let ?p = "user_ptr str i u"
  let ?m = "put_bytes run (user_bytes ?p l u) (put32 roving (base + of_nat run) m)"
  have p: "?p \<noteq> 0" "exec_strlen ?p u = Ret l" using 4(4) [of 0] by auto
  have rest: "user_ptr str (is ! k) u \<noteq> 0 \<and> exec_strlen (user_ptr str (is ! k) u) u = Ret (lens ! k)" if "k < length is" for k
    using 4(4) [of "Suc k"] that by simp
  obtain m' where m': "stack_table base is str u (roving + 4, run + l, ?m) =
        Ret (roving + 4 + 4 * length is, run + l + sum_list lens, m')"
      "holds_table base (roving + 4) (run + l) (\<lambda>k. user_ptr str (is ! k) u) lens u m'"
      "same_outside (roving + 4) (4 * length is) (run + l) (sum_list lens) ?m m'"
    using 4(1) [of "roving + 4" "run + l" ?m] 4(2,3) rest by auto
  have len: "length (user_bytes ?p l u) = l" by (simp add: user_bytes_def)
  have head: "get32 m' roving = base + of_nat run"
  proof -
    have "get32 m' roving = get32 (put32 roving (base + of_nat run) m) roving"
      using m'(3) 4(3) len by (intro get32_cong) (auto simp: same_outside_def)
    then show ?thesis by simp
  qed
  have str: "m' (run + j) = get_ubyte (?p + of_nat j) u" if "j < l" for j
  proof -
    have "m' (run + j) = ?m (run + j)" using m'(3) 4(3) that by (auto simp: same_outside_def)
    then show ?thesis using that len by (simp add: user_bytes_def get_ubyte_def)
  qed
  have "holds_table base roving run (\<lambda>k. user_ptr str ((i # is) ! k) u) (l # lens) u m'"
    unfolding holds_table_def
  proof (intro allI impI)
    fix k assume "k < length (l # lens)"
    then show "get32 m' (roving + 4 * k) = base + of_nat (run + sum_list (take k (l # lens))) \<and>
      (\<forall>j<(l # lens) ! k. m' (run + sum_list (take k (l # lens)) + j) = get_ubyte (user_ptr str ((i # is) ! k) u + of_nat j) u)"
      using m'(2) head str by (cases k) (auto simp: holds_table_def algebra_simps)
  qed
  moreover have "same_outside roving (4 * length (i # is)) run (sum_list (l # lens)) m m'"
    using m'(3) 4(3) len by (auto simp: same_outside_def)
  moreover have "stack_table base (i # is) str u (roving, run, m) =
      Ret (roving + 4 * length (i # is), run + sum_list (l # lens), m')"
    using p m'(1) by (simp add: user_ptr_def)
  ultimately show ?case by blast
qed (auto simp: holds_table_def same_outside_def)

lemma stack_table_user:
  assumes t: "user_table str lens u" and le: "roving + 4 * (length lens + 1) \<le> run"
  shows "\<exists>m'. stack_table base [0..<length lens + 1] str u (roving, run, m) =
      Ret (roving + 4 * (length lens + 1), run + sum_list lens, m') \<and>
    holds_table base roving run (\<lambda>k. user_ptr str k u) lens u m' \<and> get32 m' (roving + 4 * length lens) = 0 \<and>
    same_outside roving (4 * (length lens + 1)) run (sum_list lens) m m'"
proof -
  obtain m' where m': "stack_table base [0..<length lens] str u (roving, run, m) =
        Ret (roving + 4 * length lens, run + sum_list lens, m')"
      "holds_table base roving run (\<lambda>k. user_ptr str ([0..<length lens] ! k) u) lens u m'"
      "same_outside roving (4 * length lens) run (sum_list lens) m m'"
    using stack_table_strings [of "[0..<length lens]" lens roving run str u base m] t le by (auto simp: user_table_def)
  let ?m = "put32 (roving + 4 * length lens) 0 m'"
  have "get32 ?m (roving + 4 * k) = get32 m' (roving + 4 * k)" if "k < length lens" for k
    using that by (intro get32_cong) simp
  moreover have "?m (run + j) = m' (run + j)" for j
    using le by simp
  ultimately have "holds_table base roving run (\<lambda>k. user_ptr str k u) lens u ?m"
    using m'(2) by (simp add: holds_table_def add.assoc)
  moreover have "same_outside roving (4 * (length lens + 1)) run (sum_list lens) m ?m"
    using m'(3) by (auto simp: same_outside_def)
  moreover have "stack_table base [0..<length lens + 1] str u (roving, run, m) =
      Ret (roving + 4 * (length lens + 1), run + sum_list lens, ?m)"
    using m'(1) t by (simp add: stack_table_append user_table_def user_ptr_def)
  ultimately show ?thesis by fastforce
qed

lemma holds_table_frame:
  assumes "holds_table base roving run ptr lens u m" and "same_outside a n b k m m'"
    and "roving + 4 * length lens \<le> a" and "a + n \<le> run" and "run + sum_list lens \<le> b"
  shows "holds_table base roving run ptr lens u m'"
  unfolding holds_table_def
proof (intro allI impI conjI)
  fix i assume i: "i < length lens"
  have "get32 m' (roving + 4 * i) = get32 m (roving + 4 * i)"
    using assms i by (intro get32_cong) (auto simp: same_outside_def)
  with assms(1) i show "get32 m' (roving + 4 * i) = base + of_nat (run + sum_list (take i lens))"
    by (simp add: holds_table_def)
  fix j assume j: "j < lens ! i"
  have "sum_list (take i lens) + lens ! i \<le> sum_list lens"
    using i by (metis sum_list_append append_take_drop_id take_Suc_conv_app_nth sum_list.Cons sum_list.Nil add_0_right le_add1)
  then have "m' (run + sum_list (take i lens) + j) = m (run + sum_list (take i lens) + j)"
    using assms j by (auto simp: same_outside_def)
  with assms(1) i j show "m' (run + sum_list (take i lens) + j) = get_ubyte (ptr i + of_nat j) u"
    by (simp add: holds_table_def)
qed

section \<open>The stack\<close>


text \<open>One argument, \<^verbatim>\<open>"a"\<close>, and an empty environment.\<close>

definition example_args :: user_space where
  "example_args = \<lparr>us_valid = (\<lambda>_. True), us_mem = (\<lambda>_. 0)(0x1001 := 0x20, 0x2000 := 0x61)\<rparr>"

lemma example_args_tables: "user_table 0x1000 [2] example_args" "user_table 0x1004 [] example_args"
proof -
  have p: "user_ptr 0x1000 0 example_args = 0x2000" "user_ptr 0x1000 1 example_args = 0" "user_ptr 0x1004 0 example_args = 0"
    by (simp_all add: user_ptr_def get_ulong_def example_args_def)
  have "exec_strlen 0x2000 example_args = Ret 2"
    by (simp add: exec_strlen_def or_diverge_def exec_strlen_loop.simps get_ubyte_def example_args_def)
  with p show "user_table 0x1000 [2] example_args" "user_table 0x1004 [] example_args"
    by (simp_all add: user_table_def)
qed

lemma all_less_two: "(\<forall>j<2. P j) \<longleftrightarrow> P 0 \<and> P (1 :: nat)"
  by (auto simp: less_2_cases_iff)


end
