(* ===== verification/Ext2_Base.thy ===== *)
theory Ext2_Base
  imports Buffer Sys_Calls
begin

text \<open>
  The ext2 filesystem, \<^verbatim>\<open>sys/fs/ext2\<close>: the data of \<^verbatim>\<open>sys/include/fs/ext2.h\<close>, its macros, and the access to
  the block cache, to the superblock and to the inodes that all its routines share. The data of a block is
  read and written in the kernel memory behind its buffer; superblock, group descriptors and cached inodes
  are records. An inode pointer is an index: 0 to 127 are the cells of the inode cache, 128 is the dummy
  \<^verbatim>\<open>free_list\<close>. \<^verbatim>\<open>EXT2\<close> is the only filesystem type, so that the tests of \<^verbatim>\<open>f_fs\<close> never fail.
\<close>

section \<open>Constants\<close>

abbreviation (input) EXT2_SB_OFF :: u32 where "EXT2_SB_OFF \<equiv> 1024"
abbreviation (input) EXT2_MAGIC :: u16 where "EXT2_MAGIC \<equiv> 0xEF53"
abbreviation (input) EXT2_ROOT_INO :: u32 where "EXT2_ROOT_INO \<equiv> 2"
abbreviation (input) EXT2_ERROR_FS :: u16 where "EXT2_ERROR_FS \<equiv> 2"
abbreviation (input) EXT2_ERRORS_RO :: u16 where "EXT2_ERRORS_RO \<equiv> 2"
abbreviation (input) EXT2_ERRORS_PANIC :: u16 where "EXT2_ERRORS_PANIC \<equiv> 3"
abbreviation (input) EXT2_S_IFMT :: u16 where "EXT2_S_IFMT \<equiv> 0xF000"
abbreviation (input) EXT2_S_IFSOCK :: u16 where "EXT2_S_IFSOCK \<equiv> 0xC000"
abbreviation (input) EXT2_S_IFLNK :: u16 where "EXT2_S_IFLNK \<equiv> 0xA000"
abbreviation (input) EXT2_S_IFREG :: u16 where "EXT2_S_IFREG \<equiv> 0x8000"
abbreviation (input) EXT2_S_IFBLK :: u16 where "EXT2_S_IFBLK \<equiv> 0x6000"
abbreviation (input) EXT2_S_IFDIR :: u16 where "EXT2_S_IFDIR \<equiv> 0x4000"
abbreviation (input) EXT2_S_IFCHR :: u16 where "EXT2_S_IFCHR \<equiv> 0x2000"
abbreviation (input) EXT2_S_IFIFO :: u16 where "EXT2_S_IFIFO \<equiv> 0x1000"
abbreviation (input) EXT2_S_ISGID :: u32 where "EXT2_S_ISGID \<equiv> 0x400"
abbreviation (input) EXT2_S_ISVTX :: u16 where "EXT2_S_ISVTX \<equiv> 0x200"
abbreviation (input) EXT2_FT_UNKNOWN :: u8 where "EXT2_FT_UNKNOWN \<equiv> 0"
abbreviation (input) EXT2_FT_REG_FILE :: u8 where "EXT2_FT_REG_FILE \<equiv> 1"
abbreviation (input) EXT2_FT_DIR :: u8 where "EXT2_FT_DIR \<equiv> 2"
abbreviation (input) EXT2_FT_CHRDEV :: u8 where "EXT2_FT_CHRDEV \<equiv> 3"
abbreviation (input) EXT2_FT_BLKDEV :: u8 where "EXT2_FT_BLKDEV \<equiv> 4"
abbreviation (input) EXT2_FT_FIFO :: u8 where "EXT2_FT_FIFO \<equiv> 5"
abbreviation (input) EXT2_FT_SOCK :: u8 where "EXT2_FT_SOCK \<equiv> 6"
abbreviation (input) EXT2_FT_SYMLINK :: u8 where "EXT2_FT_SYMLINK \<equiv> 7"
abbreviation (input) EXT2_DIRECT_BLOCKS :: nat where "EXT2_DIRECT_BLOCKS \<equiv> 11"
abbreviation (input) EXT2_INDIRECT_BLOCK :: nat where "EXT2_INDIRECT_BLOCK \<equiv> 12"
abbreviation (input) EXT2_DINDIRECT_BLOCK :: nat where "EXT2_DINDIRECT_BLOCK \<equiv> 13"
abbreviation (input) EXT2_TINDIRECT_BLOCK :: nat where "EXT2_TINDIRECT_BLOCK \<equiv> 14"
abbreviation (input) EXT2_MAX_NAME_LEN :: int where "EXT2_MAX_NAME_LEN \<equiv> 255"
abbreviation (input) I_MODIFIED :: u32 where "I_MODIFIED \<equiv> 1"
abbreviation (input) PERM_EXEC :: u32 where "PERM_EXEC \<equiv> 1"
abbreviation (input) PERM_SRCH :: u32 where "PERM_SRCH \<equiv> 1"
abbreviation (input) PERM_WRITE :: u32 where "PERM_WRITE \<equiv> 2"
abbreviation (input) PERM_READ :: u32 where "PERM_READ \<equiv> 4"
abbreviation (input) DEFAULT_BLOCK_SIZE :: u32 where "DEFAULT_BLOCK_SIZE \<equiv> 1024"

section \<open>Data\<close>

text \<open>
  The superblock. The fields that the code names are fields here; the 144 bytes after
  \<^verbatim>\<open>s_block_group_nr\<close>, which it only copies, are \<open>s_rest\<close>.
\<close>

record ext2_superblock =
  s_inodes_count :: u32
  s_blocks_count :: u32
  s_r_blocks_count :: u32
  s_free_blocks_count :: u32
  s_free_inodes_count :: u32
  s_first_data_block :: u32
  s_log_block_size :: u32
  s_log_frag_size :: u32
  s_blocks_per_group :: u32
  s_frags_per_group :: u32
  s_inodes_per_group :: u32
  s_mtime :: u32
  s_wtime :: u32
  s_mnt_count :: u16
  s_max_mnt_count :: u16
  s_magic :: u16
  s_state :: u16
  s_errors :: u16
  s_minor_rev_level :: u16
  s_lastcheck :: u32
  s_checkinterval :: u32
  s_creator_os :: u32
  s_rev_level :: u32
  s_def_resuid :: u16
  s_def_resgid :: u16
  s_first_ino :: u32
  s_inode_size :: u16
  s_block_group_nr :: u16
  s_rest :: "u8 list"

record ext2_blk_group_desc =
  bg_block_bitmap :: u32
  bg_inode_bitmap :: u32
  bg_inode_table :: u32
  bg_free_blocks_count :: u16
  bg_free_inodes_count :: u16
  bg_used_dirs_count :: u16
  bg_reserved :: "u8 list"

record ext2_superblock_m =
  sb :: ext2_superblock
  bgd_table :: "nat \<Rightarrow> ext2_blk_group_desc"
  nr_blk_group :: nat
  sb_mutex :: mutex
  modified :: bool

text \<open>The inode on the disk; its \<^verbatim>\<open>i_flags\<close> is \<open>i_eflags\<close> here. \<^verbatim>\<open>i_block\<close> has 15 entries, \<^verbatim>\<open>i_osd2\<close> 3.\<close>

record ext2_inode =
  i_mode :: u16
  i_uid :: u16
  i_size :: u32
  i_atime :: u32
  i_ctime :: u32
  i_mtime :: u32
  i_dtime :: u32
  i_gid :: u16
  i_links_count :: u16
  i_blocks :: u32
  i_eflags :: u32
  i_osd1 :: u32
  i_block :: "u32 list"
  i_generation :: u32
  i_file_acl :: u32
  i_dir_acl :: u32
  i_faddr :: u32
  i_osd2 :: "u32 list"

record ext2_inode_m =
  i_ino :: ext2_inode
  i_mutex :: mutex
  i_dev :: u32
  i_num :: u32
  i_flags :: u32
  i_count :: int
  i_prev_free :: "nat option"
  i_next_free :: "nat option"
  i_next :: "nat option"
  i_prev :: "nat option"

text \<open>
  The state gains the superblocks of the mounted filesystems, the inode cache with its hash queues, and the
  static variable of \<^verbatim>\<open>namei.c\<close>.
\<close>

record ext2_state = buf_state +
  f_super :: "nat \<Rightarrow> ext2_superblock_m option"
  inodes :: "nat \<Rightarrow> ext2_inode_m"
  inode_hash :: "nat \<Rightarrow> nat option"
  symlinks :: nat

text \<open>
  What the filesystem is built on: the block cache and the rounds its loop may take, the number of rounds that
  the filesystem's own unbounded loops may take, the addresses that identify the locks of superblocks and inodes
  to sleepers, the terminal rows of the device table, and what an uninitialised buffer pointer on the stack holds.
\<close>

record 's e2_env =
  e2_bufs :: "'s buf_env"
  e2_rounds :: nat
  e2_fuel :: nat
  sb_mutex_addr :: "nat \<Rightarrow> u32"
  ino_mutex_addr :: "nat \<Rightarrow> u32"
  ino_addr :: "nat \<Rightarrow> u32"
  tty_ops :: "'s chr_dev_ops"
  ttyx_ops :: "'s chr_dev_ops"
  stack_bp :: "nat option"

section \<open>Macros\<close>

text \<open>
  \<^verbatim>\<open>EXT2_BLOCKSIZE\<close> and \<^verbatim>\<open>EXT2_INODE_SIZE\<close> are of type \<^verbatim>\<open>int\<close>, and the divisions between them are signed. The two numbers
  per group are not zero: \<^verbatim>\<open>ext2_init\<close> has divided by them.
\<close>

definition sdiv32 :: "u32 \<Rightarrow> u32 \<Rightarrow> u32" where
  "sdiv32 a b = word_of_int (c_div (sint a) (sint b))"

definition smod32 :: "u32 \<Rightarrow> u32 \<Rightarrow> u32" where
  "smod32 a b = word_of_int (c_mod (sint a) (sint b))"

definition EXT2_BLOCKSIZE :: "ext2_superblock_m \<Rightarrow> u32" where
  "EXT2_BLOCKSIZE m = push_bit (unat (s_log_block_size (sb m))) 1024"

abbreviation blksize :: "ext2_superblock_m \<Rightarrow> nat" where
  "blksize m \<equiv> unat (EXT2_BLOCKSIZE m)"

definition EXT2_INODE_SIZE :: "ext2_superblock_m \<Rightarrow> u32" where
  "EXT2_INODE_SIZE m = (if s_rev_level (sb m) \<ge> 1 then ucast (s_inode_size (sb m)) else 128)"

definition EXT2_INODES_PER_BLOCK :: "ext2_superblock_m \<Rightarrow> u32" where
  "EXT2_INODES_PER_BLOCK m = sdiv32 (EXT2_BLOCKSIZE m) (EXT2_INODE_SIZE m)"

definition EXT2_INODES_PER_GROUP :: "ext2_superblock_m \<Rightarrow> u32" where
  "EXT2_INODES_PER_GROUP m = s_inodes_per_group (sb m)"

definition EXT2_BLOCKS_PER_GROUP :: "ext2_superblock_m \<Rightarrow> u32" where
  "EXT2_BLOCKS_PER_GROUP m = s_blocks_per_group (sb m)"

definition EXT2_BLOCK_GROUP :: "u32 \<Rightarrow> ext2_superblock_m \<Rightarrow> u32" where
  "EXT2_BLOCK_GROUP num m = (num - 1) div EXT2_INODES_PER_GROUP m"

definition EXT2_INODE_INDEX :: "u32 \<Rightarrow> ext2_superblock_m \<Rightarrow> u32" where
  "EXT2_INODE_INDEX num m = (num - 1) mod EXT2_INODES_PER_GROUP m"

definition EXT2_INODE_BLOCK :: "u32 \<Rightarrow> ext2_superblock_m \<Rightarrow> u32" where
  "EXT2_INODE_BLOCK ind m = sdiv32 (ind * EXT2_INODE_SIZE m) (EXT2_BLOCKSIZE m)"

definition EXT2_FIRST_FREE_INO :: "ext2_superblock_m \<Rightarrow> u32" where
  "EXT2_FIRST_FREE_INO m = (if s_rev_level (sb m) \<ge> 1 then s_first_ino (sb m) else 11)"

definition EXT2_S_ISSOCK :: "u16 \<Rightarrow> bool" where "EXT2_S_ISSOCK m \<longleftrightarrow> m AND EXT2_S_IFMT = EXT2_S_IFSOCK"
definition EXT2_S_ISLNK :: "u16 \<Rightarrow> bool" where "EXT2_S_ISLNK m \<longleftrightarrow> m AND EXT2_S_IFMT = EXT2_S_IFLNK"
definition EXT2_S_ISREG :: "u16 \<Rightarrow> bool" where "EXT2_S_ISREG m \<longleftrightarrow> m AND EXT2_S_IFMT = EXT2_S_IFREG"
definition EXT2_S_ISBLK :: "u16 \<Rightarrow> bool" where "EXT2_S_ISBLK m \<longleftrightarrow> m AND EXT2_S_IFMT = EXT2_S_IFBLK"
definition EXT2_S_ISCHR :: "u16 \<Rightarrow> bool" where "EXT2_S_ISCHR m \<longleftrightarrow> m AND EXT2_S_IFMT = EXT2_S_IFCHR"
definition EXT2_S_ISFIFO :: "u16 \<Rightarrow> bool" where "EXT2_S_ISFIFO m \<longleftrightarrow> m AND EXT2_S_IFMT = EXT2_S_IFIFO"
definition EXT2_S_ISDIR :: "u16 \<Rightarrow> bool" where "EXT2_S_ISDIR m \<longleftrightarrow> m AND EXT2_S_IFMT = EXT2_S_IFDIR"

section \<open>Structures as bytes\<close>

definition encode_inode :: "ext2_inode \<Rightarrow> u8 list" where
  "encode_inode i = w16 (i_mode i) @ w16 (i_uid i) @ w32 (i_size i) @ w32 (i_atime i) @ w32 (i_ctime i) @
     w32 (i_mtime i) @ w32 (i_dtime i) @ w16 (i_gid i) @ w16 (i_links_count i) @ w32 (i_blocks i) @
     w32 (i_eflags i) @ w32 (i_osd1 i) @ concat (map w32 (i_block i)) @ w32 (i_generation i) @
     w32 (i_file_acl i) @ w32 (i_dir_acl i) @ w32 (i_faddr i) @ concat (map w32 (i_osd2 i))"

definition decode_inode :: "u8 list \<Rightarrow> ext2_inode" where
  "decode_inode bs = \<lparr>i_mode = le16 bs 0, i_uid = le16 bs 2, i_size = le32 bs 4, i_atime = le32 bs 8,
     i_ctime = le32 bs 12, i_mtime = le32 bs 16, i_dtime = le32 bs 20, i_gid = le16 bs 24,
     i_links_count = le16 bs 26, i_blocks = le32 bs 28, i_eflags = le32 bs 32, i_osd1 = le32 bs 36,
     i_block = map (\<lambda>k. le32 bs (40 + 4 * k)) [0..<15], i_generation = le32 bs 100, i_file_acl = le32 bs 104,
     i_dir_acl = le32 bs 108, i_faddr = le32 bs 112, i_osd2 = map (\<lambda>k. le32 bs (116 + 4 * k)) [0..<3]\<rparr>"

definition encode_bgd :: "ext2_blk_group_desc \<Rightarrow> u8 list" where
  "encode_bgd b = w32 (bg_block_bitmap b) @ w32 (bg_inode_bitmap b) @ w32 (bg_inode_table b) @
     w16 (bg_free_blocks_count b) @ w16 (bg_free_inodes_count b) @ w16 (bg_used_dirs_count b) @ bg_reserved b"

definition decode_bgd :: "u8 list \<Rightarrow> ext2_blk_group_desc" where
  "decode_bgd bs = \<lparr>bg_block_bitmap = le32 bs 0, bg_inode_bitmap = le32 bs 4, bg_inode_table = le32 bs 8,
     bg_free_blocks_count = le16 bs 12, bg_free_inodes_count = le16 bs 14, bg_used_dirs_count = le16 bs 16,
     bg_reserved = map (\<lambda>k. byte_at bs (18 + k)) [0..<14]\<rparr>"

definition encode_super :: "ext2_superblock \<Rightarrow> u8 list" where
  "encode_super s = w32 (s_inodes_count s) @ w32 (s_blocks_count s) @ w32 (s_r_blocks_count s) @
     w32 (s_free_blocks_count s) @ w32 (s_free_inodes_count s) @ w32 (s_first_data_block s) @
     w32 (s_log_block_size s) @ w32 (s_log_frag_size s) @ w32 (s_blocks_per_group s) @
     w32 (s_frags_per_group s) @ w32 (s_inodes_per_group s) @ w32 (s_mtime s) @ w32 (s_wtime s) @
     w16 (s_mnt_count s) @ w16 (s_max_mnt_count s) @ w16 (s_magic s) @ w16 (s_state s) @ w16 (s_errors s) @
     w16 (s_minor_rev_level s) @ w32 (s_lastcheck s) @ w32 (s_checkinterval s) @ w32 (s_creator_os s) @
     w32 (s_rev_level s) @ w16 (s_def_resuid s) @ w16 (s_def_resgid s) @ w32 (s_first_ino s) @
     w16 (s_inode_size s) @ w16 (s_block_group_nr s) @ s_rest s"

definition decode_super :: "u8 list \<Rightarrow> ext2_superblock" where
  "decode_super bs = \<lparr>s_inodes_count = le32 bs 0, s_blocks_count = le32 bs 4, s_r_blocks_count = le32 bs 8,
     s_free_blocks_count = le32 bs 12, s_free_inodes_count = le32 bs 16, s_first_data_block = le32 bs 20,
     s_log_block_size = le32 bs 24, s_log_frag_size = le32 bs 28, s_blocks_per_group = le32 bs 32,
     s_frags_per_group = le32 bs 36, s_inodes_per_group = le32 bs 40, s_mtime = le32 bs 44, s_wtime = le32 bs 48,
     s_mnt_count = le16 bs 52, s_max_mnt_count = le16 bs 54, s_magic = le16 bs 56, s_state = le16 bs 58,
     s_errors = le16 bs 60, s_minor_rev_level = le16 bs 62, s_lastcheck = le32 bs 64, s_checkinterval = le32 bs 68,
     s_creator_os = le32 bs 72, s_rev_level = le32 bs 76, s_def_resuid = le16 bs 80, s_def_resgid = le16 bs 82,
     s_first_ino = le32 bs 84, s_inode_size = le16 bs 88, s_block_group_nr = le16 bs 90,
     s_rest = map (\<lambda>k. byte_at bs (92 + k)) [0..<144]\<rparr>"

section \<open>Kernel memory\<close>

definition kbytes :: "u32 \<Rightarrow> nat \<Rightarrow> 'a buf_state_scheme \<Rightarrow> u8 list" where
  "kbytes a n s = map (\<lambda>i. kmem s (a + of_nat i)) [0..<n]"

definition kwrite :: "u32 \<Rightarrow> u8 list \<Rightarrow> 'a buf_state_scheme \<Rightarrow> 'a buf_state_scheme" where
  "kwrite a bs s = s\<lparr>kmem := (\<lambda>x. if unat (x - a) < length bs then bs ! unat (x - a) else kmem s x)\<rparr>"

definition kput :: "u32 \<Rightarrow> u8 \<Rightarrow> 'a buf_state_scheme \<Rightarrow> 'a buf_state_scheme" where
  "kput a v s = s\<lparr>kmem := (kmem s)(a := v)\<rparr>"

section \<open>Access to the components below\<close>

text \<open>
  A call that puts the caller to sleep, or that hands the processor to somebody else, does not return here:
  what follows it runs when the caller is next scheduled.
\<close>

definition stays :: "'a sched_state_scheme \<Rightarrow> ('r \<times> 'a sched_state_scheme) kres \<Rightarrow> ('r \<times> 'a sched_state_scheme) kres" where
  "stays s r = bindk r (\<lambda>(x, t). if current_process t = current_process s then Ret (x, t) else Stop Blocked)"

definition e2_bread :: "'a ext2_state_scheme e2_env \<Rightarrow> u32 \<Rightarrow> u32 \<Rightarrow> 'a ext2_state_scheme \<Rightarrow>
    (nat option \<times> 'a ext2_state_scheme) kres" where
  "e2_bread E dev blk s =
     stays s (bindk (bread (e2_rounds E) (e2_bufs E) dev blk s) (\<lambda>r.
       case r of Block bp s \<Rightarrow> Ret (Some bp, s) | ReadError s \<Rightarrow> Ret (None, s) | ReadSleeps s \<Rightarrow> Stop Blocked))"

text \<open>The callers that use the result without a test for \<^verbatim>\<open>NULL\<close>.\<close>

definition e2_block :: "'a ext2_state_scheme e2_env \<Rightarrow> u32 \<Rightarrow> u32 \<Rightarrow> 'a ext2_state_scheme \<Rightarrow>
    (nat \<times> 'a ext2_state_scheme) kres" where
  "e2_block E dev blk s =
     bindk (e2_bread E dev blk s) (\<lambda>(r, s). case r of Some bp \<Rightarrow> Ret (bp, s) | None \<Rightarrow> Stop (Fault ''NULL buffer''))"

definition e2_getblk :: "'a ext2_state_scheme e2_env \<Rightarrow> u32 \<Rightarrow> u32 \<Rightarrow> 'a ext2_state_scheme \<Rightarrow>
    (nat \<times> 'a ext2_state_scheme) kres" where
  "e2_getblk E dev blk s =
     stays s (bindk (getblk (e2_rounds E) (e2_bufs E) dev blk s) (\<lambda>r.
       case r of Got bp s \<Rightarrow> Ret (bp, s) | Sleeps s \<Rightarrow> Stop Blocked))"

definition e2_brelse :: "'a ext2_state_scheme e2_env \<Rightarrow> nat \<Rightarrow> 'a ext2_state_scheme \<Rightarrow> 'a ext2_state_scheme kres" where
  "e2_brelse E bp s =
     bindk (stays s (bindk (brelse (e2_bufs E) bp s) (\<lambda>s. Ret ((), s)))) (\<lambda>(_, s). Ret s)"

definition bdata :: "nat \<Rightarrow> 'a buf_state_scheme \<Rightarrow> u32" where
  "bdata bp s = b_data (buffers s bp)"

definition set_dwrite :: "nat \<Rightarrow> 'a buf_state_scheme \<Rightarrow> 'a buf_state_scheme" where
  "set_dwrite bp = upd_buf bp (\<lambda>b. b\<lparr>b_flags := b_flags b OR B_DWRITE\<rparr>)"

section \<open>Superblocks\<close>

text \<open>The filesystem of a device and its superblock.\<close>

definition get_ext2_superblock :: "u32 \<Rightarrow> 'a ext2_state_scheme \<Rightarrow> (nat \<times> ext2_superblock_m) kres" where
  "get_ext2_superblock dev s =
     (case find_filesystem dev s of
        None \<Rightarrow> Stop (Panic ''get_ext2_superblock: invalid device'')
      | Some fs \<Rightarrow>
          (case f_super s fs of None \<Rightarrow> Stop (Fault ''f_super'') | Some m \<Rightarrow> Ret (fs, m)))"

definition upd_super :: "nat \<Rightarrow> (ext2_superblock_m \<Rightarrow> ext2_superblock_m) \<Rightarrow> 'a ext2_state_scheme \<Rightarrow> 'a ext2_state_scheme" where
  "upd_super fs f s = s\<lparr>f_super := (f_super s)(fs := map_option f (f_super s fs))\<rparr>"

definition upd_bgd :: "nat \<Rightarrow> (ext2_blk_group_desc \<Rightarrow> ext2_blk_group_desc) \<Rightarrow> ext2_superblock_m \<Rightarrow> ext2_superblock_m" where
  "upd_bgd g f m = m\<lparr>bgd_table := (bgd_table m)(g := f (bgd_table m g))\<rparr>"

text \<open>
  \<^verbatim>\<open>mutex_lock(&sb->mutex); ...; sb->modified = 1; mutex_unlock(&sb->mutex);\<close>, the change of the counters under
  the lock.
\<close>

definition locked_super :: "'a ext2_state_scheme e2_env \<Rightarrow> nat \<Rightarrow> (ext2_superblock_m \<Rightarrow> ext2_superblock_m) \<Rightarrow>
    'a ext2_state_scheme \<Rightarrow> 'a ext2_state_scheme kres" where
  "locked_super E fs f s =
     (case f_super s fs of
        None \<Rightarrow> Stop (Fault ''f_super'')
      | Some m \<Rightarrow>
          bindk (mutex_lock (sb_mutex_addr E fs) (sb_mutex m) s) (\<lambda>r.
          case r of
            Waiting s \<Rightarrow> Stop Blocked
          | Acquired mu s \<Rightarrow>
              let s = upd_super fs (\<lambda>m. (f (m\<lparr>sb_mutex := mu\<rparr>))\<lparr>modified := True\<rparr>) s
              in bindk (stays s (mutex_unlock (sb_mutex_addr E fs) mu s)) (\<lambda>(mu, s).
                 Ret (upd_super fs (\<lambda>m. m\<lparr>sb_mutex := mu\<rparr>) s))))"

section \<open>Inodes\<close>

definition upd_ino :: "nat \<Rightarrow> (ext2_inode_m \<Rightarrow> ext2_inode_m) \<Rightarrow> 'a ext2_state_scheme \<Rightarrow> 'a ext2_state_scheme" where
  "upd_ino ip f s = s\<lparr>inodes := (inodes s)(ip := f (inodes s ip))\<rparr>"

abbreviation ino :: "'a ext2_state_scheme \<Rightarrow> nat \<Rightarrow> ext2_inode" where
  "ino s ip \<equiv> i_ino (inodes s ip)"

definition upd_i :: "nat \<Rightarrow> (ext2_inode \<Rightarrow> ext2_inode) \<Rightarrow> 'a ext2_state_scheme \<Rightarrow> 'a ext2_state_scheme" where
  "upd_i ip f = upd_ino ip (\<lambda>i. i\<lparr>i_ino := f (i_ino i)\<rparr>)"

definition set_i_modified :: "nat \<Rightarrow> 'a ext2_state_scheme \<Rightarrow> 'a ext2_state_scheme" where
  "set_i_modified ip = upd_ino ip (\<lambda>i. i\<lparr>i_flags := i_flags i OR I_MODIFIED\<rparr>)"

definition touch_mtime :: "nat \<Rightarrow> 'a ext2_state_scheme \<Rightarrow> 'a ext2_state_scheme" where
  "touch_mtime ip s = upd_i ip (\<lambda>i. i\<lparr>i_mtime := CURRENT_TIME s\<rparr>) s"

definition lock_ino :: "'a ext2_state_scheme e2_env \<Rightarrow> nat \<Rightarrow> 'a ext2_state_scheme \<Rightarrow> 'a ext2_state_scheme kres" where
  "lock_ino E ip s =
     bindk (mutex_lock (ino_mutex_addr E ip) (i_mutex (inodes s ip)) s) (\<lambda>r.
     case r of
       Waiting s \<Rightarrow> Stop Blocked
     | Acquired mu s \<Rightarrow> Ret (upd_ino ip (\<lambda>i. i\<lparr>i_mutex := mu\<rparr>) s))"

definition unlock_ino :: "'a ext2_state_scheme e2_env \<Rightarrow> nat \<Rightarrow> 'a ext2_state_scheme \<Rightarrow> 'a ext2_state_scheme kres" where
  "unlock_ino E ip s =
     bindk (stays s (mutex_unlock (ino_mutex_addr E ip) (i_mutex (inodes s ip)) s)) (\<lambda>(mu, s).
     Ret (upd_ino ip (\<lambda>i. i\<lparr>i_mutex := mu\<rparr>) s))"

end
