(* ===== verification/Ext2_Alloc.thy ===== *)
theory Ext2_Alloc
  imports Ext2_Base
begin

text \<open>Allocation of blocks and inodes: \<^verbatim>\<open>sys/fs/ext2/balloc.c\<close> and \<^verbatim>\<open>sys/fs/ext2/ialloc.c\<close>.\<close>

section \<open>Blocks\<close>

text \<open>The scan of a bitmap for a clear bit, from bit \<open>off\<close> on; \<open>n\<close> bits are left in the block.\<close>

fun bitmap_scan :: "(nat \<Rightarrow> u8) \<Rightarrow> nat \<Rightarrow> nat \<Rightarrow> nat" where
  "bitmap_scan f 0 off = off"
| "bitmap_scan f (Suc n) off = (if \<not> bit (f (off div 8)) (off mod 8) then off else bitmap_scan f n (off + 1))"

definition set_kbit :: "u32 \<Rightarrow> nat \<Rightarrow> 'a buf_state_scheme \<Rightarrow> 'a buf_state_scheme" where
  "set_kbit base off s = kput (base + of_nat (off div 8)) (kmem s (base + of_nat (off div 8)) OR push_bit (off mod 8) 1) s"

definition clear_kbit :: "u32 \<Rightarrow> nat \<Rightarrow> 'a buf_state_scheme \<Rightarrow> 'a buf_state_scheme" where
  "clear_kbit base off s =
     kput (base + of_nat (off div 8)) (kmem s (base + of_nat (off div 8)) AND NOT (push_bit (off mod 8) 1)) s"

definition bgd_in_table :: "nat \<Rightarrow> ext2_superblock_m \<Rightarrow> unit kres" where
  "bgd_in_table g m = (if g < nr_blk_group m then Ret () else Stop (Fault ''bgd_table''))"

text \<open>When no bit is clear the scan ends one byte past the block, and that byte is changed.\<close>

definition balloc_bgd :: "'a ext2_state_scheme e2_env \<Rightarrow> u32 \<Rightarrow> nat \<Rightarrow> ext2_superblock_m \<Rightarrow> nat \<Rightarrow>
    'a ext2_state_scheme \<Rightarrow> (u32 \<times> 'a ext2_state_scheme) kres" where
  "balloc_bgd E dev fs m g s =
     bindk (bgd_in_table g m) (\<lambda>_.
     let bgd = bgd_table m g
     in if bg_free_blocks_count bgd = 0 then Ret (0, s)
        else
          bindk (e2_block E dev (bg_block_bitmap bgd) s) (\<lambda>(bp, s).
          let base = bdata bp s;
              off = bitmap_scan (\<lambda>i. kmem s (base + of_nat i)) (8 * blksize m) 0;
              s = set_dwrite bp (set_kbit base off s);
              block = of_nat off + (of_nat g * EXT2_BLOCKS_PER_GROUP m + s_first_data_block (sb m))
          in bindk (locked_super E fs (\<lambda>m.
                 (upd_bgd g (\<lambda>b. b\<lparr>bg_free_blocks_count := bg_free_blocks_count b - 1\<rparr>) m)
                   \<lparr>sb := (sb m)\<lparr>s_free_blocks_count := s_free_blocks_count (sb m) - 1\<rparr>\<rparr>) s) (\<lambda>s.
             bindk (e2_brelse E bp s) (\<lambda>s. Ret (block, s)))))"

text \<open>The superblock is shared: each group is tried on what it is then.\<close>

definition cur_super :: "nat \<Rightarrow> 'a ext2_state_scheme \<Rightarrow> ext2_superblock_m kres" where
  "cur_super fs s = (case f_super s fs of None \<Rightarrow> Stop (Fault ''f_super'') | Some m \<Rightarrow> Ret m)"

fun balloc_groups :: "'a ext2_state_scheme e2_env \<Rightarrow> u32 \<Rightarrow> nat \<Rightarrow> nat \<Rightarrow> nat list \<Rightarrow>
    'a ext2_state_scheme \<Rightarrow> (u32 \<times> 'a ext2_state_scheme) kres" where
  "balloc_groups E dev fs own [] s = Ret (0, s)"
| "balloc_groups E dev fs own (g # gs) s =
     (if g = own then balloc_groups E dev fs own gs s
      else
        bindk (cur_super fs s) (\<lambda>m.
        bindk (balloc_bgd E dev fs m g s) (\<lambda>(block, s).
        if block \<noteq> 0 then Ret (block, s) else balloc_groups E dev fs own gs s)))"

text \<open>The block an inode is given, before it is cleared.\<close>

definition choose_block :: "'a ext2_state_scheme e2_env \<Rightarrow> nat \<Rightarrow> 'a ext2_state_scheme \<Rightarrow> (u32 \<times> 'a ext2_state_scheme) kres" where
  "choose_block E ip s =
     (let dev = i_dev (inodes s ip) in
      bindk (get_ext2_superblock dev s) (\<lambda>(fs, m).
      if s_free_blocks_count (sb m) = 0 then Ret (0, s)
      else
        let own = unat ((i_num (inodes s ip) - 1) div EXT2_INODES_PER_GROUP m)
        in bindk (balloc_bgd E dev fs m own s) (\<lambda>(block, s).
           if block \<noteq> 0 then Ret (block, s)
           else bindk (cur_super fs s) (\<lambda>m. balloc_groups E dev fs own [0..<nr_blk_group m] s))))"

text \<open>\<^verbatim>\<open>out:\<close> is reached with block 0 as well, which is then cleared.\<close>

definition ext2_balloc :: "'a ext2_state_scheme e2_env \<Rightarrow> nat \<Rightarrow> 'a ext2_state_scheme \<Rightarrow> (u32 \<times> 'a ext2_state_scheme) kres" where
  "ext2_balloc E ip s =
     bindk (choose_block E ip s) (\<lambda>(block, s).
     bindk (get_ext2_superblock (i_dev (inodes s ip)) s) (\<lambda>(fs, m).
     bindk (e2_getblk E (i_dev (inodes s ip)) block s) (\<lambda>(bp, s).
     let s = kwrite (bdata bp s) (replicate (blksize m) 0) s;
         s = upd_i ip (\<lambda>i. i\<lparr>i_blocks := i_blocks i + sdiv32 (EXT2_BLOCKSIZE m) 512, i_mtime := CURRENT_TIME s\<rparr>) s;
         s = set_dwrite bp (set_i_modified ip s)
     in bindk (e2_brelse E bp s) (\<lambda>s. Ret (block, s)))))"

text \<open>\<^verbatim>\<open>b >> 3\<close> and \<^verbatim>\<open>b % 8\<close> are taken of a 32-bit value, which wraps when the group was not the block's.\<close>

definition ext2_bfree :: "'a ext2_state_scheme e2_env \<Rightarrow> u32 \<Rightarrow> u32 \<Rightarrow> 'a ext2_state_scheme \<Rightarrow> 'a ext2_state_scheme kres" where
  "ext2_bfree E dev block s =
     (if block = 0 then Ret s
      else
        bindk (get_ext2_superblock dev s) (\<lambda>(fs, m).
        let g = unat (block div EXT2_BLOCKS_PER_GROUP m)
        in bindk (bgd_in_table g m) (\<lambda>_.
           bindk (e2_block E dev (bg_block_bitmap (bgd_table m g)) s) (\<lambda>(bp, s).
           let b = unat (block - (s_first_data_block (sb m) + of_nat g * EXT2_BLOCKS_PER_GROUP m));
               base = bdata bp s
           in if \<not> bit (kmem s (base + of_nat (b div 8))) (b mod 8) then Stop (Panic ''bfree: block is already free'')
              else
                bindk (locked_super E fs (\<lambda>m.
                    (upd_bgd g (\<lambda>b. b\<lparr>bg_free_blocks_count := bg_free_blocks_count b + 1\<rparr>) m)
                      \<lparr>sb := (sb m)\<lparr>s_free_blocks_count := s_free_blocks_count (sb m) + 1\<rparr>\<rparr>) (clear_kbit base b s)) (\<lambda>s.
                e2_brelse E bp (set_dwrite bp s))))))"

text \<open>The pointers of an indirect block are read from the buffer as the loop comes to them.\<close>

definition kblock_ptr :: "u32 \<Rightarrow> nat \<Rightarrow> 'a buf_state_scheme \<Rightarrow> u32" where
  "kblock_ptr base k s = kmem32 (base + 4 * of_nat k) s"

definition bfree_tree :: "('a ext2_state_scheme e2_env \<Rightarrow> u32 \<Rightarrow> u32 \<Rightarrow> 'a ext2_state_scheme \<Rightarrow> 'a ext2_state_scheme kres) \<Rightarrow>
    'a ext2_state_scheme e2_env \<Rightarrow> u32 \<Rightarrow> u32 \<Rightarrow> 'a ext2_state_scheme \<Rightarrow> 'a ext2_state_scheme kres" where
  "bfree_tree free E dev block s =
     (if block = 0 then Ret s
      else
        bindk (get_ext2_superblock dev s) (\<lambda>(fs, m).
        bindk (e2_block E dev block s) (\<lambda>(bp, s).
        bindk (foldk (\<lambda>k s. free E dev (kblock_ptr (bdata bp s) k s) s) [0..<blksize m div 4] s) (\<lambda>s.
        bindk (ext2_bfree E dev block s) (\<lambda>s.
        e2_brelse E bp s)))))"

definition ext2_bfree_indirect :: "'a ext2_state_scheme e2_env \<Rightarrow> u32 \<Rightarrow> u32 \<Rightarrow> 'a ext2_state_scheme \<Rightarrow> 'a ext2_state_scheme kres" where
  "ext2_bfree_indirect = bfree_tree ext2_bfree"

definition ext2_bfree_dindirect :: "'a ext2_state_scheme e2_env \<Rightarrow> u32 \<Rightarrow> u32 \<Rightarrow> 'a ext2_state_scheme \<Rightarrow> 'a ext2_state_scheme kres" where
  "ext2_bfree_dindirect = bfree_tree ext2_bfree_indirect"

definition ext2_bfree_tindirect :: "'a ext2_state_scheme e2_env \<Rightarrow> u32 \<Rightarrow> u32 \<Rightarrow> 'a ext2_state_scheme \<Rightarrow> 'a ext2_state_scheme kres" where
  "ext2_bfree_tindirect = bfree_tree ext2_bfree_dindirect"

section \<open>Inodes\<close>

text \<open>
  The scan of the inode bitmap tests the bit before the end of the block: bits up to the first of the byte
  after the block are looked at.
\<close>

fun inode_scan :: "(nat \<Rightarrow> u8) \<Rightarrow> nat \<Rightarrow> nat \<Rightarrow> nat option" where
  "inode_scan f 0 off = (if bit (f (off div 8)) (off mod 8) then None else Some off)"
| "inode_scan f (Suc n) off = (if bit (f (off div 8)) (off mod 8) then inode_scan f n (off + 1) else Some off)"

definition ialloc_bgd :: "'a ext2_state_scheme e2_env \<Rightarrow> u32 \<Rightarrow> nat \<Rightarrow> ext2_superblock_m \<Rightarrow> nat \<Rightarrow>
    'a ext2_state_scheme \<Rightarrow> (u32 \<times> 'a ext2_state_scheme) kres" where
  "ialloc_bgd E dev fs m g s =
     bindk (bgd_in_table g m) (\<lambda>_.
     let bgd = bgd_table m g
     in if bg_free_inodes_count bgd = 0 then Ret (0, s)
        else
          bindk (e2_block E dev (bg_inode_bitmap bgd) s) (\<lambda>(bp, s).
          let base = bdata bp s
          in case inode_scan (\<lambda>i. kmem s (base + of_nat i)) (8 * blksize m) 0 of
               None \<Rightarrow> bindk (e2_brelse E bp s) (\<lambda>s. Ret (0, s))
             | Some off \<Rightarrow>
                 bindk (locked_super E fs (\<lambda>m.
                     (upd_bgd g (\<lambda>b. b\<lparr>bg_free_inodes_count := bg_free_inodes_count b - 1\<rparr>) m)
                       \<lparr>sb := (sb m)\<lparr>s_free_inodes_count := s_free_inodes_count (sb m) - 1\<rparr>\<rparr>)
                     (set_dwrite bp (set_kbit base off s))) (\<lambda>s.
                 bindk (e2_brelse E bp s) (\<lambda>s. Ret (of_nat off + 1, s)))))"

fun ialloc_groups :: "'a ext2_state_scheme e2_env \<Rightarrow> u32 \<Rightarrow> nat \<Rightarrow> nat list \<Rightarrow> 'a ext2_state_scheme \<Rightarrow>
    (u32 \<times> 'a ext2_state_scheme) kres" where
  "ialloc_groups E dev fs [] s = Ret (0, s)"
| "ialloc_groups E dev fs (g # gs) s =
     bindk (cur_super fs s) (\<lambda>m.
     bindk (ialloc_bgd E dev fs m g s) (\<lambda>(num, s).
     if num \<noteq> 0 then Ret (num, s) else ialloc_groups E dev fs gs s))"

definition ext2_ialloc :: "'a ext2_state_scheme e2_env \<Rightarrow> u32 \<Rightarrow> 'a ext2_state_scheme \<Rightarrow> (u32 \<times> 'a ext2_state_scheme) kres" where
  "ext2_ialloc E dev s =
     bindk (get_ext2_superblock dev s) (\<lambda>(fs, m).
     if s_free_inodes_count (sb m) = 0 then Ret (0, s)
     else ialloc_groups E dev fs [0..<nr_blk_group m] s)"

text \<open>The group is computed from the number, the bit is not: \<^verbatim>\<open>ino - 1\<close> is used whole.\<close>

definition ext2_ifree :: "'a ext2_state_scheme e2_env \<Rightarrow> u32 \<Rightarrow> u32 \<Rightarrow> 'a ext2_state_scheme \<Rightarrow> 'a ext2_state_scheme kres" where
  "ext2_ifree E dev num s =
     bindk (get_ext2_superblock dev s) (\<lambda>(fs, m).
     if num < EXT2_FIRST_FREE_INO m then Ret s
     else
       let g = unat ((num - 1) div EXT2_INODES_PER_GROUP m)
       in bindk (bgd_in_table g m) (\<lambda>_.
          bindk (e2_block E dev (bg_inode_bitmap (bgd_table m g)) s) (\<lambda>(bp, s).
          let b = unat (num - 1); base = bdata bp s
          in if \<not> bit (kmem s (base + of_nat (b div 8))) (b mod 8) then Stop (Panic ''bfree: block is already free'')
             else
               bindk (locked_super E fs (\<lambda>m.
                   (upd_bgd g (\<lambda>b. b\<lparr>bg_free_inodes_count := bg_free_inodes_count b + 1\<rparr>) m)
                     \<lparr>sb := (sb m)\<lparr>s_free_inodes_count := s_free_inodes_count (sb m) + 1\<rparr>\<rparr>) (clear_kbit base b s)) (\<lambda>s.
               e2_brelse E bp (set_dwrite bp s)))))"

end
