(* ===== verification/Ext2_Bmap.thy ===== *)
theory Ext2_Bmap
  imports Ext2_Alloc
begin

text \<open>
  From offsets in a file to blocks: \<^verbatim>\<open>sys/fs/ext2/bmap.c\<close>. A pointer to a block number is either an entry of the
  inode's \<^verbatim>\<open>i_block\<close> or a place in a buffer.
\<close>

text \<open>\<^verbatim>\<open>*b = ext2_balloc(ip)\<close> for \<^verbatim>\<open>b = &ip->i_ino.i_block[k]\<close> when the entry is empty and may be filled; the entry.\<close>

definition bmap_slot :: "'a ext2_state_scheme e2_env \<Rightarrow> nat \<Rightarrow> nat \<Rightarrow> bool \<Rightarrow> 'a ext2_state_scheme \<Rightarrow>
    (u32 \<times> 'a ext2_state_scheme) kres" where
  "bmap_slot E ip k create s =
     (if create \<and> i_block (ino s ip) ! k = 0
      then
        bindk (ext2_balloc E ip s) (\<lambda>(block, s).
        let s = touch_mtime ip (set_i_modified ip (upd_i ip (\<lambda>i. i\<lparr>i_block := (i_block i)[k := block]\<rparr>) s))
        in Ret (i_block (ino s ip) ! k, s))
      else Ret (i_block (ino s ip) ! k, s))"

text \<open>The same for a place \<open>a\<close> in the data of the buffer \<open>bp\<close>.\<close>

definition bmap_entry :: "'a ext2_state_scheme e2_env \<Rightarrow> nat \<Rightarrow> nat \<Rightarrow> u32 \<Rightarrow> bool \<Rightarrow> 'a ext2_state_scheme \<Rightarrow>
    (u32 \<times> 'a ext2_state_scheme) kres" where
  "bmap_entry E ip bp a create s =
     (if create \<and> kmem32 a s = 0
      then
        bindk (ext2_balloc E ip s) (\<lambda>(block, s).
        let s = set_dwrite bp (touch_mtime ip (set_i_modified ip (kwrite a (w32 block) s)))
        in Ret (kmem32 a s, s))
      else Ret (kmem32 a s, s))"

text \<open>\<^verbatim>\<open>b_data\<close> points to characters: the entry of an indirect block is one signed byte.\<close>

definition char_block :: "u8 \<Rightarrow> u32" where
  "char_block c = scast c"

definition bmap_create_indirect :: "'a ext2_state_scheme e2_env \<Rightarrow> nat \<Rightarrow> u32 \<Rightarrow> bool \<Rightarrow> 'a ext2_state_scheme \<Rightarrow>
    (u32 \<times> 'a ext2_state_scheme) kres" where
  "bmap_create_indirect E ip lblk create s =
     (let lblk = lblk - of_nat (EXT2_DIRECT_BLOCKS + 1) in
      bindk (bmap_slot E ip EXT2_INDIRECT_BLOCK create s) (\<lambda>(b, s).
      if b = 0 then Ret (0, s)
      else
        bindk (e2_bread E (i_dev (inodes s ip)) b s) (\<lambda>(r, s).
        case r of
          None \<Rightarrow> Ret (0, s)
        | Some bp \<Rightarrow>
            let a = bdata bp s + lblk
            in bindk (if create
                      then
                        if char_block (kmem s a) = 0
                        then
                          bindk (ext2_balloc E ip s) (\<lambda>(block, s).
                          let s = kput a (ucast block) s; ret = char_block (kmem s a)
                          in Ret (ret, touch_mtime ip (set_i_modified ip (set_dwrite bp s))))
                        else Ret (char_block (kmem s a), s)
                      else Ret (0, s)) (\<lambda>(ret, s).
               bindk (e2_brelse E bp s) (\<lambda>s. Ret (ret, s))))))"

text \<open>The last level of the deeper trees.\<close>

definition bmap_leaf :: "'a ext2_state_scheme e2_env \<Rightarrow> nat \<Rightarrow> nat \<Rightarrow> u32 \<Rightarrow> bool \<Rightarrow> 'a ext2_state_scheme \<Rightarrow>
    (u32 \<times> 'a ext2_state_scheme) kres" where
  "bmap_leaf E ip bp i create s =
     bindk (bmap_entry E ip bp (bdata bp s + 4 * i) create s) (\<lambda>(b, s).
     bindk (e2_brelse E bp s) (\<lambda>s. Ret (b, s)))"

definition bmap_create_dindirect :: "'a ext2_state_scheme e2_env \<Rightarrow> nat \<Rightarrow> ext2_superblock_m \<Rightarrow> u32 \<Rightarrow> bool \<Rightarrow>
    'a ext2_state_scheme \<Rightarrow> (u32 \<times> 'a ext2_state_scheme) kres" where
  "bmap_create_dindirect E ip m lblk create s =
     (let indir_blocks = EXT2_BLOCKSIZE m div 4;
          lblk = lblk - (of_nat EXT2_DIRECT_BLOCKS + indir_blocks + 1)
      in bindk (bmap_slot E ip EXT2_DINDIRECT_BLOCK create s) (\<lambda>(b, s).
         if b = 0 then Ret (0, s)
         else
           bindk (e2_bread E (i_dev (inodes s ip)) b s) (\<lambda>(r, s).
           case r of
             None \<Rightarrow> Ret (0, s)
           | Some bp \<Rightarrow>
               bindk (bmap_entry E ip bp (bdata bp s + 4 * (lblk div indir_blocks)) create s) (\<lambda>(tmp, s).
               bindk (e2_brelse E bp s) (\<lambda>s.
               if tmp = 0 then Ret (0, s)
               else
                 bindk (e2_bread E (i_dev (inodes s ip)) tmp s) (\<lambda>(r, s).
                 case r of
                   None \<Rightarrow> Ret (0, s)
                 | Some bp \<Rightarrow> bmap_leaf E ip bp (lblk mod indir_blocks) create s))))))"

text \<open>
  The index into the second level is \<^verbatim>\<open>lblk / indir_blocks\<close>, not reduced; its block is not tested for
  \<^verbatim>\<open>NULL\<close>; and the third block number is read again from the second buffer after its release.
\<close>

definition bmap_create_tindirect :: "'a ext2_state_scheme e2_env \<Rightarrow> nat \<Rightarrow> ext2_superblock_m \<Rightarrow> u32 \<Rightarrow> bool \<Rightarrow>
    'a ext2_state_scheme \<Rightarrow> (u32 \<times> 'a ext2_state_scheme) kres" where
  "bmap_create_tindirect E ip m lblk create s =
     (let indir_blocks = EXT2_BLOCKSIZE m div 4; dindir_blocks = indir_blocks * indir_blocks;
          lblk = lblk - (of_nat EXT2_DIRECT_BLOCKS + indir_blocks + dindir_blocks + 1)
      in bindk (bmap_slot E ip EXT2_TINDIRECT_BLOCK create s) (\<lambda>(b, s).
         if b = 0 then Ret (0, s)
         else
           bindk (e2_bread E (i_dev (inodes s ip)) b s) (\<lambda>(r, s).
           case r of
             None \<Rightarrow> Ret (0, s)
           | Some bp \<Rightarrow>
               bindk (bmap_entry E ip bp (bdata bp s + 4 * (lblk div dindir_blocks)) create s) (\<lambda>(tmp, s).
               bindk (e2_brelse E bp s) (\<lambda>s.
               if tmp = 0 then Ret (0, s)
               else
                 bindk (e2_block E (i_dev (inodes s ip)) tmp s) (\<lambda>(bp, s).
                 let a = bdata bp s + 4 * (lblk div indir_blocks)
                 in bindk (bmap_entry E ip bp a create s) (\<lambda>(tmp, s).
                    bindk (e2_brelse E bp s) (\<lambda>s.
                    if tmp = 0 then Ret (0, s)
                    else
                      bindk (e2_bread E (i_dev (inodes s ip)) (kmem32 a s) s) (\<lambda>(r, s).
                      case r of
                        None \<Rightarrow> Ret (0, s)
                      | Some bp \<Rightarrow> bmap_leaf E ip bp (lblk mod indir_blocks) create s)))))))))"

definition bmap_create :: "'a ext2_state_scheme e2_env \<Rightarrow> nat \<Rightarrow> int \<Rightarrow> bool \<Rightarrow> 'a ext2_state_scheme \<Rightarrow>
    (u32 \<times> 'a ext2_state_scheme) kres" where
  "bmap_create E ip off create s =
     bindk (get_ext2_superblock (i_dev (inodes s ip)) s) (\<lambda>(fs, m).
     let lblk = word_of_int (c_div off (sint (EXT2_BLOCKSIZE m))) :: u32
     in if lblk \<le> of_nat EXT2_DIRECT_BLOCKS then bmap_slot E ip (unat lblk) create s
        else
          let indir_blocks = EXT2_BLOCKSIZE m div 4; dindir_blocks = indir_blocks * indir_blocks
          in if lblk < indir_blocks + of_nat EXT2_DIRECT_BLOCKS + 1 then bmap_create_indirect E ip lblk create s
             else if lblk < dindir_blocks + indir_blocks + of_nat EXT2_DIRECT_BLOCKS + 1
             then bmap_create_dindirect E ip m lblk create s
             else bmap_create_tindirect E ip m lblk create s)"

definition ext2_bmap :: "'a ext2_state_scheme e2_env \<Rightarrow> nat \<Rightarrow> int \<Rightarrow> 'a ext2_state_scheme \<Rightarrow> (u32 \<times> 'a ext2_state_scheme) kres" where
  "ext2_bmap E ip off = bmap_create E ip off False"

definition ext2_create_block :: "'a ext2_state_scheme e2_env \<Rightarrow> nat \<Rightarrow> int \<Rightarrow> 'a ext2_state_scheme \<Rightarrow> (u32 \<times> 'a ext2_state_scheme) kres" where
  "ext2_create_block E ip off = bmap_create E ip off True"

end
