(* ===== verification/Ext2_Inode.thy ===== *)
theory Ext2_Inode
  imports Ext2_Bmap
begin

text \<open>
  The inode cache: \<^verbatim>\<open>sys/fs/ext2/inode.c\<close>. It has the shape of the block cache: circular hash queues, and a
  ring of free cells through the dummy \<^verbatim>\<open>free_list\<close>, cell 128.
\<close>

abbreviation (input) NR_INODE_CACHE :: nat where "NR_INODE_CACHE \<equiv> NR_BUF_BUFFERS"
abbreviation (input) NR_INODE_HASH :: nat where "NR_INODE_HASH \<equiv> NR_BUF_HASH"

definition INODE_HASH :: "u32 \<Rightarrow> u32 \<Rightarrow> nat" where
  "INODE_HASH dev num = unat (dev XOR num) mod NR_INODE_HASH"

definition set_i_next_free :: "nat \<Rightarrow> nat option \<Rightarrow> 'a ext2_state_scheme \<Rightarrow> 'a ext2_state_scheme" where
  "set_i_next_free i v = upd_ino i (\<lambda>x. x\<lparr>i_next_free := v\<rparr>)"

definition set_i_prev_free :: "nat \<Rightarrow> nat option \<Rightarrow> 'a ext2_state_scheme \<Rightarrow> 'a ext2_state_scheme" where
  "set_i_prev_free i v = upd_ino i (\<lambda>x. x\<lparr>i_prev_free := v\<rparr>)"

definition set_i_next :: "nat \<Rightarrow> nat option \<Rightarrow> 'a ext2_state_scheme \<Rightarrow> 'a ext2_state_scheme" where
  "set_i_next i v = upd_ino i (\<lambda>x. x\<lparr>i_next := v\<rparr>)"

definition set_i_prev :: "nat \<Rightarrow> nat option \<Rightarrow> 'a ext2_state_scheme \<Rightarrow> 'a ext2_state_scheme" where
  "set_i_prev i v = upd_ino i (\<lambda>x. x\<lparr>i_prev := v\<rparr>)"

section \<open>The lists\<close>

text \<open>Unlike the block cache's routine this one leaves the pointers of the cell it removes as they are.\<close>

definition remove_from_free_list_ino :: "nat \<Rightarrow> 'a ext2_state_scheme \<Rightarrow> 'a ext2_state_scheme kres" where
  "remove_from_free_list_ino ip s =
     (let i = inodes s ip in
      if i_prev_free i = None \<and> i_next_free i = None then Ret s
      else if i_prev_free i = None \<or> i_next_free i = None
      then Stop (Panic ''remove_from_free_list: inode free list has been corrupted'')
      else
        bindk (through (i_prev_free i) (\<lambda>p. set_i_next_free p (i_next_free i)) s) (\<lambda>s.
        through (i_next_free (inodes s ip)) (\<lambda>n. set_i_prev_free n (i_prev_free (inodes s ip))) s))"

definition put_into_free_list_ino :: "nat \<Rightarrow> 'a ext2_state_scheme \<Rightarrow> 'a ext2_state_scheme kres" where
  "put_into_free_list_ino ip s =
     (if i_count (inodes s ip) \<noteq> 0 then Stop (Panic ''put_into_free_list: inode reference count is not zero'')
      else
        let s = set_i_next_free ip (Some FREE_LIST) s;
            s = set_i_prev_free ip (i_prev_free (inodes s FREE_LIST)) s
        in bindk (through (i_prev_free (inodes s FREE_LIST)) (\<lambda>p. set_i_next_free p (Some ip)) s) (\<lambda>s.
           Ret (set_i_prev_free FREE_LIST (Some ip) s)))"

abbreviation ino_hash :: "nat \<Rightarrow> 'a ext2_state_scheme \<Rightarrow> nat" where
  "ino_hash ip s \<equiv> INODE_HASH (i_dev (inodes s ip)) (i_num (inodes s ip))"

definition set_ihash :: "nat \<Rightarrow> nat option \<Rightarrow> 'a ext2_state_scheme \<Rightarrow> 'a ext2_state_scheme" where
  "set_ihash h v s = s\<lparr>inode_hash := (inode_hash s)(h := v)\<rparr>"

text \<open>The second test compares \<^verbatim>\<open>i_prev\<close> with \<^verbatim>\<open>NULL\<close> twice.\<close>

definition remove_from_hash_queue_ino :: "nat \<Rightarrow> 'a ext2_state_scheme \<Rightarrow> 'a ext2_state_scheme kres" where
  "remove_from_hash_queue_ino ip s =
     (let i = inodes s ip in
      if i_prev i = None \<and> i_next i = None then Ret s
      else if i_prev i = None then Stop (Panic ''remove_from_hash_queue: inode hash queue corrupted'')
      else
        bindk (if i_next i = Some ip \<and> i_prev i = Some ip then Ret (set_ihash (ino_hash ip s) None s)
               else
                 bindk (through (i_prev i) (\<lambda>p. set_i_next p (i_next i)) s) (\<lambda>s.
                 through (i_next (inodes s ip)) (\<lambda>n. set_i_prev n (i_prev (inodes s ip))) s)) (\<lambda>s.
        Ret (set_i_prev ip None (set_i_next ip None s))))"

definition put_into_hash_queue_ino :: "nat \<Rightarrow> 'a ext2_state_scheme \<Rightarrow> 'a ext2_state_scheme kres" where
  "put_into_hash_queue_ino ip s =
     (case inode_hash s (ino_hash ip s) of
        None \<Rightarrow> Ret (set_i_prev ip (Some ip) (set_i_next ip (Some ip) (set_ihash (ino_hash ip s) (Some ip) s)))
      | Some ip1 \<Rightarrow>
          bindk (ring_walk (NR_INODE_CACHE + 1) (\<lambda>i. i_next (inodes s i)) ip1 ip1) (\<lambda>ip2.
          Ret (set_i_prev ip1 (Some ip) (set_i_next ip (Some ip1)
                (set_i_prev ip (Some ip2) (set_i_next ip2 (Some ip) s))))))"

text \<open>The fuel of the \<^verbatim>\<open>do\<close> loop is the number of cells and one more, as in the block cache.\<close>

fun ino_scan :: "nat \<Rightarrow> u32 \<Rightarrow> u32 \<Rightarrow> nat \<Rightarrow> nat \<Rightarrow> 'a ext2_state_scheme \<Rightarrow> nat option kres" where
  "ino_scan 0 dev num tmp ip s = Stop Diverges"
| "ino_scan (Suc n) dev num tmp ip s =
     (if i_dev (inodes s ip) = dev \<and> i_num (inodes s ip) = num then Ret (Some ip)
      else case i_next (inodes s ip) of
             None \<Rightarrow> Stop (Fault ''NULL inode'')
           | Some q \<Rightarrow> if q = tmp then Ret None else ino_scan n dev num tmp q s)"

definition in_hash_queue_ino :: "u32 \<Rightarrow> u32 \<Rightarrow> 'a ext2_state_scheme \<Rightarrow> nat option kres" where
  "in_hash_queue_ino dev num s =
     (case inode_hash s (INODE_HASH dev num) of
        None \<Rightarrow> Ret None
      | Some ip \<Rightarrow> ino_scan (NR_INODE_CACHE + 1) dev num ip ip s)"

section \<open>Reading and writing an inode\<close>

text \<open>The block that holds an inode and its place there; the remainder divides by the inodes of a block.\<close>

definition inode_block :: "u32 \<Rightarrow> ext2_superblock_m \<Rightarrow> u32 kres" where
  "inode_block num m =
     (let g = unat (EXT2_BLOCK_GROUP num m); index = EXT2_INODE_INDEX num m in
      bindk (bgd_in_table g m) (\<lambda>_.
      if EXT2_INODES_PER_BLOCK m = 0 then Stop (Fault ''division by zero'')
      else Ret (EXT2_INODE_BLOCK index m + bg_inode_table (bgd_table m g))))"

definition inode_offset :: "u32 \<Rightarrow> ext2_superblock_m \<Rightarrow> u32" where
  "inode_offset num m = EXT2_INODE_SIZE m * smod32 (EXT2_INODE_INDEX num m) (EXT2_INODES_PER_BLOCK m)"

definition read_inode :: "'a ext2_state_scheme e2_env \<Rightarrow> nat \<Rightarrow> 'a ext2_state_scheme \<Rightarrow> 'a ext2_state_scheme kres" where
  "read_inode E ip s =
     bindk (get_ext2_superblock (i_dev (inodes s ip)) s) (\<lambda>(fs, m).
     bindk (inode_block (i_num (inodes s ip)) m) (\<lambda>block.
     bindk (e2_block E (i_dev (inodes s ip)) block s) (\<lambda>(bp, s).
     let i = decode_inode (kbytes (bdata bp s + inode_offset (i_num (inodes s ip)) m) 128 s)
     in e2_brelse E bp (upd_ino ip (\<lambda>x. x\<lparr>i_ino := i\<rparr>) s))))"

definition write_inode :: "'a ext2_state_scheme e2_env \<Rightarrow> nat \<Rightarrow> 'a ext2_state_scheme \<Rightarrow> 'a ext2_state_scheme kres" where
  "write_inode E ip s =
     bindk (get_ext2_superblock (i_dev (inodes s ip)) s) (\<lambda>(fs, m).
     bindk (inode_block (i_num (inodes s ip)) m) (\<lambda>block.
     bindk (e2_block E (i_dev (inodes s ip)) block s) (\<lambda>(bp, s).
     let s = kwrite (bdata bp s + inode_offset (i_num (inodes s ip)) m) (encode_inode (ino s ip)) s;
         s = upd_ino ip (\<lambda>x. x\<lparr>i_flags := i_flags x AND NOT I_MODIFIED\<rparr>) s
     in e2_brelse E bp (set_dwrite bp s))))"

section \<open>Using the cache\<close>

definition ext2_iget :: "'a ext2_state_scheme e2_env \<Rightarrow> u32 \<Rightarrow> u32 \<Rightarrow> 'a ext2_state_scheme \<Rightarrow>
    (nat option \<times> 'a ext2_state_scheme) kres" where
  "ext2_iget E dev num s =
     bindk (in_hash_queue_ino dev num s) (\<lambda>r.
     case r of
       Some ip \<Rightarrow>
         if mutex_locked (i_mutex (inodes s ip)) s
         then bindk (sleep (ino_addr E ip) PROC_SLEEP_INTERRUPTIBLE s) (\<lambda>s. Stop Blocked)
         else
           bindk (lock_ino E ip s) (\<lambda>s.
           bindk (remove_from_free_list_ino ip s) (\<lambda>s.
           Ret (Some ip, upd_ino ip (\<lambda>i. i\<lparr>i_count := i_count i + 1\<rparr>) s)))
     | None \<Rightarrow>
         (case i_next_free (inodes s FREE_LIST) of
            None \<Rightarrow> Ret (None, s)
          | Some ip \<Rightarrow>
              bindk (lock_ino E ip s) (\<lambda>s.
              bindk (remove_from_free_list_ino ip s) (\<lambda>s.
              bindk (remove_from_hash_queue_ino ip s) (\<lambda>s.
              bindk (put_into_hash_queue_ino ip (upd_ino ip (\<lambda>i. i\<lparr>i_dev := dev, i_num := num\<rparr>) s)) (\<lambda>s.
              bindk (read_inode E ip s) (\<lambda>s.
              Ret (Some ip, upd_ino ip (\<lambda>i. i\<lparr>i_count := 1\<rparr>) s))))))))"

definition itrunc_slot :: "('a ext2_state_scheme e2_env \<Rightarrow> u32 \<Rightarrow> u32 \<Rightarrow> 'a ext2_state_scheme \<Rightarrow> 'a ext2_state_scheme kres) \<Rightarrow>
    'a ext2_state_scheme e2_env \<Rightarrow> nat \<Rightarrow> nat \<Rightarrow> 'a ext2_state_scheme \<Rightarrow> 'a ext2_state_scheme kres" where
  "itrunc_slot free E ip k s =
     bindk (free E (i_dev (inodes s ip)) (i_block (ino s ip) ! k) s) (\<lambda>s.
     Ret (upd_i ip (\<lambda>i. i\<lparr>i_block := (i_block i)[k := 0]\<rparr>) s))"

definition ext2_itrunc :: "'a ext2_state_scheme e2_env \<Rightarrow> nat \<Rightarrow> 'a ext2_state_scheme \<Rightarrow> 'a ext2_state_scheme kres" where
  "ext2_itrunc E ip s =
     bindk (foldk (itrunc_slot ext2_bfree E ip) [0..<EXT2_DIRECT_BLOCKS + 1] s) (\<lambda>s.
     bindk (itrunc_slot ext2_bfree_indirect E ip EXT2_INDIRECT_BLOCK s) (\<lambda>s.
     bindk (itrunc_slot ext2_bfree_dindirect E ip EXT2_DINDIRECT_BLOCK s) (\<lambda>s.
     bindk (itrunc_slot ext2_bfree_tindirect E ip EXT2_TINDIRECT_BLOCK s) (\<lambda>s.
     Ret (set_i_modified ip (upd_i ip (\<lambda>i. i\<lparr>i_blocks := 0, i_size := 0, i_mtime := CURRENT_TIME s\<rparr>) s))))))"

text \<open>\<^verbatim>\<open>mutex_locked\<close> is true of a lock that another process holds; the routine then goes on without it.\<close>

definition ext2_iput :: "'a ext2_state_scheme e2_env \<Rightarrow> nat \<Rightarrow> 'a ext2_state_scheme \<Rightarrow> 'a ext2_state_scheme kres" where
  "ext2_iput E ip s =
     bindk (if \<not> mutex_locked (i_mutex (inodes s ip)) s then lock_ino E ip s else Ret s) (\<lambda>s.
     if i_count (inodes s ip) = 0 then Stop (Panic ''ext2_iput: ip->i_count == 0'')
     else
       let s = upd_ino ip (\<lambda>i. i\<lparr>i_count := i_count i - 1\<rparr>) s
       in bindk (if i_count (inodes s ip) = 0
                 then
                   bindk (if i_links_count (ino s ip) = 0
                          then
                            bindk (ext2_itrunc E ip (set_i_modified ip (upd_i ip (\<lambda>i. i\<lparr>i_dtime := CURRENT_TIME s\<rparr>) s))) (\<lambda>s.
                            ext2_ifree E (i_dev (inodes s ip)) (i_num (inodes s ip)) s)
                          else Ret s) (\<lambda>s.
                   bindk (if i_flags (inodes s ip) AND I_MODIFIED \<noteq> 0 then write_inode E ip s else Ret s) (\<lambda>s.
                   put_into_free_list_ino ip s))
                 else Ret s) (\<lambda>s.
          unlock_ino E ip s))"

definition ext2_public_iput :: "'a ext2_state_scheme e2_env \<Rightarrow> nat option \<Rightarrow> 'a ext2_state_scheme \<Rightarrow> 'a ext2_state_scheme kres" where
  "ext2_public_iput E inode s = (case inode of None \<Rightarrow> Stop (Fault ''NULL inode'') | Some ip \<Rightarrow> ext2_iput E ip s)"

definition ext2_inode_sync :: "'a ext2_state_scheme e2_env \<Rightarrow> 'a ext2_state_scheme \<Rightarrow> 'a ext2_state_scheme kres" where
  "ext2_inode_sync E =
     foldk (\<lambda>ip s.
       if i_dev (inodes s ip) \<noteq> NODEV \<and> i_flags (inodes s ip) AND I_MODIFIED \<noteq> 0
       then
         bindk (lock_ino E ip s) (\<lambda>s.
         bindk (write_inode E ip (upd_ino ip (\<lambda>i. i\<lparr>i_count := i_count i + 1\<rparr>) s)) (\<lambda>s.
         bindk (ext2_iput E ip s) (\<lambda>s.
         unlock_ino E ip s)))
       else Ret s) [0..<NR_INODE_CACHE]"

definition ext2_inode_ctl :: "nat \<Rightarrow> inode_ctl_cmd \<Rightarrow> 'a ext2_state_scheme \<Rightarrow> u32" where
  "ext2_inode_ctl ip cmd s =
     (case cmd of
        INODE_GET_MODE \<Rightarrow> ucast (i_mode (ino s ip))
      | INODE_GET_MTIME \<Rightarrow> i_mtime (ino s ip)
      | INODE_GET_ATIME \<Rightarrow> i_atime (ino s ip)
      | INODE_GET_CTIME \<Rightarrow> i_ctime (ino s ip))"

text \<open>\<^verbatim>\<open>sizeof(struct ext2_inode_m)\<close> is 168 bytes. What the loop does not assign keeps what the heap had there.\<close>

definition init_inode :: "nat \<Rightarrow> 'a ext2_state_scheme \<Rightarrow> 'a ext2_state_scheme" where
  "init_inode k = upd_ino k (\<lambda>i. i\<lparr>i_dev := NODEV,
     i_prev_free := Some (if k = 0 then FREE_LIST else k - 1),
     i_next_free := Some (if k = NR_INODE_CACHE - 1 then FREE_LIST else k + 1),
     i_next := None, i_prev := None, i_count := 0, i_flags := 0\<rparr>)"

definition ext2_inodes_init :: "'a ext2_state_scheme e2_env \<Rightarrow> 'a ext2_state_scheme \<Rightarrow> 'a ext2_state_scheme kres" where
  "ext2_inodes_init E s =
     bindk (heap_alloc (e2_bufs E) (of_nat NR_INODE_HASH * 4) s) (\<lambda>(p, s).
     if p = 0 then Stop (Panic ''Unable to allocate hash table for inodes: kvamlloc returned NULL'')
     else
       bindk (heap_alloc (e2_bufs E) (of_nat NR_INODE_CACHE * 168) (s\<lparr>inode_hash := \<lambda>_. None\<rparr>)) (\<lambda>(p, s).
       if p = 0 then Stop (Panic ''Unable to allocate inode cache: kvmalloc returned NULL'')
       else Ret (set_i_prev_free FREE_LIST (Some CACHE_END)
                  (fold init_inode [0..<NR_INODE_CACHE] (set_i_next_free FREE_LIST (Some 0) s)))))"

end
