(* ===== verification/Ext2_Dir.thy ===== *)
theory Ext2_Dir
  imports Ext2_Inode
begin

text \<open>
  Directory blocks: the entry routines of \<^verbatim>\<open>sys/fs/ext2/dir.c\<close> and \<^verbatim>\<open>ext2_match\<close> of \<^verbatim>\<open>namei.c\<close>. An entry is addressed
  in the data of its buffer: inode number at offset 0, record length at 4, name length at 6, file type at 7, name
  from 8 on. Names are lists of bytes without their terminating zero.
\<close>

section \<open>Entries\<close>

definition d_inode :: "u32 \<Rightarrow> 'a buf_state_scheme \<Rightarrow> u32" where
  "d_inode a s = kmem32 a s"

definition d_rec_len :: "u32 \<Rightarrow> 'a buf_state_scheme \<Rightarrow> u16" where
  "d_rec_len a s = kmem16 (a + 4) s"

definition d_name_len :: "u32 \<Rightarrow> 'a buf_state_scheme \<Rightarrow> u8" where
  "d_name_len a s = kmem s (a + 6)"

definition d_file_type :: "u32 \<Rightarrow> 'a buf_state_scheme \<Rightarrow> u8" where
  "d_file_type a s = kmem s (a + 7)"

definition set_rec_len :: "u32 \<Rightarrow> u16 \<Rightarrow> 'a buf_state_scheme \<Rightarrow> 'a buf_state_scheme" where
  "set_rec_len a v = kwrite (a + 4) (w16 v)"

definition next_dentry :: "u32 \<Rightarrow> 'a buf_state_scheme \<Rightarrow> u32" where
  "next_dentry a s = a + ucast (d_rec_len a s)"

definition dentry_file_type :: "u16 \<Rightarrow> u8" where
  "dentry_file_type mode =
     (let t = mode AND EXT2_S_IFMT in
      if t = EXT2_S_IFSOCK then EXT2_FT_SOCK
      else if t = EXT2_S_IFLNK then EXT2_FT_SYMLINK
      else if t = EXT2_S_IFREG then EXT2_FT_REG_FILE
      else if t = EXT2_S_IFDIR then EXT2_FT_DIR
      else if t = EXT2_S_IFBLK then EXT2_FT_BLKDEV
      else if t = EXT2_S_IFCHR then EXT2_FT_CHRDEV
      else if t = EXT2_S_IFIFO then EXT2_FT_FIFO
      else EXT2_FT_UNKNOWN)"

fun match_loop :: "u32 \<Rightarrow> u8 list \<Rightarrow> 'a buf_state_scheme \<Rightarrow> int" where
  "match_loop a [] s = 0"
| "match_loop a (c # cs) s =
     (if kmem s a < c then -1 else if c < kmem s a then 1 else match_loop (a + 1) cs s)"

definition ext2_match :: "u32 \<Rightarrow> u8 list \<Rightarrow> 'a buf_state_scheme \<Rightarrow> int" where
  "ext2_match a name s = (if length name \<noteq> unat (d_name_len a s) then -1 else match_loop (a + 8) name s)"

section \<open>Adding an entry\<close>

text \<open>The fields and the name of an entry as they are assigned; the record length comes from the caller.\<close>

definition put_dentry :: "u32 \<Rightarrow> u32 \<Rightarrow> u16 \<Rightarrow> u8 \<Rightarrow> u8 list \<Rightarrow> 'a buf_state_scheme \<Rightarrow> 'a buf_state_scheme" where
  "put_dentry a num rec_len ftype name s =
     kwrite (a + 8) name (kwrite a (w32 num @ w16 rec_len @ [of_nat (length name), ftype]) s)"

definition round4 :: "u16 \<Rightarrow> u16" where
  "round4 n = (if n mod 4 \<noteq> 0 then n + (4 - n mod 4) else n)"

text \<open>\<^verbatim>\<open>rec_len += 4 - (len % 4)\<close>; 8 is a multiple of 4, so that the remainders of \<^verbatim>\<open>rec_len\<close> and \<^verbatim>\<open>len\<close> agree.\<close>

definition needed_len :: "nat \<Rightarrow> u16" where
  "needed_len len =
     (let rec_len = 8 + of_nat len :: u16 in if rec_len mod 4 \<noteq> 0 then rec_len + (4 - of_nat len mod 4) else rec_len)"

text \<open>
  The endless loop: \<open>d\<close> is the entry it looks at, in the buffer \<open>bp\<close>, \<open>off\<close> the sum of the record lengths so
  far. The result is the routine's; the buffer that is left for the final \<^verbatim>\<open>brelse\<close> is given with it.
\<close>

definition add_in_last :: "'a ext2_state_scheme e2_env \<Rightarrow> nat \<Rightarrow> nat \<Rightarrow> u8 list \<Rightarrow> ext2_superblock_m \<Rightarrow> nat \<Rightarrow> u32 \<Rightarrow>
    'a ext2_state_scheme \<Rightarrow> ((int \<times> nat option) \<times> 'a ext2_state_scheme) kres" where
  "add_in_last E dir ip name m bp d s =
     (let s = set_rec_len d (round4 (ucast (d_name_len d s) + 8)) s;
          d = next_dentry d s;
          s = put_dentry d (i_num (inodes s ip)) (ucast (EXT2_BLOCKSIZE m - (d - bdata bp s)))
                (dentry_file_type (i_mode (ino s ip))) name s
      in bindk (e2_brelse E bp (set_dwrite bp s)) (\<lambda>s.
         Ret ((0, Some bp), set_i_modified ip (touch_mtime dir s))))"

text \<open>Going on in the block that \<^verbatim>\<open>ext2_create_block(dir, off)\<close> gives.\<close>

definition next_dir_block :: "'a ext2_state_scheme e2_env \<Rightarrow> nat \<Rightarrow> u32 \<Rightarrow> nat \<Rightarrow> 'a ext2_state_scheme \<Rightarrow>
    (nat option \<times> 'a ext2_state_scheme) kres" where
  "next_dir_block E dir off bp s =
     bindk (ext2_create_block E dir (sint off) s) (\<lambda>(block, s).
     bindk (e2_brelse E bp s) (\<lambda>s.
     e2_bread E (i_dev (inodes s dir)) block s))"

primrec add_entry_loop :: "nat \<Rightarrow> 'a ext2_state_scheme e2_env \<Rightarrow> nat \<Rightarrow> nat \<Rightarrow> u8 list \<Rightarrow> ext2_superblock_m \<Rightarrow> u32 \<Rightarrow> nat \<Rightarrow> u32 \<Rightarrow>
    'a ext2_state_scheme \<Rightarrow> ((int \<times> nat option) \<times> 'a ext2_state_scheme) kres" where
  "add_entry_loop 0 E dir ip name m off bp d s = Stop Diverges"
| "add_entry_loop (Suc n) E dir ip name m off bp d s =
     bindk (if d \<ge> bdata bp s + EXT2_BLOCKSIZE m
            then
              bindk (next_dir_block E dir off bp s) (\<lambda>(r, s).
              case r of
                None \<Rightarrow> Ret (None, s)
              | Some bp \<Rightarrow>
                  Ret (Some (bp, bdata bp s), touch_mtime dir (set_i_modified dir
                    (upd_i dir (\<lambda>i. i\<lparr>i_size := i_size i + EXT2_BLOCKSIZE m\<rparr>) s))))
            else Ret (Some (bp, d), s)) (\<lambda>(r, s).
     case r of
       None \<Rightarrow> Ret ((- EIO, None), s)
     | Some (bp, d) \<Rightarrow>
         if next_dentry d s \<ge> bdata bp s + EXT2_BLOCKSIZE m
         then
           if d_rec_len d s \<ge> needed_len (length name) then add_in_last E dir ip name m bp d s
           else
             bindk (next_dir_block E dir off bp s) (\<lambda>(r, s).
             case r of
               None \<Rightarrow> Ret ((- EIO, None), s)
             | Some bp \<Rightarrow> add_entry_loop n E dir ip name m off bp (bdata bp s) s)
         else add_entry_loop n E dir ip name m (off + ucast (d_rec_len d s)) bp (next_dentry d s) s)"

text \<open>A first entry that is empty is filled without marking the buffer to be written.\<close>

definition ext2_add_dir_entry :: "'a ext2_state_scheme e2_env \<Rightarrow> nat \<Rightarrow> nat \<Rightarrow> u8 list \<Rightarrow> 'a ext2_state_scheme \<Rightarrow>
    (int \<times> 'a ext2_state_scheme) kres" where
  "ext2_add_dir_entry E dir ip name s =
     (if name = [] then Ret (- EINVAL, s)
      else
        let name = take (nat EXT2_MAX_NAME_LEN) name in
        bindk (ext2_create_block E dir 0 s) (\<lambda>(block, s).
        if block = 0 then Ret (- ENOSPC, s)
        else
          bindk (e2_bread E (i_dev (inodes s dir)) block s) (\<lambda>(r, s).
          case r of
            None \<Rightarrow> Ret (- ENOSPC, s)
          | Some bp \<Rightarrow>
              bindk (get_ext2_superblock (i_dev (inodes s dir)) s) (\<lambda>(fs, m).
              let d = bdata bp s in
              bindk (if d_inode d s = 0 \<or> i_size (ino s dir) = 0
                     then
                       bindk (e2_brelse E bp (put_dentry d (i_num (inodes s ip)) (ucast (EXT2_BLOCKSIZE m))
                                (dentry_file_type (i_mode (ino s ip))) name s)) (\<lambda>s.
                       Ret ((0, Some bp), s))
                     else add_entry_loop (e2_fuel E) E dir ip name m 0 bp d s) (\<lambda>((ret, bp), s).
              case bp of
                None \<Rightarrow> Ret (ret, s)
              | Some bp \<Rightarrow> bindk (e2_brelse E bp s) (\<lambda>s. Ret (ret, s)))))))"

section \<open>Removing an entry\<close>

text \<open>Each step moves on by a record length, and a length of 0 repeats the step.\<close>

primrec remove_entry_loop :: "nat \<Rightarrow> u8 list \<Rightarrow> u32 \<Rightarrow> nat \<Rightarrow> u32 \<Rightarrow> u32 \<Rightarrow> u32 \<Rightarrow> 'a ext2_state_scheme \<Rightarrow>
    (int \<times> 'a ext2_state_scheme) kres" where
  "remove_entry_loop 0 name num bp limit prev d s = Stop Diverges"
| "remove_entry_loop (Suc n) name num bp limit prev d s =
     (if d < limit then
        if d_inode d s = num \<and> ext2_match d name s = 0
        then Ret (0, set_dwrite bp (set_rec_len prev (d_rec_len prev s + d_rec_len d s) s))
        else remove_entry_loop n name num bp limit d (next_dentry d s) s
      else Ret (- ENOENT, s))"

definition ext2_remove_dir_entry :: "'a ext2_state_scheme e2_env \<Rightarrow> u8 list \<Rightarrow> nat \<Rightarrow> nat \<Rightarrow> 'a ext2_state_scheme \<Rightarrow>
    (int \<times> 'a ext2_state_scheme) kres" where
  "ext2_remove_dir_entry E name ip bp s =
     bindk (get_ext2_superblock (i_dev (inodes s ip)) s) (\<lambda>(fs, m).
     let d = bdata bp s; num = i_num (inodes s ip)
     in if d_inode d s = num
        then Ret (0, set_dwrite bp (set_rec_len d (ucast (EXT2_BLOCKSIZE m)) (kwrite d (replicate 8 0) s)))
        else remove_entry_loop (e2_fuel E) name num bp (d + EXT2_BLOCKSIZE m) d (next_dentry d s) s)"

section \<open>Empty directories\<close>

text \<open>The result and the error stored through \<^verbatim>\<open>err\<close>, if one was; the warnings that are printed are left out.\<close>

definition empty_dir :: "'a ext2_state_scheme e2_env \<Rightarrow> nat \<Rightarrow> 'a ext2_state_scheme \<Rightarrow>
    ((bool \<times> int option) \<times> 'a ext2_state_scheme) kres" where
  "empty_dir E dp s =
     bindk (e2_bread E (i_dev (inodes s dp)) (i_block (ino s dp) ! 0) s) (\<lambda>(r, s).
     case r of
       None \<Rightarrow> Ret ((True, Some (- EIO)), s)
     | Some bp \<Rightarrow>
         bindk (get_ext2_superblock (i_dev (inodes s dp)) s) (\<lambda>(fs, m).
         let d = bdata bp s; limit = d + EXT2_BLOCKSIZE m; d2 = next_dentry d s; d3 = next_dentry d2 s;
             not_empty = (if ext2_match d [0x2E] s \<noteq> 0 then True
                          else if d2 \<ge> limit then True
                          else if ext2_match d2 [0x2E, 0x2E] s \<noteq> 0 then True
                          else d3 < limit)
         in bindk (e2_brelse E bp s) (\<lambda>s. Ret ((not_empty, None), s))))"

definition ext2_empty_dir :: "'a ext2_state_scheme e2_env \<Rightarrow> nat \<Rightarrow> 'a ext2_state_scheme \<Rightarrow>
    ((bool \<times> int option) \<times> 'a ext2_state_scheme) kres" where
  "ext2_empty_dir = empty_dir"

end
