(* ===== verification/Ext2_Namei.thy ===== *)
theory Ext2_Namei
  imports Ext2_Dir
begin

text \<open>
  From paths to inodes: \<^verbatim>\<open>sys/fs/ext2/namei.c\<close> (without \<^verbatim>\<open>rename\<close> and \<^verbatim>\<open>access\<close>) and \<^verbatim>\<open>ext2_follow_symlink\<close> of
  \<^verbatim>\<open>symlink.c\<close>. A path is the list of its bytes without the terminating zero, a pointer into it is a position, and
  the byte at its end is 0.
\<close>

abbreviation (input) EXT2_MAX_SYMLINKS :: nat where "EXT2_MAX_SYMLINKS \<equiv> 5"
abbreviation (input) EXT2_FAST_SYMLINK_LEN :: u32 where "EXT2_FAST_SYMLINK_LEN \<equiv> 60"
abbreviation (input) SLASH :: u8 where "SLASH \<equiv> 0x2F"

section \<open>Permission\<close>

definition ext2_permission :: "nat \<Rightarrow> u32 \<Rightarrow> 'a ext2_state_scheme \<Rightarrow> int" where
  "ext2_permission ip msk s =
     (let p = cur s; i = ino s ip; mode = ucast (i_mode i) :: u32 in
      if \<not> (uid p \<noteq> 0 \<and> euid p \<noteq> 0) then 0
      else
        let mode = (if uid p = uint (i_uid i) \<or> euid p = uint (i_uid i) then drop_bit 6 mode
                    else if gid p = uint (i_gid i) \<or> egid p = uint (i_gid i) then drop_bit 3 mode
                    else mode) AND 7
        in if mode AND msk \<noteq> 0 then 0 else -1)"

definition ext2_public_permission :: "nat \<Rightarrow> u32 \<Rightarrow> 'a ext2_state_scheme \<Rightarrow> int" where
  "ext2_public_permission = ext2_permission"

section \<open>Looking up a name in a directory\<close>

datatype find_result = FIND_NEXT_BLOCK | FIND_NONE

text \<open>
  The loop over the entries of a block. It gives the entry with the name, or why there is none. The end of the
  block is looked for only after the entry there has been compared.
\<close>

primrec find_dentry :: "nat \<Rightarrow> u8 list \<Rightarrow> u32 \<Rightarrow> u32 \<Rightarrow> u32 \<Rightarrow> 'a ext2_state_scheme \<Rightarrow> (u32 + find_result) kres" where
  "find_dentry 0 name base len d s = Stop Diverges"
| "find_dentry (Suc n) name base len d s =
     (if ext2_match d name s = 0 then Ret (Inl d)
      else if d - base \<ge> len then Ret (Inr FIND_NEXT_BLOCK)
      else
        let d = next_dentry d s
        in if d_inode d s = 0 \<or> d_file_type d s = EXT2_FT_UNKNOWN then Ret (Inr FIND_NONE)
           else find_dentry n name base len d s)"

text \<open>
  What a lookup yields: the inode, the reason when there is none, and the new value of \<^verbatim>\<open>*last_dir_bp\<close>. \<open>want\<close>
  says whether \<^verbatim>\<open>last_dir_bp\<close> is not \<^verbatim>\<open>NULL\<close>, \<open>lbp\<close> is its value before, \<open>res\<close> that of \<^verbatim>\<open>*res\<close>.
\<close>

type_synonym found = "nat option \<times> find_result \<times> nat option"

definition find_entry_in_block :: "'a ext2_state_scheme e2_env \<Rightarrow> nat \<Rightarrow> u32 \<Rightarrow> u8 list \<Rightarrow> bool \<Rightarrow> find_result \<times> nat option \<Rightarrow>
    'a ext2_state_scheme \<Rightarrow> (found \<times> 'a ext2_state_scheme) kres" where
  "find_entry_in_block E dir block name want = (\<lambda>(res, lbp) s.
     if block = 0 then Ret ((None, res, lbp), s)
     else
       bindk (get_ext2_superblock (i_dev (inodes s dir)) s) (\<lambda>(fs, m).
       bindk (e2_block E (i_dev (inodes s dir)) block s) (\<lambda>(bp, s).
       bindk (find_dentry (e2_fuel E) name (bdata bp s) (EXT2_BLOCKSIZE m) (bdata bp s) s) (\<lambda>r.
       bindk (case r of
                Inl d \<Rightarrow> bindk (ext2_iget E (i_dev (inodes s dir)) (d_inode d s) s) (\<lambda>(ip, s). Ret ((ip, res), s))
              | Inr res \<Rightarrow> Ret ((None, res), s)) (\<lambda>((ret, res), s).
       if want \<and> ret \<noteq> None then Ret ((ret, res, Some bp), s)
       else bindk (e2_brelse E bp s) (\<lambda>s. Ret ((ret, res, if want then None else lbp), s)))))))"

primrec find_direct_loop :: "nat list \<Rightarrow> 'a ext2_state_scheme e2_env \<Rightarrow> nat \<Rightarrow> u8 list \<Rightarrow> bool \<Rightarrow> find_result \<times> nat option \<Rightarrow>
    'a ext2_state_scheme \<Rightarrow> (found \<times> 'a ext2_state_scheme) kres" where
  "find_direct_loop [] E dir name want x s = Ret ((None, FIND_NEXT_BLOCK, snd x), s)"
| "find_direct_loop (k # ks) E dir name want x s =
     (if i_block (ino s dir) ! k = 0 then Ret ((None, FIND_NONE, snd x), s)
      else
        bindk (find_entry_in_block E dir (i_block (ino s dir) ! k) name want x s) (\<lambda>((ip, x), s).
        if ip \<noteq> None then Ret ((ip, x), s) else find_direct_loop ks E dir name want x s))"

definition find_entry_direct :: "'a ext2_state_scheme e2_env \<Rightarrow> nat \<Rightarrow> u8 list \<Rightarrow> bool \<Rightarrow> find_result \<times> nat option \<Rightarrow>
    'a ext2_state_scheme \<Rightarrow> (found \<times> 'a ext2_state_scheme) kres" where
  "find_entry_direct = find_direct_loop [0..<EXT2_DIRECT_BLOCKS + 1]"

text \<open>The loop over the block numbers in a buffer, for each of the three levels.\<close>

type_synonym 'a finder = "'a ext2_state_scheme e2_env \<Rightarrow> nat \<Rightarrow> u32 \<Rightarrow> u8 list \<Rightarrow> bool \<Rightarrow> find_result \<times> nat option \<Rightarrow>
    'a ext2_state_scheme \<Rightarrow> (found \<times> 'a ext2_state_scheme) kres"

primrec find_ptr_loop :: "nat list \<Rightarrow> 'a finder \<Rightarrow> 'a ext2_state_scheme e2_env \<Rightarrow> nat \<Rightarrow> nat \<Rightarrow> u8 list \<Rightarrow> bool \<Rightarrow> find_result \<times> nat option \<Rightarrow>
    'a ext2_state_scheme \<Rightarrow> (found \<times> 'a ext2_state_scheme) kres" where
  "find_ptr_loop [] look E dir bp name want x s = Ret ((None, x), s)"
| "find_ptr_loop (k # ks) look E dir bp name want x s =
     (let b = kblock_ptr (bdata bp s) k s in
      if b = 0 then Ret ((None, x), s)
      else
        bindk (look E dir b name want x s) (\<lambda>((ip, x), s).
        if ip \<noteq> None then Ret ((ip, x), s) else find_ptr_loop ks look E dir bp name want x s))"

definition find_in_tree :: "'a finder \<Rightarrow> 'a finder" where
  "find_in_tree look E dir block name want x s =
     (if block = 0 then Ret ((None, x), s)
      else
        bindk (get_ext2_superblock (i_dev (inodes s dir)) s) (\<lambda>(fs, m).
        bindk (e2_block E (i_dev (inodes s dir)) block s) (\<lambda>(bp, s).
        bindk (find_ptr_loop [0..<blksize m div 4] look E dir bp name want x s) (\<lambda>(r, s).
        bindk (e2_brelse E bp s) (\<lambda>s. Ret (r, s))))))"

definition find_entry_indirect :: "'a finder" where
  "find_entry_indirect = find_in_tree find_entry_in_block"

definition find_entry_dindirect :: "'a finder" where
  "find_entry_dindirect = find_in_tree find_entry_indirect"

definition find_entry_tindirect :: "'a finder" where
  "find_entry_tindirect = find_in_tree find_entry_dindirect"

text \<open>The next stage is tried when the one before has not found the name and not met the end.\<close>

definition or_else :: "(found \<times> 'a ext2_state_scheme) kres \<Rightarrow>
    (find_result \<times> nat option \<Rightarrow> 'a ext2_state_scheme \<Rightarrow> (found \<times> 'a ext2_state_scheme) kres) \<Rightarrow> (found \<times> 'a ext2_state_scheme) kres" where
  "or_else r f = bindk r (\<lambda>((ip, x), s). if ip \<noteq> None \<or> fst x = FIND_NONE then Ret ((ip, x), s) else f x s)"

definition find_entry :: "'a ext2_state_scheme e2_env \<Rightarrow> nat \<Rightarrow> u8 list \<Rightarrow> bool \<Rightarrow> nat option \<Rightarrow> 'a ext2_state_scheme \<Rightarrow>
    ((nat option \<times> nat option) \<times> 'a ext2_state_scheme) kres" where
  "find_entry E dir name want lbp s =
     bindk (or_else (or_else (or_else
         (find_entry_direct E dir name want (FIND_NEXT_BLOCK, lbp) s)
         (\<lambda>x s. find_entry_indirect E dir (i_block (ino s dir) ! EXT2_INDIRECT_BLOCK) name want x s))
         (\<lambda>x s. find_entry_dindirect E dir (i_block (ino s dir) ! EXT2_DINDIRECT_BLOCK) name want x s))
         (\<lambda>x s. find_entry_tindirect E dir (i_block (ino s dir) ! EXT2_TINDIRECT_BLOCK) name want x s)) (\<lambda>((ip, _, lbp), s).
     Ret ((ip, lbp), s))"

section \<open>Walking a path\<close>

text \<open>
  The arguments that stay the same during a walk: the path, which of \<^verbatim>\<open>last_dir\<close> and \<^verbatim>\<open>last_dir_bp\<close> are not
  \<^verbatim>\<open>NULL\<close>, and the root. The variables of the loop: inode, position, previous directory, \<^verbatim>\<open>*last_dir\<close>,
  \<^verbatim>\<open>*base\<close>, \<^verbatim>\<open>*last_dir_bp\<close>. The result: the inode and \<^verbatim>\<open>*error\<close> with the last three of them. A walk that ends before
  its first component leaves the caller's \<^verbatim>\<open>base\<close> uninitialised; here it is then the start of the path.
\<close>

record namei_args =
  na_path :: "u8 list"
  na_want_dir :: bool
  na_want_bp :: bool
  na_root :: nat
  na_start :: nat

record namei_vars =
  nv_ip :: nat
  nv_pos :: nat
  nv_prev :: "nat option"
  nv_last :: "nat option"
  nv_base :: nat
  nv_bp :: "nat option"
  nv_error :: int

record namei_result =
  nr_ip :: "nat option"
  nr_error :: int
  nr_base :: nat
  nr_last :: "nat option"
  nr_bp :: "nat option"

definition nresult :: "nat option \<Rightarrow> int \<Rightarrow> namei_vars \<Rightarrow> namei_result" where
  "nresult ip err v = \<lparr>nr_ip = ip, nr_error = err, nr_base = nv_base v, nr_last = nv_last v, nr_bp = nv_bp v\<rparr>"

type_synonym 'a namei_fun = "'a ext2_state_scheme e2_env \<Rightarrow> namei_args \<Rightarrow> namei_vars \<Rightarrow> 'a ext2_state_scheme \<Rightarrow>
    (namei_result \<times> 'a ext2_state_scheme) kres"

definition iput_opt :: "'a ext2_state_scheme e2_env \<Rightarrow> nat option \<Rightarrow> 'a ext2_state_scheme \<Rightarrow> 'a ext2_state_scheme kres" where
  "iput_opt E p s = (case p of None \<Rightarrow> Stop (Fault ''NULL inode'') | Some ip \<Rightarrow> ext2_iput E ip s)"

text \<open>Releasing an inode under a condition.\<close>

definition iput_if :: "bool \<Rightarrow> 'a ext2_state_scheme e2_env \<Rightarrow> nat option \<Rightarrow> 'a ext2_state_scheme \<Rightarrow> 'a ext2_state_scheme kres" where
  "iput_if c E p s = (if c then iput_opt E p s else Ret s)"

definition end_symlinks :: "'a ext2_state_scheme \<Rightarrow> 'a ext2_state_scheme" where
  "end_symlinks s = s\<lparr>symlinks := 0\<rparr>"

text \<open>The start of a walk, up to the label \<^verbatim>\<open>loop\<close>; \<open>walk\<close> is the loop.\<close>

definition namei_start :: "'a namei_fun \<Rightarrow> 'a ext2_state_scheme e2_env \<Rightarrow> u8 list \<Rightarrow> bool \<Rightarrow> bool \<Rightarrow> nat option \<Rightarrow> nat option \<Rightarrow> nat option \<Rightarrow> int \<Rightarrow>
    'a ext2_state_scheme \<Rightarrow> (namei_result \<times> 'a ext2_state_scheme) kres" where
  "namei_start walk E path want_dir want_bp root cwd lbp err s =
     (case (gi_inode (root_inode (cur s)), gi_inode (cwd_inode (cur s))) of
        (Some r, Some c) \<Rightarrow>
          (let root = (case root of None \<Rightarrow> r | Some x \<Rightarrow> x); cwd = (case cwd of None \<Rightarrow> c | Some x \<Rightarrow> x);
               ip = (if byte_at path 0 = SLASH then root else cwd);
               s = end_symlinks (upd_ino ip (\<lambda>i. i\<lparr>i_count := i_count i + 1\<rparr>) s)
           in walk E \<lparr>na_path = path, na_want_dir = want_dir, na_want_bp = want_bp, na_root = root, na_start = ip\<rparr>
                \<lparr>nv_ip = ip, nv_pos = 0, nv_prev = (if want_dir then None else Some ip),
                 nv_last = (if want_dir then Some ip else None), nv_base = 0, nv_bp = lbp, nv_error = err\<rparr> s)
      | _ \<Rightarrow> Stop (Panic ''Current process has no root directory or working directory''))"

text \<open>
  \<^verbatim>\<open>ext2_follow_symlink\<close>: the target stands in the inode or in its first block, and ends with a zero there.
\<close>

definition cstring :: "u8 list \<Rightarrow> u8 list kres" where
  "cstring bs = (if 0 \<in> set bs then Ret (takeWhile (\<lambda>c. c \<noteq> 0) bs) else Stop (Fault ''unterminated string''))"

definition follow_symlink :: "'a namei_fun \<Rightarrow> 'a ext2_state_scheme e2_env \<Rightarrow> nat \<Rightarrow> nat \<Rightarrow> nat option \<Rightarrow> int \<Rightarrow> 'a ext2_state_scheme \<Rightarrow>
    ((nat option \<times> int) \<times> 'a ext2_state_scheme) kres" where
  "follow_symlink walk E ip root dir err s =
     (if \<not> EXT2_S_ISLNK (i_mode (ino s ip)) then Ret ((None, err), s)
      else if i_size (ino s ip) < EXT2_FAST_SYMLINK_LEN
      then
        bindk (cstring (drop 40 (encode_inode (ino s ip)))) (\<lambda>path.
        bindk (namei_start walk E path False False (Some root) dir None err s) (\<lambda>(r, s).
        Ret ((nr_ip r, nr_error r), s)))
      else
        bindk (e2_bread E (i_dev (inodes s ip)) (i_block (ino s ip) ! 0) s) (\<lambda>(b, s).
        case b of
          None \<Rightarrow> Ret ((None, - EIO), s)
        | Some bp \<Rightarrow>
            bindk (get_ext2_superblock (i_dev (inodes s ip)) s) (\<lambda>(fs, m).
            bindk (cstring (kbytes (bdata bp s) (blksize m) s)) (\<lambda>path.
            bindk (namei_start walk E path False False (Some root) dir None err s) (\<lambda>(r, s).
            bindk (e2_brelse E bp s) (\<lambda>s.
            Ret ((nr_ip r, nr_error r), s)))))))"

definition path_at_end :: "u8 list \<Rightarrow> nat \<Rightarrow> bool" where
  "path_at_end path p \<longleftrightarrow> byte_at path p = 0 \<or> byte_at path p = SLASH \<and> byte_at path (p + 1) = 0"

definition skip_slashes :: "u8 list \<Rightarrow> nat \<Rightarrow> nat" where
  "skip_slashes path p = p + length (takeWhile (\<lambda>c. c = SLASH) (drop p path))"

definition component_end :: "u8 list \<Rightarrow> nat \<Rightarrow> nat" where
  "component_end path p = p + length (takeWhile (\<lambda>c. c \<noteq> SLASH \<and> c \<noteq> 0) (drop p path))"

text \<open>
  The part of a round after the symbolic link: the permission to search, the next component, the bookkeeping of
  the directories, the lookup.
\<close>

definition namei_component :: "'a namei_fun \<Rightarrow> 'a namei_fun" where
  "namei_component walk E c v s =
     (let ip = nv_ip v in
      if ext2_permission ip PERM_SRCH s < 0
      then
        bindk (iput_if (na_want_dir c \<and> nv_last v \<noteq> Some ip) E (Some ip) s) (\<lambda>s.
        bindk (iput_if (nv_prev v \<noteq> None \<and> nv_prev v \<noteq> Some ip) E (nv_prev v) s) (\<lambda>s.
        Ret (nresult None (- EACCES) v, end_symlinks s)))
      else
        let p2 = skip_slashes (na_path c) (nv_pos v); p1 = component_end (na_path c) p2;
            v = v\<lparr>nv_base := p2, nv_pos := p1\<rparr>
        in bindk (if ip \<noteq> na_start c
                  then
                    if na_want_dir c \<and> EXT2_S_ISDIR (i_mode (ino s ip))
                    then bindk (iput_if (nv_last v \<noteq> None) E (nv_last v) s) (\<lambda>s. Ret (v\<lparr>nv_last := Some ip\<rparr>, s))
                    else bindk (iput_opt E (nv_prev v) s) (\<lambda>s. Ret (v\<lparr>nv_prev := Some ip\<rparr>, s))
                  else Ret (v, s)) (\<lambda>(v, s).
           bindk (find_entry E ip (take (p1 - p2) (drop p2 (na_path c))) (na_want_bp c) (nv_bp v) s) (\<lambda>((dp, lbp), s).
           let v = v\<lparr>nv_bp := lbp\<rparr>
           in case dp of
                None \<Rightarrow>
                  bindk (iput_if (nv_prev v \<noteq> None) E (nv_prev v) s) (\<lambda>s.
                  Ret (nresult None (- ENOENT) v, end_symlinks s))
              | Some dp \<Rightarrow> walk E c (v\<lparr>nv_ip := dp\<rparr>) s)))"

definition namei_round :: "'a namei_fun \<Rightarrow> 'a namei_fun" where
  "namei_round walk E c v s =
     (let ip = nv_ip v; i = ino s ip in
      if byte_at (na_path c) (nv_pos v) \<noteq> 0 \<and> \<not> EXT2_S_ISDIR (i_mode i) \<and> \<not> EXT2_S_ISLNK (i_mode i)
      then
        bindk (iput_if (na_want_dir c \<and> nv_last v \<noteq> Some ip) E (Some ip) s) (\<lambda>s.
        Ret (nresult None (- ENOTDIR) v, s))
      else if path_at_end (na_path c) (nv_pos v)
      then
        bindk (iput_if (nv_prev v \<noteq> None \<and> nv_prev v \<noteq> Some ip) E (nv_prev v) s) (\<lambda>s.
        Ret (nresult (Some ip) (nv_error v) v, end_symlinks s))
      else if EXT2_S_ISLNK (i_mode i)
      then
        if symlinks s \<ge> EXT2_MAX_SYMLINKS
        then
          bindk (ext2_iput E ip s) (\<lambda>s.
          bindk (iput_if (nv_prev v \<noteq> None \<and> nv_prev v \<noteq> Some ip) E (nv_prev v) s) (\<lambda>s.
          Ret (nresult None (- ELOOP) v, end_symlinks s)))
        else
          bindk (follow_symlink walk E ip (na_root c) (if na_want_dir c then nv_last v else nv_prev v) (nv_error v) s)
            (\<lambda>((dp, err), s).
          case dp of
            None \<Rightarrow>
              bindk (ext2_iput E ip s) (\<lambda>s.
              bindk (iput_if (nv_prev v \<noteq> Some ip) E (nv_prev v) s) (\<lambda>s.
              Ret (nresult None err v, end_symlinks s)))
          | Some dp \<Rightarrow>
              namei_component walk E c (v\<lparr>nv_ip := dp, nv_error := err\<rparr>) (s\<lparr>symlinks := symlinks s + 1\<rparr>))
      else namei_component walk E c v s)"

text \<open>The loop. Its fuel counts rounds, those of nested walks included.\<close>

primrec namei_loop :: "nat \<Rightarrow> 'a namei_fun" where
  "namei_loop 0 = (\<lambda>E c v s. Stop Diverges)"
| "namei_loop (Suc n) = namei_round (namei_loop n)"

definition ext2_namei :: "'a ext2_state_scheme e2_env \<Rightarrow> u8 list \<Rightarrow> bool \<Rightarrow> bool \<Rightarrow> nat option \<Rightarrow> nat option \<Rightarrow> nat option \<Rightarrow> int \<Rightarrow>
    'a ext2_state_scheme \<Rightarrow> (namei_result \<times> 'a ext2_state_scheme) kres" where
  "ext2_namei E = namei_start (namei_loop (e2_fuel E)) E"

definition ext2_follow_symlink :: "'a ext2_state_scheme e2_env \<Rightarrow> nat \<Rightarrow> nat \<Rightarrow> nat option \<Rightarrow> int \<Rightarrow> 'a ext2_state_scheme \<Rightarrow>
    ((nat option \<times> int) \<times> 'a ext2_state_scheme) kres" where
  "ext2_follow_symlink E = follow_symlink (namei_loop (e2_fuel E)) E"

text \<open>
  Paths come from the caller's memory. A string without a zero byte in the whole address space has no end.
\<close>

partial_function (option) user_string :: "u32 \<Rightarrow> user_space \<Rightarrow> u8 list option" where
  "user_string p u =
     (if get_ubyte p u = 0 then Some []
      else Option.bind (user_string (p + 1) u) (\<lambda>bs. Some (get_ubyte p u # bs)))"

declare user_string.simps [code]

definition user_path :: "u32 \<Rightarrow> 'a sys_state_scheme \<Rightarrow> u8 list kres" where
  "user_path p s = (case user_string p (cur_space s) of None \<Rightarrow> Stop Diverges | Some bs \<Rightarrow> Ret bs)"

definition ext2_public_namei :: "'a ext2_state_scheme e2_env \<Rightarrow> u32 \<Rightarrow> 'a ext2_state_scheme \<Rightarrow>
    ((nat option \<times> int) \<times> 'a ext2_state_scheme) kres" where
  "ext2_public_namei E path s =
     bindk (user_path path s) (\<lambda>path.
     bindk (ext2_namei E path False False None None None 0 s) (\<lambda>(r, s).
     Ret ((nr_ip r, nr_error r), s)))"

end
