(* ===== verification/Ext2_File.thy ===== *)
theory Ext2_File
  imports Ext2_Namei
begin

text \<open>
  Reading, writing and seeking: \<^verbatim>\<open>sys/fs/ext2/read_write.c\<close>. Offsets are \<^verbatim>\<open>off_t\<close>, signed and 32 bits wide.
\<close>

abbreviation (input) SEEK_SET :: int where "SEEK_SET \<equiv> 0"
abbreviation (input) SEEK_CUR :: int where "SEEK_CUR \<equiv> 1"
abbreviation (input) SEEK_END :: int where "SEEK_END \<equiv> 2"

definition off32 :: "int \<Rightarrow> int" where
  "off32 x = sint (word_of_int x :: u32)"

text \<open>\<^verbatim>\<open>count - c\<close> for an unsigned \<^verbatim>\<open>count\<close>, returned as a signed number.\<close>

definition bytes_done :: "u32 \<Rightarrow> int \<Rightarrow> int" where
  "bytes_done count c = sint (count - word_of_int c)"

definition chunk :: "int \<Rightarrow> int \<Rightarrow> int \<Rightarrow> int" where
  "chunk bsize off c = (if bsize - off < c then bsize - off else c)"

definition brelse_opt :: "'a ext2_state_scheme e2_env \<Rightarrow> nat option \<Rightarrow> 'a ext2_state_scheme \<Rightarrow> 'a ext2_state_scheme kres" where
  "brelse_opt E p s = (case p of None \<Rightarrow> Ret s | Some bp \<Rightarrow> e2_brelse E bp s)"

section \<open>Files\<close>

text \<open>
  What a loop leaves: the error, the bytes still to do, the position, and the variable \<^verbatim>\<open>bp\<close>. The fuel of the
  loops is the number of bytes and one more: every round moves at least one byte when the block size is not 0.
\<close>

type_synonym rw_end = "int \<times> int \<times> int \<times> nat option"

text \<open>In a hole the rest of the request is filled with zeroes, whatever follows in the file, and \<^verbatim>\<open>c\<close> ends at -1.\<close>

primrec file_read_loop :: "nat \<Rightarrow> 'a ext2_state_scheme e2_env \<Rightarrow> nat \<Rightarrow> ext2_superblock_m \<Rightarrow> u32 \<Rightarrow> int \<Rightarrow> int \<Rightarrow> nat option \<Rightarrow>
    'a ext2_state_scheme \<Rightarrow> (rw_end \<times> 'a ext2_state_scheme) kres" where
  "file_read_loop 0 E ip m p c pos bp s = Stop Diverges"
| "file_read_loop (Suc n) E ip m p c pos bp s =
     (if c > 0 then
        bindk (ext2_bmap E ip pos s) (\<lambda>(block, s).
        if block \<noteq> 0 then
          bindk (e2_bread E (i_dev (inodes s ip)) block s) (\<lambda>(r, s).
          case r of
            None \<Rightarrow> Ret ((- EIO, c, pos, None), s)
          | Some bp \<Rightarrow>
              let bsize = sint (EXT2_BLOCKSIZE m); off = c_mod pos bsize; nr = chunk bsize off c;
                  s = upd_space (cp_to_user p (kbytes (bdata bp s + word_of_int off) (nat nr) s)) s
              in bindk (e2_brelse E bp s) (\<lambda>s.
                 file_read_loop n E ip m (p + word_of_int nr) (c - nr) (off32 (pos + nr)) None s))
        else file_read_loop n E ip m (p + word_of_int c) (-1) pos bp
               (upd_space (cp_to_user p (replicate (nat c) 0)) s))
      else Ret ((0, c, pos, bp), s))"

definition file_read :: "'a ext2_state_scheme e2_env \<Rightarrow> nat \<Rightarrow> u32 \<Rightarrow> u32 \<Rightarrow> int \<Rightarrow> 'a ext2_state_scheme \<Rightarrow>
    ((int \<times> int) \<times> 'a ext2_state_scheme) kres" where
  "file_read E ip buf count pos s =
     (let c = sint count in
      if c < 0 then Ret ((- EOVERFLOW, pos), s)
      else if pos < 0 then Ret ((- EFBIG, pos), s)
      else
        bindk (get_ext2_superblock (i_dev (inodes s ip)) s) (\<lambda>(fs, m).
        bindk (file_read_loop (nat c + 2) E ip m buf c pos (stack_bp E) s) (\<lambda>((err, c, pos, bp), s).
        bindk (brelse_opt E bp s) (\<lambda>s.
        bindk (unlock_ino E ip (set_i_modified ip (upd_i ip (\<lambda>i. i\<lparr>i_atime := CURRENT_TIME s\<rparr>) s))) (\<lambda>s.
        Ret ((if err \<noteq> 0 then err else bytes_done count c, pos), s))))))"

primrec file_write_loop :: "nat \<Rightarrow> 'a ext2_state_scheme e2_env \<Rightarrow> nat \<Rightarrow> ext2_superblock_m \<Rightarrow> u32 \<Rightarrow> int \<Rightarrow> int \<Rightarrow> nat option \<Rightarrow>
    'a ext2_state_scheme \<Rightarrow> (rw_end \<times> 'a ext2_state_scheme) kres" where
  "file_write_loop 0 E ip m p c pos bp s = Stop Diverges"
| "file_write_loop (Suc n) E ip m p c pos bp s =
     (if c \<noteq> 0 then
        bindk (ext2_create_block E ip pos s) (\<lambda>(block, s).
        if block = 0 then Ret ((0, c, pos, bp), s)
        else
          bindk (e2_bread E (i_dev (inodes s ip)) block s) (\<lambda>(r, s).
          case r of
            None \<Rightarrow> Ret ((- EIO, c, pos, None), s)
          | Some bp \<Rightarrow>
              let bsize = sint (EXT2_BLOCKSIZE m); off = c_mod pos bsize; nr = chunk bsize off c;
                  s = kwrite (bdata bp s + word_of_int off) (user_bytes p (nat nr) (cur_space s)) s
              in bindk (e2_brelse E bp (set_dwrite bp s)) (\<lambda>s.
                 file_write_loop n E ip m (p + word_of_int nr) (c - nr) (off32 (pos + nr)) None s)))
      else Ret ((0, c, pos, bp), s))"

definition file_write :: "'a ext2_state_scheme e2_env \<Rightarrow> nat \<Rightarrow> u32 \<Rightarrow> u32 \<Rightarrow> int \<Rightarrow> 'a ext2_state_scheme \<Rightarrow>
    ((int \<times> int) \<times> 'a ext2_state_scheme) kres" where
  "file_write E ip buf count pos s =
     (let c = sint count in
      if c < 0 then Ret ((- EOVERFLOW, pos), s)
      else if pos < 0 then Ret ((- EFBIG, pos), s)
      else
        bindk (get_ext2_superblock (i_dev (inodes s ip)) s) (\<lambda>(fs, m).
        bindk (file_write_loop (nat c + 2) E ip m buf c pos (stack_bp E) s) (\<lambda>((err, c, pos, bp), s).
        let s = upd_i ip (\<lambda>i. i\<lparr>i_mtime := CURRENT_TIME s, i_size := i_size i + (count - word_of_int c)\<rparr>) s
        in bindk (unlock_ino E ip (set_i_modified ip s)) (\<lambda>s.
           bindk (brelse_opt E bp s) (\<lambda>s.
           Ret ((if err \<noteq> 0 then err else bytes_done count c, pos), s))))))"

section \<open>Block devices\<close>

text \<open>The loops run on sectors; both routines return \<^verbatim>\<open>c - count\<close>.\<close>

definition sector_block :: "'a ext2_state_scheme e2_env \<Rightarrow> u32 \<Rightarrow> int \<Rightarrow> 'a ext2_state_scheme \<Rightarrow> (nat \<times> 'a ext2_state_scheme) kres" where
  "sector_block E dev pos s =
     bindk (e2_getblk E dev (word_of_int (c_div pos SECTOR_SIZE)) s) (\<lambda>(bp, s).
     bindk (blk_devio (be_disk (e2_bufs E)) bp READ s) (\<lambda>(_, s). Ret (bp, s)))"

primrec blkdev_read_loop :: "nat \<Rightarrow> 'a ext2_state_scheme e2_env \<Rightarrow> u32 \<Rightarrow> u32 \<Rightarrow> u32 \<Rightarrow> int \<Rightarrow> int \<Rightarrow>
    'a ext2_state_scheme \<Rightarrow> ((int \<times> int) \<times> 'a ext2_state_scheme) kres" where
  "blkdev_read_loop 0 E dev count p c pos s = Stop Diverges"
| "blkdev_read_loop (Suc n) E dev count p c pos s =
     (if c \<noteq> 0 then
        bindk (sector_block E dev pos s) (\<lambda>(bp, s).
        if b_flags (buffers s bp) AND B_ERROR \<noteq> 0
        then bindk (e2_brelse E bp s) (\<lambda>s. Ret ((- EIO, pos), s))
        else
          let off = c_mod pos SECTOR_SIZE; nr = chunk SECTOR_SIZE off c;
              s = upd_space (cp_to_user p (kbytes (bdata bp s + word_of_int off) (nat nr) s)) s
          in bindk (e2_brelse E bp s) (\<lambda>s.
             blkdev_read_loop n E dev count (p + word_of_int nr) (c - nr) (off32 (pos + nr)) s))
      else Ret ((sint (word_of_int c - count), pos), s))"

definition blkdev_read :: "'a ext2_state_scheme e2_env \<Rightarrow> nat \<Rightarrow> u32 \<Rightarrow> u32 \<Rightarrow> int \<Rightarrow> 'a ext2_state_scheme \<Rightarrow>
    ((int \<times> int) \<times> 'a ext2_state_scheme) kres" where
  "blkdev_read E ip buf count pos s =
     (let c = sint count; dev = i_block (ino s ip) ! 0 in
      if c < 0 then Ret ((- EOVERFLOW, pos), s)
      else if pos < 0 then Ret ((- EFBIG, pos), s)
      else if \<not> is_blockdev dev then Ret ((- ENXIO, pos), s)
      else blkdev_read_loop (nat c + 1) E dev count buf c pos s)"

primrec blkdev_write_loop :: "nat \<Rightarrow> 'a ext2_state_scheme e2_env \<Rightarrow> nat \<Rightarrow> u32 \<Rightarrow> u32 \<Rightarrow> u32 \<Rightarrow> int \<Rightarrow> int \<Rightarrow>
    'a ext2_state_scheme \<Rightarrow> ((int \<times> int) \<times> 'a ext2_state_scheme) kres" where
  "blkdev_write_loop 0 E ip dev count p c pos s = Stop Diverges"
| "blkdev_write_loop (Suc n) E ip dev count p c pos s =
     (if c \<noteq> 0 then
        bindk (sector_block E dev pos s) (\<lambda>(bp, s).
        if b_flags (buffers s bp) AND B_ERROR \<noteq> 0
        then bindk (e2_brelse E bp s) (\<lambda>s. Ret ((- EIO, pos), s))
        else
          let off = c_mod pos SECTOR_SIZE; nr = chunk SECTOR_SIZE off c;
              s = kwrite (bdata bp s + word_of_int off) (user_bytes p (nat nr) (cur_space s)) s
          in bindk (e2_brelse E bp (set_dwrite bp s)) (\<lambda>s.
             blkdev_write_loop n E ip dev count (p + word_of_int nr) (c - nr) (off32 (pos + nr)) s))
      else Ret ((sint (word_of_int c - count), pos), touch_mtime ip (set_i_modified ip s)))"

definition blkdev_write :: "'a ext2_state_scheme e2_env \<Rightarrow> nat \<Rightarrow> u32 \<Rightarrow> u32 \<Rightarrow> int \<Rightarrow> 'a ext2_state_scheme \<Rightarrow>
    ((int \<times> int) \<times> 'a ext2_state_scheme) kres" where
  "blkdev_write E ip buf count pos s =
     (let c = sint count; dev = i_block (ino s ip) ! 0 in
      if c < 0 then Ret ((- EOVERFLOW, pos), s)
      else if pos < 0 then Ret ((- EFBIG, pos), s)
      else if \<not> is_blockdev dev then Ret ((- ENXIO, pos), s)
      else blkdev_write_loop (nat c + 1) E ip dev count buf c pos s)"

section \<open>Dispatch\<close>

text \<open>\<^verbatim>\<open>chr_devio\<close> takes its count as a signed number. The offset is given back with the result.\<close>

definition chr_rw :: "'a ext2_state_scheme e2_env \<Rightarrow> nat \<Rightarrow> u32 \<Rightarrow> u32 \<Rightarrow> rw \<Rightarrow> int \<Rightarrow> 'a ext2_state_scheme \<Rightarrow>
    ((int \<times> int) \<times> 'a ext2_state_scheme) kres" where
  "chr_rw E ip buf count rw off s =
     bindk (chr_devio (tty_ops E) (ttyx_ops E) (i_block (ino s ip) ! 0) buf (sint count) rw s) (\<lambda>(r, s). Ret ((r, off), s))"

definition ext2_readi :: "'a ext2_state_scheme e2_env \<Rightarrow> nat \<Rightarrow> u32 \<Rightarrow> u32 \<Rightarrow> int \<Rightarrow> 'a ext2_state_scheme \<Rightarrow>
    ((int \<times> int) \<times> 'a ext2_state_scheme) kres" where
  "ext2_readi E ip buf count off s =
     (let mode = i_mode (ino s ip) in
      if EXT2_S_ISDIR mode \<or> EXT2_S_ISREG mode then file_read E ip buf count off s
      else if EXT2_S_ISBLK mode then blkdev_read E ip buf count off s
      else if EXT2_S_ISCHR mode then chr_rw E ip buf count READ off s
      else Ret ((- EINVAL, off), s))"

definition ext2_writei :: "'a ext2_state_scheme e2_env \<Rightarrow> nat \<Rightarrow> u32 \<Rightarrow> u32 \<Rightarrow> int \<Rightarrow> 'a ext2_state_scheme \<Rightarrow>
    ((int \<times> int) \<times> 'a ext2_state_scheme) kres" where
  "ext2_writei E ip buf count off s =
     (let mode = i_mode (ino s ip) in
      if EXT2_S_ISDIR mode \<or> EXT2_S_ISREG mode then file_write E ip buf count off s
      else if EXT2_S_ISBLK mode then blkdev_write E ip buf count off s
      else if EXT2_S_ISCHR mode then chr_rw E ip buf count WRITE off s
      else Ret ((- EINVAL, off), s))"

definition at_file_pos :: "nat \<Rightarrow> ((int \<times> int) \<times> 'a ext2_state_scheme) kres \<Rightarrow> (int \<times> 'a ext2_state_scheme) kres" where
  "at_file_pos fp r = bindk r (\<lambda>((ret, pos), s). Ret (ret, upd_file fp (\<lambda>f. f\<lparr>f_pos := pos\<rparr>) s))"

definition ext2_read :: "'a ext2_state_scheme e2_env \<Rightarrow> nat \<Rightarrow> u32 \<Rightarrow> u32 \<Rightarrow> 'a ext2_state_scheme \<Rightarrow> (int \<times> 'a ext2_state_scheme) kres" where
  "ext2_read E fp buf count s =
     (case f_inode (file_table s fp) of
        None \<Rightarrow> Ret (- EINVAL, s)
      | Some ip \<Rightarrow> at_file_pos fp (ext2_readi E ip buf count (f_pos (file_table s fp)) s))"

definition ext2_write :: "'a ext2_state_scheme e2_env \<Rightarrow> nat \<Rightarrow> u32 \<Rightarrow> u32 \<Rightarrow> 'a ext2_state_scheme \<Rightarrow> (int \<times> 'a ext2_state_scheme) kres" where
  "ext2_write E fp buf count s =
     (case f_inode (file_table s fp) of
        None \<Rightarrow> Ret (- EINVAL, s)
      | Some ip \<Rightarrow>
          if f_flags (file_table s fp) AND O_APPEND \<noteq> 0
          then
            if sint (i_size (ino s ip)) < 0 then Ret (- EFBIG, s)
            else at_file_pos fp (ext2_writei E ip buf count (sint (i_size (ino s ip)))
                   (upd_file fp (\<lambda>f. f\<lparr>f_pos := sint (i_size (ino s ip))\<rparr>) s))
          else at_file_pos fp (ext2_writei E ip buf count (f_pos (file_table s fp)) s))"

section \<open>Seeking\<close>

text \<open>The result and the new value of \<^verbatim>\<open>*ptr\<close>.\<close>

definition ext2_lseek :: "int \<Rightarrow> nat \<Rightarrow> int \<Rightarrow> int \<Rightarrow> 'a ext2_state_scheme \<Rightarrow> int \<times> int" where
  "ext2_lseek ptr ip pos whence s =
     (let mode = i_mode (ino s ip) in
      if EXT2_S_ISCHR mode then (0, ptr)
      else if EXT2_S_ISFIFO mode \<or> EXT2_S_ISSOCK mode then (- ESPIPE, ptr)
      else
        let seek = (\<lambda>new. if new < 0 then (- EOVERFLOW, ptr) else (new, new))
        in if whence = SEEK_SET then seek pos
           else if whence = SEEK_CUR then seek (off32 (ptr + pos))
           else if whence = SEEK_END then seek (off32 (uint (i_size (ino s ip)) + pos))
           else (- EINVAL, ptr))"

end
