(* ===== verification/Ext2_Calls.thy ===== *)
theory Ext2_Calls
  imports Ext2_File
begin

text \<open>
  The system calls of the filesystem that work on paths and inodes: \<^verbatim>\<open>open.c\<close>, \<^verbatim>\<open>stat.c\<close>, \<^verbatim>\<open>symlink.c\<close>, and those of
  \<^verbatim>\<open>dir.c\<close> and \<^verbatim>\<open>namei.c\<close>, all in \<^verbatim>\<open>sys/fs/ext2\<close>. Path arguments are strings here; the table of the driver reads
  them from user memory.
\<close>

section \<open>Walks and what they return\<close>

text \<open>A variable \<^verbatim>\<open>err\<close> that the walk does not set keeps what the stack held; a walk that fails always sets it.\<close>

definition lookup :: "'a ext2_state_scheme e2_env \<Rightarrow> u8 list \<Rightarrow> bool \<Rightarrow> bool \<Rightarrow> nat option \<Rightarrow> int \<Rightarrow> 'a ext2_state_scheme \<Rightarrow>
    (namei_result \<times> 'a ext2_state_scheme) kres" where
  "lookup E path want_dir want_bp bp err = ext2_namei E path want_dir want_bp None None bp err"

definition iput_last :: "'a ext2_state_scheme e2_env \<Rightarrow> namei_result \<Rightarrow> 'r \<Rightarrow> 'a ext2_state_scheme \<Rightarrow> ('r \<times> 'a ext2_state_scheme) kres" where
  "iput_last E r ret s = bindk (iput_opt E (nr_last r) s) (\<lambda>s. Ret (ret, s))"

text \<open>\<^verbatim>\<open>ext2_iput(ip); if (ip != dp) ext2_iput(dp); return ret;\<close>\<close>

definition iput_both :: "'a ext2_state_scheme e2_env \<Rightarrow> nat \<Rightarrow> nat option \<Rightarrow> 'r \<Rightarrow> 'a ext2_state_scheme \<Rightarrow> ('r \<times> 'a ext2_state_scheme) kres" where
  "iput_both E ip dp ret s =
     bindk (ext2_iput E ip s) (\<lambda>s. bindk (iput_if (dp \<noteq> Some ip) E dp s) (\<lambda>s. Ret (ret, s)))"

definition cur_root :: "'a ext2_state_scheme \<Rightarrow> nat kres" where
  "cur_root s = (case gi_inode (root_inode (cur s)) of None \<Rightarrow> Stop (Fault ''root_inode'') | Some r \<Rightarrow> Ret r)"

text \<open>The rest of the path from the last component on, and whether a slash stands in it.\<close>

definition base_name :: "u8 list \<Rightarrow> namei_result \<Rightarrow> u8 list" where
  "base_name path r = drop (nr_base r) path"

definition base_end :: "u8 list \<Rightarrow> namei_result \<Rightarrow> nat" where
  "base_end path r = component_end path (nr_base r)"

section \<open>New files\<close>

text \<open>
  \<^verbatim>\<open>memset(&ip->i_ino, 0, EXT2_INODE_SIZE(sb))\<close>: the size of an inode on the disk, which runs over the other fields
  of the cached inode when it is more than 128.
\<close>

definition clear_inode :: "ext2_superblock_m \<Rightarrow> nat \<Rightarrow> 'a ext2_state_scheme \<Rightarrow> 'a ext2_state_scheme kres" where
  "clear_inode m ip s =
     (let n = unat (EXT2_INODE_SIZE m) in
      if n > 128 then Stop (Fault ''i_ino'')
      else Ret (upd_i ip (\<lambda>i. decode_inode (replicate n 0 @ drop n (encode_inode i))) s))"

definition ext2_new_file :: "'a ext2_state_scheme e2_env \<Rightarrow> u8 list \<Rightarrow> nat \<Rightarrow> u32 \<Rightarrow> u32 \<Rightarrow> 'a ext2_state_scheme \<Rightarrow>
    ((nat option \<times> int) \<times> 'a ext2_state_scheme) kres" where
  "ext2_new_file E name dir mode dev s =
     bindk (get_ext2_superblock (i_dev (inodes s dir)) s) (\<lambda>(fs, m).
     bindk (ext2_ialloc E (i_dev (inodes s dir)) s) (\<lambda>(new, s).
     if new = 0 then Ret ((None, - ENOSPC), s)
     else
       bindk (ext2_iget E (i_dev (inodes s dir)) new s) (\<lambda>(r, s).
       case r of
         None \<Rightarrow> Ret ((None, - EIO), s)
       | Some ip \<Rightarrow>
           bindk (clear_inode m ip s) (\<lambda>s.
           let p = cur s; now = CURRENT_TIME s;
               s = upd_i ip (\<lambda>i. i\<lparr>i_mode := ucast mode, i_uid := word_of_int (euid p), i_gid := word_of_int (egid p),
                     i_ctime := now, i_mtime := now, i_atime := now, i_dtime := 0, i_links_count := 1, i_blocks := 0\<rparr>) s;
               s = (if EXT2_S_ISCHR (ucast mode) \<or> EXT2_S_ISBLK (ucast mode)
                    then upd_i ip (\<lambda>i. i\<lparr>i_block := (i_block i)[0 := dev]\<rparr>) s else s)
           in bindk (ext2_add_dir_entry E dir ip name (set_i_modified ip s)) (\<lambda>(err, s).
              if err < 0
              then bindk (ext2_iput E ip (upd_i ip (\<lambda>i. i\<lparr>i_links_count := 0\<rparr>) s)) (\<lambda>s. Ret ((None, err), s))
              else Ret ((Some ip, err), s))))))"

section \<open>Opening\<close>

text \<open>
  The end of \<^verbatim>\<open>ext2_open\<close>: it prints fields of the inode, releases the directory and unlocks the inode, whether there
  is an inode or not.
\<close>

definition open_end :: "'a ext2_state_scheme e2_env \<Rightarrow> nat option \<Rightarrow> nat option \<Rightarrow> nat option \<Rightarrow> int \<Rightarrow> 'a ext2_state_scheme \<Rightarrow>
    ((nat option \<times> int) \<times> 'a ext2_state_scheme) kres" where
  "open_end E ip dir ret err s =
     (case ip of
        None \<Rightarrow> Stop (Fault ''NULL inode'')
      | Some i \<Rightarrow>
          bindk (iput_if (dir \<noteq> ip) E dir s) (\<lambda>s.
          bindk (unlock_ino E i s) (\<lambda>s. Ret ((ret, err), s))))"

definition ext2_open_file :: "'a ext2_state_scheme e2_env \<Rightarrow> nat \<Rightarrow> nat option \<Rightarrow> u32 \<Rightarrow> int \<Rightarrow> 'a ext2_state_scheme \<Rightarrow>
    ((nat option \<times> int) \<times> 'a ext2_state_scheme) kres" where
  "ext2_open_file E ip dir flags err s =
     (let acc = flags AND O_ACCMODE; mode = i_mode (ino s ip) in
      if acc \<noteq> O_WRONLY \<and> ext2_permission ip PERM_READ s < 0 then open_end E (Some ip) dir None (- EACCES) s
      else if acc \<noteq> O_RDONLY \<and> ext2_permission ip PERM_WRITE s < 0 then open_end E (Some ip) dir None (- EACCES) s
      else if acc \<noteq> O_RDONLY \<and> EXT2_S_ISDIR mode then open_end E (Some ip) dir None (- EISDIR) s
      else
        bindk (if flags AND O_TRUNC \<noteq> 0 \<and> EXT2_S_ISREG mode then ext2_itrunc E ip s else Ret s) (\<lambda>s.
        bindk (if EXT2_S_ISCHR (i_mode (ino s ip))
               then bindk (chr_dev_open (tty_ops E) (ttyx_ops E) (i_block (ino s ip) ! 0) s) (\<lambda>(_, s). Ret s)
               else Ret s) (\<lambda>s.
        open_end E (Some ip) dir (Some ip) err s)))"

definition ext2_open :: "'a ext2_state_scheme e2_env \<Rightarrow> u8 list \<Rightarrow> u32 \<Rightarrow> u32 \<Rightarrow> int \<Rightarrow> 'a ext2_state_scheme \<Rightarrow>
    ((nat option \<times> int) \<times> 'a ext2_state_scheme) kres" where
  "ext2_open E path flags mode err s =
     bindk (lookup E path True False None err s) (\<lambda>(r, s).
     case nr_ip r of
       Some ip \<Rightarrow> ext2_open_file E ip (nr_last r) flags (nr_error r) s
     | None \<Rightarrow>
         if flags AND O_CREAT = 0
         then bindk (iput_opt E (nr_last r) s) (\<lambda>s. open_end E None (nr_last r) None (- ENOENT) s)
         else
           (case nr_last r of
              None \<Rightarrow> Stop (Fault ''NULL inode'')
            | Some dir \<Rightarrow>
                if \<not> EXT2_S_ISDIR (i_mode (ino s dir)) then open_end E None (nr_last r) None (- ENOTDIR) s
                else if SLASH \<in> set (base_name path r) then open_end E None (nr_last r) None (- ENOENT) s
                else
                  bindk (ext2_new_file E (base_name path r) dir mode 0 s) (\<lambda>((ip, err), s).
                  open_end E ip (nr_last r) ip err s)))"

definition ext2_mknod :: "'a ext2_state_scheme e2_env \<Rightarrow> u8 list \<Rightarrow> u32 \<Rightarrow> u32 \<Rightarrow> int \<Rightarrow> 'a ext2_state_scheme \<Rightarrow>
    (int \<times> 'a ext2_state_scheme) kres" where
  "ext2_mknod E path mode dev err s =
     (let mode = mode AND NOT (umask (cur s)) in
      bindk (lookup E path True False None err s) (\<lambda>(r, s).
      case nr_ip r of
        Some ip \<Rightarrow> iput_both E ip (nr_last r) (- EEXIST) s
      | None \<Rightarrow>
          if nr_error r \<noteq> - ENOENT then iput_last E r (nr_error r) s
          else if byte_at path (base_end path r) = SLASH then iput_last E r (- ENOENT) s
          else
            (case nr_last r of
               None \<Rightarrow> Stop (Fault ''NULL inode'')
             | Some dp \<Rightarrow>
                 bindk (ext2_new_file E (base_name path r) dp mode dev s) (\<lambda>((ip, err), s).
                 case ip of
                   None \<Rightarrow> bindk (ext2_iput E dp s) (\<lambda>s. Ret (err, s))
                 | Some ip \<Rightarrow> bindk (ext2_iput E ip s) (\<lambda>s. bindk (ext2_iput E dp s) (\<lambda>s. Ret (0, s)))))))"

definition ext2_close :: "'a ext2_state_scheme e2_env \<Rightarrow> nat \<Rightarrow> 'a ext2_state_scheme \<Rightarrow> (int \<times> 'a ext2_state_scheme) kres" where
  "ext2_close E fp s =
     (case f_inode (file_table s fp) of
        None \<Rightarrow> Stop (Panic ''ext2_close: file == NULL or file->f_inode == NULL'')
      | Some ip \<Rightarrow>
          if f_count (file_table s fp) = 0 then bindk (ext2_iput E ip s) (\<lambda>s. Ret (0, s)) else Ret (0, s))"

section \<open>Owners and modes\<close>

definition chown_inode :: "'a ext2_state_scheme e2_env \<Rightarrow> nat \<Rightarrow> int \<Rightarrow> int \<Rightarrow> 'a ext2_state_scheme \<Rightarrow> (int \<times> 'a ext2_state_scheme) kres" where
  "chown_inode E ip u g s =
     (if euid (cur s) \<noteq> uint (i_uid (ino s ip)) then bindk (ext2_iput E ip s) (\<lambda>s. Ret (- EPERM, s))
      else
        let s = (if u \<noteq> -1 then set_i_modified ip (upd_i ip (\<lambda>i. i\<lparr>i_uid := word_of_int u\<rparr>) s) else s);
            s = (if g \<noteq> -1 then set_i_modified ip (upd_i ip (\<lambda>i. i\<lparr>i_gid := word_of_int g\<rparr>) s) else s)
        in bindk (ext2_iput E ip s) (\<lambda>s. Ret (0, s)))"

definition ext2_lchown :: "'a ext2_state_scheme e2_env \<Rightarrow> u8 list \<Rightarrow> int \<Rightarrow> int \<Rightarrow> int \<Rightarrow> 'a ext2_state_scheme \<Rightarrow> (int \<times> 'a ext2_state_scheme) kres" where
  "ext2_lchown E path u g err s =
     bindk (lookup E path False False None err s) (\<lambda>(r, s).
     case nr_ip r of None \<Rightarrow> Ret (nr_error r, s) | Some ip \<Rightarrow> chown_inode E ip u g s)"

definition ext2_chown :: "'a ext2_state_scheme e2_env \<Rightarrow> u8 list \<Rightarrow> int \<Rightarrow> int \<Rightarrow> int \<Rightarrow> 'a ext2_state_scheme \<Rightarrow> (int \<times> 'a ext2_state_scheme) kres" where
  "ext2_chown E path u g err s =
     bindk (lookup E path True False None err s) (\<lambda>(r, s).
     case nr_ip r of
       None \<Rightarrow> Ret (nr_error r, s)
     | Some ip \<Rightarrow>
         if EXT2_S_ISLNK (i_mode (ino s ip))
         then
           bindk (cur_root s) (\<lambda>root.
           bindk (ext2_follow_symlink E ip root (nr_last r) (nr_error r) s) (\<lambda>((target, err), s).
           case target of
             None \<Rightarrow> iput_both E ip (nr_last r) err s
           | Some t \<Rightarrow>
               bindk (ext2_iput E ip s) (\<lambda>s.
               bindk (iput_if (nr_last r \<noteq> Some ip) E (nr_last r) s) (\<lambda>s.
               chown_inode E t u g s))))
         else
           bindk (iput_if (nr_last r \<noteq> Some ip) E (nr_last r) s) (\<lambda>s. chown_inode E ip u g s))"

text \<open>A failure releases the inode here, and the callers release it again.\<close>

definition chmod_inode :: "'a ext2_state_scheme e2_env \<Rightarrow> nat \<Rightarrow> u32 \<Rightarrow> 'a ext2_state_scheme \<Rightarrow> (int \<times> 'a ext2_state_scheme) kres" where
  "chmod_inode E ip mode s =
     (let i = ino s ip;
          mode = (if uint (i_gid i) \<noteq> egid (cur s) then mode AND NOT EXT2_S_ISGID else mode) AND 0xFFF
      in if euid (cur s) = uint (i_uid i)
         then
           let s = upd_i ip (\<lambda>i. i\<lparr>i_mode := i_mode i AND EXT2_S_IFMT OR ucast mode\<rparr>) s
           in Ret (0, set_i_modified ip (touch_mtime ip s))
         else bindk (ext2_iput E ip s) (\<lambda>s. Ret (- EACCES, s)))"

definition ext2_chmod :: "'a ext2_state_scheme e2_env \<Rightarrow> u8 list \<Rightarrow> u32 \<Rightarrow> int \<Rightarrow> 'a ext2_state_scheme \<Rightarrow> (int \<times> 'a ext2_state_scheme) kres" where
  "ext2_chmod E path mode err s =
     bindk (lookup E path False False None err s) (\<lambda>(r, s).
     case nr_ip r of
       None \<Rightarrow> Ret (nr_error r, s)
     | Some ip \<Rightarrow>
         bindk (chmod_inode E ip mode s) (\<lambda>(err, s).
         bindk (ext2_iput E ip s) (\<lambda>s. Ret (err, s))))"

definition ext2_fchmod :: "'a ext2_state_scheme e2_env \<Rightarrow> nat \<Rightarrow> u32 \<Rightarrow> 'a ext2_state_scheme \<Rightarrow> (int \<times> 'a ext2_state_scheme) kres" where
  "ext2_fchmod E fp mode s =
     (case f_inode (file_table s fp) of None \<Rightarrow> Stop (Fault ''NULL inode'') | Some ip \<Rightarrow> chmod_inode E ip mode s)"

section \<open>Directories of the process\<close>

definition set_root :: "nat \<Rightarrow> 'a sched_state_scheme \<Rightarrow> 'a sched_state_scheme" where
  "set_root ip s = upd_proc (current_process s) (\<lambda>p. p\<lparr>root_inode := (root_inode p)\<lparr>gi_inode := Some ip\<rparr>\<rparr>) s"

definition set_cwd :: "nat \<Rightarrow> 'a sched_state_scheme \<Rightarrow> 'a sched_state_scheme" where
  "set_cwd ip s = upd_proc (current_process s) (\<lambda>p. p\<lparr>cwd_inode := (cwd_inode p)\<lparr>gi_inode := Some ip\<rparr>\<rparr>) s"

definition chroot_to :: "'a ext2_state_scheme e2_env \<Rightarrow> nat \<Rightarrow> 'a ext2_state_scheme \<Rightarrow> (int \<times> 'a ext2_state_scheme) kres" where
  "chroot_to E ip s =
     (if \<not> EXT2_S_ISDIR (i_mode (ino s ip)) then bindk (ext2_iput E ip s) (\<lambda>s. Ret (- ENOTDIR, s))
      else bindk (iput_opt E (gi_inode (root_inode (cur s))) s) (\<lambda>s. Ret (0, set_root ip s)))"

text \<open>The walk's errors are negative, the test is for the positive number; the loop in the other branch has no end.\<close>

definition ext2_chroot :: "'a ext2_state_scheme e2_env \<Rightarrow> u8 list \<Rightarrow> int \<Rightarrow> 'a ext2_state_scheme \<Rightarrow> (int \<times> 'a ext2_state_scheme) kres" where
  "ext2_chroot E path err s =
     bindk (lookup E path True False None err s) (\<lambda>(r, s).
     case nr_ip r of
       Some ip \<Rightarrow> chroot_to E ip s
     | None \<Rightarrow>
         if nr_error r \<noteq> ENOENT then iput_last E r (nr_error r) s
         else if byte_at path (nr_base r) \<noteq> 0 \<and> byte_at path (nr_base r) \<noteq> SLASH then Stop Diverges
         else if byte_at path (nr_base r) = 0 then iput_last E r (- ENOENT) s
         else if byte_at path (nr_base r + 1) \<noteq> 0 then iput_last E r (- ENOENT) s
         else (case nr_last r of None \<Rightarrow> Stop (Fault ''NULL inode'') | Some dp \<Rightarrow> chroot_to E dp s))"

text \<open>The test for a final slash looks at the terminating zero. Neither the directory nor the type is checked.\<close>

definition ext2_chdir :: "'a ext2_state_scheme e2_env \<Rightarrow> u8 list \<Rightarrow> int \<Rightarrow> 'a ext2_state_scheme \<Rightarrow> (int \<times> 'a ext2_state_scheme) kres" where
  "ext2_chdir E path err s =
     bindk (lookup E path True False None err s) (\<lambda>(r, s).
     case nr_last r of
       None \<Rightarrow> Stop (Fault ''NULL inode'')
     | Some dp \<Rightarrow>
         if byte_at path (length path) = SLASH \<and> \<not> EXT2_S_ISDIR (i_mode (ino s dp)) then iput_last E r (- ENOTDIR) s
         else
           (case nr_ip r of
              None \<Rightarrow> iput_last E r (nr_error r) s
            | Some ip \<Rightarrow>
                bindk (iput_opt E (gi_inode (cwd_inode (cur s))) s) (\<lambda>s. Ret (0, set_cwd ip s))))"

section \<open>Links and directories\<close>

definition drop_link :: "nat \<Rightarrow> u16 \<Rightarrow> 'a ext2_state_scheme \<Rightarrow> 'a ext2_state_scheme" where
  "drop_link ip n s = set_i_modified ip (touch_mtime ip (upd_i ip (\<lambda>i. i\<lparr>i_links_count := i_links_count i - n\<rparr>) s))"

definition add_link :: "nat \<Rightarrow> 'a ext2_state_scheme \<Rightarrow> 'a ext2_state_scheme" where
  "add_link ip s = set_i_modified ip (touch_mtime ip (upd_i ip (\<lambda>i. i\<lparr>i_links_count := i_links_count i + 1\<rparr>) s))"

definition ext2_unlink :: "'a ext2_state_scheme e2_env \<Rightarrow> u8 list \<Rightarrow> int \<Rightarrow> 'a ext2_state_scheme \<Rightarrow> (int \<times> 'a ext2_state_scheme) kres" where
  "ext2_unlink E path err s =
     bindk (lookup E path True True (stack_bp E) err s) (\<lambda>(r, s).
     case (nr_ip r, nr_last r) of
       (None, _) \<Rightarrow> bindk (brelse_opt E (nr_bp r) s) (\<lambda>s. Ret (nr_error r, s))
     | (Some ip, None) \<Rightarrow> Stop (Fault ''NULL inode'')
     | (Some ip, Some dp) \<Rightarrow>
         if ext2_permission dp PERM_WRITE s < 0 then iput_both E ip (Some dp) (- EACCES) s
         else if Some ip = gi_inode (root_inode (cur s)) then iput_both E ip (Some dp) (- EBUSY) s
         else
           (case nr_bp r of
              None \<Rightarrow> Stop (Fault ''NULL buffer'')
            | Some bp \<Rightarrow>
                bindk (ext2_remove_dir_entry E (base_name path r) ip bp s) (\<lambda>(err, s).
                bindk (e2_brelse E bp s) (\<lambda>s.
                iput_both E ip (Some dp) err (drop_link ip 1 s)))))"

definition ext2_link :: "'a ext2_state_scheme e2_env \<Rightarrow> u8 list \<Rightarrow> u8 list \<Rightarrow> int \<Rightarrow> 'a ext2_state_scheme \<Rightarrow> (int \<times> 'a ext2_state_scheme) kres" where
  "ext2_link E path1 path2 err s =
     bindk (lookup E path1 False False None err s) (\<lambda>(r1, s).
     case nr_ip r1 of
       None \<Rightarrow> Ret (nr_error r1, s)
     | Some ip1 \<Rightarrow>
         if EXT2_S_ISDIR (i_mode (ino s ip1)) \<or> EXT2_S_ISLNK (i_mode (ino s ip1))
         then bindk (ext2_iput E ip1 s) (\<lambda>s. Ret (- EEXIST, s))
         else
           bindk (lookup E path2 True False None (nr_error r1) s) (\<lambda>(r2, s).
           case (nr_ip r2, nr_last r2) of
             (_, None) \<Rightarrow> Stop (Fault ''NULL inode'')
           | (Some ip2, Some dp) \<Rightarrow>
               bindk (iput_if (ip1 \<noteq> dp) E (Some dp) s) (\<lambda>s.
               bindk (ext2_iput E ip1 s) (\<lambda>s. Ret (- EEXIST, s)))
           | (None, Some dp) \<Rightarrow>
               bindk (ext2_add_dir_entry E dp ip1 (base_name path2 r2) s) (\<lambda>(err, s).
               iput_both E ip1 (Some dp) err (add_link ip1 s))))"

text \<open>
  The directory itself: its entries \<^verbatim>\<open>.\<close> and \<^verbatim>\<open>..\<close>, the links they make, and the group's count. What is returned by
  \<^verbatim>\<open>ext2_add_dir_entry\<close> is not looked at.
\<close>

definition make_dir :: "'a ext2_state_scheme e2_env \<Rightarrow> nat \<Rightarrow> nat \<Rightarrow> 'a ext2_state_scheme \<Rightarrow> (int \<times> 'a ext2_state_scheme) kres" where
  "make_dir E ip dp s =
     bindk (get_ext2_superblock (i_dev (inodes s ip)) s) (\<lambda>(fs, m).
     bindk (ext2_add_dir_entry E ip ip [0x2E] s) (\<lambda>(_, s).
     let s = upd_i ip (\<lambda>i. i\<lparr>i_size := EXT2_BLOCKSIZE m, i_links_count := i_links_count i + 1\<rparr>) s
     in bindk (ext2_add_dir_entry E ip dp [0x2E, 0x2E] s) (\<lambda>(_, s).
        let s = touch_mtime ip (set_i_modified ip (add_link dp s)); g = unat (EXT2_BLOCK_GROUP (i_num (inodes s ip)) m)
        in bindk (bgd_in_table g m) (\<lambda>_.
           bindk (locked_super E fs (upd_bgd g (\<lambda>b. b\<lparr>bg_used_dirs_count := bg_used_dirs_count b + 1\<rparr>)) s) (\<lambda>s.
           iput_both E ip (Some dp) 0 s)))))"

text \<open>\<open>path_addr\<close> is the address of the path: a final slash is overwritten there with a zero.\<close>

definition ext2_mkdir :: "'a ext2_state_scheme e2_env \<Rightarrow> u32 \<Rightarrow> u8 list \<Rightarrow> u32 \<Rightarrow> int \<Rightarrow> 'a ext2_state_scheme \<Rightarrow> (int \<times> 'a ext2_state_scheme) kres" where
  "ext2_mkdir E path_addr path mode err s =
     (let m = mode AND NOT (umask (cur s)) AND 0x1FF OR 0x4000 in
      bindk (lookup E path True False None err s) (\<lambda>(r, s).
      case (nr_ip r, nr_last r) of
        (Some ip, _) \<Rightarrow> bindk (ext2_iput E ip s) (\<lambda>s. Ret (- EEXIST, s))
      | (None, None) \<Rightarrow> Stop (Fault ''NULL inode'')
      | (None, Some dp) \<Rightarrow>
          (let e = base_end path r in
           if byte_at path e = SLASH \<and> byte_at path (e + 1) \<noteq> 0 then bindk (ext2_iput E dp s) (\<lambda>s. Ret (- ENOENT, s))
           else
             let cut = (byte_at path e = SLASH);
                 s = (if cut then upd_space (put_ubyte (path_addr + of_nat e) 0) s else s);
                 name = (if cut then drop (nr_base r) (take e path) else base_name path r)
             in if ext2_permission dp PERM_WRITE s < 0 then bindk (ext2_iput E dp s) (\<lambda>s. Ret (- EACCES, s))
                else
                  bindk (ext2_new_file E name dp m 0 s) (\<lambda>((ip, err), s).
                  case ip of
                    None \<Rightarrow> bindk (ext2_iput E dp s) (\<lambda>s. Ret (err, s))
                  | Some ip \<Rightarrow> make_dir E ip dp s))))"

definition rmdir_refused :: "'a ext2_state_scheme e2_env \<Rightarrow> u8 list \<Rightarrow> namei_result \<Rightarrow> nat \<Rightarrow> nat \<Rightarrow> 'a ext2_state_scheme \<Rightarrow>
    (int option \<times> 'a ext2_state_scheme) kres" where
  "rmdir_refused E path r ip dp s =
     (let b = nr_base r in
      if byte_at path b = 0x2E \<and> byte_at path (b + 1) = 0 then Ret (Some (- EINVAL), s)
      else if byte_at path b = 0x2E \<and> byte_at path (b + 1) = 0x2E then Ret (Some (- ENOTEMPTY), s)
      else
        bindk (empty_dir E ip s) (\<lambda>((not_empty, e), s).
        let err = (case e of None \<Rightarrow> nr_error r | Some x \<Rightarrow> x); i = ino s ip in
        Ret (if not_empty then Some (if err \<noteq> 0 then err else - ENOTEMPTY)
             else if Some ip = gi_inode (root_inode (cur s)) then Some (- EBUSY)
             else if ext2_permission dp PERM_WRITE s < 0 then Some (- EACCES)
             else if \<not> EXT2_S_ISDIR (i_mode i) then Some (- ENOTDIR)
             else if i_mode i AND EXT2_S_ISVTX \<noteq> 0 \<and> euid (cur s) \<noteq> uint (i_uid i) \<and> euid (cur s) \<noteq> uint (i_uid (ino s dp))
             then Some (- EPERM)
             else None, s)))"

definition ext2_rmdir :: "'a ext2_state_scheme e2_env \<Rightarrow> u8 list \<Rightarrow> 'a ext2_state_scheme \<Rightarrow> (int \<times> 'a ext2_state_scheme) kres" where
  "ext2_rmdir E path s =
     bindk (lookup E path True True None 0 s) (\<lambda>(r, s).
     case (nr_ip r, nr_last r) of
       (_, None) \<Rightarrow> Stop (Fault ''NULL inode'')
     | (None, Some dp) \<Rightarrow> bindk (ext2_iput E dp s) (\<lambda>s. Ret (nr_error r, s))
     | (Some ip, Some dp) \<Rightarrow>
         bindk (rmdir_refused E path r ip dp s) (\<lambda>(refused, s).
         bindk (case refused of
                  Some ret \<Rightarrow> Ret (ret, s)
                | None \<Rightarrow>
                    bindk (get_ext2_superblock (i_dev (inodes s ip)) s) (\<lambda>(fs, m).
                    case nr_bp r of
                      None \<Rightarrow> Stop (Fault ''NULL buffer'')
                    | Some bp \<Rightarrow>
                        bindk (ext2_remove_dir_entry E (base_name path r) ip bp s) (\<lambda>(e, s).
                        if e < 0 then Ret (- ENOENT, s)
                        else
                          let s = drop_link ip 2 s; s = (if ip \<noteq> dp then drop_link dp 1 s else s);
                              g = unat (EXT2_BLOCK_GROUP (i_num (inodes s ip)) m)
                          in bindk (bgd_in_table g m) (\<lambda>_.
                             bindk (locked_super E fs (upd_bgd g (\<lambda>b. b\<lparr>bg_used_dirs_count := bg_used_dirs_count b - 1\<rparr>)) s) (\<lambda>s.
                             Ret (0, s)))))) (\<lambda>(ret, s).
         bindk (brelse_opt E (nr_bp r) s) (\<lambda>s.
         iput_both E ip (Some dp) ret s))))"

section \<open>Renaming\<close>

definition is_dot :: "u8 list \<Rightarrow> nat \<Rightarrow> bool" where
  "is_dot path b \<longleftrightarrow> byte_at path b = 0x2E \<and> byte_at path (b + 1) = 0x2E \<and> byte_at path (b + 2) = 0 \<or>
     byte_at path b = 0x2E \<and> byte_at path (b + 1) = 0"

definition iput_some :: "'a ext2_state_scheme e2_env \<Rightarrow> nat option \<Rightarrow> 'a ext2_state_scheme \<Rightarrow> 'a ext2_state_scheme kres" where
  "iput_some E p s = iput_if (p \<noteq> None) E p s"

definition rename_end :: "'a ext2_state_scheme e2_env \<Rightarrow> nat option \<Rightarrow> nat \<Rightarrow> nat option \<Rightarrow> nat option \<Rightarrow> int \<Rightarrow> 'a ext2_state_scheme \<Rightarrow>
    (int \<times> 'a ext2_state_scheme) kres" where
  "rename_end E bp ipold dpold dpnew err s =
     bindk (brelse_opt E bp s) (\<lambda>s.
     bindk (ext2_iput E ipold s) (\<lambda>s.
     bindk (iput_if (Some ipold \<noteq> dpold) E dpold s) (\<lambda>s.
     bindk (iput_opt E dpnew s) (\<lambda>s. Ret (err, s)))))"

definition rename_to :: "'a ext2_state_scheme e2_env \<Rightarrow> u8 list \<Rightarrow> u8 list \<Rightarrow> namei_result \<Rightarrow> nat \<Rightarrow> 'a ext2_state_scheme \<Rightarrow>
    (int \<times> 'a ext2_state_scheme) kres" where
  "rename_to E old new r ipold s =
     bindk (lookup E new True False None (nr_error r) s) (\<lambda>(r2, s).
     bindk (case nr_ip r2 of
              None \<Rightarrow> Ret (None, s)
            | Some ipnew \<Rightarrow>
                if \<not> EXT2_S_ISDIR (i_mode (ino s ipnew)) then Ret (Some (- EEXIST), s)
                else
                  bindk (ext2_empty_dir E ipnew s) (\<lambda>((not_empty, e), s).
                  let err = (case e of None \<Rightarrow> nr_error r2 | Some x \<Rightarrow> x)
                  in Ret (if not_empty then Some (if err \<noteq> - EIO then - ENOTEMPTY else err) else None, s))) (\<lambda>(refused, s).
     case refused of
       Some err \<Rightarrow> rename_end E (nr_bp r) ipold (nr_last r) (nr_last r2) err s
     | None \<Rightarrow>
         (case (nr_bp r, nr_last r2) of
            (Some bp, Some dpnew) \<Rightarrow>
              bindk (ext2_remove_dir_entry E (base_name old r) ipold bp s) (\<lambda>(_, s).
              bindk (ext2_add_dir_entry E dpnew ipold (base_name new r2) s) (\<lambda>(_, s).
              rename_end E (nr_bp r) ipold (nr_last r) (nr_last r2) 0 s))
          | _ \<Rightarrow> Stop (Fault ''NULL pointer''))))"

definition ext2_rename :: "'a ext2_state_scheme e2_env \<Rightarrow> u8 list \<Rightarrow> u8 list \<Rightarrow> int \<Rightarrow> 'a ext2_state_scheme \<Rightarrow> (int \<times> 'a ext2_state_scheme) kres" where
  "ext2_rename E old new err s =
     bindk (lookup E old True True None err s) (\<lambda>(r, s).
     if is_dot old (nr_base r)
     then
       bindk (iput_some E (nr_ip r) s) (\<lambda>s.
       bindk (iput_if (nr_last r \<noteq> nr_ip r) E (nr_last r) s) (\<lambda>s.
       bindk (brelse_opt E (nr_bp r) s) (\<lambda>s. Ret (- EINVAL, s))))
     else
       case nr_ip r of
         Some ipold \<Rightarrow> rename_to E old new r ipold s
       | None \<Rightarrow>
           if nr_error r \<noteq> - ENOENT
           then bindk (brelse_opt E (nr_bp r) s) (\<lambda>s. iput_last E r (nr_error r) s)
           else if byte_at old (base_end old r) = 0
           then
             bindk (iput_opt E (nr_last r) s) (\<lambda>s.
             bindk (brelse_opt E (nr_bp r) s) (\<lambda>s. Ret (- ENOENT, s)))
           else (case nr_last r of None \<Rightarrow> Stop (Fault ''NULL inode'') | Some dp \<Rightarrow> rename_to E old new r dp s))"

section \<open>Status\<close>

definition ext2_access :: "'a ext2_state_scheme e2_env \<Rightarrow> u8 list \<Rightarrow> u32 \<Rightarrow> int \<Rightarrow> 'a ext2_state_scheme \<Rightarrow> (int \<times> 'a ext2_state_scheme) kres" where
  "ext2_access E path amode err s =
     (if uid (cur s) = 0 then Ret (0, s)
      else
        bindk (lookup E path False False None err s) (\<lambda>(r, s).
        case nr_ip r of
          None \<Rightarrow> Ret (nr_error r, s)
        | Some ip \<Rightarrow>
            let i = ino s ip; p = cur s; mode = ucast (i_mode i) :: u32;
                mode = (if uid p = uint (i_uid i) then drop_bit 6 mode
                        else if gid p = uint (i_gid i) then drop_bit 3 mode else mode);
                ret = (if mode AND amode \<noteq> 0 then 0 else - EACCES)
            in bindk (ext2_iput E ip s) (\<lambda>s. Ret (ret, s))))"

text \<open>\<^verbatim>\<open>struct stat\<close> is 13 words.\<close>

definition stat_words :: "nat \<Rightarrow> ext2_superblock_m \<Rightarrow> 'a ext2_state_scheme \<Rightarrow> u32 list" where
  "stat_words ip m s =
     (let i = ino s ip in
      [i_dev (inodes s ip), i_num (inodes s ip), ucast (i_mode i), ucast (i_links_count i), ucast (i_uid i), ucast (i_gid i),
       i_block i ! 0, i_size i, i_atime i, i_mtime i, i_ctime i, EXT2_BLOCKSIZE m, i_blocks i])"

definition stat_inode :: "nat \<Rightarrow> u32 \<Rightarrow> 'a ext2_state_scheme \<Rightarrow> (int \<times> 'a ext2_state_scheme) kres" where
  "stat_inode ip statp s =
     bindk (get_ext2_superblock (i_dev (inodes s ip)) s) (\<lambda>(fs, m).
     Ret (0, upd_space (cp_to_user statp (concat (map w32 (stat_words ip m s)))) s))"

definition ext2_stat :: "'a ext2_state_scheme e2_env \<Rightarrow> u8 list \<Rightarrow> u32 \<Rightarrow> 'a ext2_state_scheme \<Rightarrow> (int \<times> 'a ext2_state_scheme) kres" where
  "ext2_stat E path statp s =
     bindk (lookup E path True False None 0 s) (\<lambda>(r, s).
     case nr_ip r of
       None \<Rightarrow> iput_last E r (nr_error r) s
     | Some ip \<Rightarrow>
         if EXT2_S_ISLNK (i_mode (ino s ip))
         then
           bindk (cur_root s) (\<lambda>root.
           bindk (ext2_follow_symlink E ip root (nr_last r) (nr_error r) s) (\<lambda>((tmp, err), s).
           if tmp = None \<and> err = - EIO then iput_both E ip (nr_last r) err s
           else
             bindk (ext2_iput E ip s) (\<lambda>s.
             case tmp of
               None \<Rightarrow> Stop (Fault ''NULL inode'')
             | Some t \<Rightarrow> bindk (stat_inode t statp s) (\<lambda>(err, s). iput_both E t (nr_last r) err s))))
         else bindk (stat_inode ip statp s) (\<lambda>(err, s). iput_both E ip (nr_last r) err s))"

definition ext2_lstat :: "'a ext2_state_scheme e2_env \<Rightarrow> u8 list \<Rightarrow> u32 \<Rightarrow> int \<Rightarrow> 'a ext2_state_scheme \<Rightarrow> (int \<times> 'a ext2_state_scheme) kres" where
  "ext2_lstat E path statp err s =
     bindk (lookup E path False False None err s) (\<lambda>(r, s).
     case nr_ip r of None \<Rightarrow> Ret (nr_error r, s) | Some ip \<Rightarrow> stat_inode ip statp s)"

definition ext2_fstat :: "nat \<Rightarrow> u32 \<Rightarrow> 'a ext2_state_scheme \<Rightarrow> (int \<times> 'a ext2_state_scheme) kres" where
  "ext2_fstat fp statp s =
     (case f_inode (file_table s fp) of None \<Rightarrow> Stop (Fault ''NULL inode'') | Some ip \<Rightarrow> stat_inode ip statp s)"

section \<open>Symbolic links\<close>

definition EXT2_SYMLINK_MAX :: "ext2_superblock_m \<Rightarrow> u32" where
  "EXT2_SYMLINK_MAX m = EXT2_BLOCKSIZE m"

text \<open>A short target goes over the bytes of \<^verbatim>\<open>i_block\<close>, a longer one into the block that \<^verbatim>\<open>ext2_bmap\<close> finds.\<close>

definition fast_target :: "u8 list \<Rightarrow> ext2_inode \<Rightarrow> ext2_inode" where
  "fast_target path i = decode_inode (take 40 (encode_inode i) @ path @ drop (40 + length path) (encode_inode i))"

definition ext2_symlink :: "'a ext2_state_scheme e2_env \<Rightarrow> u8 list \<Rightarrow> u8 list \<Rightarrow> 'a ext2_state_scheme \<Rightarrow> (int \<times> 'a ext2_state_scheme) kres" where
  "ext2_symlink E path1 path2 s =
     bindk (lookup E path2 True False None 0 s) (\<lambda>(r, s).
     case (nr_ip r, nr_last r) of
       (Some ip, dp) \<Rightarrow> iput_both E ip dp (- EEXIST) s
     | (None, None) \<Rightarrow> Stop (Fault ''NULL inode'')
     | (None, Some dp) \<Rightarrow>
         if byte_at path2 (nr_base r) = 0 then bindk (ext2_iput E dp s) (\<lambda>s. Ret (- ENOTDIR, s))
         else if nr_error r \<noteq> - ENOENT then bindk (ext2_iput E dp s) (\<lambda>s. Ret (nr_error r, s))
         else
           bindk (get_ext2_superblock (i_dev (inodes s dp)) s) (\<lambda>(fs, m).
           if length path1 > unat (EXT2_SYMLINK_MAX m) then bindk (ext2_iput E dp s) (\<lambda>s. Ret (- ENAMETOOLONG, s))
           else
             bindk (ext2_new_file E (base_name path2 r) dp 0xA1FF 0 s) (\<lambda>((ip, err), s).
             case ip of
               None \<Rightarrow> bindk (ext2_iput E dp s) (\<lambda>s. Ret (err, s))
             | Some ip \<Rightarrow>
                 bindk (if length path1 < unat EXT2_FAST_SYMLINK_LEN then Ret (True, upd_i ip (fast_target path1) s)
                        else
                          bindk (ext2_bmap E ip 0 s) (\<lambda>(block, s).
                          bindk (e2_bread E (i_dev (inodes s ip)) block s) (\<lambda>(b, s).
                          case b of
                            None \<Rightarrow> Ret (False, s)
                          | Some bp \<Rightarrow>
                              let s = kwrite (bdata bp s) path1 s;
                                  s = upd_i ip (\<lambda>i. i\<lparr>i_blocks := sdiv32 (EXT2_BLOCKSIZE m) 512\<rparr>) s
                              in bindk (e2_brelse E bp (set_dwrite bp s)) (\<lambda>s. Ret (True, s))))) (\<lambda>(ok, s).
                 if \<not> ok
                 then
                   bindk (ext2_unlink E path2 0 s) (\<lambda>(_, s).
                   bindk (ext2_iput E dp s) (\<lambda>s. Ret (- EIO, s)))
                 else
                   let s = set_i_modified ip (touch_mtime ip (upd_i ip (\<lambda>i. i\<lparr>i_size := of_nat (length path1)\<rparr>) s))
                   in bindk (ext2_iput E ip s) (\<lambda>s. Ret (0, s))))))"

end
