(* ===== verification/Ext2_Super.thy ===== *)
theory Ext2_Super
  imports Ext2_Calls
begin

text \<open>
  Mounting and writing back: \<^verbatim>\<open>sys/fs/ext2/super.c\<close> and \<^verbatim>\<open>sys/fs/ext2/attribute.c\<close>, with the table of operations
  that the file layer calls. The static \<^verbatim>\<open>ext2_fs_struct\<close> is filesystem 0, its driver is driver 0.
\<close>

abbreviation (input) CONFIG_FS_ROOT_DEV :: u32 where "CONFIG_FS_ROOT_DEV \<equiv> 0x300"
abbreviation (input) EXT2_FS :: nat where "EXT2_FS \<equiv> 0"

section \<open>Attributes\<close>

text \<open>The panic for a filesystem without a superblock is not part of this table entry; its value is then 0.\<close>

definition ext2_get_attribute :: "nat \<Rightarrow> fs_attribute_cmd \<Rightarrow> 'a ext2_state_scheme \<Rightarrow> u32" where
  "ext2_get_attribute fs cmd s =
     (case f_super s fs of
        None \<Rightarrow> 0
      | Some m \<Rightarrow>
          (case cmd of GET_BLOCKSIZE \<Rightarrow> EXT2_BLOCKSIZE m | GET_MTIME \<Rightarrow> s_mtime (sb m) | GET_WTIME \<Rightarrow> s_wtime (sb m)))"

section \<open>Writing back\<close>

text \<open>The block number is the block size divided by 1024; \<^verbatim>\<open>modified\<close> stays set.\<close>

definition ext2_sync_super :: "'a ext2_state_scheme e2_env \<Rightarrow> u32 \<Rightarrow> nat \<Rightarrow> 'a ext2_state_scheme \<Rightarrow> (int \<times> 'a ext2_state_scheme) kres" where
  "ext2_sync_super E dev fs s =
     bindk (cur_super fs s) (\<lambda>m.
     let block = sdiv32 (EXT2_BLOCKSIZE m) EXT2_SB_OFF; off = smod32 (EXT2_BLOCKSIZE m) EXT2_SB_OFF
     in if modified m
        then
          bindk (e2_bread E dev block s) (\<lambda>(r, s).
          case r of
            None \<Rightarrow> Ret (-1, s)
          | Some bp \<Rightarrow>
              bindk (cur_super fs s) (\<lambda>m.
              let s = kwrite (bdata bp s + off) (encode_super (sb m)) s;
                  s = upd_super fs (\<lambda>m. m\<lparr>sb := (sb m)\<lparr>s_wtime := CURRENT_TIME s\<rparr>\<rparr>) s
              in bindk (e2_brelse E bp (set_dwrite bp s)) (\<lambda>s. Ret (0, s))))
        else Ret (0, s))"

definition ext2_sync_bgd_table :: "'a ext2_state_scheme e2_env \<Rightarrow> u32 \<Rightarrow> nat \<Rightarrow> 'a ext2_state_scheme \<Rightarrow> (int \<times> 'a ext2_state_scheme) kres" where
  "ext2_sync_bgd_table E dev fs s =
     bindk (cur_super fs s) (\<lambda>m.
     if modified m
     then
       bindk (e2_bread E dev (sdiv32 (EXT2_BLOCKSIZE m) EXT2_SB_OFF + 1) s) (\<lambda>(r, s).
       case r of
         None \<Rightarrow> Ret (-1, s)
       | Some bp \<Rightarrow>
           bindk (cur_super fs s) (\<lambda>m.
           let s = kwrite (bdata bp s) (concat (map (\<lambda>g. encode_bgd (bgd_table m g)) [0..<nr_blk_group m])) s
           in bindk (e2_brelse E bp (set_dwrite bp s)) (\<lambda>s. Ret (0, s))))
     else Ret (0, s))"

definition ext2_sync :: "'a ext2_state_scheme e2_env \<Rightarrow> nat \<Rightarrow> 'a ext2_state_scheme \<Rightarrow> (int \<times> 'a ext2_state_scheme) kres" where
  "ext2_sync E fs s =
     (if f_super s fs = None then Ret (-1, s)
      else
        bindk (ext2_sync_super E (f_dev (filesystems s fs)) fs s) (\<lambda>(_, s).
        bindk (ext2_sync_bgd_table E (f_dev (filesystems s fs)) fs s) (\<lambda>(_, s).
        bindk (ext2_inode_sync E s) (\<lambda>s. Ret (0, s)))))"

section \<open>Initialisation\<close>

text \<open>
  \<^verbatim>\<open>memmove\<close> copies \<^verbatim>\<open>sizeof(struct ext2_superblock_m)\<close>, 256 bytes: the lock, at offset 244, and the flag
  \<^verbatim>\<open>modified\<close>, at 252, come from the disk too. An owner that is not \<^verbatim>\<open>NULL\<close> is then no process.
\<close>

definition decode_super_m :: "u8 list \<Rightarrow> ext2_superblock_m" where
  "decode_super_m bs = \<lparr>sb = decode_super bs, bgd_table = (\<lambda>_. decode_bgd []), nr_blk_group = 0,
     sb_mutex = \<lparr>m_lock = (le32 bs 244 = 1), m_owner = (if le32 bs 248 = 0 then None else Some NR_PROC)\<rparr>,
     modified = (le32 bs 252 \<noteq> 0)\<rparr>"

definition groups_of :: "u32 \<Rightarrow> u32 \<Rightarrow> u32 kres" where
  "groups_of n per =
     (if per = 0 then Stop (Fault ''division by zero'')
      else Ret (if n mod per = 0 then n div per else n div per + 1))"

definition set_read_only :: "bool \<Rightarrow> 'a file_state_scheme \<Rightarrow> 'a file_state_scheme" where
  "set_read_only b s = s\<lparr>filesystems := (filesystems s)(EXT2_FS := (filesystems s EXT2_FS)\<lparr>f_read_only := b\<rparr>)\<rparr>"

text \<open>Looking at the state that the superblock records; a state with errors and another policy leaves the flag alone.\<close>

definition check_fs_state :: "ext2_superblock \<Rightarrow> 'a file_state_scheme \<Rightarrow> 'a file_state_scheme kres" where
  "check_fs_state d s =
     (if s_state d = EXT2_ERROR_FS
      then
        if s_errors d = EXT2_ERRORS_RO then Ret (set_read_only True s)
        else if s_errors d = EXT2_ERRORS_PANIC
        then Stop (Panic ''ext2_init: ext2 superblock tells kernel to panic as filesystem has errors!'')
        else Ret s
      else Ret (set_read_only False s))"

text \<open>The group descriptors are read into the buffer of the superblock, which was allocated with 1024 bytes.\<close>

definition read_bgd_table :: "'a ext2_state_scheme e2_env \<Rightarrow> nat \<Rightarrow> u32 \<Rightarrow> 'a ext2_state_scheme \<Rightarrow> 'a ext2_state_scheme kres" where
  "read_bgd_table E bp n s =
     bindk (heap_alloc (e2_bufs E) (n * 32) s) (\<lambda>(p, s).
     if p = 0 then Stop (Panic ''ext2_init: Unable to allocate memory for block group descriptor table'')
     else
       bindk (cur_super EXT2_FS s) (\<lambda>m.
       let bsize = sint (EXT2_BLOCKSIZE m);
           s = upd_buf bp (\<lambda>b. b\<lparr>b_blksize := bsize, b_blknr := (if bsize = 1024 then 2 else 1)\<rparr>) s
       in bindk (blk_devio (be_disk (e2_bufs E)) bp READ s) (\<lambda>(_, s).
          Ret (upd_super EXT2_FS (\<lambda>m. m\<lparr>nr_blk_group := unat n,
                 bgd_table := (\<lambda>g. decode_bgd (kbytes (bdata bp s + 32 * of_nat g) 32 s))\<rparr>) s))))"

definition ext2_init :: "'a ext2_state_scheme e2_env \<Rightarrow> 'a ext2_state_scheme \<Rightarrow> (int \<times> 'a ext2_state_scheme) kres" where
  "ext2_init E s =
     bindk (e2_getblk E CONFIG_FS_ROOT_DEV 1 s) (\<lambda>(bp, s).
     bindk (heap_alloc (e2_bufs E) DEFAULT_BLOCK_SIZE (upd_buf bp (\<lambda>b. b\<lparr>b_blksize := 1024\<rparr>) s)) (\<lambda>(p, s).
     bindk (blk_devio (be_disk (e2_bufs E)) bp READ (upd_buf bp (\<lambda>b. b\<lparr>b_data := p\<rparr>) s)) (\<lambda>(_, s).
     if b_flags (buffers s bp) AND B_ERROR \<noteq> 0 then Stop (Panic ''ext2_init: unable to read superblock'')
     else
       bindk (heap_alloc (e2_bufs E) 256 s) (\<lambda>(p, s).
       let m = decode_super_m (kbytes (bdata bp s) 256 s);
           s = s\<lparr>filesystems := (filesystems s)(EXT2_FS := (filesystems s EXT2_FS)\<lparr>f_dev := CONFIG_FS_ROOT_DEV, f_driver := 0\<rparr>),
                 f_super := (f_super s)(EXT2_FS := Some m)\<rparr>
       in case register_filesystem EXT2_FS s of
            (None, s) \<Rightarrow> Stop (Panic ''ext2_init: unable to register filesystem'')
          | (Some _, s) \<Rightarrow>
              if s_magic (sb m) \<noteq> EXT2_MAGIC then Stop (Panic ''ext2_init: Root device not an ext2 filesystem'')
              else
                bindk (check_fs_state (sb m) s) (\<lambda>s.
                bindk (groups_of (s_inodes_count (sb m)) (s_inodes_per_group (sb m))) (\<lambda>n1.
                bindk (groups_of (s_blocks_count (sb m)) (s_blocks_per_group (sb m))) (\<lambda>n2.
                if n1 \<noteq> n2 then Stop (Panic ''ext2_init: Superblock corrupted'')
                else
                  bindk (read_bgd_table E bp n1 s) (\<lambda>s.
                  bindk (ext2_inodes_init E s) (\<lambda>s. Ret (0, s))))))))))"

definition ext2_mount_root :: "'a ext2_state_scheme e2_env \<Rightarrow> 'a ext2_state_scheme \<Rightarrow> 'a ext2_state_scheme kres" where
  "ext2_mount_root E s =
     bindk (ext2_iget E CONFIG_FS_ROOT_DEV EXT2_ROOT_INO s) (\<lambda>(r, s).
     case r of
       None \<Rightarrow> Stop (Panic ''ext2_mount_root: unable to get root inode'')
     | Some ip \<Rightarrow>
         let s = upd_ino ip (\<lambda>i. i\<lparr>i_count := i_count i + 1\<rparr>) s;
             s = upd_proc (current_process s) (\<lambda>p. p\<lparr>root_inode := \<lparr>gi_inode = Some ip, gi_count = 1\<rparr>,
                   cwd_inode := (cwd_inode p)\<lparr>gi_inode := Some ip\<rparr>, root_fs := Some EXT2_FS, cwd_fs := Some EXT2_FS\<rparr>) s;
             now = CURRENT_TIME s
         in bindk (locked_super E EXT2_FS (\<lambda>m. m\<lparr>sb := (sb m)\<lparr>s_mtime := now, s_mnt_count := s_mnt_count (sb m) + 1\<rparr>\<rparr>) s) (\<lambda>s.
            unlock_ino E ip s))"

section \<open>The operations of the driver\<close>

text \<open>Path arguments are read from user memory; a walk that fails sets the error, so that its first value is not seen.\<close>

definition on_user_path :: "u32 \<Rightarrow> (u8 list \<Rightarrow> 'a ext2_state_scheme \<Rightarrow> 'r kres) \<Rightarrow> 'a ext2_state_scheme \<Rightarrow> 'r kres" where
  "on_user_path p f s = bindk (user_path p s) (\<lambda>path. f path s)"

definition ext2_driver_ops :: "'a ext2_state_scheme e2_env \<Rightarrow> 'a ext2_state_scheme fs_driver_ops" where
  "ext2_driver_ops E = \<lparr>
     fs_raw_iput = ext2_public_iput E,
     fs_raw_namei = ext2_public_namei E,
     fs_raw_inode_ctl = ext2_inode_ctl,
     fs_raw_permission = ext2_public_permission,
     fs_get_attribute = ext2_get_attribute,
     fs_open = (\<lambda>path flags mode. on_user_path path (\<lambda>path. ext2_open E path flags mode 0)),
     fs_read = ext2_read E,
     fs_write = ext2_write E,
     fs_sync = ext2_sync E,
     fs_unlink = (\<lambda>path. on_user_path path (\<lambda>path. ext2_unlink E path 0)),
     fs_lseek = (\<lambda>ptr inode. ext2_lseek ptr (the inode)),
     fs_link = (\<lambda>p1 p2. on_user_path p1 (\<lambda>p1. on_user_path p2 (\<lambda>p2. ext2_link E p1 p2 0))),
     fs_mknod = (\<lambda>path mode dev. on_user_path path (\<lambda>path. ext2_mknod E path mode dev 0)),
     fs_close = ext2_close E,
     fs_chdir = (\<lambda>path. on_user_path path (\<lambda>path. ext2_chdir E path 0)),
     fs_chown = (\<lambda>path u g. on_user_path path (\<lambda>path. ext2_chown E path u g 0)),
     fs_chmod = (\<lambda>path mode. on_user_path path (\<lambda>path. ext2_chmod E path mode 0)),
     fs_fchmod = ext2_fchmod E,
     fs_mkdir = (\<lambda>path mode. on_user_path path (\<lambda>str. ext2_mkdir E path str mode 0)),
     fs_rmdir = (\<lambda>path. on_user_path path (ext2_rmdir E)),
     fs_chroot = (\<lambda>path. on_user_path path (\<lambda>path. ext2_chroot E path 0)),
     fs_symlink = (\<lambda>p1 p2. on_user_path p1 (\<lambda>p1. on_user_path p2 (ext2_symlink E p1))),
     fs_lchown = (\<lambda>path u g. on_user_path path (\<lambda>path. ext2_lchown E path u g 0)),
     fs_rename = (\<lambda>old new. on_user_path old (\<lambda>old. on_user_path new (\<lambda>new. ext2_rename E old new 0))),
     fs_stat = (\<lambda>path statp. on_user_path path (\<lambda>path. ext2_stat E path statp)),
     fs_lstat = (\<lambda>path statp. on_user_path path (\<lambda>path. ext2_lstat E path statp 0)),
     fs_fstat = ext2_fstat,
     fs_access = (\<lambda>path amode. on_user_path path (\<lambda>path. ext2_access E path amode 0))\<rparr>"

end
