(* ===== verification/Ext2_Frame.thy ===== *)
theory Ext2_Frame
  imports Ext2_Super Buffer_Props
begin

text \<open>
  What the filesystem relies on: the contract of the block cache for a block that is cached, when nobody waits for
  anything. A borrowed buffer is read and written in kernel memory and given back; the only other change is to
  the buffers' links and locks. The contract is a locale, met by \<^verbatim>\<open>bread\<close> and \<^verbatim>\<open>brelse\<close>.
\<close>

section \<open>Nobody waits\<close>

definition no_sleepers :: "'a sched_state_scheme \<Rightarrow> bool" where
  "no_sleepers s \<longleftrightarrow> (\<forall>i<NR_PROC. \<not> PROC_SLEEPING (process_table s i))"

lemma wakeup_none: "no_sleepers s \<Longrightarrow> wakeup a r s = Ret s"
proof -
  assume q: "no_sleepers s"
  have "n \<le> NR_PROC \<Longrightarrow> foldk (wakeup_scan a) [0..<n] (False, s) = Ret (False, s)" for n
  proof (induction n)
    case (Suc n)
    then show ?case using q by (simp add: foldk_append wakeup_scan_def no_sleepers_def)
  qed simp
  from this [of NR_PROC] show ?thesis by (simp add: wakeup_def)
qed

lemma mutex_unlock_none: "no_sleepers s \<Longrightarrow> mutex_unlock a m s = Ret (mutex_init, s)"
  by (simp add: mutex_unlock_def wakeup_none mutex_init_def)

lemma mutex_lock_free: "\<not> mutex_locked m s \<Longrightarrow> mutex_lock a m s = Ret (Acquired \<lparr>m_lock = True, m_owner = Some (current_process s)\<rparr> s)"
  by (auto simp: mutex_locked_def mutex_lock_def mutex_lock_loop_def mutex_take_def)

section \<open>Changes to the buffers alone\<close>

definition buf_frame :: "'a buf_state_scheme \<Rightarrow> 'a buf_state_scheme \<Rightarrow> bool" where
  "buf_frame s t \<longleftrightarrow> (\<exists>f. t = s\<lparr>buffers := f\<rparr> \<and> (\<forall>j. b_data (f j) = b_data (buffers s j) \<and> b_flags (f j) = b_flags (buffers s j)))"

lemma buf_frame_refl [simp]: "buf_frame s s"
  by (auto simp: buf_frame_def intro: exI [of _ "buffers s"])

lemma buf_frame_trans: "buf_frame s t \<Longrightarrow> buf_frame t u \<Longrightarrow> buf_frame s u"
  by (auto simp: buf_frame_def)

lemma buf_frame_fields:
  fixes s t :: "'a ext2_state_scheme"
  assumes "buf_frame s t"
  shows "kmem t = kmem s" "bdata j t = bdata j s" "b_flags (buffers t j) = b_flags (buffers s j)"
    "current_process t = current_process s" "process_table t = process_table s" "user_spaces t = user_spaces s"
    "file_table t = file_table s" "filesystems t = filesystems s" "mount_table t = mount_table s"
    "f_super t = f_super s" "inodes t = inodes s" "inode_hash t = inode_hash s" "symlinks t = symlinks s"
    "timer_ticks t = timer_ticks s" "startup_time t = startup_time s"
  using assms by (auto simp: buf_frame_def bdata_def)

lemma buf_frame_accessors:
  fixes s t :: "'a ext2_state_scheme"
  assumes "buf_frame s t"
  shows "find_filesystem dev t = find_filesystem dev s" "get_ext2_superblock dev t = get_ext2_superblock dev s"
    "kbytes a n t = kbytes a n s" "kmem32 a t = kmem32 a s" "no_sleepers t = no_sleepers s" "cur_super fs t = cur_super fs s"
    "CURRENT_TIME t = CURRENT_TIME s"
  by (simp_all add: find_filesystem_def get_ext2_superblock_def kbytes_def kmem32_def no_sleepers_def cur_super_def
      CURRENT_TIME_def buf_frame_fields [OF assms] cong: option.case_cong)

lemma free_only_frame: "free_only s t \<Longrightarrow> buf_frame s t"
  using free_only_fields(5,7) [of s t] by (auto simp: buf_frame_def free_only_def)

lemma put_into_free_list_free_only:
  assumes "put_into_free_list x s = Ret t"
  shows "free_only s t"
proof -
  have "free_only s u" if "through p (\<lambda>i. set_b_next_free i v) r = Ret u" "free_only s r" for p v r u
    using that by (auto simp: through_def free_only_set split: option.splits if_splits)
  moreover have "free_only s u" if "through p (\<lambda>i. set_b_prev_free i v) r = Ret u" "free_only s r" for p v r u
    using that by (auto simp: through_def free_only_set split: option.splits if_splits)
  ultimately show ?thesis using assms
    by (auto simp: put_into_free_list_def Let_def bindk_eq_Ret_iff free_only_set free_only_refl split: if_splits)
qed

lemma brelse_frame:
  assumes q: "no_sleepers s" and r: "brelse E x s = Ret t"
  shows "buf_frame s t"
proof (cases "m_lock (b_mutex (buffers s x))")
  case True
  with r obtain u where u: "put_into_free_list x s = Ret u"
    and rest: "bindk (wakeup (buf_addr E x) WAKEUP_SWITCH u) (\<lambda>s. bindk (wakeup (buf_addr E FREE_LIST) WAKEUP_SWITCH s) (\<lambda>s.
      bindk (mutex_unlock (mutex_addr E x) (b_mutex (buffers s x)) s) (\<lambda>(m, s). Ret (upd_buf x (\<lambda>b. b\<lparr>b_mutex := m\<rparr>) s)))) = Ret t"
    by (auto simp: brelse_def bindk_eq_Ret_iff)
  have f: "free_only s u" using u by (rule put_into_free_list_free_only)
  then have "no_sleepers u" using q by (auto simp: free_only_def no_sleepers_def)
  with rest have "t = upd_buf x (\<lambda>b. b\<lparr>b_mutex := mutex_init\<rparr>) u" by (simp add: wakeup_none mutex_unlock_none)
  then have "buf_frame u t" by (auto simp: buf_frame_def upd_buf_def)
  with free_only_frame [OF f] show ?thesis by (rule buf_frame_trans)
qed (use r in \<open>simp add: brelse_def\<close>)

section \<open>The contract\<close>

text \<open>
  \<open>ready s i dev blk\<close>: buffer \<open>i\<close> holds the block, up to date, and no other process has it; \<open>held s i dev blk\<close>: the
  caller has it. The laws: getting a ready block gives its buffer, held, and changes links and locks only; releasing
  a held buffer does so too and makes it ready again; what is written to memory or marked for writing in between
  does not matter; and the other blocks stay ready.
\<close>

locale block_access =
  fixes get :: "u32 \<Rightarrow> u32 \<Rightarrow> 'a ext2_state_scheme \<Rightarrow> (nat \<times> 'a ext2_state_scheme) kres"
    and release :: "nat \<Rightarrow> 'a ext2_state_scheme \<Rightarrow> 'a ext2_state_scheme kres"
    and ready :: "'a ext2_state_scheme \<Rightarrow> nat \<Rightarrow> u32 \<Rightarrow> u32 \<Rightarrow> bool"
    and held :: "'a ext2_state_scheme \<Rightarrow> nat \<Rightarrow> u32 \<Rightarrow> u32 \<Rightarrow> bool"
  assumes get_ready: "ready s i dev blk \<Longrightarrow> \<exists>t. get dev blk s = Ret (i, t) \<and> buf_frame s t \<and> held t i dev blk"
    and release_held: "held t i dev blk \<Longrightarrow> \<exists>u. release i t = Ret u \<and> buf_frame t u \<and> ready u i dev blk"
    and held_write: "held s i dev blk \<Longrightarrow> held (kwrite a bs s) i dev blk"
    and held_mark: "held s i dev blk \<Longrightarrow> held (set_dwrite i s) i dev blk"
    and get_other: "ready s i dev blk \<Longrightarrow> ready s j d b \<Longrightarrow> j \<noteq> i \<Longrightarrow> get dev blk s = Ret (i, t) \<Longrightarrow> ready t j d b"
    and same_block: "ready s i dev blk \<Longrightarrow> ready s i d b \<Longrightarrow> d = dev \<and> b = blk"
    and release_other: "held t i dev blk \<Longrightarrow> ready t j d b \<Longrightarrow> release i t = Ret u \<Longrightarrow> ready u j d b"
begin

text \<open>Reading a block: whatever is computed from the state between getting and releasing it.\<close>

lemma borrow_read:
  assumes "ready s i dev blk"
  shows "\<exists>t u. bindk (get dev blk s) (\<lambda>(bp, s). bindk (release bp s) (\<lambda>s'. Ret (f bp s, s'))) = Ret (f i t, u) \<and>
    buf_frame s t \<and> buf_frame s u \<and> ready u i dev blk"
proof -
  from get_ready [OF assms] obtain t where t: "get dev blk s = Ret (i, t)" "buf_frame s t" "held t i dev blk" by blast
  from release_held [OF t(3)] obtain u where u: "release i t = Ret u" "buf_frame t u" "ready u i dev blk" by blast
  with t buf_frame_trans show ?thesis by (intro exI [of _ t] exI [of _ u]) auto
qed

text \<open>The other blocks are as ready afterwards as before, whatever is done in between that they do not notice.\<close>

lemma borrow_others:
  assumes "ready s i dev blk" "get dev blk s = Ret (i, t)" "held t' i dev blk" "release i t' = Ret u"
    and "\<And>j d b. ready t j d b \<Longrightarrow> ready t' j d b" "ready s j d b"
  shows "ready u j d b"
proof (cases "j = i")
  case False
  with get_other [OF assms(1,6) _ assms(2)] assms(5) have "ready t' j d b" by blast
  with release_other [OF assms(3)] assms(4) show ?thesis by blast
next
  case True
  with same_block [OF assms(1)] assms(6) have "d = dev" "b = blk" by blast+
  with release_held [OF assms(3)] assms(4) True show ?thesis by auto
qed

text \<open>Changing a block: the bytes are there afterwards, the buffer is marked, and nothing else has changed.\<close>

lemma borrow_write:
  assumes "ready s i dev blk"
  shows "\<exists>t u. bindk (get dev blk s) (\<lambda>(bp, s). release bp (set_dwrite bp (kwrite (a bp s) (bs bp s) s))) = Ret u \<and>
    buf_frame s t \<and> buf_frame (set_dwrite i (kwrite (a i t) (bs i t) t)) u \<and> ready u i dev blk"
proof -
  from get_ready [OF assms] obtain t where t: "get dev blk s = Ret (i, t)" "buf_frame s t" "held t i dev blk" by blast
  from release_held [OF held_mark [OF held_write [OF t(3)]], of "a i t" "bs i t"] obtain u where
    "release i (set_dwrite i (kwrite (a i t) (bs i t) t)) = Ret u" "buf_frame (set_dwrite i (kwrite (a i t) (bs i t) t)) u"
    "ready u i dev blk" by blast
  with t show ?thesis by (intro exI [of _ t] exI [of _ u]) auto
qed

end

section \<open>The cache meets the contract\<close>

definition blk_holds :: "'a ext2_state_scheme e2_env \<Rightarrow> 'a ext2_state_scheme \<Rightarrow> nat \<Rightarrow> u32 \<Rightarrow> u32 \<Rightarrow> bool" where
  "blk_holds E s i dev blk \<longleftrightarrow> e2_rounds E \<noteq> 0 \<and> no_sleepers s \<and> sched_wf s \<and> (\<exists>fs. cache_wf s fs) \<and> holds s i dev blk \<and>
     b_flags (buffers s i) AND B_DONE \<noteq> 0"

definition blk_ready :: "'a ext2_state_scheme e2_env \<Rightarrow> 'a ext2_state_scheme \<Rightarrow> nat \<Rightarrow> u32 \<Rightarrow> u32 \<Rightarrow> bool" where
  "blk_ready E s i dev blk \<longleftrightarrow> blk_holds E s i dev blk \<and> \<not> m_lock (b_mutex (buffers s i))"

definition blk_held :: "'a ext2_state_scheme e2_env \<Rightarrow> 'a ext2_state_scheme \<Rightarrow> nat \<Rightarrow> u32 \<Rightarrow> u32 \<Rightarrow> bool" where
  "blk_held E s i dev blk \<longleftrightarrow> blk_holds E s i dev blk \<and> m_lock (b_mutex (buffers s i))"

lemma blk_quiet: "blk_ready E s i dev blk \<Longrightarrow> no_sleepers s" "blk_held E s i dev blk \<Longrightarrow> no_sleepers s"
  by (simp_all add: blk_ready_def blk_held_def blk_holds_def)

lemma sched_wf_buf_frame: "buf_frame s t \<Longrightarrow> sched_wf t = sched_wf s"
  by (rule sched_wf_fields) (auto simp: buf_frame_def)

lemma bread_ready:
  assumes "blk_ready E s i dev blk"
  shows "\<exists>t. e2_bread E dev blk s = Ret (Some i, t) \<and> buf_frame s t \<and> blk_held E t i dev blk"
proof -
  from assms obtain fs n where c: "cache_wf s fs" "holds s i dev blk" "\<not> mutex_locked (b_mutex (buffers s i)) s"
    and q: "no_sleepers s" "sched_wf s" "b_flags (buffers s i) AND B_DONE \<noteq> 0" and n: "e2_rounds E = Suc n"
    by (auto simp: blk_ready_def blk_holds_def gr0_conv_Suc mutex_locked_def)
  from getblk_hit_frame [OF c, of n "e2_bufs E"] obtain t f where
    t: "getblk (Suc n) (e2_bufs E) dev blk s = Ret (Got i t)" "cache_wf t (remove1 i fs)" "t = s\<lparr>buffers := f\<rparr>"
      "b_mutex (buffers t i) = \<lparr>m_lock = True, m_owner = Some (current_process s)\<rparr>" "holds t = holds s"
      "\<And>j. b_data (buffers t j) = b_data (buffers s j) \<and> b_flags (buffers t j) = b_flags (buffers s j)" by blast
  have fr: "buf_frame s t" using t(3,6) by (auto simp: buf_frame_def)
  have "e2_bread E dev blk s = Ret (Some i, t)"
    using t(1,6) q(3) n buf_frame_fields(4) [OF fr]
    by (simp add: e2_bread_def bread_def stays_def del: getblk.simps)
  moreover have "blk_held E t i dev blk"
    using q c(2) t(2,4,5,6) n fr sched_wf_buf_frame [OF fr] buf_frame_accessors(5) [OF fr]
    by (auto simp: blk_held_def blk_holds_def)
  ultimately show ?thesis using fr by blast
qed

lemma brelse_held:
  assumes "blk_held E t i dev blk"
  shows "\<exists>u. e2_brelse E i t = Ret u \<and> buf_frame t u \<and> blk_ready E u i dev blk"
proof -
  from assms obtain fs where c: "cache_wf t fs" "sched_wf t" "i < NR_BUF_BUFFERS" "m_lock (b_mutex (buffers t i))"
    and q: "no_sleepers t" "holds t i dev blk" "b_flags (buffers t i) AND B_DONE \<noteq> 0" "e2_rounds E \<noteq> 0"
    by (auto simp: blk_held_def blk_holds_def holds_def)
  from brelse_returns [OF c, of "e2_bufs E"] obtain u where u: "brelse (e2_bufs E) i t = Ret u" "sched_wf u"
    "holds u = holds t" "\<not> m_lock (b_mutex (buffers u i))" "\<exists>fs. cache_wf u fs" by blast
  have f: "buf_frame t u" using brelse_frame [OF q(1) u(1)] .
  have "e2_brelse E i t = Ret u"
    using u buf_frame_fields(4) [OF f] by (simp add: e2_brelse_def stays_def)
  moreover have "blk_ready E u i dev blk"
    using u(2-5) q buf_frame_accessors(5) [OF f] buf_frame_fields(3) [OF f]
    by (simp add: blk_ready_def blk_holds_def mutex_locked_def)
  ultimately show ?thesis using f by blast
qed

lemma blk_holds_cong:
  assumes "blk_holds E s i dev blk" "process_table t = process_table s" "process_queues t = process_queues s"
    and "current_process t = current_process s" "hash_queues t = hash_queues s" "b_flags (buffers t i) AND B_DONE \<noteq> 0"
    and "\<And>j. b_dev (buffers t j) = b_dev (buffers s j) \<and> b_blknr (buffers t j) = b_blknr (buffers s j) \<and> b_mutex (buffers t j) = b_mutex (buffers s j) \<and>
      hn t j = hn s j \<and> hp t j = hp s j \<and> fn t j = fn s j \<and> fp t j = fp s j"
  shows "blk_holds E t i dev blk"
proof -
  from assms(1) obtain fs Q where c: "free_ok s fs" "hash_ok s Q" "unique_blocks s" "cache_wf s fs"
    by (auto simp: blk_holds_def cache_wf_def)
  have f: "b_dev (buffers t j) = b_dev (buffers s j)" "b_blknr (buffers t j) = b_blknr (buffers s j)"
    "hn t j = hn s j" "hp t j = hp s j" "hash_queues t = hash_queues s" for j using assms(5,7) by simp_all
  have h: "hash_ok t Q = hash_ok s Q" "holds t = holds s" "unique_blocks t = unique_blocks s" by (rule hash_ok_cong; rule f)+
  have "free_ok t fs" using free_ok_cong [of t s fs] assms(7) c(1) by blast
  then have "cache_wf t fs"
    using h c cache_wf_locked [OF c(4)] assms(7) by (intro cache_wfI [of _ _ Q]) auto
  then show ?thesis
    using assms(1-4,6) h sched_wf_fields [of t s] by (auto simp: blk_holds_def no_sleepers_def)
qed

lemma mark_keeps_done: "(x OR B_DWRITE) AND B_DONE = x AND B_DONE"
  by (rule bit_eqI) (auto simp: bit_simps bit_numeral_rec)

text \<open>Changes that do not touch the cache: to kernel memory, to the mark for writing, to inodes and superblocks.\<close>

lemma blk_steps:
  assumes "blk_held E s i dev blk"
  shows "blk_held E (kwrite a bs s) i dev blk" "blk_held E (kput a v s) i dev blk" "blk_held E (set_dwrite j s) i dev blk"
    "blk_held E (upd_ino ip f s) i dev blk" "blk_held E (upd_super k g s) i dev blk"
proof -
  have h: "blk_holds E s i dev blk" "m_lock (b_mutex (buffers s i))" "b_flags (buffers s i) AND B_DONE \<noteq> 0"
    using assms by (simp_all add: blk_held_def blk_holds_def)
  have d: "(b_flags (buffers s i) OR B_DWRITE) AND B_DONE \<noteq> 0"
    using h(3) by (simp add: mark_keeps_done)
  show "blk_held E (kwrite a bs s) i dev blk" "blk_held E (kput a v s) i dev blk" "blk_held E (set_dwrite j s) i dev blk"
    "blk_held E (upd_ino ip f s) i dev blk" "blk_held E (upd_super k g s) i dev blk"
    unfolding blk_held_def
    by (rule conjI [OF blk_holds_cong [OF h(1)]]; use h d in \<open>auto simp: kwrite_def kput_def set_dwrite_def upd_buf_def upd_ino_def upd_super_def\<close>)+
qed

lemma block_ready:
  assumes "blk_ready E s i dev blk"
  shows "\<exists>t. e2_block E dev blk s = Ret (i, t) \<and> buf_frame s t \<and> blk_held E t i dev blk"
  using bread_ready [OF assms] by (auto simp: e2_block_def)

lemma ready_locked:
  assumes "blk_ready E s j d b" "cache_wf s fs"
  shows "j \<in> set fs"
  using assms cache_wf_locked [OF assms(2), of j] by (auto simp: blk_ready_def blk_holds_def holds_def)

lemma ready_other:
  assumes r: "blk_ready E s j d b" and f: "buf_frame s t" and c: "cache_wf t fs" "j \<in> set fs" "holds t = holds s"
  shows "blk_ready E t j d b"
proof -
  have "j < NR_BUF_BUFFERS" using r by (simp add: blk_ready_def blk_holds_def holds_def)
  with cache_wf_locked [OF c(1)] c(2) have "\<not> m_lock (b_mutex (buffers t j))" by blast
  with r c(1,3) buf_frame_fields(3) [OF f] buf_frame_accessors(5) [OF f] sched_wf_buf_frame [OF f] show ?thesis
    by (auto simp: blk_ready_def blk_holds_def)
qed

lemma block_others:
  assumes i: "blk_ready E s i dev blk" and j: "blk_ready E s j d b" "j \<noteq> i" and r: "e2_block E dev blk s = Ret (i, t)"
  shows "blk_ready E t j d b"
proof -
  from i obtain fs n where c: "cache_wf s fs" "holds s i dev blk" "\<not> mutex_locked (b_mutex (buffers s i)) s"
    and q: "b_flags (buffers s i) AND B_DONE \<noteq> 0" and n: "e2_rounds E = Suc n"
    by (auto simp: blk_ready_def blk_holds_def gr0_conv_Suc mutex_locked_def)
  from getblk_hit_frame [OF c, of n "e2_bufs E"] obtain u f where
    u: "getblk (Suc n) (e2_bufs E) dev blk s = Ret (Got i u)" "cache_wf u (remove1 i fs)" "holds u = holds s" "u = s\<lparr>buffers := f\<rparr>"
      "\<And>j. b_data (buffers u j) = b_data (buffers s j) \<and> b_flags (buffers u j) = b_flags (buffers s j)" by blast
  have f: "buf_frame s u" using u(4,5) by (auto simp: buf_frame_def)
  have "t = u" using r u(1,5) q n buf_frame_fields(4) [OF f]
    by (simp add: e2_block_def e2_bread_def bread_def stays_def del: getblk.simps)
  with ready_other [OF j(1) f u(2)] u(3) ready_locked [OF j(1) c(1)] j(2) show ?thesis by simp
qed

lemma brelse_others:
  assumes h: "blk_held E t i dev blk" and j: "blk_ready E t j d b" and r: "e2_brelse E i t = Ret u"
  shows "blk_ready E u j d b"
proof -
  from h obtain fs where c: "cache_wf t fs" "sched_wf t" "i < NR_BUF_BUFFERS" "m_lock (b_mutex (buffers t i))"
    and q: "no_sleepers t" by (auto simp: blk_held_def blk_holds_def holds_def)
  from brelse_returns [OF c, of "e2_bufs E"] obtain v fs' where v: "brelse (e2_bufs E) i t = Ret v" "holds v = holds t"
    "cache_wf v fs'" "set fs' = insert i (set fs)" by fastforce
  have f: "buf_frame t v" using brelse_frame [OF q v(1)] .
  have "u = v" using r v(1) buf_frame_fields(4) [OF f] by (simp add: e2_brelse_def stays_def)
  with ready_other [OF j f v(3)] v(2,4) ready_locked [OF j c(1)] show ?thesis by simp
qed

lemma ready_block: "blk_ready E s i dev blk \<Longrightarrow> blk_ready E s i d b \<Longrightarrow> d = dev \<and> b = blk"
  by (auto simp: blk_ready_def blk_holds_def holds_def)

interpretation blk: block_access "e2_block E" "e2_brelse E" "blk_ready E" "blk_held E" for E
  by unfold_locales (rule block_ready brelse_held blk_steps(1,3) block_others brelse_others ready_block; assumption)+

end
