(* ===== verification/Ext2_Demo.thy ===== *)
theory Ext2_Demo
  imports Ext2_Frame Buffer_Faults
begin

text \<open>
  A mounted filesystem of one block group on device 0x301 with one block in the cache, block 7, behind buffer 0: the
  state at which the theorems on the filesystem are applied. What block 7 is used for (a bitmap, a piece of the inode
  table, a directory, a file) is up to the theorem; its bytes are in kernel memory from 0x5000 on.
\<close>

definition demo_inode :: ext2_inode where
  "demo_inode = \<lparr>i_mode = 0x81A4, i_uid = 0, i_size = 1024, i_atime = 0, i_ctime = 0, i_mtime = 0, i_dtime = 0, i_gid = 0,
     i_links_count = 1, i_blocks = 2, i_eflags = 0, i_osd1 = 0, i_block = 7 # replicate 14 0, i_generation = 0,
     i_file_acl = 0, i_dir_acl = 0, i_faddr = 0, i_osd2 = replicate 3 0\<rparr>"

definition demo_cell :: ext2_inode_m where
  "demo_cell = \<lparr>i_ino = demo_inode, i_mutex = mutex_init, i_dev = 0x301, i_num = 3, i_flags = 1, i_count = 1,
     i_prev_free = None, i_next_free = None, i_next = None, i_prev = None\<rparr>"

definition demo_sb :: ext2_superblock where
  "demo_sb = \<lparr>s_inodes_count = 8, s_blocks_count = 64, s_r_blocks_count = 0, s_free_blocks_count = 50,
     s_free_inodes_count = 4, s_first_data_block = 1, s_log_block_size = 0, s_log_frag_size = 0, s_blocks_per_group = 8192,
     s_frags_per_group = 8192, s_inodes_per_group = 8, s_mtime = 0, s_wtime = 0, s_mnt_count = 0, s_max_mnt_count = 0,
     s_magic = 0xEF53, s_state = 1, s_errors = 1, s_minor_rev_level = 0, s_lastcheck = 0, s_checkinterval = 0,
     s_creator_os = 0, s_rev_level = 0, s_def_resuid = 0, s_def_resgid = 0, s_first_ino = 11, s_inode_size = 128,
     s_block_group_nr = 0, s_rest = replicate 144 0\<rparr>"

definition demo_super :: ext2_superblock_m where
  "demo_super = \<lparr>sb = demo_sb,
     bgd_table = (\<lambda>_. \<lparr>bg_block_bitmap = 7, bg_inode_bitmap = 7, bg_inode_table = 7, bg_free_blocks_count = 50,
       bg_free_inodes_count = 4, bg_used_dirs_count = 1, bg_reserved = replicate 14 0\<rparr>),
     nr_blk_group = 1, sb_mutex = mutex_init, modified = False\<rparr>"

definition demo_fs :: "(u32 \<Rightarrow> u8) \<Rightarrow> ext2_state" where
  "demo_fs k = \<lparr>process_table = process_table two_users, current_process = 1,
     process_queues = process_queues two_users, last_pid = 2, timer_ticks = 0, startup_time = 0,
     user_spaces = \<lambda>_. \<lparr>us_valid = (\<lambda>_. True), us_mem = (\<lambda>_. 0)\<rparr>,
     sys_phase = SYSTEM_MULTITASKING, multitasking_hooks = [], file_table = \<lambda>_. free_file,
     filesystems = \<lambda>_. \<lparr>f_dev = 0x301, f_read_only = False, f_driver = 0\<rparr>,
     mount_table = [0 \<mapsto> 0], nr_mounts = 1,
     buffers = (buffers demo_hit)(0 := (buffers demo_hit 0)\<lparr>b_flags := B_DONE, b_data := 0x5000\<rparr>),
     hash_queues = hash_queues demo_hit,
     disk_dev_table = \<lambda>_. \<lparr>dd_driver = None, dd_minor = 0, lba_start = 0, lba_len = 0\<rparr>, current_driver = None,
     heap = kv_demo 0x10000, kmem = k,
     f_super = [0 \<mapsto> demo_super], inodes = \<lambda>_. demo_cell, inode_hash = \<lambda>_. None, symlinks = 0\<rparr>"

definition demo_tty :: "'s chr_dev_ops" where
  "demo_tty = \<lparr>d_open = (\<lambda>_ s. Ret (0, s)), d_rw = (\<lambda>_ _ n _ s. Ret (n, s))\<rparr>"

definition demo_e2 :: "ext2_state e2_env" where
  "demo_e2 = \<lparr>e2_bufs = \<lparr>be_disk = \<lambda>_. \<lparr>drive_start = (\<lambda>_ _ _ _ _ s. Ret (0, s)), drive_exists = (\<lambda>_ _. False)\<rparr>,
       be_fs = demo_drivers, be_put_page = (\<lambda>h. Ret (0, h)), be_fuel = Suc 0,
       buf_addr = (\<lambda>i. 0x10000 + of_nat i * 44), mutex_addr = (\<lambda>i. 0x10010 + of_nat i * 44)\<rparr>,
     e2_rounds = 1, e2_fuel = 128, sb_mutex_addr = (\<lambda>i. 0x20000 + of_nat i), ino_mutex_addr = (\<lambda>i. 0x30000 + of_nat i),
     ino_addr = (\<lambda>i. 0x40000 + of_nat i), tty_ops = demo_tty,
     ttyx_ops = demo_tty, stack_bp = None\<rparr>"

text \<open>The invariant of the cache reads the buffers and the queues' heads only.\<close>

lemma cache_wf_fields:
  fixes s :: "'a buf_state_scheme" and t :: "'b buf_state_scheme"
  assumes "buffers t = buffers s" "hash_queues t = hash_queues s"
  shows "cache_wf t fs = cache_wf s fs" "holds t = holds s"
proof -
  have "holds t i d b = holds s i d b" for i d b by (simp add: holds_def assms(1))
  then show "holds t = holds s" by (simp add: fun_eq_iff)
  then show "cache_wf t fs = cache_wf s fs"
    by (simp add: cache_wf_def free_ok_def hash_ok_def queue_at_def unique_blocks_def locks_ok_def fl.on_ring_def hq.on_ring_def
        assms cong: option.case_cong)
qed

lemma demo_fs_cache: "cache_wf (demo_fs k) [1, 0]" "holds (demo_fs k) j e c \<longleftrightarrow> j = 0 \<and> e = 0x301 \<and> c = 7"
proof -
  let ?t = "demo_hit\<lparr>buffers := (buffers demo_hit)(0 := (buffers demo_hit 0)\<lparr>b_flags := B_DONE, b_data := 0x5000\<rparr>)\<rparr>"
  from demo_hit_wf(1) obtain Q where Q: "hash_ok demo_hit Q" "free_ok demo_hit [1, 0]" "unique_blocks demo_hit"
    by (auto simp: cache_wf_def)
  have h: "hash_ok ?t Q = hash_ok demo_hit Q" "holds ?t = holds demo_hit" "unique_blocks ?t = unique_blocks demo_hit"
    by (rule hash_ok_cong; simp)+
  have "free_ok ?t [1, 0]" using free_ok_cong [of ?t demo_hit "[1, 0]"] Q(2) by simp
  then have "cache_wf ?t [1, 0]" using h Q cache_wf_locked [OF demo_hit_wf(1)] by (intro cache_wfI [of _ _ Q]) auto
  moreover have f: "buffers (demo_fs k) = buffers ?t" "hash_queues (demo_fs k) = hash_queues ?t" by (simp_all add: demo_fs_def)
  ultimately show "cache_wf (demo_fs k) [1, 0]" "holds (demo_fs k) j e c \<longleftrightarrow> j = 0 \<and> e = 0x301 \<and> c = 7"
    using cache_wf_fields [OF f] h(2) demo_hit_wf(2) [of j e c] by simp_all
qed

lemma demo_ready: "blk_ready demo_e2 (demo_fs k) 0 0x301 7"
proof -
  have "sched_wf (demo_fs k)" by (simp add: demo_fs_def sched_wf_fields [of _ two_users] two_users_wf two_users_fields)
  moreover have "no_sleepers (demo_fs k)" by (auto simp: no_sleepers_def demo_fs_def two_users_fields PROC_SLEEPING_def demo_fields)
  ultimately show ?thesis using demo_fs_cache [of k]
    by (auto simp: blk_ready_def blk_holds_def mutex_locked_def demo_fs_def demo_e2_def demo_buffers mutex_init_def)
qed

lemma demo_super_of: "get_ext2_superblock 0x301 (demo_fs k) = Ret (0, demo_super)" "find_filesystem 0x301 (demo_fs k) = Some 0"
  "f_super (demo_fs k) 0 = Some demo_super" "bdata 0 (demo_fs k) = 0x5000"
  by (simp_all add: get_ext2_superblock_def find_filesystem_def demo_fs_def bdata_def find_index_def upt_conv_Cons)

end
