(* ===== verification/Ext2_Alloc_Props.thy ===== *)
theory Ext2_Alloc_Props
  imports Ext2_Demo
begin

text \<open>
  Allocation by bitmap: what \<^verbatim>\<open>balloc_bgd\<close> takes was free and is the first, what \<^verbatim>\<open>ext2_bfree\<close> gives back is free again,
  and the counters of the group and of the filesystem follow.
\<close>

section \<open>Bitmaps in memory\<close>

definition kbit :: "u32 \<Rightarrow> nat \<Rightarrow> 'a buf_state_scheme \<Rightarrow> bool" where
  "kbit base k s \<longleftrightarrow> bit (kmem s (base + of_nat (k div 8))) (k mod 8)"

lemma bitmap_scan_first:
  "off \<le> bitmap_scan f n off \<and> bitmap_scan f n off \<le> off + n \<and>
   (\<forall>k. off \<le> k \<and> k < bitmap_scan f n off \<longrightarrow> bit (f (k div 8)) (k mod 8)) \<and>
   (bitmap_scan f n off < off + n \<longrightarrow> \<not> bit (f (bitmap_scan f n off div 8)) (bitmap_scan f n off mod 8))"
proof (induction n arbitrary: off)
  case (Suc n)
  note IH = Suc [of "off + 1"]
  show ?case
  proof (cases "bit (f (off div 8)) (off mod 8)")
    case True
    have "bit (f (k div 8)) (k mod 8)" if "off \<le> k" "k < bitmap_scan f n (off + 1)" for k
      using that IH True by (cases "k = off") auto
    with True IH show ?thesis by simp
  qed auto
qed auto

definition first_clear :: "u32 \<Rightarrow> nat \<Rightarrow> 'a buf_state_scheme \<Rightarrow> nat" where
  "first_clear base n s = bitmap_scan (\<lambda>i. kmem s (base + of_nat i)) n 0"

lemma first_clear_props:
  assumes "\<not> kbit base k s" "k < n"
  shows "first_clear base n s \<le> k" "\<not> kbit base (first_clear base n s) s" "\<And>j. j < first_clear base n s \<Longrightarrow> kbit base j s"
proof -
  note scan = bitmap_scan_first [of 0 "\<lambda>i. kmem s (base + of_nat i)" n, folded first_clear_def]
  show "\<And>j. j < first_clear base n s \<Longrightarrow> kbit base j s" using scan by (simp add: kbit_def)
  then show le: "first_clear base n s \<le> k" using assms(1) by (meson leI)
  then have "first_clear base n s < n" using assms(2) by simp
  with scan show "\<not> kbit base (first_clear base n s) s" by (simp add: kbit_def)
qed

lemma kbit_kput:
  assumes "k div 8 < 2 ^ 32" "off div 8 < 2 ^ 32"
  shows "kbit base k (set_kbit base off s) \<longleftrightarrow> k = off \<or> kbit base k s"
    and "kbit base k (clear_kbit base off s) \<longleftrightarrow> k \<noteq> off \<and> kbit base k s"
proof -
  have d: "base + of_nat (k div 8) = base + of_nat (off div 8) \<longleftrightarrow> k div 8 = off div 8"
    using of_nat_u32_eq_iff [OF assms] by simp
  have "k = off \<longleftrightarrow> k div 8 = off div 8 \<and> k mod 8 = off mod 8"
    by (metis div_mod_decomp)
  moreover have "k mod 8 < 8" by simp
  ultimately show "kbit base k (set_kbit base off s) \<longleftrightarrow> k = off \<or> kbit base k s"
    "kbit base k (clear_kbit base off s) \<longleftrightarrow> k \<noteq> off \<and> kbit base k s"
    using d by (auto simp: kbit_def set_kbit_def clear_kbit_def kput_def bit_simps)
qed

section \<open>Counters under the lock\<close>

definition under_lock :: "(ext2_superblock_m \<Rightarrow> ext2_superblock_m) \<Rightarrow> nat \<Rightarrow> ext2_superblock_m \<Rightarrow> ext2_superblock_m" where
  "under_lock f p m = ((f (m\<lparr>sb_mutex := \<lparr>m_lock = True, m_owner = Some p\<rparr>\<rparr>))\<lparr>modified := True\<rparr>)\<lparr>sb_mutex := mutex_init\<rparr>"

lemma locked_super_ok:
  assumes "f_super s fs = Some m" "no_sleepers s" "\<not> mutex_locked (sb_mutex m) s"
  shows "locked_super E fs f s = Ret (upd_super fs (under_lock f (current_process s)) s)"
  using assms
  by (simp add: locked_super_def mutex_lock_free Let_def stays_def mutex_unlock_none no_sleepers_def upd_super_def under_lock_def
      fun_upd_def cong: if_cong)

lemma upd_super_simps [simp]:
  "f_super (upd_super fs f s) fs' = (if fs' = fs then map_option f (f_super s fs) else f_super s fs')"
  "kmem (upd_super fs f s) = kmem s" "inodes (upd_super fs f s) = inodes s" "buffers (upd_super fs f s) = buffers s"
  "current_process (upd_super fs f s) = current_process s"
  by (simp_all add: upd_super_def)

lemma kput_simps [simp]:
  "kmem (kput a v s) = (kmem s)(a := v)" "inodes (kput a v t) = inodes t" "f_super (kput a v t) = f_super t"
  "current_process (kput a v s) = current_process s" "buffers (kput a v s) = buffers s"
  "kmem (set_dwrite bp s) = kmem s" "inodes (set_dwrite bp t) = inodes t" "f_super (set_dwrite bp t) = f_super t"
  "current_process (set_dwrite bp s) = current_process s"
  for t :: "'b ext2_state_scheme"
  by (simp_all add: kput_def set_dwrite_def upd_buf_def)

section \<open>Taking a block\<close>

text \<open>The counters of a group and of the filesystem when \<open>d\<close> blocks more are free.\<close>

definition free_blocks_by :: "nat \<Rightarrow> u16 \<Rightarrow> u32 \<Rightarrow> ext2_superblock_m \<Rightarrow> ext2_superblock_m \<Rightarrow> bool" where
  "free_blocks_by g d d' m m' \<longleftrightarrow>
     bg_free_blocks_count (bgd_table m' g) = bg_free_blocks_count (bgd_table m g) + d \<and>
     s_free_blocks_count (sb m') = s_free_blocks_count (sb m) + d' \<and> modified m' \<and> \<not> m_lock (sb_mutex m') \<and>
     (\<forall>h. h \<noteq> g \<longrightarrow> bgd_table m' h = bgd_table m h) \<and> nr_blk_group m' = nr_blk_group m \<and>
     (sb m')\<lparr>s_free_blocks_count := 0\<rparr> = (sb m)\<lparr>s_free_blocks_count := 0\<rparr> \<and>
     (bgd_table m' g)\<lparr>bg_free_blocks_count := 0\<rparr> = (bgd_table m g)\<lparr>bg_free_blocks_count := 0\<rparr>"

lemma free_blocks_by_fields:
  assumes "free_blocks_by g d d' m m'"
  shows "bg_block_bitmap (bgd_table m' g) = bg_block_bitmap (bgd_table m g)" "s_blocks_per_group (sb m') = s_blocks_per_group (sb m)"
    "s_first_data_block (sb m') = s_first_data_block (sb m)" "nr_blk_group m' = nr_blk_group m" "\<not> m_lock (sb_mutex m')"
proof -
  have e: "(sb m')\<lparr>s_free_blocks_count := 0\<rparr> = (sb m)\<lparr>s_free_blocks_count := 0\<rparr>"
    "(bgd_table m' g)\<lparr>bg_free_blocks_count := 0\<rparr> = (bgd_table m g)\<lparr>bg_free_blocks_count := 0\<rparr>"
    using assms by (simp_all add: free_blocks_by_def)
  show "bg_block_bitmap (bgd_table m' g) = bg_block_bitmap (bgd_table m g)" "s_blocks_per_group (sb m') = s_blocks_per_group (sb m)"
    "s_first_data_block (sb m') = s_first_data_block (sb m)"
    using arg_cong [OF e(2), of bg_block_bitmap] arg_cong [OF e(1), of s_blocks_per_group]
      arg_cong [OF e(1), of s_first_data_block] by simp_all
  show "nr_blk_group m' = nr_blk_group m" "\<not> m_lock (sb_mutex m')" using assms by (simp_all add: free_blocks_by_def)
qed

lemma balloc_bgd_ok:
  assumes r: "blk_ready E s i dev (bg_block_bitmap (bgd_table m g))"
    and m: "f_super s fs = Some m" "g < nr_blk_group m" "\<not> mutex_locked (sb_mutex m) s" "bg_free_blocks_count (bgd_table m g) \<noteq> 0"
    and off: "off = first_clear (bdata i s) (8 * blksize m) s"
  shows "\<exists>t m'. balloc_bgd E dev fs m g s =
      Ret (of_nat off + (of_nat g * s_blocks_per_group (sb m) + s_first_data_block (sb m)), t) \<and>
    kmem t = kmem (set_kbit (bdata i s) off s) \<and> f_super t fs = Some m' \<and> free_blocks_by g (-1) (-1) m m' \<and>
    inodes t = inodes s \<and> bdata i t = bdata i s \<and> current_process t = current_process s \<and> mount_table t = mount_table s \<and>
    filesystems t = filesystems s \<and> blk_ready E t i dev (bg_block_bitmap (bgd_table m g))"
proof -
  let ?b = "bg_block_bitmap (bgd_table m g)"
  from blk.get_ready [OF r] obtain t where t: "e2_block E dev ?b s = Ret (i, t)" "buf_frame s t" "blk_held E t i dev ?b" by blast
  note f = buf_frame_fields [OF t(2)]
  let ?f = "\<lambda>m. (upd_bgd g (\<lambda>b. b\<lparr>bg_free_blocks_count := bg_free_blocks_count b - 1\<rparr>) m)
      \<lparr>sb := (sb m)\<lparr>s_free_blocks_count := s_free_blocks_count (sb m) - 1\<rparr>\<rparr>"
  let ?u = "set_dwrite i (set_kbit (bdata i s) off t)"
  let ?v = "upd_super fs (under_lock ?f (current_process ?u)) ?u"
  have hu: "blk_held E ?u i dev ?b" unfolding set_kbit_def by (intro blk_steps t(3))
  then have l: "locked_super E fs ?f ?u = Ret ?v"
    using m(1,3) f blk_quiet(2) [OF hu] by (intro locked_super_ok) (auto simp: set_kbit_def mutex_locked_def)
  from blk.release_held [OF blk_steps(5) [OF hu]] obtain w where
    w: "e2_brelse E i ?v = Ret w" "buf_frame ?v w" "blk_ready E w i dev ?b" by blast
  note fw = buf_frame_fields [OF w(2)]
  have "balloc_bgd E dev fs m g s =
      Ret (of_nat off + (of_nat g * s_blocks_per_group (sb m) + s_first_data_block (sb m)), w)"
    using t(1) m f l w(1) off
    by (simp add: balloc_bgd_def bgd_in_table_def Let_def EXT2_BLOCKS_PER_GROUP_def first_clear_def)
  moreover have "f_super w fs = Some (under_lock ?f (current_process ?u) m)" using fw f m(1) by (simp add: set_kbit_def)
  moreover have "free_blocks_by g (-1) (-1) m (under_lock ?f (current_process ?u) m)"
    by (simp add: free_blocks_by_def under_lock_def upd_bgd_def mutex_init_def)
  moreover have "kmem w = kmem (set_kbit (bdata i s) off s)" "inodes w = inodes s" "bdata i w = bdata i s"
    "current_process w = current_process s" "mount_table w = mount_table s" "filesystems w = filesystems s"
    using fw f by (simp_all add: set_kbit_def bdata_def upd_super_def kput_def set_dwrite_def upd_buf_def)
  ultimately show ?thesis using w(3) by blast
qed

text \<open>
  C19. Allocating a block from a group that has free ones returns the first block whose bit in the group's bitmap is
  clear, sets that bit and no other, takes one from the group's and the filesystem's count of free blocks, and
  changes nothing else in memory, in the other groups or in the inodes.
\<close>

theorem balloc_bgd_takes_first_free:
  assumes "blk_ready E s i dev (bg_block_bitmap (bgd_table m g))"
    and "f_super s fs = Some m" "g < nr_blk_group m" "\<not> mutex_locked (sb_mutex m) s" "bg_free_blocks_count (bgd_table m g) \<noteq> 0"
    and clear: "k < 8 * blksize m" "\<not> kbit (bdata i s) k s"
  shows "\<exists>off t m'. balloc_bgd E dev fs m g s =
      Ret (of_nat off + (of_nat g * s_blocks_per_group (sb m) + s_first_data_block (sb m)), t) \<and>
    off \<le> k \<and> \<not> kbit (bdata i s) off s \<and> (\<forall>j<off. kbit (bdata i s) j s) \<and>
    (\<forall>j<8 * blksize m. kbit (bdata i s) j t \<longleftrightarrow> j = off \<or> kbit (bdata i s) j s) \<and>
    (\<forall>a. a \<noteq> bdata i s + of_nat (off div 8) \<longrightarrow> kmem t a = kmem s a) \<and>
    f_super t fs = Some m' \<and> free_blocks_by g (-1) (-1) m m' \<and> inodes t = inodes s"
proof -
  let ?off = "first_clear (bdata i s) (8 * blksize m) s"
  note first = first_clear_props [OF clear(2,1)]
  have big: "j div 8 < 2 ^ 32" if "j < 8 * blksize m" for j
    using that unat_lt_2p32 [of "EXT2_BLOCKSIZE m"] by simp
  from balloc_bgd_ok [OF assms(1-5), of ?off] obtain t m' where
    t: "balloc_bgd E dev fs m g s = Ret (of_nat ?off + (of_nat g * s_blocks_per_group (sb m) + s_first_data_block (sb m)), t)"
      "kmem t = kmem (set_kbit (bdata i s) ?off s)" "f_super t fs = Some m'" "free_blocks_by g (-1) (-1) m m'" "inodes t = inodes s"
    by blast
  have "kbit (bdata i s) j t \<longleftrightarrow> j = ?off \<or> kbit (bdata i s) j s" if "j < 8 * blksize m" for j
    using kbit_kput(1) [OF big [OF that] big, of ?off] first(1) clear(1) t(2) by (simp add: kbit_def)
  moreover have "kmem t a = kmem s a" if "a \<noteq> bdata i s + of_nat (?off div 8)" for a
    using that t(2) by (simp add: set_kbit_def)
  ultimately show ?thesis using t first by (intro exI [of _ ?off] exI [of _ t] exI [of _ m']) simp
qed

lemma demo_bitmap:
  "bg_block_bitmap (bgd_table demo_super 0) = 7" "0 < nr_blk_group demo_super" "bg_free_blocks_count (bgd_table demo_super 0) = 50"
  "EXT2_BLOCKSIZE demo_super = 1024" "\<not> mutex_locked (sb_mutex demo_super) s" "\<not> kbit a k (demo_fs (\<lambda>_. 0))"
  "sb demo_super = demo_sb" "s_blocks_per_group demo_sb = 8192" "s_first_data_block demo_sb = 1"
  by (simp_all add: demo_super_def EXT2_BLOCKSIZE_def demo_sb_def mutex_locked_def mutex_init_def kbit_def demo_fs_def)

theorem balloc_bgd_takes_first_free_witness:
  "\<exists>t m'. balloc_bgd demo_e2 0x301 0 demo_super 0 (demo_fs (\<lambda>_. 0)) = Ret (1, t) \<and> kbit 0x5000 0 t \<and> \<not> kbit 0x5000 1 t \<and>
    f_super t 0 = Some m' \<and> s_free_blocks_count (sb m') = 49"
proof -
  let ?s = "demo_fs (\<lambda>_. 0)"
  have r: "blk_ready demo_e2 ?s 0 0x301 (bg_block_bitmap (bgd_table demo_super 0))" by (simp add: demo_bitmap demo_ready)
  have n: "bg_free_blocks_count (bgd_table demo_super 0) \<noteq> 0" "(0 :: nat) < 8 * blksize demo_super" by (simp_all add: demo_bitmap)
  from balloc_bgd_takes_first_free [OF r demo_super_of(3) demo_bitmap(2,5) n demo_bitmap(6)] obtain off t m' where
    t: "off \<le> 0" "balloc_bgd demo_e2 0x301 0 demo_super 0 ?s = Ret (of_nat off +
        (of_nat 0 * s_blocks_per_group (sb demo_super) + s_first_data_block (sb demo_super)), t)"
      "\<forall>j<8 * blksize demo_super. kbit (bdata 0 ?s) j t \<longleftrightarrow> j = off \<or> kbit (bdata 0 ?s) j ?s"
      "f_super t 0 = Some m'" "free_blocks_by 0 (-1) (-1) demo_super m'" by blast
  have "kbit 0x5000 0 t" "\<not> kbit 0x5000 1 t" using t(1) t(3) [rule_format, of 0] t(3) [rule_format, of 1]
    by (simp_all add: demo_bitmap demo_super_of)
  moreover have "s_free_blocks_count (sb m') = 49" using t(5) by (simp add: free_blocks_by_def demo_bitmap) (simp add: demo_sb_def)
  ultimately show ?thesis using t(1,2,4) by (auto simp: demo_bitmap)
qed

section \<open>Giving a block back\<close>

lemma ext2_bfree_ok:
  assumes r: "blk_ready E s i dev (bg_block_bitmap (bgd_table m g))"
    and m: "find_filesystem dev s = Some fs" "f_super s fs = Some m" "g < nr_blk_group m" "\<not> mutex_locked (sb_mutex m) s"
    and block: "block \<noteq> 0" "unat (block div s_blocks_per_group (sb m)) = g"
    and off: "off = unat (block - (s_first_data_block (sb m) + of_nat g * s_blocks_per_group (sb m)))" "kbit (bdata i s) off s"
  shows "\<exists>t m'. ext2_bfree E dev block s = Ret t \<and> kmem t = kmem (clear_kbit (bdata i s) off s) \<and>
    f_super t fs = Some m' \<and> free_blocks_by g 1 1 m m' \<and> inodes t = inodes s"
proof -
  let ?b = "bg_block_bitmap (bgd_table m g)"
  from blk.get_ready [OF r] obtain t where t: "e2_block E dev ?b s = Ret (i, t)" "buf_frame s t" "blk_held E t i dev ?b" by blast
  note f = buf_frame_fields [OF t(2)]
  let ?f = "\<lambda>m. (upd_bgd g (\<lambda>b. b\<lparr>bg_free_blocks_count := bg_free_blocks_count b + 1\<rparr>) m)
      \<lparr>sb := (sb m)\<lparr>s_free_blocks_count := s_free_blocks_count (sb m) + 1\<rparr>\<rparr>"
  let ?u = "clear_kbit (bdata i s) off t"
  let ?v = "upd_super fs (under_lock ?f (current_process ?u)) ?u"
  have hu: "blk_held E ?u i dev ?b" unfolding clear_kbit_def by (intro blk_steps t(3))
  then have l: "locked_super E fs ?f ?u = Ret ?v"
    using m(2,4) f blk_quiet(2) [OF hu] by (intro locked_super_ok) (auto simp: clear_kbit_def mutex_locked_def)
  from blk.release_held [OF blk_steps(3) [OF blk_steps(5) [OF hu]]] obtain w where
    w: "e2_brelse E i (set_dwrite i ?v) = Ret w" "buf_frame (set_dwrite i ?v) w" by blast
  note fw = buf_frame_fields [OF w(2)]
  have "bit (kmem t (bdata i t + of_nat (off div 8))) (off mod 8)" using off(2) f by (simp add: kbit_def)
  then have "ext2_bfree E dev block s = Ret w"
    unfolding ext2_bfree_def get_ext2_superblock_def bgd_in_table_def Let_def EXT2_BLOCKS_PER_GROUP_def
    by (simp only: m block t(1) f(1,2) l w(1) off(1) [symmetric] option.case bindk.simps prod.case if_True if_False simp_thms)
  moreover have "f_super w fs = Some (under_lock ?f (current_process ?u) m)" using fw f m(2) by (simp add: clear_kbit_def)
  moreover have "free_blocks_by g 1 1 m (under_lock ?f (current_process ?u) m)"
    by (simp add: free_blocks_by_def under_lock_def upd_bgd_def mutex_init_def)
  moreover have "kmem w = kmem (clear_kbit (bdata i s) off s)" "inodes w = inodes s"
    using fw f by (simp_all add: clear_kbit_def)
  ultimately show ?thesis by blast
qed



end
