(* ===== verification/Ext2_Inode_Props.thy ===== *)
theory Ext2_Inode_Props
  imports Ext2_Alloc_Props
begin

text \<open>Inodes on the disk and in the cache: what is written is what is read back.\<close>

section \<open>Structures and their bytes\<close>

definition ino_wf :: "ext2_inode \<Rightarrow> bool" where
  "ino_wf i \<longleftrightarrow> length (i_block i) = 15 \<and> length (i_osd2 i) = 3"

lemma length_concat_w32 [simp]: "length (concat (map w32 xs)) = 4 * length xs"
  by (induction xs) simp_all

lemma le32_concat: "k < length xs \<Longrightarrow> le32 (concat (map w32 xs) @ ys) (4 * k) = xs ! k"
proof (induction xs arbitrary: k)
  case (Cons x xs)
  show ?case
  proof (cases k)
    case (Suc j)
    have "le32 (w32 x @ (concat (map w32 xs) @ ys)) (4 * k) = le32 (concat (map w32 xs) @ ys) (4 * k - length (w32 x))"
      using Suc by (intro le_append(2)) simp
    then show ?thesis using Cons Suc by simp
  qed simp
qed simp

lemma decode_words: "length xs = n \<Longrightarrow> map (\<lambda>k. le32 (concat (map w32 xs) @ ys) (4 * k)) [0..<n] = xs"
  by (rule nth_equalityI) (simp_all add: le32_concat)

lemma length_encode_inode: "ino_wf i \<Longrightarrow> length (encode_inode i) = 128"
  by (simp add: encode_inode_def ino_wf_def)

lemma decode_inode_wf: "ino_wf (decode_inode bs)"
  by (simp add: ino_wf_def decode_inode_def)

lemma decode_encode_inode:
  assumes "ino_wf i"
  shows "decode_inode (encode_inode i) = i"
proof -
  have l: "length (i_block i) = 15" "length (i_osd2 i) = 3" using assms by (simp_all add: ino_wf_def)
  have b: "map (\<lambda>k. le32 (encode_inode i) (40 + 4 * k)) [0..<15] = i_block i"
    using decode_words [OF l(1)] by (simp add: encode_inode_def)
  have o: "map (\<lambda>k. le32 (encode_inode i) (116 + 4 * k)) [0..<3] = i_osd2 i"
    using decode_words [OF l(2), of "[]"] l(1) by (simp add: encode_inode_def)
  show ?thesis unfolding decode_inode_def b o using l by (simp add: encode_inode_def)
qed

lemma kbytes_kwrite:
  assumes "length bs < 2 ^ 32"
  shows "kbytes a (length bs) (kwrite a bs s) = bs"
proof (rule nth_equalityI)
  fix k
  assume "k < length (kbytes a (length bs) (kwrite a bs s))"
  then have "k < length bs" by (simp add: kbytes_def)
  with assms unat_of_nat_u32 [of k] show "kbytes a (length bs) (kwrite a bs s) ! k = bs ! k"
    by (simp add: kbytes_def kwrite_def)
qed (simp add: kbytes_def)

section \<open>Writing and reading\<close>

lemma upd_ino_simps [simp]:
  "kmem (upd_ino ip f s) = kmem s" "f_super (upd_ino ip f s) = f_super s" "bdata j (upd_ino ip f s) = bdata j s"
  "inodes (upd_ino ip f s) = (inodes s)(ip := f (inodes s ip))" "mount_table (upd_ino ip f s) = mount_table s"
  "filesystems (upd_ino ip f s) = filesystems s" "current_process (upd_ino ip f s) = current_process s"
  by (simp_all add: upd_ino_def bdata_def)

lemma kwrite_simps [simp]:
  "f_super (kwrite a bs s) = f_super s" "inodes (kwrite a bs s) = inodes s" "bdata j (kwrite a bs s) = bdata j s"
  "mount_table (kwrite a bs s) = mount_table s" "filesystems (kwrite a bs s) = filesystems s"
  "bdata j (set_dwrite k s) = bdata j s" "mount_table (set_dwrite k s) = mount_table s" "filesystems (set_dwrite k s) = filesystems s"
  for s :: "'b ext2_state_scheme"
  by (simp_all add: kwrite_def bdata_def set_dwrite_def upd_buf_def)

lemma kmem_kwrite: "kmem (kwrite a bs s) x = (if unat (x - a) < length bs then bs ! unat (x - a) else kmem s x)"
  by (simp add: kwrite_def)

lemma write_inode_ok:
  assumes sup: "get_ext2_superblock (i_dev (inodes s ip)) s = Ret (fs, m)"
    and place: "inode_block (i_num (inodes s ip)) m = Ret block"
    and r: "blk_ready E s b (i_dev (inodes s ip)) block"
    and a: "a = bdata b s + inode_offset (i_num (inodes s ip)) m"
  shows "\<exists>t. write_inode E ip s = Ret t \<and> kmem t = kmem (kwrite a (encode_inode (ino s ip)) s) \<and>
    inodes t = (inodes s)(ip := (inodes s ip)\<lparr>i_flags := i_flags (inodes s ip) AND NOT I_MODIFIED\<rparr>) \<and>
    f_super t = f_super s \<and> get_ext2_superblock (i_dev (inodes s ip)) t = Ret (fs, m) \<and> bdata b t = bdata b s \<and>
    blk_ready E t b (i_dev (inodes s ip)) block"
proof -
  let ?dev = "i_dev (inodes s ip)"
  from blk.get_ready [OF r] obtain t where t: "e2_block E ?dev block s = Ret (b, t)" "buf_frame s t" "blk_held E t b ?dev block" by blast
  note f = buf_frame_fields [OF t(2)]
  let ?v = "set_dwrite b (upd_ino ip (\<lambda>x. x\<lparr>i_flags := i_flags x AND NOT I_MODIFIED\<rparr>) (kwrite a (encode_inode (ino s ip)) t))"
  have "blk_held E ?v b ?dev block" by (intro blk_steps t(3))
  from blk.release_held [OF this] obtain w where w: "e2_brelse E b ?v = Ret w" "buf_frame ?v w" "blk_ready E w b ?dev block" by blast
  note fw = buf_frame_fields [OF w(2)]
  have "write_inode E ip s = Ret w"
    using sup place t(1) w(1) f a by (simp add: write_inode_def Let_def)
  moreover have "get_ext2_superblock ?dev w = Ret (fs, m)"
    using sup f fw by (simp add: get_ext2_superblock_def find_filesystem_def cong: option.case_cong)
  moreover have "kmem w = kmem (kwrite a (encode_inode (ino s ip)) s)" using fw(1) f(1) by (simp add: kwrite_def fun_eq_iff)
  ultimately show ?thesis using w(3) fw f by simp
qed



end
