(* ===== verification/Ext2_Dir_Props.thy ===== *)
theory Ext2_Dir_Props
  imports Ext2_Inode_Props
begin

text \<open>
  A directory block as a list of entries. The reference is the list of the entries' addresses, each with its inode number,
  its type and its name; looking up, removing and adding are shown to be the operations on that list.
\<close>

section \<open>Entries\<close>

definition entry_name :: "u32 \<Rightarrow> 'a buf_state_scheme \<Rightarrow> u8 list" where
  "entry_name d s = kbytes (d + 8) (unat (d_name_len d s)) s"

definition dent :: "'a buf_state_scheme \<Rightarrow> u32 \<Rightarrow> u32 \<times> u8 \<times> u8 list" where
  "dent s d = (d_inode d s, d_file_type d s, entry_name d s)"

text \<open>The entries from \<open>d\<close> on fill the memory up to \<open>lim\<close>, each with room for its name.\<close>

primrec dents :: "'a buf_state_scheme \<Rightarrow> u32 \<Rightarrow> u32 list \<Rightarrow> u32 \<Rightarrow> bool" where
  "dents s d [] lim \<longleftrightarrow> d = lim"
| "dents s d (x # xs) lim \<longleftrightarrow> x = d \<and> 8 + unat (d_name_len d s) \<le> unat (d_rec_len d s) \<and>
     unat d + unat (d_rec_len d s) \<le> unat lim \<and> dents s (next_dentry d s) xs lim"

lemma kbytes_Suc: "kbytes a (Suc n) s = kmem s a # kbytes (a + 1) n s"
  unfolding kbytes_def by (simp only: upt_conv_Cons zero_less_Suc list.map map_Suc_upt [symmetric] map_map) (simp add: add.assoc)

lemma match_loop_zero: "match_loop a cs s = 0 \<longleftrightarrow> kbytes a (length cs) s = cs"
proof (induction cs arbitrary: a)
  case Nil
  show ?case by (simp add: kbytes_def)
next
  case (Cons c cs)
  then show ?case by (auto simp: kbytes_Suc)
qed

lemma ext2_match_zero: "ext2_match d name s = 0 \<longleftrightarrow> entry_name d s = name"
  by (auto simp: ext2_match_def entry_name_def match_loop_zero) (auto simp: kbytes_def)

lemma unat_next:
  assumes "unat d + unat (d_rec_len d s) \<le> unat (lim :: u32)"
  shows "unat (next_dentry d s) = unat d + unat (d_rec_len d s)"
proof -
  have "unat (ucast (d_rec_len d s) :: u32) = unat (d_rec_len d s)"
    using unsigned_less [of "d_rec_len d s", where 'a = nat] by (simp add: unsigned_ucast_eq take_bit_nat_eq_self)
  moreover have "unat d + unat (d_rec_len d s) < 2 ^ LENGTH(32)" using assms unat_lt_2p32 [of lim] by simp
  ultimately show ?thesis by (simp add: next_dentry_def unat_word_ariths)
qed

lemma dents_le: "dents s d xs lim \<Longrightarrow> unat d \<le> unat lim"
  by (induction xs arbitrary: d) auto

lemma dents_append: "dents s d (xs @ ys) lim \<longleftrightarrow> (\<exists>mid. dents s d xs mid \<and> dents s mid ys lim)"
proof (induction xs arbitrary: d)
  case (Cons x xs)
  show ?case
  proof
    assume "dents s d ((x # xs) @ ys) lim"
    with Cons.IH [of "next_dentry d s"] obtain mid where
      m: "x = d" "8 + unat (d_name_len d s) \<le> unat (d_rec_len d s)" "unat d + unat (d_rec_len d s) \<le> unat lim"
        "dents s (next_dentry d s) xs mid" "dents s mid ys lim" by auto
    with dents_le [OF m(4)] unat_next [OF m(3)] show "\<exists>mid. dents s d (x # xs) mid \<and> dents s mid ys lim" by auto
  next
    assume "\<exists>mid. dents s d (x # xs) mid \<and> dents s mid ys lim"
    then show "dents s d ((x # xs) @ ys) lim" using Cons.IH [of "next_dentry d s"] dents_le by fastforce
  qed
qed auto

section \<open>What a change elsewhere leaves\<close>

definition same_mem :: "'a buf_state_scheme \<Rightarrow> 'b buf_state_scheme \<Rightarrow> u32 \<Rightarrow> u32 \<Rightarrow> bool" where
  "same_mem s t a b \<longleftrightarrow> (\<forall>x. unat a \<le> unat x \<and> unat x < unat b \<longrightarrow> kmem t x = kmem s x)"

lemma unat_plus_small: "unat (d :: u32) + n < 4294967296 \<Longrightarrow> unat (d + of_nat n) = unat d + n"
  by (simp add: unat_word_ariths unat_of_nat take_bit_nat_def)

lemma same_byte: "same_mem s t a b \<Longrightarrow> unat a \<le> unat d \<Longrightarrow> unat d + n < unat b \<Longrightarrow> kmem t (d + of_nat n) = kmem s (d + of_nat n)"
  using unat_plus_small [of d n] unat_lt_2p32 [of b] by (simp add: same_mem_def)

lemma same_header:
  assumes "same_mem s t a b" "unat a \<le> unat d" "unat d + 8 \<le> unat b"
  shows "d_inode d t = d_inode d s" "d_rec_len d t = d_rec_len d s" "d_name_len d t = d_name_len d s" "d_file_type d t = d_file_type d s"
    "next_dentry d t = next_dentry d s"
proof -
  have k: "kmem t d = kmem s d" "kmem t (d + 1) = kmem s (d + 1)" "kmem t (d + 2) = kmem s (d + 2)" "kmem t (d + 3) = kmem s (d + 3)"
    "kmem t (d + 4) = kmem s (d + 4)" "kmem t (d + 5) = kmem s (d + 5)" "kmem t (d + 6) = kmem s (d + 6)" "kmem t (d + 7) = kmem s (d + 7)"
    using same_byte [OF assms(1,2), of 0] same_byte [OF assms(1,2), of 1] same_byte [OF assms(1,2), of 2] same_byte [OF assms(1,2), of 3]
      same_byte [OF assms(1,2), of 4] same_byte [OF assms(1,2), of 5] same_byte [OF assms(1,2), of 6] same_byte [OF assms(1,2), of 7]
      assms(3) by simp_all
  then show r: "d_inode d t = d_inode d s" "d_rec_len d t = d_rec_len d s" "d_name_len d t = d_name_len d s" "d_file_type d t = d_file_type d s"
    by (simp_all add: d_inode_def d_rec_len_def d_name_len_def d_file_type_def kmem32_def kmem16_def add.assoc)
  show "next_dentry d t = next_dentry d s" by (simp add: next_dentry_def r)
qed

lemma same_name:
  assumes "same_mem s t a b" "unat a \<le> unat d" "unat d + (8 + unat (d_name_len d s)) \<le> unat b" "d_name_len d t = d_name_len d s"
  shows "entry_name d t = entry_name d s"
proof -
  have "kmem t (d + 8 + of_nat i) = kmem s (d + 8 + of_nat i)" if "i < unat (d_name_len d s)" for i
    using same_byte [OF assms(1,2), of "8 + i"] that assms(3) by (simp add: add.assoc)
  then show ?thesis using assms(4) by (simp add: entry_name_def kbytes_def)
qed

lemma dents_same:
  assumes "same_mem s t d lim" "dents s d xs lim"
  shows "dents t d xs lim" "map (dent t) xs = map (dent s) xs"
  using assms
proof (induction xs arbitrary: d)
  case (Cons x xs)
  {
    case 1
    then have p: "x = d" "8 + unat (d_name_len d s) \<le> unat (d_rec_len d s)" "unat d + unat (d_rec_len d s) \<le> unat lim"
      "dents s (next_dentry d s) xs lim" by auto
    note n = unat_next [OF p(3)]
    have sm: "same_mem s t (next_dentry d s) lim" using 1(1) n by (simp add: same_mem_def)
    have h: "d_rec_len d t = d_rec_len d s" "d_name_len d t = d_name_len d s" "next_dentry d t = next_dentry d s"
      using same_header [OF 1(1), of d] p(2,3) by simp_all
    show ?case using Cons.IH(1) [OF sm p(4)] p(1-3) h by simp
  next
    case 2
    then have p: "x = d" "8 + unat (d_name_len d s) \<le> unat (d_rec_len d s)" "unat d + unat (d_rec_len d s) \<le> unat lim"
      "dents s (next_dentry d s) xs lim" by auto
    note n = unat_next [OF p(3)]
    have sm: "same_mem s t (next_dentry d s) lim" using 2(1) n by (simp add: same_mem_def)
    have "dent t d = dent s d"
      using same_header [OF 2(1), of d] same_name [OF 2(1), of d] p(2,3) by (simp add: dent_def)
    then show ?case using Cons.IH(2) [OF sm p(4)] p(1) by simp
  }
qed simp_all

section \<open>Looking a name up\<close>

definition in_use :: "'a buf_state_scheme \<Rightarrow> u32 \<Rightarrow> bool" where
  "in_use s d \<longleftrightarrow> d_inode d s \<noteq> 0 \<and> d_file_type d s \<noteq> EXT2_FT_UNKNOWN"

text \<open>What the search should give: the first entry with the name.\<close>

definition lookup_spec :: "u8 list \<Rightarrow> u32 list \<Rightarrow> u32 \<Rightarrow> 'a buf_state_scheme \<Rightarrow> u32 + find_result" where
  "lookup_spec name ds lim s =
     (case List.find (\<lambda>d. entry_name d s = name) ds of
        Some d \<Rightarrow> Inl d
      | None \<Rightarrow> Inr (if in_use s lim then FIND_NEXT_BLOCK else FIND_NONE))"

lemma dents_offset:
  assumes "dents s d xs (base + n)" "unat base \<le> unat d" "xs \<noteq> []"
  shows "\<not> d - base \<ge> n"
proof -
  from assms(1,3) have lt: "unat d < unat (base + n)" using dents_le by (cases xs) auto
  have "unat (base + n) \<le> unat base + unat n" by (simp add: unat_word_ariths)
  with lt have "unat d - unat base < unat n" using assms(2) by linarith
  moreover have "unat (d - base) = unat d - unat base" using assms(2) by (simp add: unat_sub word_le_nat_alt)
  ultimately show ?thesis by (simp add: word_le_nat_alt)
qed

lemma find_dentry_list:
  assumes "dents s d ds (base + n)" "unat base \<le> unat d" "ds \<noteq> []" "\<forall>x\<in>set (tl ds). in_use s x" "length ds < k"
    and "in_use s (base + n) \<Longrightarrow> entry_name (base + n) s \<noteq> name"
  shows "find_dentry k name base n d s = Ret (lookup_spec name ds (base + n) s)"
  using assms(1-5)
proof (induction ds arbitrary: k d)
  case (Cons x xs)
  then have p: "x = d" "unat d + unat (d_rec_len d s) \<le> unat (base + n)" "dents s (next_dentry d s) xs (base + n)" by auto
  from Cons.prems(5) obtain j where k: "k = Suc j" "length xs < j" by (cases k) auto
  note far = dents_offset [OF Cons.prems(1,2)]
  have le: "unat base \<le> unat (next_dentry d s)" using unat_next [OF p(2)] Cons.prems(2) by simp
  show ?case
  proof (cases "entry_name d s = name")
    case True
    then show ?thesis by (simp add: k p(1) ext2_match_zero lookup_spec_def)
  next
    case False
    show ?thesis
    proof (cases xs)
      case Nil
      with p(3) have e: "next_dentry d s = base + n" by simp
      obtain i where i: "j = Suc i" using k(2) by (cases j) auto
      have "(base + n) - base \<ge> n" by simp
      with False far Nil assms(6) e show ?thesis
        by (auto simp: k i p(1) ext2_match_zero lookup_spec_def in_use_def Let_def)
    next
      case (Cons y ys)
      with p(3) Cons.prems(4) have "in_use s (next_dentry d s)" by simp
      moreover have "find_dentry j name base n (next_dentry d s) s = Ret (lookup_spec name xs (base + n) s)"
        using Cons.IH [OF p(3) le] Cons.prems(4) Cons k(2) by simp
      ultimately show ?thesis using False far by (auto simp: k(1) p(1) ext2_match_zero lookup_spec_def in_use_def Let_def)
    qed
  qed
qed simp

text \<open>
  C22. The search of a directory block is the search of its list of entries: it ends, returns the first entry that has the
  name, and reports that there is none otherwise. It needs every entry after the first to be in use, and what lies
  in memory after the block, which the loop also compares, not to look like an entry with the name.
\<close>

theorem find_dentry_is_lookup:
  assumes "dents s base ds (base + n)" "ds \<noteq> []" "\<forall>x\<in>set (tl ds). in_use s x" "length ds < k"
    and "in_use s (base + n) \<Longrightarrow> entry_name (base + n) s \<noteq> name"
  shows "find_dentry k name base n base s = Ret (lookup_spec name ds (base + n) s)"
  using assms by (intro find_dentry_list) simp_all

section \<open>Removing an entry\<close>

definition entry_is :: "u32 \<Rightarrow> u8 list \<Rightarrow> 'a buf_state_scheme \<Rightarrow> u32 \<Rightarrow> bool" where
  "entry_is num name s d \<longleftrightarrow> d_inode d s = num \<and> entry_name d s = name"

lemma remove_loop_found:
  assumes "dents s d (us @ e # vs) lim" "\<forall>x\<in>set us. \<not> entry_is num name s x" "entry_is num name s e" "length us < n"
  shows "remove_entry_loop n name num bp lim prev d s =
    Ret (0, set_dwrite bp (set_rec_len (last (prev # us)) (d_rec_len (last (prev # us)) s + d_rec_len e s) s))"
  using assms
proof (induction us arbitrary: n d prev)
  case Nil
  then obtain j where "n = Suc j" by (cases n) auto
  moreover have "d < lim" using Nil.prems(1) dents_le by (auto simp: word_less_nat_alt)
  ultimately show ?case using Nil by (simp add: entry_is_def ext2_match_zero)
next
  case (Cons x us)
  then obtain j where j: "n = Suc j" "length us < j" by (cases n) auto
  have "d < lim" using Cons.prems(1) dents_le by (auto simp: word_less_nat_alt)
  moreover have "x = d" "dents s (next_dentry d s) (us @ e # vs) lim" using Cons.prems(1) by simp_all
  ultimately show ?case using Cons j by (auto simp: entry_is_def ext2_match_zero)
qed

lemma remove_loop_absent:
  assumes "dents s d us lim" "\<forall>x\<in>set us. \<not> entry_is num name s x" "length us < n"
  shows "remove_entry_loop n name num bp lim prev d s = Ret (- ENOENT, s)"
  using assms
proof (induction us arbitrary: n d prev)
  case Nil
  then obtain j where "n = Suc j" by (cases n) auto
  then show ?case using Nil by simp
next
  case (Cons x us)
  then obtain j where j: "n = Suc j" "length us < j" by (cases n) auto
  have "d < lim" using Cons.prems(1) dents_le by (auto simp: word_less_nat_alt)
  moreover have "x = d" "dents s (next_dentry d s) us lim" using Cons.prems(1) by simp_all
  ultimately show ?case using Cons j by (simp add: entry_is_def ext2_match_zero)
qed

lemma kmem16_kbytes: "kmem16 a s = le16 (kbytes a 2 s) 0"
  by (simp add: kmem16_def le16_def byte_at_def kbytes_def upt_conv_Cons)

lemma rec_len_set [simp]: "d_rec_len d (set_rec_len d v s) = v"
  using kbytes_kwrite [of "w16 v" "d + 4" s] le16_w16 [of v "[]"]
  by (simp add: d_rec_len_def kmem16_kbytes set_rec_len_def)

lemma set_rec_len_mem:
  assumes "unat d + 8 < 4294967296" "\<not> (unat d + 4 \<le> unat x \<and> unat x < unat d + 6)"
  shows "kmem (set_rec_len d v s) x = kmem s x"
proof -
  have d4: "unat (d + 4) = unat d + 4" using unat_plus_small [of d 4] assms(1) by simp
  have "\<not> unat (x - (d + 4)) < 2"
  proof
    assume "unat (x - (d + 4)) < 2"
    moreover have "x = (d + 4) + of_nat (unat (x - (d + 4)))" by simp
    ultimately have "unat x = unat d + 4 + unat (x - (d + 4))"
      using unat_plus_small [of "d + 4" "unat (x - (d + 4))"] d4 assms(1) by simp
    with \<open>unat (x - (d + 4)) < 2\<close> assms(2) show False by simp
  qed
  then show ?thesis by (simp add: set_rec_len_def kmem_kwrite)
qed

lemma set_rec_len_fields:
  assumes "unat d + 8 + unat (d_name_len d s) < 4294967296"
  shows "d_name_len d (set_rec_len d v s) = d_name_len d s" "dent (set_rec_len d v s) d = dent s d"
proof -
  have u: "unat (d + of_nat k) = unat d + k" if "k < 8 + unat (d_name_len d s)" for k
    using that assms by (intro unat_plus_small) simp
  have k: "kmem (set_rec_len d v s) (d + of_nat k) = kmem s (d + of_nat k)" if "k < 8 + unat (d_name_len d s)" "k \<noteq> 4" "k \<noteq> 5" for k
    using that assms u [OF that(1)] by (intro set_rec_len_mem) auto
  show n: "d_name_len d (set_rec_len d v s) = d_name_len d s" using k [of 6] by (simp add: d_name_len_def)
  have "kmem (set_rec_len d v s) (d + 8 + of_nat i) = kmem s (d + 8 + of_nat i)" if "i < unat (d_name_len d s)" for i
    using k [of "8 + i"] that by (simp add: add.assoc)
  then have "entry_name d (set_rec_len d v s) = entry_name d s" using n by (simp add: entry_name_def kbytes_def)
  then show "dent (set_rec_len d v s) d = dent s d"
    using k [of 0] k [of 1] k [of 2] k [of 3] k [of 7] by (simp add: dent_def d_inode_def kmem32_def d_file_type_def)
qed

text \<open>Joining an entry to the one before it.\<close>

lemma join_entries:
  assumes d: "dents s base (us @ p # e # vs) lim" and small: "unat lim - unat base < 65536"
    and t: "t = set_rec_len p (d_rec_len p s + d_rec_len e s) s"
  shows "dents t base (us @ p # vs) lim" "map (dent t) (us @ p # vs) = map (dent s) (us @ p # vs)"
proof -
  from d obtain mid where m: "dents s base us mid" "dents s mid (p # e # vs) lim" by (auto simp: dents_append)
  let ?q = "next_dentry e s"
  from m(2) have p: "p = mid" "8 + unat (d_name_len p s) \<le> unat (d_rec_len p s)" "unat p + unat (d_rec_len p s) \<le> unat lim"
    and e: "e = next_dentry p s" "8 + unat (d_name_len e s) \<le> unat (d_rec_len e s)" "unat e + unat (d_rec_len e s) \<le> unat lim"
    and vs: "dents s ?q vs lim" by auto
  have un: "unat e = unat p + unat (d_rec_len p s)" "unat ?q = unat p + unat (d_rec_len p s) + unat (d_rec_len e s)"
    using unat_next [OF p(3)] unat_next [OF e(3)] e(1) by simp_all
  have bp: "unat base \<le> unat p" "unat ?q \<le> unat lim" using dents_le [OF m(1)] dents_le [OF vs] p(1) by simp_all
  have small': "unat (d_rec_len p s) + unat (d_rec_len e s) < 65536" using un(2) bp small by linarith
  then have sum: "unat (d_rec_len p s + d_rec_len e s) = unat (d_rec_len p s) + unat (d_rec_len e s)"
    by (simp add: unat_word_ariths)
  have lt: "unat p + 8 < 4294967296" "unat p + 8 + unat (d_name_len p s) < 4294967296"
    using p(2,3) unat_lt_2p32 [of lim] e(3) e(2) un(1) by linarith+
  note f = set_rec_len_fields [OF lt(2), of "d_rec_len p s + d_rec_len e s", folded t]
  have rl: "d_rec_len p t = d_rec_len p s + d_rec_len e s" by (simp add: t)
  have "unat p + unat (d_rec_len p t) \<le> unat ?q" using sum un rl by simp
  from unat_next [OF this] have "next_dentry p t = ?q" using rl sum un by (simp add: word_unat_eq_iff)
  then have mid: "dents t mid [p] ?q" using p f rl sum un by simp
  have out: "kmem t x = kmem s x" if "unat x < unat p \<or> unat p + 6 \<le> unat x" for x
    using that set_rec_len_mem [OF lt(1), of x] by (auto simp: t)
  have low: "same_mem s t base mid" using out p(1) by (auto simp: same_mem_def)
  have high: "same_mem s t ?q lim" using out un e(2) p(2) by (auto simp: same_mem_def)
  from dents_same [OF low m(1)] dents_same [OF high vs] mid f
  show "dents t base (us @ p # vs) lim" "map (dent t) (us @ p # vs) = map (dent s) (us @ p # vs)"
    using dents_append [of t base us "[p] @ vs" lim] dents_append [of t mid "[p]" vs lim] by auto
qed

lemma set_dwrite_entries:
  "dents (set_dwrite bp s) d xs lim = dents s d xs lim" "dent (set_dwrite bp s) = dent s" "in_use (set_dwrite bp s) = in_use s"
  "entry_name d (set_dwrite bp s) = entry_name d s"
proof -
  have h: "d_inode d (set_dwrite bp s) = d_inode d s" "d_rec_len d (set_dwrite bp s) = d_rec_len d s"
    "d_name_len d (set_dwrite bp s) = d_name_len d s" "d_file_type d (set_dwrite bp s) = d_file_type d s" for d
    by (simp_all add: d_inode_def d_rec_len_def d_name_len_def d_file_type_def kmem32_def kmem16_def)
  show "dents (set_dwrite bp s) d xs lim = dents s d xs lim" by (induction xs arbitrary: d) (simp_all add: h next_dentry_def)
  show "entry_name d (set_dwrite bp s) = entry_name d s" for d by (simp add: entry_name_def h kbytes_def)
  then show "dent (set_dwrite bp s) = dent s" by (simp add: fun_eq_iff dent_def h)
  show "in_use (set_dwrite bp s) = in_use s" by (simp add: fun_eq_iff in_use_def h)
qed

lemma dents_block: "dents s a xs (a + n) \<Longrightarrow> unat (a + n) - unat a = unat n"
  using dents_le [of s a xs "a + n"] unat_sub [of a "a + n"] by (simp add: word_le_nat_alt)

lemma remove_dir_entry_ok:
  assumes sup: "get_ext2_superblock (i_dev (inodes s ip)) s = Ret (fs, m)"
    and d: "dents s base (us @ e # vs) (base + EXT2_BLOCKSIZE m)" "base = bdata bp s" "blksize m < 65536"
    and us: "us \<noteq> []" "length us \<le> e2_fuel E" "d_inode base s \<noteq> i_num (inodes s ip)"
      "\<forall>x\<in>set us. \<not> entry_is (i_num (inodes s ip)) name s x" and e: "entry_is (i_num (inodes s ip)) name s e"
  shows "\<exists>t. ext2_remove_dir_entry E name ip bp s = Ret (0, t) \<and> dents t base (us @ vs) (base + EXT2_BLOCKSIZE m) \<and>
    map (dent t) (us @ vs) = map (dent s) (us @ vs)"
proof -
  let ?num = "i_num (inodes s ip)" and ?lim = "base + EXT2_BLOCKSIZE m"
  from us(1) obtain x ws where w: "us = x # ws" by (cases us) auto
  have x: "x = base" "dents s (next_dentry base s) (ws @ e # vs) ?lim" using d(1) w by simp_all
  let ?p = "last us" and ?ps = "butlast us"
  have eq: "us = ?ps @ [?p]" using us(1) by simp
  let ?u = "set_rec_len ?p (d_rec_len ?p s + d_rec_len e s) s"
  have "remove_entry_loop (e2_fuel E) name ?num bp ?lim base (next_dentry base s) s = Ret (0, set_dwrite bp ?u)"
    using remove_loop_found [OF x(2), of ?num name "e2_fuel E" bp base] us e w x(1) by simp
  then have r: "ext2_remove_dir_entry E name ip bp s = Ret (0, set_dwrite bp ?u)"
    using sup us(3) d(2) by (simp add: ext2_remove_dir_entry_def Let_def)
  have "dents s base (?ps @ ?p # e # vs) ?lim" using d(1) eq by (metis append.assoc append_Cons append_Nil)
  moreover have "unat ?lim - unat base < 65536" using dents_block [OF d(1)] d(3) by simp
  ultimately have "dents ?u base (?ps @ ?p # vs) ?lim" "map (dent ?u) (?ps @ ?p # vs) = map (dent s) (?ps @ ?p # vs)"
    by (rule join_entries [OF _ _ refl])+
  moreover have "?ps @ ?p # vs = us @ vs" using eq by (metis append.assoc append_Cons append_Nil)
  ultimately show ?thesis using r by (simp add: set_dwrite_entries)
qed


section \<open>Adding an entry\<close>

lemma kwrite_out:
  assumes "unat a + length bs < 4294967296" "\<not> (unat a \<le> unat x \<and> unat x < unat a + length bs)"
  shows "kmem (kwrite a bs s) x = kmem s x"
proof -
  have "\<not> unat (x - a) < length bs"
  proof
    assume l: "unat (x - a) < length bs"
    moreover have "x = a + of_nat (unat (x - a))" by simp
    ultimately have "unat x = unat a + unat (x - a)" using unat_plus_small [of a "unat (x - a)"] assms(1) by simp
    with l assms(2) show False by simp
  qed
  then show ?thesis by (simp add: kmem_kwrite)
qed

lemma kbytes_cong: "(\<And>k. k < n \<Longrightarrow> kmem t (a + of_nat k) = kmem s (a + of_nat k)) \<Longrightarrow> kbytes a n t = kbytes a n s"
  by (simp add: kbytes_def)

lemma kbytes_8:
  "d_inode d s = le32 (kbytes d 8 s) 0" "d_rec_len d s = le16 (kbytes d 8 s) 4" "d_name_len d s = kbytes d 8 s ! 6"
  "d_file_type d s = kbytes d 8 s ! 7"
  by (simp_all add: d_inode_def d_rec_len_def d_name_len_def d_file_type_def kmem32_def kmem16_def le32_def le16_def byte_at_def
      kbytes_def upt_conv_Cons add.assoc)

lemma put_dentry_fields:
  assumes "unat d + 8 + length name < 4294967296" "length name < 256" and t: "t = put_dentry d num rl ft name s"
  shows "d_rec_len d t = rl" "unat (d_name_len d t) = length name" "dent t d = (num, ft, name)"
    "\<And>x. \<not> (unat d \<le> unat x \<and> unat x < unat d + 8 + length name) \<Longrightarrow> kmem t x = kmem s x"
proof -
  let ?h = "w32 num @ w16 rl @ [of_nat (length name), ft]"
  have d8: "unat (d + 8) = unat d + 8" using unat_plus_small [of d 8] assms(1) by simp
  have n: "kmem t x = kmem (kwrite d ?h s) x" if "\<not> (unat d + 8 \<le> unat x \<and> unat x < unat d + 8 + length name)" for x
    using kwrite_out [of "d + 8" name x "kwrite d ?h s"] that assms(1) d8 by (simp add: t put_dentry_def)
  have "kmem t (d + of_nat k) = kmem (kwrite d ?h s) (d + of_nat k)" if "k < 8" for k
    using n [of "d + of_nat k"] unat_plus_small [of d k] that assms(1) by simp
  then have "kbytes d 8 t = kbytes d 8 (kwrite d ?h s)" by (rule kbytes_cong)
  then have k8: "kbytes d 8 t = ?h" using kbytes_kwrite [of ?h d s] by simp
  show "d_rec_len d t = rl" unfolding kbytes_8 k8 by simp
  show l: "unat (d_name_len d t) = length name"
    unfolding kbytes_8 k8 using assms(2) by (simp add: nth_append unat_of_nat take_bit_nat_eq_self)
  have "d_inode d t = num" "d_file_type d t = ft" unfolding kbytes_8 k8 by (simp_all add: nth_append)
  moreover have "entry_name d t = name"
    using kbytes_kwrite [of name "d + 8" "kwrite d ?h s"] assms(2) by (simp add: entry_name_def l) (simp add: t put_dentry_def)
  ultimately show "dent t d = (num, ft, name)" by (simp add: dent_def)
  show "kmem t x = kmem s x" if "\<not> (unat d \<le> unat x \<and> unat x < unat d + 8 + length name)" for x
    using n [of x] kwrite_out [of d ?h x s] that assms(1) by auto
qed

text \<open>The length to which the last entry is cut.\<close>

abbreviation cut_len :: "u32 \<Rightarrow> 'a buf_state_scheme \<Rightarrow> u16" where
  "cut_len d s \<equiv> round4 (ucast (d_name_len d s) + 8)"

lemma round4_ge:
  assumes "unat n + 4 < 65536"
  shows "unat n \<le> unat (round4 n)"
proof -
  have m: "unat (n mod 4) = unat n mod 4" by (simp add: unat_word_ariths)
  then have "n mod 4 \<le> 4" by (simp add: word_le_nat_alt)
  then have "unat (4 - n mod 4) \<le> 4" using m by (simp add: unat_sub)
  then have "unat (n + (4 - n mod 4)) = unat n + unat (4 - n mod 4)"
    using assms unat_add_lem [of n "4 - n mod 4"] by simp
  then show ?thesis by (simp add: round4_def)
qed

lemma cut_len_room: "8 + unat (d_name_len d s) \<le> unat (cut_len d s)"
proof -
  have b: "unat (d_name_len d s) < 256" using unsigned_less [of "d_name_len d s", where 'a = nat] by simp
  then have "unat (ucast (d_name_len d s) + 8 :: u16) = unat (d_name_len d s) + 8"
    by (simp add: unat_word_ariths unsigned_ucast_eq take_bit_nat_def)
  with round4_ge [of "ucast (d_name_len d s) + 8"] b show ?thesis by simp
qed

lemma split_last_entry:
  assumes d: "dents s base (us @ [p]) lim" and lim: "lim = base + of_nat bs" "bs < 65536"
    and room: "unat (cut_len p s) + 8 + length name \<le> unat (d_rec_len p s)" "length name < 256"
    and q: "q = next_dentry p (set_rec_len p (cut_len p s) s)"
    and t: "t = put_dentry q num (ucast (of_nat bs - (q - base) :: u32)) ft name (set_rec_len p (cut_len p s) s)"
  shows "dents t base (us @ [p, q]) lim" "map (dent t) (us @ [p, q]) = map (dent s) (us @ [p]) @ [(num, ft, name)]"
    "\<And>x. \<not> (unat base \<le> unat x \<and> unat x < unat lim) \<Longrightarrow> kmem t x = kmem s x"
proof -
  let ?u = "set_rec_len p (cut_len p s) s"
  from d obtain mid where m: "dents s base us mid" "dents s mid [p] lim" by (auto simp: dents_append)
  then have p: "p = mid" "unat p + unat (d_rec_len p s) \<le> unat lim" "next_dentry p s = lim" by auto
  have pl: "unat lim = unat p + unat (d_rec_len p s)" using unat_next [OF p(2)] p(3) by simp
  have bp: "unat base \<le> unat p" using dents_le [OF m(1)] p(1) by simp
  have lb: "unat lim < 4294967296" by (rule unat_lt_2p32)
  have bs: "unat (of_nat bs :: u32) = bs" using lim(2) by (intro unat_of_nat_u32) simp
  have db: "unat lim - unat base = bs" using dents_block [of s base "us @ [p]" "of_nat bs"] d lim bs by simp
  have lt: "unat p + 8 < 4294967296" "unat p + 8 + unat (d_name_len p s) < 4294967296"
    using room(1) cut_len_room [of p s] pl lb by linarith+
  note fu = set_rec_len_fields [OF lt(2), of "cut_len p s"] rec_len_set [of p "cut_len p s" s]
  have "unat p + unat (d_rec_len p ?u) \<le> unat lim" using fu(3) room(1) pl by simp
  from unat_next [OF this] have qn: "unat q = unat p + unat (cut_len p s)" by (simp add: q)
  have ql: "unat q + 8 + length name \<le> unat lim" using qn pl room(1) by simp
  have qb: "unat (q - base) = unat q - unat base" using bp qn by (intro unat_sub) (simp add: word_le_nat_alt)
  have "q - base \<le> of_nat bs" using qb bs db ql by (simp add: word_le_nat_alt)
  then have "unat (of_nat bs - (q - base)) = unat lim - unat q" using qb bs db ql bp qn by (simp add: unat_sub)
  then have rl: "unat (ucast (of_nat bs - (q - base)) :: u16) = unat lim - unat q"
    using ql db lim(2) bp qn by (simp add: unsigned_ucast_eq take_bit_nat_eq_self)
  have lt3: "unat q + 8 + length name < 4294967296" using ql lb by simp
  note fq = put_dentry_fields [OF lt3 room(2) t]
  have "unat q + unat (d_rec_len q t) = unat lim" using fq(1) rl ql by simp
  moreover from this have "next_dentry q t = lim" using unat_next [of q t lim] by (simp add: word_unat_eq_iff)
  ultimately have dq: "dents t q [q] lim" using fq(2) ql by simp
  have low: "same_mem ?u t base q" using fq(4) by (auto simp: same_mem_def)
  have lo2: "same_mem s ?u base mid" using set_rec_len_mem [OF lt(1), where v = "cut_len p s" and s = s] p(1) by (auto simp: same_mem_def)
  from dents_same [OF lo2 m(1)] have "dents ?u base us mid" "map (dent ?u) us = map (dent s) us" .
  moreover have "dents ?u mid [p] q" using p(1) fu qn cut_len_room [of p s] by (simp add: q)
  ultimately have "dents ?u base (us @ [p]) q" "map (dent ?u) (us @ [p]) = map (dent s) (us @ [p])"
    using fu(2) by (auto simp: dents_append)
  from dents_same [OF low this(1)] this(2) dq fq(3)
  show "dents t base (us @ [p, q]) lim" "map (dent t) (us @ [p, q]) = map (dent s) (us @ [p]) @ [(num, ft, name)]"
    using dents_append [of t base "us @ [p]" "[q]" lim] by auto
  show "kmem t x = kmem s x" if "\<not> (unat base \<le> unat x \<and> unat x < unat lim)" for x
    using fq(4) [of x] set_rec_len_mem [OF lt(1), of x] that ql qn bp pl cut_len_room [of p s] by auto
qed

lemma entries_kmem:
  assumes "kmem t = kmem s"
  shows "dents t d xs lim = dents s d xs lim" "dent t = dent s"
proof -
  have h: "d_inode d t = d_inode d s" "d_rec_len d t = d_rec_len d s" "d_name_len d t = d_name_len d s" "d_file_type d t = d_file_type d s" for d
    by (simp_all add: d_inode_def d_rec_len_def d_name_len_def d_file_type_def kmem32_def kmem16_def assms)
  show "dents t d xs lim = dents s d xs lim" by (induction xs arbitrary: d) (simp_all add: h next_dentry_def)
  have "entry_name d t = entry_name d s" for d by (simp add: entry_name_def h kbytes_def assms)
  then show "dent t = dent s" by (simp add: fun_eq_iff dent_def h)
qed

lemma entry_writes_simps [simp]:
  "inodes (set_rec_len d v s) = inodes s" "bdata j (set_rec_len d v s) = bdata j s"
  "inodes (put_dentry d num rl ft name s) = inodes s" "bdata j (put_dentry d num rl ft name s) = bdata j s"
  for s :: "'b ext2_state_scheme"
  by (simp_all add: set_rec_len_def put_dentry_def)

lemma touch_simps [simp]:
  "kmem (touch_mtime ip s) = kmem s" "kmem (set_i_modified ip s) = kmem s" "bdata j (touch_mtime ip s) = bdata j s"
  "bdata j (set_i_modified ip s) = bdata j s"
  by (simp_all add: touch_mtime_def set_i_modified_def upd_i_def)

lemma add_in_last_ok:
  assumes h: "blk_held E s bp dev blk" and d: "dents s base (us @ [p]) (base + EXT2_BLOCKSIZE m)" "base = bdata bp s" "blksize m < 65536"
    and room: "unat (cut_len p s) + 8 + length name \<le> unat (d_rec_len p s)" "length name < 256"
  shows "\<exists>t q. add_in_last E dir ip name m bp p s = Ret ((0, Some bp), t) \<and> dents t base (us @ [p, q]) (base + EXT2_BLOCKSIZE m) \<and>
    map (dent t) (us @ [p, q]) = map (dent s) (us @ [p]) @ [(i_num (inodes s ip), dentry_file_type (i_mode (ino s ip)), name)] \<and>
    (\<forall>x. \<not> (unat base \<le> unat x \<and> unat x < unat (base + EXT2_BLOCKSIZE m)) \<longrightarrow> kmem t x = kmem s x) \<and>
    \<not> m_lock (b_mutex (buffers t bp)) \<and> current_process t = current_process s"
proof -
  let ?u = "set_rec_len p (cut_len p s) s"
  let ?q = "next_dentry p ?u"
  let ?v = "put_dentry ?q (i_num (inodes s ip)) (ucast (EXT2_BLOCKSIZE m - (?q - base))) (dentry_file_type (i_mode (ino s ip))) name ?u"
  have "blk_held E (set_dwrite bp ?v) bp dev blk" unfolding put_dentry_def set_rec_len_def by (intro blk_steps h)
  from blk.release_held [OF this] obtain w where
    w: "e2_brelse E bp (set_dwrite bp ?v) = Ret w" "buf_frame (set_dwrite bp ?v) w" "blk_ready E w bp dev blk" by blast
  note f = buf_frame_fields [OF w(2)]
  let ?t = "set_i_modified ip (touch_mtime dir w)"
  have r: "add_in_last E dir ip name m bp p s = Ret ((0, Some bp), ?t)" using w(1) d(2) by (simp add: add_in_last_def Let_def)
  have k: "kmem ?t = kmem ?v" using f by simp
  have unlocked: "\<not> m_lock (b_mutex (buffers ?t bp))" "current_process ?t = current_process s"
    using w(3) f(4) by (auto simp: set_i_modified_def touch_mtime_def upd_i_def upd_ino_def blk_ready_def blk_holds_def
        put_dentry_def set_rec_len_def kwrite_def)
  have b: "EXT2_BLOCKSIZE m = of_nat (blksize m)" by simp
  note s = split_last_entry [OF d(1) _ d(3) room refl refl, where num = "i_num (inodes s ip)" and ft = "dentry_file_type (i_mode (ino s ip))"]
  have "dents ?v base (us @ [p, ?q]) (base + EXT2_BLOCKSIZE m)"
    "map (dent ?v) (us @ [p, ?q]) = map (dent s) (us @ [p]) @ [(i_num (inodes s ip), dentry_file_type (i_mode (ino s ip)), name)]"
    "\<And>x. \<not> (unat base \<le> unat x \<and> unat x < unat (base + EXT2_BLOCKSIZE m)) \<Longrightarrow> kmem ?v x = kmem s x"
    using s by simp_all
  with r k unlocked show ?thesis by (intro exI [of _ ?t] exI [of _ ?q]) (simp add: entries_kmem [OF k])
qed

lemma needed_len_le:
  assumes "length name < 256"
  shows "unat (needed_len (length name)) \<le> 12 + length name"
proof -
  let ?l = "of_nat (length name) :: u16"
  have l: "unat ?l = length name" using assms by (simp add: unat_of_nat take_bit_nat_eq_self)
  then have r: "unat (8 + ?l) = 8 + length name" using assms by (simp add: unat_word_ariths)
  have m: "unat (?l mod 4) = length name mod 4" using l by (simp add: unat_word_ariths)
  then have "?l mod 4 \<le> 4" by (simp add: word_le_nat_alt)
  then have "unat (4 - ?l mod 4) \<le> 4" using m by (simp add: unat_sub)
  moreover from this have "unat ((8 + ?l) + (4 - ?l mod 4)) = unat (8 + ?l) + unat (4 - ?l mod 4)"
    using unat_add_lem [of "8 + ?l" "4 - ?l mod 4"] r assms by simp
  ultimately show ?thesis using r unfolding needed_len_def Let_def by (simp only: split: if_split) linarith
qed

lemma add_entry_loop_last:
  assumes "dents s d (us @ [p]) (bdata bp s + EXT2_BLOCKSIZE m)" "length us < n" "d_rec_len p s \<ge> needed_len (length name)"
  shows "add_entry_loop n E dir ip name m off bp d s = add_in_last E dir ip name m bp p s"
  using assms
proof (induction us arbitrary: n d off)
  case Nil
  then obtain j where "n = Suc j" by (cases n) auto
  moreover have "d < bdata bp s + EXT2_BLOCKSIZE m" using Nil.prems(1) by (auto simp: word_less_nat_alt)
  ultimately show ?case using Nil by (auto simp: not_le)
next
  case (Cons x us)
  then obtain j where j: "n = Suc j" "length us < j" by (cases n) auto
  let ?lim = "bdata bp s + EXT2_BLOCKSIZE m"
  have x: "x = d" "dents s (next_dentry d s) (us @ [p]) ?lim" "d < ?lim" using Cons.prems(1) by (auto simp: word_less_nat_alt)
  then have "next_dentry d s < ?lim" using dents_le by (cases us) (fastforce simp: word_less_nat_alt)+
  then have "\<not> ?lim \<le> d" "\<not> ?lim \<le> next_dentry d s" using x(3) by simp_all
  then show ?case using Cons.IH [OF x(2) j(2) Cons.prems(3)] by (simp add: j(1))
qed

lemma create_block_first:
  assumes "get_ext2_superblock (i_dev (inodes s dir)) s = Ret (fs, m)" "i_block (ino s dir) ! 0 \<noteq> 0"
  shows "ext2_create_block E dir 0 s = Ret (i_block (ino s dir) ! 0, s)"
  using assms by (simp add: ext2_create_block_def bmap_create_def bmap_slot_def Let_def c_div_def)

lemma brelse_unlocked: "\<not> m_lock (b_mutex (buffers s bp)) \<Longrightarrow> e2_brelse E bp s = Ret s"
  by (simp add: e2_brelse_def brelse_def stays_def)

text \<open>
  C24. Adding a name to a directory whose first block has room appends it to the block's list of entries: the call succeeds,
  the last entry is cut to its own length and the new one, with the inode's number and type and the name, takes the rest of
  the block; the other entries keep their numbers, types and names, memory outside the block is not touched, and the block
  is given back. The room needed is for the new entry and for what the last one keeps.
\<close>

theorem add_dir_entry_appends:
  assumes sup: "get_ext2_superblock (i_dev (inodes s dir)) s = Ret (fs, m)"
    and r: "blk_ready E s bp (i_dev (inodes s dir)) (i_block (ino s dir) ! 0)" "i_block (ino s dir) ! 0 \<noteq> 0"
    and d: "dents s (bdata bp s) (us @ [p]) (bdata bp s + EXT2_BLOCKSIZE m)" "blksize m < 65536" "length us < e2_fuel E"
    and used: "d_inode (bdata bp s) s \<noteq> 0" "i_size (ino s dir) \<noteq> 0"
    and room: "unat (cut_len p s) + 8 + length name \<le> unat (d_rec_len p s)" "name \<noteq> []" "length name < 256"
  shows "\<exists>t q. ext2_add_dir_entry E dir ip name s = Ret (0, t) \<and> dents t (bdata bp s) (us @ [p, q]) (bdata bp s + EXT2_BLOCKSIZE m) \<and>
    map (dent t) (us @ [p, q]) = map (dent s) (us @ [p]) @ [(i_num (inodes s ip), dentry_file_type (i_mode (ino s ip)), name)] \<and>
    (\<forall>x. \<not> (unat (bdata bp s) \<le> unat x \<and> unat x < unat (bdata bp s + EXT2_BLOCKSIZE m)) \<longrightarrow> kmem t x = kmem s x) \<and>
    \<not> m_lock (b_mutex (buffers t bp))"
proof -
  let ?dev = "i_dev (inodes s dir)" and ?b = "i_block (ino s dir) ! 0"
  from bread_ready [OF r(1)] obtain v where v: "e2_bread E ?dev ?b s = Ret (Some bp, v)" "buf_frame s v" "blk_held E v bp ?dev ?b" by blast
  note f = buf_frame_fields [OF v(2)] buf_frame_accessors [OF v(2)]
  note e = entries_kmem [OF f(1)]
  have h: "d_inode x v = d_inode x s" "d_rec_len x v = d_rec_len x s" "d_name_len x v = d_name_len x s" for x
    using f(1) by (simp_all add: d_inode_def d_rec_len_def d_name_len_def kmem32_def kmem16_def)
  have "unat (needed_len (length name)) \<le> unat (d_rec_len p s)"
    using needed_len_le [OF room(3)] room(1) cut_len_room [of p s] by linarith
  then have loop: "add_entry_loop (e2_fuel E) E dir ip name m 0 bp (bdata bp s) v = add_in_last E dir ip name m bp p v"
    using add_entry_loop_last [of v "bdata bp s" us p bp m "e2_fuel E" name E dir ip 0] d f(2) e(1) h
    by (simp add: word_le_nat_alt)
  have pv: "dents v (bdata bp s) (us @ [p]) (bdata bp s + EXT2_BLOCKSIZE m)" "bdata bp s = bdata bp v"
    "unat (cut_len p v) + 8 + length name \<le> unat (d_rec_len p v)" using d(1) room(1) e f(2) h by simp_all
  from add_in_last_ok [OF v(3) pv(1,2) d(2) pv(3) room(3), of dir ip, unfolded e(2) f(1,11)] obtain t q where
    t: "add_in_last E dir ip name m bp p v = Ret ((0, Some bp), t)" "dents t (bdata bp s) (us @ [p, q]) (bdata bp s + EXT2_BLOCKSIZE m)"
      "map (dent t) (us @ [p, q]) = map (dent s) (us @ [p]) @ [(i_num (inodes s ip), dentry_file_type (i_mode (ino s ip)), name)]"
      "\<forall>x. \<not> (unat (bdata bp s) \<le> unat x \<and> unat x < unat (bdata bp s + EXT2_BLOCKSIZE m)) \<longrightarrow> kmem t x = kmem s x"
      "\<not> m_lock (b_mutex (buffers t bp))" by blast
  have "ext2_add_dir_entry E dir ip name s = Ret (0, t)"
    using create_block_first [OF sup r(2)] r(2) v(1) sup f loop t(1) used h room(2,3) brelse_unlocked [OF t(5)]
    by (simp add: ext2_add_dir_entry_def Let_def del: add_entry_loop.simps)
  with t show ?thesis by blast
qed

section \<open>A directory of three entries\<close>

definition demo_dir :: "u8 list" where
  "demo_dir = w32 2 @ w16 12 @ [1, 2, 0x2E, 0, 0, 0] @ w32 2 @ w16 12 @ [2, 2, 0x2E, 0x2E, 0, 0] @ w32 3 @ w16 1000 @ [1, 1, 0x61, 0, 0, 0]"

definition dir_mem :: "u32 \<Rightarrow> u8" where
  "dir_mem x = (let i = unat (x - 0x5000) in if i < length demo_dir then demo_dir ! i else 0)"

abbreviation demo_dir_fs :: ext2_state where "demo_dir_fs \<equiv> demo_fs dir_mem"

lemma demo_dir_bytes:
  "d_rec_len 0x5000 demo_dir_fs = 12" "d_rec_len 0x500C demo_dir_fs = 12" "d_rec_len 0x5018 demo_dir_fs = 1000"
  "d_name_len 0x5000 demo_dir_fs = 1" "d_name_len 0x500C demo_dir_fs = 2" "d_name_len 0x5018 demo_dir_fs = 1"
  "d_inode 0x5000 demo_dir_fs = 2" "d_inode 0x500C demo_dir_fs = 2" "d_inode 0x5018 demo_dir_fs = 3" "d_inode 0x5400 demo_dir_fs = 0"
  "d_file_type 0x500C demo_dir_fs = 2" "d_file_type 0x5018 demo_dir_fs = 1"
  by (simp_all add: d_rec_len_def d_name_len_def d_inode_def d_file_type_def kmem16_def kmem32_def demo_fs_def dir_mem_def Let_def
      demo_dir_def w32_def w16_def)

lemma demo_dir_names:
  "entry_name 0x5000 demo_dir_fs = [0x2E]" "entry_name 0x500C demo_dir_fs = [0x2E, 0x2E]" "entry_name 0x5018 demo_dir_fs = [0x61]"
proof -
  have "kmem demo_dir_fs = dir_mem" by (simp add: demo_fs_def)
  moreover have "dir_mem 0x5008 = 0x2E" "dir_mem 0x5014 = 0x2E" "dir_mem 0x5015 = 0x2E" "dir_mem 0x5020 = 0x61"
    by (simp_all add: dir_mem_def Let_def demo_dir_def w32_def w16_def)
  ultimately show "entry_name 0x5000 demo_dir_fs = [0x2E]" "entry_name 0x500C demo_dir_fs = [0x2E, 0x2E]" "entry_name 0x5018 demo_dir_fs = [0x61]"
    by (simp_all add: entry_name_def demo_dir_bytes kbytes_def upt_conv_Cons)
qed

lemma demo_dir_entries: "dents demo_dir_fs 0x5000 [0x5000, 0x500C, 0x5018] 0x5400"
  by (simp add: next_dentry_def demo_dir_bytes)

theorem find_dentry_is_lookup_witness: "find_dentry 4 [0x61] 0x5000 1024 0x5000 demo_dir_fs = Ret (Inl 0x5018)"
  using find_dentry_is_lookup [of demo_dir_fs "0x5000" "[0x5000, 0x500C, 0x5018]" 1024 4 "[0x61]"] demo_dir_entries
  by (simp add: in_use_def demo_dir_bytes lookup_spec_def demo_dir_names del: dents.simps find_dentry.simps)


theorem add_dir_entry_appends_witness:
  "\<exists>t q. ext2_add_dir_entry demo_e2 5 6 [0x62] demo_dir_fs = Ret (0, t) \<and> dents t 0x5000 [0x5000, 0x500C, 0x5018, q] 0x5400 \<and>
    dent t q = (3, 1, [0x62])"
proof -
  have c: "inodes demo_dir_fs = (\<lambda>_. demo_cell)" "i_dev demo_cell = 0x301" "i_num demo_cell = 3" "e2_fuel demo_e2 = 128"
    "i_block (i_ino demo_cell) ! 0 = 7" "i_size (i_ino demo_cell) = 1024" "dentry_file_type (i_mode (i_ino demo_cell)) = 1"
    by (simp_all add: demo_fs_def demo_cell_def demo_e2_def demo_inode_def dentry_file_type_def)
  have "unat (cut_len 0x5018 demo_dir_fs) = 12" by (simp add: demo_dir_bytes round4_def)
  then show ?thesis
    using add_dir_entry_appends [of demo_dir_fs 5 0 demo_super demo_e2 0 "[0x5000, 0x500C]" "0x5018" "[0x62]" 6] demo_dir_entries
      demo_ready [of dir_mem]
    by (auto simp: c demo_super_of demo_bitmap demo_dir_bytes simp del: dents.simps)
qed

end
