(* ===== verification/Ext2_File_Props.thy ===== *)
theory Ext2_File_Props
  imports Ext2_Dir_Props
begin

text \<open>
  Reading files: the blocks of an offset, reading from the direct blocks of a file, and what a hole and the blocks beyond
  the direct ones give.
\<close>

section \<open>Arithmetic\<close>

lemma off32_small: "0 \<le> x \<Longrightarrow> x < 2 ^ 31 \<Longrightarrow> off32 x = x"
  by (simp add: off32_def signed_of_int signed_take_bit_int_eq_self)

lemma cp_to_user_append: "cp_to_user p (xs @ ys) u = cp_to_user (p + of_nat (length xs)) ys (cp_to_user p xs u)"
  by (induction xs arbitrary: p u) (simp_all add: add.assoc)

section \<open>Steps that only read\<close>

definition quiet :: "'a ext2_state_scheme e2_env \<Rightarrow> 'a ext2_state_scheme \<Rightarrow> 'a ext2_state_scheme \<Rightarrow> bool" where
  "quiet E s t \<longleftrightarrow> (\<exists>u. buf_frame (s\<lparr>user_spaces := u\<rparr>) t) \<and> (\<forall>j d b. blk_ready E s j d b \<longrightarrow> blk_ready E t j d b)"

lemma quiet_refl: "quiet E s s"
  by (auto simp: quiet_def intro: exI [of _ "user_spaces s"])

lemma quiet_trans:
  assumes "quiet E s t" "quiet E t u"
  shows "quiet E s u"
proof -
  from assms obtain a f where t: "t = s\<lparr>user_spaces := a, buffers := f\<rparr>"
    "\<And>j. b_data (f j) = b_data (buffers s j) \<and> b_flags (f j) = b_flags (buffers s j)" by (auto simp: quiet_def buf_frame_def)
  from assms obtain b g where u: "u = t\<lparr>user_spaces := b, buffers := g\<rparr>"
    "\<And>j. b_data (g j) = b_data (buffers t j) \<and> b_flags (g j) = b_flags (buffers t j)" by (auto simp: quiet_def buf_frame_def)
  have "buf_frame (s\<lparr>user_spaces := b\<rparr>) u"
    unfolding buf_frame_def using t u by (intro exI [of _ g]) simp
  then show ?thesis using assms unfolding quiet_def by blast
qed

lemma quiet_fields:
  assumes "quiet E s t"
  shows "kmem t = kmem s" "inodes t = inodes s" "bdata j t = bdata j s" "current_process t = current_process s"
    "get_ext2_superblock dev t = get_ext2_superblock dev s" "no_sleepers t = no_sleepers s" "CURRENT_TIME t = CURRENT_TIME s"
    "kbytes a n t = kbytes a n s" "blk_ready E s i dev blk \<Longrightarrow> blk_ready E t i dev blk" "file_table t = file_table s" "f_super t = f_super s"
proof -
  from assms obtain u where f: "buf_frame (s\<lparr>user_spaces := u\<rparr>) t" by (auto simp: quiet_def)
  note g = buf_frame_fields [OF f] buf_frame_accessors [OF f]
  show "kmem t = kmem s" "inodes t = inodes s" "bdata j t = bdata j s" "current_process t = current_process s"
    "file_table t = file_table s" "f_super t = f_super s" using g by (simp_all add: bdata_def)
  show "get_ext2_superblock dev t = get_ext2_superblock dev s" "no_sleepers t = no_sleepers s" "CURRENT_TIME t = CURRENT_TIME s"
    "kbytes a n t = kbytes a n s"
    using g by (simp_all add: get_ext2_superblock_def find_filesystem_def no_sleepers_def CURRENT_TIME_def kbytes_def cong: option.case_cong)
  show "blk_ready E s i dev blk \<Longrightarrow> blk_ready E t i dev blk" using assms by (simp add: quiet_def)
qed

lemma space_keeps:
  "blk_ready E s j d b \<Longrightarrow> blk_ready E (upd_space g s) j d b" "blk_held E s j d b \<Longrightarrow> blk_held E (upd_space g s) j d b"
proof -
  have "blk_holds E (upd_space g s) j d b" if "blk_holds E s j d b"
    using that by (intro blk_holds_cong [OF that]) (auto simp: upd_space_def blk_holds_def)
  then show "blk_ready E s j d b \<Longrightarrow> blk_ready E (upd_space g s) j d b" "blk_held E s j d b \<Longrightarrow> blk_held E (upd_space g s) j d b"
    by (auto simp: blk_ready_def blk_held_def upd_space_def)
qed

lemma read_step:
  assumes r: "blk_ready E s i dev blk"
  shows "\<exists>v w. e2_bread E dev blk s = Ret (Some i, v) \<and> kmem v = kmem s \<and> bdata i v = bdata i s \<and> inodes v = inodes s \<and>
    e2_brelse E i (upd_space g v) = Ret w \<and> quiet E s w \<and> user_spaces w = (user_spaces s)(current_process s := g (cur_space s))"
proof -
  from bread_ready [OF r] obtain v where v: "e2_bread E dev blk s = Ret (Some i, v)" "buf_frame s v" "blk_held E v i dev blk" by blast
  then have get: "e2_block E dev blk s = Ret (i, v)" by (simp add: e2_block_def)
  note f = buf_frame_fields [OF v(2)]
  note h = space_keeps(2) [OF v(3), of g]
  from blk.release_held [OF h] obtain w where w: "e2_brelse E i (upd_space g v) = Ret w" "buf_frame (upd_space g v) w" by blast
  note fw = buf_frame_fields [OF w(2)]
  have u: "user_spaces w = (user_spaces s)(current_process s := g (cur_space s))" using fw(6) f(4,6) by (simp add: upd_space_def)
  have "buf_frame (s\<lparr>user_spaces := (user_spaces v)(current_process v := g (cur_space v))\<rparr>) w"
    using v(2) w(2) by (auto simp: buf_frame_def upd_space_def)
  moreover have "blk_ready E w j d b" if "blk_ready E s j d b" for j d b
    using blk.borrow_others [OF r get h w(1) space_keeps(1) that] by blast
  ultimately have "quiet E s w" by (auto simp: quiet_def)
  with v(1) w(1) u f show ?thesis by (intro exI [of _ v] exI [of _ w]) simp
qed

section \<open>The block of an offset\<close>

abbreviation bs_ok :: "ext2_superblock_m \<Rightarrow> bool" where
  "bs_ok m \<equiv> 0 < blksize m \<and> blksize m < 2147483648"

lemma bsize: "bs_ok m \<Longrightarrow> sint (EXT2_BLOCKSIZE m) = int (blksize m)"
  by (rule sint_small) simp

lemma lblk_of:
  assumes "bs_ok m" "q < 2147483648"
  shows "unat (word_of_int (c_div (int q) (sint (EXT2_BLOCKSIZE m))) :: u32) = q div blksize m"
proof -
  have p: "0 < int (blksize m)" using assms(1) by linarith
  have "c_div (int q) (sint (EXT2_BLOCKSIZE m)) = int (q div blksize m)"
    unfolding bsize [OF assms(1)] zdiv_int by (rule c_div_nonneg [OF of_nat_0_le_iff p])
  moreover have "q div blksize m < 4294967296" using assms(2) div_le_dividend [of q "blksize m"] by linarith
  ultimately show ?thesis using unat_of_nat_u32 [of "q div blksize m"] by simp
qed

lemma bmap_direct:
  assumes "get_ext2_superblock (i_dev (inodes s ip)) s = Ret (fs, m)" "bs_ok m" "q < 2147483648" "q div blksize m \<le> 11"
  shows "ext2_bmap E ip (int q) s = Ret (i_block (ino s ip) ! (q div blksize m), s)"
proof -
  let ?l = "word_of_int (c_div (int q) (sint (EXT2_BLOCKSIZE m))) :: u32"
  have l: "unat ?l = q div blksize m" using assms(2,3) by (rule lblk_of)
  then have "?l \<le> 11" using assms(4) by (simp add: word_le_nat_alt)
  then show ?thesis using assms(1) l by (simp add: ext2_bmap_def bmap_create_def bmap_slot_def Let_def)
qed

section \<open>Reading direct blocks\<close>

text \<open>The bytes of a file whose direct blocks are in the buffers \<open>bufs\<close>.\<close>

definition file_byte :: "(nat \<Rightarrow> nat) \<Rightarrow> ext2_superblock_m \<Rightarrow> 'a buf_state_scheme \<Rightarrow> nat \<Rightarrow> u8" where
  "file_byte bufs m s k = kmem s (bdata (bufs (k div blksize m)) s + of_nat (k mod blksize m))"

definition cached_file :: "'a ext2_state_scheme e2_env \<Rightarrow> nat \<Rightarrow> ext2_superblock_m \<Rightarrow> (nat \<Rightarrow> nat) \<Rightarrow> nat \<Rightarrow> nat \<Rightarrow> 'a ext2_state_scheme \<Rightarrow> bool" where
  "cached_file E ip m bufs q e s \<longleftrightarrow> (\<forall>k. q \<le> k \<and> k < e \<longrightarrow> k div blksize m \<le> 11 \<and> i_block (ino s ip) ! (k div blksize m) \<noteq> 0 \<and>
     blk_ready E s (bufs (k div blksize m)) (i_dev (inodes s ip)) (i_block (ino s ip) ! (k div blksize m)))"

lemma add_in_block:
  fixes q b k :: nat
  assumes "q mod b + k < b"
  shows "(q + k) div b = q div b" "(q + k) mod b = q mod b + k"
proof -
  have e: "q + k = (q mod b + k) + q div b * b" by simp
  have "b \<noteq> 0" using assms by auto
  then have "((q mod b + k) + q div b * b) div b = q div b + (q mod b + k) div b" by (rule div_mult_self1)
  also have "\<dots> = q div b" using assms by (simp only: div_less)
  finally show "(q + k) div b = q div b" by (simp only: e)
  have "((q mod b + k) + q div b * b) mod b = (q mod b + k) mod b" by (rule mod_mult_self1)
  also have "\<dots> = q mod b + k" using assms by (simp only: mod_less)
  finally show "(q + k) mod b = q mod b + k" by (simp only: e)
qed

lemma chunk_bytes:
  assumes "q mod blksize m + n \<le> blksize m"
  shows "kbytes (bdata (bufs (q div blksize m)) s + of_nat (q mod blksize m)) n s = map (file_byte bufs m s) [q..<q + n]"
proof (rule nth_equalityI)
  fix k
  assume "k < length (kbytes (bdata (bufs (q div blksize m)) s + of_nat (q mod blksize m)) n s)"
  then have k: "k < n" by (simp add: kbytes_def)
  then have "(q + k) div blksize m = q div blksize m" "(q + k) mod blksize m = q mod blksize m + k"
    using add_in_block [of q "blksize m" k] assms by simp_all
  then show "kbytes (bdata (bufs (q div blksize m)) s + of_nat (q mod blksize m)) n s ! k = map (file_byte bufs m s) [q..<q + n] ! k"
    using k by (simp add: kbytes_def file_byte_def add.assoc)
qed (simp add: kbytes_def)

lemma file_byte_quiet: "quiet E s t \<Longrightarrow> file_byte bufs m t = file_byte bufs m s"
  using quiet_fields(1,3) [of E s t] by (simp add: file_byte_def fun_eq_iff)

lemma cached_file_quiet: "quiet E s t \<Longrightarrow> cached_file E ip m bufs q e s \<Longrightarrow> cached_file E ip m bufs q e t"
  using quiet_fields(2,9) [of E s t] by (simp add: cached_file_def)

lemma read_loop_step:
  assumes sup: "get_ext2_superblock (i_dev (inodes s ip)) s = Ret (fs, m)" and bs: "bs_ok m"
    and c: "cached_file E ip m bufs q (q + c) s" "0 < c" "q + c < 2147483648"
    and n: "n = (if blksize m - q mod blksize m < c then blksize m - q mod blksize m else c)"
  shows "\<exists>w. file_read_loop (Suc j) E ip m p (int c) (int q) bp s =
      file_read_loop j E ip m (p + of_nat n) (int (c - n)) (int (q + n)) None w \<and> quiet E s w \<and>
    user_spaces w = (user_spaces s)(current_process s := cp_to_user p (map (file_byte bufs m s) [q..<q + n]) (cur_space s))"
proof -
  let ?k = "q div blksize m" and ?o = "q mod blksize m"
  let ?b = "i_block (ino s ip) ! ?k" and ?i = "bufs ?k"
  have k: "?k \<le> 11" "?b \<noteq> 0" "blk_ready E s ?i (i_dev (inodes s ip)) ?b" using c by (auto simp: cached_file_def)
  have ob: "?o < blksize m" using bs by simp
  have n2: "n \<le> c" "0 < n" "?o + n \<le> blksize m" using n c(2) ob by auto
  have off: "c_mod (int q) (sint (EXT2_BLOCKSIZE m)) = int ?o"
    using bs c_mod_nonneg [of "int q" "int (blksize m)"] unfolding bsize [OF bs] zmod_int by linarith
  have nr: "chunk (sint (EXT2_BLOCKSIZE m)) (int ?o) (int c) = int n"
  proof -
    have "int (blksize m) - int ?o = int (blksize m - ?o)" using ob by (simp only: of_nat_diff less_imp_le)
    then show ?thesis unfolding chunk_def bsize [OF bs] n
      by (cases "blksize m - ?o < c") (simp_all only: of_nat_less_iff if_True if_False)
  qed
  let ?B = "map (file_byte bufs m s) [q..<q + n]"
  from read_step [OF k(3), of "cp_to_user p ?B"] obtain v w where
    v: "e2_bread E (i_dev (inodes s ip)) ?b s = Ret (Some ?i, v)" "kmem v = kmem s" "bdata ?i v = bdata ?i s" "inodes v = inodes s"
      "e2_brelse E ?i (upd_space (cp_to_user p ?B) v) = Ret w" "quiet E s w"
      "user_spaces w = (user_spaces s)(current_process s := cp_to_user p ?B (cur_space s))" by blast
  have bytes: "kbytes (bdata ?i v + word_of_int (int ?o)) (nat (int n)) v = ?B"
    using chunk_bytes [OF n2(3), of bufs s] v(2,3) by (simp add: kbytes_def)
  have pos: "off32 (int q + int n) = int (q + n)" using n2(1) c(3) by (subst off32_small) simp_all
  have "q < 2147483648" using c(3) by simp
  note bm = bmap_direct [OF sup bs this k(1), of E]
  have "file_read_loop (Suc j) E ip m p (int c) (int q) bp s =
      file_read_loop j E ip m (p + of_nat n) (int (c - n)) (int (q + n)) None w"
    using c(2) k(2) n2(1) by (simp only: file_read_loop.simps bm v(1,5) bindk.simps prod.case option.case Let_def off nr bytes pos) (simp add: of_nat_diff)
  with v(6,7) show ?thesis by blast
qed

lemma read_loop_all:
  assumes "get_ext2_superblock (i_dev (inodes s ip)) s = Ret (fs, m)" "bs_ok m"
    and "cached_file E ip m bufs q (q + c) s" "q + c < 2147483648" "c < j"
  shows "\<exists>w. file_read_loop j E ip m p (int c) (int q) bp s = Ret ((0, 0, int (q + c), if c = 0 then bp else None), w) \<and> quiet E s w \<and>
    user_spaces w = (user_spaces s)(current_process s := cp_to_user p (map (file_byte bufs m s) [q..<q + c]) (cur_space s))"
  using assms(1,3-5)
proof (induction c arbitrary: j p q bp s rule: less_induct)
  case (less c)
  from less.prems(4) obtain i where j: "j = Suc i" by (cases j) auto
  show ?case
  proof (cases "c = 0")
    case True
    then show ?thesis by (auto simp: j quiet_refl)
  next
    case False
    let ?n = "if blksize m - q mod blksize m < c then blksize m - q mod blksize m else c"
    obtain n where n: "n = ?n" by blast
    have n0: "0 < n" "n \<le> c" using False n assms(2) mod_less_divisor [of "blksize m" q] by auto
    from read_loop_step [OF less.prems(1) assms(2) less.prems(2) _ less.prems(3) n, of i p bp] False obtain v where
      v: "file_read_loop j E ip m p (int c) (int q) bp s = file_read_loop i E ip m (p + of_nat n) (int (c - n)) (int (q + n)) None v"
        "quiet E s v" "user_spaces v = (user_spaces s)(current_process s := cp_to_user p (map (file_byte bufs m s) [q..<q + n]) (cur_space s))"
      unfolding j by blast
    note f = quiet_fields [OF v(2)]
    have "cached_file E ip m bufs (q + n) (q + n + (c - n)) v"
      using cached_file_quiet [OF v(2) less.prems(2)] n0 by (auto simp: cached_file_def)
    moreover have "get_ext2_superblock (i_dev (inodes v ip)) v = Ret (fs, m)" using less.prems(1) f by simp
    ultimately obtain w where
      w: "file_read_loop i E ip m (p + of_nat n) (int (c - n)) (int (q + n)) None v = Ret ((0, 0, int (q + n + (c - n)), None), w)"
        "quiet E v w" "user_spaces w = (user_spaces v)(current_process v :=
          cp_to_user (p + of_nat n) (map (file_byte bufs m v) [q + n..<q + n + (c - n)]) (cur_space v))"
      using less.IH [of "c - n" v "q + n" i "p + of_nat n" None] n0 less.prems(3,4) j by fastforce
    have "[q..<q + c] = [q..<q + n] @ [q + n..<q + c]" using n0 upt_add_eq_append [of q "q + n" "c - n"] by simp
    then have "user_spaces w = (user_spaces s)(current_process s := cp_to_user p (map (file_byte bufs m s) [q..<q + c]) (cur_space s))"
      using w(3) v(3) f(4) n0 by (simp add: cp_to_user_append file_byte_quiet [OF v(2)])
    then show ?thesis using v(1) w(1) quiet_trans [OF v(2) w(2)] n0 False by auto
  qed
qed

lemma file_read_ok:
  assumes sup: "get_ext2_superblock (i_dev (inodes s ip)) s = Ret (fs, m)" and bs: "bs_ok m" and q: "no_sleepers s"
    and c: "cached_file E ip m bufs q (q + unat count) s" "q + unat count < 2147483648" "0 < unat count"
  shows "\<exists>t. file_read E ip buf count (int q) s = Ret ((int (unat count), int (q + unat count)), t) \<and>
    user_spaces t = (user_spaces s)(current_process s := cp_to_user buf (map (file_byte bufs m s) [q..<q + unat count]) (cur_space s)) \<and>
    current_process t = current_process s \<and> kmem t = kmem s \<and> file_table t = file_table s \<and> f_super t = f_super s \<and>
    \<not> m_lock (i_mutex (inodes t ip)) \<and> ino t = (ino s)(ip := (ino s ip)\<lparr>i_atime := CURRENT_TIME s\<rparr>)"
proof -
  have si: "sint count = int (unat count)" using c(2) by (intro sint_small) simp
  from read_loop_all [OF sup bs c(1,2), of "nat (sint count) + 2" buf "stack_bp E"] si c(3) obtain w where
    w: "file_read_loop (nat (sint count) + 2) E ip m buf (int (unat count)) (int q) (stack_bp E) s =
          Ret ((0, 0, int (q + unat count), None), w)" "quiet E s w"
      "user_spaces w = (user_spaces s)(current_process s := cp_to_user buf (map (file_byte bufs m s) [q..<q + unat count]) (cur_space s))"
    by auto
  note f = quiet_fields [OF w(2)]
  let ?v = "set_i_modified ip (upd_i ip (\<lambda>i. i\<lparr>i_atime := CURRENT_TIME w\<rparr>) w)"
  have "no_sleepers ?v" using q f(6) by (simp add: no_sleepers_def set_i_modified_def upd_i_def upd_ino_def)
  then have u: "unlock_ino E ip ?v = Ret (upd_ino ip (\<lambda>i. i\<lparr>i_mutex := mutex_init\<rparr>) ?v)"
    by (simp add: unlock_ino_def stays_def mutex_unlock_none)
  have "file_read E ip buf count (int q) s = Ret ((int (unat count), int (q + unat count)), upd_ino ip (\<lambda>i. i\<lparr>i_mutex := mutex_init\<rparr>) ?v)"
    unfolding file_read_def Let_def using w(1) si u sup by (simp add: brelse_opt_def bytes_done_def)
  moreover have "user_spaces (upd_ino ip f t) = user_spaces t" "file_table (upd_ino ip f t) = file_table t" for f and t :: "'a ext2_state_scheme"
    by (simp_all add: upd_ino_def)
  ultimately show ?thesis using w(3) f
    by (intro exI [of _ "upd_ino ip (\<lambda>i. i\<lparr>i_mutex := mutex_init\<rparr>) ?v"]) (auto simp: set_i_modified_def upd_i_def mutex_init_def fun_eq_iff)
qed


section \<open>Holes\<close>

text \<open>
  A read that starts in a hole of a file returns one byte more than it was asked for and does not move the position:
  the loop that stores the zeroes counts down past 0.
\<close>

theorem file_read_hole_returns_too_much:
  assumes sup: "get_ext2_superblock (i_dev (inodes s ip)) s = Ret (fs, m)" and bs: "0 < blksize m" "blksize m < 2147483648"
    and q: "no_sleepers s" "q < 2147483648" "q div blksize m \<le> 11" and hole: "i_block (ino s ip) ! (q div blksize m) = 0"
    and c: "0 < unat count" "unat count < 2147483647" and bp: "stack_bp E = None"
  shows "\<exists>t. file_read E ip buf count (int q) s = Ret ((int (unat count) + 1, int q), t) \<and>
    user_spaces t = (user_spaces s)(current_process s := cp_to_user buf (replicate (unat count) 0) (cur_space s))"
proof -
  have si: "sint count = int (unat count)" using c(2) by (intro sint_small) simp
  have bm: "ext2_bmap E ip (int q) s = Ret (0, s)" using bmap_direct [OF sup _ q(2,3), of E] bs hole by simp
  let ?w = "upd_space (cp_to_user buf (replicate (unat count) 0)) s"
  let ?v = "set_i_modified ip (upd_i ip (\<lambda>i. i\<lparr>i_atime := CURRENT_TIME ?w\<rparr>) ?w)"
  have "file_read_loop (nat (int n) + 2) E ip m buf (int n) (int q) None s =
      Ret ((0, -1, int q, None), upd_space (cp_to_user buf (replicate n 0)) s)" if "0 < n" for n
    using that bm by (simp add: numeral_2_eq_2)
  note loop = this [OF c(1)]
  have "no_sleepers ?v" using q(1) by (simp add: no_sleepers_def set_i_modified_def upd_i_def upd_ino_def upd_space_def)
  then have u: "unlock_ino E ip ?v = Ret (upd_ino ip (\<lambda>i. i\<lparr>i_mutex := mutex_init\<rparr>) ?v)"
    by (simp add: unlock_ino_def stays_def mutex_unlock_none)
  have "unat (count + 1) = unat count + 1" using c(2) by (simp add: unat_word_ariths)
  then have "sint (count + 1) = int (unat count) + 1" using sint_small [of "count + 1"] c(2) by simp
  then have "file_read E ip buf count (int q) s = Ret ((int (unat count) + 1, int q), upd_ino ip (\<lambda>i. i\<lparr>i_mutex := mutex_init\<rparr>) ?v)"
    unfolding file_read_def Let_def si bp using loop u sup by (simp add: brelse_opt_def bytes_done_def)
  then show ?thesis by (auto simp: upd_ino_def set_i_modified_def upd_i_def upd_space_def)
qed

section \<open>Beyond the direct blocks\<close>

text \<open>
  For every offset in the blocks that hang off the single indirect block, \<^verbatim>\<open>ext2_bmap\<close> finds no block, whatever the
  indirect block holds: those parts of every file read as a hole.
\<close>

theorem bmap_indirect_finds_nothing:
  assumes sup: "get_ext2_superblock (i_dev (inodes s ip)) s = Ret (fs, m)" and bs: "0 < blksize m" "blksize m < 65536"
    and q: "q < 2147483648" "12 \<le> q div blksize m" "q div blksize m < 12 + blksize m div 4"
    and r: "i_block (ino s ip) ! 12 \<noteq> 0 \<Longrightarrow> blk_ready E s i (i_dev (inodes s ip)) (i_block (ino s ip) ! 12)"
  shows "\<exists>t. ext2_bmap E ip (int q) s = Ret (0, t)"
proof -
  let ?l = "word_of_int (c_div (int q) (sint (EXT2_BLOCKSIZE m))) :: u32"
  have l: "unat ?l = q div blksize m" using bs q(1) by (intro lblk_of) simp_all
  have d: "unat (EXT2_BLOCKSIZE m div 4) = blksize m div 4" by (simp add: unat_div)
  then have "unat (EXT2_BLOCKSIZE m div 4 + 11 + 1) = blksize m div 4 + 12" using bs(2) by (simp add: unat_word_ariths)
  then have "\<not> ?l \<le> 11" "?l < EXT2_BLOCKSIZE m div 4 + 11 + 1" using l q by (simp_all add: word_le_nat_alt word_less_nat_alt)
  then have "ext2_bmap E ip (int q) s = bmap_create_indirect E ip ?l False s"
    using sup by (simp add: ext2_bmap_def bmap_create_def Let_def)
  moreover have "\<exists>t. bmap_create_indirect E ip ?l False s = Ret (0, t)"
  proof (cases "i_block (ino s ip) ! 12 = 0")
    case True
    then show ?thesis by (simp add: bmap_create_indirect_def bmap_slot_def Let_def)
  next
    case False
    from bread_ready [OF r [OF this]] obtain v where
      v: "e2_bread E (i_dev (inodes s ip)) (i_block (ino s ip) ! 12) s = Ret (Some i, v)" "blk_held E v i (i_dev (inodes s ip)) (i_block (ino s ip) ! 12)" by blast
    from blk.release_held [OF v(2)] obtain w where "e2_brelse E i v = Ret w" by blast
    with False v(1) show ?thesis by (simp add: bmap_create_indirect_def bmap_slot_def Let_def)
  qed
  ultimately show ?thesis by simp
qed

section \<open>At the example filesystem\<close>

lemma ready_keeps:
  assumes "blk_ready E s i dev blk"
  shows "blk_ready E (upd_ino ip f s) i dev blk" "blk_ready E (upd_file k g s) i dev blk"
proof -
  have h: "blk_holds E s i dev blk" "\<not> m_lock (b_mutex (buffers s i))" "b_flags (buffers s i) AND B_DONE \<noteq> 0"
    using assms by (simp_all add: blk_ready_def blk_holds_def)
  show "blk_ready E (upd_ino ip f s) i dev blk" "blk_ready E (upd_file k g s) i dev blk"
    unfolding blk_ready_def
    by (rule conjI [OF blk_holds_cong [OF h(1)]]; use h in \<open>auto simp: upd_ino_def upd_file_def\<close>)+
qed

definition demo_open :: ext2_state where
  "demo_open = upd_file 3 (\<lambda>f. f\<lparr>f_inode := Some 5, f_pos := 8\<rparr>) demo_dir_fs"

lemma demo_open_fields:
  "f_inode (file_table demo_open 3) = Some 5" "f_pos (file_table demo_open 3) = 8" "inodes demo_open = (\<lambda>_. demo_cell)"
  "kmem demo_open = dir_mem" "bdata 0 demo_open = 0x5000" "get_ext2_superblock 0x301 demo_open = Ret (0, demo_super)"
  "no_sleepers demo_open" "blk_ready demo_e2 demo_open 0 0x301 7"
proof -
  show "blk_ready demo_e2 demo_open 0 0x301 7" unfolding demo_open_def by (rule ready_keeps(2) [OF demo_ready])
  then show "no_sleepers demo_open" by (rule blk_quiet)
  show "get_ext2_superblock 0x301 demo_open = Ret (0, demo_super)"
    using demo_super_of(1) [of dir_mem]
    by (simp add: demo_open_def upd_file_def get_ext2_superblock_def find_filesystem_def cong: option.case_cong)
qed (simp_all add: demo_open_def upd_file_def demo_fs_def bdata_def)

lemma demo_cell_fields:
  "i_dev demo_cell = 0x301" "i_block (i_ino demo_cell) ! 0 = 7" "EXT2_S_ISREG (i_mode (i_ino demo_cell))" "blksize demo_super = 1024"
  by (simp_all add: demo_cell_def demo_inode_def EXT2_S_ISREG_def demo_bitmap)


theorem file_read_hole_returns_too_much_witness:
  "\<exists>t. file_read demo_e2 5 0x100 5 1024 (demo_fs (\<lambda>_. 0)) = Ret ((6, 1024), t)"
proof -
  have c: "inodes (demo_fs (\<lambda>_. 0)) = (\<lambda>_. demo_cell)" "stack_bp demo_e2 = None" "i_block (i_ino demo_cell) ! Suc 0 = 0"
    by (simp_all add: demo_fs_def demo_e2_def demo_cell_def demo_inode_def)
  show ?thesis
    using file_read_hole_returns_too_much [of "demo_fs (\<lambda>_. 0)" 5 0 demo_super 1024 5 demo_e2 "0x100"] blk_quiet(1) [OF demo_ready]
    by (auto simp: c demo_cell_fields demo_super_of)
qed

theorem bmap_indirect_finds_nothing_witness:
  "\<exists>t. ext2_bmap demo_e2 5 (12 * 1024) (upd_ino 5 (\<lambda>x. x\<lparr>i_ino := demo_inode\<lparr>i_block := replicate 15 7\<rparr>\<rparr>) (demo_fs (\<lambda>_. 1))) = Ret (0, t)"
proof -
  let ?s = "upd_ino 5 (\<lambda>x. x\<lparr>i_ino := demo_inode\<lparr>i_block := replicate 15 7\<rparr>\<rparr>) (demo_fs (\<lambda>_. 1))"
  have i: "i_dev (inodes ?s 5) = 0x301" "i_block (ino ?s 5) ! 12 = 7" by (simp_all add: demo_fs_def demo_cell_def)
  have r: "blk_ready demo_e2 ?s 0 0x301 7" by (rule ready_keeps(1) [OF demo_ready])
  have "get_ext2_superblock 0x301 ?s = Ret (0, demo_super)"
    using demo_super_of(1) [of "\<lambda>_. 1"] by (simp add: get_ext2_superblock_def find_filesystem_def upd_ino_def cong: option.case_cong)
  then show ?thesis
    using bmap_indirect_finds_nothing [of ?s 5 0 demo_super "12 * 1024" demo_e2 0] r unfolding i by (simp add: demo_cell_fields)
qed

end
