(* ===== verification/Console.thy ===== *)
theory Console
  imports Mutex
begin

text \<open>
  The virtual console of \<^verbatim>\<open>sys/drivers/virtual_console.c\<close>: the screen buffer and what the VT102 escape sequences
  do to it. The two buffers of a console are lists of bytes; an access outside one is a \<open>Fault\<close>. The low level
  console driver is reached through \<^verbatim>\<open>struct virtual_console_driver\<close>: what it answers about its dimensions is
  part of the driver, and the other calls are collected in \<open>vc_calls\<close>, in the order in which they are made.
\<close>

section \<open>Data\<close>

abbreviation (input) NR_VIRTUAL_CONSOLES :: nat where "NR_VIRTUAL_CONSOLES \<equiv> 4"
abbreviation (input) NPAR :: nat where "NPAR \<equiv> 16"
abbreviation (input) TAB_STOP :: u32 where "TAB_STOP \<equiv> 8"
abbreviation (input) VC_BOLD :: u32 where "VC_BOLD \<equiv> 1"
abbreviation (input) VC_DIM :: u32 where "VC_DIM \<equiv> 2"
abbreviation (input) VC_ITALIC :: u32 where "VC_ITALIC \<equiv> 4"
abbreviation (input) VC_UNDERLINE :: u32 where "VC_UNDERLINE \<equiv> 16"
abbreviation (input) VC_BLINKING :: u32 where "VC_BLINKING \<equiv> 32"
abbreviation (input) VC_REVERSE :: u32 where "VC_REVERSE \<equiv> 64"
abbreviation (input) VC_HIDDEN :: u32 where "VC_HIDDEN \<equiv> 128"
abbreviation (input) VC_STRIKETHROUGH :: u32 where "VC_STRIKETHROUGH \<equiv> 256"
abbreviation (input) ANSI_FG_COLOR_BASE :: u32 where "ANSI_FG_COLOR_BASE \<equiv> 30"
abbreviation (input) ANSI_BG_COLOR_BASE :: u32 where "ANSI_BG_COLOR_BASE \<equiv> 40"
abbreviation (input) ANSI_FG_BRIGHT_COLOR_BASE :: u32 where "ANSI_FG_BRIGHT_COLOR_BASE \<equiv> 90"
abbreviation (input) ANSI_BG_BRIGHT_COLOR_BASE :: u32 where "ANSI_BG_BRIGHT_COLOR_BASE \<equiv> 100"
abbreviation (input) ANSI_FG_DEFAULT :: u32 where "ANSI_FG_DEFAULT \<equiv> 39"
abbreviation (input) ANSI_BG_DEFAULT :: u32 where "ANSI_BG_DEFAULT \<equiv> 49"
abbreviation (input) ANSI_FG_BRIGHT_WHITE :: u32 where "ANSI_FG_BRIGHT_WHITE \<equiv> 97"
abbreviation (input) ANSI_BG_BRIGHT_WHITE :: u32 where "ANSI_BG_BRIGHT_WHITE \<equiv> 107"

text \<open>The characters of the sequences.\<close>

abbreviation (input) CH_CR :: u8 where "CH_CR \<equiv> 13"
abbreviation (input) CH_LF :: u8 where "CH_LF \<equiv> 10"
abbreviation (input) CH_BS :: u8 where "CH_BS \<equiv> 8"
abbreviation (input) CH_ESC :: u8 where "CH_ESC \<equiv> 27"
abbreviation (input) CH_semicolon :: u8 where "CH_semicolon \<equiv> 59"
abbreviation (input) CH_at :: u8 where "CH_at \<equiv> 64"
abbreviation (input) CH_bracket :: u8 where "CH_bracket \<equiv> 91"
abbreviation (input) CH_0 :: u8 where "CH_0 \<equiv> 48"
abbreviation (input) CH_7 :: u8 where "CH_7 \<equiv> 55"
abbreviation (input) CH_8 :: u8 where "CH_8 \<equiv> 56"
abbreviation (input) CH_9 :: u8 where "CH_9 \<equiv> 57"
abbreviation (input) CH_A :: u8 where "CH_A \<equiv> 65"
abbreviation (input) CH_B :: u8 where "CH_B \<equiv> 66"
abbreviation (input) CH_C :: u8 where "CH_C \<equiv> 67"
abbreviation (input) CH_D :: u8 where "CH_D \<equiv> 68"
abbreviation (input) CH_E :: u8 where "CH_E \<equiv> 69"
abbreviation (input) CH_F :: u8 where "CH_F \<equiv> 70"
abbreviation (input) CH_G :: u8 where "CH_G \<equiv> 71"
abbreviation (input) CH_H :: u8 where "CH_H \<equiv> 72"
abbreviation (input) CH_J :: u8 where "CH_J \<equiv> 74"
abbreviation (input) CH_K :: u8 where "CH_K \<equiv> 75"
abbreviation (input) CH_L :: u8 where "CH_L \<equiv> 76"
abbreviation (input) CH_M :: u8 where "CH_M \<equiv> 77"
abbreviation (input) CH_P :: u8 where "CH_P \<equiv> 80"
abbreviation (input) CH_X :: u8 where "CH_X \<equiv> 88"
abbreviation (input) CH_a :: u8 where "CH_a \<equiv> 97"
abbreviation (input) CH_d :: u8 where "CH_d \<equiv> 100"
abbreviation (input) CH_e :: u8 where "CH_e \<equiv> 101"
abbreviation (input) CH_f :: u8 where "CH_f \<equiv> 102"
abbreviation (input) CH_m :: u8 where "CH_m \<equiv> 109"
abbreviation (input) CH_r :: u8 where "CH_r \<equiv> 114"

datatype vc_attr_type = NONE | RGB | INDEXED_COLOR

record vc_attr =
  a_attr :: u32
  fg_rgb :: u32
  bg_rgb :: u32
  fg_indexed :: u32
  bg_indexed :: u32

text \<open>A call of the low level driver. A character is passed as a signed number.\<close>

datatype vc_call =
    Call_putc u32 u32 int
  | Call_blank u32 u32
  | Call_set_attr vc_attr vc_attr_type

record virtual_console_driver =
  vcd_dimensions :: "u32 \<times> u32"

record virtual_console =
  vc_cx :: u32
  vc_cy :: u32
  vc_saved_cx :: u32
  vc_saved_cy :: u32
  vc_last_pos :: u32
  vc_new_last_pos :: u32
  vc_width :: u32
  vc_height :: u32
  vc_scr_buf :: "u8 list"
  vc_cur_buf :: "u8 list"
  vc_scr_size :: u32
  vc_scroll_top :: u32
  vc_scroll_bottom :: u32
  vc_attrs :: vc_attr
  vc_mutex :: mutex
  vc_calls :: "vc_call list"

definition SCR_POS :: "virtual_console \<Rightarrow> u32" where
  "SCR_POS vc = vc_cy vc * vc_width vc + vc_cx vc"

section \<open>Access to the screen buffer\<close>

definition buf_put :: "nat \<Rightarrow> u8 \<Rightarrow> u8 list \<Rightarrow> u8 list kres" where
  "buf_put p c buf = (if p < length buf then Ret (buf[p := c]) else Stop (Fault ''vc_scr_buf''))"

definition buf_zero :: "nat \<Rightarrow> nat \<Rightarrow> u8 list \<Rightarrow> u8 list kres" where
  "buf_zero p n buf =
     (if n = 0 then Ret buf
      else if p + n \<le> length buf then Ret (take p buf @ replicate n 0 @ drop (p + n) buf)
      else Stop (Fault ''vc_scr_buf''))"

text \<open>\<^verbatim>\<open>memmove\<close>: overlapping areas are copied as if through a temporary.\<close>

definition buf_move :: "nat \<Rightarrow> nat \<Rightarrow> nat \<Rightarrow> u8 list \<Rightarrow> u8 list kres" where
  "buf_move dst src n buf =
     (if n = 0 then Ret buf
      else if dst + n \<le> length buf \<and> src + n \<le> length buf
      then Ret (take dst buf @ take n (drop src buf) @ drop (dst + n) buf)
      else Stop (Fault ''vc_scr_buf''))"

definition on_scr :: "(u8 list \<Rightarrow> u8 list kres) \<Rightarrow> virtual_console \<Rightarrow> virtual_console kres" where
  "on_scr f vc = bindk (f (vc_scr_buf vc)) (\<lambda>b. Ret (vc\<lparr>vc_scr_buf := b\<rparr>))"

definition vc_memset0 :: "u32 \<Rightarrow> u32 \<Rightarrow> virtual_console \<Rightarrow> virtual_console kres" where
  "vc_memset0 p n = on_scr (buf_zero (unat p) (unat n))"

definition vc_memmove :: "u32 \<Rightarrow> u32 \<Rightarrow> u32 \<Rightarrow> virtual_console \<Rightarrow> virtual_console kres" where
  "vc_memmove dst src n = on_scr (buf_move (unat dst) (unat src) (unat n))"

text \<open>\<^verbatim>\<open>while (count--)\<close> on an \<^verbatim>\<open>int\<close>: from a negative count it would run past the smallest number.\<close>

definition count_down :: "u32 \<Rightarrow> (virtual_console \<Rightarrow> virtual_console kres) \<Rightarrow> virtual_console \<Rightarrow> virtual_console kres" where
  "count_down count f vc =
     (if sint count < 0 then Stop (Fault ''count'') else foldk (\<lambda>_. f) [0..<nat (sint count)] vc)"

section \<open>Scrolling and clearing\<close>

definition vc_scroll_up :: "virtual_console \<Rightarrow> virtual_console kres" where
  "vc_scroll_up vc =
     (let dst = vc_scroll_top vc * vc_width vc;
          src = dst + vc_width vc;
          count = (vc_scroll_bottom vc - vc_scroll_top vc) * vc_width vc
      in bindk (vc_memmove dst src count vc) (\<lambda>vc.
         vc_memset0 (vc_scroll_bottom vc * vc_width vc) (vc_width vc) vc))"

text \<open>The loop that copies from the end, one byte at a time.\<close>

primrec copy_back :: "nat \<Rightarrow> u32 \<Rightarrow> u32 \<Rightarrow> u8 list \<Rightarrow> u8 list kres" where
  "copy_back 0 dst src buf = Ret buf"
| "copy_back (Suc n) dst src buf =
     (if unat src < length buf
      then bindk (buf_put (unat dst) (buf ! unat src) buf) (copy_back n (dst - 1) (src - 1))
      else Stop (Fault ''vc_scr_buf''))"

definition vc_scroll_down :: "virtual_console \<Rightarrow> virtual_console kres" where
  "vc_scroll_down vc =
     (let dst = vc_scroll_bottom vc * vc_width vc + vc_width vc - 1;
          src = dst - vc_width vc;
          count = (vc_scroll_bottom vc - vc_scroll_top vc) * vc_width vc
      in if sint count < 0 then Stop (Fault ''count'')
         else bindk (on_scr (copy_back (unat count) dst src) vc) (\<lambda>vc.
              vc_memset0 (vc_scroll_top vc * vc_width vc) (vc_width vc) vc))"

definition with_scroll_from_cursor :: "(virtual_console \<Rightarrow> virtual_console kres) \<Rightarrow> virtual_console \<Rightarrow> virtual_console kres" where
  "with_scroll_from_cursor f vc =
     bindk (f (vc\<lparr>vc_scroll_top := vc_cy vc, vc_scroll_bottom := vc_height vc - 1\<rparr>)) (\<lambda>v.
     Ret (v\<lparr>vc_scroll_top := vc_scroll_top vc, vc_scroll_bottom := vc_scroll_bottom vc\<rparr>))"

definition vc_insert_lines :: "u32 \<Rightarrow> virtual_console \<Rightarrow> virtual_console kres" where
  "vc_insert_lines count = with_scroll_from_cursor (count_down count vc_scroll_down)"

definition vc_delete_lines :: "u32 \<Rightarrow> virtual_console \<Rightarrow> virtual_console kres" where
  "vc_delete_lines count = with_scroll_from_cursor (count_down count vc_scroll_up)"

definition vc_insert_blanks :: "u32 \<Rightarrow> virtual_console \<Rightarrow> virtual_console kres" where
  "vc_insert_blanks count vc =
     (let p = SCR_POS vc in
      if vc_cx vc + count \<ge> vc_width vc then vc_memset0 p (vc_width vc - vc_cx vc) vc
      else bindk (vc_memmove (p + count) p (vc_width vc - vc_cx vc - count) vc) (\<lambda>vc. vc_memset0 p count vc))"

definition vc_clear_chars :: "u32 \<Rightarrow> virtual_console \<Rightarrow> virtual_console kres" where
  "vc_clear_chars count vc =
     (let count = (if count > vc_width vc - vc_cx vc then vc_width vc - vc_cx vc else count)
      in if sint count < 0 then Stop (Fault ''count'') else vc_memset0 (SCR_POS vc) count vc)"

definition vc_delete_chars :: "u32 \<Rightarrow> virtual_console \<Rightarrow> virtual_console kres" where
  "vc_delete_chars count vc =
     (let p = SCR_POS vc;
          count = (if count > vc_width vc - vc_cx vc then vc_width vc - vc_cx vc else count)
      in bindk (vc_memmove p (p + count) (vc_width vc - vc_cx vc - count) vc) (\<lambda>vc.
         vc_memset0 (p + count) (vc_width vc - vc_cx vc - count) vc))"

definition vc_clear_screen :: "u32 \<Rightarrow> virtual_console \<Rightarrow> virtual_console kres" where
  "vc_clear_screen par vc =
     (let pos = SCR_POS vc in
      if par = 0 then vc_memset0 pos (vc_scr_size vc - pos) vc
      else if par = 1 then vc_memset0 0 pos vc
      else if par = 2 then vc_memset0 0 (vc_scr_size vc) vc
      else Ret vc)"

definition vc_clear_line :: "u32 \<Rightarrow> virtual_console \<Rightarrow> virtual_console kres" where
  "vc_clear_line par vc =
     (let pos = SCR_POS vc in
      if par = 0 then vc_memset0 pos (vc_width vc - vc_cx vc) vc
      else if par = 1 then vc_memset0 (pos - vc_cx vc) (vc_cx vc) vc
      else if par = 2 then vc_memset0 (pos - vc_cx vc) (vc_width vc) vc
      else Ret vc)"

section \<open>Cursor movement\<close>

definition vc_linefeed :: "virtual_console \<Rightarrow> virtual_console kres" where
  "vc_linefeed vc =
     (if vc_cy vc + 1 < vc_height vc then Ret (vc\<lparr>vc_cy := vc_cy vc + 1\<rparr>) else vc_scroll_up vc)"

definition vc_rlinefeed :: "virtual_console \<Rightarrow> virtual_console" where
  "vc_rlinefeed vc = (if vc_cy vc \<noteq> 0 then vc\<lparr>vc_cy := vc_cy vc - 1\<rparr> else vc)"

definition vc_carriage_return :: "virtual_console \<Rightarrow> virtual_console" where
  "vc_carriage_return vc = vc\<lparr>vc_cx := 0\<rparr>"

definition vc_tab_stop :: "virtual_console \<Rightarrow> virtual_console" where
  "vc_tab_stop vc =
     (let x = vc_cx vc + (TAB_STOP - vc_cx vc mod TAB_STOP) in
      vc\<lparr>vc_cx := if x > vc_width vc then vc_width vc else x\<rparr>)"

definition vc_save_state :: "virtual_console \<Rightarrow> virtual_console" where
  "vc_save_state vc = vc\<lparr>vc_saved_cx := vc_cx vc, vc_saved_cy := vc_cy vc\<rparr>"

definition vc_restore_state :: "virtual_console \<Rightarrow> virtual_console" where
  "vc_restore_state vc = vc\<lparr>vc_cx := vc_saved_cx vc, vc_cy := vc_saved_cy vc\<rparr>"

section \<open>Attributes\<close>

definition call_set_attr :: "virtual_console_driver option \<Rightarrow> vc_attr_type \<Rightarrow> virtual_console \<Rightarrow> virtual_console kres" where
  "call_set_attr vcd ty vc =
     (if vcd = None then Stop (Fault ''vc_driver_table'')
      else Ret (vc\<lparr>vc_calls := vc_calls vc @ [Call_set_attr (vc_attrs vc) ty]\<rparr>))"

definition upd_attr :: "(vc_attr \<Rightarrow> vc_attr) \<Rightarrow> virtual_console \<Rightarrow> virtual_console" where
  "upd_attr f vc = vc\<lparr>vc_attrs := f (vc_attrs vc)\<rparr>"

definition vc_set_default_attr :: "virtual_console_driver option \<Rightarrow> virtual_console \<Rightarrow> virtual_console kres" where
  "vc_set_default_attr vcd vc =
     call_set_attr vcd INDEXED_COLOR
       (upd_attr (\<lambda>a. a\<lparr>a_attr := 0, fg_indexed := ANSI_FG_DEFAULT, bg_indexed := ANSI_BG_DEFAULT\<rparr>) vc)"

text \<open>The parameters of a sequence: \<^verbatim>\<open>par[i]\<close> outside the array is a fault.\<close>

definition par_at :: "u32 list \<Rightarrow> nat \<Rightarrow> u32 kres" where
  "par_at par i = (if i < length par then Ret (par ! i) else Stop (Fault ''par''))"

definition set_fg_bg :: "bool \<Rightarrow> (u32 \<times> u32) \<Rightarrow> vc_attr \<Rightarrow> vc_attr" where
  "set_fg_bg fg v a = (if fg then a\<lparr>fg_indexed := fst v\<rparr> else a\<lparr>bg_indexed := snd v\<rparr>)"

definition set_rgb :: "bool \<Rightarrow> u8 \<Rightarrow> u8 \<Rightarrow> u8 \<Rightarrow> vc_attr \<Rightarrow> vc_attr" where
  "set_rgb fg r g b a =
     (let v = push_bit 16 (ucast r) OR push_bit 8 (ucast g) OR ucast b in
      if fg then a\<lparr>fg_rgb := v\<rparr> else a\<lparr>bg_rgb := v\<rparr>)"

definition vc_set_256 :: "u32 list \<Rightarrow> nat \<Rightarrow> vc_attr_type \<Rightarrow> bool \<Rightarrow> virtual_console \<Rightarrow>
    (nat \<times> vc_attr_type \<times> virtual_console) kres" where
  "vc_set_256 par p ty fg vc =
     bindk (par_at par p) (\<lambda>v.
     if v < 8 then
       Ret (p + 1, INDEXED_COLOR, upd_attr (set_fg_bg fg (ANSI_FG_COLOR_BASE + v, ANSI_BG_COLOR_BASE + v)) vc)
     else if v < 16 then
       Ret (p + 1, INDEXED_COLOR,
            upd_attr (set_fg_bg fg (ANSI_FG_BRIGHT_COLOR_BASE + v - 8, ANSI_BG_BRIGHT_COLOR_BASE + v - 8)) vc)
     else if v < 232 then
       Ret (p + 1, RGB, upd_attr (set_rgb fg (ucast ((v - 16) div 36 * 85 div 2))
                                             (ucast ((v - 16) div 6 mod 6 * 85 div 2))
                                             (ucast ((v - 16) mod 6 * 85 div 2))) vc)
     else
       (let g = ucast (v * 10 - 2312) in Ret (p + 1, RGB, upd_attr (set_rgb fg g g g) vc)))"

definition vc_set_rgb :: "u32 list \<Rightarrow> nat \<Rightarrow> bool \<Rightarrow> virtual_console \<Rightarrow> (nat \<times> virtual_console) kres" where
  "vc_set_rgb par p fg vc =
     bindk (par_at par p) (\<lambda>r.
     bindk (par_at par (p + 1)) (\<lambda>g.
     bindk (par_at par (p + 2)) (\<lambda>b.
     Ret (p + 3, upd_attr (set_rgb fg (ucast r) (ucast g) (ucast b)) vc))))"

text \<open>The pointer it is given is that of the first parameter, not that of the parameter 38 or 48.\<close>

definition vc_set_256_rgb :: "u32 list \<Rightarrow> nat \<Rightarrow> vc_attr_type \<Rightarrow> bool \<Rightarrow> virtual_console \<Rightarrow>
    (nat \<times> vc_attr_type \<times> virtual_console) kres" where
  "vc_set_256_rgb par p ty fg vc =
     bindk (par_at par (p + 1)) (\<lambda>v.
     if v = 5 then vc_set_256 par (p + 2) ty fg vc
     else if v = 2 then bindk (vc_set_rgb par (p + 2) fg vc) (\<lambda>(p, vc). Ret (p, RGB, vc))
     else Ret (p + 1, ty, vc))"

definition in_range :: "u32 \<Rightarrow> u32 \<Rightarrow> u32 \<Rightarrow> bool" where
  "in_range lo hi v \<longleftrightarrow> lo \<le> v \<and> v \<le> hi"

text \<open>The cases of the \<^verbatim>\<open>switch\<close> that only change bits; \<open>None\<close> is the default case.\<close>

definition attr_bits :: "u32 \<Rightarrow> u32 \<Rightarrow> u32 option" where
  "attr_bits v a =
     (if v = 1 then Some (a OR VC_BOLD)
      else if v = 2 then Some (a OR VC_DIM)
      else if v = 3 then Some (a OR VC_ITALIC)
      else if v = 4 then Some (a OR VC_UNDERLINE)
      else if v = 5 then Some (a OR VC_BLINKING)
      else if v = 7 then Some (a OR VC_REVERSE)
      else if v = 8 then Some (a OR VC_HIDDEN)
      else if v = 9 then Some (a OR VC_STRIKETHROUGH)
      else if v = 22 then Some (a AND NOT VC_BOLD AND NOT VC_DIM)
      else if v = 23 then Some (a AND NOT VC_ITALIC)
      else if v = 24 then Some (a AND NOT VC_UNDERLINE)
      else if v = 25 then Some (a AND NOT VC_BLINKING)
      else if v = 27 then Some (a AND NOT VC_REVERSE)
      else if v = 28 then Some (a AND NOT VC_HIDDEN)
      else if v = 29 then Some (a AND NOT VC_STRIKETHROUGH)
      else None)"

text \<open>
  One round of the loop: the next position and \<^verbatim>\<open>type\<close>, or the early return of an unrecognised parameter. The
  colour cases store \<^verbatim>\<open>*par\<close>, the first parameter.
\<close>

datatype attr_step = Attr_next nat vc_attr_type virtual_console | Attr_return virtual_console

definition vc_attr_step :: "virtual_console_driver option \<Rightarrow> u32 list \<Rightarrow> nat \<Rightarrow> vc_attr_type \<Rightarrow> virtual_console \<Rightarrow>
    attr_step kres" where
  "vc_attr_step vcd par p ty vc =
     bindk (par_at par p) (\<lambda>v.
     if v = 38 then bindk (vc_set_256_rgb par 0 ty True vc) (\<lambda>(p, ty, vc). Ret (Attr_next (p + 1) ty vc))
     else if v = 48 then bindk (vc_set_256_rgb par 0 ty False vc) (\<lambda>(p, ty, vc). Ret (Attr_next (p + 1) ty vc))
     else if in_range ANSI_FG_COLOR_BASE ANSI_FG_DEFAULT v \<or> in_range ANSI_FG_BRIGHT_COLOR_BASE ANSI_FG_BRIGHT_WHITE v
     then Ret (Attr_next (p + 1) INDEXED_COLOR (upd_attr (\<lambda>a. a\<lparr>fg_indexed := par ! 0\<rparr>) vc))
     else if in_range ANSI_BG_COLOR_BASE ANSI_BG_DEFAULT v \<or> in_range ANSI_BG_BRIGHT_COLOR_BASE ANSI_BG_BRIGHT_WHITE v
     then Ret (Attr_next (p + 1) INDEXED_COLOR (upd_attr (\<lambda>a. a\<lparr>bg_indexed := par ! 0\<rparr>) vc))
     else if v = 0 then bindk (vc_set_default_attr vcd vc) (\<lambda>vc. Ret (Attr_next (p + 1) ty vc))
     else case attr_bits v (a_attr (vc_attrs vc)) of
            Some b \<Rightarrow> Ret (Attr_next (p + 1) ty (upd_attr (\<lambda>a. a\<lparr>a_attr := b\<rparr>) vc))
          | None \<Rightarrow> Ret (Attr_return vc))"

text \<open>
  The jump of \<^verbatim>\<open>vc_set_256_rgb\<close> back to the start of the parameters can repeat for ever: the fuel counts rounds.
\<close>

fun vc_set_attr_loop :: "nat \<Rightarrow> virtual_console_driver option \<Rightarrow> u32 list \<Rightarrow> nat \<Rightarrow> nat \<Rightarrow> vc_attr_type \<Rightarrow>
    virtual_console \<Rightarrow> virtual_console kres" where
  "vc_set_attr_loop 0 vcd par len p ty vc = Stop Diverges"
| "vc_set_attr_loop (Suc k) vcd par len p ty vc =
     (if len \<le> p then call_set_attr vcd ty vc
      else bindk (vc_attr_step vcd par p ty vc) (\<lambda>r.
           case r of
             Attr_return vc \<Rightarrow> Ret vc
           | Attr_next p ty vc \<Rightarrow> vc_set_attr_loop k vcd par len p ty vc))"

definition vc_set_attr :: "nat \<Rightarrow> virtual_console_driver option \<Rightarrow> u32 list \<Rightarrow> nat \<Rightarrow> virtual_console \<Rightarrow>
    virtual_console kres" where
  "vc_set_attr fuel vcd par len vc = vc_set_attr_loop fuel vcd par len 0 NONE vc"

section \<open>Escape sequences\<close>

text \<open>
  A sequence is read from the buffer of the queue, not only from its used part: a position past the whole buffer
  is a fault.
\<close>

definition char_at :: "u8 list \<Rightarrow> nat \<Rightarrow> u8 kres" where
  "char_at buf p = (if p < length buf then Ret (buf ! p) else Stop (Fault ''tq_buf''))"

text \<open>The loop that reads the numbers; the position it ends at is that of the final character.\<close>

function csi_params :: "u8 list \<Rightarrow> nat \<Rightarrow> nat \<Rightarrow> u32 list \<Rightarrow> (nat \<times> nat \<times> u32 list) kres" where
  "csi_params buf p i par =
     (if length buf \<le> p then Stop (Fault ''tq_buf'')
      else if CH_0 \<le> buf ! p \<and> buf ! p \<le> CH_9 then
        if i < length par
        then csi_params buf (p + 1) i (par[i := 10 * par ! i + ucast (buf ! p) - ucast CH_0])
        else Stop (Fault ''par'')
      else if buf ! p = CH_semicolon then csi_params buf (p + 1) (i + 1) par
      else Ret (p, i, par))"
  by pat_completeness auto
termination by (relation "measure (\<lambda>(buf, p, i, par). length buf - p)") auto

definition cursor_up :: "u32 \<Rightarrow> virtual_console \<Rightarrow> virtual_console" where
  "cursor_up n vc = vc\<lparr>vc_cy := if n \<le> vc_cy vc then vc_cy vc - n else 0\<rparr>"

definition cursor_down :: "u32 \<Rightarrow> virtual_console \<Rightarrow> virtual_console" where
  "cursor_down n vc = vc\<lparr>vc_cy := if vc_cy vc + n < vc_height vc then vc_cy vc + n else vc_height vc - 1\<rparr>"

definition cursor_right :: "u32 \<Rightarrow> virtual_console \<Rightarrow> virtual_console" where
  "cursor_right n vc = vc\<lparr>vc_cx := if vc_cx vc + n < vc_width vc then vc_cx vc + n else vc_width vc - 1\<rparr>"

definition cursor_left :: "u32 \<Rightarrow> virtual_console \<Rightarrow> virtual_console" where
  "cursor_left n vc = vc\<lparr>vc_cx := if n \<le> vc_cx vc then vc_cx vc - n else 0\<rparr>"

definition cursor_to :: "u32 \<Rightarrow> u32 \<Rightarrow> virtual_console \<Rightarrow> virtual_console" where
  "cursor_to y x vc = vc\<lparr>vc_cy := if 1 \<le> y \<and> y \<le> vc_height vc then y - 1 else vc_cy vc,
                         vc_cx := if 1 \<le> x \<and> x \<le> vc_width vc then x - 1 else vc_cx vc\<rparr>"

text \<open>The \<^verbatim>\<open>switch\<close> on the final character; \<open>i\<close> is the index of the last parameter.\<close>

definition csi_command :: "nat \<Rightarrow> virtual_console_driver option \<Rightarrow> u8 \<Rightarrow> nat \<Rightarrow> u32 list \<Rightarrow> virtual_console \<Rightarrow>
    virtual_console kres" where
  "csi_command fuel vcd c i par vc =
     (let n = par ! 0 in
      if c = CH_at then vc_insert_blanks n vc
      else if c = CH_A then Ret (cursor_up n vc)
      else if c = CH_e \<or> c = CH_B then Ret (cursor_down n vc)
      else if c = CH_a \<or> c = CH_C then Ret (cursor_right n vc)
      else if c = CH_D then Ret (cursor_left n vc)
      else if c = CH_E then Ret (vc_carriage_return (cursor_down n vc))
      else if c = CH_F then Ret (vc_carriage_return (cursor_up n vc))
      else if c = CH_G then Ret (if n < vc_width vc then vc\<lparr>vc_cx := n\<rparr> else vc)
      else if c = CH_f \<or> c = CH_H then Ret (cursor_to n (par ! 1) vc)
      else if c = CH_J then vc_clear_screen n vc
      else if c = CH_K then vc_clear_line n vc
      else if c = CH_L then vc_insert_lines n vc
      else if c = CH_M then vc_delete_lines n vc
      else if c = CH_P then vc_delete_chars n vc
      else if c = CH_X then vc_clear_chars n vc
      else if c = CH_d then Ret (if n < vc_height vc then vc\<lparr>vc_cy := n\<rparr> else vc)
      else if c = CH_m then vc_set_attr fuel vcd par (i + 1) vc
      else if c = CH_r then Ret (vc\<lparr>vc_scroll_top := n, vc_scroll_bottom := par ! 1\<rparr>)
      else Ret vc)"

definition vc_csi_escape :: "nat \<Rightarrow> virtual_console_driver option \<Rightarrow> u8 list \<Rightarrow> nat \<Rightarrow> virtual_console \<Rightarrow>
    (nat \<times> virtual_console) kres" where
  "vc_csi_escape fuel vcd buf p vc =
     bindk (csi_params buf p 0 (replicate NPAR 0)) (\<lambda>(p, i, par).
     bindk (csi_command fuel vcd (buf ! p) i par vc) (\<lambda>vc. Ret (p, vc)))"

definition vc_start_escape :: "nat \<Rightarrow> virtual_console_driver option \<Rightarrow> u8 list \<Rightarrow> nat \<Rightarrow> virtual_console \<Rightarrow>
    (nat \<times> virtual_console) kres" where
  "vc_start_escape fuel vcd buf p vc =
     bindk (char_at buf (p + 1)) (\<lambda>c.
     let at = (\<lambda>vc. Ret (p + 1, vc)) in
     if c = CH_D then bindk (vc_linefeed vc) at
     else if c = CH_E then bindk (vc_linefeed vc) (\<lambda>vc. at (vc_carriage_return vc))
     else if c = CH_H then at (vc_tab_stop vc)
     else if c = CH_M then at (vc_rlinefeed vc)
     else if c = CH_7 then at (vc_save_state vc)
     else if c = CH_8 then at (vc_restore_state vc)
     else if c = CH_bracket then vc_csi_escape fuel vcd buf (p + 2) vc
     else at vc)"

section \<open>Output\<close>

definition vc_printable :: "u8 \<Rightarrow> virtual_console \<Rightarrow> virtual_console kres" where
  "vc_printable c vc =
     bindk (on_scr (buf_put (unat (SCR_POS vc)) c) vc) (\<lambda>vc.
     if vc_cx vc = vc_width vc - 1 \<and> vc_cy vc = vc_height vc - 1
     then bindk (vc_scroll_up vc) (\<lambda>vc. Ret (vc\<lparr>vc_cx := 0\<rparr>))
     else if vc_cx vc = vc_width vc - 1 then vc_linefeed (vc_carriage_return vc)
     else Ret (vc\<lparr>vc_cx := vc_cx vc + 1\<rparr>))"

text \<open>One round of the loop of \<^verbatim>\<open>vc_write\<close>: the position of the last byte that it consumed, and the console.\<close>

definition vc_char :: "nat \<Rightarrow> virtual_console_driver option \<Rightarrow> u8 list \<Rightarrow> nat \<Rightarrow> virtual_console \<Rightarrow>
    (nat \<times> virtual_console) kres" where
  "vc_char fuel vcd buf p vc =
     bindk (char_at buf p) (\<lambda>c.
     if c = CH_CR then Ret (p, vc_carriage_return vc)
     else if c = CH_LF then bindk (vc_linefeed vc) (\<lambda>vc. Ret (p, vc))
     else if c = CH_BS then Ret (p, if vc_cx vc \<noteq> 0 then vc\<lparr>vc_cx := vc_cx vc - 1\<rparr> else vc)
     else if c = CH_ESC then vc_start_escape fuel vcd buf p vc
     else bindk (vc_printable c vc) (\<lambda>vc. Ret (p, vc)))"

lemma csi_params_position:
  "csi_params buf p i par = Ret (q, j, par') \<Longrightarrow> p \<le> q \<and> q < length buf \<and> length par' = length par"
proof (induction buf p i par rule: csi_params.induct)
  case (1 buf p i par)
  show ?case
    using "1.prems"
    by (subst (asm) csi_params.simps)
      (auto split: if_splits dest: "1.IH"(1) "1.IH"(2) simp del: csi_params.simps)
qed

lemma vc_char_position:
  assumes "vc_char fuel vcd buf p vc = Ret (q, vc')"
  shows "p \<le> q \<and> q < length buf"
  using assms
  by (auto simp: vc_char_def vc_start_escape_def vc_csi_escape_def char_at_def Let_def bindk_eq_Ret_iff
      simp del: csi_params.simps dest!: csi_params_position split: if_splits)

text \<open>
  The loop of \<^verbatim>\<open>vc_write\<close>, \<^verbatim>\<open>while (nr--)\<close>: a sequence that goes on past the end of the queue makes \<^verbatim>\<open>nr\<close>
  negative, and the loop then goes on through the buffer.
\<close>

function vc_write_loop :: "nat \<Rightarrow> virtual_console_driver option \<Rightarrow> u8 list \<Rightarrow> int \<Rightarrow> nat \<Rightarrow> virtual_console \<Rightarrow>
    virtual_console kres" where
  "vc_write_loop fuel vcd buf nr p vc =
     (if nr = 0 then Ret vc
      else case vc_char fuel vcd buf p vc of
             Stop e \<Rightarrow> Stop e
           | Ret (q, vc) \<Rightarrow> vc_write_loop fuel vcd buf (nr - 1 - (int q - int p)) (q + 1) vc)"
  by pat_completeness auto
termination
proof (relation "measure (\<lambda>(fuel, vcd, buf, nr, p, vc). length buf - p)")
  fix fuel vcd buf nr p vc x q vc'
  assume "vc_char fuel vcd buf p vc = Ret x" "(q, vc') = x"
  then have "p \<le> q \<and> q < length buf" by (auto dest: vc_char_position)
  then show "((fuel, vcd, buf, nr - 1 - (int q - int p), q + 1, vc'), fuel, vcd, buf, nr, p, vc)
    \<in> measure (\<lambda>(fuel, vcd, buf, nr, p, vc). length buf - p)" by auto
qed simp

declare csi_params.simps [simp del] vc_write_loop.simps [simp del]

text \<open>The position of the last byte that is not zero, or 0. The buffer has \<^verbatim>\<open>vc_scr_size\<close> bytes.\<close>

definition vc_calc_last_pos :: "virtual_console \<Rightarrow> virtual_console" where
  "vc_calc_last_pos vc =
     vc\<lparr>vc_new_last_pos := fold (\<lambda>p pos. if vc_scr_buf vc ! p \<noteq> 0 then of_nat p else pos)
                                [0..<unat (vc_scr_size vc)] 0\<rparr>"

definition flush_call :: "virtual_console \<Rightarrow> nat \<Rightarrow> vc_call" where
  "flush_call vc p =
     (let x = of_nat p mod vc_width vc; y = of_nat p div vc_width vc; c = vc_scr_buf vc ! p in
      if c = 0 then Call_blank x y else Call_putc x y (sint c))"

definition vc_flush_step :: "virtual_console_driver option \<Rightarrow> nat \<Rightarrow> virtual_console \<Rightarrow> virtual_console kres" where
  "vc_flush_step vcd p vc =
     (if length (vc_scr_buf vc) \<le> p \<or> length (vc_cur_buf vc) \<le> p then Stop (Fault ''vc_scr_buf'')
      else if vc_scr_buf vc ! p = vc_cur_buf vc ! p then Ret vc
      else if vcd = None then Stop (Fault ''vc_driver_table'')
      else if vc_width vc = 0 then Stop (Fault ''vc_width'')
      else Ret (vc\<lparr>vc_cur_buf := (vc_cur_buf vc)[p := vc_scr_buf vc ! p],
                   vc_calls := vc_calls vc @ [flush_call vc p]\<rparr>))"

text \<open>The loop ends after the byte at the larger of the two last positions.\<close>

definition vc_flush :: "virtual_console_driver option \<Rightarrow> virtual_console \<Rightarrow> virtual_console kres" where
  "vc_flush vcd vc =
     (let vc = (if vc_new_last_pos vc > vc_last_pos vc then vc\<lparr>vc_last_pos := vc_new_last_pos vc\<rparr> else vc)
      in bindk (foldk (vc_flush_step vcd) [0..<Suc (unat (vc_last_pos vc))] vc) (\<lambda>vc.
         Ret (if vc_new_last_pos vc < vc_last_pos vc then vc\<lparr>vc_last_pos := vc_new_last_pos vc\<rparr> else vc)))"

text \<open>What \<^verbatim>\<open>vc_write\<close> does with the console between its two calls on the lock.\<close>

definition vc_output :: "nat \<Rightarrow> virtual_console_driver option \<Rightarrow> u8 list \<Rightarrow> nat \<Rightarrow> nat \<Rightarrow> virtual_console \<Rightarrow>
    (int \<times> virtual_console) kres" where
  "vc_output fuel vcd buf tqh tqt vc =
     (let nr = int tqt - int tqh in
      if nr < 0 then Ret (-1, vc)
      else bindk (vc_write_loop fuel vcd buf nr tqh vc) (\<lambda>vc.
           bindk (vc_flush vcd (vc_calc_last_pos vc)) (\<lambda>vc. Ret (nr, vc))))"

end
