(* ===== verification/Console_Props.thy ===== *)
theory Console_Props
  imports Console
begin

text \<open>
  The virtual console keeps its cursor, its buffers and its scroll region consistent, moves the text of the screen
  as its escape sequences say, and brings the display up to date.
\<close>

section \<open>The invariant\<close>

abbreviation cols :: "virtual_console \<Rightarrow> nat" where "cols vc \<equiv> unat (vc_width vc)"
abbreviation rows :: "virtual_console \<Rightarrow> nat" where "rows vc \<equiv> unat (vc_height vc)"

definition vc_sized :: "virtual_console \<Rightarrow> bool" where
  "vc_sized vc \<longleftrightarrow> 0 < cols vc \<and> 0 < rows vc \<and> rows vc * cols vc < 2 ^ 31 \<and>
     unat (vc_scr_size vc) = rows vc * cols vc \<and>
     length (vc_scr_buf vc) = rows vc * cols vc \<and> length (vc_cur_buf vc) = rows vc * cols vc"

definition vc_cursor_in :: "virtual_console \<Rightarrow> bool" where
  "vc_cursor_in vc \<longleftrightarrow> vc_cx vc < vc_width vc \<and> vc_cy vc < vc_height vc \<and>
     vc_saved_cx vc < vc_width vc \<and> vc_saved_cy vc < vc_height vc"

definition vc_region :: "virtual_console \<Rightarrow> bool" where
  "vc_region vc \<longleftrightarrow> vc_scroll_top vc \<le> vc_scroll_bottom vc \<and> vc_scroll_bottom vc < vc_height vc"

text \<open>What the calls of the low level driver have put on a display that was blank at first.\<close>

fun display_call :: "vc_call \<Rightarrow> (nat \<Rightarrow> nat \<Rightarrow> u8) \<Rightarrow> nat \<Rightarrow> nat \<Rightarrow> u8" where
  "display_call (Call_putc x y c) g = g(unat y := (g (unat y))(unat x := word_of_int c))"
| "display_call (Call_blank x y) g = g(unat y := (g (unat y))(unat x := 0))"
| "display_call (Call_set_attr a ty) g = g"

definition display :: "vc_call list \<Rightarrow> nat \<Rightarrow> nat \<Rightarrow> u8" where
  "display calls = fold display_call calls (\<lambda>_ _. 0)"

text \<open>The second buffer is what the display shows, and it holds nothing after \<^verbatim>\<open>vc_last_pos\<close>.\<close>

definition vc_shown :: "virtual_console \<Rightarrow> bool" where
  "vc_shown vc \<longleftrightarrow> vc_last_pos vc < vc_scr_size vc \<and>
     (\<forall>i<length (vc_cur_buf vc). unat (vc_last_pos vc) < i \<longrightarrow> vc_cur_buf vc ! i = 0) \<and>
     (\<forall>y<rows vc. \<forall>x<cols vc. display (vc_calls vc) y x = vc_cur_buf vc ! (y * cols vc + x))"

definition vc_wf :: "virtual_console \<Rightarrow> bool" where
  "vc_wf vc \<longleftrightarrow> vc_sized vc \<and> vc_cursor_in vc \<and> vc_region vc \<and> vc_shown vc"

text \<open>The byte of the screen in row \<open>y\<close> and column \<open>x\<close>.\<close>

definition cell :: "virtual_console \<Rightarrow> nat \<Rightarrow> nat \<Rightarrow> u8" where
  "cell vc y x = vc_scr_buf vc ! (y * cols vc + x)"

section \<open>Positions\<close>

lemma row_end: "y < h \<Longrightarrow> y * w + w \<le> h * (w :: nat)"
  using mult_le_mono1 [of "Suc y" h w] by simp

lemma cell_pos: "y < h \<Longrightarrow> x < w \<Longrightarrow> y * w + x < h * (w :: nat)"
  using row_end [of y h w] by linarith

lemma pos_inj:
  assumes "x < w" "x' < w" "y * w + x = y' * w + (x' :: nat)"
  shows "y = y' \<and> x = x'"
proof -
  have "y = (y * w + x) div w" "y' = (y' * w + x') div w" using assms(1,2) by simp_all
  moreover have "x = (y * w + x) mod w" "x' = (y' * w + x') mod w" using assms(1,2) by simp_all
  ultimately show ?thesis using assms(3) by metis
qed

lemma unat_mult_small: "unat a * unat b < 4294967296 \<Longrightarrow> unat (a * b :: u32) = unat a * unat b"
  by (simp add: unat_mult_lem [THEN iffD1])

lemma unat_add_small: "unat a + unat b < 4294967296 \<Longrightarrow> unat (a + b :: u32) = unat a + unat b"
  by (simp add: unat_add_lem [THEN iffD1])

lemma unat_sub_small: "unat b \<le> unat a \<Longrightarrow> unat (a - b :: u32) = unat a - unat b"
  by (simp add: unat_sub_if')

lemma unat_less: "a < b \<longleftrightarrow> unat (a :: u32) < unat b"
  by (rule word_less_nat_alt)

lemma unat_le: "a \<le> b \<longleftrightarrow> unat (a :: u32) \<le> unat b"
  by (rule word_le_nat_alt)

lemma vc_sizedD:
  assumes "vc_sized vc"
  shows "0 < cols vc" "0 < rows vc" "rows vc * cols vc < 2147483648" "unat (vc_scr_size vc) = rows vc * cols vc"
    "length (vc_scr_buf vc) = rows vc * cols vc" "length (vc_cur_buf vc) = rows vc * cols vc"
  using assms by (simp_all add: vc_sized_def)

text \<open>A row number times the width does not wrap, and neither does a position on the screen.\<close>

lemma row_pos:
  assumes "vc_sized vc" "unat y < rows vc"
  shows "unat (y * vc_width vc) = unat y * cols vc"
    and "unat y * cols vc + cols vc \<le> rows vc * cols vc"
proof -
  show le: "unat y * cols vc + cols vc \<le> rows vc * cols vc" using assms(2) by (rule row_end)
  then show "unat (y * vc_width vc) = unat y * cols vc"
    using vc_sizedD(3) [OF assms(1)] by (intro unat_mult_small) linarith
qed

lemma scr_pos:
  assumes "vc_sized vc" "vc_cy vc < vc_height vc" "vc_cx vc < vc_width vc"
  shows "unat (SCR_POS vc) = unat (vc_cy vc) * cols vc + unat (vc_cx vc)"
    and "unat (vc_cy vc) * cols vc + unat (vc_cx vc) < rows vc * cols vc"
proof -
  have y: "unat (vc_cy vc) < rows vc" and x: "unat (vc_cx vc) < cols vc"
    using assms(2,3) by (simp_all add: unat_less)
  show lt: "unat (vc_cy vc) * cols vc + unat (vc_cx vc) < rows vc * cols vc" using y x by (rule cell_pos)
  then show "unat (SCR_POS vc) = unat (vc_cy vc) * cols vc + unat (vc_cx vc)"
    using vc_sizedD(3) [OF assms(1)] row_pos(1) [OF assms(1) y]
    by (simp add: SCR_POS_def unat_add_small)
qed

section \<open>Access to the buffer\<close>

definition zeroed :: "nat \<Rightarrow> nat \<Rightarrow> u8 list \<Rightarrow> u8 list" where
  "zeroed p n b = map (\<lambda>i. if p \<le> i \<and> i < p + n then 0 else b ! i) [0..<length b]"

definition moved :: "nat \<Rightarrow> nat \<Rightarrow> nat \<Rightarrow> u8 list \<Rightarrow> u8 list" where
  "moved dst src n b = map (\<lambda>i. if dst \<le> i \<and> i < dst + n then b ! (src + (i - dst)) else b ! i) [0..<length b]"

lemma length_zeroed [simp]: "length (zeroed p n b) = length b" "length (moved d sp n b) = length b"
  by (simp_all add: zeroed_def moved_def)

lemma nth_zeroed [simp]:
  "i < length b \<Longrightarrow> zeroed p n b ! i = (if p \<le> i \<and> i < p + n then 0 else b ! i)"
  "i < length b \<Longrightarrow> moved d sp n b ! i = (if d \<le> i \<and> i < d + n then b ! (sp + (i - d)) else b ! i)"
  by (simp_all add: zeroed_def moved_def)

lemma buf_zero_eq: "p + n \<le> length b \<Longrightarrow> buf_zero p n b = Ret (zeroed p n b)"
  by (auto simp: buf_zero_def nth_append intro!: nth_equalityI)

lemma buf_move_eq: "d + n \<le> length b \<Longrightarrow> sp + n \<le> length b \<Longrightarrow> buf_move d sp n b = Ret (moved d sp n b)"
  by (auto simp: buf_move_def nth_append intro!: nth_equalityI)

text \<open>The byte loop that copies upwards from the end moves the block as \<^verbatim>\<open>memmove\<close> would.\<close>

lemma copy_back_eq:
  assumes "unat sp < unat d" "unat d < length b" "n \<le> unat sp + 1"
  shows "copy_back n d sp b = Ret (moved (unat d + 1 - n) (unat sp + 1 - n) n b)"
  using assms
proof (induction n arbitrary: d sp b)
  case 0
  show ?case by (auto intro!: nth_equalityI)
next
  case (Suc n)
  let ?b = "b[unat d := b ! unat sp]"
  have step: "copy_back (Suc n) d sp b = copy_back n (d - 1) (sp - 1) ?b"
    using Suc.prems by (simp add: buf_put_def)
  show ?case
  proof (cases n)
    case 0
    then show ?thesis using Suc.prems step by (auto intro!: nth_equalityI simp: nth_list_update)
  next
    case (Suc m)
    have u: "unat (d - 1) = unat d - 1" "unat (sp - 1) = unat sp - 1"
      using Suc Suc.prems by (simp_all add: unat_sub_if')
    have "copy_back n (d - 1) (sp - 1) ?b = Ret (moved (unat (d - 1) + 1 - n) (unat (sp - 1) + 1 - n) n ?b)"
      using Suc Suc.prems u by (intro Suc.IH) auto
    also have "moved (unat (d - 1) + 1 - n) (unat (sp - 1) + 1 - n) n ?b = moved (unat d - n) (unat sp - n) (Suc n) b"
      using Suc Suc.prems unfolding u by (intro nth_equalityI) (auto simp: nth_list_update)
    finally show ?thesis using step by simp
  qed
qed

lemma vc_memset0_eq:
  "unat p + unat n \<le> length (vc_scr_buf vc) \<Longrightarrow>
   vc_memset0 p n vc = Ret (vc\<lparr>vc_scr_buf := zeroed (unat p) (unat n) (vc_scr_buf vc)\<rparr>)"
  by (simp add: vc_memset0_def on_scr_def buf_zero_eq)

lemma vc_memmove_eq:
  "unat d + unat n \<le> length (vc_scr_buf vc) \<Longrightarrow> unat sp + unat n \<le> length (vc_scr_buf vc) \<Longrightarrow>
   vc_memmove d sp n vc = Ret (vc\<lparr>vc_scr_buf := moved (unat d) (unat sp) (unat n) (vc_scr_buf vc)\<rparr>)"
  by (simp add: vc_memmove_def on_scr_def buf_move_eq)

section \<open>Scrolling\<close>

text \<open>What scrolling the rows \<open>t\<close> to \<open>b\<close> by \<open>n\<close> does to a screen: rows that leave are lost and empty ones come in.\<close>

definition scrolled_up :: "nat \<Rightarrow> nat \<Rightarrow> nat \<Rightarrow> (nat \<Rightarrow> nat \<Rightarrow> u8) \<Rightarrow> nat \<Rightarrow> nat \<Rightarrow> u8" where
  "scrolled_up n t b g y x = (if t \<le> y \<and> y \<le> b then if y + n \<le> b then g (y + n) x else 0 else g y x)"

definition scrolled_down :: "nat \<Rightarrow> nat \<Rightarrow> nat \<Rightarrow> (nat \<Rightarrow> nat \<Rightarrow> u8) \<Rightarrow> nat \<Rightarrow> nat \<Rightarrow> u8" where
  "scrolled_down n t b g y x = (if t \<le> y \<and> y \<le> b then if t + n \<le> y then g (y - n) x else 0 else g y x)"

text \<open>Two consoles that differ in the screen only, and the grid that the second shows.\<close>

definition redrawn :: "virtual_console \<Rightarrow> (nat \<Rightarrow> nat \<Rightarrow> u8) \<Rightarrow> virtual_console \<Rightarrow> bool" where
  "redrawn vc g vc' \<longleftrightarrow> vc' = vc\<lparr>vc_scr_buf := vc_scr_buf vc'\<rparr> \<and> length (vc_scr_buf vc') = length (vc_scr_buf vc) \<and>
     (\<forall>y<rows vc. \<forall>x<cols vc. cell vc' y x = g y x)"

lemma redrawnI:
  assumes "length b = length (vc_scr_buf vc)"
    and "\<And>y x. y < rows vc \<Longrightarrow> x < cols vc \<Longrightarrow> b ! (y * cols vc + x) = g y x"
  shows "redrawn vc g (vc\<lparr>vc_scr_buf := b\<rparr>)"
  using assms by (simp add: redrawn_def cell_def)

lemma row_in_block:
  assumes "x < (w :: nat)"
  shows "t * w \<le> y * w + x \<longleftrightarrow> t \<le> y" and "y * w + x < t * w \<longleftrightarrow> y < t"
proof -
  have "y < t" if "y * w + x < t * w"
    using that mult_less_cancel2 [of y w t] by linarith
  moreover have "y * w + x < t * w" if "y < t"
    using row_end [OF that, of w] assms by linarith
  ultimately show "y * w + x < t * w \<longleftrightarrow> y < t" by blast
  then show "t * w \<le> y * w + x \<longleftrightarrow> t \<le> y" by (simp add: not_less [symmetric])
qed

lemma row_block:
  assumes "x < (w :: nat)"
  shows "t * w \<le> y * w + x \<and> y * w + x < t * w + (b - t) * w \<longleftrightarrow> t \<le> y \<and> y < b"
    and "t * w \<le> y * w + x \<and> y * w + x < t * w + w \<longleftrightarrow> y = t"
proof -
  have "t * w + (b - t) * w = (t + (b - t)) * w" by (simp add: distrib_right)
  then show "t * w \<le> y * w + x \<and> y * w + x < t * w + (b - t) * w \<longleftrightarrow> t \<le> y \<and> y < b"
    using row_in_block [OF assms, of t y] row_in_block(2) [OF assms, of y "t + (b - t)"] by auto
  have "t * w + w = Suc t * w" by simp
  then show "t * w \<le> y * w + x \<and> y * w + x < t * w + w \<longleftrightarrow> y = t"
    using row_in_block [OF assms, of t y] row_in_block(2) [OF assms, of y "Suc t"] by auto
qed

lemma region_rows:
  assumes "vc_sized vc" "vc_region vc"
  defines "t \<equiv> unat (vc_scroll_top vc)" and "b \<equiv> unat (vc_scroll_bottom vc)"
  shows "t \<le> b" "b < rows vc"
    "unat (vc_scroll_top vc * vc_width vc) = t * cols vc"
    "unat (vc_scroll_bottom vc * vc_width vc) = b * cols vc"
    "unat ((vc_scroll_bottom vc - vc_scroll_top vc) * vc_width vc) = (b - t) * cols vc"
    "t * cols vc + (b - t) * cols vc = b * cols vc" "b * cols vc + cols vc \<le> rows vc * cols vc"
proof -
  show tb: "t \<le> b" and b: "b < rows vc"
    using assms(2) by (simp_all add: vc_region_def t_def b_def unat_le unat_less)
  have bt: "unat (vc_scroll_bottom vc - vc_scroll_top vc) = b - t"
    using tb by (simp add: b_def t_def unat_sub_small)
  show "unat (vc_scroll_top vc * vc_width vc) = t * cols vc"
    using row_pos(1) [OF assms(1), of "vc_scroll_top vc"] tb b by (simp add: t_def)
  show "unat (vc_scroll_bottom vc * vc_width vc) = b * cols vc"
    using row_pos(1) [OF assms(1), of "vc_scroll_bottom vc"] b by (simp add: b_def)
  show "unat ((vc_scroll_bottom vc - vc_scroll_top vc) * vc_width vc) = (b - t) * cols vc"
    using row_pos(1) [OF assms(1), of "vc_scroll_bottom vc - vc_scroll_top vc"] b unfolding bt by simp
  show "t * cols vc + (b - t) * cols vc = b * cols vc" using tb by (simp add: distrib_right [symmetric])
  show "b * cols vc + cols vc \<le> rows vc * cols vc" using b by (rule row_end)
qed

lemma vc_scroll_up_redraws:
  assumes "vc_sized vc" "vc_region vc"
  shows "\<exists>vc'. vc_scroll_up vc = Ret vc' \<and>
    redrawn vc (scrolled_up 1 (unat (vc_scroll_top vc)) (unat (vc_scroll_bottom vc)) (cell vc)) vc'"
proof -
  note r = region_rows [OF assms] and z = vc_sizedD [OF assms(1)]
  let ?t = "unat (vc_scroll_top vc)" and ?b = "unat (vc_scroll_bottom vc)" and ?w = "cols vc"
  let ?m = "moved (?t * ?w) (?t * ?w + ?w) ((?b - ?t) * ?w) (vc_scr_buf vc)"
  have src: "unat (vc_scroll_top vc * vc_width vc + vc_width vc) = ?t * ?w + ?w"
    using r z by (subst unat_add_small) simp_all
  have "vc_memmove (vc_scroll_top vc * vc_width vc) (vc_scroll_top vc * vc_width vc + vc_width vc)
      ((vc_scroll_bottom vc - vc_scroll_top vc) * vc_width vc) vc = Ret (vc\<lparr>vc_scr_buf := ?m\<rparr>)"
    using r z src by (subst vc_memmove_eq) simp_all
  then have "vc_scroll_up vc = Ret (vc\<lparr>vc_scr_buf := zeroed (?b * ?w) ?w ?m\<rparr>)"
    using r z by (simp add: vc_scroll_up_def Let_def vc_memset0_eq)
  moreover have "redrawn vc (scrolled_up 1 ?t ?b (cell vc)) (vc\<lparr>vc_scr_buf := zeroed (?b * ?w) ?w ?m\<rparr>)"
  proof (rule redrawnI)
    fix y x assume yx: "y < rows vc" "x < ?w"
    have i: "y * ?w + x < length (vc_scr_buf vc)" using cell_pos [OF yx] z by simp
    have "?t * ?w + ?w + (y * ?w + x - ?t * ?w) = (y + 1) * ?w + x" if "?t \<le> y"
      using mult_le_mono1 [OF that, of ?w] by (simp add: trans_le_add1)
    then show "zeroed (?b * ?w) ?w ?m ! (y * ?w + x) = scrolled_up 1 ?t ?b (cell vc) y x"
      using i r(1) row_block [OF yx(2)] by (auto simp: scrolled_up_def cell_def add.assoc)
  qed simp
  ultimately show ?thesis by blast
qed

lemma vc_scroll_down_redraws:
  assumes "vc_sized vc" "vc_region vc"
  shows "\<exists>vc'. vc_scroll_down vc = Ret vc' \<and>
    redrawn vc (scrolled_down 1 (unat (vc_scroll_top vc)) (unat (vc_scroll_bottom vc)) (cell vc)) vc'"
proof -
  note r = region_rows [OF assms] and z = vc_sizedD [OF assms(1)]
  let ?t = "unat (vc_scroll_top vc)" and ?b = "unat (vc_scroll_bottom vc)" and ?w = "cols vc"
  let ?n = "(?b - ?t) * ?w" and ?d = "vc_scroll_bottom vc * vc_width vc + vc_width vc - 1"
  let ?m = "moved (?t * ?w + ?w) (?t * ?w) ?n (vc_scr_buf vc)"
  have e: "unat (vc_scroll_bottom vc * vc_width vc + vc_width vc) = ?b * ?w + ?w"
    using r z by (subst unat_add_small) simp_all
  have d: "unat ?d = ?b * ?w + ?w - 1" using e z by (subst unat_sub_small) simp_all
  have pos: "0 \<le> sint ((vc_scroll_bottom vc - vc_scroll_top vc) * vc_width vc)"
    using r z sint_small [of "(vc_scroll_bottom vc - vc_scroll_top vc) * vc_width vc"] by linarith
  have cb: "copy_back ?n ?d (?d - vc_width vc) (vc_scr_buf vc) = Ret ?m"
  proof (cases "?n = 0")
    case True
    then show ?thesis by (auto intro!: nth_equalityI)
  next
    case False
    then have "?t < ?b" by (cases "?t < ?b") simp_all
    then have b: "?w \<le> ?b * ?w" by simp
    have sp: "unat (?d - vc_width vc) = ?b * ?w - 1"
      using d b z(1) unat_sub_small [of "vc_width vc" ?d] by linarith
    have "unat (?d - vc_width vc) < unat ?d" "unat ?d < length (vc_scr_buf vc)" "?n \<le> unat (?d - vc_width vc) + 1"
      "unat ?d + 1 - ?n = ?t * ?w + ?w" "unat (?d - vc_width vc) + 1 - ?n = ?t * ?w"
      using d sp b z(1,5) r(6,7) by linarith+
    then show ?thesis using copy_back_eq [of "?d - vc_width vc" ?d "vc_scr_buf vc" ?n] by metis
  qed
  have "vc_scroll_down vc = Ret (vc\<lparr>vc_scr_buf := zeroed (?t * ?w) ?w ?m\<rparr>)"
    using r z pos cb by (simp add: vc_scroll_down_def Let_def on_scr_def vc_memset0_eq)
  moreover have "redrawn vc (scrolled_down 1 ?t ?b (cell vc)) (vc\<lparr>vc_scr_buf := zeroed (?t * ?w) ?w ?m\<rparr>)"
  proof (rule redrawnI)
    fix y x assume yx: "y < rows vc" "x < ?w"
    have i: "y * ?w + x < length (vc_scr_buf vc)" using cell_pos [OF yx] z by simp
    have "?t * ?w + (y * ?w + x - (?t * ?w + ?w)) = (y - 1) * ?w + x" if "?t < y"
      using that by (cases y) (simp_all add: trans_le_add1 less_Suc_eq_le)
    moreover have "?t * ?w + ?w = Suc ?t * ?w" "Suc ?t * ?w + ?n = Suc ?t * ?w + (Suc ?b - Suc ?t) * ?w" by simp_all
    ultimately show "zeroed (?t * ?w) ?w ?m ! (y * ?w + x) = scrolled_down 1 ?t ?b (cell vc) y x"
      using i r(1) row_block(1) [OF yx(2), of "Suc ?t" y "Suc ?b"] row_block(2) [OF yx(2), of ?t y]
      by (auto simp: scrolled_down_def cell_def)
  qed simp
  ultimately show ?thesis by blast
qed

text \<open>A loop of single scrolls scrolls by their number.\<close>

lemma redrawnE:
  assumes "redrawn vc g vc'"
  obtains b where "vc' = vc\<lparr>vc_scr_buf := b\<rparr>" "length b = length (vc_scr_buf vc)"
  using assms that [of "vc_scr_buf vc'"] unfolding redrawn_def by blast

lemma redrawn_simps:
  assumes "redrawn vc g vc'"
  shows "vc_width vc' = vc_width vc" "vc_height vc' = vc_height vc" "vc_scroll_top vc' = vc_scroll_top vc"
    "vc_scroll_bottom vc' = vc_scroll_bottom vc" "vc_cx vc' = vc_cx vc" "vc_cy vc' = vc_cy vc"
    "vc_sized vc' = vc_sized vc" "vc_region vc' = vc_region vc" "vc_wf vc' = vc_wf vc"
proof -
  obtain b where b: "vc' = vc\<lparr>vc_scr_buf := b\<rparr>" "length b = length (vc_scr_buf vc)" using assms by (rule redrawnE)
  show "vc_width vc' = vc_width vc" "vc_height vc' = vc_height vc" "vc_scroll_top vc' = vc_scroll_top vc"
    "vc_scroll_bottom vc' = vc_scroll_bottom vc" "vc_cx vc' = vc_cx vc" "vc_cy vc' = vc_cy vc"
    using b by simp_all
  show "vc_sized vc' = vc_sized vc" "vc_region vc' = vc_region vc" "vc_wf vc' = vc_wf vc"
    using b by (simp_all add: vc_wf_def vc_sized_def vc_region_def vc_cursor_in_def vc_shown_def)
qed

lemma redrawn_trans:
  assumes "redrawn vc g vc'" "redrawn vc' h vc''"
    and "\<And>y x. y < rows vc \<Longrightarrow> x < cols vc \<Longrightarrow> h y x = k y x"
  shows "redrawn vc k vc''"
proof -
  obtain b where b: "vc' = vc\<lparr>vc_scr_buf := b\<rparr>" "length b = length (vc_scr_buf vc)" using assms(1) by (rule redrawnE)
  obtain c where c: "vc'' = vc'\<lparr>vc_scr_buf := c\<rparr>" "length c = length (vc_scr_buf vc')" using assms(2) by (rule redrawnE)
  have "cell vc'' y x = k y x" if "y < rows vc" "x < cols vc" for y x
    using assms(2) assms(3) [OF that] that redrawn_simps(1,2) [OF assms(1)] by (simp add: redrawn_def)
  then show ?thesis using b c by (simp add: redrawn_def)
qed

lemma redrawn_refl: "redrawn vc (cell vc) vc"
  by (simp add: redrawn_def)

lemma redrawn_cells: "redrawn vc g vc' \<Longrightarrow> y < rows vc \<Longrightarrow> x < cols vc \<Longrightarrow> cell vc' y x = g y x"
  by (simp add: redrawn_def)

lemma scroll_up_times:
  assumes "vc_sized vc" "vc_region vc"
  shows "\<exists>vc'. foldk (\<lambda>_. vc_scroll_up) [0..<n] vc = Ret vc' \<and>
    redrawn vc (scrolled_up n (unat (vc_scroll_top vc)) (unat (vc_scroll_bottom vc)) (cell vc)) vc'"
proof (induction n)
  case 0
  have "redrawn vc (scrolled_up 0 (unat (vc_scroll_top vc)) (unat (vc_scroll_bottom vc)) (cell vc)) vc"
    by (rule redrawn_trans [OF redrawn_refl redrawn_refl]) (simp add: scrolled_up_def)
  then show ?case by simp
next
  case (Suc n)
  let ?t = "unat (vc_scroll_top vc)" and ?b = "unat (vc_scroll_bottom vc)"
  obtain v where v: "foldk (\<lambda>_. vc_scroll_up) [0..<n] vc = Ret v" "redrawn vc (scrolled_up n ?t ?b (cell vc)) v"
    using Suc.IH by blast
  note e = redrawn_simps [OF v(2)] and r = region_rows(2) [OF assms]
  obtain w where w: "vc_scroll_up v = Ret w" "redrawn v (scrolled_up 1 ?t ?b (cell v)) w"
    using vc_scroll_up_redraws [of v] assms e by auto
  have "redrawn vc (scrolled_up (Suc n) ?t ?b (cell vc)) w"
    by (rule redrawn_trans [OF v(2) w(2)])
      (use r redrawn_cells [OF v(2)] in \<open>auto simp: scrolled_up_def\<close>)
  then show ?case using v w by (simp add: foldk_append)
qed

lemma scroll_down_times:
  assumes "vc_sized vc" "vc_region vc"
  shows "\<exists>vc'. foldk (\<lambda>_. vc_scroll_down) [0..<n] vc = Ret vc' \<and>
    redrawn vc (scrolled_down n (unat (vc_scroll_top vc)) (unat (vc_scroll_bottom vc)) (cell vc)) vc'"
proof (induction n)
  case 0
  have "redrawn vc (scrolled_down 0 (unat (vc_scroll_top vc)) (unat (vc_scroll_bottom vc)) (cell vc)) vc"
    by (rule redrawn_trans [OF redrawn_refl redrawn_refl]) (simp add: scrolled_down_def)
  then show ?case by simp
next
  case (Suc n)
  let ?t = "unat (vc_scroll_top vc)" and ?b = "unat (vc_scroll_bottom vc)"
  obtain v where v: "foldk (\<lambda>_. vc_scroll_down) [0..<n] vc = Ret v" "redrawn vc (scrolled_down n ?t ?b (cell vc)) v"
    using Suc.IH by blast
  note e = redrawn_simps [OF v(2)] and r = region_rows(2) [OF assms]
  obtain w where w: "vc_scroll_down v = Ret w" "redrawn v (scrolled_down 1 ?t ?b (cell v)) w"
    using vc_scroll_down_redraws [of v] assms e by auto
  have "redrawn vc (scrolled_down (Suc n) ?t ?b (cell vc)) w"
    by (rule redrawn_trans [OF v(2) w(2)])
      (use r redrawn_cells [OF v(2)] in \<open>auto simp: scrolled_down_def\<close>)
  then show ?case using v w by (simp add: foldk_append)
qed

lemma count_down_eq: "unat n < 2147483648 \<Longrightarrow> count_down n f vc = foldk (\<lambda>_. f) [0..<unat n] vc"
  using sint_small [of n] by (simp only: count_down_def) simp

lemma with_scroll_from_cursor_redraws:
  assumes "vc_wf vc"
    and "\<And>v. vc_sized v \<Longrightarrow> vc_region v \<Longrightarrow>
      \<exists>v'. f v = Ret v' \<and> redrawn v (G (unat (vc_scroll_top v)) (unat (vc_scroll_bottom v)) (cell v)) v'"
  shows "\<exists>vc'. with_scroll_from_cursor f vc = Ret vc' \<and> redrawn vc (G (unat (vc_cy vc)) (rows vc - 1) (cell vc)) vc'"
proof -
  let ?v = "vc\<lparr>vc_scroll_top := vc_cy vc, vc_scroll_bottom := vc_height vc - 1\<rparr>"
  have h: "unat (vc_height vc - 1) = rows vc - 1" and y: "unat (vc_cy vc) < rows vc"
    using assms(1) by (simp_all add: vc_wf_def vc_sized_def vc_cursor_in_def unat_less unat_sub_small)
  have "vc_sized ?v" "vc_region ?v"
    using assms(1) h y by (auto simp: vc_wf_def vc_sized_def vc_region_def unat_le unat_less)
  from assms(2) [OF this] obtain v where v: "f ?v = Ret v"
    "redrawn ?v (G (unat (vc_cy vc)) (rows vc - 1) (cell ?v)) v" using h by auto
  obtain b where b: "v = ?v\<lparr>vc_scr_buf := b\<rparr>" "length b = length (vc_scr_buf ?v)" using v(2) by (rule redrawnE)
  have c: "cell ?v = cell vc" by (simp add: fun_eq_iff cell_def)
  have "redrawn vc (G (unat (vc_cy vc)) (rows vc - 1) (cell vc)) (vc\<lparr>vc_scr_buf := b\<rparr>)"
    using v(2) b unfolding c by (intro redrawnI) (auto simp: redrawn_def cell_def)
  moreover have "with_scroll_from_cursor f vc = Ret (vc\<lparr>vc_scr_buf := b\<rparr>)"
    using v(1) b by (simp add: with_scroll_from_cursor_def)
  ultimately show ?thesis by blast
qed

lemma vc_insert_lines_redraws:
  assumes "vc_wf vc" "unat n < 2147483648"
  shows "\<exists>vc'. vc_insert_lines n vc = Ret vc' \<and>
    redrawn vc (scrolled_down (unat n) (unat (vc_cy vc)) (rows vc - 1) (cell vc)) vc'"
  unfolding vc_insert_lines_def
  by (rule with_scroll_from_cursor_redraws [OF assms(1)]) (simp add: count_down_eq [OF assms(2)] scroll_down_times)

lemma vc_delete_lines_redraws:
  assumes "vc_wf vc" "unat n < 2147483648"
  shows "\<exists>vc'. vc_delete_lines n vc = Ret vc' \<and>
    redrawn vc (scrolled_up (unat n) (unat (vc_cy vc)) (rows vc - 1) (cell vc)) vc'"
  unfolding vc_delete_lines_def
  by (rule with_scroll_from_cursor_redraws [OF assms(1)]) (simp add: count_down_eq [OF assms(2)] scroll_up_times)

section \<open>Clearing and moving characters\<close>

definition erased :: "nat \<Rightarrow> nat \<Rightarrow> virtual_console \<Rightarrow> nat \<Rightarrow> nat \<Rightarrow> u8" where
  "erased a b vc y x = (let i = y * cols vc + x in if a \<le> i \<and> i < b then 0 else cell vc y x)"

lemma vc_memset0_redraws:
  assumes "vc_sized vc" "unat p + unat n \<le> rows vc * cols vc"
  shows "\<exists>vc'. vc_memset0 p n vc = Ret vc' \<and> redrawn vc (erased (unat p) (unat p + unat n) vc) vc'"
proof -
  note z = vc_sizedD [OF assms(1)]
  have "redrawn vc (erased (unat p) (unat p + unat n) vc) (vc\<lparr>vc_scr_buf := zeroed (unat p) (unat n) (vc_scr_buf vc)\<rparr>)"
    using z cell_pos [of _ "rows vc" _ "cols vc"] by (intro redrawnI) (simp_all add: erased_def cell_def Let_def)
  then show ?thesis using vc_memset0_eq [of p n vc] assms(2) z by auto
qed

lemma vc_memmove_redraws:
  assumes "vc_sized vc" "unat d + unat n \<le> rows vc * cols vc" "unat sp + unat n \<le> rows vc * cols vc"
  shows "\<exists>vc'. vc_memmove d sp n vc = Ret vc' \<and> redrawn vc (cell vc') vc'"
  using vc_memmove_eq [of d n vc sp] assms vc_sizedD [OF assms(1)] by (auto simp: redrawn_def)

lemma redrawn_self: "redrawn vc g vc' \<Longrightarrow> redrawn vc (cell vc') vc'"
  by (simp add: redrawn_def)

lemma to_line_end:
  assumes "vc_wf vc"
  shows "unat (vc_width vc - vc_cx vc) = cols vc - unat (vc_cx vc)" "unat (vc_cx vc) < cols vc"
    "unat (SCR_POS vc) = unat (vc_cy vc) * cols vc + unat (vc_cx vc)"
    "unat (vc_cy vc) * cols vc + cols vc \<le> rows vc * cols vc"
    "unat (SCR_POS vc - vc_cx vc) = unat (vc_cy vc) * cols vc"
    "unat (vc_scr_size vc - SCR_POS vc) = rows vc * cols vc - unat (SCR_POS vc)"
    "unat (SCR_POS vc) < rows vc * cols vc"
proof -
  have wf: "vc_sized vc" "vc_cy vc < vc_height vc" "vc_cx vc < vc_width vc"
    using assms by (simp_all add: vc_wf_def vc_cursor_in_def)
  show x: "unat (vc_cx vc) < cols vc" using wf(3) by (simp add: unat_less)
  then show "unat (vc_width vc - vc_cx vc) = cols vc - unat (vc_cx vc)" by (simp add: unat_sub_small)
  show p: "unat (SCR_POS vc) = unat (vc_cy vc) * cols vc + unat (vc_cx vc)" using wf by (rule scr_pos)
  show "unat (vc_cy vc) * cols vc + cols vc \<le> rows vc * cols vc"
    using wf by (intro row_end) (simp add: unat_less)
  show "unat (SCR_POS vc - vc_cx vc) = unat (vc_cy vc) * cols vc" using p by (simp add: unat_sub_small)
  show lt: "unat (SCR_POS vc) < rows vc * cols vc" using scr_pos [OF wf] by simp
  then show "unat (vc_scr_size vc - SCR_POS vc) = rows vc * cols vc - unat (SCR_POS vc)"
    using vc_sizedD(4) [OF wf(1)] by (simp add: unat_sub_small)
qed

text \<open>The areas that the two erase sequences name.\<close>

definition screen_area :: "u32 \<Rightarrow> virtual_console \<Rightarrow> nat \<times> nat" where
  "screen_area par vc =
     (let pos = unat (vc_cy vc) * cols vc + unat (vc_cx vc) in
      if par = 0 then (pos, rows vc * cols vc) else if par = 1 then (0, pos)
      else if par = 2 then (0, rows vc * cols vc) else (0, 0))"

definition line_area :: "u32 \<Rightarrow> virtual_console \<Rightarrow> nat \<times> nat" where
  "line_area par vc =
     (let row = unat (vc_cy vc) * cols vc; pos = row + unat (vc_cx vc) in
      if par = 0 then (pos, row + cols vc) else if par = 1 then (row, pos)
      else if par = 2 then (row, row + cols vc) else (0, 0))"

lemma vc_clear_screen_redraws:
  assumes "vc_wf vc"
  shows "\<exists>vc'. vc_clear_screen par vc = Ret vc' \<and>
    redrawn vc (erased (fst (screen_area par vc)) (snd (screen_area par vc)) vc) vc'"
proof -
  note e = to_line_end [OF assms]
  have z: "vc_sized vc" using assms by (simp add: vc_wf_def)
  have "redrawn vc (erased 0 0 vc) vc" by (simp add: redrawn_def erased_def Let_def)
  then show ?thesis
    using vc_memset0_redraws [OF z, of "SCR_POS vc" "vc_scr_size vc - SCR_POS vc"]
      vc_memset0_redraws [OF z, of 0 "SCR_POS vc"] vc_memset0_redraws [OF z, of 0 "vc_scr_size vc"] e vc_sizedD(4) [OF z]
    by (auto simp: vc_clear_screen_def screen_area_def Let_def)
qed

lemma vc_clear_line_redraws:
  assumes "vc_wf vc"
  shows "\<exists>vc'. vc_clear_line par vc = Ret vc' \<and>
    redrawn vc (erased (fst (line_area par vc)) (snd (line_area par vc)) vc) vc'"
proof -
  note e = to_line_end [OF assms]
  have z: "vc_sized vc" using assms by (simp add: vc_wf_def)
  have "redrawn vc (erased 0 0 vc) vc" by (simp add: redrawn_def erased_def Let_def)
  then show ?thesis
    using vc_memset0_redraws [OF z, of "SCR_POS vc" "vc_width vc - vc_cx vc"]
      vc_memset0_redraws [OF z, of "SCR_POS vc - vc_cx vc" "vc_cx vc"]
      vc_memset0_redraws [OF z, of "SCR_POS vc - vc_cx vc" "vc_width vc"] e
    by (auto simp: vc_clear_line_def line_area_def Let_def)
qed

definition keeps_wf :: "virtual_console kres \<Rightarrow> bool" where
  "keeps_wf r \<longleftrightarrow> (\<exists>vc. r = Ret vc \<and> vc_wf vc)"

lemma keeps_wf_Ret [simp]: "keeps_wf (Ret vc) \<longleftrightarrow> vc_wf vc" "\<not> keeps_wf (Stop e)"
  by (simp_all add: keeps_wf_def)

lemma keeps_wf_redraws: "\<exists>vc'. r = Ret vc' \<and> redrawn vc g vc' \<Longrightarrow> vc_wf vc \<Longrightarrow> keeps_wf r"
  by (auto simp: keeps_wf_def redrawn_simps(9))

lemma keeps_wf_bind: "keeps_wf r \<Longrightarrow> (\<And>vc. vc_wf vc \<Longrightarrow> keeps_wf (f vc)) \<Longrightarrow> keeps_wf (bindk r f)"
  by (auto simp: keeps_wf_def)

lemma keeps_wf_memmove:
  assumes "vc_wf vc" "unat d + unat n \<le> rows vc * cols vc" "unat sp + unat n \<le> rows vc * cols vc"
    and "\<And>v. redrawn vc (cell v) v \<Longrightarrow> keeps_wf (f v)"
  shows "keeps_wf (bindk (vc_memmove d sp n vc) f)"
  using vc_memmove_redraws [of vc d n sp] assms by (auto simp: vc_wf_def)

lemma keeps_wf_memset:
  assumes "vc_wf vc" "unat p + unat n \<le> rows vc * cols vc"
  shows "keeps_wf (vc_memset0 p n vc)"
  using vc_memset0_redraws [of vc p n] assms by (intro keeps_wf_redraws) (auto simp: vc_wf_def)

lemma vc_insert_blanks_wf:
  assumes "vc_wf vc" "unat n < 2147483648"
  shows "keeps_wf (vc_insert_blanks n vc)"
proof -
  note e = to_line_end [OF assms(1)]
  have z: "rows vc * cols vc < 2147483648" using assms(1) by (simp add: vc_wf_def vc_sized_def)
  have cn: "unat (vc_cx vc + n) = unat (vc_cx vc) + unat n" and pn: "unat (SCR_POS vc + n) = unat (SCR_POS vc) + unat n"
    using e z assms(2) by (simp_all add: unat_add_small)
  show ?thesis
  proof (cases "vc_width vc \<le> vc_cx vc + n")
    case True
    then show ?thesis using e by (simp add: vc_insert_blanks_def Let_def keeps_wf_memset assms(1))
  next
    case False
    then have lt: "unat (vc_cx vc) + unat n < cols vc" using cn by (simp add: unat_le)
    have m: "unat (vc_width vc - vc_cx vc - n) = cols vc - unat (vc_cx vc) - unat n"
      using lt e by (subst unat_sub_small) simp_all
    have "keeps_wf (bindk (vc_memmove (SCR_POS vc + n) (SCR_POS vc) (vc_width vc - vc_cx vc - n) vc)
        (\<lambda>v. vc_memset0 (SCR_POS vc) n v))"
    proof (rule keeps_wf_memmove [OF assms(1)])
      fix v assume "redrawn vc (cell v) v"
      from redrawn_simps [OF this] show "keeps_wf (vc_memset0 (SCR_POS vc) n v)"
        using e lt assms(1) by (intro keeps_wf_memset) simp_all
    qed (use e lt m pn in simp_all)
    then show ?thesis using False by (simp add: vc_insert_blanks_def Let_def)
  qed
qed

lemma line_count:
  assumes "vc_wf vc" and "m = (if n > vc_width vc - vc_cx vc then vc_width vc - vc_cx vc else n)"
  shows "unat m \<le> cols vc - unat (vc_cx vc)" "unat (SCR_POS vc + m) = unat (SCR_POS vc) + unat m"
    "unat (vc_width vc - vc_cx vc - m) = cols vc - unat (vc_cx vc) - unat m"
proof -
  note e = to_line_end [OF assms(1)]
  have z: "rows vc * cols vc < 2147483648" using assms(1) by (simp add: vc_wf_def vc_sized_def)
  show m: "unat m \<le> cols vc - unat (vc_cx vc)" using assms(2) e by (simp add: unat_less not_less split: if_splits)
  then show "unat (SCR_POS vc + m) = unat (SCR_POS vc) + unat m" using e z by (subst unat_add_small) linarith+
  show "unat (vc_width vc - vc_cx vc - m) = cols vc - unat (vc_cx vc) - unat m"
    using m e by (subst unat_sub_small) simp_all
qed

lemma vc_clear_chars_wf:
  assumes "vc_wf vc"
  shows "keeps_wf (vc_clear_chars n vc)"
proof -
  define m where "m = (if n > vc_width vc - vc_cx vc then vc_width vc - vc_cx vc else n)"
  note c = line_count [OF assms m_def] and e = to_line_end [OF assms]
  have z: "rows vc * cols vc < 2147483648" using assms by (simp add: vc_wf_def vc_sized_def)
  have "unat m < 2147483648" using c(1) e z by linarith
  then have s: "\<not> sint m < 0" using sint_small [of m] by linarith
  have "vc_clear_chars n vc = vc_memset0 (SCR_POS vc) m vc"
    using s by (simp add: vc_clear_chars_def m_def Let_def)
  moreover have "keeps_wf (vc_memset0 (SCR_POS vc) m vc)"
    using c e by (intro keeps_wf_memset [OF assms]) linarith
  ultimately show ?thesis by simp
qed

lemma vc_delete_chars_wf:
  assumes "vc_wf vc"
  shows "keeps_wf (vc_delete_chars n vc)"
proof -
  define m where "m = (if n > vc_width vc - vc_cx vc then vc_width vc - vc_cx vc else n)"
  note c = line_count [OF assms m_def] and e = to_line_end [OF assms]
  have "keeps_wf (bindk (vc_memmove (SCR_POS vc) (SCR_POS vc + m) (vc_width vc - vc_cx vc - m) vc)
    (\<lambda>v. vc_memset0 (SCR_POS vc + m) (vc_width v - vc_cx v - m) v))"
  proof (rule keeps_wf_memmove [OF assms])
    fix v assume "redrawn vc (cell v) v"
    note r = redrawn_simps [OF this]
    show "keeps_wf (vc_memset0 (SCR_POS vc + m) (vc_width v - vc_cx v - m) v)"
      using c e assms r by (intro keeps_wf_memset) simp_all
  qed (use c e in simp_all)
  then show ?thesis by (simp add: vc_delete_chars_def m_def Let_def)
qed

section \<open>The cursor\<close>

lemma wf_cursor:
  assumes "vc_wf vc"
  shows "vc_wf (vc\<lparr>vc_cx := x\<rparr>) \<longleftrightarrow> x < vc_width vc" "vc_wf (vc\<lparr>vc_cy := y\<rparr>) \<longleftrightarrow> y < vc_height vc"
  using assms by (auto simp: vc_wf_def vc_sized_def vc_cursor_in_def vc_region_def vc_shown_def)

lemma wf_bounds:
  assumes "vc_wf vc"
  shows "vc_cx vc < vc_width vc" "vc_cy vc < vc_height vc" "0 < vc_width vc" "0 < vc_height vc"
    "vc_width vc - 1 < vc_width vc" "vc_height vc - 1 < vc_height vc"
  using assms
  by (auto simp: vc_wf_def vc_sized_def vc_cursor_in_def word_gt_0 unat_less unat_sub_small unat_eq_zero)

lemma wf_attrs [simp]:
  "vc_wf (upd_attr f vc) \<longleftrightarrow> vc_wf vc"
  "vc_wf (vc\<lparr>vc_calls := vc_calls vc @ [Call_set_attr a ty]\<rparr>) \<longleftrightarrow> vc_wf vc"
  by (simp_all add: vc_wf_def vc_sized_def vc_cursor_in_def vc_region_def vc_shown_def upd_attr_def display_def)

lemma dec_in: "n \<le> a \<Longrightarrow> a < b \<Longrightarrow> a - n < (b :: u32)"
  by (simp add: unat_less unat_le unat_sub_small)

lemma cursor_moves_wf:
  assumes "vc_wf vc"
  shows "vc_wf (cursor_up n vc)" "vc_wf (cursor_down n vc)" "vc_wf (cursor_left n vc)" "vc_wf (cursor_right n vc)"
    "vc_wf (cursor_to n m vc)" "vc_wf (vc_carriage_return vc)" "vc_wf (vc_rlinefeed vc)"
    "vc_wf (vc_save_state vc)" "vc_wf (vc_restore_state vc)"
proof -
  note b = wf_bounds [OF assms] and c = wf_cursor [OF assms]
  show "vc_wf (cursor_up n vc)" "vc_wf (cursor_down n vc)" "vc_wf (cursor_left n vc)" "vc_wf (cursor_right n vc)"
    using b by (simp_all add: cursor_up_def cursor_down_def cursor_left_def cursor_right_def c dec_in)
  have yx: "vc_wf (vc\<lparr>vc_cy := y, vc_cx := x\<rparr>)" if "y < vc_height vc" "x < vc_width vc" for x y
    using that wf_cursor(1) [of "vc\<lparr>vc_cy := y\<rparr>" x] c by simp
  have pred: "1 \<le> v \<Longrightarrow> v \<le> w \<Longrightarrow> v - 1 < w" for v w :: u32 by (simp add: unat_le unat_less unat_sub_small)
  show "vc_wf (cursor_to n m vc)" unfolding cursor_to_def by (rule yx) (use b pred in simp_all)
  show "vc_wf (vc_carriage_return vc)" using b by (simp add: vc_carriage_return_def c)
  show "vc_wf (vc_rlinefeed vc)" using b assms
    by (auto simp: vc_rlinefeed_def c intro!: dec_in simp: word_le_sub1 word_gt_0 unat_le) (metis One_nat_def Suc_leI unat_gt_0)
  show "vc_wf (vc_save_state vc)" "vc_wf (vc_restore_state vc)"
    using assms by (simp_all add: vc_save_state_def vc_restore_state_def vc_wf_def vc_sized_def vc_cursor_in_def vc_region_def vc_shown_def)
qed

lemma vc_linefeed_wf: "vc_wf vc \<Longrightarrow> keeps_wf (vc_linefeed vc)"
  using vc_scroll_up_redraws [of vc]
  by (auto simp: vc_linefeed_def wf_cursor vc_wf_def [of vc] intro: keeps_wf_redraws)

lemma call_set_attr_wf: "vcd \<noteq> None \<Longrightarrow> vc_wf vc \<Longrightarrow> keeps_wf (call_set_attr vcd ty vc)"
  by (simp add: call_set_attr_def)

lemma vc_printable_wf:
  assumes "vc_wf vc"
  shows "keeps_wf (vc_printable c vc)"
proof -
  let ?v = "vc\<lparr>vc_scr_buf := (vc_scr_buf vc)[unat (SCR_POS vc) := c]\<rparr>"
  have v: "on_scr (buf_put (unat (SCR_POS vc)) c) vc = Ret ?v"
    using to_line_end(7) [OF assms] assms by (simp add: on_scr_def buf_put_def vc_wf_def vc_sized_def)
  have wf: "vc_wf ?v" using assms by (simp add: vc_wf_def vc_sized_def vc_cursor_in_def vc_region_def vc_shown_def)
  note b = wf_bounds [OF wf] and c = wf_cursor [OF wf]
  have "keeps_wf (bindk (vc_scroll_up ?v) (\<lambda>vc. Ret (vc\<lparr>vc_cx := 0\<rparr>)))"
  proof (rule keeps_wf_bind)
    show "keeps_wf (vc_scroll_up ?v)"
      using vc_scroll_up_redraws [of ?v] wf by (intro keeps_wf_redraws) (auto simp: vc_wf_def)
  qed (simp add: wf_cursor wf_bounds)
  moreover have "keeps_wf (vc_linefeed (vc_carriage_return ?v))"
    using wf by (intro vc_linefeed_wf cursor_moves_wf)
  moreover have "vc_wf (?v\<lparr>vc_cx := vc_cx ?v + 1\<rparr>)" if "vc_cx ?v \<noteq> vc_width ?v - 1"
  proof -
    have "vc_cx vc + 1 \<noteq> vc_width vc" using that by (simp add: eq_diff_eq)
    then have "vc_cx vc + 1 < vc_width vc" using b(1) inc_le [of "vc_cx vc" "vc_width vc"] by simp
    then show ?thesis using c by simp
  qed
  ultimately show ?thesis unfolding vc_printable_def v by simp
qed

section \<open>Sequences\<close>

text \<open>
  The sequences that keep the console consistent: all but setting the scroll region, with a first parameter that is
  not negative as an \<^verbatim>\<open>int\<close>, and for attributes without the extended colours.
\<close>

definition csi_fine :: "u8 \<Rightarrow> nat \<Rightarrow> u32 list \<Rightarrow> bool" where
  "csi_fine c i par \<longleftrightarrow> c \<noteq> CH_r \<and> par ! 0 < 0x80000000 \<and>
     (c = CH_m \<longrightarrow> i < NPAR \<and> list_all (\<lambda>k. par ! k \<noteq> 38 \<and> par ! k \<noteq> 48) [0..<Suc i])"

lemma vc_attr_step_wf:
  assumes "vc_wf vc" "vcd \<noteq> None" "p < length par" "par ! p \<noteq> 38" "par ! p \<noteq> 48"
  shows "\<exists>vc'. vc_wf vc' \<and> (vc_attr_step vcd par p ty vc = Ret (Attr_return vc') \<or>
    (\<exists>ty'. vc_attr_step vcd par p ty vc = Ret (Attr_next (p + 1) ty' vc')))"
proof -
  have "keeps_wf (vc_set_default_attr vcd vc)"
    using assms by (simp add: vc_set_default_attr_def call_set_attr_wf)
  then obtain v where "vc_set_default_attr vcd vc = Ret v" "vc_wf v" by (auto simp: keeps_wf_def)
  then show ?thesis
    using assms by (simp add: vc_attr_step_def par_at_def split: option.split)
qed

lemma vc_set_attr_wf:
  assumes "vc_wf vc" "vcd \<noteq> None" "len \<le> length par" "p \<le> len" "len - p < fuel"
    and "\<And>k. p \<le> k \<Longrightarrow> k < len \<Longrightarrow> par ! k \<noteq> 38 \<and> par ! k \<noteq> 48"
  shows "keeps_wf (vc_set_attr_loop fuel vcd par len p ty vc)"
  using assms
proof (induction fuel arbitrary: p ty vc)
  case 0
  then show ?case by simp
next
  case (Suc k)
  show ?case
  proof (cases "len \<le> p")
    case True
    then show ?thesis using Suc.prems by (simp add: call_set_attr_wf)
  next
    case False
    then have p: "par ! p \<noteq> 38" "par ! p \<noteq> 48" "p < length par" using Suc.prems(3,6) by auto
    from vc_attr_step_wf [OF Suc.prems(1,2) p(3,1,2), of ty] obtain vc' where wf: "vc_wf vc'"
      and st: "vc_attr_step vcd par p ty vc = Ret (Attr_return vc') \<or>
        (\<exists>ty'. vc_attr_step vcd par p ty vc = Ret (Attr_next (p + 1) ty' vc'))" by blast
    have "keeps_wf (vc_set_attr_loop k vcd par len (p + 1) ty' vc')" for ty'
      using Suc.prems False by (intro Suc.IH [OF wf]) auto
    then show ?thesis using st wf False by auto
  qed
qed

lemma csi_command_wf:
  assumes "vc_wf vc" "vcd \<noteq> None" "length par = NPAR" "NPAR < fuel" "csi_fine c i par"
  shows "keeps_wf (csi_command fuel vcd c i par vc)"
proof -
  note wf = assms(1)
  have n: "unat (par ! 0) < 2147483648" using assms(5) by (simp add: csi_fine_def unat_less)
  have "keeps_wf (vc_clear_screen (par ! 0) vc)" "keeps_wf (vc_clear_line (par ! 0) vc)"
    "keeps_wf (vc_insert_lines (par ! 0) vc)" "keeps_wf (vc_delete_lines (par ! 0) vc)"
    using vc_clear_screen_redraws [OF wf] vc_clear_line_redraws [OF wf] vc_insert_lines_redraws [OF wf n]
      vc_delete_lines_redraws [OF wf n] wf by (blast intro: keeps_wf_redraws)+
  moreover have "keeps_wf (vc_set_attr fuel vcd par (i + 1) vc)" if "c = CH_m"
    unfolding vc_set_attr_def using that assms by (intro vc_set_attr_wf) (auto simp: csi_fine_def list_all_iff less_Suc_eq)
  moreover have "c \<noteq> CH_r" using assms(5) by (simp add: csi_fine_def)
  ultimately show ?thesis
    unfolding csi_command_def Let_def
    using wf cursor_moves_wf [OF wf] wf_cursor [OF wf] n
    by (simp add: cursor_moves_wf vc_insert_blanks_wf vc_clear_chars_wf vc_delete_chars_wf)
qed

text \<open>
  The last position of the character or sequence at \<open>p\<close>, when it is complete and one of the sequences above. The
  sequence \<^verbatim>\<open>ESC H\<close> is not: it can put the cursor after the last column.
\<close>

definition seq_end :: "u8 list \<Rightarrow> nat \<Rightarrow> nat option" where
  "seq_end buf p =
     (if length buf \<le> p then None
      else if buf ! p \<noteq> CH_ESC then Some p
      else if length buf \<le> p + 1 \<or> buf ! (p + 1) = CH_H then None
      else if buf ! (p + 1) \<noteq> CH_bracket then Some (p + 1)
      else case csi_params buf (p + 2) 0 (replicate NPAR 0) of
             Stop e \<Rightarrow> None
           | Ret (q, i, par) \<Rightarrow> if csi_fine (buf ! q) i par then Some q else None)"

lemma seq_end_position: "seq_end buf p = Some q \<Longrightarrow> p \<le> q"
  by (auto simp: seq_end_def split: if_splits kres.splits dest: csi_params_position)

lemma vc_char_wf:
  assumes "vc_wf vc" "vcd \<noteq> None" "NPAR < fuel" "seq_end buf p = Some q"
  shows "\<exists>vc'. vc_char fuel vcd buf p vc = Ret (q, vc') \<and> vc_wf vc'"
proof -
  note m = cursor_moves_wf [OF assms(1)]
  have p: "p < length buf" using assms(4) by (simp add: seq_end_def split: if_splits)
  have lf: "\<exists>vc'. vc_linefeed v = Ret vc' \<and> vc_wf vc'" if "vc_wf v" for v
    using vc_linefeed_wf [OF that] by (simp add: keeps_wf_def)
  show ?thesis
  proof (cases "buf ! p = CH_ESC")
    case False
    then have q: "q = p" using assms(4) p by (simp add: seq_end_def)
    obtain v where v: "vc_printable (buf ! p) vc = Ret v" "vc_wf v"
      using vc_printable_wf [OF assms(1), of "buf ! p"] by (auto simp: keeps_wf_def)
    have "vc_cx vc \<noteq> 0 \<Longrightarrow> vc_wf (vc\<lparr>vc_cx := vc_cx vc - 1\<rparr>)"
      using wf_bounds(1) [OF assms(1)] wf_cursor(1) [OF assms(1)] by (simp add: dec_in unat_le unat_eq_0 Suc_le_eq unat_gt_0)
    then show ?thesis using False p q v m lf [OF assms(1)] assms(1) by (auto simp: vc_char_def char_at_def)
  next
    case True
    then have p1: "p + 1 < length buf" "buf ! (p + 1) \<noteq> CH_H" using assms(4) p by (auto simp: seq_end_def split: if_splits)
    show ?thesis
    proof (cases "buf ! (p + 1) = CH_bracket")
      case False
      then have "q = p + 1" using assms(4) p p1 True by (simp add: seq_end_def)
      then show ?thesis using True False p p1 m lf [OF assms(1)] assms(1)
        by (auto simp: vc_char_def char_at_def vc_start_escape_def Let_def cursor_moves_wf)
    next
      case csi: True
      then obtain i par where c: "csi_params buf (p + 2) 0 (replicate NPAR 0) = Ret (q, i, par)" "csi_fine (buf ! q) i par"
        using assms(4) p p1 True by (auto simp: seq_end_def split: kres.splits if_splits)
      have "length par = NPAR" using csi_params_position [OF c(1)] by simp
      then obtain v where "csi_command fuel vcd (buf ! q) i par vc = Ret v" "vc_wf v"
        using csi_command_wf [OF assms(1,2) _ assms(3) c(2)] by (auto simp: keeps_wf_def)
      then show ?thesis using True csi p p1 c
        by (simp add: vc_char_def char_at_def vc_start_escape_def vc_csi_escape_def Let_def)
    qed
  qed
qed

text \<open>Output that ends at \<open>e\<close> and consists of such characters and sequences.\<close>

function fine_output :: "u8 list \<Rightarrow> nat \<Rightarrow> nat \<Rightarrow> bool" where
  "fine_output buf e p \<longleftrightarrow>
     (if e \<le> p then p = e
      else case seq_end buf p of None \<Rightarrow> False | Some q \<Rightarrow> fine_output buf e (q + 1))"
  by pat_completeness auto
termination
  by (relation "measure (\<lambda>(buf, e, p). e - p)") (auto dest: seq_end_position)

declare fine_output.simps [simp del]

lemma vc_write_loop_wf:
  assumes "fine_output buf e p" "vc_wf vc" "vcd \<noteq> None" "NPAR < fuel"
  shows "keeps_wf (vc_write_loop fuel vcd buf (int e - int p) p vc)"
  using assms
proof (induction buf e p arbitrary: vc rule: fine_output.induct)
  case (1 buf e p)
  show ?case
  proof (cases "p = e")
    case True
    then show ?thesis using "1.prems" by (simp add: vc_write_loop.simps)
  next
    case False
    then obtain q where q: "\<not> e \<le> p" "seq_end buf p = Some q" "fine_output buf e (q + 1)"
      using "1.prems"(1) by (auto simp: fine_output.simps [of buf e p] split: if_splits option.splits)
    obtain v where v: "vc_char fuel vcd buf p vc = Ret (q, v)" "vc_wf v"
      using vc_char_wf [OF "1.prems"(2,3,4) q(2)] by blast
    have "keeps_wf (vc_write_loop fuel vcd buf (int e - int (q + 1)) (q + 1) v)"
      using "1.IH" [OF q(1,2,3) v(2)] "1.prems" by blast
    moreover have "vc_write_loop fuel vcd buf (int e - int p) p vc = vc_write_loop fuel vcd buf (int e - int (q + 1)) (q + 1) v"
      using q v by (subst vc_write_loop.simps) (simp add: algebra_simps)
    ultimately show ?thesis by simp
  qed
qed

section \<open>The display\<close>

lemma last_nonzero:
  fixes b :: "u8 list"
  assumes "n < 4294967296"
  defines "pos \<equiv> fold (\<lambda>p pos. if b ! p \<noteq> 0 then of_nat p else pos) [0..<n] (0 :: u32)"
  shows "unat pos \<le> n - 1 \<and> (\<forall>i<n. unat pos < i \<longrightarrow> b ! i = 0)"
  using assms(1) unfolding pos_def
proof (induction n)
  case (Suc n)
  then show ?case using unat_of_nat_u32 [of n] by (auto simp: less_Suc_eq)
qed simp

lemma vc_calc_last_pos_props:
  assumes "vc_sized vc"
  defines "n \<equiv> unat (vc_new_last_pos (vc_calc_last_pos vc))"
  shows "n < rows vc * cols vc" "\<And>i. n < i \<Longrightarrow> i < rows vc * cols vc \<Longrightarrow> vc_scr_buf vc ! i = 0"
proof -
  note z = vc_sizedD [OF assms(1)]
  have "0 < rows vc * cols vc" using z by simp
  moreover have "rows vc * cols vc < 4294967296" using z by linarith
  ultimately have "0 < rows vc * cols vc" "n \<le> rows vc * cols vc - 1"
    "\<forall>i<rows vc * cols vc. n < i \<longrightarrow> vc_scr_buf vc ! i = 0"
    using last_nonzero [of "rows vc * cols vc" "vc_scr_buf vc"] z(4) by (auto simp: n_def vc_calc_last_pos_def)
  then show "n < rows vc * cols vc" "\<And>i. n < i \<Longrightarrow> i < rows vc * cols vc \<Longrightarrow> vc_scr_buf vc ! i = 0"
    by (linarith, blast)
qed

definition flush_calls :: "nat \<Rightarrow> virtual_console \<Rightarrow> vc_call list" where
  "flush_calls n vc = map (flush_call vc) (filter (\<lambda>i. vc_scr_buf vc ! i \<noteq> vc_cur_buf vc ! i) [0..<n])"

definition flushed :: "nat \<Rightarrow> virtual_console \<Rightarrow> virtual_console" where
  "flushed n vc = vc\<lparr>vc_cur_buf := take n (vc_scr_buf vc) @ drop n (vc_cur_buf vc),
     vc_calls := vc_calls vc @ flush_calls n vc\<rparr>"

lemma flush_loop:
  assumes "n \<le> length (vc_scr_buf vc)" "n \<le> length (vc_cur_buf vc)" "vcd \<noteq> None" "vc_width vc \<noteq> 0"
  shows "foldk (vc_flush_step vcd) [0..<n] vc = Ret (flushed n vc)"
  using assms
proof (induction n)
  case 0
  show ?case by (simp add: flushed_def flush_calls_def)
next
  case (Suc n)
  have cur: "take (Suc n) (vc_scr_buf vc) @ drop (Suc n) (vc_cur_buf vc)
    = (take n (vc_scr_buf vc) @ drop n (vc_cur_buf vc))[n := vc_scr_buf vc ! n]"
    using Suc.prems by (intro nth_equalityI) (auto simp: nth_append nth_list_update)
  have at: "(take n (vc_scr_buf vc) @ drop n (vc_cur_buf vc)) ! n = vc_cur_buf vc ! n"
    using Suc.prems by (simp add: nth_append)
  have fc: "flush_call (flushed n vc) n = flush_call vc n" by (simp add: flush_call_def flushed_def Let_def)
  have same: "(take n (vc_scr_buf vc) @ drop n (vc_cur_buf vc))[n := vc_scr_buf vc ! n]
      = take n (vc_scr_buf vc) @ drop n (vc_cur_buf vc)" if "vc_scr_buf vc ! n = vc_cur_buf vc ! n"
    using that at by (metis list_update_id)
  have "vc_flush_step vcd n (flushed n vc) = Ret (flushed (Suc n) vc)"
    using Suc.prems at fc same unfolding vc_flush_step_def
    by (auto simp: flushed_def flush_calls_def cur)
  then show ?case using Suc by (simp add: foldk_append)
qed

lemma div_mod_pos:
  assumes "vc_sized vc" "p < rows vc * cols vc"
  shows "unat (of_nat p mod vc_width vc) = p mod cols vc" "unat (of_nat p div vc_width vc) = p div cols vc"
proof -
  have "p < 4294967296" using assms vc_sizedD(3) [OF assms(1)] by linarith
  then have "unat (of_nat p :: u32) = p" by (rule unat_of_nat_u32)
  then show "unat (of_nat p mod vc_width vc) = p mod cols vc" "unat (of_nat p div vc_width vc) = p div cols vc"
    by (simp_all add: unat_mod unat_div)
qed

lemma display_flush_call:
  assumes "vc_sized vc" "p < rows vc * cols vc" "y < rows vc" "x < cols vc"
  shows "display_call (flush_call vc p) g y x = (if y * cols vc + x = p then vc_scr_buf vc ! p else g y x)"
proof -
  have "y * cols vc + x = p \<longleftrightarrow> y = p div cols vc \<and> x = p mod cols vc"
    using assms(4) by auto
  then show ?thesis by (auto simp: flush_call_def Let_def div_mod_pos [OF assms(1,2)])
qed

lemma nth_take_drop:
  "n \<le> length a \<Longrightarrow> length a = length b \<Longrightarrow> i < length b \<Longrightarrow> (take n a @ drop n b) ! i = (if i < n then a ! i else b ! i)"
  by (auto simp: nth_append)

lemma display_flush:
  assumes "vc_sized vc" "n \<le> rows vc * cols vc" "y < rows vc" "x < cols vc"
    and "\<forall>y<rows vc. \<forall>x<cols vc. g y x = vc_cur_buf vc ! (y * cols vc + x)"
  shows "fold display_call (flush_calls n vc) g y x =
    (take n (vc_scr_buf vc) @ drop n (vc_cur_buf vc)) ! (y * cols vc + x)"
  using assms(2)
proof (induction n)
  case 0
  show ?case using assms by (simp add: flush_calls_def)
next
  case (Suc n)
  note z = vc_sizedD [OF assms(1)]
  let ?i = "y * cols vc + x"
  have i: "?i < rows vc * cols vc" using assms(3,4) by (rule cell_pos)
  have n: "n < rows vc * cols vc" using Suc.prems by simp
  show ?case
    using Suc i n z display_flush_call [OF assms(1) n assms(3,4)]
    by (auto simp: flush_calls_def nth_take_drop less_Suc_eq simp del: take_Suc drop_Suc)
qed

text \<open>Flushing makes the display show the screen, and keeps the invariant.\<close>

lemma vc_flush_result:
  assumes "vc_wf vc" "vcd \<noteq> None"
  shows "\<exists>vc'. vc_flush vcd (vc_calc_last_pos vc) = Ret vc' \<and> vc_wf vc' \<and> vc_cur_buf vc' = vc_scr_buf vc' \<and>
    vc_scr_buf vc' = vc_scr_buf vc \<and> vc_width vc' = vc_width vc \<and> vc_height vc' = vc_height vc \<and>
    (\<exists>n\<le>rows vc * cols vc. vc_calls vc' = vc_calls vc @ flush_calls n vc \<and>
       take n (vc_scr_buf vc) @ drop n (vc_cur_buf vc) = vc_scr_buf vc)"
proof -
  define v where "v = vc_calc_last_pos vc"
  define m where "m = (if vc_new_last_pos v > vc_last_pos v then vc_new_last_pos v else vc_last_pos v)"
  define u where "u = v\<lparr>vc_last_pos := m\<rparr>"
  have sz: "vc_sized vc" and sh: "vc_shown vc" using assms(1) by (simp_all add: vc_wf_def)
  note z = vc_sizedD [OF sz] and c = vc_calc_last_pos_props [OF sz, folded v_def]
  have vv: "vc_width v = vc_width vc" "vc_height v = vc_height vc" "vc_scr_buf v = vc_scr_buf vc"
    "vc_cur_buf v = vc_cur_buf vc" "vc_last_pos v = vc_last_pos vc" "vc_calls v = vc_calls vc" "vc_scr_size v = vc_scr_size vc"
    by (simp_all add: v_def vc_calc_last_pos_def)
  have lp: "unat (vc_last_pos vc) < rows vc * cols vc" using sh z(4) by (simp add: vc_shown_def unat_less)
  have m: "unat m < rows vc * cols vc" "unat (vc_last_pos vc) \<le> unat m" "unat (vc_new_last_pos v) \<le> unat m"
    using lp c(1) by (auto simp: m_def vv unat_less)
  let ?n = "Suc (unat m)"
  have w0: "vc_width vc \<noteq> 0" using z(1) by auto
  have loop: "foldk (vc_flush_step vcd) [0..<?n] u = Ret (flushed ?n u)"
    using m z w0 assms(2) by (intro flush_loop) (simp_all add: u_def vv)
  have cur: "take ?n (vc_scr_buf vc) @ drop ?n (vc_cur_buf vc) = vc_scr_buf vc"
    using sh z m c(2) by (intro nth_equalityI) (auto simp: nth_append vc_shown_def)
  define r where "r = (flushed ?n u)\<lparr>vc_last_pos := if vc_new_last_pos v < m then vc_new_last_pos v else m\<rparr>"
  have rr: "vc_width r = vc_width vc" "vc_height r = vc_height vc" "vc_scr_buf r = vc_scr_buf vc" "vc_cur_buf r = vc_scr_buf vc"
    "vc_scr_size r = vc_scr_size vc" "vc_calls r = vc_calls vc @ flush_calls ?n u" "vc_last_pos r = vc_new_last_pos v"
    using cur m by (auto simp: r_def flushed_def u_def vv unat_less unat_le word_unat_eq_iff)
  have "vc_sized u" using sz by (simp add: u_def vv vc_sized_def)
  then have disp: "display (vc_calls r) y x = vc_cur_buf r ! (y * cols vc + x)" if "y < rows vc" "x < cols vc" for y x
    using that display_flush [of u ?n y x "display (vc_calls vc)"] sh m cur
    by (simp add: u_def vv rr display_def vc_shown_def)
  have "vc_shown r" using disp c z by (simp add: vc_shown_def rr unat_less)
  moreover have "vc_sized r" using sz by (simp add: vc_sized_def rr)
  moreover have "vc_cursor_in r" "vc_region r"
    using assms(1) by (simp_all add: r_def flushed_def u_def v_def vc_calc_last_pos_def vc_wf_def vc_cursor_in_def vc_region_def)
  ultimately have "vc_wf r" by (simp add: vc_wf_def)
  moreover have "vc_flush vcd v = Ret r"
  proof -
    have "(if vc_new_last_pos v > vc_last_pos v then v\<lparr>vc_last_pos := vc_new_last_pos v\<rparr> else v) = u"
      by (cases v) (simp add: u_def m_def)
    moreover have "vc_last_pos u = m" "vc_last_pos (flushed ?n u) = m" "vc_new_last_pos (flushed ?n u) = vc_new_last_pos v"
      by (simp_all add: u_def flushed_def)
    moreover have "flushed ?n u = (flushed ?n u)\<lparr>vc_last_pos := m\<rparr>" by (simp add: flushed_def u_def)
    ultimately show ?thesis using loop by (simp add: vc_flush_def Let_def r_def del: upt_Suc)
  qed
  moreover have "flush_calls ?n u = flush_calls ?n vc"
    by (simp add: flush_calls_def flush_call_def u_def vv Let_def)
  moreover have "?n \<le> rows vc * cols vc" using m(1) by simp
  ultimately show ?thesis using rr cur by (auto simp: v_def simp del: upt_Suc)
qed

lemma vc_flush_shows:
  assumes "vc_wf vc" "vcd \<noteq> None"
  shows "\<exists>vc'. vc_flush vcd (vc_calc_last_pos vc) = Ret vc' \<and> vc_wf vc' \<and> vc_cur_buf vc' = vc_scr_buf vc' \<and>
    vc_scr_buf vc' = vc_scr_buf vc \<and> vc_width vc' = vc_width vc \<and> vc_height vc' = vc_height vc"
  using vc_flush_result [OF assms] by blast

end
