(* ===== verification/Console_Output.thy ===== *)
theory Console_Output
  imports Console_Props
begin

section \<open>Output\<close>

text \<open>
  C14. Output that consists of characters and complete sequences (without the scroll region, the tab stop and the
  extended colours) is written without a fault. The console it leaves is well formed again: cursor, saved cursor and
  scroll region lie on the screen and the buffers have its size. The second buffer equals the screen, and the calls of
  the low level driver have brought the display to show it.
\<close>

theorem vc_output_shows_screen:
  assumes "vc_wf vc" "fine_output buf tqt tqh" "vcd \<noteq> None" "NPAR < fuel" "tqh \<le> tqt"
  shows "\<exists>vc'. vc_output fuel vcd buf tqh tqt vc = Ret (int tqt - int tqh, vc') \<and> vc_wf vc' \<and>
    vc_cur_buf vc' = vc_scr_buf vc' \<and>
    (\<forall>y<rows vc'. \<forall>x<cols vc'. display (vc_calls vc') y x = cell vc' y x)"
proof -
  obtain v where v: "vc_write_loop fuel vcd buf (int tqt - int tqh) tqh vc = Ret v" "vc_wf v"
    using vc_write_loop_wf [OF assms(2,1,3,4)] by (auto simp: keeps_wf_def)
  obtain u where u: "vc_flush vcd (vc_calc_last_pos v) = Ret u" "vc_wf u" "vc_cur_buf u = vc_scr_buf u"
    using vc_flush_shows [OF v(2) assms(3)] by blast
  have "\<forall>y<rows u. \<forall>x<cols u. display (vc_calls u) y x = cell u y x"
    using u by (simp add: vc_wf_def vc_shown_def cell_def)
  then show ?thesis using v u assms(5) by (simp add: vc_output_def)
qed

definition demo_vc :: virtual_console where
  "demo_vc = \<lparr>vc_cx = 0, vc_cy = 0, vc_saved_cx = 0, vc_saved_cy = 0, vc_last_pos = 0, vc_new_last_pos = 0,
     vc_width = 4, vc_height = 2, vc_scr_buf = replicate 8 0, vc_cur_buf = replicate 8 0, vc_scr_size = 8,
     vc_scroll_top = 0, vc_scroll_bottom = 1,
     vc_attrs = \<lparr>a_attr = 0, fg_rgb = 0, bg_rgb = 0, fg_indexed = ANSI_FG_DEFAULT, bg_indexed = ANSI_BG_DEFAULT\<rparr>,
     vc_mutex = mutex_init, vc_calls = []\<rparr>"

lemma demo_vc_wf: "vc_wf demo_vc"
  by (simp add: vc_wf_def vc_sized_def vc_cursor_in_def vc_region_def vc_shown_def demo_vc_def display_def)

text \<open>The bytes of \<^verbatim>\<open>a\n\033[1;2Hb\<close>.\<close>

definition demo_out :: "u8 list" where
  "demo_out = [97, 10, 27, 91, 49, 59, 50, 72, 98]"

lemma demo_out_fine: "fine_output demo_out 9 0"
  by code_simp

theorem vc_output_shows_screen_witness:
  "\<exists>vc'. vc_output 17 (Some \<lparr>vcd_dimensions = (4, 2)\<rparr>) demo_out 0 9 demo_vc = Ret (9, vc') \<and> vc_wf vc' \<and>
    vc_cur_buf vc' = vc_scr_buf vc' \<and>
    (\<forall>y<rows vc'. \<forall>x<cols vc'. display (vc_calls vc') y x = cell vc' y x)"
  using vc_output_shows_screen [OF demo_vc_wf demo_out_fine, of "Some \<lparr>vcd_dimensions = (4, 2)\<rparr>" 17] by simp

text \<open>The \<^verbatim>\<open>b\<close> of that output lands in the second column of the first row, where the display shows it.\<close>

lemma demo_out_calls:
  "vc_output 17 (Some \<lparr>vcd_dimensions = (4, 2)\<rparr>) demo_out 0 9 demo_vc =
     Ret (9, demo_vc\<lparr>vc_cx := 2, vc_scr_buf := [97, 98, 0, 0, 0, 0, 0, 0], vc_cur_buf := [97, 98, 0, 0, 0, 0, 0, 0],
       vc_last_pos := 1, vc_new_last_pos := 1, vc_calls := [Call_putc 0 0 97, Call_putc 1 0 98]\<rparr>)"
  by code_simp

section \<open>Text\<close>

text \<open>Output without an escape character is always complete.\<close>

lemma fine_plain:
  assumes "e \<le> length buf" "p \<le> e" "\<And>k. p \<le> k \<Longrightarrow> k < e \<Longrightarrow> buf ! k \<noteq> CH_ESC"
  shows "fine_output buf e p"
  using assms
proof (induction "e - p" arbitrary: p)
  case 0
  then show ?case by (simp add: fine_output.simps)
next
  case (Suc d)
  have "seq_end buf p = Some p" using Suc.prems(1,2) Suc.prems(3) [of p] Suc.hyps(2) by (simp add: seq_end_def)
  moreover have "fine_output buf e (p + 1)" using Suc by (intro Suc.hyps) auto
  ultimately show ?case using Suc.hyps(2) by (subst fine_output.simps) auto
qed

lemma vc_printable_in_line:
  assumes "vc_wf vc" "unat (vc_cx vc) + 1 < cols vc"
  shows "vc_printable c vc =
    Ret (vc\<lparr>vc_cx := vc_cx vc + 1, vc_scr_buf := (vc_scr_buf vc)[unat (SCR_POS vc) := c]\<rparr>)"
proof -
  have "vc_cx vc \<noteq> vc_width vc - 1"
    using assms(2) unat_sub_small [of 1 "vc_width vc"] by auto
  then show ?thesis
    using to_line_end(7) [OF assms(1)] assms(1)
    by (simp add: vc_printable_def on_scr_def buf_put_def vc_wf_def vc_sized_def)
qed

lemma wf_put:
  "vc_wf (vc\<lparr>vc_scr_buf := (vc_scr_buf vc)[i := c]\<rparr>) \<longleftrightarrow> vc_wf vc"
  by (simp add: vc_wf_def vc_sized_def vc_cursor_in_def vc_region_def vc_shown_def)

lemma put_step:
  fixes c :: u8
  assumes "vc_wf vc" "unat (vc_cx vc) + 1 < cols vc"
  defines "v \<equiv> vc\<lparr>vc_cx := vc_cx vc + 1, vc_scr_buf := (vc_scr_buf vc)[unat (SCR_POS vc) := c]\<rparr>"
  shows "vc_wf v" "unat (vc_cx v) = unat (vc_cx vc) + 1" "unat (SCR_POS v) = unat (SCR_POS vc) + 1"
proof -
  have x: "unat (vc_cx vc + 1) = unat (vc_cx vc) + 1"
    using assms(2) unat_lt_2p32 [of "vc_width vc"] by (subst unat_add_small) simp_all
  then show "unat (vc_cx v) = unat (vc_cx vc) + 1" by (simp add: v_def)
  have "vc_wf (vc\<lparr>vc_cx := vc_cx vc + 1\<rparr>)" using assms(1,2) x by (simp add: wf_cursor unat_less)
  then show wf: "vc_wf v"
    using wf_put [of "vc\<lparr>vc_cx := vc_cx vc + 1\<rparr>" "unat (SCR_POS vc)" c] by (simp add: v_def)
  show "unat (SCR_POS v) = unat (SCR_POS vc) + 1"
    using to_line_end(3) [OF wf] to_line_end(3) [OF assms(1)] x by (simp add: v_def)
qed

text \<open>
  Text without control characters that fits into the rest of the line is copied to the screen at the cursor, which
  moves past it; nothing else of the console changes.
\<close>

lemma vc_write_loop_text:
  assumes "vc_wf vc" "unat (vc_cx vc) + length ts < cols vc"
    and "list_all (\<lambda>c. c \<notin> {CH_CR, CH_LF, CH_BS, CH_ESC}) ts"
  shows "vc_write_loop fuel vcd (pre @ ts @ post) (int (length ts)) (length pre) vc =
    Ret (vc\<lparr>vc_cx := vc_cx vc + of_nat (length ts),
             vc_scr_buf := take (unat (SCR_POS vc)) (vc_scr_buf vc) @ ts @
               drop (unat (SCR_POS vc) + length ts) (vc_scr_buf vc)\<rparr>)"
  using assms
proof (induction ts arbitrary: pre vc)
  case Nil
  then show ?case by (cases vc) (simp add: vc_write_loop.simps)
next
  case (Cons c ts)
  let ?p = "unat (SCR_POS vc)"
  let ?v = "vc\<lparr>vc_cx := vc_cx vc + 1, vc_scr_buf := (vc_scr_buf vc)[?p := c]\<rparr>"
  have x: "unat (vc_cx vc) + 1 < cols vc" using Cons.prems(2) by simp
  note st = put_step [OF Cons.prems(1) x, of c]
  have "vc_char fuel vcd (pre @ (c # ts) @ post) (length pre) vc = Ret (length pre, ?v)"
    using Cons.prems(3) vc_printable_in_line [OF Cons.prems(1) x, of c] by (simp add: vc_char_def char_at_def)
  then have "vc_write_loop fuel vcd (pre @ (c # ts) @ post) (int (length (c # ts))) (length pre) vc =
      vc_write_loop fuel vcd ((pre @ [c]) @ ts @ post) (int (length ts)) (length (pre @ [c])) ?v"
    by (subst vc_write_loop.simps) simp
  also have "\<dots> = Ret (?v\<lparr>vc_cx := vc_cx ?v + of_nat (length ts),
      vc_scr_buf := take (unat (SCR_POS ?v)) (vc_scr_buf ?v) @ ts @ drop (unat (SCR_POS ?v) + length ts) (vc_scr_buf ?v)\<rparr>)"
    using Cons.prems st by (intro Cons.IH) simp_all
  also have "take (unat (SCR_POS ?v)) (vc_scr_buf ?v) @ ts @ drop (unat (SCR_POS ?v) + length ts) (vc_scr_buf ?v)
      = take ?p (vc_scr_buf vc) @ (c # ts) @ drop (?p + length (c # ts)) (vc_scr_buf vc)"
  proof -
    have "?p < length (vc_scr_buf vc)"
      using to_line_end(7) [OF Cons.prems(1)] Cons.prems(1) by (simp add: vc_wf_def vc_sized_def)
    then show ?thesis using st(3) by (simp add: take_Suc_conv_app_nth)
  qed
  finally show ?case by (simp add: add.assoc)
qed

section \<open>Lines\<close>

text \<open>
  Inserting \<open>n\<close> lines moves the lines from the cursor down by \<open>n\<close>, loses those that leave the screen and puts
  empty lines in their place; deleting \<open>n\<close> lines moves the lines below them up and leaves empty lines at the bottom.
  Lines above the cursor, the cursor itself and the scroll region stay.
\<close>

theorem vc_lines_shift:
  assumes "vc_wf vc" "unat n < 2147483648"
  shows "\<exists>vi vd. vc_insert_lines n vc = Ret vi \<and> vc_delete_lines n vc = Ret vd \<and> vc_wf vi \<and> vc_wf vd \<and>
    vi = vc\<lparr>vc_scr_buf := vc_scr_buf vi\<rparr> \<and> vd = vc\<lparr>vc_scr_buf := vc_scr_buf vd\<rparr> \<and>
    (\<forall>y<rows vc. \<forall>x<cols vc.
       cell vi y x = (if y < unat (vc_cy vc) then cell vc y x else if y < unat (vc_cy vc) + unat n then 0 else cell vc (y - unat n) x) \<and>
       cell vd y x = (if y < unat (vc_cy vc) then cell vc y x else if y + unat n < rows vc then cell vc (y + unat n) x else 0))"
proof -
  obtain vi where i: "vc_insert_lines n vc = Ret vi"
    "redrawn vc (scrolled_down (unat n) (unat (vc_cy vc)) (rows vc - 1) (cell vc)) vi"
    using vc_insert_lines_redraws [OF assms] by blast
  obtain vd where d: "vc_delete_lines n vc = Ret vd"
    "redrawn vc (scrolled_up (unat n) (unat (vc_cy vc)) (rows vc - 1) (cell vc)) vd"
    using vc_delete_lines_redraws [OF assms] by blast
  have "vc_wf vi" "vc_wf vd" using assms(1) redrawn_simps(9) [OF i(2)] redrawn_simps(9) [OF d(2)] by simp_all
  moreover have "vi = vc\<lparr>vc_scr_buf := vc_scr_buf vi\<rparr>" "vd = vc\<lparr>vc_scr_buf := vc_scr_buf vd\<rparr>"
    using i(2) d(2) unfolding redrawn_def by blast+
  moreover have "cell vi y x = (if y < unat (vc_cy vc) then cell vc y x else if y < unat (vc_cy vc) + unat n then 0
      else cell vc (y - unat n) x) \<and>
    cell vd y x = (if y < unat (vc_cy vc) then cell vc y x else if y + unat n < rows vc then cell vc (y + unat n) x else 0)"
    if "y < rows vc" "x < cols vc" for y x
    using that redrawn_cells [OF i(2) that] redrawn_cells [OF d(2) that]
    by (auto simp: scrolled_down_def scrolled_up_def)
  ultimately show ?thesis using i(1) d(1) by blast
qed

theorem vc_lines_shift_witness:
  "\<exists>vi vd. vc_insert_lines 1 demo_vc = Ret vi \<and> vc_delete_lines 1 demo_vc = Ret vd \<and> vc_wf vi \<and> vc_wf vd"
  using vc_lines_shift [OF demo_vc_wf, of 1] by auto

section \<open>Faults\<close>

text \<open>
  A queue that ends inside a sequence is not written to its end: once the count is negative, the loop only ends with an
  access outside the buffer of the queue or the screen.
\<close>

lemma vc_write_loop_runs_away:
  assumes "nr < 0"
  shows "\<not> returns (vc_write_loop fuel vcd buf nr p vc)"
  using assms
proof (induction fuel vcd buf nr p vc rule: vc_write_loop.induct)
  case (1 fuel vcd buf nr p vc)
  show ?case
  proof (cases "vc_char fuel vcd buf p vc")
    case (Ret x)
    obtain q v where x: "x = (q, v)" by (cases x)
    have "p \<le> q" using vc_char_position Ret x by blast
    then have "nr - 1 - (int q - int p) < 0" using "1.prems" by linarith
    then have "\<not> returns (vc_write_loop fuel vcd buf (nr - 1 - (int q - int p)) (q + 1) v)"
      using "1.prems" Ret x by (intro "1.IH") auto
    then show ?thesis unfolding vc_write_loop.simps [of fuel vcd buf nr] using "1.prems" Ret x by simp
  next
    case (Stop e)
    then show ?thesis unfolding vc_write_loop.simps [of fuel vcd buf nr] using "1.prems" by simp
  qed
qed

lemma vc_output_escape_at_end:
  assumes "buf ! p = CH_ESC" "p < length buf"
  shows "\<not> returns (vc_output fuel vcd buf p (p + 1) vc)"
proof (cases "vc_char fuel vcd buf p vc")
  case (Stop e)
  then show ?thesis by (simp add: vc_output_def Let_def vc_write_loop.simps)
next
  case (Ret x)
  obtain q v where x: "x = (q, v)" by (cases x)
  have "p < q"
    using Ret x assms
    by (auto simp: vc_char_def char_at_def vc_start_escape_def vc_csi_escape_def Let_def bindk_eq_Ret_iff
        dest!: csi_params_position split: if_splits)
  then have "\<not> returns (vc_write_loop fuel vcd buf (1 - 1 - (int q - int p)) (q + 1) v)"
    by (intro vc_write_loop_runs_away) simp
  then have "\<not> returns (vc_write_loop fuel vcd buf 1 p vc)" using Ret x by (subst vc_write_loop.simps) simp
  then show ?thesis by (cases "vc_write_loop fuel vcd buf 1 p vc") (simp_all add: vc_output_def Let_def)
qed

text \<open>A parameter 38 after two others sends the loop over the parameters back to itself: no fuel is enough.\<close>

lemma vc_set_attr_hangs: "vc_set_attr_loop fuel vcd (1 # 1 # 38 # ps) 3 2 ty vc = Stop Diverges"
proof (induction fuel arbitrary: ty vc)
  case (Suc k)
  have "vc_attr_step vcd (1 # 1 # 38 # ps) 2 ty vc = Ret (Attr_next 2 ty vc)"
    by (simp add: vc_attr_step_def par_at_def vc_set_256_rgb_def)
  then show ?case using Suc by simp
qed simp

text \<open>The tab stop can put the cursor after the last column.\<close>

lemma vc_tab_stop_leaves_screen: "vc_wf demo_vc \<and> vc_cx (vc_tab_stop demo_vc) = vc_width demo_vc"
  using demo_vc_wf by (simp add: vc_tab_stop_def demo_vc_def)

end
