(* ===== verification/Tty.thy ===== *)
theory Tty
  imports Ext2_Base
begin

text \<open>
  The terminal driver of \<^verbatim>\<open>sys/drivers/tty.c\<close>: the queues, input and output processing, and the reads in their
  canonical and non-canonical forms. The hardware driver of a terminal (\<^verbatim>\<open>struct tty_driver\<close>) is an argument. A read
  that sleeps ends with what is needed to go on, and goes on when the process that called it runs again. Buffers of
  the callers are in the address space of the current process.
\<close>

section \<open>Data\<close>

abbreviation (input) NR_TTY :: int where "NR_TTY \<equiv> 6"
abbreviation (input) TTY_BUF_SIZE :: nat where "TTY_BUF_SIZE \<equiv> 512"
abbreviation (input) SERIAL_TTY_START :: nat where "SERIAL_TTY_START \<equiv> 4"
abbreviation (input) DEBUG_TTY :: int where "DEBUG_TTY \<equiv> 4"
abbreviation (input) MAX_CANON :: nat where "MAX_CANON \<equiv> 255"
abbreviation (input) TTY_HZ :: u32 where "TTY_HZ \<equiv> 100"
abbreviation (input) VEOF :: nat where "VEOF \<equiv> 0"
abbreviation (input) VEOL :: nat where "VEOL \<equiv> 1"
abbreviation (input) VERASE :: nat where "VERASE \<equiv> 2"
abbreviation (input) VINTR :: nat where "VINTR \<equiv> 3"
abbreviation (input) VKILL :: nat where "VKILL \<equiv> 4"
abbreviation (input) VMIN :: nat where "VMIN \<equiv> 5"
abbreviation (input) VQUIT :: nat where "VQUIT \<equiv> 6"
abbreviation (input) VSTART :: nat where "VSTART \<equiv> 7"
abbreviation (input) VSTOP :: nat where "VSTOP \<equiv> 8"
abbreviation (input) VSUSP :: nat where "VSUSP \<equiv> 9"
abbreviation (input) VTIME :: nat where "VTIME \<equiv> 10"
abbreviation (input) NCCS :: nat where "NCCS \<equiv> 11"
abbreviation (input) ICRNL :: u32 where "ICRNL \<equiv> 2"
abbreviation (input) IGNCR :: u32 where "IGNCR \<equiv> 8"
abbreviation (input) INLCR :: u32 where "INLCR \<equiv> 16"
abbreviation (input) OPOST :: u32 where "OPOST \<equiv> 1"
abbreviation (input) ONLCR :: u32 where "ONLCR \<equiv> 2"
abbreviation (input) OCRNL :: u32 where "OCRNL \<equiv> 4"
abbreviation (input) ONLRET :: u32 where "ONLRET \<equiv> 16"
abbreviation (input) ECHO :: u32 where "ECHO \<equiv> 1"
abbreviation (input) ECHOE :: u32 where "ECHOE \<equiv> 2"
abbreviation (input) ECHOK :: u32 where "ECHOK \<equiv> 4"
abbreviation (input) ECHONL :: u32 where "ECHONL \<equiv> 8"
abbreviation (input) ICANON :: u32 where "ICANON \<equiv> 16"

text \<open>The characters \<^verbatim>\<open>'\b'\<close>, \<^verbatim>\<open>'\n'\<close>, \<^verbatim>\<open>'\r'\<close> and \<^verbatim>\<open>' '\<close> as numbers.\<close>

abbreviation (input) C_BS :: int where "C_BS \<equiv> 8"
abbreviation (input) C_NL :: int where "C_NL \<equiv> 10"
abbreviation (input) C_CR :: int where "C_CR \<equiv> 13"
abbreviation (input) C_SPACE :: int where "C_SPACE \<equiv> 32"

record termios =
  c_iflag :: u32
  c_oflag :: u32
  c_lflag :: u32
  c_cflag :: u32
  c_cc :: "u8 list"

text \<open>The two pointers of a queue are positions in its buffer, from 0 to \<^verbatim>\<open>TTY_BUF_SIZE\<close>.\<close>

record tty_queue =
  tq_buf :: "u8 list"
  tq_head :: nat
  tq_tail :: nat

text \<open>A driver is an index into the drivers that the routines are given.\<close>

record tty_dev =
  t_termios :: termios
  t_driver :: "nat option"
  t_writeq :: tty_queue
  t_readq :: tty_queue
  t_stopped :: bool
  t_open :: bool
  t_mutex :: mutex

record tty_state = ext2_state +
  tty_tab :: "nat \<Rightarrow> tty_dev"

text \<open>
  What the terminals are built on: the hardware drivers, and the addresses that identify the lock and the read queue
  of a terminal to sleepers.
\<close>

record 's tty_env =
  driver_out :: "nat \<Rightarrow> int \<Rightarrow> tty_queue \<Rightarrow> 's \<Rightarrow> (int \<times> 's) kres"
  tty_mutex_addr :: "nat \<Rightarrow> u32"
  readq_addr :: "nat \<Rightarrow> u32"

definition upd_tty :: "nat \<Rightarrow> (tty_dev \<Rightarrow> tty_dev) \<Rightarrow> 'a tty_state_scheme \<Rightarrow> 'a tty_state_scheme" where
  "upd_tty i f s = s\<lparr>tty_tab := (tty_tab s)(i := f (tty_tab s i))\<rparr>"

definition tflag :: "u32 \<Rightarrow> u32 \<Rightarrow> bool" where
  "tflag w f \<longleftrightarrow> w AND f \<noteq> 0"

abbreviation oflag :: "tty_dev \<Rightarrow> u32 \<Rightarrow> bool" where "oflag tp f \<equiv> tflag (c_oflag (t_termios tp)) f"
abbreviation lflag :: "tty_dev \<Rightarrow> u32 \<Rightarrow> bool" where "lflag tp f \<equiv> tflag (c_lflag (t_termios tp)) f"
abbreviation iflag :: "tty_dev \<Rightarrow> u32 \<Rightarrow> bool" where "iflag tp f \<equiv> tflag (c_iflag (t_termios tp)) f"

text \<open>A control character, \<^verbatim>\<open>unsigned char\<close>, as a number.\<close>

definition tcc :: "tty_dev \<Rightarrow> nat \<Rightarrow> int" where
  "tcc tp k = uint (c_cc (t_termios tp) ! k)"

definition TTY_NUM :: "nat \<Rightarrow> int" where
  "TTY_NUM i = int (if SERIAL_TTY_START \<le> i then i - SERIAL_TTY_START else i)"

section \<open>Queues\<close>

definition tty_queue_empty :: "tty_queue \<Rightarrow> bool" where
  "tty_queue_empty q \<longleftrightarrow> tq_head q = tq_tail q"

text \<open>The tail is never past the end: being at the end is not being before it.\<close>

definition tty_queue_full :: "tty_queue \<Rightarrow> bool" where
  "tty_queue_full q \<longleftrightarrow> TTY_BUF_SIZE \<le> tq_tail q"

definition tty_putch :: "int \<Rightarrow> tty_queue \<Rightarrow> int \<times> tty_queue" where
  "tty_putch c q =
     (if \<not> tty_queue_full q
      then (c, q\<lparr>tq_buf := (tq_buf q)[tq_tail q := word_of_int c], tq_tail := tq_tail q + 1\<rparr>)
      else (0, q))"

definition tty_getch :: "tty_queue \<Rightarrow> int \<times> tty_queue" where
  "tty_getch q =
     (if \<not> tty_queue_empty q then (sint (tq_buf q ! tq_head q), q\<lparr>tq_head := tq_head q + 1\<rparr>) else (0, q))"

definition tty_queue_reset :: "tty_queue \<Rightarrow> tty_queue" where
  "tty_queue_reset q = \<lparr>tq_buf = replicate TTY_BUF_SIZE 0, tq_head = 0, tq_tail = 0\<rparr>"

text \<open>The calls that ignore the result of \<^verbatim>\<open>tty_putch\<close>.\<close>

definition putq :: "int \<Rightarrow> tty_queue \<Rightarrow> tty_queue" where
  "putq c q = snd (tty_putch c q)"

definition writeq :: "nat \<Rightarrow> (tty_queue \<Rightarrow> tty_queue) \<Rightarrow> 'a tty_state_scheme \<Rightarrow> 'a tty_state_scheme" where
  "writeq i f = upd_tty i (\<lambda>t. t\<lparr>t_writeq := f (t_writeq t)\<rparr>)"

definition readq :: "nat \<Rightarrow> (tty_queue \<Rightarrow> tty_queue) \<Rightarrow> 'a tty_state_scheme \<Rightarrow> 'a tty_state_scheme" where
  "readq i f = upd_tty i (\<lambda>t. t\<lparr>t_readq := f (t_readq t)\<rparr>)"

definition tty_flush :: "'a tty_state_scheme tty_env \<Rightarrow> nat \<Rightarrow> 'a tty_state_scheme \<Rightarrow> (int \<times> 'a tty_state_scheme) kres" where
  "tty_flush E i s =
     (if \<not> t_stopped (tty_tab s i)
      then case t_driver (tty_tab s i) of
             None \<Rightarrow> Stop (Fault ''t_driver'')
           | Some d \<Rightarrow> driver_out E d (TTY_NUM i) (t_writeq (tty_tab s i)) s
      else Ret (0, s))"

text \<open>The two calls that empty the write queue, which always come together.\<close>

definition flush_reset :: "'a tty_state_scheme tty_env \<Rightarrow> nat \<Rightarrow> 'a tty_state_scheme \<Rightarrow> 'a tty_state_scheme kres" where
  "flush_reset E i s = bindk (tty_flush E i s) (\<lambda>(_, s). Ret (writeq i tty_queue_reset s))"

section \<open>Set up\<close>

text \<open>The result is the terminal, or \<^verbatim>\<open>NULL\<close>. A negative number is an address before the table.\<close>

definition tty_driver_register :: "int \<Rightarrow> nat option \<Rightarrow> 'a tty_state_scheme \<Rightarrow> (nat option \<times> 'a tty_state_scheme) kres" where
  "tty_driver_register n driver s =
     (if n \<ge> NR_TTY then Ret (None, s)
      else if n < 0 then Stop (Fault ''tty_tab'')
      else Ret (Some (nat n), upd_tty (nat n) (\<lambda>t. t\<lparr>t_driver := driver\<rparr>) s))"

definition init_cc :: "u8 list \<Rightarrow> u8 list" where
  "init_cc cc = cc[VEOF := 100 AND 0x1F, VEOL := 0, VERASE := 0x7F, VKILL := 117 AND 0x1F, VINTR := 99 AND 0x1F,
     VQUIT := 124 AND 0x1F, VSTART := 113 AND 0x1F, VSTOP := 115 AND 0x1F, VSUSP := 121 AND 0x1F, VTIME := 0, VMIN := 1]"

definition tty_struct_init :: "nat \<Rightarrow> 'a tty_state_scheme \<Rightarrow> 'a tty_state_scheme" where
  "tty_struct_init n s =
     (if int n \<ge> NR_TTY then s
      else upd_tty n (\<lambda>t. t\<lparr>t_mutex := mutex_init, t_writeq := tty_queue_reset (t_writeq t),
             t_readq := tty_queue_reset (t_readq t), t_stopped := False,
             t_termios := (t_termios t)\<lparr>c_cc := init_cc (c_cc (t_termios t)), c_oflag := OPOST OR ONLCR,
               c_lflag := ICANON OR ECHO OR ECHOK OR ECHOE\<rparr>\<rparr>) s)"

definition tty_init :: "'a tty_state_scheme \<Rightarrow> int \<times> 'a tty_state_scheme" where
  "tty_init s = (0, fold tty_struct_init [0..<nat NR_TTY] s)"

section \<open>The lock\<close>

definition tty_lock :: "'a tty_state_scheme tty_env \<Rightarrow> nat \<Rightarrow> 'a tty_state_scheme \<Rightarrow> 'a tty_state_scheme kres" where
  "tty_lock E i s =
     bindk (mutex_lock (tty_mutex_addr E i) (t_mutex (tty_tab s i)) s) (\<lambda>r.
     case r of
       Acquired m s \<Rightarrow> Ret (upd_tty i (\<lambda>t. t\<lparr>t_mutex := m\<rparr>) s)
     | Waiting s \<Rightarrow> Stop Blocked)"

definition tty_unlock :: "'a tty_state_scheme tty_env \<Rightarrow> nat \<Rightarrow> 'a tty_state_scheme \<Rightarrow> 'a tty_state_scheme kres" where
  "tty_unlock E i s =
     bindk (mutex_unlock (tty_mutex_addr E i) (t_mutex (tty_tab s i)) s) (\<lambda>(m, s).
     Ret (upd_tty i (\<lambda>t. t\<lparr>t_mutex := m\<rparr>) s))"

section \<open>Writing\<close>

text \<open>What the output flags make of a character: the queue, and the character that is still to be put into it.\<close>

definition write_post :: "termios \<Rightarrow> int \<Rightarrow> tty_queue \<Rightarrow> int \<times> tty_queue" where
  "write_post t c q =
     (if tflag (c_oflag t) OPOST
      then if c = C_NL \<and> tflag (c_oflag t) ONLCR then (c, putq C_CR q)
           else if c = C_CR \<and> tflag (c_oflag t) OCRNL then (C_NL, q)
           else (c, q)
      else (c, q))"

lemma tail_putq: "\<not> tty_queue_full q \<Longrightarrow> tq_tail (putq c q) = tq_tail q + 1" "tq_tail q \<le> tq_tail (putq c q)"
  by (simp_all add: putq_def tty_putch_def)

lemma tail_putq_post:
  assumes "\<not> tty_queue_full q" "write_post t c q = (c', q')"
  shows "tq_tail q < tq_tail (putq c' q')"
  using assms tail_putq [of q C_CR] tail_putq [of q c'] tail_putq(2) [of "putq C_CR q" c']
  by (auto simp: write_post_def split: if_splits)

function tty_write_loop :: "termios \<Rightarrow> (u32 \<Rightarrow> u8) \<Rightarrow> u32 \<Rightarrow> int \<Rightarrow> tty_queue \<Rightarrow> u32 \<times> tty_queue" where
  "tty_write_loop t m p i q =
     (if m p \<noteq> 0 \<and> i \<noteq> 0 \<and> \<not> tty_queue_full q
      then case write_post t (sint (m p)) q of (c, q') \<Rightarrow> tty_write_loop t m (p + 1) (i - 1) (putq c q')
      else (p, q))"
  by pat_completeness auto
termination
  by (relation "measure (\<lambda>(t, m, p, i, q). TTY_BUF_SIZE - tq_tail q)")
    (auto simp: tty_queue_full_def intro!: diff_less_mono2 dest: tail_putq_post [unfolded tty_queue_full_def, OF _ sym])

declare tty_write_loop.simps [simp del]

definition tty_write :: "'a tty_state_scheme tty_env \<Rightarrow> int \<Rightarrow> u32 \<Rightarrow> int \<Rightarrow> 'a tty_state_scheme \<Rightarrow>
    (int \<times> 'a tty_state_scheme) kres" where
  "tty_write E n buf count s =
     (let i = nat n in
      if n \<ge> NR_TTY then Ret (-1, s)
      else if n < 0 then Stop (Fault ''tty_tab'')
      else if \<not> t_open (tty_tab s i) \<and> n \<noteq> DEBUG_TTY then Stop (Panic ''tty_write: TTY is not open!'')
      else
        bindk (tty_lock E i s) (\<lambda>s.
        let (p, q) = tty_write_loop (t_termios (tty_tab s i)) (us_mem (cur_space s)) buf count (t_writeq (tty_tab s i))
        in bindk (flush_reset E i (writeq i (\<lambda>_. q) s)) (\<lambda>s.
           bindk (tty_unlock E i s) (\<lambda>s. Ret (sint (p - buf), s)))))"

section \<open>Reading\<close>

text \<open>
  Where a read waits, with its variables: the caller's buffer, the number of characters already there, the number it
  wants, and for the non-canonical reads the value of \<^verbatim>\<open>block\<close> in \<^verbatim>\<open>tty_sleep\<close>. A canonical read collects its line
  in \<^verbatim>\<open>scratch\<close>.
\<close>

datatype tty_wait =
    In_canon u32 int "u8 list"
  | In_case1_start u32 int int bool
  | In_case1 u32 nat int int bool
  | In_case2 u32 nat int bool
  | In_case3 bool

datatype 's tty_result = Tty_done int 's | Tty_sleeps tty_wait 's

definition tty_finish :: "'a tty_state_scheme tty_env \<Rightarrow> nat \<Rightarrow> int \<Rightarrow> 'a tty_state_scheme \<Rightarrow>
    'a tty_state_scheme tty_result kres" where
  "tty_finish E i r s = bindk (tty_unlock E i s) (\<lambda>s. Ret (Tty_done r s))"

definition tty_wait_on :: "'a tty_state_scheme tty_env \<Rightarrow> nat \<Rightarrow> tty_wait \<Rightarrow> 'a tty_state_scheme \<Rightarrow>
    'a tty_state_scheme tty_result kres" where
  "tty_wait_on E i w s = bindk (sleep (readq_addr E i) PROC_SLEEP_INTERRUPTIBLE s) (\<lambda>s. Ret (Tty_sleeps w s))"

definition sleep_block :: "'a tty_state_scheme \<Rightarrow> bool" where
  "sleep_block s \<longleftrightarrow> tty_block (cur s) \<noteq> NO_TTY_BLOCK"

definition tty_set_timer :: "int \<Rightarrow> 'a tty_state_scheme \<Rightarrow> 'a tty_state_scheme" where
  "tty_set_timer vtime s =
     upd_proc (current_process s) (\<lambda>p. p\<lparr>tty_block := timer_ticks s + word_of_int vtime * (TTY_HZ div 10)\<rparr>) s"

definition tty_clear_timer :: "'a tty_state_scheme \<Rightarrow> 'a tty_state_scheme" where
  "tty_clear_timer s = upd_proc (current_process s) (\<lambda>p. p\<lparr>tty_block := NO_TTY_BLOCK\<rparr>) s"

subsection \<open>Canonical reads\<close>

text \<open>The last character of the queue; with an empty buffer this is an address before it.\<close>

definition last_char :: "tty_queue \<Rightarrow> int kres" where
  "last_char q = (if tq_tail q = 0 then Stop (Fault ''tq_buf'') else Ret (sint (tq_buf q ! (tq_tail q - 1))))"

text \<open>What a character does to the line in \<^verbatim>\<open>scratch\<close>.\<close>

definition canon_edit :: "tty_dev \<Rightarrow> int \<Rightarrow> u8 list \<Rightarrow> u8 list" where
  "canon_edit tp c scratch =
     (if c = tcc tp VERASE \<and> scratch \<noteq> [] then butlast scratch
      else if c = tcc tp VKILL then []
      else if c \<noteq> tcc tp VEOF then scratch @ [word_of_int c]
      else scratch)"

definition canon_goes_on :: "tty_dev \<Rightarrow> int \<Rightarrow> u8 list \<Rightarrow> bool" where
  "canon_goes_on tp c scratch \<longleftrightarrow> c \<noteq> C_NL \<and> c \<noteq> tcc tp VEOF \<and> length scratch < MAX_CANON"

definition canon_deliver :: "'a tty_state_scheme tty_env \<Rightarrow> nat \<Rightarrow> u32 \<Rightarrow> int \<Rightarrow> u8 list \<Rightarrow> 'a tty_state_scheme \<Rightarrow>
    'a tty_state_scheme tty_result kres" where
  "canon_deliver E i buf count scratch s =
     (let nr = (if count > int (length scratch) then int (length scratch) else count) in
      if nr < 0 then Stop (Fault ''buf'')
      else tty_finish E i nr (upd_space (cp_to_user buf (take (nat nr) scratch)) s))"

text \<open>What follows the call of \<^verbatim>\<open>tty_sleep\<close> in the loop.\<close>

definition canon_resume :: "'a tty_state_scheme tty_env \<Rightarrow> nat \<Rightarrow> u32 \<Rightarrow> int \<Rightarrow> u8 list \<Rightarrow> 'a tty_state_scheme \<Rightarrow>
    'a tty_state_scheme tty_result kres" where
  "canon_resume E i buf count scratch s =
     (if sigpending (cur s) \<noteq> 0 then tty_finish E i (- EINTR) s
      else
        bindk (last_char (t_readq (tty_tab s i))) (\<lambda>c.
        let scratch = canon_edit (tty_tab s i) c scratch in
        if canon_goes_on (tty_tab s i) c scratch then tty_wait_on E i (In_canon buf count scratch) s
        else canon_deliver E i buf count scratch s))"

definition tty_canon_read :: "'a tty_state_scheme tty_env \<Rightarrow> nat \<Rightarrow> u32 \<Rightarrow> int \<Rightarrow> 'a tty_state_scheme \<Rightarrow>
    'a tty_state_scheme tty_result kres" where
  "tty_canon_read E i buf count s =
     (let q = t_readq (tty_tab s i) in
      if \<not> tty_queue_empty q \<and> last_char q = Ret (tcc (tty_tab s i) VEOF) then tty_finish E i 0 s
      else tty_wait_on E i (In_canon buf count []) s)"

subsection \<open>Non-canonical reads\<close>

text \<open>
  The loops that empty the read queue into the caller's buffer, at \<open>n\<close>: each round takes a character and ends the read
  when the wanted number is reached. The first argument of the loop is the number of characters in the queue.
\<close>

definition take_char :: "nat \<Rightarrow> u32 \<Rightarrow> 'a tty_state_scheme \<Rightarrow> 'a tty_state_scheme" where
  "take_char i a s =
     (let (c, q) = tty_getch (t_readq (tty_tab s i))
      in upd_space (put_ubyte a (word_of_int c)) (readq i (\<lambda>_. q) s))"

primrec tty_drain :: "nat \<Rightarrow> ('a tty_state_scheme \<Rightarrow> 'a tty_state_scheme) \<Rightarrow> nat \<Rightarrow> u32 \<Rightarrow> int option \<Rightarrow> nat \<Rightarrow>
    'a tty_state_scheme \<Rightarrow> bool \<times> nat \<times> 'a tty_state_scheme" where
  "tty_drain 0 tick i buf req n s = (False, n, s)"
| "tty_drain (Suc k) tick i buf req n s =
     (let s = take_char i (buf + of_nat n) s in
      if req = Some (int (n + 1)) then (True, n + 1, s) else tty_drain k tick i buf req (n + 1) (tick s))"

definition queue_length :: "tty_queue \<Rightarrow> nat" where
  "queue_length q = tq_tail q - tq_head q"

definition drain_all :: "('a tty_state_scheme \<Rightarrow> 'a tty_state_scheme) \<Rightarrow> nat \<Rightarrow> u32 \<Rightarrow> int option \<Rightarrow> nat \<Rightarrow>
    'a tty_state_scheme \<Rightarrow> bool \<times> nat \<times> 'a tty_state_scheme" where
  "drain_all tick i buf req n s = tty_drain (queue_length (t_readq (tty_tab s i))) tick i buf req n s"

text \<open>
  The loop of \<^verbatim>\<open>tty_read_case1\<close>. When it has at least as many characters as it wants without having passed the exact
  number, it runs on for ever.
\<close>

definition case1_loop :: "'a tty_state_scheme tty_env \<Rightarrow> nat \<Rightarrow> u32 \<Rightarrow> nat \<Rightarrow> int \<Rightarrow> int \<Rightarrow> 'a tty_state_scheme \<Rightarrow>
    'a tty_state_scheme tty_result kres" where
  "case1_loop E i buf n req vtime s =
     (let (full, n, s) = drain_all (tty_set_timer vtime) i buf (Some req) n s in
      if full then tty_finish E i req s
      else if int n < req then tty_wait_on E i (In_case1 buf n req vtime (sleep_block s)) s
      else Stop Diverges)"

definition tty_read_case1 :: "'a tty_state_scheme tty_env \<Rightarrow> nat \<Rightarrow> u32 \<Rightarrow> int \<Rightarrow> int \<Rightarrow> int \<Rightarrow> 'a tty_state_scheme \<Rightarrow>
    'a tty_state_scheme tty_result kres" where
  "tty_read_case1 E i buf c vmin vtime s =
     (let req = (if c < vmin then c else vmin) in
      if tty_queue_empty (t_readq (tty_tab s i))
      then tty_wait_on E i (In_case1_start buf req vtime (sleep_block s)) s
      else case1_loop E i buf 0 req vtime s)"

definition case2_loop :: "'a tty_state_scheme tty_env \<Rightarrow> nat \<Rightarrow> u32 \<Rightarrow> nat \<Rightarrow> int \<Rightarrow> 'a tty_state_scheme \<Rightarrow>
    'a tty_state_scheme tty_result kres" where
  "case2_loop E i buf n req s =
     (let (full, n, s) = drain_all (\<lambda>s. s) i buf (Some req) n s in
      if full then tty_finish E i req s
      else tty_wait_on E i (In_case2 buf n req (sleep_block s)) s)"

definition tty_read_case2 :: "'a tty_state_scheme tty_env \<Rightarrow> nat \<Rightarrow> u32 \<Rightarrow> int \<Rightarrow> int \<Rightarrow> 'a tty_state_scheme \<Rightarrow>
    'a tty_state_scheme tty_result kres" where
  "tty_read_case2 E i buf c vmin s = case2_loop E i buf 0 (if c < vmin then c else vmin) s"

definition tty_read_case3 :: "'a tty_state_scheme tty_env \<Rightarrow> nat \<Rightarrow> u32 \<Rightarrow> int \<Rightarrow> 'a tty_state_scheme \<Rightarrow>
    'a tty_state_scheme tty_result kres" where
  "tty_read_case3 E i buf vtime s =
     (let s = tty_set_timer vtime s in
      if \<not> tty_queue_empty (t_readq (tty_tab s i))
      then tty_finish E i 1 (tty_clear_timer (take_char i buf s))
      else tty_wait_on E i (In_case3 (sleep_block s)) s)"

definition tty_read_case4 :: "'a tty_state_scheme tty_env \<Rightarrow> nat \<Rightarrow> u32 \<Rightarrow> 'a tty_state_scheme \<Rightarrow>
    'a tty_state_scheme tty_result kres" where
  "tty_read_case4 E i buf s = (let (_, n, s) = drain_all (\<lambda>s. s) i buf None 0 s in tty_finish E i (int n) s)"

text \<open>What follows the call of \<^verbatim>\<open>tty_sleep\<close> in the third case: the lock is given up before the signals are looked at.\<close>

definition case3_end :: "'a tty_state_scheme tty_env \<Rightarrow> nat \<Rightarrow> 'a tty_state_scheme \<Rightarrow>
    'a tty_state_scheme tty_result kres" where
  "case3_end E i s =
     bindk (stays s (bindk (tty_unlock E i s) (\<lambda>s. Ret ((), s)))) (\<lambda>(_, s).
     Ret (Tty_done (if sigpending (cur s) \<noteq> 0 then - EINTR else 0) s))"

text \<open>The process runs again: \<^verbatim>\<open>tty_sleep\<close> sleeps again or returns, and the read goes on.\<close>

definition noncanon_sleeps_again :: "bool \<Rightarrow> nat \<Rightarrow> 'a tty_state_scheme \<Rightarrow> bool" where
  "noncanon_sleeps_again block i s \<longleftrightarrow>
     \<not> (block \<and> tty_block (cur s) = NO_TTY_BLOCK) \<and> tty_queue_empty (t_readq (tty_tab s i))"

fun tty_resume :: "'a tty_state_scheme tty_env \<Rightarrow> nat \<Rightarrow> tty_wait \<Rightarrow> 'a tty_state_scheme \<Rightarrow>
    'a tty_state_scheme tty_result kres" where
  "tty_resume E i (In_canon buf count scratch) s = canon_resume E i buf count scratch s"
| "tty_resume E i (In_case1_start buf req vtime block) s =
     (if noncanon_sleeps_again block i s then tty_wait_on E i (In_case1_start buf req vtime block) s
      else case1_loop E i buf 0 req vtime s)"
| "tty_resume E i (In_case1 buf n req vtime block) s =
     (if noncanon_sleeps_again block i s then tty_wait_on E i (In_case1 buf n req vtime block) s
      else if sigpending (cur s) \<noteq> 0 then tty_finish E i (- EINTR) s
      else if tty_block (cur s) = NO_TTY_BLOCK then tty_finish E i (int n) s
      else case1_loop E i buf n req vtime s)"
| "tty_resume E i (In_case2 buf n req block) s =
     (if noncanon_sleeps_again block i s then tty_wait_on E i (In_case2 buf n req block) s
      else if sigpending (cur s) \<noteq> 0 then tty_finish E i (- EINTR) s
      else case2_loop E i buf n req s)"
| "tty_resume E i (In_case3 block) s =
     (if noncanon_sleeps_again block i s then tty_wait_on E i (In_case3 block) s
      else case3_end E i s)"

definition tty_read :: "'a tty_state_scheme tty_env \<Rightarrow> int \<Rightarrow> u32 \<Rightarrow> int \<Rightarrow> 'a tty_state_scheme \<Rightarrow>
    'a tty_state_scheme tty_result kres" where
  "tty_read E n buf count s =
     (let i = nat n in
      if n \<ge> NR_TTY then Ret (Tty_done (-1) s)
      else if n < 0 then Stop (Fault ''tty_tab'')
      else if \<not> t_open (tty_tab s i) \<and> n \<noteq> DEBUG_TTY then Stop (Panic ''tty_read: TTY is not open!'')
      else
        bindk (tty_lock E i s) (\<lambda>s.
        let tp = tty_tab s i in
        if lflag tp ICANON then tty_canon_read E i buf count s
        else if tcc tp VMIN > 0 \<and> tcc tp VTIME > 0 then tty_read_case1 E i buf count (tcc tp VMIN) (tcc tp VTIME) s
        else if tcc tp VMIN > 0 \<and> tcc tp VTIME = 0 then tty_read_case2 E i buf count (tcc tp VMIN) s
        else if tcc tp VMIN = 0 \<and> tcc tp VTIME > 0 then tty_read_case3 E i buf (tcc tp VTIME) s
        else tty_read_case4 E i buf s))"

section \<open>The device\<close>

definition write_done :: "(int \<times> 's) kres \<Rightarrow> 's tty_result kres" where
  "write_done r = bindk r (\<lambda>(n, s). Ret (Tty_done n s))"

definition tty_rw :: "'a tty_state_scheme tty_env \<Rightarrow> int \<Rightarrow> u32 \<Rightarrow> int \<Rightarrow> rw \<Rightarrow> 'a tty_state_scheme \<Rightarrow>
    'a tty_state_scheme tty_result kres" where
  "tty_rw E minor buf count rw s =
     (if minor \<noteq> 0 then Ret (Tty_done (- EINVAL) s)
      else if rw = WRITE then write_done (tty_write E (tty (cur s)) buf count s)
      else tty_read E (tty (cur s)) buf count s)"

definition ttyx_rw :: "'a tty_state_scheme tty_env \<Rightarrow> int \<Rightarrow> u32 \<Rightarrow> int \<Rightarrow> rw \<Rightarrow> 'a tty_state_scheme \<Rightarrow>
    'a tty_state_scheme tty_result kres" where
  "ttyx_rw E minor buf count rw s =
     (if rw = WRITE then write_done (tty_write E minor buf count s) else tty_read E minor buf count s)"

text \<open>The bound lets the number after the last terminal through: the store is outside the table.\<close>

definition tty_set_open :: "bool \<Rightarrow> int \<Rightarrow> 'a tty_state_scheme \<Rightarrow> (int \<times> 'a tty_state_scheme) kres" where
  "tty_set_open b minor s =
     (if minor < 0 \<or> minor > NR_TTY then Ret (- EINVAL, s)
      else if minor = NR_TTY then Stop (Fault ''tty_tab'')
      else Ret (minor, upd_tty (nat minor) (\<lambda>t. t\<lparr>t_open := b\<rparr>) s))"

definition tty_open :: "int \<Rightarrow> 'a tty_state_scheme \<Rightarrow> (int \<times> 'a tty_state_scheme) kres" where
  "tty_open minor s = tty_set_open True minor s"

definition tty_close :: "int \<Rightarrow> 'a tty_state_scheme \<Rightarrow> (int \<times> 'a tty_state_scheme) kres" where
  "tty_close minor s = tty_set_open False minor s"

text \<open>The rows of the character device table: there a read that sleeps does not return.\<close>

definition returns_now :: "'s tty_result kres \<Rightarrow> (int \<times> 's) kres" where
  "returns_now r = bindk r (\<lambda>x. case x of Tty_done n s \<Rightarrow> Ret (n, s) | Tty_sleeps w s \<Rightarrow> Stop Blocked)"

definition tty_row :: "'a tty_state_scheme tty_env \<Rightarrow> 'a tty_state_scheme chr_dev_ops" where
  "tty_row E = \<lparr>d_open = (\<lambda>minor. tty_open (uint minor)),
     d_rw = (\<lambda>minor buf count rw s. returns_now (tty_rw E (uint minor) buf count rw s))\<rparr>"

definition ttyx_row :: "'a tty_state_scheme tty_env \<Rightarrow> 'a tty_state_scheme chr_dev_ops" where
  "ttyx_row E = \<lparr>d_open = (\<lambda>minor. tty_open (uint minor)),
     d_rw = (\<lambda>minor buf count rw s. returns_now (ttyx_rw E (uint minor) buf count rw s))\<rparr>"

section \<open>Input from the keyboard\<close>

text \<open>\<open>None\<close> is a character that is ignored.\<close>

definition input_char :: "tty_dev \<Rightarrow> int \<Rightarrow> int option" where
  "input_char tp c =
     (if c = C_CR \<and> \<not> iflag tp ICRNL \<and> iflag tp IGNCR then None
      else let c = (if c = C_CR \<and> iflag tp ICRNL then C_NL else c)
           in Some (if c = C_NL \<and> iflag tp INLCR then C_CR else c))"

definition tty_process_input :: "'a tty_state_scheme tty_env \<Rightarrow> nat \<Rightarrow> int \<Rightarrow> 'a tty_state_scheme \<Rightarrow>
    'a tty_state_scheme kres" where
  "tty_process_input E i c s =
     (if tty_queue_full (t_readq (tty_tab s i)) then Ret s
      else case input_char (tty_tab s i) c of
             None \<Rightarrow> Ret s
           | Some c \<Rightarrow> wakeup (readq_addr E i) WAKEUP_SWITCH (readq i (putq c) s))"

definition tty_process_output :: "'a tty_state_scheme tty_env \<Rightarrow> nat \<Rightarrow> int \<Rightarrow> 'a tty_state_scheme \<Rightarrow>
    'a tty_state_scheme kres" where
  "tty_process_output E i c s =
     bindk (if tty_queue_full (t_writeq (tty_tab s i)) then flush_reset E i s else Ret s) (\<lambda>s.
     let tp = tty_tab s i;
         nl = (oflag tp OPOST \<and> c = C_NL \<and> oflag tp ONLCR);
         ocrnl = (oflag tp OPOST \<and> \<not> nl \<and> c = C_CR \<and> \<not> oflag tp ONLRET \<and> oflag tp OCRNL);
         printable = (\<not> c < 32 \<or> nl \<or> ocrnl);
         s = (if nl then writeq i (putq C_CR) s else s)
     in if oflag tp OPOST \<and> \<not> nl \<and> c = C_CR \<and> oflag tp ONLRET then Ret s
        else
          let c = (if ocrnl then C_NL else c) in
          if lflag tp ICANON \<and> lflag tp ECHOE \<and> c = tcc tp VERASE then
            bindk (flush_reset E i s) (\<lambda>s. Ret (writeq i (putq C_BS \<circ> putq C_SPACE \<circ> putq C_BS) s))
          else if lflag tp ICANON \<and> lflag tp ECHOK \<and> c = tcc tp VKILL then
            bindk (flush_reset E i s) (\<lambda>s.
            let s = writeq i (putq C_NL) s
            in Ret (if oflag tp OPOST \<and> oflag tp ONLCR then writeq i (putq C_CR) s else s))
          else Ret (if printable then writeq i (putq c) s else s))"

text \<open>
  The loop over the characters of a key. When \<^verbatim>\<open>wakeup\<close> hands the processor to the process that reads, the rest of the
  characters follows when the interrupted process runs again; it is the result.
\<close>

fun input_loop :: "'a tty_state_scheme tty_env \<Rightarrow> nat \<Rightarrow> u8 list \<Rightarrow> 'a tty_state_scheme \<Rightarrow>
    (u8 list \<times> 'a tty_state_scheme) kres" where
  "input_loop E i [] s = Ret ([], s)"
| "input_loop E i (c # cs) s =
     bindk (tty_process_input E i (sint c) s) (\<lambda>t.
     if current_process t = current_process s then input_loop E i cs t else Ret (cs, t))"

definition tty_echo :: "'a tty_state_scheme tty_env \<Rightarrow> nat \<Rightarrow> u8 list \<Rightarrow> 'a tty_state_scheme \<Rightarrow>
    'a tty_state_scheme kres" where
  "tty_echo E i cs s =
     (let tp = tty_tab s i;
          echo = (if lflag tp ECHO then cs else filter (\<lambda>c. sint c = C_NL \<and> lflag tp ECHONL) cs)
      in bindk (foldk (\<lambda>c. tty_process_output E i (sint c)) echo s) (flush_reset E i))"

text \<open>The characters are a C string, given without its end.\<close>

definition do_update_tty :: "'a tty_state_scheme tty_env \<Rightarrow> u8 list \<Rightarrow> 'a tty_state_scheme \<Rightarrow>
    (u8 list \<times> 'a tty_state_scheme) kres" where
  "do_update_tty E cs s =
     (let n = tty (cur s) in
      if 0 \<le> n \<and> n < NR_TTY
      then if \<not> t_open (tty_tab s (nat n)) then Ret ([], s)
           else bindk (tty_echo E (nat n) cs s) (input_loop E (nat n) cs)
      else Ret ([], s))"

end
