(* ===== verification/Tty_Props.thy ===== *)
theory Tty_Props
  imports Tty Ext2_Frame
begin

text \<open>
  The queues of the terminals are bounded fifo queues, a write hands the translated text to the hardware driver, a
  canonical read returns the edited line when the newline arrives, and a non-canonical read returns the characters in
  the order in which they were typed.
\<close>

section \<open>Queues\<close>

text \<open>
  The contract of a bounded queue of characters: \<open>chars\<close> is what it holds, oldest first, and \<open>room\<close> the number of
  characters that can still be put into it.
\<close>

locale char_queue =
  fixes okq :: "'q \<Rightarrow> bool" and chars :: "'q \<Rightarrow> u8 list" and room :: "'q \<Rightarrow> nat"
    and put :: "int \<Rightarrow> 'q \<Rightarrow> 'q" and get :: "'q \<Rightarrow> int \<times> 'q"
  assumes put_room: "okq q \<Longrightarrow> 0 < room q \<Longrightarrow>
      okq (put c q) \<and> chars (put c q) = chars q @ [word_of_int c] \<and> room (put c q) = room q - 1"
    and put_full: "okq q \<Longrightarrow> room q = 0 \<Longrightarrow> put c q = q"
    and get_some: "okq q \<Longrightarrow> chars q = b # bs \<Longrightarrow>
      fst (get q) = sint b \<and> okq (snd (get q)) \<and> chars (snd (get q)) = bs \<and> room (snd (get q)) = room q"
begin

lemma put_all:
  assumes "okq q" "length cs \<le> room q"
  shows "okq (fold put cs q) \<and> chars (fold put cs q) = chars q @ map word_of_int cs \<and> room (fold put cs q) = room q - length cs"
  using assms
proof (induction cs arbitrary: q)
  case (Cons c cs)
  then show ?case using put_room [of q c] by simp
qed simp

lemma put_okq: "okq q \<Longrightarrow> okq (put c q)"
  using put_room [of q c] put_full [of q c] by (cases "room q = 0") auto

lemma put_too_many:
  assumes "okq q" "room q \<le> length cs"
  shows "chars (fold put cs q) = chars q @ map word_of_int (take (room q) cs)"
  using assms
proof (induction cs arbitrary: q)
  case (Cons c cs)
  show ?case
  proof (cases "room q = 0")
    case True
    have "fold put cs q = q" for cs using Cons.prems True put_full by (induction cs) simp_all
    then show ?thesis using True put_full [of q c] Cons.prems by simp
  next
    case False
    then show ?thesis using Cons.IH [of "put c q"] Cons.prems put_room [of q c] by (cases "room q") auto
  qed
qed simp

end

definition tq_ok :: "tty_queue \<Rightarrow> bool" where
  "tq_ok q \<longleftrightarrow> length (tq_buf q) = TTY_BUF_SIZE \<and> tq_head q \<le> tq_tail q \<and> tq_tail q \<le> TTY_BUF_SIZE"

definition tq_chars :: "tty_queue \<Rightarrow> u8 list" where
  "tq_chars q = take (tq_tail q - tq_head q) (drop (tq_head q) (tq_buf q))"

definition tq_room :: "tty_queue \<Rightarrow> nat" where
  "tq_room q = TTY_BUF_SIZE - tq_tail q"

lemma tq_put:
  assumes "tq_ok q" "0 < tq_room q"
  shows "tq_ok (putq c q) \<and> tq_chars (putq c q) = tq_chars q @ [word_of_int c] \<and> tq_room (putq c q) = tq_room q - 1"
proof -
  let ?h = "tq_head q" and ?t = "tq_tail q" and ?b = "(tq_buf q)[tq_tail q := word_of_int c]"
  have b: "?h \<le> ?t" "?t < length (tq_buf q)" using assms by (auto simp: tq_ok_def tq_room_def)
  have "take (Suc ?t - ?h) (drop ?h ?b) = take (?t - ?h) (drop ?h (tq_buf q)) @ [word_of_int c]"
    using b by (intro nth_equalityI) (auto simp: nth_append nth_list_update less_Suc_eq)
  then show ?thesis
    using assms by (auto simp: tq_ok_def tq_room_def tq_chars_def putq_def tty_putch_def tty_queue_full_def)
qed

lemma tq_get:
  assumes "tq_ok q" "tq_chars q = b # bs"
  shows "fst (tty_getch q) = sint b \<and> tq_ok (snd (tty_getch q)) \<and> tq_chars (snd (tty_getch q)) = bs \<and>
    tq_room (snd (tty_getch q)) = tq_room q"
proof -
  let ?h = "tq_head q" and ?t = "tq_tail q"
  have "?h \<noteq> ?t" using assms(2) by (auto simp: tq_chars_def)
  then have h: "?h < ?t" "?h < length (tq_buf q)" using assms(1) by (auto simp: tq_ok_def)
  have "drop ?h (tq_buf q) = tq_buf q ! ?h # drop (Suc ?h) (tq_buf q)" using h by (simp add: Cons_nth_drop_Suc)
  moreover have "?t - ?h = Suc (?t - Suc ?h)" using h by simp
  ultimately have "b = tq_buf q ! ?h" "bs = take (?t - Suc ?h) (drop (Suc ?h) (tq_buf q))"
    using assms(2) by (simp_all add: tq_chars_def)
  then show ?thesis
    using h assms(1) by (auto simp: tq_ok_def tq_room_def tq_chars_def tty_getch_def tty_queue_empty_def)
qed

interpretation tq: char_queue tq_ok tq_chars tq_room putq tty_getch
proof (unfold_locales, goal_cases)
  case (1 q c)
  then show ?case by (rule tq_put)
next
  case (2 q c)
  then show ?case by (simp add: tq_room_def putq_def tty_putch_def tty_queue_full_def)
next
  case (3 q b bs)
  then show ?case by (rule tq_get)
qed

text \<open>
  The queues keep the order of the characters and lose those that do not fit: putting any characters into a queue
  leaves what it held followed by as many of them as there was room for, and taking a character gives the oldest.
\<close>

theorem tty_queue_fifo:
  assumes "tq_ok q"
  shows "tq_chars (fold putq cs q) = tq_chars q @ map word_of_int (take (tq_room q) cs) \<and>
    (tq_chars q \<noteq> [] \<longrightarrow> fst (tty_getch q) = sint (hd (tq_chars q)) \<and> tq_chars (snd (tty_getch q)) = tl (tq_chars q))"
proof -
  have "tq_chars (fold putq cs q) = tq_chars q @ map word_of_int (take (tq_room q) cs)"
    using assms tq.put_all [of q cs] tq.put_too_many [of q cs] by (cases "length cs \<le> tq_room q") auto
  moreover have "fst (tty_getch q) = sint (hd (tq_chars q)) \<and> tq_chars (snd (tty_getch q)) = tl (tq_chars q)"
    if ne: "tq_chars q \<noteq> []"
  proof -
    obtain b bs where "tq_chars q = b # bs" using ne by (cases "tq_chars q") auto
    then show ?thesis using tq.get_some [OF assms] by simp
  qed
  ultimately show ?thesis by blast
qed

lemma reset_queue [simp]:
  "tq_ok (tty_queue_reset q)" "tq_chars (tty_queue_reset q) = []" "tq_room (tty_queue_reset q) = TTY_BUF_SIZE"
  by (simp_all add: tty_queue_reset_def tq_ok_def tq_chars_def tq_room_def)

theorem tty_queue_fifo_witness:
  "tq_chars (fold putq [104, 105] (tty_queue_reset undefined)) = [104, 105] \<and>
   tq_chars (snd (tty_getch (fold putq [104, 105] (tty_queue_reset undefined)))) = [105]"
proof -
  let ?q = "tty_queue_reset undefined"
  have c: "tq_chars (fold putq [104, 105] ?q) = [104, 105]"
    using tty_queue_fifo [OF reset_queue(1), of "[104, 105]"] by simp
  moreover have "tq_ok (fold putq [104, 105] ?q)" by (simp add: tq.put_okq)
  ultimately show ?thesis using tty_queue_fifo [of "fold putq [104, 105] ?q"] by simp
qed

section \<open>Taking the characters\<close>

lemma upd_tty_simps [simp]:
  "tty_tab (upd_tty i f s) = (tty_tab s)(i := f (tty_tab s i))" "current_process (upd_tty i f s) = current_process s"
  "process_table (upd_tty i f s) = process_table s" "user_spaces (upd_tty i f s) = user_spaces s"
  "no_sleepers (upd_tty i f s) = no_sleepers s" "mutex_locked m (upd_tty i f s) = mutex_locked m s"
  "timer_ticks (upd_tty i f s) = timer_ticks s"
  by (simp_all add: upd_tty_def no_sleepers_def mutex_locked_def)

lemma upd_space_simps [simp]:
  "tty_tab (upd_space f s) = tty_tab s" "current_process (upd_space f s) = current_process s"
  "process_table (upd_space f s) = process_table s" "no_sleepers (upd_space f s) = no_sleepers s"
  by (simp_all add: upd_space_def no_sleepers_def)

text \<open>The state after \<open>m\<close> characters of the read queue have gone to the address \<open>a\<close>.\<close>

definition chars_taken :: "nat \<Rightarrow> nat \<Rightarrow> u32 \<Rightarrow> 'a tty_state_scheme \<Rightarrow> 'a tty_state_scheme" where
  "chars_taken m i a s = upd_space (cp_to_user a (take m (tq_chars (t_readq (tty_tab s i)))))
     (readq i (\<lambda>q. q\<lparr>tq_head := tq_head q + m\<rparr>) s)"

lemma chars_taken_0 [simp]: "chars_taken 0 i a s = s"
proof -
  have "(tty_tab s)(i := (tty_tab s i)\<lparr>t_readq := (t_readq (tty_tab s i))\<lparr>tq_head := tq_head (t_readq (tty_tab s i))\<rparr>\<rparr>) = tty_tab s"
    by (simp add: fun_eq_iff)
  then show ?thesis by (simp add: chars_taken_def upd_space_def readq_def upd_tty_def)
qed

lemma queue_length_chars: "tq_ok q \<Longrightarrow> queue_length q = length (tq_chars q)"
  by (auto simp: tq_ok_def queue_length_def tq_chars_def)

lemma take_char_taken:
  assumes "tq_ok (t_readq (tty_tab s i))" "m < length (tq_chars (t_readq (tty_tab s i)))"
  shows "chars_taken m i (a + 1) (take_char i a s) = chars_taken (Suc m) i a s"
    and "tq_ok (t_readq (tty_tab (take_char i a s) i))"
    and "length (tq_chars (t_readq (tty_tab (take_char i a s) i))) = length (tq_chars (t_readq (tty_tab s i))) - 1"
proof -
  obtain b bs where c: "tq_chars (t_readq (tty_tab s i)) = b # bs" using assms(2) by (cases "tq_chars (t_readq (tty_tab s i))") auto
  have ne: "\<not> tty_queue_empty (t_readq (tty_tab s i))" using c by (auto simp: tty_queue_empty_def tq_chars_def)
  have q: "snd (tty_getch (t_readq (tty_tab s i))) = (t_readq (tty_tab s i))\<lparr>tq_head := tq_head (t_readq (tty_tab s i)) + 1\<rparr>"
    using ne by (simp add: tty_getch_def)
  note g = tq.get_some [OF assms(1) c]
  have tc: "take_char i a s = upd_space (put_ubyte a b)
      (readq i (\<lambda>_. (t_readq (tty_tab s i))\<lparr>tq_head := tq_head (t_readq (tty_tab s i)) + 1\<rparr>) s)"
    using g q by (simp add: take_char_def split_beta)
  show "tq_ok (t_readq (tty_tab (take_char i a s) i))"
    "length (tq_chars (t_readq (tty_tab (take_char i a s) i))) = length (tq_chars (t_readq (tty_tab s i))) - 1"
    using g c unfolding tc q by (simp_all add: readq_def)
  show "chars_taken m i (a + 1) (take_char i a s) = chars_taken (Suc m) i a s"
    using g c unfolding tc chars_taken_def q by (simp add: upd_space_def readq_def upd_tty_def)
qed

lemma tty_drain_taken:
  assumes "tq_ok (t_readq (tty_tab s i))" "k \<le> length (tq_chars (t_readq (tty_tab s i)))"
  shows "tty_drain k (\<lambda>s. s) i buf req n s =
    (case req of
       None \<Rightarrow> (False, n + k, chars_taken k i (buf + of_nat n) s)
     | Some r \<Rightarrow> if int n < r \<and> r \<le> int (n + k) then (True, nat r, chars_taken (nat r - n) i (buf + of_nat n) s)
                 else (False, n + k, chars_taken k i (buf + of_nat n) s))"
  using assms
proof (induction k arbitrary: n s)
  case 0
  then show ?case by (auto split: option.split)
next
  case (Suc k)
  let ?s = "take_char i (buf + of_nat n) s"
  note t = take_char_taken [OF Suc.prems(1), where a = "buf + of_nat n"]
  have lt: "k < length (tq_chars (t_readq (tty_tab s i)))" using Suc.prems by simp
  have IH: "tty_drain k (\<lambda>s. s) i buf req (n + 1) ?s =
    (case req of
       None \<Rightarrow> (False, n + 1 + k, chars_taken k i (buf + of_nat (n + 1)) ?s)
     | Some r \<Rightarrow> if int (n + 1) < r \<and> r \<le> int (n + 1 + k) then (True, nat r, chars_taken (nat r - (n + 1)) i (buf + of_nat (n + 1)) ?s)
                 else (False, n + 1 + k, chars_taken k i (buf + of_nat (n + 1)) ?s))"
    using t(2,3) [of k] lt by (intro Suc.IH) auto
  have a: "buf + of_nat (Suc n) = buf + of_nat n + 1" by simp
  have step: "m \<le> k \<Longrightarrow> chars_taken m i (buf + of_nat n + 1) ?s = chars_taken (Suc m) i (buf + of_nat n) s" for m
    using t(1) [of m] lt by simp
  show ?case
  proof (cases req)
    case None
    then show ?thesis using IH step [of k] by (simp add: a del: of_nat_Suc)
  next
    case (Some r)
    have one: "chars_taken (Suc 0) i (buf + of_nat n) s = ?s" using step [of 0] by simp
    show ?thesis
    proof (cases "r = int (n + 1)")
      case True
      then show ?thesis using Some one by (auto simp: nat_add_distrib)
    next
      case False
      have e: "Suc (nat r - (n + 1)) = nat r - n" "nat r - (n + 1) \<le> k" if "int (n + 1) < r" "r \<le> int (n + 1 + k)" using that by auto
      show ?thesis using Some False IH step [of k] step [of "nat r - (n + 1)"] e
        by (auto simp: a simp del: of_nat_Suc)
    qed
  qed
qed

section \<open>The lock and sleeping\<close>

lemma more_tty:
  fixes s t :: "'a tty_state_scheme"
  shows "sched_state.more t = sched_state.more s \<Longrightarrow> tty_tab t = tty_tab s \<and> user_spaces t = user_spaces s"
  by (cases s, cases t) simp

lemma sched_wf_upd_tty [simp]: "sched_wf (upd_tty i f s) = sched_wf s"
  by (rule sched_wf_fields) (simp_all add: upd_tty_def)

lemma sched_wf_upd_space [simp]: "sched_wf (upd_space f s) = sched_wf s"
  by (rule sched_wf_fields) (simp_all add: upd_space_def)

lemma tty_unlock_ok:
  assumes "sched_wf s"
  shows "\<exists>t. tty_unlock E i s = Ret t \<and> sched_wf t \<and> user_spaces t = user_spaces s \<and>
    tty_tab t = (tty_tab s)(i := (tty_tab s i)\<lparr>t_mutex := mutex_init\<rparr>)"
proof -
  obtain t where t: "wakeup (tty_mutex_addr E i) WAKEUP_SWITCH s = Ret t" "sched_wf t" "sched_state.more t = sched_state.more s"
    using wakeup_more [OF assms] by blast
  then show ?thesis using more_tty [OF t(3)] by (auto simp: tty_unlock_def mutex_unlock_def mutex_init_def)
qed

lemma tty_finish_ok:
  assumes "sched_wf s"
  shows "\<exists>t. tty_finish E i r s = Ret (Tty_done r t) \<and> sched_wf t \<and> user_spaces t = user_spaces s \<and>
    tty_tab t = (tty_tab s)(i := (tty_tab s i)\<lparr>t_mutex := mutex_init\<rparr>)"
  using tty_unlock_ok [OF assms, of E i] by (auto simp: tty_finish_def)

lemma sleep_more:
  assumes wf: "sched_wf s" and c: "current_process s \<noteq> 0"
  shows "\<exists>t. sleep b PROC_SLEEP_INTERRUPTIBLE s = Ret t \<and> sched_wf t \<and> sched_state.more t = sched_state.more s"
proof -
  let ?f = "\<lambda>p. p\<lparr>state := PROC_SLEEP_INTERRUPTIBLE, sleeping_on := b\<rparr>"
  have "keeps_links ?f" by (simp add: keeps_links_def)
  from set_and_adjust [OF wf sched_wfD(4) [OF wf] this] c obtain v where
    v: "adjust_proc_queues (current_process s) (upd_proc (current_process s) ?f s) = Ret v" "sched_wf v"
      "links_only (upd_proc (current_process s) ?f s) v" by auto
  obtain t where t: "schedule v = Ret t" "sched_wf t" using schedule_picks_ok [OF v(2)] by blast
  have "sched_state.more t = sched_state.more s"
    using schedule_sched_only [OF t(1)] v(3) by (simp add: sched_only_def links_only_def upd_proc_def)
  then show ?thesis using c v t by (auto simp: sleep_def)
qed

lemma tty_wait_on_ok:
  assumes "sched_wf s" "current_process s \<noteq> 0"
  shows "\<exists>t. tty_wait_on E i w s = Ret (Tty_sleeps w t) \<and> sched_wf t \<and> tty_tab t = tty_tab s \<and> user_spaces t = user_spaces s"
proof -
  obtain t where t: "sleep (readq_addr E i) PROC_SLEEP_INTERRUPTIBLE s = Ret t" "sched_wf t" "sched_state.more t = sched_state.more s"
    using sleep_more [OF assms] by blast
  then show ?thesis using more_tty [OF t(3)] by (auto simp: tty_wait_on_def)
qed

section \<open>Canonical reads\<close>

text \<open>What editing makes of the characters of a line.\<close>

definition edit_line :: "tty_dev \<Rightarrow> u8 list \<Rightarrow> u8 list" where
  "edit_line tp cs = fold (\<lambda>c. canon_edit tp (sint c)) cs []"

lemma edit_line_snoc [simp]: "edit_line tp (cs @ [c]) = canon_edit tp (sint c) (edit_line tp cs)" "edit_line tp [] = []"
  by (simp_all add: edit_line_def)

text \<open>
  A session of one process that waits in a canonical read. Between two of its turns the keyboard puts one character
  into the read queue, and everything else may run that leaves the terminal's settings and the memory of the process
  alone and delivers no signal to it.
\<close>

definition typed :: "nat \<Rightarrow> nat \<Rightarrow> u8 \<Rightarrow> 'a tty_state_scheme \<Rightarrow> 'a tty_state_scheme \<Rightarrow> bool" where
  "typed i p c s t \<longleftrightarrow> \<not> tty_queue_full (t_readq (tty_tab s i)) \<and>
     t_readq (tty_tab t i) = putq (sint c) (t_readq (tty_tab s i)) \<and> t_termios (tty_tab t i) = t_termios (tty_tab s i) \<and>
     sched_wf t \<and> current_process t = p \<and> sigpending (cur t) = 0 \<and> user_spaces t p = user_spaces s p"

inductive canon_session :: "'a tty_state_scheme tty_env \<Rightarrow> nat \<Rightarrow> nat \<Rightarrow> u32 \<Rightarrow> int \<Rightarrow> 'a tty_state_scheme \<Rightarrow>
    u8 list \<Rightarrow> 'a tty_state_scheme tty_result \<Rightarrow> bool" for E i p buf count s0 where
  start: "canon_session E i p buf count s0 [] (Tty_sleeps (In_canon buf count []) s0)"
| key: "canon_session E i p buf count s0 cs (Tty_sleeps w s) \<Longrightarrow> typed i p c s t \<Longrightarrow> tty_resume E i w t = Ret r \<Longrightarrow>
    canon_session E i p buf count s0 (cs @ [c]) r"

lemma edit_same_termios:
  "t_termios tp = t_termios tq \<Longrightarrow> canon_edit tp c l = canon_edit tq c l"
  "t_termios tp = t_termios tq \<Longrightarrow> canon_goes_on tp c l = canon_goes_on tq c l"
  by (simp_all add: canon_edit_def canon_goes_on_def tcc_def)

text \<open>What a turn of the process does with the character that was put last.\<close>

lemma last_char_putq:
  fixes c :: u8
  assumes "tq_ok q" "\<not> tty_queue_full q"
  shows "last_char (putq (sint c) q) = Ret (sint c)"
  using assms by (simp add: last_char_def putq_def tty_putch_def tq_ok_def tty_queue_full_def scast_id)

lemma canon_turn:
  fixes scratch :: "u8 list"
  assumes "typed i p c s t" "tq_ok (t_readq (tty_tab s i))" "p \<noteq> 0" "0 \<le> count"
  defines "line \<equiv> canon_edit (tty_tab s i) (sint c) scratch"
  defines "nr \<equiv> min count (int (length line))"
  shows "if canon_goes_on (tty_tab s i) (sint c) line
    then \<exists>u. tty_resume E i (In_canon buf count scratch) t = Ret (Tty_sleeps (In_canon buf count line) u) \<and>
      tty_tab u = tty_tab t \<and> user_spaces u = user_spaces t
    else \<exists>u. tty_resume E i (In_canon buf count scratch) t = Ret (Tty_done nr u) \<and>
      user_spaces u = (user_spaces t)(p := cp_to_user buf (take (nat nr) line) (user_spaces s p)) \<and>
      t_mutex (tty_tab u i) = mutex_init \<and> t_readq (tty_tab u i) = t_readq (tty_tab t i)"
proof -
  have t: "sched_wf t" "current_process t = p" "sigpending (cur t) = 0" "user_spaces t p = user_spaces s p"
    and tio: "t_termios (tty_tab t i) = t_termios (tty_tab s i)"
    and q: "t_readq (tty_tab t i) = putq (sint c) (t_readq (tty_tab s i))" "\<not> tty_queue_full (t_readq (tty_tab s i))"
    using assms(1) by (auto simp: typed_def)
  have r: "tty_resume E i (In_canon buf count scratch) t =
    (if canon_goes_on (tty_tab s i) (sint c) line then tty_wait_on E i (In_canon buf count line) t
     else canon_deliver E i buf count line t)"
    using t(3) last_char_putq [OF assms(2) q(2)] edit_same_termios [OF tio]
    by (simp add: canon_resume_def q(1) line_def)
  have nr: "nr = (if count > int (length line) then int (length line) else count)" "0 \<le> nr"
    using assms(4) by (simp_all add: nr_def)
  let ?u = "upd_space (cp_to_user buf (take (nat nr) line)) t"
  have "canon_deliver E i buf count line t = tty_finish E i nr ?u"
    using nr by (simp add: canon_deliver_def Let_def)
  moreover obtain v where v: "tty_finish E i nr ?u = Ret (Tty_done nr v)" "user_spaces v = user_spaces ?u"
    "tty_tab v = (tty_tab ?u)(i := (tty_tab ?u i)\<lparr>t_mutex := mutex_init\<rparr>)"
    using tty_finish_ok [of ?u E i nr] t(1) by auto
  moreover have "user_spaces ?u = (user_spaces t)(p := cp_to_user buf (take (nat nr) line) (user_spaces s p))"
    using t by (simp add: upd_space_def)
  ultimately show ?thesis using r tty_wait_on_ok [of t E i "In_canon buf count line"] t(1,2) assms(3) by auto
qed

lemma canon_session_waits:
  assumes "canon_session E i p buf count s0 cs r" "tq_ok (t_readq (tty_tab s0 i))" "p \<noteq> 0" "0 \<le> count"
    and "r = Tty_sleeps w s"
  shows "w = In_canon buf count (edit_line (tty_tab s0 i) cs) \<and> tq_ok (t_readq (tty_tab s i)) \<and>
    t_termios (tty_tab s i) = t_termios (tty_tab s0 i) \<and> user_spaces s p = user_spaces s0 p \<and>
    length (edit_line (tty_tab s0 i) cs) < MAX_CANON"
  using assms
proof (induction arbitrary: w s rule: canon_session.induct)
  case start
  then show ?case by simp
next
  case (key cs v u c t r)
  note IH = key.IH [OF key.prems(1,2,3) refl]
  note turn = canon_turn [OF key.hyps(2) _ key.prems(2,3), of "edit_line (tty_tab s0 i) cs" E buf]
  have e: "canon_edit (tty_tab u i) (sint c) (edit_line (tty_tab s0 i) cs) = edit_line (tty_tab s0 i) (cs @ [c])"
    using edit_same_termios(1) [of "tty_tab u i" "tty_tab s0 i"] IH by simp
  have k: "tq_ok (t_readq (tty_tab t i))" "t_termios (tty_tab t i) = t_termios (tty_tab u i)" "user_spaces t p = user_spaces u p"
    using key.hyps(2) IH by (simp_all add: typed_def tq.put_okq)
  show ?case using turn IH key.hyps(3) key.prems(4) k unfolding e by (auto simp: canon_goes_on_def split: if_splits)
qed

lemma length_canon_edit: "length (canon_edit tp c l) \<le> Suc (length l)"
  by (auto simp: canon_edit_def)


section \<open>Non-canonical reads\<close>

definition tty_idle :: "nat \<Rightarrow> 'a tty_state_scheme \<Rightarrow> bool" where
  "tty_idle i s \<longleftrightarrow> sched_wf s \<and> \<not> mutex_locked (t_mutex (tty_tab s i)) s \<and> tq_ok (t_readq (tty_tab s i))"

lemma tty_lock_free:
  assumes "tty_idle i s"
  shows "tty_lock E i s = Ret (upd_tty i (\<lambda>t. t\<lparr>t_mutex := \<lparr>m_lock = True, m_owner = Some (current_process s)\<rparr>\<rparr>) s)"
  using assms by (simp add: tty_lock_def tty_idle_def mutex_lock_free)

text \<open>
  A read of a terminal that is not in canonical mode, with a minimum and no time limit, returns at once when enough
  characters wait: the caller's buffer holds the oldest of them, in the order they were typed, and the others stay.
\<close>

theorem noncanon_read_in_order:
  assumes "0 \<le> n" "n < NR_TTY" "t_open (tty_tab s (nat n))" "tty_idle (nat n) s"
    and "\<not> lflag (tty_tab s (nat n)) ICANON" "tcc (tty_tab s (nat n)) VTIME = 0"
    and "r = min count (tcc (tty_tab s (nat n)) VMIN)" "0 < r" "nat r \<le> length (tq_chars (t_readq (tty_tab s (nat n))))"
  shows "\<exists>t. tty_read E n buf count s = Ret (Tty_done r t) \<and>
    user_bytes buf (nat r) (user_spaces t (current_process s)) = take (nat r) (tq_chars (t_readq (tty_tab s (nat n)))) \<and>
    tq_chars (t_readq (tty_tab t (nat n))) = drop (nat r) (tq_chars (t_readq (tty_tab s (nat n)))) \<and>
    t_mutex (tty_tab t (nat n)) = mutex_init"
proof -
  let ?i = "nat n" and ?q = "t_readq (tty_tab s (nat n))"
  define u where "u = upd_tty ?i (\<lambda>t. t\<lparr>t_mutex := \<lparr>m_lock = True, m_owner = Some (current_process s)\<rparr>\<rparr>) s"
  have ok: "tq_ok ?q" and wf: "sched_wf s" using assms(4) by (simp_all add: tty_idle_def)
  have uq: "t_readq (tty_tab u ?i) = ?q" by (simp add: u_def)
  have v: "0 < tcc (tty_tab s ?i) VMIN" "(if count < tcc (tty_tab s ?i) VMIN then count else tcc (tty_tab s ?i) VMIN) = r"
    using assms(7,8) by (simp_all add: min_def split: if_splits)
  have tu: "tcc (tty_tab u ?i) = tcc (tty_tab s ?i)" "lflag (tty_tab u ?i) = lflag (tty_tab s ?i)"
    by (simp_all add: fun_eq_iff tcc_def u_def)
  have rd: "tty_read E n buf count s = case2_loop E ?i buf 0 r u"
    using assms(1-6) v tty_lock_free [OF assms(4), of E, folded u_def]
    by (simp add: tty_read_def tty_read_case2_def Let_def tu)
  have "drain_all (\<lambda>s. s) ?i buf (Some r) 0 u = (True, nat r, chars_taken (nat r) ?i buf u)"
    using tty_drain_taken [of u ?i "queue_length ?q" buf "Some r" 0] assms(8,9) ok
    by (simp add: drain_all_def uq queue_length_chars)
  then have c2: "case2_loop E ?i buf 0 r u = tty_finish E ?i r (chars_taken (nat r) ?i buf u)"
    by (simp add: case2_loop_def)
  have "sched_wf (chars_taken (nat r) ?i buf u)" using wf by (simp add: chars_taken_def readq_def u_def)
  from tty_finish_ok [OF this, of E ?i r] obtain t where
    t: "tty_finish E ?i r (chars_taken (nat r) ?i buf u) = Ret (Tty_done r t)"
      "user_spaces t = user_spaces (chars_taken (nat r) ?i buf u)"
      "tty_tab t = (tty_tab (chars_taken (nat r) ?i buf u))(?i := (tty_tab (chars_taken (nat r) ?i buf u) ?i)\<lparr>t_mutex := mutex_init\<rparr>)"
    by blast
  have sp: "user_spaces t (current_process s) = cp_to_user buf (take (nat r) (tq_chars ?q)) (cur_space s)"
    using t(2) by (simp add: chars_taken_def upd_space_def readq_def u_def uq)
  have "length (tq_chars ?q) \<le> 512" using ok by (auto simp: tq_ok_def tq_chars_def)
  then have "length (take (nat r) (tq_chars ?q)) \<le> 512" by simp
  then have len2: "length (take (nat r) (tq_chars ?q)) < 2 ^ 32" by (rule le_less_trans) simp
  have len1: "length (take (nat r) (tq_chars ?q)) = nat r" using assms(9) by simp
  have "tq_chars (?q\<lparr>tq_head := tq_head ?q + nat r\<rparr>) = drop (nat r) (tq_chars ?q)"
    by (simp add: tq_chars_def drop_take add.commute)
  then have "tq_chars (t_readq (tty_tab t ?i)) = drop (nat r) (tq_chars ?q)"
    using t(3) by (simp add: chars_taken_def readq_def u_def)
  then show ?thesis
    using rd c2 t sp cp_to_user_roundtrip [OF len2, of buf "cur_space s"] len1 by auto
qed

end
