(* ===== verification/Tty_Write.thy ===== *)
theory Tty_Write
  imports Tty_Props
begin

text \<open>
  Writing to a terminal: the hardware driver is handed the text with newlines translated. What the terminal relies on
  of its driver is a locale, which \<^verbatim>\<open>vc_write\<close> meets.
\<close>

section \<open>Translation\<close>

definition post_char :: "termios \<Rightarrow> u8 \<Rightarrow> u8 list" where
  "post_char t c =
     (if tflag (c_oflag t) OPOST \<and> c = 10 \<and> tflag (c_oflag t) ONLCR then [13, 10]
      else if tflag (c_oflag t) OPOST \<and> c = 13 \<and> tflag (c_oflag t) OCRNL then [10]
      else [c])"

definition post_text :: "termios \<Rightarrow> u8 list \<Rightarrow> u8 list" where
  "post_text t cs = concat (map (post_char t) cs)"

lemma post_text_simps [simp]:
  "post_text t [] = []" "post_text t (c # cs) = post_char t c @ post_text t cs"
  by (simp_all add: post_text_def)

lemma sint_u8_eq: "sint (c :: u8) = 10 \<longleftrightarrow> c = 10" "sint (c :: u8) = 13 \<longleftrightarrow> c = 13"
  using signed_word_eqI [of c 10] signed_word_eqI [of c 13] by auto

lemma write_post_fold:
  assumes "write_post t (sint c) q = (c', q')"
  shows "putq c' q' = fold putq (map sint (post_char t c)) q"
  using assms by (auto simp: write_post_def post_char_def sint_u8_eq split: if_splits)

lemma post_char_length: "0 < length (post_char t c)"
  by (simp add: post_char_def)

lemma post_text_length: "length cs \<le> length (post_text t cs)"
proof (induction cs)
  case (Cons c cs)
  then show ?case using post_char_length [of t c] by (simp only: post_text_simps length_append list.size)
qed simp

lemma tty_write_loop_text:
  assumes "tq_ok q" "length (post_text t cs) \<le> tq_room q"
    and "\<And>k. k < length cs \<Longrightarrow> m (p + of_nat k) = cs ! k" "0 \<notin> set cs"
  shows "tty_write_loop t m p (int (length cs)) q = (p + of_nat (length cs), fold putq (map sint (post_text t cs)) q)"
  using assms
proof (induction cs arbitrary: p q)
  case Nil
  then show ?case by (simp add: tty_write_loop.simps)
next
  case (Cons c cs)
  have mp: "m p = c" using Cons.prems(3) [of 0] by simp
  have c0: "c \<noteq> 0" using Cons.prems(4) by auto
  have room: "\<not> tty_queue_full q"
    using Cons.prems(2) post_char_length [of t c] by (auto simp: tq_room_def tty_queue_full_def)
  obtain c' q' where w: "write_post t (sint c) q = (c', q')" by (cases "write_post t (sint c) q")
  let ?q = "fold putq (map sint (post_char t c)) q"
  have q: "putq c' q' = ?q" using write_post_fold [OF w] .
  have ok: "tq_ok ?q" "tq_room ?q = tq_room q - length (post_char t c)"
    using tq.put_all [OF Cons.prems(1), of "map sint (post_char t c)"] Cons.prems(2) by simp_all
  have IH: "tty_write_loop t m (p + 1) (int (length cs)) ?q = (p + 1 + of_nat (length cs), fold putq (map sint (post_text t cs)) ?q)"
  proof (rule Cons.IH [OF ok(1)])
    show "length (post_text t cs) \<le> tq_room ?q" using ok(2) Cons.prems(2) by simp
    show "m (p + 1 + of_nat k) = cs ! k" if "k < length cs" for k
      using Cons.prems(3) [of "Suc k"] that by (simp add: add.assoc)
    show "0 \<notin> set cs" using Cons.prems(4) by simp
  qed
  have "tty_write_loop t m p (int (length (c # cs))) q = tty_write_loop t m (p + 1) (int (length cs)) (putq c' q')"
    using mp c0 room w by (subst tty_write_loop.simps) simp
  then show ?case using IH q by (simp add: add.assoc)
qed

section \<open>The hardware driver\<close>

text \<open>The state in which the driver is called, and the queue it is given.\<close>

definition call_state :: "nat \<Rightarrow> tty_queue \<Rightarrow> 'a tty_state_scheme \<Rightarrow> 'a tty_state_scheme" where
  "call_state i q s = upd_tty i (\<lambda>t. t\<lparr>t_mutex := \<lparr>m_lock = True, m_owner = Some (current_process s)\<rparr>, t_writeq := q\<rparr>) s"

text \<open>A driver that returns has kept the scheduler consistent and left the terminals and user memory alone.\<close>

locale output_driver =
  fixes out :: "int \<Rightarrow> tty_queue \<Rightarrow> 'a tty_state_scheme \<Rightarrow> (int \<times> 'a tty_state_scheme) kres"
  assumes out_keeps: "sched_wf s \<Longrightarrow> out n q s = Ret (r, t) \<Longrightarrow>
    sched_wf t \<and> tty_tab t = tty_tab s \<and> user_spaces t = user_spaces s"
begin

lemma flush_reset_out:
  assumes "sched_wf s" "\<not> t_stopped (tty_tab s i)" "t_driver (tty_tab s i) = Some d" "driver_out E d = out"
    and "out (TTY_NUM i) (t_writeq (tty_tab s i)) s = Ret (r, t)"
  shows "flush_reset E i s = Ret (writeq i tty_queue_reset t) \<and> sched_wf t \<and> tty_tab t = tty_tab s \<and> user_spaces t = user_spaces s"
  using assms out_keeps [OF assms(1,5)] by (simp add: flush_reset_def tty_flush_def)

lemma write_out:
  assumes "0 \<le> n" "n < NR_TTY" "t_open (tty_tab s (nat n))" "tty_idle (nat n) s"
    and "t_driver (tty_tab s (nat n)) = Some d" "driver_out E d = out" "\<not> t_stopped (tty_tab s (nat n))"
    and "t_writeq (tty_tab s (nat n)) = tty_queue_reset q0"
    and "user_bytes buf (length cs) (cur_space s) = cs" "0 \<notin> set cs"
    and "length (post_text (t_termios (tty_tab s (nat n))) cs) \<le> TTY_BUF_SIZE"
    and "q = fold putq (map sint (post_text (t_termios (tty_tab s (nat n))) cs)) (tty_queue_reset q0)"
    and "out (TTY_NUM (nat n)) q (call_state (nat n) q s) = Ret (r, t)"
  shows "\<exists>u. tty_write E n buf (int (length cs)) s = Ret (int (length cs), u) \<and>
    sched_state.more u = sched_state.more (upd_tty (nat n) (\<lambda>d. d\<lparr>t_writeq := tty_queue_reset q, t_mutex := mutex_init\<rparr>) t) \<and>
    tty_tab t = tty_tab (call_state (nat n) q s)"
proof -
  let ?i = "nat n"
  define l where "l = upd_tty ?i (\<lambda>t. t\<lparr>t_mutex := \<lparr>m_lock = True, m_owner = Some (current_process s)\<rparr>\<rparr>) s"
  have lock: "tty_lock E ?i s = Ret l" using tty_lock_free [OF assms(4)] by (simp add: l_def)
  have wf: "sched_wf s" using assms(4) by (simp add: tty_idle_def)
  have mem: "us_mem (cur_space s) (buf + of_nat k) = cs ! k" if "k < length cs" for k
    using arg_cong [OF assms(9), of "\<lambda>x. x ! k"] that by (simp add: user_bytes_def)
  have loop: "tty_write_loop (t_termios (tty_tab l ?i)) (us_mem (cur_space l)) buf (int (length cs)) (t_writeq (tty_tab l ?i))
      = (buf + of_nat (length cs), q)"
    using tty_write_loop_text [of "tty_queue_reset q0" "t_termios (tty_tab s ?i)" cs "us_mem (cur_space s)" buf] mem assms(8,10,11,12)
    by (simp add: l_def)
  have cs: "writeq ?i (\<lambda>_. q) l = call_state ?i q s" by (simp add: writeq_def l_def call_state_def upd_tty_def)
  have f: "flush_reset E ?i (call_state ?i q s) = Ret (writeq ?i tty_queue_reset t) \<and> sched_wf t \<and>
      tty_tab t = tty_tab (call_state ?i q s) \<and> user_spaces t = user_spaces (call_state ?i q s)"
    using assms(5,6,7,13) wf by (intro flush_reset_out [where d = d and r = r]) (simp_all add: call_state_def)
  let ?t = "writeq ?i tty_queue_reset t"
  have "sched_wf ?t" using f by (simp add: writeq_def)
  then obtain v where v: "wakeup (tty_mutex_addr E ?i) WAKEUP_SWITCH ?t = Ret v" "sched_state.more v = sched_state.more ?t"
    using wakeup_more by blast
  have un: "tty_unlock E ?i ?t = Ret (upd_tty ?i (\<lambda>t. t\<lparr>t_mutex := mutex_init\<rparr>) v)"
    using v(1) by (simp add: tty_unlock_def mutex_unlock_def mutex_init_def)
  have "sched_state.more (upd_tty ?i (\<lambda>t. t\<lparr>t_mutex := mutex_init\<rparr>) v) =
      sched_state.more (upd_tty ?i (\<lambda>t. t\<lparr>t_mutex := mutex_init\<rparr>) ?t)"
    using v(2) by (cases v, cases ?t) (simp add: upd_tty_def)
  moreover have "upd_tty ?i (\<lambda>t. t\<lparr>t_mutex := mutex_init\<rparr>) ?t =
      upd_tty ?i (\<lambda>d. d\<lparr>t_writeq := tty_queue_reset q, t_mutex := mutex_init\<rparr>) t"
    by (simp add: writeq_def upd_tty_def tty_queue_reset_def)
  moreover have len: "sint (buf + of_nat (length cs) - buf) = int (length cs)"
  proof -
    have "length cs \<le> 512" using assms(11) post_text_length [of cs "t_termios (tty_tab s ?i)"] by linarith
    then show ?thesis by (simp add: sint_uint signed_take_bit_int_eq_self unsigned_of_nat take_bit_nat_eq_self take_bit_int_eq_self)
  qed
  ultimately show ?thesis
    using assms(1,2,3) lock loop cs f un by (auto simp: tty_write_def Let_def)
qed

end

section \<open>Input that is lost\<close>

text \<open>
  Nothing empties the read queue or takes its head forward in canonical mode, so that its tail only grows. Once it is
  full every character that is typed is dropped and nobody is woken.
\<close>

lemma tty_process_input_full:
  "tty_queue_full (t_readq (tty_tab s i)) \<Longrightarrow> tty_process_input E i c s = Ret s"
  by (simp add: tty_process_input_def)

lemma input_loop_full: "tty_queue_full (t_readq (tty_tab s i)) \<Longrightarrow> input_loop E i cs s = Ret ([], s)"
  by (induction cs) (simp_all add: tty_process_input_full)

text \<open>A canonical read leaves the queue as it found it.\<close>

lemma canon_resume_keeps_queue:
  assumes "sched_wf s" "canon_resume E i buf count scratch s = Ret (Tty_done r u)"
  shows "t_readq (tty_tab u i) = t_readq (tty_tab s i)"
proof -
  have f: "t_readq (tty_tab u i) = t_readq (tty_tab t i)" if "sched_wf t" "tty_finish E i k t = Ret (Tty_done r u)" for k t
    using tty_finish_ok [OF that(1), of E i k] that(2) by auto
  have w: "tty_wait_on E i v s \<noteq> Ret (Tty_done r u)" for v
    by (cases "sleep (readq_addr E i) PROC_SLEEP_INTERRUPTIBLE s") (simp_all add: tty_wait_on_def)
  show ?thesis
  proof (cases "sigpending (cur s) = 0")
    case False
    then show ?thesis using assms f [of s] by (simp add: canon_resume_def)
  next
    case True
    then obtain l where "canon_deliver E i buf count l s = Ret (Tty_done r u)"
      using assms(2) w by (auto simp: canon_resume_def Let_def bindk_eq_Ret_iff split: if_splits)
    then show ?thesis using assms(1) f [of "upd_space g s" for g] by (auto simp: canon_deliver_def Let_def split: if_splits)
  qed
qed

end
