(* ===== verification/Tty_Demo.thy ===== *)
theory Tty_Demo
  imports Tty_Write Ext2_Demo
begin

text \<open>Terminals at which the theorems are applied: process 1 of the demonstration runs and terminal 0 is open.\<close>

definition demo_termios :: "u32 \<Rightarrow> termios" where
  "demo_termios lf = \<lparr>c_iflag = 0, c_oflag = OPOST OR ONLCR, c_lflag = lf, c_cflag = 0, c_cc = init_cc (replicate NCCS 0)\<rparr>"

definition demo_dev :: "u32 \<Rightarrow> tty_queue \<Rightarrow> tty_dev" where
  "demo_dev lf q = \<lparr>t_termios = demo_termios lf, t_driver = Some 0, t_writeq = tty_queue_reset q, t_readq = q,
     t_stopped = False, t_open = True, t_mutex = mutex_init\<rparr>"

definition demo_ttys :: "tty_dev \<Rightarrow> (u32 \<Rightarrow> u8) \<Rightarrow> tty_state" where
  "demo_ttys d m = (ext2_state.extend (demo_fs (\<lambda>_. 0)) (tty_state.fields (\<lambda>_. d)))
     \<lparr>user_spaces := \<lambda>_. \<lparr>us_valid = (\<lambda>_. True), us_mem = m\<rparr>\<rparr>"

definition demo_tenv :: "'s tty_env" where
  "demo_tenv = \<lparr>driver_out = (\<lambda>_ _ _ s. Ret (0, s)), tty_mutex_addr = (\<lambda>i. 0x50000 + of_nat i),
     readq_addr = (\<lambda>i. 0x60000 + of_nat i)\<rparr>"

lemma demo_ttys_fields [simp]:
  "tty_tab (demo_ttys d m) i = d" "current_process (demo_ttys d m) = 1" "process_table (demo_ttys d m) = process_table two_users"
  "process_queues (demo_ttys d m) = process_queues two_users"
  "user_spaces (demo_ttys d m) p = \<lparr>us_valid = (\<lambda>_. True), us_mem = m\<rparr>"
  by (simp_all add: demo_ttys_def ext2_state.defs tty_state.defs demo_fs_def)

lemma demo_ttys_wf: "sched_wf (demo_ttys d m)"
  using sched_wf_fields [of "demo_ttys d m" two_users] two_users_wf by (simp add: two_users_fields)

lemma demo_ttys_idle: "tq_ok (t_readq d) \<Longrightarrow> t_mutex d = mutex_init \<Longrightarrow> tty_idle i (demo_ttys d m)"
  by (simp add: tty_idle_def demo_ttys_wf mutex_locked_def mutex_init_def)

section \<open>A canonical read\<close>

definition demo_reader :: tty_state where
  "demo_reader = demo_ttys (demo_dev (ICANON OR ECHO) (tty_queue_reset undefined)) (\<lambda>_. 0)"

definition type_key :: "u8 \<Rightarrow> tty_state \<Rightarrow> tty_state" where
  "type_key c s = readq 0 (putq (sint c)) s"

lemma typed_key:
  assumes "tty_tab u = tty_tab s" "user_spaces u = user_spaces s" "\<not> tty_queue_full (t_readq (tty_tab s 0))"
    and "sched_wf s" "current_process s = 1" "sigpending (cur s) = 0"
  shows "typed 0 1 c u (type_key c s)"
  using assms by (simp add: typed_def type_key_def readq_def)

lemma demo_cc:
  "tcc (demo_dev lf q) VEOF = 4" "tcc (demo_dev lf q) VERASE = 127" "tcc (demo_dev lf q) VKILL = 21"
  "tcc (demo_dev lf q) VMIN = 1" "tcc (demo_dev lf q) VTIME = 0"
proof -
  have "init_cc (replicate NCCS 0) = [4, 0, 127, 3, 21, 1, 28, 17, 19, 25, 0]" by code_simp
  then show "tcc (demo_dev lf q) VEOF = 4" "tcc (demo_dev lf q) VERASE = 127" "tcc (demo_dev lf q) VKILL = 21"
    "tcc (demo_dev lf q) VMIN = 1" "tcc (demo_dev lf q) VTIME = 0"
    by (simp_all add: tcc_def demo_dev_def demo_termios_def)
qed

lemma demo_edit: "edit_line (demo_dev (ICANON OR ECHO) q) [97, 10] = [97, 10]" "edit_line (demo_dev (ICANON OR ECHO) q) [97] = [97]"
  by (simp_all add: edit_line_def canon_edit_def demo_cc)

lemma demo_session:
  "\<exists>s. canon_session demo_tenv 0 1 0x1000 10 demo_reader [97] (Tty_sleeps (In_canon 0x1000 10 [97]) s) \<and>
    typed 0 1 10 s (type_key 10 (type_key 97 demo_reader))"
proof -
  let ?d = "demo_dev (ICANON OR ECHO) (tty_queue_reset undefined)" and ?t = "type_key 97 demo_reader"
  have sig: "sigpending (cur demo_reader) = 0" by (simp add: demo_reader_def two_users_fields demo_defs)
  have q: "t_readq (tty_tab demo_reader 0) = tty_queue_reset undefined" by (simp add: demo_reader_def demo_dev_def)
  have nf: "\<not> tty_queue_full (t_readq (tty_tab demo_reader 0))" by (simp add: q tty_queue_full_def tty_queue_reset_def)
  have wf: "sched_wf demo_reader" by (simp add: demo_reader_def demo_ttys_wf)
  have ty: "typed 0 1 97 demo_reader ?t"
    by (rule typed_key) (use nf wf sig in \<open>simp_all add: demo_reader_def\<close>)
  have "canon_edit (tty_tab demo_reader 0) (sint (97 :: u8)) [] = [97]" "canon_goes_on (tty_tab demo_reader 0) (sint (97 :: u8)) [97]"
    by (simp_all add: demo_reader_def canon_edit_def canon_goes_on_def demo_cc)
  with canon_turn [OF ty, where count = 10 and scratch = "[]" and E = demo_tenv and buf = "0x1000"] obtain u where
    u: "tty_resume demo_tenv 0 (In_canon 0x1000 10 []) ?t = Ret (Tty_sleeps (In_canon 0x1000 10 [97]) u)"
      "tty_tab u = tty_tab ?t" "user_spaces u = user_spaces ?t" by (auto simp: q)
  have "canon_session demo_tenv 0 1 0x1000 10 demo_reader ([] @ [97]) (Tty_sleeps (In_canon 0x1000 10 [97]) u)"
    by (rule canon_session.key [OF canon_session.start ty u(1)])
  moreover have "typed 0 1 10 u (type_key 10 ?t)"
  proof (rule typed_key [OF u(2,3)])
    have "t_readq (tty_tab ?t 0) = putq (sint (97 :: u8)) (tty_queue_reset undefined)" by (simp add: type_key_def readq_def q)
    then show "\<not> tty_queue_full (t_readq (tty_tab ?t 0))"
      by (simp add: tty_queue_full_def putq_def tty_putch_def tty_queue_reset_def)
    show "sched_wf ?t" using wf by (simp add: type_key_def readq_def)
    show "current_process ?t = 1" by (simp add: type_key_def readq_def demo_reader_def)
    show "sigpending (cur ?t) = 0" using sig by (simp add: type_key_def readq_def)
  qed
  ultimately show ?thesis by auto
qed


section \<open>A read of waiting characters\<close>

definition demo_raw :: tty_state where
  "demo_raw = demo_ttys (demo_dev 0 (fold putq [104, 105] (tty_queue_reset undefined))) (\<lambda>_. 0)"

theorem noncanon_read_in_order_witness:
  "\<exists>t. tty_read demo_tenv 0 0x1000 5 demo_raw = Ret (Tty_done 1 t) \<and> user_bytes 0x1000 1 (user_spaces t 1) = [104] \<and>
    tq_chars (t_readq (tty_tab t 0)) = [105]"
proof -
  let ?q = "fold putq [104, 105] (tty_queue_reset undefined)"
  have c: "tq_chars ?q = [104, 105]" "tq_ok ?q" using tq.put_all [OF reset_queue(1), of "[104, 105]" undefined] by simp_all
  have d: "tty_tab demo_raw 0 = demo_dev 0 ?q" "current_process demo_raw = 1" by (simp_all add: demo_raw_def)
  have i: "tty_idle 0 demo_raw" using c(2) by (simp add: demo_raw_def demo_ttys_idle demo_dev_def)
  have cc: "t_open (demo_dev 0 ?q)" "t_readq (demo_dev 0 ?q) = ?q" "\<not> lflag (demo_dev 0 ?q) ICANON"
    by (simp_all add: demo_dev_def demo_termios_def tflag_def)
  show ?thesis
    using noncanon_read_in_order [where n = 0 and s = demo_raw and r = 1 and count = 5 and E = demo_tenv and buf = "0x1000"] i d cc c by (auto simp: demo_cc)
qed

end
