(* ===== verification/Console_Tty.thy ===== *)
theory Console_Tty
  imports Console_Output Tty_Demo
begin

text \<open>
  The virtual consoles as terminals: the state of \<^verbatim>\<open>sys/drivers/virtual_console.c\<close>, its initialisation, the routine
  \<^verbatim>\<open>vc_write\<close> that the terminals call, and what a write to a terminal puts on the display.
\<close>

section \<open>State and operations\<close>

text \<open>\<^verbatim>\<open>vc_table\<close> and \<^verbatim>\<open>vc_driver_table\<close>, with \<^verbatim>\<open>NULL\<close> where no low level driver is registered.\<close>

record con_state = tty_state +
  vc_table :: "nat \<Rightarrow> virtual_console"
  vc_driver_table :: "nat \<Rightarrow> virtual_console_driver option"

definition upd_vc :: "nat \<Rightarrow> (virtual_console \<Rightarrow> virtual_console) \<Rightarrow> 'a con_state_scheme \<Rightarrow> 'a con_state_scheme" where
  "upd_vc i f s = s\<lparr>vc_table := (vc_table s)(i := f (vc_table s i))\<rparr>"

definition register_vc_driver :: "int \<Rightarrow> virtual_console_driver option \<Rightarrow> 'a con_state_scheme \<Rightarrow> 'a con_state_scheme kres" where
  "register_vc_driver console driver s =
     (if 0 \<le> console \<and> console < int NR_VIRTUAL_CONSOLES
      then Ret (s\<lparr>vc_driver_table := (vc_driver_table s)(nat console := driver)\<rparr>)
      else Stop (Fault ''vc_driver_table''))"

text \<open>
  The consoles are driver \<open>VC_DRIVER\<close> of the terminals. \<open>fuel\<close> bounds the loop over the parameters of a sequence and
  \<open>A\<close> gives the addresses of the locks.
\<close>

abbreviation (input) VC_DRIVER :: nat where "VC_DRIVER \<equiv> 0"

definition vc_write :: "nat \<Rightarrow> (nat \<Rightarrow> u32) \<Rightarrow> int \<Rightarrow> tty_queue \<Rightarrow> 'a con_state_scheme \<Rightarrow> (int \<times> 'a con_state_scheme) kres" where
  "vc_write fuel A n q s =
     (let i = nat n in
      if n \<ge> int NR_VIRTUAL_CONSOLES then Ret (-1, s)
      else if n < 0 then Stop (Fault ''vc_table'')
      else
        bindk (mutex_lock (A i) (vc_mutex (vc_table s i)) s) (\<lambda>r.
        case r of
          Waiting s \<Rightarrow> Stop Blocked
        | Acquired m s \<Rightarrow>
            bindk (vc_output fuel (vc_driver_table s i) (tq_buf q) (tq_head q) (tq_tail q)
                     ((vc_table s i)\<lparr>vc_mutex := m\<rparr>)) (\<lambda>(r, vc).
            let s = upd_vc i (\<lambda>_. vc) s in
            bindk (mutex_unlock (A i) (vc_mutex (vc_table s i)) s) (\<lambda>(m, s).
            Ret (r, upd_vc i (\<lambda>v. v\<lparr>vc_mutex := m\<rparr>) s)))))"

text \<open>
  One round of the first loop of \<^verbatim>\<open>vc_init\<close>. The buffer of what is displayed keeps what the memory from \<^verbatim>\<open>kvmalloc\<close>
  holds, and \<^verbatim>\<open>vc_new_last_pos\<close> and the colours by value keep what they were.
\<close>

definition vc_setup :: "u32 \<times> u32 \<Rightarrow> u8 list \<Rightarrow> virtual_console \<Rightarrow> virtual_console" where
  "vc_setup dims old vc = vc\<lparr>vc_width := fst dims, vc_height := snd dims, vc_scr_size := fst dims * snd dims,
     vc_scr_buf := replicate (unat (fst dims * snd dims)) 0, vc_cur_buf := old, vc_last_pos := 0,
     vc_cx := 0, vc_saved_cx := 0, vc_cy := 0, vc_saved_cy := 0,
     vc_scroll_top := 0, vc_scroll_bottom := snd dims - 1\<rparr>"

definition vc_init_one :: "'a con_state_scheme buf_env \<Rightarrow> nat \<Rightarrow> 'a con_state_scheme \<Rightarrow> 'a con_state_scheme kres" where
  "vc_init_one E i s =
     (case vc_driver_table s i of
        None \<Rightarrow> Stop (Fault ''vc_driver_table'')
      | Some d \<Rightarrow>
          let n = fst (vcd_dimensions d) * snd (vcd_dimensions d) in
          bindk (heap_alloc E n s) (\<lambda>(scr, s).
          bindk (heap_alloc E n s) (\<lambda>(curb, s).
          if scr = 0 then Stop (Fault ''vc_scr_buf'')
          else
            bindk (vc_set_default_attr (Some d)
                     (vc_setup (vcd_dimensions d) (map (\<lambda>k. kmem s (curb + of_nat k)) [0..<unat n]) (vc_table s i))) (\<lambda>vc.
            Ret (upd_vc i (\<lambda>_. vc\<lparr>vc_mutex := mutex_init\<rparr>) s)))))"

definition vc_init :: "'a con_state_scheme buf_env \<Rightarrow> 'a con_state_scheme \<Rightarrow> (int \<times> 'a con_state_scheme) kres" where
  "vc_init E s =
     bindk (foldk (vc_init_one E) [0..<NR_VIRTUAL_CONSOLES] s) (\<lambda>s.
     bindk (foldk (\<lambda>i s. bindk (tty_driver_register (int i) (Some VC_DRIVER) s) (\<lambda>(_, s). Ret s))
              [0..<NR_VIRTUAL_CONSOLES] s) (\<lambda>s. Ret (0, s)))"

text \<open>The environment in which the terminals reach the consoles.\<close>

definition console_env :: "nat \<Rightarrow> (nat \<Rightarrow> u32) \<Rightarrow> 'a con_state_scheme tty_env \<Rightarrow> 'a con_state_scheme tty_env" where
  "console_env fuel A E = E\<lparr>driver_out := (driver_out E)(VC_DRIVER := vc_write fuel A)\<rparr>"

section \<open>The console as a driver\<close>

lemma upd_vc_simps [simp]:
  "vc_table (upd_vc i f s) = (vc_table s)(i := f (vc_table s i))" "vc_driver_table (upd_vc i f s) = vc_driver_table s"
  "tty_tab (upd_vc i f s) = tty_tab s" "user_spaces (upd_vc i f s) = user_spaces s"
  "current_process (upd_vc i f s) = current_process s"
  by (simp_all add: upd_vc_def)

lemma sched_wf_upd_vc [simp]: "sched_wf (upd_vc i f s) = sched_wf s"
  by (rule sched_wf_fields) (simp_all add: upd_vc_def)

lemma more_con:
  fixes s t :: "'a con_state_scheme"
  shows "sched_state.more t = sched_state.more s \<Longrightarrow>
    tty_tab t = tty_tab s \<and> user_spaces t = user_spaces s \<and> vc_table t = vc_table s \<and> vc_driver_table t = vc_driver_table s"
  by (cases s, cases t) simp

lemma vc_unlock:
  fixes s :: "'a con_state_scheme"
  assumes "sched_wf s"
  shows "\<exists>t. mutex_unlock a m s = Ret (mutex_init, t) \<and> sched_wf t \<and> tty_tab t = tty_tab s \<and>
    user_spaces t = user_spaces s \<and> vc_table t = vc_table s \<and> vc_driver_table t = vc_driver_table s"
proof -
  obtain t where t: "wakeup a WAKEUP_SWITCH s = Ret t" "sched_wf t" "sched_state.more t = sched_state.more s"
    using wakeup_more [OF assms] by blast
  then show ?thesis using more_con [OF t(3)] by (simp add: mutex_unlock_def mutex_init_def)
qed

lemma vc_write_keeps:
  assumes "sched_wf s" "vc_write fuel A n q s = Ret (r, t)"
  shows "sched_wf t \<and> tty_tab t = tty_tab s \<and> user_spaces t = user_spaces s"
proof (cases "n \<ge> int NR_VIRTUAL_CONSOLES")
  case True
  then show ?thesis using assms by (simp add: vc_write_def)
next
  case False
  then have n: "0 \<le> n" using assms(2) by (simp add: vc_write_def Let_def split: if_splits)
  show ?thesis
  proof (cases "mutex_lock (A (nat n)) (vc_mutex (vc_table s (nat n))) s")
    case (Stop e)
    then show ?thesis using assms(2) False n by (simp add: vc_write_def Let_def)
  next
    case (Ret lr)
    show ?thesis
    proof (cases lr)
      case (Waiting u)
      then show ?thesis using Ret assms(2) False n by (simp add: vc_write_def Let_def)
    next
      case (Acquired m u)
      have u: "u = s" using mutex_lock_result(1) [of "A (nat n)" "vc_mutex (vc_table s (nat n))" s m u] Ret Acquired by simp
      from assms(2) False n Ret Acquired u obtain x vc k v where
        w: "mutex_unlock (A (nat n)) (vc_mutex vc) (upd_vc (nat n) (\<lambda>_. vc) s) = Ret (k, v)"
          "t = upd_vc (nat n) (\<lambda>v. v\<lparr>vc_mutex := k\<rparr>) v"
        by (auto simp: vc_write_def Let_def bindk_eq_Ret_iff)
      have "sched_wf (upd_vc (nat n) (\<lambda>_. vc) s)" using assms(1) by simp
      from vc_unlock [OF this, of "A (nat n)" "vc_mutex vc"] show ?thesis using w by auto
    qed
  qed
qed

interpretation con: output_driver "vc_write fuel A" for fuel A
  by unfold_locales (rule vc_write_keeps)

text \<open>What \<^verbatim>\<open>vc_write\<close> does when the lock of the console is free.\<close>

lemma vc_write_shows:
  fixes s :: "'a con_state_scheme"
  assumes "sched_wf s" "0 \<le> n" "n < int NR_VIRTUAL_CONSOLES" "\<not> mutex_locked (vc_mutex (vc_table s (nat n))) s"
    and "vc_wf (vc_table s (nat n))" "vc_driver_table s (nat n) \<noteq> None" "NPAR < fuel"
    and "fine_output (tq_buf q) (tq_tail q) (tq_head q)" "tq_head q \<le> tq_tail q"
  shows "\<exists>t. vc_write fuel A n q s = Ret (int (tq_tail q) - int (tq_head q), t) \<and>
    vc_wf (vc_table t (nat n)) \<and> vc_cur_buf (vc_table t (nat n)) = vc_scr_buf (vc_table t (nat n)) \<and>
    \<not> m_lock (vc_mutex (vc_table t (nat n))) \<and>
    (\<exists>v. vc_write_loop fuel (vc_driver_table s (nat n)) (tq_buf q) (int (tq_tail q) - int (tq_head q)) (tq_head q)
          ((vc_table s (nat n))\<lparr>vc_mutex := \<lparr>m_lock = True, m_owner = Some (current_process s)\<rparr>\<rparr>) = Ret v \<and>
        vc_scr_buf (vc_table t (nat n)) = vc_scr_buf v \<and> cols (vc_table t (nat n)) = cols v \<and> rows (vc_table t (nat n)) = rows v)"
proof -
  let ?i = "nat n" and ?m = "\<lparr>m_lock = True, m_owner = Some (current_process s)\<rparr>"
  let ?vc = "(vc_table s ?i)\<lparr>vc_mutex := ?m\<rparr>"
  have wfm: "vc_wf (v\<lparr>vc_mutex := k\<rparr>) = vc_wf v" for v k
    by (simp add: vc_wf_def vc_sized_def vc_cursor_in_def vc_region_def vc_shown_def)
  obtain v where v: "vc_write_loop fuel (vc_driver_table s ?i) (tq_buf q) (int (tq_tail q) - int (tq_head q)) (tq_head q) ?vc = Ret v" "vc_wf v"
    using vc_write_loop_wf [OF assms(8) _ assms(6,7), of ?vc] assms(5) by (auto simp: keeps_wf_def wfm)
  obtain u where u: "vc_flush (vc_driver_table s ?i) (vc_calc_last_pos v) = Ret u" "vc_wf u" "vc_cur_buf u = vc_scr_buf u" "vc_scr_buf u = vc_scr_buf v"
    "vc_width u = vc_width v" "vc_height u = vc_height v"
    using vc_flush_shows [OF v(2) assms(6)] by auto
  have o: "vc_output fuel (vc_driver_table s ?i) (tq_buf q) (tq_head q) (tq_tail q) ?vc = Ret (int (tq_tail q) - int (tq_head q), u)"
    using v u assms(9) by (simp add: vc_output_def)
  have "sched_wf (upd_vc ?i (\<lambda>_. u) s)" using assms(1) by simp
  from vc_unlock [OF this, of "A ?i" "vc_mutex u"] obtain t where
    t: "mutex_unlock (A ?i) (vc_mutex u) (upd_vc ?i (\<lambda>_. u) s) = Ret (mutex_init, t)" "vc_table t = (vc_table s)(?i := u)"
    by auto
  have "vc_write fuel A n q s = Ret (int (tq_tail q) - int (tq_head q), upd_vc ?i (\<lambda>v. v\<lparr>vc_mutex := mutex_init\<rparr>) t)"
    using assms(2,3) mutex_lock_free [OF assms(4)] o t by (simp add: vc_write_def Let_def)
  then show ?thesis using t u v by (auto simp: wfm mutex_init_def)
qed

section \<open>From a system call to the display\<close>

lemma queue_of_text:
  assumes "length ts \<le> TTY_BUF_SIZE"
  shows "fold putq (map sint ts) (tty_queue_reset q) =
    \<lparr>tq_buf = ts @ replicate (TTY_BUF_SIZE - length ts) 0, tq_head = 0, tq_tail = length ts\<rparr>"
  using assms
proof (induction ts rule: rev_induct)
  case Nil
  show ?case by (simp add: tty_queue_reset_def)
next
  case (snoc c ts)
  then have "TTY_BUF_SIZE - length ts = Suc (TTY_BUF_SIZE - length (ts @ [c]))" by simp
  then show ?case using snoc by (simp add: putq_def tty_putch_def tty_queue_full_def scast_id list_update_append)
qed

lemma post_text_plain: "list_all (\<lambda>c. c \<notin> {CH_LF, CH_CR}) cs \<Longrightarrow> post_text t cs = cs"
  by (induction cs) (simp_all add: post_char_def)

lemma vc_output_text:
  assumes "vc_wf vc" "unat (vc_cx vc) + length cs < cols vc" "list_all (\<lambda>c. c \<notin> {CH_CR, CH_LF, CH_BS, CH_ESC}) cs"
    and "vc_write_loop fuel vcd (cs @ post) (int (length cs)) 0 vc = Ret v" "k < length cs"
  shows "vc_scr_buf v ! (unat (vc_cy vc) * cols vc + (unat (vc_cx vc) + k)) = cs ! k"
proof -
  have "length (vc_scr_buf vc) = rows vc * cols vc" using assms(1) by (simp add: vc_wf_def vc_sized_def)
  then have "unat (SCR_POS vc) \<le> length (vc_scr_buf vc)" using to_line_end(7) [OF assms(1)] by simp
  moreover have "vc_scr_buf v = take (unat (SCR_POS vc)) (vc_scr_buf vc) @ cs @ drop (unat (SCR_POS vc) + length cs) (vc_scr_buf vc)"
    using vc_write_loop_text [OF assms(1,2,3), of fuel vcd "[]" post] assms(4) by auto
  ultimately show ?thesis using to_line_end(3) [OF assms(1)] assms(5) by (simp add: nth_append)
qed

text \<open>
  C12. Text that a process writes to a terminal on a virtual console reaches the display. When the text is printable and
  fits into the rest of the line, \<^verbatim>\<open>tty_write\<close> returns its length, the console is well formed again, and the calls of
  the low level driver have left each character of the text on the display, in the row of the cursor from its column on.
\<close>

theorem tty_write_reaches_display:
  fixes s :: "'a con_state_scheme"
  assumes "0 \<le> n" "n < int NR_VIRTUAL_CONSOLES" "t_open (tty_tab s (nat n))" "tty_idle (nat n) s"
    and "t_driver (tty_tab s (nat n)) = Some VC_DRIVER" "\<not> t_stopped (tty_tab s (nat n))"
    and "t_writeq (tty_tab s (nat n)) = tty_queue_reset q0"
    and "vc_wf (vc_table s (nat n))" "vc_driver_table s (nat n) \<noteq> None" "NPAR < fuel"
    and "\<not> mutex_locked (vc_mutex (vc_table s (nat n))) s"
    and "user_bytes buf (length cs) (cur_space s) = cs" "list_all (\<lambda>c. 32 \<le> c \<and> c < 127) cs" "length cs \<le> TTY_BUF_SIZE"
    and "unat (vc_cx (vc_table s (nat n))) + length cs < cols (vc_table s (nat n))"
  shows "\<exists>u. tty_write (console_env fuel A E) n buf (int (length cs)) s = Ret (int (length cs), u) \<and>
    vc_wf (vc_table u (nat n)) \<and>
    (\<forall>k<length cs. display (vc_calls (vc_table u (nat n))) (unat (vc_cy (vc_table s (nat n))))
       (unat (vc_cx (vc_table s (nat n))) + k) = cs ! k)"
proof -
  let ?i = "nat n" and ?vc = "vc_table s (nat n)" and ?m = "\<lparr>m_lock = True, m_owner = Some (current_process s)\<rparr>"
  have plain: "list_all (\<lambda>c. c \<notin> {CH_CR, CH_LF, CH_BS, CH_ESC}) cs" "list_all (\<lambda>c. c \<notin> {CH_LF, CH_CR}) cs" "0 \<notin> set cs"
    using assms(13) by (auto simp: list_all_iff)
  define q where "q = \<lparr>tq_buf = cs @ replicate (TTY_BUF_SIZE - length cs) 0, tq_head = 0, tq_tail = length cs\<rparr>"
  have q: "q = fold putq (map sint (post_text (t_termios (tty_tab s ?i)) cs)) (tty_queue_reset q0)"
    using queue_of_text [OF assms(14)] post_text_plain [OF plain(2)] by (simp add: q_def)
  define s1 where "s1 = call_state ?i q s"
  have s1: "vc_table s1 = vc_table s" "vc_driver_table s1 = vc_driver_table s" "current_process s1 = current_process s"
    "mutex_locked m s1 = mutex_locked m s" for m
    by (simp_all add: s1_def call_state_def upd_tty_def mutex_locked_def)
  have wf1: "sched_wf s1" using assms(4) by (simp add: s1_def call_state_def tty_idle_def)
  have fine: "fine_output (tq_buf q) (tq_tail q) (tq_head q)"
    using plain(1) by (intro fine_plain) (auto simp: q_def nth_append list_all_length)
  obtain t v where t: "vc_write fuel A n q s1 = Ret (int (length cs), t)" "vc_wf (vc_table t ?i)"
    "vc_cur_buf (vc_table t ?i) = vc_scr_buf (vc_table t ?i)"
    "vc_write_loop fuel (vc_driver_table s ?i) (cs @ replicate (TTY_BUF_SIZE - length cs) 0) (int (length cs)) 0 (?vc\<lparr>vc_mutex := ?m\<rparr>) = Ret v"
    "vc_scr_buf (vc_table t ?i) = vc_scr_buf v" "cols (vc_table t ?i) = cols v" "rows (vc_table t ?i) = rows v"
    using vc_write_shows [OF wf1 assms(1,2) _ _ _ assms(10) fine, of A] assms(8,9,11) by (auto simp: s1 q_def)
  have tn: "TTY_NUM ?i = n" using assms(1,2) by (auto simp: TTY_NUM_def)
  have e: "driver_out (console_env fuel A E) VC_DRIVER = vc_write fuel A" by (simp add: console_env_def)
  have "length (post_text (t_termios (tty_tab s ?i)) cs) \<le> TTY_BUF_SIZE" using post_text_plain [OF plain(2)] assms(14) by simp
  from con.write_out [OF assms(1) _ assms(3,4,5) e assms(6,7,12) plain(3) this q, of "int (length cs)" t] t(1) assms(2)
  obtain u where u: "tty_write (console_env fuel A E) n buf (int (length cs)) s = Ret (int (length cs), u)"
    "sched_state.more u = sched_state.more (upd_tty ?i (\<lambda>d. d\<lparr>t_writeq := tty_queue_reset q, t_mutex := mutex_init\<rparr>) t)"
    by (auto simp: tn s1_def)
  have vu: "vc_table u = vc_table t" using more_con [OF u(2)] by (simp add: upd_tty_def)
  have wfm: "vc_wf (?vc\<lparr>vc_mutex := ?m\<rparr>)"
    using assms(8) by (simp add: vc_wf_def vc_sized_def vc_cursor_in_def vc_region_def vc_shown_def)
  note vt = vc_write_loop_text [OF wfm _ plain(1), of fuel "vc_driver_table s ?i" "[]" "replicate (TTY_BUF_SIZE - length cs) 0"]
  have dims: "cols v = cols ?vc" "rows v = rows ?vc" using vt t(4) assms(15) by auto
  have "display (vc_calls (vc_table u ?i)) (unat (vc_cy ?vc)) (unat (vc_cx ?vc) + k) = cs ! k" if k: "k < length cs" for k
  proof -
    have "unat (vc_cy ?vc) < rows ?vc" using assms(8) by (simp add: vc_wf_def vc_cursor_in_def unat_less)
    then have "display (vc_calls (vc_table t ?i)) (unat (vc_cy ?vc)) (unat (vc_cx ?vc) + k) =
        vc_scr_buf v ! (unat (vc_cy ?vc) * cols ?vc + (unat (vc_cx ?vc) + k))"
      using t(2,3,5,6,7) dims assms(15) k by (simp add: vc_wf_def vc_shown_def)
    then show ?thesis using vc_output_text [OF wfm _ plain(1) t(4) k] assms(15) vu by simp
  qed
  then show ?thesis using u(1) t(2) vu by auto
qed

definition demo_console :: "(u32 \<Rightarrow> u8) \<Rightarrow> con_state" where
  "demo_console m = tty_state.extend (demo_ttys (demo_dev (ICANON OR ECHO) (tty_queue_reset undefined)) m)
     (con_state.fields (\<lambda>_. demo_vc) (\<lambda>_. Some \<lparr>vcd_dimensions = (4, 2)\<rparr>))"

lemma demo_console_fields [simp]:
  "tty_tab (demo_console m) i = demo_dev (ICANON OR ECHO) (tty_queue_reset undefined)"
  "current_process (demo_console m) = 1" "process_table (demo_console m) = process_table two_users"
  "process_queues (demo_console m) = process_queues two_users"
  "user_spaces (demo_console m) p = \<lparr>us_valid = (\<lambda>_. True), us_mem = m\<rparr>"
  "vc_table (demo_console m) i = demo_vc" "vc_driver_table (demo_console m) i = Some \<lparr>vcd_dimensions = (4, 2)\<rparr>"
  using demo_ttys_fields [of "demo_dev (ICANON OR ECHO) (tty_queue_reset undefined)" m]
  by (simp_all add: demo_console_def tty_state.defs con_state.defs)

theorem tty_write_reaches_display_witness:
  "\<exists>u. tty_write (console_env 17 (\<lambda>_. 0x70000) demo_tenv) 0 0x1000 2 (demo_console (\<lambda>a. if a = 0x1000 then 72 else 105)) = Ret (2, u) \<and>
    vc_wf (vc_table u 0) \<and> display (vc_calls (vc_table u 0)) 0 0 = 72 \<and> display (vc_calls (vc_table u 0)) 0 1 = 105"
proof -
  let ?s = "demo_console (\<lambda>a. if a = 0x1000 then 72 else 105)"
  have wf: "sched_wf ?s"
    using sched_wf_fields [of ?s two_users] two_users_wf by (simp add: two_users_fields)
  have idle: "tty_idle (nat 0) ?s" using wf by (simp add: tty_idle_def demo_dev_def mutex_locked_def mutex_init_def)
  have "\<exists>u. tty_write (console_env 17 (\<lambda>_. 0x70000) demo_tenv) 0 0x1000 (int (length [72, 105 :: u8])) ?s = Ret (int (length [72, 105 :: u8]), u) \<and>
    vc_wf (vc_table u (nat 0)) \<and>
    (\<forall>k<length [72, 105 :: u8]. display (vc_calls (vc_table u (nat 0))) (unat (vc_cy (vc_table ?s (nat 0))))
       (unat (vc_cx (vc_table ?s (nat 0))) + k) = [72, 105] ! k)"
  proof (rule tty_write_reaches_display)
    show "user_bytes 0x1000 (length [72, 105 :: u8]) (cur_space ?s) = [72, 105]" by (simp add: user_bytes_def upt_conv_Cons)
    show "t_writeq (tty_tab ?s (nat 0)) = tty_queue_reset (tty_queue_reset undefined)" by (simp add: demo_dev_def)
  qed (use idle demo_vc_wf in \<open>simp_all add: demo_dev_def mutex_locked_def demo_vc_def mutex_init_def\<close>)
  then obtain u where u: "tty_write (console_env 17 (\<lambda>_. 0x70000) demo_tenv) 0 0x1000 2 ?s = Ret (2, u)" "vc_wf (vc_table u 0)"
    "\<forall>k<2. display (vc_calls (vc_table u 0)) 0 k = [72, 105] ! k" by (auto simp: demo_vc_def)
  from u(3) [rule_format, of 0] u(3) [rule_format, of 1] u show ?thesis by auto
qed

section \<open>Initialisation\<close>

text \<open>
  A console that \<^verbatim>\<open>vc_init\<close> has set up is well formed when the memory for what is displayed was zero, which
  \<^verbatim>\<open>kvmalloc\<close> does not promise.
\<close>

lemma vc_setup_wf:
  assumes "0 < w" "0 < h" "unat h * unat w < 2147483648" "display (vc_calls vc) = (\<lambda>_ _. 0)" "vcd \<noteq> None"
  shows "keeps_wf (vc_set_default_attr vcd (vc_setup (w, h) (replicate (unat (w * h)) 0) vc))"
proof -
  have wh: "unat (w * h) = unat h * unat w" using assms(3) by (subst unat_mult_small) (simp_all add: mult.commute)
  have "vc_wf (vc_setup (w, h) (replicate (unat (w * h)) 0) vc)"
    using assms cell_pos [of _ "unat h" _ "unat w"]
    by (simp add: vc_setup_def vc_wf_def vc_sized_def vc_cursor_in_def vc_region_def vc_shown_def wh unat_less unat_le unat_sub_small)
  then show ?thesis using assms(5) by (simp add: vc_set_default_attr_def call_set_attr_wf)
qed

end
