(* ===== verification/Keyboard.thy ===== *)
theory Keyboard
  imports Console_Tty
begin

text \<open>
  From the keyboard controller to the terminal: the scan codes of \<^verbatim>\<open>sys/drivers/ps2_kbd.c\<close>, the keys and modifiers of
  \<^verbatim>\<open>sys/drivers/keyboard.c\<close>, and the key maps of \<^verbatim>\<open>sys/drivers/defkeymap.h\<close>, by the numbers of
  \<^verbatim>\<open>sys/include/drivers/keycode.h\<close>. The byte read from the controller's port is an argument. The debugging output that
  F12 prints and the message about keys without effect are left out.
\<close>

section \<open>Keys\<close>

text \<open>The low byte is the position of the key, the high byte says which handler it has.\<close>

abbreviation (input) KEY_ESC :: u16 where "KEY_ESC \<equiv> 0x001"
abbreviation (input) KEY_1 :: u16 where "KEY_1 \<equiv> 0x012"
abbreviation (input) KEY_2 :: u16 where "KEY_2 \<equiv> 0x013"
abbreviation (input) KEY_3 :: u16 where "KEY_3 \<equiv> 0x014"
abbreviation (input) KEY_4 :: u16 where "KEY_4 \<equiv> 0x015"
abbreviation (input) KEY_5 :: u16 where "KEY_5 \<equiv> 0x016"
abbreviation (input) KEY_6 :: u16 where "KEY_6 \<equiv> 0x017"
abbreviation (input) KEY_7 :: u16 where "KEY_7 \<equiv> 0x018"
abbreviation (input) KEY_8 :: u16 where "KEY_8 \<equiv> 0x019"
abbreviation (input) KEY_9 :: u16 where "KEY_9 \<equiv> 0x01A"
abbreviation (input) KEY_0 :: u16 where "KEY_0 \<equiv> 0x01B"
abbreviation (input) KEY_MINUS :: u16 where "KEY_MINUS \<equiv> 0x01C"
abbreviation (input) KEY_EQUALS :: u16 where "KEY_EQUALS \<equiv> 0x01D"
abbreviation (input) KEY_BACKSPACE :: u16 where "KEY_BACKSPACE \<equiv> 0x01E"
abbreviation (input) KEY_TAB :: u16 where "KEY_TAB \<equiv> 0x022"
abbreviation (input) KEY_Q :: u16 where "KEY_Q \<equiv> 0x023"
abbreviation (input) KEY_W :: u16 where "KEY_W \<equiv> 0x024"
abbreviation (input) KEY_E :: u16 where "KEY_E \<equiv> 0x025"
abbreviation (input) KEY_R :: u16 where "KEY_R \<equiv> 0x026"
abbreviation (input) KEY_T :: u16 where "KEY_T \<equiv> 0x027"
abbreviation (input) KEY_Y :: u16 where "KEY_Y \<equiv> 0x028"
abbreviation (input) KEY_U :: u16 where "KEY_U \<equiv> 0x029"
abbreviation (input) KEY_I :: u16 where "KEY_I \<equiv> 0x02A"
abbreviation (input) KEY_O :: u16 where "KEY_O \<equiv> 0x02B"
abbreviation (input) KEY_P :: u16 where "KEY_P \<equiv> 0x02C"
abbreviation (input) KEY_LSQR_BRACKET :: u16 where "KEY_LSQR_BRACKET \<equiv> 0x02D"
abbreviation (input) KEY_RSQR_BRACKET :: u16 where "KEY_RSQR_BRACKET \<equiv> 0x02E"
abbreviation (input) KEY_A :: u16 where "KEY_A \<equiv> 0x034"
abbreviation (input) KEY_S :: u16 where "KEY_S \<equiv> 0x035"
abbreviation (input) KEY_D :: u16 where "KEY_D \<equiv> 0x036"
abbreviation (input) KEY_F :: u16 where "KEY_F \<equiv> 0x037"
abbreviation (input) KEY_G :: u16 where "KEY_G \<equiv> 0x038"
abbreviation (input) KEY_H :: u16 where "KEY_H \<equiv> 0x039"
abbreviation (input) KEY_J :: u16 where "KEY_J \<equiv> 0x03A"
abbreviation (input) KEY_K :: u16 where "KEY_K \<equiv> 0x03B"
abbreviation (input) KEY_L :: u16 where "KEY_L \<equiv> 0x03C"
abbreviation (input) KEY_SEMI_COLON :: u16 where "KEY_SEMI_COLON \<equiv> 0x03D"
abbreviation (input) KEY_QUOTE :: u16 where "KEY_QUOTE \<equiv> 0x03E"
abbreviation (input) KEY_ENTER :: u16 where "KEY_ENTER \<equiv> 0x03F"
abbreviation (input) KEY_Z :: u16 where "KEY_Z \<equiv> 0x041"
abbreviation (input) KEY_X :: u16 where "KEY_X \<equiv> 0x042"
abbreviation (input) KEY_C :: u16 where "KEY_C \<equiv> 0x043"
abbreviation (input) KEY_V :: u16 where "KEY_V \<equiv> 0x044"
abbreviation (input) KEY_B :: u16 where "KEY_B \<equiv> 0x045"
abbreviation (input) KEY_N :: u16 where "KEY_N \<equiv> 0x046"
abbreviation (input) KEY_M :: u16 where "KEY_M \<equiv> 0x047"
abbreviation (input) KEY_COMMA :: u16 where "KEY_COMMA \<equiv> 0x048"
abbreviation (input) KEY_DOT :: u16 where "KEY_DOT \<equiv> 0x049"
abbreviation (input) KEY_SLASH :: u16 where "KEY_SLASH \<equiv> 0x04A"
abbreviation (input) KEY_SPACE :: u16 where "KEY_SPACE \<equiv> 0x050"
abbreviation (input) KEY_PAD_SLASH :: u16 where "KEY_PAD_SLASH \<equiv> 0x058"
abbreviation (input) KEY_PAD_STAR :: u16 where "KEY_PAD_STAR \<equiv> 0x059"
abbreviation (input) KEY_PAD_MINUS :: u16 where "KEY_PAD_MINUS \<equiv> 0x05A"
abbreviation (input) KEY_PAD_7 :: u16 where "KEY_PAD_7 \<equiv> 0x05B"
abbreviation (input) KEY_PAD_8 :: u16 where "KEY_PAD_8 \<equiv> 0x05C"
abbreviation (input) KEY_PAD_9 :: u16 where "KEY_PAD_9 \<equiv> 0x05D"
abbreviation (input) KEY_PAD_4 :: u16 where "KEY_PAD_4 \<equiv> 0x05E"
abbreviation (input) KEY_PAD_5 :: u16 where "KEY_PAD_5 \<equiv> 0x05F"
abbreviation (input) KEY_PAD_6 :: u16 where "KEY_PAD_6 \<equiv> 0x060"
abbreviation (input) KEY_PAD_1 :: u16 where "KEY_PAD_1 \<equiv> 0x061"
abbreviation (input) KEY_PAD_2 :: u16 where "KEY_PAD_2 \<equiv> 0x062"
abbreviation (input) KEY_PAD_3 :: u16 where "KEY_PAD_3 \<equiv> 0x063"
abbreviation (input) KEY_PAD_PLUS :: u16 where "KEY_PAD_PLUS \<equiv> 0x064"
abbreviation (input) KEY_PAD_ENTER :: u16 where "KEY_PAD_ENTER \<equiv> 0x065"
abbreviation (input) KEY_PAD_0 :: u16 where "KEY_PAD_0 \<equiv> 0x066"
abbreviation (input) KEY_PAD_DOT :: u16 where "KEY_PAD_DOT \<equiv> 0x067"
abbreviation (input) KEY_F1 :: u16 where "KEY_F1 \<equiv> 0x102"
abbreviation (input) KEY_F2 :: u16 where "KEY_F2 \<equiv> 0x103"
abbreviation (input) KEY_F3 :: u16 where "KEY_F3 \<equiv> 0x104"
abbreviation (input) KEY_F4 :: u16 where "KEY_F4 \<equiv> 0x105"
abbreviation (input) KEY_F5 :: u16 where "KEY_F5 \<equiv> 0x106"
abbreviation (input) KEY_F6 :: u16 where "KEY_F6 \<equiv> 0x107"
abbreviation (input) KEY_F7 :: u16 where "KEY_F7 \<equiv> 0x108"
abbreviation (input) KEY_F8 :: u16 where "KEY_F8 \<equiv> 0x109"
abbreviation (input) KEY_F9 :: u16 where "KEY_F9 \<equiv> 0x10A"
abbreviation (input) KEY_F10 :: u16 where "KEY_F10 \<equiv> 0x10B"
abbreviation (input) KEY_F11 :: u16 where "KEY_F11 \<equiv> 0x10C"
abbreviation (input) KEY_F12 :: u16 where "KEY_F12 \<equiv> 0x10D"
abbreviation (input) KEY_INSERT :: u16 where "KEY_INSERT \<equiv> 0x11F"
abbreviation (input) KEY_HOME :: u16 where "KEY_HOME \<equiv> 0x120"
abbreviation (input) KEY_PAGE_UP :: u16 where "KEY_PAGE_UP \<equiv> 0x121"
abbreviation (input) KEY_BACKSLASH :: u16 where "KEY_BACKSLASH \<equiv> 0x12F"
abbreviation (input) KEY_DELETE :: u16 where "KEY_DELETE \<equiv> 0x130"
abbreviation (input) KEY_END :: u16 where "KEY_END \<equiv> 0x131"
abbreviation (input) KEY_ARROW_UP :: u16 where "KEY_ARROW_UP \<equiv> 0x153"
abbreviation (input) KEY_ARROW_DOWN :: u16 where "KEY_ARROW_DOWN \<equiv> 0x154"
abbreviation (input) KEY_ARROW_LEFT :: u16 where "KEY_ARROW_LEFT \<equiv> 0x155"
abbreviation (input) KEY_ARROW_RIGHT :: u16 where "KEY_ARROW_RIGHT \<equiv> 0x156"
abbreviation (input) KEY_CAPS_LOCK :: u16 where "KEY_CAPS_LOCK \<equiv> 0x233"
abbreviation (input) KEY_LSHIFT :: u16 where "KEY_LSHIFT \<equiv> 0x240"
abbreviation (input) KEY_RSHIFT :: u16 where "KEY_RSHIFT \<equiv> 0x24B"
abbreviation (input) KEY_LCTRL :: u16 where "KEY_LCTRL \<equiv> 0x24C"
abbreviation (input) KEY_LALT :: u16 where "KEY_LALT \<equiv> 0x24F"
abbreviation (input) KEY_RALT :: u16 where "KEY_RALT \<equiv> 0x251"
abbreviation (input) KEY_RCTRL :: u16 where "KEY_RCTRL \<equiv> 0x252"
abbreviation (input) KEY_NUM_LOCK :: u16 where "KEY_NUM_LOCK \<equiv> 0x257"
abbreviation (input) KEY_NONE :: u16 where "KEY_NONE \<equiv> 0x300"
abbreviation (input) KEY_PRINT_SCREEN :: u16 where "KEY_PRINT_SCREEN \<equiv> 0x30E"
abbreviation (input) KEY_SCROLL_LOCK :: u16 where "KEY_SCROLL_LOCK \<equiv> 0x30F"
abbreviation (input) KEY_PAUSE_BREAK :: u16 where "KEY_PAUSE_BREAK \<equiv> 0x310"
abbreviation (input) KEY_BACK_TICK :: u16 where "KEY_BACK_TICK \<equiv> 0x311"
abbreviation (input) KEY_LSUPER :: u16 where "KEY_LSUPER \<equiv> 0x34D"
abbreviation (input) KEY_RSUPER :: u16 where "KEY_RSUPER \<equiv> 0x34E"
abbreviation (input) KEY_MM_PREVIOUS :: u16 where "KEY_MM_PREVIOUS \<equiv> 0x368"
abbreviation (input) KEY_MM_NEXT :: u16 where "KEY_MM_NEXT \<equiv> 0x369"
abbreviation (input) KEY_MM_MUTE :: u16 where "KEY_MM_MUTE \<equiv> 0x36A"
abbreviation (input) KEY_MM_CALCULATOR :: u16 where "KEY_MM_CALCULATOR \<equiv> 0x36B"
abbreviation (input) KEY_MM_PLAY :: u16 where "KEY_MM_PLAY \<equiv> 0x36C"
abbreviation (input) KEY_MM_STOP :: u16 where "KEY_MM_STOP \<equiv> 0x36D"
abbreviation (input) KEY_MM_DOWN :: u16 where "KEY_MM_DOWN \<equiv> 0x36E"
abbreviation (input) KEY_MM_UP :: u16 where "KEY_MM_UP \<equiv> 0x36F"
abbreviation (input) KEY_MM_WWW_HOME :: u16 where "KEY_MM_WWW_HOME \<equiv> 0x370"
abbreviation (input) KEY_APPS :: u16 where "KEY_APPS \<equiv> 0x371"
abbreviation (input) KEY_ACPI_POWER :: u16 where "KEY_ACPI_POWER \<equiv> 0x372"
abbreviation (input) KEY_ACPI_SLEEP :: u16 where "KEY_ACPI_SLEEP \<equiv> 0x373"
abbreviation (input) KEY_ACPI_WAKE :: u16 where "KEY_ACPI_WAKE \<equiv> 0x374"
abbreviation (input) KEY_MM_WWW_SEARCH :: u16 where "KEY_MM_WWW_SEARCH \<equiv> 0x375"
abbreviation (input) KEY_MM_WWW_FAVORITES :: u16 where "KEY_MM_WWW_FAVORITES \<equiv> 0x376"
abbreviation (input) KEY_MM_WWW_REFRESH :: u16 where "KEY_MM_WWW_REFRESH \<equiv> 0x377"
abbreviation (input) KEY_MM_WWW_STOP :: u16 where "KEY_MM_WWW_STOP \<equiv> 0x378"
abbreviation (input) KEY_MM_WWW_FORWARD :: u16 where "KEY_MM_WWW_FORWARD \<equiv> 0x379"
abbreviation (input) KEY_MM_WWW_BACK :: u16 where "KEY_MM_WWW_BACK \<equiv> 0x37A"
abbreviation (input) KEY_MM_WWW_MY_COMP :: u16 where "KEY_MM_WWW_MY_COMP \<equiv> 0x37B"
abbreviation (input) KEY_MM_WWW_EMAIL :: u16 where "KEY_MM_WWW_EMAIL \<equiv> 0x37C"
abbreviation (input) KEY_MM_WWW_MEDIA_SEL :: u16 where "KEY_MM_WWW_MEDIA_SEL \<equiv> 0x37D"

definition scancode_set1 :: "u16 list" where
  "scancode_set1 = [
     KEY_NONE, KEY_ESC, KEY_1, KEY_2, KEY_3, KEY_4, KEY_5, KEY_6, KEY_7, KEY_8, KEY_9, KEY_0, KEY_MINUS, KEY_EQUALS,
     KEY_BACKSPACE, KEY_TAB, KEY_Q, KEY_W, KEY_E, KEY_R, KEY_T, KEY_Y, KEY_U, KEY_I, KEY_O, KEY_P, KEY_LSQR_BRACKET,
     KEY_RSQR_BRACKET, KEY_ENTER, KEY_LCTRL, KEY_A, KEY_S, KEY_D, KEY_F, KEY_G, KEY_H, KEY_J, KEY_K, KEY_L,
     KEY_SEMI_COLON, KEY_QUOTE, KEY_BACK_TICK, KEY_LSHIFT, KEY_BACKSLASH, KEY_Z, KEY_X, KEY_C, KEY_V, KEY_B, KEY_N,
     KEY_M, KEY_COMMA, KEY_DOT, KEY_SLASH, KEY_RSHIFT, KEY_PAD_STAR, KEY_LALT, KEY_SPACE, KEY_CAPS_LOCK, KEY_F1,
     KEY_F2, KEY_F3, KEY_F4, KEY_F5, KEY_F6, KEY_F7, KEY_F8, KEY_F9, KEY_F10, KEY_NUM_LOCK, KEY_SCROLL_LOCK,
     KEY_PAD_7, KEY_PAD_8, KEY_PAD_9, KEY_PAD_MINUS, KEY_PAD_4, KEY_PAD_5, KEY_PAD_6, KEY_PAD_PLUS, KEY_PAD_1,
     KEY_PAD_2, KEY_PAD_3, KEY_PAD_0, KEY_PAD_DOT, KEY_NONE, KEY_NONE, KEY_NONE, KEY_F11, KEY_F12]"

definition scancode_set1_ext :: "u16 list" where
  "scancode_set1_ext = [
     KEY_NONE, KEY_NONE, KEY_NONE, KEY_NONE, KEY_NONE, KEY_NONE, KEY_NONE, KEY_NONE, KEY_NONE, KEY_NONE, KEY_NONE,
     KEY_NONE, KEY_NONE, KEY_NONE, KEY_NONE, KEY_NONE, KEY_MM_PREVIOUS, KEY_NONE, KEY_NONE, KEY_NONE, KEY_NONE,
     KEY_NONE, KEY_NONE, KEY_NONE, KEY_NONE, KEY_MM_NEXT, KEY_NONE, KEY_NONE, KEY_PAD_ENTER, KEY_RCTRL, KEY_NONE,
     KEY_NONE, KEY_MM_MUTE, KEY_MM_CALCULATOR, KEY_MM_PLAY, KEY_NONE, KEY_MM_STOP, KEY_NONE, KEY_NONE, KEY_NONE,
     KEY_NONE, KEY_NONE, KEY_NONE, KEY_NONE, KEY_NONE, KEY_NONE, KEY_MM_DOWN, KEY_NONE, KEY_MM_UP, KEY_NONE,
     KEY_MM_WWW_HOME, KEY_NONE, KEY_NONE, KEY_PAD_SLASH, KEY_NONE, KEY_NONE, KEY_RALT, KEY_NONE, KEY_NONE, KEY_NONE,
     KEY_NONE, KEY_NONE, KEY_NONE, KEY_NONE, KEY_NONE, KEY_NONE, KEY_NONE, KEY_NONE, KEY_NONE, KEY_NONE, KEY_NONE,
     KEY_HOME, KEY_ARROW_UP, KEY_PAGE_UP, KEY_NONE, KEY_ARROW_LEFT, KEY_NONE, KEY_ARROW_RIGHT, KEY_NONE, KEY_END,
     KEY_ARROW_DOWN, KEY_PAGE_UP, KEY_INSERT, KEY_DELETE, KEY_NONE, KEY_NONE, KEY_NONE, KEY_NONE, KEY_NONE, KEY_NONE,
     KEY_NONE, KEY_LSUPER, KEY_RSUPER, KEY_APPS, KEY_ACPI_POWER, KEY_ACPI_SLEEP, KEY_NONE, KEY_NONE, KEY_NONE,
     KEY_ACPI_WAKE, KEY_NONE, KEY_MM_WWW_SEARCH, KEY_MM_WWW_FAVORITES, KEY_MM_WWW_REFRESH, KEY_MM_WWW_STOP,
     KEY_MM_WWW_FORWARD, KEY_MM_WWW_BACK, KEY_MM_WWW_MY_COMP, KEY_MM_WWW_EMAIL, KEY_MM_WWW_MEDIA_SEL]"

text \<open>The key maps, by position; positions without an entry are 0, and \<^verbatim>\<open>NULL\<close> in the map of strings.\<close>

definition defkeymap :: "u8 list" where
  "defkeymap = [
     0, 0, 0, 0, 0, 0, 0, 0, 0, 0, 0, 0, 0, 0, 0, 0, 0, 96, 49, 50, 51, 52, 53, 54, 55, 56, 57, 48, 45, 61, 127, 0,
     0, 0, 9, 113, 119, 101, 114, 116, 121, 117, 105, 111, 112, 91, 93, 0, 0, 0, 0, 0, 97, 115, 100, 102, 103, 104,
     106, 107, 108, 59, 39, 10, 0, 122, 120, 99, 118, 98, 110, 109, 44, 46, 47, 0, 0, 0, 0, 0, 32, 0, 0, 0, 0, 0, 0,
     0, 47, 42, 45, 55, 56, 57, 52, 53, 54, 49, 50, 51, 43, 10, 48, 46]"

definition defkeymap_shift :: "u8 list" where
  "defkeymap_shift = [
     0, 0, 0, 0, 0, 0, 0, 0, 0, 0, 0, 0, 0, 0, 0, 0, 0, 126, 33, 64, 35, 36, 37, 94, 38, 42, 40, 41, 95, 43, 127, 0,
     0, 0, 9, 81, 87, 69, 82, 84, 89, 85, 73, 79, 80, 123, 125, 0, 0, 0, 0, 0, 65, 83, 68, 70, 71, 72, 74, 75, 76,
     58, 34, 10, 0, 90, 88, 67, 86, 66, 78, 77, 60, 62, 63, 0, 0, 0, 0, 0, 32, 0, 0, 0, 0, 0, 0, 0, 47, 42, 45, 55,
     56, 57, 52, 53, 54, 49, 50, 51, 43, 10, 48, 46]"

definition defkeymap_fn :: "u8 list option list" where
  "defkeymap_fn = [
     None, None, Some [27, 79, 80], Some [27, 79, 81], Some [27, 79, 82], Some [27, 79, 83],
     Some [27, 91, 49, 53, 126], Some [27, 91, 49, 55, 126], Some [27, 91, 49, 56, 126], Some [27, 91, 49, 57, 126],
     Some [27, 91, 50, 48, 126], Some [27, 91, 50, 49, 126], Some [27, 91, 50, 51, 126], Some [27, 91, 50, 52, 126],
     None, None, None, None, None, None, None, None, None, None, None, None, None, None, None, None, None,
     Some [27, 91, 50, 126], Some [27, 91, 72], Some [27, 91, 53, 126], None, None, None, None, None, None, None,
     None, None, None, None, None, None, None, Some [27, 91, 51, 126], Some [27, 91, 70], Some [27, 91, 54, 126],
     None, None, None, None, None, None, None, None, None, None, None, None, None, None, None, None, None, None,
     None, None, None, None, None, None, None, None, None, None, None, None, None, None, Some [27, 91, 65],
     Some [27, 91, 66], Some [27, 91, 68], Some [27, 91, 67]]"

section \<open>State\<close>

abbreviation (input) CTRL :: u32 where "CTRL \<equiv> 1"
abbreviation (input) ALT :: u32 where "ALT \<equiv> 2"
abbreviation (input) SHIFT :: u32 where "SHIFT \<equiv> 4"

datatype key_type = MAKE | BREAK

record kbd_packet =
  keycode :: u16
  k_type :: key_type

record kbd_state =
  modifiers :: u32
  caps_lock :: int
  num_lock :: int
  scroll_lock :: int

text \<open>\<^verbatim>\<open>scan_state\<close> and \<^verbatim>\<open>pause_flag\<close> are the variables of \<^verbatim>\<open>ps2_kbd.c\<close>; the states count from \<^verbatim>\<open>WAITING_FOR_SCAN\<close>.\<close>

abbreviation (input) WAITING_FOR_SCAN :: int where "WAITING_FOR_SCAN \<equiv> 0"
abbreviation (input) WAITING_FOR_SECOND :: int where "WAITING_FOR_SECOND \<equiv> 1"
abbreviation (input) WAITING_FOR_FOURTH :: int where "WAITING_FOR_FOURTH \<equiv> 3"
abbreviation (input) WAITING_FOR_SIXTH :: int where "WAITING_FOR_SIXTH \<equiv> 5"
abbreviation (input) SET_1_ESCAPE :: int where "SET_1_ESCAPE \<equiv> 0xE0"
abbreviation (input) SET_1_LSHIFT_MAKE :: int where "SET_1_LSHIFT_MAKE \<equiv> 0x2A"
abbreviation (input) SET_1_LSHIFT_BREAK :: int where "SET_1_LSHIFT_BREAK \<equiv> 0xAA"

record key_state = con_state +
  kbd :: kbd_state
  scan_state :: int
  pause_flag :: bool

definition upd_kbd :: "(kbd_state \<Rightarrow> kbd_state) \<Rightarrow> 'a key_state_scheme \<Rightarrow> 'a key_state_scheme" where
  "upd_kbd f s = s\<lparr>kbd := f (kbd s)\<rparr>"

section \<open>Handlers\<close>

definition RAW_KEYCODE :: "u16 \<Rightarrow> nat" where
  "RAW_KEYCODE k = unat (k AND 0xFF)"

text \<open>The character of a key, as an \<^verbatim>\<open>int\<close>; a position after the end of the map is a fault.\<close>

definition self_char :: "kbd_state \<Rightarrow> u16 \<Rightarrow> int kres" where
  "self_char k key =
     (let m = (if modifiers k AND SHIFT \<noteq> 0 then defkeymap_shift else defkeymap); i = RAW_KEYCODE key in
      if length m \<le> i then Stop (Fault ''map'')
      else
        let c = uint (m ! i);
            c = (if caps_lock k \<noteq> 0
                 then if 97 \<le> c \<and> c \<le> 122 then 65 + (c - 97)
                      else if 65 \<le> c \<and> c \<le> 90 then 97 + (c - 65) else c
                 else c)
        in Ret (if modifiers k AND CTRL \<noteq> 0 then c AND 0x1F else c))"

text \<open>A C string without its end.\<close>

definition c_string :: "u8 list \<Rightarrow> u8 list" where
  "c_string bs = takeWhile (\<lambda>b. b \<noteq> 0) bs"

definition k_do_self :: "'a key_state_scheme tty_env \<Rightarrow> kbd_packet \<Rightarrow> 'a key_state_scheme \<Rightarrow>
    (u8 list \<times> 'a key_state_scheme) kres" where
  "k_do_self E packet s =
     (if k_type packet = BREAK then Ret ([], s)
      else
        bindk (self_char (kbd s) (keycode packet)) (\<lambda>c.
        do_update_tty E (c_string (if modifiers (kbd s) AND ALT \<noteq> 0 then [27, word_of_int c, 0] else [word_of_int c, 0])) s))"

text \<open>\<^verbatim>\<open>do_update_tty\<close> reads the string only when the terminal of the current process is open.\<close>

definition tty_reads :: "'a tty_state_scheme \<Rightarrow> bool" where
  "tty_reads s \<longleftrightarrow> 0 \<le> tty (cur s) \<and> tty (cur s) < NR_TTY \<and> t_open (tty_tab s (nat (tty (cur s))))"

definition k_do_fn :: "'a key_state_scheme tty_env \<Rightarrow> kbd_packet \<Rightarrow> 'a key_state_scheme \<Rightarrow>
    (u8 list \<times> 'a key_state_scheme) kres" where
  "k_do_fn E packet s =
     (let i = RAW_KEYCODE (keycode packet) in
      if k_type packet = BREAK then Ret ([], s)
      else if length defkeymap_fn \<le> i then Stop (Fault ''fnmap'')
      else case defkeymap_fn ! i of
             Some str \<Rightarrow> do_update_tty E str s
           | None \<Rightarrow> if tty_reads s then Stop (Fault ''NULL'') else Ret ([], s))"

definition set_modifier :: "u32 \<Rightarrow> key_type \<Rightarrow> kbd_state \<Rightarrow> kbd_state" where
  "set_modifier m ty k = k\<lparr>modifiers := if ty = MAKE then modifiers k OR m else modifiers k AND NOT m\<rparr>"

definition mod_state :: "kbd_packet \<Rightarrow> kbd_state \<Rightarrow> kbd_state" where
  "mod_state packet k =
     (let c = keycode packet; ty = k_type packet in
      if c = KEY_LSHIFT \<or> c = KEY_RSHIFT then set_modifier SHIFT ty k
      else if c = KEY_RCTRL \<or> c = KEY_LCTRL then set_modifier CTRL ty k
      else if c = KEY_LALT \<or> c = KEY_RALT then set_modifier ALT ty k
      else if c = KEY_CAPS_LOCK then if ty = MAKE then k\<lparr>caps_lock := 1 - caps_lock k\<rparr> else k
      else if c = KEY_NUM_LOCK then if ty = MAKE then k\<lparr>num_lock := 1 - num_lock k\<rparr> else k
      else k)"

definition k_do_mod :: "kbd_packet \<Rightarrow> 'a key_state_scheme \<Rightarrow> (u8 list \<times> 'a key_state_scheme) kres" where
  "k_do_mod packet s = Ret ([], upd_kbd (mod_state packet) s)"

definition k_do_none :: "kbd_packet \<Rightarrow> 'a key_state_scheme \<Rightarrow> (u8 list \<times> 'a key_state_scheme) kres" where
  "k_do_none packet s = Ret ([], s)"

text \<open>The index has four bits and the table of handlers four entries.\<close>

definition kbd_handle_packet :: "'a key_state_scheme tty_env \<Rightarrow> kbd_packet \<Rightarrow> 'a key_state_scheme \<Rightarrow>
    (u8 list \<times> 'a key_state_scheme) kres" where
  "kbd_handle_packet E packet s =
     (let h = drop_bit 8 (keycode packet) AND 0xF in
      if h = 0 then k_do_self E packet s
      else if h = 1 then k_do_fn E packet s
      else if h = 2 then k_do_mod packet s
      else if h = 3 then k_do_none packet s
      else Stop (Fault ''handlers''))"

section \<open>Scan codes\<close>

text \<open>The key and, where the routine sets it, \<^verbatim>\<open>*type\<close>.\<close>

definition table_key :: "u16 list \<Rightarrow> int \<Rightarrow> u16 kres" where
  "table_key tab scan = (if nat scan < length tab then Ret (tab ! nat scan) else Stop (Fault ''scancode_set1''))"

definition next_scan :: "'a key_state_scheme \<Rightarrow> 'a key_state_scheme" where
  "next_scan s = s\<lparr>scan_state := scan_state s + 1\<rparr>"

definition get_keycode_set1 :: "int \<Rightarrow> 'a key_state_scheme \<Rightarrow> ((u16 \<times> key_type option) \<times> 'a key_state_scheme) kres" where
  "get_keycode_set1 scan s =
     (if scan > 0xE1 then Ret ((KEY_NONE, None), s)
      else if pause_flag s \<and> scan_state s = WAITING_FOR_SIXTH then Ret ((KEY_PAUSE_BREAK, Some MAKE), s)
      else if scan = 0xE1 then Ret ((KEY_NONE, None), next_scan (s\<lparr>pause_flag := True\<rparr>))
      else if scan = SET_1_ESCAPE then Ret ((KEY_NONE, None), next_scan s)
      else if scan = SET_1_LSHIFT_MAKE \<and> scan_state s = WAITING_FOR_SECOND then Ret ((KEY_NONE, None), next_scan s)
      else if scan = 0x37 \<and> scan_state s = WAITING_FOR_FOURTH then Ret ((KEY_PRINT_SCREEN, Some MAKE), s)
      else if scan = 0xB7 \<and> scan_state s = WAITING_FOR_SECOND then Ret ((KEY_NONE, None), next_scan s)
      else if scan = SET_1_LSHIFT_BREAK \<and> scan_state s = WAITING_FOR_FOURTH then Ret ((KEY_PRINT_SCREEN, Some BREAK), s)
      else
        let brk = scan AND 0x80 \<noteq> 0; code = scan AND 0x7F in
        bindk (table_key (if scan_state s = WAITING_FOR_SCAN then scancode_set1 else scancode_set1_ext) code) (\<lambda>k.
        Ret ((k, Some (if brk then BREAK else MAKE)), s)))"

text \<open>\<open>scan\<close> is the byte from \<^verbatim>\<open>PS2_DATA_PORT\<close>. A key that is not \<^verbatim>\<open>KEY_NONE\<close> comes with its type.\<close>

definition ps2_kbd_irq :: "'a key_state_scheme tty_env \<Rightarrow> u8 \<Rightarrow> 'a key_state_scheme \<Rightarrow>
    (u8 list \<times> 'a key_state_scheme) kres" where
  "ps2_kbd_irq E scan s =
     bindk (get_keycode_set1 (uint scan) s) (\<lambda>((k, ty), s).
     if k = KEY_NONE then Ret ([], s)
     else kbd_handle_packet E \<lparr>keycode = k, k_type = (case ty of Some t \<Rightarrow> t | None \<Rightarrow> MAKE)\<rparr> s)"

section \<open>Letters\<close>

text \<open>The scan codes of the letter keys, and the letter each types.\<close>

definition letter_of :: "u8 \<Rightarrow> u8 option" where
  "letter_of scan =
     (let k = (if unat scan < length scancode_set1 then scancode_set1 ! unat scan else KEY_NONE);
          c = (if RAW_KEYCODE k < length defkeymap then defkeymap ! RAW_KEYCODE k else 0)
      in if drop_bit 8 k = 0 \<and> 97 \<le> c \<and> c \<le> 122 then Some c else None)"

definition letter_fine :: "u8 \<Rightarrow> bool" where
  "letter_fine i \<longleftrightarrow>
     (case letter_of i of
        None \<Rightarrow> True
      | Some c \<Rightarrow> i < 0x59 \<and> i \<noteq> 0x2A \<and> i \<noteq> 0x37 \<and> drop_bit 8 (scancode_set1_ext ! unat i) = 3 \<and>
          scancode_set1 ! unat i \<noteq> KEY_NONE \<and> drop_bit 8 (scancode_set1 ! unat i) = 0 \<and>
          RAW_KEYCODE (scancode_set1 ! unat i) < length defkeymap \<and> defkeymap ! RAW_KEYCODE (scancode_set1 ! unat i) = c \<and>
          RAW_KEYCODE (scancode_set1 ! unat i) < length defkeymap_shift \<and>
          defkeymap_shift ! RAW_KEYCODE (scancode_set1 ! unat i) = c - 32 \<and> c - 32 \<noteq> 0 \<and> c \<noteq> 0)"

lemma letters_table: "list_all letter_fine (map of_nat [0..<0x59])"
  by code_simp

lemma letter_small: "letter_of i = Some c \<Longrightarrow> unat i < 0x59"
  by (auto simp: letter_of_def scancode_set1_def Let_def split: if_splits)

lemma letter_facts:
  assumes "letter_of i = Some c"
  shows "letter_fine i"
proof -
  have "i = of_nat (unat i)" by simp
  then have "i \<in> set (map of_nat [0..<0x59])" using letter_small [OF assms] by (metis atLeast0LessThan imageI lessThan_iff list.set_map set_upt)
  then show ?thesis using letters_table by (simp only: list_all_iff)
qed

lemma letter_scan:
  assumes "letter_of i = Some c"
  shows "uint i < 0x59" "uint i \<noteq> 0x2A" "uint i \<noteq> 0x37" "uint i AND 0x80 = 0" "uint i AND 0x7F = uint i" "nat (uint i) = unat i"
proof -
  have f: "i < 0x59" "i \<noteq> 0x2A" "i \<noteq> 0x37" using letter_facts [OF assms] assms by (simp_all add: letter_fine_def)
  then show lt: "uint i < 0x59" by (simp add: word_less_def)
  show "uint i \<noteq> 0x2A" "uint i \<noteq> 0x37" using f by (simp_all add: word_uint_eq_iff)
  have e: "uint i AND 0x7F = uint i" using lt and_nonnegative_int_iff take_bit_int_eq_self [of "uint i" 7]
    by (simp add: take_bit_eq_mask mask_eq_exp_minus_1)
  show "uint i AND 0x7F = uint i" by (rule e)
  have "uint i AND 0x80 = (uint i AND 0x7F) AND 0x80" by (simp only: e)
  then show "uint i AND 0x80 = 0" by (simp only: and.assoc) simp
  show "nat (uint i) = unat i" by simp
qed

lemma letter_keycode:
  assumes "letter_of i = Some c" "scan_state s = WAITING_FOR_SCAN"
  shows "get_keycode_set1 (uint i) s = Ret ((scancode_set1 ! unat i, Some MAKE), s)"
proof -
  have "length scancode_set1 = 0x59" by code_simp
  then show ?thesis
    using letter_scan [OF assms(1)] assms(2) letter_small [OF assms(1)]
    by (simp add: get_keycode_set1_def table_key_def)
qed

lemma letter_irq:
  assumes "letter_of i = Some c" "scan_state s = WAITING_FOR_SCAN" "modifiers (kbd s) \<in> {0, SHIFT}" "caps_lock (kbd s) = 0"
  shows "ps2_kbd_irq E i s = do_update_tty E [if modifiers (kbd s) = 0 then c else c - 32] s"
proof -
  have f: "scancode_set1 ! unat i \<noteq> KEY_NONE" "drop_bit 8 (scancode_set1 ! unat i) = 0"
    "RAW_KEYCODE (scancode_set1 ! unat i) < length defkeymap" "defkeymap ! RAW_KEYCODE (scancode_set1 ! unat i) = c"
    "RAW_KEYCODE (scancode_set1 ! unat i) < length defkeymap_shift"
    "defkeymap_shift ! RAW_KEYCODE (scancode_set1 ! unat i) = c - 32" "c - 32 \<noteq> 0" "c \<noteq> 0"
    using letter_facts [OF assms(1)] assms(1) by (simp_all add: letter_fine_def)
  have "self_char (kbd s) (scancode_set1 ! unat i) = Ret (uint (if modifiers (kbd s) = 0 then c else c - 32))"
    using f assms(3,4) by (auto simp: self_char_def Let_def)
  then show ?thesis
    using letter_keycode [OF assms(1,2)] f(1,2,7,8) assms(3)
    by (auto simp: ps2_kbd_irq_def kbd_handle_packet_def k_do_self_def c_string_def)
qed


section \<open>Extended scan codes\<close>

text \<open>The scan codes in a row, as far as the decoder is concerned.\<close>

definition scan_all :: "int list \<Rightarrow> 'a key_state_scheme \<Rightarrow> 'a key_state_scheme kres" where
  "scan_all scans = foldk (\<lambda>scan s. bindk (get_keycode_set1 scan s) (\<lambda>(_, t). Ret t)) scans"

lemma scan_state_grows: "get_keycode_set1 scan s = Ret (k, t) \<Longrightarrow> scan_state s \<le> scan_state t"
  by (auto simp: get_keycode_set1_def next_scan_def Let_def bindk_eq_Ret_iff split: if_splits)

text \<open>
  The decoder never goes back to the plain scan codes: once a prefix of an extended key has been read, a letter key
  is decoded, after any further scan codes, as a key whose handler does nothing (or as the pause key).
\<close>

theorem extended_prefix_sticks:
  assumes "scan_all (SET_1_ESCAPE # scans) s = Ret t" "0 \<le> scan_state s" "\<not> pause_flag s"
    and "letter_of i = Some c"
  shows "\<exists>k ty. get_keycode_set1 (uint i) t = Ret ((k, Some ty), t) \<and> drop_bit 8 k = 3"
proof -
  let ?step = "\<lambda>scan s. bindk (get_keycode_set1 scan s) (\<lambda>(_, t). Ret t)"
  have first: "get_keycode_set1 SET_1_ESCAPE s = Ret ((KEY_NONE, None), next_scan s)"
    using assms(3) by (simp add: get_keycode_set1_def)
  have "foldk ?step scans (next_scan s) = Ret t" using assms(1) first by (simp add: scan_all_def)
  then have "0 < scan_state t"
    by (rule foldk_invariant)
      (use assms(2) scan_state_grows in \<open>force simp: next_scan_def bindk_eq_Ret_iff\<close>)+
  moreover have "length scancode_set1_ext = 110" by code_simp
  moreover have "drop_bit 8 (scancode_set1_ext ! unat i) = 3" using letter_facts [OF assms(4)] assms(4) by (simp add: letter_fine_def)
  ultimately show ?thesis
    using letter_scan [OF assms(4)] letter_small [OF assms(4)]
    by (auto simp: get_keycode_set1_def table_key_def)
qed

section \<open>A keyboard\<close>

definition demo_keys :: key_state where
  "demo_keys = con_state.extend (demo_console (\<lambda>_. 0))
     (key_state.fields \<lparr>modifiers = 0, caps_lock = 0, num_lock = 0, scroll_lock = 0\<rparr> WAITING_FOR_SCAN False)"

lemma demo_keys_fields:
  "scan_state demo_keys = WAITING_FOR_SCAN" "modifiers (kbd demo_keys) = 0" "caps_lock (kbd demo_keys) = 0" "\<not> pause_flag demo_keys"
  by (simp_all add: demo_keys_def con_state.defs key_state.defs)

lemma letter_a: "letter_of 0x1E = Some 97"
  by code_simp


theorem extended_prefix_sticks_witness:
  "\<exists>t k ty. scan_all [0xE0, 0x48] demo_keys = Ret t \<and> get_keycode_set1 0x1E t = Ret ((k, Some ty), t) \<and> drop_bit 8 k = 3"
proof -
  have ext: "length scancode_set1_ext = 110" by code_simp
  have scan: "scan_all [SET_1_ESCAPE, 0x48] demo_keys = Ret (next_scan demo_keys)"
    using demo_keys_fields ext by (simp add: scan_all_def get_keycode_set1_def next_scan_def table_key_def)
  from extended_prefix_sticks [OF scan _ _ letter_a] demo_keys_fields scan show ?thesis by auto
qed

end
