(* ===== verification/Req_List.thy ===== *)
theory Req_List
  imports Yak_Prelude
begin

text \<open>
  Lists of requests, as the disk and the serial drivers keep them: a pointer to the request that is served, from which the others are
  reached through their \<^verbatim>\<open>next\<close> fields. The interface \<open>req_list\<close> says what the operations on such a list do to the list of its members.
\<close>

primrec req_chain :: "(nat \<Rightarrow> nat option) \<Rightarrow> nat option \<Rightarrow> nat list \<Rightarrow> bool" where
  "req_chain n p [] \<longleftrightarrow> p = None"
| "req_chain n p (x # xs) \<longleftrightarrow> p = Some x \<and> req_chain n (n x) xs"

text \<open>\<^verbatim>\<open>for (p = current; p->next != NULL; p = p->next)\<close>, which both drivers have.\<close>

primrec chain_end :: "nat \<Rightarrow> (nat \<Rightarrow> nat option) \<Rightarrow> nat \<Rightarrow> nat kres" where
  "chain_end 0 n i = Stop Diverges"
| "chain_end (Suc k) n i = (case n i of None \<Rightarrow> Ret i | Some j \<Rightarrow> chain_end k n j)"

lemma req_chain_unique: "req_chain n p xs \<Longrightarrow> req_chain n p ys \<Longrightarrow> xs = ys"
proof (induction xs arbitrary: p ys)
  case Nil
  then show ?case by (cases ys) auto
next
  case (Cons x xs)
  then show ?case by (cases ys) auto
qed

lemma req_chain_cong: "req_chain n p xs \<Longrightarrow> (\<And>x. x \<in> set xs \<Longrightarrow> m x = n x) \<Longrightarrow> req_chain m p xs"
  by (induction xs arbitrary: p) auto

lemma req_chain_end: "req_chain n (Some i) xs \<Longrightarrow> length xs \<le> k \<Longrightarrow> chain_end k n i = Ret (last xs)"
proof (induction xs arbitrary: i k)
  case Nil
  then show ?case by simp
next
  case (Cons x xs)
  then obtain k' where k: "k = Suc k'" by (cases k) auto
  show ?case
  proof (cases xs)
    case Nil
    then show ?thesis using Cons.prems k by simp
  next
    case (Cons y ys)
    then have "n i = Some y" "chain_end k' n y = Ret (last xs)" using Cons.prems k Cons.IH [of y k'] by auto
    then show ?thesis using Cons.prems k Cons by simp
  qed
qed

lemma req_chain_add:
  assumes "req_chain n p xs" "xs \<noteq> []" "distinct xs" "y \<notin> set xs" "n y = None"
  shows "req_chain (n(last xs := Some y)) p (xs @ [y])"
  using assms
proof (induction xs arbitrary: p)
  case Nil
  then show ?case by simp
next
  case (Cons x xs)
  then show ?case by (cases "xs = []") auto
qed

locale req_list =
  fixes nxt :: "'s \<Rightarrow> nat \<Rightarrow> nat option" and set_nxt :: "nat \<Rightarrow> nat option \<Rightarrow> 's \<Rightarrow> 's"
    and served :: "'s \<Rightarrow> nat option" and set_served :: "nat option \<Rightarrow> 's \<Rightarrow> 's"
  assumes nxt_set_nxt: "nxt (set_nxt i v s) = (nxt s)(i := v)"
    and served_set_nxt: "served (set_nxt i v s) = served s"
    and nxt_set_served: "nxt (set_served v s) = nxt s"
    and served_set_served: "served (set_served v s) = v"
begin

lemma first_request:
  assumes "req_chain (nxt s) (served s) []" "nxt s i = None"
  shows "req_chain (nxt (set_served (Some i) s)) (served (set_served (Some i) s)) [i]"
  using assms by (simp add: nxt_set_served served_set_served)

lemma later_request:
  assumes "req_chain (nxt s) (served s) xs" "xs \<noteq> []" "distinct xs" "i \<notin> set xs" "nxt s i = None"
  shows "req_chain (nxt (set_nxt (last xs) (Some i) s)) (served (set_nxt (last xs) (Some i) s)) (xs @ [i])"
  using req_chain_add [OF assms] by (simp add: nxt_set_nxt served_set_nxt)

lemma next_request:
  assumes "req_chain (nxt s) (served s) (i # xs)"
  shows "req_chain (nxt (set_served (nxt s i) s)) (served (set_served (nxt s i) s)) xs"
  using assms by (simp add: nxt_set_served served_set_served)

end

end
