(* ===== verification/Ata.thy ===== *)
theory Ata
  imports Block_Dev Proc Req_List
begin

text \<open>
  The disk controller: \<^verbatim>\<open>sys/include/drivers/ata.h\<close>, \<^verbatim>\<open>ata_subr.c\<close>, \<^verbatim>\<open>ata_request.c\<close>, \<^verbatim>\<open>ata_pio.c\<close> and \<^verbatim>\<open>ata_init.c\<close> of
  \<^verbatim>\<open>sys/drivers/ata\<close>, and \<^verbatim>\<open>drive_irq_handler\<close> of \<^verbatim>\<open>sys/drivers/drive.c\<close>. The hardware is a state of any type, and the
  instructions that reach it (\<^verbatim>\<open>port_io.h\<close>) are an argument. A routine that waits for the end of a request is cut at
  its \<^verbatim>\<open>sleep\<close>; what it does when it is woken is a definition of its own. Messages and \<^verbatim>\<open>io_delay\<close> are left out, and so
  is the processor's interrupt flag.
\<close>

section \<open>Ports\<close>

record 'h port_io =
  io_inb :: "u16 \<Rightarrow> 'h \<Rightarrow> u8 \<times> 'h"
  io_outb :: "u8 \<Rightarrow> u16 \<Rightarrow> 'h \<Rightarrow> 'h"
  io_inw :: "u16 \<Rightarrow> 'h \<Rightarrow> u16 \<times> 'h"
  io_outw :: "u16 \<Rightarrow> u16 \<Rightarrow> 'h \<Rightarrow> 'h"
  io_inl :: "u16 \<Rightarrow> 'h \<Rightarrow> u32 \<times> 'h"
  io_outl :: "u32 \<Rightarrow> u16 \<Rightarrow> 'h \<Rightarrow> 'h"

section \<open>Data\<close>

abbreviation (input) ATA_REG_DATA :: u32 where "ATA_REG_DATA \<equiv> 0"
abbreviation (input) ATA_REG_SEC_COUNT :: u32 where "ATA_REG_SEC_COUNT \<equiv> 2"
abbreviation (input) ATA_REG_LBA1 :: u32 where "ATA_REG_LBA1 \<equiv> 3"
abbreviation (input) ATA_REG_LBA2 :: u32 where "ATA_REG_LBA2 \<equiv> 4"
abbreviation (input) ATA_REG_LBA3 :: u32 where "ATA_REG_LBA3 \<equiv> 5"
abbreviation (input) ATA_REG_DRIVE :: u32 where "ATA_REG_DRIVE \<equiv> 6"
abbreviation (input) ATA_REG_STATUS :: u32 where "ATA_REG_STATUS \<equiv> 7"
abbreviation (input) ATA_REG_CMD :: u32 where "ATA_REG_CMD \<equiv> 7"
abbreviation (input) ATA_REG_ALT_STATUS :: u32 where "ATA_REG_ALT_STATUS \<equiv> 0"
abbreviation (input) ATA_REG_DEV_CTRL :: u32 where "ATA_REG_DEV_CTRL \<equiv> 0"
abbreviation (input) ATA_REG_DRIVE_ADDR :: u32 where "ATA_REG_DRIVE_ADDR \<equiv> 1"
abbreviation (input) ATA_DRIVE_DRV :: u32 where "ATA_DRIVE_DRV \<equiv> 0x10"
abbreviation (input) ATA_DRIVE_LBA :: u32 where "ATA_DRIVE_LBA \<equiv> 0x40"
abbreviation (input) ATA_STATUS_ERR :: u8 where "ATA_STATUS_ERR \<equiv> 1"
abbreviation (input) ATA_STATUS_DRQ :: u8 where "ATA_STATUS_DRQ \<equiv> 8"
abbreviation (input) ATA_STATUS_BSY :: u8 where "ATA_STATUS_BSY \<equiv> 0x80"
abbreviation (input) ATA_DEV_CTRL_NIEN :: u32 where "ATA_DEV_CTRL_NIEN \<equiv> 2"
abbreviation (input) ATA_DEV_CTRL_SRST :: u32 where "ATA_DEV_CTRL_SRST \<equiv> 4"
abbreviation (input) ATA_DRIVES_PER_BUS :: nat where "ATA_DRIVES_PER_BUS \<equiv> 2"
abbreviation (input) ATA_MAX_DRIVES :: nat where "ATA_MAX_DRIVES \<equiv> 4"
abbreviation (input) ATA_MAX_REQUESTS :: nat where "ATA_MAX_REQUESTS \<equiv> 64"
abbreviation (input) ATA_CMD_READ_SECTORS :: u32 where "ATA_CMD_READ_SECTORS \<equiv> 0x20"
abbreviation (input) ATA_CMD_WRITE_SECTORS :: u32 where "ATA_CMD_WRITE_SECTORS \<equiv> 0x30"
abbreviation (input) ATA_CMD_READ_SECTORS_EXT :: u32 where "ATA_CMD_READ_SECTORS_EXT \<equiv> 0x24"
abbreviation (input) ATA_CMD_WRITE_SECTORS_EXT :: u32 where "ATA_CMD_WRITE_SECTORS_EXT \<equiv> 0x34"
abbreviation (input) ATA_CMD_READ_SECTORS_DMA :: u32 where "ATA_CMD_READ_SECTORS_DMA \<equiv> 0xC8"
abbreviation (input) ATA_CMD_WRITE_SECTORS_DMA :: u32 where "ATA_CMD_WRITE_SECTORS_DMA \<equiv> 0xCA"
abbreviation (input) ATA_CMD_READ_SECTORS_DMA_EXT :: u32 where "ATA_CMD_READ_SECTORS_DMA_EXT \<equiv> 0x25"
abbreviation (input) ATA_CMD_WRITE_SECTORS_DMA_EXT :: u32 where "ATA_CMD_WRITE_SECTORS_DMA_EXT \<equiv> 0x35"
abbreviation (input) ATA_CMD_IDENTIFY :: u32 where "ATA_CMD_IDENTIFY \<equiv> 0xEC"
abbreviation (input) ATA_CMD_FLUSH :: u32 where "ATA_CMD_FLUSH \<equiv> 0xE7"
abbreviation (input) ATA_MAX_ERROR :: int where "ATA_MAX_ERROR \<equiv> 3"
abbreviation (input) ATA_DMA_ALIGN :: u32 where "ATA_DMA_ALIGN \<equiv> 0x10000"

datatype ata_bus = ATA_PRIMARY_BUS | ATA_SECONDARY_BUS
datatype ata_drive = ATA_BUS_DRIVE1 | ATA_BUS_DRIVE2
datatype ata_device_type = ATA_DEV_PATA | ATA_DEV_SATA | ATA_DEV_ATAPI | ATA_DEV_UNKNOWN
datatype ata_pio_direction = ATA_PIO_IN | ATA_PIO_OUT

record ata_device =
  ad_bus :: ata_bus
  ad_drive :: ata_drive
  ad_exists :: bool
  cmd_base :: u32
  ctrl_base :: u32
  bus_master_base :: u32
  bus_master_type :: int
  max_lba28 :: u32
  max_lba48_low :: u32
  max_lba48_high :: u32

record ata_request =
  rq_dev :: "nat option"
  rq_cmd :: u32
  rq_count :: u32
  rq_lba :: u32
  rq_buf :: u32
  rq_error :: bool
  rq_retry :: int
  rq_next :: "nat option"

record dma_prd =
  prd_buf :: u32
  prd_bcount :: u16
  prd_reserved :: u16

text \<open>\<^verbatim>\<open>drive_intr\<close> of the two drivers: no handler, or the one for reading or for writing.\<close>

datatype ata_intr = Read_intr | Write_intr

record 'h ata_state = buf_state +
  ata_drives :: "nat \<Rightarrow> ata_device"
  ata_requests :: "nat \<Rightarrow> ata_request"
  ata_current_req :: "nat option"
  last_selected :: "nat option"
  pio_intr :: "ata_intr option"
  dma_intr :: "ata_intr option"
  ata_dma_current_prdt :: dma_prd
  hw :: 'h

text \<open>
  What the driver is given: the instructions for the ports, the number of times a status register is polled at most, the addresses
  of the requests, which they are waited for by, and those of the static buffer and descriptor for direct memory access.
\<close>

record 'h ata_env =
  a_io :: "'h port_io"
  a_fuel :: nat
  ata_req_addr :: "nat \<Rightarrow> u32"
  dma_buf_at :: u32
  dma_prdt_at :: u32

definition upd_dev :: "nat \<Rightarrow> (ata_device \<Rightarrow> ata_device) \<Rightarrow> ('h, 'a) ata_state_scheme \<Rightarrow> ('h, 'a) ata_state_scheme" where
  "upd_dev d f s = s\<lparr>ata_drives := (ata_drives s)(d := f (ata_drives s d))\<rparr>"

definition upd_req :: "nat \<Rightarrow> (ata_request \<Rightarrow> ata_request) \<Rightarrow> ('h, 'a) ata_state_scheme \<Rightarrow> ('h, 'a) ata_state_scheme" where
  "upd_req i f s = s\<lparr>ata_requests := (ata_requests s)(i := f (ata_requests s i))\<rparr>"

section \<open>Registers\<close>

definition reg_port :: "ata_device \<Rightarrow> u32 \<Rightarrow> u16" where
  "reg_port dev reg =
     (if reg = ATA_REG_DEV_CTRL \<or> reg = ATA_REG_DRIVE_ADDR then ucast (ctrl_base dev + reg) else ucast (cmd_base dev + reg))"

definition ata_reg_write :: "'h ata_env \<Rightarrow> nat \<Rightarrow> u32 \<Rightarrow> u32 \<Rightarrow> ('h, 'a) ata_state_scheme \<Rightarrow> ('h, 'a) ata_state_scheme" where
  "ata_reg_write E d val reg s = s\<lparr>hw := io_outb (a_io E) (ucast val) (reg_port (ata_drives s d) reg) (hw s)\<rparr>"

definition ata_reg_read :: "'h ata_env \<Rightarrow> nat \<Rightarrow> u32 \<Rightarrow> ('h, 'a) ata_state_scheme \<Rightarrow> u8 \<times> ('h, 'a) ata_state_scheme" where
  "ata_reg_read E d reg s =
     (let (v, h) = io_inb (a_io E) (reg_port (ata_drives s d) reg) (hw s) in (v, s\<lparr>hw := h\<rparr>))"

definition bsy_bit :: "'h ata_env \<Rightarrow> nat \<Rightarrow> ('h, 'a) ata_state_scheme \<Rightarrow> bool \<times> ('h, 'a) ata_state_scheme" where
  "bsy_bit E d s = (let (a, s) = ata_reg_read E d ATA_REG_ALT_STATUS s in (a AND ATA_STATUS_BSY \<noteq> 0, s))"

definition drq_bit :: "'h ata_env \<Rightarrow> nat \<Rightarrow> ('h, 'a) ata_state_scheme \<Rightarrow> bool \<times> ('h, 'a) ata_state_scheme" where
  "drq_bit E d s = (let (a, s) = ata_reg_read E d ATA_REG_ALT_STATUS s in (a AND ATA_STATUS_DRQ \<noteq> 0, s))"

text \<open>\<^verbatim>\<open>ata_error\<close> panics for \<^verbatim>\<open>NULL\<close>; its callers have a device.\<close>

definition ata_error :: "'h ata_env \<Rightarrow> nat option \<Rightarrow> ('h, 'a) ata_state_scheme \<Rightarrow> (bool \<times> ('h, 'a) ata_state_scheme) kres" where
  "ata_error E dev s =
     (case dev of
        None \<Rightarrow> Stop (Panic ''ata_error: Bizzare error: dev == NULL'')
      | Some d \<Rightarrow> let (a, s) = ata_reg_read E d ATA_REG_ALT_STATUS s in Ret (a AND ATA_STATUS_ERR \<noteq> 0, s))"

primrec poll_bsy :: "nat \<Rightarrow> 'h ata_env \<Rightarrow> nat \<Rightarrow> ('h, 'a) ata_state_scheme \<Rightarrow> ('h, 'a) ata_state_scheme kres" where
  "poll_bsy 0 E d s = Stop Diverges"
| "poll_bsy (Suc n) E d s = (let (b, s) = bsy_bit E d s in if b then poll_bsy n E d s else Ret s)"

definition ata_poll_bsy :: "'h ata_env \<Rightarrow> nat \<Rightarrow> ('h, 'a) ata_state_scheme \<Rightarrow> ('h, 'a) ata_state_scheme kres" where
  "ata_poll_bsy E = poll_bsy (a_fuel E) E"

primrec poll_drq :: "nat \<Rightarrow> 'h ata_env \<Rightarrow> nat \<Rightarrow> ('h, 'a) ata_state_scheme \<Rightarrow> ('h, 'a) ata_state_scheme kres" where
  "poll_drq 0 E d s = Stop Diverges"
| "poll_drq (Suc n) E d s =
     (let (b, s) = drq_bit E d s in
      if b then Ret s
      else bindk (ata_error E (Some d) s) (\<lambda>(e, s). if e then Ret s else poll_drq n E d s))"

definition ata_poll_drq :: "'h ata_env \<Rightarrow> nat \<Rightarrow> ('h, 'a) ata_state_scheme \<Rightarrow> ('h, 'a) ata_state_scheme kres" where
  "ata_poll_drq E = poll_drq (a_fuel E) E"

definition drive_select_byte :: "ata_drive \<Rightarrow> bool \<Rightarrow> u32 \<Rightarrow> u32" where
  "drive_select_byte drv include_lba lba =
     (let inc = (if include_lba then ATA_DRIVE_LBA OR (drop_bit 24 lba AND 0x0F) else 0)
      in if drv = ATA_BUS_DRIVE1 then 0xA0 OR inc else 0xA0 OR ATA_DRIVE_DRV OR inc)"

definition ata_select_drive :: "'h ata_env \<Rightarrow> nat \<Rightarrow> bool \<Rightarrow> u32 \<Rightarrow> ('h, 'a) ata_state_scheme \<Rightarrow> ('h, 'a) ata_state_scheme kres" where
  "ata_select_drive E d include_lba lba s =
     (let (bsy, s) = bsy_bit E d s; (drq, s) = (if bsy then (False, s) else drq_bit E d s) in
      if bsy \<or> drq then Stop (Panic ''ata_select_drive: bsy or drq not cleared'')
      else if last_selected s = Some d \<and> \<not> include_lba then Ret s
      else Ret (ata_reg_write E d (drive_select_byte (ad_drive (ata_drives s d)) include_lba lba) ATA_REG_DRIVE
                  (s\<lparr>last_selected := Some d\<rparr>)))"

text \<open>A sector is 256 words through the data register, the low byte of each first.\<close>

primrec insw_words :: "nat \<Rightarrow> 'h port_io \<Rightarrow> u16 \<Rightarrow> 'h \<Rightarrow> u16 list \<times> 'h" where
  "insw_words 0 io port h = ([], h)"
| "insw_words (Suc n) io port h =
     (let (w, h) = io_inw io port h; (ws, h) = insw_words n io port h in (w # ws, h))"

primrec put_words :: "u32 \<Rightarrow> u16 list \<Rightarrow> (u32 \<Rightarrow> u8) \<Rightarrow> u32 \<Rightarrow> u8" where
  "put_words a [] m = m"
| "put_words a (w # ws) m = put_words (a + 2) ws (m(a := ucast w, a + 1 := ucast (drop_bit 8 w)))"

primrec get_words :: "nat \<Rightarrow> u32 \<Rightarrow> (u32 \<Rightarrow> u8) \<Rightarrow> u16 list" where
  "get_words 0 a m = []"
| "get_words (Suc n) a m = (ucast (m a) OR push_bit 8 (ucast (m (a + 1)))) # get_words n (a + 2) m"

definition data_port :: "ata_device \<Rightarrow> u16" where
  "data_port dev = ucast (cmd_base dev + ATA_REG_DATA)"

definition ata_pio_transfer :: "'h ata_env \<Rightarrow> nat \<Rightarrow> u32 \<Rightarrow> ata_pio_direction \<Rightarrow> ('h, 'a) ata_state_scheme \<Rightarrow> ('h, 'a) ata_state_scheme" where
  "ata_pio_transfer E d buf dir s =
     (let port = data_port (ata_drives s d) in
      case dir of
        ATA_PIO_IN \<Rightarrow> let (ws, h) = insw_words 256 (a_io E) port (hw s) in s\<lparr>kmem := put_words buf ws (kmem s), hw := h\<rparr>
      | ATA_PIO_OUT \<Rightarrow> s\<lparr>hw := fold (\<lambda>w. io_outw (a_io E) w port) (get_words 256 buf (kmem s)) (hw s)\<rparr>)"

definition bus_nr :: "ata_bus \<Rightarrow> nat" where
  "bus_nr b = (case b of ATA_PRIMARY_BUS \<Rightarrow> 0 | ATA_SECONDARY_BUS \<Rightarrow> 1)"

definition drive_nr :: "ata_drive \<Rightarrow> nat" where
  "drive_nr d = (case d of ATA_BUS_DRIVE1 \<Rightarrow> 0 | ATA_BUS_DRIVE2 \<Rightarrow> 1)"

definition ata_find_device :: "nat \<Rightarrow> nat \<Rightarrow> ('h, 'a) ata_state_scheme \<Rightarrow> nat option" where
  "ata_find_device chan drive s =
     (if chan \<ge> 2 \<or> drive \<ge> ATA_DRIVES_PER_BUS then None
      else List.find (\<lambda>d. bus_nr (ad_bus (ata_drives s d)) = chan \<and> drive_nr (ad_drive (ata_drives s d)) = drive)
             [0..<ATA_MAX_DRIVES])"

definition ata_reset_bus :: "'h ata_env \<Rightarrow> nat \<Rightarrow> ('h, 'a) ata_state_scheme \<Rightarrow> ('h, 'a) ata_state_scheme" where
  "ata_reset_bus E d s = ata_reg_write E d 0 ATA_REG_DEV_CTRL (ata_reg_write E d ATA_DEV_CTRL_SRST ATA_REG_DEV_CTRL s)"

definition ata_disable_intr :: "'h ata_env \<Rightarrow> nat \<Rightarrow> ('h, 'a) ata_state_scheme \<Rightarrow> ('h, 'a) ata_state_scheme kres" where
  "ata_disable_intr E d s =
     bindk (ata_select_drive E d False 0 s) (\<lambda>s. Ret (ata_reg_write E d ATA_DEV_CTRL_NIEN ATA_REG_DEV_CTRL s))"

definition ata_enable_intr :: "'h ata_env \<Rightarrow> nat \<Rightarrow> ('h, 'a) ata_state_scheme \<Rightarrow> ('h, 'a) ata_state_scheme kres" where
  "ata_enable_intr E d s =
     bindk (ata_select_drive E d False 0 s) (\<lambda>s. Ret (ata_reg_write E d 0 ATA_REG_DEV_CTRL s))"

definition ata_flush :: "'h ata_env \<Rightarrow> nat \<Rightarrow> ('h, 'a) ata_state_scheme \<Rightarrow> ('h, 'a) ata_state_scheme kres" where
  "ata_flush E d s =
     bindk (ata_poll_bsy E d (ata_reg_write E d ATA_CMD_FLUSH ATA_REG_CMD s)) (\<lambda>s.
     bindk (ata_error E (Some d) s) (\<lambda>(e, s). Ret (if e then ata_reset_bus E d s else s)))"

definition ata_device_exists :: "nat \<Rightarrow> ('h, 'a) ata_state_scheme \<Rightarrow> bool" where
  "ata_device_exists dev s = (if dev \<ge> ATA_MAX_DRIVES then False else ad_exists (ata_drives s dev))"

section \<open>Requests\<close>

definition ata_build_request :: "nat \<Rightarrow> u32 \<Rightarrow> u32 \<Rightarrow> u32 \<Rightarrow> u32 \<Rightarrow> ('h, 'a) ata_state_scheme \<Rightarrow>
    nat option \<times> ('h, 'a) ata_state_scheme" where
  "ata_build_request dev lba count cmd buf s =
     (case List.find (\<lambda>i. rq_dev (ata_requests s i) = None) [0..<ATA_MAX_REQUESTS] of
        None \<Rightarrow> (None, s)
      | Some i \<Rightarrow> (Some i, upd_req i (\<lambda>_. \<lparr>rq_dev = Some dev, rq_cmd = cmd, rq_count = count, rq_lba = lba, rq_buf = buf,
                     rq_error = False, rq_retry = 0, rq_next = None\<rparr>) s))"

definition ata_add_request :: "nat \<Rightarrow> ('h, 'a) ata_state_scheme \<Rightarrow> (bool \<times> ('h, 'a) ata_state_scheme) kres" where
  "ata_add_request req s =
     (case ata_current_req s of
        None \<Rightarrow> Ret (True, s\<lparr>ata_current_req := Some req\<rparr>)
      | Some i \<Rightarrow> bindk (chain_end (Suc ATA_MAX_REQUESTS) (\<lambda>j. rq_next (ata_requests s j)) i) (\<lambda>t. Ret (False, upd_req t (\<lambda>r. r\<lparr>rq_next := Some req\<rparr>) s)))"

definition ata_finish_request :: "nat \<Rightarrow> ('h, 'a) ata_state_scheme \<Rightarrow> ('h, 'a) ata_state_scheme" where
  "ata_finish_request req = upd_req req (\<lambda>r. r\<lparr>rq_dev := None\<rparr>)"

text \<open>One round of \<^verbatim>\<open>ata_wait_on_req\<close>: the request is finished, or the process goes to sleep.\<close>

definition ata_wait_on_req :: "'h ata_env \<Rightarrow> nat \<Rightarrow> ('h, 'a) ata_state_scheme \<Rightarrow> (bool \<times> ('h, 'a) ata_state_scheme) kres" where
  "ata_wait_on_req E req s =
     (if rq_dev (ata_requests s req) \<noteq> None
      then bindk (sleep (ata_req_addr E req) PROC_SLEEP_UNINTERRUPTIBLE s) (\<lambda>s. Ret (True, s))
      else Ret (False, s))"

text \<open>The device of a request that has one.\<close>

definition with_dev :: "nat \<Rightarrow> (nat \<Rightarrow> ('h, 'a) ata_state_scheme \<Rightarrow> 'b kres) \<Rightarrow> ('h, 'a) ata_state_scheme \<Rightarrow> 'b kres" where
  "with_dev req f s = (case rq_dev (ata_requests s req) of None \<Rightarrow> Stop (Fault ''dev'') | Some d \<Rightarrow> f d s)"

definition ata_start_request_lba28 :: "'h ata_env \<Rightarrow> nat \<Rightarrow> ('h, 'a) ata_state_scheme \<Rightarrow> ('h, 'a) ata_state_scheme kres" where
  "ata_start_request_lba28 E req =
     with_dev req (\<lambda>d s. let r = ata_requests s req in
       bindk (ata_select_drive E d True (rq_lba r) s) (\<lambda>s.
       let s = ata_reg_write E d (rq_count r AND 0xFF) ATA_REG_SEC_COUNT s;
           s = ata_reg_write E d (rq_lba r AND 0xFF) ATA_REG_LBA1 s;
           s = ata_reg_write E d (drop_bit 8 (rq_lba r) AND 0xFF) ATA_REG_LBA2 s;
           s = ata_reg_write E d (drop_bit 16 (rq_lba r) AND 0xFF) ATA_REG_LBA3 s
       in Ret (ata_reg_write E d (rq_cmd r) ATA_REG_CMD s)))"

definition ata_start_request_lba48 :: "'h ata_env \<Rightarrow> nat \<Rightarrow> ('h, 'a) ata_state_scheme \<Rightarrow> ('h, 'a) ata_state_scheme kres" where
  "ata_start_request_lba48 E req =
     with_dev req (\<lambda>d s. let r = ata_requests s req in
       bindk (ata_select_drive E d False 0 s) (\<lambda>s.
       let s = ata_reg_write E d (drop_bit 8 (rq_count r) AND 0xFF) ATA_REG_SEC_COUNT s;
           s = ata_reg_write E d (drop_bit 24 (rq_lba r) AND 0xFF) ATA_REG_LBA1 s;
           s = ata_reg_write E d 0 ATA_REG_LBA2 s;
           s = ata_reg_write E d 0 ATA_REG_LBA3 s;
           s = ata_reg_write E d (rq_count r AND 0xFF) ATA_REG_SEC_COUNT s;
           s = ata_reg_write E d (rq_lba r AND 0xFF) ATA_REG_LBA1 s;
           s = ata_reg_write E d (drop_bit 8 (rq_lba r) AND 0xFF) ATA_REG_LBA2 s;
           s = ata_reg_write E d (drop_bit 16 (rq_lba r) AND 0xFF) ATA_REG_LBA3 s
       in Ret (ata_reg_write E d (rq_cmd r) ATA_REG_CMD s)))"

definition ata_start_request :: "'h ata_env \<Rightarrow> nat \<Rightarrow> ('h, 'a) ata_state_scheme \<Rightarrow> ('h, 'a) ata_state_scheme kres" where
  "ata_start_request E req s =
     (if rq_lba (ata_requests s req) \<le> 0x0FFFFFFF then ata_start_request_lba28 E req s else ata_start_request_lba48 E req s)"

section \<open>Programmed input and output\<close>

abbreviation (input) PIO_DRIVER :: nat where "PIO_DRIVER \<equiv> 0"
abbreviation (input) DMA_DRIVER :: nat where "DMA_DRIVER \<equiv> 1"

definition ata_pio_init :: "('h, 'a) ata_state_scheme \<Rightarrow> ('h, 'a) ata_state_scheme" where
  "ata_pio_init = drive_driver_register PIO_DRIVER"

text \<open>Polled transfers, with the counter of \<^verbatim>\<open>while (req->count--)\<close> as the argument of the loop.\<close>

primrec pio_poll :: "nat \<Rightarrow> 'h ata_env \<Rightarrow> nat \<Rightarrow> nat \<Rightarrow> ata_pio_direction \<Rightarrow> ('h, 'a) ata_state_scheme \<Rightarrow>
    (bool \<times> ('h, 'a) ata_state_scheme) kres" where
  "pio_poll 0 E req d dir s = Ret (True, upd_req req (\<lambda>r. r\<lparr>rq_count := rq_count r - 1\<rparr>) s)"
| "pio_poll (Suc n) E req d dir s =
     (let s = upd_req req (\<lambda>r. r\<lparr>rq_count := rq_count r - 1\<rparr>) s in
      bindk (ata_poll_bsy E d s) (\<lambda>s.
      bindk (ata_poll_drq E d s) (\<lambda>s.
      bindk (ata_error E (Some d) s) (\<lambda>(e, s).
      if e then Ret (False, ata_reset_bus E d s)
      else let s = ata_pio_transfer E d (rq_buf (ata_requests s req)) dir s
           in pio_poll n E req d dir (upd_req req (\<lambda>r. r\<lparr>rq_buf := rq_buf r + 512\<rparr>) s)))))"

definition ata_pio_poll_read :: "'h ata_env \<Rightarrow> nat \<Rightarrow> ('h, 'a) ata_state_scheme \<Rightarrow> (int \<times> ('h, 'a) ata_state_scheme) kres" where
  "ata_pio_poll_read E req =
     with_dev req (\<lambda>d s.
       bindk (pio_poll (unat (rq_count (ata_requests s req))) E req d ATA_PIO_IN s) (\<lambda>(ok, s). Ret (if ok then 0 else -1, s)))"

definition ata_pio_poll_write :: "'h ata_env \<Rightarrow> nat \<Rightarrow> ('h, 'a) ata_state_scheme \<Rightarrow> (int \<times> ('h, 'a) ata_state_scheme) kres" where
  "ata_pio_poll_write E req =
     with_dev req (\<lambda>d s.
       bindk (pio_poll (unat (rq_count (ata_requests s req))) E req d ATA_PIO_OUT s) (\<lambda>(ok, s).
       if ok then bindk (ata_flush E d s) (\<lambda>s. Ret (0, s)) else Ret (-1, s)))"

definition next_req :: "('h, 'a) ata_state_scheme \<Rightarrow> nat option kres" where
  "next_req s = (case ata_current_req s of None \<Rightarrow> Stop (Fault ''ata_current_req'') | Some i \<Rightarrow> Ret (rq_next (ata_requests s i)))"

text \<open>The result says whether the request is still to be waited for.\<close>

definition ata_pio_start_request :: "'h ata_env \<Rightarrow> nat \<Rightarrow> ('h, 'a) ata_state_scheme \<Rightarrow> (bool \<times> ('h, 'a) ata_state_scheme) kres" where
  "ata_pio_start_request E req =
     with_dev req (\<lambda>d s.
       bindk (ata_enable_intr E d s) (\<lambda>s.
       let cmd = rq_cmd (ata_requests s req);
           s = s\<lparr>pio_intr := Some (if cmd = ATA_CMD_WRITE_SECTORS \<or> cmd = ATA_CMD_WRITE_SECTORS_EXT then Write_intr else Read_intr)\<rparr>
       in bindk (ata_start_request E req s) (\<lambda>s.
          bindk (ata_error E (rq_dev (ata_requests s req)) s) (\<lambda>(e, s).
          if e then Ret (False, upd_req req (\<lambda>r. r\<lparr>rq_retry := rq_retry r + 1, rq_error := True\<rparr>) (ata_reset_bus E d s))
          else if cmd = ATA_CMD_WRITE_SECTORS then
            bindk (ata_poll_drq E d s) (\<lambda>s.
            let s = ata_pio_transfer E d (rq_buf (ata_requests s req)) ATA_PIO_OUT s;
                s = upd_req req (\<lambda>r. r\<lparr>rq_count := rq_count r - 1\<rparr>) s
            in if rq_count (ata_requests s req) = 0 then
                 let s = ata_finish_request req s
                 in bindk (next_req s) (\<lambda>n. Ret (False, s\<lparr>ata_current_req := n, pio_intr := None\<rparr>))
               else Ret (rq_dev (ata_requests s req) \<noteq> None, s))
          else Ret (rq_dev (ata_requests s req) \<noteq> None, s)))))"

datatype 's ata_result = Ata_done int 's | Ata_waits nat 's

text \<open>
  \<^verbatim>\<open>ata_pio_start\<close>. What follows the wait is \<open>pio_check\<close>, whose last argument is the jump to \<^verbatim>\<open>retry\<close>; \<open>Ata_waits i\<close> is a process that
  sleeps on request \<open>i\<close>, and \<open>pio_resume\<close> is what it does when it is woken.
\<close>

definition pio_check :: "nat \<Rightarrow> (('h, 'a) ata_state_scheme \<Rightarrow> ('h, 'a) ata_state_scheme ata_result kres) \<Rightarrow>
    ('h, 'a) ata_state_scheme \<Rightarrow> ('h, 'a) ata_state_scheme ata_result kres" where
  "pio_check req retry s =
     (let r = ata_requests s req in
      if rq_error r \<and> rq_retry r < ATA_MAX_ERROR then retry (upd_req req (\<lambda>r. r\<lparr>rq_error := False\<rparr>) s)
      else if rq_error r then Ret (Ata_done (-1) s)
      else Ret (Ata_done 0 s))"

definition pio_wait :: "'h ata_env \<Rightarrow> nat \<Rightarrow> nat \<Rightarrow> (('h, 'a) ata_state_scheme \<Rightarrow> ('h, 'a) ata_state_scheme ata_result kres) \<Rightarrow>
    ('h, 'a) ata_state_scheme \<Rightarrow> ('h, 'a) ata_state_scheme ata_result kres" where
  "pio_wait E i req retry s =
     bindk (ata_wait_on_req E i s) (\<lambda>(asleep, s). if asleep then Ret (Ata_waits i s) else pio_check req retry s)"

definition pio_cmd :: "rw \<Rightarrow> u32 \<Rightarrow> u32" where
  "pio_cmd rw lba =
     (case rw of READ \<Rightarrow> if lba > 0x0FFFFFFF then ATA_CMD_READ_SECTORS_EXT else ATA_CMD_READ_SECTORS
      | WRITE \<Rightarrow> if lba > 0x0FFFFFFF then ATA_CMD_WRITE_SECTORS_EXT else ATA_CMD_WRITE_SECTORS)"

primrec ata_pio_start :: "nat \<Rightarrow> 'h ata_env \<Rightarrow> nat \<Rightarrow> u32 \<Rightarrow> u32 \<Rightarrow> u32 \<Rightarrow> rw \<Rightarrow> ('h, 'a) ata_state_scheme \<Rightarrow>
    ('h, 'a) ata_state_scheme ata_result kres" where
  "ata_pio_start 0 E drive buf count lba rw s = Stop Diverges"
| "ata_pio_start (Suc n) E drive buf count lba rw s =
     (if drive \<ge> ATA_MAX_DRIVES then Ret (Ata_done (-1) s)
      else case ata_find_device (drive div ATA_DRIVES_PER_BUS) (drive mod ATA_DRIVES_PER_BUS) s of
        None \<Rightarrow> Ret (Ata_done (-1) s)
      | Some d \<Rightarrow>
        (case ata_build_request d lba count (pio_cmd rw lba) buf s of
           (None, s) \<Rightarrow> Ret (Ata_done (-1) s)
         | (Some req, s) \<Rightarrow>
             if system_is_multitasking s then
               bindk (ata_add_request req s) (\<lambda>(first, s).
               if first then
                 bindk (ata_pio_start_request E req s) (\<lambda>(w, s).
                 if w then
                   (case ata_current_req s of
                      None \<Rightarrow> Stop (Fault ''ata_current_req'')
                    | Some i \<Rightarrow> pio_wait E i req (ata_pio_start n E drive buf count lba rw) s)
                 else pio_check req (ata_pio_start n E drive buf count lba rw) s)
               else pio_wait E req req (ata_pio_start n E drive buf count lba rw) s)
             else
               bindk (ata_start_request E req s) (\<lambda>s.
               bindk (case rw of READ \<Rightarrow> ata_pio_poll_read E req s | WRITE \<Rightarrow> ata_pio_poll_write E req s) (\<lambda>(_, s).
               pio_check req (ata_pio_start n E drive buf count lba rw) (ata_finish_request req s)))))"

definition pio_resume :: "nat \<Rightarrow> 'h ata_env \<Rightarrow> nat \<Rightarrow> nat \<Rightarrow> nat \<Rightarrow> u32 \<Rightarrow> u32 \<Rightarrow> u32 \<Rightarrow> rw \<Rightarrow> ('h, 'a) ata_state_scheme \<Rightarrow>
    ('h, 'a) ata_state_scheme ata_result kres" where
  "pio_resume n E i req drive buf count lba rw = pio_wait E i req (ata_pio_start n E drive buf count lba rw)"

definition req_chan :: "'h ata_env \<Rightarrow> nat option \<Rightarrow> u32" where
  "req_chan E i = (case i of None \<Rightarrow> 0 | Some i \<Rightarrow> ata_req_addr E i)"

text \<open>The part that both handlers share: the status is read to acknowledge the interrupt, and a sector is transferred.\<close>

definition intr_sector :: "'h ata_env \<Rightarrow> nat \<Rightarrow> nat \<Rightarrow> ata_pio_direction \<Rightarrow> ('h, 'a) ata_state_scheme \<Rightarrow> ('h, 'a) ata_state_scheme" where
  "intr_sector E req d dir s =
     (let (_, s) = ata_reg_read E d ATA_REG_STATUS s;
          s = ata_pio_transfer E d (rq_buf (ata_requests s req)) dir s
      in upd_req req (\<lambda>r. r\<lparr>rq_buf := rq_buf r + 512, rq_count := rq_count r - 1\<rparr>) s)"

text \<open>
  The request after the one that is finished is started. The handlers differ in when they wake the process of that request: after a
  read when nothing is to be waited for, after a write when something is.
\<close>

definition intr_next :: "'h ata_env \<Rightarrow> bool \<Rightarrow> nat \<Rightarrow> ('h, 'a) ata_state_scheme \<Rightarrow> ('h, 'a) ata_state_scheme kres" where
  "intr_next E wake_if old s =
     (let s = ata_finish_request old s; s = s\<lparr>ata_current_req := rq_next (ata_requests s old)\<rparr>
      in bindk (case ata_current_req s of
                  None \<Rightarrow> Ret (s\<lparr>pio_intr := None\<rparr>)
                | Some i \<Rightarrow> bindk (ata_pio_start_request E i s) (\<lambda>(w, s).
                    if w = wake_if then wakeup (req_chan E (ata_current_req s)) WAKEUP_RETURN s else Ret s)) (\<lambda>s.
         wakeup (ata_req_addr E old) WAKEUP_RETURN s))"

definition ata_pio_read_intr :: "'h ata_env \<Rightarrow> ('h, 'a) ata_state_scheme \<Rightarrow> ('h, 'a) ata_state_scheme kres" where
  "ata_pio_read_intr E s =
     (case ata_current_req s of
        None \<Rightarrow> Stop (Fault ''ata_current_req'')
      | Some req \<Rightarrow> with_dev req (\<lambda>d s.
          let s = intr_sector E req d ATA_PIO_IN s in
          if rq_count (ata_requests s req) = 0 then intr_next E False req s else Ret s) s)"

definition ata_pio_write_intr :: "'h ata_env \<Rightarrow> ('h, 'a) ata_state_scheme \<Rightarrow> ('h, 'a) ata_state_scheme kres" where
  "ata_pio_write_intr E s =
     (case ata_current_req s of
        None \<Rightarrow> Stop (Fault ''ata_current_req'')
      | Some req \<Rightarrow> with_dev req (\<lambda>d s.
          let s = intr_sector E req d ATA_PIO_OUT s in
          if rq_count (ata_requests s req) = 0 then bindk (ata_flush E d s) (intr_next E True req) else Ret s) s)"

end
