(* ===== verification/Ata_Dma.thy ===== *)
theory Ata_Dma
  imports Ata
begin

text \<open>
  The disk controller, continued: the bus master of \<^verbatim>\<open>bus_master.c\<close>, direct memory access in \<^verbatim>\<open>ata_dma.c\<close>, the detection of drives in
  \<^verbatim>\<open>ata_init.c\<close>, and the interrupt handler of \<^verbatim>\<open>drive.c\<close>. \<^verbatim>\<open>ata_dma_start_request\<close> sleeps, also when an interrupt handler calls it: then
  it is the interrupted process that sleeps, and the handler's last step is still to come.
\<close>

section \<open>The bus master\<close>

abbreviation (input) BUS_MASTER_CMD_PRI :: u32 where "BUS_MASTER_CMD_PRI \<equiv> 0x0"
abbreviation (input) BUS_MASTER_STATUS_PRI :: u32 where "BUS_MASTER_STATUS_PRI \<equiv> 0x2"
abbreviation (input) BUS_MASTER_PRDT_PRI :: u32 where "BUS_MASTER_PRDT_PRI \<equiv> 0x4"
abbreviation (input) BUS_MASTER_CMD_SEC :: u32 where "BUS_MASTER_CMD_SEC \<equiv> 0x8"
abbreviation (input) BUS_MASTER_STATUS_SEC :: u32 where "BUS_MASTER_STATUS_SEC \<equiv> 0xA"
abbreviation (input) BUS_MASTER_PRDT_SEC :: u32 where "BUS_MASTER_PRDT_SEC \<equiv> 0xC"
abbreviation (input) BUS_MASTER_CMD_START :: u32 where "BUS_MASTER_CMD_START \<equiv> 1"
abbreviation (input) BUS_MASTER_CMD_READ :: u32 where "BUS_MASTER_CMD_READ \<equiv> 8"
abbreviation (input) BUS_MASTER_CMD_WRITE :: u32 where "BUS_MASTER_CMD_WRITE \<equiv> 0"
abbreviation (input) BUS_MASTER_STATUS_ERR :: u32 where "BUS_MASTER_STATUS_ERR \<equiv> 2"
abbreviation (input) BUS_MASTER_STATUS_IRQ :: u32 where "BUS_MASTER_STATUS_IRQ \<equiv> 4"
abbreviation (input) PCI_BAR_MEM_SPACE :: int where "PCI_BAR_MEM_SPACE \<equiv> 0"
abbreviation (input) PCI_BAR_IO_SPACE :: int where "PCI_BAR_IO_SPACE \<equiv> 1"

text \<open>
  In memory space the test \<^verbatim>\<open>reg != BUS_MASTER_PRDT_PRI || reg != BUS_MASTER_PRDT_SEC\<close> holds for every register, so that one byte is
  written or read.
\<close>

definition bus_master_write :: "'h ata_env \<Rightarrow> nat \<Rightarrow> u32 \<Rightarrow> u32 \<Rightarrow> ('h, 'a) ata_state_scheme \<Rightarrow> ('h, 'a) ata_state_scheme" where
  "bus_master_write E d val reg s =
     (let dev = ata_drives s d; a = bus_master_base dev + reg in
      if bus_master_base dev = 0 then s
      else if bus_master_type dev = PCI_BAR_MEM_SPACE then
        if reg \<noteq> BUS_MASTER_PRDT_PRI \<or> reg \<noteq> BUS_MASTER_PRDT_SEC then s\<lparr>kmem := (kmem s)(a := ucast val)\<rparr>
        else s\<lparr>kmem := (kmem s)(a := ucast val, a + 1 := ucast (drop_bit 8 val), a + 2 := ucast (drop_bit 16 val),
                 a + 3 := ucast (drop_bit 24 val))\<rparr>
      else if reg \<noteq> BUS_MASTER_PRDT_PRI \<and> reg \<noteq> BUS_MASTER_PRDT_SEC
      then s\<lparr>hw := io_outb (a_io E) (ucast val) (ucast a) (hw s)\<rparr>
      else s\<lparr>hw := io_outl (a_io E) val (ucast a) (hw s)\<rparr>)"

definition bus_master_read :: "'h ata_env \<Rightarrow> nat \<Rightarrow> u32 \<Rightarrow> ('h, 'a) ata_state_scheme \<Rightarrow> u32 \<times> ('h, 'a) ata_state_scheme" where
  "bus_master_read E d reg s =
     (let dev = ata_drives s d; a = bus_master_base dev + reg in
      if bus_master_base dev = 0 then (0, s)
      else if bus_master_type dev = PCI_BAR_MEM_SPACE then
        if reg \<noteq> BUS_MASTER_PRDT_PRI \<or> reg \<noteq> BUS_MASTER_PRDT_SEC then (ucast (kmem s a), s) else (kmem32 a s, s)
      else if reg \<noteq> BUS_MASTER_PRDT_PRI \<and> reg \<noteq> BUS_MASTER_PRDT_SEC
      then let (v, h) = io_inb (a_io E) (ucast a) (hw s) in (ucast v, s\<lparr>hw := h\<rparr>)
      else let (v, h) = io_inl (a_io E) (ucast a) (hw s) in (v, s\<lparr>hw := h\<rparr>))"

section \<open>Direct memory access\<close>

definition kcopy :: "u32 \<Rightarrow> u32 \<Rightarrow> u32 \<Rightarrow> (u32 \<Rightarrow> u8) \<Rightarrow> u32 \<Rightarrow> u8" where
  "kcopy dst src n m = (\<lambda>a. if a - dst < n then m (src + (a - dst)) else m a)"

definition PHYS_ADDR :: "u32 \<Rightarrow> u32" where
  "PHYS_ADDR a = a - 0xC0000000"

text \<open>The registers of the channel, which are chosen by the drive.\<close>

definition bm_cmd :: "ata_drive \<Rightarrow> u32" where
  "bm_cmd drv = (if drv = ATA_BUS_DRIVE1 then BUS_MASTER_CMD_PRI else BUS_MASTER_CMD_SEC)"

definition bm_status :: "ata_drive \<Rightarrow> u32" where
  "bm_status drv = (if drv = ATA_BUS_DRIVE1 then BUS_MASTER_STATUS_PRI else BUS_MASTER_STATUS_SEC)"

definition bm_prdt :: "ata_drive \<Rightarrow> u32" where
  "bm_prdt drv = (if drv = ATA_BUS_DRIVE1 then BUS_MASTER_PRDT_PRI else BUS_MASTER_PRDT_SEC)"

definition dma_program :: "'h ata_env \<Rightarrow> nat \<Rightarrow> ('h, 'a) ata_state_scheme \<Rightarrow> ('h, 'a) ata_state_scheme kres" where
  "dma_program E d s =
     (let drv = ad_drive (ata_drives s d); (c, s) = bus_master_read E d (bm_cmd drv) s in
      if c AND BUS_MASTER_CMD_START \<noteq> 0 then Stop (Panic ''ata_dma_start: start bit is set'')
      else
        let s = bus_master_write E d (PHYS_ADDR (dma_prdt_at E)) (bm_prdt drv) s;
            (st, s) = bus_master_read E d (bm_status drv) s
        in Ret (bus_master_write E d (st AND NOT BUS_MASTER_STATUS_IRQ AND NOT BUS_MASTER_STATUS_ERR) (bm_status drv) s))"

datatype 's dma_result = Dma_returns 's | Dma_waits nat 's

text \<open>
  Which way the data goes, and what a write does first: the sectors are copied into the static buffer, which has room for 64 KiB.
\<close>

definition dma_direction :: "'h ata_env \<Rightarrow> nat \<Rightarrow> ('h, 'a) ata_state_scheme \<Rightarrow> (u32 option \<times> ('h, 'a) ata_state_scheme) kres" where
  "dma_direction E req s =
     (let r = ata_requests s req in
      if rq_cmd r = ATA_CMD_READ_SECTORS_DMA \<or> rq_cmd r = ATA_CMD_READ_SECTORS_DMA_EXT
      then Ret (Some BUS_MASTER_CMD_READ, s\<lparr>dma_intr := Some Read_intr\<rparr>)
      else if rq_cmd r = ATA_CMD_WRITE_SECTORS_DMA \<or> rq_cmd r = ATA_CMD_WRITE_SECTORS_DMA_EXT
      then if rq_count r * 512 > ATA_DMA_ALIGN then Stop (Fault ''dma_buf'')
           else Ret (Some BUS_MASTER_CMD_WRITE,
                     s\<lparr>dma_intr := Some Write_intr, kmem := kcopy (dma_buf_at E) (rq_buf r) (rq_count r * 512) (kmem s)\<rparr>)
      else Ret (None, s))"

definition set_prdt :: "'h ata_env \<Rightarrow> nat \<Rightarrow> ('h, 'a) ata_state_scheme \<Rightarrow> ('h, 'a) ata_state_scheme" where
  "set_prdt E req s =
     s\<lparr>ata_dma_current_prdt := \<lparr>prd_buf = PHYS_ADDR (dma_buf_at E), prd_bcount = ucast (rq_count (ata_requests s req) * 512),
         prd_reserved = push_bit 15 1\<rparr>\<rparr>"

definition dma_wait :: "'h ata_env \<Rightarrow> nat \<Rightarrow> ('h, 'a) ata_state_scheme \<Rightarrow> ('h, 'a) ata_state_scheme dma_result kres" where
  "dma_wait E req s = bindk (ata_wait_on_req E req s) (\<lambda>(asleep, s). Ret (if asleep then Dma_waits req s else Dma_returns s))"

text \<open>\<^verbatim>\<open>goto retry\<close> is taken at most three times for a request, because each one adds to its \<^verbatim>\<open>retry\<close>.\<close>

primrec dma_start :: "nat \<Rightarrow> 'h ata_env \<Rightarrow> nat \<Rightarrow> ('h, 'a) ata_state_scheme \<Rightarrow> ('h, 'a) ata_state_scheme dma_result kres" where
  "dma_start 0 E req s = Stop Diverges"
| "dma_start (Suc n) E req s =
     bindk (dma_direction E req s) (\<lambda>(dir, s).
     case dir of
       None \<Rightarrow> Ret (Dma_returns s)
     | Some rw_bit \<Rightarrow> with_dev req (\<lambda>d s.
         bindk (ata_enable_intr E d s) (\<lambda>s.
         bindk (dma_program E d (set_prdt E req s)) (\<lambda>s.
         bindk (ata_start_request E req s) (\<lambda>s.
         bindk (ata_error E (Some d) s) (\<lambda>(e, s).
         if e then
           let s = upd_req req (\<lambda>r. r\<lparr>rq_error := True\<rparr>) s in
           if rq_retry (ata_requests s req) < ATA_MAX_ERROR
           then dma_start n E req (upd_req req (\<lambda>r. r\<lparr>rq_retry := rq_retry r + 1\<rparr>) s)
           else Ret (Dma_returns s)
         else dma_wait E req (bus_master_write E d (BUS_MASTER_CMD_START OR rw_bit) (bm_cmd (ad_drive (ata_drives s d))) s)))))) s)"

definition ata_dma_start_request :: "'h ata_env \<Rightarrow> nat \<Rightarrow> ('h, 'a) ata_state_scheme \<Rightarrow> ('h, 'a) ata_state_scheme dma_result kres" where
  "ata_dma_start_request E = dma_start (Suc (nat ATA_MAX_ERROR)) E"

definition ata_dma_init :: "('h, 'a) ata_state_scheme \<Rightarrow> ('h, 'a) ata_state_scheme" where
  "ata_dma_init = drive_driver_register DMA_DRIVER"

definition dma_cmd :: "rw \<Rightarrow> u32 \<Rightarrow> u32" where
  "dma_cmd rw lba =
     (case rw of READ \<Rightarrow> if lba > 0x0FFFFFFF then ATA_CMD_READ_SECTORS_DMA_EXT else ATA_CMD_READ_SECTORS_DMA
      | WRITE \<Rightarrow> if lba > 0x0FFFFFFF then ATA_CMD_WRITE_SECTORS_DMA_EXT else ATA_CMD_WRITE_SECTORS_DMA)"

definition dma_end :: "nat \<Rightarrow> ('h, 'a) ata_state_scheme \<Rightarrow> ('h, 'a) ata_state_scheme ata_result" where
  "dma_end req s = Ata_done (if rq_error (ata_requests s req) then -1 else 0) s"

definition ata_dma_start :: "'h ata_env \<Rightarrow> nat \<Rightarrow> u32 \<Rightarrow> u32 \<Rightarrow> u32 \<Rightarrow> rw \<Rightarrow> ('h, 'a) ata_state_scheme \<Rightarrow>
    ('h, 'a) ata_state_scheme ata_result kres" where
  "ata_dma_start E drive buf count lba rw s =
     (if \<not> system_is_multitasking s then Ret (Ata_done (-1) s)
      else if drive \<ge> ATA_MAX_DRIVES then Ret (Ata_done (-1) s)
      else case ata_find_device (drive div ATA_DRIVES_PER_BUS) (drive mod ATA_DRIVES_PER_BUS) s of
        None \<Rightarrow> Ret (Ata_done (-1) s)
      | Some d \<Rightarrow>
        (case ata_build_request d lba count (dma_cmd rw lba) buf s of
           (None, s) \<Rightarrow> Ret (Ata_done (-1) s)
         | (Some req, s) \<Rightarrow>
             bindk (ata_add_request req s) (\<lambda>(first, s).
             if first then
               bindk (ata_dma_start_request E req s) (\<lambda>r.
               case r of Dma_waits i s \<Rightarrow> Ret (Ata_waits i s) | Dma_returns s \<Rightarrow> Ret (dma_end req s))
             else Ret (dma_end req s))))"

text \<open>What a process does that is woken in \<^verbatim>\<open>ata_dma_start\<close>.\<close>

definition dma_resume :: "'h ata_env \<Rightarrow> nat \<Rightarrow> ('h, 'a) ata_state_scheme \<Rightarrow> ('h, 'a) ata_state_scheme ata_result kres" where
  "dma_resume E req s =
     bindk (dma_wait E req s) (\<lambda>r. case r of Dma_waits i s \<Rightarrow> Ret (Ata_waits i s) | Dma_returns s \<Rightarrow> Ret (dma_end req s))"

datatype 's intr_result = Intr_done 's | Intr_sleeps nat nat 's

definition dma_intr_end :: "'h ata_env \<Rightarrow> nat \<Rightarrow> ('h, 'a) ata_state_scheme dma_result \<Rightarrow> ('h, 'a) ata_state_scheme intr_result kres" where
  "dma_intr_end E old r =
     (case r of
        Dma_waits i s \<Rightarrow> Ret (Intr_sleeps i old s)
      | Dma_returns s \<Rightarrow> bindk (wakeup (ata_req_addr E old) WAKEUP_RETURN s) (\<lambda>s. Ret (Intr_done s)))"

definition dma_intr_next :: "'h ata_env \<Rightarrow> nat \<Rightarrow> ('h, 'a) ata_state_scheme \<Rightarrow> ('h, 'a) ata_state_scheme intr_result kres" where
  "dma_intr_next E old s =
     (let s = ata_finish_request old s; s = s\<lparr>ata_current_req := rq_next (ata_requests s old)\<rparr>
      in bindk (case ata_current_req s of
                  None \<Rightarrow> Ret (Dma_returns (s\<lparr>dma_intr := None\<rparr>))
                | Some i \<Rightarrow> ata_dma_start_request E i s) (dma_intr_end E old))"

text \<open>
  The start of both handlers: stop the bus master, and look whether it was the one that raised the interrupt and whether there was an
  error.
\<close>

definition dma_status :: "'h ata_env \<Rightarrow> nat \<Rightarrow> ('h, 'a) ata_state_scheme \<Rightarrow> bool option \<times> ('h, 'a) ata_state_scheme" where
  "dma_status E d s =
     (let drv = ad_drive (ata_drives s d);
          s = bus_master_write E d 0 (bm_cmd drv) s;
          (st, s) = bus_master_read E d (bm_status drv) s
      in if st AND BUS_MASTER_STATUS_IRQ = 0 then (None, s)
         else let (st, s) = bus_master_read E d (bm_status drv) s in (Some (st AND BUS_MASTER_STATUS_ERR \<noteq> 0), s))"

definition set_error :: "nat \<Rightarrow> bool \<Rightarrow> ('h, 'a) ata_state_scheme \<Rightarrow> ('h, 'a) ata_state_scheme" where
  "set_error req e s = (if e then upd_req req (\<lambda>r. r\<lparr>rq_error := True\<rparr>) s else s)"

definition ata_dma_write_intr :: "'h ata_env \<Rightarrow> ('h, 'a) ata_state_scheme \<Rightarrow> ('h, 'a) ata_state_scheme intr_result kres" where
  "ata_dma_write_intr E s =
     (case ata_current_req s of
        None \<Rightarrow> Stop (Fault ''ata_current_req'')
      | Some req \<Rightarrow> with_dev req (\<lambda>d s.
          case dma_status E d s of
            (None, s) \<Rightarrow> Ret (Intr_done s)
          | (Some e, s) \<Rightarrow> bindk (ata_flush E d (set_error req e s)) (dma_intr_next E req)) s)"

definition ata_dma_read_intr :: "'h ata_env \<Rightarrow> ('h, 'a) ata_state_scheme \<Rightarrow> ('h, 'a) ata_state_scheme intr_result kres" where
  "ata_dma_read_intr E s =
     (case ata_current_req s of
        None \<Rightarrow> Stop (Fault ''ata_current_req'')
      | Some req \<Rightarrow> with_dev req (\<lambda>d s.
          case dma_status E d s of
            (None, s) \<Rightarrow> Ret (Intr_done s)
          | (Some e, s) \<Rightarrow>
              dma_intr_next E req
                (if e then set_error req e s
                 else s\<lparr>kmem := kcopy (rq_buf (ata_requests s req)) (dma_buf_at E) (ucast (prd_bcount (ata_dma_current_prdt s))) (kmem s)\<rparr>)) s)"

text \<open>The interrupted process, woken inside the handler.\<close>

definition dma_intr_resume :: "'h ata_env \<Rightarrow> nat \<Rightarrow> nat \<Rightarrow> ('h, 'a) ata_state_scheme \<Rightarrow> ('h, 'a) ata_state_scheme intr_result kres" where
  "dma_intr_resume E i old s = bindk (dma_wait E i s) (dma_intr_end E old)"

section \<open>The drivers\<close>

definition drive_irq_handler :: "'h ata_env \<Rightarrow> ('h, 'a) ata_state_scheme \<Rightarrow> ('h, 'a) ata_state_scheme intr_result kres" where
  "drive_irq_handler E s =
     (if system_is_panicing s then Ret (Intr_done s)
      else if current_driver s = Some PIO_DRIVER then
        (case pio_intr s of
           None \<Rightarrow> Ret (Intr_done s)
         | Some Read_intr \<Rightarrow> bindk (ata_pio_read_intr E s) (\<lambda>s. Ret (Intr_done s))
         | Some Write_intr \<Rightarrow> bindk (ata_pio_write_intr E s) (\<lambda>s. Ret (Intr_done s)))
      else if current_driver s = Some DMA_DRIVER then
        (case dma_intr s of
           None \<Rightarrow> Ret (Intr_done s)
         | Some Read_intr \<Rightarrow> ata_dma_read_intr E s
         | Some Write_intr \<Rightarrow> ata_dma_write_intr E s)
      else Ret (Intr_done s))"

text \<open>The two drivers as the block devices call them; a call that waits is cut there.\<close>

definition ata_call :: "('h, 'a) ata_state_scheme ata_result kres \<Rightarrow> (int \<times> ('h, 'a) ata_state_scheme) kres" where
  "ata_call r = bindk r (\<lambda>r. case r of Ata_done v s \<Rightarrow> Ret (v, s) | Ata_waits i s \<Rightarrow> Stop Blocked)"

definition ata_pio_driver :: "'h ata_env \<Rightarrow> ('h, 'a) ata_state_scheme drive_driver" where
  "ata_pio_driver E = \<lparr>drive_start = (\<lambda>drive buf count lba rw s. ata_call (ata_pio_start (a_fuel E) E drive buf count lba rw s)),
     drive_exists = ata_device_exists\<rparr>"

definition ata_dma_driver :: "'h ata_env \<Rightarrow> ('h, 'a) ata_state_scheme drive_driver" where
  "ata_dma_driver E = \<lparr>drive_start = (\<lambda>drive buf count lba rw s. ata_call (ata_dma_start E drive buf count lba rw s)),
     drive_exists = ata_device_exists\<rparr>"

definition ata_drivers :: "'h ata_env \<Rightarrow> nat \<Rightarrow> ('h, 'a) ata_state_scheme drive_driver" where
  "ata_drivers E i = (if i = PIO_DRIVER then ata_pio_driver E else ata_dma_driver E)"

section \<open>Detection\<close>

definition reg_pair :: "'h ata_env \<Rightarrow> nat \<Rightarrow> (u8 \<Rightarrow> bool) \<Rightarrow> (u8 \<Rightarrow> bool) \<Rightarrow> ('h, 'a) ata_state_scheme \<Rightarrow> bool \<times> ('h, 'a) ata_state_scheme" where
  "reg_pair E d P Q s =
     (let (a, s) = ata_reg_read E d ATA_REG_LBA2 s in
      if P a then let (b, s) = ata_reg_read E d ATA_REG_LBA3 s in (Q b, s) else (False, s))"

text \<open>The words of the answer to IDENTIFY, which the code reads into a variable on the stack.\<close>

definition identify_words :: "u16 list \<Rightarrow> nat \<Rightarrow> nat \<Rightarrow> u32" where
  "identify_words ws i j = ucast (ws ! i) OR push_bit 16 (ucast (ws ! j))"

definition identify_data :: "'h ata_env \<Rightarrow> nat \<Rightarrow> ('h, 'a) ata_state_scheme \<Rightarrow> (ata_device_type \<times> ('h, 'a) ata_state_scheme) kres" where
  "identify_data E d s =
     (let s = upd_dev d (\<lambda>v. v\<lparr>ad_exists := True\<rparr>) s;
          (ws, h) = insw_words 256 (a_io E) (data_port (ata_drives s d)) (hw s);
          s = s\<lparr>hw := h\<rparr>
      in if ws ! 0 AND 1 \<noteq> 0 then Ret (ATA_DEV_UNKNOWN, s)
         else
           let s = upd_dev d (\<lambda>v. v\<lparr>max_lba28 := identify_words ws 60 61\<rparr>) s
           in if max_lba28 (ata_drives s d) = 0 then Ret (ATA_DEV_UNKNOWN, s)
              else
                let s = upd_dev d (\<lambda>v. v\<lparr>max_lba48_low := identify_words ws 100 101, max_lba48_high := identify_words ws 102 103\<rparr>) s
                in bindk (ata_disable_intr E d s) (\<lambda>s. Ret (ATA_DEV_PATA, s)))"

definition ata_identify :: "'h ata_env \<Rightarrow> nat \<Rightarrow> ('h, 'a) ata_state_scheme \<Rightarrow> (ata_device_type \<times> ('h, 'a) ata_state_scheme) kres" where
  "ata_identify E d s =
     (let (st, s) = ata_reg_read E d ATA_REG_STATUS s in
      if st = 0xFF then Ret (ATA_DEV_UNKNOWN, s)
      else
        bindk (ata_select_drive E d False 0 s) (\<lambda>s.
        let s = ata_reg_write E d 0 ATA_REG_SEC_COUNT s; s = ata_reg_write E d 0 ATA_REG_LBA1 s;
            s = ata_reg_write E d 0 ATA_REG_LBA2 s; s = ata_reg_write E d 0 ATA_REG_LBA3 s;
            s = ata_reg_write E d ATA_CMD_IDENTIFY ATA_REG_CMD s
        in bindk (ata_error E (Some d) s) (\<lambda>(e, s).
           if e then
             let (p, s) = reg_pair E d (\<lambda>a. a = 0x14) (\<lambda>b. b = 0xEB) s in
             if p then Ret (ATA_DEV_ATAPI, s)
             else let (p, s) = reg_pair E d (\<lambda>a. a = 0x3C) (\<lambda>b. b = 0xC3) s
                  in Ret (if p then ATA_DEV_SATA else ATA_DEV_UNKNOWN, s)
           else
             let (st, s) = ata_reg_read E d ATA_REG_STATUS s in
             if st = 0 then Ret (ATA_DEV_UNKNOWN, s)
             else
               bindk (ata_poll_bsy E d s) (\<lambda>s.
               let (p, s) = reg_pair E d (\<lambda>a. a \<noteq> 0) (\<lambda>b. b \<noteq> 0) s in
               if p then Ret (ATA_DEV_UNKNOWN, s)
               else
                 bindk (ata_poll_drq E d s) (\<lambda>s.
                 bindk (ata_error E (Some d) s) (\<lambda>(e, s).
                 if e then Ret (ATA_DEV_UNKNOWN, s) else identify_data E d s))))))"

text \<open>
  One drive of \<^verbatim>\<open>ata_probe\<close>. The reset comes before the port numbers are stored.
\<close>

definition probe_drive :: "'h ata_env \<Rightarrow> (nat \<Rightarrow> u32 \<times> u32) \<Rightarrow> u32 \<Rightarrow> int \<Rightarrow> nat \<Rightarrow> int \<times> ('h, 'a) ata_state_scheme \<Rightarrow>
    (int \<times> ('h, 'a) ata_state_scheme) kres" where
  "probe_drive E bars bar4 bar4_type i = (\<lambda>(ret, s).
     let s = upd_dev i (\<lambda>v. v\<lparr>ad_bus := if i < ATA_DRIVES_PER_BUS then ATA_PRIMARY_BUS else ATA_SECONDARY_BUS,
               ad_drive := if i mod 2 = 0 then ATA_BUS_DRIVE1 else ATA_BUS_DRIVE2\<rparr>) s
     in bindk (if i mod 2 = 0 then ata_disable_intr E i (ata_reset_bus E i s) else Ret s) (\<lambda>s.
        let (cmd, ctrl) = bars (i div 2);
            s = upd_dev i (\<lambda>v. v\<lparr>cmd_base := cmd, ctrl_base := ctrl, bus_master_base := bar4, bus_master_type := bar4_type\<rparr>) s
        in bindk (ata_identify E i s) (\<lambda>(t, s). Ret (if t = ATA_DEV_PATA then 0 else ret, s))))"

text \<open>\<open>hook\<close> is the index that stands for \<^verbatim>\<open>ata_dma_init\<close>; the entries of the interrupt table are added by \<open>ata_irqs\<close> in the theory \<open>Pci\<close>.\<close>

definition ata_probe :: "'h ata_env \<Rightarrow> nat \<Rightarrow> u32 \<Rightarrow> u32 \<Rightarrow> u32 \<Rightarrow> u32 \<Rightarrow> u32 \<Rightarrow> int \<Rightarrow> ('h, 'a) ata_state_scheme \<Rightarrow>
    (int \<times> ('h, 'a) ata_state_scheme) kres" where
  "ata_probe E hook bar0 bar1 bar2 bar3 bar4 bar4_type s =
     bindk (foldk (probe_drive E (\<lambda>c. if c = 0 then (bar0, bar1) else (bar2, bar3)) bar4 bar4_type) [0..<ATA_MAX_DRIVES] (-1, s)) (\<lambda>(ret, s).
     bindk (if bar4 \<noteq> 0 then add_multitasking_hook hook s else Ret s) (\<lambda>s. Ret (ret, ata_pio_init s)))"

end
