(* ===== verification/Ata_Props.thy ===== *)
theory Ata_Props
  imports Ata_Dma Buffer_Faults
begin

text \<open>
  What the disk driver delivers. A drive that answers the ports as the ATA specification says is described by \<open>serves_reads\<close>;
  with such a drive, a polled read puts the sectors of the disk into memory. The requests that wait are a queue.
\<close>

section \<open>Bytes and words\<close>

primrec kbytes :: "u32 \<Rightarrow> u8 list \<Rightarrow> (u32 \<Rightarrow> u8) \<Rightarrow> u32 \<Rightarrow> u8" where
  "kbytes a [] m = m"
| "kbytes a (b # bs) m = kbytes (a + 1) bs (m(a := b))"

definition words_bytes :: "u16 list \<Rightarrow> u8 list" where
  "words_bytes ws = concat (map (\<lambda>w. [ucast w, ucast (drop_bit 8 w)]) ws)"

lemma put_words_bytes: "put_words a ws m = kbytes a (words_bytes ws) m"
  by (induction ws arbitrary: a m) (simp_all add: words_bytes_def add.assoc)

lemma kbytes_append: "kbytes a (xs @ ys) m = kbytes (a + of_nat (length xs)) ys (kbytes a xs m)"
  by (induction xs arbitrary: a m) (simp_all add: add.assoc)

lemma unat_minus_1: "a \<noteq> b \<Longrightarrow> unat (a - b) = Suc (unat (a - (b + 1)))" for a b :: u32
proof -
  assume "a \<noteq> b"
  then have "a - b \<noteq> 0" by simp
  then show ?thesis using unat_minus_one [of "a - b"] by (simp add: diff_diff_eq unat_eq_0 flip: neq0_conv)
qed

lemma kbytes_eq:
  assumes "length bs \<le> 2 ^ 32"
  shows "kbytes a bs m x = (if unat (x - a) < length bs then bs ! unat (x - a) else m x)"
  using assms
proof (induction bs arbitrary: a m)
  case Nil
  then show ?case by simp
next
  case (Cons b bs)
  have "unat (x - (a + 1)) \<ge> length bs" if "x = a"
    using that Cons.prems by (simp add: unsigned_minus_1_eq_mask mask_eq_exp_minus_1 diff_diff_eq2 [symmetric])
  then show ?case using Cons unat_minus_1 [of x a] by (auto simp: fun_upd_def)
qed

section \<open>A drive that serves reads\<close>

text \<open>
  The view of the hardware: the registers that were written, the sectors that a command still has to deliver, and the number of times the
  status still reads as busy.
\<close>

record 'h ata_view =
  v_regs :: "'h \<Rightarrow> u16 \<Rightarrow> u8"
  v_todo :: "'h \<Rightarrow> u8 list list"
  v_delay :: "'h \<Rightarrow> nat"

definition quiet_drive :: "'h ata_view \<Rightarrow> 'h \<Rightarrow> bool" where
  "quiet_drive V h \<longleftrightarrow> v_todo V h = [] \<and> v_delay V h = 0"

text \<open>The sector number in the registers, of 28 bits.\<close>

definition lba_in :: "u16 \<Rightarrow> (u16 \<Rightarrow> u8) \<Rightarrow> u32" where
  "lba_in cmd R = ucast (R (cmd + 3)) OR push_bit 8 (ucast (R (cmd + 4))) OR push_bit 16 (ucast (R (cmd + 5)))
     OR push_bit 24 (ucast (R (cmd + 6)) AND 0x0F)"

text \<open>
  Registers hold what is written to them; READ SECTORS with an LBA address makes the drive deliver that many sectors; the
  alternative status says whether the drive is busy and has data; 256 words of the data register are a sector.
\<close>

definition keeps_registers :: "'h port_io \<Rightarrow> u16 \<Rightarrow> 'h ata_view \<Rightarrow> bool" where
  "keeps_registers io cmd V \<longleftrightarrow>
     (\<forall>h v r. quiet_drive V h \<and> r \<in> {2, 3, 4, 5, 6} \<longrightarrow>
        quiet_drive V (io_outb io v (cmd + r) h) \<and> v_regs V (io_outb io v (cmd + r) h) = (v_regs V h)(cmd + r := v))"

definition starts_reads :: "'h port_io \<Rightarrow> u16 \<Rightarrow> 'h ata_view \<Rightarrow> nat \<Rightarrow> (bool \<Rightarrow> nat \<Rightarrow> u8 list) \<Rightarrow> bool" where
  "starts_reads io cmd V B disk \<longleftrightarrow>
     (\<forall>h. quiet_drive V h \<and> bit (v_regs V h (cmd + 6)) 6 \<and> v_regs V h (cmd + 2) \<noteq> 0 \<longrightarrow>
        v_todo V (io_outb io 0x20 (cmd + 7) h) =
          map (\<lambda>i. disk (bit (v_regs V h (cmd + 6)) 4) (unat (lba_in cmd (v_regs V h)) + i)) [0..<unat (v_regs V h (cmd + 2))] \<and>
        v_delay V (io_outb io 0x20 (cmd + 7) h) < B)"

definition reports_status :: "'h port_io \<Rightarrow> u16 \<Rightarrow> 'h ata_view \<Rightarrow> bool" where
  "reports_status io ctrl V \<longleftrightarrow>
     (\<forall>h st h'. io_inb io ctrl h = (st, h') \<longrightarrow>
        v_regs V h' = v_regs V h \<and> v_todo V h' = v_todo V h \<and> v_delay V h' = v_delay V h - 1 \<and> \<not> bit st 0 \<and>
        (bit st 7 \<longleftrightarrow> v_delay V h \<noteq> 0) \<and> (v_delay V h = 0 \<longrightarrow> (bit st 3 \<longleftrightarrow> v_todo V h \<noteq> [])))"

definition delivers_sectors :: "'h port_io \<Rightarrow> u16 \<Rightarrow> 'h ata_view \<Rightarrow> nat \<Rightarrow> bool" where
  "delivers_sectors io cmd V B \<longleftrightarrow>
     (\<forall>h ws h'. v_todo V h \<noteq> [] \<and> v_delay V h = 0 \<and> insw_words 256 io cmd h = (ws, h') \<longrightarrow>
        words_bytes ws = hd (v_todo V h) \<and> v_todo V h' = tl (v_todo V h) \<and> v_delay V h' < B \<and>
        (v_todo V h' = [] \<longrightarrow> v_delay V h' = 0))"

definition serves_reads :: "'h port_io \<Rightarrow> u16 \<Rightarrow> u16 \<Rightarrow> 'h ata_view \<Rightarrow> nat \<Rightarrow> (bool \<Rightarrow> nat \<Rightarrow> u8 list) \<Rightarrow> bool" where
  "serves_reads io cmd ctrl V B disk \<longleftrightarrow>
     keeps_registers io cmd V \<and> starts_reads io cmd V B disk \<and> reports_status io ctrl V \<and> delivers_sectors io cmd V B"

lemma serves_write:
  assumes "serves_reads io cmd ctrl V B disk" "quiet_drive V h" "r \<in> {2, 3, 4, 5, 6}"
  shows "quiet_drive V (io_outb io v (cmd + r) h)" "v_regs V (io_outb io v (cmd + r) h) = (v_regs V h)(cmd + r := v)"
  using assms unfolding serves_reads_def keeps_registers_def by blast+

lemma serves_command:
  assumes "serves_reads io cmd ctrl V B disk" "quiet_drive V h" "bit (v_regs V h (cmd + 6)) 6" "v_regs V h (cmd + 2) \<noteq> 0"
  shows "v_todo V (io_outb io 0x20 (cmd + 7) h) =
      map (\<lambda>i. disk (bit (v_regs V h (cmd + 6)) 4) (unat (lba_in cmd (v_regs V h)) + i)) [0..<unat (v_regs V h (cmd + 2))]"
    and "v_delay V (io_outb io 0x20 (cmd + 7) h) < B"
  using assms unfolding serves_reads_def starts_reads_def by blast+

lemma serves_status:
  assumes "serves_reads io cmd ctrl V B disk" "io_inb io ctrl h = (st, h')"
  shows "v_regs V h' = v_regs V h" "v_todo V h' = v_todo V h" "v_delay V h' = v_delay V h - 1" "\<not> bit st 0"
    "bit st 7 \<longleftrightarrow> v_delay V h \<noteq> 0" "v_delay V h = 0 \<longrightarrow> (bit st 3 \<longleftrightarrow> v_todo V h \<noteq> [])"
  using assms unfolding serves_reads_def reports_status_def by metis+

lemma serves_data:
  assumes "serves_reads io cmd ctrl V B disk" "v_todo V h \<noteq> []" "v_delay V h = 0" "insw_words 256 io cmd h = (ws, h')"
  shows "words_bytes ws = hd (v_todo V h)" "v_todo V h' = tl (v_todo V h)" "v_delay V h' < B" "v_todo V h' = [] \<longrightarrow> v_delay V h' = 0"
  using assms unfolding serves_reads_def delivers_sectors_def by blast+

section \<open>Polling\<close>

lemma and_bit_u8:
  fixes c :: u8
  shows "c AND 1 \<noteq> 0 \<longleftrightarrow> bit c 0" "c AND 8 \<noteq> 0 \<longleftrightarrow> bit c 3" "c AND 0x80 \<noteq> 0 \<longleftrightarrow> bit c 7"
  using and_exp_eq_0_iff_not_bit [of c 0] and_exp_eq_0_iff_not_bit [of c 3] and_exp_eq_0_iff_not_bit [of c 7] by simp_all

text \<open>The state in which the driver talks to drive \<open>d\<close>: its ports, and the contract for them.\<close>

definition talks :: "'h ata_env \<Rightarrow> 'h ata_view \<Rightarrow> (bool \<Rightarrow> nat \<Rightarrow> u8 list) \<Rightarrow> ata_device \<Rightarrow> bool" where
  "talks E V disk dev \<longleftrightarrow> serves_reads (a_io E) (ucast (cmd_base dev)) (ucast (ctrl_base dev)) V (a_fuel E) disk"

lemma reg_port_ctrl [simp]: "reg_port dev 0 = ucast (ctrl_base dev)"
  by (simp add: reg_port_def)

lemma status_reads:
  assumes "talks E V disk (ata_drives s d)"
  obtains st h where "ata_reg_read E d 0 s = (st, s\<lparr>hw := h\<rparr>)" "v_regs V h = v_regs V (hw s)" "v_todo V h = v_todo V (hw s)"
    "v_delay V h = v_delay V (hw s) - 1" "\<not> bit st 0" "bit st 7 \<longleftrightarrow> v_delay V (hw s) \<noteq> 0"
    "v_delay V (hw s) = 0 \<longrightarrow> (bit st 3 \<longleftrightarrow> v_todo V (hw s) \<noteq> [])"
proof -
  obtain st h where r: "io_inb (a_io E) (ucast (ctrl_base (ata_drives s d))) (hw s) = (st, h)" by (cases "io_inb (a_io E) (ucast (ctrl_base (ata_drives s d))) (hw s)")
  show ?thesis
    by (rule that [of st h]) (use serves_status [OF assms [unfolded talks_def] r] in \<open>simp_all add: ata_reg_read_def r\<close>)
qed

lemma poll_bsy_ends:
  assumes "talks E V disk (ata_drives s d)" "v_delay V (hw s) < n"
  shows "\<exists>h. poll_bsy n E d s = Ret (s\<lparr>hw := h\<rparr>) \<and> v_regs V h = v_regs V (hw s) \<and> v_todo V h = v_todo V (hw s) \<and> v_delay V h = 0"
  using assms
proof (induction n arbitrary: s)
  case 0
  then show ?case by simp
next
  case (Suc n)
  from Suc.prems(1) obtain st h where r: "ata_reg_read E d 0 s = (st, s\<lparr>hw := h\<rparr>)" "v_regs V h = v_regs V (hw s)"
    "v_todo V h = v_todo V (hw s)" "v_delay V h = v_delay V (hw s) - 1" "bit st 7 \<longleftrightarrow> v_delay V (hw s) \<noteq> 0"
    by (rule status_reads)
  show ?case
  proof (cases "v_delay V (hw s) = 0")
    case True
    then show ?thesis using r by (auto simp: bsy_bit_def and_bit_u8)
  next
    case False
    then show ?thesis using r Suc.IH [of "s\<lparr>hw := h\<rparr>"] Suc.prems by (auto simp: bsy_bit_def and_bit_u8)
  qed
qed

lemma poll_drq_ends:
  assumes "talks E V disk (ata_drives s d)" "v_delay V (hw s) = 0" "v_todo V (hw s) \<noteq> []" "0 < n"
  shows "\<exists>h. poll_drq n E d s = Ret (s\<lparr>hw := h\<rparr>) \<and> v_todo V h = v_todo V (hw s) \<and> v_delay V h = 0"
proof -
  obtain m where "n = Suc m" using assms(4) by (cases n) auto
  from assms(1) obtain st h where r: "ata_reg_read E d 0 s = (st, s\<lparr>hw := h\<rparr>)" and
    t: "v_todo V h = v_todo V (hw s)" "v_delay V h = v_delay V (hw s) - 1" and
    b: "v_delay V (hw s) = 0 \<longrightarrow> (bit st 3 \<longleftrightarrow> v_todo V (hw s) \<noteq> [])"
    by (rule status_reads)
  from b have "bit st 3" using assms(2,3) by blast
  then have "poll_drq n E d s = Ret (s\<lparr>hw := h\<rparr>)" by (simp add: \<open>n = Suc m\<close> drq_bit_def r and_bit_u8)
  then show ?thesis using t assms(2) by auto
qed

lemma no_error:
  assumes "talks E V disk (ata_drives s d)"
  shows "\<exists>h. ata_error E (Some d) s = Ret (False, s\<lparr>hw := h\<rparr>) \<and> v_regs V h = v_regs V (hw s) \<and> v_todo V h = v_todo V (hw s) \<and>
    v_delay V h = v_delay V (hw s) - 1"
proof -
  from assms obtain st h where "ata_reg_read E d 0 s = (st, s\<lparr>hw := h\<rparr>)" "v_regs V h = v_regs V (hw s)"
    "v_todo V h = v_todo V (hw s)" "v_delay V h = v_delay V (hw s) - 1" "\<not> bit st 0"
    by (rule status_reads)
  then show ?thesis by (auto simp: ata_error_def and_bit_u8)
qed

section \<open>The address of a request in the registers\<close>

lemma ucast_down_add: "(ucast (a + b) :: u16) = ucast a + ucast b" for a b :: u32
  proof -
  have "take_bit 16 (take_bit 32 x + take_bit 32 y) = take_bit 16 (x + y)" for x y :: int
    using take_bit_add [of 16 "take_bit 32 x" "take_bit 32 y"] take_bit_add [of 16 x y] by (simp add: min_def)
  then show ?thesis by transfer simp
qed

lemma low_bytes: "x AND 0xFF = take_bit 8 x" "x AND 0x0F = take_bit 4 x" for x :: u32
  by (simp_all add: take_bit_eq_mask mask_eq_exp_minus_1)

lemma take_bit_small: "unat x < 2 ^ n \<Longrightarrow> take_bit n x = x" for x :: u32
  by (rule word_unat_eq_iff [THEN iffD2]) (simp add: unsigned_take_bit_eq take_bit_nat_eq_self)

lemma select_byte_bits:
  "bit (ucast (drive_select_byte drv True lba) :: u8) 6"
  "bit (ucast (drive_select_byte drv True lba) :: u8) 4 \<longleftrightarrow> drv = ATA_BUS_DRIVE2"
  by (cases drv; simp add: drive_select_byte_def low_bytes bit_simps Let_def)+

lemma ucast_byte: "ucast (ucast x :: u8) = take_bit 8 x" for x :: u32
  by (rule bit_word_eqI) (auto simp: bit_simps)

lemma select_byte_lba: "take_bit 4 (ucast (ucast (drive_select_byte drv True lba) :: u8)) = (take_bit 4 (drop_bit 24 lba) :: u32)"
  by (simp add: low_bytes ucast_byte drive_select_byte_def Let_def)

lemma lba_bytes:
  assumes "lba \<le> (0x0FFFFFFF :: u32)"
  shows "ucast (ucast (take_bit 8 lba) :: u8) OR push_bit 8 (ucast (ucast (take_bit 8 (drop_bit 8 lba)) :: u8))
    OR push_bit 16 (ucast (ucast (take_bit 8 (drop_bit 16 lba)) :: u8)) OR push_bit 24 (take_bit 4 (drop_bit 24 lba)) = lba"
proof -
  have "take_bit 28 lba = lba" using assms by (intro take_bit_small) (simp add: word_le_nat_alt)
  then have low: "n < 28" if "bit lba n" for n using that by (metis bit_take_bit_iff)
  have "bit (take_bit 8 lba OR push_bit 8 (take_bit 8 (drop_bit 8 lba)) OR push_bit 16 (take_bit 8 (drop_bit 16 lba)) OR
      push_bit 24 (take_bit 4 (drop_bit 24 lba))) n = bit lba n" if "n < 32" for n
  proof (cases "n < 24")
    case True
    show ?thesis
    proof (cases "n < 16")
      case True
      then show ?thesis by (auto simp: bit_simps)
    next
      case False
      then obtain k where "n = 16 + k" by (metis le_iff_add not_less)
      then show ?thesis using True by (auto simp: bit_simps)
    qed
  next
    case False
    then obtain k where "n = 24 + k" by (metis le_iff_add not_less)
    then show ?thesis using low [of n] that by (auto simp: bit_simps)
  qed
  then show ?thesis by (intro bit_word_eqI) (simp add: ucast_byte)
qed

lemma reg_port_cmd:
  "reg_port dev 2 = ucast (cmd_base dev) + 2" "reg_port dev 3 = ucast (cmd_base dev) + 3" "reg_port dev 4 = ucast (cmd_base dev) + 4"
  "reg_port dev 5 = ucast (cmd_base dev) + 5" "reg_port dev 6 = ucast (cmd_base dev) + 6" "reg_port dev 7 = ucast (cmd_base dev) + 7"
  by (simp_all add: reg_port_def ucast_down_add)

lemma data_port_cmd [simp]: "data_port dev = ucast (cmd_base dev)"
  by (simp add: data_port_def)

text \<open>Selecting the drive and writing one register leave the drive quiet.\<close>

lemma quiet_select:
  assumes "talks E V disk (ata_drives s d)" "quiet_drive V (hw s)"
  shows "\<exists>h. ata_select_drive E d True lba s = Ret (s\<lparr>last_selected := Some d, hw := h\<rparr>) \<and> quiet_drive V h \<and>
    v_regs V h (ucast (cmd_base (ata_drives s d)) + 6) = ucast (drive_select_byte (ad_drive (ata_drives s d)) True lba)"
proof -
  let ?c = "ucast (cmd_base (ata_drives s d)) :: u16" and ?b = "ucast (drive_select_byte (ad_drive (ata_drives s d)) True lba)"
  from assms(1) obtain st h where r: "ata_reg_read E d 0 s = (st, s\<lparr>hw := h\<rparr>)" and t: "v_todo V h = v_todo V (hw s)"
    "v_delay V h = v_delay V (hw s) - 1" "bit st 7 \<longleftrightarrow> v_delay V (hw s) \<noteq> 0" by (rule status_reads)
  from assms(1) have "talks E V disk (ata_drives (s\<lparr>hw := h\<rparr>) d)" by simp
  then obtain st' h' where r': "ata_reg_read E d 0 (s\<lparr>hw := h\<rparr>) = (st', s\<lparr>hw := h, hw := h'\<rparr>)" and
    t': "v_todo V h' = v_todo V (hw (s\<lparr>hw := h\<rparr>))" "v_delay V h' = v_delay V (hw (s\<lparr>hw := h\<rparr>)) - 1"
      "v_delay V (hw (s\<lparr>hw := h\<rparr>)) = 0 \<longrightarrow> (bit st' 3 \<longleftrightarrow> v_todo V (hw (s\<lparr>hw := h\<rparr>)) \<noteq> [])" by (rule status_reads)
  have q: "quiet_drive V h'" "\<not> bit st 7" "\<not> bit st' 3" using t t' assms(2) by (auto simp: quiet_drive_def)
  let ?h = "io_outb (a_io E) ?b (?c + 6) h'"
  have "ata_select_drive E d True lba s = Ret (s\<lparr>last_selected := Some d, hw := ?h\<rparr>)"
    using q by (simp add: ata_select_drive_def bsy_bit_def drq_bit_def r r' and_bit_u8 Let_def ata_reg_write_def reg_port_cmd)
  moreover have "quiet_drive V ?h" "v_regs V ?h = (v_regs V h')(?c + 6 := ?b)"
    using serves_write [OF assms(1) [unfolded talks_def] q(1)] by blast+
  ultimately show ?thesis by auto
qed

text \<open>A read command for 28 bit addresses makes the drive deliver the sectors of the request.\<close>

lemma start_request_reads:
  assumes "talks E V disk (ata_drives s d)" "quiet_drive V (hw s)"
    and req: "rq_dev (ata_requests s req) = Some d" "rq_cmd (ata_requests s req) = 0x20" "rq_lba (ata_requests s req) = lba"
      "rq_count (ata_requests s req) = count"
    and lba: "lba \<le> 0x0FFFFFFF" and count: "0 < count" "count < 0x100"
  shows "\<exists>h. ata_start_request E req s = Ret (s\<lparr>last_selected := Some d, hw := h\<rparr>) \<and>
    v_todo V h = map (\<lambda>i. disk (ad_drive (ata_drives s d) = ATA_BUS_DRIVE2) (unat lba + i)) [0..<unat count] \<and> v_delay V h < a_fuel E"
proof -
  let ?c = "ucast (cmd_base (ata_drives s d)) :: u16" and ?out = "io_outb (a_io E)"
  note w = serves_write [OF assms(1) [unfolded talks_def]]
  obtain h0 where h0: "ata_select_drive E d True lba s = Ret (s\<lparr>last_selected := Some d, hw := h0\<rparr>)" "quiet_drive V h0"
    "v_regs V h0 (?c + 6) = ucast (drive_select_byte (ad_drive (ata_drives s d)) True lba)"
    using quiet_select [OF assms(1,2)] by blast
  define h1 where "h1 = ?out (ucast (count AND 0xFF)) (?c + 2) h0"
  define h2 where "h2 = ?out (ucast (lba AND 0xFF)) (?c + 3) h1"
  define h3 where "h3 = ?out (ucast (drop_bit 8 lba AND 0xFF)) (?c + 4) h2"
  define h4 where "h4 = ?out (ucast (drop_bit 16 lba AND 0xFF)) (?c + 5) h3"
  have q: "quiet_drive V h1" "quiet_drive V h2" "quiet_drive V h3" "quiet_drive V h4"
    using h0(2) w(1) by (simp_all add: h1_def h2_def h3_def h4_def)
  have R: "v_regs V h4 = (v_regs V h0)(?c + 2 := ucast (count AND 0xFF), ?c + 3 := ucast (lba AND 0xFF),
      ?c + 4 := ucast (drop_bit 8 lba AND 0xFF), ?c + 5 := ucast (drop_bit 16 lba AND 0xFF))"
    using w(2) [OF h0(2)] w(2) [OF q(1)] w(2) [OF q(2)] w(2) [OF q(3)] by (simp add: h1_def h2_def h3_def h4_def)
  have c: "count AND 0xFF = count" using count(2) by (simp add: low_bytes take_bit_small word_less_nat_alt)
  have u: "unat (ucast count :: u8) = unat count"
    using count(2) by (simp add: unsigned_ucast_eq word_less_nat_alt take_bit_nat_eq_self)
  have "v_regs V h4 (?c + 2) \<noteq> 0" using count(1) u by (auto simp: R c unat_eq_0 word_gt_0)
  moreover have "lba_in ?c (v_regs V h4) = lba"
    using lba_bytes [OF lba] by (simp add: lba_in_def R h0(3) low_bytes select_byte_lba)
  ultimately have "v_todo V (?out 0x20 (?c + 7) h4) =
      map (\<lambda>i. disk (ad_drive (ata_drives s d) = ATA_BUS_DRIVE2) (unat lba + i)) [0..<unat count]"
    "v_delay V (?out 0x20 (?c + 7) h4) < a_fuel E"
    using serves_command [OF assms(1) [unfolded talks_def] q(4)] select_byte_bits h0(3) u by (simp_all add: R c)
  moreover have "ata_start_request E req s = Ret (s\<lparr>last_selected := Some d, hw := ?out 0x20 (?c + 7) h4\<rparr>)"
    using h0(1) lba by (simp add: ata_start_request_def ata_start_request_lba28_def with_dev_def req Let_def ata_reg_write_def
        reg_port_cmd h1_def h2_def h3_def h4_def)
  ultimately show ?thesis by blast
qed

section \<open>Polled reads\<close>

lemma concat_nth:
  assumes "\<forall>x\<in>set xs. length x = k" "i < k * length xs"
  shows "concat xs ! i = xs ! (i div k) ! (i mod k)"
  using assms
proof (induction xs arbitrary: i)
  case Nil
  then show ?case by simp
next
  case (Cons x xs)
  then have "0 < k" by (cases k) auto
  then show ?case using Cons by (cases "i < k") (auto simp: nth_append not_less le_div_geq le_mod_geq nth_Cons')
qed

lemma length_concat_const: "\<forall>x\<in>set xs. length x = k \<Longrightarrow> length (concat xs) = k * length xs"
  by (induction xs) simp_all

text \<open>One sector: the drive is waited for, and the next sector goes to memory.\<close>

lemma sector_in:
  assumes "talks E V disk (ata_drives s d)" "v_todo V (hw s) = sec # secs" "v_delay V (hw s) = 0"
  shows "\<exists>h. ata_pio_transfer E d a ATA_PIO_IN s = s\<lparr>kmem := kbytes a sec (kmem s), hw := h\<rparr> \<and>
    v_todo V h = secs \<and> v_delay V h < a_fuel E \<and> (secs = [] \<longrightarrow> v_delay V h = 0)"
proof -
  obtain ws h where w: "insw_words 256 (a_io E) (ucast (cmd_base (ata_drives s d))) (hw s) = (ws, h)" by fastforce
  show ?thesis using serves_data [OF assms(1) [unfolded talks_def] _ assms(3) w] assms(2)
    by (auto simp: ata_pio_transfer_def w put_words_bytes)
qed

lemma pio_poll_reads:
  assumes "talks E V disk (ata_drives s d)" "v_todo V (hw s) = secs" "length secs = n" "v_delay V (hw s) < a_fuel E"
    and "secs = [] \<longrightarrow> v_delay V (hw s) = 0" "\<forall>x\<in>set secs. length x = 512"
  shows "\<exists>h r. pio_poll n E req d ATA_PIO_IN s =
      Ret (True, s\<lparr>kmem := kbytes (rq_buf (ata_requests s req)) (concat secs) (kmem s), ata_requests := (ata_requests s)(req := r), hw := h\<rparr>) \<and>
    quiet_drive V h \<and> rq_dev r = rq_dev (ata_requests s req) \<and> rq_error r = rq_error (ata_requests s req)"
  using assms
proof (induction n arbitrary: s secs)
  case 0
  let ?r = "(ata_requests s req)\<lparr>rq_count := rq_count (ata_requests s req) - 1\<rparr>"
  have "secs = []" using 0 by simp
  then have "quiet_drive V (hw s)" using 0 by (simp add: quiet_drive_def)
  moreover have "pio_poll 0 E req d ATA_PIO_IN s =
      Ret (True, s\<lparr>kmem := kbytes (rq_buf (ata_requests s req)) (concat secs) (kmem s), ata_requests := (ata_requests s)(req := ?r), hw := hw s\<rparr>)"
    by (cases s) (simp add: upd_req_def \<open>secs = []\<close>)
  moreover have "rq_dev ?r = rq_dev (ata_requests s req)" "rq_error ?r = rq_error (ata_requests s req)" by simp_all
  ultimately show ?case by blast
next
  case (Suc n)
  from Suc.prems(3) obtain sec secs' where secs: "secs = sec # secs'" "length secs' = n" by (cases secs) auto
  let ?s = "upd_req req (\<lambda>r. r\<lparr>rq_count := rq_count r - 1\<rparr>) s"
  have "talks E V disk (ata_drives ?s d)" "v_delay V (hw ?s) < a_fuel E" using Suc.prems(1,4) by (simp_all add: upd_req_def)
  from poll_bsy_ends [OF this] obtain h1 where h1: "ata_poll_bsy E d ?s = Ret (?s\<lparr>hw := h1\<rparr>)"
    "v_todo V h1 = v_todo V (hw s)" "v_delay V h1 = 0" by (auto simp: ata_poll_bsy_def upd_req_def)
  have "0 < a_fuel E" using Suc.prems(4) by simp
  with poll_drq_ends [of E V disk "?s\<lparr>hw := h1\<rparr>" d "a_fuel E"] h1 Suc.prems(1,2) secs(1)
  obtain h2 where h2: "ata_poll_drq E d (?s\<lparr>hw := h1\<rparr>) = Ret (?s\<lparr>hw := h2\<rparr>)" "v_todo V h2 = sec # secs'" "v_delay V h2 = 0"
    by (auto simp: ata_poll_drq_def upd_req_def)
  from no_error [of E V disk "?s\<lparr>hw := h2\<rparr>" d] h2 Suc.prems(1)
  obtain h3 where h3: "ata_error E (Some d) (?s\<lparr>hw := h2\<rparr>) = Ret (False, ?s\<lparr>hw := h3\<rparr>)" "v_todo V h3 = sec # secs'" "v_delay V h3 = 0"
    by (auto simp: upd_req_def)
  let ?a = "rq_buf (ata_requests s req)"
  from sector_in [of E V disk "?s\<lparr>hw := h3\<rparr>" d sec secs' ?a] h3 Suc.prems(1)
  obtain h4 where h4: "ata_pio_transfer E d ?a ATA_PIO_IN (?s\<lparr>hw := h3\<rparr>) = ?s\<lparr>kmem := kbytes ?a sec (kmem s), hw := h4\<rparr>"
    "v_todo V h4 = secs'" "v_delay V h4 < a_fuel E" "secs' = [] \<longrightarrow> v_delay V h4 = 0"
    by (auto simp: upd_req_def)
  let ?t = "upd_req req (\<lambda>r. r\<lparr>rq_buf := rq_buf r + 512\<rparr>) (?s\<lparr>kmem := kbytes ?a sec (kmem s), hw := h4\<rparr>)"
  have len: "length sec = 512" using Suc.prems(6) secs(1) by simp
  have step: "pio_poll (Suc n) E req d ATA_PIO_IN s = pio_poll n E req d ATA_PIO_IN ?t"
    using h1(1) h2(1) h3(1) h4(1) by (simp add: Let_def) (simp add: upd_req_def)
  have "\<exists>h r. pio_poll n E req d ATA_PIO_IN ?t =
      Ret (True, ?t\<lparr>kmem := kbytes (rq_buf (ata_requests ?t req)) (concat secs') (kmem ?t), ata_requests := (ata_requests ?t)(req := r), hw := h\<rparr>) \<and>
    quiet_drive V h \<and> rq_dev r = rq_dev (ata_requests ?t req) \<and> rq_error r = rq_error (ata_requests ?t req)"
    by (rule Suc.IH) (use Suc.prems secs h4 in \<open>auto simp: upd_req_def\<close>)
  then obtain h r where ih: "pio_poll n E req d ATA_PIO_IN ?t =
      Ret (True, ?t\<lparr>kmem := kbytes (rq_buf (ata_requests ?t req)) (concat secs') (kmem ?t), ata_requests := (ata_requests ?t)(req := r), hw := h\<rparr>)"
    "quiet_drive V h" "rq_dev r = rq_dev (ata_requests ?t req)" "rq_error r = rq_error (ata_requests ?t req)" by blast
  have "?t\<lparr>kmem := kbytes (rq_buf (ata_requests ?t req)) (concat secs') (kmem ?t), ata_requests := (ata_requests ?t)(req := r), hw := h\<rparr> =
      s\<lparr>kmem := kbytes ?a (concat secs) (kmem s), ata_requests := (ata_requests s)(req := r), hw := h\<rparr>"
    by (simp add: upd_req_def secs(1) kbytes_append len)
  with ih(1) have "pio_poll (Suc n) E req d ATA_PIO_IN s =
      Ret (True, s\<lparr>kmem := kbytes ?a (concat secs) (kmem s), ata_requests := (ata_requests s)(req := r), hw := h\<rparr>)" unfolding step by simp
  moreover have "rq_dev r = rq_dev (ata_requests s req)" "rq_error r = rq_error (ata_requests s req)"
    using ih(3,4) by (simp_all add: upd_req_def)
  ultimately show ?case using ih(2) by blast
qed

lemma find_free_request:
  assumes "i < 64" "rq_dev (ata_requests s i) = None"
  shows "\<exists>j<64. rq_dev (ata_requests s j) = None \<and> ata_build_request d lba count cmd buf s =
    (Some j, upd_req j (\<lambda>_. \<lparr>rq_dev = Some d, rq_cmd = cmd, rq_count = count, rq_lba = lba, rq_buf = buf,
       rq_error = False, rq_retry = 0, rq_next = None\<rparr>) s)"
proof -
  have "List.find (\<lambda>i. rq_dev (ata_requests s i) = None) [0..<64] \<noteq> None" using assms by (auto simp: find_None_iff)
  then obtain j where j: "List.find (\<lambda>i. rq_dev (ata_requests s i) = None) [0..<64] = Some j" by auto
  then have "j < 64" "rq_dev (ata_requests s j) = None" by (auto simp: find_Some_iff)
  then show ?thesis using j by (auto simp: ata_build_request_def)
qed

lemma pio_start_reads:
  assumes "talks E V disk (ata_drives s d)" "quiet_drive V (hw s)" "\<not> system_is_multitasking s"
    and "drive < 4" "ata_find_device (drive div 2) (drive mod 2) s = Some d" "i < 64" "rq_dev (ata_requests s i) = None"
    and "lba \<le> 0x0FFFFFFF" "0 < count" "count < 0x100" "\<forall>b l. length (disk b l) = 512"
  shows "\<exists>t. ata_pio_start (Suc n) E drive buf count lba READ s = Ret (Ata_done 0 t) \<and> quiet_drive V (hw t) \<and>
    kmem t = kbytes buf (concat (map (\<lambda>i. disk (ad_drive (ata_drives s d) = ATA_BUS_DRIVE2) (unat lba + i)) [0..<unat count])) (kmem s) \<and>
    (\<forall>i. rq_dev (ata_requests t i) = rq_dev (ata_requests s i)) \<and> process_table t = process_table s \<and> buffers t = buffers s"
proof -
  from find_free_request [OF assms(6,7)] obtain j where j: "rq_dev (ata_requests s j) = None"
    "ata_build_request d lba count 0x20 buf s = (Some j, upd_req j (\<lambda>_. \<lparr>rq_dev = Some d, rq_cmd = 0x20, rq_count = count,
       rq_lba = lba, rq_buf = buf, rq_error = False, rq_retry = 0, rq_next = None\<rparr>) s)" (is "_ = (_, ?s)") by blast
  let ?secs = "map (\<lambda>i. disk (ad_drive (ata_drives s d) = ATA_BUS_DRIVE2) (unat lba + i)) [0..<unat count]"
  have "\<exists>h. ata_start_request E j ?s = Ret (?s\<lparr>last_selected := Some d, hw := h\<rparr>) \<and> v_todo V h = ?secs \<and> v_delay V h < a_fuel E"
    using start_request_reads [of E V disk ?s d j lba count] assms by (simp add: upd_req_def)
  then obtain h where h: "ata_start_request E j ?s = Ret (?s\<lparr>last_selected := Some d, hw := h\<rparr>)" "v_todo V h = ?secs" "v_delay V h < a_fuel E"
    by blast
  let ?t = "?s\<lparr>last_selected := Some d, hw := h\<rparr>"
  have "0 < unat count" using assms(9) by (simp add: word_less_nat_alt)
  then have "\<exists>h r. pio_poll (unat count) E j d ATA_PIO_IN ?t =
      Ret (True, ?t\<lparr>kmem := kbytes (rq_buf (ata_requests ?t j)) (concat ?secs) (kmem ?t), ata_requests := (ata_requests ?t)(j := r), hw := h\<rparr>) \<and>
    quiet_drive V h \<and> rq_dev r = rq_dev (ata_requests ?t j) \<and> rq_error r = rq_error (ata_requests ?t j)"
    using h assms(1,11) by (intro pio_poll_reads) (auto simp: upd_req_def)
  then obtain g r where g: "pio_poll (unat count) E j d ATA_PIO_IN ?t =
      Ret (True, ?t\<lparr>kmem := kbytes buf (concat ?secs) (kmem s), ata_requests := (ata_requests ?t)(j := r), hw := g\<rparr>)"
    "quiet_drive V g" "\<not> rq_error r" by (auto simp: upd_req_def)
  let ?u = "ata_finish_request j (?t\<lparr>kmem := kbytes buf (concat ?secs) (kmem s), ata_requests := (ata_requests ?t)(j := r), hw := g\<rparr>)"
  have multi: "\<not> system_is_multitasking ?s" using assms(3) by (simp add: system_is_multitasking_def upd_req_def)
  have "pio_cmd READ lba = 0x20" using assms(8) by (simp add: pio_cmd_def not_less)
  then have "ata_pio_start (Suc n) E drive buf count lba READ s = Ret (Ata_done 0 ?u)"
    using assms(4,5) j(2) multi h(1) g(1,3)
    by (simp add: ata_pio_poll_read_def with_dev_def pio_check_def ata_finish_request_def) (simp add: upd_req_def pio_check_def)
  moreover have "quiet_drive V (hw ?u)" "kmem ?u = kbytes buf (concat ?secs) (kmem s)" "process_table ?u = process_table s" "buffers ?u = buffers s"
    using g(2) by (simp_all add: ata_finish_request_def upd_req_def)
  moreover have "rq_dev (ata_requests ?u k) = rq_dev (ata_requests s k)" for k
    using j(1) by (simp add: ata_finish_request_def upd_req_def)
  ultimately show ?thesis by blast
qed

section \<open>From the block cache to the disk\<close>

text \<open>The sectors of a drive, one after the other.\<close>

definition disk_byte :: "(bool \<Rightarrow> nat \<Rightarrow> u8 list) \<Rightarrow> bool \<Rightarrow> nat \<Rightarrow> u8" where
  "disk_byte disk b i = disk b (i div 512) ! (i mod 512)"

lemma sectors_bytes:
  assumes "\<forall>b l. length (disk b l) = 512" "i < 512 * n"
  shows "concat (map (\<lambda>i. disk b (l + i)) [0..<n]) ! i = disk_byte disk b (512 * l + i)"
proof -
  have "i div 512 < n" using assms(2) by (simp add: less_mult_imp_div_less mult.commute)
  then show ?thesis using assms concat_nth [of "map (\<lambda>i. disk b (l + i)) [0..<n]" 512 i] by (auto simp: disk_byte_def)
qed

text \<open>
  C35. A block of a disk partition is read while the system starts: the request goes from the block cache through the device table,
  the partition table and the request table to the registers of the controller; with a drive that obeys the ATA protocol the call
  returns, the buffer is marked done, its memory holds the bytes of the block on the disk, no other memory has changed, and no request
  is left behind.
\<close>

theorem block_read_from_disk:
  fixes s :: "('h, 'a) ata_state_scheme" and k :: nat
  assumes "talks E V disk (ata_drives s d)" "quiet_drive V (hw s)" "\<not> system_is_multitasking s" "0 < a_fuel E"
    and "\<forall>b l. length (disk b l) = 512" "i < 64" "rq_dev (ata_requests s i) = None"
    and dev: "DEV_MAJOR (b_dev (buffers s bp)) = HD_DEV" "DEV_MINOR (b_dev (buffers s bp)) = of_nat m" "m < 16"
      "dd_driver (disk_dev_table s m) = Some 0" "ata_find_device (m div 4 div 2) (m div 4 mod 2) s = Some d"
    and blk: "b_blksize (buffers s bp) = 512 * int k" "0 < k" "k < 256"
    and lba: "b_blknr (buffers s bp) * of_nat k \<le> lba_len (disk_dev_table s m)"
      "lba_start (disk_dev_table s m) + b_blknr (buffers s bp) * of_nat k = lba" "lba \<le> 0x0FFFFFFF"
  shows "\<exists>t. blk_devio (ata_drivers E) bp READ s = Ret (0, t) \<and>
    b_flags (buffers t bp) = b_flags (buffers s bp) OR B_DONE \<and>
    (\<forall>a. let o' = unat (a - b_data (buffers s bp)) in
       kmem t a = (if o' < 512 * k then disk_byte disk (ad_drive (ata_drives s d) = ATA_BUS_DRIVE2) (512 * unat lba + o') else kmem s a)) \<and>
    quiet_drive V (hw t) \<and> (\<forall>i. rq_dev (ata_requests t i) = rq_dev (ata_requests s i))"
proof -
  let ?buf = "b_data (buffers s bp)" and ?k = "of_nat k :: u32" and ?drv = "ad_drive (ata_drives s d) = ATA_BUS_DRIVE2"
    and ?s = "s\<lparr>current_driver := Some 0\<rparr>"
  have k: "unat ?k = k" using blk(3) by (simp add: unsigned_of_nat take_bit_nat_eq_self)
  have count: "0 < ?k" "?k < 0x100" using blk(2,3) k by (simp_all add: word_less_nat_alt)
  obtain n where n: "a_fuel E = Suc n" using assms(4) by (cases "a_fuel E") auto
  have "\<exists>t. ata_pio_start (Suc n) E (m div 4) ?buf ?k lba READ ?s = Ret (Ata_done 0 t) \<and> quiet_drive V (hw t) \<and>
      kmem t = kbytes ?buf (concat (map (\<lambda>i. disk (ad_drive (ata_drives ?s d) = ATA_BUS_DRIVE2) (unat lba + i)) [0..<unat ?k])) (kmem ?s) \<and>
      (\<forall>i. rq_dev (ata_requests t i) = rq_dev (ata_requests ?s i)) \<and> process_table t = process_table ?s \<and> buffers t = buffers ?s"
    by (rule pio_start_reads) (use assms count in \<open>auto simp: system_is_multitasking_def ata_find_device_def\<close>)
  then obtain t where t: "ata_pio_start (a_fuel E) E (m div 4) ?buf ?k lba READ ?s = Ret (Ata_done 0 t)" "quiet_drive V (hw t)"
    "kmem t = kbytes ?buf (concat (map (\<lambda>i. disk ?drv (unat lba + i)) [0..<k])) (kmem s)"
    "\<forall>i. rq_dev (ata_requests t i) = rq_dev (ata_requests s i)" "buffers t = buffers s" unfolding n k by auto
  have m: "unat (of_nat m :: u32) = m" using dev(3) by (simp add: unsigned_of_nat take_bit_nat_eq_self)
  have ratio: "word_of_int (c_div (512 * int k) 512) = ?k" by (simp add: c_div_nonneg)
  have "drive_rw (ata_drivers E) (of_nat m) (b_blknr (buffers s bp) * ?k) ?buf ?k READ s = Ret (0, t)"
    using dev(3,4) lba t(1) by (simp add: drive_rw_def m Let_def not_less not_le ata_drivers_def ata_pio_driver_def ata_call_def)
  then have "blk_devio (ata_drivers E) bp READ s = Ret (0, upd_buf bp (\<lambda>b. b\<lparr>b_flags := b_flags b OR B_DONE\<rparr>) t)"
    using dev(1,2) blk(1) ratio by (simp add: blk_devio_def hddev_physio_def Let_def)
  moreover have "kmem t a = (if unat (a - ?buf) < 512 * k then disk_byte disk ?drv (512 * unat lba + unat (a - ?buf)) else kmem s a)" for a
  proof -
    let ?bs = "concat (map (\<lambda>i. disk ?drv (unat lba + i)) [0..<k])"
    have "length ?bs = 512 * k" using length_concat_const [of "map (\<lambda>i. disk ?drv (unat lba + i)) [0..<k]" 512] assms(5) by simp
    then show ?thesis using blk(3) sectors_bytes [OF assms(5)] by (simp add: t(3) kbytes_eq)
  qed
  ultimately show ?thesis using t(2,4,5) by (auto simp: Let_def upd_buf_def)
qed

end
