(* ===== verification/Ata_Demo.thy ===== *)
theory Ata_Demo
  imports Ata_Props
begin

text \<open>
  A drive that obeys the protocol, at which the theorem on reading blocks is applied: it is never busy, keeps the registers that are written, and has
  the words of the sectors it still has to deliver in a list. Sector \<open>l\<close> consists of the word \<open>l\<close>, 256 times.
\<close>

record demo_drive =
  dr_regs :: "u16 \<Rightarrow> u8"
  dr_words :: "u16 list"

function chunks :: "u16 list \<Rightarrow> u8 list list" where
  "chunks ws = (if length ws < 256 then [] else words_bytes (take 256 ws) # chunks (drop 256 ws))"
  by pat_completeness auto
termination by (relation "measure length") auto

declare chunks.simps [simp del]

definition demo_disk :: "bool \<Rightarrow> nat \<Rightarrow> u8 list" where
  "demo_disk b l = words_bytes (replicate 256 (of_nat l))"

definition demo_view :: "demo_drive ata_view" where
  "demo_view = \<lparr>v_regs = dr_regs, v_todo = (\<lambda>h. chunks (dr_words h)), v_delay = (\<lambda>_. 0)\<rparr>"

definition demo_ports :: "demo_drive port_io" where
  "demo_ports = \<lparr>
     io_inb = (\<lambda>p h. (if chunks (dr_words h) = [] then 0 else 8, h)),
     io_outb = (\<lambda>v p h.
       if p = 0x1F7 then h\<lparr>dr_words := concat (map (\<lambda>i. replicate 256 (of_nat (unat (lba_in 0x1F0 (dr_regs h)) + i))) [0..<unat (dr_regs h 0x1F2)])\<rparr>
       else h\<lparr>dr_regs := (dr_regs h)(p := v)\<rparr>),
     io_inw = (\<lambda>p h. (hd (dr_words h), h\<lparr>dr_words := tl (dr_words h)\<rparr>)),
     io_outw = (\<lambda>w p h. h), io_inl = (\<lambda>p h. (0, h)), io_outl = (\<lambda>v p h. h)\<rparr>"

lemma chunks_nonempty: "chunks ws \<noteq> [] \<longleftrightarrow> 256 \<le> length ws"
  by (subst chunks.simps) simp

lemma chunks_step: "256 \<le> length ws \<Longrightarrow> chunks ws = words_bytes (take 256 ws) # chunks (drop 256 ws)"
  by (subst chunks.simps) simp

lemma chunks_concat: "chunks (concat (map (\<lambda>i. replicate 256 (f i)) xs)) = map (\<lambda>i. words_bytes (replicate 256 (f i))) xs"
  by (induction xs) (simp_all add: chunks.simps [of "[]"] chunks.simps [of "_ @ _"])

lemma insw_demo: "n \<le> length (dr_words h) \<Longrightarrow> insw_words n demo_ports p h = (take n (dr_words h), h\<lparr>dr_words := drop n (dr_words h)\<rparr>)"
proof (induction n arbitrary: h)
  case 0
  then show ?case by simp
next
  case (Suc n)
  then obtain w ws where w: "dr_words h = w # ws" by (cases "dr_words h") auto
  have "insw_words n demo_ports p (h\<lparr>dr_words := ws\<rparr>) = (take n ws, h\<lparr>dr_words := drop n ws\<rparr>)"
    using Suc.IH [of "h\<lparr>dr_words := ws\<rparr>"] Suc.prems by (simp add: w)
  then show ?case by (simp add: w demo_ports_def [THEN arg_cong [where f = io_inw]] Let_def)
qed

lemma demo_serves: "serves_reads demo_ports 0x1F0 0x3F6 demo_view 1 demo_disk"
proof -
  have "keeps_registers demo_ports 0x1F0 demo_view"
    by (auto simp: keeps_registers_def demo_view_def demo_ports_def quiet_drive_def)
  moreover have "starts_reads demo_ports 0x1F0 demo_view 1 demo_disk"
    by (auto simp: starts_reads_def demo_view_def demo_ports_def chunks_concat demo_disk_def)
  moreover have "reports_status demo_ports 0x3F6 demo_view"
    by (auto simp: reports_status_def demo_view_def demo_ports_def)
  moreover have "delivers_sectors demo_ports 0x1F0 demo_view 1"
    by (auto simp: delivers_sectors_def demo_view_def chunks_nonempty insw_demo chunks_step)
  ultimately show ?thesis by (simp add: serves_reads_def)
qed

lemma demo_disk_length: "\<forall>b l. length (demo_disk b l) = 512"
  by (simp add: demo_disk_def words_bytes_def length_concat comp_def sum_list_replicate)

definition demo_ata_env :: "demo_drive ata_env" where
  "demo_ata_env = \<lparr>a_io = demo_ports, a_fuel = 1, ata_req_addr = (\<lambda>i. 0x20000 + of_nat i * 32), dma_buf_at = 0xC0300000, dma_prdt_at = 0xC0310000\<rparr>"

definition demo_dev :: "nat \<Rightarrow> ata_device" where
  "demo_dev i = \<lparr>ad_bus = if i < 2 then ATA_PRIMARY_BUS else ATA_SECONDARY_BUS, ad_drive = if even i then ATA_BUS_DRIVE1 else ATA_BUS_DRIVE2,
     ad_exists = (i = 0), cmd_base = 0x1F0, ctrl_base = 0x3F6, bus_master_base = 0, bus_master_type = 0,
     max_lba28 = 100, max_lba48_low = 0, max_lba48_high = 0\<rparr>"

definition free_request :: ata_request where
  "free_request = \<lparr>rq_dev = None, rq_cmd = 0, rq_count = 0, rq_lba = 0, rq_buf = 0, rq_error = False, rq_retry = 0, rq_next = None\<rparr>"

text \<open>Partition 1 of the first disk begins at sector 10; buffer 0 is for its block 3, which is two sectors long.\<close>

definition demo_ata :: "demo_drive ata_state" where
  "demo_ata = \<lparr>process_table = process_table two_users, current_process = 1,
     process_queues = process_queues two_users, last_pid = 2, timer_ticks = 0, startup_time = 0,
     user_spaces = \<lambda>_. \<lparr>us_valid = (\<lambda>_. True), us_mem = (\<lambda>_. 0)\<rparr>,
     sys_phase = SYSTEM_SINGLETASKING, multitasking_hooks = [], file_table = \<lambda>_. free_file,
     filesystems = \<lambda>_. \<lparr>f_dev = 0, f_read_only = False, f_driver = 0\<rparr>,
     mount_table = \<lambda>_. None, nr_mounts = 0,
     buffers = (\<lambda>_. demo_buffer)(0 := demo_buffer\<lparr>b_dev := 0x301, b_blknr := 3, b_blksize := 1024, b_data := 0x5000\<rparr>),
     hash_queues = \<lambda>_. None,
     disk_dev_table = \<lambda>_. \<lparr>dd_driver = Some 0, dd_minor = 1, lba_start = 10, lba_len = 50\<rparr>, current_driver = None,
     heap = kv_demo 0x10000, kmem = \<lambda>_. 0,
     ata_drives = demo_dev, ata_requests = \<lambda>_. free_request, ata_current_req = None, last_selected = None,
     pio_intr = None, dma_intr = None, ata_dma_current_prdt = \<lparr>prd_buf = 0, prd_bcount = 0, prd_reserved = 0\<rparr>,
     hw = \<lparr>dr_regs = \<lambda>_. 0, dr_words = []\<rparr>\<rparr>"

theorem block_read_from_disk_witness:
  "\<exists>t. blk_devio (ata_drivers demo_ata_env) 0 READ demo_ata = Ret (0, t) \<and>
    b_flags (buffers t 0) = b_flags (buffers demo_ata 0) OR B_DONE \<and>
    (\<forall>a. let o' = unat (a - b_data (buffers demo_ata 0)) in
       kmem t a = (if o' < 512 * 2 then disk_byte demo_disk (ad_drive (ata_drives demo_ata 0) = ATA_BUS_DRIVE2) (512 * unat (16 :: u32) + o')
         else kmem demo_ata a)) \<and>
    quiet_drive demo_view (hw t) \<and> (\<forall>i. rq_dev (ata_requests t i) = rq_dev (ata_requests demo_ata i))"
proof (rule block_read_from_disk [where m = 1])
  show "talks demo_ata_env demo_view demo_disk (ata_drives demo_ata 0)"
    using demo_serves by (simp add: talks_def demo_ata_def demo_dev_def demo_ata_env_def)
  show "quiet_drive demo_view (hw demo_ata)" by (simp add: quiet_drive_def demo_view_def demo_ata_def chunks.simps)
  show "ata_find_device (1 div 4 div 2) (1 div 4 mod 2) demo_ata = Some 0"
    by (simp add: ata_find_device_def demo_ata_def demo_dev_def upt_rec bus_nr_def drive_nr_def)
  show "rq_dev (ata_requests demo_ata 0) = None" by (simp add: demo_ata_def free_request_def)
qed (simp_all add: demo_disk_length demo_ata_env_def demo_ata_def system_is_multitasking_def DEV_MAJOR_def DEV_MINOR_def)

end
