(* ===== verification/Ata_Queue.thy ===== *)
theory Ata_Queue
  imports Ata_Demo
begin

text \<open>
  The requests to the disk controller are a queue. The theory ends with what goes wrong: a DMA request that is queued is reported as done, and errors of
  polled transfers are not reported.
\<close>

interpretation aq: req_list "\<lambda>s i. rq_next (ata_requests s i)" "\<lambda>i v. upd_req i (\<lambda>r. r\<lparr>rq_next := v\<rparr>)"
    ata_current_req "\<lambda>v s. s\<lparr>ata_current_req := v\<rparr>"
  by unfold_locales (auto simp: upd_req_def)

definition ata_queue :: "('h, 'a) ata_state_scheme \<Rightarrow> nat list \<Rightarrow> bool" where
  "ata_queue s xs \<longleftrightarrow> req_chain (\<lambda>i. rq_next (ata_requests s i)) (ata_current_req s) xs \<and> distinct xs \<and>
     (\<forall>i\<in>set xs. i < 64 \<and> rq_dev (ata_requests s i) \<noteq> None)"

lemma ata_queue_length: "ata_queue s xs \<Longrightarrow> length xs \<le> 64"
  using card_mono [of "{..<64}" "set xs"] by (auto simp: ata_queue_def distinct_card subset_eq)

text \<open>A new request has a free slot of its own.\<close>

lemma build_request_queue:
  assumes "ata_queue s xs" "ata_build_request d lba count cmd buf s = (Some i, t)"
  shows "ata_queue t xs" "i \<notin> set xs" "i < 64" "ata_requests t i = \<lparr>rq_dev = Some d, rq_cmd = cmd, rq_count = count, rq_lba = lba, rq_buf = buf,
     rq_error = False, rq_retry = 0, rq_next = None\<rparr>" "kmem t = kmem s" "hw t = hw s"
proof -
  from assms(2) have i: "List.find (\<lambda>i. rq_dev (ata_requests s i) = None) [0..<64] = Some i" and
    t: "t = upd_req i (\<lambda>_. \<lparr>rq_dev = Some d, rq_cmd = cmd, rq_count = count, rq_lba = lba, rq_buf = buf,
     rq_error = False, rq_retry = 0, rq_next = None\<rparr>) s"
    by (auto simp: ata_build_request_def split: option.splits)
  then have free: "i < 64" "rq_dev (ata_requests s i) = None" by (auto simp: find_Some_iff)
  then show "i \<notin> set xs" "i < 64" using assms(1) by (auto simp: ata_queue_def)
  then show "ata_queue t xs" using assms(1) t free
    by (auto simp: ata_queue_def upd_req_def intro: req_chain_cong)
  show "ata_requests t i = \<lparr>rq_dev = Some d, rq_cmd = cmd, rq_count = count, rq_lba = lba, rq_buf = buf,
     rq_error = False, rq_retry = 0, rq_next = None\<rparr>" "kmem t = kmem s" "hw t = hw s" using t by (simp_all add: upd_req_def)
qed

lemma add_request_queue:
  assumes "ata_queue s xs" "i \<notin> set xs" "i < 64" "rq_dev (ata_requests s i) \<noteq> None" "rq_next (ata_requests s i) = None"
  shows "\<exists>t. ata_add_request i s = Ret (xs = [], t) \<and> ata_queue t (xs @ [i]) \<and> kmem t = kmem s \<and> hw t = hw s \<and>
    rq_error (ata_requests t i) = rq_error (ata_requests s i)"
proof (cases xs)
  case Nil
  then have "ata_current_req s = None" using assms(1) by (simp add: ata_queue_def)
  then show ?thesis using assms(3-) Nil by (simp add: ata_add_request_def ata_queue_def)
next
  case (Cons j ys)
  let ?t = "upd_req (last xs) (\<lambda>r. r\<lparr>rq_next := Some i\<rparr>) s"
  have c: "req_chain (\<lambda>i. rq_next (ata_requests s i)) (ata_current_req s) xs" "distinct xs" using assms(1) by (auto simp: ata_queue_def)
  then have "ata_current_req s = Some j" using Cons by simp
  with c(1) have "chain_end 65 (\<lambda>i. rq_next (ata_requests s i)) j = Ret (last xs)"
    using req_chain_end [of "\<lambda>i. rq_next (ata_requests s i)" j xs 65] ata_queue_length [OF assms(1)] by simp
  with \<open>ata_current_req s = Some j\<close> have "ata_add_request i s = Ret (False, ?t)" by (simp add: ata_add_request_def)
  moreover have "ata_queue ?t (xs @ [i])"
    using aq.later_request [OF c(1) _ c(2) assms(2,5)] assms Cons by (auto simp: ata_queue_def upd_req_def)
  moreover have "kmem ?t = kmem s" "hw ?t = hw s" "rq_error (ata_requests ?t i) = rq_error (ata_requests s i)" by (simp_all add: upd_req_def)
  ultimately show ?thesis using Cons by (intro exI [of _ ?t]) simp
qed


text \<open>Request 5 is served and request 2 waits behind it.\<close>

definition two_requests :: "demo_drive ata_state" where
  "two_requests = demo_ata\<lparr>sys_phase := SYSTEM_MULTITASKING, ata_current_req := Some 5,
     ata_requests := (\<lambda>_. free_request)(5 := free_request\<lparr>rq_dev := Some 0, rq_next := Some 2\<rparr>, 2 := free_request\<lparr>rq_dev := Some 0\<rparr>)\<rparr>"

lemma two_requests_queue: "ata_queue two_requests [5, 2]"
  by (simp add: ata_queue_def two_requests_def free_request_def)


section \<open>What goes wrong\<close>

text \<open>
  \<^verbatim>\<open>ata_dma_start\<close> waits for its request only when it is the first one. A request that is queued behind another is reported as done although
  nothing has been transferred.
\<close>

lemma dma_queued_returns_early:
  assumes "ata_queue s xs" "xs \<noteq> []" "system_is_multitasking s" "drive < 4" "ata_find_device (drive div 2) (drive mod 2) s = Some d"
    and "k < 64" "rq_dev (ata_requests s k) = None"
  shows "\<exists>t. ata_dma_start E drive buf count lba rw s = Ret (Ata_done 0 t) \<and> kmem t = kmem s \<and> hw t = hw s"
proof -
  obtain i t where b: "ata_build_request d lba count (dma_cmd rw lba) buf s = (Some i, t)" using find_free_request [OF assms(6,7)] by blast
  note q = build_request_queue [OF assms(1) b]
  with add_request_queue [OF q(1-3)] obtain u where "ata_add_request i t = Ret (xs = [], u)" "kmem u = kmem t" "hw u = hw t"
    "rq_error (ata_requests u i) = rq_error (ata_requests t i)" by auto
  then show ?thesis using assms b q by (simp add: ata_dma_start_def dma_end_def)
qed

text \<open>The result of a polled transfer is not looked at: whatever the drive reports, the call succeeds.\<close>

lemma requests_poll: "poll_bsy n E d s = Ret t \<Longrightarrow> ata_requests t = ata_requests s" "poll_drq n E d s = Ret t \<Longrightarrow> ata_requests t = ata_requests s"
proof (induction n arbitrary: s)
  case (Suc n)
  { case 1 then show ?case using Suc(1) by (auto simp: bsy_bit_def ata_reg_read_def split: prod.splits if_splits) }
  { case 2 then show ?case using Suc(2) by (fastforce simp: drq_bit_def ata_error_def ata_reg_read_def split: prod.splits if_splits) }
qed simp_all

lemma requests_error: "ata_error E dev s = Ret (e, t) \<Longrightarrow> ata_requests t = ata_requests s"
  by (auto simp: ata_error_def ata_reg_read_def split: option.splits prod.splits)

lemma pio_poll_error: "pio_poll n E req d dir s = Ret (ok, t) \<Longrightarrow> rq_error (ata_requests t req) = rq_error (ata_requests s req)"
proof (induction n arbitrary: s)
  case 0
  then show ?case by (auto simp: upd_req_def)
next
  case (Suc n)
  let ?s = "upd_req req (\<lambda>r. r\<lparr>rq_count := rq_count r - 1\<rparr>) s"
  from Suc.prems obtain s1 s2 e s3 where s: "ata_poll_bsy E d ?s = Ret s1" "ata_poll_drq E d s1 = Ret s2" "ata_error E (Some d) s2 = Ret (e, s3)"
    and t: "(if e then Ret (False, ata_reset_bus E d s3)
      else pio_poll n E req d dir (upd_req req (\<lambda>r. r\<lparr>rq_buf := rq_buf r + 512\<rparr>)
        (ata_pio_transfer E d (rq_buf (ata_requests s3 req)) dir s3))) = Ret (ok, t)"
    unfolding pio_poll.simps Let_def by (auto elim!: bindk_RetE)
  have "ata_requests s3 = ata_requests ?s"
    using requests_poll(1) [OF s(1) [unfolded ata_poll_bsy_def]] requests_poll(2) [OF s(2) [unfolded ata_poll_drq_def]] requests_error [OF s(3)] by simp
  moreover have "ata_requests (ata_pio_transfer E d a dir s3) = ata_requests s3" for a
    by (simp add: ata_pio_transfer_def Let_def split: prod.splits ata_pio_direction.splits)
  ultimately show ?case using t Suc.IH by (fastforce simp: upd_req_def ata_reset_bus_def ata_reg_write_def split: if_splits)
qed

lemma requests_start: "ata_start_request E req s = Ret t \<Longrightarrow> ata_requests t = ata_requests s"
  by (auto simp: ata_start_request_def ata_start_request_lba28_def ata_start_request_lba48_def with_dev_def ata_select_drive_def
      bsy_bit_def drq_bit_def ata_reg_read_def ata_reg_write_def Let_def split: option.splits prod.splits if_splits elim!: bindk_RetE)

lemma requests_flush: "ata_flush E d s = Ret t \<Longrightarrow> ata_requests t = ata_requests s"
  using requests_poll(1) requests_error
  by (fastforce simp: ata_flush_def ata_poll_bsy_def ata_reset_bus_def ata_reg_write_def split: if_splits elim!: bindk_RetE)

lemma polled_error:
  assumes "(case rw of READ \<Rightarrow> ata_pio_poll_read E req s | WRITE \<Rightarrow> ata_pio_poll_write E req s) = Ret (v, t)"
  shows "rq_error (ata_requests t req) = rq_error (ata_requests s req)"
  using assms pio_poll_error [of _ E req _ _ s] requests_flush
  by (fastforce simp: ata_pio_poll_read_def ata_pio_poll_write_def with_dev_def split: rw.splits option.splits if_splits elim!: bindk_RetE)

lemma polled_errors_not_reported:
  assumes "\<not> system_is_multitasking s" "drive < 4" "ata_find_device (drive div 2) (drive mod 2) s = Some d"
    and "k < 64" "rq_dev (ata_requests s k) = None" "ata_pio_start (Suc n) E drive buf count lba rw s = Ret r"
  shows "\<exists>t. r = Ata_done 0 t"
proof -
  obtain i where b: "ata_build_request d lba count (pio_cmd rw lba) buf s = (Some i, upd_req i (\<lambda>_. \<lparr>rq_dev = Some d, rq_cmd = pio_cmd rw lba,
     rq_count = count, rq_lba = lba, rq_buf = buf, rq_error = False, rq_retry = 0, rq_next = None\<rparr>) s)" (is "_ = (_, ?s)")
    using find_free_request [OF assms(4,5)] by blast
  have "\<not> system_is_multitasking ?s" using assms(1) by (simp add: system_is_multitasking_def upd_req_def)
  then obtain s1 v s2 where s: "ata_start_request E i ?s = Ret s1"
    "(case rw of READ \<Rightarrow> ata_pio_poll_read E i s1 | WRITE \<Rightarrow> ata_pio_poll_write E i s1) = Ret (v, s2)"
    "pio_check i (ata_pio_start n E drive buf count lba rw) (ata_finish_request i s2) = Ret r"
    using assms(2,3,6) b by (auto elim!: bindk_RetE)
  then have "\<not> rq_error (ata_requests s2 i)" using polled_error [OF s(2)] requests_start [OF s(1)] by (simp add: upd_req_def)
  then show ?thesis using s(3) by (auto simp: pio_check_def ata_finish_request_def upd_req_def)
qed

end
