(* ===== verification/Fbcon.thy ===== *)
theory Fbcon
  imports Console Virtual_MM
begin

text \<open>
  The frame buffer console, the low level driver of the virtual consoles: \<^verbatim>\<open>sys/drivers/fbcon.c\<close>, \<^verbatim>\<open>fb.c\<close> and \<^verbatim>\<open>psf.c\<close> with their headers. Frame buffer and font
  are bytes of one memory. Pixels of 32 and of 16 bits differ in the store instruction and in their size, which are arguments of the loops.
\<close>

section \<open>Data\<close>

abbreviation (input) PSF_HEADER_MAGIC :: u32 where "PSF_HEADER_MAGIC \<equiv> 0x864AB572"
abbreviation (input) MULTIBOOT_INFO_VBE_INFO :: u32 where "MULTIBOOT_INFO_VBE_INFO \<equiv> 0x800"
abbreviation (input) ANSI_FG_BLACK :: u32 where "ANSI_FG_BLACK \<equiv> 30"

text \<open>The fields of \<^verbatim>\<open>struct vbe_mode_info\<close> that are used.\<close>

record vbe_mode_info =
  vbe_pitch :: u16
  vbe_width :: u16
  vbe_height :: u16
  vbe_bpp :: u8

record fb_info =
  mode_info :: vbe_mode_info
  fb_virt_addr :: u32

record bitmap_font =
  bf_height :: u32
  bf_width :: u32
  bytes_per_glyph :: u32
  nr_glyph :: u32
  bf_data :: u32

text \<open>\<^verbatim>\<open>fb_console\<close> after \<^verbatim>\<open>fbcon_init\<close>, and the memory.\<close>

record fbcon =
  fbcon_info :: fb_info
  fbcon_font :: bitmap_font
  fbcon_fg :: u32
  fbcon_bg :: u32
  fb_mem :: "u32 \<Rightarrow> u8"

definition ansi_colors_bright_fg_32rgb :: "u32 list" where
  "ansi_colors_bright_fg_32rgb = [0x181818, 0xFF0000, 0x00FF00, 0xFFFF00, 0x0000FF, 0xFF00FF, 0x00FFFF, 0xFFFFFF, 0, 0xD3D3D3]"

definition ansi_colors_bright_bg_32rgb :: "u32 list" where
  "ansi_colors_bright_bg_32rgb = [0x181818, 0xFF0000, 0x00FF00, 0xFFFF00, 0x0000FF, 0xFF00FF, 0x00FFFF, 0xFFFFFF, 0, 0]"

definition ansi_colors_fg_32rgb :: "u32 list" where
  "ansi_colors_fg_32rgb = [0, 0xAA0000, 0x00AA00, 0xAAAA00, 0x0000AA, 0xAA00AA, 0x00AAAA, 0xAAAAAA, 0, 0xA9A9A9]"

definition ansi_colors_bg_32rgb :: "u32 list" where
  "ansi_colors_bg_32rgb = [0, 0xAA0000, 0x00AA00, 0xAAAA00, 0x0000AA, 0xAA00AA, 0x00AAAA, 0xAAAAAA, 0, 0]"

definition ansi_colors_bright_bg_16rgb :: "u32 list" where
  "ansi_colors_bright_bg_16rgb = [0x10A2, 0xF800, 0x07E0, 0xFFE0, 0x001F, 0xF81F, 0x07FF, 0xFFFF, 0, 0]"

definition ansi_colors_bright_fg_16rgb :: "u32 list" where
  "ansi_colors_bright_fg_16rgb = [0x10A2, 0xF800, 0x07E0, 0xFFE0, 0x001F, 0xF81F, 0x07FF, 0xFFFF, 0, 0xD69A]"

definition ansi_colors_fg_16rgb :: "u32 list" where
  "ansi_colors_fg_16rgb = [0, 0xA000, 0x0540, 0xA540, 0x0014, 0xA014, 0x0554, 0xFFFF, 0, 0xA534]"

definition ansi_colors_bg_16rgb :: "u32 list" where
  "ansi_colors_bg_16rgb = [0, 0xA000, 0x0540, 0xA540, 0x0014, 0xA014, 0x0554, 0xFFFF, 0, 0]"

section \<open>Memory\<close>

definition load32 :: "(u32 \<Rightarrow> u8) \<Rightarrow> u32 \<Rightarrow> u32" where
  "load32 m a = ucast (m a) OR push_bit 8 (ucast (m (a + 1))) OR push_bit 16 (ucast (m (a + 2))) OR push_bit 24 (ucast (m (a + 3)))"

definition store32 :: "u32 \<Rightarrow> u32 \<Rightarrow> (u32 \<Rightarrow> u8) \<Rightarrow> u32 \<Rightarrow> u8" where
  "store32 a v m = m(a := ucast v, a + 1 := ucast (drop_bit 8 v), a + 2 := ucast (drop_bit 16 v), a + 3 := ucast (drop_bit 24 v))"

definition store16 :: "u32 \<Rightarrow> u32 \<Rightarrow> (u32 \<Rightarrow> u8) \<Rightarrow> u32 \<Rightarrow> u8" where
  "store16 a v m = m(a := ucast v, a + 1 := ucast (drop_bit 8 v))"

section \<open>Drawing\<close>

type_synonym pixel_put = "u32 \<Rightarrow> u32 \<Rightarrow> (u32 \<Rightarrow> u8) \<Rightarrow> u32 \<Rightarrow> u8"

text \<open>
  The loops over the columns and over the rows of a glyph, with the number of rounds that are left. A row of the glyph is read as a word of 32 bits.
\<close>

primrec glyph_line :: "nat \<Rightarrow> pixel_put \<Rightarrow> u32 \<Rightarrow> u32 \<Rightarrow> u32 \<Rightarrow> u32 \<Rightarrow> u32 \<Rightarrow> u32 \<Rightarrow> (u32 \<Rightarrow> u8) \<Rightarrow> u32 \<times> (u32 \<Rightarrow> u8)" where
  "glyph_line 0 put b msk data bg fg dst m = (dst, m)"
| "glyph_line (Suc n) put b msk data bg fg dst m =
     glyph_line n put b (drop_bit 1 msk) data bg fg (dst + b) (put dst (if load32 m data AND msk \<noteq> 0 then fg else bg) m)"

primrec glyph_lines :: "nat \<Rightarrow> pixel_put \<Rightarrow> u32 \<Rightarrow> u32 \<Rightarrow> u32 \<Rightarrow> u32 \<Rightarrow> u32 \<Rightarrow> u32 \<Rightarrow> u32 \<Rightarrow> (u32 \<Rightarrow> u8) \<Rightarrow> u32 \<Rightarrow> u8" where
  "glyph_lines 0 put b width data pitch bg fg dst m = m"
| "glyph_lines (Suc n) put b width data pitch bg fg dst m =
     (let (dst, m) = glyph_line (unat width) put b (push_bit (unat (width - 1)) 1) data bg fg dst m
      in glyph_lines n put b width (data + drop_bit 3 (width + 7)) pitch bg fg (dst + (pitch - width * b)) m)"

primrec blank_line :: "nat \<Rightarrow> pixel_put \<Rightarrow> u32 \<Rightarrow> u32 \<Rightarrow> (u32 \<Rightarrow> u8) \<Rightarrow> u32 \<times> (u32 \<Rightarrow> u8)" where
  "blank_line 0 put b dst m = (dst, m)"
| "blank_line (Suc n) put b dst m = blank_line n put b (dst + b) (put dst 0 m)"

primrec blank_lines :: "nat \<Rightarrow> pixel_put \<Rightarrow> u32 \<Rightarrow> u32 \<Rightarrow> u32 \<Rightarrow> u32 \<Rightarrow> (u32 \<Rightarrow> u8) \<Rightarrow> u32 \<Rightarrow> u8" where
  "blank_lines 0 put b width pitch dst m = m"
| "blank_lines (Suc n) put b width pitch dst m =
     (let (dst, m) = blank_line (unat width) put b dst m in blank_lines n put b width pitch (dst + (pitch - width * b)) m)"

definition fbcon_putc_32bpp :: "bitmap_font \<Rightarrow> u32 \<Rightarrow> u32 \<Rightarrow> u32 \<Rightarrow> u32 \<Rightarrow> u32 \<Rightarrow> (u32 \<Rightarrow> u8) \<Rightarrow> u32 \<Rightarrow> u8" where
  "fbcon_putc_32bpp font data pitch bg fg dst = glyph_lines (unat (bf_height font)) store32 4 (bf_width font) data pitch bg fg dst"

text \<open>The colours are parameters of type \<^verbatim>\<open>uint16_t\<close> here.\<close>

definition fbcon_putc_16bpp :: "bitmap_font \<Rightarrow> u32 \<Rightarrow> u32 \<Rightarrow> u16 \<Rightarrow> u16 \<Rightarrow> u32 \<Rightarrow> (u32 \<Rightarrow> u8) \<Rightarrow> u32 \<Rightarrow> u8" where
  "fbcon_putc_16bpp font data pitch bg fg dst =
     glyph_lines (unat (bf_height font)) store16 2 (bf_width font) data pitch (ucast bg) (ucast fg) dst"

definition fbcon_blank_32bpp :: "bitmap_font \<Rightarrow> u32 \<Rightarrow> u32 \<Rightarrow> (u32 \<Rightarrow> u8) \<Rightarrow> u32 \<Rightarrow> u8" where
  "fbcon_blank_32bpp font pitch dst = blank_lines (unat (bf_height font)) store32 4 (bf_width font) pitch dst"

definition fbcon_blank_16bpp :: "bitmap_font \<Rightarrow> u32 \<Rightarrow> u32 \<Rightarrow> (u32 \<Rightarrow> u8) \<Rightarrow> u32 \<Rightarrow> u8" where
  "fbcon_blank_16bpp font pitch dst = blank_lines (unat (bf_height font)) store16 2 (bf_width font) pitch dst"

text \<open>The address of a character cell. The size of a pixel is taken to be four bytes in every mode.\<close>

definition cell_addr :: "u32 \<Rightarrow> u32 \<Rightarrow> fbcon \<Rightarrow> u32" where
  "cell_addr cx cy s =
     (let font = fbcon_font s; info = fbcon_info s
      in fb_virt_addr info + (cy * bf_height font * ucast (vbe_pitch (mode_info info)) + cx * bf_width font * 4))"

definition glyph_index :: "bitmap_font \<Rightarrow> int \<Rightarrow> u32" where
  "glyph_index font c = (if c < 0 \<or> word_of_int c \<ge> nr_glyph font then 0 else word_of_int c)"

definition fbcon_putc :: "u32 \<Rightarrow> u32 \<Rightarrow> int \<Rightarrow> fbcon \<Rightarrow> fbcon" where
  "fbcon_putc cx cy c s =
     (let font = fbcon_font s; mode = mode_info (fbcon_info s); pitch = ucast (vbe_pitch mode);
          data = bf_data font + glyph_index font c * bytes_per_glyph font; dst = cell_addr cx cy s
      in if vbe_bpp mode = 32 then s\<lparr>fb_mem := fbcon_putc_32bpp font data pitch (fbcon_bg s) (fbcon_fg s) dst (fb_mem s)\<rparr>
         else if vbe_bpp mode = 16
         then s\<lparr>fb_mem := fbcon_putc_16bpp font data pitch (ucast (fbcon_bg s)) (ucast (fbcon_fg s)) dst (fb_mem s)\<rparr>
         else s)"

definition fbcon_blank :: "u32 \<Rightarrow> u32 \<Rightarrow> fbcon \<Rightarrow> fbcon" where
  "fbcon_blank cx cy s =
     (let font = fbcon_font s; mode = mode_info (fbcon_info s); pitch = ucast (vbe_pitch mode); dst = cell_addr cx cy s
      in if vbe_bpp mode = 32 then s\<lparr>fb_mem := fbcon_blank_32bpp font pitch dst (fb_mem s)\<rparr>
         else if vbe_bpp mode = 16 then s\<lparr>fb_mem := fbcon_blank_16bpp font pitch dst (fb_mem s)\<rparr>
         else s)"

definition fbcon_get_dimensions :: "fbcon \<Rightarrow> (u32 \<times> u32) kres" where
  "fbcon_get_dimensions s =
     (let font = fbcon_font s; mode = mode_info (fbcon_info s) in
      if bf_width font = 0 \<or> bf_height font = 0 then Stop (Fault ''division by zero'')
      else Ret (ucast (vbe_width mode) div bf_width font, ucast (vbe_height mode) div bf_height font))"

section \<open>Colours\<close>

definition color_at :: "u32 list \<Rightarrow> u32 \<Rightarrow> u32 kres" where
  "color_at tab i = (if unat i < length tab then Ret (tab ! unat i) else Stop (Fault ''ansi_colors''))"

text \<open>A colour by number: from the first table for the eight colours and the default, from the second for the bright ones.\<close>

definition indexed_color :: "u32 \<Rightarrow> u32 \<Rightarrow> u32 \<Rightarrow> u32 \<Rightarrow> u32 list \<Rightarrow> u32 list \<Rightarrow> u32 \<Rightarrow> u32 \<Rightarrow> u32 kres" where
  "indexed_color base dflt bright white tab btab i old =
     (if base \<le> i \<and> i \<le> dflt then color_at tab (i - base)
      else if bright \<le> i \<and> i \<le> white then color_at btab (i - bright)
      else Ret old)"

text \<open>
  What both routines do after the colours are set. \<^verbatim>\<open>type <= ANSI_FG_WHITE\<close> holds for every type.
\<close>

definition apply_attr :: "u32 list \<Rightarrow> vc_attr \<Rightarrow> vc_attr_type \<Rightarrow> fbcon \<Rightarrow> fbcon kres" where
  "apply_attr bright a ty s =
     bindk (if a_attr a AND VC_BOLD \<noteq> 0 \<and> ty = INDEXED_COLOR
            then bindk (color_at bright (fg_indexed a - ANSI_FG_COLOR_BASE)) (\<lambda>c. Ret (s\<lparr>fbcon_fg := c\<rparr>)) else Ret s) (\<lambda>s.
     bindk (if a_attr a AND VC_DIM \<noteq> 0
            then bindk (color_at bright (ANSI_FG_BLACK - ANSI_FG_COLOR_BASE)) (\<lambda>c. Ret (s\<lparr>fbcon_fg := c\<rparr>)) else Ret s) (\<lambda>s.
     Ret (if a_attr a AND VC_REVERSE \<noteq> 0 then s\<lparr>fbcon_fg := fbcon_bg s, fbcon_bg := fbcon_fg s\<rparr> else s)))"

definition fbcon_set_attr_32bpp :: "vc_attr \<Rightarrow> vc_attr_type \<Rightarrow> fbcon \<Rightarrow> fbcon kres" where
  "fbcon_set_attr_32bpp a ty s =
     bindk (if ty = INDEXED_COLOR then
              bindk (indexed_color ANSI_FG_COLOR_BASE ANSI_FG_DEFAULT ANSI_FG_BRIGHT_COLOR_BASE ANSI_FG_BRIGHT_WHITE
                       ansi_colors_fg_32rgb ansi_colors_bright_bg_32rgb (fg_indexed a) (fbcon_fg s)) (\<lambda>fg.
              bindk (indexed_color ANSI_BG_COLOR_BASE ANSI_BG_DEFAULT ANSI_BG_BRIGHT_COLOR_BASE ANSI_BG_BRIGHT_WHITE
                       ansi_colors_bg_32rgb ansi_colors_bright_bg_32rgb (bg_indexed a) (fbcon_bg s)) (\<lambda>bg.
              Ret (s\<lparr>fbcon_fg := fg, fbcon_bg := bg\<rparr>)))
            else if ty = RGB then Ret (s\<lparr>fbcon_fg := fg_rgb a, fbcon_bg := bg_rgb a\<rparr>)
            else Ret s) (apply_attr ansi_colors_bright_fg_32rgb a ty)"

definition fbcon_set_attr_16bpp :: "vc_attr \<Rightarrow> vc_attr_type \<Rightarrow> fbcon \<Rightarrow> fbcon kres" where
  "fbcon_set_attr_16bpp a ty s =
     bindk (if ty = INDEXED_COLOR then
              bindk (indexed_color ANSI_FG_COLOR_BASE ANSI_FG_DEFAULT ANSI_FG_BRIGHT_COLOR_BASE ANSI_FG_BRIGHT_WHITE
                       ansi_colors_fg_16rgb ansi_colors_bright_bg_16rgb (fg_indexed a) (fbcon_fg s)) (\<lambda>fg.
              bindk (indexed_color ANSI_BG_COLOR_BASE ANSI_BG_DEFAULT ANSI_BG_BRIGHT_COLOR_BASE ANSI_BG_BRIGHT_WHITE
                       ansi_colors_bg_16rgb ansi_colors_bright_bg_16rgb (bg_indexed a) (fbcon_bg s)) (\<lambda>bg.
              Ret (s\<lparr>fbcon_fg := fg, fbcon_bg := bg\<rparr>)))
            else if ty = RGB then
              Ret (s\<lparr>fbcon_fg := if fg_rgb a \<le> 0xFFFF then fg_rgb a else fbcon_fg s,
                     fbcon_bg := if bg_rgb a \<le> 0xFFFF then bg_rgb a else fbcon_bg s\<rparr>)
            else Ret s) (apply_attr ansi_colors_bright_fg_16rgb a ty)"

definition fbcon_set_attr :: "vc_attr \<Rightarrow> vc_attr_type \<Rightarrow> fbcon \<Rightarrow> fbcon kres" where
  "fbcon_set_attr a ty s =
     (if vbe_bpp (mode_info (fbcon_info s)) = 16 then fbcon_set_attr_16bpp a ty s
      else if vbe_bpp (mode_info (fbcon_info s)) = 32 then fbcon_set_attr_32bpp a ty s
      else Ret s)"

section \<open>The driver\<close>

text \<open>The table \<^verbatim>\<open>vc_fbcon_driver\<close>: what the calls of a console do.\<close>

fun vc_fbcon_driver :: "vc_call \<Rightarrow> fbcon \<Rightarrow> fbcon kres" where
  "vc_fbcon_driver (Call_putc x y c) s = Ret (fbcon_putc x y c s)"
| "vc_fbcon_driver (Call_blank x y) s = Ret (fbcon_blank x y s)"
| "vc_fbcon_driver (Call_set_attr a ty) s = fbcon_set_attr a ty s"

text \<open>The header of a font is eight words: magic, version, header size, flags, number of glyphs, bytes per glyph, height, width.\<close>

definition load_default_font :: "u32 \<Rightarrow> (u32 \<Rightarrow> u8) \<Rightarrow> bitmap_font option" where
  "load_default_font psf m =
     (if load32 m psf \<noteq> PSF_HEADER_MAGIC then None
      else if load32 m (psf + 28) > 32 then None
      else Some \<lparr>bf_height = load32 m (psf + 24), bf_width = load32 m (psf + 28), bytes_per_glyph = load32 m (psf + 20),
             nr_glyph = load32 m (psf + 16), bf_data = psf + load32 m (psf + 8)\<rparr>)"

text \<open>The colours are zero before the first attributes are set. The consoles learn of the driver in \<open>fbcon_register\<close>.\<close>

definition fbcon_init :: "u32 \<Rightarrow> (u32 \<Rightarrow> u8) \<Rightarrow> fb_info \<Rightarrow> fbcon kres" where
  "fbcon_init psf m info =
     (case load_default_font psf m of
        None \<Rightarrow> Stop (Panic ''Unable to load bitmap font'')
      | Some font \<Rightarrow>
          if vbe_bpp (mode_info info) \<noteq> 32 \<and> vbe_bpp (mode_info info) \<noteq> 16
          then Stop (Panic ''fbcon_init: Unrecognised bits per pixel'')
          else Ret \<lparr>fbcon_info = info, fbcon_font = font, fbcon_fg = 0, fbcon_bg = 0, fb_mem = m\<rparr>)"

text \<open>What the boot loader hands over: \<^verbatim>\<open>__mb_info\<close> and the mode information that it points to.\<close>

record mb_fb_info =
  mb_flags :: u32
  mb_mode :: vbe_mode_info
  framebuffer_addr_low :: u32
  framebuffer_height :: u32
  framebuffer_width :: u32
  framebuffer_bpp :: u8

text \<open>The page tables are a state of their own beside the bytes of the frame buffer.\<close>

definition fb_init :: "u32 \<Rightarrow> (u32 \<Rightarrow> u8) \<Rightarrow> mb_fb_info \<Rightarrow> 'v vm_state_scheme \<Rightarrow> (int \<times> fbcon option \<times> 'v vm_state_scheme) kres" where
  "fb_init psf m mb s =
     (let mode = mb_mode mb in
      if mb_flags mb AND MULTIBOOT_INFO_VBE_INFO = 0 then Ret (-1, None, s)
      else if framebuffer_height mb \<noteq> ucast (vbe_height mode) \<or> framebuffer_width mb \<noteq> ucast (vbe_width mode) \<or>
              framebuffer_bpp mb \<noteq> vbe_bpp mode then Ret (-1, None, s)
      else if vbe_bpp mode \<noteq> 32 \<and> vbe_bpp mode \<noteq> 16 then Stop (Panic ''WARNING: Anything less than 32bpp not supported'')
      else bindk (virt_map_phys (framebuffer_addr_low mb) s) (\<lambda>(v, s).
        bindk (fbcon_init psf m \<lparr>mode_info = mode, fb_virt_addr = v\<rparr>) (\<lambda>f. Ret (0, Some f, s))))"

end
