(* ===== verification/Fbcon_Props.thy ===== *)
theory Fbcon_Props
  imports Fbcon Console_Props
begin

text \<open>
  What the frame buffer shows. The loops of \<^verbatim>\<open>fbcon.c\<close> go through the memory with one running address; the pixels they change are exactly those of the
  character cell, and a flush of a console leaves the glyph of every character of its screen in the frame buffer.
\<close>

section \<open>Stores of pixels\<close>

definition byte_of :: "nat \<Rightarrow> u32 \<Rightarrow> u8" where
  "byte_of k v = ucast (drop_bit (8 * k) v)"

lemma of_nat_unat_add: "(of_nat (unat a + k) :: u32) = a + of_nat k" for a :: u32
  by simp

lemma unat_add_of_nat:
  assumes "unat a + k < 2 ^ 32"
  shows "unat (a + of_nat k :: u32) = unat a + k"
  using assms unat_of_nat_u32 [of k] unat_add_lem [of a "of_nat k"] by simp

lemma load32_cong:
  assumes "unat a + 4 \<le> 2 ^ 32" "\<And>c. unat a \<le> c \<Longrightarrow> c < unat a + 4 \<Longrightarrow> m (of_nat c) = m' (of_nat c)"
  shows "load32 m a = load32 m' a"
  using assms(2) [of "unat a"] assms(2) [of "unat a + 1"] assms(2) [of "unat a + 2"] assms(2) [of "unat a + 3"]
  by (simp add: load32_def add.commute)

text \<open>What the drawing loops rely on: a pixel is \<open>b\<close> bytes, the low byte first. Addresses are natural numbers here.\<close>

locale pixel_store =
  fixes put :: pixel_put and b :: nat
  assumes b_pos: "0 < b"
    and put_byte: "a + b \<le> 2 ^ 32 \<Longrightarrow> c < 2 ^ 32 \<Longrightarrow>
      put (of_nat a) v m (of_nat c) = (if a \<le> c \<and> c < a + b then byte_of (c - a) v else m (of_nat c))"
begin

text \<open>The bytes of a line of pixels from address \<open>D\<close> on.\<close>

lemma line_bytes:
  assumes "D + b * n \<le> 2 ^ 32" "unat data + 4 \<le> D \<or> D + b * n \<le> unat data \<and> unat data + 4 \<le> 2 ^ 32"
  shows "\<exists>m'. glyph_line n put (of_nat b) msk data bg fg (of_nat D) m = (of_nat (D + b * n), m') \<and>
    (\<forall>c<2 ^ 32. m' (of_nat c) = (if D \<le> c \<and> c < D + b * n
       then byte_of ((c - D) mod b) (if load32 m data AND drop_bit ((c - D) div b) msk \<noteq> 0 then fg else bg) else m (of_nat c)))"
  using assms
proof (induction n arbitrary: D msk m)
  case 0
  then show ?case by auto
next
  case (Suc n)
  define v where "v = (if load32 m data AND msk \<noteq> 0 then fg else bg)"
  let ?m = "put (of_nat D) v m"
  have D: "D + b \<le> 2 ^ 32" "D + b + b * n \<le> 2 ^ 32" using Suc.prems(1) by simp_all
  have far: "unat data + 4 \<le> D \<or> D + b \<le> unat data" "unat data + 4 \<le> 2 ^ 32" using Suc.prems(2) D by auto
  have g: "load32 ?m data = load32 m data"
    by (rule load32_cong) (use far D put_byte in auto)
  have "unat data + 4 \<le> D + b \<or> D + b + b * n \<le> unat data \<and> unat data + 4 \<le> 2 ^ 32" using Suc.prems(2) by auto
  from Suc.IH [OF D(2) this, of "drop_bit 1 msk" ?m] obtain m' where
    m': "glyph_line n put (of_nat b) (drop_bit 1 msk) data bg fg (of_nat (D + b)) ?m = (of_nat (D + b + b * n), m')"
    "\<And>c. c < 2 ^ 32 \<Longrightarrow> m' (of_nat c) = (if D + b \<le> c \<and> c < D + b + b * n
       then byte_of ((c - (D + b)) mod b) (if load32 m data AND drop_bit ((c - (D + b)) div b) (drop_bit 1 msk) \<noteq> 0 then fg else bg)
       else ?m (of_nat c))" unfolding g by blast
  have "glyph_line (Suc n) put (of_nat b) msk data bg fg (of_nat D) m = (of_nat (D + b * Suc n), m')"
    using m'(1) by (simp add: v_def algebra_simps)
  moreover have "m' (of_nat c) = (if D \<le> c \<and> c < D + b * Suc n
       then byte_of ((c - D) mod b) (if load32 m data AND drop_bit ((c - D) div b) msk \<noteq> 0 then fg else bg) else m (of_nat c))"
    if c: "c < 2 ^ 32" for c
  proof (cases "D + b \<le> c")
    case True
    then have "(c - D) div b = Suc ((c - (D + b)) div b)" "(c - D) mod b = (c - (D + b)) mod b"
      using b_pos by (simp_all add: le_div_geq le_mod_geq diff_diff_eq)
    then show ?thesis using m'(2) [OF c] True put_byte [OF D(1) c] by (auto simp: drop_bit_drop_bit)
  next
    case False
    then show ?thesis using m'(2) [OF c] put_byte [OF D(1) c] by (auto simp: v_def)
  qed
  ultimately show ?case by blast
qed

end

lemma near_addr:
  assumes "a + n \<le> 2 ^ 32" "c < 2 ^ 32" "k < n"
  shows "(of_nat c :: u32) = of_nat a + of_nat k \<longleftrightarrow> c = a + k"
  using of_nat_u32_eq_iff [of c "a + k"] assms by simp

interpretation px32: pixel_store store32 4
proof
  fix a c :: nat and v :: u32 and m :: "u32 \<Rightarrow> u8"
  assume ac: "a + 4 \<le> 2 ^ 32" "c < 2 ^ 32"
  note eq = near_addr [OF ac, of 0] near_addr [OF ac, of 1] near_addr [OF ac, of 2] near_addr [OF ac, of 3]
  consider "c = a" | "c = a + 1" | "c = a + 2" | "c = a + 3" | "\<not> (a \<le> c \<and> c < a + 4)" by linarith
  then show "store32 (of_nat a) v m (of_nat c) = (if a \<le> c \<and> c < a + 4 then byte_of (c - a) v else m (of_nat c))"
    by cases (use eq in \<open>auto simp: store32_def byte_of_def\<close>)
qed simp

interpretation px16: pixel_store store16 2
proof
  fix a c :: nat and v :: u32 and m :: "u32 \<Rightarrow> u8"
  assume ac: "a + 2 \<le> 2 ^ 32" "c < 2 ^ 32"
  note eq = near_addr [OF ac, of 0] near_addr [OF ac, of 1]
  consider "c = a" | "c = a + 1" | "\<not> (a \<le> c \<and> c < a + 2)" by linarith
  then show "store16 (of_nat a) v m (of_nat c) = (if a \<le> c \<and> c < a + 2 then byte_of (c - a) v else m (of_nat c))"
    by cases (use eq in \<open>auto simp: store16_def byte_of_def\<close>)
qed simp

section \<open>A glyph\<close>

context pixel_store
begin

lemma next_line:
  assumes "unat width = w" "unat pitch = P" "b * w \<le> P"
  shows "of_nat (D + b * w) + (pitch - width * of_nat b) = (of_nat (D + P) :: u32)"
proof -
  have "width = of_nat w" "pitch = of_nat P" using assms(1,2) by auto
  then show ?thesis by (simp add: algebra_simps)
qed

lemma lines_bytes:
  assumes "unat width = w" "unat pitch = P" "unat (drop_bit 3 (width + 7)) = L" "b * w \<le> P" "0 < P"
    and "D + h * P \<le> 2 ^ 32" "unat data + h * L + 4 \<le> 2 ^ 32" "unat data + h * L + 4 \<le> D \<or> D + h * P \<le> unat data"
    and "c < 2 ^ 32"
  shows "glyph_lines h put (of_nat b) width data pitch bg fg (of_nat D) m (of_nat c) =
    (if D \<le> c \<and> (c - D) div P < h \<and> (c - D) mod P < b * w
     then byte_of ((c - D) mod P mod b)
       (if load32 m (data + of_nat ((c - D) div P * L)) AND drop_bit ((c - D) mod P div b) (push_bit (unat (width - 1)) 1) \<noteq> 0 then fg else bg)
     else m (of_nat c))"
  using assms(6-8)
proof (induction h arbitrary: D data m)
  case 0
  then show ?case by simp
next
  case (Suc h)
  let ?msk = "push_bit (unat (width - 1)) 1 :: u32" and ?bpl = "drop_bit 3 (width + 7) :: u32"
  have bpl: "?bpl = of_nat L" using assms(3) by auto
  have "P \<le> Suc h * P" by simp
  then have D: "D + b * w \<le> 2 ^ 32" "D + P + h * P \<le> 2 ^ 32" using Suc.prems(1) assms(4) by (linarith, simp)
  have "unat data + 4 \<le> D \<or> D + b * w \<le> unat data \<and> unat data + 4 \<le> 2 ^ 32"
    using Suc.prems assms(4) \<open>P \<le> Suc h * P\<close> by auto
  from line_bytes [OF D(1) this, of ?msk bg fg m] obtain m1 where
    m1: "glyph_line w put (of_nat b) ?msk data bg fg (of_nat D) m = (of_nat (D + b * w), m1)"
    "\<And>c. c < 2 ^ 32 \<Longrightarrow> m1 (of_nat c) = (if D \<le> c \<and> c < D + b * w
       then byte_of ((c - D) mod b) (if load32 m data AND drop_bit ((c - D) div b) ?msk \<noteq> 0 then fg else bg) else m (of_nat c))" by blast
  have step: "glyph_lines (Suc h) put (of_nat b) width data pitch bg fg (of_nat D) m =
      glyph_lines h put (of_nat b) width (data + ?bpl) pitch bg fg (of_nat (D + P)) m1"
    using m1(1) next_line [OF assms(1,2,4), of D] by (simp add: assms(1) del: of_nat_add of_nat_mult)
  have data: "unat (data + ?bpl) = unat data + L"
    using Suc.prems(2) assms(3) unat_add_lem [of data ?bpl] by simp
  have keep: "load32 m1 (data + of_nat (i * L)) = load32 m (data + of_nat (i * L))" if "0 < i" "i \<le> h" for i
  proof -
    have iL: "i * L \<le> h * L" using that by simp
    have hL: "unat data + h * L + 4 \<le> 2 ^ 32" "unat data + h * L + 4 \<le> D \<or> D + P \<le> unat data"
      using Suc.prems(2,3) \<open>P \<le> Suc h * P\<close> by (simp, auto)
    have u: "unat (data + of_nat (i * L)) = unat data + i * L"
      by (rule unat_add_of_nat) (use iL hL(1) in linarith)
    show ?thesis
    proof (rule load32_cong; unfold u)
      show "unat data + i * L + 4 \<le> 2 ^ 32" using iL hL(1) by linarith
      fix c
      assume "unat data + i * L \<le> c" "c < unat data + i * L + 4"
      then have c: "c < 2 ^ 32" "\<not> (D \<le> c \<and> c < D + b * w)" using iL hL assms(4) by linarith+
      show "m1 (of_nat c) = m (of_nat c)" using m1(2) [OF c(1)] unfolding if_not_P [OF c(2)] .
    qed
  qed
  have ih: "glyph_lines h put (of_nat b) width (data + ?bpl) pitch bg fg (of_nat (D + P)) m1 (of_nat c) =
    (if D + P \<le> c \<and> (c - (D + P)) div P < h \<and> (c - (D + P)) mod P < b * w
     then byte_of ((c - (D + P)) mod P mod b)
       (if load32 m1 (data + ?bpl + of_nat ((c - (D + P)) div P * L)) AND drop_bit ((c - (D + P)) mod P div b) ?msk \<noteq> 0 then fg else bg)
     else m1 (of_nat c))"
    by (rule Suc.IH) (use Suc.prems D(2) data in auto)
  show ?case
  proof (cases "D + P \<le> c")
    case True
    then have "(c - D) div P = Suc ((c - (D + P)) div P)" "(c - D) mod P = (c - (D + P)) mod P"
      using assms(5) by (simp_all add: le_div_geq le_mod_geq diff_diff_eq)
    moreover have "load32 m1 (data + ?bpl + of_nat (i * L)) = load32 m (data + of_nat (Suc i * L))" if "i < h" for i
      using keep [of "Suc i"] that by (simp add: bpl add.assoc)
    moreover have "m1 (of_nat c) = m (of_nat c)" using m1(2) [OF assms(9)] True assms(4) by simp
    ultimately show ?thesis unfolding step ih using True by (simp del: of_nat_mult mult_Suc)
  next
    case False
    then have "D \<le> c \<Longrightarrow> (c - D) div P = 0 \<and> (c - D) mod P = c - D" by auto
    then show ?thesis unfolding step ih using False m1(2) [OF assms(9)] by auto
  qed
qed

end

text \<open>Blanking draws a glyph in black on black.\<close>

lemma blank_line_glyph: "blank_line n put b dst m = glyph_line n put b msk data 0 0 dst m"
  by (induction n arbitrary: msk dst m) simp_all

lemma blank_lines_glyph: "blank_lines n put b width pitch dst m = glyph_lines n put b width data pitch 0 0 dst m"
proof (induction n arbitrary: data dst m)
  case (Suc n)
  show ?case
    unfolding blank_lines.simps glyph_lines.simps Suc [where data = "data + drop_bit 3 (width + 7)"]
      blank_line_glyph [of _ _ _ _ _ "push_bit (unat (width - 1)) 1" data] ..
qed simp

section \<open>Pixels\<close>

text \<open>Where a byte of the frame buffer lies relative to a rectangle of \<open>h\<close> rows of \<open>B\<close> bytes.\<close>

lemma in_rectangle:
  fixes x P :: nat
  assumes "x < P" "X + B \<le> P"
  shows "(F + Y * P + X \<le> F + y * P + x \<and> (F + y * P + x - (F + Y * P + X)) div P < h \<and> (F + y * P + x - (F + Y * P + X)) mod P < B)
    \<longleftrightarrow> Y \<le> y \<and> y < Y + h \<and> X \<le> x \<and> x < X + B" (is ?iff)
    and "Y \<le> y \<Longrightarrow> X \<le> x \<Longrightarrow> (F + y * P + x - (F + Y * P + X)) div P = y - Y \<and> (F + y * P + x - (F + Y * P + X)) mod P = x - X"
proof -
  have P: "0 < P" using assms(1) by simp
  have split: "F + y * P + x - (F + Y * P + X) = (y - Y) * P + (x - X)" if "Y \<le> y" "X \<le> x"
    using that mult_le_mono1 [of Y y P] by (simp add: diff_mult_distrib)
  then show at: "Y \<le> y \<Longrightarrow> X \<le> x \<Longrightarrow>
      (F + y * P + x - (F + Y * P + X)) div P = y - Y \<and> (F + y * P + x - (F + Y * P + X)) mod P = x - X"
    using assms(1) P less_imp_diff_less [OF assms(1), of X] by (simp del: add_diff_assoc add_diff_assoc2)
  consider "y < Y" | "Y \<le> y" "X \<le> x" | "y = Y" "x < X" | "Y < y" "x < X" by linarith
  then show ?iff
  proof cases
    case 1
    then have "y * P + P \<le> Y * P" using row_end by blast
    then show ?thesis using 1 assms(1) by simp
  next
    case 2
    then have "F + Y * P + X \<le> F + y * P + x" using mult_le_mono1 [of Y y P] by (simp add: add_mono)
    then show ?thesis using at 2 by auto
  next
    case 4
    then obtain k where "y = Suc (Y + k)" using less_imp_Suc_add by blast
    then have "F + y * P + x - (F + Y * P + X) = k * P + (P + x - X)" using assms(2) by (simp add: algebra_simps)
    moreover have "P + x - X < P" using 4 assms by linarith
    ultimately have "(F + y * P + x - (F + Y * P + X)) mod P = P + x - X" by simp
    moreover have "\<not> P + x - X < B" using assms(2) by linarith
    ultimately show ?thesis using 4 by simp
  qed auto
qed

lemma div_eq_iff_in: "0 < w \<Longrightarrow> p div w = x \<longleftrightarrow> x * w \<le> p \<and> p < x * w + w" for p w x :: nat
  using div_nat_eqI [of w x p] dividend_less_div_times [of w p] by (auto simp: mult.commute)

lemma load32_bytes:
  assumes "\<And>k. k < 4 \<Longrightarrow> m (of_nat (a + k)) = byte_of k v"
  shows "load32 m (of_nat a) = v"
proof -
  have "load32 m (of_nat a) = ucast (byte_of 0 v) OR push_bit 8 (ucast (byte_of 1 v)) OR push_bit 16 (ucast (byte_of 2 v))
      OR push_bit 24 (ucast (byte_of 3 v))"
    using assms [of 0] assms [of 1] assms [of 2] assms [of 3] by (simp add: load32_def add.commute)
  also have "\<dots> = v"
  proof (rule bit_word_eqI)
    fix n
    assume "n < LENGTH(32)"
    then consider "n < 8" | "8 \<le> n" "n < 16" | "16 \<le> n" "n < 24" | "24 \<le> n" "n < 32" by fastforce
    then show "bit (ucast (byte_of 0 v) OR push_bit 8 (ucast (byte_of 1 v)) OR push_bit 16 (ucast (byte_of 2 v))
      OR push_bit 24 (ucast (byte_of 3 v)) :: u32) n = bit v n"
      by cases (auto simp: byte_of_def bit_simps)
  qed
  finally show ?thesis .
qed

lemma mask_bit:
  assumes "x < w" "w \<le> 32"
  shows "a AND drop_bit x (push_bit (w - 1) 1) \<noteq> 0 \<longleftrightarrow> bit (a :: u32) (w - 1 - x)"
proof -
  have "drop_bit x (push_bit (w - 1) 1) = (2 ^ (w - 1 - x) :: u32)"
    by (rule bit_word_eqI) (use assms in \<open>auto simp: bit_simps\<close>)
  then show ?thesis by (simp add: and_exp_eq_0_iff_not_bit)
qed

section \<open>What a cell shows\<close>

abbreviation (input) font_width :: "fbcon \<Rightarrow> nat" where "font_width f \<equiv> unat (bf_width (fbcon_font f))"
abbreviation (input) font_height :: "fbcon \<Rightarrow> nat" where "font_height f \<equiv> unat (bf_height (fbcon_font f))"
abbreviation (input) fb_width :: "fbcon \<Rightarrow> nat" where "fb_width f \<equiv> unat (vbe_width (mode_info (fbcon_info f)))"
abbreviation (input) fb_height :: "fbcon \<Rightarrow> nat" where "fb_height f \<equiv> unat (vbe_height (mode_info (fbcon_info f)))"
abbreviation (input) fb_pitch :: "fbcon \<Rightarrow> nat" where "fb_pitch f \<equiv> unat (vbe_pitch (mode_info (fbcon_info f)))"
abbreviation (input) fb_start :: "fbcon \<Rightarrow> nat" where "fb_start f \<equiv> unat (fb_virt_addr (fbcon_info f))"
abbreviation (input) font_start :: "fbcon \<Rightarrow> nat" where "font_start f \<equiv> unat (bf_data (fbcon_font f))"

text \<open>The bytes of a row of a glyph, and of the font with the three bytes that are read after its last row.\<close>

definition row_bytes :: "fbcon \<Rightarrow> nat" where
  "row_bytes f = (font_width f + 7) div 8"

definition font_size :: "fbcon \<Rightarrow> nat" where
  "font_size f = unat (nr_glyph (fbcon_font f)) * (font_height f * row_bytes f) + 4"

text \<open>
  A mode of 32 bits per pixel, a font of at most 32 pixels in width, and both in different places of the memory. The running address of the loops goes
  one line further than the last line that is drawn.
\<close>

definition fb_fits :: "fbcon \<Rightarrow> bool" where
  "fb_fits f \<longleftrightarrow> vbe_bpp (mode_info (fbcon_info f)) = 32 \<and> 0 < font_width f \<and> font_width f \<le> 32 \<and> 0 < font_height f \<and>
     0 < unat (nr_glyph (fbcon_font f)) \<and> unat (bytes_per_glyph (fbcon_font f)) = font_height f * row_bytes f \<and>
     4 * fb_width f \<le> fb_pitch f \<and> fb_start f + (fb_height f + 1) * fb_pitch f \<le> 2 ^ 32 \<and> font_start f + font_size f \<le> 2 ^ 32 \<and>
     (font_start f + font_size f \<le> fb_start f \<or> fb_start f + (fb_height f + 1) * fb_pitch f \<le> font_start f)"

definition fb_pixel :: "fbcon \<Rightarrow> nat \<Rightarrow> nat \<Rightarrow> u32" where
  "fb_pixel f x y = load32 (fb_mem f) (of_nat (fb_start f + y * fb_pitch f + 4 * x))"

text \<open>The dots of a character, from the font; a row is read from its first byte on, the first dot from its highest bit.\<close>

definition glyph_dot :: "fbcon \<Rightarrow> int \<Rightarrow> nat \<Rightarrow> nat \<Rightarrow> bool" where
  "glyph_dot f c x y =
     bit (load32 (fb_mem f) (of_nat (font_start f + (unat (glyph_index (fbcon_font f) c) * font_height f + y) * row_bytes f)))
       (font_width f - 1 - x)"

lemma unat_ucast_pitch: "unat (ucast p :: u32) = unat (p :: u16)"
  using unsigned_less [of p, where ?'a = nat] by (simp add: unsigned_ucast_eq take_bit_nat_eq_self)

lemma glyph_index_less: "0 < unat (nr_glyph font) \<Longrightarrow> unat (glyph_index font c) < unat (nr_glyph font)"
  by (auto simp: glyph_index_def word_less_nat_alt [symmetric] word_gt_0 unat_gt_0 not_le)

lemma row_bytes_word: "font_width f \<le> 32 \<Longrightarrow> unat (drop_bit 3 (bf_width (fbcon_font f) + 7)) = row_bytes f"
  using unat_add_of_nat [of "bf_width (fbcon_font f)" 7]
  by (simp add: row_bytes_def drop_bit_eq_div unat_div)

lemma glyph_data:
  assumes "fb_fits f"
  shows "unat (bf_data (fbcon_font f) + glyph_index (fbcon_font f) c * bytes_per_glyph (fbcon_font f)) =
      font_start f + unat (glyph_index (fbcon_font f) c) * (font_height f * row_bytes f)" (is "?eq")
    and "font_start f + unat (glyph_index (fbcon_font f) c) * (font_height f * row_bytes f) + font_height f * row_bytes f + 4
      \<le> font_start f + font_size f" (is "?le")
proof -
  let ?i = "glyph_index (fbcon_font f) c" and ?g = "font_height f * row_bytes f"
  have "unat ?i * ?g + ?g \<le> unat (nr_glyph (fbcon_font f)) * ?g"
    using row_end glyph_index_less assms by (auto simp: fb_fits_def)
  then show le: ?le by (simp add: font_size_def)
  have g: "unat (bytes_per_glyph (fbcon_font f)) = ?g" using assms by (simp add: fb_fits_def)
  have "bytes_per_glyph (fbcon_font f) = of_nat ?g" unfolding g [symmetric] by simp
  then have "?i * bytes_per_glyph (fbcon_font f) = of_nat (unat ?i * ?g)" by simp
  then show ?eq using le assms unat_add_of_nat [of "bf_data (fbcon_font f)" "unat ?i * ?g"] by (simp add: fb_fits_def)
qed

text \<open>The memory after a character is drawn in the cell of row \<open>y\<close> and column \<open>x\<close>.\<close>

definition draw :: "fbcon \<Rightarrow> nat \<Rightarrow> nat \<Rightarrow> int \<Rightarrow> u32 \<Rightarrow> u32 \<Rightarrow> u32 \<Rightarrow> u8" where
  "draw f x y c bg fg = glyph_lines (font_height f) store32 4 (bf_width (fbcon_font f))
     (bf_data (fbcon_font f) + glyph_index (fbcon_font f) c * bytes_per_glyph (fbcon_font f)) (ucast (vbe_pitch (mode_info (fbcon_info f)))) bg fg
     (cell_addr (of_nat x) (of_nat y) f) (fb_mem f)"

lemma putc_draws:
  assumes "vbe_bpp (mode_info (fbcon_info f)) = 32"
  shows "fbcon_putc (of_nat x) (of_nat y) c f = f\<lparr>fb_mem := draw f x y c (fbcon_bg f) (fbcon_fg f)\<rparr>"
    "fbcon_blank (of_nat x) (of_nat y) f = f\<lparr>fb_mem := draw f x y 0 0 0\<rparr>"
  using assms by (simp_all add: fbcon_putc_def fbcon_blank_def fbcon_putc_32bpp_def fbcon_blank_32bpp_def draw_def Let_def
    blank_lines_glyph [where data = "bf_data (fbcon_font f) + glyph_index (fbcon_font f) 0 * bytes_per_glyph (fbcon_font f)"])

lemma cell_start:
  "cell_addr (of_nat x) (of_nat y) f = of_nat (fb_start f + y * font_height f * fb_pitch f + 4 * (x * font_width f))"
  by (simp add: cell_addr_def Let_def)

text \<open>A cell lies inside the frame buffer.\<close>

lemma cell_inside:
  assumes "fb_fits f" "x < fb_width f div font_width f" "y < fb_height f div font_height f"
  shows "y * font_height f + font_height f \<le> fb_height f" "4 * (x * font_width f) + 4 * font_width f \<le> fb_pitch f"
proof -
  show "y * font_height f + font_height f \<le> fb_height f"
    using row_end [OF assms(3), of "font_height f"] div_times_less_eq_dividend order_trans by blast
  have "x * font_width f + font_width f \<le> fb_width f"
    using row_end [OF assms(2), of "font_width f"] div_times_less_eq_dividend order_trans by blast
  then show "4 * (x * font_width f) + 4 * font_width f \<le> fb_pitch f" using assms(1) by (simp add: fb_fits_def)
qed

lemma draw_bytes:
  assumes "fb_fits f" "x < fb_width f div font_width f" "y < fb_height f div font_height f" "c < 2 ^ 32"
  defines "D \<equiv> fb_start f + y * font_height f * fb_pitch f + 4 * (x * font_width f)"
  shows "draw f x y ch bg fg (of_nat c) =
    (if D \<le> c \<and> (c - D) div fb_pitch f < font_height f \<and> (c - D) mod fb_pitch f < 4 * font_width f
     then byte_of ((c - D) mod fb_pitch f mod 4) (if glyph_dot f ch ((c - D) mod fb_pitch f div 4) ((c - D) div fb_pitch f) then fg else bg)
     else fb_mem f (of_nat c))"
proof -
  let ?data = "bf_data (fbcon_font f) + glyph_index (fbcon_font f) ch * bytes_per_glyph (fbcon_font f)"
  let ?i = "unat (glyph_index (fbcon_font f) ch)"
  note fits = assms(1) [unfolded fb_fits_def]
  note ins = cell_inside [OF assms(1-3)] and gd = glyph_data [OF assms(1), of ch]
  have "(y * font_height f + font_height f) * fb_pitch f + fb_pitch f \<le> (fb_height f + 1) * fb_pitch f"
    using mult_le_mono1 [OF ins(1), of "fb_pitch f"] by simp
  then have D: "D + font_height f * fb_pitch f \<le> fb_start f + (fb_height f + 1) * fb_pitch f" "fb_start f \<le> D"
    using ins(2) unfolding D_def by (simp_all add: algebra_simps)
  have w1: "unat (bf_width (fbcon_font f) - 1) = font_width f - 1" using fits by (simp add: unat_minus_one unat_gt_0)
  have dot: "load32 (fb_mem f) (?data + of_nat (r * row_bytes f)) AND drop_bit q (push_bit (unat (bf_width (fbcon_font f) - 1)) 1) \<noteq> 0
    \<longleftrightarrow> glyph_dot f ch q r" if "q < font_width f" for q r
  proof -
    have "?data = of_nat (font_start f + ?i * (font_height f * row_bytes f))" unfolding gd(1) [symmetric] by simp
    then have data: "?data + of_nat (r * row_bytes f) = of_nat (font_start f + (?i * font_height f + r) * row_bytes f)"
      by (simp add: algebra_simps)
    show ?thesis unfolding data w1 glyph_dot_def by (rule mask_bit) (use that fits in auto)
  qed
  have eq: "draw f x y ch bg fg (of_nat c) =
    (if D \<le> c \<and> (c - D) div fb_pitch f < font_height f \<and> (c - D) mod fb_pitch f < 4 * font_width f
     then byte_of ((c - D) mod fb_pitch f mod 4) (if load32 (fb_mem f) (?data + of_nat ((c - D) div fb_pitch f * row_bytes f)) AND
        drop_bit ((c - D) mod fb_pitch f div 4) (push_bit (unat (bf_width (fbcon_font f) - 1)) 1) \<noteq> 0 then fg else bg)
     else fb_mem f (of_nat c))"
    unfolding draw_def cell_start D_def [symmetric]
    by (rule px32.lines_bytes [unfolded of_nat_numeral])
      (use fits D gd assms(4) row_bytes_word [of f] ins(2) in \<open>auto simp: unat_ucast_pitch\<close>)
  show ?thesis
  proof (cases "(c - D) mod fb_pitch f < 4 * font_width f")
    case True
    then have q: "(c - D) mod fb_pitch f div 4 < font_width f" by (simp add: less_mult_imp_div_less mult.commute)
    show ?thesis unfolding eq dot [OF q] by (rule refl)
  next
    case False
    then show ?thesis unfolding eq by simp
  qed
qed

text \<open>Drawing changes the pixels of the cell, and no byte outside the frame buffer.\<close>

lemma draw_pixel:
  assumes "fb_fits f" "x < fb_width f div font_width f" "y < fb_height f div font_height f" "px < fb_width f" "py < fb_height f"
  shows "load32 (draw f x y ch bg fg) (of_nat (fb_start f + py * fb_pitch f + 4 * px)) =
    (if px div font_width f = x \<and> py div font_height f = y
     then (if glyph_dot f ch (px mod font_width f) (py mod font_height f) then fg else bg) else fb_pixel f px py)" (is "load32 ?m ?a = ?v")
proof -
  let ?w = "font_width f" and ?h = "font_height f" and ?P = "fb_pitch f" and ?F = "fb_start f"
  note fits = assms(1) [unfolded fb_fits_def]
  note ins = cell_inside [OF assms(1-3)]
  have row: "py * ?P + ?P \<le> fb_height f * ?P" using row_end [OF assms(5)] .
  have here: "px div ?w = x \<and> py div ?h = y \<longleftrightarrow> y * ?h \<le> py \<and> py < y * ?h + ?h \<and> x * ?w \<le> px \<and> px < x * ?w + ?w"
    using fits div_eq_iff_in by auto
  have byte: "?m (of_nat (?F + py * ?P + (4 * px + k))) =
      (if px div ?w = x \<and> py div ?h = y then byte_of k (if glyph_dot f ch (px mod ?w) (py mod ?h) then fg else bg)
       else fb_mem f (of_nat (?F + py * ?P + (4 * px + k))))" if "k < 4" for k
  proof -
    have k: "4 * px + k < ?P" using fits assms(4) that by linarith
    have c: "?F + py * ?P + (4 * px + k) < 2 ^ 32" using fits row k by (simp add: algebra_simps)
    note rect = in_rectangle(1) [OF k ins(2), of ?F "y * ?h" py ?h] in_rectangle(2) [OF k ins(2), of "y * ?h" py ?F]
    show ?thesis
    proof (cases "px div ?w = x \<and> py div ?h = y")
      case True
      then have "4 * px + k - 4 * (x * ?w) = 4 * (px mod ?w) + k" "py - y * ?h = py mod ?h"
        by (auto simp: minus_div_mult_eq_mod [symmetric] algebra_simps)
      moreover have le: "y * ?h \<le> py" "4 * (x * ?w) \<le> 4 * px + k" using True here by auto
      moreover have "y * ?h \<le> py \<and> py < y * ?h + ?h \<and> 4 * (x * ?w) \<le> 4 * px + k \<and> 4 * px + k < 4 * (x * ?w) + 4 * ?w"
        using True here that by auto
      note in_cell = rect(1) [THEN iffD2, OF this]
      moreover have "(4 * (px mod ?w) + k) mod 4 = k" "(4 * (px mod ?w) + k) div 4 = px mod ?w" using that by simp_all
      ultimately show ?thesis
        unfolding draw_bytes [OF assms(1-3) c] if_P [OF in_cell] if_P [OF True] using rect(2) by presburger
    next
      case False
      then have "\<not> (y * ?h \<le> py \<and> py < y * ?h + ?h \<and> 4 * (x * ?w) \<le> 4 * px + k \<and> 4 * px + k < 4 * (x * ?w) + 4 * ?w)"
        using here that by auto
      note out = this [folded rect(1)]
      show ?thesis unfolding draw_bytes [OF assms(1-3) c] if_not_P [OF out] if_not_P [OF False] by (rule refl)
    qed
  qed
  show ?thesis
  proof (cases "px div ?w = x \<and> py div ?h = y")
    case True
    then show ?thesis by (simp only: if_True) (rule load32_bytes, use byte in \<open>simp add: add.assoc del: of_nat_add of_nat_mult\<close>)
  next
    case False
    have "load32 ?m ?a = load32 (fb_mem f) ?a" using byte [of 0] byte [of 1] byte [of 2] byte [of 3] False
      by (simp add: load32_def ac_simps)
    then show ?thesis unfolding fb_pixel_def if_not_P [OF False] .
  qed
qed

lemma draw_outside:
  assumes "fb_fits f" "x < fb_width f div font_width f" "y < fb_height f div font_height f"
    and "c < 2 ^ 32" "c < fb_start f \<or> fb_start f + (fb_height f + 1) * fb_pitch f \<le> c"
  shows "draw f x y ch bg fg (of_nat c) = fb_mem f (of_nat c)"
proof -
  let ?D = "fb_start f + y * font_height f * fb_pitch f + 4 * (x * font_width f)" and ?P = "fb_pitch f"
  note ins = cell_inside [OF assms(1-3)]
  have "\<not> (?D \<le> c \<and> (c - ?D) div ?P < font_height f \<and> (c - ?D) mod ?P < 4 * font_width f)"
  proof
    assume in_cell: "?D \<le> c \<and> (c - ?D) div ?P < font_height f \<and> (c - ?D) mod ?P < 4 * font_width f"
    then have "(c - ?D) div ?P * ?P + ?P \<le> font_height f * ?P" by (intro row_end) simp
    moreover have "y * font_height f * ?P + font_height f * ?P \<le> fb_height f * ?P"
      using mult_le_mono1 [OF ins(1), of ?P] by (simp only: add_mult_distrib)
    moreover have "c - ?D = (c - ?D) div ?P * ?P + (c - ?D) mod ?P" by simp
    ultimately have "c < fb_start f + (fb_height f * ?P + ?P)" "fb_start f \<le> c" using in_cell ins(2) by linarith+
    then have "c < fb_start f + (fb_height f + 1) * ?P" "fb_start f \<le> c" by simp_all
    then show False using assms(5) by linarith
  qed
  then show ?thesis unfolding draw_bytes [OF assms(1-4)] by (rule if_not_P)
qed

lemma draw_keeps_font:
  assumes "fb_fits f" "x < fb_width f div font_width f" "y < fb_height f div font_height f" "j < font_height f"
  shows "glyph_dot (f\<lparr>fb_mem := draw f x y ch bg fg\<rparr>) d i j = glyph_dot f d i j"
proof -
  let ?i = "unat (glyph_index (fbcon_font f) d)" and ?h = "font_height f" and ?L = "row_bytes f"
  let ?a = "font_start f + (?i * ?h + j) * ?L"
  note fits = assms(1) [unfolded fb_fits_def]
  have "(?i * ?h + j) * ?L \<le> ?i * (?h * ?L) + ?h * ?L" using assms(4) by (simp add: algebra_simps)
  then have a: "?a + 4 \<le> font_start f + font_size f" using glyph_data(2) [OF assms(1), of d] by linarith
  then have u: "unat (of_nat ?a :: u32) = ?a" using fits by (intro unat_of_nat_u32) simp
  have "load32 (draw f x y ch bg fg) (of_nat ?a) = load32 (fb_mem f) (of_nat ?a)"
    by (rule load32_cong; unfold u) (use a fits in \<open>auto intro!: draw_outside [OF assms(1-3)]\<close>)
  then show ?thesis by (simp add: glyph_dot_def row_bytes_def del: of_nat_add of_nat_mult)
qed

text \<open>A cell shows a character in some colours; the empty character is black on black.\<close>

definition cell_shows :: "fbcon \<Rightarrow> u8 \<Rightarrow> nat \<Rightarrow> nat \<Rightarrow> bool" where
  "cell_shows f c x y \<longleftrightarrow> (\<exists>bg fg. (c = 0 \<longrightarrow> bg = 0 \<and> fg = 0) \<and>
     (\<forall>i<font_width f. \<forall>j<font_height f. fb_pixel f (x * font_width f + i) (y * font_height f + j) =
        (if glyph_dot f (sint c) i j then fg else bg)))"

lemma draw_shows:
  assumes "fb_fits f" "x < fb_width f div font_width f" "y < fb_height f div font_height f" "c = 0 \<Longrightarrow> bg = 0 \<and> fg = 0"
  defines "f' \<equiv> f\<lparr>fb_mem := draw f x y (sint c) bg fg\<rparr>"
  shows "fb_fits f'" "cell_shows f' c x y"
    and "\<lbrakk> u < fb_width f div font_width f; v < fb_height f div font_height f; (u, v) \<noteq> (x, y); cell_shows f d u v \<rbrakk> \<Longrightarrow> cell_shows f' d u v"
proof -
  let ?w = "font_width f" and ?h = "font_height f"
  show "fb_fits f'" using assms(1) by (simp add: fb_fits_def f'_def font_size_def row_bytes_def)
  have px: "fb_pixel f' (u * ?w + i) (v * ?h + j) =
      (if (u, v) = (x, y) then (if glyph_dot f (sint c) i j then fg else bg) else fb_pixel f (u * ?w + i) (v * ?h + j))"
    if "u < fb_width f div ?w" "v < fb_height f div ?h" "i < ?w" "j < ?h" for u v i j
  proof -
    have "u * ?w + ?w \<le> fb_width f" "v * ?h + ?h \<le> fb_height f"
      using row_end [OF that(1), of ?w] row_end [OF that(2), of ?h] div_times_less_eq_dividend order_trans by blast+
    then show ?thesis using draw_pixel [OF assms(1-3), of "u * ?w + i" "v * ?h + j"] that
      by (auto simp: f'_def fb_pixel_def)
  qed
  have dot: "glyph_dot f' d i j = glyph_dot f d i j" if "j < ?h" for d i j
    unfolding f'_def by (rule draw_keeps_font [OF assms(1-3) that])
  have same: "font_width f' = ?w" "font_height f' = ?h" by (simp_all add: f'_def)
  show "cell_shows f' c x y" unfolding cell_shows_def same
    by (intro exI [of _ bg] exI [of _ fg]) (use assms(2-4) px dot in auto)
  show "cell_shows f' d u v" if uv: "u < fb_width f div ?w" "v < fb_height f div ?h" "(u, v) \<noteq> (x, y)" and "cell_shows f d u v"
  proof -
    from \<open>cell_shows f d u v\<close> obtain b g where "d = 0 \<longrightarrow> b = 0 \<and> g = 0"
      "\<forall>i<?w. \<forall>j<?h. fb_pixel f (u * ?w + i) (v * ?h + j) = (if glyph_dot f (sint d) i j then g else b)"
      unfolding cell_shows_def by blast
    then show ?thesis unfolding cell_shows_def same
      by (intro exI [of _ b] exI [of _ g]) (use px [OF uv(1,2), unfolded if_not_P [OF uv(3)]] dot in simp)
  qed
qed

section \<open>The driver of a console\<close>

text \<open>The call for a character of the screen.\<close>

definition char_call :: "nat \<Rightarrow> nat \<Rightarrow> u8 \<Rightarrow> vc_call" where
  "char_call x y c = (if c = 0 then Call_blank (of_nat x) (of_nat y) else Call_putc (of_nat x) (of_nat y) (sint c))"

lemma flush_char_call:
  assumes "vc_sized vc" "p < rows vc * cols vc"
  shows "flush_call vc p = char_call (p mod cols vc) (p div cols vc) (vc_scr_buf vc ! p)"
proof -
  have "of_nat p mod vc_width vc = of_nat (p mod cols vc)" "of_nat p div vc_width vc = of_nat (p div cols vc)"
    unfolding div_mod_pos [OF assms, symmetric] by simp_all
  then show ?thesis by (simp add: flush_call_def char_call_def Let_def)
qed

text \<open>
  What the console relies on: after the call for a character the cell shows it, and the other cells show what they did. \<open>seen s c x y\<close> says that
  the device shows character \<open>c\<close> in column \<open>x\<close> of row \<open>y\<close>.
\<close>

locale char_display =
  fixes drv :: "vc_call \<Rightarrow> 's \<Rightarrow> 's kres" and ok :: "'s \<Rightarrow> bool" and nx ny :: "'s \<Rightarrow> nat"
    and seen :: "'s \<Rightarrow> u8 \<Rightarrow> nat \<Rightarrow> nat \<Rightarrow> bool"
  assumes char_seen: "\<lbrakk> ok s; x < nx s; y < ny s \<rbrakk> \<Longrightarrow>
    \<exists>s'. drv (char_call x y c) s = Ret s' \<and> ok s' \<and> nx s' = nx s \<and> ny s' = ny s \<and> seen s' c x y \<and>
      (\<forall>u<nx s. \<forall>v<ny s. \<forall>d. (u, v) \<noteq> (x, y) \<longrightarrow> seen s d u v \<longrightarrow> seen s' d u v)"
begin

lemma flush_seen:
  assumes "vc_sized vc" "ok s" "nx s = cols vc" "ny s = rows vc" "n \<le> rows vc * cols vc"
    and "\<And>x y. x < cols vc \<Longrightarrow> y < rows vc \<Longrightarrow> seen s (vc_cur_buf vc ! (y * cols vc + x)) x y"
  shows "\<exists>s'. foldk drv (flush_calls n vc) s = Ret s' \<and> ok s' \<and> nx s' = cols vc \<and> ny s' = rows vc \<and>
    (\<forall>x<cols vc. \<forall>y<rows vc. seen s' ((take n (vc_scr_buf vc) @ drop n (vc_cur_buf vc)) ! (y * cols vc + x)) x y)"
  using assms(5)
proof (induction n)
  case 0
  then show ?case using assms by (simp add: flush_calls_def)
next
  case (Suc n)
  note z = vc_sizedD [OF assms(1)]
  let ?b = "\<lambda>n. take n (vc_scr_buf vc) @ drop n (vc_cur_buf vc)" and ?x = "n mod cols vc" and ?y = "n div cols vc"
  have n: "n < rows vc * cols vc" using Suc.prems by simp
  from Suc obtain t where t: "foldk drv (flush_calls n vc) s = Ret t" "ok t" "nx t = cols vc" "ny t = rows vc"
    "\<And>x y. x < cols vc \<Longrightarrow> y < rows vc \<Longrightarrow> seen t (?b n ! (y * cols vc + x)) x y" by auto
  have b: "?b (Suc n) ! (y * cols vc + x) = (if y * cols vc + x = n then vc_scr_buf vc ! n else ?b n ! (y * cols vc + x))"
    if "x < cols vc" "y < rows vc" for x y
    using cell_pos [OF that(2,1)] n z by (auto simp: nth_take_drop less_Suc_eq simp del: take_Suc drop_Suc)
  have at: "y * cols vc + x = n \<longleftrightarrow> (x, y) = (?x, ?y)" if "x < cols vc" for x y using that by auto
  show ?case
  proof (cases "vc_scr_buf vc ! n = vc_cur_buf vc ! n")
    case True
    then have "?b (Suc n) ! (y * cols vc + x) = ?b n ! (y * cols vc + x)" if "x < cols vc" "y < rows vc" for x y
      using b [OF that] n z by (auto simp: nth_append)
    then show ?thesis using t True by (simp add: flush_calls_def del: take_Suc drop_Suc)
  next
    case False
    have xy: "?x < nx t" "?y < ny t" using n t(3,4) z(1) by (simp_all add: less_mult_imp_div_less)
    from char_seen [OF t(2) xy, of "vc_scr_buf vc ! n"] obtain u where
      u: "drv (flush_call vc n) t = Ret u" "ok u" "nx u = cols vc" "ny u = rows vc" "seen u (vc_scr_buf vc ! n) ?x ?y"
      "\<And>x y d. x < cols vc \<Longrightarrow> y < rows vc \<Longrightarrow> (x, y) \<noteq> (?x, ?y) \<Longrightarrow> seen t d x y \<Longrightarrow> seen u d x y"
      unfolding flush_char_call [OF assms(1) n] t(3,4) by blast
    have "seen u (?b (Suc n) ! (y * cols vc + x)) x y" if "x < cols vc" "y < rows vc" for x y
      using b [OF that] at [OF that(1)] t(5) [OF that] u(5) u(6) [OF that] by (cases "(x, y) = (?x, ?y)") simp_all
    moreover have "foldk drv (flush_calls (Suc n) vc) s = Ret u"
      using t(1) u(1) False by (simp add: flush_calls_def foldk_append)
    ultimately show ?thesis using u(2-4) by blast
  qed
qed

end

interpretation fb: char_display vc_fbcon_driver fb_fits "\<lambda>f. fb_width f div font_width f" "\<lambda>f. fb_height f div font_height f" cell_shows
proof
  fix f x y and c :: u8
  assume a: "fb_fits f" "x < fb_width f div font_width f" "y < fb_height f div font_height f"
  define bg fg where "bg = (if c = 0 then 0 else fbcon_bg f)" and "fg = (if c = 0 then 0 else fbcon_fg f)"
  have "vc_fbcon_driver (char_call x y c) f = Ret (f\<lparr>fb_mem := draw f x y (sint c) bg fg\<rparr>)"
    using a(1) by (simp add: char_call_def putc_draws fb_fits_def bg_def fg_def)
  moreover have "c = 0 \<Longrightarrow> bg = 0 \<and> fg = 0" by (simp add: bg_def fg_def)
  note draw_shows [OF a this]
  ultimately show "\<exists>s'. vc_fbcon_driver (char_call x y c) f = Ret s' \<and> fb_fits s' \<and>
      fb_width s' div font_width s' = fb_width f div font_width f \<and> fb_height s' div font_height s' = fb_height f div font_height f \<and>
      cell_shows s' c x y \<and> (\<forall>u<fb_width f div font_width f. \<forall>v<fb_height f div font_height f. \<forall>d.
        (u, v) \<noteq> (x, y) \<longrightarrow> cell_shows f d u v \<longrightarrow> cell_shows s' d u v)"
    by (intro exI [of _ "f\<lparr>fb_mem := draw f x y (sint c) bg fg\<rparr>"]) simp
qed

end
