(* ===== verification/Fbcon_Console.thy ===== *)
theory Fbcon_Console
  imports Fbcon_Props Console_Tty
begin

text \<open>
  The consoles on the frame buffer: registration of the driver by \<^verbatim>\<open>fbcon_init\<close>, and what a flush of a console leaves in the frame buffer.
\<close>

text \<open>
  The end of \<^verbatim>\<open>fbcon_init\<close>. What the driver answers about its dimensions is part of the driver, so that \<^verbatim>\<open>fbcon_get_dimensions\<close> is evaluated here, and not in
  \<^verbatim>\<open>vc_init\<close>.
\<close>

definition fbcon_register :: "fbcon \<Rightarrow> 'a con_state_scheme \<Rightarrow> 'a con_state_scheme kres" where
  "fbcon_register f s =
     bindk (fbcon_get_dimensions f) (\<lambda>d.
     foldk (\<lambda>i. register_vc_driver (int i) (Some \<lparr>vcd_dimensions = d\<rparr>)) [0..<NR_VIRTUAL_CONSOLES] s)"

lemma fbcon_register_all:
  assumes "fbcon_get_dimensions f = Ret d"
  shows "\<exists>s'. fbcon_register f s = Ret s' \<and> vc_table s' = vc_table s \<and>
    (\<forall>i. vc_driver_table s' i = (if i < NR_VIRTUAL_CONSOLES then Some \<lparr>vcd_dimensions = d\<rparr> else vc_driver_table s i))"
  using assms by (simp add: fbcon_register_def register_vc_driver_def upt_rec)

lemma get_dimensions_cells:
  assumes "fbcon_get_dimensions f = Ret (w, h)"
  shows "unat w = fb_width f div font_width f" "unat h = fb_height f div font_height f"
  using assms by (auto simp: fbcon_get_dimensions_def Let_def unat_div unat_ucast_pitch split: if_splits)


text \<open>A frame buffer of 32 by 4 pixels and a font of 8 by 2 pixels whose dots alternate.\<close>

definition demo_fb :: fbcon where
  "demo_fb = \<lparr>fbcon_info = \<lparr>mode_info = \<lparr>vbe_pitch = 128, vbe_width = 32, vbe_height = 4, vbe_bpp = 32\<rparr>, fb_virt_addr = 0x1000\<rparr>,
     fbcon_font = \<lparr>bf_height = 2, bf_width = 8, bytes_per_glyph = 2, nr_glyph = 128, bf_data = 0x100\<rparr>,
     fbcon_fg = 0xFFFFFF, fbcon_bg = 0x0000AA, fb_mem = (\<lambda>a. if a < 0x800 then 0xAA else 0)\<rparr>"

lemma demo_fb_fits: "fb_fits demo_fb"
  by (simp add: fb_fits_def demo_fb_def font_size_def row_bytes_def)

lemma demo_fb_dimensions: "fbcon_get_dimensions demo_fb = Ret (4, 2)"
  by (simp add: fbcon_get_dimensions_def demo_fb_def)

lemma demo_fb_blank:
  assumes "4096 \<le> k" "k + 4 \<le> 2 ^ 32"
  shows "load32 (fb_mem demo_fb) (of_nat k) = 0"
proof -
  have "load32 (fb_mem demo_fb) (of_nat k) = load32 (\<lambda>_. 0) (of_nat k)"
    by (rule load32_cong) (use assms in \<open>auto simp: unat_of_nat_u32 demo_fb_def word_less_nat_alt\<close>)
  then show ?thesis by (simp add: load32_def)
qed

lemma demo_fb_shows:
  assumes "x < 4" "y < 2"
  shows "cell_shows demo_fb 0 x y"
proof -
  have "fb_pixel demo_fb (x * 8 + i) (y * 2 + j) = 0" if "i < 8" "j < 2" for i j
    unfolding fb_pixel_def by (rule demo_fb_blank) (use assms that in \<open>simp_all add: demo_fb_def\<close>)
  then show ?thesis by (simp add: cell_shows_def demo_fb_def)
qed

definition demo_text :: virtual_console where
  "demo_text = demo_vc\<lparr>vc_scr_buf := [97, 98, 0, 0, 0, 0, 0, 99]\<rparr>"


section \<open>Findings\<close>

text \<open>The bright colours are not in the table that is used for bold characters.\<close>

lemma bold_bright_color_faults:
  assumes "vbe_bpp (mode_info (fbcon_info f)) = 32" "ANSI_FG_BRIGHT_COLOR_BASE \<le> fg_indexed a" "fg_indexed a \<le> ANSI_FG_BRIGHT_WHITE"
    and "bg_indexed a = ANSI_BG_DEFAULT" "a_attr a = VC_BOLD"
  shows "fbcon_set_attr a INDEXED_COLOR f = Stop (Fault ''ansi_colors'')"
proof -
  have u: "90 \<le> unat (fg_indexed a)" "unat (fg_indexed a) \<le> 97" using assms(2,3) by (simp_all add: word_le_nat_alt)
  have "unat (fg_indexed a - 90) = unat (fg_indexed a) - 90" "unat (fg_indexed a - 30) = unat (fg_indexed a) - 30"
    using u by (simp_all add: unat_sub word_le_nat_alt)
  moreover have "\<not> fg_indexed a \<le> 39" using u by (simp add: word_le_nat_alt)
  ultimately show ?thesis
    using assms u by (simp add: fbcon_set_attr_def fbcon_set_attr_32bpp_def indexed_color_def color_at_def apply_attr_def
      ansi_colors_bright_bg_32rgb_def ansi_colors_bg_32rgb_def ansi_colors_bright_fg_32rgb_def)
qed

text \<open>With pixels of two bytes the cells of a row are four bytes per pixel apart all the same.\<close>

lemma cells_of_16bpp_apart:
  "vbe_bpp (mode_info (fbcon_info f)) = 16 \<Longrightarrow> cell_addr (x + 1) y f = cell_addr x y f + bf_width (fbcon_font f) * 4"
  by (simp add: cell_addr_def Let_def algebra_simps)

end
