(* ===== verification/Processor.thy ===== *)
theory Processor
  imports Ata
begin

text \<open>
  The processor's tables and the interrupt controller: \<^verbatim>\<open>idt.c\<close>, \<^verbatim>\<open>exceptions.c\<close>, \<^verbatim>\<open>descriptor_table.c\<close>, \<^verbatim>\<open>cpu_state.c\<close>, \<^verbatim>\<open>pic_8259.c\<close> and \<^verbatim>\<open>driver_irq.c\<close> of
  \<^verbatim>\<open>sys/arch/i386\<close>, the table of drivers of \<^verbatim>\<open>sys/include/drivers/driver.h\<close>, and the timer chip of \<^verbatim>\<open>sys/drivers/pit.c\<close>. The addresses of the assembly routines
  that the gates lead to are arguments.
\<close>

section \<open>Interrupt descriptors\<close>

abbreviation (input) IDT_32BIT_INT_GATE :: u8 where "IDT_32BIT_INT_GATE \<equiv> 0xE"
abbreviation (input) IDT_32BIT_TRAP_GATE :: u8 where "IDT_32BIT_TRAP_GATE \<equiv> 0xF"
abbreviation (input) IDT_ENTRY_PRESENT :: u8 where "IDT_ENTRY_PRESENT \<equiv> 0x80"
abbreviation (input) IDT_ENTRIES :: nat where "IDT_ENTRIES \<equiv> 256"
abbreviation (input) IDT_LIMIT :: u16 where "IDT_LIMIT \<equiv> 0x7FF"
abbreviation (input) DPL_0 :: u8 where "DPL_0 \<equiv> 0"
abbreviation (input) DPL_3 :: u8 where "DPL_3 \<equiv> 3"
abbreviation (input) KERNEL_CS_SELECTOR :: u16 where "KERNEL_CS_SELECTOR \<equiv> 8"
abbreviation (input) IRQ_BASE :: nat where "IRQ_BASE \<equiv> 32"

record idt_entry =
  offset_low :: u16
  segment_selector :: u16
  ie_zero :: u8
  type_attr :: u8
  offset_high :: u16

text \<open>The tables, and what the processor was told about the first one.\<close>

record cpu_tables =
  idt :: "nat \<Rightarrow> idt_entry"
  idtr :: "u16 \<times> u32"
  gdt :: "nat \<Rightarrow> u8"

definition set_idt_entry :: "int \<Rightarrow> u32 \<Rightarrow> u16 \<Rightarrow> u8 \<Rightarrow> u8 \<Rightarrow> 'a cpu_tables_scheme \<Rightarrow> 'a cpu_tables_scheme kres" where
  "set_idt_entry n offset selector dpl type t =
     (if int IDT_ENTRIES \<le> n then Ret t
      else if n < 0 then Stop (Fault ''idt'')
      else Ret (t\<lparr>idt := (idt t)(nat n := \<lparr>offset_low = ucast (offset AND 0xFFFF), segment_selector = selector, ie_zero = 0,
             type_attr = type OR IDT_ENTRY_PRESENT OR push_bit 5 dpl, offset_high = ucast (drop_bit 16 offset AND 0xFFFF)\<rparr>)\<rparr>))"

text \<open>The entry points of the exceptions.\<close>

datatype exc_stub = Div_by_zero | Debug | Nmi | Breakpoint | Overflow | Bound_range_exceeded | Invalid_opcode | Dev_not_available
  | Double_fault | Invalid_tss | Segment_not_present | Stack_segment_fault | Gp_fault | Page_fault | Reserved
  | X87_floating_point | Alignment_check | Machine_check | Simd_floating_point | Virtualization | Control_protection

definition exceptions_table :: "(nat \<times> exc_stub) list" where
  "exceptions_table = [(0, Div_by_zero), (1, Debug), (2, Nmi), (3, Breakpoint), (4, Overflow), (5, Bound_range_exceeded),
     (6, Invalid_opcode), (7, Dev_not_available), (8, Double_fault), (10, Invalid_tss), (11, Segment_not_present),
     (12, Stack_segment_fault), (13, Gp_fault), (14, Page_fault), (15, Reserved), (16, X87_floating_point), (17, Alignment_check),
     (18, Machine_check), (19, Simd_floating_point), (20, Virtualization), (21, Control_protection)]"

definition exceptions_init :: "(exc_stub \<Rightarrow> u32) \<Rightarrow> 'a cpu_tables_scheme \<Rightarrow> 'a cpu_tables_scheme kres" where
  "exceptions_init stub t =
     foldk (\<lambda>(n, x). set_idt_entry (int n) (stub x) KERNEL_CS_SELECTOR DPL_0 IDT_32BIT_TRAP_GATE)
       (exceptions_table @ map (\<lambda>i. (i, Reserved)) [22..<32]) t"

definition idt_init :: "u32 \<Rightarrow> (exc_stub \<Rightarrow> u32) \<Rightarrow> u32 \<Rightarrow> 'a cpu_tables_scheme \<Rightarrow> 'a cpu_tables_scheme kres" where
  "idt_init ignore_interrupt stub idt_at t =
     bindk (foldk (\<lambda>i. set_idt_entry (int i) ignore_interrupt KERNEL_CS_SELECTOR DPL_0 IDT_32BIT_INT_GATE) [IRQ_BASE..<IDT_ENTRIES] t) (\<lambda>t.
     bindk (exceptions_init stub t) (\<lambda>t. Ret (t\<lparr>idtr := (IDT_LIMIT, idt_at)\<rparr>)))"

text \<open>
  An exception ends the process, except for a page fault, which has a handler. \<open>exit\<close> is \<^verbatim>\<open>kernel_exit\<close> and \<open>page_fault\<close> is \<^verbatim>\<open>handle_page_fault\<close>; the
  kernel is configured not to panic.
\<close>

definition handle_exception :: "(int \<Rightarrow> 's \<Rightarrow> 's kres) \<Rightarrow> u32 \<Rightarrow> (u32 \<Rightarrow> 's \<Rightarrow> 's kres) option \<Rightarrow> 's \<Rightarrow> 's kres" where
  "handle_exception exit error handler s = (case handler of Some f \<Rightarrow> f error s | None \<Rightarrow> exit 11 s)"

definition do_exception :: "(int \<Rightarrow> 's \<Rightarrow> 's kres) \<Rightarrow> (u32 \<Rightarrow> 's \<Rightarrow> 's kres) \<Rightarrow> exc_stub \<Rightarrow> u32 \<Rightarrow> 's \<Rightarrow> 's kres" where
  "do_exception exit page_fault x error = handle_exception exit error (if x = Page_fault then Some page_fault else None)"

section \<open>Segment descriptors\<close>

abbreviation (input) GDT_ENTRY_SIZE :: nat where "GDT_ENTRY_SIZE \<equiv> 8"
abbreviation (input) GDT_ENTRIES :: nat where "GDT_ENTRIES \<equiv> 6"
abbreviation (input) SEG_TYPE_DATA_RW :: u8 where "SEG_TYPE_DATA_RW \<equiv> 2"
abbreviation (input) SEG_TYPE_CODE_RX :: u8 where "SEG_TYPE_CODE_RX \<equiv> 0xA"
abbreviation (input) SEG_TYPE_TSS :: u8 where "SEG_TYPE_TSS \<equiv> 9"
abbreviation (input) DESC_TYPE_CODE_DATA :: u8 where "DESC_TYPE_CODE_DATA \<equiv> 0x10"
abbreviation (input) SEG_PRESENT :: u8 where "SEG_PRESENT \<equiv> 0x80"
abbreviation (input) SEG_32_BIT :: u8 where "SEG_32_BIT \<equiv> 4"
abbreviation (input) SEG_GRANULARITY :: u8 where "SEG_GRANULARITY \<equiv> 8"
abbreviation (input) KERNEL_CS_ENTRY :: int where "KERNEL_CS_ENTRY \<equiv> 1"
abbreviation (input) KERNEL_DS_ENTRY :: int where "KERNEL_DS_ENTRY \<equiv> 2"
abbreviation (input) USER_CS_ENTRY :: int where "USER_CS_ENTRY \<equiv> 3"
abbreviation (input) USER_DS_ENTRY :: int where "USER_DS_ENTRY \<equiv> 4"
abbreviation (input) TSS_ENTRY :: int where "TSS_ENTRY \<equiv> 5"
abbreviation (input) USER_DS_SELECTOR :: u32 where "USER_DS_SELECTOR \<equiv> 0x23"
abbreviation (input) KERNEL_SS_SELECTOR :: u32 where "KERNEL_SS_SELECTOR \<equiv> 0x10"

datatype desc_table = GDT | LDT

text \<open>The result is the pointer after the last step, as an index of the table.\<close>

definition set_dt_entry :: "desc_table \<Rightarrow> int \<Rightarrow> u32 \<Rightarrow> u32 \<Rightarrow> u8 \<Rightarrow> u8 \<Rightarrow> u8 \<Rightarrow> 'a cpu_tables_scheme \<Rightarrow>
    (nat option \<times> 'a cpu_tables_scheme) kres" where
  "set_dt_entry table num limit base dpl type attr t =
     (if table = LDT \<or> int GDT_ENTRIES \<le> num then Ret (None, t)
      else if num < 0 then Stop (Fault ''gdt'')
      else let p = nat num * GDT_ENTRY_SIZE in
        Ret (Some (p + 7), t\<lparr>gdt := (gdt t)(p := ucast limit, p + 1 := ucast (drop_bit 8 limit),
          p + 2 := ucast base, p + 3 := ucast (drop_bit 8 base), p + 4 := ucast (drop_bit 16 base),
          p + 5 := type OR SEG_PRESENT OR push_bit 5 dpl,
          p + 6 := ucast (drop_bit 16 limit AND 0xF) OR push_bit 4 attr, p + 7 := ucast (drop_bit 24 base))\<rparr>))"

text \<open>The size of \<^verbatim>\<open>struct tss\<close> is 104.\<close>

definition gdt_init :: "u32 \<Rightarrow> 'a cpu_tables_scheme \<Rightarrow> 'a cpu_tables_scheme kres" where
  "gdt_init tss_at t =
     (let cs_attr = SEG_GRANULARITY OR SEG_32_BIT; ds_attr = SEG_GRANULARITY OR SEG_32_BIT in
      bindk (set_dt_entry GDT KERNEL_CS_ENTRY 0xFFFFFFFF 0 DPL_0 (SEG_TYPE_CODE_RX OR DESC_TYPE_CODE_DATA) cs_attr t) (\<lambda>(_, t).
      bindk (set_dt_entry GDT KERNEL_DS_ENTRY 0xFFFFFFFF 0 DPL_0 (SEG_TYPE_DATA_RW OR DESC_TYPE_CODE_DATA) ds_attr t) (\<lambda>(_, t).
      bindk (set_dt_entry GDT USER_CS_ENTRY 0xFFFFFFFF 0 DPL_3 (SEG_TYPE_CODE_RX OR DESC_TYPE_CODE_DATA) cs_attr t) (\<lambda>(_, t).
      bindk (set_dt_entry GDT USER_DS_ENTRY 0xFFFFFFF 0 DPL_3 (SEG_TYPE_DATA_RW OR DESC_TYPE_CODE_DATA) ds_attr t) (\<lambda>(_, t).
      bindk (set_dt_entry GDT TSS_ENTRY 104 tss_at DPL_0 SEG_TYPE_TSS SEG_32_BIT t) (\<lambda>(_, t). Ret t))))))"

section \<open>Registers of a process\<close>

record i386_cpu_state =
  r_ebp :: u32
  r_edi :: u32
  r_esi :: u32
  r_edx :: u32
  r_ecx :: u32
  r_ebx :: u32
  r_eax :: u32
  r_gs :: u32
  r_fs :: u32
  r_es :: u32
  r_ds :: u32
  r_error :: u32
  r_eip :: u32
  r_cs :: u32
  r_eflags :: u32
  r_esp :: u32
  r_ss :: u32
  r_cr3 :: u32
  r_kernel_stack :: u32
  r_iret_frame :: u32
  r_kernel_eflags :: u32
  r_next_cr3 :: u32

text \<open>The fields of the task state segment that are used.\<close>

record tss =
  esp0 :: u32
  ss0 :: u32

definition cpu_state_init :: "u32 \<Rightarrow> i386_cpu_state \<Rightarrow> tss \<Rightarrow> i386_cpu_state \<times> tss" where
  "cpu_state_init boot_stack c t = (c\<lparr>r_kernel_stack := boot_stack\<rparr>, t\<lparr>ss0 := KERNEL_SS_SELECTOR, esp0 := boot_stack\<rparr>)"

text \<open>What lies before \<^verbatim>\<open>ss\<close> is copied, \<^verbatim>\<open>esp\<close> included.\<close>

definition cpu_state_save :: "i386_cpu_state \<Rightarrow> i386_cpu_state \<Rightarrow> i386_cpu_state" where
  "cpu_state_save new c =
     (let c = c\<lparr>r_ebp := r_ebp new, r_edi := r_edi new, r_esi := r_esi new, r_edx := r_edx new, r_ecx := r_ecx new, r_ebx := r_ebx new,
        r_eax := r_eax new, r_gs := r_gs new, r_fs := r_fs new, r_es := r_es new, r_ds := r_ds new, r_error := r_error new,
        r_eip := r_eip new, r_cs := r_cs new, r_eflags := r_eflags new, r_esp := r_esp new\<rparr>
      in if r_ss new = USER_DS_SELECTOR then c\<lparr>r_ss := r_ss new, r_esp := r_esp new\<rparr> else c)"

section \<open>Interrupt controller\<close>

abbreviation (input) PIC1_CMD :: u16 where "PIC1_CMD \<equiv> 0x20"
abbreviation (input) PIC2_CMD :: u16 where "PIC2_CMD \<equiv> 0xA0"
abbreviation (input) PIC1_DATA :: u16 where "PIC1_DATA \<equiv> 0x21"
abbreviation (input) PIC2_DATA :: u16 where "PIC2_DATA \<equiv> 0xA1"
abbreviation (input) PIC1_OFFSET :: u8 where "PIC1_OFFSET \<equiv> 0x20"
abbreviation (input) PIC2_OFFSET :: u8 where "PIC2_OFFSET \<equiv> 0x28"
abbreviation (input) PIC_INIT :: u8 where "PIC_INIT \<equiv> 0x11"
abbreviation (input) PIC2_CASCADE :: u8 where "PIC2_CASCADE \<equiv> 2"
abbreviation (input) PIC1_PIC2_IRQ :: u8 where "PIC1_PIC2_IRQ \<equiv> 4"
abbreviation (input) PIC_8086_MODE :: u8 where "PIC_8086_MODE \<equiv> 1"
abbreviation (input) PIC_READ_IRR :: u8 where "PIC_READ_IRR \<equiv> 0xA"
abbreviation (input) PIC_READ_ISR :: u8 where "PIC_READ_ISR \<equiv> 0xB"

text \<open>The register with the mask of a line, and the number of its bit.\<close>

definition pic_line :: "u8 \<Rightarrow> u16 \<times> u8" where
  "pic_line line = (if line < PIC2_OFFSET then (PIC1_DATA, line - PIC1_OFFSET) else (PIC2_DATA, line - PIC1_OFFSET - (PIC2_OFFSET - PIC1_OFFSET)))"

definition pic_set_mask :: "'h port_io \<Rightarrow> u8 \<Rightarrow> 'h \<Rightarrow> u8 \<times> 'h" where
  "pic_set_mask io line h =
     (let (port, l) = pic_line line; (v, h) = io_inb io port h; m = v OR ucast (push_bit (unat l) 1 :: u32) in (m, io_outb io m port h))"

definition pic_clear_mask :: "'h port_io \<Rightarrow> u8 \<Rightarrow> 'h \<Rightarrow> u8 \<times> 'h" where
  "pic_clear_mask io line h =
     (let (port, l) = pic_line line; (v, h) = io_inb io port h; m = v AND ucast (NOT (push_bit (unat l) 1 :: u32)) in (m, io_outb io m port h))"

text \<open>A sequence of \<^verbatim>\<open>outb\<close>.\<close>

definition outbs :: "'h port_io \<Rightarrow> (u8 \<times> u16) list \<Rightarrow> 'h \<Rightarrow> 'h" where
  "outbs io = fold (\<lambda>(v, port). io_outb io v port)"

definition pic_remap :: "'h port_io \<Rightarrow> 'h \<Rightarrow> 'h" where
  "pic_remap io = outbs io [(PIC_INIT, PIC1_CMD), (PIC_INIT, PIC2_CMD), (PIC1_OFFSET, PIC1_DATA), (PIC2_OFFSET, PIC2_DATA),
     (PIC1_PIC2_IRQ, PIC1_DATA), (PIC2_CASCADE, PIC2_DATA), (PIC_8086_MODE, PIC1_DATA), (PIC_8086_MODE, PIC2_DATA),
     (0xFF, PIC1_DATA), (0xFF, PIC2_DATA)]"

definition pic_read_reg :: "'h port_io \<Rightarrow> u8 \<Rightarrow> 'h \<Rightarrow> u16 \<times> 'h" where
  "pic_read_reg io cmd h =
     (if cmd \<noteq> PIC_READ_IRR \<and> cmd \<noteq> PIC_READ_ISR then (0, h)
      else let h = outbs io [(cmd, PIC1_CMD), (cmd, PIC2_CMD)] h; (b, h) = io_inb io PIC2_CMD h; (a, h) = io_inb io PIC1_CMD h
        in (push_bit 8 (ucast b) OR ucast a, h))"

definition pic_read_irr :: "'h port_io \<Rightarrow> 'h \<Rightarrow> u16 \<times> 'h" where
  "pic_read_irr io = pic_read_reg io PIC_READ_IRR"

definition pic_read_isr :: "'h port_io \<Rightarrow> 'h \<Rightarrow> u16 \<times> 'h" where
  "pic_read_isr io = pic_read_reg io PIC_READ_ISR"

text \<open>Interrupts are on afterwards, the last result.\<close>

definition interrupts_init :: "'h port_io \<Rightarrow> u32 \<Rightarrow> (exc_stub \<Rightarrow> u32) \<Rightarrow> u32 \<Rightarrow> 'a cpu_tables_scheme \<Rightarrow> 'h \<Rightarrow> ('a cpu_tables_scheme \<times> 'h \<times> bool) kres" where
  "interrupts_init io ignore_interrupt stub idt_at t h = bindk (idt_init ignore_interrupt stub idt_at t) (\<lambda>t. Ret (t, pic_remap io h, True))"

section \<open>Timer chip\<close>

abbreviation (input) PIT_CHAN0_DATA :: u16 where "PIT_CHAN0_DATA \<equiv> 0x40"
abbreviation (input) PIT_MODE_CMD :: u16 where "PIT_MODE_CMD \<equiv> 0x43"
abbreviation (input) PIT_SQUARE_WAVE_MODE :: u8 where "PIT_SQUARE_WAVE_MODE \<equiv> 0x36"
abbreviation (input) PIT_IRQ :: u8 where "PIT_IRQ \<equiv> 0x20"
abbreviation (input) FREQUENCY :: u32 where "FREQUENCY \<equiv> 1193182"

definition pit_set_reload :: "'h port_io \<Rightarrow> u16 \<Rightarrow> 'h \<Rightarrow> 'h" where
  "pit_set_reload io reload = outbs io [(ucast (reload AND 0xFF), PIT_CHAN0_DATA), (ucast (drop_bit 8 reload AND 0xFF), PIT_CHAN0_DATA)]"

definition pit_start_timer :: "'h port_io \<Rightarrow> u32 \<Rightarrow> 'a cpu_tables_scheme \<Rightarrow> 'h \<Rightarrow> ('a cpu_tables_scheme \<times> 'h) kres" where
  "pit_start_timer io irq0_handler t h =
     bindk (set_idt_entry (uint PIT_IRQ) irq0_handler KERNEL_CS_SELECTOR DPL_0 IDT_32BIT_INT_GATE t) (\<lambda>t.
     let h = outbs io [(PIT_SQUARE_WAVE_MODE, PIT_MODE_CMD)] h; h = pit_set_reload io (ucast (FREQUENCY div 100)) h
     in Ret (t, snd (pic_clear_mask io PIT_IRQ h)))"

section \<open>Interrupts for drivers\<close>

abbreviation (input) CONFIG_DRIVER_NR_DRIVERS :: nat where "CONFIG_DRIVER_NR_DRIVERS \<equiv> 100"

record 's driver =
  drv_irq :: bool
  drv_irq_handler :: "'s \<Rightarrow> 's kres"
  drv_id :: int

definition register_driver :: "'s driver \<Rightarrow> (nat \<Rightarrow> 's driver option) \<Rightarrow> (nat \<Rightarrow> 's driver option) kres" where
  "register_driver d tab =
     (if 0 \<le> drv_id d \<and> drv_id d < int CONFIG_DRIVER_NR_DRIVERS then Ret (tab(nat (drv_id d) := Some d)) else Stop (Fault ''driver_tab''))"

fun driver_irq_scan :: "nat list \<Rightarrow> (nat \<Rightarrow> 's driver option) \<Rightarrow> int \<Rightarrow> 's \<Rightarrow> 's kres" where
  "driver_irq_scan [] tab n s = Ret s"
| "driver_irq_scan (i # is) tab n s =
     (case tab i of
        None \<Rightarrow> driver_irq_scan is tab n s
      | Some d \<Rightarrow> if drv_irq d \<and> drv_id d = n then drv_irq_handler d s else driver_irq_scan is tab n s)"

definition driver_irq :: "(nat \<Rightarrow> 's driver option) \<Rightarrow> int \<Rightarrow> 's \<Rightarrow> 's kres" where
  "driver_irq = driver_irq_scan [0..<CONFIG_DRIVER_NR_DRIVERS]"

section \<open>What the tables say\<close>

text \<open>Where a gate leads to, as the processor reads it.\<close>

definition gate_target :: "idt_entry \<Rightarrow> u32" where
  "gate_target e = ucast (offset_low e) OR push_bit 16 (ucast (offset_high e))"

lemma low_16: "x AND 0xFFFF = take_bit 16 x" for x :: u32
  by (simp add: take_bit_eq_mask mask_eq_exp_minus_1)

lemma gate_target_halves: "ucast (ucast (x AND 0xFFFF) :: u16) OR push_bit 16 (ucast (ucast (drop_bit 16 x AND 0xFFFF) :: u16)) = (x :: u32)"
  unfolding low_16 by (rule bit_word_eqI) (auto simp: bit_simps)

definition gate_ok :: "u32 \<Rightarrow> u8 \<Rightarrow> idt_entry \<Rightarrow> bool" where
  "gate_ok target attr e \<longleftrightarrow> gate_target e = target \<and> segment_selector e = KERNEL_CS_SELECTOR \<and> type_attr e = attr"

lemma set_idt_entry_at:
  assumes "n < IDT_ENTRIES"
  shows "\<exists>e. set_idt_entry (int n) a KERNEL_CS_SELECTOR DPL_0 type t = Ret (t\<lparr>idt := (idt t)(n := e)\<rparr>) \<and> gate_ok a (type OR IDT_ENTRY_PRESENT) e"
  by (rule exI, rule conjI, use assms in \<open>simp add: set_idt_entry_def\<close>) (simp add: gate_ok_def gate_target_def gate_target_halves)

lemma set_idt_entries:
  assumes "\<forall>y\<in>set xs. fst y < IDT_ENTRIES" "distinct (map fst xs)"
  shows "\<exists>t'. foldk (\<lambda>(n, x). set_idt_entry (int n) (f x) KERNEL_CS_SELECTOR DPL_0 type) xs t = Ret t' \<and>
    (\<forall>n. case map_of xs n of None \<Rightarrow> idt t' n = idt t n | Some x \<Rightarrow> gate_ok (f x) (type OR IDT_ENTRY_PRESENT) (idt t' n))"
  using assms
proof (induction xs arbitrary: t)
  case Nil
  show ?case by simp
next
  case (Cons y xs)
  obtain n x where y: "y = (n, x)" by fastforce
  then have "n < IDT_ENTRIES" using Cons.prems(1) by auto
  then obtain e where e: "set_idt_entry (int n) (f x) KERNEL_CS_SELECTOR DPL_0 type t = Ret (t\<lparr>idt := (idt t)(n := e)\<rparr>)"
    "gate_ok (f x) (type OR IDT_ENTRY_PRESENT) e" using set_idt_entry_at by blast
  have "\<forall>y\<in>set xs. fst y < IDT_ENTRIES" "distinct (map fst xs)" using Cons.prems by auto
  from Cons.IH [OF this, where t = "t\<lparr>idt := (idt t)(n := e)\<rparr>"] obtain t' where
    t': "foldk (\<lambda>(n, x). set_idt_entry (int n) (f x) KERNEL_CS_SELECTOR DPL_0 type) xs (t\<lparr>idt := (idt t)(n := e)\<rparr>) = Ret t'"
    "\<And>k. case map_of xs k of None \<Rightarrow> idt t' k = idt (t\<lparr>idt := (idt t)(n := e)\<rparr>) k
       | Some x \<Rightarrow> gate_ok (f x) (type OR IDT_ENTRY_PRESENT) (idt t' k)"
    by blast
  have "n \<notin> dom (map_of xs)" using Cons.prems(2) y by (simp add: dom_map_of_conv_image_fst)
  then have "map_of xs n = None" by blast
  then have "case map_of (y # xs) k of None \<Rightarrow> idt t' k = idt t k | Some x \<Rightarrow> gate_ok (f x) (type OR IDT_ENTRY_PRESENT) (idt t' k)" for k
    using t'(2) [of k] e(2) y by (cases "k = n") (auto split: option.splits)
  then show ?case using t'(1) e(1) y by auto
qed

definition exc_gates :: "(nat \<times> exc_stub) list" where
  "exc_gates = exceptions_table @ map (\<lambda>i. (i, Reserved)) [22..<32]"

lemma exc_gates_numbers: "map fst exc_gates = [0..<9] @ [10..<32]"
  by code_simp

lemma exc_gates_None: "map_of exc_gates n = None \<longleftrightarrow> n = 9 \<or> 32 \<le> n"
proof -
  have "fst ` set exc_gates = {0..<9} \<union> {10..<32}" unfolding set_map [symmetric] exc_gates_numbers set_append set_upt ..
  then show ?thesis unfolding map_of_eq_None_iff by auto
qed

lemma ignore_gates:
  "\<exists>t'. foldk (\<lambda>i. set_idt_entry (int i) a KERNEL_CS_SELECTOR DPL_0 type) [m..<IDT_ENTRIES] t = Ret t' \<and>
    (\<forall>n. if m \<le> n \<and> n < IDT_ENTRIES then gate_ok a (type OR IDT_ENTRY_PRESENT) (idt t' n) else idt t' n = idt t n)"
proof -
  let ?xs = "map (\<lambda>i. (i, ())) [m..<IDT_ENTRIES]"
  have fold: "foldk (\<lambda>(n, x). set_idt_entry (int n) ((\<lambda>_. a) x) KERNEL_CS_SELECTOR DPL_0 type) (map (\<lambda>i. (i, ())) is) t =
      foldk (\<lambda>i. set_idt_entry (int i) a KERNEL_CS_SELECTOR DPL_0 type) is t" for "is" t
    by (induction "is" arbitrary: t) (auto intro!: arg_cong [where f = "bindk _"] ext)
  have look: "map_of ?xs n = (if m \<le> n \<and> n < IDT_ENTRIES then Some () else None)" for n
    by (simp add: map_of_map_restrict restrict_map_def o_def)
  have "\<forall>y\<in>set ?xs. fst y < IDT_ENTRIES" "distinct (map fst ?xs)" by (auto simp: o_def)
  from set_idt_entries [OF this, of "\<lambda>_. a" type t] show ?thesis
    unfolding fold look by (auto split: if_splits simp del: upt_rec_numeral)
qed

text \<open>
  After \<open>idt_init\<close> every vector below 32 except 9 is a trap gate that leads to the entry point of its exception, and every other vector an interrupt
  gate that leads to the routine for interrupts without a driver; the processor knows where the table is and how long. Vector 9 is as it was before.
\<close>

theorem idt_init_gates:
  "\<exists>t'. idt_init ign stub at t = Ret t' \<and> idtr t' = (IDT_LIMIT, at) \<and>
    (\<forall>n<IDT_ENTRIES. case map_of exc_gates n of
        Some x \<Rightarrow> gate_ok (stub x) 0x8F (idt t' n)
      | None \<Rightarrow> if n = 9 then idt t' n = idt t n else gate_ok ign 0x8E (idt t' n))"
proof -
  from ignore_gates [of ign IDT_32BIT_INT_GATE IRQ_BASE t] obtain u where
    u: "foldk (\<lambda>i. set_idt_entry (int i) ign KERNEL_CS_SELECTOR DPL_0 IDT_32BIT_INT_GATE) [IRQ_BASE..<IDT_ENTRIES] t = Ret u"
    "\<And>n. if IRQ_BASE \<le> n \<and> n < IDT_ENTRIES then gate_ok ign (IDT_32BIT_INT_GATE OR IDT_ENTRY_PRESENT) (idt u n) else idt u n = idt t n" by blast
  have g: "\<forall>y\<in>set exc_gates. fst y < IDT_ENTRIES" "distinct (map fst exc_gates)"
    using exc_gates_numbers by (code_simp, simp)
  from set_idt_entries [OF g, of stub IDT_32BIT_TRAP_GATE u] obtain v where
    v: "exceptions_init stub u = Ret v"
    "\<And>n. case map_of exc_gates n of None \<Rightarrow> idt v n = idt u n | Some x \<Rightarrow> gate_ok (stub x) (IDT_32BIT_TRAP_GATE OR IDT_ENTRY_PRESENT) (idt v n)"
    unfolding exceptions_init_def exc_gates_def [symmetric] by blast
  have gates: "case map_of exc_gates n of Some x \<Rightarrow> gate_ok (stub x) 0x8F (idt v n)
      | None \<Rightarrow> if n = 9 then idt v n = idt t n else gate_ok ign 0x8E (idt v n)" if "n < IDT_ENTRIES" for n
    using u(2) [of n] v(2) [of n] exc_gates_None [of n] that by (auto split: option.splits if_splits)
  let ?w = "v\<lparr>idtr := (IDT_LIMIT, at)\<rparr>"
  have w: "idt_init ign stub at t = Ret ?w" "idtr ?w = (IDT_LIMIT, at)" "idt ?w = idt v"
    using u(1) v(1) by (simp_all add: idt_init_def del: upt_rec_numeral)
  show ?thesis by (rule exI [of _ ?w], unfold w(3)) (use w(1,2) gates in blast)
qed

section \<open>Segments\<close>

text \<open>The fields of a descriptor, as the processor reads them.\<close>

definition seg_base :: "(nat \<Rightarrow> u8) \<Rightarrow> nat \<Rightarrow> u32" where
  "seg_base g n = ucast (g (8 * n + 2)) OR push_bit 8 (ucast (g (8 * n + 3))) OR push_bit 16 (ucast (g (8 * n + 4)))
     OR push_bit 24 (ucast (g (8 * n + 7)))"

definition seg_limit :: "(nat \<Rightarrow> u8) \<Rightarrow> nat \<Rightarrow> u32" where
  "seg_limit g n = ucast (g (8 * n)) OR push_bit 8 (ucast (g (8 * n + 1))) OR push_bit 16 (ucast (g (8 * n + 6)) AND 0xF)"

definition seg_dpl :: "(nat \<Rightarrow> u8) \<Rightarrow> nat \<Rightarrow> u8" where
  "seg_dpl g n = drop_bit 5 (g (8 * n + 5)) AND 3"

lemma seg_limit_bytes:
  "ucast (ucast x :: u8) OR push_bit 8 (ucast (ucast (drop_bit 8 x) :: u8)) OR
   push_bit 16 (ucast ((ucast (drop_bit 16 x AND 0xF) :: u8) OR push_bit 4 a) AND 0xF) = take_bit 20 (x :: u32)"
proof -
  have f: "y AND 0xF = take_bit 4 y" for y :: u32 by (simp add: take_bit_eq_mask mask_eq_exp_minus_1)
  show ?thesis unfolding f
  proof (rule bit_word_eqI)
    fix n
    assume "n < LENGTH(32)"
    then consider "n < 8" | "8 \<le> n" "n < 16" | "16 \<le> n" "n < 20" | "20 \<le> n" "n < 32" by fastforce
    then show "bit (ucast (ucast x :: u8) OR push_bit 8 (ucast (ucast (drop_bit 8 x) :: u8)) OR
        push_bit 16 (take_bit 4 (ucast ((ucast (take_bit 4 (drop_bit 16 x)) :: u8) OR push_bit 4 a))) :: u32) n = bit (take_bit 20 x) n"
      by cases (auto simp: bit_simps)
  qed
qed

lemma seg_base_bytes:
  "ucast (ucast x :: u8) OR push_bit 8 (ucast (ucast (drop_bit 8 x) :: u8)) OR push_bit 16 (ucast (ucast (drop_bit 16 x) :: u8))
   OR push_bit 24 (ucast (ucast (drop_bit 24 x) :: u8)) = (x :: u32)"
proof (rule bit_word_eqI)
  fix n
  assume "n < LENGTH(32)"
  then consider "n < 8" | "8 \<le> n" "n < 16" | "16 \<le> n" "n < 24" | "24 \<le> n" "n < 32" by fastforce
  then show "bit (ucast (ucast x :: u8) OR push_bit 8 (ucast (ucast (drop_bit 8 x) :: u8)) OR push_bit 16 (ucast (ucast (drop_bit 16 x) :: u8))
     OR push_bit 24 (ucast (ucast (drop_bit 24 x) :: u8)) :: u32) n = bit x n"
    by cases (auto simp: bit_simps)
qed

text \<open>An entry reads back what was put into it, the limit cut to its twenty bits, and the other entries are as before.\<close>

lemma set_dt_entry_reads_back:
  assumes "n < GDT_ENTRIES"
  shows "\<exists>t'. set_dt_entry GDT (int n) limit base dpl type attr t = Ret (Some (8 * n + 7), t') \<and>
    seg_base (gdt t') n = base \<and> seg_limit (gdt t') n = take_bit 20 limit \<and> gdt t' (8 * n + 5) = type OR SEG_PRESENT OR push_bit 5 dpl \<and>
    (\<forall>i. i < 8 * n \<or> 8 * n + 8 \<le> i \<longrightarrow> gdt t' i = gdt t i)"
  using assms seg_base_bytes [of base] seg_limit_bytes [of limit attr]
  by (auto simp: set_dt_entry_def Let_def seg_base_def seg_limit_def mult.commute [of n])

section \<open>Interrupts\<close>

text \<open>Every driver of the table is in the place of its number.\<close>

definition drivers_ok :: "(nat \<Rightarrow> 's driver option) \<Rightarrow> bool" where
  "drivers_ok tab \<longleftrightarrow> (\<forall>i d. tab i = Some d \<longrightarrow> drv_id d = int i)"

lemma register_driver_ok: "drivers_ok tab \<Longrightarrow> register_driver d tab = Ret tab' \<Longrightarrow> drivers_ok tab'"
  by (auto simp: register_driver_def drivers_ok_def split: if_splits)

lemma driver_irq_scan_at:
  assumes "drivers_ok tab"
  shows "driver_irq_scan is tab (int i) s =
    (case (if i \<in> set is then tab i else None) of Some d \<Rightarrow> if drv_irq d then drv_irq_handler d s else Ret s | None \<Rightarrow> Ret s)"
proof (induction "is")
  case (Cons k "is")
  show ?case
  proof (cases "tab k")
    case None
    then show ?thesis using Cons by (auto split: option.splits)
  next
    case (Some d)
    then have "drv_id d = int k" using assms by (simp add: drivers_ok_def)
    then show ?thesis using Cons Some by (auto split: option.splits)
  qed
qed simp

text \<open>An interrupt is handled by the driver that was registered last under its number, whatever else is in the table.\<close>

lemma driver_irq_registered:
  assumes "drivers_ok tab" "register_driver d tab = Ret tab'" "drv_irq d"
  shows "driver_irq tab' (drv_id d) s = drv_irq_handler d s"
    and "drv_id e \<noteq> drv_id d \<Longrightarrow> drv_id e \<ge> 0 \<Longrightarrow> driver_irq tab' (drv_id e) s = driver_irq tab (drv_id e) s"
proof -
  obtain i where i: "drv_id d = int i" "i < CONFIG_DRIVER_NR_DRIVERS" "tab' = tab(i := Some d)"
    using assms(2) by (auto simp: register_driver_def split: if_splits intro: that [of "nat (drv_id d)"])
  note ok = register_driver_ok [OF assms(1,2)]
  show "driver_irq tab' (drv_id d) s = drv_irq_handler d s"
    unfolding driver_irq_def i(1) driver_irq_scan_at [OF ok] using assms(3) i(2,3) by (simp del: upt_rec_numeral)
  assume "drv_id e \<noteq> drv_id d" "drv_id e \<ge> 0"
  then obtain k where k: "drv_id e = int k" "k \<noteq> i" using i(1) nonneg_int_cases by metis
  show "driver_irq tab' (drv_id e) s = driver_irq tab (drv_id e) s"
    unfolding driver_irq_def k(1) driver_irq_scan_at [OF ok] driver_irq_scan_at [OF assms(1)] using k(2) i(3) by (simp del: upt_rec_numeral)
qed

text \<open>With mask registers that keep what is written, allowing an interrupt line clears its bit and leaves the other lines of its controller as they were.\<close>

lemma bit_of_line: "unat l < 8 \<Longrightarrow> bit (ucast (push_bit (unat l) 1 :: u32) :: u8) i \<longleftrightarrow> i = unat (l :: u8)"
  by (auto simp: bit_simps)

lemma pic_masks:
  assumes "PIC1_OFFSET \<le> line" "line < PIC2_OFFSET + 8" "\<And>h. io_inb io (fst (pic_line line)) h = (reg h, h)"
    and "\<And>h v. reg (io_outb io v (fst (pic_line line)) h) = v"
  defines "k \<equiv> unat (snd (pic_line line))"
  shows "bit (reg (snd (pic_clear_mask io line h))) i \<longleftrightarrow> bit (reg h) i \<and> i \<noteq> k"
    and "bit (reg (snd (pic_set_mask io line h))) i \<longleftrightarrow> bit (reg h) i \<or> i = k"
proof -
  have "unat line \<ge> 32" "unat line < 48" using assms(1,2) by (simp_all add: word_le_nat_alt word_less_nat_alt)
  then have k: "unat (snd (pic_line line)) < 8"
    by (auto simp: pic_line_def word_less_nat_alt unat_sub word_le_nat_alt)
  obtain p l where pl: "pic_line line = (p, l)" by fastforce
  note b = bit_of_line [of l i]
  have n: "bit (ucast (NOT (push_bit (unat l) 1 :: u32)) :: u8) i \<longleftrightarrow> i < 8 \<and> i \<noteq> unat l"
    by (auto simp: bit_simps)
  show "bit (reg (snd (pic_clear_mask io line h))) i \<longleftrightarrow> bit (reg h) i \<and> i \<noteq> k"
    using assms(3,4) pl n by (auto simp: pic_clear_mask_def k_def bit_and_iff Let_def dest: bit_imp_le_length)
  show "bit (reg (snd (pic_set_mask io line h))) i \<longleftrightarrow> bit (reg h) i \<or> i = k"
    using assms(3,4) pl b k by (auto simp: pic_set_mask_def k_def bit_or_iff Let_def)
qed

end
