(* ===== verification/Kernel_Map.thy ===== *)
theory Kernel_Map
  imports Virtual_MM_Props
begin

text \<open>
  Memory as the kernel sees it. A driver reaches the tables of the firmware and the frame buffer through \<open>virt_map_phys\<close>, which puts a page table of its own into
  the kernel's directory. Reading an address walks this directory; what \<open>virt_map_phys\<close> promises is that the walk ends at the physical memory that was asked for.
\<close>

section \<open>Reading through the page tables\<close>

text \<open>A byte of physical memory.\<close>

definition phys_byte :: "'a vm_state_scheme \<Rightarrow> u32 \<Rightarrow> u8" where
  "phys_byte s p = ucast (drop_bit (8 * (unat p mod 4)) (frame_words s (frame_of p) (unat p mod 4096 div 4)))"

text \<open>
  A load of the kernel. The table of the directory's entry 768 is \<^verbatim>\<open>init_page_table\<close>, the other tables are frames. An address that is not mapped is a fault.
\<close>

definition kernel_pte :: "'a vm_state_scheme \<Rightarrow> u32 \<Rightarrow> u32" where
  "kernel_pte s a =
     (if VIRT_ADDR_PG_DIR_INDEX a = 768 then init_page_table s (VIRT_ADDR_PG_TAB_INDEX a)
      else frame_words s (frame_of (init_page_directory s (VIRT_ADDR_PG_DIR_INDEX a))) (VIRT_ADDR_PG_TAB_INDEX a))"

definition kread :: "'a vm_state_scheme \<Rightarrow> u32 \<Rightarrow> u8 kres" where
  "kread s a =
     (if init_page_directory s (VIRT_ADDR_PG_DIR_INDEX a) AND PAGE_PRESENT = 0 \<or> kernel_pte s a AND PAGE_PRESENT = 0 then Stop (Fault ''page fault'')
      else Ret (phys_byte s (frame_of (kernel_pte s a) + (a AND VIRT_ADDR_FRAME_MASK))))"

primrec kread_bytes :: "'a vm_state_scheme \<Rightarrow> u32 \<Rightarrow> nat \<Rightarrow> u8 list kres" where
  "kread_bytes s a 0 = Ret []"
| "kread_bytes s a (Suc n) = bindk (kread s a) (\<lambda>b. bindk (kread_bytes s (a + 1) n) (\<lambda>bs. Ret (b # bs)))"

definition kread32 :: "'a vm_state_scheme \<Rightarrow> u32 \<Rightarrow> u32 kres" where
  "kread32 s a =
     bindk (kread s a) (\<lambda>b0. bindk (kread s (a + 1)) (\<lambda>b1. bindk (kread s (a + 2)) (\<lambda>b2. bindk (kread s (a + 3)) (\<lambda>b3.
     Ret (ucast b0 OR push_bit 8 (ucast b1) OR push_bit 16 (ucast b2) OR push_bit 24 (ucast b3))))))"

section \<open>Addresses\<close>

lemma low_12: "x AND 0xFFF = take_bit 12 x" for x :: u32
  by (simp add: take_bit_eq_mask mask_eq_exp_minus_1)

lemma low_of_frame: "unat (x AND 0xFFF) = unat x mod 4096" for x :: u32
  by (simp add: low_12 unsigned_take_bit_eq take_bit_eq_mod unat_mod)

lemma frame_plus_low: "frame_of x + (x AND 0xFFF) = x"
proof -
  have "(x AND NOT 0xFFF) OR (x AND 0xFFF) = x" by (simp only: bit.conj_disj_distrib [symmetric] bit.disj_cancel_left bit.conj_one_right)
  moreover have "(x AND NOT 0xFFF) AND (x AND 0xFFF) = 0" by (simp only: and.assoc and.left_commute [of "NOT 0xFFF"] bit.conj_cancel_left) simp
  ultimately have "(x AND NOT 0xFFF) + (x AND 0xFFF) = x" by (simp add: disjunctive_add_eq_or)
  then show ?thesis by (simp only: frame_of_def not_frame_mask)
qed

lemma unat_frame_of: "unat (frame_of x) = unat x div 4096 * 4096"
proof -
  have "frame_of x = x - (x AND 0xFFF)" by (simp only: eq_diff_eq frame_plus_low)
  then have "unat (frame_of x) = unat x - unat x mod 4096"
    by (simp add: unat_sub word_and_le2 low_of_frame)
  then show ?thesis by (simp add: minus_mod_eq_div_mult)
qed

lemma frame_of_eq_iff: "frame_of x = x \<longleftrightarrow> unat x mod 4096 = 0"
  using frame_plus_low [of x] low_of_frame [of x] by (metis add.right_neutral add_left_cancel unat_0 unsigned_0 word_unat_eq_iff)

lemma mod_4096_plus: "unat (a + b :: u32) mod 4096 = (unat a + unat b) mod 4096"
  by (simp add: unat_word_ariths mod_mod_cancel)

text \<open>The parts of an address in the four megabytes of a directory entry.\<close>

lemma unat_in_entry:
  assumes "e < 1024" "unat (x :: u32) < 2 ^ 22"
  shows "unat (push_bit 22 (of_nat e) + x) = e * 2 ^ 22 + unat x"
proof -
  have "push_bit 22 (of_nat e) + x = of_nat (e * 2 ^ 22 + unat x)" by (simp add: push_bit_eq_mult)
  moreover have "e * 2 ^ 22 + unat x < 4294967296" using assms by simp
  ultimately show ?thesis using unat_of_nat_u32 by metis
qed

lemma in_entry:
  assumes "e < 1024" "unat (x :: u32) < 2 ^ 22"
  defines "a \<equiv> push_bit 22 (of_nat e) + x"
  shows "VIRT_ADDR_PG_DIR_INDEX a = e" "VIRT_ADDR_PG_TAB_INDEX a = unat x div 4096" "a AND 0xFFF = x AND 0xFFF"
proof -
  have a: "unat a = e * 2 ^ 22 + unat x" unfolding a_def by (rule unat_in_entry [OF assms(1,2)])
  show "VIRT_ADDR_PG_DIR_INDEX a = e" using a assms(2) by (simp add: VIRT_ADDR_PG_DIR_INDEX_def drop_bit_eq_div unat_div)
  have "drop_bit 12 a AND 0x3FF = take_bit 10 (drop_bit 12 a)" by (simp add: take_bit_eq_mask mask_eq_exp_minus_1)
  then have "unat (drop_bit 12 a AND 0x3FF) = unat a div 4096 mod 1024"
    by (simp add: unsigned_take_bit_eq take_bit_eq_mod drop_bit_eq_div unat_div unat_mod)
  also have "unat a div 4096 = unat x div 4096 + e * 1024"
  proof -
    have "unat a = unat x + (e * 1024) * 4096" using a by simp
    then show ?thesis by (simp only: div_mult_self1)
  qed
  also have "(unat x div 4096 + e * 1024) mod 1024 = unat x div 4096"
    using assms(2) by (simp only: mod_mult_self1) (simp add: div_less_iff_less_mult)
  finally show "VIRT_ADDR_PG_TAB_INDEX a = unat x div 4096" by (simp add: VIRT_ADDR_PG_TAB_INDEX_def)
  have "e * 2 ^ 22 + unat x = unat x + e * 1024 * 4096" by simp
  then have "unat (a AND 0xFFF) = unat (x AND 0xFFF)" by (simp only: low_of_frame a mod_mult_self1)
  then show "a AND 0xFFF = x AND 0xFFF" by (simp only: word_unat_eq_iff)
qed

section \<open>What a mapping shows\<close>

lemma scan_bitmap_more: "scan_bitmap b s = Ret t \<Longrightarrow> page_state.more t = page_state.more s"
  by (auto simp: scan_bitmap_def Let_def upd_bitmap_def split: option.splits)

lemma page_frame_alloc_more: "page_frame_alloc s = Ret (p, t) \<Longrightarrow> page_state.more t = page_state.more s"
  by (auto simp: page_frame_alloc_def Let_def bindk_eq_Ret_iff set_bit_def upd_bitmap_def dest!: scan_bitmap_more split: if_splits)

lemma vm_fields_cong:
  assumes "page_state.more t = page_state.more s"
  shows "frame_words t = frame_words s" "init_page_table t = init_page_table s" "init_page_directory t = init_page_directory s"
    "virt_map_entry t = virt_map_entry s"
  using assms by (cases s; cases t; simp)+

lemmas alloc_fields = vm_fields_cong [OF page_frame_alloc_more]

lemma frame_of_pte: "unat x mod 4096 = 0 \<Longrightarrow> frame_of (x OR 1 OR 2) = x"
  using frame_of_eq_iff [of x] by (simp add: frame_of_flags or.assoc)

text \<open>The page table that \<open>virt_map_phys\<close> writes into the frame \<open>t\<close>, and the fields it changes.\<close>

lemma virt_map_phys_state:
  assumes alloc: "page_frame_alloc s = Ret (t, s1)" "t \<noteq> NO_FREE_PAGE" "unat t mod 4096 = 0"
    and mapped: "virt_map_phys phys s = Ret (v, s')"
  shows "v = push_bit 22 (of_nat (virt_map_entry s))"
    "frame_words s' = (frame_words s)(t := \<lambda>i. if i < 1024 then (phys + of_nat i * 4096) OR 1 OR 2 else frame_words s t i)"
    "init_page_directory s' = (init_page_directory s)(virt_map_entry s := t OR 1 OR 2)"
    "init_page_table s' = (init_page_table s)(1023 := get_tmp_page s OR 1 OR 2)"
proof -
  have win: "frame_of (t OR 1 OR 2) = t" by (rule frame_of_pte [OF alloc(3)])
  note fs = alloc_fields [OF alloc(1)]
  define f where "f = (\<lambda>i. (phys + of_nat i * 4096) OR 3)"
  define u where "u = tmp_map_page (get_tmp_page s) (win_fill f (tmp_map_page t s1))"
  have "v = push_bit 22 (of_nat (virt_map_entry u)) \<and>
      (let w = u\<lparr>init_page_directory := (init_page_directory u)(virt_map_entry u := t OR 3)\<rparr> in s' = w \<or> (\<exists>i. s' = w\<lparr>virt_map_entry := i\<rparr>))"
    using mapped alloc(1,2) unfolding virt_map_phys_def Let_def
    by (auto simp flip: f_def u_def split: option.splits)
  moreover have "frame_words u = (frame_words s)(t := \<lambda>i. if i < 1024 then f i else frame_words s t i)"
    "init_page_directory u = init_page_directory s" "virt_map_entry u = virt_map_entry s"
    "init_page_table u = (init_page_table s)(1023 := get_tmp_page s OR 1 OR 2)"
    using win by (simp_all add: u_def win_fill_def tmp_map_page_def fs cong: if_cong)
  ultimately show "v = push_bit 22 (of_nat (virt_map_entry s))"
    "frame_words s' = (frame_words s)(t := \<lambda>i. if i < 1024 then (phys + of_nat i * 4096) OR 1 OR 2 else frame_words s t i)"
    "init_page_directory s' = (init_page_directory s)(virt_map_entry s := t OR 1 OR 2)"
    "init_page_table s' = (init_page_table s)(1023 := get_tmp_page s OR 1 OR 2)"
    by (auto simp: f_def Let_def cong: if_cong)
qed

text \<open>A byte of what is mapped.\<close>

lemma kread_mapped:
  assumes alloc: "page_frame_alloc s = Ret (t, s1)" "t \<noteq> NO_FREE_PAGE" "frame_of t = t"
    and entry: "virt_map_entry s < 1024" "virt_map_entry s \<noteq> 768"
    and mapped: "virt_map_phys phys s = Ret (v, s')"
    and phys: "frame_of phys = phys" "unat off < 2 ^ 22" "frame_of (phys + off) \<noteq> t"
  shows "kread s' (v + off) = Ret (phys_byte s (phys + off))"
proof -
  have al: "unat t mod 4096 = 0" "unat phys mod 4096 = 0" using alloc(3) phys(1) by (simp_all add: frame_of_eq_iff)
  note st = virt_map_phys_state [OF alloc(1,2) al(1) mapped]
  let ?k = "unat off div 4096" and ?a = "v + off"
  have ix: "VIRT_ADDR_PG_DIR_INDEX ?a = virt_map_entry s" "VIRT_ADDR_PG_TAB_INDEX ?a = ?k" "?a AND 0xFFF = off AND 0xFFF"
    using in_entry [OF entry(1) phys(2)] by (simp_all add: st(1))
  have k: "?k < 1024" using phys(2) by (simp add: div_less_iff_less_mult)
  define q where "q = phys + of_nat ?k * 4096"
  have "off = frame_of off + (off AND 0xFFF)" by (simp add: frame_plus_low)
  moreover have off: "frame_of off = of_nat ?k * 4096"
  proof -
    have "unat (of_nat (?k * 4096) :: u32) = ?k * 4096" using phys(2) by (intro unat_of_nat_u32) (simp add: less_trans [OF _ phys(2)])
    then show ?thesis by (simp add: word_unat_eq_iff unat_frame_of)
  qed
  ultimately have qoff: "q + (off AND 0xFFF) = phys + off" by (simp add: q_def)
  have "unat (of_nat ?k * 4096 :: u32) mod 4096 = 0" using off by (metis frame_of_eq_iff frame_of_idem)
  then have q: "unat q mod 4096 = 0" using al(2) by (simp add: q_def mod_4096_plus mod_add_eq [symmetric])
  have pte: "kernel_pte s' ?a = q OR 1 OR 2"
    using k entry(2) frame_of_pte [OF al(1)] by (simp add: kernel_pte_def ix st(2-4) q_def)
  have "kread s' ?a = Ret (phys_byte s' (phys + off))"
    unfolding kread_def pte ix st(3) frame_of_pte [OF q] qoff
    by (simp add: bit.conj_disj_distrib2)
  moreover have "phys_byte s' (phys + off) = phys_byte s (phys + off)" using phys(3) by (simp add: phys_byte_def st(2))
  ultimately show ?thesis by simp
qed

lemma kread_bytes_mapped:
  assumes alloc: "page_frame_alloc s = Ret (t, s1)" "t \<noteq> NO_FREE_PAGE" "frame_of t = t"
    and entry: "virt_map_entry s < 1024" "virt_map_entry s \<noteq> 768"
    and mapped: "virt_map_phys phys s = Ret (v, s')" and phys: "frame_of phys = phys"
    and range: "unat off + n \<le> 2 ^ 22" "\<And>i. i < n \<Longrightarrow> frame_of (phys + off + of_nat i) \<noteq> t"
  shows "kread_bytes s' (v + off) n = Ret (map (\<lambda>i. phys_byte s (phys + off + of_nat i)) [0..<n])"
  using range
proof (induction n arbitrary: off)
  case 0
  then show ?case by simp
next
  case (Suc n)
  have first: "kread s' (v + off) = Ret (phys_byte s (phys + off))"
    using kread_mapped [OF alloc entry mapped phys, of off] Suc.prems(1) Suc.prems(2) [of 0] by simp
  have "unat (off + 1) = unat off + 1" if "n > 0" using Suc.prems(1) that by (simp add: unat_word_ariths)
  then have "n > 0 \<Longrightarrow> unat (off + 1) + n \<le> 2 ^ 22" using Suc.prems(1) by simp
  then have "kread_bytes s' (v + (off + 1)) n = Ret (map (\<lambda>i. phys_byte s (phys + (off + 1) + of_nat i)) [0..<n])"
    using Suc.IH [of "off + 1"] Suc.prems(2) [of "Suc i" for i] by (cases "n = 0") (simp_all add: ac_simps)
  then show ?case using first by (simp add: upt_conv_Cons map_Suc_upt [symmetric] ac_simps del: upt_Suc)
qed

text \<open>The rest of the kernel's memory is as it was.\<close>

lemma frame_of_plus_low: "frame_of (frame_of x + (a AND 0xFFF)) = frame_of x"
proof -
  have "unat (frame_of x) + unat (a AND 0xFFF) = unat a mod 4096 + unat x div 4096 * 4096" by (simp add: unat_frame_of low_of_frame)
  also have "\<dots> < 2 ^ 32"
  proof -
    have "unat x div 4096 < 2 ^ 20" using unat_lt_2p32 [of x] by (simp add: div_less_iff_less_mult)
    then show ?thesis using mod_less_divisor [of 4096 "unat a"] by simp
  qed
  finally have "unat (frame_of x + (a AND 0xFFF)) = unat (frame_of x) + unat (a AND 0xFFF)" by (simp add: unat_word_ariths)
  then have "unat (frame_of (frame_of x + (a AND 0xFFF))) = unat (frame_of x)" by (simp add: unat_frame_of low_of_frame)
  then show ?thesis by (simp add: word_unat_eq_iff)
qed

lemma kread_others:
  assumes alloc: "page_frame_alloc s = Ret (t, s1)" "t \<noteq> NO_FREE_PAGE" "frame_of t = t"
    and mapped: "virt_map_phys phys s = Ret (v, s')" and window: "tmp_ok s"
    and a: "VIRT_ADDR_PG_DIR_INDEX a \<noteq> virt_map_entry s"
      "VIRT_ADDR_PG_DIR_INDEX a = 768 \<or> frame_of (init_page_directory s (VIRT_ADDR_PG_DIR_INDEX a)) \<noteq> t" "frame_of (kernel_pte s a) \<noteq> t"
  shows "kread s' a = kread s a"
proof -
  have "unat t mod 4096 = 0" using alloc(3) by (simp add: frame_of_eq_iff)
  note st = virt_map_phys_state [OF alloc(1,2) this mapped]
  have "init_page_table s' = init_page_table s" using window by (simp add: st(4) tmp_ok_def fun_upd_idem)
  then have "kernel_pte s' a = kernel_pte s a" using a by (auto simp: kernel_pte_def st)
  moreover have "phys_byte s' (frame_of (kernel_pte s a) + (a AND 0xFFF)) = phys_byte s (frame_of (kernel_pte s a) + (a AND 0xFFF))"
    using a(3) by (simp add: phys_byte_def st(2) frame_of_plus_low)
  ultimately show ?thesis using a(1) by (simp add: kread_def st(3))
qed

text \<open>C31.
  A mapping shows the memory it was asked for: \<open>virt_map_phys\<close> of a page aligned address succeeds when there is a free frame, and what is read from the address it
  returns, up to four megabytes, are the bytes of physical memory from the physical address on. Everything that was mapped before at other entries of the
  directory reads as before. The frame that was taken for the page table is not part of the memory that is looked at, and the entry is not the kernel's own.
\<close>

theorem virt_map_phys_shows_memory:
  assumes alloc: "page_frame_alloc s = Ret (t, s1)" "t \<noteq> NO_FREE_PAGE" "frame_of t = t"
    and entry: "virt_map_entry s < 1024" "virt_map_entry s \<noteq> 768" and window: "tmp_ok s"
    and phys: "frame_of phys = phys" "unat off + n \<le> 2 ^ 22" "\<And>i. i < n \<Longrightarrow> frame_of (phys + off + of_nat i) \<noteq> t"
    and a: "VIRT_ADDR_PG_DIR_INDEX a \<noteq> virt_map_entry s"
      "VIRT_ADDR_PG_DIR_INDEX a = 768 \<or> frame_of (init_page_directory s (VIRT_ADDR_PG_DIR_INDEX a)) \<noteq> t" "frame_of (kernel_pte s a) \<noteq> t"
  shows "\<exists>v s'. virt_map_phys phys s = Ret (v, s') \<and>
    kread_bytes s' (v + off) n = Ret (map (\<lambda>i. phys_byte s (phys + off + of_nat i)) [0..<n]) \<and> kread s' a = kread s a"
proof -
  obtain v s' where mapped: "virt_map_phys phys s = Ret (v, s')" using alloc by (auto simp: virt_map_phys_def Let_def)
  then show ?thesis using kread_bytes_mapped [OF alloc entry mapped phys] kread_others [OF alloc mapped window a] by blast
qed

theorem virt_map_phys_shows_memory_witness:
  "\<exists>v s'. virt_map_phys 0x2000 vm_demo = Ret (v, s') \<and> kread_bytes s' (v + 1) 2 = Ret [0x30, 0] \<and> kread s' 0 = kread vm_demo 0"
proof -
  have "case page_frame_alloc vm_demo of Ret (n, _) \<Rightarrow> n = 0x100000 | _ \<Rightarrow> False" by code_simp
  then obtain s1 where a: "page_frame_alloc vm_demo = Ret (0x100000, s1)" by (auto split: kres.splits)
  have frames: "frame_of (0x2001 + of_nat i) \<noteq> 0x100000" if "i < 2" for i :: nat using that by (cases i) (auto simp: frame_of_def less_2_cases_iff)
  have "phys_byte vm_demo 0x2001 = 0x30" "phys_byte vm_demo 0x2002 = 0" by (simp_all add: phys_byte_def vm_demo_def frame_of_def)
  moreover have "virt_map_entry vm_demo = 1023" by (simp add: vm_demo_def)
  moreover have "VIRT_ADDR_PG_DIR_INDEX 0 = 0" "frame_of (init_page_directory vm_demo 0) \<noteq> 0x100000" "frame_of (kernel_pte vm_demo 0) \<noteq> 0x100000"
    by (simp_all add: VIRT_ADDR_PG_DIR_INDEX_def VIRT_ADDR_PG_TAB_INDEX_def kernel_pte_def vm_demo_def frame_of_def)
  ultimately show ?thesis using virt_map_phys_shows_memory [OF a, of "0x2000" 1 2 0] frames vm_demo_tmp by (simp add: frame_of_def upt_rec)
qed

end
