(* ===== verification/Arch_Proc.thy ===== *)
theory Arch_Proc
  imports Processor Kernel_Map
begin

text \<open>
  The architecture's part of processes, \<^verbatim>\<open>sys/arch/i386/processes.c\<close> and \<^verbatim>\<open>switch_to.S\<close>: what a fork gives to the child to start with, and the switch between two
  processes in the kernel. The kernel's memory is words at addresses; the heap, \<open>alloc\<close> for \<^verbatim>\<open>kvmalloc\<close>, is an argument.
\<close>

section \<open>Data\<close>

abbreviation (input) IRET_FRAME_SIZE :: u32 where "IRET_FRAME_SIZE \<equiv> 68"
abbreviation (input) NR_REGS :: nat where "NR_REGS \<equiv> 8"

text \<open>The size of \<^verbatim>\<open>struct context\<close>: eight registers and the instruction pointer.\<close>

abbreviation (input) CONTEXT_SIZE :: u32 where "CONTEXT_SIZE \<equiv> 36"

text \<open>
  \<open>p_context\<close> is the field \<^verbatim>\<open>context\<close> of each process. The last three fields are the processor: the registers in the order in which they lie in a context (ebp, esi,
  edi, edx, ecx, ebx, eax and the flags), the stack pointer and the instruction pointer.
\<close>

record arch_state = vm_state +
  cpu_states :: "nat \<Rightarrow> i386_cpu_state"
  current_cpu_state :: nat
  p_context :: "nat \<Rightarrow> u32"
  kmem :: "u32 \<Rightarrow> u32"
  arch_tss :: tss
  cpu_regs :: "u32 list"
  cpu_esp :: u32
  cpu_eip :: u32

definition load_words :: "u32 \<Rightarrow> nat \<Rightarrow> (u32 \<Rightarrow> u32) \<Rightarrow> u32 list" where
  "load_words a n m = map (\<lambda>i. m (a + 4 * of_nat i)) [0..<n]"

primrec store_words :: "u32 \<Rightarrow> u32 list \<Rightarrow> (u32 \<Rightarrow> u32) \<Rightarrow> u32 \<Rightarrow> u32" where
  "store_words a [] m = m"
| "store_words a (w # ws) m = store_words (a + 4) ws (m(a := w))"

text \<open>The first 68 bytes of \<^verbatim>\<open>struct i386_cpu_state\<close>.\<close>

definition iret_frame :: "i386_cpu_state \<Rightarrow> u32 list" where
  "iret_frame c = [r_ebp c, r_edi c, r_esi c, r_edx c, r_ecx c, r_ebx c, r_eax c, r_gs c, r_fs c, r_es c, r_ds c, r_error c, r_eip c, r_cs c,
     r_eflags c, r_esp c, r_ss c]"

definition upd_cpu :: "nat \<Rightarrow> (i386_cpu_state \<Rightarrow> i386_cpu_state) \<Rightarrow> 'a arch_state_scheme \<Rightarrow> 'a arch_state_scheme" where
  "upd_cpu i f s = s\<lparr>cpu_states := (cpu_states s)(i := f (cpu_states s i))\<rparr>"

section \<open>Fork\<close>

text \<open>
  \<open>child\<close> is the number of the new process, \<open>i\<close> its place in the process table, \<open>p\<close> the place of the current process and \<open>pd\<close> its number. \<open>restart\<close> is the
  address where the child starts.
\<close>

definition fork_space :: "(u32 \<Rightarrow> 'a arch_state_scheme \<Rightarrow> (u32 \<times> 'a arch_state_scheme) kres) \<Rightarrow> int \<Rightarrow> nat \<Rightarrow> 'a arch_state_scheme \<Rightarrow>
    (int \<times> 'a arch_state_scheme) kres" where
  "fork_space alloc pd n s =
     bindk (alloc (PAGE_SIZE * 2) s) (\<lambda>(a, s).
     bindk (page_frame_alloc (upd_cpu n (\<lambda>c. c\<lparr>r_kernel_stack := a + PAGE_SIZE * 2\<rparr>) s)) (\<lambda>(dir, s).
     let s = upd_cpu n (\<lambda>c. c\<lparr>r_cr3 := dir\<rparr>) s in
     if dir = NO_FREE_PAGE then Ret (- ENOMEM, s)
     else bindk (copy_address_space pd (r_cr3 (cpu_states s (current_cpu_state s))) dir s) (\<lambda>s. Ret (0, s))))"

definition fork_stack :: "u32 \<Rightarrow> nat \<Rightarrow> nat \<Rightarrow> nat \<Rightarrow> 'a arch_state_scheme \<Rightarrow> 'a arch_state_scheme" where
  "fork_stack restart p i n s =
     (let s = upd_cpu n (\<lambda>c. c\<lparr>r_kernel_stack := r_kernel_stack c - IRET_FRAME_SIZE\<rparr>) s;
          s = s\<lparr>kmem := store_words (r_kernel_stack (cpu_states s n)) (iret_frame (cpu_states s n)) (kmem s)\<rparr>;
          s = upd_cpu n (\<lambda>c. c\<lparr>r_kernel_stack := r_kernel_stack c - CONTEXT_SIZE\<rparr>) s;
          s = s\<lparr>p_context := (p_context s)(i := r_kernel_stack (cpu_states s n))\<rparr>;
          s = s\<lparr>kmem := store_words (p_context s i) (load_words (p_context s p) 9 (kmem s)) (kmem s)\<rparr>
      in s\<lparr>kmem := (kmem s)(p_context s i + 32 := restart)\<rparr>)"

definition arch_fork :: "(u32 \<Rightarrow> 'a arch_state_scheme \<Rightarrow> (u32 \<times> 'a arch_state_scheme) kres) \<Rightarrow> u32 \<Rightarrow> nat \<Rightarrow> int \<Rightarrow> int \<Rightarrow> nat \<Rightarrow> 'a arch_state_scheme \<Rightarrow>
    (int \<times> 'a arch_state_scheme) kres" where
  "arch_fork alloc restart p pd child i s =
     (if int NR_PROC \<le> child then Ret (- EAGAIN, s)
      else if child < 0 then Stop (Fault ''cpu_states'')
      else
        bindk (fork_space alloc pd (nat child) (upd_cpu (nat child) (\<lambda>_. (cpu_states s (current_cpu_state s))\<lparr>r_eax := 0\<rparr>) s)) (\<lambda>(r, s).
        if r < 0 then Ret (r, s) else Ret (child, fork_stack restart p i (nat child) s)))"

section \<open>Switch\<close>

text \<open>
  The call pushes the return address \<open>ret\<close>, and the routine the registers; the stack pointer is then that of the new process. An instruction pointer between
  0x60000000 and 0x7FFFFFFF halts the machine.
\<close>

definition asm_switch_to :: "nat \<Rightarrow> u32 \<Rightarrow> u32 \<Rightarrow> 'a arch_state_scheme \<Rightarrow> 'a arch_state_scheme kres" where
  "asm_switch_to prev new ret s =
     (let sp = cpu_esp s - CONTEXT_SIZE;
          s = s\<lparr>kmem := store_words sp (cpu_regs s @ [ret]) (kmem s), p_context := (p_context s)(prev := sp)\<rparr>;
          s = s\<lparr>cpu_regs := load_words new NR_REGS (kmem s)\<rparr>;
          eip = kmem s (new + 32)
      in if sint eip < 0x60000000 then Ret (s\<lparr>cpu_esp := new + CONTEXT_SIZE, cpu_eip := eip\<rparr>) else Stop (Fault ''hlt''))"

definition arch_switch_to :: "bool \<Rightarrow> u32 \<Rightarrow> nat \<Rightarrow> nat \<Rightarrow> int \<Rightarrow> 'a arch_state_scheme \<Rightarrow> 'a arch_state_scheme kres" where
  "arch_switch_to intr_enabled ret prev new new_pid s =
     (if intr_enabled then Stop (Panic ''arch_switch_to: interrupts should not be enabled'')
      else if new_pid < 0 \<or> int NR_PROC \<le> new_pid then Stop (Fault ''cpu_states'')
      else
        let n = nat new_pid;
            s = s\<lparr>current_cpu_state := n, cr3 := r_cr3 (cpu_states s n), arch_tss := (arch_tss s)\<lparr>esp0 := r_kernel_stack (cpu_states s n)\<rparr>\<rparr>
        in asm_switch_to prev (p_context s new) ret s)"

definition arch_exit :: "exec_image \<Rightarrow> 'a arch_state_scheme \<Rightarrow> 'a arch_state_scheme kres" where
  "arch_exit im = free_address_space im"

section \<open>Words of memory\<close>

text \<open>The words of a block do not wrap into each other.\<close>

definition apart :: "u32 \<Rightarrow> nat \<Rightarrow> u32 \<Rightarrow> nat \<Rightarrow> bool" where
  "apart a m b n \<longleftrightarrow> (\<forall>i<m. \<forall>j<n. a + 4 * of_nat i \<noteq> b + 4 * of_nat j)"

lemma word_index_inject:
  assumes "i < 1024" "j < 1024" "4 * of_nat i = (4 * of_nat j :: u32)"
  shows "i = j"
proof -
  have "unat (of_nat (4 * k) :: u32) = 4 * k" if "k < 1024" for k using that by (intro unat_of_nat_u32) simp
  then have "4 * i = 4 * j" using assms by (metis of_nat_mult of_nat_numeral)
  then show ?thesis by simp
qed

lemma store_words_other: "\<forall>i<length ws. x \<noteq> a + 4 * of_nat i \<Longrightarrow> store_words a ws m x = m x"
proof (induction ws arbitrary: a m)
  case (Cons w ws)
  have "x \<noteq> a + 4 + 4 * of_nat i" if "i < length ws" for i using Cons.prems [rule_format, of "Suc i"] that by (simp add: algebra_simps)
  moreover have "x \<noteq> a" using Cons.prems [rule_format, of 0] by simp
  ultimately show ?case using Cons.IH [of "a + 4"] by simp
qed simp

lemma store_words_same: "length ws \<le> 1024 \<Longrightarrow> i < length ws \<Longrightarrow> store_words a ws m (a + 4 * of_nat i) = ws ! i"
proof (induction ws arbitrary: a m i)
  case (Cons w ws)
  show ?case
  proof (cases i)
    case 0
    have "a \<noteq> a + 4 + 4 * of_nat j" if "j < length ws" for j
      using word_index_inject [of 0 "Suc j"] that Cons.prems(1) by (auto simp: algebra_simps)
    then show ?thesis using 0 by (simp add: store_words_other)
  next
    case (Suc j)
    then show ?thesis using Cons.IH [of j "a + 4"] Cons.prems by (simp add: algebra_simps)
  qed
qed simp

lemma load_store: "length ws = n \<Longrightarrow> n \<le> 1024 \<Longrightarrow> load_words a n (store_words a ws m) = ws"
  by (auto simp: load_words_def store_words_same intro: nth_equalityI)

lemma load_words_cong: "(\<And>i. i < n \<Longrightarrow> m (a + 4 * of_nat i) = m' (a + 4 * of_nat i)) \<Longrightarrow> load_words a n m = load_words a n m'"
  by (simp add: load_words_def)

lemma load_store_apart: "apart a n b (length ws) \<Longrightarrow> load_words a n (store_words b ws m) = load_words a n m"
  by (rule load_words_cong) (rule store_words_other, auto simp: apart_def)

section \<open>Switching there and back\<close>

lemma load_context: "load_words a 9 m = ws \<Longrightarrow> load_words a NR_REGS m = take 8 ws \<and> m (a + 32) = ws ! 8"
  by (auto simp: load_words_def upt_rec)

text \<open>What a switch away leaves behind: the context of the process, below its stack pointer.\<close>

lemma asm_switch_to_saves:
  assumes "asm_switch_to prev new ret s = Ret t" "length (cpu_regs s) = NR_REGS"
  shows "p_context t prev = cpu_esp s - 36" "load_words (cpu_esp s - 36) 9 (kmem t) = cpu_regs s @ [ret]"
  using assms by (auto simp: asm_switch_to_def Let_def load_store split: if_splits)

lemma asm_switch_to_loads:
  assumes "load_words new 9 (kmem s) = ws @ [eip]" "length ws = NR_REGS" "length (cpu_regs s) = NR_REGS"
    and "apart new 9 (cpu_esp s - 36) 9" "sint eip < 0x60000000"
  shows "\<exists>t. asm_switch_to prev new ret s = Ret t \<and> cpu_regs t = ws \<and> cpu_eip t = eip \<and> cpu_esp t = new + 36 \<and>
    kmem t = store_words (cpu_esp s - 36) (cpu_regs s @ [ret]) (kmem s) \<and> cr3 t = cr3 s \<and> arch_tss t = arch_tss s"
proof -
  have "load_words new 9 (store_words (cpu_esp s - 36) (cpu_regs s @ [ret]) (kmem s)) = ws @ [eip]"
    using assms(1,3,4) by (simp add: load_store_apart)
  from load_context [OF this] have "load_words new 8 (store_words (cpu_esp s - 36) (cpu_regs s @ [ret]) (kmem s)) = ws"
    "store_words (cpu_esp s - 36) (cpu_regs s @ [ret]) (kmem s) (new + 32) = eip" using assms(2) by (simp_all add: nth_append)
  then show ?thesis using assms(5) by (simp add: asm_switch_to_def Let_def)
qed

text \<open>C4.
  A context switch is a round trip: when a process switches away and later another process switches back to it, it goes on at the place where it called, with its
  registers, its flags and its stack pointer, in its own address space and with its own kernel stack for the next interrupt. Between the two the process's stack and
  the pointer to its context were left alone, and the other process saves its own context somewhere else.
\<close>

theorem switch_round_trip:
  assumes away: "arch_switch_to False ret a b b_pid s = Ret t"
    and regs: "length (cpu_regs s) = NR_REGS" "length (cpu_regs u) = NR_REGS" "sint ret < 0x60000000"
    and kept: "load_words (cpu_esp s - 36) 9 (kmem u) = load_words (cpu_esp s - 36) 9 (kmem t)" "p_context u a = p_context t a"
    and other: "apart (cpu_esp s - 36) 9 (cpu_esp u - 36) 9" and number: "0 \<le> a_pid" "a_pid < int NR_PROC"
  shows "\<exists>v. arch_switch_to False ret' c a a_pid u = Ret v \<and> cpu_regs v = cpu_regs s \<and> cpu_eip v = ret \<and> cpu_esp v = cpu_esp s \<and>
    current_cpu_state v = nat a_pid \<and> cr3 v = r_cr3 (cpu_states u (nat a_pid)) \<and> esp0 (arch_tss v) = r_kernel_stack (cpu_states u (nat a_pid))"
proof -
  obtain s' where s': "asm_switch_to a (p_context s b) ret s' = Ret t" "cpu_regs s' = cpu_regs s" "cpu_esp s' = cpu_esp s"
    using away by (auto simp: arch_switch_to_def Let_def split: if_splits)
  note saved = asm_switch_to_saves [OF s'(1), unfolded s'(2,3), OF regs(1)]
  let ?u = "u\<lparr>current_cpu_state := nat a_pid, cr3 := r_cr3 (cpu_states u (nat a_pid)),
    arch_tss := (arch_tss u)\<lparr>esp0 := r_kernel_stack (cpu_states u (nat a_pid))\<rparr>\<rparr>"
  have "load_words (cpu_esp s - 36) 9 (kmem ?u) = cpu_regs s @ [ret]" using kept(1) saved(2) by simp
  from asm_switch_to_loads [OF this regs(1) _ _ regs(3), of c ret'] regs(2) other obtain v where
    v: "asm_switch_to c (cpu_esp s - 36) ret' ?u = Ret v" "cpu_regs v = cpu_regs s" "cpu_eip v = ret" "cpu_esp v = cpu_esp s - 36 + 36" by auto
  have fields: "current_cpu_state v = nat a_pid" "cr3 v = r_cr3 (cpu_states u (nat a_pid))" "esp0 (arch_tss v) = r_kernel_stack (cpu_states u (nat a_pid))"
    using v(1) by (auto simp: asm_switch_to_def Let_def split: if_splits)
  have "arch_switch_to False ret' c a a_pid u = Ret v" using v(1) saved(1) kept(2) number by (simp add: arch_switch_to_def Let_def)
  then show ?thesis using v fields by auto
qed

section \<open>The start of a child\<close>

text \<open>Copying an address space changes the page tables and the frames only.\<close>

lemma vm_more_simps [simp]:
  "vm_state.more (tmp_map_page p s) = vm_state.more s" "vm_state.more (win_fill w s) = vm_state.more s"
  "vm_state.more (copy_page_table a b s) = vm_state.more s" "vm_state.more (page_increase_count f s) = vm_state.more s"
  by (simp_all add: tmp_map_page_def win_fill_def copy_page_table_def page_increase_count_def Let_def)

lemma win_write_more: "win_write i v s = Ret t \<Longrightarrow> vm_state.more t = vm_state.more s"
  by (auto simp: win_write_def split: if_splits)

lemma alloc_vm_more: "page_frame_alloc s = Ret (p, t) \<Longrightarrow> vm_state.more t = vm_state.more s"
  by (drule page_frame_alloc_more) (cases s rule: vm_state.cases_scheme; cases t rule: vm_state.cases_scheme; simp)

lemma cow_entry_more: "cow_entry b i s = Ret t \<Longrightarrow> vm_state.more t = vm_state.more s"
  by (auto simp: cow_entry_def bindk_eq_Ret_iff dest!: win_write_more split: if_splits)

lemma pg_table_cow_more: "pg_table_cow a b s = Ret t \<Longrightarrow> vm_state.more t = vm_state.more s"
  using foldk_invariant [of "cow_entry b" "[0..<1024]" "tmp_map_page (frame_of a) s" _ "\<lambda>u. vm_state.more u = vm_state.more s"]
  by (auto simp: pg_table_cow_def Let_def bindk_eq_Ret_iff cow_entry_more simp del: upt_rec_numeral)

lemma cow_child_entry_more: "cow_child_entry i s = Ret t \<Longrightarrow> vm_state.more t = vm_state.more s"
  by (auto simp: cow_child_entry_def bindk_eq_Ret_iff dest!: win_write_more pg_table_cow_more split: if_splits)

lemma cow_parent_entry_more: "cow_parent_entry i s = Ret t \<Longrightarrow> vm_state.more t = vm_state.more s"
  by (auto simp: cow_parent_entry_def bindk_eq_Ret_iff dest!: win_write_more pg_table_cow_more alloc_vm_more split: if_splits)

lemma foldk_more:
  assumes "foldk f xs s = Ret t" "\<And>x u v. f x u = Ret v \<Longrightarrow> vm_state.more v = vm_state.more u"
  shows "vm_state.more t = vm_state.more s"
  by (rule foldk_invariant [OF assms(1)]) (auto dest: assms(2))

lemmas cow_children_more = foldk_more [of cow_child_entry, OF _ cow_child_entry_more]
lemmas cow_parents_more = foldk_more [of cow_parent_entry, OF _ cow_parent_entry_more]

lemma copy_address_space_more: "copy_address_space pd a b s = Ret t \<Longrightarrow> vm_state.more t = vm_state.more s"
  by (auto simp: copy_address_space_def Let_def bindk_eq_Ret_iff simp del: upt_rec_numeral
      dest!: cow_children_more cow_parents_more split: if_splits)

lemma arch_fields_cong:
  assumes "vm_state.more t = vm_state.more s"
  shows "cpu_states t = cpu_states s" "current_cpu_state t = current_cpu_state s" "p_context t = p_context s" "kmem t = kmem s"
    "cpu_regs t = cpu_regs s" "cpu_esp t = cpu_esp s"
  using assms by (cases s rule: arch_state.cases_scheme; cases t rule: arch_state.cases_scheme; simp)+

lemma apart_next:
  assumes "m + n \<le> 1024"
  shows "apart a m (a + 4 * of_nat m) n"
  unfolding apart_def
proof (intro allI impI)
  fix i j assume ij: "i < m" "j < n"
  show "a + 4 * of_nat i \<noteq> a + 4 * of_nat m + 4 * of_nat j"
  proof
    assume "a + 4 * of_nat i = a + 4 * of_nat m + 4 * of_nat j"
    then have "4 * of_nat i = (4 * of_nat (m + j) :: u32)" by (simp add: algebra_simps)
    from word_index_inject [OF _ _ this] ij assms show False by simp
  qed
qed

lemma apart_sym: "apart a m b n \<Longrightarrow> apart b n a m"
  unfolding apart_def by metis

lemma load_words_upd:
  assumes "n \<le> 1024" "k < n"
  shows "load_words x n (m(x + 4 * of_nat k := v)) = (load_words x n m)[k := v]"
proof (rule nth_equalityI)
  fix i assume "i < length (load_words x n (m(x + 4 * of_nat k := v)))"
  then have "i < n" by (simp add: load_words_def)
  moreover have "x + 4 * of_nat i = x + 4 * of_nat k \<longleftrightarrow> i = k" using word_index_inject [of i k] \<open>i < n\<close> assms by auto
  ultimately show "load_words x n (m(x + 4 * of_nat k := v)) ! i = (load_words x n m)[k := v] ! i"
    by (auto simp: load_words_def nth_list_update)
qed (simp add: load_words_def)

text \<open>The stack of the child: the frame of registers, and below it the context whose instruction pointer is replaced.\<close>

lemma child_stack:
  fixes x v :: u32 and m :: "u32 \<Rightarrow> u32"
  assumes ws: "length ws = 9" and fr: "length fr = 17"
  defines "m' \<equiv> (store_words x ws (store_words (x + 36) fr m))(x + 32 := v)"
  shows "load_words x 9 m' = take 8 ws @ [v]" "load_words (x + 36) 17 m' = fr"
proof -
  have "load_words x 9 m' = (load_words x 9 (store_words x ws (store_words (x + 36) fr m)))[8 := v]"
    using load_words_upd [of 9 8 x _ v] by (simp add: m'_def)
  also have "\<dots> = take 8 ws @ [v]" using ws by (simp add: load_store upd_conv_take_nth_drop)
  finally show "load_words x 9 m' = take 8 ws @ [v]" .
  have ap: "apart (x + 36) 17 x 9" using apart_next [of 9 17 x] by (simp add: apart_sym)
  have "x + 36 + 4 * of_nat i \<noteq> x + 32" if "i < 17" for i
  proof -
    have "x + 36 + 4 * of_nat i \<noteq> x + 4 * of_nat 8" using ap [unfolded apart_def, rule_format, of i 8] that by simp
    then show ?thesis by simp
  qed
  then have "load_words (x + 36) 17 m' = load_words (x + 36) 17 (store_words x ws (store_words (x + 36) fr m))"
    by (intro load_words_cong) (simp add: m'_def)
  also have "\<dots> = fr" using ap ws fr by (simp add: load_store_apart load_store)
  finally show "load_words (x + 36) 17 m' = fr" .
qed

text \<open>What a fork leaves behind, when the heap only gives memory.\<close>

lemma fork_space_fields:
  assumes heap: "\<And>u. \<exists>u'. alloc (PAGE_SIZE * 2) u = Ret (a, u') \<and> vm_state.more u' = vm_state.more u"
    and space: "fork_space alloc pd n s = Ret (r, t)" "0 \<le> r"
  shows "\<exists>dir. cpu_states t = (cpu_states s)(n := (cpu_states s n)\<lparr>r_kernel_stack := a + 8192, r_cr3 := dir\<rparr>)" "p_context t = p_context s"
    "kmem t = kmem s" "cpu_regs t = cpu_regs s" "cpu_esp t = cpu_esp s"
proof -
  obtain s2 where s2: "alloc (PAGE_SIZE * 2) s = Ret (a, s2)" "vm_state.more s2 = vm_state.more s" using heap [of s] by blast
  obtain dir s4 s6 where s4: "page_frame_alloc (upd_cpu n (\<lambda>c. c\<lparr>r_kernel_stack := a + PAGE_SIZE * 2\<rparr>) s2) = Ret (dir, s4)"
    and s6: "copy_address_space pd (r_cr3 (cpu_states (upd_cpu n (\<lambda>c. c\<lparr>r_cr3 := dir\<rparr>) s4) (current_cpu_state (upd_cpu n (\<lambda>c. c\<lparr>r_cr3 := dir\<rparr>) s4)))) dir
      (upd_cpu n (\<lambda>c. c\<lparr>r_cr3 := dir\<rparr>) s4) = Ret t"
    using space by (auto simp: fork_space_def Let_def s2(1) [simplified] bindk_eq_Ret_iff split: if_splits)
  note f = arch_fields_cong [OF s2(2)] arch_fields_cong [OF alloc_vm_more [OF s4]] arch_fields_cong [OF copy_address_space_more [OF s6]]
  show "\<exists>dir. cpu_states t = (cpu_states s)(n := (cpu_states s n)\<lparr>r_kernel_stack := a + 8192, r_cr3 := dir\<rparr>)" "p_context t = p_context s"
    "kmem t = kmem s" "cpu_regs t = cpu_regs s" "cpu_esp t = cpu_esp s"
    by (auto simp: f upd_cpu_def)
qed

lemma iret_frame_simps [simp]:
  "iret_frame (c\<lparr>r_kernel_stack := v\<rparr>) = iret_frame c" "iret_frame (c\<lparr>r_cr3 := v\<rparr>) = iret_frame c" "length (iret_frame c) = 17"
  by (simp_all add: iret_frame_def)

lemma fork_stack_fields:
  fixes restart :: u32
  assumes c: "cpu_states s n = c\<lparr>r_kernel_stack := x + 104\<rparr>" and parent: "i \<noteq> p" "apart (p_context s p) 9 (x + 36) 17"
  defines "t \<equiv> fork_stack restart p i n s"
  shows "p_context t = (p_context s)(i := x)" "cpu_states t = (cpu_states s)(n := c\<lparr>r_kernel_stack := x\<rparr>)" "cpu_regs t = cpu_regs s" "cpu_esp t = cpu_esp s"
    "load_words x 9 (kmem t) = load_words (p_context s p) 8 (kmem s) @ [restart]" "load_words (x + 36) 17 (kmem t) = iret_frame c"
proof -
  let ?ws = "load_words (p_context s p) 9 (store_words (x + 36) (iret_frame c) (kmem s))"
  have t: "p_context t = (p_context s)(i := x)" "cpu_states t = (cpu_states s)(n := c\<lparr>r_kernel_stack := x\<rparr>)" "cpu_regs t = cpu_regs s" "cpu_esp t = cpu_esp s"
    "kmem t = (store_words x ?ws (store_words (x + 36) (iret_frame c) (kmem s)))(x + 32 := restart)"
    using parent(1) by (simp_all add: t_def fork_stack_def Let_def upd_cpu_def c ac_simps)
  then show "p_context t = (p_context s)(i := x)" "cpu_states t = (cpu_states s)(n := c\<lparr>r_kernel_stack := x\<rparr>)" "cpu_regs t = cpu_regs s" "cpu_esp t = cpu_esp s" by simp_all
  have ws: "length ?ws = 9" by (simp add: load_words_def)
  have "?ws = load_words (p_context s p) 9 (kmem s)" using parent(2) by (simp add: load_store_apart)
  then have "take 8 ?ws = load_words (p_context s p) 8 (kmem s)" using load_context by metis
  then show "load_words x 9 (kmem t) = load_words (p_context s p) 8 (kmem s) @ [restart]" "load_words (x + 36) 17 (kmem t) = iret_frame c"
    unfolding t(5) child_stack [OF ws iret_frame_simps(3)] by simp_all
qed


section \<open>Two processes\<close>

lemma apart_below:
  assumes "unat a + 4 * m \<le> unat b" "unat b + 4 * n < 2 ^ 32"
  shows "apart a m b n"
  unfolding apart_def
proof (intro allI impI notI)
  fix i j assume ij: "i < m" "j < n" and eq: "a + 4 * of_nat i = b + 4 * of_nat j"
  have "unat (c + 4 * of_nat k) = unat c + 4 * k" if "unat c + 4 * k < 4294967296" for c :: u32 and k
  proof -
    have "c + 4 * of_nat k = of_nat (unat c + 4 * k)" by simp
    then show ?thesis using unat_of_nat_u32 [OF that] by metis
  qed
  from this [of a i] this [of b j] ij assms eq show False by simp
qed

definition demo_cpu :: i386_cpu_state where
  "demo_cpu = \<lparr>r_ebp = 1, r_edi = 2, r_esi = 3, r_edx = 4, r_ecx = 5, r_ebx = 6, r_eax = 7, r_gs = 0, r_fs = 0, r_es = 0, r_ds = 0, r_error = 0,
     r_eip = 0x400000, r_cs = 0x1B, r_eflags = 0x200, r_esp = 0xBFFFF000, r_ss = 0x23, r_cr3 = 0x1000, r_kernel_stack = 0xC0110000, r_iret_frame = 0,
     r_kernel_eflags = 0, r_next_cr3 = 0\<rparr>"

text \<open>Process 1 runs on a stack at 0xC0110000; the context of process 2 lies at 0xC0120000.\<close>

definition arch_demo :: arch_state where
  "arch_demo = \<lparr>mmap = mmap page_demo, mmap_bitmaps = mmap_bitmaps page_demo, total_mem = 0x40000, reference_counts = \<lambda>_. 0, phys_mem = \<lambda>_. 0,
     frame_words = \<lambda>_ _. 0, init_page_table = (\<lambda>_. 0)(1023 := 3), init_page_directory = \<lambda>_. 0, current_pg_table = NullTable,
     virt_map_entry = 1023, cr3 = 0x1000, next_cr3 = 0, cpu_states = \<lambda>_. demo_cpu, current_cpu_state = 1,
     p_context = (\<lambda>_. 0xC0120000)(1 := 0xC0101000), kmem = \<lambda>_. 0, arch_tss = \<lparr>esp0 = 0, ss0 = 0x10\<rparr>, cpu_regs = [1, 2, 3, 4, 5, 6, 7, 8], cpu_esp = 0xC0110000, cpu_eip = 0\<rparr>"

theorem switch_round_trip_witness:
  "\<exists>t v. arch_switch_to False 0xC0001234 1 2 2 arch_demo = Ret t \<and> cpu_eip t = 0 \<and> arch_switch_to False 0xC0005678 2 1 1 t = Ret v \<and>
    cpu_regs v = [1, 2, 3, 4, 5, 6, 7, 8] \<and> cpu_eip v = 0xC0001234 \<and> cpu_esp v = 0xC0110000"
proof -
  have z: "load_words 0xC0120000 9 (kmem arch_demo) = replicate 8 0 @ [0]" by (simp add: load_words_def arch_demo_def upt_rec numeral_eq_Suc)
  let ?s = "arch_demo\<lparr>current_cpu_state := 2, cr3 := r_cr3 (cpu_states arch_demo 2), arch_tss := (arch_tss arch_demo)\<lparr>esp0 := r_kernel_stack (cpu_states arch_demo 2)\<rparr>\<rparr>"
  have ap: "apart (0xC0110000 - 36) 9 0xC0120000 9" by (rule apart_below) simp_all
  obtain t where t: "asm_switch_to 1 0xC0120000 0xC0001234 ?s = Ret t" "cpu_regs t = replicate 8 0" "cpu_eip t = 0" "cpu_esp t = 0xC0120000 + 36"
    using asm_switch_to_loads [of "0xC0120000" ?s "replicate 8 0" 0 1 "0xC0001234"] z apart_sym [OF ap] by (auto simp: arch_demo_def)
  have away: "arch_switch_to False 0xC0001234 1 2 2 arch_demo = Ret t" using t(1) by (simp add: arch_switch_to_def Let_def) (simp add: arch_demo_def)
  have "cpu_esp arch_demo = 0xC0110000" "cpu_regs arch_demo = [1, 2, 3, 4, 5, 6, 7, 8]" by (simp_all add: arch_demo_def)
  with switch_round_trip [OF away, of t 1 "0xC0005678" 2] t ap have "\<exists>v. arch_switch_to False 0xC0005678 2 1 1 t = Ret v \<and>
      cpu_regs v = [1, 2, 3, 4, 5, 6, 7, 8] \<and> cpu_eip v = 0xC0001234 \<and> cpu_esp v = 0xC0110000" by auto
  then show ?thesis using away t(3) by blast
qed


end
