(* ===== verification/Uart.thy ===== *)
theory Uart
  imports Processor Tty Req_List
begin

text \<open>
  The serial line, \<^verbatim>\<open>sys/drivers/uart_8250.c\<close>: a table of requests, linked in the order in which they came, which the interrupts of the chip work off byte by
  byte. The buffer of a request is a place in the write queue of a terminal.
\<close>

section \<open>Data\<close>

abbreviation (input) COM1_PORT_BASE :: u16 where "COM1_PORT_BASE \<equiv> 0x3F8"
abbreviation (input) COM2_PORT_BASE :: u16 where "COM2_PORT_BASE \<equiv> 0x2F8"
abbreviation (input) COM3_PORT_BASE :: u16 where "COM3_PORT_BASE \<equiv> 0x3E8"
abbreviation (input) COM4_PORT_BASE :: u16 where "COM4_PORT_BASE \<equiv> 0x2E8"
abbreviation (input) COM_1_3_IRQ :: u8 where "COM_1_3_IRQ \<equiv> 0x24"
abbreviation (input) COM_2_4_IRQ :: u8 where "COM_2_4_IRQ \<equiv> 0x23"
abbreviation (input) DATA_REG :: u16 where "DATA_REG \<equiv> 0"
abbreviation (input) INT_ENABLE :: u16 where "INT_ENABLE \<equiv> 1"
abbreviation (input) DIVISOR_LOW :: u16 where "DIVISOR_LOW \<equiv> 0"
abbreviation (input) DIVISOR_HIGH :: u16 where "DIVISOR_HIGH \<equiv> 1"
abbreviation (input) FCR :: u16 where "FCR \<equiv> 2"
abbreviation (input) INTERRUPT_ID :: u16 where "INTERRUPT_ID \<equiv> 2"
abbreviation (input) LINE_CTRL :: u16 where "LINE_CTRL \<equiv> 3"
abbreviation (input) MODEM_CTRL :: u16 where "MODEM_CTRL \<equiv> 4"
abbreviation (input) LINE_STATUS :: u16 where "LINE_STATUS \<equiv> 5"
abbreviation (input) MODEM_STATUS :: u16 where "MODEM_STATUS \<equiv> 6"
abbreviation (input) DLAB :: u8 where "DLAB \<equiv> 0x80"
abbreviation (input) NR_BITS_8 :: u8 where "NR_BITS_8 \<equiv> 3"
abbreviation (input) IIR_INTERRUPT_PENDING :: u8 where "IIR_INTERRUPT_PENDING \<equiv> 1"
abbreviation (input) IIR_LINE_STATUS_INT :: u8 where "IIR_LINE_STATUS_INT \<equiv> 3"
abbreviation (input) IIR_DATA_AVAILABLE_INT :: u8 where "IIR_DATA_AVAILABLE_INT \<equiv> 2"
abbreviation (input) IIR_TRANSMITTER_EMPTY_INT :: u8 where "IIR_TRANSMITTER_EMPTY_INT \<equiv> 1"
abbreviation (input) IIR_MODEM_STATUS_INT :: u8 where "IIR_MODEM_STATUS_INT \<equiv> 0"
abbreviation (input) FIFO_14_BYTE_TRIGGER :: u8 where "FIFO_14_BYTE_TRIGGER \<equiv> 0xC0"
abbreviation (input) FIFO_ENABLE :: u8 where "FIFO_ENABLE \<equiv> 1"
abbreviation (input) FIFO_CLEAR :: u8 where "FIFO_CLEAR \<equiv> 6"
abbreviation (input) AUX_OUTPUT_1 :: u8 where "AUX_OUTPUT_1 \<equiv> 4"
abbreviation (input) AUX_OUTPUT_2 :: u8 where "AUX_OUTPUT_2 \<equiv> 8"
abbreviation (input) RTS :: u8 where "RTS \<equiv> 2"
abbreviation (input) DTR :: u8 where "DTR \<equiv> 1"
abbreviation (input) LOOPBACK_MODE :: u8 where "LOOPBACK_MODE \<equiv> 0x10"
abbreviation (input) TEST_BYTE :: u8 where "TEST_BYTE \<equiv> 0xAE"
abbreviation (input) IER_TRANSMITTER_EMPTY_INT :: u8 where "IER_TRANSMITTER_EMPTY_INT \<equiv> 2"
abbreviation (input) IER_RECEIVED_DATA_INT :: u8 where "IER_RECEIVED_DATA_INT \<equiv> 1"
abbreviation (input) DLAB_DIVISOR :: u32 where "DLAB_DIVISOR \<equiv> 3"
abbreviation (input) NR_UART8250_REQUESTS :: nat where "NR_UART8250_REQUESTS \<equiv> 5"
abbreviation (input) DRIVERS_UART8250_DRIVER :: nat where "DRIVERS_UART8250_DRIVER \<equiv> 1"

datatype uart8250_rw_dir = UART8250_WRITE | UART8250_READ

text \<open>A buffer is a terminal and a place in its write queue.\<close>

record uart8250_request =
  u_buf :: "(nat \<times> nat) option"
  u_irq :: int
  u_free :: bool
  u_rw :: uart8250_rw_dir
  u_port :: u16
  u_next :: "nat option"

record 'h uart_state = tty_state +
  request_tab :: "nat \<Rightarrow> uart8250_request"
  current_req :: "nat option"
  u_hw :: 'h

definition upd_request :: "nat \<Rightarrow> (uart8250_request \<Rightarrow> uart8250_request) \<Rightarrow> ('h, 'a) uart_state_scheme \<Rightarrow> ('h, 'a) uart_state_scheme" where
  "upd_request i f s = s\<lparr>request_tab := (request_tab s)(i := f (request_tab s i))\<rparr>"

definition COM_PORT :: "u16 \<Rightarrow> u16 \<Rightarrow> u16" where
  "COM_PORT base reg = base + reg"

section \<open>Set up\<close>

definition uart8250_port_init :: "'h port_io \<Rightarrow> u16 \<Rightarrow> 'h \<Rightarrow> bool \<times> 'h" where
  "uart8250_port_init io port h =
     (let h = outbs io [(0, COM_PORT port INT_ENABLE), (DLAB, COM_PORT port LINE_CTRL), (ucast (DLAB_DIVISOR AND 0xFF), COM_PORT port DIVISOR_LOW),
            (ucast (drop_bit 8 DLAB_DIVISOR AND 0xFF), COM_PORT port DIVISOR_HIGH), (NR_BITS_8, COM_PORT port LINE_CTRL),
            (FIFO_14_BYTE_TRIGGER OR FIFO_ENABLE OR FIFO_CLEAR, COM_PORT port FCR), (RTS OR DTR OR AUX_OUTPUT_2, COM_PORT port MODEM_CTRL),
            (LOOPBACK_MODE, COM_PORT port MODEM_CTRL), (TEST_BYTE, COM_PORT port DATA_REG)] h;
          (v, h) = io_inb io (COM_PORT port DATA_REG) h
      in if v \<noteq> TEST_BYTE then (False, h)
         else (True, outbs io [(AUX_OUTPUT_1 OR AUX_OUTPUT_2 OR RTS OR DTR, COM_PORT port MODEM_CTRL)] h))"

text \<open>The chips: the interrupt line of the first pair of ports where one works.\<close>

definition init_pair :: "'h port_io \<Rightarrow> u16 \<Rightarrow> u16 \<Rightarrow> 'h \<Rightarrow> bool \<times> 'h" where
  "init_pair io p q h = (let (ok, h) = uart8250_port_init io p h in if ok then (True, h) else uart8250_port_init io q h)"

definition enable_line :: "'h port_io \<Rightarrow> u8 \<Rightarrow> u32 \<Rightarrow> 't cpu_tables_scheme \<Rightarrow> 'h \<Rightarrow> ('t cpu_tables_scheme \<times> 'h) kres" where
  "enable_line io irq handler t h =
     bindk (set_idt_entry (uint irq) handler KERNEL_CS_SELECTOR DPL_0 IDT_32BIT_INT_GATE t) (\<lambda>t. Ret (t, snd (pic_clear_mask io irq h)))"

definition init_ports :: "'h port_io \<Rightarrow> u32 \<Rightarrow> u32 \<Rightarrow> 't cpu_tables_scheme \<Rightarrow> 'h \<Rightarrow> ('t cpu_tables_scheme \<times> 'h) kres" where
  "init_ports io irq3_handler irq4_handler t h =
     (let (ok, h) = init_pair io COM1_PORT_BASE COM3_PORT_BASE h in
      if ok then enable_line io COM_1_3_IRQ irq4_handler t h
      else let (ok, h) = init_pair io COM2_PORT_BASE COM4_PORT_BASE h in
        if ok then enable_line io COM_2_4_IRQ irq3_handler t h else Ret (t, h))"

definition init_request :: "nat \<Rightarrow> ('h, 'a) uart_state_scheme \<Rightarrow> ('h, 'a) uart_state_scheme" where
  "init_request i = upd_request i (\<lambda>r. r\<lparr>u_next := if i < NR_UART8250_REQUESTS - 1 then Some (i + 1) else u_next r, u_buf := None, u_irq := 0, u_free := True\<rparr>)"

text \<open>A store through a pointer to an entry of the table.\<close>

definition set_next :: "nat \<Rightarrow> nat option \<Rightarrow> ('h, 'a) uart_state_scheme \<Rightarrow> ('h, 'a) uart_state_scheme kres" where
  "set_next i v s = (if i < NR_UART8250_REQUESTS then Ret (upd_request i (\<lambda>r. r\<lparr>u_next := v\<rparr>) s) else Stop (Fault ''request_tab''))"

text \<open>After the loop \<^verbatim>\<open>req\<close> points behind the table.\<close>

definition uart8250_serial_init :: "'h port_io \<Rightarrow> u32 \<Rightarrow> u32 \<Rightarrow> 's driver \<Rightarrow> 't cpu_tables_scheme \<Rightarrow> (nat \<Rightarrow> 's driver option) \<Rightarrow>
    ('h, 'a) uart_state_scheme \<Rightarrow> (int \<times> 't cpu_tables_scheme \<times> (nat \<Rightarrow> 's driver option) \<times> ('h, 'a) uart_state_scheme) kres" where
  "uart8250_serial_init io irq3_handler irq4_handler uart8250_driver t tab s =
     bindk (init_ports io irq3_handler irq4_handler t (u_hw s)) (\<lambda>(t, h).
     let s = fold init_request [0..<NR_UART8250_REQUESTS] (s\<lparr>u_hw := h\<rparr>) in
     bindk (set_next NR_UART8250_REQUESTS (Some 0) s) (\<lambda>s.
     bindk (register_driver uart8250_driver tab) (\<lambda>tab.
     bindk (tty_driver_register DEBUG_TTY (Some DRIVERS_UART8250_DRIVER) s) (\<lambda>(r, s). Ret (if r = None then -1 else 0, t, tab, s)))))"

section \<open>Requests\<close>

definition uart8250_find_free_req :: "('h, 'a) uart_state_scheme \<Rightarrow> nat option" where
  "uart8250_find_free_req s = List.find (\<lambda>i. u_free (request_tab s i)) [0..<NR_UART8250_REQUESTS]"

definition set_int_enable :: "'h port_io \<Rightarrow> u16 \<Rightarrow> (u8 \<Rightarrow> u8) \<Rightarrow> 'h \<Rightarrow> 'h" where
  "set_int_enable io port f h = (let (v, h) = io_inb io (COM_PORT port INT_ENABLE) h in io_outb io (f v) (COM_PORT port INT_ENABLE) h)"

definition uart8250_start_req :: "'h port_io \<Rightarrow> nat \<Rightarrow> ('h, 'a) uart_state_scheme \<Rightarrow> ('h, 'a) uart_state_scheme" where
  "uart8250_start_req io i s =
     (let s = s\<lparr>current_req := Some i\<rparr>; r = request_tab s i in
      case u_rw r of
        UART8250_WRITE \<Rightarrow> s\<lparr>u_hw := set_int_enable io (u_port r) (\<lambda>v. v OR IER_TRANSMITTER_EMPTY_INT) (u_hw s)\<rparr>
      | UART8250_READ \<Rightarrow> s\<lparr>u_hw := set_int_enable io (u_port r) (\<lambda>v. v OR IER_RECEIVED_DATA_INT) (u_hw s)\<rparr>)"

definition uart8250_add_req :: "nat \<Rightarrow> ('h, 'a) uart_state_scheme \<Rightarrow> ('h, 'a) uart_state_scheme kres" where
  "uart8250_add_req i s =
     (case current_req s of
        None \<Rightarrow> Stop (Fault ''current_req'')
      | Some c \<Rightarrow> bindk (chain_end NR_UART8250_REQUESTS (\<lambda>j. u_next (request_tab s j)) c) (\<lambda>p. set_next p (Some i) s))"

definition com_ports :: "u16 list" where
  "com_ports = [COM1_PORT_BASE, COM2_PORT_BASE, COM3_PORT_BASE, COM4_PORT_BASE]"

definition uart8250_rw :: "'h port_io \<Rightarrow> int \<Rightarrow> (nat \<times> nat) option \<Rightarrow> uart8250_rw_dir \<Rightarrow> int \<Rightarrow> ('h, 'a) uart_state_scheme \<Rightarrow>
    (int \<times> ('h, 'a) uart_state_scheme) kres" where
  "uart8250_rw io port buf rw count s =
     (case uart8250_find_free_req s of
        None \<Rightarrow> Ret (-1, s)
      | Some i \<Rightarrow>
          if port < 0 \<or> int (length com_ports) \<le> port then Stop (Fault ''ports'')
          else let s = upd_request i (\<lambda>r. r\<lparr>u_buf := buf, u_irq := count, u_port := com_ports ! nat port, u_next := None, u_free := False, u_rw := rw\<rparr>) s
            in bindk (if current_req s = None then Ret (uart8250_start_req io i s) else uart8250_add_req i s) (\<lambda>s. Ret (0, s)))"

text \<open>The number of a serial terminal is that of its port.\<close>

definition uart8250_tty_out :: "'h port_io \<Rightarrow> int \<Rightarrow> tty_queue \<Rightarrow> ('h, 'a) uart_state_scheme \<Rightarrow> (int \<times> ('h, 'a) uart_state_scheme) kres" where
  "uart8250_tty_out io n tq s =
     (let nr = int (tq_tail tq) - int (tq_head tq) in
      if nr < 0 then Ret (-1, s)
      else bindk (uart8250_rw io n (Some (SERIAL_TTY_START + nat n, tq_head tq)) UART8250_WRITE nr s) (\<lambda>(_, s). Ret (nr, s)))"

section \<open>Interrupts\<close>

definition get_char :: "(nat \<times> nat) option \<Rightarrow> ('h, 'a) uart_state_scheme \<Rightarrow> u8 kres" where
  "get_char p s =
     (case p of
        None \<Rightarrow> Stop (Fault ''buf'')
      | Some (t, k) \<Rightarrow> let b = tq_buf (t_writeq (tty_tab s t)) in if k < length b then Ret (b ! k) else Stop (Fault ''buf''))"

definition put_char :: "(nat \<times> nat) option \<Rightarrow> u8 \<Rightarrow> ('h, 'a) uart_state_scheme \<Rightarrow> ('h, 'a) uart_state_scheme kres" where
  "put_char p c s =
     (case p of
        None \<Rightarrow> Stop (Fault ''buf'')
      | Some (t, k) \<Rightarrow>
          if k < length (tq_buf (t_writeq (tty_tab s t)))
          then Ret (upd_tty t (\<lambda>d. d\<lparr>t_writeq := (t_writeq d)\<lparr>tq_buf := (tq_buf (t_writeq d))[k := c]\<rparr>\<rparr>) s) else Stop (Fault ''buf''))"

text \<open>\<^verbatim>\<open>buf++\<close>.\<close>

definition next_char :: "uart8250_request \<Rightarrow> uart8250_request" where
  "next_char r = r\<lparr>u_buf := map_option (\<lambda>(t, k). (t, k + 1)) (u_buf r)\<rparr>"

text \<open>What is done for the cause of an interrupt.\<close>

definition com_cause :: "'h port_io \<Rightarrow> nat \<Rightarrow> u8 \<Rightarrow> ('h, 'a) uart_state_scheme \<Rightarrow> ('h, 'a) uart_state_scheme kres" where
  "com_cause io i iir s =
     (let r = request_tab s i in
      if iir = IIR_LINE_STATUS_INT then Ret (s\<lparr>u_hw := snd (io_inb io (COM_PORT (u_port r) LINE_STATUS) (u_hw s))\<rparr>)
      else if iir = IIR_DATA_AVAILABLE_INT then
        let (c, h) = io_inb io (COM_PORT (u_port r) DATA_REG) (u_hw s)
        in bindk (put_char (u_buf r) c (s\<lparr>u_hw := h\<rparr>)) (\<lambda>s. Ret (upd_request i next_char s))
      else if iir = IIR_MODEM_STATUS_INT then Ret (s\<lparr>u_hw := snd (io_inb io (COM_PORT (u_port r) MODEM_STATUS) (u_hw s))\<rparr>)
      else if iir = IIR_TRANSMITTER_EMPTY_INT then
        bindk (get_char (u_buf r) s) (\<lambda>c.
        Ret (upd_request i next_char (s\<lparr>u_hw := io_outb io c (COM_PORT (u_port r) DATA_REG) (u_hw s)\<rparr>)))
      else Ret s)"

text \<open>The end of a request.\<close>

definition com_done :: "'h port_io \<Rightarrow> nat \<Rightarrow> ('h, 'a) uart_state_scheme \<Rightarrow> ('h, 'a) uart_state_scheme" where
  "com_done io i s =
     (let r = request_tab s i;
          s = (if u_rw r = UART8250_WRITE
               then s\<lparr>u_hw := set_int_enable io (u_port r) (\<lambda>v. v AND (NOT IER_TRANSMITTER_EMPTY_INT AND 0xF)) (u_hw s)\<rparr> else s);
          s = upd_request i (\<lambda>r. r\<lparr>u_free := True\<rparr>) s
      in case u_next r of Some j \<Rightarrow> uart8250_start_req io j s | None \<Rightarrow> s\<lparr>current_req := None\<rparr>)"

definition handle_com_irq :: "'h port_io \<Rightarrow> ('h, 'a) uart_state_scheme \<Rightarrow> ('h, 'a) uart_state_scheme kres" where
  "handle_com_irq io s =
     (case current_req s of
        None \<Rightarrow> Ret s
      | Some i \<Rightarrow>
          let (iir, h) = io_inb io (COM_PORT (u_port (request_tab s i)) INTERRUPT_ID) (u_hw s); s = s\<lparr>u_hw := h\<rparr> in
          if iir AND IIR_INTERRUPT_PENDING \<noteq> 0 then Ret s
          else bindk (com_cause io i (drop_bit 1 iir AND 7) s) (\<lambda>s.
            let s = upd_request i (\<lambda>r. r\<lparr>u_irq := u_irq r - 1\<rparr>) s
            in Ret (if u_irq (request_tab s i) = 0 then com_done io i s else s)))"

end
