(* ===== verification/Uart_Props.thy ===== *)
theory Uart_Props
  imports Uart Tty_Demo
begin

text \<open>
  The requests to the serial line are a queue, and its interrupts send the bytes of the requests in order. The theory ends with what goes wrong between the
  terminals and the driver: the queue that a request points into is emptied before the first byte is sent.
\<close>

section \<open>The queue of requests\<close>

interpretation uq: req_list "\<lambda>s i. u_next (request_tab s i)" "\<lambda>i v. upd_request i (\<lambda>r. r\<lparr>u_next := v\<rparr>)"
    current_req "\<lambda>v s. s\<lparr>current_req := v\<rparr>"
  by unfold_locales (auto simp: upd_request_def)

text \<open>The bytes that a request has still to send.\<close>

definition req_bytes :: "('h, 'a) uart_state_scheme \<Rightarrow> nat \<Rightarrow> u8 list" where
  "req_bytes s i =
     (case u_buf (request_tab s i) of
        None \<Rightarrow> []
      | Some (t, k) \<Rightarrow> take (nat (u_irq (request_tab s i))) (drop k (tq_buf (t_writeq (tty_tab s t)))))"

definition req_ok :: "('h, 'a) uart_state_scheme \<Rightarrow> nat \<Rightarrow> bool" where
  "req_ok s i \<longleftrightarrow> i < NR_UART8250_REQUESTS \<and> \<not> u_free (request_tab s i) \<and> u_rw (request_tab s i) = UART8250_WRITE \<and>
     u_port (request_tab s i) \<in> set com_ports \<and> 0 < u_irq (request_tab s i) \<and> int (length (req_bytes s i)) = u_irq (request_tab s i)"

definition uart_queue :: "('h, 'a) uart_state_scheme \<Rightarrow> nat list \<Rightarrow> bool" where
  "uart_queue s xs \<longleftrightarrow> req_chain (\<lambda>i. u_next (request_tab s i)) (current_req s) xs \<and> distinct xs \<and> (\<forall>i\<in>set xs. req_ok s i)"

text \<open>
  A chip that is ready to send when it interrupts, and that sends what is put into its data register. \<open>sent p h\<close> is what has left through port \<open>p\<close>.
\<close>

definition sends :: "'h port_io \<Rightarrow> (u16 \<Rightarrow> 'h \<Rightarrow> u8 list) \<Rightarrow> bool" where
  "sends io sent \<longleftrightarrow> (\<forall>p\<in>set com_ports. \<forall>h q.
     fst (io_inb io (COM_PORT p INTERRUPT_ID) h) = 2 \<and> sent q (snd (io_inb io (COM_PORT p INTERRUPT_ID) h)) = sent q h \<and>
     sent q (snd (io_inb io (COM_PORT p INT_ENABLE) h)) = sent q h \<and> (\<forall>v. sent q (io_outb io v (COM_PORT p INT_ENABLE) h) = sent q h) \<and>
     (\<forall>v. sent q (io_outb io v (COM_PORT p DATA_REG) h) = (if q = p then sent q h @ [v] else sent q h)))"

primrec com_irqs :: "nat \<Rightarrow> 'h port_io \<Rightarrow> ('h, 'a) uart_state_scheme \<Rightarrow> ('h, 'a) uart_state_scheme kres" where
  "com_irqs 0 io s = Ret s"
| "com_irqs (Suc n) io s = bindk (handle_com_irq io s) (com_irqs n io)"

lemma com_irqs_add: "com_irqs (m + n) io s = bindk (com_irqs m io s) (com_irqs n io)"
  by (induction m arbitrary: s) (auto simp: bindk_assoc intro!: arg_cong [where f = "bindk _"])

section \<open>Interrupts\<close>

lemma upd_request_simps [simp]:
  "request_tab (upd_request i f s) = (request_tab s)(i := f (request_tab s i))" "current_req (upd_request i f s) = current_req s"
  "u_hw (upd_request i f s) = u_hw s" "tty_tab (upd_request i f s) = tty_tab s"
  by (simp_all add: upd_request_def)

lemma set_int_enable_sends: "sends io sent \<Longrightarrow> p \<in> set com_ports \<Longrightarrow> sent q (set_int_enable io p f h) = sent q h"
  by (simp add: sends_def set_int_enable_def Let_def split_beta)

lemma start_req_frame:
  assumes "sends io sent" "u_port (request_tab s i) \<in> set com_ports"
  shows "current_req (uart8250_start_req io i s) = Some i" "request_tab (uart8250_start_req io i s) = request_tab s"
    "tty_tab (uart8250_start_req io i s) = tty_tab s" "sent q (u_hw (uart8250_start_req io i s)) = sent q (u_hw s)"
  using assms by (simp_all add: uart8250_start_req_def Let_def set_int_enable_sends split: uart8250_rw_dir.split)

text \<open>An interrupt sends the first of the bytes that are left.\<close>

definition sent_one :: "nat \<Rightarrow> ('h, 'a) uart_state_scheme \<Rightarrow> ('h, 'a) uart_state_scheme" where
  "sent_one i = upd_request i (\<lambda>r. (next_char r)\<lparr>u_irq := u_irq r - 1\<rparr>)"

lemma req_bytes_Cons:
  assumes "req_ok s i"
  shows "\<exists>t k. u_buf (request_tab s i) = Some (t, k) \<and> k < length (tq_buf (t_writeq (tty_tab s t))) \<and>
    req_bytes s i = tq_buf (t_writeq (tty_tab s t)) ! k # req_bytes (sent_one i s) i"
proof -
  let ?r = "request_tab s i"
  obtain t k where b: "u_buf ?r = Some (t, k)" using assms by (cases "u_buf ?r") (auto simp: req_ok_def req_bytes_def)
  let ?q = "tq_buf (t_writeq (tty_tab s t))"
  have n: "nat (u_irq ?r) = Suc (nat (u_irq ?r - 1))" and l: "length (req_bytes s i) = nat (u_irq ?r)" using assms by (auto simp: req_ok_def)
  then have "0 < length (drop k ?q)" using b by (auto simp: req_bytes_def)
  then have k: "k < length ?q" by simp
  have "req_bytes s i = ?q ! k # req_bytes (sent_one i s) i"
    using b k by (simp add: req_bytes_def sent_one_def next_char_def n Cons_nth_drop_Suc [symmetric])
  then show ?thesis using b k by blast
qed

lemma com_irq_sends:
  assumes "sends io sent" "current_req s = Some i" "req_ok s i"
  shows "\<exists>h. handle_com_irq io s = Ret (let s' = sent_one i (s\<lparr>u_hw := h\<rparr>) in if u_irq (request_tab s i) = 1 then com_done io i s' else s') \<and>
    (\<forall>q. sent q h = sent q (u_hw s) @ (if q = u_port (request_tab s i) then [hd (req_bytes s i)] else []))"
proof -
  let ?r = "request_tab s i"
  from req_bytes_Cons [OF assms(3)] obtain t k where
    b: "u_buf ?r = Some (t, k)" "k < length (tq_buf (t_writeq (tty_tab s t)))" "hd (req_bytes s i) = tq_buf (t_writeq (tty_tab s t)) ! k" by auto
  have p: "u_port ?r \<in> set com_ports" using assms(3) by (simp add: req_ok_def)
  obtain h where h: "io_inb io (COM_PORT (u_port ?r) INTERRUPT_ID) (u_hw s) = (2, h)" "\<And>q. sent q h = sent q (u_hw s)"
    using assms(1) p unfolding sends_def by (metis prod.collapse)
  let ?h = "io_outb io (hd (req_bytes s i)) (COM_PORT (u_port ?r) DATA_REG) h"
  have "sent q ?h = sent q (u_hw s) @ (if q = u_port ?r then [hd (req_bytes s i)] else [])" for q
    using assms(1) p h(2) by (simp add: sends_def)
  moreover have "handle_com_irq io s = Ret (let s' = sent_one i (s\<lparr>u_hw := ?h\<rparr>) in if u_irq ?r = 1 then com_done io i s' else s')"
    using assms(2) h(1) b
    by (simp add: handle_com_irq_def com_cause_def get_char_def Let_def sent_one_def upd_request_def next_char_def)
  ultimately show ?thesis by blast
qed

lemma sent_one_simps [simp]:
  "current_req (sent_one i s) = current_req s" "u_hw (sent_one i s) = u_hw s" "tty_tab (sent_one i s) = tty_tab s"
  "request_tab (sent_one i s) = (request_tab s)(i := (next_char (request_tab s i))\<lparr>u_irq := u_irq (request_tab s i) - 1\<rparr>)"
  by (simp_all add: sent_one_def)

lemma next_char_simps [simp]:
  "u_irq (next_char r) = u_irq r" "u_free (next_char r) = u_free r" "u_rw (next_char r) = u_rw r" "u_port (next_char r) = u_port r"
  "u_next (next_char r) = u_next r"
  by (simp_all add: next_char_def)

lemma req_bytes_eq:
  "u_buf (request_tab s' i) = u_buf (request_tab s i) \<Longrightarrow> u_irq (request_tab s' i) = u_irq (request_tab s i) \<Longrightarrow> tty_tab s' = tty_tab s \<Longrightarrow>
   req_bytes s' i = req_bytes s i"
  unfolding req_bytes_def by (simp only:)

lemma req_bytes_cong: "request_tab s' i = request_tab s i \<Longrightarrow> tty_tab s' = tty_tab s \<Longrightarrow> req_bytes s' i = req_bytes s i"
  unfolding req_bytes_def by (simp only:)

lemma req_ok_cong: "request_tab s' i = request_tab s i \<Longrightarrow> tty_tab s' = tty_tab s \<Longrightarrow> req_ok s' i = req_ok s i"
  using req_bytes_cong [of s' i s] unfolding req_ok_def by (simp only:)

lemma uart_queue_irq:
  assumes "sends io sent" "uart_queue s (i # xs)"
  shows "\<exists>s'. handle_com_irq io s = Ret s' \<and> tty_tab s' = tty_tab s \<and> (\<forall>j. j \<noteq> i \<longrightarrow> request_tab s' j = request_tab s j) \<and>
    (\<forall>q. sent q (u_hw s') = sent q (u_hw s) @ (if q = u_port (request_tab s i) then [hd (req_bytes s i)] else [])) \<and>
    u_port (request_tab s' i) = u_port (request_tab s i) \<and>
    (if u_irq (request_tab s i) = 1 then uart_queue s' xs \<and> u_free (request_tab s' i) \<and> tl (req_bytes s i) = []
     else uart_queue s' (i # xs) \<and> req_bytes s' i = tl (req_bytes s i))"
proof -
  let ?r = "request_tab s i"
  have i: "current_req s = Some i" "req_ok s i" "i \<notin> set xs" "req_chain (\<lambda>i. u_next (request_tab s i)) (u_next ?r) xs" "distinct xs"
    and xs: "\<And>j. j \<in> set xs \<Longrightarrow> req_ok s j"
    using assms(2) by (auto simp: uart_queue_def)
  from com_irq_sends [OF assms(1) i(1,2)] obtain h where
    h: "handle_com_irq io s = Ret (let s' = sent_one i (s\<lparr>u_hw := h\<rparr>) in if u_irq ?r = 1 then com_done io i s' else s')"
    "\<And>q. sent q h = sent q (u_hw s) @ (if q = u_port ?r then [hd (req_bytes s i)] else [])" by auto
  let ?s = "sent_one i (s\<lparr>u_hw := h\<rparr>)"
  obtain b where b: "req_bytes s i = b # req_bytes (sent_one i s) i" using req_bytes_Cons [OF i(2)] by blast
  have tl: "req_bytes ?s i = tl (req_bytes s i)" unfolding b list.sel by (rule req_bytes_cong) simp_all
  have len: "int (length (req_bytes s i)) = u_irq ?r" "0 < u_irq ?r" using i(2) by (auto simp: req_ok_def)
  show ?thesis
  proof (cases "u_irq ?r = 1")
    case False
    have "req_ok ?s i" using i(2) len False unfolding req_ok_def tl by simp
    moreover have "req_ok ?s j" if "j \<in> set xs" for j
      using xs [OF that] i(3) that by (subst req_ok_cong [of _ _ s]) auto
    moreover have "req_chain (\<lambda>k. u_next (request_tab ?s k)) (current_req ?s) (i # xs)"
      using i by (auto intro!: req_chain_cong [OF i(4)])
    ultimately have "uart_queue ?s (i # xs)" using i by (simp add: uart_queue_def)
    then show ?thesis using h False tl by (intro exI [of _ ?s]) simp
  next
    case True
    let ?d = "com_done io i ?s"
    have "req_bytes ?s i = []" using tl len True by (simp add: length_tl flip: length_0_conv)
    have p: "u_port ?r \<in> set com_ports" "u_rw ?r = UART8250_WRITE" using i(2) by (auto simp: req_ok_def)
    have "request_tab ?d = (request_tab ?s)(i := (request_tab ?s i)\<lparr>u_free := True\<rparr>) \<and> tty_tab ?d = tty_tab s \<and> current_req ?d = u_next ?r \<and>
      (\<forall>q. sent q (u_hw ?d) = sent q h)"
    proof (cases "u_next ?r")
      case None
      then show ?thesis using p assms(1) by (simp add: com_done_def Let_def set_int_enable_sends)
    next
      case (Some j)
      then have "j \<in> set xs" using i(4) by (cases xs) auto
      then have "u_port (request_tab s j) \<in> set com_ports" "j \<noteq> i" using xs i(3) by (auto simp: req_ok_def)
      then show ?thesis using Some p assms(1) by (simp add: com_done_def Let_def set_int_enable_sends start_req_frame)
    qed
    note d = this
    have "req_ok ?d j" if "j \<in> set xs" for j
      using xs [OF that] i(3) that d by (subst req_ok_cong [of _ _ s]) auto
    moreover have "req_chain (\<lambda>k. u_next (request_tab ?d k)) (current_req ?d) xs"
      using i d by (auto intro!: req_chain_cong [OF i(4)])
    ultimately have "uart_queue ?d xs" using i(5) by (simp add: uart_queue_def)
    then show ?thesis using h True tl d \<open>req_bytes ?s i = []\<close> by (intro exI [of _ ?d]) simp
  qed
qed

lemma uart_request_sent:
  assumes "sends io sent" "uart_queue s (i # xs)"
  shows "\<exists>s'. com_irqs (length (req_bytes s i)) io s = Ret s' \<and> tty_tab s' = tty_tab s \<and> (\<forall>j. j \<noteq> i \<longrightarrow> request_tab s' j = request_tab s j) \<and>
    (\<forall>q. sent q (u_hw s') = sent q (u_hw s) @ (if q = u_port (request_tab s i) then req_bytes s i else [])) \<and>
    uart_queue s' xs \<and> u_free (request_tab s' i)"
  using assms(2)
proof (induction "req_bytes s i" arbitrary: s)
  case Nil
  then show ?case by (auto simp: uart_queue_def req_ok_def)
next
  case (Cons b bs)
  from uart_queue_irq [OF assms(1) Cons.prems] obtain t where
    t: "handle_com_irq io s = Ret t" "tty_tab t = tty_tab s" "\<And>j. j \<noteq> i \<Longrightarrow> request_tab t j = request_tab s j"
    "\<And>q. sent q (u_hw t) = sent q (u_hw s) @ (if q = u_port (request_tab s i) then [b] else [])"
    "u_port (request_tab t i) = u_port (request_tab s i)"
    "if u_irq (request_tab s i) = 1 then uart_queue t xs \<and> u_free (request_tab t i) \<and> bs = []
     else uart_queue t (i # xs) \<and> req_bytes t i = bs"
    unfolding Cons(2) [symmetric] list.sel by blast
  show ?case
  proof (cases "u_irq (request_tab s i) = 1")
    case True
    then show ?thesis using t by (intro exI [of _ t]) (simp add: Cons(2) [symmetric])
  next
    case False
    then have "uart_queue t (i # xs)" "bs = req_bytes t i" using t(6) by auto
    from Cons.hyps(1) [OF this(2,1)] obtain u where
      u: "com_irqs (length bs) io t = Ret u" "tty_tab u = tty_tab t" "\<And>j. j \<noteq> i \<Longrightarrow> request_tab u j = request_tab t j"
      "\<And>q. sent q (u_hw u) = sent q (u_hw t) @ (if q = u_port (request_tab t i) then bs else [])"
      "uart_queue u xs" "u_free (request_tab u i)" unfolding \<open>bs = req_bytes t i\<close> by blast
    have "com_irqs (length (req_bytes s i)) io s = Ret u" using t(1) u(1) by (simp add: Cons(2) [symmetric])
    moreover have "sent q (u_hw u) = sent q (u_hw s) @ (if q = u_port (request_tab s i) then req_bytes s i else [])" for q
      unfolding Cons(2) [symmetric] using t(4) [of q] t(5) u(4) [of q] by simp
    moreover have "tty_tab u = tty_tab s" "\<And>j. j \<noteq> i \<Longrightarrow> request_tab u j = request_tab s j" using t(2,3) u(2,3) by simp_all
    ultimately show ?thesis using u(5,6) by blast
  qed
qed

lemma uart_queue_sent:
  assumes "sends io sent" "uart_queue s xs"
  shows "\<exists>s'. com_irqs (length (concat (map (req_bytes s) xs))) io s = Ret s' \<and> tty_tab s' = tty_tab s \<and> current_req s' = None \<and>
    (\<forall>q. sent q (u_hw s') = sent q (u_hw s) @ concat (map (req_bytes s) (filter (\<lambda>i. u_port (request_tab s i) = q) xs))) \<and>
    (\<forall>j. j \<in> set xs \<longrightarrow> u_free (request_tab s' j)) \<and> (\<forall>j. j \<notin> set xs \<longrightarrow> request_tab s' j = request_tab s j)"
  using assms(2)
proof (induction xs arbitrary: s)
  case Nil
  then show ?case by (simp add: uart_queue_def)
next
  case (Cons i xs)
  from uart_request_sent [OF assms(1) Cons.prems] obtain t where
    t: "com_irqs (length (req_bytes s i)) io s = Ret t" "tty_tab t = tty_tab s" "\<And>j. j \<noteq> i \<Longrightarrow> request_tab t j = request_tab s j"
    "\<And>q. sent q (u_hw t) = sent q (u_hw s) @ (if q = u_port (request_tab s i) then req_bytes s i else [])"
    "uart_queue t xs" "u_free (request_tab t i)" by blast
  have i: "i \<notin> set xs" using Cons.prems by (simp add: uart_queue_def)
  have same: "request_tab t j = request_tab s j" "req_bytes t j = req_bytes s j" if "j \<in> set xs" for j
  proof -
    show "request_tab t j = request_tab s j" using t(3) i that by metis
    then show "req_bytes t j = req_bytes s j" using t(2) by (rule req_bytes_cong)
  qed
  have bytes: "map (req_bytes t) xs = map (req_bytes s) xs"
    "map (req_bytes t) (filter (\<lambda>i. u_port (request_tab t i) = q) xs) = map (req_bytes s) (filter (\<lambda>i. u_port (request_tab s i) = q) xs)" for q
    using same by (auto cong: filter_cong)
  from Cons.IH [OF t(5), unfolded bytes] obtain u where
    u: "com_irqs (length (concat (map (req_bytes s) xs))) io t = Ret u" "tty_tab u = tty_tab t" "current_req u = None"
    "\<And>q. sent q (u_hw u) = sent q (u_hw t) @ concat (map (req_bytes s) (filter (\<lambda>i. u_port (request_tab s i) = q) xs))"
    "\<And>j. j \<in> set xs \<Longrightarrow> u_free (request_tab u j)" "\<And>j. j \<notin> set xs \<Longrightarrow> request_tab u j = request_tab t j" by blast
  have "com_irqs (length (concat (map (req_bytes s) (i # xs)))) io s = Ret u" using t(1) u(1) by (simp add: com_irqs_add)
  moreover have "sent q (u_hw u) = sent q (u_hw s) @ concat (map (req_bytes s) (filter (\<lambda>i. u_port (request_tab s i) = q) (i # xs)))" for q
    using u(4) [of q] t(4) [of q] by simp
  ultimately show ?case using u(2,3,5,6) t(2,3,6) i by (intro exI [of _ u]) auto
qed

section \<open>New requests\<close>

lemma uart_queue_length: "uart_queue s xs \<Longrightarrow> length xs \<le> NR_UART8250_REQUESTS"
  using card_mono [of "{..<NR_UART8250_REQUESTS}" "set xs"] by (auto simp: uart_queue_def distinct_card subset_eq req_ok_def)

lemma uart_rw_queues:
  assumes "sends io sent" "uart_queue s xs" "uart8250_find_free_req s = Some i" "0 \<le> p" "p < 4" "0 < n"
    and "k + n \<le> length (tq_buf (t_writeq (tty_tab s t)))"
  shows "\<exists>s'. uart8250_rw io p (Some (t, k)) UART8250_WRITE (int n) s = Ret (0, s') \<and> uart_queue s' (xs @ [i]) \<and>
    tty_tab s' = tty_tab s \<and> (\<forall>q. sent q (u_hw s') = sent q (u_hw s)) \<and>
    req_bytes s' i = take n (drop k (tq_buf (t_writeq (tty_tab s t)))) \<and> u_port (request_tab s' i) = com_ports ! nat p \<and>
    u_buf (request_tab s' i) = Some (t, k) \<and> u_irq (request_tab s' i) = int n \<and>
    (\<forall>j\<in>set xs. req_bytes s' j = req_bytes s j \<and> u_port (request_tab s' j) = u_port (request_tab s j))"
proof -
  let ?r = "\<lambda>r. r\<lparr>u_buf := Some (t, k), u_irq := int n, u_port := com_ports ! nat p, u_next := None, u_free := False, u_rw := UART8250_WRITE\<rparr>"
  let ?s = "upd_request i ?r s"
  have f: "u_free (request_tab s i)" "i < NR_UART8250_REQUESTS"
    using assms(3) unfolding uart8250_find_free_req_def find_Some_iff by (auto simp del: upt_rec_numeral)
  have i: "i \<notin> set xs" using f(1) assms(2) by (auto simp: uart_queue_def req_ok_def)
  have port: "com_ports ! nat p \<in> set com_ports" using assms(4,5) by (intro nth_mem) (simp add: com_ports_def)
  have chain: "req_chain (\<lambda>j. u_next (request_tab ?s j)) (current_req ?s) xs"
    by (rule req_chain_cong [of "\<lambda>j. u_next (request_tab s j)"]) (use assms(2) i in \<open>auto simp: uart_queue_def\<close>)
  have new: "req_bytes ?s i = take n (drop k (tq_buf (t_writeq (tty_tab s t))))" by (simp add: req_bytes_def)
  have ok: "req_ok ?s j" if "j \<in> set (xs @ [i])" for j
  proof (cases "j = i")
    case True
    then show ?thesis using f(2) port assms(6,7) new by (simp add: req_ok_def)
  next
    case False
    then show ?thesis using assms(2) that by (subst req_ok_cong [of _ _ s]) (auto simp: uart_queue_def)
  qed
  have old: "req_bytes ?s j = req_bytes s j" "u_port (request_tab ?s j) = u_port (request_tab s j)" if "j \<in> set xs" for j
    using that i by (auto intro!: req_bytes_cong)
  show ?thesis
  proof (cases "xs = []")
    case True
    then have "current_req s = None" using assms(2) by (simp add: uart_queue_def)
    moreover have "u_port (request_tab ?s i) \<in> set com_ports" using port by simp
    note start_req_frame [OF assms(1) this]
    moreover have "req_ok (uart8250_start_req io i ?s) i" using ok [of i] by (subst req_ok_cong [of _ _ ?s]) (simp_all add: calculation(2-))
    moreover have "req_bytes (uart8250_start_req io i ?s) i = req_bytes ?s i" by (rule req_bytes_cong) (simp_all add: calculation(2-))
    ultimately show ?thesis using assms(3-5) True new
      by (intro exI [of _ "uart8250_start_req io i ?s"]) (simp add: uart8250_rw_def com_ports_def uart_queue_def)
  next
    case False
    define e where "e = last xs"
    let ?u = "upd_request e (\<lambda>r. r\<lparr>u_next := Some i\<rparr>) ?s"
    have e: "e \<in> set xs" "e < NR_UART8250_REQUESTS" "e \<noteq> i" using False ok i by (auto simp: e_def req_ok_def)
    obtain c where c: "current_req s = Some c" using False assms(2) by (cases xs) (auto simp: uart_queue_def)
    have "chain_end NR_UART8250_REQUESTS (\<lambda>j. u_next (request_tab ?s j)) c = Ret e"
      unfolding e_def by (rule req_chain_end) (use chain c uart_queue_length [OF assms(2)] in simp_all)
    then have "uart8250_rw io p (Some (t, k)) UART8250_WRITE (int n) s = Ret (0, ?u)"
      using assms(3-5) c e(2) by (simp add: uart8250_rw_def com_ports_def uart8250_add_req_def set_next_def Let_def)
    moreover have "req_chain (\<lambda>j. u_next (request_tab ?u j)) (current_req ?u) (xs @ [i])"
      unfolding e_def by (rule uq.later_request [of ?s]) (use chain False assms(2) i in \<open>auto simp: uart_queue_def\<close>)
    moreover have same: "req_bytes ?u j = req_bytes ?s j" for j by (rule req_bytes_eq) simp_all
    moreover have "req_ok ?u j = req_ok ?s j" for j using same [of j] by (cases "j = e") (simp_all add: req_ok_def)
    ultimately show ?thesis using ok old new e(3) assms(2) i by (intro exI [of _ ?u]) (auto simp: uart_queue_def)
  qed
qed


text \<open>A chip that sends at once, and a driver with one request on its way.\<close>

definition demo_chip :: "(u16 \<Rightarrow> u8 list) port_io" where
  "demo_chip = \<lparr>io_inb = (\<lambda>p h. (2, h)), io_outb = (\<lambda>v p h. if p \<in> set com_ports then h(p := h p @ [v]) else h),
     io_inw = (\<lambda>p h. (0, h)), io_outw = (\<lambda>v p h. h), io_inl = (\<lambda>p h. (0, h)), io_outl = (\<lambda>v p h. h)\<rparr>"

lemma demo_chip_sends: "sends demo_chip (\<lambda>p h. h p)"
  by (simp add: sends_def demo_chip_def com_ports_def COM_PORT_def)

definition demo_serial :: "(u16 \<Rightarrow> u8 list) uart_state" where
  "demo_serial = tty_state.extend (demo_ttys ((demo_dev 0 (tty_queue_reset undefined))\<lparr>t_writeq := \<lparr>tq_buf = [104, 105, 33], tq_head = 0, tq_tail = 3\<rparr>\<rparr>) (\<lambda>_. 0))
     (uart_state.fields (\<lambda>i. \<lparr>u_buf = Some (4, 0), u_irq = 1, u_free = i \<noteq> 0, u_rw = UART8250_WRITE, u_port = COM1_PORT_BASE, u_next = None\<rparr>)
        (Some 0) (\<lambda>_. []))"

lemma demo_serial_fields [simp]:
  "tq_buf (t_writeq (tty_tab demo_serial i)) = [104, 105, 33]" "current_req demo_serial = Some 0" "u_hw demo_serial = (\<lambda>_. [])"
  "request_tab demo_serial i = \<lparr>u_buf = Some (4, 0), u_irq = 1, u_free = i \<noteq> 0, u_rw = UART8250_WRITE, u_port = COM1_PORT_BASE, u_next = None\<rparr>"
  by (simp_all add: demo_serial_def tty_state.defs uart_state.defs demo_ttys_def ext2_state.defs)

lemma demo_serial_queue: "uart_queue demo_serial [0]" "req_bytes demo_serial 0 = [104]" "uart8250_find_free_req demo_serial = Some 1"
  by (simp_all add: uart_queue_def req_ok_def req_bytes_def com_ports_def uart8250_find_free_req_def upt_rec)


section \<open>Findings\<close>

text \<open>The set up stores through a pointer behind the table.\<close>

lemma uart8250_serial_init_faults: "uart8250_serial_init io irq3 irq4 drv t tab s = Stop (Fault ''request_tab'')"
  by (auto simp: uart8250_serial_init_def init_ports_def enable_line_def set_idt_entry_def set_next_def Let_def split: prod.split)

text \<open>A request for no bytes is never done: the counter is below zero after its first interrupt.\<close>

lemma empty_request_goes_on:
  assumes "current_req s = Some i" "u_irq (request_tab s i) = 0" "handle_com_irq io s = Ret s'" "fst (io_inb io (COM_PORT (u_port (request_tab s i)) 2) (u_hw s)) = 2"
  shows "current_req s' = Some i \<and> u_irq (request_tab s' i) = -1"
  using assms
  by (auto simp: handle_com_irq_def com_cause_def next_char_def Let_def split_beta split: if_splits elim!: bindk_RetE)

text \<open>The terminal empties its write queue when the driver returns; the bytes that are sent later are those of the empty queue.\<close>

lemma serial_text_lost:
  assumes "sends io sent" "uart_queue s []" "uart8250_find_free_req s = Some i" "\<not> t_stopped (tty_tab s 4)" "t_driver (tty_tab s 4) = Some d"
    and "driver_out E d = uart8250_tty_out io" "tq_head (t_writeq (tty_tab s 4)) = 0" "tq_tail (t_writeq (tty_tab s 4)) = n" "0 < n" "n \<le> TTY_BUF_SIZE"
    and "length (tq_buf (t_writeq (tty_tab s 4))) = TTY_BUF_SIZE"
  shows "\<exists>s'. flush_reset E 4 s = Ret s' \<and> req_bytes s' i = replicate n 0"
proof -
  have "0 + n \<le> length (tq_buf (t_writeq (tty_tab s 4)))" using assms(10,11) by simp
  from uart_rw_queues [OF assms(1-3) order_refl _ assms(9) this] obtain s' where
    s': "uart8250_rw io 0 (Some (4, 0)) UART8250_WRITE (int n) s = Ret (0, s')" "uart_queue s' [i]" "tty_tab s' = tty_tab s"
    "u_buf (request_tab s' i) = Some (4, 0)" "u_irq (request_tab s' i) = int n" by auto
  have "flush_reset E 4 s = Ret (writeq 4 tty_queue_reset s')"
    using assms(4-9) s'(1) by (simp add: flush_reset_def tty_flush_def uart8250_tty_out_def TTY_NUM_def)
  moreover have "req_bytes (writeq 4 tty_queue_reset s') i = replicate n 0"
    using assms(10) s'(4,5) by (simp add: req_bytes_def writeq_def upd_tty_def tty_queue_reset_def)
  ultimately show ?thesis by blast
qed

end
