(* ===== verification/Pci.thy ===== *)
theory Pci
  imports Ata_Dma Processor
begin

text \<open>
  The PCI bus, \<^verbatim>\<open>sys/drivers/pci/pci.c\<close>, and the set up of the disks on it, \<^verbatim>\<open>drive_init\<close> of \<^verbatim>\<open>sys/drivers/drive.c\<close>. The entries of the table that are in use are a
  list; \<^verbatim>\<open>next_entry\<close> points behind it and \<^verbatim>\<open>pci_entries\<close> is its length.
\<close>

section \<open>Configuration space\<close>

abbreviation (input) PCI_CONFIG_ADDRESS :: u16 where "PCI_CONFIG_ADDRESS \<equiv> 0xCF8"
abbreviation (input) PCI_CONFIG_DATA :: u16 where "PCI_CONFIG_DATA \<equiv> 0xCFC"
abbreviation (input) PCI_CONFIG_ADDRESS_ENABLE :: u32 where "PCI_CONFIG_ADDRESS_ENABLE \<equiv> 0x80000000"
abbreviation (input) PCI_MAX_BUSES :: nat where "PCI_MAX_BUSES \<equiv> 256"
abbreviation (input) PCI_MAX_DEVICES :: nat where "PCI_MAX_DEVICES \<equiv> 32"
abbreviation (input) PCI_MAX_FUNCTIONS :: nat where "PCI_MAX_FUNCTIONS \<equiv> 8"
abbreviation (input) PCI_DEVICE_NON_EXISTENT :: u16 where "PCI_DEVICE_NON_EXISTENT \<equiv> 0xFFFF"
abbreviation (input) PCI_FUNCTION_NON_EXISTENT :: u16 where "PCI_FUNCTION_NON_EXISTENT \<equiv> 0xFFFF"
abbreviation (input) PCI_DEVICE_MULTIPLE_FUNC :: u8 where "PCI_DEVICE_MULTIPLE_FUNC \<equiv> 0x80"
abbreviation (input) PCI_CLASS_CODE_MASS_STORAGE :: u8 where "PCI_CLASS_CODE_MASS_STORAGE \<equiv> 1"
abbreviation (input) PCI_CLASS_CODE_BRIDGE :: u8 where "PCI_CLASS_CODE_BRIDGE \<equiv> 6"

text \<open>The flag of an entry in use is always one.\<close>

record pci_entry =
  pe_bus :: u8
  pe_device :: u8
  pe_function :: u8

definition config_address :: "u8 \<Rightarrow> u8 \<Rightarrow> u8 \<Rightarrow> u8 \<Rightarrow> u32" where
  "config_address bus device function offset =
     push_bit 16 (ucast bus) OR push_bit 11 (ucast device) OR push_bit 8 (ucast function) OR ucast (offset AND 0xFC) OR PCI_CONFIG_ADDRESS_ENABLE"

definition pci_read_register :: "'h port_io \<Rightarrow> u8 \<Rightarrow> u8 \<Rightarrow> u8 \<Rightarrow> u8 \<Rightarrow> 'h \<Rightarrow> u32 \<times> 'h" where
  "pci_read_register io bus device function offset h =
     io_inl io PCI_CONFIG_DATA (io_outl io (config_address bus device function offset) PCI_CONFIG_ADDRESS h)"

definition pci_write_register :: "'h port_io \<Rightarrow> u8 \<Rightarrow> u8 \<Rightarrow> u8 \<Rightarrow> u8 \<Rightarrow> u32 \<Rightarrow> 'h \<Rightarrow> 'h" where
  "pci_write_register io bus device function offset v h =
     io_outl io v PCI_CONFIG_DATA (io_outl io (config_address bus device function offset) PCI_CONFIG_ADDRESS h)"

definition get_vendor_id :: "'h port_io \<Rightarrow> u8 \<Rightarrow> u8 \<Rightarrow> u8 \<Rightarrow> 'h \<Rightarrow> u16 \<times> 'h" where
  "get_vendor_id io b d f h = apfst (\<lambda>v. ucast (v AND 0xFFFF)) (pci_read_register io b d f 0 h)"

definition get_device_id :: "'h port_io \<Rightarrow> u8 \<Rightarrow> u8 \<Rightarrow> u8 \<Rightarrow> 'h \<Rightarrow> u16 \<times> 'h" where
  "get_device_id io b d f h = apfst (\<lambda>v. ucast (drop_bit 16 v AND 0xFFFF)) (pci_read_register io b d f 0 h)"

definition get_header_type :: "'h port_io \<Rightarrow> u8 \<Rightarrow> u8 \<Rightarrow> u8 \<Rightarrow> 'h \<Rightarrow> u8 \<times> 'h" where
  "get_header_type io b d f h = apfst (\<lambda>v. ucast (drop_bit 16 v AND 0xFF)) (pci_read_register io b d f 0xC h)"

definition get_class_code :: "'h port_io \<Rightarrow> u8 \<Rightarrow> u8 \<Rightarrow> u8 \<Rightarrow> 'h \<Rightarrow> u8 \<times> 'h" where
  "get_class_code io b d f h = apfst (\<lambda>v. ucast (drop_bit 24 v)) (pci_read_register io b d f 0x8 h)"

definition get_subclass :: "'h port_io \<Rightarrow> u8 \<Rightarrow> u8 \<Rightarrow> u8 \<Rightarrow> 'h \<Rightarrow> u8 \<times> 'h" where
  "get_subclass io b d f h = apfst (\<lambda>v. ucast (drop_bit 16 v AND 0xFF)) (pci_read_register io b d f 0x8 h)"

definition get_secondary_bus :: "'h port_io \<Rightarrow> u8 \<Rightarrow> u8 \<Rightarrow> u8 \<Rightarrow> 'h \<Rightarrow> u8 \<times> 'h" where
  "get_secondary_bus io b d f h = apfst (\<lambda>v. ucast (drop_bit 8 v AND 0xFF)) (pci_read_register io b d f 0x18 h)"

definition get_prog_if :: "'h port_io \<Rightarrow> u8 \<Rightarrow> u8 \<Rightarrow> u8 \<Rightarrow> 'h \<Rightarrow> u8 \<times> 'h" where
  "get_prog_if io b d f h = apfst (\<lambda>v. ucast (drop_bit 8 v AND 0xFF)) (pci_read_register io b d f 0x8 h)"

definition get_bar :: "'h port_io \<Rightarrow> u8 \<Rightarrow> u8 \<Rightarrow> u8 \<Rightarrow> int \<Rightarrow> 'h \<Rightarrow> u32 \<times> 'h" where
  "get_bar io b d f bar h =
     (if bar > 5 \<or> bar < 0 then (0, h) else pci_read_register io b d f (0x10 + push_bit 2 (word_of_int bar)) h)"

definition get_int_line :: "'h port_io \<Rightarrow> u8 \<Rightarrow> u8 \<Rightarrow> u8 \<Rightarrow> 'h \<Rightarrow> u8 \<times> 'h" where
  "get_int_line io b d f h = apfst (\<lambda>v. ucast (v AND 0xFF)) (pci_read_register io b d f 0x3C h)"

definition pci_set_cmd_bit :: "'h port_io \<Rightarrow> u8 \<Rightarrow> u8 \<Rightarrow> u8 \<Rightarrow> nat \<Rightarrow> 'h \<Rightarrow> 'h" where
  "pci_set_cmd_bit io b d f k h =
     (let (v, h) = pci_read_register io b d f 0x4 h in pci_write_register io b d f 0x4 (v OR push_bit k 1) h)"

section \<open>Enumeration\<close>

type_synonym 'h pci_state = "pci_entry list \<times> 'h"

text \<open>There is no check that the table has room.\<close>

definition add_entry :: "u8 \<Rightarrow> u8 \<Rightarrow> u8 \<Rightarrow> pci_entry list \<Rightarrow> pci_entry list kres" where
  "add_entry b d f tab =
     (if length tab < PCI_MAX_BUSES * PCI_MAX_DEVICES * PCI_MAX_FUNCTIONS
      then Ret (tab @ [\<lparr>pe_bus = b, pe_device = d, pe_function = f\<rparr>]) else Stop (Fault ''pci_table''))"

text \<open>\<open>scan\<close> is \<open>pci_check_bus\<close>, for the bus behind a bridge.\<close>

definition pci_check_function :: "(u8 \<Rightarrow> 'h pci_state \<Rightarrow> 'h pci_state kres) \<Rightarrow> 'h port_io \<Rightarrow> u8 \<Rightarrow> u8 \<Rightarrow> u8 \<Rightarrow> 'h pci_state \<Rightarrow> 'h pci_state kres" where
  "pci_check_function scan io b d f = (\<lambda>(tab, h).
     let (class_code, h) = get_class_code io b d f h; (subclass, h) = get_subclass io b d f h in
     if class_code = PCI_CLASS_CODE_BRIDGE \<and> subclass = 4
     then let (bus, h) = get_secondary_bus io b d f h in scan bus (tab, h)
     else let (vendor, h) = get_vendor_id io b d f h in
       if vendor \<noteq> PCI_FUNCTION_NON_EXISTENT then bindk (add_entry b d f tab) (\<lambda>tab. Ret (tab, h)) else Ret (tab, h))"

definition pci_check_device :: "(u8 \<Rightarrow> 'h pci_state \<Rightarrow> 'h pci_state kres) \<Rightarrow> 'h port_io \<Rightarrow> u8 \<Rightarrow> u8 \<Rightarrow> 'h pci_state \<Rightarrow> 'h pci_state kres" where
  "pci_check_device scan io b d = (\<lambda>(tab, h).
     let (vendor, h) = get_vendor_id io b d 0 h in
     if vendor = PCI_DEVICE_NON_EXISTENT then Ret (tab, h)
     else bindk (pci_check_function scan io b d 0 (tab, h)) (\<lambda>(tab, h).
       let (header_type, h) = get_header_type io b d 0 h in
       if header_type AND PCI_DEVICE_MULTIPLE_FUNC \<noteq> 0
       then foldk (\<lambda>f. pci_check_function scan io b d (of_nat f)) [1..<PCI_MAX_FUNCTIONS] (tab, h)
       else Ret (tab, h)))"

text \<open>The depth of bridges behind bridges is bounded by the first argument.\<close>

primrec pci_check_bus :: "nat \<Rightarrow> 'h port_io \<Rightarrow> u8 \<Rightarrow> 'h pci_state \<Rightarrow> 'h pci_state kres" where
  "pci_check_bus 0 io b s = Stop Diverges"
| "pci_check_bus (Suc n) io b s = foldk (\<lambda>d. pci_check_device (pci_check_bus n io) io b (of_nat d)) [0..<PCI_MAX_DEVICES] s"

primrec check_host_functions :: "nat list \<Rightarrow> nat \<Rightarrow> 'h port_io \<Rightarrow> 'h pci_state \<Rightarrow> 'h pci_state kres" where
  "check_host_functions [] n io s = Ret s"
| "check_host_functions (f # fs) n io s =
     (let (vendor, h) = get_vendor_id io 0 0 (of_nat f) (snd s) in
      if vendor \<noteq> PCI_FUNCTION_NON_EXISTENT then Ret (fst s, h)
      else bindk (pci_check_bus n io (of_nat f) (fst s, h)) (check_host_functions fs n io))"

definition pci_check_buses :: "nat \<Rightarrow> 'h port_io \<Rightarrow> 'h pci_state \<Rightarrow> 'h pci_state kres" where
  "pci_check_buses n io = (\<lambda>(tab, h).
     let (header_type, h) = get_header_type io 0 0 0 h in
     if header_type AND PCI_DEVICE_MULTIPLE_FUNC = 0 then pci_check_bus n io 0 (tab, h)
     else check_host_functions [0..<PCI_MAX_FUNCTIONS] n io (tab, h))"

definition pci_init :: "nat \<Rightarrow> 'h port_io \<Rightarrow> 'h \<Rightarrow> 'h pci_state kres" where
  "pci_init n io h = pci_check_buses n io ([], h)"

fun pci_find_class_code :: "'h port_io \<Rightarrow> u8 \<Rightarrow> pci_entry list \<Rightarrow> 'h \<Rightarrow> pci_entry option \<times> 'h" where
  "pci_find_class_code io code [] h = (None, h)"
| "pci_find_class_code io code (p # ps) h =
     (let (c, h) = get_class_code io (pe_bus p) (pe_device p) (pe_function p) h in if c = code then (Some p, h) else pci_find_class_code io code ps h)"

section \<open>Disks\<close>

abbreviation (input) ATA_PRI_CMD_BASE :: u32 where "ATA_PRI_CMD_BASE \<equiv> 0x1F0"
abbreviation (input) ATA_PRI_CTRL_BASE :: u32 where "ATA_PRI_CTRL_BASE \<equiv> 0x3F6"
abbreviation (input) ATA_SEC_CMD_BASE :: u32 where "ATA_SEC_CMD_BASE \<equiv> 0x170"
abbreviation (input) ATA_SEC_CTRL_BASE :: u32 where "ATA_SEC_CTRL_BASE \<equiv> 0x376"
abbreviation (input) ATA_PRI_IRQ :: int where "ATA_PRI_IRQ \<equiv> 0xE"
abbreviation (input) ATA_SEC_IRQ :: int where "ATA_SEC_IRQ \<equiv> 0xF"

text \<open>The ports of a channel: those that the controller was given, or the standard ones. Two is added before the low bits are masked.\<close>

definition channel_bars :: "'h port_io \<Rightarrow> pci_entry \<Rightarrow> int \<Rightarrow> 'h \<Rightarrow> u32 \<times> u32 \<times> 'h" where
  "channel_bars io p k h =
     (let (cmd, h) = get_bar io (pe_bus p) (pe_device p) (pe_function p) k h;
          (ctrl, h) = get_bar io (pe_bus p) (pe_device p) (pe_function p) (k + 1) h
      in (cmd AND 0xFFFFFFFC, (ctrl + 2) AND 0xFFFFFFFC, h))"

definition busmaster_bar :: "'h port_io \<Rightarrow> pci_entry \<Rightarrow> 'h \<Rightarrow> u32 \<times> int \<times> 'h" where
  "busmaster_bar io p h =
     (let (bar4, h) = get_bar io (pe_bus p) (pe_device p) (pe_function p) 4 h;
          (bar4, type) = (if bar4 AND 1 \<noteq> 0 then (bar4 AND 0xFFFFFFFC, PCI_BAR_IO_SPACE) else (bar4 AND 0xFFFFFFF0, PCI_BAR_MEM_SPACE));
          bar4 = (if bar4 AND 6 = 2 then 0 else bar4);
          h = (if bar4 \<noteq> 0 then pci_set_cmd_bit io (pe_bus p) (pe_device p) (pe_function p) 2 h else h)
      in (bar4, type, h))"

text \<open>The gates and masks at the end of \<^verbatim>\<open>ata_probe\<close>.\<close>

definition ata_irqs :: "'h port_io \<Rightarrow> int \<Rightarrow> int \<Rightarrow> u32 \<Rightarrow> u32 \<Rightarrow> 't cpu_tables_scheme \<Rightarrow> 'h \<Rightarrow> ('t cpu_tables_scheme \<times> 'h) kres" where
  "ata_irqs io pri_irq sec_irq irq14_handler irq15_handler t h =
     bindk (set_idt_entry (pri_irq + int IRQ_BASE) irq14_handler KERNEL_CS_SELECTOR DPL_0 IDT_32BIT_INT_GATE t) (\<lambda>t.
     bindk (set_idt_entry (sec_irq + int IRQ_BASE) irq15_handler KERNEL_CS_SELECTOR DPL_0 IDT_32BIT_INT_GATE t) (\<lambda>t.
     let (_, h) = pic_clear_mask io 0x22 h; (_, h) = pic_clear_mask io (word_of_int (pri_irq + int IRQ_BASE)) h;
         (_, h) = pic_clear_mask io (word_of_int (sec_irq + int IRQ_BASE)) h
     in Ret (t, h)))"

text \<open>
  \<^verbatim>\<open>drive_init\<close>, with the table of the bus, the processor's tables and the drivers beside the state of the disks. \<open>buf\<close> is the address of the
  buffer on the stack.
\<close>

definition drive_init :: "'h ata_env \<Rightarrow> nat \<Rightarrow> u32 \<Rightarrow> u32 \<Rightarrow> u32 \<Rightarrow> pci_entry list \<Rightarrow> 'd driver \<Rightarrow> (nat \<Rightarrow> 'd driver option) \<Rightarrow> 't cpu_tables_scheme \<Rightarrow>
    ('h, 'a) ata_state_scheme \<Rightarrow> ((nat \<Rightarrow> 'd driver option) \<times> 't cpu_tables_scheme \<times> ('h, 'a) ata_state_scheme) kres" where
  "drive_init E hook buf irq14_handler irq15_handler tab drv drvs t s =
     (let io = a_io E; (p, h) = pci_find_class_code io PCI_CLASS_CODE_MASS_STORAGE tab (hw s) in
      case p of
        None \<Rightarrow> Stop (Panic ''No mass storage device found.'')
      | Some p \<Rightarrow>
          let (subclass, h) = get_subclass io (pe_bus p) (pe_device p) (pe_function p) h in
          if subclass \<noteq> 1 then Stop (Panic ''Currently do not have drivers for anything other than IDE controllers.'')
          else
            let (prog_if, h) = get_prog_if io (pe_bus p) (pe_device p) (pe_function p) h;
                (bar0, bar1, h) = (if prog_if AND 1 \<noteq> 0 then channel_bars io p 0 h else (ATA_PRI_CMD_BASE, ATA_PRI_CTRL_BASE, h));
                (irq, h) = (if prog_if AND 1 \<noteq> 0 then apfst Some (get_int_line io (pe_bus p) (pe_device p) (pe_function p) h) else (None, h));
                (bar2, bar3, h) = (if prog_if AND 4 \<noteq> 0 then channel_bars io p 2 h else (ATA_SEC_CMD_BASE, ATA_SEC_CTRL_BASE, h));
                (irq, h) = (if prog_if AND 4 \<noteq> 0 then apfst Some (get_int_line io (pe_bus p) (pe_device p) (pe_function p) h) else (irq, h));
                (bar4, type, h) = (if prog_if AND 0x80 \<noteq> 0 then busmaster_bar io p h else (0, 0, h));
                (pri_irq, sec_irq) = (case irq of None \<Rightarrow> (ATA_PRI_IRQ, ATA_SEC_IRQ) | Some l \<Rightarrow> (uint l, uint l))
            in bindk (ata_probe E hook bar0 bar1 bar2 bar3 bar4 type (s\<lparr>hw := h\<rparr>)) (\<lambda>(r, s).
               bindk (ata_irqs io pri_irq sec_irq irq14_handler irq15_handler t (hw s)) (\<lambda>(t, h).
               if r < 0 then Stop (Panic ''No ATA drive found.'')
               else
                 let s = fold (\<lambda>i. upd_disk i (\<lambda>x. x\<lparr>dd_minor := i\<rparr>)) [0..<MAX_NR_DRIVES * MAX_NR_PARTITIONS] (s\<lparr>hw := h\<rparr>)
                 in bindk (register_driver drv drvs) (\<lambda>drvs.
                    bindk (read_partition_table_mbr (ata_drivers E) buf s) (\<lambda>s. Ret (drvs, t, s))))))"

end
