(* ===== verification/Pci_Props.thy ===== *)
theory Pci_Props
  imports Pci
begin

text \<open>What the enumeration of the bus puts into the table, and what goes wrong in it and in the set up of the disks.\<close>

section \<open>Functions of a bus\<close>

text \<open>The ports give access to a configuration space, which reading does not change.\<close>

definition config_space :: "'h port_io \<Rightarrow> (u32 \<Rightarrow> u32) \<Rightarrow> bool" where
  "config_space io space \<longleftrightarrow> (\<forall>a h. fst (io_inl io PCI_CONFIG_DATA (io_outl io a PCI_CONFIG_ADDRESS h)) = space a)"

definition vendor_of :: "(u32 \<Rightarrow> u32) \<Rightarrow> u8 \<Rightarrow> u8 \<Rightarrow> u8 \<Rightarrow> u16" where
  "vendor_of space b d f = ucast (space (config_address b d f 0) AND 0xFFFF)"

definition class_of :: "(u32 \<Rightarrow> u32) \<Rightarrow> u8 \<Rightarrow> u8 \<Rightarrow> u8 \<Rightarrow> u8" where
  "class_of space b d f = ucast (drop_bit 24 (space (config_address b d f 8)))"

definition subclass_of :: "(u32 \<Rightarrow> u32) \<Rightarrow> u8 \<Rightarrow> u8 \<Rightarrow> u8 \<Rightarrow> u8" where
  "subclass_of space b d f = ucast (drop_bit 16 (space (config_address b d f 8)) AND 0xFF)"

definition header_of :: "(u32 \<Rightarrow> u32) \<Rightarrow> u8 \<Rightarrow> u8 \<Rightarrow> u8 \<Rightarrow> u8" where
  "header_of space b d f = ucast (drop_bit 16 (space (config_address b d f 0xC)) AND 0xFF)"

text \<open>A function is there if its device is, and if the device has more than one when it is not the first.\<close>

definition present :: "(u32 \<Rightarrow> u32) \<Rightarrow> u8 \<Rightarrow> u8 \<Rightarrow> u8 \<Rightarrow> bool" where
  "present space b d f \<longleftrightarrow> vendor_of space b d 0 \<noteq> PCI_DEVICE_NON_EXISTENT \<and> vendor_of space b d f \<noteq> PCI_FUNCTION_NON_EXISTENT \<and>
     (f = 0 \<or> header_of space b d 0 AND PCI_DEVICE_MULTIPLE_FUNC \<noteq> 0)"

definition bridge :: "(u32 \<Rightarrow> u32) \<Rightarrow> u8 \<Rightarrow> u8 \<Rightarrow> u8 \<Rightarrow> bool" where
  "bridge space b d f \<longleftrightarrow> class_of space b d f = PCI_CLASS_CODE_BRIDGE \<and> subclass_of space b d f = 4"

definition no_bridges :: "(u32 \<Rightarrow> u32) \<Rightarrow> u8 \<Rightarrow> bool" where
  "no_bridges space b \<longleftrightarrow> (\<forall>d<PCI_MAX_DEVICES. vendor_of space b (of_nat d) 0 \<noteq> PCI_DEVICE_NON_EXISTENT \<longrightarrow>
     (\<forall>f<PCI_MAX_FUNCTIONS. \<not> bridge space b (of_nat d) (of_nat f)))"

definition bus_functions :: "(u32 \<Rightarrow> u32) \<Rightarrow> u8 \<Rightarrow> pci_entry list" where
  "bus_functions space b = [\<lparr>pe_bus = b, pe_device = of_nat d, pe_function = of_nat f\<rparr>.
     d \<leftarrow> [0..<PCI_MAX_DEVICES], f \<leftarrow> [0..<PCI_MAX_FUNCTIONS], present space b (of_nat d) (of_nat f)]"

lemma config_reads:
  assumes "config_space io space"
  shows "\<exists>h'. get_vendor_id io b d f h = (vendor_of space b d f, h')" "\<exists>h'. get_class_code io b d f h = (class_of space b d f, h')"
    "\<exists>h'. get_subclass io b d f h = (subclass_of space b d f, h')" "\<exists>h'. get_header_type io b d f h = (header_of space b d f, h')"
proof -
  have "pci_read_register io b d f k h = (space (config_address b d f k), snd (pci_read_register io b d f k h))" for k
    using assms by (simp add: config_space_def pci_read_register_def prod_eq_iff)
  note r = this
  show "\<exists>h'. get_vendor_id io b d f h = (vendor_of space b d f, h')" unfolding get_vendor_id_def vendor_of_def by (subst r) simp
  show "\<exists>h'. get_class_code io b d f h = (class_of space b d f, h')" unfolding get_class_code_def class_of_def by (subst r) simp
  show "\<exists>h'. get_subclass io b d f h = (subclass_of space b d f, h')" unfolding get_subclass_def subclass_of_def by (subst r) simp
  show "\<exists>h'. get_header_type io b d f h = (header_of space b d f, h')" unfolding get_header_type_def header_of_def by (subst r) simp
qed

definition entry_if :: "bool \<Rightarrow> u8 \<Rightarrow> u8 \<Rightarrow> u8 \<Rightarrow> pci_entry list" where
  "entry_if P b d f = (if P then [\<lparr>pe_bus = b, pe_device = d, pe_function = f\<rparr>] else [])"

lemma check_function_adds:
  assumes "config_space io space" "\<not> bridge space b d f"
    and "length tab < 65536"
  shows "\<exists>h'. pci_check_function scan io b d f (tab, h) = Ret (tab @ entry_if (vendor_of space b d f \<noteq> PCI_FUNCTION_NON_EXISTENT) b d f, h')"
proof -
  obtain h1 where 1: "get_class_code io b d f h = (class_of space b d f, h1)" using config_reads(2) [OF assms(1)] by blast
  obtain h2 where 2: "get_subclass io b d f h1 = (subclass_of space b d f, h2)" using config_reads(3) [OF assms(1)] by blast
  obtain h3 where 3: "get_vendor_id io b d f h2 = (vendor_of space b d f, h3)" using config_reads(1) [OF assms(1)] by blast
  show ?thesis using 1 2 3 assms(2,3) by (auto simp: pci_check_function_def add_entry_def entry_if_def bridge_def)
qed

lemma check_functions_add:
  assumes "config_space io space" "\<And>f. f \<in> set fs \<Longrightarrow> \<not> bridge space b d (of_nat f)"
    and "length tab + length fs \<le> 65536"
  shows "\<exists>h'. foldk (\<lambda>f. pci_check_function scan io b d (of_nat f)) fs (tab, h) =
    Ret (tab @ concat (map (\<lambda>f. entry_if (vendor_of space b d (of_nat f) \<noteq> PCI_FUNCTION_NON_EXISTENT) b d (of_nat f)) fs), h')"
  using assms(2,3)
proof (induction fs arbitrary: tab h)
  case (Cons f fs)
  let ?e = "entry_if (vendor_of space b d (of_nat f) \<noteq> PCI_FUNCTION_NON_EXISTENT) b d (of_nat f)"
  obtain h1 where 1: "pci_check_function scan io b d (of_nat f) (tab, h) = Ret (tab @ ?e, h1)"
    using check_function_adds [OF assms(1), of b d "of_nat f" tab scan h] Cons.prems by auto
  have "length ?e \<le> 1" by (simp add: entry_if_def)
  then have "length (tab @ ?e) + length fs \<le> 65536" using Cons.prems(2) by simp
  from Cons.IH [OF _ this, of h1] Cons.prems(1) 1 show ?case by auto
qed simp

definition device_functions :: "(u32 \<Rightarrow> u32) \<Rightarrow> u8 \<Rightarrow> u8 \<Rightarrow> pci_entry list" where
  "device_functions space b d = concat (map (\<lambda>f. entry_if (present space b d (of_nat f)) b d (of_nat f)) [0..<PCI_MAX_FUNCTIONS])"

lemma length_device_functions: "length (device_functions space b d) \<le> PCI_MAX_FUNCTIONS"
  by (simp add: device_functions_def entry_if_def upt_rec)

lemma check_device_adds:
  assumes "config_space io space" "no_bridges space b" "d < PCI_MAX_DEVICES" "length tab + PCI_MAX_FUNCTIONS \<le> 65536"
  shows "\<exists>h'. pci_check_device scan io b (of_nat d) (tab, h) = Ret (tab @ device_functions space b (of_nat d), h')"
proof -
  let ?d = "of_nat d :: u8"
  let ?v = "\<lambda>f. vendor_of space b ?d (of_nat f) \<noteq> PCI_FUNCTION_NON_EXISTENT"
  have nb: "\<not> bridge space b ?d (of_nat f)" if "?v 0" "f < PCI_MAX_FUNCTIONS" for f
    using assms(2,3) that by (simp add: no_bridges_def)
  obtain h0 where 0: "get_vendor_id io b ?d 0 h = (vendor_of space b ?d 0, h0)" using config_reads(1) [OF assms(1)] by blast
  show ?thesis
  proof (cases "?v 0")
    case False
    then have "device_functions space b ?d = []" by (simp add: device_functions_def entry_if_def present_def)
    then show ?thesis using 0 False by (simp add: pci_check_device_def)
  next
    case True
    have "length tab < 65536" using assms(4) by simp
    from check_function_adds [OF assms(1) nb [OF True, of 0, simplified] this] obtain h1 where
      1: "pci_check_function scan io b ?d 0 (tab, h0) = Ret (tab @ entry_if (?v 0) b ?d 0, h1)" by auto
    obtain h2 where 2: "get_header_type io b ?d 0 h1 = (header_of space b ?d 0, h2)" using config_reads(4) [OF assms(1)] by blast
    show ?thesis
    proof (cases "header_of space b ?d 0 AND PCI_DEVICE_MULTIPLE_FUNC = 0")
      case single: True
      have "device_functions space b ?d = entry_if (?v 0) b ?d 0"
        using True single by (simp add: device_functions_def entry_if_def present_def upt_rec)
      then show ?thesis using 0 1 2 True single by (simp add: pci_check_device_def)
    next
      case multi: False
      have "\<exists>h'. foldk (\<lambda>f. pci_check_function scan io b ?d (of_nat f)) [1..<PCI_MAX_FUNCTIONS] (tab @ entry_if (?v 0) b ?d 0, h2) =
          Ret ((tab @ entry_if (?v 0) b ?d 0) @ concat (map (\<lambda>f. entry_if (?v f) b ?d (of_nat f)) [1..<PCI_MAX_FUNCTIONS]), h')"
        by (rule check_functions_add [OF assms(1)]) (use nb [OF True] assms(4) in \<open>auto simp: entry_if_def\<close>)
      then obtain h3 where 3: "foldk (\<lambda>f. pci_check_function scan io b ?d (of_nat f)) [1..<PCI_MAX_FUNCTIONS] (tab @ entry_if (?v 0) b ?d 0, h2) =
          Ret (tab @ entry_if (?v 0) b ?d 0 @ concat (map (\<lambda>f. entry_if (?v f) b ?d (of_nat f)) [1..<PCI_MAX_FUNCTIONS]), h3)" by auto
      have "[0..<PCI_MAX_FUNCTIONS] = 0 # [1..<PCI_MAX_FUNCTIONS]" by (simp add: upt_rec)
      then have "device_functions space b ?d = entry_if (?v 0) b ?d 0 @ concat (map (\<lambda>f. entry_if (?v f) b ?d (of_nat f)) [1..<PCI_MAX_FUNCTIONS])"
        using True multi by (simp add: device_functions_def present_def del: upt_rec_numeral)
      then show ?thesis using 0 1 2 3 True multi by (simp add: pci_check_device_def del: upt_rec_numeral)
    qed
  qed
qed

lemma check_devices_add:
  assumes "config_space io space" "no_bridges space b" "\<And>d. d \<in> set ds \<Longrightarrow> d < PCI_MAX_DEVICES" "length tab + PCI_MAX_FUNCTIONS * length ds \<le> 65536"
  shows "\<exists>h'. foldk (\<lambda>d. pci_check_device scan io b (of_nat d)) ds (tab, h) = Ret (tab @ concat (map (\<lambda>d. device_functions space b (of_nat d)) ds), h')"
  using assms(3,4)
proof (induction ds arbitrary: tab h)
  case (Cons d ds)
  have "d < PCI_MAX_DEVICES" "length tab + PCI_MAX_FUNCTIONS \<le> 65536" using Cons.prems by auto
  from check_device_adds [OF assms(1,2) this] obtain h1 where
    1: "pci_check_device scan io b (of_nat d) (tab, h) = Ret (tab @ device_functions space b (of_nat d), h1)" by blast
  have "length (tab @ device_functions space b (of_nat d)) + PCI_MAX_FUNCTIONS * length ds \<le> 65536"
    using Cons.prems(2) length_device_functions [of space b "of_nat d"] by simp
  from Cons.IH [OF _ this, of h1] Cons.prems(1) 1 show ?case by auto
qed simp

lemma bus_functions_devices: "bus_functions space b = concat (map (\<lambda>d. device_functions space b (of_nat d)) [0..<PCI_MAX_DEVICES])"
  by (simp add: bus_functions_def device_functions_def entry_if_def del: upt_rec_numeral)

lemma find_class_code_first:
  assumes "config_space io space"
  shows "\<exists>h'. pci_find_class_code io code tab h = (List.find (\<lambda>p. class_of space (pe_bus p) (pe_device p) (pe_function p) = code) tab, h')"
proof (induction tab arbitrary: h)
  case (Cons p tab)
  obtain h1 where "get_class_code io (pe_bus p) (pe_device p) (pe_function p) h = (class_of space (pe_bus p) (pe_device p) (pe_function p), h1)"
    using config_reads(2) [OF assms] by blast
  then show ?case using Cons [of h1] by simp
qed simp

text \<open>
  C37. With a host bridge of one function and no other bridge on its bus, the enumeration returns, and the table holds exactly the functions that are on the bus,
  each once, in the order of devices and functions; a search by class then finds the first of them in that class, or nothing when there is none.
\<close>

theorem pci_init_finds_functions:
  assumes "config_space io space" "no_bridges space 0" "header_of space 0 0 0 AND PCI_DEVICE_MULTIPLE_FUNC = 0"
  shows "\<exists>h'. pci_init (Suc n) io h = Ret (bus_functions space 0, h') \<and>
    (\<exists>h''. pci_find_class_code io code (bus_functions space 0) h' =
       (List.find (\<lambda>p. class_of space (pe_bus p) (pe_device p) (pe_function p) = code) (bus_functions space 0), h''))"
proof -
  obtain h1 where 1: "get_header_type io 0 0 0 h = (header_of space 0 0 0, h1)" using config_reads(4) [OF assms(1)] by blast
  obtain h2 where "foldk (\<lambda>d. pci_check_device (pci_check_bus n io) io 0 (of_nat d)) [0..<PCI_MAX_DEVICES] ([], h1) =
      Ret ([] @ concat (map (\<lambda>d. device_functions space 0 (of_nat d)) [0..<PCI_MAX_DEVICES]), h2)"
    using check_devices_add [OF assms(1,2), of "[0..<PCI_MAX_DEVICES]" "[]"] by (auto simp del: upt_rec_numeral)
  then have "pci_init (Suc n) io h = Ret (bus_functions space 0, h2)"
    using 1 assms(3) by (simp add: pci_init_def pci_check_buses_def bus_functions_devices del: upt_rec_numeral)
  then show ?thesis using find_class_code_first [OF assms(1)] by blast
qed

text \<open>A bus with a host bridge in device 0 and a disk controller in device 1, which has two functions. The hardware is the last address written.\<close>

definition demo_space :: "u32 \<Rightarrow> u32" where
  "demo_space a =
     (if a = 0x80000000 then 0x12378086 else if a = 0x80000008 then 0x06000000 else if a = 0x8000000C then 0
      else if a = 0x80000800 then 0x70008086 else if a = 0x80000808 then 0x06010000 else if a = 0x8000080C then 0x00800000
      else if a = 0x80000900 then 0x70108086 else if a = 0x80000908 then 0x01018000 else 0xFFFFFFFF)"

definition demo_bus :: "u32 port_io" where
  "demo_bus = \<lparr>io_inb = (\<lambda>p h. (0, h)), io_outb = (\<lambda>v p h. h), io_inw = (\<lambda>p h. (0, h)), io_outw = (\<lambda>v p h. h),
     io_inl = (\<lambda>p h. (demo_space h, h)), io_outl = (\<lambda>v p h. if p = PCI_CONFIG_ADDRESS then v else h)\<rparr>"

lemma demo_bus_space: "config_space demo_bus demo_space"
  by (simp add: config_space_def demo_bus_def)

lemmas demo_reads = vendor_of_def class_of_def subclass_of_def header_of_def config_address_def demo_space_def

lemma demo_vendors: "\<forall>d\<in>{2..<32}. vendor_of demo_space 0 (of_nat d) 0 = 0xFFFF"
  unfolding set_upt [symmetric] by (simp add: demo_reads)

lemma demo_no_bridges: "no_bridges demo_space 0"
proof -
  have "\<forall>d\<in>{..<2}. \<forall>f\<in>{..<8}. \<not> bridge demo_space 0 (of_nat d) (of_nat f)"
    unfolding lessThan_atLeast0 set_upt [symmetric] by (simp add: bridge_def demo_reads upt_rec)
  then show ?thesis using demo_vendors by (auto simp: no_bridges_def Ball_def not_less [symmetric])
qed

lemma demo_functions:
  "bus_functions demo_space 0 = [\<lparr>pe_bus = 0, pe_device = 0, pe_function = 0\<rparr>, \<lparr>pe_bus = 0, pe_device = 1, pe_function = 0\<rparr>,
     \<lparr>pe_bus = 0, pe_device = 1, pe_function = 1\<rparr>]"
proof -
  have "device_functions demo_space 0 (of_nat d) = []" if "d \<in> set [2..<32]" for d
    using demo_vendors that by (simp add: device_functions_def entry_if_def present_def del: upt_rec_numeral)
  then have "concat (map (\<lambda>d. device_functions demo_space 0 (of_nat d)) [2..<32]) = []" by (simp del: upt_rec_numeral)
  moreover have "[0..<PCI_MAX_DEVICES] = [0, 1] @ [2..<32]" by (simp add: upt_rec)
  ultimately have "bus_functions demo_space 0 = device_functions demo_space 0 0 @ device_functions demo_space 0 1"
    by (simp add: bus_functions_devices del: upt_rec_numeral)
  then show ?thesis by (simp add: device_functions_def entry_if_def present_def demo_reads upt_rec)
qed

theorem pci_init_finds_functions_witness:
  "\<exists>h'. pci_init (Suc 0) demo_bus 0 =
      Ret ([\<lparr>pe_bus = 0, pe_device = 0, pe_function = 0\<rparr>, \<lparr>pe_bus = 0, pe_device = 1, pe_function = 0\<rparr>, \<lparr>pe_bus = 0, pe_device = 1, pe_function = 1\<rparr>], h') \<and>
    fst (pci_find_class_code demo_bus PCI_CLASS_CODE_MASS_STORAGE (bus_functions demo_space 0) h') = Some \<lparr>pe_bus = 0, pe_device = 1, pe_function = 1\<rparr>"
proof -
  have "header_of demo_space 0 0 0 AND PCI_DEVICE_MULTIPLE_FUNC = 0" by (simp add: demo_reads)
  from pci_init_finds_functions [OF demo_bus_space demo_no_bridges this, of 0 0 PCI_CLASS_CODE_MASS_STORAGE] obtain h' h'' where
    h: "pci_init (Suc 0) demo_bus 0 = Ret (bus_functions demo_space 0, h')"
    "pci_find_class_code demo_bus PCI_CLASS_CODE_MASS_STORAGE (bus_functions demo_space 0) h' =
      (List.find (\<lambda>p. class_of demo_space (pe_bus p) (pe_device p) (pe_function p) = PCI_CLASS_CODE_MASS_STORAGE) (bus_functions demo_space 0), h'')" by blast
  have "List.find (\<lambda>p. class_of demo_space (pe_bus p) (pe_device p) (pe_function p) = PCI_CLASS_CODE_MASS_STORAGE) (bus_functions demo_space 0) =
      Some \<lparr>pe_bus = 0, pe_device = 1, pe_function = 1\<rparr>"
    by (simp add: demo_functions demo_reads)
  then show ?thesis using h by (simp add: demo_functions)
qed

section \<open>Findings\<close>

text \<open>The loop over the functions of a host bridge that has several stops at the first one that exists, and it scans the buses of those that do not.\<close>

lemma multifunction_host_scans_nothing:
  assumes "config_space io space" "header_of space 0 0 0 AND PCI_DEVICE_MULTIPLE_FUNC \<noteq> 0" "vendor_of space 0 0 0 \<noteq> PCI_FUNCTION_NON_EXISTENT"
  shows "\<exists>h'. pci_init n io h = Ret ([], h')"
proof -
  obtain h1 where 1: "get_header_type io 0 0 0 h = (header_of space 0 0 0, h1)" using config_reads(4) [OF assms(1)] by blast
  obtain h2 where 2: "get_vendor_id io 0 0 0 h1 = (vendor_of space 0 0 0, h2)" using config_reads(1) [OF assms(1)] by blast
  have "[0..<PCI_MAX_FUNCTIONS] = 0 # [1..<PCI_MAX_FUNCTIONS]" by (simp add: upt_rec)
  then show ?thesis using 1 2 assms(2,3) by (simp add: pci_init_def pci_check_buses_def del: upt_rec_numeral)
qed

text \<open>The control port of a channel is the base, and not two ports further: the mask takes away what was added.\<close>

lemma high_30: "(0xFFFFFFFC :: u32) = NOT (mask 2)" "(0xFFFFFFF0 :: u32) = NOT (mask 4)"
  by (simp_all add: mask_eq_exp_minus_1)

lemma control_port_not_offset:
  assumes "\<not> bit x 0" "\<not> bit x 1"
  shows "((x OR 1) + 2) AND 0xFFFFFFFC = (x :: u32)"
proof -
  have two: "bit (2 :: u32) n \<longleftrightarrow> n = 1" for n by (cases n) (auto simp: bit_Suc bit_1_iff bit_0)
  have "(x OR 1) + 2 = (x OR 1) OR 2"
    by (intro disjunctive_add) (use assms two in \<open>auto simp: bit_or_iff bit_1_iff\<close>)
  moreover have "bit (((x OR 1) OR 2) AND NOT (mask 2)) n = bit x n" if "n < 32" for n
  proof (cases "n < 2")
    case True
    then have "n = 0 \<or> n = 1" by auto
    then show ?thesis using assms by (auto simp: bit_and_iff bit_not_iff bit_mask_iff)
  next
    case False
    then show ?thesis using two [of n] that by (simp add: bit_and_iff bit_or_iff bit_not_iff bit_mask_iff bit_1_iff)
  qed
  ultimately show ?thesis unfolding high_30 by (intro bit_word_eqI) simp
qed

text \<open>The low bits are masked before they are tested for an address of 64 bits.\<close>

lemma wide_bar_not_seen: "(bar AND 0xFFFFFFFC) AND 6 \<noteq> (2 :: u32)" "(bar AND 0xFFFFFFF0) AND 6 \<noteq> (2 :: u32)"
proof -
  have two: "bit (2 :: u32) 1" by (simp add: bit_Suc bit_0)
  have "\<not> bit ((bar AND NOT (mask 2)) AND 6) 1" "\<not> bit ((bar AND NOT (mask 4)) AND 6) 1"
    unfolding bit_and_iff bit_not_iff bit_mask_iff by simp_all
  then show "(bar AND 0xFFFFFFFC) AND 6 \<noteq> (2 :: u32)" "(bar AND 0xFFFFFFF0) AND 6 \<noteq> (2 :: u32)" unfolding high_30 using two by metis+
qed

end
