(* ===== verification/Firmware.thy ===== *)
theory Firmware
  imports Processor Pci Kernel_Map
begin

text \<open>
  The firmware's tables and the keyboard controller: \<^verbatim>\<open>sys/drivers/acpi/acpi_init.c\<close>, \<^verbatim>\<open>sys/drivers/ps2.c\<close>, the set up of the keyboard in \<^verbatim>\<open>ps2_kbd.c\<close> and
  \<^verbatim>\<open>keyboard.c\<close>, and the order of the drivers in \<^verbatim>\<open>init.c\<close>. The tables are found and read through the page tables of \<open>Kernel_Map\<close>.
\<close>

section \<open>ACPI tables\<close>

abbreviation (input) ACPI_1_0 :: u16 where "ACPI_1_0 \<equiv> 0"

text \<open>\<^verbatim>\<open>VIRT_ADDR\<close>.\<close>

definition phys_to_virt :: "u32 \<Rightarrow> u32" where
  "phys_to_virt a = a + 0xC0000000"

definition RSD_PTR :: "u8 list" where
  "RSD_PTR = [82, 83, 68, 32, 80, 84, 82, 32]"

definition FADT_SIGNATURE :: "u8 list" where
  "FADT_SIGNATURE = [70, 65, 67, 80]"

text \<open>The bytes of \<^verbatim>\<open>struct fadt\<close> that were copied.\<close>

record acpi_state = vm_state +
  acpi_supported :: bool
  fadt :: "u8 list"

definition EBDA_ADDR :: "'a acpi_state_scheme \<Rightarrow> u32 kres" where
  "EBDA_ADDR s = bindk (kread s (phys_to_virt 0x40E)) (\<lambda>a. bindk (kread s (phys_to_virt 0x40F)) (\<lambda>b. Ret (ucast a OR push_bit 8 (ucast b))))"

text \<open>The search for the root pointer, at every sixteenth byte of two areas.\<close>

fun rsdp_loop :: "u32 list \<Rightarrow> 'a acpi_state_scheme \<Rightarrow> u32 option kres" where
  "rsdp_loop [] s = Ret None"
| "rsdp_loop (p # ps) s = bindk (kread_bytes s p 8) (\<lambda>b. if b = RSD_PTR then Ret (Some p) else rsdp_loop ps s)"

definition find_rsdp :: "'a acpi_state_scheme \<Rightarrow> u32 option kres" where
  "find_rsdp s =
     bindk (EBDA_ADDR s) (\<lambda>e.
     bindk (rsdp_loop (map (\<lambda>i. phys_to_virt (push_bit 4 e) + 16 * of_nat i) [0..<1024 div 16]) s) (\<lambda>r.
     case r of
       Some p \<Rightarrow> Ret (Some p)
     | None \<Rightarrow> rsdp_loop (map (\<lambda>i. phys_to_virt 0xE0000 + 16 * of_nat i) [0..<8192]) s))"

definition acpi_table_check :: "u32 \<Rightarrow> 'a acpi_state_scheme \<Rightarrow> bool kres" where
  "acpi_table_check header s = bindk (kread32 s (header + 4)) (\<lambda>len. bindk (kread_bytes s header (unat len)) (\<lambda>bs. Ret (sum_list bs = 0)))"

definition acpi_find_table :: "u32 \<Rightarrow> u8 list \<Rightarrow> 'a acpi_state_scheme \<Rightarrow> (u32 option \<times> 'a acpi_state_scheme) kres" where
  "acpi_find_table phys signature s =
     bindk (virt_map_phys (phys AND 0xFFFFF000) s) (\<lambda>(virt, s).
     let header = virt + (phys AND 0xFFF) in
     bindk (kread_bytes s header 4) (\<lambda>b.
     if b = signature then Ret (Some header, s) else bindk (virt_unmap_virt virt s) (\<lambda>s. Ret (None, s))))"

text \<open>The loop over the pointers after the header of the root table, which is read anew in each turn. The first argument bounds the turns.\<close>

primrec fadt_loop :: "nat \<Rightarrow> u32 \<Rightarrow> u32 \<Rightarrow> 'a acpi_state_scheme \<Rightarrow> (u32 option \<times> 'a acpi_state_scheme) kres" where
  "fadt_loop 0 rsdt ptrs s = Stop Diverges"
| "fadt_loop (Suc n) rsdt ptrs s =
     bindk (kread32 s (rsdt + 4)) (\<lambda>len.
     if ptrs < rsdt + len
     then bindk (kread32 s ptrs) (\<lambda>phys. bindk (acpi_find_table phys FADT_SIGNATURE s) (\<lambda>(r, s).
       case r of Some p \<Rightarrow> Ret (Some p, s) | None \<Rightarrow> fadt_loop n rsdt (ptrs + 4) s))
     else Ret (None, s))"

text \<open>\<^verbatim>\<open>fadt = *fadt_ptr\<close>, 244 bytes, and the end of the two mappings.\<close>

definition take_fadt :: "u32 \<Rightarrow> u32 \<Rightarrow> 'a acpi_state_scheme \<Rightarrow> 'a acpi_state_scheme kres" where
  "take_fadt rsdt p s =
     bindk (kread_bytes s p 244) (\<lambda>bs.
     bindk (virt_unmap_virt (rsdt AND 0xFFFFF000) (s\<lparr>fadt := bs\<rparr>)) (\<lambda>s.
     bindk (virt_unmap_virt (p AND 0xFFFFF000) s) (\<lambda>s. Ret (s\<lparr>acpi_supported := True\<rparr>))))"

definition acpi_init :: "nat \<Rightarrow> 'a acpi_state_scheme \<Rightarrow> 'a acpi_state_scheme kres" where
  "acpi_init n s =
     bindk (find_rsdp s) (\<lambda>r.
     case r of
       None \<Rightarrow> Ret s
     | Some rsdp \<Rightarrow>
         bindk (kread_bytes s rsdp 20) (\<lambda>bs.
         if sum_list bs \<noteq> 0 then Ret s
         else
           bindk (kread32 s (rsdp + 16)) (\<lambda>rsdt_addr.
           bindk (virt_map_phys (rsdt_addr AND 0xFFFFF000) s) (\<lambda>(virt, s).
           let rsdt = virt + (rsdt_addr AND VIRT_ADDR_FRAME_MASK) in
           bindk (acpi_table_check rsdt s) (\<lambda>ok.
           if \<not> ok then Ret s
           else
             bindk (fadt_loop n rsdt (rsdt + 36) s) (\<lambda>(f, s).
             case f of
               None \<Rightarrow> Ret s
             | Some p \<Rightarrow> bindk (acpi_table_check p s) (\<lambda>ok. if ok then take_fadt rsdt p s else Ret s)))))))"

text \<open>The revision is at offset 8 and the flags are at offset 109.\<close>

definition get_acpi_boot_arch_flags :: "u8 list \<Rightarrow> u16" where
  "get_acpi_boot_arch_flags f = (if f ! 8 = 0 then ACPI_1_0 else ucast (f ! 109) OR push_bit 8 (ucast (f ! 110)))"

section \<open>Keyboard controller\<close>

abbreviation (input) PS2_DATA_PORT :: u16 where "PS2_DATA_PORT \<equiv> 0x60"
abbreviation (input) PS2_STAT_REG :: u16 where "PS2_STAT_REG \<equiv> 0x64"
abbreviation (input) PS2_CMD_REG :: u16 where "PS2_CMD_REG \<equiv> 0x64"
abbreviation (input) PS2_STAT_OUT_FULL :: u8 where "PS2_STAT_OUT_FULL \<equiv> 1"
abbreviation (input) PS2_STAT_IN_FULL :: u8 where "PS2_STAT_IN_FULL \<equiv> 2"
abbreviation (input) PS2_CMD_RD_BYTE0 :: u8 where "PS2_CMD_RD_BYTE0 \<equiv> 0x20"
abbreviation (input) PS2_CMD_WR_BYTE0 :: u8 where "PS2_CMD_WR_BYTE0 \<equiv> 0x60"
abbreviation (input) PS2_CMD_DISABLE_SEC_PORT :: u8 where "PS2_CMD_DISABLE_SEC_PORT \<equiv> 0xA7"
abbreviation (input) PS2_CMD_ENABLE_SEC_PORT :: u8 where "PS2_CMD_ENABLE_SEC_PORT \<equiv> 0xA8"
abbreviation (input) PS2_CMD_TEST_SEC_PORT :: u8 where "PS2_CMD_TEST_SEC_PORT \<equiv> 0xA9"
abbreviation (input) PS2_CMD_TEST :: u8 where "PS2_CMD_TEST \<equiv> 0xAA"
abbreviation (input) PS2_CMD_TEST_FIRST_PORT :: u8 where "PS2_CMD_TEST_FIRST_PORT \<equiv> 0xAB"
abbreviation (input) PS2_CMD_DISABLE_FIRST_PORT :: u8 where "PS2_CMD_DISABLE_FIRST_PORT \<equiv> 0xAD"
abbreviation (input) PS2_CMD_ENABLE_FIRST_PORT :: u8 where "PS2_CMD_ENABLE_FIRST_PORT \<equiv> 0xAE"
abbreviation (input) PS2_CMD_WR_SEC_IN :: u8 where "PS2_CMD_WR_SEC_IN \<equiv> 0xD4"
abbreviation (input) PS2_FIRST_PORT_INTR :: u8 where "PS2_FIRST_PORT_INTR \<equiv> 1"
abbreviation (input) PS2_SEC_PORT_INTR :: u8 where "PS2_SEC_PORT_INTR \<equiv> 2"
abbreviation (input) PS2_SECOND_CLOCK :: u8 where "PS2_SECOND_CLOCK \<equiv> 0x20"
abbreviation (input) PS2_FIRST_TRANSLATION :: u8 where "PS2_FIRST_TRANSLATION \<equiv> 0x40"
abbreviation (input) PS2_DEV_ACK :: u8 where "PS2_DEV_ACK \<equiv> 0xFA"
abbreviation (input) PS2_DEV_RESEND :: u8 where "PS2_DEV_RESEND \<equiv> 0xFE"
abbreviation (input) PS2_FIRST_IRQ :: u8 where "PS2_FIRST_IRQ \<equiv> 0x21"

datatype ps2_channel = PS2_FIRST_PORT | PS2_SEC_PORT

text \<open>\<^verbatim>\<open>while (P(inb(PS2_STAT_REG)));\<close>\<close>

primrec poll_status :: "nat \<Rightarrow> (u8 \<Rightarrow> bool) \<Rightarrow> 'h port_io \<Rightarrow> 'h \<Rightarrow> 'h kres" where
  "poll_status 0 P io h = Stop Diverges"
| "poll_status (Suc n) P io h = (let (v, h) = io_inb io PS2_STAT_REG h in if P v then poll_status n P io h else Ret h)"

text \<open>\<^verbatim>\<open>while (P(inb(PS2_STAT_REG)) && timeout--);\<close> with what \<^verbatim>\<open>timeout\<close> is at the end.\<close>

primrec poll_timeout :: "nat \<Rightarrow> (u8 \<Rightarrow> bool) \<Rightarrow> 'h port_io \<Rightarrow> 'h \<Rightarrow> int \<times> 'h" where
  "poll_timeout 0 P io h = (let (v, h) = io_inb io PS2_STAT_REG h in (if P v then -1 else 0, h))"
| "poll_timeout (Suc n) P io h = (let (v, h) = io_inb io PS2_STAT_REG h in if P v then poll_timeout n P io h else (int (Suc n), h))"

abbreviation (input) in_full :: "u8 \<Rightarrow> bool" where "in_full v \<equiv> v AND PS2_STAT_IN_FULL \<noteq> 0"
abbreviation (input) out_empty :: "u8 \<Rightarrow> bool" where "out_empty v \<equiv> v AND PS2_STAT_OUT_FULL = 0"

definition ps2_send_cmd :: "nat \<Rightarrow> 'h port_io \<Rightarrow> u8 \<Rightarrow> u8 option \<Rightarrow> bool \<Rightarrow> 'h \<Rightarrow> (u8 \<times> 'h) kres" where
  "ps2_send_cmd n io cmd arg ret h =
     (let h = io_outb io cmd PS2_CMD_REG h in
      bindk (case arg of None \<Rightarrow> Ret h | Some a \<Rightarrow> bindk (poll_status n in_full io h) (\<lambda>h. Ret (io_outb io a PS2_DATA_PORT h))) (\<lambda>h.
      if ret then bindk (poll_status n out_empty io h) (\<lambda>h. Ret (io_inb io PS2_DATA_PORT h)) else Ret (0, h)))"

definition ps2_dev_send_data :: "nat \<Rightarrow> nat \<Rightarrow> 'h port_io \<Rightarrow> bool \<Rightarrow> ps2_channel \<Rightarrow> u8 \<Rightarrow> 'h \<Rightarrow> (int \<times> 'h) kres" where
  "ps2_dev_send_data n timeout io dual_channel chan data h =
     (if chan = PS2_SEC_PORT \<and> \<not> dual_channel then Ret (-1, h)
      else bindk (if chan = PS2_SEC_PORT then ps2_send_cmd n io PS2_CMD_WR_SEC_IN None False h else Ret (0, h)) (\<lambda>(_, h).
        let (t, h) = poll_timeout timeout in_full io h in
        if t = 0 then Ret (-1, h) else Ret (0, io_outb io data PS2_DATA_PORT h)))"

text \<open>The first argument is the number of retries that are left.\<close>

primrec send_wait_loop :: "nat \<Rightarrow> nat \<Rightarrow> nat \<Rightarrow> 'h port_io \<Rightarrow> bool \<Rightarrow> ps2_channel \<Rightarrow> u8 \<Rightarrow> 'h \<Rightarrow> (int \<times> 'h) kres" where
  "send_wait_loop 0 n timeout io dual_channel chan data h = Ret (0, h)"
| "send_wait_loop (Suc k) n timeout io dual_channel chan data h =
     bindk (ps2_dev_send_data n timeout io dual_channel chan data h) (\<lambda>(_, h).
     let (t, h) = poll_timeout timeout out_empty io h; (v, h) = (if t = 0 then io_inb io PS2_STAT_REG h else (PS2_STAT_OUT_FULL, h)) in
     if t = 0 \<and> out_empty v then Ret (-1, h)
     else let (res, h) = io_inb io PS2_DATA_PORT h in
       if res = PS2_DEV_ACK then Ret (0, h)
       else if res = PS2_DEV_RESEND then send_wait_loop k n timeout io dual_channel chan data h
       else Ret (-1, h))"

definition ps2_dev_send_wait :: "nat \<Rightarrow> nat \<Rightarrow> 'h port_io \<Rightarrow> bool \<Rightarrow> ps2_channel \<Rightarrow> u8 \<Rightarrow> 'h \<Rightarrow> (int \<times> 'h) kres" where
  "ps2_dev_send_wait = send_wait_loop 3"

text \<open>A command without an argument whose answer is not wanted.\<close>

definition ps2_cmd :: "nat \<Rightarrow> 'h port_io \<Rightarrow> u8 \<Rightarrow> 'h \<Rightarrow> 'h kres" where
  "ps2_cmd n io cmd h = bindk (ps2_send_cmd n io cmd None False h) (\<lambda>(_, h). Ret h)"

text \<open>The test of the second channel, after which it stays disabled.\<close>

definition probe_second :: "nat \<Rightarrow> 'h port_io \<Rightarrow> bool \<Rightarrow> 'h \<Rightarrow> (bool \<times> 'h) kres" where
  "probe_second n io dual h =
     (if dual then
        bindk (ps2_cmd n io PS2_CMD_ENABLE_SEC_PORT h) (\<lambda>h.
        bindk (ps2_send_cmd n io PS2_CMD_RD_BYTE0 None True h) (\<lambda>(c, h).
        if c AND PS2_SECOND_CLOCK \<noteq> 0 then Ret (False, h)
        else bindk (ps2_cmd n io PS2_CMD_DISABLE_SEC_PORT h) (\<lambda>h. Ret (True, h))))
      else Ret (False, h))"

definition working_devices :: "nat \<Rightarrow> 'h port_io \<Rightarrow> bool \<Rightarrow> 'h \<Rightarrow> (nat \<times> 'h) kres" where
  "working_devices n io dual h =
     bindk (ps2_send_cmd n io PS2_CMD_TEST_FIRST_PORT None True h) (\<lambda>(t, h).
     let w = (if t = 0 then 1 else 0) in
     if dual then bindk (ps2_send_cmd n io PS2_CMD_TEST_SEC_PORT None True h) (\<lambda>(t, h). Ret (if t = 0 then w + 1 else w, h)) else Ret (w, h))"

text \<open>\<^verbatim>\<open>ps2_init\<close>, with \<^verbatim>\<open>dual_channel\<close> before and after.\<close>

definition ps2_init :: "nat \<Rightarrow> 'h port_io \<Rightarrow> bool \<Rightarrow> 'h \<Rightarrow> (bool \<times> 'h) kres" where
  "ps2_init n io dual_channel h =
     bindk (ps2_cmd n io PS2_CMD_DISABLE_FIRST_PORT h) (\<lambda>h.
     bindk (ps2_cmd n io PS2_CMD_DISABLE_SEC_PORT h) (\<lambda>h.
     let (_, h) = io_inb io PS2_DATA_PORT h in
     bindk (ps2_send_cmd n io PS2_CMD_RD_BYTE0 None True h) (\<lambda>(c, h).
     let c = c AND NOT PS2_FIRST_PORT_INTR AND NOT PS2_SEC_PORT_INTR AND NOT PS2_FIRST_TRANSLATION;
         dual = (dual_channel \<or> c AND PS2_SECOND_CLOCK \<noteq> 0)
     in bindk (ps2_send_cmd n io PS2_CMD_WR_BYTE0 (Some c) False h) (\<lambda>(_, h).
     bindk (ps2_send_cmd n io PS2_CMD_TEST None True h) (\<lambda>(r, h).
     if r \<noteq> 0x55 then Stop (Panic ''Unable to initialise PS/2 controller'')
     else
       bindk (probe_second n io dual h) (\<lambda>(dual, h).
       bindk (working_devices n io dual h) (\<lambda>(w, h).
       if w = 0 then Stop (Panic ''No working devices connected to PS/2 controller'')
       else
         bindk (ps2_cmd n io PS2_CMD_ENABLE_FIRST_PORT h) (\<lambda>h.
         bindk (ps2_send_cmd n io PS2_CMD_RD_BYTE0 None True h) (\<lambda>(c, h).
         let c = c OR PS2_FIRST_PORT_INTR OR PS2_FIRST_TRANSLATION in
         bindk (if w = 2 then bindk (ps2_cmd n io PS2_CMD_ENABLE_SEC_PORT h) (\<lambda>h. Ret (c OR PS2_SEC_PORT_INTR, h)) else Ret (c, h)) (\<lambda>(c, h).
         bindk (ps2_send_cmd n io PS2_CMD_WR_BYTE0 (Some c) False h) (\<lambda>(_, h). Ret (dual, h))))))))))))"

text \<open>What \<^verbatim>\<open>ps2_kbd_init\<close> does before its first \<^verbatim>\<open>return\<close>; the rest is never reached.\<close>

definition ps2_kbd_init :: "'h port_io \<Rightarrow> u32 \<Rightarrow> 's driver \<Rightarrow> (nat \<Rightarrow> 's driver option) \<Rightarrow> 't cpu_tables_scheme \<Rightarrow> 'h \<Rightarrow>
    (int \<times> (nat \<Rightarrow> 's driver option) \<times> 't cpu_tables_scheme \<times> 'h) kres" where
  "ps2_kbd_init io irq1_handler drv drvs t h =
     bindk (register_driver drv drvs) (\<lambda>drvs.
     let (_, h) = io_inb io PS2_DATA_PORT h in
     bindk (set_idt_entry (uint PS2_FIRST_IRQ) irq1_handler KERNEL_CS_SELECTOR DPL_0 IDT_32BIT_INT_GATE t) (\<lambda>t.
     Ret (0, drvs, t, snd (pic_clear_mask io PS2_FIRST_IRQ h))))"

text \<open>The search for an USB controller only prints a warning, but it reads the bus.\<close>

definition keyboard_init :: "nat \<Rightarrow> 'h port_io \<Rightarrow> u8 list \<Rightarrow> pci_entry list \<Rightarrow> u32 \<Rightarrow> bool \<Rightarrow> 's driver \<Rightarrow> (nat \<Rightarrow> 's driver option) \<Rightarrow> 't cpu_tables_scheme \<Rightarrow> 'h \<Rightarrow>
    (bool \<times> (nat \<Rightarrow> 's driver option) \<times> 't cpu_tables_scheme \<times> 'h) kres" where
  "keyboard_init n io f tab irq1_handler dual_channel drv drvs t h =
     (let (_, h) = pci_find_class_code io 0xC tab h; flag = get_acpi_boot_arch_flags f in
      if flag \<noteq> ACPI_1_0 \<and> flag AND 2 = 0 then Stop (Panic ''No keyboard controller found'')
      else bindk (ps2_init n io dual_channel h) (\<lambda>(dual, h).
        bindk (ps2_kbd_init io irq1_handler drv drvs t h) (\<lambda>(r, drvs, t, h).
        if r < 0 then Stop (Panic ''Unable to initialise PS/2 keyboard'') else Ret (dual, drvs, t, h))))"

section \<open>Order of the drivers\<close>

datatype init_function = Tty_init | Uart8250_serial_init | Pit_init | Fb_init | Vc_init | Drive_init | Ext2_init | Keyboard_init

definition critical_init_func_table :: "init_function list" where
  "critical_init_func_table = [Tty_init, Uart8250_serial_init, Pit_init]"

definition init_func_table :: "init_function list" where
  "init_func_table = [Fb_init, Vc_init, Drive_init, Ext2_init, Keyboard_init]"

text \<open>The results of the functions are not looked at.\<close>

definition run_driver_init_functions :: "(init_function \<Rightarrow> 's \<Rightarrow> (int \<times> 's) kres) \<Rightarrow> init_function list \<Rightarrow> 's \<Rightarrow> 's kres" where
  "run_driver_init_functions call = foldk (\<lambda>f s. bindk (call f s) (\<lambda>(_, s). Ret s))"

text \<open>The start of the kernel. The magic number of the boot loader is looked at after all the rest; at the end the kernel waits for ever.\<close>

abbreviation (input) MULTIBOOT_BOOTLOADER_MAGIC :: u32 where "MULTIBOOT_BOOTLOADER_MAGIC \<equiv> 0x2BADB002"

datatype boot_call = Cpu_state_init | Interrupts_init | Run_critical_driver_init_functions | Mm_init | Vm_init | Acpi_init | Pci_init | Fs_init
  | Sys_other_init | Run_driver_init_functions | Processes_init

definition kernel_main :: "(boot_call \<Rightarrow> 's \<Rightarrow> 's kres) \<Rightarrow> u32 \<Rightarrow> 's \<Rightarrow> 's kres" where
  "kernel_main call mb_magic s =
     bindk (foldk call [Cpu_state_init, Interrupts_init, Run_critical_driver_init_functions, Mm_init, Vm_init, Acpi_init, Pci_init, Fs_init, Sys_other_init,
       Run_driver_init_functions] s) (\<lambda>s.
     if mb_magic \<noteq> MULTIBOOT_BOOTLOADER_MAGIC then Stop (Panic [])
     else bindk (call Processes_init s) (\<lambda>_. Stop Diverges))"

section \<open>What is found\<close>

text \<open>A table is recognised by the bytes of physical memory at the address that the root table gives.\<close>

lemma page_of_aligned: "frame_of (phys AND 0xFFFFF000) = phys AND 0xFFFFF000"
  by (simp add: frame_of_def and.assoc)

lemma page_plus_low: "(phys AND 0xFFFFF000) + (phys AND 0xFFF) = (phys :: u32)"
  using frame_plus_low [of phys] by (simp add: frame_of_def)

lemma acpi_find_table_signature:
  assumes alloc: "page_frame_alloc s = Ret (t, s1)" "t \<noteq> NO_FREE_PAGE" "frame_of t = t"
    and entry: "virt_map_entry s < 1024" "virt_map_entry s \<noteq> 768"
    and frames: "\<And>i. i < 4 \<Longrightarrow> frame_of (phys + of_nat i) \<noteq> t"
    and found: "acpi_find_table phys signature s = Ret (r, s')"
  shows "r \<noteq> None \<longleftrightarrow> map (\<lambda>i. phys_byte s (phys + of_nat i)) [0..<4] = signature"
proof -
  obtain v u where mapped: "virt_map_phys (phys AND 0xFFFFF000) s = Ret (v, u)"
    using found by (auto simp: acpi_find_table_def bindk_eq_Ret_iff)
  have "unat (phys AND 0xFFF) + 4 \<le> 2 ^ 22" using mod_less_divisor [of 4096 "unat phys"] by (simp add: low_of_frame)
  then have "kread_bytes u (v + (phys AND 0xFFF)) 4 = Ret (map (\<lambda>i. phys_byte s (phys + of_nat i)) [0..<4])"
    using kread_bytes_mapped [OF alloc entry mapped page_of_aligned, of "phys AND 0xFFF" 4] frames by (simp add: page_plus_low)
  then show ?thesis using found by (auto simp: acpi_find_table_def mapped bindk_eq_Ret_iff simp del: kread_bytes.simps split: if_splits)
qed

text \<open>ACPI is only used after a table with the right signature and sum was found, and what is kept is a copy of that table.\<close>

lemma page_frame_free_more: "page_frame_free p s = Ret t \<Longrightarrow> page_state.more t = page_state.more s"
  by (auto simp: page_frame_free_def Let_def bindk_eq_Ret_iff clear_bit_def upd_bitmap_def split: if_splits)

lemma acpi_fields_cong:
  assumes "page_state.more t = page_state.more s"
  shows "acpi_supported t = acpi_supported s" "fadt t = fadt s"
  using assms by (cases s; cases t; simp)+

lemma unmap_keeps_acpi: "virt_unmap_virt a s = Ret t \<Longrightarrow> acpi_supported t = acpi_supported s \<and> fadt t = fadt s"
  by (auto simp: virt_unmap_virt_def Let_def bindk_eq_Ret_iff acpi_fields_cong [OF page_frame_free_more] split: if_splits)

lemma map_keeps_acpi: "virt_map_phys a s = Ret (v, t) \<Longrightarrow> acpi_supported t = acpi_supported s \<and> fadt t = fadt s"
  by (auto simp: virt_map_phys_def Let_def win_fill_def tmp_map_page_def bindk_eq_Ret_iff acpi_fields_cong [OF page_frame_alloc_more]
      split: if_splits option.splits)

lemma fadt_loop_found:
  assumes "fadt_loop n rsdt ptrs s = Ret (r, t)"
  shows "acpi_supported t = acpi_supported s \<and> fadt t = fadt s \<and> (\<forall>p. r = Some p \<longrightarrow> kread_bytes t p 4 = Ret FADT_SIGNATURE)"
  using assms
proof (induction n arbitrary: ptrs s)
  case (Suc n)
  show ?case
  proof (cases "r = None \<and> t = s")
    case False
    then obtain phys q u where q: "acpi_find_table phys FADT_SIGNATURE s = Ret (q, u)"
      "case q of Some p \<Rightarrow> (r, t) = (Some p, u) | None \<Rightarrow> fadt_loop n rsdt (ptrs + 4) u = Ret (r, t)"
      using Suc.prems by (auto simp: bindk_eq_Ret_iff split: if_splits option.splits)
    have "acpi_supported u = acpi_supported s \<and> fadt u = fadt s \<and> (\<forall>p. q = Some p \<longrightarrow> kread_bytes u p 4 = Ret FADT_SIGNATURE)"
      using q(1) by (auto simp: acpi_find_table_def Let_def bindk_eq_Ret_iff simp del: kread_bytes.simps
          dest!: unmap_keeps_acpi map_keeps_acpi split: if_splits)
    then show ?thesis using q(2) Suc.IH [of "ptrs + 4" u] by (auto split: option.splits simp del: kread_bytes.simps)
  qed simp
qed simp

lemma acpi_init_checks:
  fixes s :: "'a acpi_state_scheme"
  assumes "acpi_init n s = Ret s'" "\<not> acpi_supported s" "acpi_supported s'"
  shows "\<exists>p (u :: 'a acpi_state_scheme). kread_bytes u p 4 = Ret FADT_SIGNATURE \<and> acpi_table_check p u = Ret True \<and> kread_bytes u p 244 = Ret (fadt s')"
proof -
  obtain phys v t where t: "virt_map_phys (phys AND 0xFFFFF000) s = Ret (v, t)"
    and rest: "bindk (acpi_table_check (v + (phys AND 0xFFF)) t) (\<lambda>ok. if \<not> ok then Ret t
      else bindk (fadt_loop n (v + (phys AND 0xFFF)) (v + (phys AND 0xFFF) + 36) t) (\<lambda>(f, s). case f of
        None \<Rightarrow> Ret s
      | Some p \<Rightarrow> bindk (acpi_table_check p s) (\<lambda>ok. if ok then take_fadt (v + (phys AND 0xFFF)) p s else Ret s))) = Ret s'"
    using assms by (auto simp: acpi_init_def Let_def bindk_eq_Ret_iff [where m = "find_rsdp s"] bindk_eq_Ret_iff [where m = "kread_bytes _ _ _"]
        bindk_eq_Ret_iff [where m = "kread32 _ _"] bindk_eq_Ret_iff [where m = "virt_map_phys _ _"]
        simp del: kread_bytes.simps split: if_splits option.splits)
  have off: "\<not> acpi_supported t" using map_keeps_acpi [OF t] assms(2) by simp
  obtain rsdt r u where loop: "fadt_loop n rsdt (rsdt + 36) t = Ret (r, u)"
    and last: "(case r of None \<Rightarrow> Ret u | Some p \<Rightarrow> bindk (acpi_table_check p u) (\<lambda>ok. if ok then take_fadt rsdt p u else Ret u)) = Ret s'"
    using rest off assms(3) by (auto simp: bindk_eq_Ret_iff [where m = "acpi_table_check _ t"] bindk_eq_Ret_iff [where m = "fadt_loop _ _ _ _"] split: if_splits)
  have "\<not> acpi_supported u" using fadt_loop_found [OF loop] off by simp
  then obtain p where p: "r = Some p" "acpi_table_check p u = Ret True" "take_fadt rsdt p u = Ret s'"
    using last assms(3) by (auto simp: bindk_eq_Ret_iff split: option.splits if_splits)
  have "kread_bytes u p 244 = Ret (fadt s')" using p(3)
    by (auto simp: take_fadt_def bindk_eq_Ret_iff simp del: kread_bytes.simps dest!: unmap_keeps_acpi)
  then show ?thesis using fadt_loop_found [OF loop] p(1,2) by auto
qed

section \<open>Findings\<close>

text \<open>When the time is up \<^verbatim>\<open>timeout\<close> is -1, and not 0.\<close>

lemma poll_timeout_expires: "(\<And>h. P (fst (io_inb io PS2_STAT_REG h))) \<Longrightarrow> \<exists>h'. poll_timeout n P io h = (-1, h')"
  by (induction n arbitrary: h) (simp_all add: split_beta Let_def)

lemma send_data_ignores_timeout:
  assumes "\<And>h. in_full (fst (io_inb io PS2_STAT_REG h))"
  shows "\<exists>h'. ps2_dev_send_data n timeout io dual PS2_FIRST_PORT data h = Ret (0, h')"
  using poll_timeout_expires [of in_full io timeout h, OF assms] by (auto simp: ps2_dev_send_data_def)

text \<open>A device that asks for every byte again is taken to have acknowledged it.\<close>

lemma resend_taken_for_ack:
  assumes "\<And>h. fst (io_inb io PS2_STAT_REG h) = PS2_STAT_OUT_FULL" "\<And>h. fst (io_inb io PS2_DATA_PORT h) = PS2_DEV_RESEND"
  shows "\<exists>h'. ps2_dev_send_wait n (Suc t) io dual PS2_FIRST_PORT data h = Ret (0, h')"
proof -
  have "\<exists>h'. send_wait_loop k n (Suc t) io dual PS2_FIRST_PORT data h = Ret (0, h')" for k
    using assms by (induction k arbitrary: h) (simp_all add: ps2_dev_send_data_def split_beta Let_def)
  then show ?thesis by (simp add: ps2_dev_send_wait_def)
qed

end
