(* ===== verification/Stdio.thy ===== *)
theory Stdio
  imports Lib_String
begin

text \<open>
  The buffered streams of the C library: \<^verbatim>\<open>libc/stdio/stdio.c\<close>, \<^verbatim>\<open>fopen.c\<close>, the macros of \<^verbatim>\<open>bits/stdio.h\<close>, the start and the end of a program
  (\<^verbatim>\<open>libc/init\<close>, \<^verbatim>\<open>exit.c\<close>) and the copying of strings. The system calls are an argument; their results go through \<^verbatim>\<open>syscall.S\<close>, which sets \<^verbatim>\<open>errno\<close>.
\<close>

section \<open>Data\<close>

abbreviation (input) FOPEN_MAX :: nat where "FOPEN_MAX \<equiv> 20"
abbreviation (input) BUFSIZ :: nat where "BUFSIZ \<equiv> 1024"
abbreviation (input) EOF :: int where "EOF \<equiv> -1"
abbreviation (input) FILE_READ :: u32 where "FILE_READ \<equiv> 1"
abbreviation (input) FILE_WRITE :: u32 where "FILE_WRITE \<equiv> 2"
abbreviation (input) FILE_EOF :: u32 where "FILE_EOF \<equiv> 4"
abbreviation (input) FILE_ERR :: u32 where "FILE_ERR \<equiv> 8"
abbreviation (input) LIBC_EBADF :: int where "LIBC_EBADF \<equiv> 8"
abbreviation (input) LIBC_EINVAL :: int where "LIBC_EINVAL \<equiv> 27"
abbreviation (input) LIBC_EMFILE :: int where "LIBC_EMFILE \<equiv> 32"
abbreviation (input) LIBC_O_RDONLY :: u32 where "LIBC_O_RDONLY \<equiv> 0"
abbreviation (input) LIBC_O_WRONLY :: u32 where "LIBC_O_WRONLY \<equiv> 1"
abbreviation (input) LIBC_O_RDWR :: u32 where "LIBC_O_RDWR \<equiv> 2"
abbreviation (input) LIBC_O_CREAT :: u32 where "LIBC_O_CREAT \<equiv> 0x40"
abbreviation (input) LIBC_O_TRUNC :: u32 where "LIBC_O_TRUNC \<equiv> 0x200"
abbreviation (input) LIBC_O_APPEND :: u32 where "LIBC_O_APPEND \<equiv> 0x400"

text \<open>\<^verbatim>\<open>rptr\<close> and \<^verbatim>\<open>wptr\<close> are places in \<^verbatim>\<open>rbuf\<close> and \<^verbatim>\<open>wbuf\<close>, or null.\<close>

record FILE =
  fp_flags :: u32
  fp_fd :: int
  fp_rcount :: int
  fp_wcount :: int
  fp_rbuf :: "u8 list"
  fp_wbuf :: "u8 list"
  fp_rptr :: "nat option"
  fp_wptr :: "nat option"

text \<open>The kernel, as the traps reach it: a negative result is an error number. A read gives the bytes that were stored in the buffer.\<close>

record 'k sys_calls =
  sc_read :: "int \<Rightarrow> nat \<Rightarrow> 'k \<Rightarrow> (int + u8 list) \<times> 'k"
  sc_write :: "int \<Rightarrow> u8 list \<Rightarrow> 'k \<Rightarrow> int \<times> 'k"
  sc_open :: "string \<Rightarrow> u32 \<Rightarrow> u32 \<Rightarrow> 'k \<Rightarrow> int \<times> 'k"
  sc_close :: "int \<Rightarrow> 'k \<Rightarrow> int \<times> 'k"
  sc_dup :: "int \<Rightarrow> 'k \<Rightarrow> int \<times> 'k"

record 'k libc =
  file_table :: "nat \<Rightarrow> FILE"
  errno :: int
  std_streams :: "nat option \<times> nat option \<times> nat option"
  kern :: 'k

definition upd_FILE :: "nat \<Rightarrow> (FILE \<Rightarrow> FILE) \<Rightarrow> 'k libc \<Rightarrow> 'k libc" where
  "upd_FILE i f s = s\<lparr>file_table := (file_table s)(i := f (file_table s i))\<rparr>"

definition set_errno :: "int \<Rightarrow> 'k libc \<Rightarrow> 'k libc" where
  "set_errno v s = s\<lparr>errno := v\<rparr>"

text \<open>The end of \<^verbatim>\<open>syscall\<close>: \<^verbatim>\<open>errno\<close> is set to the result of the kernel as it is, a negative number.\<close>

definition syscall_result :: "int \<Rightarrow> 'k libc \<Rightarrow> int \<times> 'k libc" where
  "syscall_result r s = (if 0 \<le> r then (r, s) else (-1, s\<lparr>errno := r\<rparr>))"

text \<open>\<^verbatim>\<open>write(fp->fd, fp->wbuf, fp->wcount)\<close>: the bytes have to lie in the buffer.\<close>

definition write_wbuf :: "'k sys_calls \<Rightarrow> nat \<Rightarrow> 'k libc \<Rightarrow> (int \<times> 'k libc) kres" where
  "write_wbuf K i s =
     (let f = file_table s i; n = nat (fp_wcount f) in
      if length (fp_wbuf f) < n then Stop (Fault ''wbuf'')
      else let (r, k) = sc_write K (fp_fd f) (take n (fp_wbuf f)) (kern s) in Ret (syscall_result r (s\<lparr>kern := k\<rparr>)))"

section \<open>Start and end\<close>

definition std_FILE :: "u32 \<Rightarrow> int \<Rightarrow> FILE" where
  "std_FILE flags fd = \<lparr>fp_flags = flags, fp_fd = fd, fp_rcount = 0, fp_wcount = 0, fp_rbuf = replicate BUFSIZ 0, fp_wbuf = replicate BUFSIZ 0,
     fp_rptr = None, fp_wptr = None\<rparr>"

definition initial_file_table :: "nat \<Rightarrow> FILE" where
  "initial_file_table = (\<lambda>_. std_FILE 0 0)(0 := std_FILE FILE_READ 0, 1 := std_FILE FILE_WRITE 1, 2 := std_FILE FILE_WRITE 2)"

definition libc_stdio_init :: "'k libc \<Rightarrow> 'k libc" where
  "libc_stdio_init s =
     fold (\<lambda>i. upd_FILE i (\<lambda>f. f\<lparr>fp_rptr := Some 0, fp_wptr := Some 0\<rparr>)) [0..<3] (s\<lparr>std_streams := (Some 0, Some 1, Some 2)\<rparr>)"

text \<open>A stream in use is written out when its pointer is not at the start of the buffer; the result is not looked at.\<close>

definition fini_FILE :: "'k sys_calls \<Rightarrow> nat \<Rightarrow> 'k libc \<Rightarrow> 'k libc kres" where
  "fini_FILE K i s =
     (if fp_flags (file_table s i) \<noteq> 0 \<and> fp_wptr (file_table s i) \<noteq> Some 0 then bindk (write_wbuf K i s) (\<lambda>(_, s). Ret s) else Ret s)"

definition libc_stdio_fini :: "'k sys_calls \<Rightarrow> 'k libc \<Rightarrow> 'k libc kres" where
  "libc_stdio_fini K = foldk (fini_FILE K) [0..<FOPEN_MAX]"

text \<open>
  \<open>mode\<close> is what \<^verbatim>\<open>open\<close> finds where the third argument would be. When there is no terminal the program halts, which is a fault in user mode.
\<close>

definition libc_init :: "'k sys_calls \<Rightarrow> u32 \<Rightarrow> 'k libc \<Rightarrow> 'k libc kres" where
  "libc_init K mode s =
     (let close = (\<lambda>fd s. let (r, k) = sc_close K fd (kern s) in snd (syscall_result r (s\<lparr>kern := k\<rparr>)));
          dup = (\<lambda>fd s. let (r, k) = sc_dup K fd (kern s) in snd (syscall_result r (s\<lparr>kern := k\<rparr>)));
          s = close 2 (close 1 (close 0 s));
          (r, k) = sc_open K ''/dev/tty'' LIBC_O_RDWR mode (kern s);
          (r, s) = syscall_result r (s\<lparr>kern := k\<rparr>)
      in if r < 0 then Stop (Fault ''hlt'') else Ret (libc_stdio_init (dup 0 (dup 0 s))))"

section \<open>Characters\<close>

definition fillbuf :: "'k sys_calls \<Rightarrow> nat \<Rightarrow> 'k libc \<Rightarrow> int \<times> 'k libc" where
  "fillbuf K i s =
     (let f = file_table s i in
      if fp_flags f AND FILE_READ = 0 then (EOF, upd_FILE i (\<lambda>f. f\<lparr>fp_flags := fp_flags f OR FILE_ERR\<rparr>) (set_errno LIBC_EBADF s))
      else
        let (res, k) = sc_read K (fp_fd f) BUFSIZ (kern s); s = s\<lparr>kern := k\<rparr> in
        case res of
          Inl e \<Rightarrow> (EOF, upd_FILE i (\<lambda>f. f\<lparr>fp_flags := fp_flags f OR FILE_ERR\<rparr>) (snd (syscall_result e s)))
        | Inr bs \<Rightarrow>
            let bs = take BUFSIZ bs in
            if bs = [] then (EOF, upd_FILE i (\<lambda>f. f\<lparr>fp_flags := fp_flags f OR FILE_EOF\<rparr>) s)
            else
              (uint (hd bs), upd_FILE i (\<lambda>f. f\<lparr>fp_flags := fp_flags f AND NOT FILE_EOF, fp_rbuf := bs @ drop (length bs) (fp_rbuf f),
                 fp_rcount := int (length bs) - 1, fp_rptr := Some 1\<rparr>) s))"

definition getc :: "'k sys_calls \<Rightarrow> nat \<Rightarrow> 'k libc \<Rightarrow> (int \<times> 'k libc) kres" where
  "getc K i s =
     (let s = upd_FILE i (\<lambda>f. f\<lparr>fp_rcount := fp_rcount f - 1\<rparr>) s; f = file_table s i in
      if 0 < fp_rcount f then
        (case fp_rptr f of
           None \<Rightarrow> Stop (Fault ''rptr'')
         | Some k \<Rightarrow>
             if k < length (fp_rbuf f) then Ret (uint (fp_rbuf f ! k), upd_FILE i (\<lambda>f. f\<lparr>fp_rptr := Some (k + 1)\<rparr>) s) else Stop (Fault ''rbuf''))
      else Ret (fillbuf K i s))"

text \<open>\<^verbatim>\<open>*fp->wptr++ = c\<close>\<close>

definition store_char :: "nat \<Rightarrow> u8 \<Rightarrow> 'k libc \<Rightarrow> 'k libc kres" where
  "store_char i c s =
     (case fp_wptr (file_table s i) of
        None \<Rightarrow> Stop (Fault ''wptr'')
      | Some k \<Rightarrow>
          if k < length (fp_wbuf (file_table s i))
          then Ret (upd_FILE i (\<lambda>f. f\<lparr>fp_wbuf := (fp_wbuf f)[k := c], fp_wptr := Some (k + 1)\<rparr>) s) else Stop (Fault ''wbuf''))"

definition flushbuf :: "'k sys_calls \<Rightarrow> nat \<Rightarrow> u8 \<Rightarrow> 'k libc \<Rightarrow> 'k libc kres" where
  "flushbuf K i c s =
     (if fp_flags (file_table s i) AND FILE_WRITE = 0
      then Ret (upd_FILE i (\<lambda>f. f\<lparr>fp_flags := fp_flags f OR FILE_ERR\<rparr>) (set_errno LIBC_EBADF s))
      else
        bindk (write_wbuf K i s) (\<lambda>(r, s).
        if r < 0 then Ret (upd_FILE i (\<lambda>f. f\<lparr>fp_flags := fp_flags f OR FILE_ERR\<rparr>) s)
        else store_char i c (upd_FILE i (\<lambda>f. f\<lparr>fp_wptr := Some 0, fp_wcount := 1\<rparr>) s)))"

definition putc :: "'k sys_calls \<Rightarrow> u8 \<Rightarrow> nat \<Rightarrow> 'k libc \<Rightarrow> 'k libc kres" where
  "putc K c i s =
     (let full = (fp_wcount (file_table s i) \<ge> int BUFSIZ); s = upd_FILE i (\<lambda>f. f\<lparr>fp_wcount := fp_wcount f + 1\<rparr>) s
      in if full then flushbuf K i c s else store_char i c s)"

section \<open>Opening\<close>

definition char_at :: "string \<Rightarrow> nat \<Rightarrow> char" where
  "char_at str i = (if i < length str then str ! i else CHR 0x00)"

text \<open>The flags of the stream, the flags of \<^verbatim>\<open>open\<close> so far, \<^verbatim>\<open>append\<close> and \<^verbatim>\<open>trunc\<close>; \<open>None\<close> for a mode that is refused.\<close>

definition parse_mode :: "string \<Rightarrow> (u32 \<times> u32 \<times> bool \<times> bool) option" where
  "parse_mode mode =
     (case (if char_at mode 0 = CHR ''r'' then Some (FILE_READ, 0, False)
            else if char_at mode 0 = CHR ''w'' then Some (FILE_WRITE, LIBC_O_CREAT, False)
            else if char_at mode 0 = CHR ''a'' then Some (FILE_WRITE, LIBC_O_CREAT, True) else None) of
        None \<Rightarrow> None
      | Some (flags, open_flags, app) \<Rightarrow>
          let i = (if char_at mode 1 = CHR ''b'' then 2 else 1) in
          if char_at mode i = CHR ''+'' then
            (if flags AND FILE_READ \<noteq> 0 then Some (flags OR FILE_WRITE, open_flags, app, False)
             else if flags AND FILE_WRITE \<noteq> 0 then Some (flags OR FILE_READ, open_flags, app, \<not> app)
             else Some (flags, open_flags, app, False))
          else if char_at mode i \<noteq> CHR ''b'' \<and> char_at mode i \<noteq> CHR 0x00 then None
          else Some (flags, open_flags, app, False))"

definition mode_open_flags :: "u32 \<Rightarrow> u32 \<Rightarrow> bool \<Rightarrow> bool \<Rightarrow> u32" where
  "mode_open_flags flags open_flags app trunc =
     (let open_flags =
        (if flags AND FILE_WRITE \<noteq> 0 \<and> flags AND FILE_READ \<noteq> 0 then LIBC_O_RDWR
         else if flags AND FILE_WRITE = 0 \<and> flags AND FILE_READ \<noteq> 0 then LIBC_O_RDONLY
         else if flags AND FILE_WRITE \<noteq> 0 \<and> flags AND FILE_READ = 0 then LIBC_O_WRONLY else open_flags)
      in if app then open_flags OR LIBC_O_APPEND else if trunc then open_flags OR LIBC_O_TRUNC else open_flags)"

definition fopen :: "'k sys_calls \<Rightarrow> string \<Rightarrow> string \<Rightarrow> 'k libc \<Rightarrow> nat option \<times> 'k libc" where
  "fopen K path mode s =
     (case parse_mode mode of
        None \<Rightarrow> (None, set_errno LIBC_EINVAL s)
      | Some (flags, open_flags, app, trunc) \<Rightarrow>
          case List.find (\<lambda>i. fp_flags (file_table s i) = 0) [0..<FOPEN_MAX] of
            None \<Rightarrow> (None, set_errno LIBC_EMFILE s)
          | Some i \<Rightarrow>
              let s = upd_FILE i (\<lambda>f. f\<lparr>fp_flags := flags\<rparr>) s;
                  (r, k) = sc_open K path (mode_open_flags flags open_flags app trunc) 0x1B6 (kern s);
                  (r, s) = syscall_result r (s\<lparr>kern := k\<rparr>);
                  s = upd_FILE i (\<lambda>f. f\<lparr>fp_fd := r\<rparr>) s
              in if r < 0 then (None, s)
                 else (Some i, upd_FILE i (\<lambda>f. f\<lparr>fp_wptr := Some 0, fp_rptr := Some 0, fp_wcount := 0, fp_rcount := 0\<rparr>) s))"

section \<open>Strings\<close>

partial_function (option) strcpy :: "nat \<Rightarrow> nat \<Rightarrow> memory \<Rightarrow> memory option" where
  "strcpy dest src m = (if m src \<noteq> 0 then strcpy (dest + 1) (src + 1) (m(dest := m src)) else Some (m(dest := m src)))"

declare strcpy.simps [code]

primrec strncpy :: "nat \<Rightarrow> nat \<Rightarrow> nat \<Rightarrow> memory \<Rightarrow> memory" where
  "strncpy dest src 0 m = m"
| "strncpy dest src (Suc len) m = (if m src \<noteq> 0 then strncpy (dest + 1) (src + 1) len (m(dest := m src)) else m(dest := m src))"

end
