(* ===== verification/Stdio_Props.thy ===== *)
theory Stdio_Props
  imports Stdio
begin

text \<open>
  What the streams of the C library do: the characters that a program puts are written by the end of the program, in order and each to the file of its
  stream, as long as the buffers have room; and where reading and writing go wrong.
\<close>

section \<open>Writing\<close>

definition stream_ok :: "FILE \<Rightarrow> bool" where
  "stream_ok f \<longleftrightarrow> length (fp_wbuf f) = BUFSIZ \<and> 0 \<le> fp_wcount f \<and> fp_wcount f \<le> int BUFSIZ \<and> fp_wptr f = Some (nat (fp_wcount f))"

text \<open>What was put and not written yet.\<close>

definition pending :: "FILE \<Rightarrow> u8 list" where
  "pending f = take (nat (fp_wcount f)) (fp_wbuf f)"

lemma length_pending: "stream_ok f \<Longrightarrow> length (pending f) = nat (fp_wcount f)"
  by (auto simp: stream_ok_def pending_def)

text \<open>One stream with one more character, all else unchanged.\<close>

definition appended :: "u8 \<Rightarrow> FILE \<Rightarrow> FILE" where
  "appended c f = f\<lparr>fp_wcount := fp_wcount f + 1, fp_wbuf := (fp_wbuf f)[nat (fp_wcount f) := c], fp_wptr := Some (nat (fp_wcount f) + 1)\<rparr>"

lemma appended_simps [simp]: "fp_flags (appended c f) = fp_flags f" "fp_fd (appended c f) = fp_fd f"
  by (simp_all add: appended_def)

lemma appended_stream:
  assumes "stream_ok f" "length (pending f) < BUFSIZ"
  shows "stream_ok (appended c f)" "pending (appended c f) = pending f @ [c]"
proof -
  have w: "nat (fp_wcount f) < length (fp_wbuf f)" "0 \<le> fp_wcount f" using assms by (auto simp: length_pending stream_ok_def)
  then show "stream_ok (appended c f)" using assms(1) by (auto simp: stream_ok_def appended_def nat_add_distrib)
  show "pending (appended c f) = pending f @ [c]" using w by (simp add: pending_def appended_def nat_add_distrib take_Suc_conv_app_nth)
qed

lemma putc_appends:
  assumes "stream_ok (file_table s i)" "length (pending (file_table s i)) < BUFSIZ"
  shows "putc K c i s = Ret (upd_FILE i (appended c) s)"
proof -
  have "fp_wcount (file_table s i) < int BUFSIZ" using assms by (auto simp: length_pending stream_ok_def)
  then show ?thesis using assms(1) by (simp add: putc_def store_char_def upd_FILE_def appended_def stream_ok_def)
qed

text \<open>The characters of one stream in a sequence of calls.\<close>

definition chars_of :: "nat \<Rightarrow> (nat \<times> u8) list \<Rightarrow> u8 list" where
  "chars_of i xs = map snd (filter (\<lambda>(j, c). j = i) xs)"

lemma chars_of_simps [simp]:
  "chars_of i [] = []" "chars_of i ((j, c) # xs) = (if j = i then c # chars_of i xs else chars_of i xs)"
  by (simp_all add: chars_of_def)

lemma putcs_append:
  assumes "\<forall>(i, c) \<in> set xs. stream_ok (file_table s i) \<and> length (pending (file_table s i)) + length (chars_of i xs) \<le> BUFSIZ"
  shows "\<exists>t. foldk (\<lambda>(i, c). putc K c i) xs s = Ret t \<and> kern t = kern s \<and>
    (\<forall>i. fp_flags (file_table t i) = fp_flags (file_table s i) \<and> fp_fd (file_table t i) = fp_fd (file_table s i) \<and>
      (stream_ok (file_table s i) \<longrightarrow> stream_ok (file_table t i) \<and> pending (file_table t i) = pending (file_table s i) @ chars_of i xs))"
  using assms
proof (induction xs arbitrary: s)
  case Nil
  then show ?case by simp
next
  case (Cons x xs)
  obtain j c where x: "x = (j, c)" by (cases x)
  have j: "stream_ok (file_table s j)" "length (pending (file_table s j)) + Suc (length (chars_of j xs)) \<le> BUFSIZ"
    using Cons.prems by (auto simp: x)
  then have room: "length (pending (file_table s j)) < BUFSIZ" by simp
  let ?u = "upd_FILE j (appended c) s"
  have u: "file_table ?u = (file_table s)(j := appended c (file_table s j))" "kern ?u = kern s" by (simp_all add: upd_FILE_def)
  note a = appended_stream [OF j(1) room]
  have "\<forall>(i, c) \<in> set xs. stream_ok (file_table ?u i) \<and> length (pending (file_table ?u i)) + length (chars_of i xs) \<le> BUFSIZ"
    using Cons.prems j a by (auto simp: x u split: if_splits)
  from Cons.IH [OF this] obtain t where t: "foldk (\<lambda>(i, c). putc K c i) xs ?u = Ret t" "kern t = kern ?u"
    "\<forall>i. fp_flags (file_table t i) = fp_flags (file_table ?u i) \<and> fp_fd (file_table t i) = fp_fd (file_table ?u i) \<and>
      (stream_ok (file_table ?u i) \<longrightarrow> stream_ok (file_table t i) \<and> pending (file_table t i) = pending (file_table ?u i) @ chars_of i xs)"
    by blast
  then show ?case using putc_appends [OF j(1) room, of K c] a by (auto simp: x u)
qed

text \<open>The end of a program writes what is pending. \<open>out\<close> is what the kernel has received for each file.\<close>

definition due :: "FILE \<Rightarrow> int \<Rightarrow> u8 list" where
  "due f fd = (if fp_flags f \<noteq> 0 \<and> fp_fd f = fd then pending f else [])"

lemma fini_FILE_writes:
  assumes sink: "\<And>fd bs k. out (snd (sc_write K fd bs k)) = (out k)(fd := out k fd @ bs)"
    and f: "fp_flags (file_table s i) \<noteq> 0 \<longrightarrow> stream_ok (file_table s i)"
  shows "\<exists>t. fini_FILE K i s = Ret t \<and> file_table t = file_table s \<and>
    (\<forall>fd. out (kern t) fd = out (kern s) fd @ due (file_table s i) fd)"
proof (cases "fp_flags (file_table s i) \<noteq> 0 \<and> fp_wptr (file_table s i) \<noteq> Some 0")
  case True
  then have "\<not> length (fp_wbuf (file_table s i)) < nat (fp_wcount (file_table s i))" using f by (auto simp: stream_ok_def)
  then show ?thesis using True
    by (auto simp: fini_FILE_def write_wbuf_def Let_def syscall_result_def pending_def due_def split_beta sink)
next
  case False
  then have "fp_flags (file_table s i) = 0 \<or> pending (file_table s i) = []" using f by (auto simp: stream_ok_def pending_def)
  then show ?thesis using False by (auto simp: fini_FILE_def due_def)
qed

lemma fini_writes:
  assumes sink: "\<And>fd bs k. out (snd (sc_write K fd bs k)) = (out k)(fd := out k fd @ bs)"
    and f: "\<forall>i \<in> set is. fp_flags (file_table s i) \<noteq> 0 \<longrightarrow> stream_ok (file_table s i)"
  shows "\<exists>t. foldk (fini_FILE K) is s = Ret t \<and> (\<forall>fd. out (kern t) fd = out (kern s) fd @
    concat (map (\<lambda>i. due (file_table s i) fd) is))"
  using f
proof (induction "is" arbitrary: s)
  case (Cons i "is")
  obtain u where u: "fini_FILE K i s = Ret u" "file_table u = file_table s"
    "\<forall>fd. out (kern u) fd = out (kern s) fd @ due (file_table s i) fd"
    using fini_FILE_writes [of out K s i, OF sink] Cons.prems by auto
  obtain t where "foldk (fini_FILE K) is u = Ret t" "\<forall>fd. out (kern t) fd = out (kern u) fd @
      concat (map (\<lambda>i. due (file_table u i) fd) is)"
    using Cons.IH [of u] Cons.prems u(2) by auto
  then show ?case using u by simp
qed simp

text \<open>C18.
  Buffered output arrives: whatever the order in which a program puts characters on its streams, as long as no stream has more characters than its buffer,
  nothing is written before the program ends, and then every file has received, after what it had, the characters of its streams in the order in which they
  were put. \<open>out\<close> stands for what the kernel was given to write; it is only assumed that a write adds its bytes to the file it names.
\<close>

theorem stdio_output_in_order:
  assumes sink: "\<And>fd bs k. out (snd (sc_write K fd bs k)) = (out k)(fd := out k fd @ bs)"
    and streams: "\<forall>i < FOPEN_MAX. fp_flags (file_table s i) \<noteq> 0 \<longrightarrow> stream_ok (file_table s i)"
    and calls: "\<forall>(i, c) \<in> set xs. i < FOPEN_MAX \<and> fp_flags (file_table s i) \<noteq> 0 \<and>
      length (pending (file_table s i)) + length (chars_of i xs) \<le> BUFSIZ"
  shows "\<exists>t u. foldk (\<lambda>(i, c). putc K c i) xs s = Ret t \<and> kern t = kern s \<and> libc_stdio_fini K t = Ret u \<and>
    (\<forall>fd. out (kern u) fd = out (kern s) fd @ concat (map (\<lambda>i.
      if fp_flags (file_table s i) \<noteq> 0 \<and> fp_fd (file_table s i) = fd then pending (file_table s i) @ chars_of i xs else []) [0..<FOPEN_MAX]))"
proof -
  have "\<forall>(i, c) \<in> set xs. stream_ok (file_table s i) \<and> length (pending (file_table s i)) + length (chars_of i xs) \<le> BUFSIZ"
    using streams calls by auto
  from putcs_append [OF this, of K] obtain t where t: "foldk (\<lambda>(i, c). putc K c i) xs s = Ret t" "kern t = kern s"
    "\<forall>i. fp_flags (file_table t i) = fp_flags (file_table s i) \<and> fp_fd (file_table t i) = fp_fd (file_table s i) \<and>
      (stream_ok (file_table s i) \<longrightarrow> stream_ok (file_table t i) \<and> pending (file_table t i) = pending (file_table s i) @ chars_of i xs)" by blast
  have "\<forall>i \<in> set [0..<FOPEN_MAX]. fp_flags (file_table t i) \<noteq> 0 \<longrightarrow> stream_ok (file_table t i)" using t(3) streams by simp
  from fini_writes [of out K, OF sink this] obtain u where u: "libc_stdio_fini K t = Ret u" "\<forall>fd. out (kern u) fd = out (kern t) fd @
      concat (map (\<lambda>i. due (file_table t i) fd) [0..<FOPEN_MAX])"
    unfolding libc_stdio_fini_def by blast
  have same: "map (\<lambda>i. due (file_table t i) fd) [0..<FOPEN_MAX] = map (\<lambda>i.
      if fp_flags (file_table s i) \<noteq> 0 \<and> fp_fd (file_table s i) = fd then pending (file_table s i) @ chars_of i xs else []) [0..<FOPEN_MAX]" for fd
    using t(3) streams by (intro map_cong) (auto simp: due_def simp del: upt_rec_numeral)
  show ?thesis using t(1,2) u(1) u(2) [unfolded same t(2)] by blast
qed

section \<open>A program that writes on two streams\<close>

definition log_calls :: "(int \<Rightarrow> u8 list) sys_calls" where
  "log_calls = \<lparr>sc_read = \<lambda>_ _ k. (Inr [], k), sc_write = \<lambda>fd bs k. (int (length bs), k(fd := k fd @ bs)), sc_open = \<lambda>_ _ _ k. (0, k),
     sc_close = \<lambda>_ k. (0, k), sc_dup = \<lambda>_ k. (0, k)\<rparr>"

definition fresh_libc :: "(int \<Rightarrow> u8 list) libc" where
  "fresh_libc = libc_stdio_init \<lparr>file_table = initial_file_table, errno = 0, std_streams = (None, None, None), kern = \<lambda>_. []\<rparr>"

lemma fresh_table:
  "file_table fresh_libc = initial_file_table(0 := (std_FILE 1 0)\<lparr>fp_rptr := Some 0, fp_wptr := Some 0\<rparr>,
     1 := (std_FILE 2 1)\<lparr>fp_rptr := Some 0, fp_wptr := Some 0\<rparr>, 2 := (std_FILE 2 2)\<lparr>fp_rptr := Some 0, fp_wptr := Some 0\<rparr>)"
  "kern fresh_libc = (\<lambda>_. [])"
  by (simp_all add: fresh_libc_def libc_stdio_init_def upd_FILE_def initial_file_table_def std_FILE_def upt_rec numeral_3_eq_3 fun_eq_iff)

theorem stdio_output_in_order_witness:
  "\<exists>t u. foldk (\<lambda>(i, c). putc log_calls c i) [(1, 104), (2, 101), (1, 105)] fresh_libc = Ret t \<and> libc_stdio_fini log_calls t = Ret u \<and>
    kern u 1 = [104, 105] \<and> kern u 2 = [101]"
proof -
  have ok: "\<forall>i < FOPEN_MAX. fp_flags (file_table fresh_libc i) \<noteq> 0 \<longrightarrow> stream_ok (file_table fresh_libc i)"
    by (simp add: fresh_table initial_file_table_def std_FILE_def stream_ok_def)
  have calls: "\<forall>(i, c) \<in> set [(1, 104), (2, 101), (1, 105)]. i < FOPEN_MAX \<and> fp_flags (file_table fresh_libc i) \<noteq> 0 \<and>
      length (pending (file_table fresh_libc i)) + length (chars_of i [(1, 104), (2, 101), (1, 105)]) \<le> BUFSIZ"
    by (simp add: fresh_table std_FILE_def pending_def)
  have 20: "[0..<20] = [0, 1, 2] @ [3..<20 :: nat]" by (simp add: upt_rec)
  have rest: "concat (map (\<lambda>i. if fp_flags (file_table fresh_libc i) \<noteq> 0 \<and> fp_fd (file_table fresh_libc i) = fd
      then pending (file_table fresh_libc i) @ chars_of i [(1, 104), (2, 101), (1, 105)] else []) [3..<20]) = []" for fd
    by (auto simp: fresh_table initial_file_table_def std_FILE_def simp del: upt_rec_numeral)
  have start: "file_table fresh_libc 0 = (std_FILE 1 0)\<lparr>fp_rptr := Some 0, fp_wptr := Some 0\<rparr>"
    "file_table fresh_libc 1 = (std_FILE 2 1)\<lparr>fp_rptr := Some 0, fp_wptr := Some 0\<rparr>"
    "file_table fresh_libc 2 = (std_FILE 2 2)\<lparr>fp_rptr := Some 0, fp_wptr := Some 0\<rparr>" by (simp_all add: fresh_table)
  have "snd (sc_write log_calls fd bs k) = k(fd := k fd @ bs)" for fd bs k by (simp add: log_calls_def)
  from stdio_output_in_order [of "\<lambda>k. k", OF this ok calls] obtain t u where
    tu: "foldk (\<lambda>(i, c). putc log_calls c i) [(1, 104), (2, 101), (1, 105)] fresh_libc = Ret t" "libc_stdio_fini log_calls t = Ret u"
    and out: "\<forall>fd. kern u fd = kern fresh_libc fd @ concat (map (\<lambda>i. if fp_flags (file_table fresh_libc i) \<noteq> 0 \<and> fp_fd (file_table fresh_libc i) = fd
      then pending (file_table fresh_libc i) @ chars_of i [(1, 104), (2, 101), (1, 105)] else []) [0..<20])" by blast
  have "kern u 1 = [104, 105] \<and> kern u 2 = [101]"
    unfolding out [rule_format] 20 map_append concat_append rest by (simp add: start std_FILE_def pending_def fresh_table(2) del: One_nat_def)
  then show ?thesis using tu by blast
qed

section \<open>Findings\<close>

text \<open>The count of a full buffer is raised before the buffer is flushed: one byte more than the buffer has is written.\<close>

lemma full_buffer_overruns:
  assumes "stream_ok (file_table s i)" "length (pending (file_table s i)) = BUFSIZ" "fp_flags (file_table s i) AND FILE_WRITE \<noteq> 0"
  shows "putc K c i s = Stop (Fault ''wbuf'')"
proof -
  have "fp_wcount (file_table s i) = int BUFSIZ" using assms(1,2) length_pending by (simp add: stream_ok_def)
  then show ?thesis using assms by (simp add: putc_def flushbuf_def write_wbuf_def upd_FILE_def stream_ok_def Let_def)
qed

text \<open>Reading characters one by one.\<close>

primrec getcs :: "'k sys_calls \<Rightarrow> nat \<Rightarrow> nat \<Rightarrow> 'k libc \<Rightarrow> (int list \<times> 'k libc) kres" where
  "getcs K i 0 s = Ret ([], s)"
| "getcs K i (Suc n) s = bindk (getc K i s) (\<lambda>(c, s). bindk (getcs K i n s) (\<lambda>(cs, s). Ret (c # cs, s)))"

lemma getcs_buffered:
  assumes "fp_rcount (file_table s i) = int (length bs)" "fp_rptr (file_table s i) = Some k" "bs \<noteq> []"
    and "k + length bs \<le> length (fp_rbuf (file_table s i))" "take (length bs) (drop k (fp_rbuf (file_table s i))) = bs"
  shows "\<exists>t. getcs K i (length bs - 1) s = Ret (map uint (butlast bs), t) \<and> fp_rcount (file_table t i) = 1 \<and>
    fp_flags (file_table t i) = fp_flags (file_table s i) \<and> fp_fd (file_table t i) = fp_fd (file_table s i) \<and> kern t = kern s"
  using assms
proof (induction bs arbitrary: s k)
  case (Cons b bs)
  show ?case
  proof (cases bs)
    case Nil
    then show ?thesis using Cons.prems by simp
  next
    case (Cons b' bs')
    let ?f = "file_table s i"
    let ?u = "upd_FILE i (\<lambda>f. f\<lparr>fp_rptr := Some (k + 1)\<rparr>) (upd_FILE i (\<lambda>f. f\<lparr>fp_rcount := fp_rcount f - 1\<rparr>) s)"
    have k: "k < length (fp_rbuf ?f)" "fp_rbuf ?f ! k = b" "take (length bs) (drop (k + 1) (fp_rbuf ?f)) = bs"
      using Cons.prems(4,5) by (auto simp: take_Suc_conv_app_nth [symmetric] Cons_nth_drop_Suc [symmetric])
    have step: "getc K i s = Ret (uint b, ?u)" using Cons.prems(1,2) k Cons by (simp add: getc_def upd_FILE_def Let_def)
    obtain t where "getcs K i (length bs - 1) ?u = Ret (map uint (butlast bs), t)" "fp_rcount (file_table t i) = 1"
      "fp_flags (file_table t i) = fp_flags ?f" "fp_fd (file_table t i) = fp_fd ?f" "kern t = kern s"
      using Cons.IH [of ?u "k + 1"] Cons.prems k(3) Cons by (auto simp: upd_FILE_def)
    then show ?thesis using step Cons by simp
  qed
qed simp

lemma getcs_add: "getcs K i (m + n) s = bindk (getcs K i m s) (\<lambda>(cs, s). bindk (getcs K i n s) (\<lambda>(ds, s). Ret (cs @ ds, s)))"
  by (induction m arbitrary: s) (simp_all add: bindk_assoc case_prod_beta')

text \<open>The last byte of a buffer is lost: a file of several bytes that fit into the buffer is read without it.\<close>

lemma getc_loses_last_byte:
  assumes "fp_flags (file_table s i) AND FILE_READ \<noteq> 0" "fp_rcount (file_table s i) = 0" "length (fp_rbuf (file_table s i)) = BUFSIZ"
    and "sc_read K (fp_fd (file_table s i)) BUFSIZ (kern s) = (Inr bs, k)" "sc_read K (fp_fd (file_table s i)) BUFSIZ k = (Inr [], k')"
    and "2 \<le> length bs" "length bs \<le> BUFSIZ"
  shows "\<exists>t. getcs K i (length bs) s = Ret (map uint (butlast bs) @ [EOF], t)"
proof -
  let ?f = "file_table s i"
  obtain b rest where bs: "bs = b # rest" "rest \<noteq> []" using assms(6) by (cases bs; cases "tl bs") auto
  obtain u where first: "getc K i s = Ret (uint b, u)" and u: "fp_rcount (file_table u i) = int (length rest)" "fp_rptr (file_table u i) = Some 1"
    "fp_rbuf (file_table u i) = bs @ drop (length bs) (fp_rbuf ?f)" "fp_flags (file_table u i) AND FILE_READ \<noteq> 0" "fp_fd (file_table u i) = fp_fd ?f" "kern u = k"
    using assms bs by (simp add: getc_def fillbuf_def upd_FILE_def Let_def and.assoc)
  have "1 + length rest \<le> length (fp_rbuf (file_table u i))" "take (length rest) (drop 1 (fp_rbuf (file_table u i))) = rest"
    using assms(3,7) by (simp_all add: u(3) bs(1))
  from getcs_buffered [OF u(1,2) bs(2) this, of K] obtain t where
    t: "getcs K i (length rest - 1) u = Ret (map uint (butlast rest), t)" "fp_rcount (file_table t i) = 1"
      "fp_flags (file_table t i) = fp_flags (file_table u i)" "fp_fd (file_table t i) = fp_fd (file_table u i)" "kern t = kern u" by blast
  obtain t' where last: "getcs K i 1 t = Ret ([EOF], t')"
    using t(2-5) u(4-6) assms(5) by (simp add: getc_def fillbuf_def upd_FILE_def Let_def)
  have "getcs K i (length rest - 1 + 1) u = Ret (map uint (butlast rest) @ [EOF], t')"
    unfolding getcs_add t(1) bindk.simps prod.case last by simp
  then show ?thesis using first bs by simp
qed

text \<open>A file is never created: the flag for it is replaced by the access mode. And a file opened with \<^verbatim>\<open>w\<close> keeps its old contents.\<close>

lemma fopen_never_creates:
  assumes "parse_mode mode = Some (flags, open_flags, app, trunc)"
  shows "mode_open_flags flags open_flags app trunc AND LIBC_O_CREAT = 0"
  using assms by (auto simp: parse_mode_def mode_open_flags_def Let_def split: if_splits)

lemma write_mode_keeps_contents: "parse_mode ''w'' = Some (fl, fo, ap, tr) \<Longrightarrow> mode_open_flags fl fo ap tr = LIBC_O_WRONLY"
  by (auto simp: parse_mode_def mode_open_flags_def char_at_def)

text \<open>A stream whose file cannot be opened stays in use.\<close>

lemma failed_open_takes_stream:
  assumes "parse_mode mode = Some (flags, fo, ap, tr)" "List.find (\<lambda>i. fp_flags (file_table s i) = 0) [0..<FOPEN_MAX] = Some i"
    and "sc_open K path (mode_open_flags flags fo ap tr) 0x1B6 (kern s) = (r, k)" "r < 0"
  shows "\<exists>t. fopen K path mode s = (None, t) \<and> fp_flags (file_table t i) = flags \<and> errno t = r"
  using assms by (simp add: fopen_def Let_def syscall_result_def upd_FILE_def)

section \<open>Strings\<close>

text \<open>The bytes of a string and its end.\<close>

definition string_at :: "memory \<Rightarrow> nat \<Rightarrow> nat \<Rightarrow> bool" where
  "string_at m p n \<longleftrightarrow> (\<forall>i<n. m (p + i) \<noteq> 0) \<and> m (p + n) = 0"

lemma string_at_Suc: "string_at m p (Suc n) \<longleftrightarrow> m p \<noteq> 0 \<and> string_at m (p + 1) n"
  by (auto simp: string_at_def less_Suc_eq_0_disj)

lemma string_at_upd:
  assumes "d < p \<or> p + n < d"
  shows "string_at (m(d := c)) p n \<longleftrightarrow> string_at m p n"
proof -
  have "p + i \<noteq> d" if "i \<le> n" for i using assms that by linarith
  then show ?thesis by (simp add: string_at_def)
qed

lemma strcpy_copies:
  assumes "string_at m src n" "dest < src \<or> src + n < dest"
  shows "strcpy dest src m = Some (memcpy dest src (Suc n) m)"
  using assms
proof (induction n arbitrary: dest src m)
  case 0
  then show ?case by (subst strcpy.simps) (simp add: string_at_def)
next
  case (Suc n)
  then have "string_at (m(dest := m src)) (src + 1) n" by (auto simp: string_at_Suc string_at_upd)
  then have "strcpy (dest + 1) (src + 1) (m(dest := m src)) = Some (memcpy (dest + 1) (src + 1) (Suc n) (m(dest := m src)))"
    by (rule Suc.IH) (use Suc.prems(2) in auto)
  then show ?case using Suc.prems(1) by (subst strcpy.simps) (simp add: string_at_Suc)
qed

lemma strncpy_copies:
  assumes "string_at m src n" "dest < src \<or> src + n < dest"
  shows "strncpy dest src len m = memcpy dest src (min len (Suc n)) m"
  using assms
proof (induction len arbitrary: dest src m n)
  case (Suc len)
  show ?case
  proof (cases n)
    case 0
    then show ?thesis using Suc.prems by (simp add: string_at_def)
  next
    case (Suc k)
    then have "string_at (m(dest := m src)) (src + 1) k" using Suc.prems by (auto simp: string_at_Suc string_at_upd)
    then have "strncpy (dest + 1) (src + 1) len (m(dest := m src)) = memcpy (dest + 1) (src + 1) (min len (Suc k)) (m(dest := m src))"
      by (rule Suc.IH) (use Suc.prems(2) Suc in auto)
    then show ?thesis using Suc.prems(1) Suc by (simp add: string_at_Suc)
  qed
qed simp

end
