(* ===== verification/Spec2Isabelle.thy ===== *)
theory Spec2Isabelle
  imports Sys_Calls Signals Proc_Fork Proc_Wait Files_Refs Page_Alloc_Props Kvmalloc Posix_Time Lib_String Printk Buffer_Faults
    Virtual_MM_Props Exec_Stack Ext2_File_Props Keyboard Ata_Queue Fbcon_Console
    Arch_Proc Uart_Props Pci_Props Firmware Stdio_Props
begin

text \<open>
  A verification development for yak, a Unix-like kernel for the i386 (\<^verbatim>\<open>src/sys\<close>) with a small C library (\<^verbatim>\<open>src/libc\<close>).

  \<^bold>\<open>The program.\<close> A process enters the kernel by a system call or an interrupt. The system calls of
  \<^verbatim>\<open>kernel/sys.c\<close>, \<^verbatim>\<open>kernel/proc.c\<close>, \<^verbatim>\<open>kernel/signal.c\<close>, \<^verbatim>\<open>fs/sys1.c\<close> and \<^verbatim>\<open>fs/fcntl.c\<close> work on the process table, the
  user's memory and the file table; the file layer calls a filesystem driver, of which there is one, ext2; that driver
  keeps its inodes in a cache of its own and its blocks in the block cache of \<^verbatim>\<open>fs/buffer.c\<close>, which calls the disk
  drivers through \<^verbatim>\<open>fs/devio.c\<close>. Whoever has to wait calls \<^verbatim>\<open>sleep\<close> of \<^verbatim>\<open>kernel/schedule.c\<close>, mostly through the locks
  of \<^verbatim>\<open>kernel/mutex.c\<close>; the timer interrupt takes the processor away from a process. Memory comes from the page frame
  allocator, is mapped by \<^verbatim>\<open>arch/i386/virtual_mm.c\<close>, and is handed out in pieces by \<^verbatim>\<open>mm/kvmalloc.c\<close>. Terminals
  (\<^verbatim>\<open>drivers/tty.c\<close>) take characters from the keyboard and hand text to the virtual consoles or to
  the serial line. At the start the kernel fills in the tables of the processor, finds the tables of the firmware and the devices of the PCI bus, and starts its drivers.

  \<^bold>\<open>State.\<close> Each component's variables are a record; a component that uses another one extends its record, so that
  the whole state of the terminals, for instance, is \<open>sched_state\<close> (process table, run queues), extended by
  \<open>sys_state\<close> (user memory), \<open>file_state\<close> (file and mount tables), \<open>buf_state\<close> (block cache, kernel memory, heap),
  \<open>ext2_state\<close>, \<open>tty_state\<close>, \<open>con_state\<close> and \<open>key_state\<close>. Operations are polymorphic in the fields that
  come later. Tables are functions from indices, pointers into a table are indices and \<^verbatim>\<open>NULL\<close> is \<^const>\<open>None\<close> where the
  code tests for it; memory is a function from addresses to bytes. Integers keep their width (\<^verbatim>\<open>uint32_t\<close> is
  \<^typ>\<open>32 word\<close>); an \<^verbatim>\<open>int\<close> that cannot overflow is an \<^typ>\<open>int\<close>.

  \<^bold>\<open>Outcomes.\<close> An operation returns \<open>Ret\<close> of its value and state, or \<open>Stop\<close>: \<open>Panic\<close> for a call of
  \<^verbatim>\<open>panic\<close>; \<open>Fault\<close> for an access outside an object or through \<^verbatim>\<open>NULL\<close>; \<open>Blocked\<close> when it would wait for another
  process (what the caller does afterwards depends on the others; the run queues at that moment are the subject of
  \<open>Sched_Queues\<close>, and the processes that share a lock are the step relation of \<open>Mutex\<close>); \<open>Diverges\<close> when the fuel
  given to a loop is used up. A read from a terminal waits as its normal business, so it is modelled as a
  value \<open>tty_wait\<close>, from which \<open>tty_resume\<close> goes on when the process is woken. A local variable that the
  code reads before it assigns to it is an argument of the operation.

  \<^bold>\<open>Fuel.\<close> A loop whose end depends on the data takes a number of rounds: \<open>getblk\<close> and the walks of queues
  (\<open>ring_walk\<close> needs one round per member, which \<open>Ring\<close> proves), the loops over directory entries and file
  blocks (\<open>e2_fuel\<close>; \<open>find_dentry\<close> needs as many rounds as there are entries, \<open>file_read_loop\<close> one per block), the
  heap's chunk list (one round per chunk, one more after the heap has grown), the attributes of an escape sequence (one
  per parameter, at most 16; an argument that makes it go backwards never ends, \<open>vc_set_attr_hangs\<close>), the polling of
  the disk controller's status (\<open>a_fuel\<close>, more than the reads that the controller takes to become ready) and the walk to the end of a chain of
  requests (one per entry of the table, 64 for a disk and 5 for the serial line), bridges behind bridges of the PCI bus (one per level), the table of ACPI tables
  (one per pointer) and the waiting for the keyboard controller. The theorems either
  give the bound as a hypothesis, as \<open>length es \<le> e2_fuel E\<close>, or show that the operation returns. Loops with an end in sight are
  structural recursions or \<open>function\<close>s with a measure.

  \<^bold>\<open>Theories.\<close>
  \<^item> \<open>Yak_Prelude\<close>: machine types, outcomes, C's division, error numbers. \<open>Ring\<close>: circular doubly linked lists as lists, the
    interface \<open>ring_store\<close> that the run queues (\<open>pq\<close>), the hash queues (\<open>hq\<close>) and the free list (\<open>fl\<close>) of the block
    cache meet.
  \<^item> \<open>Sched\<close>, \<open>Sched_Frame\<close>, \<open>Sched_Queues\<close>: \<^verbatim>\<open>schedule.c\<close>, \<^verbatim>\<open>proc.h\<close>, \<^verbatim>\<open>timer.c\<close>. The queues hold exactly the runnable
    processes by priority, \<^verbatim>\<open>schedule\<close> picks the first of the highest, \<^verbatim>\<open>sleep\<close>, \<^verbatim>\<open>wakeup\<close> and the tick keep it so.
  \<^item> \<open>Mutex\<close>: \<^verbatim>\<open>mutex.c\<close> and mutual exclusion over all interleavings. \<open>User_Space\<close>: \<^verbatim>\<open>uaccess.h\<close>. \<open>Signals\<close>: \<^verbatim>\<open>signal.c\<close>.
    \<open>Sys_Calls\<close>: \<^verbatim>\<open>sys.c\<close> and that no sequence of identity calls gives privileges.
  \<^item> \<open>Proc\<close>, \<open>Proc_Fork\<close>, \<open>Proc_Wait\<close>: \<^verbatim>\<open>proc.c\<close>; fork copies a process and counts its files, waitpid reaps.
  \<^item> \<open>Files\<close>, \<open>Files_Refs\<close>: \<^verbatim>\<open>sys1.c\<close>, \<^verbatim>\<open>fcntl.c\<close>, \<^verbatim>\<open>filesystem.c\<close> over any filesystem driver; reference counts are exact.
  \<^item> \<open>Page_Alloc\<close>, \<open>Page_Alloc_Props\<close>, \<open>Kvmalloc\<close>, \<open>Virtual_MM\<close>, \<open>Virtual_MM_Props\<close>: memory. Frames are found by bitmap;
    copy on write shares and copies pages; the user pointer check agrees with the walk of the page tables.
  \<^item> \<open>Exec_Elf\<close>, \<open>Exec_Props\<close>, \<open>Exec_Stack\<close>: \<^verbatim>\<open>exec_elf.c\<close>, \<^verbatim>\<open>exec_elf32.c\<close> and execve of \<^verbatim>\<open>arch/i386/processes.c\<close>.
  \<^item> \<open>Block_Dev\<close>, \<open>Buffer\<close>, \<open>Buffer_Props\<close>, \<open>Buffer_Faults\<close>: devices and the block cache.
  \<^item> \<open>Ext2_Base\<close>, \<open>Ext2_Alloc\<close>, \<open>Ext2_Bmap\<close>, \<open>Ext2_Inode\<close>, \<open>Ext2_Dir\<close>, \<open>Ext2_Namei\<close>, \<open>Ext2_File\<close>, \<open>Ext2_Calls\<close>, \<open>Ext2_Super\<close>: the files of
    \<^verbatim>\<open>fs/ext2\<close>. \<open>Ext2_Frame\<close> states what the filesystem relies on of the block cache as the locale \<open>block_access\<close>, met
    by \<^verbatim>\<open>bread\<close> and \<^verbatim>\<open>brelse\<close> (\<open>blk\<close>). \<open>Ext2_Alloc_Props\<close>, \<open>Ext2_Inode_Props\<close>, \<open>Ext2_Dir_Props\<close> (a directory block refines a
    list of entries), \<open>Ext2_File_Props\<close> and \<open>Ext2_Demo\<close> (a small filesystem) build on it.
  \<^item> \<open>Console\<close>, \<open>Console_Props\<close>, \<open>Console_Output\<close>: \<^verbatim>\<open>virtual_console.c\<close>. Complete output keeps the console well formed and
    the display shows the screen. \<open>Tty\<close>, \<open>Tty_Props\<close>, \<open>Tty_Write\<close>, \<open>Tty_Demo\<close>: \<^verbatim>\<open>tty.c\<close>; the queues meet \<open>char_queue\<close> (\<open>tq\<close>), reads
    return what was typed, a write hands its text to any driver that meets \<open>output_driver\<close>. \<open>Console_Tty\<close> shows that
    the consoles do (\<open>con\<close>), so that what a process writes appears on the display. \<open>Keyboard\<close>: \<^verbatim>\<open>ps2_kbd.c\<close>, \<^verbatim>\<open>keyboard.c\<close>
    and the key maps.
  \<^item> \<open>Fbcon\<close>, \<open>Fbcon_Props\<close>, \<open>Fbcon_Console\<close>: \<^verbatim>\<open>fbcon.c\<close>, \<^verbatim>\<open>fb.c\<close>, \<^verbatim>\<open>psf.c\<close>. The loops that draw work over any \<open>pixel_store\<close> (\<open>px32\<close> and \<open>px16\<close>
    are the two pixel sizes); \<open>char_display\<close> is what a console relies on of its low level driver, met by the frame buffer
    in a mode of 32 bits per pixel (\<open>fb\<close>), so that a flush leaves the glyphs of the screen in the frame buffer.
  \<^item> \<open>Req_List\<close>: tables of requests linked in the order in which they came, the interface \<open>req_list\<close>. \<open>Ata\<close>, \<open>Ata_Dma\<close>, \<open>Ata_Props\<close>, \<open>Ata_Queue\<close>,
    \<open>Ata_Demo\<close>: the disk controller of \<^verbatim>\<open>drivers/ata\<close>, with programmed transfers and bus mastering. The requests of a bus meet \<open>req_list\<close>
    (\<open>aq\<close>); a polled read through a controller that answers as the standard says returns the sectors of the disk.
  \<^item> \<open>Processor\<close>: \<^verbatim>\<open>idt.c\<close>, \<^verbatim>\<open>exceptions.c\<close>, \<^verbatim>\<open>descriptor_table.c\<close>, \<^verbatim>\<open>cpu_state.c\<close>, \<^verbatim>\<open>pic_8259.c\<close>, \<^verbatim>\<open>pit.c\<close> and the dispatch of interrupts to
    drivers; where every gate leads, what a segment descriptor reads back, that an interrupt reaches the driver that registered. \<open>Arch_Proc\<close>: fork and
    switch of \<^verbatim>\<open>processes.c\<close> and \<^verbatim>\<open>switch_to.S\<close>; a switch away and back is a round trip, a child starts as a copy.
  \<^item> \<open>Uart\<close>, \<open>Uart_Props\<close>: \<^verbatim>\<open>uart_8250.c\<close>; its requests meet \<open>req_list\<close> (\<open>uq\<close>) and are sent in order by the interrupts.
  \<^item> \<open>Kernel_Map\<close>: loads of the kernel through its page tables, and that \<open>virt_map_phys\<close> shows the memory it was asked for. \<open>Pci\<close>, \<open>Pci_Props\<close>:
    \<^verbatim>\<open>pci.c\<close> and the start of the disks in \<^verbatim>\<open>drive.c\<close>; the enumeration finds exactly the functions there are. \<open>Firmware\<close>: \<^verbatim>\<open>acpi_init.c\<close>, \<^verbatim>\<open>ps2.c\<close>, the start
    of the keyboard, \<^verbatim>\<open>init.c\<close> and \<^verbatim>\<open>main.c\<close>.
  \<^item> \<open>Stdio\<close>, \<open>Stdio_Props\<close>: the streams of the C library, \<^verbatim>\<open>stdio.c\<close> and \<^verbatim>\<open>fopen.c\<close>; what a program puts is written in order at its end.
  \<^item> \<open>Posix_Time\<close>, \<open>Lib_String\<close>, \<open>Printk\<close>: \<^verbatim>\<open>posix_time.c\<close>, \<^verbatim>\<open>cmos.c\<close>, \<^verbatim>\<open>string.c\<close>, \<^verbatim>\<open>printk.c\<close>.

  \<^bold>\<open>What the code relies on from outside.\<close> The block cache takes the disk drivers and the terminals take their hardware driver and the low level driver of a
  console as arguments, of which the controller and the frame buffer are instances; the devices behind the ports (the disk, the serial chip, the
  configuration space, the keyboard controller, the clock's registers) are arguments, and so is the kernel for the C library; addresses of the kernel's tables, which only matter as sleep channels, are arguments too.

  \<^bold>\<open>Not modelled.\<close> The assembly files other than the context switch: the boot code, the entry of interrupts and system calls with the table of system calls
  (\<^verbatim>\<open>syscall.c\<close>), and the start of the first process (\<^verbatim>\<open>arch_processes_init\<close>), which ends in user mode; the functions of the C library that only pass their arguments to one
  system call; the two programs; the bytes of the font; the debugging dump and the messages printed on the kernel's console.
\<close>

end
